(* ===== verification/Prelude.thy ===== *)
theory Prelude
  imports Main "HOL-Library.Word" "HOL-Library.Monad_Syntax"
begin

text \<open>
  Shared ground of the development: the machine types of the Rust sources, the three-way
  outcome of a Rust call (value, error, panic), big-endian byte strings, UTF-8, strictly
  increasing slices, and the two interfaces that several components implement: a canonical
  codec (one valid value, one byte string) and a transition system with an invariant.
\<close>

section \<open>Machine types\<close>

type_synonym u8 = "8 word"
type_synonym u16 = "16 word"
type_synonym u32 = "32 word"
type_synonym u64 = "64 word"
type_synonym bytes = "u8 list"

text \<open>
  \<open>usize\<close> is a natural number (the supported targets have 64-bit pointers); the only
  arithmetic the sources do on it is \<open>checked_add\<close>, whose overflow test is written out.
\<close>

definition usize_checked_add :: "nat \<Rightarrow> nat \<Rightarrow> nat option" where
  "usize_checked_add a b = (if a + b < 2 ^ 64 then Some (a + b) else None)"

definition u64_checked_add :: "u64 \<Rightarrow> u64 \<Rightarrow> u64 option" where
  "u64_checked_add a b = (if unat a + unat b < 2 ^ 64 then Some (a + b) else None)"

lemma usize_checked_add_Some [simp]:
  "usize_checked_add a b = Some c \<longleftrightarrow> c = a + b \<and> a + b < 2 ^ 64"
  by (auto simp: usize_checked_add_def)

lemma u64_checked_add_Some:
  "u64_checked_add a b = Some c \<Longrightarrow> unat c = unat a + unat b"
  by (auto simp: u64_checked_add_def unat_word_ariths split: if_splits)

lemma u64_checked_add_None:
  "u64_checked_add a b = None \<longleftrightarrow> 2 ^ 64 \<le> unat a + unat b"
  by (auto simp: u64_checked_add_def)

text \<open>\<open>u64::try_from(len).unwrap_or(u64::MAX)\<close>, as the encoders convert a slice length.\<close>

definition u64_of_usize :: "nat \<Rightarrow> u64" where
  "u64_of_usize n = (if n < 2 ^ 64 then of_nat n else - 1)"

lemma unat_u64_of_usize [simp]: "n < 2 ^ 64 \<Longrightarrow> unat (u64_of_usize n) = n"
  by (simp add: u64_of_usize_def unat_of_nat)

text \<open>Ranges of the unsigned types, as facts on their values.\<close>

lemma unat_u8_less: "unat (v :: u8) < 256"
proof -
  have "unat v < 2 ^ LENGTH(8)" by (rule unsigned_less)
  then show ?thesis by simp
qed

lemma unat_u16_less: "unat (v :: u16) < 65536"
proof -
  have "unat v < 2 ^ LENGTH(16)" by (rule unsigned_less)
  then show ?thesis by simp
qed

lemma unat_u32_less: "unat (v :: u32) < 4294967296"
proof -
  have "unat v < 2 ^ LENGTH(32)" by (rule unsigned_less)
  then show ?thesis by simp
qed

lemma unat_u64_less: "unat (v :: u64) < 18446744073709551616"
proof -
  have "unat v < 2 ^ LENGTH(64)" by (rule unsigned_less)
  then show ?thesis by simp
qed

text \<open>The all-zero byte array of a given size, the sentinel of many fields.\<close>

definition zeros :: "nat \<Rightarrow> bytes" where
  "zeros n = replicate n 0"

lemma length_zeros [simp]: "length (zeros n) = n"
  by (simp add: zeros_def)

lemma replicate_eq_zeros [simp]: "replicate n b = zeros m \<longleftrightarrow> n = m \<and> (n = 0 \<or> b = 0)"
  by (auto simp: zeros_def replicate_eq_replicate)

section \<open>Outcomes of a call\<close>

text \<open>
  A Rust function that returns \<open>Result\<close> either returns \<open>Ok\<close>, returns \<open>Err\<close>, or panics
  (here: an \<open>expect\<close> that fails). \<open>and_then\<close> is the \<open>?\<close> operator.
\<close>

datatype ('a, 'e) result = Ok 'a | Err 'e | Panic

primrec and_then :: "('a, 'e) result \<Rightarrow> ('a \<Rightarrow> ('b, 'e) result) \<Rightarrow> ('b, 'e) result" where
  "and_then (Ok x) f = f x"
| "and_then (Err e) f = Err e"
| "and_then Panic f = Panic"

primrec ok_or :: "'e \<Rightarrow> 'a option \<Rightarrow> ('a, 'e) result" where
  "ok_or e None = Err e"
| "ok_or e (Some x) = Ok x"

text \<open>\<open>expect_some\<close> is \<open>expect\<close>/\<open>unwrap\<close>: the absent value is a panic.\<close>

primrec expect_some :: "'a option \<Rightarrow> ('a, 'e) result" where
  "expect_some None = Panic"
| "expect_some (Some x) = Ok x"

primrec ok :: "('a, 'e) result \<Rightarrow> 'a option" where
  "ok (Ok x) = Some x"
| "ok (Err e) = None"
| "ok Panic = None"

primrec map_err :: "('e \<Rightarrow> 'f) \<Rightarrow> ('a, 'e) result \<Rightarrow> ('a, 'f) result" where
  "map_err f (Ok x) = Ok x"
| "map_err f (Err e) = Err (f e)"
| "map_err f Panic = Panic"

named_theorems result_simps \<open>inversion rules for outcomes\<close>

lemma and_then_Ok [result_simps]: "and_then m f = Ok y \<longleftrightarrow> (\<exists>x. m = Ok x \<and> f x = Ok y)"
  by (cases m) auto

lemma and_then_Panic [result_simps]:
  "and_then m f = Panic \<longleftrightarrow> m = Panic \<or> (\<exists>x. m = Ok x \<and> f x = Panic)"
  by (cases m) auto

lemma and_then_Err [result_simps]:
  "and_then m f = Err e \<longleftrightarrow> m = Err e \<or> (\<exists>x. m = Ok x \<and> f x = Err e)"
  by (cases m) auto

lemma ok_or_Ok [result_simps]: "ok_or e m = Ok x \<longleftrightarrow> m = Some x"
  by (cases m) auto

lemma ok_or_Err [result_simps]: "ok_or e m = Err e' \<longleftrightarrow> m = None \<and> e' = e"
  by (cases m) auto

lemma ok_or_Panic [simp]: "ok_or e m \<noteq> Panic"
  by (cases m) auto

lemma expect_some_Ok [result_simps]: "expect_some m = Ok x \<longleftrightarrow> m = Some x"
  by (cases m) auto

lemma expect_some_Panic [result_simps]: "expect_some m = Panic \<longleftrightarrow> m = None"
  by (cases m) auto

lemma expect_some_Err [simp]: "expect_some m \<noteq> Err e"
  by (cases m) auto

lemma ok_Some [result_simps]: "ok r = Some x \<longleftrightarrow> r = Ok x"
  by (cases r) auto

lemma map_err_Ok [result_simps]: "map_err f r = Ok x \<longleftrightarrow> r = Ok x"
  by (cases r) auto

lemma map_err_Panic [result_simps]: "map_err f r = Panic \<longleftrightarrow> r = Panic"
  by (cases r) auto

text \<open>
  Rules for the long \<open>?\<close> chains of decoders: introduction rules that no step panics, elimination
  rules that a chain that returned passed every step.
\<close>

lemma and_then_not_Panic:
  "m \<noteq> Panic \<Longrightarrow> (\<And>x. f x \<noteq> Panic) \<Longrightarrow> and_then m f \<noteq> Panic"
  by (cases m) auto

lemma case_prod_not_Panic: "(\<And>a b. f a b \<noteq> Panic) \<Longrightarrow> case_prod f p \<noteq> Panic"
  by (cases p) auto

lemma if_not_Panic: "x \<noteq> Panic \<Longrightarrow> y \<noteq> Panic \<Longrightarrow> (if b then x else y) \<noteq> Panic"
  by simp

lemmas not_panic_intros = and_then_not_Panic case_prod_not_Panic if_not_Panic
  result.distinct(3, 5) ok_or_Panic

lemma and_then_prod_OkE:
  assumes "and_then m (\<lambda>(a, b). f a b) = Ok y"
  obtains a b where "m = Ok (a, b)" "f a b = Ok y"
  using assms by (auto simp: and_then_Ok)

lemma and_then_OkE:
  assumes "and_then m f = Ok y"
  obtains x where "m = Ok x" "f x = Ok y"
  using assms by (auto simp: and_then_Ok)

lemma if_Err_OkE:
  assumes "(if b then Err e else r) = Ok y"
  obtains "\<not> b" "r = Ok y"
  using assms by (auto split: if_splits)

lemmas ok_chain_elims = if_Err_OkE and_then_prod_OkE and_then_OkE

text \<open>A guard that returns early, and the guards that are left to pass.\<close>

lemma if_Err_Ok: "(if b then Err e else r) = Ok x \<longleftrightarrow> \<not> b \<and> r = Ok x"
  by simp

section \<open>Strictly increasing slices\<close>

text \<open>
  \<open>slice.windows(2).any(|pair| pair[0] >= pair[1])\<close>: some adjacent pair is out of order.
\<close>

fun windows2_any :: "('a \<Rightarrow> 'a \<Rightarrow> bool) \<Rightarrow> 'a list \<Rightarrow> bool" where
  "windows2_any P (x # y # zs) = (P x y \<or> windows2_any P (y # zs))"
| "windows2_any P _ = False"

lemma windows2_any_ge_iff:
  fixes xs :: "'a::linorder list"
  shows "\<not> windows2_any (\<lambda>x y. y \<le> x) xs \<longleftrightarrow> sorted_wrt (<) xs"
proof (induction "\<lambda>x y::'a. y \<le> x" xs rule: windows2_any.induct)
  case (1 x y zs)
  then show ?case by (auto simp: not_le intro: less_trans)
qed simp_all

section \<open>Big-endian byte strings\<close>

text \<open>\<open>be_encode n v\<close> is \<open>to_be_bytes\<close> at width \<open>n\<close> bytes; \<open>be_decode\<close> reads it back.\<close>

primrec be_encode :: "nat \<Rightarrow> nat \<Rightarrow> bytes" where
  "be_encode 0 v = []"
| "be_encode (Suc n) v = of_nat (v div 256 ^ n) # be_encode n v"

primrec be_decode :: "bytes \<Rightarrow> nat" where
  "be_decode [] = 0"
| "be_decode (b # bs) = unat b * 256 ^ length bs + be_decode bs"

lemma be_encode_numeral:
  "be_encode (numeral k) v = of_nat (v div 256 ^ pred_numeral k) # be_encode (pred_numeral k) v"
  by (simp add: numeral_eq_Suc)

lemma length_be_encode [simp]: "length (be_encode n v) = n"
  by (induction n) auto

lemma be_decode_less: "be_decode bs < 256 ^ length bs"
proof (induction bs)
  case (Cons b bs)
  have "unat b < 256" by (rule unat_u8_less)
  then have "unat b \<le> 255" by simp
  then have "unat b * 256 ^ length bs \<le> 255 * 256 ^ length bs" by (rule mult_le_mono1)
  with Cons.IH show ?case by (simp only: be_decode.simps list.size power_Suc add_Suc_right add_0_right)
qed simp

lemma be_decode_encode [simp]: "be_decode (be_encode n v) = v mod 256 ^ n"
proof (induction n)
  case (Suc n)
  have "unat (of_nat (v div 256 ^ n) :: u8) = v div 256 ^ n mod 256"
    by (simp add: unat_of_nat)
  moreover have "v mod (256 ^ n * 256) = 256 ^ n * (v div 256 ^ n mod 256) + v mod 256 ^ n"
    by (rule mod_mult2_eq)
  ultimately show ?case using Suc by (simp add: ac_simps)
qed simp

lemma be_encode_add_high: "be_encode n (k * 256 ^ n + v) = be_encode n v"
proof (induction n arbitrary: k v)
  case (Suc n)
  have eq: "k * 256 ^ Suc n + v = (k * 256) * 256 ^ n + v" by simp
  have "(k * 256 * 256 ^ n + v) div 256 ^ n = k * 256 + v div 256 ^ n"
    by simp
  moreover have "(of_nat (k * 256 + m) :: u8) = of_nat m" for m
    by (simp add: unat_eq_nat_uint [symmetric] word_unat_eq_iff unat_of_nat del: of_nat_add)
  ultimately show ?case
    using Suc [of "k * 256" v] by (simp only: eq be_encode.simps)
qed simp

lemma be_encode_decode [simp]: "be_encode (length bs) (be_decode bs) = bs"
proof (induction bs)
  case (Cons b bs)
  have "(unat b * 256 ^ length bs + be_decode bs) div 256 ^ length bs = unat b"
    using be_decode_less [of bs] by simp
  then show ?case using Cons by (simp add: be_encode_add_high)
qed simp

section \<open>UTF-8\<close>

text \<open>
  A Rust \<open>str\<close> is its UTF-8 bytes; \<open>len()\<close> counts bytes. \<open>utf8_next\<close> reads one Unicode scalar
  value by the well-formed byte sequences of the Unicode standard (no overlong forms, no
  surrogates, nothing above U+10FFFF), as \<open>core::str\<close> does.
\<close>

definition cont_byte :: "u8 \<Rightarrow> bool" where
  "cont_byte b \<longleftrightarrow> 0x80 \<le> b \<and> b \<le> 0xBF"

definition low6 :: "u8 \<Rightarrow> nat" where
  "low6 b = unat b mod 64"

definition utf8_next :: "bytes \<Rightarrow> (nat \<times> bytes) option" where
  "utf8_next bs = (case bs of
      [] \<Rightarrow> None
    | b # r \<Rightarrow>
        if b < 0x80 then Some (unat b, r)
        else if 0xC2 \<le> b \<and> b \<le> 0xDF then
          (case r of
             c # r' \<Rightarrow> if cont_byte c then Some ((unat b - 0xC0) * 64 + low6 c, r') else None
           | _ \<Rightarrow> None)
        else if 0xE0 \<le> b \<and> b \<le> 0xEF then
          (case r of
             c # d # r' \<Rightarrow>
               if cont_byte c \<and> cont_byte d \<and> (b = 0xE0 \<longrightarrow> 0xA0 \<le> c) \<and> (b = 0xED \<longrightarrow> c \<le> 0x9F)
               then Some (((unat b - 0xE0) * 64 + low6 c) * 64 + low6 d, r') else None
           | _ \<Rightarrow> None)
        else if 0xF0 \<le> b \<and> b \<le> 0xF4 then
          (case r of
             c # d # e # r' \<Rightarrow>
               if cont_byte c \<and> cont_byte d \<and> cont_byte e
                  \<and> (b = 0xF0 \<longrightarrow> 0x90 \<le> c) \<and> (b = 0xF4 \<longrightarrow> c \<le> 0x8F)
               then Some ((((unat b - 0xF0) * 64 + low6 c) * 64 + low6 d) * 64 + low6 e, r')
               else None
           | _ \<Rightarrow> None)
        else None)"

lemma utf8_next_shorter: "utf8_next bs = Some (c, r) \<Longrightarrow> length r < length bs"
  by (auto simp: utf8_next_def split: list.splits if_splits)

function utf8_chars :: "bytes \<Rightarrow> nat list option" where
  "utf8_chars bs =
     (if bs = [] then Some []
      else case utf8_next bs of
             None \<Rightarrow> None
           | Some (c, r) \<Rightarrow> map_option ((#) c) (utf8_chars r))"
  by pat_completeness auto
termination
  by (relation "measure length") (auto dest: utf8_next_shorter)

declare utf8_chars.simps [simp del]

definition utf8_valid :: "bytes \<Rightarrow> bool" where
  "utf8_valid s \<longleftrightarrow> utf8_chars s \<noteq> None"

text \<open>\<open>char::is_control\<close>: general category Cc.\<close>

definition is_control :: "nat \<Rightarrow> bool" where
  "is_control c \<longleftrightarrow> c < 0x20 \<or> (0x7F \<le> c \<and> c < 0xA0)"

definition any_control :: "bytes \<Rightarrow> bool" where
  "any_control s = (case utf8_chars s of None \<Rightarrow> False | Some cs \<Rightarrow> list_ex is_control cs)"

lemma utf8_valid_Nil [simp]: "utf8_valid []"
  by (simp add: utf8_valid_def utf8_chars.simps)

lemma utf8_valid_ascii: "list_all (\<lambda>b. b < 0x80) s \<Longrightarrow> utf8_valid s"
proof (induction s)
  case (Cons b s)
  then have "utf8_next (b # s) = Some (unat b, s)" by (simp add: utf8_next_def)
  with Cons show ?case by (simp add: utf8_valid_def utf8_chars.simps [of "b # s"])
qed simp

text \<open>The bytes of an ASCII string literal.\<close>

definition ascii :: "string \<Rightarrow> bytes" where
  "ascii s = map (\<lambda>c. of_nat (of_char c)) s"

section \<open>Interface: canonical codec\<close>

text \<open>
  The contract every wire structure of the sources promises: a decoder that accepts exactly the
  byte string the encoder produces for a valid value, never panics, and an encoder that is
  defined on every valid value.
\<close>

locale canonical_codec =
  fixes encode :: "'a \<Rightarrow> bytes option"
    and decode :: "bytes \<Rightarrow> ('a, 'e) result"
    and valid :: "'a \<Rightarrow> bool"
  assumes decode_iff: "decode bs = Ok x \<longleftrightarrow> valid x \<and> encode x = Some bs"
    and encode_total: "valid x \<Longrightarrow> \<exists>bs. encode x = Some bs"
    and decode_no_panic: "decode bs \<noteq> Panic"
begin

lemma round_trip: "valid x \<Longrightarrow> \<exists>bs. encode x = Some bs \<and> decode bs = Ok x"
  using decode_iff encode_total by blast

lemma encode_injective: "valid x \<Longrightarrow> valid y \<Longrightarrow> encode x = encode y \<Longrightarrow> x = y"
  using decode_iff encode_total by (metis result.inject(1))

lemma unique_bytes: "decode bs = Ok x \<Longrightarrow> decode bs' = Ok x \<Longrightarrow> bs = bs'"
  by (simp add: decode_iff)

lemma non_canonical_rejected:
  "valid x \<Longrightarrow> encode x \<noteq> Some bs \<Longrightarrow> decode bs \<noteq> Ok x"
  by (simp add: decode_iff)

lemma invalid_never_decoded: "\<not> valid x \<Longrightarrow> decode bs \<noteq> Ok x"
  by (simp add: decode_iff)

end

section \<open>Interface: transition system with an invariant\<close>

locale invariant_system =
  fixes step :: "'s \<Rightarrow> 'e \<Rightarrow> 's"
    and start :: "'s \<Rightarrow> bool"
    and inv :: "'s \<Rightarrow> bool"
  assumes inv_start: "start s \<Longrightarrow> inv s"
    and inv_step: "inv s \<Longrightarrow> inv (step s e)"
begin

lemma inv_run: "inv s \<Longrightarrow> inv (foldl step s es)"
  by (induction es arbitrary: s) (auto intro: inv_step)

lemma inv_reachable: "start s \<Longrightarrow> inv (foldl step s es)"
  by (rule inv_run) (rule inv_start)

end

section \<open>Interface: simulation\<close>

text \<open>
  A detailed transition system that implements an abstract one: under its invariant every step is a
  step of the abstract system between the abstractions, and the invariant is kept. Runs are lists of
  labels, so a whole history is a history of the abstract system.
\<close>

inductive run_of :: "('s \<Rightarrow> 'e \<Rightarrow> 's \<Rightarrow> bool) \<Rightarrow> 's \<Rightarrow> 'e list \<Rightarrow> 's \<Rightarrow> bool" for step where
  run_Nil: "run_of step s [] s"
| run_Cons: "step s e s' \<Longrightarrow> run_of step s' es s'' \<Longrightarrow> run_of step s (e # es) s''"

inductive_cases run_NilE: "run_of step s [] t"
inductive_cases run_ConsE: "run_of step s (e # es) t"

lemma run_of_invariant:
  assumes "run_of step s es t" and "I s" and "\<And>s e s'. step s e s' \<Longrightarrow> I s \<Longrightarrow> I s'"
  shows "I t"
  using assms(1,2) by (induction rule: run_of.induct) (auto intro: assms(3))

locale simulation =
  fixes cstep :: "'c \<Rightarrow> 'e \<Rightarrow> 'c \<Rightarrow> bool"
    and astep :: "'a \<Rightarrow> 'e \<Rightarrow> 'a \<Rightarrow> bool"
    and abs :: "'c \<Rightarrow> 'a"
    and cinv :: "'c \<Rightarrow> bool"
  assumes sim_step: "cinv s \<Longrightarrow> cstep s e s' \<Longrightarrow> astep (abs s) e (abs s')"
    and sim_inv: "cinv s \<Longrightarrow> cstep s e s' \<Longrightarrow> cinv s'"
begin

lemma sim_run:
  assumes "run_of cstep s es t" and "cinv s"
  shows "run_of astep (abs s) es (abs t) \<and> cinv t"
  using assms
  by (induction rule: run_of.induct) (auto intro: run_of.intros sim_step sim_inv)

end

end
