(* ===== verification/Minicbor.thy ===== *)
theory Minicbor
  imports Prelude
begin

text \<open>
  The third-party CBOR library (\<open>minicbor\<close> 2.2.3) that the protocol and the vault format are
  written against. Its source is not part of the repository, so it is a parameter: a record of
  the encoder and decoder methods the sources call. The locale \<open>minicbor_spec\<close> states what the
  sources rely on, all of it documented behaviour: every item is written in the shortest RFC 8949
  head form, a decoder method reads back what the matching encoder method wrote and leaves the
  rest of the input, and \<open>str()\<close> only yields valid UTF-8.

  A \<open>Decoder\<close> over a slice is modelled by the input it has not consumed yet; \<open>position()\<close> is the
  difference of the lengths. An \<open>Encoder\<close> method is the byte string it writes.
\<close>

section \<open>The library as a parameter\<close>

datatype cbor_type = Type_Null | Type_Bytes | Type_Other

record minicbor =
  enc_array :: "u64 \<Rightarrow> bytes"
  enc_u8 :: "u8 \<Rightarrow> bytes"
  enc_u16 :: "u16 \<Rightarrow> bytes"
  enc_u32 :: "u32 \<Rightarrow> bytes"
  enc_u64 :: "u64 \<Rightarrow> bytes"
  enc_bytes :: "bytes \<Rightarrow> bytes"
  enc_str :: "bytes \<Rightarrow> bytes"
  enc_null :: bytes
  dec_array :: "bytes \<Rightarrow> (u64 option \<times> bytes) option"
  dec_u8 :: "bytes \<Rightarrow> (u8 \<times> bytes) option"
  dec_u16 :: "bytes \<Rightarrow> (u16 \<times> bytes) option"
  dec_u32 :: "bytes \<Rightarrow> (u32 \<times> bytes) option"
  dec_u64 :: "bytes \<Rightarrow> (u64 \<times> bytes) option"
  dec_bytes :: "bytes \<Rightarrow> (bytes \<times> bytes) option"
  dec_str :: "bytes \<Rightarrow> (bytes \<times> bytes) option"
  dec_null :: "bytes \<Rightarrow> bytes option"
  dec_type :: "bytes \<Rightarrow> cbor_type option"

text \<open>The size of the shortest RFC 8949 head that carries the argument \<open>n\<close>.\<close>

definition head_len :: "nat \<Rightarrow> nat" where
  "head_len n = (if n < 24 then 1 else if n < 2 ^ 8 then 2 else if n < 2 ^ 16 then 3
                 else if n < 2 ^ 32 then 5 else 9)"

lemma head_len_le_9: "head_len n \<le> 9"
  by (simp add: head_len_def)

lemma head_len_pos: "1 \<le> head_len n"
  by (simp add: head_len_def)

lemma head_len_u8: "head_len (unat (v :: u8)) \<le> 2"
  using unat_u8_less [of v] by (simp add: head_len_def)

lemma head_len_u16: "head_len (unat (v :: u16)) \<le> 3"
  using unat_u16_less [of v] by (simp add: head_len_def)

lemma head_len_u32: "head_len (unat (v :: u32)) \<le> 5"
  using unat_u32_less [of v] by (simp add: head_len_def)

lemma head_len_small: "n < 2 ^ 16 \<Longrightarrow> head_len n \<le> 3"
  by (simp add: head_len_def)

lemma head_len_mid: "n < 2 ^ 32 \<Longrightarrow> head_len n \<le> 5"
  by (simp add: head_len_def)

locale minicbor_spec =
  fixes mc :: minicbor
  assumes dec_enc_array [simp]: "dec_array mc (enc_array mc n @ rest) = Some (Some n, rest)"
    and dec_enc_u8 [simp]: "dec_u8 mc (enc_u8 mc a @ rest) = Some (a, rest)"
    and dec_enc_u16 [simp]: "dec_u16 mc (enc_u16 mc b @ rest) = Some (b, rest)"
    and dec_enc_u32 [simp]: "dec_u32 mc (enc_u32 mc c @ rest) = Some (c, rest)"
    and dec_enc_u64 [simp]: "dec_u64 mc (enc_u64 mc d @ rest) = Some (d, rest)"
    and dec_enc_bytes [simp]:
      "length bs < 2 ^ 64 \<Longrightarrow> dec_bytes mc (enc_bytes mc bs @ rest) = Some (bs, rest)"
    and dec_enc_str [simp]:
      "length s < 2 ^ 64 \<Longrightarrow> utf8_valid s \<Longrightarrow> dec_str mc (enc_str mc s @ rest) = Some (s, rest)"
    and dec_enc_null [simp]: "dec_null mc (enc_null mc @ rest) = Some rest"
    and dec_type_null [simp]: "dec_type mc (enc_null mc @ rest) = Some Type_Null"
    and dec_type_bytes [simp]:
      "length bs < 2 ^ 64 \<Longrightarrow> dec_type mc (enc_bytes mc bs @ rest) = Some Type_Bytes"
    and dec_str_utf8: "dec_str mc input = Some (s, rest) \<Longrightarrow> utf8_valid s"
    and length_enc_array [simp]: "length (enc_array mc n) = head_len (unat n)"
    and length_enc_u8 [simp]: "length (enc_u8 mc a) = head_len (unat a)"
    and length_enc_u16 [simp]: "length (enc_u16 mc b) = head_len (unat b)"
    and length_enc_u32 [simp]: "length (enc_u32 mc c) = head_len (unat c)"
    and length_enc_u64 [simp]: "length (enc_u64 mc d) = head_len (unat d)"
    and length_enc_bytes [simp]:
      "length bs < 2 ^ 64 \<Longrightarrow> length (enc_bytes mc bs) = head_len (length bs) + length bs"
    and length_enc_str [simp]:
      "length s < 2 ^ 64 \<Longrightarrow> length (enc_str mc s) = head_len (length s) + length s"
    and length_enc_null [simp]: "length (enc_null mc) = 1"
begin

text \<open>The same laws for the last item of an input.\<close>

lemma dec_enc_array_end [simp]: "dec_array mc (enc_array mc n) = Some (Some n, [])"
  using dec_enc_array [of n "[]"] by simp

lemma dec_enc_u8_end [simp]: "dec_u8 mc (enc_u8 mc a) = Some (a, [])"
  using dec_enc_u8 [of a "[]"] by simp

lemma dec_enc_u16_end [simp]: "dec_u16 mc (enc_u16 mc b) = Some (b, [])"
  using dec_enc_u16 [of b "[]"] by simp

lemma dec_enc_u32_end [simp]: "dec_u32 mc (enc_u32 mc c) = Some (c, [])"
  using dec_enc_u32 [of c "[]"] by simp

lemma dec_enc_u64_end [simp]: "dec_u64 mc (enc_u64 mc d) = Some (d, [])"
  using dec_enc_u64 [of d "[]"] by simp

lemma dec_enc_bytes_end [simp]: "length bs < 2 ^ 64 \<Longrightarrow> dec_bytes mc (enc_bytes mc bs) = Some (bs, [])"
  using dec_enc_bytes [of bs "[]"] by simp

lemma dec_enc_str_end [simp]:
  "length s < 2 ^ 64 \<Longrightarrow> utf8_valid s \<Longrightarrow> dec_str mc (enc_str mc s) = Some (s, [])"
  using dec_enc_str [of s "[]"] by simp

text \<open>Upper bounds on the size of one item, and the rule that adds them up.\<close>

lemma length_enc_u8_le: "length (enc_u8 mc a) \<le> 2"
  by (simp add: head_len_u8)

lemma length_enc_u16_le: "length (enc_u16 mc b) \<le> 3"
  by (simp add: head_len_u16)

lemma length_enc_u32_le: "length (enc_u32 mc c) \<le> 5"
  by (simp add: head_len_u32)

lemma length_enc_u64_le: "length (enc_u64 mc d) \<le> 9"
  by (simp add: head_len_le_9)

lemma length_enc_array_le: "length (enc_array mc n) \<le> 9"
  by (simp add: head_len_le_9)

lemma length_enc_bytes_le: "length bs < 2 ^ 16 \<Longrightarrow> length (enc_bytes mc bs) \<le> 3 + length bs"
  by (simp add: head_len_small)

lemma length_enc_str_le: "length s < 2 ^ 16 \<Longrightarrow> length (enc_str mc s) \<le> 3 + length s"
  by (simp add: head_len_small)

lemma length_enc_null_le: "length (enc_null mc) \<le> 1"
  by simp

text \<open>An item at the front of an input is determined by the input.\<close>

lemma enc_array_inject: "enc_array mc n @ x = enc_array mc m @ y \<longleftrightarrow> n = m \<and> x = y"
  by (metis dec_enc_array option.inject prod.inject)

lemma enc_u32_inject: "enc_u32 mc n @ x = enc_u32 mc m @ y \<longleftrightarrow> n = m \<and> x = y"
  by (metis dec_enc_u32 option.inject prod.inject)

lemma enc_bytes_inject:
  "length a < 2 ^ 64 \<Longrightarrow> length b < 2 ^ 64 \<Longrightarrow>
     enc_bytes mc a @ x = enc_bytes mc b @ y \<longleftrightarrow> a = b \<and> x = y"
  by (metis dec_enc_bytes option.inject prod.inject)

lemma enc_u32_inject_end: "enc_u32 mc n = enc_u32 mc m \<longleftrightarrow> n = m"
  using enc_u32_inject [of n "[]" m "[]"] by simp

lemma enc_bytes_inject_end:
  "length a < 2 ^ 64 \<Longrightarrow> length b < 2 ^ 64 \<Longrightarrow> enc_bytes mc a = enc_bytes mc b \<longleftrightarrow> a = b"
  using enc_bytes_inject [of a b "[]" "[]"] by simp

lemmas enc_inject = enc_array_inject enc_u32_inject enc_bytes_inject enc_u32_inject_end
  enc_bytes_inject_end

lemma length_append_le: "length a \<le> m \<Longrightarrow> length b \<le> n \<Longrightarrow> length (a @ b) \<le> m + n"
  by simp

lemmas enc_bounds = length_append_le length_enc_u8_le length_enc_u16_le length_enc_u32_le
  length_enc_u64_le length_enc_array_le length_enc_bytes_le length_enc_str_le length_enc_null_le

end

section \<open>Writers\<close>

text \<open>
  \<open>SecretWriter\<close> (crates/agent-protocol/src/cbor.rs and crates/vault-format/src/records.rs) never
  grows beyond the capacity it was created with; a plain \<open>Vec<u8>\<close> has no bound. The encoder
  helpers of both crates \<open>expect\<close> every write to succeed, so a refused write is a panic: \<open>None\<close>.
  \<open>Vec::with_capacity\<close> promises at least the requested capacity; the model takes exactly that much,
  so a write that fits here also fits there.
\<close>

record writer =
  writer_capacity :: "nat option"
  writer_bytes :: bytes

definition vec_new :: writer where
  "vec_new = \<lparr>writer_capacity = None, writer_bytes = []\<rparr>"

definition SecretWriter_with_capacity :: "nat \<Rightarrow> writer" where
  "SecretWriter_with_capacity n = \<lparr>writer_capacity = Some n, writer_bytes = []\<rparr>"

definition SecretWriter_write_all :: "writer \<Rightarrow> bytes \<Rightarrow> writer option" where
  "SecretWriter_write_all w bs =
     (case writer_capacity w of
        None \<Rightarrow> Some (w\<lparr>writer_bytes := writer_bytes w @ bs\<rparr>)
      | Some capacity \<Rightarrow>
          (case usize_checked_add (length (writer_bytes w)) (length bs) of
             None \<Rightarrow> None
           | Some required \<Rightarrow>
               if required > capacity then None
               else Some (w\<lparr>writer_bytes := writer_bytes w @ bs\<rparr>)))"

definition into_bytes :: "writer option \<Rightarrow> bytes option" where
  "into_bytes w = map_option writer_bytes w"

named_theorems encode_simps \<open>encoders as the byte string they write\<close>
named_theorems decode_ok \<open>what a successful decoder helper guarantees\<close>
named_theorems no_panic \<open>decoder helpers never panic\<close>

lemma write_all_write_all [encode_simps]:
  "Option.bind (SecretWriter_write_all w bs) (\<lambda>w. SecretWriter_write_all w cs)
     = SecretWriter_write_all w (bs @ cs)"
  by (auto simp: SecretWriter_write_all_def usize_checked_add_def split: option.splits)

lemma into_bytes_vec [encode_simps]:
  "into_bytes (SecretWriter_write_all vec_new bs) = Some bs"
  by (simp add: into_bytes_def SecretWriter_write_all_def vec_new_def)

lemma into_bytes_secret [encode_simps]:
  "n < 2 ^ 64 \<Longrightarrow> into_bytes (SecretWriter_write_all (SecretWriter_with_capacity n) bs)
     = (if length bs \<le> n then Some bs else None)"
  by (auto simp: into_bytes_def SecretWriter_write_all_def SecretWriter_with_capacity_def
        usize_checked_add_def)

lemma and_then_secret_writer [encode_simps]:
  "n < 2 ^ 64 \<Longrightarrow>
     and_then (expect_some (SecretWriter_write_all (SecretWriter_with_capacity n) bs))
       (\<lambda>w. f (writer_bytes w)) = (if length bs \<le> n then f bs else Panic)"
  by (auto simp: SecretWriter_write_all_def SecretWriter_with_capacity_def usize_checked_add_def)

text \<open>A \<open>for\<close> loop that encodes every element of a slice.\<close>

primrec encode_each :: "('a \<Rightarrow> writer \<Rightarrow> writer option) \<Rightarrow> 'a list \<Rightarrow> writer \<Rightarrow> writer option" where
  "encode_each f [] w = Some w"
| "encode_each f (x # xs) w = Option.bind (f x w) (\<lambda>w. encode_each f xs w)"

lemma encode_each_then_write:
  assumes "\<And>x w. x \<in> set xs \<Longrightarrow> f x w = SecretWriter_write_all w (g x)"
  shows "Option.bind (encode_each f xs w) (\<lambda>w. SecretWriter_write_all w cs)
           = SecretWriter_write_all w (concat (map g xs) @ cs)"
  using assms
proof (induction xs arbitrary: w)
  case (Cons x xs)
  have "Option.bind (encode_each f (x # xs) w) (\<lambda>w. SecretWriter_write_all w cs)
      = Option.bind (SecretWriter_write_all w (g x))
          (\<lambda>w. Option.bind (encode_each f xs w) (\<lambda>w. SecretWriter_write_all w cs))"
    using Cons.prems by simp
  also have "\<dots> = SecretWriter_write_all w (g x @ concat (map g xs) @ cs)"
    using Cons.IH Cons.prems by (simp add: encode_simps)
  finally show ?case by simp
qed simp

lemma write_then_encode_each:
  assumes "\<And>x w. x \<in> set xs \<Longrightarrow> f x w = SecretWriter_write_all w (g x)"
  shows "Option.bind (SecretWriter_write_all w cs) (\<lambda>w. encode_each f xs w)
           = SecretWriter_write_all w (cs @ concat (map g xs))"
  using assms
proof (induction xs arbitrary: w cs)
  case Nil
  show ?case by (cases "SecretWriter_write_all w cs") auto
next
  case (Cons x xs)
  have "Option.bind (SecretWriter_write_all w cs) (\<lambda>w. encode_each f (x # xs) w)
      = Option.bind (Option.bind (SecretWriter_write_all w cs) (\<lambda>w. SecretWriter_write_all w (g x)))
          (\<lambda>w. encode_each f xs w)"
    using Cons.prems by simp
  also have "\<dots> = SecretWriter_write_all w ((cs @ g x) @ concat (map g xs))"
    using Cons.IH Cons.prems by (simp add: encode_simps)
  finally show ?case by simp
qed

end
