(* ===== verification/Protocol_Cbor.thy ===== *)
theory Protocol_Cbor
  imports Minicbor
begin

text \<open>
  The CBOR helpers of the protocol crate (crates/agent-protocol/src/cbor.rs). Encoder helpers write
  one item and panic when the writer refuses it; decoder helpers map every library error to
  \<open>Malformed\<close> and enforce exact lengths and bounds. A decoder is the input it has not consumed.
\<close>

section \<open>Errors (message.rs)\<close>

datatype protocol_error = TooLarge | Malformed | NonCanonical | Unsupported | InvariantViolation

section \<open>Encoder helpers\<close>

definition encode_array :: "minicbor \<Rightarrow> u64 \<Rightarrow> writer \<Rightarrow> writer option" where
  [encode_simps]: "encode_array mc len = (\<lambda>w. SecretWriter_write_all w (enc_array mc len))"

definition encode_u8 :: "minicbor \<Rightarrow> u8 \<Rightarrow> writer \<Rightarrow> writer option" where
  [encode_simps]: "encode_u8 mc v = (\<lambda>w. SecretWriter_write_all w (enc_u8 mc v))"

definition encode_u16 :: "minicbor \<Rightarrow> u16 \<Rightarrow> writer \<Rightarrow> writer option" where
  [encode_simps]: "encode_u16 mc v = (\<lambda>w. SecretWriter_write_all w (enc_u16 mc v))"

definition encode_u32 :: "minicbor \<Rightarrow> u32 \<Rightarrow> writer \<Rightarrow> writer option" where
  [encode_simps]: "encode_u32 mc v = (\<lambda>w. SecretWriter_write_all w (enc_u32 mc v))"

definition encode_u64 :: "minicbor \<Rightarrow> u64 \<Rightarrow> writer \<Rightarrow> writer option" where
  [encode_simps]: "encode_u64 mc v = (\<lambda>w. SecretWriter_write_all w (enc_u64 mc v))"

definition encode_bytes :: "minicbor \<Rightarrow> bytes \<Rightarrow> writer \<Rightarrow> writer option" where
  [encode_simps]: "encode_bytes mc v = (\<lambda>w. SecretWriter_write_all w (enc_bytes mc v))"

definition encode_text :: "minicbor \<Rightarrow> bytes \<Rightarrow> writer \<Rightarrow> writer option" where
  [encode_simps]: "encode_text mc v = (\<lambda>w. SecretWriter_write_all w (enc_str mc v))"

definition encode_null :: "minicbor \<Rightarrow> writer \<Rightarrow> writer option" where
  [encode_simps]: "encode_null mc = (\<lambda>w. SecretWriter_write_all w (enc_null mc))"

section \<open>Decoder helpers\<close>

definition expect_array :: "minicbor \<Rightarrow> u64 \<Rightarrow> bytes \<Rightarrow> (bytes, protocol_error) result" where
  "expect_array mc expected d =
     and_then (ok_or Malformed (dec_array mc d)) (\<lambda>(len, d).
     and_then (ok_or Malformed len) (\<lambda>len.
     if len \<noteq> expected then Err Malformed else Ok d))"

definition decode_array_length ::
    "minicbor \<Rightarrow> nat \<Rightarrow> bytes \<Rightarrow> (nat \<times> bytes, protocol_error) result" where
  "decode_array_length mc maximum d =
     and_then (ok_or Malformed (dec_array mc d)) (\<lambda>(len, d).
     and_then (ok_or Malformed len) (\<lambda>len.
     if unat len > maximum then Err TooLarge else Ok (unat len, d)))"

definition decode_u8 :: "minicbor \<Rightarrow> bytes \<Rightarrow> (u8 \<times> bytes, protocol_error) result" where
  "decode_u8 mc d = ok_or Malformed (dec_u8 mc d)"

definition decode_u16 :: "minicbor \<Rightarrow> bytes \<Rightarrow> (u16 \<times> bytes, protocol_error) result" where
  "decode_u16 mc d = ok_or Malformed (dec_u16 mc d)"

definition decode_u32 :: "minicbor \<Rightarrow> bytes \<Rightarrow> (u32 \<times> bytes, protocol_error) result" where
  "decode_u32 mc d = ok_or Malformed (dec_u32 mc d)"

definition decode_u64 :: "minicbor \<Rightarrow> bytes \<Rightarrow> (u64 \<times> bytes, protocol_error) result" where
  "decode_u64 mc d = ok_or Malformed (dec_u64 mc d)"

definition decode_fixed_bytes ::
    "minicbor \<Rightarrow> nat \<Rightarrow> bytes \<Rightarrow> (bytes \<times> bytes, protocol_error) result" where
  "decode_fixed_bytes mc SIZE d =
     and_then (ok_or Malformed (dec_bytes mc d)) (\<lambda>(bs, d).
     if length bs = SIZE then Ok (bs, d) else Err Malformed)"

definition decode_bounded_bytes ::
    "minicbor \<Rightarrow> nat \<Rightarrow> bytes \<Rightarrow> (bytes \<times> bytes, protocol_error) result" where
  "decode_bounded_bytes mc maximum d =
     and_then (ok_or Malformed (dec_bytes mc d)) (\<lambda>(bs, d).
     if length bs > maximum then Err TooLarge else Ok (bs, d))"

definition decode_bounded_text ::
    "minicbor \<Rightarrow> nat \<Rightarrow> bytes \<Rightarrow> (bytes \<times> bytes, protocol_error) result" where
  "decode_bounded_text mc maximum d =
     and_then (ok_or Malformed (dec_str mc d)) (\<lambda>(s, d).
     if length s > maximum then Err TooLarge else Ok (s, d))"

definition decode_optional_fixed_bytes ::
    "minicbor \<Rightarrow> nat \<Rightarrow> bytes \<Rightarrow> (bytes option \<times> bytes, protocol_error) result" where
  "decode_optional_fixed_bytes mc SIZE d =
     and_then (ok_or Malformed (dec_type mc d)) (\<lambda>ty.
     if ty = Type_Null then
       and_then (ok_or Malformed (dec_null mc d)) (\<lambda>d. Ok (None, d))
     else
       and_then (decode_fixed_bytes mc SIZE d) (\<lambda>(bs, d). Ok (Some bs, d)))"

text \<open>\<open>decoder.position() != original.len()\<close>.\<close>

definition require_end :: "bytes \<Rightarrow> bytes \<Rightarrow> (unit, protocol_error) result" where
  "require_end d original =
     (if length original - length d \<noteq> length original then Err Malformed else Ok ())"

text \<open>The loop that decodes a counted array of \<open>u16\<close> features.\<close>

primrec decode_u16s :: "minicbor \<Rightarrow> nat \<Rightarrow> bytes \<Rightarrow> (u16 list \<times> bytes, protocol_error) result" where
  "decode_u16s mc 0 d = Ok ([], d)"
| "decode_u16s mc (Suc n) d =
     and_then (decode_u16 mc d) (\<lambda>(feature, d).
     and_then (decode_u16s mc n d) (\<lambda>(features, d). Ok (feature # features, d)))"

section \<open>Behaviour of the helpers\<close>

lemmas decode_helper_defs = expect_array_def decode_array_length_def decode_u8_def decode_u16_def
  decode_u32_def decode_u64_def decode_fixed_bytes_def decode_bounded_bytes_def
  decode_bounded_text_def decode_optional_fixed_bytes_def require_end_def

lemma decode_fixed_bytes_length [decode_ok]:
  "decode_fixed_bytes mc n d = Ok (bs, d') \<Longrightarrow> length bs = n"
  by (auto simp: decode_fixed_bytes_def result_simps split: if_splits prod.splits)

lemma decode_bounded_bytes_length [decode_ok]:
  "decode_bounded_bytes mc n d = Ok (bs, d') \<Longrightarrow> length bs \<le> n"
  by (auto simp: decode_bounded_bytes_def result_simps split: if_splits prod.splits)

lemma decode_bounded_text_length [decode_ok]:
  "decode_bounded_text mc n d = Ok (s, d') \<Longrightarrow> length s \<le> n"
  by (auto simp: decode_bounded_text_def result_simps split: if_splits prod.splits)

lemma decode_optional_fixed_bytes_length [decode_ok]:
  "decode_optional_fixed_bytes mc n d = Ok (Some bs, d') \<Longrightarrow> length bs = n"
  by (auto simp: decode_optional_fixed_bytes_def result_simps
        split: if_splits prod.splits dest: decode_fixed_bytes_length)

lemma expect_array_no_panic [no_panic]: "expect_array mc n d \<noteq> Panic"
  by (auto simp: expect_array_def result_simps split: prod.splits)

lemma decode_array_length_no_panic [no_panic]: "decode_array_length mc n d \<noteq> Panic"
  by (auto simp: decode_array_length_def result_simps split: prod.splits)

lemma decode_u8_no_panic [no_panic]: "decode_u8 mc d \<noteq> Panic"
  by (simp add: decode_u8_def)

lemma decode_u16_no_panic [no_panic]: "decode_u16 mc d \<noteq> Panic"
  by (simp add: decode_u16_def)

lemma decode_u32_no_panic [no_panic]: "decode_u32 mc d \<noteq> Panic"
  by (simp add: decode_u32_def)

lemma decode_u64_no_panic [no_panic]: "decode_u64 mc d \<noteq> Panic"
  by (simp add: decode_u64_def)

lemma decode_fixed_bytes_no_panic [no_panic]: "decode_fixed_bytes mc n d \<noteq> Panic"
  by (auto simp: decode_fixed_bytes_def result_simps split: prod.splits)

lemma decode_bounded_bytes_no_panic [no_panic]: "decode_bounded_bytes mc n d \<noteq> Panic"
  by (auto simp: decode_bounded_bytes_def result_simps split: prod.splits)

lemma decode_bounded_text_no_panic [no_panic]: "decode_bounded_text mc n d \<noteq> Panic"
  by (auto simp: decode_bounded_text_def result_simps split: prod.splits)

lemma decode_optional_fixed_bytes_no_panic [no_panic]: "decode_optional_fixed_bytes mc n d \<noteq> Panic"
  by (auto simp: decode_optional_fixed_bytes_def result_simps no_panic split: prod.splits)

lemma require_end_no_panic [no_panic]: "require_end d original \<noteq> Panic"
  by (simp add: require_end_def)

lemma decode_u16s_no_panic [no_panic]: "decode_u16s mc n d \<noteq> Panic"
  by (induction n arbitrary: d) (auto simp: result_simps no_panic split: prod.splits)

lemma require_end_Nil [simp]: "require_end [] original = Ok ()"
  by (simp add: require_end_def)

context minicbor_spec
begin

text \<open>Reading back what the matching encoder helper wrote.\<close>

lemma expect_array_enc [simp]: "expect_array mc n (enc_array mc n @ rest) = Ok rest"
  by (simp add: expect_array_def)

lemma expect_array_enc_end [simp]: "expect_array mc n (enc_array mc n) = Ok []"
  by (simp add: expect_array_def)

lemma decode_array_length_enc [simp]:
  "unat n \<le> maximum \<Longrightarrow> decode_array_length mc maximum (enc_array mc n @ rest) = Ok (unat n, rest)"
  by (simp add: decode_array_length_def)

lemma decode_array_length_enc_end [simp]:
  "unat n \<le> maximum \<Longrightarrow> decode_array_length mc maximum (enc_array mc n) = Ok (unat n, [])"
  by (simp add: decode_array_length_def)

lemma decode_u8_enc [simp]:
  "decode_u8 mc (enc_u8 mc v @ rest) = Ok (v, rest)" "decode_u8 mc (enc_u8 mc v) = Ok (v, [])"
  by (simp_all add: decode_u8_def)

lemma decode_u16_enc [simp]:
  "decode_u16 mc (enc_u16 mc v @ rest) = Ok (v, rest)" "decode_u16 mc (enc_u16 mc v) = Ok (v, [])"
  by (simp_all add: decode_u16_def)

lemma decode_u32_enc [simp]:
  "decode_u32 mc (enc_u32 mc v @ rest) = Ok (v, rest)" "decode_u32 mc (enc_u32 mc v) = Ok (v, [])"
  by (simp_all add: decode_u32_def)

lemma decode_u64_enc [simp]:
  "decode_u64 mc (enc_u64 mc v @ rest) = Ok (v, rest)" "decode_u64 mc (enc_u64 mc v) = Ok (v, [])"
  by (simp_all add: decode_u64_def)

lemma decode_fixed_bytes_enc [simp]:
  assumes "length bs = n" and "n < 2 ^ 64"
  shows "decode_fixed_bytes mc n (enc_bytes mc bs @ rest) = Ok (bs, rest)"
    and "decode_fixed_bytes mc n (enc_bytes mc bs) = Ok (bs, [])"
  using assms by (simp_all add: decode_fixed_bytes_def)

lemma decode_bounded_bytes_enc [simp]:
  assumes "length bs \<le> n" and "n < 2 ^ 64"
  shows "decode_bounded_bytes mc n (enc_bytes mc bs @ rest) = Ok (bs, rest)"
    and "decode_bounded_bytes mc n (enc_bytes mc bs) = Ok (bs, [])"
  using assms by (simp_all add: decode_bounded_bytes_def)

lemma decode_bounded_text_enc [simp]:
  assumes "length s \<le> n" and "n < 2 ^ 64" and "utf8_valid s"
  shows "decode_bounded_text mc n (enc_str mc s @ rest) = Ok (s, rest)"
    and "decode_bounded_text mc n (enc_str mc s) = Ok (s, [])"
  using assms by (simp_all add: decode_bounded_text_def)

lemma decode_optional_fixed_bytes_null [simp]:
  "decode_optional_fixed_bytes mc n (enc_null mc @ rest) = Ok (None, rest)"
  by (simp add: decode_optional_fixed_bytes_def)

lemma decode_optional_fixed_bytes_enc [simp]:
  "length bs = n \<Longrightarrow> n < 2 ^ 64 \<Longrightarrow>
     decode_optional_fixed_bytes mc n (enc_bytes mc bs @ rest) = Ok (Some bs, rest)"
  by (simp add: decode_optional_fixed_bytes_def)

lemma decode_bounded_text_utf8: "decode_bounded_text mc n d = Ok (s, d') \<Longrightarrow> utf8_valid s"
  by (auto simp: decode_bounded_text_def result_simps split: if_splits prod.splits
        dest: dec_str_utf8)

lemma decode_u16s_enc [simp]:
  "decode_u16s mc (length xs) (concat (map (enc_u16 mc) xs) @ rest) = Ok (xs, rest)"
  by (induction xs) simp_all

lemma decode_u16s_enc_end [simp]:
  "decode_u16s mc (length xs) (concat (map (enc_u16 mc) xs)) = Ok (xs, [])"
  using decode_u16s_enc [of xs "[]"] by simp

lemma length_enc_u16s: "length (concat (map (enc_u16 mc) xs)) \<le> 3 * length xs"
  by (induction xs) (auto intro: order_trans [OF add_mono [OF head_len_u16]])

end

end
