(* ===== verification/Rfc8949.thy ===== *)
theory Rfc8949
  imports Minicbor
begin

text \<open>
  An executable RFC 8949 codec for the items the sources use, and the proof that it satisfies
  \<open>minicbor_spec\<close>. The encoder writes the shortest head; the decoder accepts every head width and
  reports an indefinite array length as \<open>None\<close>, so non-canonical inputs reach the callers. It is the
  instance at which the theorems that assume \<open>minicbor_spec\<close> are evaluated.
\<close>

section \<open>Heads\<close>

definition enc_head :: "nat \<Rightarrow> nat \<Rightarrow> bytes" where
  "enc_head major n =
     (if n < 24 then [of_nat (major * 32 + n)]
      else if n < 2 ^ 8 then of_nat (major * 32 + 24) # be_encode 1 n
      else if n < 2 ^ 16 then of_nat (major * 32 + 25) # be_encode 2 n
      else if n < 2 ^ 32 then of_nat (major * 32 + 26) # be_encode 4 n
      else of_nat (major * 32 + 27) # be_encode 8 n)"

definition take_be :: "nat \<Rightarrow> bytes \<Rightarrow> (nat \<times> bytes) option" where
  "take_be k bs = (if length bs < k then None else Some (be_decode (take k bs), drop k bs))"

text \<open>Major type, argument (\<open>None\<close> for the indefinite form) and the remaining input.\<close>

definition dec_head :: "bytes \<Rightarrow> (nat \<times> nat option \<times> bytes) option" where
  "dec_head bs = (case bs of
      [] \<Rightarrow> None
    | b # r \<Rightarrow>
        (let major = unat b div 32; info = unat b mod 32 in
         if info < 24 then Some (major, Some info, r)
         else if info = 24 then map_option (\<lambda>(n, r). (major, Some n, r)) (take_be 1 r)
         else if info = 25 then map_option (\<lambda>(n, r). (major, Some n, r)) (take_be 2 r)
         else if info = 26 then map_option (\<lambda>(n, r). (major, Some n, r)) (take_be 4 r)
         else if info = 27 then map_option (\<lambda>(n, r). (major, Some n, r)) (take_be 8 r)
         else if info = 31 then Some (major, None, r)
         else None))"

definition dec_uint :: "nat \<Rightarrow> bytes \<Rightarrow> ('a::len word \<times> bytes) option" where
  "dec_uint limit bs = (case dec_head bs of
      Some (major, Some n, r) \<Rightarrow> if major = 0 \<and> n < limit then Some (of_nat n, r) else None
    | _ \<Rightarrow> None)"

definition dec_string :: "nat \<Rightarrow> bytes \<Rightarrow> (bytes \<times> bytes) option" where
  "dec_string major bs = (case dec_head bs of
      Some (m, Some n, r) \<Rightarrow>
        if m = major \<and> n \<le> length r then Some (take n r, drop n r) else None
    | _ \<Rightarrow> None)"

definition dec_array_head :: "bytes \<Rightarrow> (u64 option \<times> bytes) option" where
  "dec_array_head bs = (case dec_head bs of
      Some (m, n, r) \<Rightarrow> if m = 4 then Some (map_option of_nat n, r) else None
    | None \<Rightarrow> None)"

definition dec_text :: "bytes \<Rightarrow> (bytes \<times> bytes) option" where
  "dec_text bs = (case dec_string 3 bs of
      Some (s, r) \<Rightarrow> if utf8_valid s then Some (s, r) else None
    | None \<Rightarrow> None)"

definition dec_nil :: "bytes \<Rightarrow> bytes option" where
  "dec_nil bs = (case bs of b # r \<Rightarrow> if b = 0xF6 then Some r else None | [] \<Rightarrow> None)"

definition item_type :: "bytes \<Rightarrow> cbor_type option" where
  "item_type bs = (case bs of
      [] \<Rightarrow> None
    | b # r \<Rightarrow> if b = 0xF6 then Some Type_Null
               else if unat b div 32 = 2 \<and> unat b mod 32 < 28 then Some Type_Bytes
               else Some Type_Other)"

definition rfc8949 :: minicbor where
  "rfc8949 = \<lparr>
     enc_array = (\<lambda>n. enc_head 4 (unat n)),
     enc_u8 = (\<lambda>v. enc_head 0 (unat v)),
     enc_u16 = (\<lambda>v. enc_head 0 (unat v)),
     enc_u32 = (\<lambda>v. enc_head 0 (unat v)),
     enc_u64 = (\<lambda>v. enc_head 0 (unat v)),
     enc_bytes = (\<lambda>bs. enc_head 2 (length bs) @ bs),
     enc_str = (\<lambda>s. enc_head 3 (length s) @ s),
     enc_null = [0xF6],
     dec_array = dec_array_head,
     dec_u8 = dec_uint (2 ^ 8),
     dec_u16 = dec_uint (2 ^ 16),
     dec_u32 = dec_uint (2 ^ 32),
     dec_u64 = dec_uint (2 ^ 64),
     dec_bytes = dec_string 2,
     dec_str = dec_text,
     dec_null = dec_nil,
     dec_type = item_type\<rparr>"

section \<open>The codec satisfies the contract\<close>

lemma length_enc_head: "n < 2 ^ 64 \<Longrightarrow> length (enc_head major n) = head_len n"
  by (simp add: enc_head_def head_len_def)

lemma unat_initial: "major < 8 \<Longrightarrow> info < 32 \<Longrightarrow> unat (of_nat (major * 32 + info) :: u8) = major * 32 + info"
  by (simp add: unat_of_nat del: of_nat_add of_nat_mult)

lemma take_be_encode: "v < 256 ^ k \<Longrightarrow> take_be k (be_encode k v @ rest) = Some (v, rest)"
  by (simp add: take_be_def)

lemma dec_head_initial:
  assumes "major < 8" and "info < 32"
  shows "dec_head (of_nat (major * 32 + info) # r) =
     (if info < 24 then Some (major, Some info, r)
      else if info = 24 then map_option (\<lambda>(n, r). (major, Some n, r)) (take_be 1 r)
      else if info = 25 then map_option (\<lambda>(n, r). (major, Some n, r)) (take_be 2 r)
      else if info = 26 then map_option (\<lambda>(n, r). (major, Some n, r)) (take_be 4 r)
      else if info = 27 then map_option (\<lambda>(n, r). (major, Some n, r)) (take_be 8 r)
      else if info = 31 then Some (major, None, r)
      else None)"
  unfolding dec_head_def list.case Let_def unat_initial [OF assms]
  using assms by (simp del: of_nat_add of_nat_mult)

lemma dec_head_encode:
  assumes "major < 8" and "n < 2 ^ 64"
  shows "dec_head (enc_head major n @ rest) = Some (major, Some n, rest)"
proof -
  note initial = dec_head_initial [OF assms(1)]
  consider "n < 24" | "24 \<le> n" "n < 2 ^ 8" | "2 ^ 8 \<le> n" "n < 2 ^ 16"
    | "2 ^ 16 \<le> n" "n < 2 ^ 32" | "2 ^ 32 \<le> n" using assms(2) by linarith
  then show ?thesis
  proof cases
    case 1
    then show ?thesis using initial [of n]
      by (simp add: enc_head_def del: of_nat_add of_nat_mult)
  next
    case 2
    then show ?thesis using initial [of 24] take_be_encode [of n 1]
      by (simp add: enc_head_def del: of_nat_add of_nat_mult be_encode.simps)
  next
    case 3
    then show ?thesis using initial [of 25] take_be_encode [of n 2]
      by (simp add: enc_head_def del: of_nat_add of_nat_mult be_encode.simps)
  next
    case 4
    then show ?thesis using initial [of 26] take_be_encode [of n 4]
      by (simp add: enc_head_def del: of_nat_add of_nat_mult be_encode.simps)
  next
    case 5
    then show ?thesis using assms(2) initial [of 27] take_be_encode [of n 8]
      by (simp add: enc_head_def del: of_nat_add of_nat_mult be_encode.simps)
  qed
qed

lemma dec_uint_encode:
  fixes v :: "'a::len word"
  assumes "limit \<le> 2 ^ 64" and "unat v < limit"
  shows "dec_uint limit (enc_head 0 (unat v) @ rest) = Some (v, rest)"
  using assms dec_head_encode [of 0 "unat v" rest] by (simp add: dec_uint_def)

lemma dec_string_encode:
  "major < 8 \<Longrightarrow> length bs < 2 ^ 64 \<Longrightarrow>
     dec_string major (enc_head major (length bs) @ bs @ rest) = Some (bs, rest)"
  by (simp add: dec_string_def dec_head_encode)

lemma item_type_bytes:
  assumes "n < 2 ^ 64"
  shows "item_type (enc_head 2 n @ rest) = Some Type_Bytes"
proof -
  have "item_type (of_nat (2 * 32 + info) # r) = Some Type_Bytes" if "info < 28" for info r
  proof -
    have u: "unat (of_nat (2 * 32 + info) :: u8) = 2 * 32 + info"
      using that by (intro unat_initial) auto
    then have "(of_nat (2 * 32 + info) :: u8) \<noteq> 0xF6"
      using that by (auto simp: word_unat_eq_iff simp del: of_nat_add of_nat_mult)
    moreover have "(2 * 32 + info) div 32 = 2" using that by simp
    moreover have "(2 * 32 + info) mod 32 < 28"
      using that by (simp only: mod_mult_self3 mod_less)
    ultimately show ?thesis
      unfolding item_type_def list.case u by simp
  qed
  note step = this
  show ?thesis
    using step [of n rest] step [of 24] step [of 25] step [of 26] step [of 27]
    by (simp add: enc_head_def del: of_nat_add of_nat_mult be_encode.simps)
qed

interpretation rfc: minicbor_spec rfc8949
proof unfold_locales
  fix n :: u64 and rest :: bytes
  show "dec_array rfc8949 (enc_array rfc8949 n @ rest) = Some (Some n, rest)"
    using unat_u64_less [of n] dec_head_encode [of 4 "unat n" rest]
    by (simp add: rfc8949_def dec_array_head_def)
next
  fix a :: u8 and rest :: bytes
  show "dec_u8 rfc8949 (enc_u8 rfc8949 a @ rest) = Some (a, rest)"
    using unat_u8_less [of a] by (simp add: rfc8949_def dec_uint_encode)
next
  fix b :: u16 and rest :: bytes
  show "dec_u16 rfc8949 (enc_u16 rfc8949 b @ rest) = Some (b, rest)"
    using unat_u16_less [of b] by (simp add: rfc8949_def dec_uint_encode)
next
  fix c :: u32 and rest :: bytes
  show "dec_u32 rfc8949 (enc_u32 rfc8949 c @ rest) = Some (c, rest)"
    using unat_u32_less [of c] by (simp add: rfc8949_def dec_uint_encode)
next
  fix d :: u64 and rest :: bytes
  show "dec_u64 rfc8949 (enc_u64 rfc8949 d @ rest) = Some (d, rest)"
    using unat_u64_less [of d] by (simp add: rfc8949_def dec_uint_encode)
next
  fix rest
  show "dec_type rfc8949 (enc_null rfc8949 @ rest) = Some Type_Null"
    by (simp add: rfc8949_def item_type_def)
next
  fix input s rest
  show "dec_str rfc8949 input = Some (s, rest) \<Longrightarrow> utf8_valid s"
    by (auto simp: rfc8949_def dec_text_def split: option.splits if_splits)
qed (auto simp: rfc8949_def dec_string_encode dec_text_def item_type_bytes dec_nil_def
      length_enc_head unat_u64_less unat_u8_less unat_u16_less unat_u32_less
      intro!: length_enc_head less_trans [OF unat_u8_less] less_trans [OF unat_u16_less]
        less_trans [OF unat_u32_less])

end
