(* ===== verification/Protocol_Browser.thy ===== *)
theory Protocol_Browser
  imports Protocol_Cbor Rfc8949
begin

text \<open>
  The browser-fill schemas (crates/agent-protocol/src/browser.rs): the browser-observed context,
  the single-use selection and the released credential. \<open>encode_into\<close> and \<open>decode_from\<close> are embedded
  in larger bodies, so they thread the writer and the remaining input.
\<close>

section \<open>BrowserContext\<close>

record browser_context =
  bc_request_id :: bytes
  bc_tab_id :: u32
  bc_document_id :: bytes
  bc_top_origin :: bytes
  bc_frame_origin :: bytes

definition BrowserContext_new ::
    "bytes \<Rightarrow> u32 \<Rightarrow> u32 \<Rightarrow> bytes \<Rightarrow> bytes \<Rightarrow> bytes \<Rightarrow> (browser_context, protocol_error) result" where
  "BrowserContext_new request_id tab_id frame_id document_id top_origin frame_origin =
     (if request_id = zeros 16 \<or> document_id = zeros 16 \<or> tab_id > 0x7FFFFFFF \<or> frame_id \<noteq> 0
         \<or> top_origin = [] \<or> top_origin \<noteq> frame_origin
      then Err InvariantViolation
      else if length top_origin > 2048 \<or> length frame_origin > 2048 then Err TooLarge
      else Ok \<lparr>bc_request_id = request_id, bc_tab_id = tab_id, bc_document_id = document_id,
               bc_top_origin = top_origin, bc_frame_origin = frame_origin\<rparr>)"

definition BrowserContext_matches :: "browser_context \<Rightarrow> browser_context \<Rightarrow> bool" where
  "BrowserContext_matches a b \<longleftrightarrow>
     bc_request_id a = bc_request_id b \<and> bc_tab_id a = bc_tab_id b
     \<and> bc_document_id a = bc_document_id b \<and> bc_top_origin a = bc_top_origin b
     \<and> bc_frame_origin a = bc_frame_origin b"

definition BrowserContext_encode_into :: "minicbor \<Rightarrow> browser_context \<Rightarrow> writer \<Rightarrow> writer option" where
  "BrowserContext_encode_into mc c w = do {
     w \<leftarrow> encode_array mc 6 w;
     w \<leftarrow> encode_bytes mc (bc_request_id c) w;
     w \<leftarrow> encode_u32 mc (bc_tab_id c) w;
     w \<leftarrow> encode_u32 mc 0 w;
     w \<leftarrow> encode_bytes mc (bc_document_id c) w;
     w \<leftarrow> encode_text mc (bc_top_origin c) w;
     encode_text mc (bc_frame_origin c) w }"

definition BrowserContext_decode_from ::
    "minicbor \<Rightarrow> bytes \<Rightarrow> (browser_context \<times> bytes, protocol_error) result" where
  "BrowserContext_decode_from mc d =
     and_then (expect_array mc 6 d) (\<lambda>d.
     and_then (decode_fixed_bytes mc 16 d) (\<lambda>(request_id, d).
     and_then (decode_u32 mc d) (\<lambda>(tab_id, d).
     and_then (decode_u32 mc d) (\<lambda>(frame_id, d).
     and_then (decode_fixed_bytes mc 16 d) (\<lambda>(document_id, d).
     and_then (decode_bounded_text mc 2048 d) (\<lambda>(top_origin, d).
     and_then (decode_bounded_text mc 2048 d) (\<lambda>(frame_origin, d).
     and_then (BrowserContext_new request_id tab_id frame_id document_id top_origin frame_origin)
       (\<lambda>context. Ok (context, d)))))))))"

definition BrowserContext_valid :: "browser_context \<Rightarrow> bool" where
  "BrowserContext_valid c \<longleftrightarrow>
     length (bc_request_id c) = 16 \<and> bc_request_id c \<noteq> zeros 16
     \<and> length (bc_document_id c) = 16 \<and> bc_document_id c \<noteq> zeros 16
     \<and> bc_tab_id c \<le> 0x7FFFFFFF \<and> bc_top_origin c \<noteq> [] \<and> bc_top_origin c = bc_frame_origin c
     \<and> length (bc_top_origin c) \<le> 2048 \<and> utf8_valid (bc_top_origin c)"

definition BrowserContext_wire :: "minicbor \<Rightarrow> browser_context \<Rightarrow> bytes" where
  "BrowserContext_wire mc c = enc_array mc 6 @ enc_bytes mc (bc_request_id c)
     @ enc_u32 mc (bc_tab_id c) @ enc_u32 mc 0 @ enc_bytes mc (bc_document_id c)
     @ enc_str mc (bc_top_origin c) @ enc_str mc (bc_frame_origin c)"

lemma BrowserContext_encode_into_eq [encode_simps]:
  "BrowserContext_encode_into mc c = (\<lambda>w. SecretWriter_write_all w (BrowserContext_wire mc c))"
  by (simp add: fun_eq_iff BrowserContext_encode_into_def BrowserContext_wire_def encode_simps)

lemma BrowserContext_new_Ok:
  "BrowserContext_new r t f d a b = Ok c \<longleftrightarrow>
     c = \<lparr>bc_request_id = r, bc_tab_id = t, bc_document_id = d, bc_top_origin = a,
          bc_frame_origin = b\<rparr>
     \<and> r \<noteq> zeros 16 \<and> d \<noteq> zeros 16 \<and> t \<le> 0x7FFFFFFF \<and> f = 0 \<and> a \<noteq> [] \<and> a = b \<and> length a \<le> 2048"
  by (auto simp: BrowserContext_new_def not_less)

lemma BrowserContext_new_no_panic [no_panic]: "BrowserContext_new r t f d a b \<noteq> Panic"
  by (simp add: BrowserContext_new_def)

lemma BrowserContext_decode_from_no_panic [no_panic]: "BrowserContext_decode_from mc d \<noteq> Panic"
  by (auto simp: BrowserContext_decode_from_def result_simps no_panic split: prod.splits)

lemma BrowserContext_matches_eq: "BrowserContext_matches a b \<longleftrightarrow> a = b"
  by (cases a; cases b) (auto simp: BrowserContext_matches_def)

section \<open>BrowserSelection\<close>

record browser_selection =
  bs_token :: bytes
  bs_record_id :: bytes
  bs_revision :: u64

definition BrowserSelection_new ::
    "bytes \<Rightarrow> bytes \<Rightarrow> u64 \<Rightarrow> (browser_selection, protocol_error) result" where
  "BrowserSelection_new token record_id revision =
     (if token = zeros 16 \<or> record_id = zeros 16 \<or> revision = 0 then Err InvariantViolation
      else Ok \<lparr>bs_token = token, bs_record_id = record_id, bs_revision = revision\<rparr>)"

definition BrowserSelection_matches :: "browser_selection \<Rightarrow> browser_selection \<Rightarrow> bool" where
  "BrowserSelection_matches a b \<longleftrightarrow>
     bs_token a = bs_token b \<and> bs_record_id a = bs_record_id b \<and> bs_revision a = bs_revision b"

definition BrowserSelection_encode_into ::
    "minicbor \<Rightarrow> browser_selection \<Rightarrow> writer \<Rightarrow> writer option" where
  "BrowserSelection_encode_into mc s w = do {
     w \<leftarrow> encode_array mc 3 w;
     w \<leftarrow> encode_bytes mc (bs_token s) w;
     w \<leftarrow> encode_bytes mc (bs_record_id s) w;
     encode_u64 mc (bs_revision s) w }"

definition BrowserSelection_decode_from ::
    "minicbor \<Rightarrow> bytes \<Rightarrow> (browser_selection \<times> bytes, protocol_error) result" where
  "BrowserSelection_decode_from mc d =
     and_then (expect_array mc 3 d) (\<lambda>d.
     and_then (decode_fixed_bytes mc 16 d) (\<lambda>(token, d).
     and_then (decode_fixed_bytes mc 16 d) (\<lambda>(record_id, d).
     and_then (decode_u64 mc d) (\<lambda>(revision, d).
     and_then (BrowserSelection_new token record_id revision) (\<lambda>selection. Ok (selection, d))))))"

definition BrowserSelection_encode_optional ::
    "minicbor \<Rightarrow> browser_selection option \<Rightarrow> bytes option" where
  "BrowserSelection_encode_optional mc s = into_bytes
     (case s of
        Some selection \<Rightarrow> BrowserSelection_encode_into mc selection (SecretWriter_with_capacity 64)
      | None \<Rightarrow> encode_array mc 0 (SecretWriter_with_capacity 64))"

definition BrowserSelection_decode_optional ::
    "minicbor \<Rightarrow> bytes \<Rightarrow> (browser_selection option, protocol_error) result" where
  "BrowserSelection_decode_optional mc bs =
     (if length bs > 64 then Err TooLarge else
      and_then (decode_array_length mc 3 bs) (\<lambda>(count, d).
      and_then
        (if count = 0 then Ok (None, d)
         else if count = 3 then
           and_then (decode_fixed_bytes mc 16 d) (\<lambda>(token, d).
           and_then (decode_fixed_bytes mc 16 d) (\<lambda>(record_id, d).
           and_then (decode_u64 mc d) (\<lambda>(revision, d).
           and_then (BrowserSelection_new token record_id revision) (\<lambda>selection.
           Ok (Some selection, d)))))
         else Err Malformed) (\<lambda>(result, d).
      and_then (require_end d bs) (\<lambda>_.
      and_then (expect_some (BrowserSelection_encode_optional mc result)) (\<lambda>enc.
      if enc \<noteq> bs then Err NonCanonical else Ok result)))))"

definition BrowserSelection_valid :: "browser_selection \<Rightarrow> bool" where
  "BrowserSelection_valid s \<longleftrightarrow>
     length (bs_token s) = 16 \<and> bs_token s \<noteq> zeros 16
     \<and> length (bs_record_id s) = 16 \<and> bs_record_id s \<noteq> zeros 16 \<and> bs_revision s \<noteq> 0"

definition BrowserSelection_wire :: "minicbor \<Rightarrow> browser_selection \<Rightarrow> bytes" where
  "BrowserSelection_wire mc s = enc_array mc 3 @ enc_bytes mc (bs_token s)
     @ enc_bytes mc (bs_record_id s) @ enc_u64 mc (bs_revision s)"

lemma BrowserSelection_encode_into_eq [encode_simps]:
  "BrowserSelection_encode_into mc s = (\<lambda>w. SecretWriter_write_all w (BrowserSelection_wire mc s))"
  by (simp add: fun_eq_iff BrowserSelection_encode_into_def BrowserSelection_wire_def encode_simps)

lemma BrowserSelection_encode_optional_None:
  "BrowserSelection_encode_optional mc None =
     (if length (enc_array mc 0) \<le> 64 then Some (enc_array mc 0) else None)"
  by (simp add: BrowserSelection_encode_optional_def encode_simps)

lemma BrowserSelection_encode_optional_Some:
  "BrowserSelection_encode_optional mc (Some s) =
     (if length (BrowserSelection_wire mc s) \<le> 64 then Some (BrowserSelection_wire mc s) else None)"
  by (simp add: BrowserSelection_encode_optional_def encode_simps)

lemma BrowserSelection_new_Ok:
  "BrowserSelection_new t i r = Ok s \<longleftrightarrow>
     s = \<lparr>bs_token = t, bs_record_id = i, bs_revision = r\<rparr>
     \<and> t \<noteq> zeros 16 \<and> i \<noteq> zeros 16 \<and> r \<noteq> 0"
  by (auto simp: BrowserSelection_new_def)

lemma BrowserSelection_new_no_panic [no_panic]: "BrowserSelection_new t i r \<noteq> Panic"
  by (simp add: BrowserSelection_new_def)

lemma BrowserSelection_decode_from_no_panic [no_panic]: "BrowserSelection_decode_from mc d \<noteq> Panic"
  by (auto simp: BrowserSelection_decode_from_def result_simps no_panic split: prod.splits)

section \<open>BrowserCredential\<close>

record browser_credential =
  cr_username :: bytes
  cr_password :: bytes

definition BrowserCredential_new ::
    "bytes \<Rightarrow> bytes \<Rightarrow> (browser_credential, protocol_error) result" where
  "BrowserCredential_new username password =
     (if length username > 1024 \<or> length password > 16384 then Err TooLarge
      else Ok \<lparr>cr_username = username, cr_password = password\<rparr>)"

definition BrowserCredential_encode :: "minicbor \<Rightarrow> browser_credential \<Rightarrow> bytes option" where
  "BrowserCredential_encode mc c = into_bytes (do {
     w \<leftarrow> encode_array mc 2 (SecretWriter_with_capacity 17500);
     w \<leftarrow> encode_text mc (cr_username c) w;
     encode_text mc (cr_password c) w })"

definition BrowserCredential_decode ::
    "minicbor \<Rightarrow> bytes \<Rightarrow> (browser_credential, protocol_error) result" where
  "BrowserCredential_decode mc bs =
     (if length bs > 17500 then Err TooLarge else
      and_then (expect_array mc 2 bs) (\<lambda>d.
      and_then (decode_bounded_text mc 1024 d) (\<lambda>(username, d).
      and_then (decode_bounded_text mc 16384 d) (\<lambda>(password, d).
      let result = \<lparr>cr_username = username, cr_password = password\<rparr> in
      and_then (require_end d bs) (\<lambda>_.
      and_then (expect_some (BrowserCredential_encode mc result)) (\<lambda>enc.
      if enc \<noteq> bs then Err NonCanonical else Ok result))))))"

definition BrowserCredential_valid :: "browser_credential \<Rightarrow> bool" where
  "BrowserCredential_valid c \<longleftrightarrow>
     length (cr_username c) \<le> 1024 \<and> utf8_valid (cr_username c)
     \<and> length (cr_password c) \<le> 16384 \<and> utf8_valid (cr_password c)"

definition BrowserCredential_wire :: "minicbor \<Rightarrow> browser_credential \<Rightarrow> bytes" where
  "BrowserCredential_wire mc c =
     enc_array mc 2 @ enc_str mc (cr_username c) @ enc_str mc (cr_password c)"

lemma BrowserCredential_encode_eq:
  "BrowserCredential_encode mc c =
     (if length (BrowserCredential_wire mc c) \<le> 17500 then Some (BrowserCredential_wire mc c)
      else None)"
  by (simp add: BrowserCredential_encode_def BrowserCredential_wire_def encode_simps)

section \<open>Codec contracts\<close>

context minicbor_spec
begin

lemma BrowserContext_decode_from_wire [simp]:
  "BrowserContext_valid c \<Longrightarrow>
     BrowserContext_decode_from mc (BrowserContext_wire mc c @ rest) = Ok (c, rest)"
  "BrowserContext_valid c \<Longrightarrow>
     BrowserContext_decode_from mc (BrowserContext_wire mc c) = Ok (c, [])"
  by (auto simp: BrowserContext_decode_from_def BrowserContext_wire_def BrowserContext_valid_def
      result_simps BrowserContext_new_Ok)

lemma BrowserContext_decode_from_valid:
  "BrowserContext_decode_from mc d = Ok (c, d') \<Longrightarrow> BrowserContext_valid c"
  by (auto simp: BrowserContext_decode_from_def BrowserContext_valid_def BrowserContext_new_Ok
      result_simps split: prod.splits dest: decode_ok decode_bounded_text_utf8)

lemma BrowserContext_wire_length:
  assumes "BrowserContext_valid c" shows "length (BrowserContext_wire mc c) \<le> 4200"
proof -
  have v: "length (bc_request_id c) = 16" "length (bc_document_id c) = 16"
    "length (bc_top_origin c) \<le> 2048" "length (bc_frame_origin c) \<le> 2048"
    using assms by (auto simp: BrowserContext_valid_def)
  show ?thesis unfolding BrowserContext_wire_def
    by (insert v, rule order_trans, (rule enc_bounds | simp)+)
qed

lemma BrowserSelection_decode_from_wire [simp]:
  "BrowserSelection_valid s \<Longrightarrow>
     BrowserSelection_decode_from mc (BrowserSelection_wire mc s @ rest) = Ok (s, rest)"
  "BrowserSelection_valid s \<Longrightarrow>
     BrowserSelection_decode_from mc (BrowserSelection_wire mc s) = Ok (s, [])"
  by (auto simp: BrowserSelection_decode_from_def BrowserSelection_wire_def
      BrowserSelection_valid_def result_simps BrowserSelection_new_Ok)

lemma BrowserSelection_decode_from_valid:
  "BrowserSelection_decode_from mc d = Ok (s, d') \<Longrightarrow> BrowserSelection_valid s"
  by (auto simp: BrowserSelection_decode_from_def BrowserSelection_valid_def
      BrowserSelection_new_Ok result_simps split: prod.splits dest: decode_ok)

lemma BrowserSelection_wire_length:
  assumes "BrowserSelection_valid s" shows "length (BrowserSelection_wire mc s) \<le> 64"
  using assms head_len_le_9 [of "unat (bs_revision s)"]
  by (simp add: BrowserSelection_wire_def BrowserSelection_valid_def) (simp add: head_len_def)

lemma BrowserSelection_optional_encode_total:
  "pred_option BrowserSelection_valid s \<Longrightarrow> \<exists>bs. BrowserSelection_encode_optional mc s = Some bs"
  by (cases s) (simp_all add: BrowserSelection_encode_optional_None head_len_le_9 [THEN order_trans]
      BrowserSelection_encode_optional_Some BrowserSelection_wire_length)

lemma BrowserSelection_decode_optional_sound:
  assumes "BrowserSelection_decode_optional mc bs = Ok s"
  shows "pred_option BrowserSelection_valid s \<and> BrowserSelection_encode_optional mc s = Some bs"
  using assms
  by (auto simp: BrowserSelection_decode_optional_def BrowserSelection_valid_def
      BrowserSelection_new_Ok result_simps split: if_splits prod.splits dest: decode_ok)

lemma BrowserSelection_decode_optional_complete:
  assumes "pred_option BrowserSelection_valid s"
    and "BrowserSelection_encode_optional mc s = Some bs"
  shows "BrowserSelection_decode_optional mc bs = Ok s"
proof (cases s)
  case None
  have "length (enc_array mc 0) \<le> 64"
    using head_len_le_9 [of "unat (0 :: u64)"] by simp
  with None assms(2) have bs: "bs = enc_array mc 0"
    by (simp add: BrowserSelection_encode_optional_None split: if_splits)
  from assms(2) None have "BrowserSelection_encode_optional mc None = Some bs" by simp
  then show ?thesis
    using \<open>length (enc_array mc 0) \<le> 64\<close>
    by (simp add: BrowserSelection_decode_optional_def None bs)
next
  case (Some t)
  then have v: "BrowserSelection_valid t" using assms(1) by simp
  with Some assms(2) have bs: "bs = BrowserSelection_wire mc t"
    by (simp add: BrowserSelection_encode_optional_Some BrowserSelection_wire_length)
  have "length bs \<le> 64" using v bs by (simp add: BrowserSelection_wire_length)
  moreover have "BrowserSelection_new (bs_token t) (bs_record_id t) (bs_revision t) = Ok t"
    using v by (simp add: BrowserSelection_new_Ok BrowserSelection_valid_def)
  moreover have "decode_array_length mc 3 bs = Ok (3, enc_bytes mc (bs_token t)
     @ enc_bytes mc (bs_record_id t) @ enc_u64 mc (bs_revision t))"
    using decode_array_length_enc [of 3 3] by (simp add: bs BrowserSelection_wire_def)
  ultimately show ?thesis
    using v assms(2) Some
    by (simp add: BrowserSelection_decode_optional_def BrowserSelection_valid_def)
qed

lemma BrowserSelection_encode_optional_None_cases:
  "BrowserSelection_encode_optional mc (Some s) = None \<Longrightarrow>
     length (bs_token s) \<noteq> 16 \<or> length (bs_record_id s) \<noteq> 16"
  using head_len_le_9 [of "unat (bs_revision s)"]
  by (auto simp: BrowserSelection_encode_optional_Some BrowserSelection_wire_def head_len_def)

lemma BrowserSelection_decode_optional_no_panic: "BrowserSelection_decode_optional mc bs \<noteq> Panic"
proof
  assume "BrowserSelection_decode_optional mc bs = Panic"
  then show False
    using BrowserSelection_optional_encode_total [of None]
    by (auto simp: BrowserSelection_decode_optional_def BrowserSelection_new_Ok result_simps no_panic
        split: if_splits prod.splits
        dest!: decode_ok BrowserSelection_encode_optional_None_cases)
qed

lemma BrowserCredential_wire_length:
  assumes "length (cr_username c) \<le> 1024" and "length (cr_password c) \<le> 16384"
  shows "length (BrowserCredential_wire mc c) \<le> 17500"
  unfolding BrowserCredential_wire_def
  by (insert assms, rule order_trans, (rule enc_bounds | simp)+)

lemma BrowserCredential_decode_sound:
  assumes "BrowserCredential_decode mc bs = Ok c"
  shows "BrowserCredential_valid c \<and> BrowserCredential_encode mc c = Some bs"
  using assms
  by (auto simp: BrowserCredential_decode_def BrowserCredential_valid_def Let_def result_simps
      split: if_splits prod.splits dest: decode_ok decode_bounded_text_utf8)

lemma BrowserCredential_decode_complete:
  assumes "BrowserCredential_valid c" and "BrowserCredential_encode mc c = Some bs"
  shows "BrowserCredential_decode mc bs = Ok c"
proof -
  have bs: "bs = BrowserCredential_wire mc c" and len: "length bs \<le> 17500"
    using assms by (auto simp: BrowserCredential_encode_eq split: if_splits)
  show ?thesis using assms len unfolding bs
    by (cases c) (simp add: BrowserCredential_decode_def Let_def BrowserCredential_valid_def
        BrowserCredential_encode_eq BrowserCredential_wire_def)
qed

lemma BrowserCredential_encode_None_cases:
  "BrowserCredential_encode mc c = None \<Longrightarrow>
     1024 < length (cr_username c) \<or> 16384 < length (cr_password c)"
  using BrowserCredential_wire_length [of c]
  by (fastforce simp: BrowserCredential_encode_eq split: if_splits)

lemma BrowserCredential_decode_no_panic: "BrowserCredential_decode mc bs \<noteq> Panic"
proof
  assume "BrowserCredential_decode mc bs = Panic"
  then show False
    by (auto simp: BrowserCredential_decode_def Let_def result_simps no_panic
        split: if_splits prod.splits dest!: decode_ok BrowserCredential_encode_None_cases)
qed

end

sublocale minicbor_spec \<subseteq> selection: canonical_codec
  "BrowserSelection_encode_optional mc" "BrowserSelection_decode_optional mc"
  "pred_option BrowserSelection_valid"
  by unfold_locales
    (use BrowserSelection_decode_optional_sound BrowserSelection_decode_optional_complete in blast,
      erule BrowserSelection_optional_encode_total, rule BrowserSelection_decode_optional_no_panic)

sublocale minicbor_spec \<subseteq> credential: canonical_codec
  "BrowserCredential_encode mc" "BrowserCredential_decode mc" BrowserCredential_valid
  by unfold_locales
    (use BrowserCredential_decode_sound BrowserCredential_decode_complete in blast,
      simp add: BrowserCredential_encode_eq BrowserCredential_wire_length BrowserCredential_valid_def,
      rule BrowserCredential_decode_no_panic)

section \<open>Properties\<close>

text \<open>What crosses the browser boundary is checked on both sides: a page context is only accepted
  for a top-level document whose frame origin equals its top origin, with non-zero request and
  document identifiers and a tab number of at most 31 bits; the selection reply and the credential
  reply have exactly one accepted encoding each, and none of the decoders panics.\<close>

theorem browser_codecs_exact:
  assumes "minicbor_spec mc"
  shows "(BrowserContext_decode_from mc d = Ok (c, d') \<longrightarrow>
        bc_top_origin c = bc_frame_origin c \<and> bc_top_origin c \<noteq> []
        \<and> length (bc_top_origin c) \<le> 2048 \<and> bc_tab_id c \<le> 0x7FFFFFFF
        \<and> bc_request_id c \<noteq> zeros 16 \<and> bc_document_id c \<noteq> zeros 16)
    \<and> (BrowserSelection_decode_optional mc bs = Ok s \<longleftrightarrow>
        pred_option BrowserSelection_valid s \<and> BrowserSelection_encode_optional mc s = Some bs)
    \<and> (BrowserCredential_decode mc bs = Ok cr \<longleftrightarrow>
        BrowserCredential_valid cr \<and> BrowserCredential_encode mc cr = Some bs)
    \<and> BrowserSelection_decode_optional mc bs \<noteq> Panic \<and> BrowserCredential_decode mc bs \<noteq> Panic"
proof -
  note spec = assms
  have "bc_top_origin c = bc_frame_origin c \<and> bc_top_origin c \<noteq> []
      \<and> length (bc_top_origin c) \<le> 2048 \<and> bc_tab_id c \<le> 0x7FFFFFFF
      \<and> bc_request_id c \<noteq> zeros 16 \<and> bc_document_id c \<noteq> zeros 16"
    if "BrowserContext_decode_from mc d = Ok (c, d')"
    using minicbor_spec.BrowserContext_decode_from_valid [OF spec that]
    by (auto simp: BrowserContext_valid_def)
  moreover have "BrowserSelection_decode_optional mc bs = Ok s \<longleftrightarrow>
      pred_option BrowserSelection_valid s \<and> BrowserSelection_encode_optional mc s = Some bs"
    using minicbor_spec.BrowserSelection_decode_optional_sound [OF spec]
      minicbor_spec.BrowserSelection_decode_optional_complete [OF spec] by blast
  moreover have "BrowserCredential_decode mc bs = Ok cr \<longleftrightarrow>
      BrowserCredential_valid cr \<and> BrowserCredential_encode mc cr = Some bs"
    using minicbor_spec.BrowserCredential_decode_sound [OF spec]
      minicbor_spec.BrowserCredential_decode_complete [OF spec] by blast
  ultimately show ?thesis
    using minicbor_spec.BrowserSelection_decode_optional_no_panic [OF spec]
      minicbor_spec.BrowserCredential_decode_no_panic [OF spec] by blast
qed

theorem browser_codecs_exact_witness:
  "BrowserCredential_decode rfc8949 [0x82, 0x62, 0x6D, 0x65, 0x61, 0x78]
     = Ok \<lparr>cr_username = ascii ''me'', cr_password = ascii ''x''\<rparr>
   \<and> BrowserSelection_decode_optional rfc8949 [0x80] = Ok None"
proof -
  note exact = browser_codecs_exact [OF rfc.minicbor_spec_axioms]
  have "BrowserCredential_valid \<lparr>cr_username = ascii ''me'', cr_password = ascii ''x''\<rparr>"
    by (simp add: BrowserCredential_valid_def ascii_def utf8_valid_ascii)
  moreover have "BrowserCredential_encode rfc8949
      \<lparr>cr_username = ascii ''me'', cr_password = ascii ''x''\<rparr>
      = Some [0x82, 0x62, 0x6D, 0x65, 0x61, 0x78]"
    by (simp add: BrowserCredential_encode_eq BrowserCredential_wire_def rfc8949_def enc_head_def
        ascii_def)
  moreover have "BrowserSelection_encode_optional rfc8949 None = Some [0x80]"
    by (simp add: BrowserSelection_encode_optional_None rfc8949_def enc_head_def)
  ultimately show ?thesis using exact by auto
qed

end
