(* ===== verification/Protocol_Types.thy ===== *)
theory Protocol_Types
  imports Prelude
begin

text \<open>
  Closed enumerations and limits of the agent protocol
  (crates/agent-protocol/src/lib.rs and types.rs): versions, client roles, agent states, the
  operation set with its role, idempotency, unlock-epoch and feature policies, public errors and
  retry categories.
\<close>

section \<open>Limits (lib.rs)\<close>

definition HEADER_BYTES :: nat where [simp]: "HEADER_BYTES = 40"
definition MAX_PAYLOAD_BYTES :: nat where [simp]: "MAX_PAYLOAD_BYTES = 65536"
definition MIN_NEGOTIATED_PAYLOAD_BYTES :: nat where [simp]: "MIN_NEGOTIATED_PAYLOAD_BYTES = 21"
definition MAX_ENDPOINT_DESCRIPTOR_BYTES :: nat where [simp]: "MAX_ENDPOINT_DESCRIPTOR_BYTES = 4096"
definition MAX_IN_FLIGHT_PER_CONNECTION :: nat where [simp]: "MAX_IN_FLIGHT_PER_CONNECTION = 4"
definition MAX_EVENT_QUEUE :: nat where [simp]: "MAX_EVENT_QUEUE = 8"
definition ORDINARY_TIMEOUT_MS :: u32 where [simp]: "ORDINARY_TIMEOUT_MS = 5000"
definition UNLOCK_TIMEOUT_MS :: u32 where [simp]: "UNLOCK_TIMEOUT_MS = 30000"
definition PASSKEY_TIMEOUT_MS :: u32 where [simp]: "PASSKEY_TIMEOUT_MS = 120000"
definition FEATURE_WINDOWS_HELLO :: u16 where [simp]: "FEATURE_WINDOWS_HELLO = 1"
definition FEATURE_PASSKEY_PROVIDER :: u16 where [simp]: "FEATURE_PASSKEY_PROVIDER = 2"
definition FEATURE_BROWSER_FILL :: u16 where [simp]: "FEATURE_BROWSER_FILL = 3"

section \<open>Versions\<close>

text \<open>The derived \<open>Ord\<close> compares the fields in declaration order.\<close>

datatype version = Version (major: u16) (minor: u16)

instantiation version :: linorder
begin

definition less_eq_version :: "version \<Rightarrow> version \<Rightarrow> bool" where
  "less_eq_version a b \<longleftrightarrow> major a < major b \<or> (major a = major b \<and> minor a \<le> minor b)"

definition less_version :: "version \<Rightarrow> version \<Rightarrow> bool" where
  "less_version a b \<longleftrightarrow> major a < major b \<or> (major a = major b \<and> minor a < minor b)"

instance
  by standard (auto simp: less_eq_version_def less_version_def version.expand)

end

definition MINIMUM_VERSION :: version where "MINIMUM_VERSION = Version 1 0"
definition CURRENT_VERSION :: version where "CURRENT_VERSION = Version 1 3"
definition WINDOWS_HELLO_VERSION :: version where "WINDOWS_HELLO_VERSION = Version 1 1"
definition PASSKEY_PROVIDER_VERSION :: version where "PASSKEY_PROVIDER_VERSION = Version 1 2"
definition BROWSER_FILL_VERSION :: version where "BROWSER_FILL_VERSION = Version 1 3"

lemmas version_defs = MINIMUM_VERSION_def CURRENT_VERSION_def WINDOWS_HELLO_VERSION_def
  PASSKEY_PROVIDER_VERSION_def BROWSER_FILL_VERSION_def

section \<open>Client roles and agent states\<close>

datatype client_role = Desktop | NativeHost | PasskeyProvider

fun ClientRole_code :: "client_role \<Rightarrow> u8" where
  "ClientRole_code Desktop = 1"
| "ClientRole_code NativeHost = 2"
| "ClientRole_code PasskeyProvider = 3"

definition ClientRole_from_u64 :: "u64 \<Rightarrow> client_role option" where
  "ClientRole_from_u64 v =
     (if v = 1 then Some Desktop else if v = 2 then Some NativeHost
      else if v = 3 then Some PasskeyProvider else None)"

datatype agent_state =
  St_Starting | St_NoVault | St_Locked | St_Unlocking | St_Unlocked | St_Updating | St_ShuttingDown

fun AgentState_code :: "agent_state \<Rightarrow> u8" where
  "AgentState_code St_Starting = 1"
| "AgentState_code St_NoVault = 2"
| "AgentState_code St_Locked = 3"
| "AgentState_code St_Unlocking = 4"
| "AgentState_code St_Unlocked = 5"
| "AgentState_code St_Updating = 6"
| "AgentState_code St_ShuttingDown = 7"

definition AgentState_from_u64 :: "u64 \<Rightarrow> agent_state option" where
  "AgentState_from_u64 v =
     (if v = 1 then Some St_Starting else if v = 2 then Some St_NoVault
      else if v = 3 then Some St_Locked else if v = 4 then Some St_Unlocking
      else if v = 5 then Some St_Unlocked else if v = 6 then Some St_Updating
      else if v = 7 then Some St_ShuttingDown else None)"

section \<open>Operations\<close>

datatype operation_code =
    Op_Status | Op_CreateVault | Op_UnlockMasterPassword | Op_Lock | Op_ListAccountSummaries
  | Op_GetAccount | Op_AddAccount | Op_UpdateAccount | Op_DeleteAccount | Op_EnrollWindowsHello
  | Op_RemoveWindowsHello | Op_UnlockWindowsHello | Op_ExactOriginMatches
  | Op_GetSelectedCredential | Op_CaptureCredential | Op_UpdateCredential | Op_MakePasskey
  | Op_GetPasskeyAssertion | Op_DeletePasskey | Op_ListPasskeysForAssertion | Op_ListPasskeys
  | Op_RollbackPasskeyCreation | Op_ConfirmPasskeyCreation

definition OperationCode_ALL :: "operation_code list" where
  "OperationCode_ALL =
     [Op_Status, Op_CreateVault, Op_UnlockMasterPassword, Op_Lock, Op_ListAccountSummaries,
      Op_GetAccount, Op_AddAccount, Op_UpdateAccount, Op_DeleteAccount, Op_EnrollWindowsHello,
      Op_RemoveWindowsHello, Op_UnlockWindowsHello, Op_ExactOriginMatches,
      Op_GetSelectedCredential, Op_CaptureCredential, Op_UpdateCredential, Op_MakePasskey,
      Op_GetPasskeyAssertion, Op_DeletePasskey, Op_ListPasskeysForAssertion, Op_ListPasskeys,
      Op_RollbackPasskeyCreation, Op_ConfirmPasskeyCreation]"

fun OperationCode_code :: "operation_code \<Rightarrow> u16" where
  "OperationCode_code Op_Status = 1"
| "OperationCode_code Op_CreateVault = 2"
| "OperationCode_code Op_UnlockMasterPassword = 3"
| "OperationCode_code Op_Lock = 4"
| "OperationCode_code Op_ListAccountSummaries = 5"
| "OperationCode_code Op_GetAccount = 6"
| "OperationCode_code Op_AddAccount = 7"
| "OperationCode_code Op_UpdateAccount = 8"
| "OperationCode_code Op_DeleteAccount = 9"
| "OperationCode_code Op_EnrollWindowsHello = 10"
| "OperationCode_code Op_RemoveWindowsHello = 11"
| "OperationCode_code Op_UnlockWindowsHello = 12"
| "OperationCode_code Op_ExactOriginMatches = 20"
| "OperationCode_code Op_GetSelectedCredential = 21"
| "OperationCode_code Op_CaptureCredential = 22"
| "OperationCode_code Op_UpdateCredential = 23"
| "OperationCode_code Op_MakePasskey = 30"
| "OperationCode_code Op_GetPasskeyAssertion = 31"
| "OperationCode_code Op_DeletePasskey = 32"
| "OperationCode_code Op_ListPasskeysForAssertion = 33"
| "OperationCode_code Op_ListPasskeys = 34"
| "OperationCode_code Op_RollbackPasskeyCreation = 35"
| "OperationCode_code Op_ConfirmPasskeyCreation = 36"

definition OperationCode_from_u64 :: "u64 \<Rightarrow> operation_code option" where
  "OperationCode_from_u64 v =
     (if v = 1 then Some Op_Status else if v = 2 then Some Op_CreateVault
      else if v = 3 then Some Op_UnlockMasterPassword else if v = 4 then Some Op_Lock
      else if v = 5 then Some Op_ListAccountSummaries else if v = 6 then Some Op_GetAccount
      else if v = 7 then Some Op_AddAccount else if v = 8 then Some Op_UpdateAccount
      else if v = 9 then Some Op_DeleteAccount else if v = 10 then Some Op_EnrollWindowsHello
      else if v = 11 then Some Op_RemoveWindowsHello else if v = 12 then Some Op_UnlockWindowsHello
      else if v = 20 then Some Op_ExactOriginMatches
      else if v = 21 then Some Op_GetSelectedCredential
      else if v = 22 then Some Op_CaptureCredential else if v = 23 then Some Op_UpdateCredential
      else if v = 30 then Some Op_MakePasskey else if v = 31 then Some Op_GetPasskeyAssertion
      else if v = 32 then Some Op_DeletePasskey
      else if v = 33 then Some Op_ListPasskeysForAssertion
      else if v = 34 then Some Op_ListPasskeys
      else if v = 35 then Some Op_RollbackPasskeyCreation
      else if v = 36 then Some Op_ConfirmPasskeyCreation else None)"

fun is_authorized_for :: "operation_code \<Rightarrow> client_role \<Rightarrow> bool" where
  "is_authorized_for op Desktop \<longleftrightarrow>
     op \<in> {Op_Status, Op_CreateVault, Op_UnlockMasterPassword, Op_Lock, Op_ListAccountSummaries,
           Op_GetAccount, Op_AddAccount, Op_UpdateAccount, Op_DeleteAccount,
           Op_EnrollWindowsHello, Op_RemoveWindowsHello, Op_UnlockWindowsHello, Op_DeletePasskey,
           Op_ListPasskeys}"
| "is_authorized_for op NativeHost \<longleftrightarrow>
     op \<in> {Op_Status, Op_ExactOriginMatches, Op_GetSelectedCredential, Op_CaptureCredential,
           Op_UpdateCredential}"
| "is_authorized_for op PasskeyProvider \<longleftrightarrow>
     op \<in> {Op_Status, Op_MakePasskey, Op_GetPasskeyAssertion, Op_ListPasskeysForAssertion,
           Op_RollbackPasskeyCreation, Op_ConfirmPasskeyCreation}"

definition requires_idempotency_key :: "operation_code \<Rightarrow> bool" where
  "requires_idempotency_key op \<longleftrightarrow>
     op \<in> {Op_CreateVault, Op_AddAccount, Op_UpdateAccount, Op_DeleteAccount,
           Op_EnrollWindowsHello, Op_RemoveWindowsHello, Op_CaptureCredential,
           Op_UpdateCredential, Op_MakePasskey, Op_GetPasskeyAssertion, Op_DeletePasskey,
           Op_RollbackPasskeyCreation, Op_ConfirmPasskeyCreation}"

definition requires_unlocked_epoch :: "operation_code \<Rightarrow> bool" where
  "requires_unlocked_epoch op \<longleftrightarrow>
     op \<in> {Op_ListAccountSummaries, Op_GetAccount, Op_AddAccount, Op_UpdateAccount,
           Op_DeleteAccount, Op_EnrollWindowsHello, Op_RemoveWindowsHello, Op_ExactOriginMatches,
           Op_GetSelectedCredential, Op_CaptureCredential, Op_UpdateCredential, Op_MakePasskey,
           Op_GetPasskeyAssertion, Op_DeletePasskey, Op_ListPasskeysForAssertion,
           Op_ListPasskeys, Op_RollbackPasskeyCreation, Op_ConfirmPasskeyCreation}"

definition required_feature :: "operation_code \<Rightarrow> u16 option" where
  "required_feature op =
     (if op \<in> {Op_ExactOriginMatches, Op_GetSelectedCredential} then Some FEATURE_BROWSER_FILL
      else if op \<in> {Op_EnrollWindowsHello, Op_RemoveWindowsHello, Op_UnlockWindowsHello}
      then Some FEATURE_WINDOWS_HELLO
      else if op \<in> {Op_MakePasskey, Op_GetPasskeyAssertion, Op_DeletePasskey,
                    Op_ListPasskeysForAssertion, Op_ListPasskeys, Op_RollbackPasskeyCreation,
                    Op_ConfirmPasskeyCreation}
      then Some FEATURE_PASSKEY_PROVIDER
      else None)"

section \<open>Public errors and retry categories\<close>

datatype public_error_code =
    Code_InvalidRequest | Code_UnauthorizedOperation | Code_Locked | Code_NotFound | Code_Conflict
  | Code_Busy | Code_Cancelled | Code_DeadlineExceeded | Code_AgentUnavailable
  | Code_Incompatible | Code_OperationFailed

fun PublicErrorCode_code :: "public_error_code \<Rightarrow> u8" where
  "PublicErrorCode_code Code_InvalidRequest = 1"
| "PublicErrorCode_code Code_UnauthorizedOperation = 2"
| "PublicErrorCode_code Code_Locked = 3"
| "PublicErrorCode_code Code_NotFound = 4"
| "PublicErrorCode_code Code_Conflict = 5"
| "PublicErrorCode_code Code_Busy = 6"
| "PublicErrorCode_code Code_Cancelled = 7"
| "PublicErrorCode_code Code_DeadlineExceeded = 8"
| "PublicErrorCode_code Code_AgentUnavailable = 9"
| "PublicErrorCode_code Code_Incompatible = 10"
| "PublicErrorCode_code Code_OperationFailed = 11"

definition PublicErrorCode_from_u64 :: "u64 \<Rightarrow> public_error_code option" where
  "PublicErrorCode_from_u64 v =
     (if v = 1 then Some Code_InvalidRequest else if v = 2 then Some Code_UnauthorizedOperation
      else if v = 3 then Some Code_Locked else if v = 4 then Some Code_NotFound
      else if v = 5 then Some Code_Conflict else if v = 6 then Some Code_Busy
      else if v = 7 then Some Code_Cancelled else if v = 8 then Some Code_DeadlineExceeded
      else if v = 9 then Some Code_AgentUnavailable else if v = 10 then Some Code_Incompatible
      else if v = 11 then Some Code_OperationFailed else None)"

datatype retry_category = Retry_Never | Retry_Reconnect | Retry_AfterUnlock | Retry_Backoff

fun RetryCategory_code :: "retry_category \<Rightarrow> u8" where
  "RetryCategory_code Retry_Never = 1"
| "RetryCategory_code Retry_Reconnect = 2"
| "RetryCategory_code Retry_AfterUnlock = 3"
| "RetryCategory_code Retry_Backoff = 4"

definition RetryCategory_from_u64 :: "u64 \<Rightarrow> retry_category option" where
  "RetryCategory_from_u64 v =
     (if v = 1 then Some Retry_Never else if v = 2 then Some Retry_Reconnect
      else if v = 3 then Some Retry_AfterUnlock else if v = 4 then Some Retry_Backoff else None)"

section \<open>Codes round-trip\<close>

named_theorems code_simps \<open>wire codes of the closed enumerations\<close>

lemma ClientRole_from_code [code_simps]: "ClientRole_from_u64 (ucast (ClientRole_code r)) = Some r"
  by (cases r) (simp_all add: ClientRole_from_u64_def)

lemma AgentState_from_code [code_simps]: "AgentState_from_u64 (ucast (AgentState_code s)) = Some s"
  by (cases s) (simp_all add: AgentState_from_u64_def)

lemma OperationCode_from_code [code_simps]:
  "OperationCode_from_u64 (ucast (OperationCode_code op)) = Some op"
  by (cases op) (simp_all add: OperationCode_from_u64_def)

lemma PublicErrorCode_from_code [code_simps]:
  "PublicErrorCode_from_u64 (ucast (PublicErrorCode_code e)) = Some e"
  by (cases e) (simp_all add: PublicErrorCode_from_u64_def)

lemma RetryCategory_from_code [code_simps]:
  "RetryCategory_from_u64 (ucast (RetryCategory_code r)) = Some r"
  by (cases r) (simp_all add: RetryCategory_from_u64_def)

lemma PublicErrorCode_code_nonzero [code_simps]: "PublicErrorCode_code e \<noteq> 0"
  by (cases e) simp_all

lemma OperationCode_from_u64_Some: "OperationCode_from_u64 v = Some op \<Longrightarrow> v = ucast (OperationCode_code op)"
  by (auto simp: OperationCode_from_u64_def split: if_splits)

section \<open>Properties of the closed operation set\<close>

lemma OperationCode_ALL_complete: "distinct OperationCode_ALL \<and> set OperationCode_ALL = UNIV"
proof
  show "distinct OperationCode_ALL" by (simp add: OperationCode_ALL_def)
  have "op \<in> set OperationCode_ALL" for op
    by (cases op) (simp_all add: OperationCode_ALL_def)
  then show "set OperationCode_ALL = UNIV" by blast
qed

text \<open>The role policy separates the three clients: only the status query is open to more than
  one role, no operation is left without a role, every operation that takes an idempotency key,
  except creating the first vault, is checked against the current unlock epoch, and so is every
  operation of the browser host but the status query; every operation of the passkey provider but
  the status query belongs to the passkey feature.\<close>

theorem role_separation:
  "(is_authorized_for op r \<and> is_authorized_for op r' \<and> r \<noteq> r' \<longrightarrow> op = Op_Status)
   \<and> (\<exists>r. is_authorized_for op r)
   \<and> (requires_idempotency_key op \<and> op \<noteq> Op_CreateVault \<longrightarrow> requires_unlocked_epoch op)
   \<and> (is_authorized_for op NativeHost \<and> op \<noteq> Op_Status \<longrightarrow> requires_unlocked_epoch op)
   \<and> (is_authorized_for op PasskeyProvider \<and> op \<noteq> Op_Status
        \<longrightarrow> required_feature op = Some FEATURE_PASSKEY_PROVIDER)"
proof -
  have "\<exists>r. is_authorized_for op r"
    using exI [of "is_authorized_for op" Desktop] exI [of "is_authorized_for op" NativeHost]
      exI [of "is_authorized_for op" PasskeyProvider]
    by (cases op) simp_all
  moreover have "is_authorized_for op r \<and> is_authorized_for op r' \<and> r \<noteq> r' \<longrightarrow> op = Op_Status"
    by (cases r; cases r'; cases op) simp_all
  moreover have "requires_idempotency_key op \<and> op \<noteq> Op_CreateVault \<longrightarrow> requires_unlocked_epoch op"
    by (cases op) (simp_all add: requires_idempotency_key_def requires_unlocked_epoch_def)
  moreover have "is_authorized_for op NativeHost \<and> op \<noteq> Op_Status \<longrightarrow> requires_unlocked_epoch op"
    by (cases op) (simp_all add: requires_unlocked_epoch_def)
  moreover have "is_authorized_for op PasskeyProvider \<and> op \<noteq> Op_Status
      \<longrightarrow> required_feature op = Some FEATURE_PASSKEY_PROVIDER"
    by (cases op) (simp_all add: required_feature_def)
  ultimately show ?thesis by blast
qed

theorem role_separation_witness:
  "is_authorized_for Op_GetAccount Desktop \<and> \<not> is_authorized_for Op_GetAccount NativeHost
   \<and> requires_unlocked_epoch Op_UpdateAccount \<and> requires_unlocked_epoch Op_GetSelectedCredential
   \<and> required_feature Op_MakePasskey = Some FEATURE_PASSKEY_PROVIDER"
proof -
  have get: "is_authorized_for Op_GetAccount Desktop" "Desktop \<noteq> NativeHost"
    "Op_GetAccount \<noteq> Op_Status" by simp_all
  have update: "requires_idempotency_key Op_UpdateAccount" "Op_UpdateAccount \<noteq> Op_CreateVault"
    by (simp_all add: requires_idempotency_key_def)
  have host: "is_authorized_for Op_GetSelectedCredential NativeHost"
    "Op_GetSelectedCredential \<noteq> Op_Status" by simp_all
  have make: "is_authorized_for Op_MakePasskey PasskeyProvider" "Op_MakePasskey \<noteq> Op_Status"
    by simp_all
  show ?thesis
    using role_separation [of Op_GetAccount Desktop NativeHost] get
      role_separation [of Op_UpdateAccount Desktop Desktop] update
      role_separation [of Op_GetSelectedCredential Desktop Desktop] host
      role_separation [of Op_MakePasskey Desktop Desktop] make
    by blast
qed

end
