(* ===== verification/Protocol_Message.thy ===== *)
theory Protocol_Message
  imports Protocol_Types Protocol_Cbor Rfc8949
begin

text \<open>
  Handshake offers, the discovery record and the request and response envelopes
  (crates/agent-protocol/src/message.rs). Every decoder re-encodes what it read and compares the
  bytes; for each structure the development proves the canonical-codec contract: decoding accepts
  exactly the encodings of valid values, never panics, and the encoder never panics on them.
\<close>

section \<open>Limits\<close>

definition MAX_FEATURES :: nat where [simp]: "MAX_FEATURES = 16"
definition MAX_PIPE_NAME_BYTES :: nat where [simp]: "MAX_PIPE_NAME_BYTES = 512"
definition MAX_PACKAGE_NAME_BYTES :: nat where [simp]: "MAX_PACKAGE_NAME_BYTES = 256"
definition MAX_REQUEST_BODY_BYTES :: nat where
  [simp]: "MAX_REQUEST_BODY_BYTES = MAX_PAYLOAD_BYTES - 128"
definition MAX_RESPONSE_BODY_BYTES :: nat where
  [simp]: "MAX_RESPONSE_BODY_BYTES = MAX_PAYLOAD_BYTES - 96"
definition ENDPOINT_SCHEMA :: u8 where [simp]: "ENDPOINT_SCHEMA = 1"

section \<open>ClientHello\<close>

record client_hello =
  ch_client_nonce :: bytes
  ch_minimum :: version
  ch_maximum :: version
  ch_claimed_role :: client_role
  ch_component_build_id :: bytes
  ch_required_features :: "u16 list"

definition ClientHello_new ::
    "bytes \<Rightarrow> version \<Rightarrow> version \<Rightarrow> client_role \<Rightarrow> bytes \<Rightarrow> u16 list
       \<Rightarrow> (client_hello, protocol_error) result" where
  "ClientHello_new client_nonce minimum maximum claimed_role component_build_id required_features =
     (if client_nonce = zeros 32 \<or> component_build_id = zeros 32 \<or> major minimum = 0
         \<or> major maximum = 0 \<or> minimum > maximum \<or> length required_features > MAX_FEATURES
         \<or> windows2_any (\<lambda>x y. x \<ge> y) required_features
      then Err InvariantViolation
      else Ok \<lparr>ch_client_nonce = client_nonce, ch_minimum = minimum, ch_maximum = maximum,
               ch_claimed_role = claimed_role, ch_component_build_id = component_build_id,
               ch_required_features = required_features\<rparr>)"

definition ClientHello_encode :: "minicbor \<Rightarrow> client_hello \<Rightarrow> bytes option" where
  "ClientHello_encode mc h = into_bytes (do {
     w \<leftarrow> encode_array mc 8 vec_new;
     w \<leftarrow> encode_bytes mc (ch_client_nonce h) w;
     w \<leftarrow> encode_u16 mc (major (ch_minimum h)) w;
     w \<leftarrow> encode_u16 mc (major (ch_maximum h)) w;
     w \<leftarrow> encode_u16 mc (minor (ch_minimum h)) w;
     w \<leftarrow> encode_u16 mc (minor (ch_maximum h)) w;
     w \<leftarrow> encode_u8 mc (ClientRole_code (ch_claimed_role h)) w;
     w \<leftarrow> encode_bytes mc (ch_component_build_id h) w;
     w \<leftarrow> encode_array mc (u64_of_usize (length (ch_required_features h))) w;
     encode_each (encode_u16 mc) (ch_required_features h) w })"

definition ClientHello_decode :: "minicbor \<Rightarrow> bytes \<Rightarrow> (client_hello, protocol_error) result" where
  "ClientHello_decode mc bs =
     (if length bs > MAX_PAYLOAD_BYTES then Err TooLarge else
      and_then (expect_array mc 8 bs) (\<lambda>d.
      and_then (decode_fixed_bytes mc 32 d) (\<lambda>(client_nonce, d).
      and_then (decode_u16 mc d) (\<lambda>(minimum_major, d).
      and_then (decode_u16 mc d) (\<lambda>(maximum_major, d).
      and_then (decode_u16 mc d) (\<lambda>(minimum_minor, d).
      and_then (decode_u16 mc d) (\<lambda>(maximum_minor, d).
      and_then (decode_u8 mc d) (\<lambda>(role, d).
      and_then (ok_or Unsupported (ClientRole_from_u64 (ucast role))) (\<lambda>claimed_role.
      and_then (decode_fixed_bytes mc 32 d) (\<lambda>(component_build_id, d).
      and_then (decode_array_length mc MAX_FEATURES d) (\<lambda>(feature_count, d).
      and_then (decode_u16s mc feature_count d) (\<lambda>(features, d).
      and_then (require_end d bs) (\<lambda>_.
      and_then (ClientHello_new client_nonce (Version minimum_major minimum_minor)
                  (Version maximum_major maximum_minor) claimed_role component_build_id features)
        (\<lambda>hello.
      and_then (expect_some (ClientHello_encode mc hello)) (\<lambda>enc.
      if enc \<noteq> bs then Err NonCanonical else Ok hello)))))))))))))))"

definition ClientHello_valid :: "client_hello \<Rightarrow> bool" where
  "ClientHello_valid h \<longleftrightarrow>
     length (ch_client_nonce h) = 32 \<and> ch_client_nonce h \<noteq> zeros 32
     \<and> length (ch_component_build_id h) = 32 \<and> ch_component_build_id h \<noteq> zeros 32
     \<and> major (ch_minimum h) \<noteq> 0 \<and> major (ch_maximum h) \<noteq> 0 \<and> ch_minimum h \<le> ch_maximum h
     \<and> length (ch_required_features h) \<le> 16 \<and> sorted_wrt (<) (ch_required_features h)"

lemma ClientHello_encode_eq:
  "ClientHello_encode mc h = Some (enc_array mc 8 @ enc_bytes mc (ch_client_nonce h)
     @ enc_u16 mc (major (ch_minimum h)) @ enc_u16 mc (major (ch_maximum h))
     @ enc_u16 mc (minor (ch_minimum h)) @ enc_u16 mc (minor (ch_maximum h))
     @ enc_u8 mc (ClientRole_code (ch_claimed_role h)) @ enc_bytes mc (ch_component_build_id h)
     @ enc_array mc (u64_of_usize (length (ch_required_features h)))
     @ concat (map (enc_u16 mc) (ch_required_features h)))"
  by (simp add: ClientHello_encode_def encode_simps
      write_then_encode_each [where g = "enc_u16 mc"])

lemma ClientHello_new_Ok:
  "ClientHello_new n a b r i f = Ok h \<longleftrightarrow>
     h = \<lparr>ch_client_nonce = n, ch_minimum = a, ch_maximum = b, ch_claimed_role = r,
          ch_component_build_id = i, ch_required_features = f\<rparr>
     \<and> n \<noteq> zeros 32 \<and> i \<noteq> zeros 32 \<and> major a \<noteq> 0 \<and> major b \<noteq> 0 \<and> a \<le> b
     \<and> length f \<le> 16 \<and> sorted_wrt (<) f"
  by (auto simp: ClientHello_new_def windows2_any_ge_iff [symmetric] not_less)

context minicbor_spec
begin

lemma ClientHello_decode_sound:
  assumes "ClientHello_decode mc bs = Ok h"
  shows "ClientHello_valid h \<and> ClientHello_encode mc h = Some bs"
  using assms
  by (auto simp: ClientHello_decode_def ClientHello_valid_def ClientHello_new_Ok result_simps
      split: if_splits prod.splits dest: decode_ok)

lemma ClientHello_decode_complete:
  assumes "ClientHello_valid h" and "ClientHello_encode mc h = Some bs"
  shows "ClientHello_decode mc bs = Ok h"
proof -
  have v: "length (ch_client_nonce h) = 32" "length (ch_component_build_id h) = 32"
    "length (ch_required_features h) \<le> 16"
    using assms(1) by (simp_all add: ClientHello_valid_def)
  have new: "ClientHello_new (ch_client_nonce h)
      (Version (major (ch_minimum h)) (minor (ch_minimum h)))
      (Version (major (ch_maximum h)) (minor (ch_maximum h))) (ch_claimed_role h)
      (ch_component_build_id h) (ch_required_features h) = Ok h"
    using assms(1) by (simp add: ClientHello_new_Ok ClientHello_valid_def)
  note bs = assms(2) [unfolded ClientHello_encode_eq option.inject, symmetric]
  have "length bs \<le> 65536" unfolding bs
    by (insert v, rule order_trans, (rule enc_bounds length_enc_u16s | simp)+)
  with v new show ?thesis unfolding bs
    by (simp add: ClientHello_decode_def ClientHello_encode_eq code_simps)
qed

lemma ClientHello_decode_no_panic: "ClientHello_decode mc bs \<noteq> Panic"
  by (auto simp: ClientHello_decode_def ClientHello_new_def ClientHello_encode_eq result_simps
      no_panic split: if_splits prod.splits)

end

sublocale minicbor_spec \<subseteq> client_hello: canonical_codec
  "ClientHello_encode mc" "ClientHello_decode mc" ClientHello_valid
  by unfold_locales (use ClientHello_decode_sound ClientHello_decode_complete in blast,
      simp add: ClientHello_encode_eq, rule ClientHello_decode_no_panic)

section \<open>ServerHello\<close>

record server_hello =
  sh_server_nonce :: bytes
  sh_selected_version :: version
  sh_derived_role :: client_role
  sh_granted_features :: "u16 list"
  sh_maximum_payload_bytes :: u32
  sh_maximum_in_flight :: u8
  sh_agent_state :: agent_state
  sh_unlock_epoch :: u64

definition ServerHello_new ::
    "bytes \<Rightarrow> version \<Rightarrow> client_role \<Rightarrow> u16 list \<Rightarrow> u32 \<Rightarrow> u8 \<Rightarrow> agent_state \<Rightarrow> u64
       \<Rightarrow> (server_hello, protocol_error) result" where
  "ServerHello_new server_nonce selected_version derived_role granted_features
       maximum_payload_bytes maximum_in_flight agent_state unlock_epoch =
     (if server_nonce = zeros 32 \<or> major selected_version = 0
         \<or> length granted_features > MAX_FEATURES
         \<or> windows2_any (\<lambda>x y. x \<ge> y) granted_features
         \<or> maximum_payload_bytes = 0
         \<or> \<not> (MIN_NEGOTIATED_PAYLOAD_BYTES \<le> unat maximum_payload_bytes
                \<and> unat maximum_payload_bytes \<le> MAX_PAYLOAD_BYTES)
         \<or> maximum_in_flight = 0
         \<or> unat maximum_in_flight > MAX_IN_FLIGHT_PER_CONNECTION
      then Err InvariantViolation
      else Ok \<lparr>sh_server_nonce = server_nonce, sh_selected_version = selected_version,
               sh_derived_role = derived_role, sh_granted_features = granted_features,
               sh_maximum_payload_bytes = maximum_payload_bytes,
               sh_maximum_in_flight = maximum_in_flight, sh_agent_state = agent_state,
               sh_unlock_epoch = unlock_epoch\<rparr>)"

definition ServerHello_encode :: "minicbor \<Rightarrow> server_hello \<Rightarrow> bytes option" where
  "ServerHello_encode mc h = into_bytes (do {
     w \<leftarrow> encode_array mc 9 vec_new;
     w \<leftarrow> encode_bytes mc (sh_server_nonce h) w;
     w \<leftarrow> encode_u16 mc (major (sh_selected_version h)) w;
     w \<leftarrow> encode_u16 mc (minor (sh_selected_version h)) w;
     w \<leftarrow> encode_u8 mc (ClientRole_code (sh_derived_role h)) w;
     w \<leftarrow> encode_array mc (u64_of_usize (length (sh_granted_features h))) w;
     w \<leftarrow> encode_each (encode_u16 mc) (sh_granted_features h) w;
     w \<leftarrow> encode_u32 mc (sh_maximum_payload_bytes h) w;
     w \<leftarrow> encode_u8 mc (sh_maximum_in_flight h) w;
     w \<leftarrow> encode_u8 mc (AgentState_code (sh_agent_state h)) w;
     encode_u64 mc (sh_unlock_epoch h) w })"

definition ServerHello_decode :: "minicbor \<Rightarrow> bytes \<Rightarrow> (server_hello, protocol_error) result" where
  "ServerHello_decode mc bs =
     (if length bs > MAX_PAYLOAD_BYTES then Err TooLarge else
      and_then (expect_array mc 9 bs) (\<lambda>d.
      and_then (decode_fixed_bytes mc 32 d) (\<lambda>(server_nonce, d).
      and_then (decode_u16 mc d) (\<lambda>(major, d).
      and_then (decode_u16 mc d) (\<lambda>(minor, d).
      and_then (decode_u8 mc d) (\<lambda>(raw_role, d).
      and_then (ok_or Unsupported (ClientRole_from_u64 (ucast raw_role))) (\<lambda>role.
      and_then (decode_array_length mc MAX_FEATURES d) (\<lambda>(feature_count, d).
      and_then (decode_u16s mc feature_count d) (\<lambda>(features, d).
      and_then (decode_u32 mc d) (\<lambda>(maximum_payload_bytes, d).
      and_then (decode_u8 mc d) (\<lambda>(maximum_in_flight, d).
      and_then (decode_u8 mc d) (\<lambda>(raw_state, d).
      and_then (ok_or Unsupported (AgentState_from_u64 (ucast raw_state))) (\<lambda>agent_state.
      and_then (decode_u64 mc d) (\<lambda>(unlock_epoch, d).
      and_then (require_end d bs) (\<lambda>_.
      and_then (ServerHello_new server_nonce (Version major minor) role features
                  maximum_payload_bytes maximum_in_flight agent_state unlock_epoch) (\<lambda>hello.
      and_then (expect_some (ServerHello_encode mc hello)) (\<lambda>enc.
      if enc \<noteq> bs then Err NonCanonical else Ok hello)))))))))))))))))"

definition ServerHello_valid :: "server_hello \<Rightarrow> bool" where
  "ServerHello_valid h \<longleftrightarrow>
     length (sh_server_nonce h) = 32 \<and> sh_server_nonce h \<noteq> zeros 32
     \<and> major (sh_selected_version h) \<noteq> 0
     \<and> length (sh_granted_features h) \<le> 16 \<and> sorted_wrt (<) (sh_granted_features h)
     \<and> 21 \<le> unat (sh_maximum_payload_bytes h) \<and> unat (sh_maximum_payload_bytes h) \<le> 65536
     \<and> 0 < unat (sh_maximum_in_flight h) \<and> unat (sh_maximum_in_flight h) \<le> 4"

lemma ServerHello_encode_eq:
  "ServerHello_encode mc h = Some (enc_array mc 9 @ enc_bytes mc (sh_server_nonce h)
     @ enc_u16 mc (major (sh_selected_version h)) @ enc_u16 mc (minor (sh_selected_version h))
     @ enc_u8 mc (ClientRole_code (sh_derived_role h))
     @ enc_array mc (u64_of_usize (length (sh_granted_features h)))
     @ concat (map (enc_u16 mc) (sh_granted_features h))
     @ enc_u32 mc (sh_maximum_payload_bytes h) @ enc_u8 mc (sh_maximum_in_flight h)
     @ enc_u8 mc (AgentState_code (sh_agent_state h)) @ enc_u64 mc (sh_unlock_epoch h))"
  by (simp add: ServerHello_encode_def encode_simps encode_each_then_write [where g = "enc_u16 mc"])

lemma ServerHello_new_Ok:
  "ServerHello_new n v r f p m s e = Ok h \<longleftrightarrow>
     h = \<lparr>sh_server_nonce = n, sh_selected_version = v, sh_derived_role = r,
          sh_granted_features = f, sh_maximum_payload_bytes = p, sh_maximum_in_flight = m,
          sh_agent_state = s, sh_unlock_epoch = e\<rparr>
     \<and> n \<noteq> zeros 32 \<and> major v \<noteq> 0 \<and> length f \<le> 16 \<and> sorted_wrt (<) f
     \<and> 21 \<le> unat p \<and> unat p \<le> 65536 \<and> 0 < unat m \<and> unat m \<le> 4"
  by (auto simp: ServerHello_new_def windows2_any_ge_iff [symmetric] not_less unat_gt_0)

context minicbor_spec
begin

lemma ServerHello_decode_sound:
  assumes "ServerHello_decode mc bs = Ok h"
  shows "ServerHello_valid h \<and> ServerHello_encode mc h = Some bs"
  using assms
  by (auto simp: ServerHello_decode_def ServerHello_valid_def ServerHello_new_Ok result_simps
      split: if_splits prod.splits dest: decode_ok)

lemma ServerHello_decode_complete:
  assumes "ServerHello_valid h" and "ServerHello_encode mc h = Some bs"
  shows "ServerHello_decode mc bs = Ok h"
proof -
  have v: "length (sh_server_nonce h) = 32" "length (sh_granted_features h) \<le> 16"
    using assms(1) by (simp_all add: ServerHello_valid_def)
  have new: "ServerHello_new (sh_server_nonce h)
      (Version (major (sh_selected_version h)) (minor (sh_selected_version h)))
      (sh_derived_role h) (sh_granted_features h) (sh_maximum_payload_bytes h)
      (sh_maximum_in_flight h) (sh_agent_state h) (sh_unlock_epoch h) = Ok h"
    using assms(1) by (simp add: ServerHello_new_Ok ServerHello_valid_def)
  note bs = assms(2) [unfolded ServerHello_encode_eq option.inject, symmetric]
  have "length bs \<le> 65536" unfolding bs
    by (insert v, rule order_trans, (rule enc_bounds length_enc_u16s | simp)+)
  with v new show ?thesis unfolding bs
    by (simp add: ServerHello_decode_def ServerHello_encode_eq code_simps)
qed

lemma ServerHello_decode_no_panic: "ServerHello_decode mc bs \<noteq> Panic"
  by (auto simp: ServerHello_decode_def ServerHello_new_def ServerHello_encode_eq result_simps
      no_panic split: if_splits prod.splits)

end

sublocale minicbor_spec \<subseteq> server_hello: canonical_codec
  "ServerHello_encode mc" "ServerHello_decode mc" ServerHello_valid
  by unfold_locales (use ServerHello_decode_sound ServerHello_decode_complete in blast,
      simp add: ServerHello_encode_eq, rule ServerHello_decode_no_panic)

section \<open>EndpointDescriptor\<close>

record endpoint_descriptor =
  ed_pipe_name :: bytes
  ed_agent_process_id :: u32
  ed_agent_process_creation_time :: u64
  ed_package_full_name :: bytes
  ed_minimum_major :: u16
  ed_maximum_major :: u16
  ed_startup_nonce :: bytes

definition EndpointDescriptor_encode :: "minicbor \<Rightarrow> endpoint_descriptor \<Rightarrow> bytes option" where
  "EndpointDescriptor_encode mc e = into_bytes (do {
     w \<leftarrow> encode_array mc 8 vec_new;
     w \<leftarrow> encode_u8 mc ENDPOINT_SCHEMA w;
     w \<leftarrow> encode_text mc (ed_pipe_name e) w;
     w \<leftarrow> encode_u32 mc (ed_agent_process_id e) w;
     w \<leftarrow> encode_u64 mc (ed_agent_process_creation_time e) w;
     w \<leftarrow> encode_text mc (ed_package_full_name e) w;
     w \<leftarrow> encode_u16 mc (ed_minimum_major e) w;
     w \<leftarrow> encode_u16 mc (ed_maximum_major e) w;
     encode_bytes mc (ed_startup_nonce e) w })"

definition EndpointDescriptor_new ::
    "minicbor \<Rightarrow> bytes \<Rightarrow> u32 \<Rightarrow> u64 \<Rightarrow> bytes \<Rightarrow> u16 \<Rightarrow> u16 \<Rightarrow> bytes
       \<Rightarrow> (endpoint_descriptor, protocol_error) result" where
  "EndpointDescriptor_new mc pipe_name agent_process_id agent_process_creation_time
       package_full_name minimum_major maximum_major startup_nonce =
     (if pipe_name = [] \<or> length pipe_name > MAX_PIPE_NAME_BYTES
         \<or> package_full_name = [] \<or> length package_full_name > MAX_PACKAGE_NAME_BYTES
         \<or> agent_process_id = 0 \<or> agent_process_creation_time = 0
         \<or> minimum_major = 0 \<or> minimum_major > maximum_major \<or> startup_nonce = zeros 32
      then Err InvariantViolation
      else
        let descriptor = \<lparr>ed_pipe_name = pipe_name, ed_agent_process_id = agent_process_id,
              ed_agent_process_creation_time = agent_process_creation_time,
              ed_package_full_name = package_full_name, ed_minimum_major = minimum_major,
              ed_maximum_major = maximum_major, ed_startup_nonce = startup_nonce\<rparr>
        in and_then (expect_some (EndpointDescriptor_encode mc descriptor)) (\<lambda>enc.
           if length enc > MAX_ENDPOINT_DESCRIPTOR_BYTES then Err TooLarge else Ok descriptor))"

definition EndpointDescriptor_decode ::
    "minicbor \<Rightarrow> bytes \<Rightarrow> (endpoint_descriptor, protocol_error) result" where
  "EndpointDescriptor_decode mc bs =
     (if length bs > MAX_ENDPOINT_DESCRIPTOR_BYTES then Err TooLarge else
      and_then (expect_array mc 8 bs) (\<lambda>d.
      and_then (decode_u8 mc d) (\<lambda>(schema, d).
      if schema \<noteq> ENDPOINT_SCHEMA then Err Unsupported else
      and_then (decode_bounded_text mc MAX_PIPE_NAME_BYTES d) (\<lambda>(pipe_name, d).
      and_then (decode_u32 mc d) (\<lambda>(process_id, d).
      and_then (decode_u64 mc d) (\<lambda>(creation_time, d).
      and_then (decode_bounded_text mc MAX_PACKAGE_NAME_BYTES d) (\<lambda>(package, d).
      and_then (decode_u16 mc d) (\<lambda>(minimum, d).
      and_then (decode_u16 mc d) (\<lambda>(maximum, d).
      and_then (decode_fixed_bytes mc 32 d) (\<lambda>(nonce, d).
      and_then (require_end d bs) (\<lambda>_.
      and_then (EndpointDescriptor_new mc pipe_name process_id creation_time package minimum
                  maximum nonce) (\<lambda>descriptor.
      and_then (expect_some (EndpointDescriptor_encode mc descriptor)) (\<lambda>enc.
      if enc \<noteq> bs then Err NonCanonical else Ok descriptor)))))))))))))"

definition EndpointDescriptor_valid :: "endpoint_descriptor \<Rightarrow> bool" where
  "EndpointDescriptor_valid e \<longleftrightarrow>
     ed_pipe_name e \<noteq> [] \<and> length (ed_pipe_name e) \<le> 512 \<and> utf8_valid (ed_pipe_name e)
     \<and> ed_package_full_name e \<noteq> [] \<and> length (ed_package_full_name e) \<le> 256
     \<and> utf8_valid (ed_package_full_name e)
     \<and> ed_agent_process_id e \<noteq> 0 \<and> ed_agent_process_creation_time e \<noteq> 0
     \<and> ed_minimum_major e \<noteq> 0 \<and> ed_minimum_major e \<le> ed_maximum_major e
     \<and> length (ed_startup_nonce e) = 32 \<and> ed_startup_nonce e \<noteq> zeros 32"

lemma EndpointDescriptor_encode_eq:
  "EndpointDescriptor_encode mc e = Some (enc_array mc 8 @ enc_u8 mc 1 @ enc_str mc (ed_pipe_name e)
     @ enc_u32 mc (ed_agent_process_id e) @ enc_u64 mc (ed_agent_process_creation_time e)
     @ enc_str mc (ed_package_full_name e) @ enc_u16 mc (ed_minimum_major e)
     @ enc_u16 mc (ed_maximum_major e) @ enc_bytes mc (ed_startup_nonce e))"
  by (simp add: EndpointDescriptor_encode_def encode_simps)

context minicbor_spec
begin

lemma EndpointDescriptor_decode_sound:
  assumes "EndpointDescriptor_decode mc bs = Ok e"
  shows "EndpointDescriptor_valid e \<and> EndpointDescriptor_encode mc e = Some bs"
  using assms
  by (auto simp: EndpointDescriptor_decode_def EndpointDescriptor_valid_def
      EndpointDescriptor_new_def Let_def result_simps
      split: if_splits prod.splits dest: decode_ok decode_bounded_text_utf8)

text \<open>
  The size check of \<open>EndpointDescriptor::new\<close> can never fire: bounded fields give at most
  848 bytes.
\<close>

lemma EndpointDescriptor_length:
  assumes "EndpointDescriptor_valid e" and "EndpointDescriptor_encode mc e = Some bs"
  shows "length bs \<le> 848"
proof -
  have v: "length (ed_pipe_name e) \<le> 512" "length (ed_package_full_name e) \<le> 256"
    "length (ed_startup_nonce e) = 32"
    using assms(1) by (simp_all add: EndpointDescriptor_valid_def)
  show ?thesis
    unfolding assms(2) [unfolded EndpointDescriptor_encode_eq option.inject, symmetric]
    by (insert v, rule order_trans, (rule enc_bounds | simp)+)
qed

lemma EndpointDescriptor_decode_complete:
  assumes "EndpointDescriptor_valid e" and "EndpointDescriptor_encode mc e = Some bs"
  shows "EndpointDescriptor_decode mc bs = Ok e"
proof -
  have v: "length (ed_pipe_name e) \<le> 512" "length (ed_package_full_name e) \<le> 256"
    "length (ed_startup_nonce e) = 32" "utf8_valid (ed_pipe_name e)"
    "utf8_valid (ed_package_full_name e)"
    using assms(1) by (simp_all add: EndpointDescriptor_valid_def)
  note bs = assms(2) [unfolded EndpointDescriptor_encode_eq option.inject, symmetric]
  have len: "length bs \<le> 4096" using EndpointDescriptor_length [OF assms] by simp
  have new: "EndpointDescriptor_new mc (ed_pipe_name e) (ed_agent_process_id e)
      (ed_agent_process_creation_time e) (ed_package_full_name e) (ed_minimum_major e)
      (ed_maximum_major e) (ed_startup_nonce e) = Ok e"
    using assms len
    by (cases e) (simp add: EndpointDescriptor_new_def EndpointDescriptor_valid_def Let_def not_less)
  from v new len show ?thesis unfolding bs
    by (simp add: EndpointDescriptor_decode_def EndpointDescriptor_encode_eq)
qed

lemma EndpointDescriptor_decode_no_panic: "EndpointDescriptor_decode mc bs \<noteq> Panic"
  by (auto simp: EndpointDescriptor_decode_def EndpointDescriptor_new_def
      EndpointDescriptor_encode_eq Let_def result_simps no_panic split: if_splits prod.splits)

end

sublocale minicbor_spec \<subseteq> endpoint: canonical_codec
  "EndpointDescriptor_encode mc" "EndpointDescriptor_decode mc" EndpointDescriptor_valid
  by unfold_locales
    (use EndpointDescriptor_decode_sound EndpointDescriptor_decode_complete in blast,
      simp add: EndpointDescriptor_encode_eq, rule EndpointDescriptor_decode_no_panic)

section \<open>Properties\<close>

text \<open>Both handshake messages have exactly one accepted encoding: a byte string decodes to a
  hello if and only if it is the encoding of that hello and the hello obeys the construction rules
  (non-zero nonces and build, ordered version range, strictly increasing features, negotiated
  limits in range); decoding never panics.\<close>

theorem hello_codecs_exact:
  assumes "minicbor_spec mc"
  shows "(ClientHello_decode mc bs = Ok ch \<longleftrightarrow> ClientHello_valid ch \<and> ClientHello_encode mc ch = Some bs)
    \<and> (ServerHello_decode mc bs = Ok sh \<longleftrightarrow> ServerHello_valid sh \<and> ServerHello_encode mc sh = Some bs)
    \<and> ClientHello_decode mc bs \<noteq> Panic \<and> ServerHello_decode mc bs \<noteq> Panic"
proof -
  have "minicbor_spec mc" by fact
  then show ?thesis
    by (simp add: minicbor_spec.ClientHello_decode_no_panic minicbor_spec.ServerHello_decode_no_panic)
      (meson minicbor_spec.ClientHello_decode_sound minicbor_spec.ClientHello_decode_complete
        minicbor_spec.ServerHello_decode_sound minicbor_spec.ServerHello_decode_complete)
qed

theorem hello_codecs_exact_witness:
  "ClientHello_decode rfc8949 ([0x88, 0x58, 32] @ replicate 32 7 @ [1, 1, 0, 3, 2, 0x58, 32]
       @ replicate 32 9 @ [0x81, 3])
     = Ok \<lparr>ch_client_nonce = replicate 32 7, ch_minimum = Version 1 0, ch_maximum = Version 1 3,
         ch_claimed_role = NativeHost, ch_component_build_id = replicate 32 9,
         ch_required_features = [3]\<rparr>"
  unfolding conjunct1 [OF hello_codecs_exact [OF rfc.minicbor_spec_axioms]]
  by (simp add: ClientHello_valid_def ClientHello_encode_eq less_eq_version_def rfc8949_def
      enc_head_def)

text \<open>The discovery record has exactly one accepted encoding, which never exceeds 848 bytes, so
  the 4096-byte limit of the file is never the reason to refuse a valid record.\<close>

theorem endpoint_descriptor_exact:
  assumes "minicbor_spec mc"
  shows "(EndpointDescriptor_decode mc bs = Ok e \<longleftrightarrow>
        EndpointDescriptor_valid e \<and> EndpointDescriptor_encode mc e = Some bs)
    \<and> (EndpointDescriptor_decode mc bs = Ok e \<longrightarrow> length bs \<le> 848)
    \<and> EndpointDescriptor_decode mc bs \<noteq> Panic"
  using minicbor_spec.EndpointDescriptor_decode_sound [OF assms]
    minicbor_spec.EndpointDescriptor_decode_complete [OF assms]
    minicbor_spec.EndpointDescriptor_length [OF assms]
    minicbor_spec.EndpointDescriptor_decode_no_panic [OF assms]
  by blast

theorem endpoint_descriptor_exact_witness:
  "EndpointDescriptor_decode rfc8949 ([0x88, 1, 0x63, 0x70, 0x2D, 0x31, 7, 9, 0x61, 0x4C, 1, 1,
       0x58, 32] @ replicate 32 6)
     = Ok \<lparr>ed_pipe_name = ascii ''p-1'', ed_agent_process_id = 7,
         ed_agent_process_creation_time = 9, ed_package_full_name = ascii ''L'',
         ed_minimum_major = 1, ed_maximum_major = 1, ed_startup_nonce = replicate 32 6\<rparr>"
  unfolding conjunct1 [OF endpoint_descriptor_exact [OF rfc.minicbor_spec_axioms]]
  by (simp add: EndpointDescriptor_valid_def EndpointDescriptor_encode_eq rfc8949_def enc_head_def
      ascii_def utf8_valid_ascii)

end
