(* ===== verification/Protocol_Envelope.thy ===== *)
theory Protocol_Envelope
  imports Protocol_Message
begin

text \<open>
  The request and response envelopes of crates/agent-protocol/src/message.rs. Both encode into a
  \<open>SecretWriter\<close> of exactly \<open>MAX_PAYLOAD_BYTES\<close>: an envelope that did not fit would panic. The
  development shows that valid envelopes always fit, that both are canonical codecs, and that
  \<open>encoded_len\<close> is the exact size of a response.
\<close>

section \<open>RequestEnvelope\<close>

record request_envelope =
  rq_operation :: operation_code
  rq_unlock_epoch :: u64
  rq_timeout_ms :: u32
  rq_idempotency_key :: "bytes option"
  rq_body :: bytes

definition RequestEnvelope_new ::
    "operation_code \<Rightarrow> u64 \<Rightarrow> u32 \<Rightarrow> bytes option \<Rightarrow> bytes
       \<Rightarrow> (request_envelope, protocol_error) result" where
  "RequestEnvelope_new operation unlock_epoch timeout_ms idempotency_key body =
     (if timeout_ms = 0 \<or> length body > MAX_REQUEST_BODY_BYTES
         \<or> (idempotency_key \<noteq> None \<and> \<not> requires_idempotency_key operation)
      then Err InvariantViolation
      else Ok \<lparr>rq_operation = operation, rq_unlock_epoch = unlock_epoch, rq_timeout_ms = timeout_ms,
               rq_idempotency_key = idempotency_key, rq_body = body\<rparr>)"

definition RequestEnvelope_encode ::
    "minicbor \<Rightarrow> request_envelope \<Rightarrow> (bytes, protocol_error) result" where
  "RequestEnvelope_encode mc r =
     and_then (expect_some (into_bytes (do {
       w \<leftarrow> encode_array mc 5 (SecretWriter_with_capacity MAX_PAYLOAD_BYTES);
       w \<leftarrow> encode_u16 mc (OperationCode_code (rq_operation r)) w;
       w \<leftarrow> encode_u64 mc (rq_unlock_epoch r) w;
       w \<leftarrow> encode_u32 mc (rq_timeout_ms r) w;
       w \<leftarrow> (case rq_idempotency_key r of None \<Rightarrow> encode_null mc w | Some key \<Rightarrow> encode_bytes mc key w);
       encode_bytes mc (rq_body r) w }))) (\<lambda>bs.
     if length bs > MAX_PAYLOAD_BYTES then Err TooLarge else Ok bs)"

definition RequestEnvelope_decode ::
    "minicbor \<Rightarrow> bytes \<Rightarrow> (request_envelope, protocol_error) result" where
  "RequestEnvelope_decode mc bs =
     (if length bs > MAX_PAYLOAD_BYTES then Err TooLarge else
      and_then (expect_array mc 5 bs) (\<lambda>d.
      and_then (decode_u16 mc d) (\<lambda>(raw_operation, d).
      and_then (ok_or Unsupported (OperationCode_from_u64 (ucast raw_operation))) (\<lambda>operation.
      and_then (decode_u64 mc d) (\<lambda>(unlock_epoch, d).
      and_then (decode_u32 mc d) (\<lambda>(timeout_ms, d).
      and_then (decode_optional_fixed_bytes mc 16 d) (\<lambda>(idempotency_key, d).
      and_then (decode_bounded_bytes mc MAX_REQUEST_BODY_BYTES d) (\<lambda>(body, d).
      and_then (require_end d bs) (\<lambda>_.
      and_then (RequestEnvelope_new operation unlock_epoch timeout_ms idempotency_key body)
        (\<lambda>request.
      and_then (RequestEnvelope_encode mc request) (\<lambda>enc.
      if enc \<noteq> bs then Err NonCanonical else Ok request)))))))))))"

definition RequestEnvelope_peek_operation ::
    "minicbor \<Rightarrow> bytes \<Rightarrow> (operation_code, protocol_error) result" where
  "RequestEnvelope_peek_operation mc bs =
     (if length bs > MAX_PAYLOAD_BYTES then Err TooLarge else
      and_then (expect_array mc 5 bs) (\<lambda>d.
      and_then (decode_u16 mc d) (\<lambda>(raw_operation, d).
      ok_or Unsupported (OperationCode_from_u64 (ucast raw_operation)))))"

definition RequestEnvelope_valid :: "request_envelope \<Rightarrow> bool" where
  "RequestEnvelope_valid r \<longleftrightarrow>
     rq_timeout_ms r \<noteq> 0 \<and> length (rq_body r) \<le> MAX_REQUEST_BODY_BYTES
     \<and> (\<forall>key. rq_idempotency_key r = Some key \<longrightarrow>
          length key = 16 \<and> requires_idempotency_key (rq_operation r))"

definition RequestEnvelope_wire :: "minicbor \<Rightarrow> request_envelope \<Rightarrow> bytes" where
  "RequestEnvelope_wire mc r = enc_array mc 5 @ enc_u16 mc (OperationCode_code (rq_operation r))
     @ enc_u64 mc (rq_unlock_epoch r) @ enc_u32 mc (rq_timeout_ms r)
     @ (case rq_idempotency_key r of None \<Rightarrow> enc_null mc | Some key \<Rightarrow> enc_bytes mc key)
     @ enc_bytes mc (rq_body r)"

lemma RequestEnvelope_encode_eq:
  "RequestEnvelope_encode mc r =
     (if length (RequestEnvelope_wire mc r) \<le> 65536 then Ok (RequestEnvelope_wire mc r) else Panic)"
  by (cases "rq_idempotency_key r")
    (simp_all add: RequestEnvelope_encode_def RequestEnvelope_wire_def encode_simps)

lemma RequestEnvelope_new_Ok:
  "RequestEnvelope_new op u t k b = Ok r \<longleftrightarrow>
     r = \<lparr>rq_operation = op, rq_unlock_epoch = u, rq_timeout_ms = t, rq_idempotency_key = k,
          rq_body = b\<rparr>
     \<and> t \<noteq> 0 \<and> length b \<le> 65408 \<and> (k \<noteq> None \<longrightarrow> requires_idempotency_key op)"
  by (auto simp: RequestEnvelope_new_def)

context minicbor_spec
begin

lemma RequestEnvelope_fits:
  assumes "length (rq_body r) \<le> 65408"
    and "\<And>key. rq_idempotency_key r = Some key \<Longrightarrow> length key = 16"
  shows "length (RequestEnvelope_wire mc r) \<le> 65536"
proof -
  have key: "length (case rq_idempotency_key r of None \<Rightarrow> enc_null mc | Some key \<Rightarrow> enc_bytes mc key) \<le> 19"
    using assms(2) by (simp add: head_len_def split: option.split)
  show ?thesis unfolding RequestEnvelope_wire_def
    by (insert assms(1), rule order_trans, (rule enc_bounds key | simp)+)
qed

lemma RequestEnvelope_encode_valid:
  "RequestEnvelope_valid r \<Longrightarrow> RequestEnvelope_encode mc r = Ok (RequestEnvelope_wire mc r)"
  using RequestEnvelope_fits [of r] by (simp add: RequestEnvelope_encode_eq RequestEnvelope_valid_def)

lemma RequestEnvelope_decode_sound:
  assumes "RequestEnvelope_decode mc bs = Ok r"
  shows "RequestEnvelope_valid r \<and> ok (RequestEnvelope_encode mc r) = Some bs"
  using assms
  by (auto simp: RequestEnvelope_decode_def RequestEnvelope_valid_def RequestEnvelope_new_Ok
      result_simps split: if_splits prod.splits dest: decode_ok)

lemma RequestEnvelope_decode_complete:
  assumes "RequestEnvelope_valid r" and "ok (RequestEnvelope_encode mc r) = Some bs"
  shows "RequestEnvelope_decode mc bs = Ok r"
proof -
  have v: "length (rq_body r) \<le> 65408"
    "\<And>key. rq_idempotency_key r = Some key \<Longrightarrow> length key = 16"
    using assms(1) by (simp_all add: RequestEnvelope_valid_def)
  note enc = RequestEnvelope_encode_valid [OF assms(1)]
  have bs: "bs = RequestEnvelope_wire mc r" using assms(2) enc by simp
  have len: "length bs \<le> 65536" unfolding bs using v by (rule RequestEnvelope_fits)
  have new: "RequestEnvelope_new (rq_operation r) (rq_unlock_epoch r) (rq_timeout_ms r)
      (rq_idempotency_key r) (rq_body r) = Ok r"
    using assms(1) by (auto simp: RequestEnvelope_new_Ok RequestEnvelope_valid_def)
  have key: "decode_optional_fixed_bytes mc 16
      ((case rq_idempotency_key r of None \<Rightarrow> enc_null mc | Some key \<Rightarrow> enc_bytes mc key) @ rest)
      = Ok (rq_idempotency_key r, rest)" for rest
    using v(2) by (cases "rq_idempotency_key r") simp_all
  show ?thesis
    using len enc new v(1) unfolding RequestEnvelope_decode_def
    by (simp add: bs) (simp add: RequestEnvelope_wire_def code_simps key)
qed

lemma RequestEnvelope_decode_no_panic: "RequestEnvelope_decode mc bs \<noteq> Panic"
proof
  assume "RequestEnvelope_decode mc bs = Panic"
  then obtain r d d' d'' where enc: "RequestEnvelope_encode mc r = Panic"
    and body: "decode_bounded_bytes mc 65408 d = Ok (rq_body r, d')"
    and key: "decode_optional_fixed_bytes mc 16 d'' = Ok (rq_idempotency_key r, d)"
    by (auto simp: RequestEnvelope_decode_def RequestEnvelope_new_def result_simps no_panic
        split: if_splits prod.splits)
  have "length (RequestEnvelope_wire mc r) \<le> 65536"
  proof (rule RequestEnvelope_fits)
    show "length (rq_body r) \<le> 65408" using body by (rule decode_ok)
    show "length k = 16" if "rq_idempotency_key r = Some k" for k
      using key [unfolded that] by (rule decode_ok)
  qed
  with enc show False by (simp add: RequestEnvelope_encode_eq)
qed

lemma peek_operation_agrees:
  "RequestEnvelope_decode mc bs = Ok r \<Longrightarrow> RequestEnvelope_peek_operation mc bs = Ok (rq_operation r)"
  by (auto simp: RequestEnvelope_decode_def RequestEnvelope_peek_operation_def
      RequestEnvelope_new_Ok result_simps split: if_splits prod.splits)

end

sublocale minicbor_spec \<subseteq> request: canonical_codec
  "\<lambda>r. ok (RequestEnvelope_encode mc r)" "RequestEnvelope_decode mc" RequestEnvelope_valid
  by unfold_locales (use RequestEnvelope_decode_sound RequestEnvelope_decode_complete in blast,
      simp add: RequestEnvelope_encode_valid, rule RequestEnvelope_decode_no_panic)

section \<open>ResponseEnvelope\<close>

record response_envelope =
  rs_error :: "public_error_code option"
  rs_retry :: retry_category
  rs_correlation_id :: bytes
  rs_body :: bytes

definition ResponseEnvelope_new ::
    "public_error_code option \<Rightarrow> retry_category \<Rightarrow> bytes \<Rightarrow> bytes
       \<Rightarrow> (response_envelope, protocol_error) result" where
  "ResponseEnvelope_new error retry correlation_id body =
     (if length body > MAX_RESPONSE_BODY_BYTES \<or> (error \<noteq> None \<and> body \<noteq> [])
         \<or> (error = None \<and> retry \<noteq> Retry_Never) \<or> correlation_id = zeros 16
      then Err InvariantViolation
      else Ok \<lparr>rs_error = error, rs_retry = retry, rs_correlation_id = correlation_id,
               rs_body = body\<rparr>)"

definition ResponseEnvelope_success :: "bytes \<Rightarrow> bytes \<Rightarrow> (response_envelope, protocol_error) result" where
  "ResponseEnvelope_success correlation_id body =
     ResponseEnvelope_new None Retry_Never correlation_id body"

definition ResponseEnvelope_failure ::
    "public_error_code \<Rightarrow> retry_category \<Rightarrow> bytes \<Rightarrow> (response_envelope, protocol_error) result" where
  "ResponseEnvelope_failure error retry correlation_id =
     ResponseEnvelope_new (Some error) retry correlation_id []"

definition encoded_byte_string_len :: "nat \<Rightarrow> nat" where
  "encoded_byte_string_len n =
     (let header = (if n < 24 then 1 else if n < 2 ^ 8 then 2 else if n < 2 ^ 16 then 3
                    else if n < 2 ^ 32 then 5 else 9)
      in header + n)"

definition ResponseEnvelope_encoded_len :: "response_envelope \<Rightarrow> nat" where
  "ResponseEnvelope_encoded_len r = 20 + encoded_byte_string_len (length (rs_body r))"

definition ResponseEnvelope_encode ::
    "minicbor \<Rightarrow> response_envelope \<Rightarrow> (bytes, protocol_error) result" where
  "ResponseEnvelope_encode mc r =
     and_then (expect_some (into_bytes (do {
       w \<leftarrow> encode_array mc 4 (SecretWriter_with_capacity MAX_PAYLOAD_BYTES);
       w \<leftarrow> encode_u8 mc (case rs_error r of None \<Rightarrow> 0 | Some e \<Rightarrow> PublicErrorCode_code e) w;
       w \<leftarrow> encode_u8 mc (RetryCategory_code (rs_retry r)) w;
       w \<leftarrow> encode_bytes mc (rs_correlation_id r) w;
       encode_bytes mc (rs_body r) w }))) (\<lambda>bs.
     if length bs > MAX_PAYLOAD_BYTES then Err TooLarge else Ok bs)"

definition ResponseEnvelope_decode ::
    "minicbor \<Rightarrow> bytes \<Rightarrow> (response_envelope, protocol_error) result" where
  "ResponseEnvelope_decode mc bs =
     (if length bs > MAX_PAYLOAD_BYTES then Err TooLarge else
      and_then (expect_array mc 4 bs) (\<lambda>d.
      and_then (decode_u8 mc d) (\<lambda>(raw_error, d).
      and_then (if raw_error = 0 then Ok None
                else and_then (ok_or Unsupported (PublicErrorCode_from_u64 (ucast raw_error)))
                       (\<lambda>e. Ok (Some e))) (\<lambda>error.
      and_then (decode_u8 mc d) (\<lambda>(raw_retry, d).
      and_then (ok_or Unsupported (RetryCategory_from_u64 (ucast raw_retry))) (\<lambda>retry.
      and_then (decode_fixed_bytes mc 16 d) (\<lambda>(correlation_id, d).
      and_then (decode_bounded_bytes mc MAX_RESPONSE_BODY_BYTES d) (\<lambda>(body, d).
      and_then (require_end d bs) (\<lambda>_.
      and_then (ResponseEnvelope_new error retry correlation_id body) (\<lambda>response.
      and_then (ResponseEnvelope_encode mc response) (\<lambda>enc.
      if enc \<noteq> bs then Err NonCanonical else Ok response)))))))))))"

definition ResponseEnvelope_valid :: "response_envelope \<Rightarrow> bool" where
  "ResponseEnvelope_valid r \<longleftrightarrow>
     length (rs_body r) \<le> MAX_RESPONSE_BODY_BYTES
     \<and> (rs_error r \<noteq> None \<longrightarrow> rs_body r = []) \<and> (rs_error r = None \<longrightarrow> rs_retry r = Retry_Never)
     \<and> length (rs_correlation_id r) = 16 \<and> rs_correlation_id r \<noteq> zeros 16"

definition ResponseEnvelope_wire :: "minicbor \<Rightarrow> response_envelope \<Rightarrow> bytes" where
  "ResponseEnvelope_wire mc r = enc_array mc 4
     @ enc_u8 mc (case rs_error r of None \<Rightarrow> 0 | Some e \<Rightarrow> PublicErrorCode_code e)
     @ enc_u8 mc (RetryCategory_code (rs_retry r)) @ enc_bytes mc (rs_correlation_id r)
     @ enc_bytes mc (rs_body r)"

lemma ResponseEnvelope_encode_eq:
  "ResponseEnvelope_encode mc r =
     (if length (ResponseEnvelope_wire mc r) \<le> 65536 then Ok (ResponseEnvelope_wire mc r) else Panic)"
  by (simp add: ResponseEnvelope_encode_def ResponseEnvelope_wire_def encode_simps)

lemma ResponseEnvelope_new_Ok:
  "ResponseEnvelope_new e t c b = Ok r \<longleftrightarrow>
     r = \<lparr>rs_error = e, rs_retry = t, rs_correlation_id = c, rs_body = b\<rparr>
     \<and> length b \<le> 65440 \<and> (e \<noteq> None \<longrightarrow> b = []) \<and> (e = None \<longrightarrow> t = Retry_Never) \<and> c \<noteq> zeros 16"
  by (auto simp: ResponseEnvelope_new_def)

lemma response_code_small:
  "head_len (unat (case e of None \<Rightarrow> 0 | Some e \<Rightarrow> PublicErrorCode_code e)) = 1"
  "head_len (unat (RetryCategory_code r)) = 1"
proof -
  show "head_len (unat (case e of None \<Rightarrow> 0 | Some e \<Rightarrow> PublicErrorCode_code e)) = 1"
  proof (cases e)
    case (Some c)
    then show ?thesis by (cases c) (simp_all add: head_len_def)
  qed (simp add: head_len_def)
  show "head_len (unat (RetryCategory_code r)) = 1"
    by (cases r) (simp_all add: head_len_def)
qed

context minicbor_spec
begin

lemma ResponseEnvelope_wire_length:
  assumes "length (rs_correlation_id r) = 16" and "length (rs_body r) \<le> 65440"
  shows "length (ResponseEnvelope_wire mc r) = ResponseEnvelope_encoded_len r"
  using assms
  by (simp add: ResponseEnvelope_wire_def ResponseEnvelope_encoded_len_def response_code_small
      encoded_byte_string_len_def) (simp add: head_len_def)

lemma ResponseEnvelope_fits:
  assumes "length (rs_correlation_id r) = 16" and "length (rs_body r) \<le> 65440"
  shows "length (ResponseEnvelope_wire mc r) \<le> 65536"
  using assms
  by (simp add: ResponseEnvelope_wire_length ResponseEnvelope_encoded_len_def
      encoded_byte_string_len_def)

lemma ResponseEnvelope_encode_valid:
  "ResponseEnvelope_valid r \<Longrightarrow> ResponseEnvelope_encode mc r = Ok (ResponseEnvelope_wire mc r)"
  using ResponseEnvelope_fits [of r]
  by (simp add: ResponseEnvelope_encode_eq ResponseEnvelope_valid_def)

lemma ResponseEnvelope_decode_sound:
  assumes "ResponseEnvelope_decode mc bs = Ok r"
  shows "ResponseEnvelope_valid r \<and> ok (ResponseEnvelope_encode mc r) = Some bs"
  using assms
  by (auto simp: ResponseEnvelope_decode_def ResponseEnvelope_valid_def ResponseEnvelope_new_Ok
      result_simps split: if_splits prod.splits dest: decode_ok)

lemma ResponseEnvelope_decode_complete:
  assumes "ResponseEnvelope_valid r" and "ok (ResponseEnvelope_encode mc r) = Some bs"
  shows "ResponseEnvelope_decode mc bs = Ok r"
proof -
  have v: "length (rs_body r) \<le> 65440" "length (rs_correlation_id r) = 16"
    using assms(1) by (simp_all add: ResponseEnvelope_valid_def)
  note enc = ResponseEnvelope_encode_valid [OF assms(1)]
  have bs: "bs = ResponseEnvelope_wire mc r" using assms(2) enc by simp
  have len: "length bs \<le> 65536" unfolding bs using v(2,1) by (rule ResponseEnvelope_fits)
  have new: "ResponseEnvelope_new (rs_error r) (rs_retry r) (rs_correlation_id r) (rs_body r) = Ok r"
    using assms(1) by (auto simp: ResponseEnvelope_new_Ok ResponseEnvelope_valid_def)
  have err: "(let c = (case rs_error r of None \<Rightarrow> 0 | Some e \<Rightarrow> PublicErrorCode_code e) in
      if c = 0 then Ok None
      else and_then (ok_or Unsupported (PublicErrorCode_from_u64 (ucast c))) (\<lambda>e. Ok (Some e)))
      = Ok (rs_error r)"
    by (cases "rs_error r") (simp_all add: code_simps)
  show ?thesis
    using len enc new v err [unfolded Let_def] unfolding ResponseEnvelope_decode_def
    by (simp add: bs) (simp add: ResponseEnvelope_wire_def code_simps)
qed

lemma ResponseEnvelope_decode_no_panic: "ResponseEnvelope_decode mc bs \<noteq> Panic"
proof
  assume "ResponseEnvelope_decode mc bs = Panic"
  then obtain r d body d' c d'' where "ResponseEnvelope_encode mc r = Panic"
    and "decode_bounded_bytes mc 65440 d = Ok (body, d')" and "rs_body r = body"
    and "decode_fixed_bytes mc 16 d'' = Ok (c, d)" and "rs_correlation_id r = c"
    by (auto simp: ResponseEnvelope_decode_def ResponseEnvelope_new_def result_simps no_panic
        split: if_splits prod.splits)
  then show False
    using ResponseEnvelope_fits [of r]
    by (auto simp: ResponseEnvelope_encode_eq split: if_splits dest: decode_ok)
qed

end

sublocale minicbor_spec \<subseteq> response: canonical_codec
  "\<lambda>r. ok (ResponseEnvelope_encode mc r)" "ResponseEnvelope_decode mc" ResponseEnvelope_valid
  by unfold_locales (use ResponseEnvelope_decode_sound ResponseEnvelope_decode_complete in blast,
      simp add: ResponseEnvelope_encode_valid, rule ResponseEnvelope_decode_no_panic)

section \<open>Properties\<close>

text \<open>A request envelope has exactly one accepted encoding: a byte string decodes to a request
  if and only if it is its encoding, the timeout is not zero, the body is at most 65408 bytes, and
  an idempotency key is a 16-byte value given only to an operation that takes one.
  Peeking at the operation before authorisation reports the operation the full decoder reports,
  and neither decoder nor encoder panics on what the decoder accepts.\<close>

theorem request_envelope_exact:
  assumes "minicbor_spec mc"
  shows "(RequestEnvelope_decode mc bs = Ok r \<longleftrightarrow>
        rq_timeout_ms r \<noteq> 0 \<and> length (rq_body r) \<le> MAX_REQUEST_BODY_BYTES
        \<and> (\<forall>key. rq_idempotency_key r = Some key \<longrightarrow>
              length key = 16 \<and> requires_idempotency_key (rq_operation r))
        \<and> RequestEnvelope_encode mc r = Ok bs)
    \<and> (RequestEnvelope_decode mc bs = Ok r
         \<longrightarrow> RequestEnvelope_peek_operation mc bs = Ok (rq_operation r))
    \<and> RequestEnvelope_decode mc bs \<noteq> Panic"
  using minicbor_spec.RequestEnvelope_decode_sound [OF assms, of bs r]
    minicbor_spec.RequestEnvelope_decode_complete [OF assms, of r bs]
    minicbor_spec.peek_operation_agrees [OF assms, of bs r]
    minicbor_spec.RequestEnvelope_decode_no_panic [OF assms, of bs]
  unfolding RequestEnvelope_valid_def ok_Some by blast

theorem request_envelope_exact_witness:
  "RequestEnvelope_decode rfc8949 [0x85, 6, 11, 0x19, 0x13, 0x88, 0xF6, 0x43, 1, 2, 3]
     = Ok \<lparr>rq_operation = Op_GetAccount, rq_unlock_epoch = 11, rq_timeout_ms = 5000,
         rq_idempotency_key = None, rq_body = [1, 2, 3]\<rparr>"
  unfolding conjunct1 [OF request_envelope_exact [OF rfc.minicbor_spec_axioms]]
  by (simp add: RequestEnvelope_encode_eq RequestEnvelope_wire_def rfc8949_def enc_head_def
      be_encode_numeral)

text \<open>A response envelope has exactly one accepted encoding: an error response carries no body,
  a success carries the retry category \<open>Never\<close>, the correlation identifier is not zero; the size
  computed before encoding is the size of the encoding.\<close>

theorem response_envelope_exact:
  assumes "minicbor_spec mc"
  shows "(ResponseEnvelope_decode mc bs = Ok r \<longleftrightarrow>
        length (rs_body r) \<le> MAX_RESPONSE_BODY_BYTES \<and> (rs_error r \<noteq> None \<longrightarrow> rs_body r = [])
        \<and> (rs_error r = None \<longrightarrow> rs_retry r = Retry_Never)
        \<and> length (rs_correlation_id r) = 16 \<and> rs_correlation_id r \<noteq> zeros 16
        \<and> ResponseEnvelope_encode mc r = Ok bs)
    \<and> (ResponseEnvelope_decode mc bs = Ok r \<longrightarrow> length bs = ResponseEnvelope_encoded_len r)
    \<and> ResponseEnvelope_decode mc bs \<noteq> Panic"
proof -
  have "length bs = ResponseEnvelope_encoded_len r" if "ResponseEnvelope_decode mc bs = Ok r"
    using minicbor_spec.ResponseEnvelope_decode_sound [OF assms that]
      minicbor_spec.ResponseEnvelope_encode_valid [OF assms, of r]
      minicbor_spec.ResponseEnvelope_wire_length [OF assms, of r]
    by (auto simp: ResponseEnvelope_valid_def)
  moreover have "ResponseEnvelope_decode mc bs = Ok r \<longleftrightarrow>
      ResponseEnvelope_valid r \<and> ResponseEnvelope_encode mc r = Ok bs"
    using minicbor_spec.ResponseEnvelope_decode_sound [OF assms, of bs r]
      minicbor_spec.ResponseEnvelope_decode_complete [OF assms, of r bs]
    unfolding ok_Some by blast
  ultimately show ?thesis
    using minicbor_spec.ResponseEnvelope_decode_no_panic [OF assms, of bs]
    unfolding ResponseEnvelope_valid_def conj_assoc by simp
qed

theorem response_envelope_exact_witness:
  "ResponseEnvelope_decode rfc8949 ([0x84, 6, 4, 0x50] @ replicate 16 8 @ [0x40])
     = Ok \<lparr>rs_error = Some Code_Busy, rs_retry = Retry_Backoff, rs_correlation_id = replicate 16 8,
         rs_body = []\<rparr>"
  unfolding conjunct1 [OF response_envelope_exact [OF rfc.minicbor_spec_axioms]]
  by (simp add: ResponseEnvelope_encode_eq ResponseEnvelope_wire_def rfc8949_def enc_head_def)

end
