(* ===== verification/Protocol_Operations.thy ===== *)
theory Protocol_Operations
  imports Protocol_Browser Protocol_Envelope
begin

text \<open>
  The strict operation bodies (crates/agent-protocol/src/operations.rs, requests): one constructor
  per operation, decoding by operation code with the bound of every field, and encoding into a
  bounded \<open>SecretWriter\<close>. For every operation the body codec is shown canonical and panic-free:
  every accepted body re-encodes within the writer's capacity.
\<close>

section \<open>Limits\<close>

definition MAX_MASTER_PASSWORD_BYTES :: nat where [simp]: "MAX_MASTER_PASSWORD_BYTES = 1024"
definition MAX_SERVICE_NAME_BYTES :: nat where [simp]: "MAX_SERVICE_NAME_BYTES = 256"
definition MAX_ORIGIN_BYTES :: nat where [simp]: "MAX_ORIGIN_BYTES = 2048"
definition MAX_USERNAME_BYTES :: nat where [simp]: "MAX_USERNAME_BYTES = 1024"
definition MAX_PASSWORD_BYTES :: nat where [simp]: "MAX_PASSWORD_BYTES = 16 * 1024"
definition MAX_PASSKEY_ENCODED_REQUEST_BYTES :: nat where
  [simp]: "MAX_PASSKEY_ENCODED_REQUEST_BYTES = 48 * 1024"
definition MAX_PASSKEY_SIGNATURE_BYTES :: nat where [simp]: "MAX_PASSKEY_SIGNATURE_BYTES = 2 * 1024"
definition PASSKEY_CREDENTIAL_ID_BYTES :: nat where [simp]: "PASSKEY_CREDENTIAL_ID_BYTES = 32"
definition CTAP2_CBOR_REQUEST_TYPE :: u8 where [simp]: "CTAP2_CBOR_REQUEST_TYPE = 1"
definition MAX_LIST_PAGE_SIZE :: u16 where [simp]: "MAX_LIST_PAGE_SIZE = 100"

section \<open>Field groups\<close>

record account_fields =
  af_service_name :: bytes
  af_permitted_origin :: bytes
  af_username :: bytes
  af_password :: bytes

record passkey_request_proof =
  pp_transaction_id :: bytes
  pp_request_type :: u8
  pp_request_signature :: bytes
  pp_encoded_request :: bytes

record passkey_transaction_proof =
  pt_request :: passkey_request_proof
  pt_agent_challenge :: bytes
  pt_user_verification_signature :: bytes

definition PasskeyRequestProof_new ::
    "bytes \<Rightarrow> u8 \<Rightarrow> bytes \<Rightarrow> bytes \<Rightarrow> (passkey_request_proof, protocol_error) result" where
  "PasskeyRequestProof_new transaction_id request_type request_signature encoded_request =
     (if transaction_id = zeros 16 \<or> request_type \<noteq> CTAP2_CBOR_REQUEST_TYPE
         \<or> request_signature = [] \<or> encoded_request = []
      then Err InvariantViolation
      else if length request_signature > MAX_PASSKEY_SIGNATURE_BYTES
              \<or> length encoded_request > MAX_PASSKEY_ENCODED_REQUEST_BYTES
      then Err TooLarge
      else Ok \<lparr>pp_transaction_id = transaction_id, pp_request_type = request_type,
               pp_request_signature = request_signature, pp_encoded_request = encoded_request\<rparr>)"

definition PasskeyTransactionProof_new ::
    "bytes \<Rightarrow> u8 \<Rightarrow> bytes \<Rightarrow> bytes \<Rightarrow> bytes \<Rightarrow> bytes
       \<Rightarrow> (passkey_transaction_proof, protocol_error) result" where
  "PasskeyTransactionProof_new transaction_id request_type request_signature encoded_request
       agent_challenge user_verification_signature =
     (if agent_challenge = zeros 16 \<or> user_verification_signature = [] then Err InvariantViolation
      else if length user_verification_signature > MAX_PASSKEY_SIGNATURE_BYTES then Err TooLarge
      else
        and_then (PasskeyRequestProof_new transaction_id request_type request_signature
                    encoded_request) (\<lambda>request.
        Ok \<lparr>pt_request = request, pt_agent_challenge = agent_challenge,
            pt_user_verification_signature = user_verification_signature\<rparr>))"

definition AccountFields_new ::
    "bytes \<Rightarrow> bytes \<Rightarrow> bytes \<Rightarrow> bytes \<Rightarrow> (account_fields, protocol_error) result" where
  "AccountFields_new service_name permitted_origin username password =
     (if length service_name > MAX_SERVICE_NAME_BYTES \<or> length permitted_origin > MAX_ORIGIN_BYTES
         \<or> length username > MAX_USERNAME_BYTES \<or> length password > MAX_PASSWORD_BYTES
      then Err TooLarge
      else Ok \<lparr>af_service_name = service_name, af_permitted_origin = permitted_origin,
               af_username = username, af_password = password\<rparr>)"

section \<open>Operation bodies\<close>

datatype operation_request =
    Req_Status
  | Req_ExactOriginMatches browser_context
  | Req_GetSelectedCredential browser_context browser_selection
  | Req_CreateVault bytes
  | Req_UnlockMasterPassword bytes
  | Req_Lock
  | Req_ListAccountSummaries u32 u16
  | Req_GetAccount bytes
  | Req_AddAccount account_fields
  | Req_UpdateAccount bytes account_fields
  | Req_DeleteAccount bytes
  | Req_EnrollWindowsHello u64
  | Req_UnlockWindowsHello u64
  | Req_RemoveWindowsHello
  | Req_MakePasskey passkey_transaction_proof
  | Req_GetPasskeyAssertion passkey_transaction_proof bytes
  | Req_DeletePasskey bytes
  | Req_ListPasskeysForAssertion passkey_request_proof
  | Req_ListPasskeys
  | Req_ConfirmPasskeyCreation passkey_transaction_proof bytes
  | Req_RollbackPasskeyCreation passkey_transaction_proof bytes

fun OperationRequest_operation :: "operation_request \<Rightarrow> operation_code" where
  "OperationRequest_operation Req_Status = Op_Status"
| "OperationRequest_operation (Req_ExactOriginMatches _) = Op_ExactOriginMatches"
| "OperationRequest_operation (Req_GetSelectedCredential _ _) = Op_GetSelectedCredential"
| "OperationRequest_operation (Req_CreateVault _) = Op_CreateVault"
| "OperationRequest_operation (Req_UnlockMasterPassword _) = Op_UnlockMasterPassword"
| "OperationRequest_operation Req_Lock = Op_Lock"
| "OperationRequest_operation (Req_ListAccountSummaries _ _) = Op_ListAccountSummaries"
| "OperationRequest_operation (Req_GetAccount _) = Op_GetAccount"
| "OperationRequest_operation (Req_AddAccount _) = Op_AddAccount"
| "OperationRequest_operation (Req_UpdateAccount _ _) = Op_UpdateAccount"
| "OperationRequest_operation (Req_DeleteAccount _) = Op_DeleteAccount"
| "OperationRequest_operation (Req_EnrollWindowsHello _) = Op_EnrollWindowsHello"
| "OperationRequest_operation (Req_UnlockWindowsHello _) = Op_UnlockWindowsHello"
| "OperationRequest_operation Req_RemoveWindowsHello = Op_RemoveWindowsHello"
| "OperationRequest_operation (Req_MakePasskey _) = Op_MakePasskey"
| "OperationRequest_operation (Req_GetPasskeyAssertion _ _) = Op_GetPasskeyAssertion"
| "OperationRequest_operation (Req_DeletePasskey _) = Op_DeletePasskey"
| "OperationRequest_operation (Req_ListPasskeysForAssertion _) = Op_ListPasskeysForAssertion"
| "OperationRequest_operation Req_ListPasskeys = Op_ListPasskeys"
| "OperationRequest_operation (Req_ConfirmPasskeyCreation _ _) = Op_ConfirmPasskeyCreation"
| "OperationRequest_operation (Req_RollbackPasskeyCreation _ _) = Op_RollbackPasskeyCreation"

fun OperationRequest_master_password :: "operation_request \<Rightarrow> bytes option" where
  "OperationRequest_master_password (Req_CreateVault p) = Some p"
| "OperationRequest_master_password (Req_UnlockMasterPassword p) = Some p"
| "OperationRequest_master_password _ = None"

fun OperationRequest_list_window :: "operation_request \<Rightarrow> (u32 \<times> u16) option" where
  "OperationRequest_list_window (Req_ListAccountSummaries offset limit) = Some (offset, limit)"
| "OperationRequest_list_window _ = None"

fun OperationRequest_account_id :: "operation_request \<Rightarrow> bytes option" where
  "OperationRequest_account_id (Req_GetAccount i) = Some i"
| "OperationRequest_account_id (Req_UpdateAccount i _) = Some i"
| "OperationRequest_account_id (Req_DeleteAccount i) = Some i"
| "OperationRequest_account_id _ = None"

fun OperationRequest_account_fields :: "operation_request \<Rightarrow> account_fields option" where
  "OperationRequest_account_fields (Req_AddAccount f) = Some f"
| "OperationRequest_account_fields (Req_UpdateAccount _ f) = Some f"
| "OperationRequest_account_fields _ = None"

fun OperationRequest_parent_window :: "operation_request \<Rightarrow> u64 option" where
  "OperationRequest_parent_window (Req_EnrollWindowsHello w) = Some w"
| "OperationRequest_parent_window (Req_UnlockWindowsHello w) = Some w"
| "OperationRequest_parent_window _ = None"

fun OperationRequest_passkey_proof :: "operation_request \<Rightarrow> passkey_transaction_proof option" where
  "OperationRequest_passkey_proof (Req_MakePasskey p) = Some p"
| "OperationRequest_passkey_proof (Req_GetPasskeyAssertion p _) = Some p"
| "OperationRequest_passkey_proof (Req_ConfirmPasskeyCreation p _) = Some p"
| "OperationRequest_passkey_proof (Req_RollbackPasskeyCreation p _) = Some p"
| "OperationRequest_passkey_proof _ = None"

fun OperationRequest_passkey_request_proof :: "operation_request \<Rightarrow> passkey_request_proof option" where
  "OperationRequest_passkey_request_proof (Req_MakePasskey p) = Some (pt_request p)"
| "OperationRequest_passkey_request_proof (Req_GetPasskeyAssertion p _) = Some (pt_request p)"
| "OperationRequest_passkey_request_proof (Req_ConfirmPasskeyCreation p _) = Some (pt_request p)"
| "OperationRequest_passkey_request_proof (Req_RollbackPasskeyCreation p _) = Some (pt_request p)"
| "OperationRequest_passkey_request_proof (Req_ListPasskeysForAssertion p) = Some p"
| "OperationRequest_passkey_request_proof _ = None"

fun OperationRequest_passkey_credential_id :: "operation_request \<Rightarrow> bytes option" where
  "OperationRequest_passkey_credential_id (Req_GetPasskeyAssertion _ c) = Some c"
| "OperationRequest_passkey_credential_id (Req_DeletePasskey c) = Some c"
| "OperationRequest_passkey_credential_id (Req_ConfirmPasskeyCreation _ c) = Some c"
| "OperationRequest_passkey_credential_id (Req_RollbackPasskeyCreation _ c) = Some c"
| "OperationRequest_passkey_credential_id _ = None"

section \<open>Decoding\<close>

definition decode_parent_window :: "minicbor \<Rightarrow> bytes \<Rightarrow> (u64 \<times> bytes, protocol_error) result" where
  "decode_parent_window mc d =
     and_then (expect_array mc 1 d) (\<lambda>d.
     and_then (decode_u64 mc d) (\<lambda>(parent_window, d).
     if parent_window \<noteq> 0 then Ok (parent_window, d) else Err InvariantViolation))"

definition decode_browser_request ::
    "minicbor \<Rightarrow> operation_code \<Rightarrow> bytes \<Rightarrow> (operation_request \<times> bytes, protocol_error) result" where
  "decode_browser_request mc operation d =
     (if operation = Op_ExactOriginMatches then
        and_then (expect_array mc 1 d) (\<lambda>d.
        and_then (BrowserContext_decode_from mc d) (\<lambda>(context, d).
        Ok (Req_ExactOriginMatches context, d)))
      else
        and_then (expect_array mc 2 d) (\<lambda>d.
        and_then (BrowserContext_decode_from mc d) (\<lambda>(context, d).
        and_then (BrowserSelection_decode_from mc d) (\<lambda>(selection, d).
        Ok (Req_GetSelectedCredential context selection, d)))))"

definition decode_passkey_request_proof ::
    "minicbor \<Rightarrow> bytes \<Rightarrow> (passkey_request_proof \<times> bytes, protocol_error) result" where
  "decode_passkey_request_proof mc d =
     and_then (decode_fixed_bytes mc 16 d) (\<lambda>(transaction_id, d).
     and_then (decode_u8 mc d) (\<lambda>(request_type, d).
     and_then (decode_bounded_bytes mc MAX_PASSKEY_SIGNATURE_BYTES d) (\<lambda>(request_signature, d).
     and_then (decode_bounded_bytes mc MAX_PASSKEY_ENCODED_REQUEST_BYTES d)
       (\<lambda>(encoded_request, d).
     and_then (PasskeyRequestProof_new transaction_id request_type request_signature
                 encoded_request) (\<lambda>proof. Ok (proof, d))))))"

definition decode_passkey_proof ::
    "minicbor \<Rightarrow> bytes \<Rightarrow> (passkey_transaction_proof \<times> bytes, protocol_error) result" where
  "decode_passkey_proof mc d =
     and_then (decode_passkey_request_proof mc d) (\<lambda>(request, d).
     and_then (decode_fixed_bytes mc 16 d) (\<lambda>(agent_challenge, d).
     and_then (decode_bounded_bytes mc MAX_PASSKEY_SIGNATURE_BYTES d)
       (\<lambda>(user_verification_signature, d).
     and_then (PasskeyTransactionProof_new (pp_transaction_id request) (pp_request_type request)
                 (pp_request_signature request) (pp_encoded_request request) agent_challenge
                 user_verification_signature) (\<lambda>proof. Ok (proof, d)))))"

fun decode_passkey_request ::
    "minicbor \<Rightarrow> operation_code \<Rightarrow> bytes \<Rightarrow> (operation_request \<times> bytes, protocol_error) result" where
  "decode_passkey_request mc Op_MakePasskey d =
     and_then (expect_array mc 6 d) (\<lambda>d.
     and_then (decode_passkey_proof mc d) (\<lambda>(proof, d). Ok (Req_MakePasskey proof, d)))"
| "decode_passkey_request mc Op_GetPasskeyAssertion d =
     and_then (expect_array mc 7 d) (\<lambda>d.
     and_then (decode_passkey_proof mc d) (\<lambda>(proof, d).
     and_then (decode_fixed_bytes mc PASSKEY_CREDENTIAL_ID_BYTES d) (\<lambda>(credential_id, d).
     Ok (Req_GetPasskeyAssertion proof credential_id, d))))"
| "decode_passkey_request mc Op_DeletePasskey d =
     and_then (expect_array mc 1 d) (\<lambda>d.
     and_then (decode_fixed_bytes mc PASSKEY_CREDENTIAL_ID_BYTES d) (\<lambda>(credential_id, d).
     Ok (Req_DeletePasskey credential_id, d)))"
| "decode_passkey_request mc Op_ListPasskeysForAssertion d =
     and_then (expect_array mc 4 d) (\<lambda>d.
     and_then (decode_passkey_request_proof mc d) (\<lambda>(proof, d).
     Ok (Req_ListPasskeysForAssertion proof, d)))"
| "decode_passkey_request mc Op_RollbackPasskeyCreation d =
     and_then (expect_array mc 7 d) (\<lambda>d.
     and_then (decode_passkey_proof mc d) (\<lambda>(proof, d).
     and_then (decode_fixed_bytes mc PASSKEY_CREDENTIAL_ID_BYTES d) (\<lambda>(credential_id, d).
     Ok (Req_RollbackPasskeyCreation proof credential_id, d))))"
| "decode_passkey_request mc Op_ConfirmPasskeyCreation d =
     and_then (expect_array mc 7 d) (\<lambda>d.
     and_then (decode_passkey_proof mc d) (\<lambda>(proof, d).
     and_then (decode_fixed_bytes mc PASSKEY_CREDENTIAL_ID_BYTES d) (\<lambda>(credential_id, d).
     Ok (Req_ConfirmPasskeyCreation proof credential_id, d))))"
| "decode_passkey_request mc _ d = Err Unsupported"

definition decode_secret_text ::
    "minicbor \<Rightarrow> nat \<Rightarrow> bytes \<Rightarrow> (bytes \<times> bytes, protocol_error) result" where
  "decode_secret_text mc maximum d = decode_bounded_text mc maximum d"

definition decode_account_fields ::
    "minicbor \<Rightarrow> bytes \<Rightarrow> (account_fields \<times> bytes, protocol_error) result" where
  "decode_account_fields mc d =
     and_then (decode_secret_text mc MAX_SERVICE_NAME_BYTES d) (\<lambda>(service_name, d).
     and_then (decode_secret_text mc MAX_ORIGIN_BYTES d) (\<lambda>(permitted_origin, d).
     and_then (decode_secret_text mc MAX_USERNAME_BYTES d) (\<lambda>(username, d).
     and_then (decode_secret_text mc MAX_PASSWORD_BYTES d) (\<lambda>(password, d).
     Ok (\<lparr>af_service_name = service_name, af_permitted_origin = permitted_origin,
          af_username = username, af_password = password\<rparr>, d)))))"

text \<open>The \<open>match operation\<close> of \<open>OperationRequest::decode\<close>.\<close>

fun OperationRequest_decode_match ::
    "minicbor \<Rightarrow> operation_code \<Rightarrow> bytes \<Rightarrow> (operation_request \<times> bytes, protocol_error) result" where
  "OperationRequest_decode_match mc Op_Status d =
     and_then (expect_array mc 0 d) (\<lambda>d. Ok (Req_Status, d))"
| "OperationRequest_decode_match mc Op_CreateVault d =
     and_then (expect_array mc 1 d) (\<lambda>d.
     and_then (decode_secret_text mc MAX_MASTER_PASSWORD_BYTES d) (\<lambda>(p, d).
     Ok (Req_CreateVault p, d)))"
| "OperationRequest_decode_match mc Op_UnlockMasterPassword d =
     and_then (expect_array mc 1 d) (\<lambda>d.
     and_then (decode_secret_text mc MAX_MASTER_PASSWORD_BYTES d) (\<lambda>(p, d).
     Ok (Req_UnlockMasterPassword p, d)))"
| "OperationRequest_decode_match mc Op_Lock d =
     and_then (expect_array mc 0 d) (\<lambda>d. Ok (Req_Lock, d))"
| "OperationRequest_decode_match mc Op_ListAccountSummaries d =
     and_then (expect_array mc 2 d) (\<lambda>d.
     and_then (decode_u32 mc d) (\<lambda>(offset, d).
     and_then (decode_u16 mc d) (\<lambda>(limit, d).
     if limit = 0 \<or> limit > MAX_LIST_PAGE_SIZE then Err InvariantViolation
     else Ok (Req_ListAccountSummaries offset limit, d))))"
| "OperationRequest_decode_match mc Op_GetAccount d =
     and_then (expect_array mc 1 d) (\<lambda>d.
     and_then (decode_fixed_bytes mc 16 d) (\<lambda>(i, d). Ok (Req_GetAccount i, d)))"
| "OperationRequest_decode_match mc Op_AddAccount d =
     and_then (expect_array mc 4 d) (\<lambda>d.
     and_then (decode_account_fields mc d) (\<lambda>(fields, d). Ok (Req_AddAccount fields, d)))"
| "OperationRequest_decode_match mc Op_UpdateAccount d =
     and_then (expect_array mc 5 d) (\<lambda>d.
     and_then (decode_fixed_bytes mc 16 d) (\<lambda>(i, d).
     and_then (decode_account_fields mc d) (\<lambda>(fields, d). Ok (Req_UpdateAccount i fields, d))))"
| "OperationRequest_decode_match mc Op_DeleteAccount d =
     and_then (expect_array mc 1 d) (\<lambda>d.
     and_then (decode_fixed_bytes mc 16 d) (\<lambda>(i, d). Ok (Req_DeleteAccount i, d)))"
| "OperationRequest_decode_match mc Op_EnrollWindowsHello d =
     and_then (decode_parent_window mc d) (\<lambda>(w, d). Ok (Req_EnrollWindowsHello w, d))"
| "OperationRequest_decode_match mc Op_UnlockWindowsHello d =
     and_then (decode_parent_window mc d) (\<lambda>(w, d). Ok (Req_UnlockWindowsHello w, d))"
| "OperationRequest_decode_match mc Op_RemoveWindowsHello d =
     and_then (expect_array mc 0 d) (\<lambda>d. Ok (Req_RemoveWindowsHello, d))"
| "OperationRequest_decode_match mc Op_ListPasskeys d =
     and_then (expect_array mc 0 d) (\<lambda>d. Ok (Req_ListPasskeys, d))"
| "OperationRequest_decode_match mc Op_CaptureCredential d = Err Unsupported"
| "OperationRequest_decode_match mc Op_UpdateCredential d = Err Unsupported"
| "OperationRequest_decode_match mc Op_ExactOriginMatches d =
     decode_browser_request mc Op_ExactOriginMatches d"
| "OperationRequest_decode_match mc Op_GetSelectedCredential d =
     decode_browser_request mc Op_GetSelectedCredential d"
| "OperationRequest_decode_match mc operation d = decode_passkey_request mc operation d"

section \<open>Encoding\<close>

definition encode_passkey_request_proof ::
    "minicbor \<Rightarrow> passkey_request_proof \<Rightarrow> writer \<Rightarrow> writer option" where
  "encode_passkey_request_proof mc p w = do {
     w \<leftarrow> encode_bytes mc (pp_transaction_id p) w;
     w \<leftarrow> encode_u8 mc (pp_request_type p) w;
     w \<leftarrow> encode_bytes mc (pp_request_signature p) w;
     encode_bytes mc (pp_encoded_request p) w }"

definition encode_passkey_proof ::
    "minicbor \<Rightarrow> passkey_transaction_proof \<Rightarrow> writer \<Rightarrow> writer option" where
  "encode_passkey_proof mc p w = do {
     w \<leftarrow> encode_passkey_request_proof mc (pt_request p) w;
     w \<leftarrow> encode_bytes mc (pt_agent_challenge p) w;
     encode_bytes mc (pt_user_verification_signature p) w }"

definition encode_account_fields :: "minicbor \<Rightarrow> account_fields \<Rightarrow> writer \<Rightarrow> writer option" where
  "encode_account_fields mc f w = do {
     w \<leftarrow> encode_text mc (af_service_name f) w;
     w \<leftarrow> encode_text mc (af_permitted_origin f) w;
     w \<leftarrow> encode_text mc (af_username f) w;
     encode_text mc (af_password f) w }"

definition checked_request_body :: "bytes \<Rightarrow> (bytes, protocol_error) result" where
  "checked_request_body bs =
     (if length bs > MAX_REQUEST_BODY_BYTES then Err TooLarge else Ok bs)"

text \<open>The \<open>match self\<close> of \<open>OperationRequest::encode\<close>.\<close>

fun OperationRequest_encode_match ::
    "minicbor \<Rightarrow> operation_request \<Rightarrow> writer \<Rightarrow> (writer, protocol_error) result" where
  "OperationRequest_encode_match mc (Req_ExactOriginMatches context) w =
     expect_some (do { w \<leftarrow> encode_array mc 1 w; BrowserContext_encode_into mc context w })"
| "OperationRequest_encode_match mc (Req_GetSelectedCredential context selection) w =
     expect_some (do { w \<leftarrow> encode_array mc 2 w; w \<leftarrow> BrowserContext_encode_into mc context w;
       BrowserSelection_encode_into mc selection w })"
| "OperationRequest_encode_match mc Req_Status w = expect_some (encode_array mc 0 w)"
| "OperationRequest_encode_match mc Req_Lock w = expect_some (encode_array mc 0 w)"
| "OperationRequest_encode_match mc Req_RemoveWindowsHello w = expect_some (encode_array mc 0 w)"
| "OperationRequest_encode_match mc Req_ListPasskeys w = expect_some (encode_array mc 0 w)"
| "OperationRequest_encode_match mc (Req_CreateVault p) w =
     expect_some (do { w \<leftarrow> encode_array mc 1 w; encode_text mc p w })"
| "OperationRequest_encode_match mc (Req_UnlockMasterPassword p) w =
     expect_some (do { w \<leftarrow> encode_array mc 1 w; encode_text mc p w })"
| "OperationRequest_encode_match mc (Req_ListAccountSummaries offset limit) w =
     expect_some (do { w \<leftarrow> encode_array mc 2 w; w \<leftarrow> encode_u32 mc offset w; encode_u16 mc limit w })"
| "OperationRequest_encode_match mc (Req_GetAccount i) w =
     expect_some (do { w \<leftarrow> encode_array mc 1 w; encode_bytes mc i w })"
| "OperationRequest_encode_match mc (Req_DeleteAccount i) w =
     expect_some (do { w \<leftarrow> encode_array mc 1 w; encode_bytes mc i w })"
| "OperationRequest_encode_match mc (Req_AddAccount f) w =
     expect_some (do { w \<leftarrow> encode_array mc 4 w; encode_account_fields mc f w })"
| "OperationRequest_encode_match mc (Req_UpdateAccount i f) w =
     expect_some (do { w \<leftarrow> encode_array mc 5 w; w \<leftarrow> encode_bytes mc i w;
       encode_account_fields mc f w })"
| "OperationRequest_encode_match mc (Req_EnrollWindowsHello parent_window) w =
     (if parent_window = 0 then Err InvariantViolation
      else expect_some (do { w \<leftarrow> encode_array mc 1 w; encode_u64 mc parent_window w }))"
| "OperationRequest_encode_match mc (Req_UnlockWindowsHello parent_window) w =
     (if parent_window = 0 then Err InvariantViolation
      else expect_some (do { w \<leftarrow> encode_array mc 1 w; encode_u64 mc parent_window w }))"
| "OperationRequest_encode_match mc (Req_MakePasskey proof) w =
     expect_some (do { w \<leftarrow> encode_array mc 6 w; encode_passkey_proof mc proof w })"
| "OperationRequest_encode_match mc (Req_GetPasskeyAssertion proof credential_id) w =
     expect_some (do { w \<leftarrow> encode_array mc 7 w; w \<leftarrow> encode_passkey_proof mc proof w;
       encode_bytes mc credential_id w })"
| "OperationRequest_encode_match mc (Req_ConfirmPasskeyCreation proof credential_id) w =
     expect_some (do { w \<leftarrow> encode_array mc 7 w; w \<leftarrow> encode_passkey_proof mc proof w;
       encode_bytes mc credential_id w })"
| "OperationRequest_encode_match mc (Req_RollbackPasskeyCreation proof credential_id) w =
     expect_some (do { w \<leftarrow> encode_array mc 7 w; w \<leftarrow> encode_passkey_proof mc proof w;
       encode_bytes mc credential_id w })"
| "OperationRequest_encode_match mc (Req_DeletePasskey credential_id) w =
     expect_some (do { w \<leftarrow> encode_array mc 1 w; encode_bytes mc credential_id w })"
| "OperationRequest_encode_match mc (Req_ListPasskeysForAssertion proof) w =
     expect_some (do { w \<leftarrow> encode_array mc 4 w; encode_passkey_request_proof mc proof w })"

definition OperationRequest_encode ::
    "minicbor \<Rightarrow> operation_request \<Rightarrow> (bytes, protocol_error) result" where
  "OperationRequest_encode mc r =
     (if (case OperationRequest_master_password r of
            Some password \<Rightarrow> length password > MAX_MASTER_PASSWORD_BYTES | None \<Rightarrow> False)
      then Err TooLarge
      else if (case OperationRequest_list_window r of
            Some (_, limit) \<Rightarrow> limit = 0 \<or> limit > MAX_LIST_PAGE_SIZE | None \<Rightarrow> False)
      then Err InvariantViolation
      else
        and_then (OperationRequest_encode_match mc r (SecretWriter_with_capacity MAX_PAYLOAD_BYTES))
          (\<lambda>w. checked_request_body (writer_bytes w)))"

definition OperationRequest_decode ::
    "minicbor \<Rightarrow> operation_code \<Rightarrow> bytes \<Rightarrow> (operation_request, protocol_error) result" where
  "OperationRequest_decode mc operation bs =
     (if length bs > MAX_PAYLOAD_BYTES then Err TooLarge else
      and_then (OperationRequest_decode_match mc operation bs) (\<lambda>(request, d).
      and_then (require_end d bs) (\<lambda>_.
      and_then (OperationRequest_encode mc request) (\<lambda>enc.
      if enc \<noteq> bs then Err NonCanonical else Ok request))))"

section \<open>Validity and wire form\<close>

definition AccountFields_valid :: "account_fields \<Rightarrow> bool" where
  "AccountFields_valid f \<longleftrightarrow>
     length (af_service_name f) \<le> 256 \<and> utf8_valid (af_service_name f)
     \<and> length (af_permitted_origin f) \<le> 2048 \<and> utf8_valid (af_permitted_origin f)
     \<and> length (af_username f) \<le> 1024 \<and> utf8_valid (af_username f)
     \<and> length (af_password f) \<le> 16384 \<and> utf8_valid (af_password f)"

definition PasskeyRequestProof_valid :: "passkey_request_proof \<Rightarrow> bool" where
  "PasskeyRequestProof_valid p \<longleftrightarrow>
     length (pp_transaction_id p) = 16 \<and> pp_transaction_id p \<noteq> zeros 16 \<and> pp_request_type p = 1
     \<and> pp_request_signature p \<noteq> [] \<and> length (pp_request_signature p) \<le> 2048
     \<and> pp_encoded_request p \<noteq> [] \<and> length (pp_encoded_request p) \<le> 49152"

definition PasskeyTransactionProof_valid :: "passkey_transaction_proof \<Rightarrow> bool" where
  "PasskeyTransactionProof_valid p \<longleftrightarrow>
     PasskeyRequestProof_valid (pt_request p)
     \<and> length (pt_agent_challenge p) = 16 \<and> pt_agent_challenge p \<noteq> zeros 16
     \<and> pt_user_verification_signature p \<noteq> [] \<and> length (pt_user_verification_signature p) \<le> 2048"

fun OperationRequest_valid :: "operation_request \<Rightarrow> bool" where
  "OperationRequest_valid (Req_ExactOriginMatches c) = BrowserContext_valid c"
| "OperationRequest_valid (Req_GetSelectedCredential c s) =
     (BrowserContext_valid c \<and> BrowserSelection_valid s)"
| "OperationRequest_valid (Req_CreateVault p) = (length p \<le> 1024 \<and> utf8_valid p)"
| "OperationRequest_valid (Req_UnlockMasterPassword p) = (length p \<le> 1024 \<and> utf8_valid p)"
| "OperationRequest_valid (Req_ListAccountSummaries offset limit) = (limit \<noteq> 0 \<and> limit \<le> 100)"
| "OperationRequest_valid (Req_GetAccount i) = (length i = 16)"
| "OperationRequest_valid (Req_AddAccount f) = AccountFields_valid f"
| "OperationRequest_valid (Req_UpdateAccount i f) = (length i = 16 \<and> AccountFields_valid f)"
| "OperationRequest_valid (Req_DeleteAccount i) = (length i = 16)"
| "OperationRequest_valid (Req_EnrollWindowsHello w) = (w \<noteq> 0)"
| "OperationRequest_valid (Req_UnlockWindowsHello w) = (w \<noteq> 0)"
| "OperationRequest_valid (Req_MakePasskey p) = PasskeyTransactionProof_valid p"
| "OperationRequest_valid (Req_GetPasskeyAssertion p c) =
     (PasskeyTransactionProof_valid p \<and> length c = 32)"
| "OperationRequest_valid (Req_DeletePasskey c) = (length c = 32)"
| "OperationRequest_valid (Req_ListPasskeysForAssertion p) = PasskeyRequestProof_valid p"
| "OperationRequest_valid (Req_ConfirmPasskeyCreation p c) =
     (PasskeyTransactionProof_valid p \<and> length c = 32)"
| "OperationRequest_valid (Req_RollbackPasskeyCreation p c) =
     (PasskeyTransactionProof_valid p \<and> length c = 32)"
| "OperationRequest_valid _ = True"

definition AccountFields_wire :: "minicbor \<Rightarrow> account_fields \<Rightarrow> bytes" where
  "AccountFields_wire mc f = enc_str mc (af_service_name f) @ enc_str mc (af_permitted_origin f)
     @ enc_str mc (af_username f) @ enc_str mc (af_password f)"

definition PasskeyRequestProof_wire :: "minicbor \<Rightarrow> passkey_request_proof \<Rightarrow> bytes" where
  "PasskeyRequestProof_wire mc p = enc_bytes mc (pp_transaction_id p) @ enc_u8 mc (pp_request_type p)
     @ enc_bytes mc (pp_request_signature p) @ enc_bytes mc (pp_encoded_request p)"

definition PasskeyTransactionProof_wire :: "minicbor \<Rightarrow> passkey_transaction_proof \<Rightarrow> bytes" where
  "PasskeyTransactionProof_wire mc p = PasskeyRequestProof_wire mc (pt_request p)
     @ enc_bytes mc (pt_agent_challenge p) @ enc_bytes mc (pt_user_verification_signature p)"

fun OperationRequest_wire :: "minicbor \<Rightarrow> operation_request \<Rightarrow> bytes" where
  "OperationRequest_wire mc (Req_ExactOriginMatches c) = enc_array mc 1 @ BrowserContext_wire mc c"
| "OperationRequest_wire mc (Req_GetSelectedCredential c s) =
     enc_array mc 2 @ BrowserContext_wire mc c @ BrowserSelection_wire mc s"
| "OperationRequest_wire mc (Req_CreateVault p) = enc_array mc 1 @ enc_str mc p"
| "OperationRequest_wire mc (Req_UnlockMasterPassword p) = enc_array mc 1 @ enc_str mc p"
| "OperationRequest_wire mc (Req_ListAccountSummaries offset limit) =
     enc_array mc 2 @ enc_u32 mc offset @ enc_u16 mc limit"
| "OperationRequest_wire mc (Req_GetAccount i) = enc_array mc 1 @ enc_bytes mc i"
| "OperationRequest_wire mc (Req_AddAccount f) = enc_array mc 4 @ AccountFields_wire mc f"
| "OperationRequest_wire mc (Req_UpdateAccount i f) =
     enc_array mc 5 @ enc_bytes mc i @ AccountFields_wire mc f"
| "OperationRequest_wire mc (Req_DeleteAccount i) = enc_array mc 1 @ enc_bytes mc i"
| "OperationRequest_wire mc (Req_EnrollWindowsHello w) = enc_array mc 1 @ enc_u64 mc w"
| "OperationRequest_wire mc (Req_UnlockWindowsHello w) = enc_array mc 1 @ enc_u64 mc w"
| "OperationRequest_wire mc (Req_MakePasskey p) = enc_array mc 6 @ PasskeyTransactionProof_wire mc p"
| "OperationRequest_wire mc (Req_GetPasskeyAssertion p c) =
     enc_array mc 7 @ PasskeyTransactionProof_wire mc p @ enc_bytes mc c"
| "OperationRequest_wire mc (Req_DeletePasskey c) = enc_array mc 1 @ enc_bytes mc c"
| "OperationRequest_wire mc (Req_ListPasskeysForAssertion p) =
     enc_array mc 4 @ PasskeyRequestProof_wire mc p"
| "OperationRequest_wire mc (Req_ConfirmPasskeyCreation p c) =
     enc_array mc 7 @ PasskeyTransactionProof_wire mc p @ enc_bytes mc c"
| "OperationRequest_wire mc (Req_RollbackPasskeyCreation p c) =
     enc_array mc 7 @ PasskeyTransactionProof_wire mc p @ enc_bytes mc c"
| "OperationRequest_wire mc _ = enc_array mc 0"

lemma encode_passkey_request_proof_eq [encode_simps]:
  "encode_passkey_request_proof mc p = (\<lambda>w. SecretWriter_write_all w (PasskeyRequestProof_wire mc p))"
  by (simp add: fun_eq_iff encode_passkey_request_proof_def PasskeyRequestProof_wire_def encode_simps)

lemma encode_passkey_proof_eq [encode_simps]:
  "encode_passkey_proof mc p = (\<lambda>w. SecretWriter_write_all w (PasskeyTransactionProof_wire mc p))"
  by (simp add: fun_eq_iff encode_passkey_proof_def PasskeyTransactionProof_wire_def encode_simps)

lemma encode_account_fields_eq [encode_simps]:
  "encode_account_fields mc f = (\<lambda>w. SecretWriter_write_all w (AccountFields_wire mc f))"
  by (simp add: fun_eq_iff encode_account_fields_def AccountFields_wire_def encode_simps)

lemma OperationRequest_encode_match_eq:
  "OperationRequest_valid r \<Longrightarrow>
     OperationRequest_encode_match mc r w =
       expect_some (SecretWriter_write_all w (OperationRequest_wire mc r))"
  by (cases r) (simp_all add: encode_simps)

lemma OperationRequest_encode_eq:
  assumes "OperationRequest_valid r" and "length (OperationRequest_wire mc r) \<le> 65408"
  shows "OperationRequest_encode mc r = Ok (OperationRequest_wire mc r)"
proof -
  have "\<not> (case OperationRequest_master_password r of
      Some p \<Rightarrow> length p > MAX_MASTER_PASSWORD_BYTES | None \<Rightarrow> False)"
    using assms(1) by (cases r) simp_all
  moreover have "\<not> (case OperationRequest_list_window r of
      Some (_, limit) \<Rightarrow> limit = 0 \<or> limit > MAX_LIST_PAGE_SIZE | None \<Rightarrow> False)"
    using assms(1) by (cases r) (simp_all add: not_less)
  moreover have "and_then (expect_some (SecretWriter_write_all
      (SecretWriter_with_capacity MAX_PAYLOAD_BYTES) (OperationRequest_wire mc r)))
      (\<lambda>w. checked_request_body (writer_bytes w)) = Ok (OperationRequest_wire mc r)"
    using assms(2) by (subst and_then_secret_writer) (simp_all add: checked_request_body_def)
  ultimately show ?thesis
    unfolding OperationRequest_encode_def OperationRequest_encode_match_eq [OF assms(1)]
    by (simp only: if_False)
qed

lemma PasskeyRequestProof_new_Ok:
  "PasskeyRequestProof_new t y s e = Ok p \<longleftrightarrow>
     p = \<lparr>pp_transaction_id = t, pp_request_type = y, pp_request_signature = s,
          pp_encoded_request = e\<rparr>
     \<and> t \<noteq> zeros 16 \<and> y = 1 \<and> s \<noteq> [] \<and> e \<noteq> [] \<and> length s \<le> 2048 \<and> length e \<le> 49152"
  by (auto simp: PasskeyRequestProof_new_def)

lemma PasskeyTransactionProof_new_Ok:
  "PasskeyTransactionProof_new t y s e c u = Ok p \<longleftrightarrow>
     (\<exists>request. PasskeyRequestProof_new t y s e = Ok request
        \<and> p = \<lparr>pt_request = request, pt_agent_challenge = c, pt_user_verification_signature = u\<rparr>)
     \<and> c \<noteq> zeros 16 \<and> u \<noteq> [] \<and> length u \<le> 2048"
  by (auto simp: PasskeyTransactionProof_new_def result_simps)

lemma PasskeyRequestProof_new_no_panic [no_panic]: "PasskeyRequestProof_new t y s e \<noteq> Panic"
  by (simp add: PasskeyRequestProof_new_def)

lemma PasskeyTransactionProof_new_no_panic [no_panic]:
  "PasskeyTransactionProof_new t y s e c u \<noteq> Panic"
  by (auto simp: PasskeyTransactionProof_new_def result_simps no_panic)

lemma decode_passkey_request_proof_no_panic [no_panic]: "decode_passkey_request_proof mc d \<noteq> Panic"
  by (auto simp: decode_passkey_request_proof_def result_simps no_panic split: prod.splits)

lemma decode_passkey_proof_no_panic [no_panic]: "decode_passkey_proof mc d \<noteq> Panic"
  by (auto simp: decode_passkey_proof_def result_simps no_panic split: prod.splits)

lemma decode_passkey_request_no_panic [no_panic]: "decode_passkey_request mc op d \<noteq> Panic"
  by (cases op) (auto simp: result_simps no_panic split: prod.splits)

lemma decode_browser_request_no_panic [no_panic]: "decode_browser_request mc op d \<noteq> Panic"
  by (auto simp: decode_browser_request_def result_simps no_panic split: prod.splits)

lemma decode_parent_window_no_panic [no_panic]: "decode_parent_window mc d \<noteq> Panic"
  by (auto simp: decode_parent_window_def result_simps no_panic split: prod.splits)

lemma decode_account_fields_no_panic [no_panic]: "decode_account_fields mc d \<noteq> Panic"
  by (auto simp: decode_account_fields_def decode_secret_text_def result_simps no_panic
      split: prod.splits)

lemma OperationRequest_decode_match_no_panic [no_panic]:
  "OperationRequest_decode_match mc op d \<noteq> Panic"
  by (cases op) (auto simp: decode_secret_text_def result_simps no_panic split: prod.splits
      simp del: decode_passkey_request.simps)

section \<open>Codec contract\<close>

context minicbor_spec
begin

lemma decode_account_fields_wire [simp]:
  assumes "AccountFields_valid f"
  shows "decode_account_fields mc (AccountFields_wire mc f @ rest) = Ok (f, rest)"
    and "decode_account_fields mc (AccountFields_wire mc f) = Ok (f, [])"
  using assms by (simp_all add: decode_account_fields_def AccountFields_wire_def decode_secret_text_def
      AccountFields_valid_def)

lemma decode_account_fields_valid:
  "decode_account_fields mc d = Ok (f, d') \<Longrightarrow> AccountFields_valid f"
  by (auto simp: decode_account_fields_def decode_secret_text_def AccountFields_valid_def
      result_simps split: prod.splits dest: decode_ok decode_bounded_text_utf8)

lemma decode_passkey_request_proof_wire [simp]:
  assumes "PasskeyRequestProof_valid p"
  shows "decode_passkey_request_proof mc (PasskeyRequestProof_wire mc p @ rest) = Ok (p, rest)"
    and "decode_passkey_request_proof mc (PasskeyRequestProof_wire mc p) = Ok (p, [])"
  using assms by (auto simp: decode_passkey_request_proof_def PasskeyRequestProof_wire_def
      PasskeyRequestProof_valid_def PasskeyRequestProof_new_Ok result_simps)

lemma decode_passkey_request_proof_valid:
  "decode_passkey_request_proof mc d = Ok (p, d') \<Longrightarrow> PasskeyRequestProof_valid p"
  by (auto simp: decode_passkey_request_proof_def PasskeyRequestProof_valid_def
      PasskeyRequestProof_new_Ok result_simps split: prod.splits dest: decode_ok)

lemma decode_passkey_proof_wire [simp]:
  assumes "PasskeyTransactionProof_valid p"
  shows "decode_passkey_proof mc (PasskeyTransactionProof_wire mc p @ rest) = Ok (p, rest)"
    and "decode_passkey_proof mc (PasskeyTransactionProof_wire mc p) = Ok (p, [])"
proof -
  have "PasskeyRequestProof_valid (pt_request p)"
    using assms by (simp add: PasskeyTransactionProof_valid_def)
  moreover from this have "PasskeyTransactionProof_new (pp_transaction_id (pt_request p))
      (pp_request_type (pt_request p)) (pp_request_signature (pt_request p))
      (pp_encoded_request (pt_request p)) (pt_agent_challenge p)
      (pt_user_verification_signature p) = Ok p"
    using assms by (simp add: PasskeyTransactionProof_new_Ok PasskeyRequestProof_new_Ok
        PasskeyTransactionProof_valid_def PasskeyRequestProof_valid_def)
  ultimately show "decode_passkey_proof mc (PasskeyTransactionProof_wire mc p @ rest) = Ok (p, rest)"
    and "decode_passkey_proof mc (PasskeyTransactionProof_wire mc p) = Ok (p, [])"
    using assms by (simp_all add: decode_passkey_proof_def PasskeyTransactionProof_wire_def
        PasskeyTransactionProof_valid_def)
qed

lemma decode_passkey_proof_valid:
  "decode_passkey_proof mc d = Ok (p, d') \<Longrightarrow> PasskeyTransactionProof_valid p"
  by (auto simp: decode_passkey_proof_def PasskeyTransactionProof_valid_def
      PasskeyTransactionProof_new_Ok PasskeyRequestProof_new_Ok result_simps
      split: prod.splits dest: decode_ok decode_passkey_request_proof_valid
      simp: PasskeyRequestProof_valid_def)

lemma OperationRequest_decode_match_valid:
  "OperationRequest_decode_match mc op d = Ok (r, d') \<Longrightarrow>
     OperationRequest_valid r \<and> OperationRequest_operation r = op"
  by (cases op) (auto simp: decode_secret_text_def decode_parent_window_def
      decode_browser_request_def result_simps not_less split: prod.splits if_splits
      dest: decode_ok decode_bounded_text_utf8 decode_account_fields_valid
        decode_passkey_proof_valid decode_passkey_request_proof_valid
        BrowserContext_decode_from_valid BrowserSelection_decode_from_valid)

lemma OperationRequest_decode_match_wire:
  "OperationRequest_valid r \<Longrightarrow>
     OperationRequest_decode_match mc (OperationRequest_operation r) (OperationRequest_wire mc r)
       = Ok (r, [])"
  by (cases r) (simp_all add: decode_secret_text_def decode_parent_window_def
      decode_browser_request_def not_less)

lemma AccountFields_wire_length:
  assumes "AccountFields_valid f" shows "length (AccountFields_wire mc f) \<le> 19724"
proof -
  have v: "length (af_service_name f) \<le> 256" "length (af_permitted_origin f) \<le> 2048"
    "length (af_username f) \<le> 1024" "length (af_password f) \<le> 16384"
    using assms by (simp_all add: AccountFields_valid_def)
  show ?thesis unfolding AccountFields_wire_def
    by (insert v, rule order_trans, (rule enc_bounds | simp)+)
qed

lemma PasskeyRequestProof_wire_length:
  assumes "PasskeyRequestProof_valid p" shows "length (PasskeyRequestProof_wire mc p) \<le> 51300"
proof -
  have v: "length (pp_transaction_id p) = 16" "length (pp_request_signature p) \<le> 2048"
    "length (pp_encoded_request p) \<le> 49152"
    using assms by (simp_all add: PasskeyRequestProof_valid_def)
  show ?thesis unfolding PasskeyRequestProof_wire_def
    by (insert v, rule order_trans, (rule enc_bounds | simp)+)
qed

lemma PasskeyTransactionProof_wire_length:
  assumes "PasskeyTransactionProof_valid p"
  shows "length (PasskeyTransactionProof_wire mc p) \<le> 53400"
proof -
  have v: "length (pt_agent_challenge p) = 16" "length (pt_user_verification_signature p) \<le> 2048"
    and r: "PasskeyRequestProof_valid (pt_request p)"
    using assms by (simp_all add: PasskeyTransactionProof_valid_def)
  note request = PasskeyRequestProof_wire_length [OF r]
  show ?thesis unfolding PasskeyTransactionProof_wire_def
    by (insert v, rule order_trans, (rule enc_bounds request | simp)+)
qed

lemma OperationRequest_wire_length:
  assumes "OperationRequest_valid r"
  shows "length (OperationRequest_wire mc r) \<le> 65408"
proof -
  have small: "length (enc_array mc n) \<le> 9" "length (enc_u16 mc b) \<le> 3" "length (enc_u32 mc c) \<le> 5"
    "length (enc_u64 mc d) \<le> 9" for n b c d
    by (rule enc_bounds)+
  note groups = AccountFields_wire_length PasskeyRequestProof_wire_length
    PasskeyTransactionProof_wire_length BrowserContext_wire_length BrowserSelection_wire_length
  show ?thesis
    using assms
    by (cases r)
      (auto simp: head_len_def simp del: length_enc_array length_enc_u16 length_enc_u32 length_enc_u64
        dest!: groups intro!: order_trans [OF add_mono [OF small(1)]] small [THEN order_trans]
          order_trans [OF add_mono [OF small(2)]] order_trans [OF add_mono [OF small(3)]]
          order_trans [OF add_mono [OF small(4)]])
qed

lemma OperationRequest_encode_valid:
  "OperationRequest_valid r \<Longrightarrow> OperationRequest_encode mc r = Ok (OperationRequest_wire mc r)"
  by (rule OperationRequest_encode_eq [OF _ OperationRequest_wire_length])

lemma OperationRequest_decode_iff:
  "OperationRequest_decode mc op bs = Ok r \<longleftrightarrow>
     (OperationRequest_valid r \<and> OperationRequest_operation r = op)
     \<and> ok (OperationRequest_encode mc r) = Some bs"
proof
  assume "OperationRequest_decode mc op bs = Ok r"
  then show "(OperationRequest_valid r \<and> OperationRequest_operation r = op)
      \<and> ok (OperationRequest_encode mc r) = Some bs"
    by (auto simp: OperationRequest_decode_def result_simps split: if_splits prod.splits
        dest: OperationRequest_decode_match_valid)
next
  assume r: "(OperationRequest_valid r \<and> OperationRequest_operation r = op)
      \<and> ok (OperationRequest_encode mc r) = Some bs"
  then have "bs = OperationRequest_wire mc r" by (auto simp: OperationRequest_encode_valid)
  with r show "OperationRequest_decode mc op bs = Ok r"
    using OperationRequest_wire_length [of r] OperationRequest_decode_match_wire [of r]
    by (auto simp: OperationRequest_decode_def OperationRequest_encode_valid require_end_def)
qed

lemma OperationRequest_decode_no_panic: "OperationRequest_decode mc op bs \<noteq> Panic"
  by (auto simp: OperationRequest_decode_def result_simps no_panic OperationRequest_encode_valid
      split: prod.splits dest: OperationRequest_decode_match_valid)

end

text \<open>The body codec of one operation code.\<close>

locale operation_body = minicbor_spec +
  fixes op :: operation_code

sublocale operation_body \<subseteq> body: canonical_codec
  "\<lambda>r. ok (OperationRequest_encode mc r)" "OperationRequest_decode mc op"
  "\<lambda>r. OperationRequest_valid r \<and> OperationRequest_operation r = op"
  by unfold_locales
    (use OperationRequest_decode_iff in blast, simp add: OperationRequest_encode_valid,
      rule OperationRequest_decode_no_panic)

section \<open>Properties\<close>

text \<open>C34: for every operation code the body decoder accepts exactly the encodings of valid bodies of
  that operation, so a body can never be read as another operation's; the decoder never panics,
  and the encoder, which panics when its 65536-byte writer overflows, never does on a valid body:
  it always produces at most 65408 bytes.\<close>

theorem operation_body_exact:
  assumes "minicbor_spec mc"
  shows "(OperationRequest_decode mc op bs = Ok r \<longleftrightarrow>
        OperationRequest_valid r \<and> OperationRequest_operation r = op
        \<and> OperationRequest_encode mc r = Ok bs)
    \<and> (OperationRequest_valid r \<longrightarrow>
        (\<exists>enc. OperationRequest_encode mc r = Ok enc \<and> length enc \<le> MAX_REQUEST_BODY_BYTES))
    \<and> OperationRequest_decode mc op bs \<noteq> Panic"
  using minicbor_spec.OperationRequest_decode_iff [OF assms, of op bs r]
    minicbor_spec.OperationRequest_encode_valid [OF assms, of r]
    minicbor_spec.OperationRequest_wire_length [OF assms, of r]
    minicbor_spec.OperationRequest_decode_no_panic [OF assms, of op bs]
  unfolding ok_Some by auto

theorem operation_body_exact_witness:
  "OperationRequest_decode rfc8949 Op_ListAccountSummaries [0x82, 0, 0x18, 100]
     = Ok (Req_ListAccountSummaries 0 100)
   \<and> OperationRequest_decode rfc8949 Op_ListAccountSummaries [0x82, 0, 0x18, 101]
     \<noteq> Ok (Req_ListAccountSummaries 0 101)"
  unfolding conjunct1 [OF operation_body_exact [OF rfc.minicbor_spec_axioms]]
  by (simp add: rfc.OperationRequest_encode_valid)
    (simp add: rfc8949_def enc_head_def)

end
