(* ===== verification/Protocol_Results.thy ===== *)
theory Protocol_Results
  imports Protocol_Operations
begin

text \<open>
  Operation results (crates/agent-protocol/src/operations.rs, response encoders). Every encoder
  writes into a \<open>SecretWriter\<close> of one payload and panics when a write does not fit; the lemmas show
  that the field checks made beforehand are strong enough that this never happens, that the size
  estimate of a page of account summaries is an upper bound on what is written, and that a page
  does not depend on any password.
\<close>

section \<open>Limits and views\<close>

definition MAX_PASSKEY_USER_HANDLE_BYTES :: nat where [simp]: "MAX_PASSKEY_USER_HANDLE_BYTES = 64"
definition MAX_PASSKEY_RP_ID_BYTES :: nat where [simp]: "MAX_PASSKEY_RP_ID_BYTES = 253"
definition MAX_PASSKEY_USER_NAME_BYTES :: nat where [simp]: "MAX_PASSKEY_USER_NAME_BYTES = 256"
definition MAX_PASSKEY_CREDENTIALS :: nat where [simp]: "MAX_PASSKEY_CREDENTIALS = 64"
definition PASSKEY_PUBLIC_KEY_BYTES :: nat where [simp]: "PASSKEY_PUBLIC_KEY_BYTES = 65"
definition PASSKEY_AUTHENTICATOR_DATA_BYTES :: nat where
  [simp]: "PASSKEY_AUTHENTICATOR_DATA_BYTES = 37"
definition MAX_PASSKEY_ASSERTION_SIGNATURE_BYTES :: nat where
  [simp]: "MAX_PASSKEY_ASSERTION_SIGNATURE_BYTES = 80"

record account_view =
  av_id :: bytes
  av_revision :: u64
  av_created_at_ms :: u64
  av_modified_at_ms :: u64
  av_service_name :: bytes
  av_permitted_origin :: bytes
  av_username :: bytes
  av_password :: bytes

record passkey_credential_view =
  pc_credential_id :: bytes
  pc_user_handle :: bytes
  pc_public_key :: bytes

record passkey_assertion_view =
  pa_credential_id :: bytes
  pa_user_handle :: bytes
  pa_authenticator_data :: bytes
  pa_signature_der :: bytes

record passkey_summary_view =
  ps_credential_id :: bytes
  ps_user_handle :: bytes
  ps_user_name :: bytes
  ps_user_display_name :: bytes

record passkey_management_summary_view =
  pm_credential_id :: bytes
  pm_rp_id :: bytes
  pm_user_name :: bytes
  pm_user_display_name :: bytes

section \<open>Encoders\<close>

definition checked_response_body :: "bytes \<Rightarrow> (bytes, protocol_error) result" where
  "checked_response_body bs =
     (if length bs > MAX_RESPONSE_BODY_BYTES then Err TooLarge else Ok bs)"

definition encode_empty_result :: "minicbor \<Rightarrow> (bytes, protocol_error) result" where
  "encode_empty_result mc =
     and_then (expect_some (encode_array mc 0 (SecretWriter_with_capacity MAX_PAYLOAD_BYTES)))
       (\<lambda>w. checked_response_body (writer_bytes w))"

definition encode_status :: "minicbor \<Rightarrow> agent_state \<Rightarrow> u64 \<Rightarrow> (bytes, protocol_error) result" where
  "encode_status mc state unlock_epoch =
     and_then (expect_some (do {
         w \<leftarrow> encode_array mc 2 (SecretWriter_with_capacity MAX_PAYLOAD_BYTES);
         w \<leftarrow> encode_u8 mc (AgentState_code state) w;
         encode_u64 mc unlock_epoch w }))
       (\<lambda>w. checked_response_body (writer_bytes w))"

definition encode_account_id :: "minicbor \<Rightarrow> bytes \<Rightarrow> (bytes, protocol_error) result" where
  "encode_account_id mc i =
     and_then (expect_some (do {
         w \<leftarrow> encode_array mc 1 (SecretWriter_with_capacity MAX_PAYLOAD_BYTES);
         encode_bytes mc i w }))
       (\<lambda>w. checked_response_body (writer_bytes w))"

definition encode_passkey_credential ::
    "minicbor \<Rightarrow> passkey_credential_view \<Rightarrow> (bytes, protocol_error) result" where
  "encode_passkey_credential mc c =
     (if pc_credential_id c = zeros PASSKEY_CREDENTIAL_ID_BYTES \<or> pc_user_handle c = []
         \<or> length (pc_user_handle c) > MAX_PASSKEY_USER_HANDLE_BYTES
         \<or> pc_public_key c ! 0 \<noteq> 0x04
      then Err InvariantViolation
      else
        and_then (expect_some (do {
            w \<leftarrow> encode_array mc 3 (SecretWriter_with_capacity MAX_PAYLOAD_BYTES);
            w \<leftarrow> encode_bytes mc (pc_credential_id c) w;
            w \<leftarrow> encode_bytes mc (pc_user_handle c) w;
            encode_bytes mc (pc_public_key c) w }))
          (\<lambda>w. checked_response_body (writer_bytes w)))"

definition encode_passkey_assertion ::
    "minicbor \<Rightarrow> passkey_assertion_view \<Rightarrow> (bytes, protocol_error) result" where
  "encode_passkey_assertion mc a =
     (if pa_credential_id a = zeros PASSKEY_CREDENTIAL_ID_BYTES \<or> pa_user_handle a = []
         \<or> length (pa_user_handle a) > MAX_PASSKEY_USER_HANDLE_BYTES
         \<or> pa_signature_der a = []
         \<or> length (pa_signature_der a) > MAX_PASSKEY_ASSERTION_SIGNATURE_BYTES
      then Err InvariantViolation
      else
        and_then (expect_some (do {
            w \<leftarrow> encode_array mc 4 (SecretWriter_with_capacity MAX_PAYLOAD_BYTES);
            w \<leftarrow> encode_bytes mc (pa_credential_id a) w;
            w \<leftarrow> encode_bytes mc (pa_user_handle a) w;
            w \<leftarrow> encode_bytes mc (pa_authenticator_data a) w;
            encode_bytes mc (pa_signature_der a) w }))
          (\<lambda>w. checked_response_body (writer_bytes w)))"

text \<open>
  The body of the two \<open>for passkey in passkeys\<close> loops: the metadata of one passkey is checked, then
  written; the first bad entry ends the function.
\<close>

primrec encode_passkey_summary_loop ::
    "minicbor \<Rightarrow> passkey_summary_view list \<Rightarrow> writer \<Rightarrow> (writer, protocol_error) result" where
  "encode_passkey_summary_loop mc [] w = Ok w"
| "encode_passkey_summary_loop mc (p # ps) w =
     (if ps_credential_id p = zeros PASSKEY_CREDENTIAL_ID_BYTES \<or> ps_user_handle p = []
         \<or> length (ps_user_handle p) > MAX_PASSKEY_USER_HANDLE_BYTES \<or> ps_user_name p = []
         \<or> length (ps_user_name p) > MAX_PASSKEY_USER_NAME_BYTES \<or> ps_user_display_name p = []
         \<or> length (ps_user_display_name p) > MAX_PASSKEY_USER_NAME_BYTES
      then Err InvariantViolation
      else
        and_then (expect_some (do {
            w \<leftarrow> encode_array mc 4 w;
            w \<leftarrow> encode_bytes mc (ps_credential_id p) w;
            w \<leftarrow> encode_bytes mc (ps_user_handle p) w;
            w \<leftarrow> encode_text mc (ps_user_name p) w;
            encode_text mc (ps_user_display_name p) w }))
          (\<lambda>w. encode_passkey_summary_loop mc ps w))"

definition encode_passkey_summaries ::
    "minicbor \<Rightarrow> passkey_summary_view list \<Rightarrow> (bytes, protocol_error) result" where
  "encode_passkey_summaries mc passkeys =
     (if length passkeys > MAX_PASSKEY_CREDENTIALS then Err TooLarge
      else
        and_then (expect_some (encode_array mc (of_nat (length passkeys))
                    (SecretWriter_with_capacity MAX_PAYLOAD_BYTES))) (\<lambda>w.
        and_then (encode_passkey_summary_loop mc passkeys w) (\<lambda>w.
        checked_response_body (writer_bytes w))))"

primrec encode_passkey_management_loop ::
    "minicbor \<Rightarrow> passkey_management_summary_view list \<Rightarrow> writer \<Rightarrow> (writer, protocol_error) result" where
  "encode_passkey_management_loop mc [] w = Ok w"
| "encode_passkey_management_loop mc (p # ps) w =
     (if pm_credential_id p = zeros PASSKEY_CREDENTIAL_ID_BYTES \<or> pm_rp_id p = []
         \<or> length (pm_rp_id p) > MAX_PASSKEY_RP_ID_BYTES \<or> pm_user_name p = []
         \<or> length (pm_user_name p) > MAX_PASSKEY_USER_NAME_BYTES \<or> pm_user_display_name p = []
         \<or> length (pm_user_display_name p) > MAX_PASSKEY_USER_NAME_BYTES
      then Err InvariantViolation
      else
        and_then (expect_some (do {
            w \<leftarrow> encode_array mc 4 w;
            w \<leftarrow> encode_bytes mc (pm_credential_id p) w;
            w \<leftarrow> encode_text mc (pm_rp_id p) w;
            w \<leftarrow> encode_text mc (pm_user_name p) w;
            encode_text mc (pm_user_display_name p) w }))
          (\<lambda>w. encode_passkey_management_loop mc ps w))"

definition encode_passkey_management_summaries ::
    "minicbor \<Rightarrow> passkey_management_summary_view list \<Rightarrow> (bytes, protocol_error) result" where
  "encode_passkey_management_summaries mc passkeys =
     (if length passkeys > MAX_PASSKEY_CREDENTIALS then Err TooLarge
      else
        and_then (expect_some (encode_array mc (of_nat (length passkeys))
                    (SecretWriter_with_capacity MAX_PAYLOAD_BYTES))) (\<lambda>w.
        and_then (encode_passkey_management_loop mc passkeys w) (\<lambda>w.
        checked_response_body (writer_bytes w))))"

definition validate_view_fields :: "account_view \<Rightarrow> bool \<Rightarrow> (unit, protocol_error) result" where
  "validate_view_fields a include_password =
     (if length (av_service_name a) > MAX_SERVICE_NAME_BYTES
         \<or> length (av_permitted_origin a) > MAX_ORIGIN_BYTES
         \<or> length (av_username a) > MAX_USERNAME_BYTES
         \<or> include_password \<and> length (av_password a) > MAX_PASSWORD_BYTES
      then Err TooLarge else Ok ())"

definition encode_account :: "minicbor \<Rightarrow> account_view \<Rightarrow> (bytes, protocol_error) result" where
  "encode_account mc a =
     and_then (validate_view_fields a True) (\<lambda>_.
     and_then (expect_some (do {
         w \<leftarrow> encode_array mc 8 (SecretWriter_with_capacity MAX_PAYLOAD_BYTES);
         w \<leftarrow> encode_bytes mc (av_id a) w;
         w \<leftarrow> encode_u64 mc (av_revision a) w;
         w \<leftarrow> encode_u64 mc (av_created_at_ms a) w;
         w \<leftarrow> encode_u64 mc (av_modified_at_ms a) w;
         w \<leftarrow> encode_text mc (av_service_name a) w;
         w \<leftarrow> encode_text mc (av_permitted_origin a) w;
         w \<leftarrow> encode_text mc (av_username a) w;
         encode_text mc (av_password a) w }))
       (\<lambda>w. checked_response_body (writer_bytes w)))"

text \<open>The estimate loop of \<open>encode_account_summaries\<close>, on the running \<open>maximum_encoded\<close>.\<close>

primrec summaries_estimate ::
    "nat \<Rightarrow> account_view list \<Rightarrow> (nat, protocol_error) result" where
  "summaries_estimate maximum_encoded [] = Ok maximum_encoded"
| "summaries_estimate maximum_encoded (a # as) =
     and_then (validate_view_fields a False) (\<lambda>_.
     and_then (ok_or TooLarge (do {
         l \<leftarrow> usize_checked_add maximum_encoded 54;
         l \<leftarrow> usize_checked_add l (length (av_service_name a));
         l \<leftarrow> usize_checked_add l (length (av_permitted_origin a));
         usize_checked_add l (length (av_username a)) }))
       (\<lambda>maximum_encoded. summaries_estimate maximum_encoded as))"

definition encode_account_summary :: "minicbor \<Rightarrow> account_view \<Rightarrow> writer \<Rightarrow> writer option" where
  "encode_account_summary mc a w = do {
     w \<leftarrow> encode_array mc 7 w;
     w \<leftarrow> encode_bytes mc (av_id a) w;
     w \<leftarrow> encode_u64 mc (av_revision a) w;
     w \<leftarrow> encode_u64 mc (av_created_at_ms a) w;
     w \<leftarrow> encode_u64 mc (av_modified_at_ms a) w;
     w \<leftarrow> encode_text mc (av_service_name a) w;
     w \<leftarrow> encode_text mc (av_permitted_origin a) w;
     encode_text mc (av_username a) w }"

definition encode_account_summaries ::
    "minicbor \<Rightarrow> account_view list \<Rightarrow> u32 option \<Rightarrow> (bytes, protocol_error) result" where
  "encode_account_summaries mc accounts next_offset =
     (if length accounts > unat MAX_LIST_PAGE_SIZE then Err TooLarge else
      and_then (summaries_estimate 8 accounts) (\<lambda>maximum_encoded.
      if maximum_encoded > MAX_RESPONSE_BODY_BYTES then Err TooLarge else
      and_then (expect_some (do {
          w \<leftarrow> encode_array mc 2 (SecretWriter_with_capacity MAX_PAYLOAD_BYTES);
          w \<leftarrow> (case next_offset of Some offset \<Rightarrow> encode_u32 mc offset w | None \<Rightarrow> encode_null mc w);
          w \<leftarrow> encode_array mc (of_nat (length accounts)) w;
          encode_each (encode_account_summary mc) accounts w }))
        (\<lambda>w. checked_response_body (writer_bytes w))))"

section \<open>Interface: a loop that checks and writes each element\<close>

text \<open>
  Both passkey loops check an element, write it, and go on. When every well-typed element that
  passes the check has a bounded wire form and the writer has room for all of them, the loop never
  panics: it fails exactly when some element is bad.
\<close>

locale checked_encode_loop =
  fixes loop :: "'a list \<Rightarrow> writer \<Rightarrow> (writer, protocol_error) result"
    and bad :: "'a \<Rightarrow> bool"
    and wire :: "'a \<Rightarrow> bytes"
    and well_typed :: "'a \<Rightarrow> bool"
    and bound :: nat
  assumes loop_Nil: "loop [] w = Ok w"
    and loop_Cons: "loop (x # xs) w =
      (if bad x then Err InvariantViolation
       else and_then (expect_some (SecretWriter_write_all w (wire x))) (loop xs))"
    and wire_bound: "well_typed x \<Longrightarrow> \<not> bad x \<Longrightarrow> length (wire x) \<le> bound"
begin

lemma loop_outcome:
  assumes "list_all well_typed xs" and "length bs + bound * length xs \<le> n" and "n < 2 ^ 64"
  shows "loop xs \<lparr>writer_capacity = Some n, writer_bytes = bs\<rparr> =
    (if list_ex bad xs then Err InvariantViolation
     else Ok \<lparr>writer_capacity = Some n, writer_bytes = bs @ concat (map wire xs)\<rparr>)"
  using assms
proof (induction xs arbitrary: bs)
  case Nil
  then show ?case by (simp add: loop_Nil)
next
  case (Cons x xs)
  show ?case
  proof (cases "bad x")
    case False
    then have "length (wire x) \<le> bound" using Cons.prems by (simp add: wire_bound)
    with Cons.prems have room: "length (bs @ wire x) + bound * length xs \<le> n" by simp
    then have "SecretWriter_write_all \<lparr>writer_capacity = Some n, writer_bytes = bs\<rparr> (wire x)
        = Some \<lparr>writer_capacity = Some n, writer_bytes = bs @ wire x\<rparr>"
      using Cons.prems(3) by (simp add: SecretWriter_write_all_def usize_checked_add_def)
    then show ?thesis using False Cons.IH [OF _ room Cons.prems(3)] Cons.prems(1)
      by (simp add: loop_Cons)
  qed (simp add: loop_Cons)
qed

lemma loop_after_header:
  assumes "list_all well_typed xs" and "length cs + bound * length xs \<le> n" and "n < 2 ^ 64"
  shows "and_then (expect_some (SecretWriter_write_all (SecretWriter_with_capacity n) cs))
      (\<lambda>w. and_then (loop xs w) (\<lambda>w. f (writer_bytes w))) =
    (if list_ex bad xs then Err InvariantViolation else f (cs @ concat (map wire xs)))"
proof -
  have "SecretWriter_write_all (SecretWriter_with_capacity n) cs
      = Some \<lparr>writer_capacity = Some n, writer_bytes = cs\<rparr>"
    using assms(2, 3)
    by (simp add: SecretWriter_write_all_def SecretWriter_with_capacity_def usize_checked_add_def)
  then show ?thesis using loop_outcome [OF assms] by simp
qed

lemma wires_bound:
  "list_all well_typed xs \<Longrightarrow> \<not> list_ex bad xs \<Longrightarrow>
     length (concat (map wire xs)) \<le> bound * length xs"
proof (induction xs)
  case (Cons x xs)
  then have "length (wire x) \<le> bound" by (simp add: wire_bound)
  with Cons show ?case by simp
qed simp

lemma loop_response:
  assumes "list_all well_typed xs" and "length cs + bound * length xs \<le> 65440"
  shows "and_then (expect_some (SecretWriter_write_all
        (SecretWriter_with_capacity MAX_PAYLOAD_BYTES) cs))
      (\<lambda>w. and_then (loop xs w) (\<lambda>w. checked_response_body (writer_bytes w))) =
    (if list_ex bad xs then Err InvariantViolation else Ok (cs @ concat (map wire xs)))"
proof -
  have "checked_response_body (cs @ concat (map wire xs)) = Ok (cs @ concat (map wire xs))"
    if "\<not> list_ex bad xs"
    using wires_bound [OF assms(1) that] assms(2) by (simp add: checked_response_body_def)
  moreover have "and_then (expect_some (SecretWriter_write_all
        (SecretWriter_with_capacity MAX_PAYLOAD_BYTES) cs))
      (\<lambda>w. and_then (loop xs w) (\<lambda>w. checked_response_body (writer_bytes w))) =
    (if list_ex bad xs then Err InvariantViolation
     else checked_response_body (cs @ concat (map wire xs)))"
    using assms by (intro loop_after_header) simp_all
  ultimately show ?thesis by simp
qed

end

section \<open>Wire forms\<close>

definition PasskeySummary_bad :: "passkey_summary_view \<Rightarrow> bool" where
  "PasskeySummary_bad p \<longleftrightarrow>
     ps_credential_id p = zeros 32 \<or> ps_user_handle p = [] \<or> length (ps_user_handle p) > 64
     \<or> ps_user_name p = [] \<or> length (ps_user_name p) > 256
     \<or> ps_user_display_name p = [] \<or> length (ps_user_display_name p) > 256"

definition PasskeySummary_wire :: "minicbor \<Rightarrow> passkey_summary_view \<Rightarrow> bytes" where
  "PasskeySummary_wire mc p = enc_array mc 4 @ enc_bytes mc (ps_credential_id p)
     @ enc_bytes mc (ps_user_handle p) @ enc_str mc (ps_user_name p)
     @ enc_str mc (ps_user_display_name p)"

definition PasskeyManagement_bad :: "passkey_management_summary_view \<Rightarrow> bool" where
  "PasskeyManagement_bad p \<longleftrightarrow>
     pm_credential_id p = zeros 32 \<or> pm_rp_id p = [] \<or> length (pm_rp_id p) > 253
     \<or> pm_user_name p = [] \<or> length (pm_user_name p) > 256
     \<or> pm_user_display_name p = [] \<or> length (pm_user_display_name p) > 256"

definition PasskeyManagement_wire :: "minicbor \<Rightarrow> passkey_management_summary_view \<Rightarrow> bytes" where
  "PasskeyManagement_wire mc p = enc_array mc 4 @ enc_bytes mc (pm_credential_id p)
     @ enc_str mc (pm_rp_id p) @ enc_str mc (pm_user_name p) @ enc_str mc (pm_user_display_name p)"

definition AccountSummary_wire :: "minicbor \<Rightarrow> account_view \<Rightarrow> bytes" where
  "AccountSummary_wire mc a = enc_array mc 7 @ enc_bytes mc (av_id a) @ enc_u64 mc (av_revision a)
     @ enc_u64 mc (av_created_at_ms a) @ enc_u64 mc (av_modified_at_ms a)
     @ enc_str mc (av_service_name a) @ enc_str mc (av_permitted_origin a)
     @ enc_str mc (av_username a)"

definition AccountSummaries_wire :: "minicbor \<Rightarrow> account_view list \<Rightarrow> u32 option \<Rightarrow> bytes" where
  "AccountSummaries_wire mc accounts next_offset =
     enc_array mc 2 @ (case next_offset of Some n \<Rightarrow> enc_u32 mc n | None \<Rightarrow> enc_null mc)
     @ enc_array mc (of_nat (length accounts)) @ concat (map (AccountSummary_wire mc) accounts)"

definition Account_wire :: "minicbor \<Rightarrow> account_view \<Rightarrow> bytes" where
  "Account_wire mc a = enc_array mc 8 @ enc_bytes mc (av_id a) @ enc_u64 mc (av_revision a)
     @ enc_u64 mc (av_created_at_ms a) @ enc_u64 mc (av_modified_at_ms a)
     @ enc_str mc (av_service_name a) @ enc_str mc (av_permitted_origin a)
     @ enc_str mc (av_username a) @ enc_str mc (av_password a)"

text \<open>The bytes one account adds to the estimate.\<close>

definition summary_cost :: "account_view \<Rightarrow> nat" where
  "summary_cost a = 54 + length (av_service_name a) + length (av_permitted_origin a)
     + length (av_username a)"

definition summary_fields_ok :: "account_view \<Rightarrow> bool" where
  "summary_fields_ok a \<longleftrightarrow> length (av_service_name a) \<le> 256
     \<and> length (av_permitted_origin a) \<le> 2048 \<and> length (av_username a) \<le> 1024"

lemma response_write:
  assumes "length bs \<le> 65440"
  shows "and_then (expect_some (SecretWriter_write_all
      (SecretWriter_with_capacity MAX_PAYLOAD_BYTES) bs))
      (\<lambda>w. checked_response_body (writer_bytes w)) = Ok bs"
  using assms by (subst and_then_secret_writer) (simp_all add: checked_response_body_def)

lemma validate_view_fields_False:
  "validate_view_fields a False = (if summary_fields_ok a then Ok () else Err TooLarge)"
  by (auto simp: validate_view_fields_def summary_fields_ok_def)

lemma summaries_estimate_eq:
  assumes "n + 3382 * length as < 2 ^ 64"
  shows "summaries_estimate n as =
    (if list_all summary_fields_ok as then Ok (n + sum_list (map summary_cost as))
     else Err TooLarge)"
  using assms
proof (induction as arbitrary: n)
  case (Cons a as)
  show ?case
  proof (cases "summary_fields_ok a")
    case True
    then have "summary_cost a \<le> 3382" by (simp add: summary_cost_def summary_fields_ok_def)
    moreover from this have "usize_checked_add n 54 \<bind> (\<lambda>l. usize_checked_add l
        (length (av_service_name a)) \<bind> (\<lambda>l. usize_checked_add l (length (av_permitted_origin a))
        \<bind> (\<lambda>l. usize_checked_add l (length (av_username a))))) = Some (n + summary_cost a)"
      using Cons.prems by (simp add: usize_checked_add_def summary_cost_def)
    ultimately show ?thesis
      using True Cons.IH [of "n + summary_cost a"] Cons.prems
      by (simp add: validate_view_fields_False ac_simps)
  qed (simp add: validate_view_fields_False)
qed simp

lemma encode_account_summary_eq [encode_simps]:
  "encode_account_summary mc a = (\<lambda>w. SecretWriter_write_all w (AccountSummary_wire mc a))"
  by (simp add: fun_eq_iff encode_account_summary_def AccountSummary_wire_def encode_simps)

section \<open>Outcomes\<close>

context minicbor_spec
begin

lemma encode_empty_result_eq: "encode_empty_result mc = Ok (enc_array mc 0)"
  unfolding encode_empty_result_def encode_array_def by (rule response_write) (simp add: head_len_def)

lemma encode_status_eq:
  "encode_status mc state epoch
     = Ok (enc_array mc 2 @ enc_u8 mc (AgentState_code state) @ enc_u64 mc epoch)"
  unfolding encode_status_def encode_simps
  by (rule response_write, rule order_trans, (rule enc_bounds | simp)+)

lemma encode_account_id_eq:
  assumes "length i = 16" shows "encode_account_id mc i = Ok (enc_array mc 1 @ enc_bytes mc i)"
  unfolding encode_account_id_def encode_simps
  by (insert assms, rule response_write, rule order_trans, (rule enc_bounds | simp)+)

lemma encode_passkey_credential_eq:
  assumes "length (pc_credential_id c) = 32" and "length (pc_public_key c) = 65"
  shows "encode_passkey_credential mc c =
    (if pc_credential_id c = zeros 32 \<or> pc_user_handle c = [] \<or> length (pc_user_handle c) > 64
        \<or> pc_public_key c ! 0 \<noteq> 4
     then Err InvariantViolation
     else Ok (enc_array mc 3 @ enc_bytes mc (pc_credential_id c) @ enc_bytes mc (pc_user_handle c)
       @ enc_bytes mc (pc_public_key c)))"
proof (cases "length (pc_user_handle c) > 64")
  case False
  note v = assms False
  have "length (enc_array mc 3 @ enc_bytes mc (pc_credential_id c)
      @ enc_bytes mc (pc_user_handle c) @ enc_bytes mc (pc_public_key c)) \<le> 65440"
    by (insert v, rule order_trans, (rule enc_bounds | simp)+)
  from response_write [OF this] show ?thesis
    unfolding encode_passkey_credential_def encode_simps by simp
qed (simp add: encode_passkey_credential_def)

lemma encode_passkey_assertion_eq:
  assumes "length (pa_credential_id a) = 32" and "length (pa_authenticator_data a) = 37"
  shows "encode_passkey_assertion mc a =
    (if pa_credential_id a = zeros 32 \<or> pa_user_handle a = [] \<or> length (pa_user_handle a) > 64
        \<or> pa_signature_der a = [] \<or> length (pa_signature_der a) > 80
     then Err InvariantViolation
     else Ok (enc_array mc 4 @ enc_bytes mc (pa_credential_id a) @ enc_bytes mc (pa_user_handle a)
       @ enc_bytes mc (pa_authenticator_data a) @ enc_bytes mc (pa_signature_der a)))"
proof (cases "length (pa_user_handle a) > 64 \<or> length (pa_signature_der a) > 80")
  case False
  note v = assms False
  have "length (enc_array mc 4 @ enc_bytes mc (pa_credential_id a)
      @ enc_bytes mc (pa_user_handle a) @ enc_bytes mc (pa_authenticator_data a)
      @ enc_bytes mc (pa_signature_der a)) \<le> 65440"
    by (insert v, rule order_trans, (rule enc_bounds | simp)+)
  from response_write [OF this] show ?thesis
    unfolding encode_passkey_assertion_def encode_simps by simp
qed (auto simp: encode_passkey_assertion_def)

end

sublocale minicbor_spec \<subseteq> summary_loop: checked_encode_loop
  "encode_passkey_summary_loop mc" PasskeySummary_bad "PasskeySummary_wire mc"
  "\<lambda>p. length (ps_credential_id p) = 32" 640
proof
  fix p ps w
  show "encode_passkey_summary_loop mc (p # ps) w =
      (if PasskeySummary_bad p then Err InvariantViolation
       else and_then (expect_some (SecretWriter_write_all w (PasskeySummary_wire mc p)))
         (encode_passkey_summary_loop mc ps))"
    by (simp add: PasskeySummary_bad_def PasskeySummary_wire_def encode_simps)
next
  fix p assume v: "length (ps_credential_id p) = 32" "\<not> PasskeySummary_bad p"
  show "length (PasskeySummary_wire mc p) \<le> 640"
    unfolding PasskeySummary_wire_def
    by (insert v [unfolded PasskeySummary_bad_def], rule order_trans, (rule enc_bounds | simp)+)
qed simp

sublocale minicbor_spec \<subseteq> management_loop: checked_encode_loop
  "encode_passkey_management_loop mc" PasskeyManagement_bad "PasskeyManagement_wire mc"
  "\<lambda>p. length (pm_credential_id p) = 32" 900
proof
  fix p ps w
  show "encode_passkey_management_loop mc (p # ps) w =
      (if PasskeyManagement_bad p then Err InvariantViolation
       else and_then (expect_some (SecretWriter_write_all w (PasskeyManagement_wire mc p)))
         (encode_passkey_management_loop mc ps))"
    by (simp add: PasskeyManagement_bad_def PasskeyManagement_wire_def encode_simps)
next
  fix p assume v: "length (pm_credential_id p) = 32" "\<not> PasskeyManagement_bad p"
  show "length (PasskeyManagement_wire mc p) \<le> 900"
    unfolding PasskeyManagement_wire_def
    by (insert v [unfolded PasskeyManagement_bad_def], rule order_trans, (rule enc_bounds | simp)+)
qed simp

context minicbor_spec
begin

lemma encode_passkey_summaries_eq:
  assumes "list_all (\<lambda>p. length (ps_credential_id p) = 32) passkeys"
  shows "encode_passkey_summaries mc passkeys =
    (if length passkeys > 64 then Err TooLarge
     else if list_ex PasskeySummary_bad passkeys then Err InvariantViolation
     else Ok (enc_array mc (of_nat (length passkeys))
       @ concat (map (PasskeySummary_wire mc) passkeys)))"
proof (cases "length passkeys > 64")
  case False
  have h: "length (enc_array mc (of_nat (length passkeys))) \<le> 9" by (rule enc_bounds)
  have "length (enc_array mc (of_nat (length passkeys))) + 640 * length passkeys \<le> 65440"
    using False h by (simp del: length_enc_array)
  from summary_loop.loop_response [OF assms this] False show ?thesis
    unfolding encode_passkey_summaries_def encode_simps by simp
qed (simp add: encode_passkey_summaries_def)

lemma encode_passkey_management_summaries_eq:
  assumes "list_all (\<lambda>p. length (pm_credential_id p) = 32) passkeys"
  shows "encode_passkey_management_summaries mc passkeys =
    (if length passkeys > 64 then Err TooLarge
     else if list_ex PasskeyManagement_bad passkeys then Err InvariantViolation
     else Ok (enc_array mc (of_nat (length passkeys))
       @ concat (map (PasskeyManagement_wire mc) passkeys)))"
proof (cases "length passkeys > 64")
  case False
  have h: "length (enc_array mc (of_nat (length passkeys))) \<le> 9" by (rule enc_bounds)
  have "length (enc_array mc (of_nat (length passkeys))) + 900 * length passkeys \<le> 65440"
    using False h by (simp del: length_enc_array)
  from management_loop.loop_response [OF assms this] False show ?thesis
    unfolding encode_passkey_management_summaries_def encode_simps by simp
qed (simp add: encode_passkey_management_summaries_def)

lemma Account_wire_length:
  assumes "length (av_id a) = 16" and "validate_view_fields a True = Ok ()"
  shows "length (Account_wire mc a) \<le> 65440"
proof -
  have v: "length (av_id a) = 16" "length (av_service_name a) \<le> 256"
    "length (av_permitted_origin a) \<le> 2048" "length (av_username a) \<le> 1024"
    "length (av_password a) \<le> 16384"
    using assms by (auto simp: validate_view_fields_def split: if_splits)
  show ?thesis unfolding Account_wire_def
    by (insert v, rule order_trans, (rule enc_bounds | simp)+)
qed

lemma encode_account_eq:
  assumes "length (av_id a) = 16"
  shows "encode_account mc a =
    and_then (validate_view_fields a True) (\<lambda>_. Ok (Account_wire mc a))"
proof (cases "validate_view_fields a True")
  case (Ok u)
  with Account_wire_length [OF assms] have "length (Account_wire mc a) \<le> 65440" by simp
  from response_write [OF this] Ok show ?thesis
    unfolding encode_account_def encode_simps Account_wire_def by simp
qed (simp_all add: encode_account_def)

lemma AccountSummary_wire_length:
  assumes "length (av_id a) = 16" and "summary_fields_ok a"
  shows "length (AccountSummary_wire mc a) \<le> summary_cost a"
proof -
  have u64: "length (enc_u64 mc d) \<le> 9" for d by (rule enc_bounds)
  have str: "length (enc_str mc s) \<le> 3 + length s" if "length s \<le> 2048" for s
    using that by (intro enc_bounds) simp
  have "length (av_service_name a) \<le> 2048" "length (av_permitted_origin a) \<le> 2048"
    "length (av_username a) \<le> 2048"
    using assms(2) by (simp_all add: summary_fields_ok_def)
  from str [OF this(1)] str [OF this(2)] str [OF this(3)] show ?thesis
    using assms(1) u64 [of "av_revision a"] u64 [of "av_created_at_ms a"]
      u64 [of "av_modified_at_ms a"]
    by (simp add: AccountSummary_wire_def summary_cost_def head_len_def [of 7] head_len_def [of 16]
        del: length_enc_u64 length_enc_str)
qed

lemma AccountSummaries_wire_length:
  assumes "list_all (\<lambda>a. length (av_id a) = 16) accounts" and "list_all summary_fields_ok accounts"
    and "length accounts \<le> 100"
  shows "length (AccountSummaries_wire mc accounts next_offset)
           \<le> 8 + sum_list (map summary_cost accounts)"
proof -
  have "length (concat (map (AccountSummary_wire mc) accounts))
      \<le> sum_list (map summary_cost accounts)"
    using assms(1, 2)
  proof (induction accounts)
    case (Cons a as)
    with AccountSummary_wire_length [of a] show ?case by simp
  qed simp
  moreover have "length (case next_offset of Some n \<Rightarrow> enc_u32 mc n | None \<Rightarrow> enc_null mc) \<le> 5"
    by (cases next_offset) (simp_all add: head_len_u32)
  moreover have "length (enc_array mc (of_nat (length accounts))) \<le> 2"
    using assms(3) by (simp add: unat_of_nat head_len_def)
  moreover have "length (enc_array mc 2) \<le> 1" by (simp add: head_len_def)
  ultimately show ?thesis unfolding AccountSummaries_wire_def by simp
qed

lemma encode_account_summaries_eq:
  assumes "list_all (\<lambda>a. length (av_id a) = 16) accounts"
  shows "encode_account_summaries mc accounts next_offset =
    (if length accounts > 100 \<or> \<not> list_all summary_fields_ok accounts
        \<or> 8 + sum_list (map summary_cost accounts) > 65440
     then Err TooLarge else Ok (AccountSummaries_wire mc accounts next_offset))"
proof (cases "length accounts > 100 \<or> \<not> list_all summary_fields_ok accounts
    \<or> 8 + sum_list (map summary_cost accounts) > 65440")
  case True
  then show ?thesis
    by (auto simp: encode_account_summaries_def summaries_estimate_eq)
next
  case False
  then have "length (AccountSummaries_wire mc accounts next_offset) \<le> 65440"
    using AccountSummaries_wire_length [OF assms, of next_offset] by simp
  moreover have "(do {
      w \<leftarrow> encode_array mc 2 w0;
      w \<leftarrow> (case next_offset of Some offset \<Rightarrow> encode_u32 mc offset w | None \<Rightarrow> encode_null mc w);
      w \<leftarrow> encode_array mc (of_nat (length accounts)) w;
      encode_each (encode_account_summary mc) accounts w })
      = SecretWriter_write_all w0 (AccountSummaries_wire mc accounts next_offset)" for w0
    by (cases next_offset) (simp_all add: AccountSummaries_wire_def encode_simps
        write_then_encode_each [where g = "AccountSummary_wire mc"])
  ultimately show ?thesis
    using False response_write
    by (simp add: encode_account_summaries_def summaries_estimate_eq)
qed

end

section \<open>Properties\<close>

definition sample_account :: account_view where
  "sample_account = \<lparr>av_id = replicate 16 3, av_revision = 1, av_created_at_ms = 1000,
     av_modified_at_ms = 2000, av_service_name = ascii ''Mail'',
     av_permitted_origin = ascii ''https://mail.example'', av_username = ascii ''me'',
     av_password = ascii ''secret''\<rparr>"

lemma validate_view_fields_no_panic: "validate_view_fields a b \<noteq> Panic"
  by (simp add: validate_view_fields_def)

text \<open>Whatever an encoder returns went through \<open>checked_response_body\<close>.\<close>

lemma checked_body:
  "and_then m (\<lambda>w. checked_response_body (writer_bytes w)) = Ok body \<Longrightarrow> length body \<le> 65440"
  by (auto simp: checked_response_body_def result_simps split: if_splits)

lemma encoder_bounds:
  "encode_empty_result mc = Ok body \<Longrightarrow> length body \<le> 65440"
  "encode_status mc state epoch = Ok body \<Longrightarrow> length body \<le> 65440"
  "encode_account_id mc i = Ok body \<Longrightarrow> length body \<le> 65440"
  "encode_account mc a = Ok body \<Longrightarrow> length body \<le> 65440"
  "encode_passkey_credential mc c = Ok body \<Longrightarrow> length body \<le> 65440"
  "encode_passkey_assertion mc t = Ok body \<Longrightarrow> length body \<le> 65440"
  "encode_passkey_summaries mc ps = Ok body \<Longrightarrow> length body \<le> 65440"
  "encode_passkey_management_summaries mc ms = Ok body \<Longrightarrow> length body \<le> 65440"
  unfolding encode_empty_result_def encode_status_def encode_account_id_def encode_account_def
    encode_passkey_credential_def encode_passkey_assertion_def encode_passkey_summaries_def
    encode_passkey_management_summaries_def
  by (elim ok_chain_elims; (erule checked_body | simp add: checked_response_body_def split: if_splits))+

lemma encoders_no_panic:
  assumes "minicbor_spec mc"
  shows "encode_empty_result mc \<noteq> Panic" "encode_status mc state epoch \<noteq> Panic"
    and "length i = 16 \<Longrightarrow> encode_account_id mc i \<noteq> Panic"
    and "length (av_id a) = 16 \<Longrightarrow> encode_account mc a \<noteq> Panic"
    and "length (pc_credential_id c) = 32 \<Longrightarrow> length (pc_public_key c) = 65 \<Longrightarrow>
      encode_passkey_credential mc c \<noteq> Panic"
    and "length (pa_credential_id t) = 32 \<Longrightarrow> length (pa_authenticator_data t) = 37 \<Longrightarrow>
      encode_passkey_assertion mc t \<noteq> Panic"
    and "list_all (\<lambda>p. length (ps_credential_id p) = 32) ps \<Longrightarrow>
      encode_passkey_summaries mc ps \<noteq> Panic"
    and "list_all (\<lambda>p. length (pm_credential_id p) = 32) ms \<Longrightarrow>
      encode_passkey_management_summaries mc ms \<noteq> Panic"
proof -
  have s: "minicbor_spec mc" by fact
  show "encode_empty_result mc \<noteq> Panic" "encode_status mc state epoch \<noteq> Panic"
    by (simp_all add: minicbor_spec.encode_empty_result_eq [OF s] minicbor_spec.encode_status_eq [OF s])
  show "length i = 16 \<Longrightarrow> encode_account_id mc i \<noteq> Panic"
    by (simp add: minicbor_spec.encode_account_id_eq [OF s])
  show "length (av_id a) = 16 \<Longrightarrow> encode_account mc a \<noteq> Panic"
    by (simp add: minicbor_spec.encode_account_eq [OF s] result_simps validate_view_fields_no_panic)
  show "length (pc_credential_id c) = 32 \<Longrightarrow> length (pc_public_key c) = 65 \<Longrightarrow>
      encode_passkey_credential mc c \<noteq> Panic"
    by (simp add: minicbor_spec.encode_passkey_credential_eq [OF s])
  show "length (pa_credential_id t) = 32 \<Longrightarrow> length (pa_authenticator_data t) = 37 \<Longrightarrow>
      encode_passkey_assertion mc t \<noteq> Panic"
    by (simp add: minicbor_spec.encode_passkey_assertion_eq [OF s])
  show "list_all (\<lambda>p. length (ps_credential_id p) = 32) ps \<Longrightarrow>
      encode_passkey_summaries mc ps \<noteq> Panic"
    by (simp add: minicbor_spec.encode_passkey_summaries_eq [OF s])
  show "list_all (\<lambda>p. length (pm_credential_id p) = 32) ms \<Longrightarrow>
      encode_passkey_management_summaries mc ms \<noteq> Panic"
    by (simp add: minicbor_spec.encode_passkey_management_summaries_eq [OF s])
qed



text \<open>A page of account summaries is encoded exactly when it has at most 100 accounts with fields
  within bounds and the size estimate (8 bytes, and 54 plus the field lengths per account) fits a
  response; the estimate is never below the real size, so the encoder never panics.\<close>

theorem account_summaries_outcome:
  assumes "minicbor_spec mc" and "list_all (\<lambda>a. length (av_id a) = 16) accounts"
  shows "encode_account_summaries mc accounts next_offset =
      (if length accounts > 100 \<or> \<not> list_all summary_fields_ok accounts
          \<or> 8 + sum_list (map summary_cost accounts) > 65440
       then Err TooLarge else Ok (AccountSummaries_wire mc accounts next_offset))
    \<and> (\<forall>body. encode_account_summaries mc accounts next_offset = Ok body
          \<longrightarrow> length body \<le> 8 + sum_list (map summary_cost accounts))"
  using minicbor_spec.encode_account_summaries_eq [OF assms, of next_offset]
    minicbor_spec.AccountSummaries_wire_length [OF assms, of next_offset]
  by (auto split: if_splits)

theorem account_summaries_outcome_witness:
  "encode_account_summaries rfc8949 [sample_account, sample_account] (Some 2)
     = Ok (AccountSummaries_wire rfc8949 [sample_account, sample_account] (Some 2))
   \<and> length (AccountSummaries_wire rfc8949 [sample_account, sample_account] (Some 2)) \<le> 168"
  using account_summaries_outcome [OF rfc.minicbor_spec_axioms, of "[sample_account, sample_account]"
      "Some 2"]
  by (simp add: sample_account_def summary_fields_ok_def summary_cost_def ascii_def)

text \<open>C36: the page of account summaries a client lists does not depend on any password: changing every
  password changes neither the outcome nor a byte of the page.\<close>

theorem account_summaries_hide_passwords:
  "encode_account_summaries mc (map (\<lambda>a. a\<lparr>av_password := secret a\<rparr>) accounts) next_offset
     = encode_account_summaries mc accounts next_offset"
proof -
  have "summaries_estimate n (map (\<lambda>a. a\<lparr>av_password := secret a\<rparr>) accounts)
      = summaries_estimate n accounts" for n
    by (induction accounts arbitrary: n) (simp_all add: validate_view_fields_def)
  moreover have "encode_each (encode_account_summary mc)
      (map (\<lambda>a. a\<lparr>av_password := secret a\<rparr>) accounts) w
      = encode_each (encode_account_summary mc) accounts w" for w
    by (induction accounts arbitrary: w) (simp_all add: encode_account_summary_def)
  ultimately show ?thesis by (simp add: encode_account_summaries_def del: encode_each.simps cong: if_cong)
qed

end
