(* ===== verification/Protocol_Events.thy ===== *)
theory Protocol_Events
  imports Protocol_Types Protocol_Cbor Rfc8949
begin

text \<open>
  State-transition events and the bounded per-connection event queue
  (crates/agent-protocol/src/events.rs). The queue is shown to be a first-in first-out buffer that
  never holds more than \<open>MAX_EVENT_QUEUE\<close> events and refuses a push exactly when it is full.
\<close>

section \<open>AgentEvent\<close>

record agent_event =
  ev_state :: agent_state
  ev_unlock_epoch :: u64

definition AgentEvent_encode :: "minicbor \<Rightarrow> agent_event \<Rightarrow> bytes option" where
  "AgentEvent_encode mc e = into_bytes (do {
     w \<leftarrow> encode_array mc 2 vec_new;
     w \<leftarrow> encode_u8 mc (AgentState_code (ev_state e)) w;
     encode_u64 mc (ev_unlock_epoch e) w })"

definition AgentEvent_decode :: "minicbor \<Rightarrow> bytes \<Rightarrow> (agent_event, protocol_error) result" where
  "AgentEvent_decode mc bs =
     and_then (expect_array mc 2 bs) (\<lambda>d.
     and_then (decode_u8 mc d) (\<lambda>(raw_state, d).
     and_then (ok_or Unsupported (AgentState_from_u64 (ucast raw_state))) (\<lambda>state.
     and_then (decode_u64 mc d) (\<lambda>(unlock_epoch, d).
     let event = \<lparr>ev_state = state, ev_unlock_epoch = unlock_epoch\<rparr> in
     and_then (require_end d bs) (\<lambda>_.
     and_then (expect_some (AgentEvent_encode mc event)) (\<lambda>enc.
     if enc \<noteq> bs then Err NonCanonical else Ok event))))))"

lemma AgentEvent_encode_eq:
  "AgentEvent_encode mc e = Some (enc_array mc 2 @ enc_u8 mc (AgentState_code (ev_state e))
     @ enc_u64 mc (ev_unlock_epoch e))"
  by (simp add: AgentEvent_encode_def encode_simps)

context minicbor_spec
begin

lemma AgentEvent_decode_iff: "AgentEvent_decode mc bs = Ok e \<longleftrightarrow> AgentEvent_encode mc e = Some bs"
proof
  assume "AgentEvent_decode mc bs = Ok e"
  then show "AgentEvent_encode mc e = Some bs"
    by (auto simp: AgentEvent_decode_def Let_def result_simps split: if_splits prod.splits)
next
  assume "AgentEvent_encode mc e = Some bs"
  then show "AgentEvent_decode mc bs = Ok e"
    by (auto simp: AgentEvent_decode_def AgentEvent_encode_eq code_simps Let_def)
qed

end

sublocale minicbor_spec \<subseteq> event: canonical_codec
  "AgentEvent_encode mc" "AgentEvent_decode mc" "\<lambda>_. True"
proof unfold_locales
  show "AgentEvent_decode mc bs \<noteq> Panic" for bs
    by (auto simp: AgentEvent_decode_def AgentEvent_encode_eq Let_def result_simps no_panic
        split: prod.splits)
qed (simp_all add: AgentEvent_decode_iff AgentEvent_encode_eq)

section \<open>EventQueue\<close>

datatype event_queue_overflow = EventQueueOverflow

record event_queue =
  eq_events :: "agent_event list"

definition EventQueue_new :: event_queue where
  "EventQueue_new = \<lparr>eq_events = []\<rparr>"

definition EventQueue_push ::
    "event_queue \<Rightarrow> agent_event \<Rightarrow> (unit, event_queue_overflow) result \<times> event_queue" where
  "EventQueue_push q event =
     (if length (eq_events q) \<ge> MAX_EVENT_QUEUE then (Err EventQueueOverflow, q)
      else (Ok (), q\<lparr>eq_events := eq_events q @ [event]\<rparr>))"

definition EventQueue_pop :: "event_queue \<Rightarrow> agent_event option \<times> event_queue" where
  "EventQueue_pop q = (case eq_events q of
      [] \<Rightarrow> (None, q)
    | event # rest \<Rightarrow> (Some event, q\<lparr>eq_events := rest\<rparr>))"

definition EventQueue_len :: "event_queue \<Rightarrow> nat" where
  "EventQueue_len q = length (eq_events q)"

definition EventQueue_is_empty :: "event_queue \<Rightarrow> bool" where
  "EventQueue_is_empty q \<longleftrightarrow> eq_events q = []"

text \<open>
  What a client of a bounded buffer relies on: pushes append unless the buffer is full, pops take
  the oldest element. \<open>drain\<close> pops until the buffer is empty; \<open>feed\<close> pushes a list.
\<close>

primrec feed :: "('q \<Rightarrow> 'a \<Rightarrow> (unit, 'e) result \<times> 'q) \<Rightarrow> 'q \<Rightarrow> 'a list \<Rightarrow> 'q option" where
  "feed push q [] = Some q"
| "feed push q (x # xs) =
     (case push q x of (Ok _, q') \<Rightarrow> feed push q' xs | _ \<Rightarrow> None)"

primrec drain :: "('q \<Rightarrow> 'a option \<times> 'q) \<Rightarrow> nat \<Rightarrow> 'q \<Rightarrow> 'a list" where
  "drain pop 0 q = []"
| "drain pop (Suc n) q =
     (case pop q of (None, _) \<Rightarrow> [] | (Some x, q') \<Rightarrow> x # drain pop n q')"

locale bounded_fifo =
  fixes contents :: "'q \<Rightarrow> 'a list"
    and capacity :: nat
    and push :: "'q \<Rightarrow> 'a \<Rightarrow> (unit, 'e) result \<times> 'q"
    and pop :: "'q \<Rightarrow> 'a option \<times> 'q"
  assumes push_room: "length (contents q) < capacity \<Longrightarrow>
      \<exists>q'. push q x = (Ok (), q') \<and> contents q' = contents q @ [x]"
    and push_full: "capacity \<le> length (contents q) \<Longrightarrow> \<exists>e. push q x = (Err e, q)"
    and pop_empty: "contents q = [] \<Longrightarrow> pop q = (None, q)"
    and pop_cons: "contents q = x # xs \<Longrightarrow> \<exists>q'. pop q = (Some x, q') \<and> contents q' = xs"
begin

lemma feed_iff:
  "length (contents q) \<le> capacity \<Longrightarrow>
     (\<exists>q'. feed push q xs = Some q') \<longleftrightarrow> length (contents q) + length xs \<le> capacity"
proof (induction xs arbitrary: q)
  case (Cons x xs)
  show ?case
  proof (cases "length (contents q) < capacity")
    case True
    then obtain q' where "push q x = (Ok (), q')" and "contents q' = contents q @ [x]"
      using push_room by blast
    then show ?thesis using Cons.IH [of q'] True by simp
  next
    case False
    then obtain e where "push q x = (Err e, q)" using push_full [of q x] by auto
    then show ?thesis using False by simp
  qed
qed simp

lemma feed_contents: "feed push q xs = Some q' \<Longrightarrow> contents q' = contents q @ xs"
proof (induction xs arbitrary: q)
  case (Cons x xs)
  show ?case
  proof (cases "length (contents q) < capacity")
    case True
    then obtain q1 where "push q x = (Ok (), q1)" and "contents q1 = contents q @ [x]"
      using push_room by blast
    then show ?thesis using Cons by simp
  next
    case False
    then obtain e where "push q x = (Err e, q)" using push_full [of q x] by auto
    then show ?thesis using Cons.prems by simp
  qed
qed simp

lemma drain_contents: "length (contents q) \<le> n \<Longrightarrow> drain pop n q = contents q"
proof (induction n arbitrary: q)
  case (Suc n)
  show ?case
  proof (cases "contents q")
    case Nil
    then show ?thesis by (simp add: pop_empty)
  next
    case (Cons x xs)
    then obtain q' where "pop q = (Some x, q')" and "contents q' = xs" using pop_cons by blast
    then show ?thesis using Suc Cons by simp
  qed
qed simp

lemma feed_then_drain:
  "feed push q xs = Some q' \<Longrightarrow> length (contents q) + length xs \<le> n \<Longrightarrow>
     drain pop n q' = contents q @ xs"
  by (simp add: drain_contents feed_contents)

end

interpretation event_fifo: bounded_fifo eq_events MAX_EVENT_QUEUE EventQueue_push EventQueue_pop
  by unfold_locales (auto simp: EventQueue_push_def EventQueue_pop_def)

section \<open>Properties\<close>

text \<open>The event queue delivers the events it accepted, in order and unchanged: a series of
  pushes onto an empty queue is accepted exactly when it is at most eight events long, and popping
  afterwards yields exactly that series.\<close>

theorem event_queue_fifo:
  "(\<exists>q. feed EventQueue_push EventQueue_new events = Some q) = (length events \<le> MAX_EVENT_QUEUE)
   \<and> (\<forall>q. feed EventQueue_push EventQueue_new events = Some q
          \<longrightarrow> drain EventQueue_pop (length events) q = events
              \<and> EventQueue_len q = length events)"
  using event_fifo.feed_iff [of EventQueue_new events]
    event_fifo.feed_then_drain [of EventQueue_new events _ "length events"]
    event_fifo.feed_contents [of EventQueue_new events]
  by (simp add: EventQueue_new_def EventQueue_len_def)

theorem event_queue_fifo_witness:
  "drain EventQueue_pop 2 \<lparr>eq_events = [\<lparr>ev_state = St_Unlocked, ev_unlock_epoch = 4\<rparr>,
       \<lparr>ev_state = St_Locked, ev_unlock_epoch = 5\<rparr>]\<rparr>
     = [\<lparr>ev_state = St_Unlocked, ev_unlock_epoch = 4\<rparr>, \<lparr>ev_state = St_Locked, ev_unlock_epoch = 5\<rparr>]"
  using event_queue_fifo [of "[\<lparr>ev_state = St_Unlocked, ev_unlock_epoch = 4\<rparr>,
      \<lparr>ev_state = St_Locked, ev_unlock_epoch = 5\<rparr>]"]
  by (simp add: EventQueue_new_def EventQueue_push_def numeral_eq_Suc)

end
