(* ===== verification/Protocol_Frame.thy ===== *)
theory Protocol_Frame
  imports Protocol_Types
begin

text \<open>
  The fixed 40-byte frame header and the frame (crates/agent-protocol/src/frame.rs): construction
  under the per-kind sentinel rules, big-endian encoding, and decoding without resynchronisation.
  The development shows that header and frame decoding accept exactly the encodings of valid values.
\<close>

section \<open>Data\<close>

definition MAGIC :: bytes where "MAGIC = [0x4C, 0x42, 0x49, 0x50]" \<comment> \<open>LBIP\<close>
definition HEADER_VERSION :: u8 where "HEADER_VERSION = 1"

datatype message_kind =
  Kind_ClientHello | Kind_ServerHello | Kind_Request | Kind_Response | Kind_Cancel | Kind_Event

fun MessageKind_code :: "message_kind \<Rightarrow> u8" where
  "MessageKind_code Kind_ClientHello = 1"
| "MessageKind_code Kind_ServerHello = 2"
| "MessageKind_code Kind_Request = 3"
| "MessageKind_code Kind_Response = 4"
| "MessageKind_code Kind_Cancel = 5"
| "MessageKind_code Kind_Event = 6"

definition MessageKind_from_u8 :: "u8 \<Rightarrow> message_kind option" where
  "MessageKind_from_u8 v =
     (if v = 1 then Some Kind_ClientHello else if v = 2 then Some Kind_ServerHello
      else if v = 3 then Some Kind_Request else if v = 4 then Some Kind_Response
      else if v = 5 then Some Kind_Cancel else if v = 6 then Some Kind_Event else None)"

datatype frame_error = Frame_TooLarge | Frame_Malformed | Frame_InvalidHeader

record frame_header =
  fh_kind :: message_kind
  fh_version :: version
  fh_payload_length :: u32
  fh_connection_id :: bytes
  fh_request_id :: u64

record frame =
  fr_header :: frame_header
  fr_payload :: bytes

section \<open>Header\<close>

definition validate_kind_fields :: "frame_header \<Rightarrow> (unit, frame_error) result" where
  "validate_kind_fields h =
     (let zero_version = (fh_version h = Version 0 0);
          zero_connection = (fh_connection_id h = zeros 16);
          zero_request = (fh_request_id h = 0);
          valid = (case fh_kind h of
              Kind_ClientHello \<Rightarrow> zero_version \<and> zero_connection \<and> zero_request
            | Kind_ServerHello \<Rightarrow> \<not> zero_version \<and> \<not> zero_connection \<and> zero_request
            | Kind_Event \<Rightarrow> \<not> zero_version \<and> \<not> zero_connection \<and> zero_request
            | Kind_Request \<Rightarrow> \<not> zero_version \<and> \<not> zero_connection \<and> \<not> zero_request
            | Kind_Response \<Rightarrow> \<not> zero_version \<and> \<not> zero_connection \<and> \<not> zero_request
            | Kind_Cancel \<Rightarrow> \<not> zero_version \<and> \<not> zero_connection \<and> \<not> zero_request
                \<and> fh_payload_length h = 0)
      in if \<not> valid then Err Frame_InvalidHeader else Ok ())"

definition FrameHeader_new ::
    "message_kind \<Rightarrow> version \<Rightarrow> nat \<Rightarrow> bytes \<Rightarrow> u64 \<Rightarrow> (frame_header, frame_error) result" where
  "FrameHeader_new kind version payload_length connection_id request_id =
     (if payload_length > MAX_PAYLOAD_BYTES then Err Frame_TooLarge
      else if payload_length \<ge> 2 ^ 32 then Err Frame_TooLarge
      else
        let header = \<lparr>fh_kind = kind, fh_version = version, fh_payload_length = of_nat payload_length,
                      fh_connection_id = connection_id, fh_request_id = request_id\<rparr>
        in and_then (validate_kind_fields header) (\<lambda>_. Ok header))"

definition FrameHeader_encode :: "frame_header \<Rightarrow> bytes" where
  "FrameHeader_encode h =
     MAGIC @ [HEADER_VERSION] @ [MessageKind_code (fh_kind h)] @ be_encode 2 0
     @ be_encode 2 (unat (major (fh_version h))) @ be_encode 2 (unat (minor (fh_version h)))
     @ be_encode 4 (unat (fh_payload_length h)) @ fh_connection_id h
     @ be_encode 8 (unat (fh_request_id h))"

definition subslice :: "nat \<Rightarrow> nat \<Rightarrow> 'a list \<Rightarrow> 'a list" where
  "subslice a b xs = take (b - a) (drop a xs)"

definition FrameHeader_decode :: "bytes \<Rightarrow> (frame_header, frame_error) result" where
  "FrameHeader_decode bs =
     (if length bs \<noteq> HEADER_BYTES then Err Frame_Malformed
      else if subslice 0 4 bs \<noteq> MAGIC \<or> bs ! 4 \<noteq> HEADER_VERSION \<or> subslice 6 8 bs \<noteq> [0, 0]
      then Err Frame_InvalidHeader
      else
        and_then (ok_or Frame_InvalidHeader (MessageKind_from_u8 (bs ! 5))) (\<lambda>kind.
        let version = Version (of_nat (be_decode (subslice 8 10 bs))) (of_nat (be_decode (subslice 10 12 bs)));
            payload_length = (of_nat (be_decode (subslice 12 16 bs)) :: u32);
            connection_id = subslice 16 32 bs;
            request_id = (of_nat (be_decode (subslice 32 40 bs)) :: u64)
        in FrameHeader_new kind version (unat payload_length) connection_id request_id))"

section \<open>Frame\<close>

definition Frame_new :: "frame_header \<Rightarrow> bytes \<Rightarrow> (frame, frame_error) result" where
  "Frame_new header payload =
     (if unat (fh_payload_length header) \<noteq> length payload then Err Frame_Malformed
      else Ok \<lparr>fr_header = header, fr_payload = payload\<rparr>)"

definition Frame_decode :: "bytes \<Rightarrow> (frame, frame_error) result" where
  "Frame_decode bs =
     (if length bs < HEADER_BYTES then Err Frame_Malformed
      else
        and_then (FrameHeader_decode (take HEADER_BYTES bs)) (\<lambda>header.
        let payload_length = unat (fh_payload_length header) in
        and_then (ok_or Frame_TooLarge (usize_checked_add HEADER_BYTES payload_length)) (\<lambda>total.
        if length bs \<noteq> total then Err Frame_Malformed
        else Frame_new header (drop HEADER_BYTES bs))))"

definition Frame_encode :: "frame \<Rightarrow> (bytes, frame_error) result" where
  "Frame_encode f =
     and_then (ok_or Frame_TooLarge (usize_checked_add HEADER_BYTES (length (fr_payload f)))) (\<lambda>_.
     Ok (FrameHeader_encode (fr_header f) @ fr_payload f))"

section \<open>Validity\<close>

text \<open>
  The Rust type invariant (a 16-byte connection identifier) together with what
  \<open>FrameHeader::new\<close> checks.
\<close>

definition FrameHeader_valid :: "frame_header \<Rightarrow> bool" where
  "FrameHeader_valid h \<longleftrightarrow>
     length (fh_connection_id h) = 16 \<and> unat (fh_payload_length h) \<le> MAX_PAYLOAD_BYTES
     \<and> validate_kind_fields h = Ok ()"

definition Frame_valid :: "frame \<Rightarrow> bool" where
  "Frame_valid f \<longleftrightarrow>
     FrameHeader_valid (fr_header f) \<and> unat (fh_payload_length (fr_header f)) = length (fr_payload f)"

section \<open>Header decoding is canonical\<close>

lemma MessageKind_from_code [simp]: "MessageKind_from_u8 (MessageKind_code k) = Some k"
  by (cases k) (simp_all add: MessageKind_from_u8_def)

lemma MessageKind_from_u8_Some: "MessageKind_from_u8 v = Some k \<Longrightarrow> MessageKind_code k = v"
  by (auto simp: MessageKind_from_u8_def split: if_splits)

lemma validate_kind_fields_no_panic [simp]: "validate_kind_fields h \<noteq> Panic"
  by (simp add: validate_kind_fields_def Let_def)

lemma FrameHeader_new_Ok:
  "FrameHeader_new k v n c r = Ok h \<longleftrightarrow>
     n \<le> MAX_PAYLOAD_BYTES \<and> validate_kind_fields h = Ok ()
     \<and> h = \<lparr>fh_kind = k, fh_version = v, fh_payload_length = of_nat n, fh_connection_id = c,
            fh_request_id = r\<rparr>"
  by (auto simp: FrameHeader_new_def Let_def result_simps)

lemma subslice_append_slice: "a \<le> b \<Longrightarrow> b \<le> c \<Longrightarrow> subslice a b xs @ subslice b c xs = subslice a c xs"
proof -
  assume le: "a \<le> b" "b \<le> c"
  have "take (c - a) (drop a xs)
      = take (b - a) (drop a xs) @ take (c - b) (drop (b - a) (drop a xs))"
    using le take_add [of "b - a" "c - b" "drop a xs"] by simp
  then show ?thesis using le by (simp add: subslice_def)
qed

lemma subslice_single: "i < length xs \<Longrightarrow> [xs ! i] = subslice i (Suc i) xs"
  by (simp add: subslice_def take_Suc_conv_app_nth)

lemma subslice_all: "length xs = n \<Longrightarrow> subslice 0 n xs = xs"
  by (simp add: subslice_def)

lemma length_subslice: "b \<le> length xs \<Longrightarrow> length (subslice a b xs) = b - a"
  by (simp add: subslice_def)

lemma subslice_exact: "a = 0 \<Longrightarrow> length xs = b \<Longrightarrow> subslice a b (xs @ ys) = xs" "a = 0 \<Longrightarrow> length xs = b \<Longrightarrow> subslice a b xs = xs"
  by (auto simp: subslice_def)

lemma subslice_skip: "length xs \<le> a \<Longrightarrow> subslice a b (xs @ ys) = subslice (a - length xs) (b - length xs) ys"
  by (simp add: subslice_def)

lemma subslice_Cons: "0 < a \<Longrightarrow> subslice a b (x # ys) = subslice (a - 1) (b - 1) ys"
  using subslice_skip [of "[x]"] by simp

lemma length_MAGIC [simp]: "length MAGIC = 4"
  by (simp add: MAGIC_def)

lemma be_encode_2_zero: "be_encode 2 0 = [0, 0]"
  by (simp add: numeral_2_eq_2)

lemma header_slices:
  assumes "length bs = 40"
  shows "subslice 0 4 bs @ [bs ! 4] @ [bs ! 5] @ subslice 6 8 bs @ subslice 8 10 bs @ subslice 10 12 bs
     @ subslice 12 16 bs @ subslice 16 32 bs @ subslice 32 40 bs = bs"
  using assms by (simp add: subslice_single subslice_append_slice subslice_all del: append_Cons append_assoc
      flip: append_assoc)

lemma be_encode_of_word:
  fixes s :: bytes
  shows "length s = 2 \<Longrightarrow> be_encode 2 (unat (of_nat (be_decode s) :: u16)) = s"
    and "length s = 4 \<Longrightarrow> be_encode 4 (unat (of_nat (be_decode s) :: u32)) = s"
    and "length s = 8 \<Longrightarrow> be_encode 8 (unat (of_nat (be_decode s) :: u64)) = s"
  using be_decode_less [of s] be_encode_decode [of s]
  by (simp_all add: unat_of_nat del: be_encode.simps be_encode_decode)

lemma FrameHeader_decode_sound:
  assumes "FrameHeader_decode bs = Ok h"
  shows "FrameHeader_valid h \<and> FrameHeader_encode h = bs"
proof -
  from assms have len: "length bs = 40"
    and fixed: "subslice 0 4 bs = MAGIC" "bs ! 4 = HEADER_VERSION" "subslice 6 8 bs = [0, 0]"
    by (auto simp: FrameHeader_decode_def split: if_splits)
  from assms len fixed obtain k where k: "MessageKind_from_u8 (bs ! 5) = Some k"
    and new: "FrameHeader_new k
        (Version (of_nat (be_decode (subslice 8 10 bs))) (of_nat (be_decode (subslice 10 12 bs))))
        (unat (of_nat (be_decode (subslice 12 16 bs)) :: u32)) (subslice 16 32 bs)
        (of_nat (be_decode (subslice 32 40 bs))) = Ok h"
    by (auto simp: FrameHeader_decode_def result_simps Let_def)
  note slices = length_subslice [of _ bs, unfolded len]
  have "FrameHeader_encode h = subslice 0 4 bs @ [bs ! 4] @ [bs ! 5] @ subslice 6 8 bs @ subslice 8 10 bs
     @ subslice 10 12 bs @ subslice 12 16 bs @ subslice 16 32 bs @ subslice 32 40 bs"
    using new k fixed
    by (simp add: FrameHeader_encode_def FrameHeader_new_Ok MessageKind_from_u8_Some
        be_encode_of_word slices be_encode_2_zero del: be_encode.simps)
  then show ?thesis
    using new header_slices [OF len] slices
    by (auto simp: FrameHeader_valid_def FrameHeader_new_Ok)
qed

lemma length_FrameHeader_encode: "FrameHeader_valid h \<Longrightarrow> length (FrameHeader_encode h) = 40"
  by (simp add: FrameHeader_encode_def FrameHeader_valid_def del: be_encode.simps)

lemma FrameHeader_decode_complete:
  assumes "FrameHeader_valid h"
  shows "FrameHeader_decode (FrameHeader_encode h) = Ok h"
proof -
  let ?bs = "FrameHeader_encode h"
  have c: "length (fh_connection_id h) = 16" using assms by (simp add: FrameHeader_valid_def)
  have slices: "subslice 0 4 ?bs = MAGIC" "?bs ! 4 = HEADER_VERSION" "subslice 6 8 ?bs = be_encode 2 0"
    "?bs ! 5 = MessageKind_code (fh_kind h)"
    "subslice 8 10 ?bs = be_encode 2 (unat (major (fh_version h)))"
    "subslice 10 12 ?bs = be_encode 2 (unat (minor (fh_version h)))"
    "subslice 12 16 ?bs = be_encode 4 (unat (fh_payload_length h))"
    "subslice 16 32 ?bs = fh_connection_id h"
    "subslice 32 40 ?bs = be_encode 8 (unat (fh_request_id h))"
    using c by (simp_all add: FrameHeader_encode_def subslice_exact subslice_skip subslice_Cons nth_append
        del: be_encode.simps)
  have "Version (of_nat (unat (major (fh_version h)) mod 256 ^ 2))
          (of_nat (unat (minor (fh_version h)) mod 256 ^ 2)) = fh_version h"
    using unat_u16_less [of "major (fh_version h)"] unat_u16_less [of "minor (fh_version h)"]
    by simp
  moreover have "unat (of_nat (unat (fh_payload_length h) mod 256 ^ 4) :: u32) = unat (fh_payload_length h)"
    using unat_u32_less [of "fh_payload_length h"] by simp
  moreover have "(of_nat (unat (fh_request_id h) mod 256 ^ 8) :: u64) = fh_request_id h"
    using unat_u64_less [of "fh_request_id h"] by simp
  ultimately show ?thesis
    using assms length_FrameHeader_encode [OF assms]
    by (simp add: FrameHeader_decode_def slices be_encode_2_zero FrameHeader_new_Ok Let_def FrameHeader_valid_def
        del: be_encode.simps)
qed

interpretation header_codec: canonical_codec
  "\<lambda>h. Some (FrameHeader_encode h)" FrameHeader_decode FrameHeader_valid
proof unfold_locales
  fix bs h
  show "FrameHeader_decode bs = Ok h \<longleftrightarrow> FrameHeader_valid h \<and> Some (FrameHeader_encode h) = Some bs"
    using FrameHeader_decode_sound FrameHeader_decode_complete by auto
  show "FrameHeader_decode bs \<noteq> Panic"
    by (auto simp: FrameHeader_decode_def FrameHeader_new_def Let_def result_simps)
qed simp

section \<open>Frame decoding is canonical\<close>

lemma Frame_encode_Ok:
  "Frame_valid f \<Longrightarrow> Frame_encode f = Ok (FrameHeader_encode (fr_header f) @ fr_payload f)"
  by (simp add: Frame_encode_def Frame_valid_def FrameHeader_valid_def usize_checked_add_def)

lemma Frame_decode_sound:
  assumes "Frame_decode bs = Ok f"
  shows "Frame_valid f \<and> Frame_encode f = Ok bs"
proof -
  from assms obtain h where h: "FrameHeader_decode (take 40 bs) = Ok h"
    and len: "length bs = 40 + unat (fh_payload_length h)"
    and f: "f = \<lparr>fr_header = h, fr_payload = drop 40 bs\<rparr>"
    by (auto simp: Frame_decode_def Frame_new_def result_simps Let_def split: if_splits)
  from h have v: "FrameHeader_valid h" and e: "FrameHeader_encode h = take 40 bs"
    by (simp_all add: header_codec.decode_iff)
  with len f have "Frame_valid f" by (simp add: Frame_valid_def)
  with e f show ?thesis by (simp add: Frame_encode_Ok)
qed

lemma Frame_decode_complete:
  assumes "Frame_valid f" and "Frame_encode f = Ok bs"
  shows "Frame_decode bs = Ok f"
proof -
  have v: "FrameHeader_valid (fr_header f)"
    and len: "unat (fh_payload_length (fr_header f)) = length (fr_payload f)"
    using assms(1) by (simp_all add: Frame_valid_def)
  have bs: "bs = FrameHeader_encode (fr_header f) @ fr_payload f"
    using assms by (simp add: Frame_encode_Ok)
  have "length (fr_payload f) \<le> 65536"
    using v len by (simp add: FrameHeader_valid_def)
  then show ?thesis
    using FrameHeader_decode_complete [OF v] len
    by (simp add: bs Frame_decode_def length_FrameHeader_encode [OF v] Frame_new_def Let_def
        usize_checked_add_def)
qed

interpretation frame_codec: canonical_codec "\<lambda>f. ok (Frame_encode f)" Frame_decode Frame_valid
proof unfold_locales
  fix bs f
  show "Frame_decode bs = Ok f \<longleftrightarrow> Frame_valid f \<and> ok (Frame_encode f) = Some bs"
    using Frame_decode_sound [of bs f] Frame_decode_complete [of f bs] by (auto simp: result_simps)
  show "Frame_decode bs \<noteq> Panic"
    by (auto simp: Frame_decode_def Frame_new_def Let_def result_simps header_codec.decode_no_panic)
next
  fix f
  show "Frame_valid f \<Longrightarrow> \<exists>bs. ok (Frame_encode f) = Some bs"
    by (simp add: Frame_encode_Ok)
qed

section \<open>Properties\<close>

text \<open>C33: a frame is accepted exactly when it is the encoding of a frame whose payload has the
  length the header declares, at most 65536 bytes, and whose version, connection and request
  fields are zero or non-zero as its kind demands; parsing never panics. In particular a byte
  string has at most one reading and trailing or missing bytes are refused.\<close>

theorem frame_codec_exact:
  "(Frame_decode bs = Ok f \<longleftrightarrow>
      Frame_encode f = Ok bs
      \<and> length (fh_connection_id (fr_header f)) = 16
      \<and> length (fr_payload f) \<le> MAX_PAYLOAD_BYTES
      \<and> unat (fh_payload_length (fr_header f)) = length (fr_payload f)
      \<and> (fh_version (fr_header f) = Version 0 0 \<longleftrightarrow> fh_kind (fr_header f) = Kind_ClientHello)
      \<and> (fh_connection_id (fr_header f) = zeros 16 \<longleftrightarrow> fh_kind (fr_header f) = Kind_ClientHello)
      \<and> (fh_request_id (fr_header f) = 0 \<longleftrightarrow>
           fh_kind (fr_header f) \<in> {Kind_ClientHello, Kind_ServerHello, Kind_Event})
      \<and> (fh_kind (fr_header f) = Kind_Cancel \<longrightarrow> fr_payload f = []))
   \<and> Frame_decode bs \<noteq> Panic"
proof -
  have kind: "validate_kind_fields h = Ok () \<longleftrightarrow>
      (fh_version h = Version 0 0 \<longleftrightarrow> fh_kind h = Kind_ClientHello)
      \<and> (fh_connection_id h = zeros 16 \<longleftrightarrow> fh_kind h = Kind_ClientHello)
      \<and> (fh_request_id h = 0 \<longleftrightarrow> fh_kind h \<in> {Kind_ClientHello, Kind_ServerHello, Kind_Event})
      \<and> (fh_kind h = Kind_Cancel \<longrightarrow> unat (fh_payload_length h) = 0)" for h
    by (cases "fh_kind h") (auto simp: validate_kind_fields_def Let_def unat_eq_0)
  show ?thesis
    using frame_codec.decode_iff [of bs f] frame_codec.decode_no_panic [of bs]
    unfolding Frame_valid_def FrameHeader_valid_def kind ok_Some by auto
qed

theorem frame_codec_exact_witness:
  "Frame_decode (FrameHeader_encode \<lparr>fh_kind = Kind_Cancel, fh_version = Version 1 3,
       fh_payload_length = 0, fh_connection_id = replicate 16 5, fh_request_id = 9\<rparr>)
     = Ok \<lparr>fr_header = \<lparr>fh_kind = Kind_Cancel, fh_version = Version 1 3,
       fh_payload_length = 0, fh_connection_id = replicate 16 5, fh_request_id = 9\<rparr>,
       fr_payload = []\<rparr>"
  unfolding conjunct1 [OF frame_codec_exact]
  by (simp add: Frame_encode_def usize_checked_add_def)

end
