(* ===== verification/Slice_Search.thy ===== *)
theory Slice_Search
  imports Prelude
begin

text \<open>
  The standard library's \<open>slice::binary_search\<close>, which the session and the vault sources use for
  membership tests on strictly increasing slices: the bisection loop itself, and that on such a
  slice it succeeds exactly on the members.
\<close>

text \<open>
  The bisection of the standard library on a slice of length \<open>n > 0\<close>: \<open>base\<close> and \<open>len\<close> delimit the
  window that can still hold the key.
\<close>

function bisect :: "'a::linorder list \<Rightarrow> 'a \<Rightarrow> nat \<Rightarrow> nat \<Rightarrow> nat" where
  "bisect xs x base len =
     (if len \<le> 1 then base
      else
        let half = len div 2; mid = base + half
        in bisect xs x (if xs ! mid > x then base else mid) (len - half))"
  by pat_completeness auto
termination
  by (relation "measure (\<lambda>(xs, x, base, len). len)") auto

declare bisect.simps [simp del]

definition binary_search_is_ok :: "'a::linorder list \<Rightarrow> 'a \<Rightarrow> bool" where
  "binary_search_is_ok xs x \<longleftrightarrow> xs \<noteq> [] \<and> xs ! bisect xs x 0 (length xs) = x"

lemma bisect_finds:
  assumes "sorted_wrt (<) xs" and "base + len \<le> length xs" and "0 < len"
    and "\<exists>i. base \<le> i \<and> i < base + len \<and> xs ! i = x"
  shows "xs ! bisect xs x base len = x"
  using assms
proof (induction xs x base len rule: bisect.induct)
  case (1 xs x base len)
  obtain i where i: "base \<le> i" "i < base + len" "xs ! i = x" using "1.prems"(4) by blast
  show ?case
  proof (cases "len \<le> 1")
    case True
    with i have "i = base" by simp
    with i True show ?thesis by (simp add: bisect.simps [of xs x base len])
  next
    case False
    define half where "half = len div 2"
    define mid where "mid = base + half"
    have half: "0 < half" "half < len" "half \<le> len - half" using False by (auto simp: half_def)
    have nth_mono: "j \<le> k \<Longrightarrow> k < length xs \<Longrightarrow> xs ! j \<le> xs ! k" for j k
      using sorted_wrt_nth_less [OF "1.prems"(1)] by (metis le_less)
    have mid: "mid < length xs" using half "1.prems"(2) by (simp add: mid_def)
    let ?base = "if xs ! mid > x then base else mid"
    have "?base \<le> i" "i < ?base + (len - half)"
    proof -
      have "xs ! mid > x \<Longrightarrow> i < mid" using nth_mono [of mid i] i "1.prems"(2) by fastforce
      moreover have "\<not> xs ! mid > x \<Longrightarrow> mid \<le> i"
        using sorted_wrt_nth_less [OF "1.prems"(1), of i mid] i mid by fastforce
      ultimately show "?base \<le> i" "i < ?base + (len - half)"
        using i half by (auto simp: mid_def)
    qed
    moreover have "?base + (len - half) \<le> length xs" using half "1.prems"(2) by (auto simp: mid_def)
    moreover have "0 < len - half" using half by simp
    ultimately have "xs ! bisect xs x ?base (len - half) = x"
      using i(3) by (intro "1.IH" [OF False half_def mid_def] "1.prems"(1)) blast+
    then show ?thesis using False
      by (simp add: bisect.simps [of xs x base len] Let_def half_def mid_def split: if_splits)
  qed
qed

lemma bisect_in_range:
  "0 < len \<Longrightarrow> base + len \<le> length xs \<Longrightarrow> bisect xs x base len < length xs"
proof (induction xs x base len rule: bisect.induct)
  case (1 xs x base len)
  show ?case
  proof (cases "len \<le> 1")
    case False
    let ?base = "if xs ! (base + len div 2) > x then base else base + len div 2"
    have "bisect xs x ?base (len - len div 2) < length xs"
      using "1.prems" False by (intro "1.IH" [OF False refl refl]) auto
    then show ?thesis using False by (simp add: bisect.simps [of xs x base len] Let_def)
  qed (use "1.prems" in \<open>simp add: bisect.simps [of xs x base len]\<close>)
qed

lemma binary_search_is_ok_iff:
  assumes "sorted_wrt (<) xs" shows "binary_search_is_ok xs x \<longleftrightarrow> x \<in> set xs"
proof
  assume "binary_search_is_ok xs x"
  then show "x \<in> set xs"
    using bisect_in_range [of "length xs" 0 xs x] by (auto simp: binary_search_is_ok_def in_set_conv_nth)
next
  assume "x \<in> set xs"
  then have "\<exists>i. 0 \<le> i \<and> i < 0 + length xs \<and> xs ! i = x" by (simp add: in_set_conv_nth)
  moreover have "xs \<noteq> []" using \<open>x \<in> set xs\<close> by auto
  ultimately show "binary_search_is_ok xs x"
    using bisect_finds [OF assms, of 0 "length xs" x] by (simp add: binary_search_is_ok_def)
qed

end
