(* ===== verification/Protocol_Session.thy ===== *)
theory Protocol_Session
  imports Protocol_Envelope Protocol_Frame Slice_Search "HOL-Library.Finite_Map"
begin

text \<open>
  The server side of one authenticated connection (crates/agent-protocol/src/session.rs):
  negotiation, admission of requests, cancellation, completion and closing. The \<open>Mutex\<close> around
  \<open>ConnectionState\<close> makes every method one atomic step, so an interleaving of the reader and the
  workers is a list of steps. A poisoned lock is part of the state; no method here poisons it.

  Shown: the exact admission condition, an invariant of every reachable connection, strictly
  increasing request identifiers, completion exactly once, cancellation that is never lost, and
  that a closed connection stays closed and admits nothing.
\<close>

section \<open>Data\<close>

definition MAX_REQUESTS_PER_CONNECTION :: nat where [simp]: "MAX_REQUESTS_PER_CONNECTION = 65536"

record connection_limits =
  cl_maximum_payload_bytes :: u32
  cl_maximum_in_flight :: u8

datatype connection_error =
    InvalidLimit | IdentityClaimMismatch | BuildMismatch | IncompatibleVersion | UnsupportedFeature
  | InvalidRandomValue | InvalidFrame | WrongDirection | ConnectionClosed | RequestLimit
  | InvalidCancel

datatype begin_request_error =
    Connection_error connection_error
  | Unauthorized
  | Busy u32
  | StaleEpoch
  | MissingIdempotencyKey

datatype request_completion = Completion_Active | Completion_Cancelled

record request_permit =
  rp_request_id :: u64
  rp_operation :: operation_code
  rp_unlock_epoch :: u64
  rp_effective_timeout_ms :: u32

datatype request_state = Request_Active | Request_Cancelled

record connection_state =
  cs_last_request_id :: u64
  cs_issued_request_ids :: "u64 fset"
  cs_in_flight :: "(u64, request_state) fmap"
  cs_closed :: bool

record connection =
  cn_role :: client_role
  cn_version :: version
  cn_authenticated_process_id :: u32
  cn_granted_features :: "u16 list"
  cn_connection_id :: bytes
  cn_limits :: connection_limits
  cn_state :: connection_state
  cn_poisoned :: bool

definition ConnectionLimits_new ::
    "u32 \<Rightarrow> u8 \<Rightarrow> (connection_limits, connection_error) result" where
  "ConnectionLimits_new maximum_payload_bytes maximum_in_flight =
     (if \<not> (MIN_NEGOTIATED_PAYLOAD_BYTES \<le> unat maximum_payload_bytes
              \<and> unat maximum_payload_bytes \<le> MAX_PAYLOAD_BYTES)
         \<or> maximum_in_flight = 0
         \<or> unat maximum_in_flight > MAX_IN_FLIGHT_PER_CONNECTION
      then Err InvalidLimit
      else Ok \<lparr>cl_maximum_payload_bytes = maximum_payload_bytes,
               cl_maximum_in_flight = maximum_in_flight\<rparr>)"

definition ConnectionLimits_default :: connection_limits where
  "ConnectionLimits_default =
     \<lparr>cl_maximum_payload_bytes = of_nat MAX_PAYLOAD_BYTES,
      cl_maximum_in_flight = of_nat MAX_IN_FLIGHT_PER_CONNECTION\<rparr>"

section \<open>Negotiation\<close>

definition Connection_negotiate ::
    "client_role \<Rightarrow> u32 \<Rightarrow> bytes \<Rightarrow> client_hello \<Rightarrow> u16 list \<Rightarrow> bytes \<Rightarrow> bytes \<Rightarrow> agent_state \<Rightarrow> u64
       \<Rightarrow> connection_limits \<Rightarrow> (connection \<times> server_hello, connection_error) result" where
  "Connection_negotiate derived_role authenticated_process_id expected_build_id hello
       supported_features server_nonce connection_id agent_state unlock_epoch limits =
     (if ch_claimed_role hello \<noteq> derived_role then Err IdentityClaimMismatch
      else if ch_component_build_id hello \<noteq> expected_build_id then Err BuildMismatch
      else
        let selected_version = min (ch_maximum hello) CURRENT_VERSION in
        if ch_minimum hello > selected_version \<or> selected_version < MINIMUM_VERSION
           \<or> major selected_version \<noteq> major CURRENT_VERSION
        then Err IncompatibleVersion
        else if windows2_any (\<lambda>x y. x \<ge> y) supported_features then Err UnsupportedFeature
        else if list_ex (\<lambda>required. \<not> binary_search_is_ok supported_features required)
                  (ch_required_features hello)
        then Err UnsupportedFeature
        else if binary_search_is_ok (ch_required_features hello) FEATURE_WINDOWS_HELLO
                \<and> selected_version < WINDOWS_HELLO_VERSION
        then Err UnsupportedFeature
        else if binary_search_is_ok (ch_required_features hello) FEATURE_PASSKEY_PROVIDER
                \<and> selected_version < PASSKEY_PROVIDER_VERSION
        then Err UnsupportedFeature
        else if binary_search_is_ok (ch_required_features hello) FEATURE_BROWSER_FILL
                \<and> selected_version < BROWSER_FILL_VERSION
        then Err UnsupportedFeature
        else if authenticated_process_id = 0 \<or> server_nonce = zeros 32 \<or> connection_id = zeros 16
        then Err InvalidRandomValue
        else
          let granted_features = ch_required_features hello in
          and_then (map_err (\<lambda>_. InvalidLimit)
            (ServerHello_new server_nonce selected_version derived_role granted_features
               (cl_maximum_payload_bytes limits) (cl_maximum_in_flight limits) agent_state
               unlock_epoch)) (\<lambda>response.
          Ok (\<lparr>cn_role = derived_role, cn_version = selected_version,
               cn_authenticated_process_id = authenticated_process_id,
               cn_granted_features = granted_features, cn_connection_id = connection_id,
               cn_limits = limits,
               cn_state = \<lparr>cs_last_request_id = 0, cs_issued_request_ids = {||},
                           cs_in_flight = fmempty, cs_closed = False\<rparr>,
               cn_poisoned = False\<rparr>, response)))"

section \<open>Requests\<close>

text \<open>
  A method that takes \<open>&mut ConnectionState\<close> returns the new state with its result; \<open>try_state\<close>
  is the \<open>?\<close> operator on such methods: the state reached so far is kept on an early return.
\<close>

definition try_state ::
    "'s \<times> ('a, 'e) result \<Rightarrow> ('e \<Rightarrow> 'f) \<Rightarrow> ('s \<Rightarrow> 's \<times> ('b, 'f) result) \<Rightarrow> 's \<times> ('b, 'f) result" where
  "try_state r from k =
     (case snd r of Ok _ \<Rightarrow> k (fst r) | Err e \<Rightarrow> (fst r, Err (from e)) | Panic \<Rightarrow> (fst r, Panic))"

definition effective_timeout :: "operation_code \<Rightarrow> u32 \<Rightarrow> u32" where
  "effective_timeout operation requested =
     (let maximum =
        (if operation \<in> {Op_CreateVault, Op_UnlockMasterPassword, Op_Lock} then UNLOCK_TIMEOUT_MS
         else if operation \<in> {Op_MakePasskey, Op_GetPasskeyAssertion, Op_DeletePasskey,
                   Op_RollbackPasskeyCreation, Op_ConfirmPasskeyCreation,
                   Op_ListPasskeysForAssertion, Op_EnrollWindowsHello, Op_UnlockWindowsHello,
                   Op_RemoveWindowsHello}
         then PASSKEY_TIMEOUT_MS
         else ORDINARY_TIMEOUT_MS)
      in min requested maximum)"

definition validate_common_header ::
    "connection \<Rightarrow> connection_state \<Rightarrow> frame_header \<Rightarrow> message_kind
       \<Rightarrow> connection_state \<times> (unit, connection_error) result" where
  "validate_common_header c state header expected_kind =
     (if cs_closed state then (state, Err ConnectionClosed)
      else if fh_kind header \<noteq> expected_kind
      then (state\<lparr>cs_closed := True\<rparr>, Err WrongDirection)
      else if fh_version header \<noteq> cn_version c \<or> fh_connection_id header \<noteq> cn_connection_id c
      then (state\<lparr>cs_closed := True\<rparr>, Err InvalidFrame)
      else (state, Ok ()))"

definition validate_request_header ::
    "connection \<Rightarrow> connection_state \<Rightarrow> frame_header
       \<Rightarrow> connection_state \<times> (unit, connection_error) result" where
  "validate_request_header c state header =
     try_state (validate_common_header c state header Kind_Request) id (\<lambda>state.
     if unat (fh_payload_length header) > unat (cl_maximum_payload_bytes (cn_limits c))
     then (state\<lparr>cs_closed := True\<rparr>, Err InvalidFrame)
     else (state, Ok ()))"

definition record_request_id ::
    "connection_state \<Rightarrow> u64 \<Rightarrow> connection_state \<times> (unit, connection_error) result" where
  "record_request_id state request_id =
     (if cs_last_request_id state = 0 \<and> request_id \<noteq> 1
         \<or> cs_last_request_id state \<noteq> 0 \<and> request_id \<le> cs_last_request_id state
      then (state\<lparr>cs_closed := True\<rparr>, Err InvalidFrame)
      else if fcard (cs_issued_request_ids state) \<ge> MAX_REQUESTS_PER_CONNECTION
      then (state\<lparr>cs_closed := True\<rparr>, Err RequestLimit)
      else (state\<lparr>cs_last_request_id := request_id,
                  cs_issued_request_ids := finsert request_id (cs_issued_request_ids state)\<rparr>,
            Ok ()))"

definition in_flight_len :: "connection_state \<Rightarrow> nat" where
  "in_flight_len state = fcard (fmdom (cs_in_flight state))"

text \<open>The body of \<open>begin_request\<close> under the lock.\<close>

definition begin_request_locked ::
    "connection \<Rightarrow> connection_state \<Rightarrow> frame_header \<Rightarrow> request_envelope \<Rightarrow> u64
       \<Rightarrow> connection_state \<times> (request_permit, begin_request_error) result" where
  "begin_request_locked c state header request current_unlock_epoch =
     try_state (validate_request_header c state header) Connection_error (\<lambda>state.
     try_state (record_request_id state (fh_request_id header)) Connection_error (\<lambda>state.
     if \<not> is_authorized_for (rq_operation request) (cn_role c) then (state, Err Unauthorized)
     else if (case required_feature (rq_operation request) of
                Some feature \<Rightarrow> \<not> binary_search_is_ok (cn_granted_features c) feature
              | None \<Rightarrow> False)
     then (state, Err Unauthorized)
     else if requires_idempotency_key (rq_operation request) \<and> rq_idempotency_key request = None
     then (state, Err MissingIdempotencyKey)
     else if requires_unlocked_epoch (rq_operation request)
             \<and> rq_unlock_epoch request \<noteq> current_unlock_epoch
     then (state, Err StaleEpoch)
     else
       let effective_timeout_ms =
             effective_timeout (rq_operation request) (rq_timeout_ms request) in
       if in_flight_len state \<ge> unat (cl_maximum_in_flight (cn_limits c))
       then (state, Err (Busy effective_timeout_ms))
       else
         (state\<lparr>cs_in_flight := fmupd (fh_request_id header) Request_Active (cs_in_flight state)\<rparr>,
          Ok \<lparr>rp_request_id = fh_request_id header, rp_operation = rq_operation request,
              rp_unlock_epoch = rq_unlock_epoch request,
              rp_effective_timeout_ms = effective_timeout_ms\<rparr>)))"

text \<open>\<open>lock_state\<close>: a poisoned lock is reported as a closed connection.\<close>

definition with_lock_state ::
    "connection \<Rightarrow> (connection_error \<Rightarrow> 'f) \<Rightarrow> (connection_state \<Rightarrow> connection_state \<times> ('b, 'f) result)
       \<Rightarrow> connection \<times> ('b, 'f) result" where
  "with_lock_state c from k =
     (if cn_poisoned c then (c, Err (from ConnectionClosed))
      else case k (cn_state c) of (state, r) \<Rightarrow> (c\<lparr>cn_state := state\<rparr>, r))"

definition Connection_begin_request ::
    "connection \<Rightarrow> frame_header \<Rightarrow> request_envelope \<Rightarrow> u64
       \<Rightarrow> connection \<times> (request_permit, begin_request_error) result" where
  "Connection_begin_request c header request current_unlock_epoch =
     with_lock_state c Connection_error
       (\<lambda>state. begin_request_locked c state header request current_unlock_epoch)"

definition Connection_cancel ::
    "connection \<Rightarrow> frame_header \<Rightarrow> connection \<times> (unit, connection_error) result" where
  "Connection_cancel c header =
     with_lock_state c id (\<lambda>state.
     try_state (validate_common_header c state header Kind_Cancel) id (\<lambda>state.
     let request_id = fh_request_id header in
     if request_id |\<notin>| cs_issued_request_ids state
     then (state\<lparr>cs_closed := True\<rparr>, Err InvalidCancel)
     else
       case fmlookup (cs_in_flight state) request_id of
         None \<Rightarrow> (state, Ok ())
       | Some _ \<Rightarrow>
           (state\<lparr>cs_in_flight := fmupd request_id Request_Cancelled (cs_in_flight state)\<rparr>, Ok ())))"

definition Connection_is_cancelled :: "connection \<Rightarrow> request_permit \<Rightarrow> bool" where
  "Connection_is_cancelled c permit =
     (if cn_poisoned c then True
      else fmlookup (cs_in_flight (cn_state c)) (rp_request_id permit) = Some Request_Cancelled)"

definition Connection_finish ::
    "connection \<Rightarrow> request_permit \<Rightarrow> connection \<times> (request_completion, connection_error) result" where
  "Connection_finish c permit =
     with_lock_state c id (\<lambda>state.
     case fmlookup (cs_in_flight state) (rp_request_id permit) of
       None \<Rightarrow> (state\<lparr>cs_closed := True\<rparr>, Err InvalidFrame)
     | Some request_state \<Rightarrow>
         (state\<lparr>cs_in_flight := fmdrop (rp_request_id permit) (cs_in_flight state)\<rparr>,
          Ok (case request_state of
                Request_Active \<Rightarrow> Completion_Active
              | Request_Cancelled \<Rightarrow> Completion_Cancelled)))"

definition Connection_close :: "connection \<Rightarrow> connection" where
  "Connection_close c =
     (if cn_poisoned c then c
      else c\<lparr>cn_state := (cn_state c)\<lparr>cs_closed := True,
               cs_in_flight := fmmap (\<lambda>_. Request_Cancelled) (cs_in_flight (cn_state c))\<rparr>\<rparr>)"

definition Connection_is_closed :: "connection \<Rightarrow> bool" where
  "Connection_is_closed c = (if cn_poisoned c then True else cs_closed (cn_state c))"

definition Connection_in_flight_count :: "connection \<Rightarrow> nat" where
  "Connection_in_flight_count c =
     (if cn_poisoned c then MAX_IN_FLIGHT_PER_CONNECTION else in_flight_len (cn_state c))"

definition Connection_response_fits :: "connection \<Rightarrow> response_envelope \<Rightarrow> bool" where
  "Connection_response_fits c response \<longleftrightarrow>
     ResponseEnvelope_encoded_len response \<le> unat (cl_maximum_payload_bytes (cn_limits c))"

section \<open>Steps of a connection\<close>

datatype session_event =
    Ev_Begin frame_header request_envelope u64
  | Ev_Cancel frame_header
  | Ev_Finish request_permit
  | Ev_Close

fun session_step :: "connection \<Rightarrow> session_event \<Rightarrow> connection" where
  "session_step c (Ev_Begin header request epoch) =
     fst (Connection_begin_request c header request epoch)"
| "session_step c (Ev_Cancel header) = fst (Connection_cancel c header)"
| "session_step c (Ev_Finish permit) = fst (Connection_finish c permit)"
| "session_step c Ev_Close = Connection_close c"

section \<open>Specification of admission\<close>

text \<open>The next acceptable request identifier: 1 first, then anything larger than the last.\<close>

definition next_id_ok :: "connection_state \<Rightarrow> u64 \<Rightarrow> bool" where
  "next_id_ok state i \<longleftrightarrow> (if cs_last_request_id state = 0 then i = 1 else cs_last_request_id state < i)"

text \<open>The frame is acceptable on this connection; otherwise the connection is closed.\<close>

definition frame_ok :: "connection \<Rightarrow> frame_header \<Rightarrow> bool" where
  "frame_ok c header \<longleftrightarrow>
     \<not> cn_poisoned c \<and> \<not> cs_closed (cn_state c) \<and> fh_kind header = Kind_Request
     \<and> fh_version header = cn_version c \<and> fh_connection_id header = cn_connection_id c
     \<and> fh_payload_length header \<le> cl_maximum_payload_bytes (cn_limits c)
     \<and> next_id_ok (cn_state c) (fh_request_id header)
     \<and> fcard (cs_issued_request_ids (cn_state c)) < 65536"

text \<open>The request is within the authority of the connection.\<close>

definition authority_ok :: "connection \<Rightarrow> request_envelope \<Rightarrow> u64 \<Rightarrow> bool" where
  "authority_ok c request epoch \<longleftrightarrow>
     is_authorized_for (rq_operation request) (cn_role c)
     \<and> (\<forall>feature. required_feature (rq_operation request) = Some feature
           \<longrightarrow> binary_search_is_ok (cn_granted_features c) feature)
     \<and> (requires_idempotency_key (rq_operation request) \<longrightarrow> rq_idempotency_key request \<noteq> None)
     \<and> (requires_unlocked_epoch (rq_operation request) \<longrightarrow> rq_unlock_epoch request = epoch)"

definition admits :: "connection \<Rightarrow> frame_header \<Rightarrow> request_envelope \<Rightarrow> u64 \<Rightarrow> bool" where
  "admits c header request epoch \<longleftrightarrow>
     frame_ok c header \<and> authority_ok c request epoch
     \<and> in_flight_len (cn_state c) < unat (cl_maximum_in_flight (cn_limits c))"

definition issue_id :: "connection \<Rightarrow> u64 \<Rightarrow> connection" where
  "issue_id c i = c\<lparr>cn_state := (cn_state c)\<lparr>cs_last_request_id := i,
     cs_issued_request_ids := finsert i (cs_issued_request_ids (cn_state c))\<rparr>\<rparr>"

definition put_in_flight :: "connection \<Rightarrow> u64 \<Rightarrow> connection" where
  "put_in_flight c i = c\<lparr>cn_state := (cn_state c)\<lparr>
     cs_in_flight := fmupd i Request_Active (cs_in_flight (cn_state c))\<rparr>\<rparr>"

definition close_only :: "connection \<Rightarrow> connection" where
  "close_only c = c\<lparr>cn_state := (cn_state c)\<lparr>cs_closed := True\<rparr>\<rparr>"

definition permit_for :: "frame_header \<Rightarrow> request_envelope \<Rightarrow> request_permit" where
  "permit_for header request =
     \<lparr>rp_request_id = fh_request_id header, rp_operation = rq_operation request,
      rp_unlock_epoch = rq_unlock_epoch request,
      rp_effective_timeout_ms = effective_timeout (rq_operation request) (rq_timeout_ms request)\<rparr>"

lemmas session_op_defs = Connection_begin_request_def begin_request_locked_def with_lock_state_def
  validate_request_header_def validate_common_header_def record_request_id_def try_state_def
  Connection_cancel_def Connection_finish_def Connection_close_def

lemma in_flight_len_ignores [simp]:
  "in_flight_len (s\<lparr>cs_last_request_id := i\<rparr>) = in_flight_len s"
  "in_flight_len (s\<lparr>cs_issued_request_ids := j\<rparr>) = in_flight_len s"
  "in_flight_len (s\<lparr>cs_closed := b\<rparr>) = in_flight_len s"
  by (simp_all add: in_flight_len_def)

text \<open>The three ways \<open>begin_request\<close> can go.\<close>

lemma begin_request_bad_frame:
  assumes "\<not> frame_ok c header"
  shows "\<exists>e. Connection_begin_request c header request epoch =
    (if cn_poisoned c then c else close_only c, Err (Connection_error e))"
proof (cases "cn_poisoned c \<or> cs_closed (cn_state c)")
  case True
  then show ?thesis by (auto simp: session_op_defs close_only_def)
next
  case False
  then show ?thesis using assms
    by (auto simp: session_op_defs close_only_def frame_ok_def next_id_ok_def not_less
        word_le_nat_alt not_le split: if_splits)
qed

lemma record_request_id_ok:
  assumes "frame_ok c header"
  shows "record_request_id (cn_state c) (fh_request_id header)
           = (cn_state (issue_id c (fh_request_id header)), Ok ())"
  using assms by (auto simp: record_request_id_def issue_id_def frame_ok_def next_id_ok_def)

lemma begin_request_good_frame:
  assumes "frame_ok c header"
  shows "Connection_begin_request c header request epoch =
    (let c' = issue_id c (fh_request_id header) in
     if \<not> is_authorized_for (rq_operation request) (cn_role c) then (c', Err Unauthorized)
     else if (case required_feature (rq_operation request) of
                Some feature \<Rightarrow> \<not> binary_search_is_ok (cn_granted_features c) feature
              | None \<Rightarrow> False)
     then (c', Err Unauthorized)
     else if requires_idempotency_key (rq_operation request) \<and> rq_idempotency_key request = None
     then (c', Err MissingIdempotencyKey)
     else if requires_unlocked_epoch (rq_operation request) \<and> rq_unlock_epoch request \<noteq> epoch
     then (c', Err StaleEpoch)
     else if in_flight_len (cn_state c) \<ge> unat (cl_maximum_in_flight (cn_limits c))
     then (c', Err (Busy (effective_timeout (rq_operation request) (rq_timeout_ms request))))
     else (put_in_flight c' (fh_request_id header), Ok (permit_for header request)))"
proof -
  have "validate_request_header c (cn_state c) header = (cn_state c, Ok ())"
    using assms by (auto simp: session_op_defs frame_ok_def word_le_nat_alt)
  with assms record_request_id_ok [OF assms] show ?thesis
    by (auto simp: Connection_begin_request_def begin_request_locked_def with_lock_state_def
        try_state_def issue_id_def put_in_flight_def permit_for_def frame_ok_def Let_def
        split: option.splits)
qed

lemma begin_request_admits:
  assumes "admits c header request epoch"
  shows "Connection_begin_request c header request epoch =
    (put_in_flight (issue_id c (fh_request_id header)) (fh_request_id header),
     Ok (permit_for header request))"
  using assms
  by (auto simp: admits_def authority_ok_def begin_request_good_frame Let_def split: option.splits)

lemma begin_request_refused:
  assumes "frame_ok c header" and "\<not> admits c header request epoch"
  shows "\<exists>e. Connection_begin_request c header request epoch
               = (issue_id c (fh_request_id header), Err e) \<and> (\<forall>x. e \<noteq> Connection_error x)"
  using assms
  by (auto simp: admits_def authority_ok_def begin_request_good_frame Let_def split: option.splits)

lemma begin_request_cases [consumes 0, case_names poisoned fatal refused admitted]:
  obtains
    (poisoned) e where "cn_poisoned c"
      "Connection_begin_request c header request epoch = (c, Err (Connection_error e))"
  | (fatal) e where "\<not> cn_poisoned c" "\<not> frame_ok c header"
      "Connection_begin_request c header request epoch = (close_only c, Err (Connection_error e))"
  | (refused) e where "frame_ok c header" "\<not> admits c header request epoch"
      "\<And>x. e \<noteq> Connection_error x"
      "Connection_begin_request c header request epoch
         = (issue_id c (fh_request_id header), Err e)"
  | (admitted) "frame_ok c header" "admits c header request epoch"
      "Connection_begin_request c header request epoch =
         (put_in_flight (issue_id c (fh_request_id header)) (fh_request_id header),
          Ok (permit_for header request))"
proof (cases "frame_ok c header")
  case True
  then show thesis
    using begin_request_admits begin_request_refused refused admitted by (metis admits_def)
next
  case False
  then show thesis
    using begin_request_bad_frame [OF False, of request epoch] poisoned fatal
    by (cases "cn_poisoned c") auto
qed

section \<open>Cancellation, completion, closing\<close>

definition mark_cancelled :: "connection \<Rightarrow> u64 \<Rightarrow> connection" where
  "mark_cancelled c i =
     (if fmlookup (cs_in_flight (cn_state c)) i = None then c
      else c\<lparr>cn_state := (cn_state c)\<lparr>
             cs_in_flight := fmupd i Request_Cancelled (cs_in_flight (cn_state c))\<rparr>\<rparr>)"

definition take_from_flight :: "connection \<Rightarrow> u64 \<Rightarrow> connection" where
  "take_from_flight c i = c\<lparr>cn_state := (cn_state c)\<lparr>
     cs_in_flight := fmdrop i (cs_in_flight (cn_state c))\<rparr>\<rparr>"

text \<open>A cancel frame that is acceptable on this connection.\<close>

definition cancel_ok :: "connection \<Rightarrow> frame_header \<Rightarrow> bool" where
  "cancel_ok c header \<longleftrightarrow>
     \<not> cn_poisoned c \<and> \<not> cs_closed (cn_state c) \<and> fh_kind header = Kind_Cancel
     \<and> fh_version header = cn_version c \<and> fh_connection_id header = cn_connection_id c
     \<and> fh_request_id header |\<in>| cs_issued_request_ids (cn_state c)"

lemma cancel_accepted:
  "cancel_ok c header \<Longrightarrow>
     Connection_cancel c header = (mark_cancelled c (fh_request_id header), Ok ())"
  by (auto simp: session_op_defs cancel_ok_def mark_cancelled_def Let_def split: option.splits)

lemma cancel_rejected:
  assumes "\<not> cancel_ok c header"
  shows "\<exists>e. Connection_cancel c header = (if cn_poisoned c then c else close_only c, Err e)"
proof (cases "cn_poisoned c \<or> cs_closed (cn_state c)")
  case True
  then show ?thesis by (auto simp: session_op_defs close_only_def)
next
  case False
  then show ?thesis using assms
    by (auto simp: session_op_defs close_only_def cancel_ok_def Let_def)
qed

lemma finish_eq:
  "Connection_finish c permit =
     (if cn_poisoned c then (c, Err ConnectionClosed)
      else case fmlookup (cs_in_flight (cn_state c)) (rp_request_id permit) of
        None \<Rightarrow> (close_only c, Err InvalidFrame)
      | Some Request_Active \<Rightarrow> (take_from_flight c (rp_request_id permit), Ok Completion_Active)
      | Some Request_Cancelled \<Rightarrow>
          (take_from_flight c (rp_request_id permit), Ok Completion_Cancelled))"
  by (auto simp: session_op_defs close_only_def take_from_flight_def
      split: option.splits request_state.splits)

section \<open>The invariant of a connection\<close>

definition limits_ok :: "connection_limits \<Rightarrow> bool" where
  "limits_ok l \<longleftrightarrow> 21 \<le> unat (cl_maximum_payload_bytes l) \<and> unat (cl_maximum_payload_bytes l) \<le> 65536
     \<and> 0 < unat (cl_maximum_in_flight l) \<and> unat (cl_maximum_in_flight l) \<le> 4"

definition feature_version :: "u16 \<Rightarrow> version" where
  "feature_version f =
     (if f = FEATURE_WINDOWS_HELLO then WINDOWS_HELLO_VERSION
      else if f = FEATURE_PASSKEY_PROVIDER then PASSKEY_PROVIDER_VERSION
      else if f = FEATURE_BROWSER_FILL then BROWSER_FILL_VERSION else MINIMUM_VERSION)"

definition negotiated_inv :: "connection \<Rightarrow> bool" where
  "negotiated_inv c \<longleftrightarrow> limits_ok (cn_limits c)
     \<and> sorted_wrt (<) (cn_granted_features c)
     \<and> MINIMUM_VERSION \<le> cn_version c \<and> cn_version c \<le> CURRENT_VERSION
     \<and> (\<forall>f \<in> set (cn_granted_features c). feature_version f \<le> cn_version c)
     \<and> cn_authenticated_process_id c \<noteq> 0 \<and> cn_connection_id c \<noteq> zeros 16"

definition state_inv :: "connection_limits \<Rightarrow> connection_state \<Rightarrow> bool" where
  "state_inv l s \<longleftrightarrow>
     (\<forall>i. i |\<in>| cs_issued_request_ids s \<longrightarrow> i \<noteq> 0 \<and> i \<le> cs_last_request_id s)
     \<and> (cs_last_request_id s \<noteq> 0 \<longrightarrow> cs_last_request_id s |\<in>| cs_issued_request_ids s)
     \<and> fcard (cs_issued_request_ids s) \<le> 65536
     \<and> fmdom (cs_in_flight s) |\<subseteq>| cs_issued_request_ids s
     \<and> in_flight_len s \<le> unat (cl_maximum_in_flight l)"

definition session_inv :: "connection \<Rightarrow> bool" where
  "session_inv c \<longleftrightarrow> negotiated_inv c \<and> state_inv (cn_limits c) (cn_state c)"

text \<open>The parts a step never changes.\<close>

definition session_identity :: "connection \<Rightarrow> connection" where
  "session_identity c = c\<lparr>cn_state := \<lparr>cs_last_request_id = 0, cs_issued_request_ids = {||},
     cs_in_flight = fmempty, cs_closed = False\<rparr>\<rparr>"

named_theorems step_simps \<open>what the elementary state changes do to each field\<close>

lemma elementary_fields [step_simps]:
  "cn_state (issue_id c i) = (cn_state c)\<lparr>cs_last_request_id := i,
     cs_issued_request_ids := finsert i (cs_issued_request_ids (cn_state c))\<rparr>"
  "cn_state (put_in_flight c i) = (cn_state c)\<lparr>
     cs_in_flight := fmupd i Request_Active (cs_in_flight (cn_state c))\<rparr>"
  "cn_state (close_only c) = (cn_state c)\<lparr>cs_closed := True\<rparr>"
  "cn_state (take_from_flight c i) = (cn_state c)\<lparr>
     cs_in_flight := fmdrop i (cs_in_flight (cn_state c))\<rparr>"
  "session_identity (issue_id c i) = session_identity c"
  "session_identity (put_in_flight c i) = session_identity c"
  "session_identity (close_only c) = session_identity c"
  "session_identity (take_from_flight c i) = session_identity c"
  "session_identity (mark_cancelled c i) = session_identity c"
  "session_identity (Connection_close c) = session_identity c"
  by (simp_all add: issue_id_def put_in_flight_def close_only_def take_from_flight_def
      mark_cancelled_def Connection_close_def session_identity_def)

lemma session_identity_fields:
  assumes "session_identity c = session_identity c'"
  shows "cn_role c = cn_role c'" "cn_version c = cn_version c'"
    "cn_authenticated_process_id c = cn_authenticated_process_id c'"
    "cn_granted_features c = cn_granted_features c'" "cn_connection_id c = cn_connection_id c'"
    "cn_limits c = cn_limits c'" "cn_poisoned c = cn_poisoned c'"
  using arg_cong [OF assms, of cn_role] arg_cong [OF assms, of cn_version]
    arg_cong [OF assms, of cn_authenticated_process_id]
    arg_cong [OF assms, of cn_granted_features] arg_cong [OF assms, of cn_connection_id]
    arg_cong [OF assms, of cn_limits] arg_cong [OF assms, of cn_poisoned]
  by (simp_all add: session_identity_def)

lemma negotiated_inv_cong:
  assumes "session_identity c = session_identity c'"
  shows "negotiated_inv c = negotiated_inv c'"
  using session_identity_fields [OF assms] by (simp only: negotiated_inv_def)

text \<open>Every step is one of the elementary changes.\<close>

lemma session_step_cases [case_names same closed issued admitted cancelled finished shut]:
  obtains (same) "session_step c e = c"
  | (closed) "session_step c e = close_only c"
  | (issued) header request epoch where "e = Ev_Begin header request epoch"
      "frame_ok c header" "session_step c e = issue_id c (fh_request_id header)"
  | (admitted) header request epoch where "e = Ev_Begin header request epoch"
      "admits c header request epoch" "frame_ok c header"
      "session_step c e = put_in_flight (issue_id c (fh_request_id header)) (fh_request_id header)"
  | (cancelled) header where "e = Ev_Cancel header" "cancel_ok c header"
      "session_step c e = mark_cancelled c (fh_request_id header)"
  | (finished) permit where "e = Ev_Finish permit"
      "fmlookup (cs_in_flight (cn_state c)) (rp_request_id permit) \<noteq> None"
      "session_step c e = take_from_flight c (rp_request_id permit)"
  | (shut) "e = Ev_Close" "session_step c e = Connection_close c"
proof (cases e)
  case (Ev_Begin header request epoch)
  then have step: "session_step c e = fst (Connection_begin_request c header request epoch)"
    by simp
  show thesis
  proof (cases rule: begin_request_cases [of c header request epoch])
    case poisoned
    then show thesis using step by (intro same) simp
  next
    case fatal
    then show thesis using step by (intro closed) simp
  next
    case refused
    then show thesis using step Ev_Begin by (intro issued) simp_all
  next
    case admitted
    then show thesis using step Ev_Begin by (intro that(4)) simp_all
  qed
next
  case (Ev_Cancel header)
  show thesis
  proof (cases "cancel_ok c header")
    case True
    then show thesis using Ev_Cancel by (intro cancelled) (simp_all add: cancel_accepted)
  next
    case False
    then obtain e' where "Connection_cancel c header
        = (if cn_poisoned c then c else close_only c, Err e')"
      using cancel_rejected by blast
    then show thesis using Ev_Cancel same closed by (cases "cn_poisoned c") simp_all
  qed
next
  case (Ev_Finish permit)
  then have step: "session_step c e = fst (Connection_finish c permit)" by simp
  show thesis
  proof (cases "cn_poisoned c")
    case True
    then show thesis using step by (intro same) (simp add: finish_eq)
  next
    case alive: False
    show thesis
    proof (cases "fmlookup (cs_in_flight (cn_state c)) (rp_request_id permit)")
      case None
      then show thesis using step alive by (intro closed) (simp add: finish_eq)
    next
      case (Some r)
      then have "session_step c e = take_from_flight c (rp_request_id permit)"
        using step alive by (cases r) (simp_all add: finish_eq)
      then show thesis using Some by (intro finished [OF Ev_Finish]) simp_all
    qed
  qed
qed (use that in auto)

lemma session_step_identity [simp]: "session_identity (session_step c e) = session_identity c"
  by (cases rule: session_step_cases [of c e]) (simp_all add: step_simps)

lemma fcard_finsert_le: "fcard (finsert x A) \<le> Suc (fcard A)"
  by (simp add: fcard_finsert_if)

lemma state_inv_issue:
  assumes "state_inv l (cn_state c)" and "frame_ok c header"
  shows "state_inv l (cn_state (issue_id c (fh_request_id header)))"
proof -
  let ?s = "cn_state c" and ?i = "fh_request_id header"
  have i: "cs_last_request_id ?s \<le> ?i" "?i \<noteq> 0"
    using assms(2) by (auto simp: frame_ok_def next_id_ok_def split: if_splits)
  have "j \<noteq> 0 \<and> j \<le> ?i" if "j |\<in>| finsert ?i (cs_issued_request_ids ?s)" for j
    using that i assms(1) by (auto simp: state_inv_def intro: order_trans)
  moreover have "fcard (finsert ?i (cs_issued_request_ids ?s)) \<le> 65536"
    using fcard_finsert_le [of ?i "cs_issued_request_ids ?s"] assms(2) by (simp add: frame_ok_def)
  ultimately show ?thesis
    using assms(1) by (auto simp: state_inv_def step_simps)
qed

lemma state_inv_put:
  assumes "state_inv l (cn_state c)" and "i |\<in>| cs_issued_request_ids (cn_state c)"
    and "in_flight_len (cn_state c) < unat (cl_maximum_in_flight l)"
  shows "state_inv l (cn_state (put_in_flight c i))"
  using assms fcard_finsert_le [of i "fmdom (cs_in_flight (cn_state c))"]
  by (auto simp: state_inv_def step_simps in_flight_len_def)

lemma state_inv_step:
  assumes "state_inv (cn_limits c) (cn_state c)"
  shows "state_inv (cn_limits c) (cn_state (session_step c e))"
proof (cases rule: session_step_cases [of c e])
  case closed
  then show ?thesis using assms by (simp add: state_inv_def step_simps)
next
  case issued
  then show ?thesis using state_inv_issue [OF assms] by simp
next
  case (admitted header request epoch)
  let ?c = "issue_id c (fh_request_id header)"
  have "state_inv (cn_limits c) (cn_state ?c)" using admitted by (intro state_inv_issue assms)
  moreover have "fh_request_id header |\<in>| cs_issued_request_ids (cn_state ?c)"
    and "in_flight_len (cn_state ?c) < unat (cl_maximum_in_flight (cn_limits c))"
    using admitted by (simp_all add: step_simps admits_def)
  ultimately show ?thesis unfolding admitted(4) by (rule state_inv_put)
next
  case (cancelled header)
  then show ?thesis using assms
    by (auto simp: state_inv_def mark_cancelled_def in_flight_len_def finsert_absorb fmdomI)
next
  case (finished permit)
  have "fcard (fmdom (cs_in_flight (cn_state c)) |-| {|rp_request_id permit|})
      \<le> fcard (fmdom (cs_in_flight (cn_state c)))"
    by (rule fcard_mono) auto
  with finished assms show ?thesis
    by (auto simp: state_inv_def step_simps in_flight_len_def)
next
  case shut
  then show ?thesis using assms
    by (auto simp: state_inv_def Connection_close_def in_flight_len_def)
qed (use assms in simp)

lemma session_inv_step: "session_inv c \<Longrightarrow> session_inv (session_step c e)"
  using negotiated_inv_cong [OF session_step_identity, of c e]
    session_identity_fields(6) [OF session_step_identity, of c e] state_inv_step [of c e]
  by (simp add: session_inv_def)

section \<open>Negotiated connections\<close>

text \<open>What a client may be granted.\<close>

definition negotiable :: "client_role \<Rightarrow> u32 \<Rightarrow> bytes \<Rightarrow> client_hello \<Rightarrow> u16 list \<Rightarrow> bool" where
  "negotiable derived_role process_id build_id hello supported \<longleftrightarrow>
     ch_claimed_role hello = derived_role \<and> ch_component_build_id hello = build_id
     \<and> process_id \<noteq> 0
     \<and> ch_minimum hello \<le> CURRENT_VERSION \<and> MINIMUM_VERSION \<le> ch_maximum hello
     \<and> sorted_wrt (<) supported \<and> set (ch_required_features hello) \<subseteq> set supported
     \<and> (\<forall>f \<in> set (ch_required_features hello). feature_version f \<le> ch_maximum hello)"

lemma feature_version_le_CURRENT: "feature_version f \<le> CURRENT_VERSION"
  by (simp add: feature_version_def version_defs less_eq_version_def)

lemma MINIMUM_le_CURRENT: "MINIMUM_VERSION \<le> CURRENT_VERSION"
  by (simp add: version_defs less_eq_version_def)

lemma between_versions_major:
  "MINIMUM_VERSION \<le> v \<Longrightarrow> v \<le> CURRENT_VERSION \<Longrightarrow> major v = 1"
  by (auto simp: version_defs less_eq_version_def)

definition is_negotiated :: "connection \<Rightarrow> bool" where
  "is_negotiated c \<longleftrightarrow> (\<exists>role pid build hello supported nonce cid state epoch limits sh.
     ClientHello_valid hello \<and> limits_ok limits
     \<and> Connection_negotiate role pid build hello supported nonce cid state epoch limits
         = Ok (c, sh))"

lemma limits_new_Ok:
  "ConnectionLimits_new p n = Ok l \<longleftrightarrow>
     l = \<lparr>cl_maximum_payload_bytes = p, cl_maximum_in_flight = n\<rparr> \<and> limits_ok l"
  by (auto simp: ConnectionLimits_new_def limits_ok_def unat_gt_0)

lemma limits_default_ok: "limits_ok ConnectionLimits_default"
  by (simp add: limits_ok_def ConnectionLimits_default_def)

definition fresh_state :: connection_state where
  "fresh_state = \<lparr>cs_last_request_id = 0, cs_issued_request_ids = {||}, cs_in_flight = fmempty,
     cs_closed = False\<rparr>"

lemma negotiate_version_test:
  assumes "ClientHello_valid hello"
  shows "(ch_minimum hello > min (ch_maximum hello) CURRENT_VERSION
      \<or> min (ch_maximum hello) CURRENT_VERSION < MINIMUM_VERSION
      \<or> major (min (ch_maximum hello) CURRENT_VERSION) \<noteq> major CURRENT_VERSION)
    \<longleftrightarrow> \<not> (ch_minimum hello \<le> CURRENT_VERSION \<and> MINIMUM_VERSION \<le> ch_maximum hello)"
proof -
  have "ch_minimum hello \<le> ch_maximum hello" using assms by (simp add: ClientHello_valid_def)
  then have 1: "ch_minimum hello > min (ch_maximum hello) CURRENT_VERSION
      \<longleftrightarrow> \<not> ch_minimum hello \<le> CURRENT_VERSION"
    by (auto simp: min_def not_le)
  have 2: "min (ch_maximum hello) CURRENT_VERSION < MINIMUM_VERSION
      \<longleftrightarrow> \<not> MINIMUM_VERSION \<le> ch_maximum hello"
    using MINIMUM_le_CURRENT by (auto simp: min_def not_le)
  have 3: "major (min (ch_maximum hello) CURRENT_VERSION) = major CURRENT_VERSION"
    if "MINIMUM_VERSION \<le> ch_maximum hello"
    using between_versions_major [of "min (ch_maximum hello) CURRENT_VERSION"] that
      MINIMUM_le_CURRENT by (simp add: version_defs)
  show ?thesis using 1 2 3 by auto
qed

lemma negotiate_feature_test:
  assumes "sorted_wrt (<) features" and "MINIMUM_VERSION \<le> v"
  shows "(\<forall>f \<in> set features. feature_version f \<le> v) \<longleftrightarrow>
    \<not> (binary_search_is_ok features FEATURE_WINDOWS_HELLO \<and> v < WINDOWS_HELLO_VERSION)
    \<and> \<not> (binary_search_is_ok features FEATURE_PASSKEY_PROVIDER \<and> v < PASSKEY_PROVIDER_VERSION)
    \<and> \<not> (binary_search_is_ok features FEATURE_BROWSER_FILL \<and> v < BROWSER_FILL_VERSION)"
    (is "?all \<longleftrightarrow> ?tests")
proof
  assume all: ?all
  then show ?tests
    unfolding binary_search_is_ok_iff [OF assms(1)]
    using bspec [OF all, of FEATURE_WINDOWS_HELLO] bspec [OF all, of FEATURE_PASSKEY_PROVIDER]
      bspec [OF all, of FEATURE_BROWSER_FILL]
    by (auto simp: feature_version_def not_less)
next
  assume t: ?tests
  show ?all
  proof
    fix f assume "f \<in> set features"
    with t assms(2) show "feature_version f \<le> v"
      unfolding binary_search_is_ok_iff [OF assms(1)] feature_version_def
      by (auto simp: not_less)
  qed
qed

lemma negotiate_Ok_iff:
  assumes "ClientHello_valid hello" and "limits_ok limits"
  shows "Connection_negotiate role pid build hello supported nonce cid state epoch limits
      = Ok (c, sh) \<longleftrightarrow>
    negotiable role pid build hello supported \<and> nonce \<noteq> zeros 32 \<and> cid \<noteq> zeros 16
    \<and> c = \<lparr>cn_role = role, cn_version = min (ch_maximum hello) CURRENT_VERSION,
          cn_authenticated_process_id = pid,
          cn_granted_features = ch_required_features hello, cn_connection_id = cid,
          cn_limits = limits, cn_state = fresh_state, cn_poisoned = False\<rparr>
    \<and> sh = \<lparr>sh_server_nonce = nonce, sh_selected_version = cn_version c,
           sh_derived_role = role, sh_granted_features = cn_granted_features c,
           sh_maximum_payload_bytes = cl_maximum_payload_bytes limits,
           sh_maximum_in_flight = cl_maximum_in_flight limits, sh_agent_state = state,
           sh_unlock_epoch = epoch\<rparr>"
proof -
  let ?v = "min (ch_maximum hello) CURRENT_VERSION" and ?f = "ch_required_features hello"
  have features: "sorted_wrt (<) ?f" "length ?f \<le> 16"
    using assms(1) by (simp_all add: ClientHello_valid_def)
  have gated: "(\<forall>f \<in> set ?f. feature_version f \<le> ?v) \<longleftrightarrow>
      (\<forall>f \<in> set ?f. feature_version f \<le> ch_maximum hello)"
    using feature_version_le_CURRENT by simp
  have hello: "nonce \<noteq> zeros 32 \<Longrightarrow> major ?v \<noteq> 0 \<Longrightarrow>
      ServerHello_new nonce ?v role ?f (cl_maximum_payload_bytes limits)
        (cl_maximum_in_flight limits) state epoch
      = Ok \<lparr>sh_server_nonce = nonce, sh_selected_version = ?v, sh_derived_role = role,
          sh_granted_features = ?f, sh_maximum_payload_bytes = cl_maximum_payload_bytes limits,
          sh_maximum_in_flight = cl_maximum_in_flight limits, sh_agent_state = state,
          sh_unlock_epoch = epoch\<rparr>"
    using features assms(2)
    by (auto simp: ServerHello_new_def limits_ok_def windows2_any_ge_iff)
  have major: "major ?v \<noteq> 0" if "MINIMUM_VERSION \<le> ch_maximum hello"
    using between_versions_major [of ?v] that MINIMUM_le_CURRENT by simp
  have subset: "list_ex (\<lambda>required. \<not> binary_search_is_ok supported required) ?f
      \<longleftrightarrow> \<not> set ?f \<subseteq> set supported" if "sorted_wrt (<) supported"
    using binary_search_is_ok_iff [OF that] by (auto simp: list_ex_iff)
  have minimum: "MINIMUM_VERSION \<le> ?v" if "MINIMUM_VERSION \<le> ch_maximum hello"
    using that MINIMUM_le_CURRENT by simp
  have tests: "negotiable role pid build hello supported \<and> nonce \<noteq> zeros 32 \<and> cid \<noteq> zeros 16 \<longleftrightarrow>
      ch_claimed_role hello = role \<and> ch_component_build_id hello = build
      \<and> (ch_minimum hello \<le> CURRENT_VERSION \<and> MINIMUM_VERSION \<le> ch_maximum hello)
      \<and> sorted_wrt (<) supported
      \<and> \<not> list_ex (\<lambda>required. \<not> binary_search_is_ok supported required) ?f
      \<and> \<not> (binary_search_is_ok ?f FEATURE_WINDOWS_HELLO \<and> ?v < WINDOWS_HELLO_VERSION)
      \<and> \<not> (binary_search_is_ok ?f FEATURE_PASSKEY_PROVIDER \<and> ?v < PASSKEY_PROVIDER_VERSION)
      \<and> \<not> (binary_search_is_ok ?f FEATURE_BROWSER_FILL \<and> ?v < BROWSER_FILL_VERSION)
      \<and> \<not> (pid = 0 \<or> nonce = zeros 32 \<or> cid = zeros 16)"
    using negotiate_feature_test [OF features(1) minimum] subset
    unfolding negotiable_def gated [symmetric] by blast
  show ?thesis (is "?lhs \<longleftrightarrow> ?rhs")
  proof (cases "negotiable role pid build hello supported \<and> nonce \<noteq> zeros 32 \<and> cid \<noteq> zeros 16")
    case True
    then have "MINIMUM_VERSION \<le> ch_maximum hello" by (simp add: negotiable_def)
    with True have sh: "nonce \<noteq> zeros 32" "major ?v \<noteq> 0" using major by simp_all
    show ?thesis
      using True True [unfolded tests]
      unfolding Connection_negotiate_def Let_def negotiate_version_test [OF assms(1)]
        windows2_any_ge_iff [of supported, THEN Not_eq_iff [THEN iffD2], simplified]
        hello [OF sh] fresh_state_def
      by auto
  next
    case False
    then have "\<not> ?lhs"
      unfolding Connection_negotiate_def Let_def negotiate_version_test [OF assms(1)] tests
        if_Err_Ok windows2_any_ge_iff not_not by blast
    with False show ?thesis by blast
  qed
qed

section \<open>Runs of a connection\<close>

lemma fresh_state_inv: "state_inv l fresh_state"
  by (simp add: state_inv_def fresh_state_def in_flight_len_def fcard_fempty)

lemma negotiated_session_inv: "is_negotiated c \<Longrightarrow> session_inv c"
  unfolding is_negotiated_def
proof (elim exE conjE)
  fix role pid build hello supported nonce cid state epoch limits sh
  assume hello: "ClientHello_valid hello" "limits_ok limits"
    and ok: "Connection_negotiate role pid build hello supported nonce cid state epoch limits
      = Ok (c, sh)"
  note n = ok [unfolded negotiate_Ok_iff [OF hello]]
  have "feature_version f \<le> min (ch_maximum hello) CURRENT_VERSION"
    if "f \<in> set (ch_required_features hello)" for f
    using that n feature_version_le_CURRENT by (auto simp: negotiable_def)
  moreover have "MINIMUM_VERSION \<le> min (ch_maximum hello) CURRENT_VERSION"
    using n MINIMUM_le_CURRENT by (simp add: negotiable_def)
  moreover have "sorted_wrt (<) (ch_required_features hello)"
    using hello by (simp add: ClientHello_valid_def)
  ultimately show "session_inv c"
    using n hello(2) fresh_state_inv by (simp add: session_inv_def negotiated_inv_def negotiable_def)
qed

interpretation session: invariant_system session_step is_negotiated session_inv
  by unfold_locales (rule negotiated_session_inv, assumption, rule session_inv_step)

text \<open>The permits handed out along a run, in order.\<close>

fun session_permits :: "connection \<Rightarrow> session_event list \<Rightarrow> request_permit list" where
  "session_permits c [] = []"
| "session_permits c (Ev_Begin header request epoch # es) =
     (case Connection_begin_request c header request epoch of
        (c', Ok permit) \<Rightarrow> permit # session_permits c' es
      | (c', _) \<Rightarrow> session_permits c' es)"
| "session_permits c (e # es) = session_permits (session_step c e) es"

lemma last_id_less: "frame_ok c header \<Longrightarrow> cs_last_request_id (cn_state c) < fh_request_id header"
  by (auto simp: frame_ok_def next_id_ok_def split: if_splits)

lemma last_id_mono: "cs_last_request_id (cn_state c) \<le> cs_last_request_id (cn_state (session_step c e))"
  by (cases rule: session_step_cases [of c e])
    (auto simp: step_simps mark_cancelled_def Connection_close_def dest: last_id_less)

lemma permits_above_last:
  "p \<in> set (session_permits c es) \<Longrightarrow> cs_last_request_id (cn_state c) < rp_request_id p"
proof (induction c es rule: session_permits.induct)
  case (2 c header request epoch es)
  show ?case
  proof (cases rule: begin_request_cases [of c header request epoch])
    case poisoned
    then show ?thesis using 2 by simp
  next
    case (fatal e)
    then show ?thesis using 2 by (simp add: step_simps)
  next
    case (refused e)
    then show ?thesis using 2 last_id_less [of c header] by (auto simp: step_simps intro: less_trans)
  next
    case admitted
    then show ?thesis using 2 last_id_less [of c header]
      by (auto simp: step_simps permit_for_def intro: less_trans)
  qed
qed (use last_id_mono in \<open>auto intro: le_less_trans simp del: session_step.simps\<close>)

lemma permits_increasing: "sorted_wrt (<) (map rp_request_id (session_permits c es))"
proof (induction c es rule: session_permits.induct)
  case (2 c header request epoch es)
  show ?case
  proof (cases rule: begin_request_cases [of c header request epoch])
    case admitted
    let ?c = "put_in_flight (issue_id c (fh_request_id header)) (fh_request_id header)"
    have "fh_request_id header < rp_request_id p" if "p \<in> set (session_permits ?c es)" for p
      using permits_above_last [OF that] by (simp add: step_simps)
    then show ?thesis using 2 admitted by (simp add: permit_for_def)
  qed (use 2 in simp_all)
qed simp_all

text \<open>An identifier that was issued and is not in flight never comes back into flight.\<close>

definition retired :: "connection \<Rightarrow> u64 \<Rightarrow> bool" where
  "retired c i \<longleftrightarrow> i |\<in>| cs_issued_request_ids (cn_state c)
     \<and> fmlookup (cs_in_flight (cn_state c)) i = None"

lemma retired_step:
  assumes "session_inv c" and "retired c i" shows "retired (session_step c e) i"
proof (cases rule: session_step_cases [of c e])
  case (admitted header request epoch)
  have "i \<le> cs_last_request_id (cn_state c)"
    using assms by (simp add: retired_def session_inv_def state_inv_def)
  with last_id_less [OF admitted(3)] have "i \<noteq> fh_request_id header" by auto
  with admitted assms(2) show ?thesis by (simp add: retired_def step_simps)
qed (use assms(2) in \<open>auto simp: retired_def step_simps mark_cancelled_def Connection_close_def\<close>)

lemma retired_run: "session_inv c \<Longrightarrow> retired c i \<Longrightarrow> retired (foldl session_step c es) i"
  by (induction es arbitrary: c) (auto intro: retired_step session_inv_step)

text \<open>A cancelled request stays cancelled until it is finished.\<close>

lemma cancelled_step:
  assumes "session_inv c" and "fmlookup (cs_in_flight (cn_state c)) i = Some Request_Cancelled"
    and "\<And>permit. e = Ev_Finish permit \<Longrightarrow> rp_request_id permit \<noteq> i"
  shows "fmlookup (cs_in_flight (cn_state (session_step c e))) i = Some Request_Cancelled"
proof (cases rule: session_step_cases [of c e])
  case (admitted header request epoch)
  have "i |\<in>| cs_issued_request_ids (cn_state c)"
    using assms(1, 2) by (auto simp: session_inv_def state_inv_def dest: fmdomI)
  with assms(1) have "i \<le> cs_last_request_id (cn_state c)"
    by (simp add: session_inv_def state_inv_def)
  with last_id_less [OF admitted(3)] have "i \<noteq> fh_request_id header" by auto
  with admitted assms(2) show ?thesis by (simp add: step_simps)
qed (use assms(2, 3) in \<open>auto simp: step_simps mark_cancelled_def Connection_close_def\<close>)

lemma cancelled_run:
  assumes "session_inv c" and "fmlookup (cs_in_flight (cn_state c)) i = Some Request_Cancelled"
    and "\<And>permit. Ev_Finish permit \<in> set es \<Longrightarrow> rp_request_id permit \<noteq> i"
  shows "fmlookup (cs_in_flight (cn_state (foldl session_step c es))) i = Some Request_Cancelled"
  using assms
proof (induction es arbitrary: c)
  case (Cons e es)
  have "fmlookup (cs_in_flight (cn_state (session_step c e))) i = Some Request_Cancelled"
    using Cons.prems by (intro cancelled_step) auto
  with Cons show ?case by (simp add: session_inv_step del: session_step.simps)
qed simp

lemma closed_run: "cs_closed (cn_state c) \<Longrightarrow> cs_closed (cn_state (foldl session_step c es))"
proof (induction es arbitrary: c)
  case (Cons e es)
  have "cs_closed (cn_state (session_step c e))"
    by (cases rule: session_step_cases [of c e])
      (use Cons.prems in \<open>auto simp: step_simps mark_cancelled_def Connection_close_def\<close>)
  with Cons.IH show ?case by (simp del: session_step.simps)
qed simp

lemma run_poisoned: "cn_poisoned (foldl session_step c es) = cn_poisoned c"
proof (induction es arbitrary: c)
  case (Cons e es)
  then show ?case using session_identity_fields(7) [OF session_step_identity, of c e] by simp
qed simp

section \<open>A concrete connection\<close>

text \<open>
  A browser host that asks for the fill feature on the current version, the connection it gets, and
  the frames it sends: the inputs of the witnesses below.
\<close>

definition host_hello :: client_hello where
  "host_hello = \<lparr>ch_client_nonce = replicate 32 7, ch_minimum = Version 1 0, ch_maximum = Version 1 3,
     ch_claimed_role = NativeHost, ch_component_build_id = replicate 32 9,
     ch_required_features = [3]\<rparr>"

definition host_connection :: connection where
  "host_connection = \<lparr>cn_role = NativeHost, cn_version = Version 1 3,
     cn_authenticated_process_id = 4242, cn_granted_features = [3],
     cn_connection_id = replicate 16 5, cn_limits = ConnectionLimits_default,
     cn_state = fresh_state, cn_poisoned = False\<rparr>"

definition host_header :: "message_kind \<Rightarrow> u64 \<Rightarrow> frame_header" where
  "host_header kind i = \<lparr>fh_kind = kind, fh_version = Version 1 3, fh_payload_length = 0,
     fh_connection_id = replicate 16 5, fh_request_id = i\<rparr>"

definition host_request :: request_envelope where
  "host_request = \<lparr>rq_operation = Op_ExactOriginMatches, rq_unlock_epoch = 11, rq_timeout_ms = 9000,
     rq_idempotency_key = None, rq_body = []\<rparr>"

definition host_permit :: request_permit where
  "host_permit = \<lparr>rp_request_id = 1, rp_operation = Op_ExactOriginMatches, rp_unlock_epoch = 11,
     rp_effective_timeout_ms = 5000\<rparr>"

text \<open>The connection after its first request was admitted.\<close>

definition busy_connection :: connection where
  "busy_connection = put_in_flight (issue_id host_connection 1) 1"

lemmas host_defs = host_hello_def host_connection_def host_header_def host_request_def
  host_permit_def busy_connection_def fresh_state_def ConnectionLimits_default_def

lemma host_hello_valid: "ClientHello_valid host_hello"
  by (simp add: ClientHello_valid_def host_hello_def less_eq_version_def)

lemma host_negotiable: "negotiable NativeHost 4242 (replicate 32 9) host_hello [1, 2, 3]"
  by (simp add: negotiable_def host_hello_def version_defs less_eq_version_def feature_version_def)

lemma host_is_negotiated: "is_negotiated host_connection"
proof -
  have "\<exists>sh. Connection_negotiate NativeHost 4242 (replicate 32 9) host_hello [1, 2, 3]
      (replicate 32 1) (replicate 16 5) St_Unlocked 11 ConnectionLimits_default
      = Ok (host_connection, sh)"
    unfolding negotiate_Ok_iff [OF host_hello_valid limits_default_ok]
    by (simp add: host_negotiable host_connection_def)
      (simp add: host_hello_def version_defs less_eq_version_def min_def)
  then show ?thesis
    unfolding is_negotiated_def using host_hello_valid limits_default_ok by blast
qed

lemma host_begin:
  "Connection_begin_request host_connection (host_header Kind_Request 1) host_request 11
     = (busy_connection, Ok host_permit)"
proof -
  have "admits host_connection (host_header Kind_Request 1) host_request 11"
    by (simp add: admits_def frame_ok_def authority_ok_def next_id_ok_def host_defs fcard_fempty
        in_flight_len_def required_feature_def requires_idempotency_key_def
        binary_search_is_ok_iff)
  from begin_request_admits [OF this] show ?thesis
    by (simp add: permit_for_def host_permit_def host_header_def host_request_def
        busy_connection_def effective_timeout_def)
qed

lemma busy_inv: "session_inv busy_connection"
  using session.inv_reachable [OF host_is_negotiated, of
      "[Ev_Begin (host_header Kind_Request 1) host_request 11]"] host_begin by simp

section \<open>Properties\<close>

text \<open>C1: a request is admitted, with exactly the permit shown, if and only if the connection is
  alive, the frame is a request frame of this connection within the negotiated payload, its
  identifier is the next one, the role is authorised for the operation, the feature the operation
  needs was granted, a required idempotency key is present, the unlock epoch is current where the
  operation needs it, and fewer requests than negotiated are in flight.\<close>

theorem begin_request_admission:
  assumes "session_inv c"
  shows "snd (Connection_begin_request c header request epoch) = Ok permit \<longleftrightarrow>
    \<not> Connection_is_closed c \<and> fh_kind header = Kind_Request
    \<and> fh_version header = cn_version c \<and> fh_connection_id header = cn_connection_id c
    \<and> fh_payload_length header \<le> cl_maximum_payload_bytes (cn_limits c)
    \<and> (if cs_last_request_id (cn_state c) = 0 then fh_request_id header = 1
        else cs_last_request_id (cn_state c) < fh_request_id header)
    \<and> fcard (cs_issued_request_ids (cn_state c)) < MAX_REQUESTS_PER_CONNECTION
    \<and> is_authorized_for (rq_operation request) (cn_role c)
    \<and> (\<forall>feature. required_feature (rq_operation request) = Some feature
          \<longrightarrow> feature \<in> set (cn_granted_features c))
    \<and> (requires_idempotency_key (rq_operation request) \<longrightarrow> rq_idempotency_key request \<noteq> None)
    \<and> (requires_unlocked_epoch (rq_operation request) \<longrightarrow> rq_unlock_epoch request = epoch)
    \<and> Connection_in_flight_count c < unat (cl_maximum_in_flight (cn_limits c))
    \<and> permit = \<lparr>rp_request_id = fh_request_id header, rp_operation = rq_operation request,
        rp_unlock_epoch = rq_unlock_epoch request,
        rp_effective_timeout_ms = effective_timeout (rq_operation request) (rq_timeout_ms request)\<rparr>"
    (is "_ \<longleftrightarrow> ?rhs")
proof -
  have "sorted_wrt (<) (cn_granted_features c)"
    using assms by (simp add: session_inv_def negotiated_inv_def)
  then have "?rhs \<longleftrightarrow> admits c header request epoch \<and> permit = permit_for header request"
    by (auto simp: admits_def frame_ok_def authority_ok_def next_id_ok_def permit_for_def
        Connection_is_closed_def Connection_in_flight_count_def binary_search_is_ok_iff
        split: if_splits)
  then show ?thesis
    by (cases rule: begin_request_cases [of c header request epoch])
      (auto simp: admits_def frame_ok_def)
qed

theorem begin_request_admission_witness:
  "snd (Connection_begin_request host_connection (host_header Kind_Request 1) host_request 11)
     = Ok host_permit
   \<and> snd (Connection_begin_request host_connection (host_header Kind_Request 1)
        (host_request\<lparr>rq_operation := Op_GetAccount\<rparr>) 11) \<noteq> Ok host_permit"
proof -
  note inv = negotiated_session_inv [OF host_is_negotiated]
  show ?thesis
    unfolding begin_request_admission [OF inv]
    by (simp add: host_defs Connection_is_closed_def Connection_in_flight_count_def
        in_flight_len_def fcard_fempty required_feature_def requires_idempotency_key_def
        effective_timeout_def)
qed

text \<open>C5: in every state an admitted client can drive a connection to, by any sequence of request,
  cancel, finish and close steps, at most the negotiated number (at most four) of requests is in
  flight, each of them was issued, at most 65536 identifiers were issued, all between 1 and the
  last one, the granted features stay within what the selected version offers, and role, version
  and limits are those that were negotiated.\<close>

theorem reachable_connection_invariant:
  assumes "is_negotiated c" and "c' = foldl session_step c events"
  shows "Connection_in_flight_count c' \<le> unat (cl_maximum_in_flight (cn_limits c'))
    \<and> unat (cl_maximum_in_flight (cn_limits c')) \<le> MAX_IN_FLIGHT_PER_CONNECTION
    \<and> fmdom (cs_in_flight (cn_state c')) |\<subseteq>| cs_issued_request_ids (cn_state c')
    \<and> fcard (cs_issued_request_ids (cn_state c')) \<le> MAX_REQUESTS_PER_CONNECTION
    \<and> (\<forall>i. i |\<in>| cs_issued_request_ids (cn_state c')
          \<longrightarrow> i \<noteq> 0 \<and> i \<le> cs_last_request_id (cn_state c'))
    \<and> (\<forall>f \<in> set (cn_granted_features c'). feature_version f \<le> cn_version c')
    \<and> cn_role c' = cn_role c \<and> cn_version c' = cn_version c \<and> cn_limits c' = cn_limits c"
proof -
  have inv: "session_inv c'" using assms session.inv_reachable by blast
  have "session_identity c' = session_identity c"
    unfolding assms(2) by (induction events arbitrary: c) simp_all
  moreover have "\<not> cn_poisoned c"
    using assms(1) by (auto simp: is_negotiated_def negotiate_Ok_iff)
  ultimately show ?thesis
    using inv session_identity_fields [of c' c]
    by (simp add: session_inv_def negotiated_inv_def state_inv_def limits_ok_def
        Connection_in_flight_count_def)
qed

theorem reachable_connection_invariant_witness:
  "Connection_in_flight_count (foldl session_step host_connection
       [Ev_Begin (host_header Kind_Request 1) host_request 11]) \<le> 4"
  using reachable_connection_invariant [OF host_is_negotiated refl,
      of "[Ev_Begin (host_header Kind_Request 1) host_request 11]"] by simp

text \<open>C18: along any run, the permits that are handed out carry strictly increasing request
  identifiers, so no identifier is ever admitted twice.\<close>

theorem permits_strictly_increasing:
  "sorted_wrt (<) (map rp_request_id (session_permits c events))
   \<and> distinct (map rp_request_id (session_permits c events))"
  using permits_increasing [of c events] by (simp add: strict_sorted_iff)

text \<open>A request completes exactly once: after a completion, whatever happens next on the
  connection, completing the same permit again fails and closes the connection.\<close>

theorem finish_exactly_once:
  assumes "session_inv c" and "Connection_finish c permit = (c', Ok completion)"
  shows "\<exists>c''. Connection_finish (foldl session_step c' events) permit = (c'', Err InvalidFrame)
    \<and> Connection_is_closed c''"
proof -
  let ?i = "rp_request_id permit" and ?run = "foldl session_step c' events"
  from assms(2) have c': "\<not> cn_poisoned c" "c' = take_from_flight c ?i"
      "fmlookup (cs_in_flight (cn_state c)) ?i \<noteq> None"
    by (auto simp: finish_eq split: if_splits option.splits request_state.splits)
  then have "retired c' ?i"
    using assms(1) by (auto simp: retired_def step_simps session_inv_def state_inv_def dest: fmdomI)
  moreover have "session_inv c'"
    using session_inv_step [OF assms(1), of "Ev_Finish permit"] assms(2) by simp
  ultimately have "retired ?run ?i" by (intro retired_run)
  moreover have "\<not> cn_poisoned ?run"
    using c' session_identity_fields(7) [of c' c] by (simp add: run_poisoned step_simps)
  ultimately show ?thesis
    by (auto simp: finish_eq retired_def Connection_is_closed_def step_simps)
qed

theorem finish_exactly_once_witness:
  "\<exists>c''. Connection_finish (foldl session_step (take_from_flight busy_connection 1)
       [Ev_Begin (host_header Kind_Request 2) host_request 11]) host_permit
     = (c'', Err InvalidFrame) \<and> Connection_is_closed c''"
proof -
  have "Connection_finish busy_connection host_permit
      = (take_from_flight busy_connection 1, Ok Completion_Active)"
    by (simp add: finish_eq host_defs put_in_flight_def issue_id_def)
  from finish_exactly_once [OF busy_inv this] show ?thesis by blast
qed

text \<open>C30: an accepted cancellation of a request in flight is never lost: as long as no step finishes
  that request, every later observation reports it cancelled and its completion is \<open>Cancelled\<close>,
  also when the connection is closed in between.\<close>

theorem cancellation_not_lost:
  assumes "session_inv c" and "Connection_cancel c header = (c', Ok ())"
    and "fh_request_id header |\<in>| fmdom (cs_in_flight (cn_state c))"
    and "\<forall>p. Ev_Finish p \<in> set events \<longrightarrow> rp_request_id p \<noteq> fh_request_id header"
    and "rp_request_id permit = fh_request_id header"
  shows "Connection_is_cancelled (foldl session_step c' events) permit
    \<and> snd (Connection_finish (foldl session_step c' events) permit) = Ok Completion_Cancelled"
proof -
  let ?run = "foldl session_step c' events"
  have c': "cancel_ok c header" "c' = mark_cancelled c (fh_request_id header)"
    using assms(2) cancel_accepted [of c header] cancel_rejected [of c header] by fastforce+
  then have cancelled: "fmlookup (cs_in_flight (cn_state c')) (fh_request_id header)
      = Some Request_Cancelled"
    using assms(3) by (auto simp: mark_cancelled_def fmlookup_dom_iff)
  have "session_inv c'"
    using session_inv_step [OF assms(1), of "Ev_Cancel header"] assms(2) by simp
  from cancelled_run [OF this cancelled] have
    "fmlookup (cs_in_flight (cn_state ?run)) (fh_request_id header) = Some Request_Cancelled"
    using assms(4) by blast
  moreover have "\<not> cn_poisoned ?run"
    using c' session_identity_fields(7) [of c' c]
    by (simp add: run_poisoned step_simps cancel_ok_def)
  ultimately show ?thesis using assms(5) by (simp add: Connection_is_cancelled_def finish_eq)
qed

theorem cancellation_not_lost_witness:
  "snd (Connection_finish (foldl session_step (mark_cancelled busy_connection 1)
       [Ev_Begin (host_header Kind_Request 2) host_request 11, Ev_Close]) host_permit)
     = Ok Completion_Cancelled"
proof -
  have "cancel_ok busy_connection (host_header Kind_Cancel 1)"
    by (simp add: cancel_ok_def host_defs put_in_flight_def issue_id_def)
  then have "Connection_cancel busy_connection (host_header Kind_Cancel 1)
      = (mark_cancelled busy_connection 1, Ok ())"
    by (simp add: cancel_accepted host_header_def)
  from cancellation_not_lost [OF busy_inv this, of
      "[Ev_Begin (host_header Kind_Request 2) host_request 11, Ev_Close]" host_permit]
  show ?thesis by (simp add: host_defs put_in_flight_def issue_id_def)
qed

text \<open>Once a connection is closed it stays closed, and it admits no further request and no
  further cancellation.\<close>

theorem closed_is_final:
  assumes "Connection_is_closed c"
  shows "Connection_is_closed (foldl session_step c events)
    \<and> snd (Connection_begin_request (foldl session_step c events) header request epoch)
        = Err (Connection_error ConnectionClosed)
    \<and> snd (Connection_cancel (foldl session_step c events) header) = Err ConnectionClosed"
proof -
  have "Connection_is_closed (foldl session_step c events)"
    using assms closed_run [of c events] run_poisoned [of c events]
    by (auto simp: Connection_is_closed_def split: if_splits)
  then show ?thesis by (auto simp: session_op_defs Connection_is_closed_def split: if_splits)
qed

theorem closed_is_final_witness:
  "snd (Connection_begin_request (foldl session_step (Connection_close busy_connection)
       [Ev_Finish host_permit]) (host_header Kind_Request 2) host_request 11)
     = Err (Connection_error ConnectionClosed)"
proof -
  have "Connection_is_closed (Connection_close busy_connection)"
    by (simp add: Connection_is_closed_def Connection_close_def host_defs put_in_flight_def
        issue_id_def)
  from closed_is_final [OF this] show ?thesis by blast
qed

text \<open>A protocol violation is fatal and only a violation is: when \<open>begin_request\<close> reports a
  connection error the connection is closed afterwards; when it reports any other error an open
  connection stays open, the identifier is used up, and the requests in flight are untouched.\<close>

theorem begin_request_error_effects:
  assumes "Connection_begin_request c header request epoch = (c', Err e)"
  shows "if (\<exists>x. e = Connection_error x) then Connection_is_closed c'
    else \<not> Connection_is_closed c'
      \<and> cs_last_request_id (cn_state c') = fh_request_id header
      \<and> cs_in_flight (cn_state c') = cs_in_flight (cn_state c)"
  by (cases rule: begin_request_cases [of c header request epoch])
    (use assms in \<open>auto simp: Connection_is_closed_def step_simps frame_ok_def
      session_identity_fields(7) [OF elementary_fields(7)]
      session_identity_fields(7) [OF elementary_fields(5)]\<close>)

theorem begin_request_error_effects_witness:
  "Connection_is_closed (fst (Connection_begin_request host_connection
     (host_header Kind_Request 7) host_request 11))"
proof -
  have "Connection_begin_request host_connection (host_header Kind_Request 7) host_request 11
      = (close_only host_connection, Err (Connection_error InvalidFrame))"
    by (simp add: session_op_defs host_defs close_only_def)
  from begin_request_error_effects [OF this] this show ?thesis by simp
qed

text \<open>Negotiation succeeds exactly when the claimed role and build are the derived ones, the
  version ranges meet, every requested feature is supported and within the offered version, and
  the process identifier and random values are not zero. The connection then carries the derived
  role, the highest common version and exactly the requested features, starts empty and open, and
  the server hello reports the same.\<close>

theorem negotiate_exactly_when:
  assumes "ClientHello_valid hello" and "limits_ok limits"
  shows "Connection_negotiate role pid build hello supported nonce cid state epoch limits
      = Ok (c, sh) \<longleftrightarrow>
    ch_claimed_role hello = role \<and> ch_component_build_id hello = build
    \<and> ch_minimum hello \<le> CURRENT_VERSION \<and> MINIMUM_VERSION \<le> ch_maximum hello
    \<and> sorted_wrt (<) supported \<and> set (ch_required_features hello) \<subseteq> set supported
    \<and> (\<forall>f \<in> set (ch_required_features hello). feature_version f \<le> ch_maximum hello)
    \<and> pid \<noteq> 0 \<and> nonce \<noteq> zeros 32 \<and> cid \<noteq> zeros 16
    \<and> c = \<lparr>cn_role = role, cn_version = min (ch_maximum hello) CURRENT_VERSION,
          cn_authenticated_process_id = pid,
          cn_granted_features = ch_required_features hello, cn_connection_id = cid,
          cn_limits = limits,
          cn_state = \<lparr>cs_last_request_id = 0, cs_issued_request_ids = {||},
                      cs_in_flight = fmempty, cs_closed = False\<rparr>,
          cn_poisoned = False\<rparr>
    \<and> sh = \<lparr>sh_server_nonce = nonce, sh_selected_version = cn_version c,
           sh_derived_role = role, sh_granted_features = cn_granted_features c,
           sh_maximum_payload_bytes = cl_maximum_payload_bytes limits,
           sh_maximum_in_flight = cl_maximum_in_flight limits, sh_agent_state = state,
           sh_unlock_epoch = epoch\<rparr>"
  unfolding negotiate_Ok_iff [OF assms] negotiable_def fresh_state_def by blast

theorem negotiate_exactly_when_witness:
  "Connection_negotiate NativeHost 4242 (replicate 32 9) host_hello [1, 2, 3] (replicate 32 1)
     (replicate 16 5) St_Unlocked 11 ConnectionLimits_default
   = Ok (host_connection,
      \<lparr>sh_server_nonce = replicate 32 1, sh_selected_version = Version 1 3,
       sh_derived_role = NativeHost, sh_granted_features = [3], sh_maximum_payload_bytes = 65536,
       sh_maximum_in_flight = 4, sh_agent_state = St_Unlocked, sh_unlock_epoch = 11\<rparr>)"
  unfolding negotiate_exactly_when [OF host_hello_valid limits_default_ok]
  by (simp add: host_defs version_defs less_eq_version_def feature_version_def min_def)

text \<open>An operation that belongs to a feature is only ever admitted on a connection whose selected
  version offers that feature: Windows Hello from 1.1, passkeys from 1.2, browser fill from 1.3.\<close>

theorem admitted_feature_version:
  assumes "is_negotiated c"
    and "snd (Connection_begin_request (foldl session_step c events) header request epoch) = Ok p"
    and "required_feature (rq_operation request) = Some feature"
  shows "feature_version feature \<le> cn_version (foldl session_step c events)"
proof -
  let ?c = "foldl session_step c events"
  have inv: "negotiated_inv ?c"
    using session.inv_reachable [OF assms(1), of events] by (simp add: session_inv_def)
  have "authority_ok ?c request epoch"
    by (cases rule: begin_request_cases [of ?c header request epoch])
      (use assms(2) in \<open>auto simp: admits_def\<close>)
  then have "feature \<in> set (cn_granted_features ?c)"
    using assms(3) inv by (simp add: authority_ok_def negotiated_inv_def binary_search_is_ok_iff)
  with inv show ?thesis by (simp add: negotiated_inv_def)
qed

theorem admitted_feature_version_witness:
  "feature_version FEATURE_BROWSER_FILL \<le> cn_version (foldl session_step host_connection [])
   \<and> feature_version FEATURE_BROWSER_FILL = Version 1 3"
proof -
  have "snd (Connection_begin_request (foldl session_step host_connection [])
      (host_header Kind_Request 1) host_request 11) = Ok host_permit"
    by (simp add: host_begin)
  moreover have "required_feature (rq_operation host_request) = Some FEATURE_BROWSER_FILL"
    by (simp add: host_request_def required_feature_def)
  ultimately have "feature_version FEATURE_BROWSER_FILL
      \<le> cn_version (foldl session_step host_connection [])"
    by (rule admitted_feature_version [OF host_is_negotiated])
  then show ?thesis by (simp add: feature_version_def version_defs)
qed

text \<open>The effective timeout of every operation is at most what the client asked for and at most
  the ceiling of its class: 30 s for creating, unlocking and locking, 120 s for passkey and Windows
  Hello operations, 5 s for everything else; a non-zero request never becomes zero.\<close>

theorem effective_timeout_bounds:
  "effective_timeout op requested \<le> requested
   \<and> effective_timeout op requested \<le> 120000
   \<and> (op \<in> {Op_CreateVault, Op_UnlockMasterPassword, Op_Lock}
       \<longrightarrow> effective_timeout op requested \<le> 30000)
   \<and> (op \<notin> {Op_CreateVault, Op_UnlockMasterPassword, Op_Lock}
       \<and> required_feature op \<notin> {Some FEATURE_WINDOWS_HELLO, Some FEATURE_PASSKEY_PROVIDER}
       \<longrightarrow> effective_timeout op requested \<le> 5000)
   \<and> (requested \<noteq> 0 \<longrightarrow> effective_timeout op requested \<noteq> 0)"
proof -
  have *: "min requested m \<le> requested" "m \<le> 120000 \<Longrightarrow> min requested m \<le> 120000"
    "min requested m \<le> m" "requested \<noteq> 0 \<Longrightarrow> m \<noteq> 0 \<Longrightarrow> min requested m \<noteq> 0" for m
    by (auto simp: min_def intro: order_trans)
  show ?thesis
    by (cases op) (simp_all add: effective_timeout_def required_feature_def * del: min.cobounded1)
qed

theorem effective_timeout_bounds_witness:
  "effective_timeout Op_GetAccount 9000 \<le> 5000 \<and> effective_timeout Op_GetAccount 9000 \<noteq> 0"
  using effective_timeout_bounds [of Op_GetAccount 9000] by (simp add: required_feature_def)

text \<open>The size test before a response is sent is exact: a response passes it if and only if its
  encoding is at most the negotiated payload.\<close>

theorem response_fits_exact:
  assumes "minicbor_spec mc" and "ResponseEnvelope_valid response"
    and "ResponseEnvelope_encode mc response = Ok bs"
  shows "Connection_response_fits c response
    \<longleftrightarrow> length bs \<le> unat (cl_maximum_payload_bytes (cn_limits c))"
proof -
  have "bs = ResponseEnvelope_wire mc response"
    using assms minicbor_spec.ResponseEnvelope_encode_valid [OF assms(1, 2)] by simp
  then show ?thesis
    using minicbor_spec.ResponseEnvelope_wire_length [OF assms(1)] assms(2)
    by (simp add: Connection_response_fits_def ResponseEnvelope_valid_def)
qed

theorem response_fits_exact_witness:
  "Connection_response_fits host_connection
     \<lparr>rs_error = None, rs_retry = Retry_Never, rs_correlation_id = replicate 16 8, rs_body = [1, 2]\<rparr>"
proof -
  let ?r = "\<lparr>rs_error = None, rs_retry = Retry_Never, rs_correlation_id = replicate 16 8,
    rs_body = [1, 2]\<rparr> :: response_envelope"
  have valid: "ResponseEnvelope_valid ?r" by (simp add: ResponseEnvelope_valid_def)
  have "length (ResponseEnvelope_wire rfc8949 ?r) = 23"
    by (subst rfc.ResponseEnvelope_wire_length)
      (simp_all add: ResponseEnvelope_encoded_len_def encoded_byte_string_len_def)
  then show ?thesis
    using response_fits_exact [OF rfc.minicbor_spec_axioms valid
        rfc.ResponseEnvelope_encode_valid [OF valid], of host_connection]
    by (simp add: host_defs)
qed

end
