(* ===== verification/Format_Cbor.thy ===== *)
theory Format_Cbor
  imports Minicbor
begin

text \<open>
  The CBOR helpers of the vault format (private functions at the end of
  crates/vault-format/src/lib.rs and records.rs, which carry two equal copies). Encoder helpers
  write one item and panic when the writer refuses it; decoder helpers map every library error to
  \<open>Malformed\<close> and enforce exact values, lengths and bounds.
\<close>

section \<open>Errors\<close>

datatype format_error =
    Format_TooLarge | Format_Malformed | Format_Unsupported | Format_NonCanonical
  | Format_InvariantViolation

section \<open>Encoder helpers\<close>

definition fmt_encode_array :: "minicbor \<Rightarrow> u64 \<Rightarrow> writer \<Rightarrow> writer option" where
  [encode_simps]: "fmt_encode_array mc len = (\<lambda>w. SecretWriter_write_all w (enc_array mc len))"

definition fmt_encode_u32 :: "minicbor \<Rightarrow> u32 \<Rightarrow> writer \<Rightarrow> writer option" where
  [encode_simps]: "fmt_encode_u32 mc v = (\<lambda>w. SecretWriter_write_all w (enc_u32 mc v))"

definition fmt_encode_u64 :: "minicbor \<Rightarrow> u64 \<Rightarrow> writer \<Rightarrow> writer option" where
  [encode_simps]: "fmt_encode_u64 mc v = (\<lambda>w. SecretWriter_write_all w (enc_u64 mc v))"

definition fmt_encode_bytes :: "minicbor \<Rightarrow> bytes \<Rightarrow> writer \<Rightarrow> writer option" where
  [encode_simps]: "fmt_encode_bytes mc v = (\<lambda>w. SecretWriter_write_all w (enc_bytes mc v))"

definition fmt_encode_str :: "minicbor \<Rightarrow> bytes \<Rightarrow> writer \<Rightarrow> writer option" where
  [encode_simps]: "fmt_encode_str mc v = (\<lambda>w. SecretWriter_write_all w (enc_str mc v))"

section \<open>Decoder helpers\<close>

definition fmt_expect_array :: "minicbor \<Rightarrow> u64 \<Rightarrow> bytes \<Rightarrow> (bytes, format_error) result" where
  "fmt_expect_array mc expected d =
     and_then (ok_or Format_Malformed (dec_array mc d)) (\<lambda>(actual, d).
     and_then (ok_or Format_Malformed actual) (\<lambda>actual.
     if actual \<noteq> expected then Err Format_Malformed else Ok d))"

text \<open>\<open>usize::try_from\<close> of a \<open>u64\<close> always succeeds on a 64-bit target.\<close>

definition fmt_decode_array_len :: "minicbor \<Rightarrow> bytes \<Rightarrow> (nat \<times> bytes, format_error) result" where
  "fmt_decode_array_len mc d =
     and_then (ok_or Format_Malformed (dec_array mc d)) (\<lambda>(len, d).
     and_then (ok_or Format_Malformed len) (\<lambda>len. Ok (unat len, d)))"

definition fmt_decode_u32 :: "minicbor \<Rightarrow> bytes \<Rightarrow> (u32 \<times> bytes, format_error) result" where
  "fmt_decode_u32 mc d = ok_or Format_Malformed (dec_u32 mc d)"

definition fmt_decode_u64 :: "minicbor \<Rightarrow> bytes \<Rightarrow> (u64 \<times> bytes, format_error) result" where
  "fmt_decode_u64 mc d = ok_or Format_Malformed (dec_u64 mc d)"

definition fmt_decode_str :: "minicbor \<Rightarrow> bytes \<Rightarrow> (bytes \<times> bytes, format_error) result" where
  "fmt_decode_str mc d = ok_or Format_Malformed (dec_str mc d)"

definition fmt_expect_u32 :: "minicbor \<Rightarrow> u32 \<Rightarrow> bytes \<Rightarrow> (bytes, format_error) result" where
  "fmt_expect_u32 mc expected d =
     and_then (fmt_decode_u32 mc d) (\<lambda>(actual, d).
     if actual \<noteq> expected then Err Format_Unsupported else Ok d)"

definition fmt_decode_fixed_bytes ::
    "minicbor \<Rightarrow> nat \<Rightarrow> bytes \<Rightarrow> (bytes \<times> bytes, format_error) result" where
  "fmt_decode_fixed_bytes mc SIZE d =
     and_then (ok_or Format_Malformed (dec_bytes mc d)) (\<lambda>(value, d).
     if length value = SIZE then Ok (value, d) else Err Format_Malformed)"

definition fmt_decode_zeroizing_fixed_bytes ::
    "minicbor \<Rightarrow> nat \<Rightarrow> bytes \<Rightarrow> (bytes \<times> bytes, format_error) result" where
  "fmt_decode_zeroizing_fixed_bytes mc SIZE d =
     and_then (ok_or Format_Malformed (dec_bytes mc d)) (\<lambda>(value, d).
     if length value \<noteq> SIZE then Err Format_Malformed else Ok (value, d))"

definition fmt_decode_bounded_bytes ::
    "minicbor \<Rightarrow> nat \<Rightarrow> bytes \<Rightarrow> (bytes \<times> bytes, format_error) result" where
  "fmt_decode_bounded_bytes mc maximum d =
     and_then (ok_or Format_Malformed (dec_bytes mc d)) (\<lambda>(value, d).
     if length value > maximum then Err Format_TooLarge else Ok (value, d))"

definition fmt_decode_bounded_text ::
    "minicbor \<Rightarrow> nat \<Rightarrow> bytes \<Rightarrow> (bytes \<times> bytes, format_error) result" where
  "fmt_decode_bounded_text mc maximum d =
     and_then (ok_or Format_Malformed (dec_str mc d)) (\<lambda>(value, d).
     if length value > maximum then Err Format_TooLarge else Ok (value, d))"

definition fmt_require_end :: "bytes \<Rightarrow> bytes \<Rightarrow> (unit, format_error) result" where
  "fmt_require_end d original =
     (if length original - length d \<noteq> length original then Err Format_Malformed else Ok ())"

section \<open>Behaviour of the helpers\<close>

lemmas fmt_helper_defs = fmt_expect_array_def fmt_decode_array_len_def fmt_decode_u32_def
  fmt_decode_u64_def fmt_decode_str_def fmt_expect_u32_def fmt_decode_fixed_bytes_def
  fmt_decode_zeroizing_fixed_bytes_def fmt_decode_bounded_bytes_def fmt_decode_bounded_text_def

lemma fmt_decode_lengths [decode_ok]:
  "fmt_decode_fixed_bytes mc n d = Ok (bs, d') \<Longrightarrow> length bs = n"
  "fmt_decode_zeroizing_fixed_bytes mc n d = Ok (bs, d') \<Longrightarrow> length bs = n"
  "fmt_decode_bounded_bytes mc n d = Ok (bs, d') \<Longrightarrow> length bs \<le> n"
  "fmt_decode_bounded_text mc n d = Ok (bs, d') \<Longrightarrow> length bs \<le> n"
  by (auto simp: fmt_helper_defs result_simps split: if_splits prod.splits)

lemma fmt_helpers_no_panic [no_panic]:
  "fmt_expect_array mc k d \<noteq> Panic" "fmt_decode_array_len mc d \<noteq> Panic"
  "fmt_decode_u32 mc d \<noteq> Panic" "fmt_decode_u64 mc d \<noteq> Panic" "fmt_decode_str mc d \<noteq> Panic"
  "fmt_expect_u32 mc v d \<noteq> Panic" "fmt_decode_fixed_bytes mc n d \<noteq> Panic"
  "fmt_decode_zeroizing_fixed_bytes mc n d \<noteq> Panic" "fmt_decode_bounded_bytes mc n d \<noteq> Panic"
  "fmt_decode_bounded_text mc n d \<noteq> Panic" "fmt_require_end d original \<noteq> Panic"
  by (auto simp: fmt_helper_defs fmt_require_end_def result_simps split: prod.splits)

lemma fmt_require_end_Nil [simp]: "fmt_require_end [] original = Ok ()"
  by (simp add: fmt_require_end_def)

context minicbor_spec
begin

lemma fmt_bounded_text_utf8: "fmt_decode_bounded_text mc n d = Ok (s, d') \<Longrightarrow> utf8_valid s"
  by (auto simp: fmt_decode_bounded_text_def result_simps split: if_splits prod.splits
      dest: dec_str_utf8)

text \<open>Reading back what the matching encoder helper wrote.\<close>

lemma fmt_numbers_enc [simp]:
  "fmt_expect_array mc n (enc_array mc n @ rest) = Ok rest"
  "fmt_decode_array_len mc (enc_array mc n @ rest) = Ok (unat n, rest)"
  "fmt_decode_array_len mc (enc_array mc n) = Ok (unat n, [])"
  "fmt_decode_u32 mc (enc_u32 mc v @ rest) = Ok (v, rest)"
  "fmt_decode_u32 mc (enc_u32 mc v) = Ok (v, [])"
  "fmt_decode_u64 mc (enc_u64 mc d @ rest) = Ok (d, rest)"
  "fmt_expect_u32 mc v (enc_u32 mc v @ rest) = Ok rest"
  by (simp_all add: fmt_helper_defs)

lemma fmt_fixed_enc [simp]:
  assumes "length bs = n" and "n < 2 ^ 64"
  shows "fmt_decode_fixed_bytes mc n (enc_bytes mc bs @ rest) = Ok (bs, rest)"
    and "fmt_decode_fixed_bytes mc n (enc_bytes mc bs) = Ok (bs, [])"
    and "fmt_decode_zeroizing_fixed_bytes mc n (enc_bytes mc bs @ rest) = Ok (bs, rest)"
    and "fmt_decode_zeroizing_fixed_bytes mc n (enc_bytes mc bs) = Ok (bs, [])"
  using assms by (simp_all add: fmt_helper_defs)

lemma fmt_bounded_enc [simp]:
  assumes "length bs \<le> n" and "n < 2 ^ 64"
  shows "fmt_decode_bounded_bytes mc n (enc_bytes mc bs @ rest) = Ok (bs, rest)"
    and "fmt_decode_bounded_bytes mc n (enc_bytes mc bs) = Ok (bs, [])"
    and "utf8_valid bs \<Longrightarrow> fmt_decode_bounded_text mc n (enc_str mc bs @ rest) = Ok (bs, rest)"
    and "utf8_valid bs \<Longrightarrow> fmt_decode_bounded_text mc n (enc_str mc bs) = Ok (bs, [])"
  using assms by (simp_all add: fmt_helper_defs)

lemma fmt_str_enc [simp]:
  "length s < 2 ^ 64 \<Longrightarrow> utf8_valid s \<Longrightarrow> fmt_decode_str mc (enc_str mc s @ rest) = Ok (s, rest)"
  by (simp add: fmt_decode_str_def)

end

end
