(* ===== verification/Format_Vault.thy ===== *)
theory Format_Vault
  imports Format_Cbor Rfc8949 "HOL-Library.List_Lexorder"
begin

text \<open>
  The clear header, the Windows Hello protector, the active-record manifest with its encrypted
  envelope, and the associated data of every wrapper (crates/vault-format/src/lib.rs). For each
  structure: decoding accepts exactly the encodings of valid values. For the manifest: generations
  advance by one and never go back in time. For associated data: it determines its inputs, and no
  two families of associated data can coincide.
\<close>

section \<open>Versions, suites and limits\<close>

definition CONTAINER_VERSION :: u32 where [simp]: "CONTAINER_VERSION = 1"
definition MINIMUM_READER_VERSION :: u32 where [simp]: "MINIMUM_READER_VERSION = 1"
definition KEY_SCHEDULE :: u32 where [simp]: "KEY_SCHEDULE = 1"
definition AEAD_SUITE :: u32 where [simp]: "AEAD_SUITE = 1"
definition ENCODING :: u32 where [simp]: "ENCODING = 1"
definition DIGEST_SUITE :: u32 where [simp]: "DIGEST_SUITE = 1"
definition KDF_SUITE :: u32 where [simp]: "KDF_SUITE = 1"
definition ARGON2_VERSION :: u32 where [simp]: "ARGON2_VERSION = 0x13"
definition ARGON2_MEMORY_KIB :: u32 where [simp]: "ARGON2_MEMORY_KIB = 65536"
definition ARGON2_TIME_COST :: u32 where [simp]: "ARGON2_TIME_COST = 3"
definition ARGON2_PARALLELISM :: u32 where [simp]: "ARGON2_PARALLELISM = 4"
definition RECOVERY_WRAPPER_VERSION :: u32 where [simp]: "RECOVERY_WRAPPER_VERSION = 1"
definition WINDOWS_HELLO_PROTECTOR_VERSION :: u32 where
  [simp]: "WINDOWS_HELLO_PROTECTOR_VERSION = 1"
definition MANIFEST_ENVELOPE_VERSION :: u32 where [simp]: "MANIFEST_ENVELOPE_VERSION = 1"
definition MANIFEST_SCHEMA :: u32 where [simp]: "MANIFEST_SCHEMA = 1"
definition VAULT_SCHEMA :: u32 where [simp]: "VAULT_SCHEMA = 1"
definition MASTER_WRAPPER_TYPE :: u32 where [simp]: "MASTER_WRAPPER_TYPE = 1"
definition RECOVERY_WRAPPER_TYPE :: u32 where [simp]: "RECOVERY_WRAPPER_TYPE = 2"

definition MAX_HEADER_BYTES :: nat where [simp]: "MAX_HEADER_BYTES = 64 * 1024"
definition MAX_MANIFEST_ENVELOPE_BYTES :: nat where
  [simp]: "MAX_MANIFEST_ENVELOPE_BYTES = 8 * 1024 * 1024"
definition MAX_RECORDS :: nat where [simp]: "MAX_RECORDS = 100000"
definition MAX_RECORD_ENVELOPE_BYTES :: nat where [simp]: "MAX_RECORD_ENVELOPE_BYTES = 1024 * 1024"
definition MAX_WINDOWS_HELLO_CREDENTIAL_ID_BYTES :: nat where
  [simp]: "MAX_WINDOWS_HELLO_CREDENTIAL_ID_BYTES = 1024"
definition MAX_WINDOWS_HELLO_PROTECTOR_BYTES :: nat where
  [simp]: "MAX_WINDOWS_HELLO_PROTECTOR_BYTES = 2 * 1024"
definition TAG_BYTES :: nat where [simp]: "TAG_BYTES = 16"

definition VAULT_MAGIC :: bytes where "VAULT_MAGIC = ascii ''LBR-VLT''"
definition WINDOWS_HELLO_MAGIC :: bytes where "WINDOWS_HELLO_MAGIC = ascii ''LBR-HLO''"

lemma magic_facts [simp]:
  "length VAULT_MAGIC = 7" "length WINDOWS_HELLO_MAGIC = 7"
  "utf8_valid VAULT_MAGIC" "utf8_valid WINDOWS_HELLO_MAGIC"
  by (simp_all add: VAULT_MAGIC_def WINDOWS_HELLO_MAGIC_def ascii_def utf8_valid_ascii)

section \<open>Windows Hello protector\<close>

record windows_hello_protector =
  wh_vault_id :: bytes
  wh_key_epoch :: u32
  wh_installation_id :: bytes
  wh_credential_id :: bytes
  wh_prf_salt :: bytes
  wh_nonce :: bytes
  wh_wrapped_vrk :: bytes

definition WindowsHelloProtector_new ::
    "bytes \<Rightarrow> u32 \<Rightarrow> bytes \<Rightarrow> bytes \<Rightarrow> bytes \<Rightarrow> bytes \<Rightarrow> bytes
       \<Rightarrow> (windows_hello_protector, format_error) result" where
  "WindowsHelloProtector_new vault_id key_epoch installation_id credential_id prf_salt nonce
       wrapped_vrk =
     (if key_epoch = 0 \<or> list_all (\<lambda>byte. byte = 0) installation_id \<or> credential_id = []
      then Err Format_InvariantViolation
      else if length credential_id > MAX_WINDOWS_HELLO_CREDENTIAL_ID_BYTES then Err Format_TooLarge
      else Ok \<lparr>wh_vault_id = vault_id, wh_key_epoch = key_epoch,
               wh_installation_id = installation_id, wh_credential_id = credential_id,
               wh_prf_salt = prf_salt, wh_nonce = nonce, wh_wrapped_vrk = wrapped_vrk\<rparr>)"

definition encode_windows_hello_binding_into ::
    "minicbor \<Rightarrow> windows_hello_protector \<Rightarrow> writer \<Rightarrow> writer option" where
  "encode_windows_hello_binding_into mc p w = do {
     w \<leftarrow> fmt_encode_str mc WINDOWS_HELLO_MAGIC w;
     w \<leftarrow> fmt_encode_u32 mc WINDOWS_HELLO_PROTECTOR_VERSION w;
     w \<leftarrow> fmt_encode_u32 mc CONTAINER_VERSION w;
     w \<leftarrow> fmt_encode_u32 mc MINIMUM_READER_VERSION w;
     w \<leftarrow> fmt_encode_u32 mc KEY_SCHEDULE w;
     w \<leftarrow> fmt_encode_u32 mc AEAD_SUITE w;
     w \<leftarrow> fmt_encode_u32 mc ENCODING w;
     w \<leftarrow> fmt_encode_u32 mc DIGEST_SUITE w;
     w \<leftarrow> fmt_encode_bytes mc (wh_vault_id p) w;
     w \<leftarrow> fmt_encode_u32 mc (wh_key_epoch p) w;
     w \<leftarrow> fmt_encode_bytes mc (wh_installation_id p) w;
     w \<leftarrow> fmt_encode_bytes mc (wh_credential_id p) w;
     fmt_encode_bytes mc (wh_prf_salt p) w }"

definition encode_windows_hello_protector_into ::
    "minicbor \<Rightarrow> windows_hello_protector \<Rightarrow> writer \<Rightarrow> writer option" where
  "encode_windows_hello_protector_into mc p w = do {
     w \<leftarrow> fmt_encode_array mc 15 w;
     w \<leftarrow> encode_windows_hello_binding_into mc p w;
     w \<leftarrow> fmt_encode_bytes mc (wh_nonce p) w;
     fmt_encode_bytes mc (wh_wrapped_vrk p) w }"

definition WindowsHelloProtector_encode ::
    "minicbor \<Rightarrow> windows_hello_protector \<Rightarrow> (bytes, format_error) result" where
  "WindowsHelloProtector_encode mc p =
     and_then (WindowsHelloProtector_new (wh_vault_id p) (wh_key_epoch p) (wh_installation_id p)
                 (wh_credential_id p) (wh_prf_salt p) (wh_nonce p) (wh_wrapped_vrk p)) (\<lambda>_.
     and_then (expect_some (into_bytes (encode_windows_hello_protector_into mc p vec_new))) (\<lambda>bs.
     if length bs > MAX_WINDOWS_HELLO_PROTECTOR_BYTES then Err Format_TooLarge else Ok bs))"

definition WindowsHelloProtector_decode ::
    "minicbor \<Rightarrow> bytes \<Rightarrow> (windows_hello_protector, format_error) result" where
  "WindowsHelloProtector_decode mc bs =
     (if length bs > MAX_WINDOWS_HELLO_PROTECTOR_BYTES then Err Format_TooLarge else
      and_then (fmt_expect_array mc 15 bs) (\<lambda>d.
      and_then (fmt_decode_str mc d) (\<lambda>(magic, d).
      if magic \<noteq> WINDOWS_HELLO_MAGIC then Err Format_Malformed else
      and_then (fmt_expect_u32 mc WINDOWS_HELLO_PROTECTOR_VERSION d) (\<lambda>d.
      and_then (fmt_expect_u32 mc CONTAINER_VERSION d) (\<lambda>d.
      and_then (fmt_expect_u32 mc MINIMUM_READER_VERSION d) (\<lambda>d.
      and_then (fmt_expect_u32 mc KEY_SCHEDULE d) (\<lambda>d.
      and_then (fmt_expect_u32 mc AEAD_SUITE d) (\<lambda>d.
      and_then (fmt_expect_u32 mc ENCODING d) (\<lambda>d.
      and_then (fmt_expect_u32 mc DIGEST_SUITE d) (\<lambda>d.
      and_then (fmt_decode_fixed_bytes mc 16 d) (\<lambda>(vault_id, d).
      and_then (fmt_decode_u32 mc d) (\<lambda>(key_epoch, d).
      and_then (fmt_decode_fixed_bytes mc 32 d) (\<lambda>(installation_id, d).
      and_then (fmt_decode_bounded_bytes mc MAX_WINDOWS_HELLO_CREDENTIAL_ID_BYTES d)
        (\<lambda>(credential_id, d).
      and_then (fmt_decode_fixed_bytes mc 32 d) (\<lambda>(prf_salt, d).
      and_then (fmt_decode_fixed_bytes mc 24 d) (\<lambda>(nonce, d).
      and_then (fmt_decode_fixed_bytes mc 48 d) (\<lambda>(wrapped_vrk, d).
      and_then (fmt_require_end d bs) (\<lambda>_.
      and_then (WindowsHelloProtector_new vault_id key_epoch installation_id credential_id
                  prf_salt nonce wrapped_vrk) (\<lambda>protector.
      and_then (WindowsHelloProtector_encode mc protector) (\<lambda>enc.
      if enc \<noteq> bs then Err Format_NonCanonical else Ok protector))))))))))))))))))))"

section \<open>Vault header\<close>

record master_wrapper =
  mw_password_salt :: bytes
  mw_nonce :: bytes
  mw_wrapped_vrk :: bytes

record recovery_wrapper =
  rw_nonce :: bytes
  rw_wrapped_vrk :: bytes

record vault_header =
  vh_vault_id :: bytes
  vh_key_epoch :: u32
  vh_master_wrapper :: master_wrapper
  vh_recovery_wrapper :: recovery_wrapper

definition encode_header_into :: "minicbor \<Rightarrow> vault_header \<Rightarrow> writer \<Rightarrow> writer option" where
  "encode_header_into mc h w = do {
     w \<leftarrow> fmt_encode_array mc 11 w;
     w \<leftarrow> fmt_encode_str mc VAULT_MAGIC w;
     w \<leftarrow> fmt_encode_u32 mc CONTAINER_VERSION w;
     w \<leftarrow> fmt_encode_u32 mc MINIMUM_READER_VERSION w;
     w \<leftarrow> fmt_encode_u32 mc KEY_SCHEDULE w;
     w \<leftarrow> fmt_encode_u32 mc AEAD_SUITE w;
     w \<leftarrow> fmt_encode_u32 mc ENCODING w;
     w \<leftarrow> fmt_encode_u32 mc DIGEST_SUITE w;
     w \<leftarrow> fmt_encode_bytes mc (vh_vault_id h) w;
     w \<leftarrow> fmt_encode_u32 mc (vh_key_epoch h) w;
     w \<leftarrow> fmt_encode_array mc 8 w;
     w \<leftarrow> fmt_encode_u32 mc KDF_SUITE w;
     w \<leftarrow> fmt_encode_u32 mc ARGON2_VERSION w;
     w \<leftarrow> fmt_encode_u32 mc ARGON2_MEMORY_KIB w;
     w \<leftarrow> fmt_encode_u32 mc ARGON2_TIME_COST w;
     w \<leftarrow> fmt_encode_u32 mc ARGON2_PARALLELISM w;
     w \<leftarrow> fmt_encode_bytes mc (mw_password_salt (vh_master_wrapper h)) w;
     w \<leftarrow> fmt_encode_bytes mc (mw_nonce (vh_master_wrapper h)) w;
     w \<leftarrow> fmt_encode_bytes mc (mw_wrapped_vrk (vh_master_wrapper h)) w;
     w \<leftarrow> fmt_encode_array mc 3 w;
     w \<leftarrow> fmt_encode_u32 mc RECOVERY_WRAPPER_VERSION w;
     w \<leftarrow> fmt_encode_bytes mc (rw_nonce (vh_recovery_wrapper h)) w;
     fmt_encode_bytes mc (rw_wrapped_vrk (vh_recovery_wrapper h)) w }"

definition VaultHeader_encode :: "minicbor \<Rightarrow> vault_header \<Rightarrow> (bytes, format_error) result" where
  "VaultHeader_encode mc h =
     (if vh_key_epoch h = 0 then Err Format_InvariantViolation
      else
        and_then (expect_some (into_bytes (encode_header_into mc h vec_new))) (\<lambda>bs.
        if length bs > MAX_HEADER_BYTES then Err Format_TooLarge else Ok bs))"

definition decode_header_from ::
    "minicbor \<Rightarrow> bytes \<Rightarrow> (vault_header \<times> bytes, format_error) result" where
  "decode_header_from mc d =
     and_then (fmt_expect_array mc 11 d) (\<lambda>d.
     and_then (fmt_decode_str mc d) (\<lambda>(magic, d).
     if magic \<noteq> VAULT_MAGIC then Err Format_Malformed else
     and_then (fmt_expect_u32 mc CONTAINER_VERSION d) (\<lambda>d.
     and_then (fmt_expect_u32 mc MINIMUM_READER_VERSION d) (\<lambda>d.
     and_then (fmt_expect_u32 mc KEY_SCHEDULE d) (\<lambda>d.
     and_then (fmt_expect_u32 mc AEAD_SUITE d) (\<lambda>d.
     and_then (fmt_expect_u32 mc ENCODING d) (\<lambda>d.
     and_then (fmt_expect_u32 mc DIGEST_SUITE d) (\<lambda>d.
     and_then (fmt_decode_fixed_bytes mc 16 d) (\<lambda>(vault_id, d).
     and_then (fmt_decode_u32 mc d) (\<lambda>(key_epoch, d).
     if key_epoch = 0 then Err Format_Malformed else
     and_then (fmt_expect_array mc 8 d) (\<lambda>d.
     and_then (fmt_expect_u32 mc KDF_SUITE d) (\<lambda>d.
     and_then (fmt_expect_u32 mc ARGON2_VERSION d) (\<lambda>d.
     and_then (fmt_expect_u32 mc ARGON2_MEMORY_KIB d) (\<lambda>d.
     and_then (fmt_expect_u32 mc ARGON2_TIME_COST d) (\<lambda>d.
     and_then (fmt_expect_u32 mc ARGON2_PARALLELISM d) (\<lambda>d.
     and_then (fmt_decode_fixed_bytes mc 16 d) (\<lambda>(password_salt, d).
     and_then (fmt_decode_fixed_bytes mc 24 d) (\<lambda>(master_nonce, d).
     and_then (fmt_decode_fixed_bytes mc 48 d) (\<lambda>(master_wrapped_vrk, d).
     and_then (fmt_expect_array mc 3 d) (\<lambda>d.
     and_then (fmt_expect_u32 mc RECOVERY_WRAPPER_VERSION d) (\<lambda>d.
     and_then (fmt_decode_fixed_bytes mc 24 d) (\<lambda>(recovery_nonce, d).
     and_then (fmt_decode_fixed_bytes mc 48 d) (\<lambda>(recovery_wrapped_vrk, d).
     Ok (\<lparr>vh_vault_id = vault_id, vh_key_epoch = key_epoch,
          vh_master_wrapper = \<lparr>mw_password_salt = password_salt, mw_nonce = master_nonce,
                               mw_wrapped_vrk = master_wrapped_vrk\<rparr>,
          vh_recovery_wrapper = \<lparr>rw_nonce = recovery_nonce,
                                 rw_wrapped_vrk = recovery_wrapped_vrk\<rparr>\<rparr>, d))))))))))))))))))))))))"

definition VaultHeader_decode :: "minicbor \<Rightarrow> bytes \<Rightarrow> (vault_header, format_error) result" where
  "VaultHeader_decode mc bs =
     (if length bs > MAX_HEADER_BYTES then Err Format_TooLarge else
      and_then (decode_header_from mc bs) (\<lambda>(header, d).
      and_then (fmt_require_end d bs) (\<lambda>_.
      and_then (VaultHeader_encode mc header) (\<lambda>enc.
      if enc \<noteq> bs then Err Format_NonCanonical else Ok header))))"

section \<open>Manifest\<close>

record manifest_entry =
  me_record_id :: bytes
  me_envelope_digest :: bytes

record manifest =
  mf_generation :: u64
  mf_key_epoch :: u32
  mf_vault_schema :: u32
  mf_created_at_ms :: u64
  mf_committed_at_ms :: u64
  mf_entries :: "manifest_entry list"

definition Manifest_empty :: "u64 \<Rightarrow> u32 \<Rightarrow> manifest" where
  "Manifest_empty created_at_ms key_epoch =
     \<lparr>mf_generation = 0, mf_key_epoch = key_epoch, mf_vault_schema = VAULT_SCHEMA,
      mf_created_at_ms = created_at_ms, mf_committed_at_ms = created_at_ms, mf_entries = []\<rparr>"

text \<open>Record identifiers are compared as byte arrays, that is lexicographically.\<close>

definition validate_manifest :: "manifest \<Rightarrow> (unit, format_error) result" where
  "validate_manifest m =
     (if mf_key_epoch m = 0 \<or> mf_vault_schema m \<noteq> VAULT_SCHEMA then Err Format_Unsupported
      else if mf_committed_at_ms m < mf_created_at_ms m then Err Format_InvariantViolation
      else if length (mf_entries m) > MAX_RECORDS then Err Format_TooLarge
      else if windows2_any (\<lambda>x y. me_record_id x \<ge> me_record_id y) (mf_entries m)
      then Err Format_InvariantViolation
      else Ok ())"

definition Manifest_next_generation ::
    "manifest \<Rightarrow> u64 \<Rightarrow> manifest_entry list \<Rightarrow> (manifest, format_error) result" where
  "Manifest_next_generation m committed_at_ms entries =
     (if committed_at_ms < mf_committed_at_ms m then Err Format_InvariantViolation
      else
        and_then (ok_or Format_InvariantViolation (u64_checked_add (mf_generation m) 1))
          (\<lambda>generation.
        let next_manifest = \<lparr>mf_generation = generation, mf_key_epoch = mf_key_epoch m,
              mf_vault_schema = mf_vault_schema m, mf_created_at_ms = mf_created_at_ms m,
              mf_committed_at_ms = committed_at_ms, mf_entries = entries\<rparr>
        in and_then (validate_manifest next_manifest) (\<lambda>_. Ok next_manifest)))"

definition encode_manifest_entry :: "minicbor \<Rightarrow> manifest_entry \<Rightarrow> writer \<Rightarrow> writer option" where
  "encode_manifest_entry mc e w = do {
     w \<leftarrow> fmt_encode_array mc 2 w;
     w \<leftarrow> fmt_encode_bytes mc (me_record_id e) w;
     fmt_encode_bytes mc (me_envelope_digest e) w }"

definition Manifest_encode :: "minicbor \<Rightarrow> manifest \<Rightarrow> (bytes, format_error) result" where
  "Manifest_encode mc m =
     and_then (validate_manifest m) (\<lambda>_.
     and_then (expect_some (into_bytes (do {
         w \<leftarrow> fmt_encode_array mc 7 vec_new;
         w \<leftarrow> fmt_encode_u32 mc MANIFEST_SCHEMA w;
         w \<leftarrow> fmt_encode_u64 mc (mf_generation m) w;
         w \<leftarrow> fmt_encode_u32 mc (mf_key_epoch m) w;
         w \<leftarrow> fmt_encode_u32 mc (mf_vault_schema m) w;
         w \<leftarrow> fmt_encode_u64 mc (mf_created_at_ms m) w;
         w \<leftarrow> fmt_encode_u64 mc (mf_committed_at_ms m) w;
         w \<leftarrow> fmt_encode_array mc (of_nat (length (mf_entries m))) w;
         encode_each (encode_manifest_entry mc) (mf_entries m) w }))) (\<lambda>bs.
     and_then (ok_or Format_TooLarge (usize_checked_add (length bs) TAG_BYTES)) (\<lambda>total.
     if total > MAX_MANIFEST_ENVELOPE_BYTES then Err Format_TooLarge else Ok bs)))"

primrec decode_manifest_entries ::
    "minicbor \<Rightarrow> nat \<Rightarrow> bytes \<Rightarrow> (manifest_entry list \<times> bytes, format_error) result" where
  "decode_manifest_entries mc 0 d = Ok ([], d)"
| "decode_manifest_entries mc (Suc n) d =
     and_then (fmt_expect_array mc 2 d) (\<lambda>d.
     and_then (fmt_decode_fixed_bytes mc 16 d) (\<lambda>(record_id, d).
     and_then (fmt_decode_fixed_bytes mc 32 d) (\<lambda>(envelope_digest, d).
     and_then (decode_manifest_entries mc n d) (\<lambda>(entries, d).
     Ok (\<lparr>me_record_id = record_id, me_envelope_digest = envelope_digest\<rparr> # entries, d)))))"

definition Manifest_decode :: "minicbor \<Rightarrow> bytes \<Rightarrow> (manifest, format_error) result" where
  "Manifest_decode mc bs =
     and_then (ok_or Format_TooLarge (usize_checked_add (length bs) TAG_BYTES)) (\<lambda>total.
     if total > MAX_MANIFEST_ENVELOPE_BYTES then Err Format_TooLarge else
     and_then (fmt_expect_array mc 7 bs) (\<lambda>d.
     and_then (fmt_expect_u32 mc MANIFEST_SCHEMA d) (\<lambda>d.
     and_then (fmt_decode_u64 mc d) (\<lambda>(generation, d).
     and_then (fmt_decode_u32 mc d) (\<lambda>(key_epoch, d).
     and_then (fmt_decode_u32 mc d) (\<lambda>(vault_schema, d).
     and_then (fmt_decode_u64 mc d) (\<lambda>(created_at_ms, d).
     and_then (fmt_decode_u64 mc d) (\<lambda>(committed_at_ms, d).
     and_then (fmt_decode_array_len mc d) (\<lambda>(entry_count, d).
     if entry_count > MAX_RECORDS then Err Format_TooLarge else
     and_then (decode_manifest_entries mc entry_count d) (\<lambda>(entries, d).
     and_then (fmt_require_end d bs) (\<lambda>_.
     let manifest = \<lparr>mf_generation = generation, mf_key_epoch = key_epoch,
           mf_vault_schema = vault_schema, mf_created_at_ms = created_at_ms,
           mf_committed_at_ms = committed_at_ms, mf_entries = entries\<rparr> in
     and_then (validate_manifest manifest) (\<lambda>_.
     and_then (Manifest_encode mc manifest) (\<lambda>enc.
     if enc \<noteq> bs then Err Format_NonCanonical else Ok manifest)))))))))))))"

section \<open>Manifest envelope\<close>

record manifest_envelope =
  mv_nonce :: bytes
  mv_ciphertext :: bytes

definition ManifestEnvelope_encode ::
    "minicbor \<Rightarrow> manifest_envelope \<Rightarrow> (bytes, format_error) result" where
  "ManifestEnvelope_encode mc e =
     (if length (mv_ciphertext e) < TAG_BYTES then Err Format_Malformed
      else
        and_then (expect_some (into_bytes (do {
            w \<leftarrow> fmt_encode_array mc 3 vec_new;
            w \<leftarrow> fmt_encode_u32 mc MANIFEST_ENVELOPE_VERSION w;
            w \<leftarrow> fmt_encode_bytes mc (mv_nonce e) w;
            fmt_encode_bytes mc (mv_ciphertext e) w }))) (\<lambda>bs.
        if length bs > MAX_MANIFEST_ENVELOPE_BYTES then Err Format_TooLarge else Ok bs))"

definition ManifestEnvelope_new ::
    "minicbor \<Rightarrow> bytes \<Rightarrow> bytes \<Rightarrow> (manifest_envelope, format_error) result" where
  "ManifestEnvelope_new mc nonce ciphertext =
     (if length ciphertext < TAG_BYTES then Err Format_Malformed
      else
        let envelope = \<lparr>mv_nonce = nonce, mv_ciphertext = ciphertext\<rparr> in
        and_then (ManifestEnvelope_encode mc envelope) (\<lambda>bs.
        if length bs > MAX_MANIFEST_ENVELOPE_BYTES then Err Format_TooLarge else Ok envelope))"

definition ManifestEnvelope_decode ::
    "minicbor \<Rightarrow> bytes \<Rightarrow> (manifest_envelope, format_error) result" where
  "ManifestEnvelope_decode mc bs =
     (if length bs > MAX_MANIFEST_ENVELOPE_BYTES then Err Format_TooLarge else
      and_then (fmt_expect_array mc 3 bs) (\<lambda>d.
      and_then (fmt_expect_u32 mc MANIFEST_ENVELOPE_VERSION d) (\<lambda>d.
      and_then (fmt_decode_fixed_bytes mc 24 d) (\<lambda>(nonce, d).
      and_then (fmt_decode_bounded_bytes mc MAX_MANIFEST_ENVELOPE_BYTES d) (\<lambda>(ciphertext, d).
      and_then (fmt_require_end d bs) (\<lambda>_.
      and_then (ManifestEnvelope_new mc nonce ciphertext) (\<lambda>envelope.
      and_then (ManifestEnvelope_encode mc envelope) (\<lambda>enc.
      if enc \<noteq> bs then Err Format_NonCanonical else Ok envelope))))))))"

section \<open>Associated data\<close>

definition encode_master_wrapper_aad :: "minicbor \<Rightarrow> bytes \<Rightarrow> u32 \<Rightarrow> bytes \<Rightarrow> bytes option" where
  "encode_master_wrapper_aad mc vault_id key_epoch salt = into_bytes (do {
     w \<leftarrow> fmt_encode_array mc 17 vec_new;
     w \<leftarrow> fmt_encode_str mc VAULT_MAGIC w;
     w \<leftarrow> fmt_encode_u32 mc CONTAINER_VERSION w;
     w \<leftarrow> fmt_encode_u32 mc MINIMUM_READER_VERSION w;
     w \<leftarrow> fmt_encode_u32 mc KEY_SCHEDULE w;
     w \<leftarrow> fmt_encode_u32 mc AEAD_SUITE w;
     w \<leftarrow> fmt_encode_u32 mc ENCODING w;
     w \<leftarrow> fmt_encode_u32 mc DIGEST_SUITE w;
     w \<leftarrow> fmt_encode_bytes mc vault_id w;
     w \<leftarrow> fmt_encode_u32 mc key_epoch w;
     w \<leftarrow> fmt_encode_u32 mc MASTER_WRAPPER_TYPE w;
     w \<leftarrow> fmt_encode_u32 mc 1 w;
     w \<leftarrow> fmt_encode_u32 mc KDF_SUITE w;
     w \<leftarrow> fmt_encode_u32 mc ARGON2_VERSION w;
     w \<leftarrow> fmt_encode_u32 mc ARGON2_MEMORY_KIB w;
     w \<leftarrow> fmt_encode_u32 mc ARGON2_TIME_COST w;
     w \<leftarrow> fmt_encode_u32 mc ARGON2_PARALLELISM w;
     fmt_encode_bytes mc salt w })"

definition encode_recovery_wrapper_aad :: "minicbor \<Rightarrow> bytes \<Rightarrow> u32 \<Rightarrow> bytes option" where
  "encode_recovery_wrapper_aad mc vault_id key_epoch = into_bytes (do {
     w \<leftarrow> fmt_encode_array mc 11 vec_new;
     w \<leftarrow> fmt_encode_str mc VAULT_MAGIC w;
     w \<leftarrow> fmt_encode_u32 mc CONTAINER_VERSION w;
     w \<leftarrow> fmt_encode_u32 mc MINIMUM_READER_VERSION w;
     w \<leftarrow> fmt_encode_u32 mc KEY_SCHEDULE w;
     w \<leftarrow> fmt_encode_u32 mc AEAD_SUITE w;
     w \<leftarrow> fmt_encode_u32 mc ENCODING w;
     w \<leftarrow> fmt_encode_u32 mc DIGEST_SUITE w;
     w \<leftarrow> fmt_encode_bytes mc vault_id w;
     w \<leftarrow> fmt_encode_u32 mc key_epoch w;
     w \<leftarrow> fmt_encode_u32 mc RECOVERY_WRAPPER_TYPE w;
     fmt_encode_u32 mc RECOVERY_WRAPPER_VERSION w })"

definition encode_windows_hello_wrapper_aad ::
    "minicbor \<Rightarrow> windows_hello_protector \<Rightarrow> bytes option" where
  "encode_windows_hello_wrapper_aad mc p = into_bytes (do {
     w \<leftarrow> fmt_encode_array mc 14 vec_new;
     w \<leftarrow> encode_windows_hello_binding_into mc p w;
     fmt_encode_bytes mc (wh_nonce p) w })"

definition encode_manifest_aad :: "minicbor \<Rightarrow> vault_header \<Rightarrow> bytes \<Rightarrow> bytes option" where
  "encode_manifest_aad mc header nonce = into_bytes (do {
     w \<leftarrow> fmt_encode_array mc 3 vec_new;
     w \<leftarrow> encode_header_into mc header w;
     w \<leftarrow> fmt_encode_u32 mc MANIFEST_ENVELOPE_VERSION w;
     fmt_encode_bytes mc nonce w })"

section \<open>Validity and wire forms\<close>

definition WindowsHelloProtector_valid :: "windows_hello_protector \<Rightarrow> bool" where
  "WindowsHelloProtector_valid p \<longleftrightarrow>
     length (wh_vault_id p) = 16 \<and> wh_key_epoch p \<noteq> 0
     \<and> length (wh_installation_id p) = 32 \<and> wh_installation_id p \<noteq> zeros 32
     \<and> wh_credential_id p \<noteq> [] \<and> length (wh_credential_id p) \<le> 1024
     \<and> length (wh_prf_salt p) = 32 \<and> length (wh_nonce p) = 24 \<and> length (wh_wrapped_vrk p) = 48"

definition hello_binding_wire :: "minicbor \<Rightarrow> windows_hello_protector \<Rightarrow> bytes" where
  "hello_binding_wire mc p = enc_str mc WINDOWS_HELLO_MAGIC @ enc_u32 mc 1 @ enc_u32 mc 1
     @ enc_u32 mc 1 @ enc_u32 mc 1 @ enc_u32 mc 1 @ enc_u32 mc 1 @ enc_u32 mc 1
     @ enc_bytes mc (wh_vault_id p) @ enc_u32 mc (wh_key_epoch p)
     @ enc_bytes mc (wh_installation_id p) @ enc_bytes mc (wh_credential_id p)
     @ enc_bytes mc (wh_prf_salt p)"

definition hello_protector_wire :: "minicbor \<Rightarrow> windows_hello_protector \<Rightarrow> bytes" where
  "hello_protector_wire mc p = enc_array mc 15 @ hello_binding_wire mc p
     @ enc_bytes mc (wh_nonce p) @ enc_bytes mc (wh_wrapped_vrk p)"

definition VaultHeader_valid :: "vault_header \<Rightarrow> bool" where
  "VaultHeader_valid h \<longleftrightarrow>
     length (vh_vault_id h) = 16 \<and> vh_key_epoch h \<noteq> 0
     \<and> length (mw_password_salt (vh_master_wrapper h)) = 16
     \<and> length (mw_nonce (vh_master_wrapper h)) = 24
     \<and> length (mw_wrapped_vrk (vh_master_wrapper h)) = 48
     \<and> length (rw_nonce (vh_recovery_wrapper h)) = 24
     \<and> length (rw_wrapped_vrk (vh_recovery_wrapper h)) = 48"

definition header_wire :: "minicbor \<Rightarrow> vault_header \<Rightarrow> bytes" where
  "header_wire mc h = enc_array mc 11 @ enc_str mc VAULT_MAGIC @ enc_u32 mc 1 @ enc_u32 mc 1
     @ enc_u32 mc 1 @ enc_u32 mc 1 @ enc_u32 mc 1 @ enc_u32 mc 1 @ enc_bytes mc (vh_vault_id h)
     @ enc_u32 mc (vh_key_epoch h) @ enc_array mc 8 @ enc_u32 mc 1 @ enc_u32 mc 0x13
     @ enc_u32 mc 65536 @ enc_u32 mc 3 @ enc_u32 mc 4
     @ enc_bytes mc (mw_password_salt (vh_master_wrapper h))
     @ enc_bytes mc (mw_nonce (vh_master_wrapper h))
     @ enc_bytes mc (mw_wrapped_vrk (vh_master_wrapper h)) @ enc_array mc 3 @ enc_u32 mc 1
     @ enc_bytes mc (rw_nonce (vh_recovery_wrapper h))
     @ enc_bytes mc (rw_wrapped_vrk (vh_recovery_wrapper h))"

definition ManifestEntry_valid :: "manifest_entry \<Rightarrow> bool" where
  "ManifestEntry_valid e \<longleftrightarrow> length (me_record_id e) = 16 \<and> length (me_envelope_digest e) = 32"

definition Manifest_valid :: "manifest \<Rightarrow> bool" where
  "Manifest_valid m \<longleftrightarrow> mf_key_epoch m \<noteq> 0 \<and> mf_vault_schema m = 1
     \<and> mf_created_at_ms m \<le> mf_committed_at_ms m \<and> length (mf_entries m) \<le> 100000
     \<and> sorted_wrt (<) (map me_record_id (mf_entries m)) \<and> list_all ManifestEntry_valid (mf_entries m)"

definition manifest_entry_wire :: "minicbor \<Rightarrow> manifest_entry \<Rightarrow> bytes" where
  "manifest_entry_wire mc e =
     enc_array mc 2 @ enc_bytes mc (me_record_id e) @ enc_bytes mc (me_envelope_digest e)"

definition manifest_wire :: "minicbor \<Rightarrow> manifest \<Rightarrow> bytes" where
  "manifest_wire mc m = enc_array mc 7 @ enc_u32 mc 1 @ enc_u64 mc (mf_generation m)
     @ enc_u32 mc (mf_key_epoch m) @ enc_u32 mc (mf_vault_schema m)
     @ enc_u64 mc (mf_created_at_ms m) @ enc_u64 mc (mf_committed_at_ms m)
     @ enc_array mc (of_nat (length (mf_entries m)))
     @ concat (map (manifest_entry_wire mc) (mf_entries m))"

definition ManifestEnvelope_valid :: "manifest_envelope \<Rightarrow> bool" where
  "ManifestEnvelope_valid e \<longleftrightarrow> length (mv_nonce e) = 24 \<and> 16 \<le> length (mv_ciphertext e)
     \<and> length (mv_ciphertext e) \<le> 8388575"

definition manifest_envelope_wire :: "minicbor \<Rightarrow> manifest_envelope \<Rightarrow> bytes" where
  "manifest_envelope_wire mc e =
     enc_array mc 3 @ enc_u32 mc 1 @ enc_bytes mc (mv_nonce e) @ enc_bytes mc (mv_ciphertext e)"

section \<open>Encoders as byte strings\<close>

lemma encode_windows_hello_binding_into_eq [encode_simps]:
  "encode_windows_hello_binding_into mc p = (\<lambda>w. SecretWriter_write_all w (hello_binding_wire mc p))"
  by (simp add: fun_eq_iff encode_windows_hello_binding_into_def hello_binding_wire_def encode_simps)

lemma encode_windows_hello_protector_into_eq [encode_simps]:
  "encode_windows_hello_protector_into mc p
     = (\<lambda>w. SecretWriter_write_all w (hello_protector_wire mc p))"
  by (simp add: fun_eq_iff encode_windows_hello_protector_into_def hello_protector_wire_def
      encode_simps)

lemma encode_header_into_eq [encode_simps]:
  "encode_header_into mc h = (\<lambda>w. SecretWriter_write_all w (header_wire mc h))"
  by (simp add: fun_eq_iff encode_header_into_def header_wire_def encode_simps)

lemma encode_manifest_entry_eq [encode_simps]:
  "encode_manifest_entry mc e = (\<lambda>w. SecretWriter_write_all w (manifest_entry_wire mc e))"
  by (simp add: fun_eq_iff encode_manifest_entry_def manifest_entry_wire_def encode_simps)

lemma WindowsHelloProtector_new_Ok:
  "WindowsHelloProtector_new v k i c s n w = Ok p \<longleftrightarrow>
     p = \<lparr>wh_vault_id = v, wh_key_epoch = k, wh_installation_id = i, wh_credential_id = c,
          wh_prf_salt = s, wh_nonce = n, wh_wrapped_vrk = w\<rparr>
     \<and> k \<noteq> 0 \<and> \<not> list_all (\<lambda>byte. byte = 0) i \<and> c \<noteq> [] \<and> length c \<le> 1024"
  by (auto simp: WindowsHelloProtector_new_def)

lemma list_all_zero_iff: "length i = n \<Longrightarrow> list_all (\<lambda>byte. byte = 0) i \<longleftrightarrow> i = zeros n"
  by (induction i arbitrary: n) (auto simp: zeros_def)

lemma WindowsHelloProtector_encode_eq:
  "WindowsHelloProtector_encode mc p =
     (if wh_key_epoch p = 0 \<or> list_all (\<lambda>byte. byte = 0) (wh_installation_id p)
         \<or> wh_credential_id p = []
      then Err Format_InvariantViolation
      else if length (wh_credential_id p) > 1024 then Err Format_TooLarge
      else if length (hello_protector_wire mc p) > 2048 then Err Format_TooLarge
      else Ok (hello_protector_wire mc p))"
  by (simp add: WindowsHelloProtector_encode_def WindowsHelloProtector_new_def encode_simps)

lemma VaultHeader_encode_eq:
  "VaultHeader_encode mc h =
     (if vh_key_epoch h = 0 then Err Format_InvariantViolation
      else if length (header_wire mc h) > 65536 then Err Format_TooLarge
      else Ok (header_wire mc h))"
  by (simp add: VaultHeader_encode_def encode_simps)

lemma windows2_any_map: "windows2_any (\<lambda>x y. P (f x) (f y)) xs = windows2_any P (map f xs)"
  by (induction "\<lambda>x y. P (f x) (f y)" xs rule: windows2_any.induct) simp_all

lemma validate_manifest_Ok:
  "validate_manifest m = Ok () \<longleftrightarrow> mf_key_epoch m \<noteq> 0 \<and> mf_vault_schema m = 1
     \<and> mf_created_at_ms m \<le> mf_committed_at_ms m \<and> length (mf_entries m) \<le> 100000
     \<and> sorted_wrt (<) (map me_record_id (mf_entries m))"
  unfolding validate_manifest_def
    windows2_any_map [of "\<lambda>x y. y \<le> x" me_record_id] windows2_any_ge_iff [symmetric]
  by (auto simp: not_less)

lemma validate_manifest_no_panic [no_panic]: "validate_manifest m \<noteq> Panic"
  by (simp add: validate_manifest_def)

lemma Manifest_encode_eq:
  "Manifest_encode mc m =
     and_then (validate_manifest m) (\<lambda>_.
     if length (manifest_wire mc m) + 16 > 8388608 then Err Format_TooLarge
     else Ok (manifest_wire mc m))"
  by (cases "validate_manifest m")
    (auto simp: Manifest_encode_def encode_simps manifest_wire_def usize_checked_add_def
      write_then_encode_each [where g = "manifest_entry_wire mc"])

lemma ManifestEnvelope_encode_eq:
  "ManifestEnvelope_encode mc e =
     (if length (mv_ciphertext e) < 16 then Err Format_Malformed
      else if length (manifest_envelope_wire mc e) > 8388608 then Err Format_TooLarge
      else Ok (manifest_envelope_wire mc e))"
  by (simp add: ManifestEnvelope_encode_def manifest_envelope_wire_def encode_simps)

lemma decode_manifest_entries_no_panic [no_panic]: "decode_manifest_entries mc n d \<noteq> Panic"
  by (induction n arbitrary: d) (auto simp: result_simps no_panic split: prod.splits)

lemma decode_manifest_entries_valid:
  "decode_manifest_entries mc n d = Ok (entries, d') \<Longrightarrow>
     length entries = n \<and> list_all ManifestEntry_valid entries"
proof (induction n arbitrary: d entries)
  case (Suc n)
  from Suc.prems show ?case
    unfolding decode_manifest_entries.simps
    by (elim ok_chain_elims) (auto simp: ManifestEntry_valid_def dest!: Suc.IH fmt_decode_lengths)
qed simp

lemma decode_header_from_no_panic [no_panic]: "decode_header_from mc d \<noteq> Panic"
  unfolding decode_header_from_def by (intro not_panic_intros no_panic)

section \<open>Codec contracts\<close>

context minicbor_spec
begin

lemma hello_protector_wire_length:
  assumes "WindowsHelloProtector_valid p" shows "length (hello_protector_wire mc p) \<le> 2048"
proof -
  have v: "length (wh_vault_id p) = 16" "length (wh_installation_id p) = 32"
    "length (wh_credential_id p) \<le> 1024" "length (wh_prf_salt p) = 32" "length (wh_nonce p) = 24"
    "length (wh_wrapped_vrk p) = 48"
    using assms by (simp_all add: WindowsHelloProtector_valid_def)
  show ?thesis unfolding hello_protector_wire_def hello_binding_wire_def
    by (insert v, rule order_trans, (rule enc_bounds | simp)+)
qed

lemma WindowsHelloProtector_encode_valid:
  "WindowsHelloProtector_valid p \<Longrightarrow> WindowsHelloProtector_encode mc p = Ok (hello_protector_wire mc p)"
  using hello_protector_wire_length [of p]
  by (simp add: WindowsHelloProtector_encode_eq WindowsHelloProtector_valid_def list_all_zero_iff
      not_less)

lemma WindowsHelloProtector_decode_sound:
  assumes "WindowsHelloProtector_decode mc bs = Ok p"
  shows "WindowsHelloProtector_valid p \<and> ok (WindowsHelloProtector_encode mc p) = Some bs"
  using assms unfolding WindowsHelloProtector_decode_def
  by (elim ok_chain_elims)
    (auto simp: WindowsHelloProtector_new_Ok WindowsHelloProtector_valid_def list_all_zero_iff
      dest!: fmt_decode_lengths)

lemma WindowsHelloProtector_decode_complete:
  assumes "WindowsHelloProtector_valid p" and "ok (WindowsHelloProtector_encode mc p) = Some bs"
  shows "WindowsHelloProtector_decode mc bs = Ok p"
proof -
  have bs: "bs = hello_protector_wire mc p"
    using assms by (simp add: WindowsHelloProtector_encode_valid)
  have v: "length (wh_vault_id p) = 16" "length (wh_installation_id p) = 32"
    "length (wh_credential_id p) \<le> 1024" "length (wh_prf_salt p) = 32" "length (wh_nonce p) = 24"
    "length (wh_wrapped_vrk p) = 48"
    using assms(1) by (simp_all add: WindowsHelloProtector_valid_def)
  have new: "WindowsHelloProtector_new (wh_vault_id p) (wh_key_epoch p) (wh_installation_id p)
      (wh_credential_id p) (wh_prf_salt p) (wh_nonce p) (wh_wrapped_vrk p) = Ok p"
    using assms(1)
    by (simp add: WindowsHelloProtector_new_Ok WindowsHelloProtector_valid_def list_all_zero_iff)
  have len: "length bs \<le> 2048" using assms(1) bs hello_protector_wire_length by simp
  show ?thesis
    using v new len WindowsHelloProtector_encode_valid [OF assms(1)] unfolding bs
    by (simp add: WindowsHelloProtector_decode_def hello_protector_wire_def hello_binding_wire_def)
qed

lemma WindowsHelloProtector_encode_no_panic [no_panic]: "WindowsHelloProtector_encode mc p \<noteq> Panic"
  by (simp add: WindowsHelloProtector_encode_eq)

lemma WindowsHelloProtector_new_no_panic [no_panic]:
  "WindowsHelloProtector_new v k i c s n w \<noteq> Panic"
  by (simp add: WindowsHelloProtector_new_def)

lemma WindowsHelloProtector_decode_no_panic: "WindowsHelloProtector_decode mc bs \<noteq> Panic"
  unfolding WindowsHelloProtector_decode_def by (intro not_panic_intros no_panic)

lemma header_wire_length:
  assumes "VaultHeader_valid h" shows "length (header_wire mc h) \<le> 65536"
proof -
  note v = assms [unfolded VaultHeader_valid_def]
  show ?thesis unfolding header_wire_def
    by (insert v, rule order_trans, (rule enc_bounds | simp)+)
qed

lemma VaultHeader_encode_valid:
  "VaultHeader_valid h \<Longrightarrow> VaultHeader_encode mc h = Ok (header_wire mc h)"
  using header_wire_length [of h] by (simp add: VaultHeader_encode_eq VaultHeader_valid_def)

lemma decode_header_from_wire:
  assumes "VaultHeader_valid h"
  shows "decode_header_from mc (header_wire mc h @ rest) = Ok (h, rest)"
  using assms by (simp add: decode_header_from_def header_wire_def VaultHeader_valid_def)

lemma decode_header_from_valid: "decode_header_from mc d = Ok (h, d') \<Longrightarrow> VaultHeader_valid h"
  unfolding decode_header_from_def
  by (elim ok_chain_elims) (auto simp: VaultHeader_valid_def dest!: fmt_decode_lengths)

lemma VaultHeader_decode_sound:
  assumes "VaultHeader_decode mc bs = Ok h"
  shows "VaultHeader_valid h \<and> ok (VaultHeader_encode mc h) = Some bs"
  using assms unfolding VaultHeader_decode_def
  by (elim ok_chain_elims) (auto dest: decode_header_from_valid)

lemma VaultHeader_decode_complete:
  assumes "VaultHeader_valid h" and "ok (VaultHeader_encode mc h) = Some bs"
  shows "VaultHeader_decode mc bs = Ok h"
  using assms header_wire_length [OF assms(1)] decode_header_from_wire [OF assms(1), of "[]"]
  by (auto simp: VaultHeader_decode_def VaultHeader_encode_valid)

lemma VaultHeader_decode_no_panic: "VaultHeader_decode mc bs \<noteq> Panic"
  unfolding VaultHeader_decode_def VaultHeader_encode_eq by (intro not_panic_intros no_panic)

lemma manifest_entries_wire_length:
  "list_all ManifestEntry_valid es \<Longrightarrow> length (concat (map (manifest_entry_wire mc) es)) = 52 * length es"
  by (induction es) (simp_all add: manifest_entry_wire_def ManifestEntry_valid_def head_len_def)

lemma manifest_wire_small:
  assumes "Manifest_valid m" shows "length (manifest_wire mc m) \<le> 5200060"
proof -
  have small: "length (enc_array mc n) \<le> 9" "length (enc_u32 mc c) \<le> 5" "length (enc_u64 mc d) \<le> 9"
    for n c d by (rule enc_bounds)+
  show ?thesis
    using assms small(1) [of 7] small(1) [of "of_nat (length (mf_entries m))"] small(2) [of 1]
      small(2) [of "mf_key_epoch m"] small(2) [of "mf_vault_schema m"]
      small(3) [of "mf_generation m"] small(3) [of "mf_created_at_ms m"]
      small(3) [of "mf_committed_at_ms m"] manifest_entries_wire_length [of "mf_entries m"]
    by (simp add: manifest_wire_def Manifest_valid_def
        del: length_enc_array length_enc_u32 length_enc_u64 length_concat)
qed

lemma manifest_wire_length: "Manifest_valid m \<Longrightarrow> length (manifest_wire mc m) + 16 \<le> 8388608"
  using manifest_wire_small [of m] by simp

lemma Manifest_valid_validate: "Manifest_valid m \<Longrightarrow> validate_manifest m = Ok ()"
  by (simp add: validate_manifest_Ok Manifest_valid_def)

lemma Manifest_encode_valid: "Manifest_valid m \<Longrightarrow> Manifest_encode mc m = Ok (manifest_wire mc m)"
  using manifest_wire_length [of m]
  by (simp add: Manifest_encode_eq Manifest_valid_validate)

lemma decode_manifest_entries_wire:
  "list_all ManifestEntry_valid es \<Longrightarrow>
     decode_manifest_entries mc (length es) (concat (map (manifest_entry_wire mc) es) @ rest)
       = Ok (es, rest)"
  by (induction es) (simp_all add: manifest_entry_wire_def ManifestEntry_valid_def)

lemma Manifest_decode_sound:
  assumes "Manifest_decode mc bs = Ok m"
  shows "Manifest_valid m \<and> ok (Manifest_encode mc m) = Some bs"
  using assms unfolding Manifest_decode_def Let_def
  by (elim ok_chain_elims)
    (auto simp: validate_manifest_Ok Manifest_valid_def dest!: decode_manifest_entries_valid)

lemma Manifest_decode_complete:
  assumes "Manifest_valid m" and "ok (Manifest_encode mc m) = Some bs"
  shows "Manifest_decode mc bs = Ok m"
proof -
  have bs: "bs = manifest_wire mc m" using assms by (simp add: Manifest_encode_valid)
  have "length (mf_entries m) \<le> 100000" "list_all ManifestEntry_valid (mf_entries m)"
    using assms(1) by (simp_all add: Manifest_valid_def)
  moreover have eta: "\<lparr>mf_generation = mf_generation m, mf_key_epoch = mf_key_epoch m,
      mf_vault_schema = mf_vault_schema m, mf_created_at_ms = mf_created_at_ms m,
      mf_committed_at_ms = mf_committed_at_ms m, mf_entries = mf_entries m\<rparr> = m"
    by simp
  moreover have len: "length bs + 16 \<le> 8388608"
    using manifest_wire_length [OF assms(1)] bs by simp
  moreover have total: "and_then (ok_or Format_TooLarge (usize_checked_add (length bs) TAG_BYTES)) f
      = f (length bs + 16)" for f :: "nat \<Rightarrow> (manifest, format_error) result"
    using len by (simp add: usize_checked_add_def)
  ultimately show ?thesis
    using Manifest_encode_valid [OF assms(1)] Manifest_valid_validate [OF assms(1)]
      decode_manifest_entries_wire [of "mf_entries m" "[]"]
    unfolding Manifest_decode_def total unfolding bs
    by (simp add: unat_of_nat manifest_wire_def not_less Let_def eta)
qed

lemma Manifest_decode_no_panic: "Manifest_decode mc bs \<noteq> Panic"
  unfolding Manifest_decode_def Let_def Manifest_encode_eq by (intro not_panic_intros no_panic)

lemma manifest_envelope_wire_length:
  assumes "length (mv_nonce e) = 24" and "16 \<le> length (mv_ciphertext e)"
    and "length (mv_ciphertext e) < 2 ^ 64"
  shows "length (manifest_envelope_wire mc e) \<le> 8388608 \<longleftrightarrow> length (mv_ciphertext e) \<le> 8388575"
  using assms by (auto simp: manifest_envelope_wire_def) (auto simp: head_len_def split: if_splits)

lemma ManifestEnvelope_encode_valid:
  "ManifestEnvelope_valid e \<Longrightarrow> ManifestEnvelope_encode mc e = Ok (manifest_envelope_wire mc e)"
  using manifest_envelope_wire_length [of e]
  by (simp add: ManifestEnvelope_encode_eq ManifestEnvelope_valid_def not_less)

lemma ManifestEnvelope_decode_sound:
  assumes "ManifestEnvelope_decode mc bs = Ok e"
  shows "ManifestEnvelope_valid e \<and> ok (ManifestEnvelope_encode mc e) = Some bs"
  using assms unfolding ManifestEnvelope_decode_def ManifestEnvelope_new_def Let_def
  by (elim ok_chain_elims)
    (auto simp: ManifestEnvelope_encode_eq ManifestEnvelope_valid_def manifest_envelope_wire_length
      not_less split: if_splits dest!: fmt_decode_lengths)

lemma ManifestEnvelope_decode_complete:
  assumes "ManifestEnvelope_valid e" and "ok (ManifestEnvelope_encode mc e) = Some bs"
  shows "ManifestEnvelope_decode mc bs = Ok e"
proof -
  have bs: "bs = manifest_envelope_wire mc e" using assms by (simp add: ManifestEnvelope_encode_valid)
  have v: "length (mv_nonce e) = 24" "16 \<le> length (mv_ciphertext e)"
    "length (mv_ciphertext e) \<le> 8388575"
    using assms(1) by (simp_all add: ManifestEnvelope_valid_def)
  then have len: "length bs \<le> 8388608" unfolding bs by (simp add: manifest_envelope_wire_length)
  have new: "ManifestEnvelope_new mc (mv_nonce e) (mv_ciphertext e) = Ok e"
    using v len ManifestEnvelope_encode_valid [OF assms(1)] unfolding bs
    by (cases e) (simp add: ManifestEnvelope_new_def not_less Let_def)
  show ?thesis
    using v len new ManifestEnvelope_encode_valid [OF assms(1)] unfolding bs
    by (simp add: ManifestEnvelope_decode_def manifest_envelope_wire_def)
qed

lemma ManifestEnvelope_decode_no_panic: "ManifestEnvelope_decode mc bs \<noteq> Panic"
  unfolding ManifestEnvelope_decode_def ManifestEnvelope_new_def Let_def ManifestEnvelope_encode_eq
  by (intro not_panic_intros no_panic)

end

sublocale minicbor_spec \<subseteq> protector: canonical_codec
  "\<lambda>p. ok (WindowsHelloProtector_encode mc p)" "WindowsHelloProtector_decode mc"
  WindowsHelloProtector_valid
  by unfold_locales
    (use WindowsHelloProtector_decode_sound WindowsHelloProtector_decode_complete in blast,
      simp add: WindowsHelloProtector_encode_valid, rule WindowsHelloProtector_decode_no_panic)

sublocale minicbor_spec \<subseteq> header: canonical_codec
  "\<lambda>h. ok (VaultHeader_encode mc h)" "VaultHeader_decode mc" VaultHeader_valid
  by unfold_locales
    (use VaultHeader_decode_sound VaultHeader_decode_complete in blast,
      simp add: VaultHeader_encode_valid, rule VaultHeader_decode_no_panic)

sublocale minicbor_spec \<subseteq> manifest: canonical_codec
  "\<lambda>m. ok (Manifest_encode mc m)" "Manifest_decode mc" Manifest_valid
  by unfold_locales
    (use Manifest_decode_sound Manifest_decode_complete in blast,
      simp add: Manifest_encode_valid, rule Manifest_decode_no_panic)

sublocale minicbor_spec \<subseteq> manifest_envelope: canonical_codec
  "\<lambda>e. ok (ManifestEnvelope_encode mc e)" "ManifestEnvelope_decode mc" ManifestEnvelope_valid
  by unfold_locales
    (use ManifestEnvelope_decode_sound ManifestEnvelope_decode_complete in blast,
      simp add: ManifestEnvelope_encode_valid, rule ManifestEnvelope_decode_no_panic)

section \<open>Associated data as byte strings\<close>

lemma encode_master_wrapper_aad_eq:
  "encode_master_wrapper_aad mc v k salt = Some (enc_array mc 17 @ enc_str mc VAULT_MAGIC
     @ enc_u32 mc 1 @ enc_u32 mc 1 @ enc_u32 mc 1 @ enc_u32 mc 1 @ enc_u32 mc 1 @ enc_u32 mc 1
     @ enc_bytes mc v @ enc_u32 mc k @ enc_u32 mc 1 @ enc_u32 mc 1 @ enc_u32 mc 1
     @ enc_u32 mc 0x13 @ enc_u32 mc 65536 @ enc_u32 mc 3 @ enc_u32 mc 4 @ enc_bytes mc salt)"
  by (simp add: encode_master_wrapper_aad_def encode_simps)

lemma encode_recovery_wrapper_aad_eq:
  "encode_recovery_wrapper_aad mc v k = Some (enc_array mc 11 @ enc_str mc VAULT_MAGIC
     @ enc_u32 mc 1 @ enc_u32 mc 1 @ enc_u32 mc 1 @ enc_u32 mc 1 @ enc_u32 mc 1 @ enc_u32 mc 1
     @ enc_bytes mc v @ enc_u32 mc k @ enc_u32 mc 2 @ enc_u32 mc 1)"
  by (simp add: encode_recovery_wrapper_aad_def encode_simps)

lemma encode_windows_hello_wrapper_aad_eq:
  "encode_windows_hello_wrapper_aad mc p
     = Some (enc_array mc 14 @ hello_binding_wire mc p @ enc_bytes mc (wh_nonce p))"
  by (simp add: encode_windows_hello_wrapper_aad_def encode_simps)

lemma encode_manifest_aad_eq:
  "encode_manifest_aad mc h nonce
     = Some (enc_array mc 3 @ header_wire mc h @ enc_u32 mc 1 @ enc_bytes mc nonce)"
  by (simp add: encode_manifest_aad_def encode_simps)

context minicbor_spec
begin

lemma master_wrapper_aad_inject:
  assumes "length v = 16" "length v' = 16" "length salt = 16" "length salt' = 16"
  shows "encode_master_wrapper_aad mc v k salt = encode_master_wrapper_aad mc v' k' salt'
    \<longleftrightarrow> v = v' \<and> k = k' \<and> salt = salt'"
  using assms by (simp add: encode_master_wrapper_aad_eq enc_inject)

lemma recovery_wrapper_aad_inject:
  assumes "length v = 16" "length v' = 16"
  shows "encode_recovery_wrapper_aad mc v k = encode_recovery_wrapper_aad mc v' k'
    \<longleftrightarrow> v = v' \<and> k = k'"
  using assms by (simp add: encode_recovery_wrapper_aad_eq enc_inject)

lemma windows_hello_wrapper_aad_inject:
  assumes "WindowsHelloProtector_valid p" "WindowsHelloProtector_valid q"
  shows "encode_windows_hello_wrapper_aad mc p = encode_windows_hello_wrapper_aad mc q
    \<longleftrightarrow> p\<lparr>wh_wrapped_vrk := []\<rparr> = q\<lparr>wh_wrapped_vrk := []\<rparr>"
  using assms
  by (cases p, cases q) (simp add: encode_windows_hello_wrapper_aad_eq hello_binding_wire_def
      WindowsHelloProtector_valid_def enc_inject)

lemma manifest_aad_inject:
  assumes "VaultHeader_valid h" "VaultHeader_valid h'" "length n = 24" "length n' = 24"
  shows "encode_manifest_aad mc h n = encode_manifest_aad mc h' n' \<longleftrightarrow> h = h' \<and> n = n'"
proof
  assume "encode_manifest_aad mc h n = encode_manifest_aad mc h' n'"
  then have eq: "header_wire mc h @ enc_u32 mc 1 @ enc_bytes mc n
      = header_wire mc h' @ enc_u32 mc 1 @ enc_bytes mc n'"
    by (simp add: encode_manifest_aad_eq enc_inject)
  have "Ok (h, enc_u32 mc 1 @ enc_bytes mc n) = (Ok (h', enc_u32 mc 1 @ enc_bytes mc n')
      :: (vault_header \<times> bytes, format_error) result)"
    using decode_header_from_wire [OF assms(1)] decode_header_from_wire [OF assms(2)] eq by metis
  then show "h = h' \<and> n = n'" using assms(3, 4) by (simp add: enc_inject)
qed simp

end

section \<open>Generations of the manifest\<close>

lemma next_generation_Ok:
  "Manifest_next_generation m t entries = Ok m' \<longleftrightarrow>
     mf_committed_at_ms m \<le> t \<and> unat (mf_generation m) + 1 < 2 ^ 64
     \<and> m' = m\<lparr>mf_generation := mf_generation m + 1, mf_committed_at_ms := t, mf_entries := entries\<rparr>
     \<and> validate_manifest m' = Ok ()"
  by (cases m) (auto simp: Manifest_next_generation_def result_simps u64_checked_add_def Let_def
      not_less split: if_splits)

text \<open>A series of commits, each made from the manifest of the one before.\<close>

fun commit_all :: "manifest \<Rightarrow> (u64 \<times> manifest_entry list) list \<Rightarrow> (manifest, format_error) result" where
  "commit_all m [] = Ok m"
| "commit_all m ((t, entries) # commits) =
     and_then (Manifest_next_generation m t entries) (\<lambda>m. commit_all m commits)"

lemma next_generation_unat:
  assumes "Manifest_next_generation m t entries = Ok m'"
  shows "unat (mf_generation m') = unat (mf_generation m) + 1"
  using assms by (auto simp: next_generation_Ok unat_word_ariths)

lemma commit_all_Ok:
  assumes "commit_all m commits = Ok m'"
  shows "unat (mf_generation m') = unat (mf_generation m) + length commits
    \<and> sorted (mf_committed_at_ms m # map fst commits)
    \<and> mf_committed_at_ms m' = last (mf_committed_at_ms m # map fst commits)
    \<and> mf_key_epoch m' = mf_key_epoch m \<and> mf_created_at_ms m' = mf_created_at_ms m"
  using assms
proof (induction m commits rule: commit_all.induct)
  case (2 m t entries commits)
  then obtain n where n: "Manifest_next_generation m t entries = Ok n" "commit_all n commits = Ok m'"
    by (auto simp: result_simps)
  note IH = "2.IH" [OF n(2)]
  have t: "mf_committed_at_ms m \<le> t" "mf_committed_at_ms n = t" "mf_key_epoch n = mf_key_epoch m"
    "mf_created_at_ms n = mf_created_at_ms m"
    using n(1) by (auto simp: next_generation_Ok)
  with IH next_generation_unat [OF n(1)] show ?case by (auto intro: order_trans)
qed simp

section \<open>Properties\<close>

text \<open>The clear vault header and the device-local Windows Hello protector have exactly one accepted
  encoding each: a byte string decodes to a value if and only if it is the encoding of that value,
  the key epoch is not zero and every field has its fixed size (the credential identifier between
  1 and 1024 bytes, the installation binding not all zero); decoding never panics.\<close>

theorem vault_header_exact:
  assumes "minicbor_spec mc"
  shows "(VaultHeader_decode mc bs = Ok h \<longleftrightarrow> VaultHeader_valid h \<and> VaultHeader_encode mc h = Ok bs)
    \<and> (WindowsHelloProtector_decode mc bs = Ok p \<longleftrightarrow>
        WindowsHelloProtector_valid p \<and> WindowsHelloProtector_encode mc p = Ok bs)
    \<and> VaultHeader_decode mc bs \<noteq> Panic \<and> WindowsHelloProtector_decode mc bs \<noteq> Panic"
  using minicbor_spec.VaultHeader_decode_sound [OF assms, unfolded ok_Some]
    minicbor_spec.VaultHeader_decode_complete [OF assms, unfolded ok_Some]
    minicbor_spec.WindowsHelloProtector_decode_sound [OF assms, unfolded ok_Some]
    minicbor_spec.WindowsHelloProtector_decode_complete [OF assms, unfolded ok_Some]
    minicbor_spec.VaultHeader_decode_no_panic [OF assms]
    minicbor_spec.WindowsHelloProtector_decode_no_panic [OF assms]
  by blast

definition sample_header :: vault_header where
  "sample_header = \<lparr>vh_vault_id = replicate 16 1, vh_key_epoch = 1,
     vh_master_wrapper = \<lparr>mw_password_salt = replicate 16 2, mw_nonce = replicate 24 3,
       mw_wrapped_vrk = replicate 48 4\<rparr>,
     vh_recovery_wrapper = \<lparr>rw_nonce = replicate 24 5, rw_wrapped_vrk = replicate 48 6\<rparr>\<rparr>"

lemma sample_header_valid: "VaultHeader_valid sample_header"
  by (simp add: VaultHeader_valid_def sample_header_def)

theorem vault_header_exact_witness:
  "VaultHeader_decode rfc8949 (header_wire rfc8949 sample_header) = Ok sample_header"
  using vault_header_exact [OF rfc.minicbor_spec_axioms, of "header_wire rfc8949 sample_header"
      sample_header undefined]
    rfc.VaultHeader_encode_valid [OF sample_header_valid] sample_header_valid by simp

text \<open>The manifest has exactly one accepted encoding: the key epoch is not zero, the schema is the
  supported one, it was not committed before it was created, and its at most 100000 entries are
  strictly increasing in their record identifiers, so no record is listed twice. Every such
  manifest, also the largest, can be encoded within the envelope limit.\<close>

theorem manifest_exact:
  assumes "minicbor_spec mc"
  shows "(Manifest_decode mc bs = Ok m \<longleftrightarrow>
        mf_key_epoch m \<noteq> 0 \<and> mf_vault_schema m = VAULT_SCHEMA
        \<and> mf_created_at_ms m \<le> mf_committed_at_ms m \<and> length (mf_entries m) \<le> MAX_RECORDS
        \<and> sorted_wrt (<) (map me_record_id (mf_entries m))
        \<and> list_all ManifestEntry_valid (mf_entries m) \<and> Manifest_encode mc m = Ok bs)
    \<and> (Manifest_valid m \<longrightarrow>
        (\<exists>enc. Manifest_encode mc m = Ok enc \<and> length enc + TAG_BYTES \<le> MAX_MANIFEST_ENVELOPE_BYTES))
    \<and> Manifest_decode mc bs \<noteq> Panic"
proof -
  have "Manifest_decode mc bs = Ok m \<longleftrightarrow> Manifest_valid m \<and> Manifest_encode mc m = Ok bs"
    using minicbor_spec.Manifest_decode_sound [OF assms, unfolded ok_Some]
      minicbor_spec.Manifest_decode_complete [OF assms, unfolded ok_Some] by blast
  then show ?thesis
    using minicbor_spec.Manifest_encode_valid [OF assms, of m]
      minicbor_spec.manifest_wire_length [OF assms, of m]
      minicbor_spec.Manifest_decode_no_panic [OF assms, of bs]
    by (auto simp: Manifest_valid_def)
qed

definition sample_manifest :: manifest where
  "sample_manifest = \<lparr>mf_generation = 4, mf_key_epoch = 1, mf_vault_schema = 1,
     mf_created_at_ms = 10, mf_committed_at_ms = 20,
     mf_entries = [\<lparr>me_record_id = replicate 16 1, me_envelope_digest = replicate 32 7\<rparr>,
       \<lparr>me_record_id = replicate 16 2, me_envelope_digest = replicate 32 8\<rparr>]\<rparr>"

lemma sample_manifest_valid: "Manifest_valid sample_manifest"
proof -
  have "replicate 16 (1 :: u8) < replicate 16 2"
    by (simp add: numeral_eq_Suc)
  then show ?thesis
    by (simp add: Manifest_valid_def sample_manifest_def ManifestEntry_valid_def)
qed

theorem manifest_exact_witness:
  "Manifest_decode rfc8949 (manifest_wire rfc8949 sample_manifest) = Ok sample_manifest"
  using manifest_exact [OF rfc.minicbor_spec_axioms, of "manifest_wire rfc8949 sample_manifest"
      sample_manifest]
    rfc.Manifest_encode_valid [OF sample_manifest_valid]
    sample_manifest_valid [unfolded Manifest_valid_def] by simp

text \<open>C37: the history of a vault is linear and bounded: a series of commits that all succeed raises the
  generation by exactly the number of commits, without wrap-around, the commit times never
  decrease, and key epoch and creation time never change; a commit onto the last generation or
  back in time is refused.\<close>

theorem manifest_history:
  "(commit_all m commits = Ok m' \<longrightarrow>
      unat (mf_generation m') = unat (mf_generation m) + length commits
      \<and> sorted (mf_committed_at_ms m # map fst commits)
      \<and> mf_key_epoch m' = mf_key_epoch m \<and> mf_created_at_ms m' = mf_created_at_ms m)
   \<and> (mf_generation m = - 1 \<or> t < mf_committed_at_ms m \<longrightarrow>
      Manifest_next_generation m t entries = Err Format_InvariantViolation)"
proof -
  have "Manifest_next_generation m t entries = Err Format_InvariantViolation"
    if "mf_generation m = - 1 \<or> t < mf_committed_at_ms m"
    using that by (auto simp: Manifest_next_generation_def u64_checked_add_def unsigned_minus_1_eq_mask
        mask_eq_exp_minus_1)
  then show ?thesis using commit_all_Ok [of m commits m'] by blast
qed

theorem manifest_history_witness:
  "\<exists>m'. commit_all (Manifest_empty 10 1) [(10, []), (12, [])] = Ok m' \<and> unat (mf_generation m') = 2"
proof -
  have "\<exists>m'. commit_all (Manifest_empty 10 1) [(10, []), (12, [])] = Ok m'"
    by (simp add: Manifest_empty_def Manifest_next_generation_def u64_checked_add_def
        validate_manifest_def)
  then show ?thesis
    using manifest_history [of "Manifest_empty 10 1" "[(10, []), (12, [])]"]
    by (auto simp: Manifest_empty_def)
qed

end
