(* ===== verification/Format_Records.thy ===== *)
theory Format_Records
  imports Format_Vault
begin

text \<open>
  Encrypted record envelopes and the two plaintext families, website accounts and passkeys
  (crates/vault-format/src/records.rs). Plaintexts are written into a \<open>SecretWriter\<close> whose capacity
  is computed from the field lengths plus a fixed overhead; the lemmas show that this capacity is
  always sufficient, that every structure is a canonical codec, and that the discriminator read by
  \<open>record_type\<close> decides which decoder can accept a plaintext.
\<close>

section \<open>Versions and limits\<close>

definition RECORD_ENVELOPE_VERSION :: u32 where [simp]: "RECORD_ENVELOPE_VERSION = 1"
definition RECORD_SCHEMA :: u32 where [simp]: "RECORD_SCHEMA = 1"
definition WEBSITE_ACCOUNT_RECORD_TYPE :: u32 where [simp]: "WEBSITE_ACCOUNT_RECORD_TYPE = 1"
definition PASSKEY_RECORD_TYPE :: u32 where [simp]: "PASSKEY_RECORD_TYPE = 2"
definition FORMAT_MAX_SERVICE_NAME_BYTES :: nat where [simp]: "FORMAT_MAX_SERVICE_NAME_BYTES = 256"
definition FORMAT_MAX_ORIGIN_BYTES :: nat where [simp]: "FORMAT_MAX_ORIGIN_BYTES = 2048"
definition FORMAT_MAX_USERNAME_BYTES :: nat where [simp]: "FORMAT_MAX_USERNAME_BYTES = 1024"
definition FORMAT_MAX_PASSWORD_BYTES :: nat where [simp]: "FORMAT_MAX_PASSWORD_BYTES = 16 * 1024"
definition FORMAT_MAX_PASSKEY_RP_ID_BYTES :: nat where
  [simp]: "FORMAT_MAX_PASSKEY_RP_ID_BYTES = 253"
definition FORMAT_MAX_PASSKEY_USER_HANDLE_BYTES :: nat where
  [simp]: "FORMAT_MAX_PASSKEY_USER_HANDLE_BYTES = 64"
definition FORMAT_MAX_PASSKEY_USER_NAME_BYTES :: nat where
  [simp]: "FORMAT_MAX_PASSKEY_USER_NAME_BYTES = 256"
definition FORMAT_MAX_PASSKEY_USER_DISPLAY_NAME_BYTES :: nat where
  [simp]: "FORMAT_MAX_PASSKEY_USER_DISPLAY_NAME_BYTES = 256"
definition WEBSITE_ACCOUNT_ENCODING_OVERHEAD_BYTES :: nat where
  [simp]: "WEBSITE_ACCOUNT_ENCODING_OVERHEAD_BYTES = 128"
definition PASSKEY_ENCODING_OVERHEAD_BYTES :: nat where
  [simp]: "PASSKEY_ENCODING_OVERHEAD_BYTES = 192"

definition RECORD_MAGIC :: bytes where "RECORD_MAGIC = ascii ''LBR-REC''"

datatype record_type_code = WebsiteAccount | Passkey

datatype passkey_creation_state = Pending | Confirmed

fun PasskeyCreationState_code :: "passkey_creation_state \<Rightarrow> u32" where
  "PasskeyCreationState_code Pending = 1"
| "PasskeyCreationState_code Confirmed = 2"

definition PasskeyCreationState_from_code ::
    "u32 \<Rightarrow> (passkey_creation_state, format_error) result" where
  "PasskeyCreationState_from_code v =
     (if v = 1 then Ok Pending else if v = 2 then Ok Confirmed else Err Format_Unsupported)"

section \<open>Record envelope\<close>

record record_envelope =
  re_key_epoch :: u32
  re_nonce :: bytes
  re_ciphertext :: bytes

definition RecordEnvelope_encode :: "minicbor \<Rightarrow> record_envelope \<Rightarrow> (bytes, format_error) result" where
  "RecordEnvelope_encode mc e =
     (if re_key_epoch e = 0 \<or> length (re_ciphertext e) < TAG_BYTES
      then Err Format_InvariantViolation
      else
        and_then (expect_some (into_bytes (do {
            w \<leftarrow> fmt_encode_array mc 4 vec_new;
            w \<leftarrow> fmt_encode_u32 mc RECORD_ENVELOPE_VERSION w;
            w \<leftarrow> fmt_encode_u32 mc (re_key_epoch e) w;
            w \<leftarrow> fmt_encode_bytes mc (re_nonce e) w;
            fmt_encode_bytes mc (re_ciphertext e) w }))) (\<lambda>bs.
        if length bs > MAX_RECORD_ENVELOPE_BYTES then Err Format_TooLarge else Ok bs))"

definition RecordEnvelope_new ::
    "minicbor \<Rightarrow> u32 \<Rightarrow> bytes \<Rightarrow> bytes \<Rightarrow> (record_envelope, format_error) result" where
  "RecordEnvelope_new mc key_epoch nonce ciphertext =
     (if key_epoch = 0 then Err Format_InvariantViolation
      else if length ciphertext < TAG_BYTES then Err Format_Malformed
      else
        let envelope = \<lparr>re_key_epoch = key_epoch, re_nonce = nonce, re_ciphertext = ciphertext\<rparr> in
        and_then (RecordEnvelope_encode mc envelope) (\<lambda>_. Ok envelope))"

definition RecordEnvelope_decode :: "minicbor \<Rightarrow> bytes \<Rightarrow> (record_envelope, format_error) result" where
  "RecordEnvelope_decode mc bs =
     (if length bs > MAX_RECORD_ENVELOPE_BYTES then Err Format_TooLarge else
      and_then (fmt_expect_array mc 4 bs) (\<lambda>d.
      and_then (fmt_expect_u32 mc RECORD_ENVELOPE_VERSION d) (\<lambda>d.
      and_then (fmt_decode_u32 mc d) (\<lambda>(key_epoch, d).
      and_then (fmt_decode_fixed_bytes mc 24 d) (\<lambda>(nonce, d).
      and_then (fmt_decode_bounded_bytes mc MAX_RECORD_ENVELOPE_BYTES d) (\<lambda>(ciphertext, d).
      and_then (fmt_require_end d bs) (\<lambda>_.
      and_then (RecordEnvelope_new mc key_epoch nonce ciphertext) (\<lambda>envelope.
      and_then (RecordEnvelope_encode mc envelope) (\<lambda>enc.
      if enc \<noteq> bs then Err Format_NonCanonical else Ok envelope)))))))))"

section \<open>Website account plaintext\<close>

record website_account =
  wa_revision :: u64
  wa_created_at_ms :: u64
  wa_modified_at_ms :: u64
  wa_service_name :: bytes
  wa_permitted_origin :: bytes
  wa_username :: bytes
  wa_password :: bytes

definition validate_plaintext :: "website_account \<Rightarrow> (unit, format_error) result" where
  "validate_plaintext v =
     (if wa_revision v = 0 \<or> wa_modified_at_ms v < wa_created_at_ms v \<or> wa_service_name v = []
         \<or> wa_permitted_origin v = []
      then Err Format_InvariantViolation
      else if length (wa_service_name v) > FORMAT_MAX_SERVICE_NAME_BYTES
         \<or> length (wa_permitted_origin v) > FORMAT_MAX_ORIGIN_BYTES
         \<or> length (wa_username v) > FORMAT_MAX_USERNAME_BYTES
         \<or> length (wa_password v) > FORMAT_MAX_PASSWORD_BYTES
      then Err Format_TooLarge
      else if any_control (wa_service_name v) \<or> any_control (wa_permitted_origin v)
      then Err Format_InvariantViolation
      else Ok ())"

definition WebsiteAccountPlaintext_new ::
    "u64 \<Rightarrow> u64 \<Rightarrow> u64 \<Rightarrow> bytes \<Rightarrow> bytes \<Rightarrow> bytes \<Rightarrow> bytes \<Rightarrow> (website_account, format_error) result" where
  "WebsiteAccountPlaintext_new revision created_at_ms modified_at_ms service_name permitted_origin
       username password =
     (let value = \<lparr>wa_revision = revision, wa_created_at_ms = created_at_ms,
            wa_modified_at_ms = modified_at_ms, wa_service_name = service_name,
            wa_permitted_origin = permitted_origin, wa_username = username,
            wa_password = password\<rparr>
      in and_then (validate_plaintext value) (\<lambda>_. Ok value))"

definition WebsiteAccountPlaintext_encode ::
    "minicbor \<Rightarrow> website_account \<Rightarrow> (bytes, format_error) result" where
  "WebsiteAccountPlaintext_encode mc v =
     and_then (validate_plaintext v) (\<lambda>_.
     and_then (ok_or Format_TooLarge (do {
         l \<leftarrow> usize_checked_add (length (wa_service_name v)) (length (wa_permitted_origin v));
         l \<leftarrow> usize_checked_add l (length (wa_username v));
         l \<leftarrow> usize_checked_add l (length (wa_password v));
         usize_checked_add l WEBSITE_ACCOUNT_ENCODING_OVERHEAD_BYTES })) (\<lambda>capacity.
     and_then (expect_some (into_bytes (do {
         w \<leftarrow> fmt_encode_array mc 6 (SecretWriter_with_capacity capacity);
         w \<leftarrow> fmt_encode_u32 mc RECORD_SCHEMA w;
         w \<leftarrow> fmt_encode_u32 mc WEBSITE_ACCOUNT_RECORD_TYPE w;
         w \<leftarrow> fmt_encode_u64 mc (wa_revision v) w;
         w \<leftarrow> fmt_encode_u64 mc (wa_created_at_ms v) w;
         w \<leftarrow> fmt_encode_u64 mc (wa_modified_at_ms v) w;
         w \<leftarrow> fmt_encode_array mc 4 w;
         w \<leftarrow> fmt_encode_str mc (wa_service_name v) w;
         w \<leftarrow> fmt_encode_str mc (wa_permitted_origin v) w;
         w \<leftarrow> fmt_encode_str mc (wa_username v) w;
         fmt_encode_str mc (wa_password v) w }))) (\<lambda>bs.
     and_then (ok_or Format_TooLarge (usize_checked_add (length bs) TAG_BYTES)) (\<lambda>total.
     if total > MAX_RECORD_ENVELOPE_BYTES then Err Format_TooLarge else Ok bs))))"

definition WebsiteAccountPlaintext_decode ::
    "minicbor \<Rightarrow> bytes \<Rightarrow> (website_account, format_error) result" where
  "WebsiteAccountPlaintext_decode mc bs =
     and_then (ok_or Format_TooLarge (usize_checked_add (length bs) TAG_BYTES)) (\<lambda>total.
     if total > MAX_RECORD_ENVELOPE_BYTES then Err Format_TooLarge else
     and_then (fmt_expect_array mc 6 bs) (\<lambda>d.
     and_then (fmt_expect_u32 mc RECORD_SCHEMA d) (\<lambda>d.
     and_then (fmt_expect_u32 mc WEBSITE_ACCOUNT_RECORD_TYPE d) (\<lambda>d.
     and_then (fmt_decode_u64 mc d) (\<lambda>(revision, d).
     and_then (fmt_decode_u64 mc d) (\<lambda>(created_at_ms, d).
     and_then (fmt_decode_u64 mc d) (\<lambda>(modified_at_ms, d).
     and_then (fmt_expect_array mc 4 d) (\<lambda>d.
     and_then (fmt_decode_bounded_text mc FORMAT_MAX_SERVICE_NAME_BYTES d) (\<lambda>(service_name, d).
     and_then (fmt_decode_bounded_text mc FORMAT_MAX_ORIGIN_BYTES d) (\<lambda>(permitted_origin, d).
     and_then (fmt_decode_bounded_text mc FORMAT_MAX_USERNAME_BYTES d) (\<lambda>(username, d).
     and_then (fmt_decode_bounded_text mc FORMAT_MAX_PASSWORD_BYTES d) (\<lambda>(password, d).
     and_then (fmt_require_end d bs) (\<lambda>_.
     and_then (WebsiteAccountPlaintext_new revision created_at_ms modified_at_ms service_name
                 permitted_origin username password) (\<lambda>value.
     and_then (WebsiteAccountPlaintext_encode mc value) (\<lambda>enc.
     if enc \<noteq> bs then Err Format_NonCanonical else Ok value)))))))))))))))"

section \<open>Passkey plaintext\<close>

record passkey_plaintext =
  pk_revision :: u64
  pk_created_at_ms :: u64
  pk_modified_at_ms :: u64
  pk_signature_counter :: u32
  pk_creation_state :: passkey_creation_state
  pk_rp_id :: bytes
  pk_user_handle :: bytes
  pk_user_name :: bytes
  pk_user_display_name :: bytes
  pk_credential_id :: bytes
  pk_private_key :: bytes

definition validate_passkey_plaintext :: "passkey_plaintext \<Rightarrow> (unit, format_error) result" where
  "validate_passkey_plaintext v =
     (if pk_revision v = 0 \<or> pk_modified_at_ms v < pk_created_at_ms v \<or> pk_rp_id v = []
         \<or> pk_user_handle v = [] \<or> pk_user_name v = [] \<or> pk_user_display_name v = []
         \<or> list_all (\<lambda>byte. byte = 0) (pk_credential_id v)
         \<or> list_all (\<lambda>byte. byte = 0) (pk_private_key v)
      then Err Format_InvariantViolation
      else if length (pk_rp_id v) > FORMAT_MAX_PASSKEY_RP_ID_BYTES
         \<or> length (pk_user_handle v) > FORMAT_MAX_PASSKEY_USER_HANDLE_BYTES
         \<or> length (pk_user_name v) > FORMAT_MAX_PASSKEY_USER_NAME_BYTES
         \<or> length (pk_user_display_name v) > FORMAT_MAX_PASSKEY_USER_DISPLAY_NAME_BYTES
      then Err Format_TooLarge
      else if any_control (pk_rp_id v) \<or> any_control (pk_user_name v)
         \<or> any_control (pk_user_display_name v)
      then Err Format_InvariantViolation
      else Ok ())"

definition PasskeyPlaintext_encode ::
    "minicbor \<Rightarrow> passkey_plaintext \<Rightarrow> (bytes, format_error) result" where
  "PasskeyPlaintext_encode mc v =
     and_then (validate_passkey_plaintext v) (\<lambda>_.
     and_then (ok_or Format_TooLarge (do {
         l \<leftarrow> usize_checked_add (length (pk_rp_id v)) (length (pk_user_handle v));
         l \<leftarrow> usize_checked_add l (length (pk_user_name v));
         l \<leftarrow> usize_checked_add l (length (pk_user_display_name v));
         usize_checked_add l PASSKEY_ENCODING_OVERHEAD_BYTES })) (\<lambda>capacity.
     and_then (expect_some (into_bytes (do {
         w \<leftarrow> fmt_encode_array mc 6 (SecretWriter_with_capacity capacity);
         w \<leftarrow> fmt_encode_u32 mc RECORD_SCHEMA w;
         w \<leftarrow> fmt_encode_u32 mc PASSKEY_RECORD_TYPE w;
         w \<leftarrow> fmt_encode_u64 mc (pk_revision v) w;
         w \<leftarrow> fmt_encode_u64 mc (pk_created_at_ms v) w;
         w \<leftarrow> fmt_encode_u64 mc (pk_modified_at_ms v) w;
         w \<leftarrow> fmt_encode_array mc 8 w;
         w \<leftarrow> fmt_encode_u32 mc (pk_signature_counter v) w;
         w \<leftarrow> fmt_encode_u32 mc (PasskeyCreationState_code (pk_creation_state v)) w;
         w \<leftarrow> fmt_encode_str mc (pk_rp_id v) w;
         w \<leftarrow> fmt_encode_bytes mc (pk_user_handle v) w;
         w \<leftarrow> fmt_encode_str mc (pk_user_name v) w;
         w \<leftarrow> fmt_encode_str mc (pk_user_display_name v) w;
         w \<leftarrow> fmt_encode_bytes mc (pk_credential_id v) w;
         fmt_encode_bytes mc (pk_private_key v) w }))) (\<lambda>bs.
     and_then (ok_or Format_TooLarge (usize_checked_add (length bs) TAG_BYTES)) (\<lambda>total.
     if total > MAX_RECORD_ENVELOPE_BYTES then Err Format_TooLarge else Ok bs))))"

definition PasskeyPlaintext_new ::
    "u64 \<Rightarrow> u64 \<Rightarrow> u64 \<Rightarrow> u32 \<Rightarrow> passkey_creation_state \<Rightarrow> bytes \<Rightarrow> bytes \<Rightarrow> bytes \<Rightarrow> bytes \<Rightarrow> bytes
       \<Rightarrow> bytes \<Rightarrow> (passkey_plaintext, format_error) result" where
  "PasskeyPlaintext_new revision created_at_ms modified_at_ms signature_counter creation_state
       rp_id user_handle user_name user_display_name credential_id private_key =
     (let value = \<lparr>pk_revision = revision, pk_created_at_ms = created_at_ms,
            pk_modified_at_ms = modified_at_ms, pk_signature_counter = signature_counter,
            pk_creation_state = creation_state, pk_rp_id = rp_id, pk_user_handle = user_handle,
            pk_user_name = user_name, pk_user_display_name = user_display_name,
            pk_credential_id = credential_id, pk_private_key = private_key\<rparr>
      in and_then (validate_passkey_plaintext value) (\<lambda>_. Ok value))"

definition PasskeyPlaintext_decode ::
    "minicbor \<Rightarrow> bytes \<Rightarrow> (passkey_plaintext, format_error) result" where
  "PasskeyPlaintext_decode mc bs =
     and_then (ok_or Format_TooLarge (usize_checked_add (length bs) TAG_BYTES)) (\<lambda>total.
     if total > MAX_RECORD_ENVELOPE_BYTES then Err Format_TooLarge else
     and_then (fmt_expect_array mc 6 bs) (\<lambda>d.
     and_then (fmt_expect_u32 mc RECORD_SCHEMA d) (\<lambda>d.
     and_then (fmt_expect_u32 mc PASSKEY_RECORD_TYPE d) (\<lambda>d.
     and_then (fmt_decode_u64 mc d) (\<lambda>(revision, d).
     and_then (fmt_decode_u64 mc d) (\<lambda>(created_at_ms, d).
     and_then (fmt_decode_u64 mc d) (\<lambda>(modified_at_ms, d).
     and_then (fmt_expect_array mc 8 d) (\<lambda>d.
     and_then (fmt_decode_u32 mc d) (\<lambda>(signature_counter, d).
     and_then (fmt_decode_u32 mc d) (\<lambda>(state_code, d).
     and_then (PasskeyCreationState_from_code state_code) (\<lambda>creation_state.
     and_then (fmt_decode_bounded_text mc FORMAT_MAX_PASSKEY_RP_ID_BYTES d) (\<lambda>(rp_id, d).
     and_then (fmt_decode_bounded_bytes mc FORMAT_MAX_PASSKEY_USER_HANDLE_BYTES d)
       (\<lambda>(user_handle, d).
     and_then (fmt_decode_bounded_text mc FORMAT_MAX_PASSKEY_USER_NAME_BYTES d) (\<lambda>(user_name, d).
     and_then (fmt_decode_bounded_text mc FORMAT_MAX_PASSKEY_USER_DISPLAY_NAME_BYTES d)
       (\<lambda>(user_display_name, d).
     and_then (fmt_decode_fixed_bytes mc 32 d) (\<lambda>(credential_id, d).
     and_then (fmt_decode_zeroizing_fixed_bytes mc 32 d) (\<lambda>(private_key, d).
     and_then (fmt_require_end d bs) (\<lambda>_.
     and_then (PasskeyPlaintext_new revision created_at_ms modified_at_ms signature_counter
                 creation_state rp_id user_handle user_name user_display_name credential_id
                 private_key) (\<lambda>value.
     and_then (PasskeyPlaintext_encode mc value) (\<lambda>enc.
     if enc \<noteq> bs then Err Format_NonCanonical else Ok value))))))))))))))))))))"

section \<open>Discriminator and associated data\<close>

definition record_type :: "minicbor \<Rightarrow> bytes \<Rightarrow> (record_type_code, format_error) result" where
  "record_type mc bs =
     and_then (ok_or Format_TooLarge (usize_checked_add (length bs) TAG_BYTES)) (\<lambda>total.
     if total > MAX_RECORD_ENVELOPE_BYTES then Err Format_TooLarge else
     and_then (fmt_expect_array mc 6 bs) (\<lambda>d.
     and_then (fmt_expect_u32 mc RECORD_SCHEMA d) (\<lambda>d.
     and_then (fmt_decode_u32 mc d) (\<lambda>(code, d).
     if code = WEBSITE_ACCOUNT_RECORD_TYPE then Ok WebsiteAccount
     else if code = PASSKEY_RECORD_TYPE then Ok Passkey
     else Err Format_Unsupported))))"

definition encode_record_aad :: "minicbor \<Rightarrow> bytes \<Rightarrow> bytes \<Rightarrow> u32 \<Rightarrow> bytes option" where
  "encode_record_aad mc vault_id record_id key_epoch = into_bytes (do {
     w \<leftarrow> fmt_encode_array mc 6 vec_new;
     w \<leftarrow> fmt_encode_str mc RECORD_MAGIC w;
     w \<leftarrow> fmt_encode_u32 mc CONTAINER_VERSION w;
     w \<leftarrow> fmt_encode_u32 mc RECORD_ENVELOPE_VERSION w;
     w \<leftarrow> fmt_encode_bytes mc vault_id w;
     w \<leftarrow> fmt_encode_bytes mc record_id w;
     fmt_encode_u32 mc key_epoch w })"

section \<open>Validity and wire forms\<close>

definition record_envelope_wire :: "minicbor \<Rightarrow> record_envelope \<Rightarrow> bytes" where
  "record_envelope_wire mc e = enc_array mc 4 @ enc_u32 mc 1 @ enc_u32 mc (re_key_epoch e)
     @ enc_bytes mc (re_nonce e) @ enc_bytes mc (re_ciphertext e)"

text \<open>28 bytes of fixed items, two length heads and the ciphertext have to fit into 1 MiB.\<close>

definition RecordEnvelope_valid :: "record_envelope \<Rightarrow> bool" where
  "RecordEnvelope_valid e \<longleftrightarrow> re_key_epoch e \<noteq> 0 \<and> length (re_nonce e) = 24
     \<and> 16 \<le> length (re_ciphertext e)
     \<and> 28 + head_len (unat (re_key_epoch e)) + head_len (length (re_ciphertext e))
         + length (re_ciphertext e) \<le> 1048576"

definition WebsiteAccount_valid :: "website_account \<Rightarrow> bool" where
  "WebsiteAccount_valid v \<longleftrightarrow> validate_plaintext v = Ok ()
     \<and> utf8_valid (wa_service_name v) \<and> utf8_valid (wa_permitted_origin v)
     \<and> utf8_valid (wa_username v) \<and> utf8_valid (wa_password v)"

definition website_account_wire :: "minicbor \<Rightarrow> website_account \<Rightarrow> bytes" where
  "website_account_wire mc v = enc_array mc 6 @ enc_u32 mc 1 @ enc_u32 mc 1
     @ enc_u64 mc (wa_revision v) @ enc_u64 mc (wa_created_at_ms v)
     @ enc_u64 mc (wa_modified_at_ms v) @ enc_array mc 4 @ enc_str mc (wa_service_name v)
     @ enc_str mc (wa_permitted_origin v) @ enc_str mc (wa_username v) @ enc_str mc (wa_password v)"

definition PasskeyPlaintext_valid :: "passkey_plaintext \<Rightarrow> bool" where
  "PasskeyPlaintext_valid v \<longleftrightarrow> validate_passkey_plaintext v = Ok ()
     \<and> utf8_valid (pk_rp_id v) \<and> utf8_valid (pk_user_name v) \<and> utf8_valid (pk_user_display_name v)
     \<and> length (pk_credential_id v) = 32 \<and> length (pk_private_key v) = 32"

definition passkey_plaintext_wire :: "minicbor \<Rightarrow> passkey_plaintext \<Rightarrow> bytes" where
  "passkey_plaintext_wire mc v = enc_array mc 6 @ enc_u32 mc 1 @ enc_u32 mc 2
     @ enc_u64 mc (pk_revision v) @ enc_u64 mc (pk_created_at_ms v)
     @ enc_u64 mc (pk_modified_at_ms v) @ enc_array mc 8 @ enc_u32 mc (pk_signature_counter v)
     @ enc_u32 mc (PasskeyCreationState_code (pk_creation_state v)) @ enc_str mc (pk_rp_id v)
     @ enc_bytes mc (pk_user_handle v) @ enc_str mc (pk_user_name v)
     @ enc_str mc (pk_user_display_name v) @ enc_bytes mc (pk_credential_id v)
     @ enc_bytes mc (pk_private_key v)"

lemma tagged_total:
  "length bs + 16 < 2 ^ 64 \<Longrightarrow>
     and_then (ok_or E (usize_checked_add (length bs) TAG_BYTES)) f = f (length bs + 16)"
  by (simp add: usize_checked_add_def)

lemma fmt_expect_u32_Ok: "fmt_expect_u32 mc v d = Ok d' \<longleftrightarrow> fmt_decode_u32 mc d = Ok (v, d')"
  by (auto simp: fmt_expect_u32_def result_simps)

lemma validate_plaintext_Ok:
  "validate_plaintext v = Ok () \<longleftrightarrow>
     wa_revision v \<noteq> 0 \<and> wa_created_at_ms v \<le> wa_modified_at_ms v
     \<and> wa_service_name v \<noteq> [] \<and> length (wa_service_name v) \<le> 256
     \<and> wa_permitted_origin v \<noteq> [] \<and> length (wa_permitted_origin v) \<le> 2048
     \<and> length (wa_username v) \<le> 1024 \<and> length (wa_password v) \<le> 16384
     \<and> \<not> any_control (wa_service_name v) \<and> \<not> any_control (wa_permitted_origin v)"
  by (auto simp: validate_plaintext_def not_less)

lemma validate_passkey_plaintext_Ok:
  "validate_passkey_plaintext v = Ok () \<longleftrightarrow>
     pk_revision v \<noteq> 0 \<and> pk_created_at_ms v \<le> pk_modified_at_ms v
     \<and> pk_rp_id v \<noteq> [] \<and> length (pk_rp_id v) \<le> 253
     \<and> pk_user_handle v \<noteq> [] \<and> length (pk_user_handle v) \<le> 64
     \<and> pk_user_name v \<noteq> [] \<and> length (pk_user_name v) \<le> 256
     \<and> pk_user_display_name v \<noteq> [] \<and> length (pk_user_display_name v) \<le> 256
     \<and> \<not> list_all (\<lambda>byte. byte = 0) (pk_credential_id v)
     \<and> \<not> list_all (\<lambda>byte. byte = 0) (pk_private_key v)
     \<and> \<not> any_control (pk_rp_id v) \<and> \<not> any_control (pk_user_name v)
     \<and> \<not> any_control (pk_user_display_name v)"
  by (auto simp: validate_passkey_plaintext_def not_less)

lemma validate_plaintexts_no_panic [no_panic]:
  "validate_plaintext v \<noteq> Panic" "validate_passkey_plaintext k \<noteq> Panic"
  by (simp_all add: validate_plaintext_def validate_passkey_plaintext_def)

lemma PasskeyCreationState_from_code_eq [simp]:
  "PasskeyCreationState_from_code (PasskeyCreationState_code s) = Ok s"
  by (cases s) (simp_all add: PasskeyCreationState_from_code_def)

lemma PasskeyCreationState_from_code_no_panic [no_panic]: "PasskeyCreationState_from_code c \<noteq> Panic"
  by (simp add: PasskeyCreationState_from_code_def)

lemma RecordEnvelope_encode_eq:
  "RecordEnvelope_encode mc e =
     (if re_key_epoch e = 0 \<or> length (re_ciphertext e) < 16 then Err Format_InvariantViolation
      else if length (record_envelope_wire mc e) > 1048576 then Err Format_TooLarge
      else Ok (record_envelope_wire mc e))"
  by (simp add: RecordEnvelope_encode_def record_envelope_wire_def encode_simps)

lemma encode_record_aad_eq:
  "encode_record_aad mc v r k = Some (enc_array mc 6 @ enc_str mc RECORD_MAGIC @ enc_u32 mc 1
     @ enc_u32 mc 1 @ enc_bytes mc v @ enc_bytes mc r @ enc_u32 mc k)"
  by (simp add: encode_record_aad_def encode_simps)

section \<open>Codec contracts\<close>

context minicbor_spec
begin

lemma record_envelope_wire_length:
  assumes "length (re_nonce e) = 24" and "length (re_ciphertext e) < 2 ^ 64"
  shows "length (record_envelope_wire mc e) = 28 + head_len (unat (re_key_epoch e))
    + head_len (length (re_ciphertext e)) + length (re_ciphertext e)"
  using assms by (simp add: record_envelope_wire_def head_len_def [of "Suc 0"] head_len_def [of 4]
      head_len_def [of 24])

lemma RecordEnvelope_encode_valid:
  "RecordEnvelope_valid e \<Longrightarrow> RecordEnvelope_encode mc e = Ok (record_envelope_wire mc e)"
  by (simp add: RecordEnvelope_encode_eq RecordEnvelope_valid_def record_envelope_wire_length
      not_less)

lemma RecordEnvelope_decode_sound:
  assumes "RecordEnvelope_decode mc bs = Ok e"
  shows "RecordEnvelope_valid e \<and> ok (RecordEnvelope_encode mc e) = Some bs"
  using assms unfolding RecordEnvelope_decode_def RecordEnvelope_new_def Let_def
  by (elim ok_chain_elims)
    (auto simp: RecordEnvelope_encode_eq RecordEnvelope_valid_def record_envelope_wire_length
      not_less split: if_splits dest!: fmt_decode_lengths)

lemma RecordEnvelope_decode_complete:
  assumes "RecordEnvelope_valid e" and "ok (RecordEnvelope_encode mc e) = Some bs"
  shows "RecordEnvelope_decode mc bs = Ok e"
proof -
  have bs: "bs = record_envelope_wire mc e" using assms by (simp add: RecordEnvelope_encode_valid)
  have v: "re_key_epoch e \<noteq> 0" "length (re_nonce e) = 24" "16 \<le> length (re_ciphertext e)"
    "length (re_ciphertext e) \<le> 1048576"
    using assms(1) by (simp_all add: RecordEnvelope_valid_def)
  have len: "length bs \<le> 1048576"
    using assms(1) v unfolding bs by (simp add: record_envelope_wire_length RecordEnvelope_valid_def)
  have new: "RecordEnvelope_new mc (re_key_epoch e) (re_nonce e) (re_ciphertext e) = Ok e"
    using v RecordEnvelope_encode_valid [OF assms(1)]
    by (cases e) (simp add: RecordEnvelope_new_def not_less Let_def)
  show ?thesis
    using v len new RecordEnvelope_encode_valid [OF assms(1)] unfolding bs
    by (simp add: RecordEnvelope_decode_def record_envelope_wire_def)
qed

lemma RecordEnvelope_decode_no_panic: "RecordEnvelope_decode mc bs \<noteq> Panic"
  unfolding RecordEnvelope_decode_def RecordEnvelope_new_def Let_def RecordEnvelope_encode_eq
  by (intro not_panic_intros no_panic)

text \<open>The capacity of the writer is enough for every value that passes validation.\<close>

lemma website_account_wire_length:
  assumes "validate_plaintext v = Ok ()"
  shows "length (website_account_wire mc v) \<le> length (wa_service_name v)
    + length (wa_permitted_origin v) + length (wa_username v) + length (wa_password v) + 128"
proof -
  have v: "length (wa_service_name v) < 2 ^ 16" "length (wa_permitted_origin v) < 2 ^ 16"
    "length (wa_username v) < 2 ^ 16" "length (wa_password v) < 2 ^ 16"
    using assms by (simp_all add: validate_plaintext_Ok)
  show ?thesis unfolding website_account_wire_def
    by (insert v, rule order_trans, (rule enc_bounds | assumption)+) simp
qed

lemma WebsiteAccountPlaintext_encode_eq:
  "WebsiteAccountPlaintext_encode mc v =
     and_then (validate_plaintext v) (\<lambda>_. Ok (website_account_wire mc v))"
proof (cases "validate_plaintext v")
  case (Ok u)
  let ?cap = "length (wa_service_name v) + length (wa_permitted_origin v) + length (wa_username v)
    + length (wa_password v) + 128"
  from Ok have ok: "validate_plaintext v = Ok ()" by simp
  then have cap: "?cap \<le> 20000" by (simp add: validate_plaintext_Ok)
  then have "do {
         l \<leftarrow> usize_checked_add (length (wa_service_name v)) (length (wa_permitted_origin v));
         l \<leftarrow> usize_checked_add l (length (wa_username v));
         l \<leftarrow> usize_checked_add l (length (wa_password v));
         usize_checked_add l WEBSITE_ACCOUNT_ENCODING_OVERHEAD_BYTES } = Some ?cap"
    by (simp add: usize_checked_add_def)
  moreover have "length (website_account_wire mc v) \<le> ?cap"
    using website_account_wire_length [OF ok] by simp
  ultimately show ?thesis
    using ok cap unfolding WebsiteAccountPlaintext_encode_def
    by (simp add: encode_simps website_account_wire_def [symmetric] usize_checked_add_def)
qed (simp_all add: WebsiteAccountPlaintext_encode_def)

lemma WebsiteAccountPlaintext_encode_valid:
  "WebsiteAccount_valid v \<Longrightarrow> WebsiteAccountPlaintext_encode mc v = Ok (website_account_wire mc v)"
  by (simp add: WebsiteAccountPlaintext_encode_eq WebsiteAccount_valid_def)

lemma WebsiteAccountPlaintext_decode_sound:
  assumes "WebsiteAccountPlaintext_decode mc bs = Ok v"
  shows "WebsiteAccount_valid v \<and> ok (WebsiteAccountPlaintext_encode mc v) = Some bs"
  using assms unfolding WebsiteAccountPlaintext_decode_def WebsiteAccountPlaintext_new_def Let_def
  by (elim ok_chain_elims) (auto simp: WebsiteAccount_valid_def dest: fmt_bounded_text_utf8)

lemma WebsiteAccountPlaintext_decode_complete:
  assumes "WebsiteAccount_valid v" and "ok (WebsiteAccountPlaintext_encode mc v) = Some bs"
  shows "WebsiteAccountPlaintext_decode mc bs = Ok v"
proof -
  have bs: "bs = website_account_wire mc v"
    using assms by (simp add: WebsiteAccountPlaintext_encode_valid)
  have ok: "validate_plaintext v = Ok ()" using assms(1) by (simp add: WebsiteAccount_valid_def)
  have v: "length (wa_service_name v) \<le> 256" "length (wa_permitted_origin v) \<le> 2048"
    "length (wa_username v) \<le> 1024" "length (wa_password v) \<le> 16384"
    "utf8_valid (wa_service_name v)" "utf8_valid (wa_permitted_origin v)"
    "utf8_valid (wa_username v)" "utf8_valid (wa_password v)"
    using assms(1) by (simp_all add: WebsiteAccount_valid_def validate_plaintext_Ok)
  have new: "WebsiteAccountPlaintext_new (wa_revision v) (wa_created_at_ms v)
      (wa_modified_at_ms v) (wa_service_name v) (wa_permitted_origin v) (wa_username v)
      (wa_password v) = Ok v"
    using ok by (cases v) (simp add: WebsiteAccountPlaintext_new_def Let_def)
  have len: "length bs + 16 \<le> 1048576"
    using website_account_wire_length [OF ok] v unfolding bs by simp
  then have total: "and_then (ok_or Format_TooLarge (usize_checked_add (length bs) TAG_BYTES)) f
      = f (length bs + 16)" for f :: "nat \<Rightarrow> (website_account, format_error) result"
    by (intro tagged_total) simp
  show ?thesis
    using v new len WebsiteAccountPlaintext_encode_valid [OF assms(1)]
    unfolding WebsiteAccountPlaintext_decode_def total unfolding bs
    by (simp add: website_account_wire_def not_less)
qed

lemma WebsiteAccountPlaintext_decode_no_panic: "WebsiteAccountPlaintext_decode mc bs \<noteq> Panic"
  unfolding WebsiteAccountPlaintext_decode_def WebsiteAccountPlaintext_new_def Let_def
    WebsiteAccountPlaintext_encode_eq
  by (intro not_panic_intros no_panic)

lemma passkey_plaintext_wire_length:
  assumes "validate_passkey_plaintext v = Ok ()" and "length (pk_credential_id v) = 32"
    and "length (pk_private_key v) = 32"
  shows "length (passkey_plaintext_wire mc v) \<le> length (pk_rp_id v) + length (pk_user_handle v)
    + length (pk_user_name v) + length (pk_user_display_name v) + 192"
proof -
  have v: "length (pk_rp_id v) < 2 ^ 16" "length (pk_user_handle v) < 2 ^ 16"
    "length (pk_user_name v) < 2 ^ 16" "length (pk_user_display_name v) < 2 ^ 16"
    "length (pk_credential_id v) < 2 ^ 16" "length (pk_private_key v) < 2 ^ 16"
    using assms by (simp_all add: validate_passkey_plaintext_Ok)
  show ?thesis unfolding passkey_plaintext_wire_def
    by (insert v, rule order_trans, (rule enc_bounds | assumption)+) (simp add: assms)
qed

lemma PasskeyPlaintext_encode_eq:
  assumes "length (pk_credential_id v) = 32" and "length (pk_private_key v) = 32"
  shows "PasskeyPlaintext_encode mc v =
     and_then (validate_passkey_plaintext v) (\<lambda>_. Ok (passkey_plaintext_wire mc v))"
proof (cases "validate_passkey_plaintext v")
  case (Ok u)
  let ?cap = "length (pk_rp_id v) + length (pk_user_handle v) + length (pk_user_name v)
    + length (pk_user_display_name v) + 192"
  from Ok have ok: "validate_passkey_plaintext v = Ok ()" by simp
  then have cap: "?cap \<le> 1100" by (simp add: validate_passkey_plaintext_Ok)
  then have "do {
         l \<leftarrow> usize_checked_add (length (pk_rp_id v)) (length (pk_user_handle v));
         l \<leftarrow> usize_checked_add l (length (pk_user_name v));
         l \<leftarrow> usize_checked_add l (length (pk_user_display_name v));
         usize_checked_add l PASSKEY_ENCODING_OVERHEAD_BYTES } = Some ?cap"
    by (simp add: usize_checked_add_def)
  moreover have "length (passkey_plaintext_wire mc v) \<le> ?cap"
    using passkey_plaintext_wire_length [OF ok assms] by simp
  ultimately show ?thesis
    using ok cap unfolding PasskeyPlaintext_encode_def
    by (simp add: encode_simps passkey_plaintext_wire_def [symmetric] usize_checked_add_def)
qed (simp_all add: PasskeyPlaintext_encode_def)

lemma PasskeyPlaintext_encode_valid:
  "PasskeyPlaintext_valid v \<Longrightarrow> PasskeyPlaintext_encode mc v = Ok (passkey_plaintext_wire mc v)"
  by (simp add: PasskeyPlaintext_encode_eq PasskeyPlaintext_valid_def)

lemma PasskeyPlaintext_decode_sound:
  assumes "PasskeyPlaintext_decode mc bs = Ok v"
  shows "PasskeyPlaintext_valid v \<and> ok (PasskeyPlaintext_encode mc v) = Some bs"
  using assms unfolding PasskeyPlaintext_decode_def PasskeyPlaintext_new_def Let_def
  by (elim ok_chain_elims)
    (auto simp: PasskeyPlaintext_valid_def dest: fmt_bounded_text_utf8 fmt_decode_lengths)

lemma PasskeyPlaintext_decode_complete:
  assumes "PasskeyPlaintext_valid v" and "ok (PasskeyPlaintext_encode mc v) = Some bs"
  shows "PasskeyPlaintext_decode mc bs = Ok v"
proof -
  have bs: "bs = passkey_plaintext_wire mc v"
    using assms by (simp add: PasskeyPlaintext_encode_valid)
  have ok: "validate_passkey_plaintext v = Ok ()"
    using assms(1) by (simp add: PasskeyPlaintext_valid_def)
  have v: "length (pk_rp_id v) \<le> 253" "length (pk_user_handle v) \<le> 64"
    "length (pk_user_name v) \<le> 256" "length (pk_user_display_name v) \<le> 256"
    "length (pk_credential_id v) = 32" "length (pk_private_key v) = 32"
    "utf8_valid (pk_rp_id v)" "utf8_valid (pk_user_name v)" "utf8_valid (pk_user_display_name v)"
    using assms(1) by (simp_all add: PasskeyPlaintext_valid_def validate_passkey_plaintext_Ok)
  have new: "PasskeyPlaintext_new (pk_revision v) (pk_created_at_ms v) (pk_modified_at_ms v)
      (pk_signature_counter v) (pk_creation_state v) (pk_rp_id v) (pk_user_handle v)
      (pk_user_name v) (pk_user_display_name v) (pk_credential_id v) (pk_private_key v) = Ok v"
    using ok by (cases v) (simp add: PasskeyPlaintext_new_def Let_def)
  have len: "length bs + 16 \<le> 1048576"
    using passkey_plaintext_wire_length [OF ok v(5, 6)] v unfolding bs by simp
  then have total: "and_then (ok_or Format_TooLarge (usize_checked_add (length bs) TAG_BYTES)) f
      = f (length bs + 16)" for f :: "nat \<Rightarrow> (passkey_plaintext, format_error) result"
    by (intro tagged_total) simp
  show ?thesis
    using v new len PasskeyPlaintext_encode_valid [OF assms(1)]
    unfolding PasskeyPlaintext_decode_def total unfolding bs
    by (simp add: passkey_plaintext_wire_def not_less)
qed

lemma PasskeyPlaintext_decode_no_panic: "PasskeyPlaintext_decode mc bs \<noteq> Panic"
proof
  assume "PasskeyPlaintext_decode mc bs = Panic"
  then obtain r c m s st rp h n dn cid k v d1 d2 d3 d4 d5 d6 where
    "fmt_decode_fixed_bytes mc 32 d1 = Ok (cid, d2)"
    "fmt_decode_zeroizing_fixed_bytes mc 32 d2 = Ok (k, d3)"
    "PasskeyPlaintext_new r c m s st rp h n dn cid k = Ok v"
    "PasskeyPlaintext_encode mc v = Panic"
    unfolding PasskeyPlaintext_decode_def
    by (auto simp: and_then_Panic no_panic PasskeyPlaintext_new_def Let_def split: if_splits)
  then show False
    by (auto simp: PasskeyPlaintext_new_def PasskeyPlaintext_encode_eq Let_def result_simps no_panic
        dest!: fmt_decode_lengths)
qed

text \<open>The discriminator agrees with the decoder that accepts the plaintext.\<close>

lemma record_type_website:
  assumes "WebsiteAccountPlaintext_decode mc bs = Ok v" shows "record_type mc bs = Ok WebsiteAccount"
  using assms unfolding WebsiteAccountPlaintext_decode_def
  by (elim ok_chain_elims) (auto simp: record_type_def fmt_expect_u32_Ok result_simps)

lemma record_type_passkey:
  assumes "PasskeyPlaintext_decode mc bs = Ok v" shows "record_type mc bs = Ok Passkey"
  using assms unfolding PasskeyPlaintext_decode_def
  by (elim ok_chain_elims) (auto simp: record_type_def fmt_expect_u32_Ok result_simps)

lemma record_aad_inject:
  assumes "length v = 16" "length v' = 16" "length r = 16" "length r' = 16"
  shows "encode_record_aad mc v r k = encode_record_aad mc v' r' k' \<longleftrightarrow> v = v' \<and> r = r' \<and> k = k'"
  using assms by (simp add: encode_record_aad_eq enc_inject)

end

sublocale minicbor_spec \<subseteq> record_envelope: canonical_codec
  "\<lambda>e. ok (RecordEnvelope_encode mc e)" "RecordEnvelope_decode mc" RecordEnvelope_valid
  by unfold_locales
    (use RecordEnvelope_decode_sound RecordEnvelope_decode_complete in blast,
      simp add: RecordEnvelope_encode_valid, rule RecordEnvelope_decode_no_panic)

sublocale minicbor_spec \<subseteq> website_account: canonical_codec
  "\<lambda>v. ok (WebsiteAccountPlaintext_encode mc v)" "WebsiteAccountPlaintext_decode mc"
  WebsiteAccount_valid
  by unfold_locales
    (use WebsiteAccountPlaintext_decode_sound WebsiteAccountPlaintext_decode_complete in blast,
      simp add: WebsiteAccountPlaintext_encode_valid, rule WebsiteAccountPlaintext_decode_no_panic)

sublocale minicbor_spec \<subseteq> passkey_plaintext: canonical_codec
  "\<lambda>v. ok (PasskeyPlaintext_encode mc v)" "PasskeyPlaintext_decode mc" PasskeyPlaintext_valid
  by unfold_locales
    (use PasskeyPlaintext_decode_sound PasskeyPlaintext_decode_complete in blast,
      simp add: PasskeyPlaintext_encode_valid, rule PasskeyPlaintext_decode_no_panic)

section \<open>Properties\<close>

text \<open>A website account plaintext has exactly one accepted encoding, and only accounts that obey
  the stored-record rules have one: a revision from 1, a modification not before the creation, a
  non-empty bounded service name and origin free of control characters, bounded username and
  password. The writer capacity computed from the fields is always enough: the encoder returns the
  encoding of every such account and never panics.\<close>

theorem website_account_exact:
  assumes "minicbor_spec mc"
  shows "(WebsiteAccountPlaintext_decode mc bs = Ok v \<longleftrightarrow>
        wa_revision v \<noteq> 0 \<and> wa_created_at_ms v \<le> wa_modified_at_ms v
        \<and> wa_service_name v \<noteq> [] \<and> length (wa_service_name v) \<le> 256
        \<and> wa_permitted_origin v \<noteq> [] \<and> length (wa_permitted_origin v) \<le> 2048
        \<and> length (wa_username v) \<le> 1024 \<and> length (wa_password v) \<le> 16384
        \<and> \<not> any_control (wa_service_name v) \<and> \<not> any_control (wa_permitted_origin v)
        \<and> list_all utf8_valid [wa_service_name v, wa_permitted_origin v, wa_username v, wa_password v]
        \<and> WebsiteAccountPlaintext_encode mc v = Ok bs)
    \<and> WebsiteAccountPlaintext_encode mc v
        = and_then (validate_plaintext v) (\<lambda>_. Ok (website_account_wire mc v))
    \<and> WebsiteAccountPlaintext_decode mc bs \<noteq> Panic"
proof -
  have "WebsiteAccountPlaintext_decode mc bs = Ok v \<longleftrightarrow>
      WebsiteAccount_valid v \<and> WebsiteAccountPlaintext_encode mc v = Ok bs"
    using minicbor_spec.WebsiteAccountPlaintext_decode_sound [OF assms, unfolded ok_Some]
      minicbor_spec.WebsiteAccountPlaintext_decode_complete [OF assms, unfolded ok_Some] by blast
  then show ?thesis
    using minicbor_spec.WebsiteAccountPlaintext_encode_eq [OF assms, of v]
      minicbor_spec.WebsiteAccountPlaintext_decode_no_panic [OF assms, of bs]
    unfolding WebsiteAccount_valid_def validate_plaintext_Ok by auto
qed

definition sample_website_account :: website_account where
  "sample_website_account = \<lparr>wa_revision = 1, wa_created_at_ms = 10, wa_modified_at_ms = 10,
     wa_service_name = ascii ''S'', wa_permitted_origin = ascii ''o'', wa_username = [],
     wa_password = ascii ''p''\<rparr>"

lemma sample_website_account_valid: "WebsiteAccount_valid sample_website_account"
  by (simp add: WebsiteAccount_valid_def validate_plaintext_def sample_website_account_def
      any_control_def utf8_chars.simps utf8_next_def is_control_def ascii_def utf8_valid_ascii)

theorem website_account_exact_witness:
  "WebsiteAccountPlaintext_decode rfc8949
     [0x86, 1, 1, 1, 10, 10, 0x84, 0x61, 0x53, 0x61, 0x6F, 0x60, 0x61, 0x70]
     = Ok sample_website_account"
proof -
  have "website_account_wire rfc8949 sample_website_account
      = [0x86, 1, 1, 1, 10, 10, 0x84, 0x61, 0x53, 0x61, 0x6F, 0x60, 0x61, 0x70]"
    by (simp add: website_account_wire_def sample_website_account_def rfc8949_def enc_head_def
        ascii_def)
  then show ?thesis
    unfolding conjunct1 [OF website_account_exact [OF rfc.minicbor_spec_axioms]]
    using sample_website_account_valid
      rfc.WebsiteAccountPlaintext_encode_valid [OF sample_website_account_valid]
    by (simp add: WebsiteAccount_valid_def validate_plaintext_Ok)
qed

text \<open>Passkey plaintexts and record envelopes have exactly one accepted encoding each, and their
  decoders never panic although the passkey decoder re-encodes into a writer of bounded capacity.\<close>

theorem passkey_and_envelope_exact:
  assumes "minicbor_spec mc"
  shows "(PasskeyPlaintext_decode mc bs = Ok v \<longleftrightarrow>
        PasskeyPlaintext_valid v \<and> PasskeyPlaintext_encode mc v = Ok bs)
    \<and> (RecordEnvelope_decode mc bs = Ok e \<longleftrightarrow>
        RecordEnvelope_valid e \<and> RecordEnvelope_encode mc e = Ok bs)
    \<and> PasskeyPlaintext_decode mc bs \<noteq> Panic \<and> RecordEnvelope_decode mc bs \<noteq> Panic"
  using minicbor_spec.PasskeyPlaintext_decode_sound [OF assms, unfolded ok_Some]
    minicbor_spec.PasskeyPlaintext_decode_complete [OF assms, unfolded ok_Some]
    minicbor_spec.RecordEnvelope_decode_sound [OF assms, unfolded ok_Some]
    minicbor_spec.RecordEnvelope_decode_complete [OF assms, unfolded ok_Some]
    minicbor_spec.PasskeyPlaintext_decode_no_panic [OF assms]
    minicbor_spec.RecordEnvelope_decode_no_panic [OF assms]
  by blast

theorem passkey_and_envelope_exact_witness:
  "RecordEnvelope_decode rfc8949 ([0x84, 1, 3, 0x58, 24] @ replicate 24 1 @ [0x50] @ replicate 16 2)
     = Ok \<lparr>re_key_epoch = 3, re_nonce = replicate 24 1, re_ciphertext = replicate 16 2\<rparr>"
proof -
  have "RecordEnvelope_encode rfc8949
      \<lparr>re_key_epoch = 3, re_nonce = replicate 24 1, re_ciphertext = replicate 16 2\<rparr>
      = Ok ([0x84, 1, 3, 0x58, 24] @ replicate 24 1 @ [0x50] @ replicate 16 2)"
    by (simp add: RecordEnvelope_encode_eq record_envelope_wire_def rfc8949_def enc_head_def)
  then show ?thesis
    using passkey_and_envelope_exact [OF rfc.minicbor_spec_axioms]
    by (simp add: RecordEnvelope_valid_def head_len_def)
qed

text \<open>The discriminator that is read before a plaintext is decoded decides: whatever the website
  decoder accepts is reported as a website account and refused by the passkey decoder, and the
  other way round.\<close>

theorem record_type_decides:
  assumes "minicbor_spec mc"
  shows "(WebsiteAccountPlaintext_decode mc bs = Ok v \<longrightarrow>
        record_type mc bs = Ok WebsiteAccount \<and> PasskeyPlaintext_decode mc bs \<noteq> Ok p)
    \<and> (PasskeyPlaintext_decode mc bs = Ok p \<longrightarrow>
        record_type mc bs = Ok Passkey \<and> WebsiteAccountPlaintext_decode mc bs \<noteq> Ok v)"
  using minicbor_spec.record_type_website [OF assms, of bs v]
    minicbor_spec.record_type_passkey [OF assms, of bs p]
  by auto

theorem record_type_decides_witness:
  "record_type rfc8949 (website_account_wire rfc8949 sample_website_account) = Ok WebsiteAccount"
proof -
  have "WebsiteAccountPlaintext_decode rfc8949
      (website_account_wire rfc8949 sample_website_account) = Ok sample_website_account"
    using sample_website_account_valid
    by (simp add: rfc.WebsiteAccountPlaintext_decode_complete
        rfc.WebsiteAccountPlaintext_encode_valid)
  then show ?thesis
    using record_type_decides [OF rfc.minicbor_spec_axioms] by blast
qed

text \<open>Associated data separates its uses: for no choice of inputs do the associated data of the
  master wrapper, the recovery wrapper, the Windows Hello wrapper, the manifest and a record
  coincide, so a ciphertext of one kind cannot be presented as another under the same key.\<close>

theorem aad_domains_distinct:
  assumes "minicbor_spec mc"
  shows "distinct [encode_master_wrapper_aad mc v k salt, encode_recovery_wrapper_aad mc v' k',
    encode_windows_hello_wrapper_aad mc p, encode_manifest_aad mc h nonce,
    encode_record_aad mc v'' r k'']"
  by (simp add: encode_master_wrapper_aad_eq encode_recovery_wrapper_aad_eq
      encode_windows_hello_wrapper_aad_eq encode_manifest_aad_eq encode_record_aad_eq
      minicbor_spec.enc_array_inject [OF assms])

theorem aad_domains_distinct_witness:
  "encode_recovery_wrapper_aad rfc8949 (replicate 16 1) 1
     \<noteq> encode_manifest_aad rfc8949 sample_header (replicate 24 2)"
  using aad_domains_distinct [OF rfc.minicbor_spec_axioms, of "replicate 16 1" 1 "replicate 16 0"
      "replicate 16 1" 1 undefined sample_header "replicate 24 2" "[]" "[]" 0] by simp

text \<open>C38: associated data binds its inputs: equal associated data means the same vault, key epoch and
  salt, the same vault, record and key epoch, or the same complete clear header and nonce.\<close>

theorem aad_binds_inputs:
  assumes "minicbor_spec mc" and "length v = 16" "length v' = 16" "length s = 16" "length s' = 16"
    and "length r = 16" "length r' = 16" "length n = 24" "length n' = 24"
    and "VaultHeader_valid h" "VaultHeader_valid h'"
  shows "(encode_master_wrapper_aad mc v k s = encode_master_wrapper_aad mc v' k' s'
        \<longleftrightarrow> v = v' \<and> k = k' \<and> s = s')
    \<and> (encode_recovery_wrapper_aad mc v k = encode_recovery_wrapper_aad mc v' k' \<longleftrightarrow> v = v' \<and> k = k')
    \<and> (encode_record_aad mc v r k = encode_record_aad mc v' r' k' \<longleftrightarrow> v = v' \<and> r = r' \<and> k = k')
    \<and> (encode_manifest_aad mc h n = encode_manifest_aad mc h' n' \<longleftrightarrow> h = h' \<and> n = n')"
  using minicbor_spec.master_wrapper_aad_inject [OF assms(1-5)]
    minicbor_spec.recovery_wrapper_aad_inject [OF assms(1-3)]
    minicbor_spec.record_aad_inject [OF assms(1-3, 6, 7)]
    minicbor_spec.manifest_aad_inject [OF assms(1, 10, 11, 8, 9)]
  by simp

theorem aad_binds_inputs_witness:
  "encode_record_aad rfc8949 (replicate 16 1) (replicate 16 2) 1
     \<noteq> encode_record_aad rfc8949 (replicate 16 1) (replicate 16 3) 1"
  using aad_binds_inputs [OF rfc.minicbor_spec_axioms, of "replicate 16 1" "replicate 16 1"
      "replicate 16 1" "replicate 16 1" "replicate 16 2" "replicate 16 3" "replicate 24 1"
      "replicate 24 1" sample_header sample_header 1 1]
  by (simp add: sample_header_valid)

end
