(* ===== verification/Ipc_Identity.thy ===== *)
theory Ipc_Identity
  imports Protocol_Types
begin

text \<open>
  The peer policy of the pipe transport (platform/windows-ipc/src/identity.rs): from what the
  operating system reports about the process at the other end, and from the installed policies,
  the agent derives the role of a client before a single message is read. A path of the Windows
  build is its UTF-16 code units; strings are their UTF-8 bytes.
\<close>

section \<open>Data\<close>

type_synonym path = "u16 list"

datatype component_role = Component_Agent | Component_Desktop | Component_NativeHost | Component_PasskeyProvider

fun ComponentRole_client_role :: "component_role \<Rightarrow> client_role option" where
  "ComponentRole_client_role Component_Agent = None"
| "ComponentRole_client_role Component_Desktop = Some Desktop"
| "ComponentRole_client_role Component_NativeHost = Some NativeHost"
| "ComponentRole_client_role Component_PasskeyProvider = Some PasskeyProvider"

fun ComponentRole_from :: "client_role \<Rightarrow> component_role" where
  "ComponentRole_from Desktop = Component_Desktop"
| "ComponentRole_from NativeHost = Component_NativeHost"
| "ComponentRole_from PasskeyProvider = Component_PasskeyProvider"

record peer_observation =
  po_process_id :: u32
  po_process_creation_time :: u64
  po_session_id :: u32
  po_user_sid :: bytes
  po_logon_sid :: bytes
  po_integrity_rid :: u32
  po_elevated :: bool
  po_app_container :: bool
  po_image_path :: path
  po_package_full_name :: "bytes option"
  po_package_family_name :: "bytes option"
  po_application_user_model_id :: "bytes option"

record peer_policy =
  pl_role :: component_role
  pl_session_id :: u32
  pl_user_sid :: bytes
  pl_logon_sid :: bytes
  pl_maximum_integrity_rid :: u32
  pl_image_path :: path
  pl_package_full_name :: bytes
  pl_package_family_name :: bytes
  pl_application_user_model_id :: "bytes option"

datatype peer_authorization_error =
  InvalidPolicySet | NoMatchingPolicy | AmbiguousRole | ProcessExited | WrongUser | WrongLogon
  | WrongSession | Elevated | AppContainer | WrongIntegrity | MissingPackageIdentity | WrongPackage
  | WrongApplication | WrongImage

section \<open>Paths\<close>

text \<open>
  \<open>to_string_lossy\<close> on Windows: surrogate pairs become one character, an unpaired surrogate
  becomes the replacement character. \<open>eq_ignore_ascii_case\<close> compares after mapping A--Z to a--z,
  and leaves every other character alone.
\<close>

fun to_string_lossy :: "path \<Rightarrow> nat list" where
  "to_string_lossy [] = []"
| "to_string_lossy (u # us) =
     (if 0xD800 \<le> u \<and> u < 0xDC00 then
        (case us of
           v # vs \<Rightarrow>
             if 0xDC00 \<le> v \<and> v < 0xE000
             then (0x10000 + (unat u - 0xD800) * 0x400 + (unat v - 0xDC00)) # to_string_lossy vs
             else 0xFFFD # to_string_lossy us
         | [] \<Rightarrow> [0xFFFD])
      else if 0xDC00 \<le> u \<and> u < 0xE000 then 0xFFFD # to_string_lossy us
      else unat u # to_string_lossy us)"

definition to_ascii_lowercase :: "nat \<Rightarrow> nat" where
  "to_ascii_lowercase c = (if 0x41 \<le> c \<and> c \<le> 0x5A then c + 0x20 else c)"

definition eq_ignore_ascii_case :: "nat list \<Rightarrow> nat list \<Rightarrow> bool" where
  "eq_ignore_ascii_case s t \<longleftrightarrow> map to_ascii_lowercase s = map to_ascii_lowercase t"

definition paths_equal :: "path \<Rightarrow> path \<Rightarrow> bool" where
  "paths_equal left right \<longleftrightarrow> eq_ignore_ascii_case (to_string_lossy left) (to_string_lossy right)"

section \<open>Authorization\<close>

definition authorize_peer ::
    "peer_observation \<Rightarrow> peer_policy \<Rightarrow> (component_role, peer_authorization_error) result" where
  "authorize_peer ob pol =
     (if po_user_sid ob \<noteq> pl_user_sid pol then Err WrongUser
      else if po_logon_sid ob \<noteq> pl_logon_sid pol then Err WrongLogon
      else if po_session_id ob \<noteq> pl_session_id pol then Err WrongSession
      else if po_elevated ob then Err Elevated
      else if po_app_container ob then Err AppContainer
      else if po_integrity_rid ob > pl_maximum_integrity_rid pol then Err WrongIntegrity
      else (case (po_package_full_name ob, po_package_family_name ob) of
          (Some package_full_name, Some package_family_name) \<Rightarrow>
            if package_full_name \<noteq> pl_package_full_name pol
               \<or> package_family_name \<noteq> pl_package_family_name pol
            then Err WrongPackage
            else if pl_application_user_model_id pol \<noteq> po_application_user_model_id ob
            then Err WrongApplication
            else if \<not> paths_equal (po_image_path ob) (pl_image_path pol) then Err WrongImage
            else Ok (pl_role pol)
        | _ \<Rightarrow> Err MissingPackageIdentity))"

text \<open>The loop of \<open>authorize_client_role\<close> over the policies, with \<open>matched\<close> as its state.\<close>

fun match_policies ::
    "peer_observation \<Rightarrow> client_role option \<Rightarrow> peer_policy list
       \<Rightarrow> (client_role option, peer_authorization_error) result" where
  "match_policies ob matched [] = Ok matched"
| "match_policies ob matched (pol # pols) =
     (case authorize_peer ob pol of
        Ok component \<Rightarrow>
          and_then (ok_or InvalidPolicySet (ComponentRole_client_role component)) (\<lambda>role.
          if matched \<noteq> None then Err AmbiguousRole else match_policies ob (Some role) pols)
      | _ \<Rightarrow> match_policies ob matched pols)"

definition authorize_client_role ::
    "peer_observation \<Rightarrow> peer_policy list \<Rightarrow> (client_role, peer_authorization_error) result" where
  "authorize_client_role ob policies =
     (if policies = [] \<or> length policies > 3
         \<or> list_ex (\<lambda>pol. pl_role pol = Component_Agent) policies
      then Err InvalidPolicySet
      else and_then (match_policies ob None policies) (\<lambda>matched.
           ok_or NoMatchingPolicy matched))"

section \<open>What is authorized\<close>

text \<open>The identity conditions of one policy, stated as one predicate.\<close>

definition peer_matches :: "peer_observation \<Rightarrow> peer_policy \<Rightarrow> bool" where
  "peer_matches ob pol \<longleftrightarrow>
     po_user_sid ob = pl_user_sid pol \<and> po_logon_sid ob = pl_logon_sid pol
     \<and> po_session_id ob = pl_session_id pol \<and> \<not> po_elevated ob \<and> \<not> po_app_container ob
     \<and> po_integrity_rid ob \<le> pl_maximum_integrity_rid pol
     \<and> po_package_full_name ob = Some (pl_package_full_name pol)
     \<and> po_package_family_name ob = Some (pl_package_family_name pol)
     \<and> po_application_user_model_id ob = pl_application_user_model_id pol
     \<and> paths_equal (po_image_path ob) (pl_image_path pol)"

lemma authorize_peer_Ok: "authorize_peer ob pol = Ok r \<longleftrightarrow> peer_matches ob pol \<and> r = pl_role pol"
  by (auto simp: authorize_peer_def peer_matches_def not_less split: option.splits)

lemma client_role_None: "ComponentRole_client_role r = None \<longleftrightarrow> r = Component_Agent"
  by (cases r) auto

lemma client_role_from [simp]: "ComponentRole_client_role (ComponentRole_from r) = Some r"
  by (cases r) auto

lemma client_role_Some: "ComponentRole_client_role c = Some r \<longleftrightarrow> c = ComponentRole_from r"
  by (cases c; cases r) auto

lemma ComponentRole_from_inject [simp]: "ComponentRole_from r = ComponentRole_from s \<longleftrightarrow> r = s"
  by (metis client_role_from option.inject)

lemma match_policies_step:
  assumes "pl_role pol \<noteq> Component_Agent"
  shows "match_policies ob matched (pol # pols) =
    (if peer_matches ob pol
     then if matched \<noteq> None then Err AmbiguousRole
          else match_policies ob (ComponentRole_client_role (pl_role pol)) pols
     else match_policies ob matched pols)"
proof (cases "peer_matches ob pol")
  case True
  moreover obtain role where "ComponentRole_client_role (pl_role pol) = Some role"
    using assms client_role_None by (cases "ComponentRole_client_role (pl_role pol)") auto
  ultimately show ?thesis using authorize_peer_Ok [of ob pol "pl_role pol"] by simp
next
  case False
  then have "authorize_peer ob pol \<noteq> Ok r" for r by (simp add: authorize_peer_Ok)
  with False show ?thesis by (cases "authorize_peer ob pol") auto
qed

lemma match_policies_eq:
  assumes "\<forall>pol \<in> set pols. pl_role pol \<noteq> Component_Agent"
  shows "match_policies ob matched pols =
    (case filter (peer_matches ob) pols of
       [] \<Rightarrow> Ok matched
     | pol # rest \<Rightarrow>
         if matched \<noteq> None \<or> rest \<noteq> [] then Err AmbiguousRole
         else Ok (ComponentRole_client_role (pl_role pol)))"
  using assms
proof (induction pols arbitrary: matched)
  case (Cons pol pols)
  moreover have "ComponentRole_client_role (pl_role pol) \<noteq> None"
    using Cons.prems by (simp add: client_role_None)
  ultimately show ?case
    by (auto simp: match_policies_step simp del: match_policies.simps split: list.splits)
qed simp

text \<open>The role of a client is what the installed policies say about its process, and nothing
  else: a role is derived if and only if there are one to three policies, none of them for the agent
  itself, and exactly one of them fits the observed process, which then has the same user, logon
  and session, is neither elevated nor in an app container, does not exceed the integrity level, and
  runs the installed image of the installed package. Two fitting policies are refused even when they
  agree, and the process identifier plays no part.\<close>

theorem client_role_derived_exactly:
  "(authorize_client_role ob policies = Ok role \<longleftrightarrow>
      length policies \<in> {1..3} \<and> (\<forall>pol \<in> set policies. pl_role pol \<noteq> Component_Agent)
      \<and> (\<exists>pol. filter (peer_matches ob) policies = [pol] \<and> pl_role pol = ComponentRole_from role))
   \<and> (authorize_client_role ob policies = Err AmbiguousRole \<longleftrightarrow>
      length policies \<in> {1..3} \<and> (\<forall>pol \<in> set policies. pl_role pol \<noteq> Component_Agent)
      \<and> 2 \<le> length (filter (peer_matches ob) policies))
   \<and> authorize_client_role (ob\<lparr>po_process_id := pid, po_process_creation_time := t\<rparr>) policies
      = authorize_client_role ob policies
   \<and> authorize_client_role ob policies \<noteq> Panic"
proof -
  let ?fits = "filter (peer_matches ob) policies"
  let ?set = "length policies \<in> {1..3} \<and> (\<forall>pol \<in> set policies. pl_role pol \<noteq> Component_Agent)"
  have "ob\<lparr>po_process_id := pid, po_process_creation_time := t\<rparr> = ob'
      \<Longrightarrow> peer_matches ob' = peer_matches ob" for ob'
    by (auto simp: peer_matches_def fun_eq_iff)
  moreover have eq: "authorize_client_role ob' policies =
      (if ?set then case filter (peer_matches ob') policies of
          [] \<Rightarrow> Err NoMatchingPolicy
        | [pol] \<Rightarrow> ok_or NoMatchingPolicy (ComponentRole_client_role (pl_role pol))
        | _ \<Rightarrow> Err AmbiguousRole
       else Err InvalidPolicySet)" for ob'
    by (auto simp: authorize_client_role_def match_policies_eq list_ex_iff Suc_le_eq not_less
        split: list.splits)
  ultimately have same: "authorize_client_role (ob\<lparr>po_process_id := pid, po_process_creation_time := t\<rparr>) policies
      = authorize_client_role ob policies" by simp
  have role: "?set \<Longrightarrow> ?fits = [pol] \<Longrightarrow> ComponentRole_client_role (pl_role pol) \<noteq> None" for pol
  proof -
    assume "?set" and fits: "?fits = [pol]"
    moreover have "pol \<in> set policies"
      using filter_is_subset [of "peer_matches ob" policies] fits by simp
    ultimately show ?thesis by (simp add: client_role_None)
  qed
  show ?thesis
    unfolding same using role
    by (auto simp: eq client_role_Some split: list.splits option.splits)
qed

text \<open>A policy set as installed, and a process that runs the packaged desktop application.\<close>

definition sample_policy :: "component_role \<Rightarrow> path \<Rightarrow> peer_policy" where
  "sample_policy role exe =
     \<lparr>pl_role = role, pl_session_id = 1, pl_user_sid = [1], pl_logon_sid = [2],
      pl_maximum_integrity_rid = 0x2000, pl_image_path = exe, pl_package_full_name = [3],
      pl_package_family_name = [4], pl_application_user_model_id = None\<rparr>"

definition sample_observation :: peer_observation where
  "sample_observation =
     \<lparr>po_process_id = 77, po_process_creation_time = 5, po_session_id = 1, po_user_sid = [1],
      po_logon_sid = [2], po_integrity_rid = 0x2000, po_elevated = False, po_app_container = False,
      po_image_path = [0x41, 0x62], po_package_full_name = Some [3],
      po_package_family_name = Some [4], po_application_user_model_id = None\<rparr>"

theorem client_role_derived_exactly_witness:
  "authorize_client_role sample_observation
     [sample_policy Component_Desktop [0x61, 0x42], sample_policy Component_NativeHost [0x61]]
   = Ok Desktop"
proof -
  have "filter (peer_matches sample_observation)
     [sample_policy Component_Desktop [0x61, 0x42], sample_policy Component_NativeHost [0x61]]
     = [sample_policy Component_Desktop [0x61, 0x42]]"
    by (simp add: peer_matches_def sample_observation_def sample_policy_def paths_equal_def
        eq_ignore_ascii_case_def to_ascii_lowercase_def)
  then show ?thesis
    using client_role_derived_exactly [of sample_observation
        "[sample_policy Component_Desktop [0x61, 0x42], sample_policy Component_NativeHost [0x61]]"
        Desktop]
    by (simp add: sample_policy_def)
qed

end
