(* ===== verification/Core_Origin.thy ===== *)
theory Core_Origin
  imports Format_Records
begin

text \<open>
  Browser origins at the agent boundary (crates/vault-core/src/browser_origin.rs). The URL parser is
  the \<open>url\<close> crate, which is not part of the repository: \<open>Url::parse\<close> is a parameter that gives the
  components of the URLs it accepts and the ASCII serialization of their origin.
\<close>

record parsed_url =
  url_scheme :: bytes
  url_username :: bytes
  url_password :: "bytes option"
  url_host :: "bytes option"
  url_port :: "u16 option"
  url_path :: bytes
  url_query :: "bytes option"
  url_fragment :: "bytes option"
  url_origin_ascii :: bytes

type_synonym url_parser = "bytes \<Rightarrow> parsed_url option"

datatype browser_origin_error = BrowserOriginError

definition BrowserOrigin_parse :: "url_parser \<Rightarrow> bytes \<Rightarrow> (bytes, browser_origin_error) result" where
  "BrowserOrigin_parse url_parse v =
     (if length v > FORMAT_MAX_ORIGIN_BYTES then Err BrowserOriginError
      else
        and_then (ok_or BrowserOriginError (url_parse v)) (\<lambda>parsed.
        if url_scheme parsed \<noteq> ascii ''https'' \<or> url_origin_ascii parsed \<noteq> v
        then Err BrowserOriginError
        else Ok v))"

lemma BrowserOrigin_parse_Ok:
  "BrowserOrigin_parse url_parse v = Ok x \<longleftrightarrow>
     x = v \<and> length v \<le> 2048 \<and> (\<exists>u. url_parse v = Some u \<and> url_scheme u = ascii ''https''
       \<and> url_origin_ascii u = v)"
  by (cases "url_parse v") (auto simp: BrowserOrigin_parse_def)

end
