(* ===== verification/Host_Protocol.thy ===== *)
theory Host_Protocol
  imports Protocol_Browser Core_Origin
begin

text \<open>
  The native-messaging host of the browser (platform/chromium-native-host/src/protocol.rs and
  chromium_arguments.rs): it reads one length-prefixed JSON request from the browser, validates it,
  asks the agent through the two callbacks it is given, and writes one length-prefixed JSON reply.
  \<open>serde_json\<close> and the \<open>url\<close> crate are parameters. Native byte order is little-endian on every
  target the host is built for.
\<close>

section \<open>Data\<close>

definition BROWSER_PROTOCOL_VERSION :: u16 where [simp]: "BROWSER_PROTOCOL_VERSION = 1"
definition MAX_BROWSER_MESSAGE_BYTES :: nat where [simp]: "MAX_BROWSER_MESSAGE_BYTES = 16 * 1024"
definition FILL_PROTOCOL_VERSION :: u16 where [simp]: "FILL_PROTOCOL_VERSION = 2"
definition MAX_BROWSER_RESPONSE_BYTES :: nat where [simp]: "MAX_BROWSER_RESPONSE_BYTES = 128 * 1024"
definition MIN_TIMEOUT_MS :: u32 where [simp]: "MIN_TIMEOUT_MS = 100"
definition MAX_TIMEOUT_MS :: u32 where [simp]: "MAX_TIMEOUT_MS = 5000"

datatype bridge_failure =
  Bridge_AgentUnavailable | Bridge_Incompatible | Bridge_OperationFailed | Bridge_Locked
  | Bridge_Cancelled | Bridge_TimedOut

datatype agent_status =
  Status_Starting | Status_NoVault | Status_Locked | Status_Unlocking | Status_Unlocked
  | Status_Updating | Status_ShuttingDown

datatype browser_operation = Browser_Status | Browser_FillSingle

datatype request_context =
  Context_None
  | Context_ExactHttps (tab_id: u32) (frame_id: u32) (document_id: bytes)
      (top_level_origin: bytes) (frame_origin: bytes)

record browser_request =
  br_protocol_version :: u16
  br_request_id :: bytes
  br_operation :: browser_operation
  br_context :: request_context
  br_timeout_ms :: u32

datatype browser_error =
  Host_InvalidRequest | Host_Incompatible | Host_AgentUnavailable | Host_OperationFailed
  | Host_Locked | Host_Cancelled | Host_TimedOut

datatype browser_response =
  Resp_Credential u16 bytes bytes bytes
  | Resp_NoCredential u16 bytes
  | Resp_Ok u16 bytes agent_status
  | Resp_Error u16 "bytes option" browser_error

datatype serve_error = Serve_Input | Serve_Output

datatype read_frame_outcome = EndOfStream | Message bytes

record valid_request =
  vr_request_id :: bytes
  vr_timeout :: u64
  vr_fill_context :: "browser_context option"

record request_failure =
  rf_request_id :: "bytes option"
  rf_error :: browser_error
  rf_version :: u16

text \<open>What the host uses of the two libraries: reading a request, writing a response (in the
  pieces in which the serializer hands it to the writer), and parsing a URL.\<close>

record host_libraries =
  json_from_slice :: "bytes \<Rightarrow> browser_request option"
  json_to_writer :: "browser_response \<Rightarrow> bytes list"
  Url_parse :: url_parser

section \<open>Identifiers\<close>

definition is_lower_hex :: "u8 \<Rightarrow> bool" where
  "is_lower_hex b \<longleftrightarrow> 0x30 \<le> b \<and> b \<le> 0x39 \<or> 0x61 \<le> b \<and> b \<le> 0x66"

definition valid_request_id :: "bytes \<Rightarrow> bool" where
  "valid_request_id v \<longleftrightarrow> length v = 32 \<and> list_all is_lower_hex v \<and> list_ex (\<lambda>b. b \<noteq> 0x30) v"

text \<open>\<open>u8::from_str_radix\<close> with radix 16 on a two-character string: an optional sign character
  only counts when digits follow it, so on two characters it leaves one digit.\<close>

definition hex_digit :: "u8 \<Rightarrow> nat option" where
  "hex_digit b =
     (if 0x30 \<le> b \<and> b \<le> 0x39 then Some (unat b - 0x30)
      else if 0x61 \<le> b \<and> b \<le> 0x66 then Some (unat b - 0x61 + 10)
      else if 0x41 \<le> b \<and> b \<le> 0x46 then Some (unat b - 0x41 + 10)
      else None)"

definition u8_from_hex2 :: "u8 \<Rightarrow> u8 \<Rightarrow> u8 option" where
  "u8_from_hex2 a b =
     (if a = 0x2B then map_option of_nat (hex_digit b)
      else do { x \<leftarrow> hex_digit a; y \<leftarrow> hex_digit b; Some (of_nat (16 * x + y)) })"

text \<open>The loop of \<open>parse_hex_id\<close>, over the pairs of characters.\<close>

fun parse_hex_pairs :: "bytes \<Rightarrow> bytes option" where
  "parse_hex_pairs (a # b # s) = do { x \<leftarrow> u8_from_hex2 a b; xs \<leftarrow> parse_hex_pairs s; Some (x # xs) }"
| "parse_hex_pairs _ = Some []"

definition parse_hex_id :: "bytes \<Rightarrow> bytes option" where
  "parse_hex_id v = (if \<not> valid_request_id v then None else parse_hex_pairs v)"

definition parse_document_id :: "bytes \<Rightarrow> bytes option" where
  "parse_document_id v =
     (if length v \<noteq> 36 \<or> \<not> list_all (\<lambda>b. b < 0x80) v \<or> list_ex (\<lambda>i. v ! i \<noteq> 0x2D) [8, 13, 18, 23]
      then None
      else parse_hex_id (filter (\<lambda>b. b \<noteq> 0x2D) v))"

definition canonical_origin :: "host_libraries \<Rightarrow> bytes \<Rightarrow> bool" where
  "canonical_origin lib v \<longleftrightarrow>
     length v \<le> 2048
     \<and> (case Url_parse lib v of
          Some url \<Rightarrow> url_scheme url = ascii ''https'' \<and> url_origin_ascii url = v
        | None \<Rightarrow> False)"

section \<open>Validation\<close>

text \<open>The match on operation and context: \<open>None\<close> is the wildcard arm or a failed step.\<close>

fun fill_context_for ::
    "host_libraries \<Rightarrow> bytes \<Rightarrow> browser_operation \<Rightarrow> request_context \<Rightarrow> browser_context option option" where
  "fill_context_for lib rid Browser_Status Context_None = Some None"
| "fill_context_for lib rid Browser_FillSingle
     (Context_ExactHttps tab frm doc top_o frame_o) =
     (case (parse_hex_id rid, parse_document_id doc) of
        (Some i, Some document) \<Rightarrow>
          if canonical_origin lib top_o \<and> canonical_origin lib frame_o
          then map_option Some (ok (BrowserContext_new i tab frm document top_o frame_o))
          else None
      | _ \<Rightarrow> None)"
| "fill_context_for lib rid _ _ = None"

definition validate_request :: "host_libraries \<Rightarrow> bytes \<Rightarrow> (valid_request, request_failure) result" where
  "validate_request lib bs =
     and_then (ok_or \<lparr>rf_request_id = None, rf_error = Host_InvalidRequest,
                      rf_version = BROWSER_PROTOCOL_VERSION\<rparr> (json_from_slice lib bs)) (\<lambda>request.
     let request_id = (if valid_request_id (br_request_id request)
                       then Some (br_request_id request) else None);
         version = (case br_operation request of
             Browser_Status \<Rightarrow> BROWSER_PROTOCOL_VERSION
           | Browser_FillSingle \<Rightarrow> FILL_PROTOCOL_VERSION)
     in
     if br_protocol_version request \<noteq> version
     then Err \<lparr>rf_request_id = request_id, rf_error = Host_Incompatible, rf_version = version\<rparr>
     else if request_id = None
             \<or> \<not> (MIN_TIMEOUT_MS \<le> br_timeout_ms request \<and> br_timeout_ms request \<le> MAX_TIMEOUT_MS)
     then Err \<lparr>rf_request_id = request_id, rf_error = Host_InvalidRequest, rf_version = version\<rparr>
     else
       and_then (ok_or \<lparr>rf_request_id = Some (br_request_id request),
                        rf_error = Host_InvalidRequest, rf_version = version\<rparr>
                   (fill_context_for lib (br_request_id request) (br_operation request)
                      (br_context request)))
         (\<lambda>fill_context.
       Ok \<lparr>vr_request_id = br_request_id request, vr_timeout = ucast (br_timeout_ms request),
           vr_fill_context = fill_context\<rparr>))"

section \<open>Reading a message\<close>

text \<open>
  A reader is the sequence of outcomes its next calls of \<open>read\<close> draw from: data, an interruption, a
  failure; after the last one it is at its end. A \<open>read\<close> into a buffer of \<open>n\<close> bytes takes at most
  \<open>n\<close> bytes of the first chunk and leaves the rest. \<open>read_exact\<close> is the library's loop: it goes on
  after an interruption and fails at the end of the stream.
\<close>

datatype read_event = Read_Data bytes | Read_Interrupted | Read_Failed
datatype read_outcome = Got bytes | Interrupted | Failed

type_synonym reader = "read_event list"

fun reader_read :: "nat \<Rightarrow> reader \<Rightarrow> read_outcome \<times> reader" where
  "reader_read n [] = (Got [], [])"
| "reader_read n (Read_Data bs # r) =
     (Got (take n bs), if length bs \<le> n then r else Read_Data (drop n bs) # r)"
| "reader_read n (Read_Interrupted # r) = (Interrupted, r)"
| "reader_read n (Read_Failed # r) = (Failed, r)"

lemma reader_read_length:
  "reader_read n r = (out, r') \<Longrightarrow> length r' \<le> length r \<and> (out = Interrupted \<longrightarrow> length r' < length r)"
  by (cases "(n, r)" rule: reader_read.cases) auto

lemma reader_read_got: "reader_read n r = (Got bs, r') \<Longrightarrow> length bs \<le> n"
  by (cases "(n, r)" rule: reader_read.cases) auto

text \<open>The loop that reads the first byte: \<open>None\<close> is the end of the stream.\<close>

function read_first :: "reader \<Rightarrow> reader \<times> (u8 option, unit) result" where
  "read_first r =
     (case reader_read 1 r of
        (Got bs, r') \<Rightarrow> (r', case bs of [] \<Rightarrow> Ok None | [b] \<Rightarrow> Ok (Some b) | _ \<Rightarrow> Err ())
      | (Interrupted, r') \<Rightarrow> read_first r'
      | (Failed, r') \<Rightarrow> (r', Err ()))"
  by pat_completeness auto
termination
  by (relation "measure length") (auto dest!: sym [of "(Interrupted, _)"] reader_read_length)

function read_exact :: "nat \<Rightarrow> reader \<Rightarrow> reader \<times> (bytes, unit) result" where
  "read_exact n r =
     (if n = 0 then (r, Ok [])
      else case reader_read n r of
        (Got bs, r') \<Rightarrow>
          if bs = [] then (r', Err ())
          else (case read_exact (n - length bs) r' of
              (r'', Ok cs) \<Rightarrow> (r'', Ok (bs @ cs))
            | (r'', e) \<Rightarrow> (r'', e))
      | (Interrupted, r') \<Rightarrow> read_exact n r'
      | (Failed, r') \<Rightarrow> (r', Err ()))"
  by pat_completeness auto
termination
proof (relation "measure (\<lambda>(n, r). n + length r)"; clarsimp)
  fix n r bs r'
  assume "(Got bs, r') = reader_read n r" "0 < n" "bs \<noteq> []"
  with reader_read_length [of n r "Got bs" r'] reader_read_got [of n r bs r']
  show "n - length bs + length r' < n + length r" by (cases bs) auto
next
  fix n r r'
  assume "(Interrupted, r') = reader_read n r"
  with reader_read_length [of n r Interrupted r'] show "length r' < length r" by simp
qed

declare read_first.simps [simp del] read_exact.simps [simp del]

text \<open>\<open>to_ne_bytes\<close> and \<open>from_ne_bytes\<close> at 32 bits.\<close>

definition ne_bytes :: "nat \<Rightarrow> bytes" where
  "ne_bytes n = rev (be_encode 4 n)"

definition from_ne_bytes :: "bytes \<Rightarrow> nat" where
  "from_ne_bytes bs = be_decode (rev bs)"

definition read_frame :: "reader \<Rightarrow> reader \<times> (read_frame_outcome, unit) result" where
  "read_frame r =
     (case read_first r of
        (r, Ok None) \<Rightarrow> (r, Ok EndOfStream)
      | (r, Ok (Some b)) \<Rightarrow>
          (case read_exact 3 r of
             (r, Ok bs) \<Rightarrow>
               let length_value = from_ne_bytes (b # bs) in
               if length_value = 0 \<or> length_value > MAX_BROWSER_MESSAGE_BYTES then (r, Err ())
               else (case read_exact length_value r of
                  (r, Ok message) \<Rightarrow> (r, Ok (Message message))
                | (r, _) \<Rightarrow> (r, Err ()))
           | (r, _) \<Rightarrow> (r, Err ()))
      | (r, _) \<Rightarrow> (r, Err ()))"

section \<open>Writing a reply\<close>

text \<open>\<open>JsonBuffer\<close> takes a piece only while the whole stays within the bound.\<close>

definition JsonBuffer_write :: "bytes \<Rightarrow> bytes \<Rightarrow> bytes option" where
  "JsonBuffer_write buffer piece =
     (if length piece > MAX_BROWSER_RESPONSE_BYTES - length buffer then None
      else Some (buffer @ piece))"

fun write_pieces :: "bytes \<Rightarrow> bytes list \<Rightarrow> bytes option" where
  "write_pieces buffer [] = Some buffer"
| "write_pieces buffer (piece # pieces) = do {
     buffer \<leftarrow> JsonBuffer_write buffer piece;
     write_pieces buffer pieces }"

text \<open>The writer the caller supplies: \<open>write_all\<close> and \<open>flush\<close>, which report success.\<close>

record 's output_ops =
  out_write_all :: "'s \<Rightarrow> bytes \<Rightarrow> 's \<times> bool"
  out_flush :: "'s \<Rightarrow> 's \<times> bool"

definition write_response ::
    "host_libraries \<Rightarrow> 's output_ops \<Rightarrow> 's \<Rightarrow> browser_response \<Rightarrow> 's \<times> (unit, serve_error) result" where
  "write_response lib ops w response =
     (case write_pieces [] (json_to_writer lib response) of
        None \<Rightarrow> (w, Err Serve_Output)
      | Some message \<Rightarrow>
          if length message \<ge> 2 ^ 32 then (w, Err Serve_Output)
          else (case out_write_all ops w (ne_bytes (length message)) of
              (w, False) \<Rightarrow> (w, Err Serve_Output)
            | (w, True) \<Rightarrow> (case out_write_all ops w message of
                (w, False) \<Rightarrow> (w, Err Serve_Output)
              | (w, True) \<Rightarrow> (case out_flush ops w of
                  (w, False) \<Rightarrow> (w, Err Serve_Output)
                | (w, True) \<Rightarrow> (w, Ok ())))))"

section \<open>Serving one request\<close>

fun fill_error :: "bridge_failure \<Rightarrow> browser_error" where
  "fill_error Bridge_AgentUnavailable = Host_AgentUnavailable"
| "fill_error Bridge_Incompatible = Host_Incompatible"
| "fill_error Bridge_Locked = Host_Locked"
| "fill_error Bridge_Cancelled = Host_Cancelled"
| "fill_error Bridge_TimedOut = Host_TimedOut"
| "fill_error Bridge_OperationFailed = Host_OperationFailed"

fun status_error :: "bridge_failure \<Rightarrow> browser_error" where
  "status_error Bridge_AgentUnavailable = Host_AgentUnavailable"
| "status_error Bridge_Incompatible = Host_Incompatible"
| "status_error _ = Host_OperationFailed"

text \<open>The two callbacks act on the world they share with the agent; a callback does not panic.\<close>

type_synonym 'w status_call = "u64 \<Rightarrow> 'w \<Rightarrow> 'w \<times> (bridge_failure + agent_status)"
type_synonym 'w fill_call =
  "browser_context \<Rightarrow> u64 \<Rightarrow> 'w \<Rightarrow> 'w \<times> (bridge_failure + browser_credential option)"

definition serve_with_fill ::
    "host_libraries \<Rightarrow> 's output_ops \<Rightarrow> 'w status_call \<Rightarrow> 'w fill_call \<Rightarrow> reader \<Rightarrow> 's \<Rightarrow> 'w
       \<Rightarrow> reader \<times> 's \<times> 'w \<times> (unit, serve_error) result" where
  "serve_with_fill lib ops status fill r w world =
     (case read_frame r of
        (r, Ok EndOfStream) \<Rightarrow> (r, w, world, Ok ())
      | (r, Ok (Message message)) \<Rightarrow>
          (case validate_request lib message of
             Ok request \<Rightarrow>
               (case vr_fill_context request of
                  Some context \<Rightarrow>
                    (case fill context (vr_timeout request) world of (world, outcome) \<Rightarrow>
                      let response = (case outcome of
                          Inr (Some credential) \<Rightarrow>
                            Resp_Credential FILL_PROTOCOL_VERSION (vr_request_id request)
                              (cr_username credential) (cr_password credential)
                        | Inr None \<Rightarrow>
                            Resp_NoCredential FILL_PROTOCOL_VERSION (vr_request_id request)
                        | Inl e \<Rightarrow>
                            Resp_Error FILL_PROTOCOL_VERSION (Some (vr_request_id request))
                              (fill_error e))
                      in case write_response lib ops w response of (w, x) \<Rightarrow> (r, w, world, x))
                | None \<Rightarrow>
                    (case status (vr_timeout request) world of (world, outcome) \<Rightarrow>
                      let response = (case outcome of
                          Inr agent_status \<Rightarrow>
                            Resp_Ok BROWSER_PROTOCOL_VERSION (vr_request_id request) agent_status
                        | Inl e \<Rightarrow>
                            Resp_Error BROWSER_PROTOCOL_VERSION (Some (vr_request_id request))
                              (status_error e))
                      in case write_response lib ops w response of (w, x) \<Rightarrow> (r, w, world, x)))
           | Err failure \<Rightarrow>
               (case write_response lib ops w
                   (Resp_Error (rf_version failure) (rf_request_id failure) (rf_error failure)) of
                  (w, Ok _) \<Rightarrow> (r, w, world, Ok ())
                | (w, e) \<Rightarrow> (r, w, world, e))
           | Panic \<Rightarrow> (r, w, world, Panic))
      | (r, _) \<Rightarrow>
          (case write_response lib ops w
              (Resp_Error BROWSER_PROTOCOL_VERSION None Host_InvalidRequest) of
             (w, Ok _) \<Rightarrow> (r, w, world, Err Serve_Input)
           | (w, e) \<Rightarrow> (r, w, world, e)))"

section \<open>Arguments from the browser\<close>

definition valid_extension_origin :: "bytes \<Rightarrow> bool" where
  "valid_extension_origin v \<longleftrightarrow>
     (let prefix = ascii ''chrome-extension://'' in
      length v = length prefix + 33
      \<and> take (length prefix) v = prefix
      \<and> last v = 0x2F
      \<and> list_all (\<lambda>b. 0x61 \<le> b \<and> b \<le> 0x70)
           (take (length v - 1 - length prefix) (drop (length prefix) v)))"

definition valid_parent_window :: "bytes \<Rightarrow> bool" where
  "valid_parent_window v \<longleftrightarrow>
     (let prefix = ascii ''--parent-window='' in
      take (length prefix) v = prefix
      \<and> (let handle = drop (length prefix) v in
         handle \<noteq> [] \<and> length handle \<le> 20 \<and> list_all (\<lambda>b. 0x30 \<le> b \<and> b \<le> 0x39) handle))"

section \<open>Hexadecimal identifiers are canonical\<close>

definition hex_char :: "nat \<Rightarrow> u8" where
  "hex_char x = (if x < 10 then of_nat (0x30 + x) else of_nat (0x61 + (x - 10)))"

definition hex_encode :: "bytes \<Rightarrow> bytes" where
  "hex_encode bs = concat (map (\<lambda>b. [hex_char (unat b div 16), hex_char (unat b mod 16)]) bs)"

definition uuid_format :: "bytes \<Rightarrow> bytes" where
  "uuid_format h = take 8 h @ 0x2D # take 4 (drop 8 h) @ 0x2D # take 4 (drop 12 h)
     @ 0x2D # take 4 (drop 16 h) @ 0x2D # drop 20 h"

lemma hex_char_table:
  "list_all (\<lambda>x. is_lower_hex (hex_char x) \<and> hex_digit (hex_char x) = Some x
      \<and> (hex_char x = 0x30) = (x = 0)) [0..<16]"
  by code_simp

lemma hex_char_lower: "x < 16 \<Longrightarrow> is_lower_hex (hex_char x)"
  and hex_digit_hex_char: "x < 16 \<Longrightarrow> hex_digit (hex_char x) = Some x"
  and hex_char_zero: "x < 16 \<Longrightarrow> hex_char x = 0x30 \<longleftrightarrow> x = 0"
  using hex_char_table by (auto simp: list_all_iff)

lemma lower_hex_digit:
  assumes "is_lower_hex a"
  obtains x where "x < 16" "a = hex_char x"
proof (cases "a \<le> 0x39")
  case True
  with assms have "0x30 \<le> unat a" "unat a \<le> 0x39"
    by (auto simp: is_lower_hex_def word_le_nat_alt)
  then have "unat a - 0x30 < 10" "of_nat (0x30 + (unat a - 0x30)) = a" by auto
  then show thesis using that [of "unat a - 0x30"] by (simp add: hex_char_def del: of_nat_add)
next
  case False
  with assms have "0x61 \<le> unat a" "unat a \<le> 0x66"
    by (auto simp: is_lower_hex_def word_le_nat_alt)
  then have "unat a - 0x61 + 10 < 16" "of_nat (0x61 + (unat a - 0x61)) = a" by auto
  then show thesis using that [of "unat a - 0x61 + 10"] by (simp add: hex_char_def del: of_nat_add)
qed

lemma lower_hex_not_plus: "is_lower_hex a \<Longrightarrow> a \<noteq> 0x2B \<and> a \<noteq> 0x2D \<and> a < 0x80"
  by (auto simp: is_lower_hex_def word_le_nat_alt word_less_nat_alt)

lemma u8_from_hex2_hex_char:
  assumes "x < 16" "y < 16"
  shows "u8_from_hex2 (hex_char x) (hex_char y) = Some (of_nat (16 * x + y))"
  using assms lower_hex_not_plus [OF hex_char_lower [OF assms(1)]]
  by (simp add: u8_from_hex2_def hex_digit_hex_char)

lemma byte_nibbles: "(of_nat (16 * (unat b div 16) + unat b mod 16) :: u8) = b"
  by simp

lemma hex_encode_simps [simp]:
  "hex_encode [] = []"
  "hex_encode (b # bs) = hex_char (unat b div 16) # hex_char (unat b mod 16) # hex_encode bs"
  by (simp_all add: hex_encode_def)

lemma length_hex_encode [simp]: "length (hex_encode bs) = 2 * length bs"
  by (induction bs) auto

lemma nibbles_less: "unat (b :: u8) div 16 < 16" "unat b mod 16 < 16"
  using unat_u8_less [of b] by auto

lemma hex_encode_lower: "list_all is_lower_hex (hex_encode bs)"
  by (induction bs) (auto simp: hex_char_lower nibbles_less)

lemma parse_hex_pairs_encode: "parse_hex_pairs (hex_encode bs) = Some bs"
proof (induction bs)
  case (Cons b bs)
  then show ?case by (simp add: u8_from_hex2_hex_char nibbles_less byte_nibbles del: of_nat_add of_nat_mult)
qed simp

lemma lower_hex_is_encoding:
  "list_all is_lower_hex v \<Longrightarrow> even (length v) \<Longrightarrow> \<exists>bs. v = hex_encode bs"
proof (induction v rule: parse_hex_pairs.induct)
  case (1 a b s)
  then obtain x y where xy: "x < 16" "a = hex_char x" "y < 16" "b = hex_char y"
    by (metis list.pred_inject(2) lower_hex_digit)
  then have "u8_from_hex2 a b = Some (of_nat (16 * x + y))" by (simp only: u8_from_hex2_hex_char)
  with 1 obtain bs where "s = hex_encode bs" by auto
  moreover have "unat (of_nat (16 * x + y) :: u8) = 16 * x + y"
    using xy by (simp add: unat_of_nat del: of_nat_add of_nat_mult)
  ultimately have "a # b # s = hex_encode (of_nat (16 * x + y) # bs)"
    using xy by (simp del: of_nat_add of_nat_mult)
  then show ?case by blast
qed (auto intro: exI [of _ "[]"])

lemma hex_encode_zeros: "list_ex (\<lambda>c. c \<noteq> 0x30) (hex_encode bs) \<longleftrightarrow> bs \<noteq> zeros (length bs)"
proof (induction bs)
  case (Cons b bs)
  have "b \<noteq> 0 \<longleftrightarrow> unat b div 16 \<noteq> 0 \<or> unat b mod 16 \<noteq> 0"
    by (metis byte_nibbles add.right_neutral div_0 mod_0 mult_0_right of_nat_0 unat_0)
  with Cons show ?case by (simp add: hex_char_zero nibbles_less zeros_def)
qed (simp add: zeros_def)

lemma parse_hex_id_iff:
  "parse_hex_id v = Some bs \<longleftrightarrow> length bs = 16 \<and> bs \<noteq> zeros 16 \<and> v = hex_encode bs"
proof
  assume *: "parse_hex_id v = Some bs"
  then have v: "length v = 32" "list_all is_lower_hex v" "list_ex (\<lambda>b. b \<noteq> 0x30) v"
    "parse_hex_pairs v = Some bs"
    by (auto simp: parse_hex_id_def valid_request_id_def split: if_splits)
  then obtain cs where "v = hex_encode cs" using lower_hex_is_encoding by fastforce
  with v show "length bs = 16 \<and> bs \<noteq> zeros 16 \<and> v = hex_encode bs"
    using hex_encode_zeros [of cs] by (auto simp: parse_hex_pairs_encode)
next
  assume "length bs = 16 \<and> bs \<noteq> zeros 16 \<and> v = hex_encode bs"
  then show "parse_hex_id v = Some bs"
    using hex_encode_zeros [of bs]
    by (auto simp: parse_hex_id_def valid_request_id_def hex_encode_lower parse_hex_pairs_encode)
qed

lemma filter_full: "length (filter P xs) = length xs \<Longrightarrow> filter P xs = xs"
  by (metis filter_id_conv length_filter_less less_irrefl)

lemma split_length: "length xs = n + m \<Longrightarrow> \<exists>ys zs. xs = ys @ zs \<and> length ys = n \<and> length zs = m"
  by (intro exI [of _ "take n xs"] exI [of _ "drop n xs"]) auto

lemma uuid_parts:
  assumes "length h = 32"
  obtains a b c d e where "h = a @ b @ c @ d @ e" "length a = 8" "length b = 4" "length c = 4"
    "length d = 4" "length e = 12"
    "uuid_format h = a @ 0x2D # b @ 0x2D # c @ 0x2D # d @ 0x2D # e"
proof -
  obtain a r1 where 1: "h = a @ r1" "length a = 8" "length r1 = 24"
    using split_length [of h 8 24] assms by auto
  obtain b r2 where 2: "r1 = b @ r2" "length b = 4" "length r2 = 20"
    using split_length [of r1 4 20] 1 by auto
  obtain c r3 where 3: "r2 = c @ r3" "length c = 4" "length r3 = 16"
    using split_length [of r2 4 16] 2 by auto
  obtain d e where 4: "r3 = d @ e" "length d = 4" "length e = 12"
    using split_length [of r3 4 12] 3 by auto
  from 1 2 3 4 show thesis by (intro that) (simp_all add: uuid_format_def)
qed

lemma document_id_parts:
  assumes "length v = 36" "\<forall>i \<in> {8, 13, 18, 23}. v ! i = 0x2D"
  obtains a b c d e where "length a = 8" "length b = 4" "length c = 4" "length d = 4" "length e = 12"
    "v = a @ 0x2D # b @ 0x2D # c @ 0x2D # d @ 0x2D # e"
proof -
  obtain a r1 where 1: "v = a @ r1" "length a = 8" "length r1 = 28"
    using split_length [of v 8 28] assms by auto
  obtain b r2 where 2: "r1 = 0x2D # b @ r2" "length b = 4" "length r2 = 23"
    using split_length [of "tl r1" 4 23] 1 assms(2) by (cases r1) (auto simp: nth_append)
  obtain c r3 where 3: "r2 = 0x2D # c @ r3" "length c = 4" "length r3 = 18"
    using split_length [of "tl r2" 4 18] 1 2 assms(2) by (cases r2) (auto simp: nth_append)
  obtain d r4 where 4: "r3 = 0x2D # d @ r4" "length d = 4" "length r4 = 13"
    using split_length [of "tl r3" 4 13] 1 2 3 assms(2) by (cases r3) (auto simp: nth_append)
  obtain e where 5: "r4 = 0x2D # e" "length e = 12"
    using 1 2 3 4 assms(2) by (cases r4) (auto simp: nth_append)
  from 1 2 3 4 5 show thesis by (intro that) simp_all
qed

lemma parse_document_id_iff:
  "parse_document_id v = Some bs \<longleftrightarrow>
     length bs = 16 \<and> bs \<noteq> zeros 16 \<and> v = uuid_format (hex_encode bs)"
proof
  assume *: "parse_document_id v = Some bs"
  then have v: "length v = 36" "\<forall>i \<in> {8, 13, 18, 23}. v ! i = 0x2D"
    and id: "length bs = 16" "bs \<noteq> zeros 16" "filter (\<lambda>b. b \<noteq> 0x2D) v = hex_encode bs"
    by (auto simp: parse_document_id_def parse_hex_id_iff split: if_splits)
  obtain a b c d e where len: "length a = 8" "length b = 4" "length c = 4" "length d = 4"
      "length e = 12" and parts: "v = a @ 0x2D # b @ 0x2D # c @ 0x2D # d @ 0x2D # e"
    using document_id_parts [OF v] by blast
  let ?f = "filter (\<lambda>b. b \<noteq> (0x2D :: u8))"
  have f: "length (?f a) + length (?f b) + length (?f c) + length (?f d) + length (?f e) = 32"
    using arg_cong [OF id(3), of length] id(1) parts by simp
  note le = length_filter_le [of "\<lambda>b. b \<noteq> (0x2D :: u8)"]
  have "?f a = a" "?f b = b" "?f c = c" "?f d = d" "?f e = e"
    using f len le [of a] le [of b] le [of c] le [of d] le [of e] by (auto intro!: filter_full)
  then have h: "hex_encode bs = a @ b @ c @ d @ e" using id(3) parts by simp
  have "v = uuid_format (hex_encode bs)" unfolding h uuid_format_def using len parts by simp
  with id show "length bs = 16 \<and> bs \<noteq> zeros 16 \<and> v = uuid_format (hex_encode bs)" by simp
next
  assume *: "length bs = 16 \<and> bs \<noteq> zeros 16 \<and> v = uuid_format (hex_encode bs)"
  let ?h = "hex_encode bs"
  have hex: "\<forall>b \<in> set ?h. b \<noteq> 0x2D \<and> b < 0x80"
    using hex_encode_lower [of bs] lower_hex_not_plus by (auto simp: list_all_iff)
  obtain a b c d e where parts: "?h = a @ b @ c @ d @ e" "length a = 8" "length b = 4"
      "length c = 4" "length d = 4" "length e = 12"
      "uuid_format ?h = a @ 0x2D # b @ 0x2D # c @ 0x2D # d @ 0x2D # e"
  proof (rule uuid_parts)
    show "length ?h = 32" using * by simp
  qed
  with hex have "filter (\<lambda>b. b \<noteq> 0x2D) v = ?h" "list_all (\<lambda>b. b < 0x80) v" "length v = 36"
    "\<forall>i \<in> {8, 13, 18, 23}. v ! i = 0x2D"
    using * by (auto simp: list_all_iff filter_id_conv nth_append)
  with * show "parse_document_id v = Some bs"
    by (simp add: parse_document_id_def parse_hex_id_iff)
qed

section \<open>Reading does not depend on how the input arrives\<close>

text \<open>The bytes a reader will deliver, and readers that neither fail nor deliver an empty chunk
  before their end.\<close>

fun stream_bytes :: "reader \<Rightarrow> bytes" where
  "stream_bytes [] = []"
| "stream_bytes (Read_Data bs # r) = bs @ stream_bytes r"
| "stream_bytes (_ # r) = stream_bytes r"

definition orderly :: "reader \<Rightarrow> bool" where
  "orderly r \<longleftrightarrow> Read_Failed \<notin> set r \<and> Read_Data [] \<notin> set r"

lemma orderly_Cons:
  "orderly (e # r) \<longleftrightarrow> e \<noteq> Read_Failed \<and> e \<noteq> Read_Data [] \<and> orderly r"
  by (auto simp: orderly_def)

lemma orderly_read:
  assumes "orderly r" "0 < n" "reader_read n r = (out, r')"
  shows "orderly r' \<and> (case out of
      Got bs \<Rightarrow> stream_bytes r = bs @ stream_bytes r' \<and> length bs \<le> n
                 \<and> (bs = [] \<longrightarrow> stream_bytes r = [])
    | Interrupted \<Rightarrow> stream_bytes r = stream_bytes r'
    | Failed \<Rightarrow> False)"
  using assms
  by (cases "(n, r)" rule: reader_read.cases) (auto simp: orderly_Cons orderly_def split: if_splits)

lemma read_first_orderly:
  "orderly r \<Longrightarrow> \<exists>r'. orderly r' \<and> read_first r =
     (case stream_bytes r of [] \<Rightarrow> (r', Ok None) | b # bs \<Rightarrow> (r', Ok (Some b)))
     \<and> stream_bytes r' = tl (stream_bytes r)"
proof (induction r rule: read_first.induct)
  case (1 r)
  obtain out r' where step: "reader_read 1 r = (out, r')" by fastforce
  note facts = orderly_read [OF 1(2) _ step]
  show ?case
  proof (cases out)
    case (Got bs)
    then have "length bs \<le> 1" using facts by simp
    then have "bs = [] \<or> (\<exists>b. bs = [b])" by (cases bs) auto
    with facts Got step show ?thesis by (subst read_first.simps) (auto split: list.splits)
  next
    case Interrupted
    with facts 1(1) [OF step [symmetric] Interrupted] step show ?thesis
      by (subst read_first.simps) simp
  qed (use facts in simp)
qed

lemma read_exact_orderly:
  "orderly r \<Longrightarrow> \<exists>r'. (if n \<le> length (stream_bytes r)
     then read_exact n r = (r', Ok (take n (stream_bytes r))) \<and> orderly r'
          \<and> stream_bytes r' = drop n (stream_bytes r)
     else read_exact n r = (r', Err ()))"
proof (induction n r rule: read_exact.induct)
  case (1 n r)
  show ?case
  proof (cases "n = 0")
    case False
    obtain out r' where step: "reader_read n r = (out, r')" by fastforce
    note facts = orderly_read [OF 1(3) _ step]
    show ?thesis
    proof (cases out)
      case (Got bs)
      show ?thesis
      proof (cases "bs = []")
        case True
        with facts Got step False show ?thesis by (subst (1 2) read_exact.simps) auto
      next
        case nonempty: False
        have "orderly r'" "stream_bytes r = bs @ stream_bytes r'" "length bs \<le> n"
          using facts Got False by auto
        with 1(1) [OF False step [symmetric] Got nonempty] Got step False nonempty show ?thesis
          by (subst (1 2) read_exact.simps) (auto split: if_splits)
      qed
    next
      case Interrupted
      with facts False 1(2) [OF False step [symmetric] Interrupted] step show ?thesis
        by (subst (1 2) read_exact.simps) auto
    qed (use facts False in simp)
  qed (simp add: read_exact.simps 1)
qed

lemma from_ne_bytes_less: "length bs = 4 \<Longrightarrow> from_ne_bytes bs < 2 ^ 32"
  using be_decode_less [of "rev bs"] by (simp add: from_ne_bytes_def)

lemma ne_bytes_from_ne_bytes: "length bs = 4 \<Longrightarrow> ne_bytes (from_ne_bytes bs) = bs"
  using be_encode_decode [of "rev bs"] by (simp add: ne_bytes_def from_ne_bytes_def del: be_encode_decode)

lemma from_ne_bytes_ne_bytes: "n < 2 ^ 32 \<Longrightarrow> from_ne_bytes (ne_bytes n) = n"
  by (simp add: ne_bytes_def from_ne_bytes_def)

lemma length_ne_bytes [simp]: "length (ne_bytes n) = 4"
  by (simp add: ne_bytes_def)

text \<open>The outcome of reading a frame as a function of the bytes alone.\<close>

definition frame_of :: "bytes \<Rightarrow> (read_frame_outcome \<times> bytes) option" where
  "frame_of bs =
     (let n = from_ne_bytes (take 4 bs); rest = drop 4 bs in
      if bs = [] then Some (EndOfStream, [])
      else if length bs < 4 \<or> n = 0 \<or> n > MAX_BROWSER_MESSAGE_BYTES \<or> length rest < n then None
      else Some (Message (take n rest), drop n rest))"

lemma read_frame_eq:
  assumes "orderly r"
  shows "\<exists>r'. (case frame_of (stream_bytes r) of
      Some (out, rest) \<Rightarrow> read_frame r = (r', Ok out) \<and> stream_bytes r' = rest \<and> orderly r'
    | None \<Rightarrow> read_frame r = (r', Err ()))"
proof -
  obtain r1 where r1: "orderly r1" "stream_bytes r1 = tl (stream_bytes r)"
    and first: "read_first r = (case stream_bytes r of [] \<Rightarrow> (r1, Ok None) | b # _ \<Rightarrow> (r1, Ok (Some b)))"
    using read_first_orderly [OF assms] by auto
  show ?thesis
  proof (cases "stream_bytes r")
    case Nil
    with first r1 show ?thesis by (auto simp: read_frame_def frame_of_def)
  next
    case (Cons b s)
    with r1 have s: "stream_bytes r1 = s" by simp
    obtain r2 where r2: "if 3 \<le> length s
        then read_exact 3 r1 = (r2, Ok (take 3 s)) \<and> orderly r2 \<and> stream_bytes r2 = drop 3 s
        else read_exact 3 r1 = (r2, Err ())"
      using read_exact_orderly [OF r1(1), of 3] s by auto
    let ?n = "from_ne_bytes (b # take 3 s)"
    show ?thesis
    proof (cases "3 \<le> length s \<and> ?n \<noteq> 0 \<and> ?n \<le> MAX_BROWSER_MESSAGE_BYTES")
      case True
      with r2 have o2: "orderly r2" "stream_bytes r2 = drop 3 s" by auto
      obtain r3 where "if ?n \<le> length (drop 3 s)
          then read_exact ?n r2 = (r3, Ok (take ?n (drop 3 s))) \<and> orderly r3
            \<and> stream_bytes r3 = drop ?n (drop 3 s)
          else read_exact ?n r2 = (r3, Err ())"
        using read_exact_orderly [OF o2(1), of ?n] unfolding o2(2) by blast
      with True Cons first r2 show ?thesis
        by (auto simp: read_frame_def frame_of_def Let_def split: if_splits)
    next
      case False
      with Cons first r2 show ?thesis
        by (auto simp: read_frame_def frame_of_def Let_def split: if_splits)
    qed
  qed
qed

text \<open>C27: the host reads messages the same way however the pipe delivers them. Whatever the chunks
  and interruptions, the end of the stream is reported exactly when no byte is left, a message is
  returned exactly when the input starts with its native-order length and all its bytes, between 1
  and 16384 of them, and nothing behind the message is consumed. Reading always ends.\<close>

theorem read_frame_exact:
  assumes "orderly r" and "read_frame r = (r', outcome)"
  shows "(outcome = Ok EndOfStream \<longleftrightarrow> stream_bytes r = [])
    \<and> (outcome = Ok (Message m) \<longleftrightarrow>
        m \<noteq> [] \<and> length m \<le> 16384 \<and> (\<exists>rest. stream_bytes r = ne_bytes (length m) @ m @ rest))
    \<and> (outcome = Ok (Message m) \<longrightarrow> stream_bytes r = ne_bytes (length m) @ m @ stream_bytes r')
    \<and> outcome \<noteq> Panic"
proof -
  let ?b = "stream_bytes r"
  have eq: "case frame_of ?b of
      Some (out, rest) \<Rightarrow> outcome = Ok out \<and> stream_bytes r' = rest | None \<Rightarrow> outcome = Err ()"
    using read_frame_eq [OF assms(1)] assms(2) by (auto split: option.splits)
  have prefix: "frame_of (ne_bytes (length m) @ m @ rest) = Some (Message m, rest)"
    if "m \<noteq> []" "length m \<le> 16384" for rest
    using that by (simp add: frame_of_def from_ne_bytes_ne_bytes)
  have message: "m \<noteq> [] \<and> length m \<le> 16384 \<and> ?b = ne_bytes (length m) @ m @ rest"
    if "frame_of ?b = Some (Message m, rest)" for rest
  proof -
    let ?n = "from_ne_bytes (take 4 ?b)"
    from that have n: "4 \<le> length ?b" "?n \<noteq> 0" "?n \<le> 16384" "?n \<le> length (drop 4 ?b)"
      and m: "m = take ?n (drop 4 ?b)" "rest = drop ?n (drop 4 ?b)"
      by (auto simp: frame_of_def Let_def split: if_splits)
    then have "length m = ?n" by simp
    moreover have "ne_bytes ?n = take 4 ?b" using n by (simp add: ne_bytes_from_ne_bytes)
    moreover have "take 4 ?b @ m @ rest = ?b" unfolding m append_take_drop_id ..
    ultimately show ?thesis using n by auto
  qed
  have eos: "frame_of ?b = Some (EndOfStream, rest) \<longleftrightarrow> ?b = [] \<and> rest = []" for rest
    by (auto simp: frame_of_def Let_def)
  show ?thesis
  proof (intro conjI)
    show "outcome = Ok EndOfStream \<longleftrightarrow> ?b = []"
      using eq eos by (auto split: option.splits prod.splits)
    show "outcome = Ok (Message m) \<longleftrightarrow> m \<noteq> [] \<and> length m \<le> 16384
        \<and> (\<exists>rest. ?b = ne_bytes (length m) @ m @ rest)"
      using eq message prefix by (auto split: option.splits prod.splits)
    show "outcome = Ok (Message m) \<longrightarrow> ?b = ne_bytes (length m) @ m @ stream_bytes r'"
      using eq message by (auto split: option.splits prod.splits)
    show "outcome \<noteq> Panic" using eq by (auto split: option.splits prod.splits)
  qed
qed

theorem read_frame_exact_witness:
  "snd (read_frame [Read_Interrupted, Read_Data [2], Read_Data [0, 0], Read_Interrupted,
      Read_Data [0, 0x7B], Read_Data [0x7D, 9]]) = Ok (Message [0x7B, 0x7D])"
proof -
  let ?r = "[Read_Interrupted, Read_Data [2], Read_Data [0, 0], Read_Interrupted,
      Read_Data [0, 0x7B], Read_Data [0x7D, 9 :: u8]]"
  have order: "orderly ?r" by (simp add: orderly_def)
  have "ne_bytes (Suc (Suc 0)) = [2, 0, 0, 0]" by (simp add: ne_bytes_def be_encode_numeral)
  then show ?thesis
    using read_frame_exact [OF order prod.collapse [symmetric], of "[0x7B, 0x7D]"] by simp
qed

section \<open>Which requests are accepted\<close>

lemma canonical_origin_iff: "canonical_origin lib v \<longleftrightarrow> BrowserOrigin_parse (Url_parse lib) v = Ok v"
  by (auto simp: canonical_origin_def BrowserOrigin_parse_Ok split: option.splits)

lemma fill_context_for_Status:
  "fill_context_for lib rid Browser_Status c = Some f \<longleftrightarrow> c = Context_None \<and> f = None"
  by (cases c) auto

lemma fill_context_for_FillSingle:
  "fill_context_for lib rid Browser_FillSingle c = Some f \<longleftrightarrow>
     (\<exists>tab i doc v. c = Context_ExactHttps tab 0 (uuid_format (hex_encode doc)) v v
        \<and> length i = 16 \<and> i \<noteq> zeros 16 \<and> rid = hex_encode i
        \<and> length doc = 16 \<and> doc \<noteq> zeros 16 \<and> tab \<le> 0x7FFFFFFF
        \<and> v \<noteq> [] \<and> BrowserOrigin_parse (Url_parse lib) v = Ok v
        \<and> f = Some \<lparr>bc_request_id = i, bc_tab_id = tab, bc_document_id = doc,
                  bc_top_origin = v, bc_frame_origin = v\<rparr>)"
proof (cases c)
  case (Context_ExactHttps tab frm docid top_o frame_o)
  have "fill_context_for lib rid Browser_FillSingle c = Some f \<longleftrightarrow>
      (\<exists>i doc x. parse_hex_id rid = Some i \<and> parse_document_id docid = Some doc
        \<and> canonical_origin lib top_o \<and> canonical_origin lib frame_o
        \<and> BrowserContext_new i tab frm doc top_o frame_o = Ok x \<and> f = Some x)"
    by (auto simp: Context_ExactHttps ok_Some split: option.splits)
  moreover have "BrowserOrigin_parse (Url_parse lib) v = Ok v \<Longrightarrow> length v \<le> 2048" for v
    by (simp add: BrowserOrigin_parse_Ok)
  ultimately show ?thesis
    by (auto simp: Context_ExactHttps canonical_origin_iff BrowserContext_new_Ok
        parse_hex_id_iff parse_document_id_iff)
qed simp

lemma validate_request_Ok:
  "validate_request lib bs = Ok v \<longleftrightarrow>
     (\<exists>req. json_from_slice lib bs = Some req \<and> valid_request_id (br_request_id req)
        \<and> 100 \<le> br_timeout_ms req \<and> br_timeout_ms req \<le> 5000
        \<and> br_protocol_version req = (case br_operation req of Browser_Status \<Rightarrow> 1 | Browser_FillSingle \<Rightarrow> 2)
        \<and> fill_context_for lib (br_request_id req) (br_operation req) (br_context req)
            = Some (vr_fill_context v)
        \<and> vr_request_id v = br_request_id req \<and> vr_timeout v = ucast (br_timeout_ms req))"
  by (cases "json_from_slice lib bs"; cases v)
     (auto simp: validate_request_def Let_def result_simps split: if_splits browser_operation.splits
        option.splits)

end
