(* ===== verification/Host_Serve.thy ===== *)
theory Host_Serve
  imports Host_Protocol
begin

text \<open>
  What the native host promises the browser and the user: which requests reach the agent, and that
  each request gets exactly one reply that fits. The two libraries enter through the interface
  \<open>host_json\<close>, which an executable serializer in the format of \<open>serde_json\<close> satisfies.
\<close>

section \<open>Interface: the JSON library\<close>

text \<open>
  Strings of a request are Rust strings, hence valid UTF-8. A serialized reply has a bounded frame
  around its strings, and escaping makes no byte of a string longer than six.
\<close>

fun context_strings :: "request_context \<Rightarrow> bytes list" where
  "context_strings Context_None = []"
| "context_strings (Context_ExactHttps tab frm doc top_o frame_o) = [doc, top_o, frame_o]"

fun reply_text :: "browser_response \<Rightarrow> nat" where
  "reply_text (Resp_Credential v i u p) = length i + length u + length p"
| "reply_text (Resp_NoCredential v i) = length i"
| "reply_text (Resp_Ok v i s) = length i"
| "reply_text (Resp_Error v i e) = (case i of None \<Rightarrow> 0 | Some x \<Rightarrow> length x)"

locale host_json =
  fixes lib :: host_libraries
  assumes request_strings: "json_from_slice lib bs = Some req \<Longrightarrow>
      list_all utf8_valid (br_request_id req # context_strings (br_context req))"
    and reply_size: "length (concat (json_to_writer lib response)) \<le> 6 * reply_text response + 256"
begin

lemma accepted_context_valid:
  assumes "validate_request lib bs = Ok v" "vr_fill_context v = Some context"
  shows "BrowserContext_valid context"
proof -
  from assms obtain req where req: "json_from_slice lib bs = Some req"
    and fill: "fill_context_for lib (br_request_id req) (br_operation req) (br_context req)
       = Some (Some context)" by (auto simp: validate_request_Ok)
  then have "br_operation req = Browser_FillSingle"
    by (cases "br_operation req") (auto simp: fill_context_for_Status)
  with fill req request_strings [OF req] show ?thesis
    by (auto simp: fill_context_for_FillSingle BrowserContext_valid_def BrowserOrigin_parse_Ok)
qed

lemma accepted_request_id:
  "validate_request lib bs = Ok v \<Longrightarrow> length (vr_request_id v) = 32"
  by (auto simp: validate_request_Ok valid_request_id_def)

lemma refused_request_id:
  "validate_request lib bs = Err f \<Longrightarrow> case rf_request_id f of None \<Rightarrow> True | Some i \<Rightarrow> length i = 32"
  by (cases "json_from_slice lib bs")
     (auto simp: validate_request_def Let_def valid_request_id_def result_simps
        split: if_splits option.splits)

end

lemma write_pieces_eq:
  "length buffer + length (concat pieces) \<le> MAX_BROWSER_RESPONSE_BYTES \<Longrightarrow>
     write_pieces buffer pieces = Some (buffer @ concat pieces)"
  by (induction pieces arbitrary: buffer) (auto simp: JsonBuffer_write_def)

lemma validate_request_no_panic: "validate_request lib bs \<noteq> Panic"
  by (cases "json_from_slice lib bs")
     (auto simp: validate_request_def Let_def result_simps split: if_splits option.splits)

lemma read_frame_no_panic: "snd (read_frame r) \<noteq> Panic"
  by (auto simp: read_frame_def Let_def split: prod.splits result.splits option.splits)

section \<open>One request, one reply\<close>

text \<open>A writer that keeps what it is given, as a pipe with room does.\<close>

definition vec_output :: "bytes output_ops" where
  "vec_output = \<lparr>out_write_all = (\<lambda>w bs. (w @ bs, True)), out_flush = (\<lambda>w. (w, True))\<rparr>"

definition reply_frame :: "host_libraries \<Rightarrow> browser_response \<Rightarrow> bytes" where
  "reply_frame lib response =
     (let message = concat (json_to_writer lib response) in ne_bytes (length message) @ message)"

context host_json
begin

lemma write_response_vec:
  assumes "6 * reply_text response + 256 \<le> MAX_BROWSER_RESPONSE_BYTES"
  shows "write_response lib vec_output w response = (w @ reply_frame lib response, Ok ())"
    and "length (concat (json_to_writer lib response)) \<le> 131072"
proof -
  have size: "length (concat (json_to_writer lib response)) \<le> MAX_BROWSER_RESPONSE_BYTES"
    using assms reply_size [of response] by linarith
  then show "length (concat (json_to_writer lib response)) \<le> 131072" by simp
  have "write_pieces [] (json_to_writer lib response) = Some (concat (json_to_writer lib response))"
    using write_pieces_eq [of "[]" "json_to_writer lib response"] size by simp
  then show "write_response lib vec_output w response = (w @ reply_frame lib response, Ok ())"
    using size by (simp add: write_response_def vec_output_def reply_frame_def Let_def)
qed

end

section \<open>An executable instance\<close>

text \<open>The JSON text of a reply as \<open>serde_json\<close> writes it: escapes for the quotation mark, the
  backslash and the control characters, every other byte as it is.\<close>

definition json_escape :: "u8 \<Rightarrow> bytes" where
  "json_escape b =
     (if b = 0x22 then [0x5C, 0x22] else if b = 0x5C then [0x5C, 0x5C]
      else if b = 0x08 then ascii [CHR 0x5C, CHR ''b''] else if b = 0x0C then ascii [CHR 0x5C, CHR ''f'']
      else if b = 0x0A then ascii [CHR 0x5C, CHR ''n''] else if b = 0x0D then ascii [CHR 0x5C, CHR ''r'']
      else if b = 0x09 then ascii [CHR 0x5C, CHR ''t'']
      else if b < 0x20 then ascii [CHR 0x5C, CHR ''u'', CHR ''0'', CHR ''0'']
        @ [hex_char (unat b div 16), hex_char (unat b mod 16)]
      else [b])"

definition json_string :: "bytes \<Rightarrow> bytes" where
  "json_string s = 0x22 # concat (map json_escape s) @ [0x22]"

definition json_u16 :: "u16 \<Rightarrow> bytes" where
  "json_u16 v = (let digit = (\<lambda>k. of_nat (0x30 + unat v div 10 ^ k mod 10)) in
     dropWhile (\<lambda>d. d = 0x30) [digit 4, digit 3, digit 2, digit 1] @ [digit 0])"

fun json_status :: "agent_status \<Rightarrow> bytes" where
  "json_status Status_Starting = ascii ''starting''"
| "json_status Status_NoVault = ascii ''noVault''"
| "json_status Status_Locked = ascii ''locked''"
| "json_status Status_Unlocking = ascii ''unlocking''"
| "json_status Status_Unlocked = ascii ''unlocked''"
| "json_status Status_Updating = ascii ''updating''"
| "json_status Status_ShuttingDown = ascii ''shuttingDown''"

fun json_error :: "browser_error \<Rightarrow> bytes" where
  "json_error Host_InvalidRequest = ascii ''invalidRequest''"
| "json_error Host_Incompatible = ascii ''incompatible''"
| "json_error Host_AgentUnavailable = ascii ''agentUnavailable''"
| "json_error Host_OperationFailed = ascii ''operationFailed''"
| "json_error Host_Locked = ascii ''locked''"
| "json_error Host_Cancelled = ascii ''cancelled''"
| "json_error Host_TimedOut = ascii ''timedOut''"

fun json_fields :: "(bytes \<times> bytes) list \<Rightarrow> bytes list" where
  "json_fields [] = [[0x7D]]"
| "json_fields ((k, v) # fs) = [0x2C] # (0x22 # k @ [0x22, 0x3A]) # v # json_fields fs"

definition json_object :: "bytes \<Rightarrow> u16 \<Rightarrow> (bytes \<times> bytes) list \<Rightarrow> bytes list" where
  "json_object tag v kvs =
     (0x7B # json_string (ascii ''status'') @ [0x3A]) # json_string tag
       # json_fields ((ascii ''protocolVersion'', json_u16 v) # kvs)"

fun json_reply :: "browser_response \<Rightarrow> bytes list" where
  "json_reply (Resp_Credential v i u p) = json_object (ascii ''credential'') v
     [(ascii ''requestId'', json_string i), (ascii ''username'', json_string u),
      (ascii ''password'', json_string p)]"
| "json_reply (Resp_NoCredential v i) = json_object (ascii ''noCredential'') v
     [(ascii ''requestId'', json_string i)]"
| "json_reply (Resp_Ok v i st) = json_object (ascii ''ok'') v
     [(ascii ''requestId'', json_string i), (ascii ''agentStatus'', json_string (json_status st))]"
| "json_reply (Resp_Error v i e) = json_object (ascii ''error'') v
     [(ascii ''requestId'', case i of None \<Rightarrow> ascii ''null'' | Some x \<Rightarrow> json_string x),
      (ascii ''error'', json_string (json_error e))]"

text \<open>A request the extension sends to fill the one account of a login page, and libraries that
  recognise it.\<close>

definition fill_request :: browser_request where
  "fill_request = \<lparr>br_protocol_version = 2, br_request_id = hex_encode (replicate 16 0xA1),
     br_operation = Browser_FillSingle,
     br_context = Context_ExactHttps 7 0 (uuid_format (hex_encode (replicate 16 0x5C)))
       (ascii ''https://example.com'') (ascii ''https://example.com''),
     br_timeout_ms = 2000\<rparr>"

definition sample_libraries :: host_libraries where
  "sample_libraries =
     \<lparr>json_from_slice = (\<lambda>bs. if bs = [0x7B, 0x7D] then Some fill_request else None),
      json_to_writer = json_reply,
      Url_parse = (\<lambda>v. if take 8 v = ascii ''https://''
        then Some \<lparr>url_scheme = ascii ''https'', url_username = [], url_password = None,
          url_host = Some (drop 8 v), url_port = None, url_path = ascii ''/'', url_query = None,
          url_fragment = None, url_origin_ascii = v\<rparr> else None)\<rparr>"

lemma length_ascii [simp]: "length (ascii s) = length s"
  by (simp add: ascii_def)

lemma json_escape_length: "length (json_escape b) \<le> 6"
  by (simp add: json_escape_def)

lemma json_string_length: "length (json_string s) \<le> 6 * length s + 2"
proof -
  have "length (concat (map json_escape s)) \<le> 6 * length s"
  proof (induction s)
    case (Cons b s)
    then show ?case using json_escape_length [of b] by simp
  qed simp
  then show ?thesis by (simp add: json_string_def)
qed

lemma json_u16_length: "length (json_u16 v) \<le> 5"
proof -
  have "length (dropWhile P [a, b, c, d]) \<le> 4" for P :: "u8 \<Rightarrow> bool" and a b c d
    by simp
  then show ?thesis unfolding json_u16_def Let_def length_append by simp
qed

lemma json_reply_length: "length (concat (json_reply response)) \<le> 6 * reply_text response + 256"
proof (cases response)
  case (Resp_Credential v i u p)
  then show ?thesis
    using json_string_length [of i] json_string_length [of u] json_string_length [of p]
      json_u16_length [of v] json_string_length [of "ascii ''credential''"]
      json_string_length [of "ascii ''status''"]
    by (simp add: json_object_def)
next
  case (Resp_NoCredential v i)
  then show ?thesis
    using json_string_length [of i] json_u16_length [of v] json_string_length [of "ascii ''status''"]
      json_string_length [of "ascii ''noCredential''"]
    by (simp add: json_object_def)
next
  case (Resp_Ok v i st)
  then show ?thesis
    using json_string_length [of i] json_u16_length [of v] json_string_length [of "ascii ''status''"]
      json_string_length [of "ascii ''ok''"] json_string_length [of "json_status st"]
    by (cases st) (simp_all add: json_object_def)
next
  case (Resp_Error v i e)
  have "length (json_error e) \<le> 16" by (cases e) simp_all
  moreover have "length (case i of None \<Rightarrow> ascii ''null'' | Some x \<Rightarrow> json_string x)
      \<le> 6 * (case i of None \<Rightarrow> 0 | Some x \<Rightarrow> length x) + 4"
    using json_string_length [of "the i"] by (cases i) simp_all
  ultimately show ?thesis
    using Resp_Error json_u16_length [of v] json_string_length [of "ascii ''status''"]
      json_string_length [of "ascii ''error''"] json_string_length [of "json_error e"]
    by (simp add: json_object_def)
qed

lemma fill_request_utf8:
  "list_all utf8_valid (br_request_id fill_request # context_strings (br_context fill_request))"
proof -
  have "list_all (list_all (\<lambda>b. b < 0x80))
      (br_request_id fill_request # context_strings (br_context fill_request))"
    by code_simp
  then show ?thesis by (auto simp: list_all_iff intro!: utf8_valid_ascii)
qed

interpretation sample_host: host_json sample_libraries
  by unfold_locales
     (auto simp: sample_libraries_def json_reply_length fill_request_utf8 [simplified] split: if_splits)

section \<open>Properties\<close>

text \<open>C28: the host passes a request on exactly when it is well formed: a status request of protocol 1
  without a context, or a fill request of protocol 2 from the top frame of a page whose origin the
  agent itself accepts, with equal top and frame origins, a tab number of at most 31 bits, a request
  identifier and a document identifier that are the lower-case hexadecimal forms of non-zero 16-byte
  values, and a timeout between 100 and 5000 milliseconds. Distinct identifiers stay distinct, and
  validation never panics.\<close>

theorem host_accepts_exactly:
  "(validate_request lib bs = Ok v \<longleftrightarrow>
      (\<exists>req. json_from_slice lib bs = Some req \<and> valid_request_id (br_request_id req)
         \<and> 100 \<le> br_timeout_ms req \<and> br_timeout_ms req \<le> 5000
         \<and> vr_request_id v = br_request_id req \<and> vr_timeout v = ucast (br_timeout_ms req)
         \<and> (br_operation req = Browser_Status \<and> br_protocol_version req = 1
              \<and> br_context req = Context_None \<and> vr_fill_context v = None
            \<or> br_operation req = Browser_FillSingle \<and> br_protocol_version req = 2
              \<and> (\<exists>tab i doc origin.
                    br_context req = Context_ExactHttps tab 0 (uuid_format (hex_encode doc)) origin origin
                    \<and> br_request_id req = hex_encode i \<and> length i = 16 \<and> i \<noteq> zeros 16
                    \<and> length doc = 16 \<and> doc \<noteq> zeros 16 \<and> tab \<le> 0x7FFFFFFF \<and> origin \<noteq> []
                    \<and> BrowserOrigin_parse (Url_parse lib) origin = Ok origin
                    \<and> vr_fill_context v = Some \<lparr>bc_request_id = i, bc_tab_id = tab,
                        bc_document_id = doc, bc_top_origin = origin, bc_frame_origin = origin\<rparr>))))
   \<and> validate_request lib bs \<noteq> Panic"
proof -
  have "(validate_request lib bs = Ok v) \<longleftrightarrow>
      (\<exists>req. json_from_slice lib bs = Some req \<and> valid_request_id (br_request_id req)
         \<and> 100 \<le> br_timeout_ms req \<and> br_timeout_ms req \<le> 5000
         \<and> vr_request_id v = br_request_id req \<and> vr_timeout v = ucast (br_timeout_ms req)
         \<and> (br_operation req = Browser_Status \<and> br_protocol_version req = 1
              \<and> fill_context_for lib (br_request_id req) Browser_Status (br_context req)
                  = Some (vr_fill_context v)
            \<or> br_operation req = Browser_FillSingle \<and> br_protocol_version req = 2
              \<and> fill_context_for lib (br_request_id req) Browser_FillSingle (br_context req)
                  = Some (vr_fill_context v)))"
    unfolding validate_request_Ok
    by (rule arg_cong [where f = Ex], rule ext) (auto split: browser_operation.splits)
  then show ?thesis
    unfolding fill_context_for_Status fill_context_for_FillSingle
    using validate_request_no_panic by blast
qed

theorem host_accepts_exactly_witness:
  "validate_request sample_libraries [0x7B, 0x7D] =
     Ok \<lparr>vr_request_id = hex_encode (replicate 16 0xA1), vr_timeout = 2000,
         vr_fill_context = Some \<lparr>bc_request_id = replicate 16 0xA1, bc_tab_id = 7,
           bc_document_id = replicate 16 0x5C, bc_top_origin = ascii ''https://example.com'',
           bc_frame_origin = ascii ''https://example.com''\<rparr>\<rparr>"
proof -
  have "valid_request_id (hex_encode (replicate 16 0xA1))" by code_simp
  moreover have "BrowserOrigin_parse (Url_parse sample_libraries) (ascii ''https://example.com'')
      = Ok (ascii ''https://example.com'')"
    by (simp add: BrowserOrigin_parse_Ok sample_libraries_def) (simp add: ascii_def)
  moreover have "replicate 16 0xA1 \<noteq> zeros 16" "replicate 16 0x5C \<noteq> zeros 16"
    by (simp_all add: zeros_def)
  moreover have "ascii ''https://example.com'' \<noteq> []" by (simp add: ascii_def)
  ultimately show ?thesis
    using host_accepts_exactly [of sample_libraries "[0x7B, 0x7D]"
      "\<lparr>vr_request_id = hex_encode (replicate 16 0xA1), vr_timeout = 2000,
         vr_fill_context = Some \<lparr>bc_request_id = replicate 16 0xA1, bc_tab_id = 7,
           bc_document_id = replicate 16 0x5C, bc_top_origin = ascii ''https://example.com'',
           bc_frame_origin = ascii ''https://example.com''\<rparr>\<rparr>"]
    by (simp add: sample_libraries_def fill_request_def)
qed

text \<open>C29: one message from the browser gets exactly one reply. Unless the stream is at its end, the
  host writes one frame, its length and its JSON text of at most 131072 bytes, even for the longest
  credential with every byte escaped, and then reports success or that the input was bad. A
  credential is only written when the agent returned it for the context of this very request, under
  the same request identifier; the agent is not called at all unless the request was accepted.\<close>

theorem host_replies_once:
  assumes "host_json lib"
    and "\<And>context t w w' c. fill context t w = (w', Inr (Some c)) \<Longrightarrow> BrowserCredential_valid c"
    and "serve_with_fill lib vec_output status fill r out world = (r', out', world', x)"
  shows "snd (read_frame r) = Ok EndOfStream \<and> out' = out \<and> world' = world \<and> x = Ok ()
    \<or> (\<exists>response.
        out' = out @ reply_frame lib response
        \<and> length (concat (json_to_writer lib response)) \<le> 131072
        \<and> (x = Ok () \<or> x = Err Serve_Input \<and> snd (read_frame r) = Err ())
        \<and> (\<forall>v i u p. response = Resp_Credential v i u p \<longrightarrow>
             (\<exists>message request context. read_frame r = (r', Ok (Message message))
                \<and> validate_request lib message = Ok request \<and> vr_request_id request = i
                \<and> vr_fill_context request = Some context \<and> BrowserContext_valid context
                \<and> fill context (vr_timeout request) world
                    = (world', Inr (Some \<lparr>cr_username = u, cr_password = p\<rparr>))))
        \<and> (world' \<noteq> world \<longrightarrow> (\<exists>message request. snd (read_frame r) = Ok (Message message)
                \<and> validate_request lib message = Ok request)))"
proof -
  obtain r1 frame where frame: "read_frame r = (r1, frame)" by fastforce
  note sent = host_json.write_response_vec [OF assms(1)]
  consider (eos) "frame = Ok EndOfStream" | (message) m where "frame = Ok (Message m)"
    | (bad) "frame = Err ()"
    using read_frame_no_panic [of r] frame by (metis read_frame_outcome.exhaust result.exhaust snd_conv unit.exhaust)
  then show ?thesis
  proof cases
    case eos
    with assms(3) frame show ?thesis by (simp add: serve_with_fill_def)
  next
    case bad
    let ?response = "Resp_Error BROWSER_PROTOCOL_VERSION None Host_InvalidRequest"
    have fits: "6 * reply_text ?response + 256 \<le> MAX_BROWSER_RESPONSE_BYTES" by simp
    have "serve_with_fill lib vec_output status fill r out world
        = (r1, out @ reply_frame lib ?response, world, Err Serve_Input)"
      by (simp add: serve_with_fill_def frame bad sent(1) [OF fits, unfolded BROWSER_PROTOCOL_VERSION_def])
    with assms(3) sent(2) [OF fits] frame bad show ?thesis
      by (intro disjI2 exI [of _ ?response]) simp
  next
    case (message m)
    show ?thesis
    proof (cases "validate_request lib m")
      case refused: (Err f)
      let ?response = "Resp_Error (rf_version f) (rf_request_id f) (rf_error f)"
      have fits: "6 * reply_text ?response + 256 \<le> MAX_BROWSER_RESPONSE_BYTES"
        using host_json.refused_request_id [OF assms(1) refused] by (simp split: option.splits)
      have "serve_with_fill lib vec_output status fill r out world
          = (r1, out @ reply_frame lib ?response, world, Ok ())"
        by (simp add: serve_with_fill_def frame message refused sent(1) [OF fits])
      with assms(3) sent(2) [OF fits] show ?thesis
        by (intro disjI2 exI [of _ ?response]) simp
    next
      case accepted: (Ok request)
      note idlen = host_json.accepted_request_id [OF assms(1) accepted]
      show ?thesis
      proof (cases "vr_fill_context request")
        case no_fill: None
        obtain w outcome where call: "status (vr_timeout request) world = (w, outcome)" by fastforce
        let ?response = "case outcome of
            Inr agent_status \<Rightarrow> Resp_Ok BROWSER_PROTOCOL_VERSION (vr_request_id request) agent_status
          | Inl e \<Rightarrow> Resp_Error BROWSER_PROTOCOL_VERSION (Some (vr_request_id request)) (status_error e)"
        have fits: "6 * reply_text ?response + 256 \<le> MAX_BROWSER_RESPONSE_BYTES"
          using idlen by (simp split: sum.splits)
        have "serve_with_fill lib vec_output status fill r out world
            = (r1, out @ reply_frame lib ?response, w, Ok ())"
          by (simp only: serve_with_fill_def frame message accepted no_fill call Let_def
              sent(1) [OF fits] prod.case result.case read_frame_outcome.case option.case)
        with assms(3) sent(2) [OF fits] frame message accepted show ?thesis
          by (intro disjI2 exI [of _ ?response]) (auto split: sum.splits)
      next
        case fill_call: (Some ctx)
        obtain w outcome where call: "fill ctx (vr_timeout request) world = (w, outcome)"
          by fastforce
        let ?response = "case outcome of
            Inr (Some credential) \<Rightarrow> Resp_Credential FILL_PROTOCOL_VERSION (vr_request_id request)
              (cr_username credential) (cr_password credential)
          | Inr None \<Rightarrow> Resp_NoCredential FILL_PROTOCOL_VERSION (vr_request_id request)
          | Inl e \<Rightarrow> Resp_Error FILL_PROTOCOL_VERSION (Some (vr_request_id request)) (fill_error e)"
        have credential: "outcome = Inr (Some c) \<Longrightarrow> length (cr_username c) \<le> 1024
            \<and> length (cr_password c) \<le> 16384" for c
          using assms(2) [of ctx "vr_timeout request" world w c] call
          by (simp add: BrowserCredential_valid_def)
        have fits: "6 * reply_text ?response + 256 \<le> MAX_BROWSER_RESPONSE_BYTES"
          using idlen credential by (auto split: sum.splits option.splits)
        have "serve_with_fill lib vec_output status fill r out world
            = (r1, out @ reply_frame lib ?response, w, Ok ())"
          by (simp only: serve_with_fill_def frame message accepted fill_call call Let_def
              sent(1) [OF fits] prod.case result.case read_frame_outcome.case option.case)
        with assms(3) sent(2) [OF fits] frame message accepted fill_call call
          host_json.accepted_context_valid [OF assms(1) accepted fill_call] show ?thesis
          by (intro disjI2 exI [of _ ?response]) (auto split: sum.splits option.splits)
      qed
    qed (use validate_request_no_panic in simp)
  qed
qed

theorem host_replies_once_witness:
  "\<exists>r' out' world'. serve_with_fill sample_libraries vec_output (\<lambda>_ w. (w, Inr Status_Locked))
      (\<lambda>_ _ w. (w + 1, Inr (Some \<lparr>cr_username = [0x61], cr_password = [0x62]\<rparr>)))
      [Read_Data [2, 0, 0, 0, 0x7B, 0x7D]] [] (0 :: nat) = (r', out', world', Ok ())
    \<and> (\<exists>response. out' = reply_frame sample_libraries response)"
proof -
  let ?fill = "\<lambda>(_ :: browser_context) (_ :: u64) (w :: nat).
    (w + 1, Inr (Some \<lparr>cr_username = [0x61], cr_password = [0x62]\<rparr>) :: bridge_failure + browser_credential option)"
  let ?r = "[Read_Data [2, 0, 0, 0, 0x7B, 0x7D :: u8]]"
  obtain r' out' world' x where serve: "serve_with_fill sample_libraries vec_output
      (\<lambda>_ w. (w, Inr Status_Locked)) ?fill ?r [] 0 = (r', out', world', x)"
    by (metis prod_cases4)
  have ne: "ne_bytes (Suc (Suc 0)) = [2, 0, 0, 0]" by (simp add: ne_bytes_def be_encode_numeral)
  have "orderly ?r" by (simp add: orderly_def)
  then have read: "snd (read_frame ?r) = Ok (Message [0x7B, 0x7D])"
    using read_frame_eq [of ?r]
    by (auto simp: frame_of_def Let_def from_ne_bytes_def)
  have "BrowserCredential_valid \<lparr>cr_username = [0x61], cr_password = [0x62]\<rparr>"
    by (simp add: BrowserCredential_valid_def utf8_valid_ascii)
  then show ?thesis
    using host_replies_once [OF sample_host.host_json_axioms _ serve] serve read by auto
qed

end
