(* ===== verification/Core_Crypto.thy ===== *)
theory Core_Crypto
  imports Core_Origin
begin

text \<open>
  The key lifecycle of a vault (crates/vault-core/src/lib.rs): creating a vault, unlocking it with
  the master password or through a Windows Hello protector, and wrapping the root key for Windows
  Hello. The cryptographic crates (argon2, hkdf, sha2, chacha20poly1305, p256), the random source of
  the operating system and the URL parser are a record of parameters; the locale \<open>vault_crypto\<close>
  states what their documentation says of them.
\<close>

section \<open>Libraries\<close>

record 'e vault_libs =
  vl_cbor :: minicbor
  vl_url :: url_parser
  vl_sha256 :: "bytes \<Rightarrow> bytes"
  vl_argon2id :: "u32 \<Rightarrow> u32 \<Rightarrow> u32 \<Rightarrow> nat \<Rightarrow> bytes \<Rightarrow> bytes \<Rightarrow> bytes option"
  vl_hkdf :: "bytes \<Rightarrow> bytes \<Rightarrow> bytes \<Rightarrow> nat \<Rightarrow> bytes option"
  vl_seal :: "bytes \<Rightarrow> bytes \<Rightarrow> bytes \<Rightarrow> bytes \<Rightarrow> bytes option"
  vl_open :: "bytes \<Rightarrow> bytes \<Rightarrow> bytes \<Rightarrow> bytes \<Rightarrow> bytes option"
  vl_signing_key_ok :: "bytes \<Rightarrow> bool"
  vl_public_point :: "bytes \<Rightarrow> bytes"
  vl_sign_der :: "bytes \<Rightarrow> bytes \<Rightarrow> bytes"
  vl_fill :: "'e \<Rightarrow> nat \<Rightarrow> 'e \<times> bytes option"

text \<open>
  \<open>vl_argon2id memory time lanes length password salt\<close>, \<open>vl_hkdf salt key info length\<close>,
  \<open>vl_seal key nonce message aad\<close> and \<open>vl_open key nonce ciphertext aad\<close>; \<open>vl_fill\<close> asks the entropy
  source for that many bytes.
\<close>

text \<open>\<open>?\<close> on a call that also draws from the entropy source.\<close>

definition entropy_then ::
    "'e \<times> ('a, 'x) result \<Rightarrow> ('x \<Rightarrow> 'y) \<Rightarrow> ('e \<Rightarrow> 'a \<Rightarrow> 'e \<times> ('b, 'y) result) \<Rightarrow> 'e \<times> ('b, 'y) result" where
  "entropy_then r wrap k =
     (case snd r of Ok x \<Rightarrow> k (fst r) x | Err x \<Rightarrow> (fst r, Err (wrap x)) | Panic \<Rightarrow> (fst r, Panic))"

text \<open>\<open>?\<close> on a call that does not.\<close>

definition pure_then :: "'e \<Rightarrow> ('a, 'y) result \<Rightarrow> ('a \<Rightarrow> 'e \<times> ('b, 'y) result) \<Rightarrow> 'e \<times> ('b, 'y) result" where
  "pure_then e r k = (case r of Ok x \<Rightarrow> k x | Err x \<Rightarrow> (e, Err x) | Panic \<Rightarrow> (e, Panic))"

section \<open>Constants and data\<close>

definition KEY_BYTES :: nat where [simp]: "KEY_BYTES = 32"
definition WRAPPED_KEY_BYTES :: nat where [simp]: "WRAPPED_KEY_BYTES = 48"
definition INITIAL_KEY_EPOCH :: u32 where [simp]: "INITIAL_KEY_EPOCH = 1"
definition CORE_MAX_MASTER_PASSWORD_BYTES :: nat where
  [simp]: "CORE_MAX_MASTER_PASSWORD_BYTES = 1024"
definition MASTER_WRAP_LABEL :: bytes where
  "MASTER_WRAP_LABEL = ascii ''librarian/vault/v1/master-wrap''"
definition RECOVERY_WRAP_LABEL :: bytes where
  "RECOVERY_WRAP_LABEL = ascii ''librarian/vault/v1/recovery-wrap''"
definition WINDOWS_HELLO_WRAP_LABEL :: bytes where
  "WINDOWS_HELLO_WRAP_LABEL = ascii ''librarian/vault/v1/windows-hello-wrap''"
definition WINDOWS_HELLO_INSTALLATION_ID_LABEL :: bytes where
  "WINDOWS_HELLO_INSTALLATION_ID_LABEL = ascii ''librarian/vault/v1/windows-hello-installation-id''"
definition MANIFEST_LABEL_PREFIX :: bytes where
  "MANIFEST_LABEL_PREFIX = ascii ''librarian/vault/v1/manifest/''"

datatype password_input_error = PasswordInputError

definition MasterPassword_new :: "bytes \<Rightarrow> (bytes, password_input_error) result" where
  "MasterPassword_new v =
     (if length v > CORE_MAX_MASTER_PASSWORD_BYTES then Err PasswordInputError else Ok v)"

datatype create_vault_error = RandomnessUnavailable | CryptographicFailure | FormatFailure
datatype unlock_error = Unlock_Failed | Unlock_Cancelled

record unlocked_vault =
  uv_root_key :: bytes
  uv_header :: vault_header
  uv_manifest :: manifest

record created_vault =
  cv_header :: bytes
  cv_manifest_envelope :: bytes
  cv_recovery_key :: bytes
  cv_session :: unlocked_vault

text \<open>One opaque record row.\<close>

record encrypted_record =
  er_id :: bytes
  er_envelope :: bytes

section \<open>Primitives\<close>

definition random_array ::
    "'e vault_libs \<Rightarrow> nat \<Rightarrow> 'e \<Rightarrow> 'e \<times> (bytes, create_vault_error) result" where
  "random_array L n e =
     (case vl_fill L e n of
        (e, Some bs) \<Rightarrow> (e, Ok bs)
      | (e, None) \<Rightarrow> (e, Err RandomnessUnavailable))"

definition derive_password_key :: "'e vault_libs \<Rightarrow> bytes \<Rightarrow> bytes \<Rightarrow> bytes option" where
  "derive_password_key L password salt =
     vl_argon2id L ARGON2_MEMORY_KIB ARGON2_TIME_COST ARGON2_PARALLELISM KEY_BYTES password salt"

definition derive_key :: "'e vault_libs \<Rightarrow> bytes \<Rightarrow> bytes \<Rightarrow> bytes \<Rightarrow> bytes option" where
  "derive_key L input_key vault_id label = vl_hkdf L vault_id input_key label KEY_BYTES"

definition windows_hello_installation_id :: "'e vault_libs \<Rightarrow> bytes \<Rightarrow> bytes" where
  "windows_hello_installation_id L installation_key =
     vl_sha256 L (WINDOWS_HELLO_INSTALLATION_ID_LABEL @ installation_key)"

definition derive_windows_hello_wrapping_key ::
    "'e vault_libs \<Rightarrow> bytes \<Rightarrow> bytes \<Rightarrow> bytes \<Rightarrow> bytes option" where
  "derive_windows_hello_wrapping_key L prf_output installation_key vault_id =
     derive_key L (prf_output @ installation_key) vault_id WINDOWS_HELLO_WRAP_LABEL"

definition derive_manifest_key :: "'e vault_libs \<Rightarrow> bytes \<Rightarrow> bytes \<Rightarrow> u32 \<Rightarrow> bytes option" where
  "derive_manifest_key L root_key vault_id key_epoch =
     derive_key L root_key vault_id (MANIFEST_LABEL_PREFIX @ be_encode 4 (unat key_epoch))"

definition encrypt_bytes ::
    "'e vault_libs \<Rightarrow> bytes \<Rightarrow> bytes \<Rightarrow> bytes \<Rightarrow> bytes \<Rightarrow> (bytes, create_vault_error) result" where
  "encrypt_bytes L key nonce plaintext aad =
     ok_or CryptographicFailure (vl_seal L key nonce plaintext aad)"

definition encrypt_fixed_key ::
    "'e vault_libs \<Rightarrow> bytes \<Rightarrow> bytes \<Rightarrow> bytes \<Rightarrow> bytes \<Rightarrow> (bytes, create_vault_error) result" where
  "encrypt_fixed_key L key nonce plaintext aad =
     and_then (encrypt_bytes L key nonce plaintext aad) (\<lambda>ciphertext.
     if length ciphertext = WRAPPED_KEY_BYTES then Ok ciphertext else Err CryptographicFailure)"

definition decrypt_bytes :: "'e vault_libs \<Rightarrow> bytes \<Rightarrow> bytes \<Rightarrow> bytes \<Rightarrow> bytes \<Rightarrow> bytes option" where
  "decrypt_bytes L key nonce ciphertext aad = vl_open L key nonce ciphertext aad"

definition decrypt_fixed_key :: "'e vault_libs \<Rightarrow> bytes \<Rightarrow> bytes \<Rightarrow> bytes \<Rightarrow> bytes \<Rightarrow> bytes option" where
  "decrypt_fixed_key L key nonce ciphertext aad = do {
     plaintext \<leftarrow> decrypt_bytes L key nonce ciphertext aad;
     if length plaintext \<noteq> KEY_BYTES then None else Some plaintext }"

section \<open>Creating a vault\<close>

definition create_vault_with_entropy ::
    "'e vault_libs \<Rightarrow> bytes \<Rightarrow> u64 \<Rightarrow> 'e \<Rightarrow> 'e \<times> (created_vault, create_vault_error) result" where
  "create_vault_with_entropy L password created_at_ms e =
     entropy_then (random_array L 16 e) id (\<lambda>e vault_id.
     entropy_then (random_array L KEY_BYTES e) id (\<lambda>e vault_root_key.
     entropy_then (random_array L KEY_BYTES e) id (\<lambda>e recovery_key_bytes.
     entropy_then (random_array L 16 e) id (\<lambda>e password_salt.
     entropy_then (random_array L 24 e) id (\<lambda>e master_nonce.
     entropy_then (random_array L 24 e) id (\<lambda>e recovery_nonce.
     entropy_then (random_array L 24 e) id (\<lambda>e manifest_nonce.
     (e,
      and_then (ok_or CryptographicFailure (derive_password_key L password password_salt))
        (\<lambda>password_key.
      and_then (ok_or CryptographicFailure (derive_key L password_key vault_id MASTER_WRAP_LABEL))
        (\<lambda>master_kek.
      and_then (expect_some (encode_master_wrapper_aad (vl_cbor L) vault_id INITIAL_KEY_EPOCH
                  password_salt)) (\<lambda>master_aad.
      and_then (encrypt_fixed_key L master_kek master_nonce vault_root_key master_aad)
        (\<lambda>master_wrapped_vrk.
      and_then (ok_or CryptographicFailure
                  (derive_key L recovery_key_bytes vault_id RECOVERY_WRAP_LABEL)) (\<lambda>recovery_kek.
      and_then (expect_some (encode_recovery_wrapper_aad (vl_cbor L) vault_id INITIAL_KEY_EPOCH))
        (\<lambda>recovery_aad.
      and_then (encrypt_fixed_key L recovery_kek recovery_nonce vault_root_key recovery_aad)
        (\<lambda>recovery_wrapped_vrk.
      let header = \<lparr>vh_vault_id = vault_id, vh_key_epoch = INITIAL_KEY_EPOCH,
            vh_master_wrapper = \<lparr>mw_password_salt = password_salt, mw_nonce = master_nonce,
              mw_wrapped_vrk = master_wrapped_vrk\<rparr>,
            vh_recovery_wrapper = \<lparr>rw_nonce = recovery_nonce, rw_wrapped_vrk = recovery_wrapped_vrk\<rparr>\<rparr>
      in
      and_then (map_err (\<lambda>_. FormatFailure) (VaultHeader_encode (vl_cbor L) header))
        (\<lambda>header_bytes.
      let manifest = Manifest_empty created_at_ms INITIAL_KEY_EPOCH in
      and_then (map_err (\<lambda>_. FormatFailure) (Manifest_encode (vl_cbor L) manifest))
        (\<lambda>manifest_plaintext.
      and_then (ok_or CryptographicFailure
                  (derive_manifest_key L vault_root_key vault_id INITIAL_KEY_EPOCH)) (\<lambda>manifest_key.
      and_then (expect_some (encode_manifest_aad (vl_cbor L) header manifest_nonce))
        (\<lambda>manifest_aad.
      and_then (encrypt_bytes L manifest_key manifest_nonce manifest_plaintext manifest_aad)
        (\<lambda>manifest_ciphertext.
      and_then (map_err (\<lambda>_. FormatFailure)
                  (and_then (ManifestEnvelope_new (vl_cbor L) manifest_nonce manifest_ciphertext)
                     (ManifestEnvelope_encode (vl_cbor L)))) (\<lambda>manifest_envelope.
      and_then (map_err (\<lambda>_. FormatFailure) (VaultHeader_decode (vl_cbor L) header_bytes)) (\<lambda>_.
      and_then (map_err (\<lambda>_. FormatFailure) (ManifestEnvelope_decode (vl_cbor L) manifest_envelope))
        (\<lambda>_.
      Ok \<lparr>cv_header = header_bytes, cv_manifest_envelope = manifest_envelope,
          cv_recovery_key = recovery_key_bytes,
          cv_session = \<lparr>uv_root_key = vault_root_key, uv_header = header,
                        uv_manifest = manifest\<rparr>\<rparr>)))))))))))))))))))))))"

section \<open>Windows Hello protector\<close>

definition create_windows_hello_protector ::
    "'e vault_libs \<Rightarrow> unlocked_vault \<Rightarrow> bytes \<Rightarrow> bytes \<Rightarrow> bytes \<Rightarrow> bytes \<Rightarrow> 'e
       \<Rightarrow> 'e \<times> (bytes, create_vault_error) result" where
  "create_windows_hello_protector L v installation_key credential_id prf_salt prf_output e =
     entropy_then (random_array L 24 e) id (\<lambda>e nonce.
     let vault_id = vh_vault_id (uv_header v); key_epoch = vh_key_epoch (uv_header v);
         installation_id = windows_hello_installation_id L installation_key in
     (e,
      and_then (map_err (\<lambda>_. FormatFailure)
                  (WindowsHelloProtector_new vault_id key_epoch installation_id credential_id
                     prf_salt nonce (zeros WRAPPED_KEY_BYTES))) (\<lambda>template.
      and_then (ok_or CryptographicFailure
                  (derive_windows_hello_wrapping_key L prf_output installation_key vault_id))
        (\<lambda>wrapping_key.
      and_then (expect_some (encode_windows_hello_wrapper_aad (vl_cbor L) template)) (\<lambda>aad.
      and_then (encrypt_fixed_key L wrapping_key (wh_nonce template) (uv_root_key v) aad)
        (\<lambda>wrapped_vrk.
      map_err (\<lambda>_. FormatFailure)
        (and_then (WindowsHelloProtector_new (wh_vault_id template) (wh_key_epoch template)
                     (wh_installation_id template) (wh_credential_id template)
                     (wh_prf_salt template) (wh_nonce template) wrapped_vrk)
           (WindowsHelloProtector_encode (vl_cbor L)))))))))"

end
