(* ===== verification/Core_Records.thy ===== *)
theory Core_Records
  imports Core_Crypto "HOL-Library.Product_Lexorder"
begin

text \<open>
  Records of an unlocked vault (crates/vault-core/src/records.rs). Every operation first authenticates
  the snapshot it is given: the clear header, the encrypted manifest and every record row against
  the manifest the session holds. Reading operations then fold over the decrypted records; mutations
  are prepared as an encrypted row and an encrypted next manifest, and take effect in the session
  only when they are committed. A cancellation check is the sequence of its answers, one for each
  time it is asked; the entropy source is threaded through what draws from it.
\<close>

unbundle bit_operations_syntax

section \<open>Constants and data\<close>

definition RECORD_LABEL_PREFIX :: bytes where
  "RECORD_LABEL_PREFIX = ascii ''librarian/vault/v1/record/''"
definition MAX_RECORD_ID_ATTEMPTS :: nat where [simp]: "MAX_RECORD_ID_ATTEMPTS = 128"
definition MAX_WEBSITE_ACCOUNT_PAGE_SIZE :: nat where [simp]: "MAX_WEBSITE_ACCOUNT_PAGE_SIZE = 100"
definition MAX_PASSKEY_ASSERTION_CANDIDATES :: nat where
  [simp]: "MAX_PASSKEY_ASSERTION_CANDIDATES = 64"
definition CORE_MAX_PASSKEY_CREDENTIALS :: nat where [simp]: "CORE_MAX_PASSKEY_CREDENTIALS = 64"
definition CORE_PASSKEY_PUBLIC_KEY_BYTES :: nat where [simp]: "CORE_PASSKEY_PUBLIC_KEY_BYTES = 65"
definition PASSKEY_USER_PRESENT :: u8 where "PASSKEY_USER_PRESENT = 0x01"
definition PASSKEY_USER_VERIFIED :: u8 where "PASSKEY_USER_VERIFIED = 0x04"
definition PASSKEY_BACKUP_ELIGIBLE :: u8 where "PASSKEY_BACKUP_ELIGIBLE = 0x08"

datatype website_account_input_error =
  Account_InvalidServiceName | Account_InvalidOrigin | Account_FieldTooLarge

record website_account_input =
  wi_service_name :: bytes
  wi_permitted_origin :: bytes
  wi_username :: bytes
  wi_password :: bytes

record core_account =
  ac_id :: bytes
  ac_revision :: u64
  ac_created_at_ms :: u64
  ac_modified_at_ms :: u64
  ac_service_name :: bytes
  ac_permitted_origin :: bytes
  ac_username :: bytes
  ac_password :: bytes

datatype passkey_input_error = Passkey_InvalidRpId | Passkey_InvalidUser | Passkey_FieldTooLarge

record passkey_input =
  pi_rp_id :: bytes
  pi_user_handle :: bytes
  pi_user_name :: bytes
  pi_user_display_name :: bytes

record passkey_credential =
  pcr_credential_id :: bytes
  pcr_user_handle :: bytes
  pcr_public_key :: bytes

record passkey_summary =
  psu_credential_id :: bytes
  psu_rp_id :: bytes
  psu_user_handle :: bytes
  psu_user_name :: bytes
  psu_user_display_name :: bytes

record passkey_assertion =
  pas_credential_id :: bytes
  pas_user_handle :: bytes
  pas_authenticator_data :: bytes
  pas_signature_der :: bytes

record passkey_record =
  pr_id :: bytes
  pr_revision :: u64
  pr_created_at_ms :: u64
  pr_signature_counter :: u32
  pr_creation_state :: passkey_creation_state
  pr_rp_id :: bytes
  pr_user_handle :: bytes
  pr_user_name :: bytes
  pr_user_display_name :: bytes
  pr_credential_id :: bytes
  pr_private_key :: bytes

datatype decrypted_record = Dec_Account core_account | Dec_Passkey passkey_record

datatype record_operation_error = Rec_NotFound | Rec_Conflict | Rec_Cancelled | Rec_Failed

datatype record_mutation_kind = Insert | Update | Delete

record prepared_mutation =
  pm_kind :: record_mutation_kind
  pm_id :: bytes
  pm_envelope :: "bytes option"
  pm_manifest_envelope :: bytes
  pm_expected_generation :: u64
  pm_next_manifest :: manifest

datatype snapshot_error = Snap_Cancelled | Snap_Failed

fun map_snapshot_operation_error :: "snapshot_error \<Rightarrow> record_operation_error" where
  "map_snapshot_operation_error Snap_Cancelled = Rec_Cancelled"
| "map_snapshot_operation_error Snap_Failed = Rec_Failed"

section \<open>Input\<close>

definition validate_input_lengths ::
    "bytes \<Rightarrow> bytes \<Rightarrow> bytes \<Rightarrow> bytes \<Rightarrow> (unit, website_account_input_error) result" where
  "validate_input_lengths service_name permitted_origin username password =
     (if length service_name > FORMAT_MAX_SERVICE_NAME_BYTES
         \<or> length permitted_origin > FORMAT_MAX_ORIGIN_BYTES
         \<or> length username > FORMAT_MAX_USERNAME_BYTES
         \<or> length password > FORMAT_MAX_PASSWORD_BYTES
      then Err Account_FieldTooLarge else Ok ())"

definition normalize_origin :: "url_parser \<Rightarrow> bytes \<Rightarrow> (bytes, website_account_input_error) result" where
  "normalize_origin url_parse v =
     (if length v > FORMAT_MAX_ORIGIN_BYTES then Err Account_FieldTooLarge else
      and_then (ok_or Account_InvalidOrigin (url_parse v)) (\<lambda>parsed.
      if \<not> (url_scheme parsed = ascii ''http'' \<or> url_scheme parsed = ascii ''https'')
         \<or> url_host parsed = None \<or> url_username parsed \<noteq> [] \<or> url_password parsed \<noteq> None
         \<or> url_query parsed \<noteq> None \<or> url_fragment parsed \<noteq> None \<or> url_path parsed \<noteq> ascii ''/''
      then Err Account_InvalidOrigin
      else
        let normalized = url_origin_ascii parsed in
        if normalized = ascii ''null'' \<or> length normalized > FORMAT_MAX_ORIGIN_BYTES
        then Err Account_InvalidOrigin else Ok normalized))"

definition WebsiteAccountInput_new ::
    "url_parser \<Rightarrow> bytes \<Rightarrow> bytes \<Rightarrow> bytes \<Rightarrow> bytes
       \<Rightarrow> (website_account_input, website_account_input_error) result" where
  "WebsiteAccountInput_new url_parse service_name permitted_origin username password =
     and_then (validate_input_lengths service_name permitted_origin username password) (\<lambda>_.
     if service_name = [] \<or> any_control service_name then Err Account_InvalidServiceName
     else and_then (normalize_origin url_parse permitted_origin) (\<lambda>permitted_origin.
       Ok \<lparr>wi_service_name = service_name, wi_permitted_origin = permitted_origin,
           wi_username = username, wi_password = password\<rparr>))"

definition ascii_lowercase_bytes :: "bytes \<Rightarrow> bytes" where
  "ascii_lowercase_bytes = map (\<lambda>b. if 0x41 \<le> b \<and> b \<le> 0x5A then b + 0x20 else b)"

definition trim_end_dots :: "bytes \<Rightarrow> bytes" where
  "trim_end_dots s = rev (dropWhile (\<lambda>b. b = 0x2E) (rev s))"

definition normalize_rp_id :: "url_parser \<Rightarrow> bytes \<Rightarrow> (bytes, passkey_input_error) result" where
  "normalize_rp_id url_parse v =
     (if v = [] \<or> length v > FORMAT_MAX_PASSKEY_RP_ID_BYTES \<or> any_control v
      then Err (if length v > FORMAT_MAX_PASSKEY_RP_ID_BYTES then Passkey_FieldTooLarge
                else Passkey_InvalidRpId)
      else
        and_then (ok_or Passkey_InvalidRpId (url_parse (ascii ''https://'' @ v))) (\<lambda>parsed.
        if url_host parsed = None \<or> url_username parsed \<noteq> [] \<or> url_password parsed \<noteq> None
           \<or> url_port parsed \<noteq> None \<or> url_query parsed \<noteq> None \<or> url_fragment parsed \<noteq> None
           \<or> url_path parsed \<noteq> ascii ''/''
        then Err Passkey_InvalidRpId
        else
          and_then (ok_or Passkey_InvalidRpId (url_host parsed)) (\<lambda>host_str.
          let host = ascii_lowercase_bytes (trim_end_dots host_str) in
          if host = [] \<or> length host > FORMAT_MAX_PASSKEY_RP_ID_BYTES \<or> last v = 0x2E
          then Err Passkey_InvalidRpId else Ok host)))"

definition PasskeyInput_new ::
    "url_parser \<Rightarrow> bytes \<Rightarrow> bytes \<Rightarrow> bytes \<Rightarrow> bytes \<Rightarrow> (passkey_input, passkey_input_error) result" where
  "PasskeyInput_new url_parse rp_id user_handle user_name user_display_name =
     (if length rp_id > FORMAT_MAX_PASSKEY_RP_ID_BYTES
         \<or> length user_handle > FORMAT_MAX_PASSKEY_USER_HANDLE_BYTES
         \<or> length user_name > FORMAT_MAX_PASSKEY_USER_NAME_BYTES
         \<or> length user_display_name > FORMAT_MAX_PASSKEY_USER_DISPLAY_NAME_BYTES
      then Err Passkey_FieldTooLarge
      else if user_handle = [] \<or> user_name = [] \<or> user_display_name = []
         \<or> any_control user_name \<or> any_control user_display_name
      then Err Passkey_InvalidUser
      else and_then (normalize_rp_id url_parse rp_id) (\<lambda>normalized_rp_id.
        if normalized_rp_id \<noteq> rp_id then Err Passkey_InvalidRpId
        else Ok \<lparr>pi_rp_id = normalized_rp_id, pi_user_handle = user_handle,
                 pi_user_name = user_name, pi_user_display_name = user_display_name\<rparr>))"

section \<open>Decrypting and authenticating a snapshot\<close>

definition vault_id :: "unlocked_vault \<Rightarrow> bytes" where
  "vault_id v = vh_vault_id (uv_header v)"

definition vault_key_epoch :: "unlocked_vault \<Rightarrow> u32" where
  "vault_key_epoch v = vh_key_epoch (uv_header v)"

definition derive_record_key :: "'e vault_libs \<Rightarrow> unlocked_vault \<Rightarrow> bytes \<Rightarrow> bytes option" where
  "derive_record_key L v record_id =
     derive_key L (uv_root_key v) (vault_id v)
       (RECORD_LABEL_PREFIX @ record_id @ be_encode 4 (unat (vault_key_epoch v)))"

definition decrypt_website_account_plaintext ::
    "'e vault_libs \<Rightarrow> bytes \<Rightarrow> bytes \<Rightarrow> (decrypted_record, snapshot_error) result" where
  "decrypt_website_account_plaintext L i plaintext =
     and_then (map_err (\<lambda>_. Snap_Failed) (WebsiteAccountPlaintext_decode (vl_cbor L) plaintext))
       (\<lambda>decoded.
     and_then (map_err (\<lambda>_. Snap_Failed) (normalize_origin (vl_url L) (wa_permitted_origin decoded)))
       (\<lambda>normalized.
     if normalized \<noteq> wa_permitted_origin decoded then Err Snap_Failed
     else Ok (Dec_Account \<lparr>ac_id = i, ac_revision = wa_revision decoded,
         ac_created_at_ms = wa_created_at_ms decoded, ac_modified_at_ms = wa_modified_at_ms decoded,
         ac_service_name = wa_service_name decoded,
         ac_permitted_origin = wa_permitted_origin decoded,
         ac_username = wa_username decoded, ac_password = wa_password decoded\<rparr>)))"

definition decrypt_passkey_plaintext ::
    "'e vault_libs \<Rightarrow> bytes \<Rightarrow> bytes \<Rightarrow> (decrypted_record, snapshot_error) result" where
  "decrypt_passkey_plaintext L i plaintext =
     and_then (map_err (\<lambda>_. Snap_Failed) (PasskeyPlaintext_decode (vl_cbor L) plaintext)) (\<lambda>decoded.
     and_then (map_err (\<lambda>_. Snap_Failed) (normalize_rp_id (vl_url L) (pk_rp_id decoded)))
       (\<lambda>normalized.
     if normalized \<noteq> pk_rp_id decoded then Err Snap_Failed
     else if \<not> vl_signing_key_ok L (pk_private_key decoded) then Err Snap_Failed
     else Ok (Dec_Passkey \<lparr>pr_id = i, pr_revision = pk_revision decoded,
         pr_created_at_ms = pk_created_at_ms decoded,
         pr_signature_counter = pk_signature_counter decoded,
         pr_creation_state = pk_creation_state decoded, pr_rp_id = pk_rp_id decoded,
         pr_user_handle = pk_user_handle decoded, pr_user_name = pk_user_name decoded,
         pr_user_display_name = pk_user_display_name decoded,
         pr_credential_id = pk_credential_id decoded, pr_private_key = pk_private_key decoded\<rparr>)))"

definition decrypt_record ::
    "'e vault_libs \<Rightarrow> unlocked_vault \<Rightarrow> encrypted_record \<Rightarrow> (decrypted_record, snapshot_error) result" where
  "decrypt_record L v r =
     and_then (map_err (\<lambda>_. Snap_Failed) (RecordEnvelope_decode (vl_cbor L) (er_envelope r)))
       (\<lambda>envelope.
     if re_key_epoch envelope \<noteq> vault_key_epoch v then Err Snap_Failed else
     and_then (ok_or Snap_Failed (derive_record_key L v (er_id r))) (\<lambda>record_key.
     and_then (expect_some (encode_record_aad (vl_cbor L) (vault_id v) (er_id r) (vault_key_epoch v)))
       (\<lambda>aad.
     and_then (ok_or Snap_Failed (decrypt_bytes L record_key (re_nonce envelope)
                 (re_ciphertext envelope) aad)) (\<lambda>plaintext.
     and_then (map_err (\<lambda>_. Snap_Failed) (record_type (vl_cbor L) plaintext)) (\<lambda>t.
     case t of
       WebsiteAccount \<Rightarrow> decrypt_website_account_plaintext L (er_id r) plaintext
     | Passkey \<Rightarrow> decrypt_passkey_plaintext L (er_id r) plaintext)))))"

text \<open>The loop over records and commitments, from the \<open>i\<close>-th question to the cancellation check.\<close>

fun visit_loop ::
    "'e vault_libs \<Rightarrow> unlocked_vault \<Rightarrow> (nat \<Rightarrow> bool) \<Rightarrow> ('s \<Rightarrow> decrypted_record \<Rightarrow> 's) \<Rightarrow> nat
       \<Rightarrow> (encrypted_record \<times> manifest_entry) list \<Rightarrow> 's \<Rightarrow> ('s, snapshot_error) result" where
  "visit_loop L v should_cancel visit i [] s = Ok s"
| "visit_loop L v should_cancel visit i ((r, commitment) # rest) s =
     (if should_cancel i then Err Snap_Cancelled
      else if er_id r \<noteq> me_record_id commitment
           \<or> vl_sha256 L (er_envelope r) \<noteq> me_envelope_digest commitment
      then Err Snap_Failed
      else and_then (decrypt_record L v r) (\<lambda>d.
        visit_loop L v should_cancel visit (Suc i) rest (visit s d)))"

definition visit_authenticated_records ::
    "'e vault_libs \<Rightarrow> unlocked_vault \<Rightarrow> encrypted_record list \<Rightarrow> (nat \<Rightarrow> bool)
       \<Rightarrow> ('s \<Rightarrow> decrypted_record \<Rightarrow> 's) \<Rightarrow> 's \<Rightarrow> ('s, snapshot_error) result" where
  "visit_authenticated_records L v records should_cancel visit s =
     (if length records \<noteq> length (mf_entries (uv_manifest v)) \<or> length records > MAX_RECORDS
      then Err Snap_Failed
      else if windows2_any (\<lambda>a b. er_id a \<ge> er_id b) records then Err Snap_Failed
      else visit_loop L v should_cancel visit 0 (zip records (mf_entries (uv_manifest v))) s)"

definition decrypt_manifest ::
    "'e vault_libs \<Rightarrow> unlocked_vault \<Rightarrow> bytes \<Rightarrow> (manifest, record_operation_error) result" where
  "decrypt_manifest L v envelope_bytes =
     and_then (map_err (\<lambda>_. Rec_Failed) (ManifestEnvelope_decode (vl_cbor L) envelope_bytes))
       (\<lambda>envelope.
     and_then (ok_or Rec_Failed
                 (derive_manifest_key L (uv_root_key v) (vault_id v) (vault_key_epoch v)))
       (\<lambda>manifest_key.
     and_then (expect_some (encode_manifest_aad (vl_cbor L) (uv_header v) (mv_nonce envelope)))
       (\<lambda>aad.
     and_then (ok_or Rec_Failed (decrypt_bytes L manifest_key (mv_nonce envelope)
                 (mv_ciphertext envelope) aad)) (\<lambda>plaintext.
     map_err (\<lambda>_. Rec_Failed) (Manifest_decode (vl_cbor L) plaintext)))))"

definition authenticate_snapshot_metadata ::
    "'e vault_libs \<Rightarrow> unlocked_vault \<Rightarrow> bytes \<Rightarrow> bytes \<Rightarrow> (unit, record_operation_error) result" where
  "authenticate_snapshot_metadata L v header_bytes manifest_envelope_bytes =
     and_then (map_err (\<lambda>_. Rec_Failed) (VaultHeader_decode (vl_cbor L) header_bytes)) (\<lambda>header.
     if header \<noteq> uv_header v then Err Rec_Failed else
     and_then (decrypt_manifest L v manifest_envelope_bytes) (\<lambda>manifest.
     if manifest \<noteq> uv_manifest v then Err Rec_Failed else Ok ()))"

text \<open>Both steps together, as every operation begins.\<close>

definition visit_snapshot ::
    "'e vault_libs \<Rightarrow> unlocked_vault \<Rightarrow> bytes \<Rightarrow> bytes \<Rightarrow> encrypted_record list \<Rightarrow> (nat \<Rightarrow> bool)
       \<Rightarrow> ('s \<Rightarrow> decrypted_record \<Rightarrow> 's) \<Rightarrow> 's \<Rightarrow> ('s, record_operation_error) result" where
  "visit_snapshot L v hb mb records should_cancel visit s =
     and_then (authenticate_snapshot_metadata L v hb mb) (\<lambda>_.
     map_err map_snapshot_operation_error
       (visit_authenticated_records L v records should_cancel visit s))"

definition authenticate_records_only_with_check ::
    "'e vault_libs \<Rightarrow> unlocked_vault \<Rightarrow> encrypted_record list \<Rightarrow> (nat \<Rightarrow> bool)
       \<Rightarrow> (unit, record_operation_error) result" where
  "authenticate_records_only_with_check L v records should_cancel =
     map_err map_snapshot_operation_error
       (visit_authenticated_records L v records should_cancel (\<lambda>s _. s) ())"

section \<open>Reading accounts\<close>

text \<open>The closures that the reading operations pass to the visit, each with the variables it captures.\<close>

fun collect_account :: "core_account list \<Rightarrow> decrypted_record \<Rightarrow> core_account list" where
  "collect_account accounts (Dec_Account account) = accounts @ [account]"
| "collect_account accounts (Dec_Passkey passkey) = accounts"

definition list_website_accounts ::
    "'e vault_libs \<Rightarrow> unlocked_vault \<Rightarrow> bytes \<Rightarrow> bytes \<Rightarrow> encrypted_record list
       \<Rightarrow> (core_account list, record_operation_error) result" where
  "list_website_accounts L v hb mb records =
     visit_snapshot L v hb mb records (\<lambda>_. False) collect_account []"

definition usize_saturating_add :: "nat \<Rightarrow> nat \<Rightarrow> nat" where
  "usize_saturating_add a b = min (a + b) (2 ^ 64 - 1)"

record account_page =
  ap_index :: nat
  ap_accounts :: "core_account list"
  ap_has_more :: bool

fun page_account :: "nat \<Rightarrow> nat \<Rightarrow> account_page \<Rightarrow> decrypted_record \<Rightarrow> account_page" where
  "page_account start stop s (Dec_Account account) =
     (let s = (if ap_index s \<ge> start \<and> ap_index s < stop
               then s\<lparr>ap_accounts := ap_accounts s @ [account]\<rparr>
               else if ap_index s \<ge> stop then s\<lparr>ap_has_more := True\<rparr> else s)
      in s\<lparr>ap_index := usize_saturating_add (ap_index s) 1\<rparr>)"
| "page_account start stop s (Dec_Passkey passkey) = s"

definition list_website_account_page_with_check ::
    "'e vault_libs \<Rightarrow> unlocked_vault \<Rightarrow> bytes \<Rightarrow> bytes \<Rightarrow> encrypted_record list \<Rightarrow> nat \<Rightarrow> nat
       \<Rightarrow> (nat \<Rightarrow> bool) \<Rightarrow> (core_account list \<times> bool, record_operation_error) result" where
  "list_website_account_page_with_check L v hb mb records start limit should_cancel =
     (if limit = 0 \<or> limit > MAX_WEBSITE_ACCOUNT_PAGE_SIZE then Err Rec_Failed else
      and_then (authenticate_snapshot_metadata L v hb mb) (\<lambda>_.
      and_then (ok_or Rec_Failed (usize_checked_add start limit)) (\<lambda>stop.
      and_then (map_err map_snapshot_operation_error
                  (visit_authenticated_records L v records should_cancel (page_account start stop)
                     \<lparr>ap_index = 0, ap_accounts = [], ap_has_more = False\<rparr>)) (\<lambda>s.
      Ok (ap_accounts s, ap_has_more s)))))"

definition list_website_account_page ::
    "'e vault_libs \<Rightarrow> unlocked_vault \<Rightarrow> bytes \<Rightarrow> bytes \<Rightarrow> encrypted_record list \<Rightarrow> nat \<Rightarrow> nat
       \<Rightarrow> (core_account list \<times> bool, record_operation_error) result" where
  "list_website_account_page L v hb mb records start limit =
     list_website_account_page_with_check L v hb mb records start limit (\<lambda>_. False)"

fun find_account :: "bytes \<Rightarrow> core_account option \<Rightarrow> decrypted_record \<Rightarrow> core_account option" where
  "find_account i found (Dec_Account account) = (if ac_id account = i then Some account else found)"
| "find_account i found (Dec_Passkey passkey) = found"

definition get_website_account_with_check ::
    "'e vault_libs \<Rightarrow> unlocked_vault \<Rightarrow> bytes \<Rightarrow> bytes \<Rightarrow> encrypted_record list \<Rightarrow> bytes \<Rightarrow> (nat \<Rightarrow> bool)
       \<Rightarrow> (core_account, record_operation_error) result" where
  "get_website_account_with_check L v hb mb records i should_cancel =
     and_then (visit_snapshot L v hb mb records should_cancel (find_account i) None) (\<lambda>found.
     ok_or Rec_NotFound found)"

definition get_website_account ::
    "'e vault_libs \<Rightarrow> unlocked_vault \<Rightarrow> bytes \<Rightarrow> bytes \<Rightarrow> encrypted_record list \<Rightarrow> bytes
       \<Rightarrow> (core_account, record_operation_error) result" where
  "get_website_account L v hb mb records i =
     get_website_account_with_check L v hb mb records i (\<lambda>_. False)"

fun unique_account ::
    "bytes \<Rightarrow> core_account option \<times> bool \<Rightarrow> decrypted_record \<Rightarrow> core_account option \<times> bool" where
  "unique_account origin (found, ambiguous) (Dec_Account account) =
     (if ac_permitted_origin account = origin \<and> \<not> ambiguous
      then if found \<noteq> None then (None, True) else (Some account, ambiguous)
      else (found, ambiguous))"
| "unique_account origin (found, ambiguous) (Dec_Passkey passkey) = (found, ambiguous)"

definition unique_browser_account_with_check ::
    "'e vault_libs \<Rightarrow> unlocked_vault \<Rightarrow> bytes \<Rightarrow> bytes \<Rightarrow> encrypted_record list \<Rightarrow> bytes \<Rightarrow> (nat \<Rightarrow> bool)
       \<Rightarrow> (core_account option, record_operation_error) result" where
  "unique_browser_account_with_check L v hb mb records origin should_cancel =
     and_then (visit_snapshot L v hb mb records should_cancel (unique_account origin) (None, False))
       (\<lambda>(found, _). Ok found)"

section \<open>Reading passkeys\<close>

text \<open>
  Each of these visits keeps the set of credential identifiers it has seen (a \<open>BTreeSet\<close>) and marks
  the snapshot invalid when one occurs twice.
\<close>

record 'a passkey_scan =
  ps_credential_ids :: "bytes set"
  ps_found :: "'a list"
  ps_invalid :: bool

definition scan_start :: "'a passkey_scan" where
  "scan_start = \<lparr>ps_credential_ids = {}, ps_found = [], ps_invalid = False\<rparr>"

definition summary_of :: "passkey_record \<Rightarrow> passkey_summary" where
  "summary_of passkey =
     \<lparr>psu_credential_id = pr_credential_id passkey, psu_rp_id = pr_rp_id passkey,
      psu_user_handle = pr_user_handle passkey, psu_user_name = pr_user_name passkey,
      psu_user_display_name = pr_user_display_name passkey\<rparr>"

fun scan_pending :: "bytes passkey_scan \<Rightarrow> decrypted_record \<Rightarrow> bytes passkey_scan" where
  "scan_pending s (Dec_Account account) = s"
| "scan_pending s (Dec_Passkey passkey) =
     (if pr_credential_id passkey \<in> ps_credential_ids s then s\<lparr>ps_invalid := True\<rparr> else
      let s = s\<lparr>ps_credential_ids := insert (pr_credential_id passkey) (ps_credential_ids s)\<rparr> in
      if pr_creation_state passkey = Pending
      then if length (ps_found s) \<ge> CORE_MAX_PASSKEY_CREDENTIALS then s\<lparr>ps_invalid := True\<rparr>
           else s\<lparr>ps_found := ps_found s @ [pr_credential_id passkey]\<rparr>
      else s)"

definition list_pending_passkey_credential_ids_with_check ::
    "'e vault_libs \<Rightarrow> unlocked_vault \<Rightarrow> bytes \<Rightarrow> bytes \<Rightarrow> encrypted_record list \<Rightarrow> (nat \<Rightarrow> bool)
       \<Rightarrow> (bytes list, record_operation_error) result" where
  "list_pending_passkey_credential_ids_with_check L v hb mb records should_cancel =
     and_then (visit_snapshot L v hb mb records should_cancel scan_pending scan_start) (\<lambda>s.
     if ps_invalid s then Err Rec_Failed else Ok (sort (ps_found s)))"

fun scan_candidates ::
    "bytes \<Rightarrow> bytes list option \<Rightarrow> passkey_summary passkey_scan \<Rightarrow> decrypted_record
       \<Rightarrow> passkey_summary passkey_scan" where
  "scan_candidates rp allowed s (Dec_Account account) = s"
| "scan_candidates rp allowed s (Dec_Passkey passkey) =
     (if pr_credential_id passkey \<in> ps_credential_ids s then s\<lparr>ps_invalid := True\<rparr> else
      let s = s\<lparr>ps_credential_ids := insert (pr_credential_id passkey) (ps_credential_ids s)\<rparr>;
          is_allowed = (case allowed of None \<Rightarrow> True
                        | Some ids \<Rightarrow> List.member ids (pr_credential_id passkey)) in
      if pr_creation_state passkey = Confirmed \<and> pr_rp_id passkey = rp \<and> is_allowed
      then if length (ps_found s) \<ge> MAX_PASSKEY_ASSERTION_CANDIDATES then s\<lparr>ps_invalid := True\<rparr>
           else s\<lparr>ps_found := ps_found s @ [summary_of passkey]\<rparr>
      else s)"

definition list_passkeys_for_assertion_with_check ::
    "'e vault_libs \<Rightarrow> unlocked_vault \<Rightarrow> bytes \<Rightarrow> bytes \<Rightarrow> encrypted_record list \<Rightarrow> bytes
       \<Rightarrow> bytes list option \<Rightarrow> (nat \<Rightarrow> bool) \<Rightarrow> (passkey_summary list, record_operation_error) result" where
  "list_passkeys_for_assertion_with_check L v hb mb records rp allowed should_cancel =
     (if length (case allowed of None \<Rightarrow> [] | Some ids \<Rightarrow> ids) > MAX_PASSKEY_ASSERTION_CANDIDATES
      then Err Rec_Conflict else
      and_then (map_err (\<lambda>_. Rec_Conflict) (normalize_rp_id (vl_url L) rp)) (\<lambda>expected_rp_id.
      if expected_rp_id \<noteq> rp then Err Rec_Conflict else
      and_then (visit_snapshot L v hb mb records should_cancel
                  (scan_candidates expected_rp_id allowed) scan_start) (\<lambda>s.
      if ps_invalid s then Err Rec_Failed else Ok (ps_found s))))"

fun scan_listing ::
    "passkey_summary passkey_scan \<Rightarrow> decrypted_record \<Rightarrow> passkey_summary passkey_scan" where
  "scan_listing s (Dec_Account account) = s"
| "scan_listing s (Dec_Passkey passkey) =
     (if pr_credential_id passkey \<in> ps_credential_ids s then s\<lparr>ps_invalid := True\<rparr> else
      let s = s\<lparr>ps_credential_ids := insert (pr_credential_id passkey) (ps_credential_ids s)\<rparr> in
      if pr_creation_state passkey = Pending then s
      else if length (ps_found s) \<ge> MAX_PASSKEY_ASSERTION_CANDIDATES then s\<lparr>ps_invalid := True\<rparr>
      else s\<lparr>ps_found := ps_found s @ [summary_of passkey]\<rparr>)"

definition list_passkeys_with_check ::
    "'e vault_libs \<Rightarrow> unlocked_vault \<Rightarrow> bytes \<Rightarrow> bytes \<Rightarrow> encrypted_record list \<Rightarrow> (nat \<Rightarrow> bool)
       \<Rightarrow> (passkey_summary list, record_operation_error) result" where
  "list_passkeys_with_check L v hb mb records should_cancel =
     and_then (visit_snapshot L v hb mb records should_cancel scan_listing scan_start) (\<lambda>s.
     if ps_invalid s then Err Rec_Failed
     else Ok (sort_key (\<lambda>p. (psu_rp_id p, psu_user_name p, psu_credential_id p)) (ps_found s)))"

end
