(* ===== verification/Core_Mutations.thy ===== *)
theory Core_Mutations
  imports Core_Records
begin

text \<open>
  The mutations of an unlocked vault (crates/vault-core/src/records.rs). Each is prepared from an
  authenticated snapshot: a fresh identifier where a record is added, the encrypted row, and the
  encrypted manifest of the next generation. Nothing of the session changes until
  \<open>commit_record_mutation\<close>, which the agent calls once storage holds the rows.
\<close>

unbundle bit_operations_syntax

section \<open>Allocation\<close>

text \<open>
  \<open>(0..n).find_map(..)\<close> over fresh random arrays: a failing draw counts as an attempt, and so does a
  candidate that is not accepted.
\<close>

fun find_candidate ::
    "'e vault_libs \<Rightarrow> nat \<Rightarrow> (bytes \<Rightarrow> bool) \<Rightarrow> nat \<Rightarrow> 'e \<Rightarrow> 'e \<times> bytes option" where
  "find_candidate L len accept 0 e = (e, None)"
| "find_candidate L len accept (Suc n) e =
     (case random_array L len e of
        (e, Ok candidate) \<Rightarrow>
          if accept candidate then (e, Some candidate) else find_candidate L len accept n e
      | (e, _) \<Rightarrow> find_candidate L len accept n e)"

definition allocate_record_id ::
    "'e vault_libs \<Rightarrow> unlocked_vault \<Rightarrow> 'e \<Rightarrow> 'e \<times> (bytes, record_operation_error) result" where
  "allocate_record_id L v e =
     apsnd (ok_or Rec_Failed)
       (find_candidate L 16
          (\<lambda>candidate. \<not> list_ex (\<lambda>entry. me_record_id entry = candidate) (mf_entries (uv_manifest v)))
          MAX_RECORD_ID_ATTEMPTS e)"

definition allocate_credential_id ::
    "'e vault_libs \<Rightarrow> bytes set \<Rightarrow> 'e \<Rightarrow> 'e \<times> (bytes, record_operation_error) result" where
  "allocate_credential_id L existing e =
     apsnd (ok_or Rec_Failed)
       (find_candidate L 32 (\<lambda>candidate. candidate \<noteq> zeros 32 \<and> candidate \<notin> existing)
          MAX_RECORD_ID_ATTEMPTS e)"

definition has_passkey_capacity :: "nat \<Rightarrow> bool" where
  "has_passkey_capacity existing \<longleftrightarrow> existing < CORE_MAX_PASSKEY_CREDENTIALS"

definition passkey_manifest_time :: "u64 \<Rightarrow> u64 \<Rightarrow> u64" where
  "passkey_manifest_time manifest_committed_at_ms wall_clock_ms =
     max wall_clock_ms manifest_committed_at_ms"

definition passkey_update_time :: "u64 \<Rightarrow> u64 \<Rightarrow> u64 \<Rightarrow> u64" where
  "passkey_update_time created_at_ms manifest_committed_at_ms wall_clock_ms =
     max (passkey_manifest_time manifest_committed_at_ms wall_clock_ms) created_at_ms"

fun generate_signing_key_loop ::
    "'e vault_libs \<Rightarrow> nat \<Rightarrow> 'e \<Rightarrow> 'e \<times> (bytes, record_operation_error) result" where
  "generate_signing_key_loop L 0 e = (e, Err Rec_Failed)"
| "generate_signing_key_loop L (Suc n) e =
     entropy_then (random_array L 32 e) (\<lambda>_. Rec_Failed) (\<lambda>e candidate.
     if vl_signing_key_ok L candidate then (e, Ok candidate) else generate_signing_key_loop L n e)"

definition generate_signing_key ::
    "'e vault_libs \<Rightarrow> 'e \<Rightarrow> 'e \<times> (bytes, record_operation_error) result" where
  "generate_signing_key L e = generate_signing_key_loop L MAX_RECORD_ID_ATTEMPTS e"

section \<open>Encrypting a mutation\<close>

definition prepare_manifest_mutation ::
    "'e vault_libs \<Rightarrow> unlocked_vault \<Rightarrow> record_mutation_kind \<Rightarrow> bytes \<Rightarrow> bytes option
       \<Rightarrow> manifest_entry list \<Rightarrow> u64 \<Rightarrow> 'e \<Rightarrow> 'e \<times> (prepared_mutation, record_operation_error) result" where
  "prepare_manifest_mutation L v kind i envelope entries committed_at_ms e =
     pure_then e (map_err (\<lambda>_. Rec_Failed)
                    (Manifest_next_generation (uv_manifest v) committed_at_ms entries))
       (\<lambda>next_manifest.
     pure_then e (map_err (\<lambda>_. Rec_Failed) (Manifest_encode (vl_cbor L) next_manifest))
       (\<lambda>manifest_plaintext.
     entropy_then (random_array L 24 e) (\<lambda>_. Rec_Failed) (\<lambda>e nonce.
     (e,
      and_then (ok_or Rec_Failed
                  (derive_manifest_key L (uv_root_key v) (vault_id v) (vault_key_epoch v)))
        (\<lambda>manifest_key.
      and_then (expect_some (encode_manifest_aad (vl_cbor L) (uv_header v) nonce)) (\<lambda>aad.
      and_then (map_err (\<lambda>_. Rec_Failed)
                  (encrypt_bytes L manifest_key nonce manifest_plaintext aad)) (\<lambda>ciphertext.
      and_then (map_err (\<lambda>_. Rec_Failed)
                  (and_then (ManifestEnvelope_new (vl_cbor L) nonce ciphertext)
                     (ManifestEnvelope_encode (vl_cbor L)))) (\<lambda>manifest_envelope.
      Ok \<lparr>pm_kind = kind, pm_id = i, pm_envelope = envelope,
          pm_manifest_envelope = manifest_envelope,
          pm_expected_generation = mf_generation (uv_manifest v),
          pm_next_manifest = next_manifest\<rparr>))))))))"

text \<open>\<open>iter_mut().find(..)\<close> and the assignment through the reference it returns.\<close>

fun replace_entry :: "manifest_entry \<Rightarrow> manifest_entry list \<Rightarrow> manifest_entry list option" where
  "replace_entry x [] = None"
| "replace_entry x (y # ys) =
     (if me_record_id y = me_record_id x then Some (x # ys)
      else map_option ((#) y) (replace_entry x ys))"

fun change_entries ::
    "record_mutation_kind \<Rightarrow> manifest_entry \<Rightarrow> manifest_entry list
       \<Rightarrow> (manifest_entry list, record_operation_error) result" where
  "change_entries Insert x entries = Ok (entries @ [x])"
| "change_entries Update x entries = ok_or Rec_NotFound (replace_entry x entries)"
| "change_entries Delete x entries = Err Rec_Failed"

definition prepare_plaintext_upsert ::
    "'e vault_libs \<Rightarrow> unlocked_vault \<Rightarrow> record_mutation_kind \<Rightarrow> bytes \<Rightarrow> bytes \<Rightarrow> u64 \<Rightarrow> 'e
       \<Rightarrow> 'e \<times> (prepared_mutation, record_operation_error) result" where
  "prepare_plaintext_upsert L v kind i plaintext_bytes committed_at_ms e =
     entropy_then (random_array L 24 e) (\<lambda>_. Rec_Failed) (\<lambda>e nonce.
     pure_then e (ok_or Rec_Failed (derive_record_key L v i)) (\<lambda>record_key.
     pure_then e (expect_some (encode_record_aad (vl_cbor L) (vault_id v) i (vault_key_epoch v)))
       (\<lambda>aad.
     pure_then e (map_err (\<lambda>_. Rec_Failed) (encrypt_bytes L record_key nonce plaintext_bytes aad))
       (\<lambda>ciphertext.
     pure_then e (map_err (\<lambda>_. Rec_Failed)
                    (and_then (RecordEnvelope_new (vl_cbor L) (vault_key_epoch v) nonce ciphertext)
                       (RecordEnvelope_encode (vl_cbor L)))) (\<lambda>envelope.
     let digest = vl_sha256 L envelope in
     pure_then e (change_entries kind \<lparr>me_record_id = i, me_envelope_digest = digest\<rparr>
                    (mf_entries (uv_manifest v))) (\<lambda>entries.
     prepare_manifest_mutation L v kind i (Some envelope) (sort_key me_record_id entries)
       committed_at_ms e))))))"

definition prepare_upsert ::
    "'e vault_libs \<Rightarrow> unlocked_vault \<Rightarrow> record_mutation_kind \<Rightarrow> bytes \<Rightarrow> u64 \<Rightarrow> u64
       \<Rightarrow> website_account_input \<Rightarrow> u64 \<Rightarrow> 'e \<Rightarrow> 'e \<times> (prepared_mutation, record_operation_error) result" where
  "prepare_upsert L v kind i revision created_at_ms inp committed_at_ms e =
     pure_then e (map_err (\<lambda>_. Rec_Failed)
                    (WebsiteAccountPlaintext_new revision created_at_ms committed_at_ms
                       (wi_service_name inp) (wi_permitted_origin inp) (wi_username inp)
                       (wi_password inp))) (\<lambda>plaintext.
     pure_then e (map_err (\<lambda>_. Rec_Failed) (WebsiteAccountPlaintext_encode (vl_cbor L) plaintext))
       (\<lambda>plaintext_bytes.
     prepare_plaintext_upsert L v kind i plaintext_bytes committed_at_ms e))"

section \<open>Accounts\<close>

definition prepare_add_with_entropy ::
    "'e vault_libs \<Rightarrow> unlocked_vault \<Rightarrow> website_account_input \<Rightarrow> u64 \<Rightarrow> 'e
       \<Rightarrow> 'e \<times> (prepared_mutation, record_operation_error) result" where
  "prepare_add_with_entropy L v inp committed_at_ms e =
     (if length (mf_entries (uv_manifest v)) \<ge> MAX_RECORDS then (e, Err Rec_Failed) else
      entropy_then (allocate_record_id L v e) id (\<lambda>e i.
      prepare_upsert L v Insert i 1 committed_at_ms inp committed_at_ms e))"

definition prepare_add_website_account_with_check ::
    "'e vault_libs \<Rightarrow> unlocked_vault \<Rightarrow> bytes \<Rightarrow> bytes \<Rightarrow> encrypted_record list
       \<Rightarrow> website_account_input \<Rightarrow> u64 \<Rightarrow> (nat \<Rightarrow> bool) \<Rightarrow> 'e
       \<Rightarrow> 'e \<times> (prepared_mutation, record_operation_error) result" where
  "prepare_add_website_account_with_check L v hb mb records inp committed_at_ms should_cancel e =
     pure_then e (authenticate_snapshot_metadata L v hb mb) (\<lambda>_.
     pure_then e (authenticate_records_only_with_check L v records should_cancel) (\<lambda>_.
     prepare_add_with_entropy L v inp committed_at_ms e))"

definition prepare_add_website_account ::
    "'e vault_libs \<Rightarrow> unlocked_vault \<Rightarrow> bytes \<Rightarrow> bytes \<Rightarrow> encrypted_record list
       \<Rightarrow> website_account_input \<Rightarrow> u64 \<Rightarrow> 'e
       \<Rightarrow> 'e \<times> (prepared_mutation, record_operation_error) result" where
  "prepare_add_website_account L v hb mb records inp committed_at_ms =
     prepare_add_website_account_with_check L v hb mb records inp committed_at_ms (\<lambda>_. False)"

definition prepare_update_website_account_with_check ::
    "'e vault_libs \<Rightarrow> unlocked_vault \<Rightarrow> bytes \<Rightarrow> bytes \<Rightarrow> encrypted_record list \<Rightarrow> bytes
       \<Rightarrow> website_account_input \<Rightarrow> u64 \<Rightarrow> (nat \<Rightarrow> bool) \<Rightarrow> 'e
       \<Rightarrow> 'e \<times> (prepared_mutation, record_operation_error) result" where
  "prepare_update_website_account_with_check L v hb mb records i inp committed_at_ms should_cancel e =
     pure_then e (get_website_account_with_check L v hb mb records i should_cancel) (\<lambda>account.
     pure_then e (ok_or Rec_Failed (u64_checked_add (ac_revision account) 1)) (\<lambda>revision.
     prepare_upsert L v Update i revision (ac_created_at_ms account) inp committed_at_ms e))"

definition prepare_update_website_account ::
    "'e vault_libs \<Rightarrow> unlocked_vault \<Rightarrow> bytes \<Rightarrow> bytes \<Rightarrow> encrypted_record list \<Rightarrow> bytes
       \<Rightarrow> website_account_input \<Rightarrow> u64 \<Rightarrow> 'e
       \<Rightarrow> 'e \<times> (prepared_mutation, record_operation_error) result" where
  "prepare_update_website_account L v hb mb records i inp committed_at_ms =
     prepare_update_website_account_with_check L v hb mb records i inp committed_at_ms (\<lambda>_. False)"

definition prepare_delete_website_account_with_check ::
    "'e vault_libs \<Rightarrow> unlocked_vault \<Rightarrow> bytes \<Rightarrow> bytes \<Rightarrow> encrypted_record list \<Rightarrow> bytes \<Rightarrow> u64
       \<Rightarrow> (nat \<Rightarrow> bool) \<Rightarrow> 'e \<Rightarrow> 'e \<times> (prepared_mutation, record_operation_error) result" where
  "prepare_delete_website_account_with_check L v hb mb records i committed_at_ms should_cancel e =
     pure_then e (get_website_account_with_check L v hb mb records i should_cancel) (\<lambda>_.
     let entries = filter (\<lambda>entry. me_record_id entry \<noteq> i) (mf_entries (uv_manifest v)) in
     if length entries = length (mf_entries (uv_manifest v)) then (e, Err Rec_NotFound)
     else prepare_manifest_mutation L v Delete i None entries committed_at_ms e)"

definition prepare_delete_website_account ::
    "'e vault_libs \<Rightarrow> unlocked_vault \<Rightarrow> bytes \<Rightarrow> bytes \<Rightarrow> encrypted_record list \<Rightarrow> bytes \<Rightarrow> u64 \<Rightarrow> 'e
       \<Rightarrow> 'e \<times> (prepared_mutation, record_operation_error) result" where
  "prepare_delete_website_account L v hb mb records i committed_at_ms =
     prepare_delete_website_account_with_check L v hb mb records i committed_at_ms (\<lambda>_. False)"

section \<open>Passkeys\<close>

record exclusion_scan =
  xs_existing :: "bytes set"
  xs_conflict :: bool
  xs_invalid :: bool

fun scan_exclusions :: "bytes \<Rightarrow> bytes list \<Rightarrow> exclusion_scan \<Rightarrow> decrypted_record \<Rightarrow> exclusion_scan" where
  "scan_exclusions rp excluded s (Dec_Account account) = s"
| "scan_exclusions rp excluded s (Dec_Passkey passkey) =
     (if pr_credential_id passkey \<in> xs_existing s then s\<lparr>xs_invalid := True\<rparr> else
      let s = s\<lparr>xs_existing := insert (pr_credential_id passkey) (xs_existing s)\<rparr> in
      if pr_rp_id passkey = rp \<and> List.member excluded (pr_credential_id passkey)
      then s\<lparr>xs_conflict := True\<rparr> else s)"

definition prepare_add_passkey_with_check ::
    "'e vault_libs \<Rightarrow> unlocked_vault \<Rightarrow> bytes \<Rightarrow> bytes \<Rightarrow> encrypted_record list \<Rightarrow> passkey_input
       \<Rightarrow> bytes list \<Rightarrow> passkey_creation_state \<Rightarrow> u64 \<Rightarrow> (nat \<Rightarrow> bool) \<Rightarrow> 'e
       \<Rightarrow> 'e \<times> (prepared_mutation \<times> passkey_credential, record_operation_error) result" where
  "prepare_add_passkey_with_check L v hb mb records inp excluded creation_state wall_clock_ms
       should_cancel e =
     pure_then e (visit_snapshot L v hb mb records should_cancel
                    (scan_exclusions (pi_rp_id inp) excluded)
                    \<lparr>xs_existing = {}, xs_conflict = False, xs_invalid = False\<rparr>) (\<lambda>s.
     if xs_invalid s \<or> \<not> has_passkey_capacity (card (xs_existing s)) then (e, Err Rec_Failed)
     else if xs_conflict s then (e, Err Rec_Conflict)
     else if length (mf_entries (uv_manifest v)) \<ge> MAX_RECORDS then (e, Err Rec_Failed) else
     let committed_at_ms = passkey_manifest_time (mf_committed_at_ms (uv_manifest v)) wall_clock_ms in
     entropy_then (allocate_record_id L v e) id (\<lambda>e i.
     entropy_then (allocate_credential_id L (xs_existing s) e) id (\<lambda>e credential_id.
     entropy_then (generate_signing_key L e) id (\<lambda>e private_key.
     if \<not> vl_signing_key_ok L private_key then (e, Err Rec_Failed)
     else if length (vl_public_point L private_key) \<noteq> CORE_PASSKEY_PUBLIC_KEY_BYTES
     then (e, Err Rec_Failed) else
     pure_then e (map_err (\<lambda>_. Rec_Failed)
                    (PasskeyPlaintext_new 1 committed_at_ms committed_at_ms 0 creation_state
                       (pi_rp_id inp) (pi_user_handle inp) (pi_user_name inp)
                       (pi_user_display_name inp) credential_id private_key)) (\<lambda>plaintext.
     pure_then e (map_err (\<lambda>_. Rec_Failed) (PasskeyPlaintext_encode (vl_cbor L) plaintext))
       (\<lambda>plaintext_bytes.
     entropy_then (prepare_plaintext_upsert L v Insert i plaintext_bytes committed_at_ms e) id
       (\<lambda>e mutation.
     (e, Ok (mutation, \<lparr>pcr_credential_id = credential_id, pcr_user_handle = pi_user_handle inp,
                        pcr_public_key = vl_public_point L private_key\<rparr>)))))))))"

text \<open>\<open>found.replace(..).is_some()\<close> on every match, and whether one was replaced.\<close>

fun find_passkey ::
    "bytes \<Rightarrow> passkey_record option \<times> bool \<Rightarrow> decrypted_record \<Rightarrow> passkey_record option \<times> bool" where
  "find_passkey credential_id (found, duplicate) (Dec_Account account) = (found, duplicate)"
| "find_passkey credential_id (found, duplicate) (Dec_Passkey passkey) =
     (if pr_credential_id passkey = credential_id
      then (Some passkey, duplicate \<or> found \<noteq> None) else (found, duplicate))"

definition prepare_confirm_passkey_creation_with_check ::
    "'e vault_libs \<Rightarrow> unlocked_vault \<Rightarrow> bytes \<Rightarrow> bytes \<Rightarrow> encrypted_record list \<Rightarrow> bytes \<Rightarrow> u64
       \<Rightarrow> (nat \<Rightarrow> bool) \<Rightarrow> 'e \<Rightarrow> 'e \<times> (prepared_mutation, record_operation_error) result" where
  "prepare_confirm_passkey_creation_with_check L v hb mb records credential_id wall_clock_ms
       should_cancel e =
     pure_then e (visit_snapshot L v hb mb records should_cancel (find_passkey credential_id)
                    (None, False)) (\<lambda>(found, duplicate).
     if duplicate then (e, Err Rec_Failed) else
     pure_then e (ok_or Rec_NotFound found) (\<lambda>passkey.
     if pr_creation_state passkey \<noteq> Pending then (e, Err Rec_Conflict) else
     pure_then e (ok_or Rec_Conflict (u64_checked_add (pr_revision passkey) 1)) (\<lambda>next_revision.
     let committed_at_ms = passkey_update_time (pr_created_at_ms passkey)
           (mf_committed_at_ms (uv_manifest v)) wall_clock_ms in
     pure_then e (map_err (\<lambda>_. Rec_Failed)
                    (PasskeyPlaintext_new next_revision (pr_created_at_ms passkey) committed_at_ms
                       (pr_signature_counter passkey) Confirmed (pr_rp_id passkey)
                       (pr_user_handle passkey) (pr_user_name passkey)
                       (pr_user_display_name passkey) (pr_credential_id passkey)
                       (pr_private_key passkey))) (\<lambda>plaintext.
     pure_then e (map_err (\<lambda>_. Rec_Failed) (PasskeyPlaintext_encode (vl_cbor L) plaintext))
       (\<lambda>plaintext_bytes.
     prepare_plaintext_upsert L v Update (pr_id passkey) plaintext_bytes committed_at_ms e)))))"

definition u32_checked_add :: "u32 \<Rightarrow> u32 \<Rightarrow> u32 option" where
  "u32_checked_add a b = (if unat a + unat b < 2 ^ 32 then Some (a + b) else None)"

text \<open>The 37 bytes the core signs over, with the client data hash behind them.\<close>

definition authenticator_data :: "'e vault_libs \<Rightarrow> bytes \<Rightarrow> u32 \<Rightarrow> bytes" where
  "authenticator_data L rp_id counter =
     vl_sha256 L rp_id @ [PASSKEY_USER_PRESENT OR PASSKEY_USER_VERIFIED OR PASSKEY_BACKUP_ELIGIBLE]
       @ be_encode 4 (unat counter)"

definition prepare_passkey_assertion_with_check ::
    "'e vault_libs \<Rightarrow> unlocked_vault \<Rightarrow> bytes \<Rightarrow> bytes \<Rightarrow> encrypted_record list \<Rightarrow> bytes \<Rightarrow> bytes \<Rightarrow> bytes
       \<Rightarrow> u64 \<Rightarrow> (nat \<Rightarrow> bool) \<Rightarrow> 'e
       \<Rightarrow> 'e \<times> (prepared_mutation \<times> passkey_assertion, record_operation_error) result" where
  "prepare_passkey_assertion_with_check L v hb mb records rp_id credential_id client_data_hash
       wall_clock_ms should_cancel e =
     pure_then e (authenticate_snapshot_metadata L v hb mb) (\<lambda>_.
     pure_then e (map_err (\<lambda>_. Rec_Conflict) (normalize_rp_id (vl_url L) rp_id)) (\<lambda>expected_rp_id.
     pure_then e (map_err map_snapshot_operation_error
                    (visit_authenticated_records L v records should_cancel
                       (find_passkey credential_id) (None, False))) (\<lambda>(found, duplicate).
     if duplicate then (e, Err Rec_Failed) else
     pure_then e (ok_or Rec_NotFound found) (\<lambda>passkey.
     if pr_creation_state passkey \<noteq> Confirmed then (e, Err Rec_NotFound)
     else if pr_rp_id passkey \<noteq> expected_rp_id then (e, Err Rec_Conflict) else
     pure_then e (ok_or Rec_Conflict (u64_checked_add (pr_revision passkey) 1)) (\<lambda>next_revision.
     pure_then e (ok_or Rec_Conflict (u32_checked_add (pr_signature_counter passkey) 1))
       (\<lambda>next_counter.
     let authenticator_data = authenticator_data L expected_rp_id next_counter;
         signed_bytes = authenticator_data @ client_data_hash in
     if \<not> vl_signing_key_ok L (pr_private_key passkey) then (e, Err Rec_Failed) else
     let signature_der = vl_sign_der L (pr_private_key passkey) signed_bytes;
         committed_at_ms = passkey_update_time (pr_created_at_ms passkey)
           (mf_committed_at_ms (uv_manifest v)) wall_clock_ms in
     pure_then e (map_err (\<lambda>_. Rec_Failed)
                    (PasskeyPlaintext_new next_revision (pr_created_at_ms passkey) committed_at_ms
                       next_counter Confirmed (pr_rp_id passkey) (pr_user_handle passkey)
                       (pr_user_name passkey) (pr_user_display_name passkey)
                       (pr_credential_id passkey) (pr_private_key passkey))) (\<lambda>plaintext.
     pure_then e (map_err (\<lambda>_. Rec_Failed) (PasskeyPlaintext_encode (vl_cbor L) plaintext))
       (\<lambda>plaintext_bytes.
     entropy_then (prepare_plaintext_upsert L v Update (pr_id passkey) plaintext_bytes
                     committed_at_ms e) id (\<lambda>e mutation.
     (e, Ok (mutation, \<lparr>pas_credential_id = credential_id,
                        pas_user_handle = pr_user_handle passkey,
                        pas_authenticator_data = authenticator_data,
                        pas_signature_der = signature_der\<rparr>)))))))))))"

fun find_passkey_id :: "bytes \<Rightarrow> bytes option \<times> bool \<Rightarrow> decrypted_record \<Rightarrow> bytes option \<times> bool" where
  "find_passkey_id credential_id (found, duplicate) (Dec_Account account) = (found, duplicate)"
| "find_passkey_id credential_id (found, duplicate) (Dec_Passkey passkey) =
     (if pr_credential_id passkey = credential_id
      then (Some (pr_id passkey), duplicate \<or> found \<noteq> None) else (found, duplicate))"

definition prepare_delete_passkey_with_check ::
    "'e vault_libs \<Rightarrow> unlocked_vault \<Rightarrow> bytes \<Rightarrow> bytes \<Rightarrow> encrypted_record list \<Rightarrow> bytes \<Rightarrow> u64
       \<Rightarrow> (nat \<Rightarrow> bool) \<Rightarrow> 'e \<Rightarrow> 'e \<times> (prepared_mutation, record_operation_error) result" where
  "prepare_delete_passkey_with_check L v hb mb records credential_id wall_clock_ms should_cancel e =
     pure_then e (visit_snapshot L v hb mb records should_cancel (find_passkey_id credential_id)
                    (None, False)) (\<lambda>(found, duplicate).
     if duplicate then (e, Err Rec_Failed) else
     pure_then e (ok_or Rec_NotFound found) (\<lambda>i.
     let committed_at_ms = passkey_manifest_time (mf_committed_at_ms (uv_manifest v)) wall_clock_ms;
         entries = filter (\<lambda>entry. me_record_id entry \<noteq> i) (mf_entries (uv_manifest v)) in
     prepare_manifest_mutation L v Delete i None entries committed_at_ms e))"

section \<open>Committing\<close>

definition commit_record_mutation ::
    "unlocked_vault \<Rightarrow> prepared_mutation \<Rightarrow> unlocked_vault \<times> (bytes, record_operation_error) result" where
  "commit_record_mutation v m =
     (if mf_generation (uv_manifest v) \<noteq> pm_expected_generation m then (v, Err Rec_Failed)
      else case u64_checked_add (pm_expected_generation m) 1 of
        None \<Rightarrow> (v, Err Rec_Failed)
      | Some next_generation \<Rightarrow>
          if mf_generation (pm_next_manifest m) \<noteq> next_generation then (v, Err Rec_Failed)
          else (v\<lparr>uv_manifest := pm_next_manifest m\<rparr>, Ok (pm_id m)))"

end
