(* ===== verification/Agent_Storage.thy ===== *)
theory Agent_Storage
  imports Core_Mutations
begin

text \<open>
  The vault database of the agent (crates/vault-agent/src/sqlite.rs): reading the three tables with
  their limits, and applying one prepared mutation in a transaction. SQLite, the file guards and the
  connection settings are a record of parameters: what the queries return, how a transaction starts,
  changes and ends.
\<close>

section \<open>Errors and data\<close>

datatype storage_error =
    Storage_Filesystem | Storage_Identity | Storage_Sidecar | Storage_Snapshot
  | Storage_InvalidDatabaseHeader | Storage_Sqlite | Storage_Integrity | Storage_Schema
  | Storage_ResourceLimit | Storage_Randomness | Storage_Clock | Storage_Conflict | Storage_Aborted

record vault_data =
  vd_header :: bytes
  vd_manifest :: bytes
  vd_records :: "encrypted_record list"

text \<open>
  What the queries yield: the two singleton values, the three row counts, and the rows ordered by
  identifier, \<open>None\<close> for a row that could not be fetched.
\<close>

record raw_tables =
  rt_header :: bytes
  rt_manifest :: bytes
  rt_header_count :: int
  rt_manifest_count :: int
  rt_record_count :: int
  rt_rows :: "(bytes \<times> bytes) option list"

text \<open>
  \<open>sq_read\<close> opens a guarded read connection and queries it, \<open>sq_read_guard\<close> repeats the file checks
  afterwards. \<open>sq_begin\<close> opens a guarded write connection and starts an immediate transaction; a
  statement answers with the number of rows it affected; \<open>sq_commit\<close> says whether it succeeded;
  \<open>sq_abandon\<close> drops an uncommitted transaction; \<open>sq_reread\<close> queries the connection after the commit.
\<close>

record ('d, 't) sqlite =
  sq_read :: "'d \<Rightarrow> (raw_tables, storage_error) result"
  sq_read_guard :: "'d \<Rightarrow> storage_error option"
  sq_begin :: "'d \<Rightarrow> 'd \<times> ('t, storage_error) result"
  sq_select :: "'t \<Rightarrow> (raw_tables, storage_error) result"
  sq_insert :: "bytes \<Rightarrow> bytes \<Rightarrow> 't \<Rightarrow> ('t \<times> nat) option"
  sq_update :: "bytes \<Rightarrow> bytes \<Rightarrow> 't \<Rightarrow> ('t \<times> nat) option"
  sq_delete :: "bytes \<Rightarrow> 't \<Rightarrow> ('t \<times> nat) option"
  sq_set_manifest :: "bytes \<Rightarrow> 't \<Rightarrow> ('t \<times> nat) option"
  sq_guard :: "'t \<Rightarrow> storage_error option"
  sq_commit :: "'d \<Rightarrow> 't \<Rightarrow> 'd \<times> bool"
  sq_abandon :: "'d \<Rightarrow> 't \<Rightarrow> 'd"
  sq_commit_guard :: "'d \<Rightarrow> storage_error option"
  sq_reread :: "'d \<Rightarrow> (raw_tables, storage_error) result"

definition check_guard :: "storage_error option \<Rightarrow> (unit, storage_error) result" where
  "check_guard g = (case g of None \<Rightarrow> Ok () | Some x \<Rightarrow> Err x)"

section \<open>Reading\<close>

fun read_rows ::
    "encrypted_record list \<Rightarrow> (bytes \<times> bytes) option list
       \<Rightarrow> (encrypted_record list, storage_error) result" where
  "read_rows records [] = Ok records"
| "read_rows records (None # rows) = Err Storage_Sqlite"
| "read_rows records (Some (record_id, envelope) # rows) =
     (if length records \<ge> MAX_RECORDS \<or> length envelope > MAX_RECORD_ENVELOPE_BYTES
      then Err Storage_ResourceLimit
      else if length record_id \<noteq> 16 then Err Storage_Schema
      else read_rows (records @ [\<lparr>er_id = record_id, er_envelope = envelope\<rparr>]) rows)"

definition read_encrypted_records ::
    "raw_tables \<Rightarrow> (encrypted_record list, storage_error) result" where
  "read_encrypted_records t = read_rows [] (rt_rows t)"

definition read_vault_data_from_connection :: "raw_tables \<Rightarrow> (vault_data, storage_error) result" where
  "read_vault_data_from_connection t =
     and_then (read_encrypted_records t) (\<lambda>records.
     Ok \<lparr>vd_header = rt_header t, vd_manifest = rt_manifest t, vd_records = records\<rparr>)"

definition read_vault_from_guards ::
    "('d, 't) sqlite \<Rightarrow> 'd \<Rightarrow> (vault_data, storage_error) result" where
  "read_vault_from_guards S d =
     and_then (sq_read S d) (\<lambda>t.
     if length (rt_header t) > MAX_HEADER_BYTES
        \<or> length (rt_manifest t) > MAX_MANIFEST_ENVELOPE_BYTES
     then Err Storage_ResourceLimit
     else if rt_header_count t \<noteq> 1 \<or> rt_manifest_count t \<noteq> 1 \<or> rt_record_count t < 0
        \<or> nat (rt_record_count t) > MAX_RECORDS
     then Err Storage_Schema else
     and_then (read_encrypted_records t) (\<lambda>records.
     if length records \<noteq> nat (rt_record_count t) then Err Storage_Schema else
     and_then (check_guard (sq_read_guard S d)) (\<lambda>_.
     Ok \<lparr>vd_header = rt_header t, vd_manifest = rt_manifest t, vd_records = records\<rparr>)))"

section \<open>Applying a mutation\<close>

fun replace_record :: "encrypted_record \<Rightarrow> encrypted_record list \<Rightarrow> encrypted_record list option" where
  "replace_record x [] = None"
| "replace_record x (y # ys) =
     (if er_id y = er_id x then Some (x # ys) else map_option ((#) y) (replace_record x ys))"

definition apply_to_expected_records ::
    "encrypted_record list \<Rightarrow> prepared_mutation \<Rightarrow> (encrypted_record list, storage_error) result" where
  "apply_to_expected_records records m =
     and_then
       (case pm_kind m of
          Insert \<Rightarrow>
            and_then (ok_or Storage_Schema (pm_envelope m)) (\<lambda>envelope.
            Ok (records @ [\<lparr>er_id = pm_id m, er_envelope = envelope\<rparr>]))
        | Update \<Rightarrow>
            if \<not> list_ex (\<lambda>r. er_id r = pm_id m) records then Err Storage_Conflict else
            and_then (ok_or Storage_Schema (pm_envelope m)) (\<lambda>envelope.
            ok_or Storage_Conflict (replace_record \<lparr>er_id = pm_id m, er_envelope = envelope\<rparr> records))
        | Delete \<Rightarrow>
            let expected = filter (\<lambda>r. er_id r \<noteq> pm_id m) records in
            if length expected = length records then Err Storage_Conflict else Ok expected)
       (\<lambda>expected. Ok (sort_key er_id expected))"

definition run_statement ::
    "('d, 't) sqlite \<Rightarrow> prepared_mutation \<Rightarrow> 't \<Rightarrow> ('t \<times> nat, storage_error) result" where
  "run_statement S m t =
     (case pm_kind m of
        Insert \<Rightarrow>
          and_then (ok_or Storage_Schema (pm_envelope m)) (\<lambda>envelope.
          ok_or Storage_Sqlite (sq_insert S (pm_id m) envelope t))
      | Update \<Rightarrow>
          and_then (ok_or Storage_Schema (pm_envelope m)) (\<lambda>envelope.
          ok_or Storage_Sqlite (sq_update S (pm_id m) envelope t))
      | Delete \<Rightarrow> ok_or Storage_Sqlite (sq_delete S (pm_id m) t))"

text \<open>
  The statements of the transaction up to the commit; a transaction that stops here is dropped, which
  rolls it back.
\<close>

definition run_transaction ::
    "('d, 't) sqlite \<Rightarrow> bytes \<Rightarrow> bytes \<Rightarrow> encrypted_record list \<Rightarrow> prepared_mutation
       \<Rightarrow> (unit, storage_error) result \<Rightarrow> 't \<Rightarrow> ('t, storage_error) result" where
  "run_transaction S expected_header expected_manifest expected_records m before_commit t =
     and_then (and_then (sq_select S t) read_vault_data_from_connection) (\<lambda>current.
     if vd_header current \<noteq> expected_header \<or> vd_manifest current \<noteq> expected_manifest
        \<or> vd_records current \<noteq> expected_records
     then Err Storage_Conflict else
     and_then (run_statement S m t) (\<lambda>(t, affected).
     if affected \<noteq> 1 then Err Storage_Conflict else
     and_then (ok_or Storage_Sqlite (sq_set_manifest S (pm_manifest_envelope m) t))
       (\<lambda>(t, affected).
     if affected \<noteq> 1 then Err Storage_Schema else
     and_then before_commit (\<lambda>_.
     and_then (check_guard (sq_guard S t)) (\<lambda>_. Ok t)))))"

definition verify_commit ::
    "('d, 't) sqlite \<Rightarrow> bytes \<Rightarrow> encrypted_record list \<Rightarrow> prepared_mutation \<Rightarrow> 'd
       \<Rightarrow> (unit, storage_error) result" where
  "verify_commit S expected_header expected_records m d =
     and_then (check_guard (sq_commit_guard S d)) (\<lambda>_.
     and_then (and_then (sq_reread S d) read_vault_data_from_connection) (\<lambda>committed.
     and_then (apply_to_expected_records expected_records m) (\<lambda>expected_committed_records.
     if vd_header committed \<noteq> expected_header \<or> vd_manifest committed \<noteq> pm_manifest_envelope m
        \<or> vd_records committed \<noteq> expected_committed_records
     then Err Storage_Integrity else Ok ())))"

definition apply_record_mutation ::
    "('d, 't) sqlite \<Rightarrow> bytes \<Rightarrow> bytes \<Rightarrow> encrypted_record list \<Rightarrow> prepared_mutation
       \<Rightarrow> (unit, storage_error) result \<Rightarrow> 'd \<Rightarrow> 'd \<times> (unit, storage_error) result" where
  "apply_record_mutation S expected_header expected_manifest expected_records m before_commit d =
     (case sq_begin S d of
        (d, Ok t) \<Rightarrow>
          (case run_transaction S expected_header expected_manifest expected_records m
                  before_commit t of
             Ok t' \<Rightarrow>
               (case sq_commit S d t' of
                  (d, True) \<Rightarrow> (d, verify_commit S expected_header expected_records m d)
                | (d, False) \<Rightarrow> (d, Err Storage_Sqlite))
           | Err x \<Rightarrow> (sq_abandon S d t, Err x)
           | Panic \<Rightarrow> (sq_abandon S d t, Panic))
      | (d, Err x) \<Rightarrow> (d, Err x)
      | (d, Panic) \<Rightarrow> (d, Panic))"

end
