(* ===== verification/Core_Unlock.thy ===== *)
theory Core_Unlock
  imports Core_Mutations
begin

text \<open>
  Unlocking a vault (crates/vault-core/src/lib.rs) with the master password or with a Windows Hello
  protector. Both recover the vault root key, then authenticate the manifest and every record with
  it. A cancellation flag is the sequence of its answers in the order the code asks.
\<close>

section \<open>Unlocking\<close>

fun map_snapshot_unlock_error :: "snapshot_error \<Rightarrow> unlock_error" where
  "map_snapshot_unlock_error Snap_Cancelled = Unlock_Cancelled"
| "map_snapshot_unlock_error Snap_Failed = Unlock_Failed"

definition authenticate_records ::
    "'e vault_libs \<Rightarrow> unlocked_vault \<Rightarrow> encrypted_record list \<Rightarrow> (nat \<Rightarrow> bool)
       \<Rightarrow> (unit, unlock_error) result" where
  "authenticate_records L v records cancelled =
     and_then (map_err map_snapshot_unlock_error
                 (visit_authenticated_records L v records cancelled (\<lambda>s _. s) ())) (\<lambda>_.
     if cancelled (length records) then Err Unlock_Cancelled else Ok ())"

definition authenticate_vault_root_key ::
    "'e vault_libs \<Rightarrow> bytes \<Rightarrow> vault_header \<Rightarrow> manifest_envelope \<Rightarrow> encrypted_record list
       \<Rightarrow> (nat \<Rightarrow> bool) \<Rightarrow> (unlocked_vault, unlock_error) result" where
  "authenticate_vault_root_key L root_key header envelope records cancelled =
     and_then (ok_or Unlock_Failed
                 (derive_manifest_key L root_key (vh_vault_id header) (vh_key_epoch header)))
       (\<lambda>manifest_key.
     and_then (expect_some (encode_manifest_aad (vl_cbor L) header (mv_nonce envelope))) (\<lambda>aad.
     and_then (ok_or Unlock_Failed (decrypt_bytes L manifest_key (mv_nonce envelope)
                 (mv_ciphertext envelope) aad)) (\<lambda>manifest_plaintext.
     and_then (map_err (\<lambda>_. Unlock_Failed) (Manifest_decode (vl_cbor L) manifest_plaintext))
       (\<lambda>manifest.
     if cancelled 0 then Err Unlock_Cancelled
     else if mf_key_epoch manifest \<noteq> vh_key_epoch header \<or> mf_vault_schema manifest \<noteq> VAULT_SCHEMA
     then Err Unlock_Failed else
     let unlocked = \<lparr>uv_root_key = root_key, uv_header = header, uv_manifest = manifest\<rparr> in
     and_then (authenticate_records L unlocked records (\<lambda>i. cancelled (Suc i))) (\<lambda>_.
     Ok unlocked)))))"

definition unlock_vault ::
    "'e vault_libs \<Rightarrow> bytes \<Rightarrow> bytes \<Rightarrow> bytes \<Rightarrow> encrypted_record list \<Rightarrow> (nat \<Rightarrow> bool)
       \<Rightarrow> (unlocked_vault, unlock_error) result" where
  "unlock_vault L password header_bytes manifest_envelope_bytes records cancelled =
     (if cancelled 0 then Err Unlock_Cancelled else
      and_then (map_err (\<lambda>_. Unlock_Failed) (VaultHeader_decode (vl_cbor L) header_bytes)) (\<lambda>header.
      and_then (map_err (\<lambda>_. Unlock_Failed)
                  (ManifestEnvelope_decode (vl_cbor L) manifest_envelope_bytes)) (\<lambda>envelope.
      and_then (ok_or Unlock_Failed
                  (derive_password_key L password (mw_password_salt (vh_master_wrapper header))))
        (\<lambda>password_key.
      if cancelled 1 then Err Unlock_Cancelled else
      and_then (ok_or Unlock_Failed
                  (derive_key L password_key (vh_vault_id header) MASTER_WRAP_LABEL)) (\<lambda>master_kek.
      and_then (expect_some (encode_master_wrapper_aad (vl_cbor L) (vh_vault_id header)
                  (vh_key_epoch header) (mw_password_salt (vh_master_wrapper header))))
        (\<lambda>master_aad.
      and_then (ok_or Unlock_Failed
                  (decrypt_fixed_key L master_kek (mw_nonce (vh_master_wrapper header))
                     (mw_wrapped_vrk (vh_master_wrapper header)) master_aad)) (\<lambda>vault_root_key.
      authenticate_vault_root_key L vault_root_key header envelope records
        (\<lambda>i. cancelled (i + 2)))))))))"

definition unlock_vault_with_windows_hello ::
    "'e vault_libs \<Rightarrow> bytes \<Rightarrow> bytes \<Rightarrow> bytes \<Rightarrow> bytes \<Rightarrow> bytes \<Rightarrow> bytes \<Rightarrow> encrypted_record list
       \<Rightarrow> (nat \<Rightarrow> bool) \<Rightarrow> (unlocked_vault, unlock_error) result" where
  "unlock_vault_with_windows_hello L prf_output installation_key credential_id protector_bytes
       header_bytes manifest_envelope_bytes records cancelled =
     (if cancelled 0 then Err Unlock_Cancelled else
      and_then (map_err (\<lambda>_. Unlock_Failed) (VaultHeader_decode (vl_cbor L) header_bytes)) (\<lambda>header.
      and_then (map_err (\<lambda>_. Unlock_Failed)
                  (ManifestEnvelope_decode (vl_cbor L) manifest_envelope_bytes)) (\<lambda>envelope.
      and_then (map_err (\<lambda>_. Unlock_Failed)
                  (WindowsHelloProtector_decode (vl_cbor L) protector_bytes)) (\<lambda>protector.
      let installation_id = windows_hello_installation_id L installation_key in
      if wh_vault_id protector \<noteq> vh_vault_id header
         \<or> wh_key_epoch protector \<noteq> vh_key_epoch header
         \<or> wh_installation_id protector \<noteq> installation_id
         \<or> wh_credential_id protector \<noteq> credential_id
      then Err Unlock_Failed else
      and_then (ok_or Unlock_Failed
                  (derive_windows_hello_wrapping_key L prf_output installation_key
                     (vh_vault_id header))) (\<lambda>wrapping_key.
      if cancelled 1 then Err Unlock_Cancelled else
      and_then (expect_some (encode_windows_hello_wrapper_aad (vl_cbor L) protector)) (\<lambda>aad.
      and_then (ok_or Unlock_Failed
                  (decrypt_fixed_key L wrapping_key (wh_nonce protector) (wh_wrapped_vrk protector)
                     aad)) (\<lambda>vault_root_key.
      authenticate_vault_root_key L vault_root_key header envelope records
        (\<lambda>i. cancelled (i + 2)))))))))"

definition unlock_empty_vault ::
    "'e vault_libs \<Rightarrow> bytes \<Rightarrow> bytes \<Rightarrow> bytes \<Rightarrow> (nat \<Rightarrow> bool) \<Rightarrow> (unlocked_vault, unlock_error) result" where
  "unlock_empty_vault L password header_bytes manifest_envelope_bytes cancelled =
     unlock_vault L password header_bytes manifest_envelope_bytes [] cancelled"

end
