(* ===== verification/Agent_Vault.thy ===== *)
theory Agent_Vault
  imports Agent_Storage Core_Unlock Ipc_Identity
begin

text \<open>
  The vault session of the agent (crates/vault-agent/src/lifecycle.rs and records.rs): locking and
  unlocking, operation permits, and the record operations, each of which reads the stored vault,
  lets the core work on it, stores the mutation and commits it. The static counter of session
  identifiers, the database and the random source are the world an operation acts on; the reading of
  the system clock is an argument.
\<close>

section \<open>State\<close>

record operation_permit =
  op_session_id :: u64
  op_authorization_epoch :: u64

record vault_agent =
  va_path :: "path option"
  va_session :: "unlocked_vault option"
  va_authenticated_header :: "bytes option"
  va_authenticated_manifest :: "bytes option"
  va_session_id :: "u64 option"
  va_authorization_epoch :: u64

record ('d, 'e) agent_world =
  aw_database :: 'd
  aw_entropy :: 'e
  aw_next_session_id :: u64

type_synonym ('d, 'e) agent_state = "vault_agent \<times> ('d, 'e) agent_world"
type_synonym ('d, 't) databases = "path \<Rightarrow> ('d, 't) sqlite"

datatype account_error = Acc_Locked | Acc_NotFound | Acc_Conflict | Acc_Aborted | Acc_Failed
datatype agent_unlock_error = Agent_Failed | Agent_Cancelled

text \<open>\<open>?\<close> on a call that may change the agent and the world.\<close>

definition agent_then ::
    "'s \<times> ('a, 'x) result \<Rightarrow> ('s \<Rightarrow> 'a \<Rightarrow> 's \<times> ('b, 'x) result) \<Rightarrow> 's \<times> ('b, 'x) result" where
  "agent_then r k =
     (case snd r of Ok x \<Rightarrow> k (fst r) x | Err x \<Rightarrow> (fst r, Err x) | Panic \<Rightarrow> (fst r, Panic))"

section \<open>Lifecycle\<close>

definition next_session_id :: "('d, 'e) agent_world \<Rightarrow> ('d, 'e) agent_world \<times> u64 option" where
  "next_session_id w =
     (case u64_checked_add (aw_next_session_id w) 1 of
        None \<Rightarrow> (w, None)
      | Some n \<Rightarrow> (w\<lparr>aw_next_session_id := n\<rparr>, Some (aw_next_session_id w)))"

text \<open>The clock as milliseconds since the epoch, negative when it is set before it.\<close>

definition unix_time_ms :: "int \<Rightarrow> (u64, storage_error) result" where
  "unix_time_ms now =
     (if now < 0 then Err Storage_Clock
      else if now \<ge> 2 ^ 64 then Err Storage_Clock else Ok (word_of_int now))"

definition bind_vault_path ::
    "(path \<Rightarrow> bool) \<Rightarrow> (path \<Rightarrow> path \<Rightarrow> path) \<Rightarrow> path option \<Rightarrow> path \<Rightarrow> path option" where
  "bind_vault_path is_absolute join current_dir p =
     (if is_absolute p then Some p
      else case current_dir of None \<Rightarrow> None | Some dir \<Rightarrow> Some (join dir p))"

definition open_locked ::
    "(path \<Rightarrow> bool) \<Rightarrow> (path \<Rightarrow> path \<Rightarrow> path) \<Rightarrow> path option \<Rightarrow> path \<Rightarrow> vault_agent" where
  "open_locked is_absolute join current_dir p =
     \<lparr>va_path = bind_vault_path is_absolute join current_dir p, va_session = None,
      va_authenticated_header = None, va_authenticated_manifest = None, va_session_id = None,
      va_authorization_epoch = 0\<rparr>"

definition is_unlocked :: "vault_agent \<Rightarrow> bool" where
  "is_unlocked a \<longleftrightarrow> va_session a \<noteq> None"

definition authenticated_vault_id :: "vault_agent \<Rightarrow> bytes option" where
  "authenticated_vault_id a = map_option vault_id (va_session a)"

definition authenticated_vault_binding :: "vault_agent \<Rightarrow> (bytes \<times> u32) option" where
  "authenticated_vault_binding a = map_option (\<lambda>v. (vault_id v, vault_key_epoch v)) (va_session a)"

definition agent_create_windows_hello_protector ::
    "'e vault_libs \<Rightarrow> vault_agent \<Rightarrow> bytes \<Rightarrow> bytes \<Rightarrow> bytes \<Rightarrow> bytes \<Rightarrow> 'e
       \<Rightarrow> 'e \<times> (bytes, agent_unlock_error) result" where
  "agent_create_windows_hello_protector L a installation_key credential_id prf_salt prf_output e =
     pure_then e (ok_or Agent_Failed (va_session a)) (\<lambda>v.
     apsnd (map_err (\<lambda>_. Agent_Failed))
       (create_windows_hello_protector L v installation_key credential_id prf_salt prf_output e))"

definition advance_authorization_epoch :: "vault_agent \<Rightarrow> vault_agent \<times> bool" where
  "advance_authorization_epoch a =
     (case u64_checked_add (va_authorization_epoch a) 1 of
        None \<Rightarrow> (a, False)
      | Some n \<Rightarrow> (a\<lparr>va_authorization_epoch := n\<rparr>, True))"

definition lock_agent :: "vault_agent \<Rightarrow> vault_agent" where
  "lock_agent a = fst (advance_authorization_epoch
     (a\<lparr>va_session := None, va_authenticated_header := None, va_authenticated_manifest := None,
        va_session_id := None\<rparr>))"

definition begin_operation :: "vault_agent \<Rightarrow> operation_permit option" where
  "begin_operation a =
     (case (va_session a, va_session_id a) of
        (Some _, Some session_id) \<Rightarrow>
          Some \<lparr>op_session_id = session_id, op_authorization_epoch = va_authorization_epoch a\<rparr>
      | _ \<Rightarrow> None)"

definition operation_is_authorized :: "vault_agent \<Rightarrow> operation_permit \<Rightarrow> bool" where
  "operation_is_authorized a permit \<longleftrightarrow>
     va_session a \<noteq> None \<and> va_session_id a = Some (op_session_id permit)
     \<and> op_authorization_epoch permit = va_authorization_epoch a"

text \<open>
  Unlocking reads the vault, lets the core open it, and reads it again before the session is
  published. The cancellation flag is asked at the points of \<open>unlock_poll\<close>; \<open>before_publish\<close> is what
  the callback, and whoever else runs in the meantime, does to the database.
\<close>

datatype unlock_poll = Poll_Start | Poll_Core nat | Poll_Publish | Poll_Published

definition read_guarded_vault :: "('d, 't) sqlite \<Rightarrow> 'd \<Rightarrow> (vault_data, storage_error) result" where
  "read_guarded_vault S d = read_vault_from_guards S d"

definition publish_session ::
    "(unlock_poll \<Rightarrow> bool) \<Rightarrow> unlocked_vault \<Rightarrow> vault_data \<Rightarrow> ('d, 'e) agent_state
       \<Rightarrow> ('d, 'e) agent_state \<times> (unit, agent_unlock_error) result" where
  "publish_session cancelled session snapshot = (\<lambda>(a, w).
     (case next_session_id w of
        (w, None) \<Rightarrow> ((a, w), Err Agent_Failed)
      | (w, Some session_id) \<Rightarrow>
          (case advance_authorization_epoch a of
             (a, False) \<Rightarrow> ((a, w), Err Agent_Failed)
           | (a, True) \<Rightarrow>
               let a = a\<lparr>va_session := Some session, va_authenticated_header := Some (vd_header snapshot),
                          va_authenticated_manifest := Some (vd_manifest snapshot),
                          va_session_id := Some session_id\<rparr>
               in if cancelled Poll_Published then ((lock_agent a, w), Err Agent_Cancelled)
                  else ((a, w), Ok ()))))"

fun map_core_unlock_error :: "unlock_error \<Rightarrow> agent_unlock_error" where
  "map_core_unlock_error Unlock_Cancelled = Agent_Cancelled"
| "map_core_unlock_error Unlock_Failed = Agent_Failed"

definition unlock_with_core ::
    "('d, 't) databases \<Rightarrow> (unlock_poll \<Rightarrow> bool) \<Rightarrow> ('d \<Rightarrow> 'd)
       \<Rightarrow> (bytes \<Rightarrow> bytes \<Rightarrow> encrypted_record list \<Rightarrow> (nat \<Rightarrow> bool) \<Rightarrow> (unlocked_vault, unlock_error) result)
       \<Rightarrow> ('d, 'e) agent_state \<Rightarrow> ('d, 'e) agent_state \<times> (unit, agent_unlock_error) result" where
  "unlock_with_core S cancelled before_publish unlock = (\<lambda>(a, w).
     let a = lock_agent a in
     if cancelled Poll_Start then ((a, w), Err Agent_Cancelled) else
     pure_then (a, w) (ok_or Agent_Failed (va_path a)) (\<lambda>path.
     pure_then (a, w) (map_err (\<lambda>_. Agent_Failed) (read_guarded_vault (S path) (aw_database w)))
       (\<lambda>snapshot.
     pure_then (a, w) (map_err map_core_unlock_error
         (unlock (vd_header snapshot) (vd_manifest snapshot) (vd_records snapshot)
            (\<lambda>n. cancelled (Poll_Core n)))) (\<lambda>session.
     let w = w\<lparr>aw_database := before_publish (aw_database w)\<rparr> in
     if cancelled Poll_Publish then ((a, w), Err Agent_Cancelled) else
     pure_then (a, w) (map_err (\<lambda>_. Agent_Failed) (read_vault_from_guards (S path) (aw_database w)))
       (\<lambda>current.
     if vd_header current \<noteq> vd_header snapshot \<or> vd_manifest current \<noteq> vd_manifest snapshot
        \<or> vd_records current \<noteq> vd_records snapshot
     then ((a, w), Err Agent_Failed)
     else publish_session cancelled session snapshot (a, w))))))"

definition unlock_with_before_publish ::
    "'e vault_libs \<Rightarrow> ('d, 't) databases \<Rightarrow> bytes \<Rightarrow> (unlock_poll \<Rightarrow> bool) \<Rightarrow> ('d \<Rightarrow> 'd)
       \<Rightarrow> ('d, 'e) agent_state \<Rightarrow> ('d, 'e) agent_state \<times> (unit, agent_unlock_error) result" where
  "unlock_with_before_publish L S password cancelled before_publish =
     unlock_with_core S cancelled before_publish (\<lambda>header manifest records cancellation.
       unlock_vault L password header manifest records cancellation)"

definition unlock_agent ::
    "'e vault_libs \<Rightarrow> ('d, 't) databases \<Rightarrow> bytes \<Rightarrow> (unlock_poll \<Rightarrow> bool)
       \<Rightarrow> ('d, 'e) agent_state \<Rightarrow> ('d, 'e) agent_state \<times> (unit, agent_unlock_error) result" where
  "unlock_agent L S password cancelled = unlock_with_before_publish L S password cancelled id"

definition unlock_with_windows_hello_before_publish ::
    "'e vault_libs \<Rightarrow> ('d, 't) databases \<Rightarrow> bytes \<Rightarrow> bytes \<Rightarrow> bytes \<Rightarrow> bytes \<Rightarrow> (unlock_poll \<Rightarrow> bool)
       \<Rightarrow> ('d \<Rightarrow> 'd) \<Rightarrow> ('d, 'e) agent_state
       \<Rightarrow> ('d, 'e) agent_state \<times> (unit, agent_unlock_error) result" where
  "unlock_with_windows_hello_before_publish L S prf_output installation_key credential_id protector
       cancelled before_publish =
     unlock_with_core S cancelled before_publish (\<lambda>header manifest records cancellation.
       unlock_vault_with_windows_hello L prf_output installation_key credential_id protector header
         manifest records cancellation)"

definition unlock_with_windows_hello ::
    "'e vault_libs \<Rightarrow> ('d, 't) databases \<Rightarrow> bytes \<Rightarrow> bytes \<Rightarrow> bytes \<Rightarrow> bytes \<Rightarrow> (unlock_poll \<Rightarrow> bool)
       \<Rightarrow> ('d, 'e) agent_state \<Rightarrow> ('d, 'e) agent_state \<times> (unit, agent_unlock_error) result" where
  "unlock_with_windows_hello L S prf_output installation_key credential_id protector cancelled =
     unlock_with_windows_hello_before_publish L S prf_output installation_key credential_id protector
       cancelled id"

end
