(* ===== verification/Agent_Records.thy ===== *)
theory Agent_Records
  imports Agent_Vault
begin

text \<open>
  The record operations of the agent (crates/vault-agent/src/records.rs). Every operation takes a
  permit, reads the stored vault and compares it with what the session authenticated, and hands it to
  the core. A reading operation returns what the core found; a mutation is stored in one transaction
  and then committed in the session. Most failures lock the agent. \<open>should_cancel\<close> is asked once
  before each record, and by the passkey mutations once more when the mutation is prepared;
  \<open>before_commit\<close> is the outcome of the callback inside the transaction.
\<close>

section \<open>Shared parts\<close>

definition require_operation :: "vault_agent \<Rightarrow> (operation_permit, account_error) result" where
  "require_operation a = ok_or Acc_Locked (begin_operation a)"

definition load_authenticated_snapshot ::
    "('d, 't) databases \<Rightarrow> ('d, 'e) agent_state
       \<Rightarrow> ('d, 'e) agent_state \<times> (vault_data, account_error) result" where
  "load_authenticated_snapshot S = (\<lambda>(a, w).
     pure_then (a, w) (ok_or Acc_Failed (va_path a)) (\<lambda>path.
     case read_guarded_vault (S path) (aw_database w) of
       Ok snapshot \<Rightarrow>
         if va_authenticated_header a = Some (vd_header snapshot)
            \<and> va_authenticated_manifest a = Some (vd_manifest snapshot)
         then ((a, w), Ok snapshot)
         else ((lock_agent a, w), Err Acc_Failed)
     | Err _ \<Rightarrow> ((lock_agent a, w), Err Acc_Failed)
     | Panic \<Rightarrow> ((a, w), Panic)))"

definition map_read ::
    "('a, record_operation_error) result \<Rightarrow> ('d, 'e) agent_state
       \<Rightarrow> ('d, 'e) agent_state \<times> ('a, account_error) result" where
  "map_read result = (\<lambda>(a, w).
     (case result of
        Ok x \<Rightarrow> ((a, w), Ok x)
      | Err Rec_NotFound \<Rightarrow> ((a, w), Err Acc_NotFound)
      | Err Rec_Conflict \<Rightarrow> ((a, w), Err Acc_Conflict)
      | Err Rec_Cancelled \<Rightarrow> ((a, w), Err Acc_Aborted)
      | Err Rec_Failed \<Rightarrow> ((lock_agent a, w), Err Acc_Failed)
      | Panic \<Rightarrow> ((a, w), Panic)))"

text \<open>The other two mappings have the same body at their types.\<close>

definition map_preparation ::
    "(prepared_mutation, record_operation_error) result \<Rightarrow> ('d, 'e) agent_state
       \<Rightarrow> ('d, 'e) agent_state \<times> (prepared_mutation, account_error) result" where
  "map_preparation = map_read"

definition map_preparation_pair ::
    "(prepared_mutation \<times> 'x, record_operation_error) result \<Rightarrow> ('d, 'e) agent_state
       \<Rightarrow> ('d, 'e) agent_state \<times> (prepared_mutation \<times> 'x, account_error) result" where
  "map_preparation_pair = map_read"

definition persist_mutation ::
    "('d, 't) databases \<Rightarrow> operation_permit \<Rightarrow> vault_data \<Rightarrow> prepared_mutation
       \<Rightarrow> (unit, storage_error) result \<Rightarrow> ('d, 'e) agent_state
       \<Rightarrow> ('d, 'e) agent_state \<times> (bytes, account_error) result" where
  "persist_mutation S permit snapshot prepared before_commit = (\<lambda>(a, w).
     if \<not> operation_is_authorized a permit then ((a, w), Err Acc_Locked) else
     pure_then (a, w) (ok_or Acc_Failed (va_path a)) (\<lambda>path.
     case apply_record_mutation (S path) (vd_header snapshot) (vd_manifest snapshot)
            (vd_records snapshot) prepared before_commit (aw_database w) of
       (d, Err Storage_Aborted) \<Rightarrow> ((a, w\<lparr>aw_database := d\<rparr>), Err Acc_Aborted)
     | (d, Err _) \<Rightarrow> ((lock_agent a, w\<lparr>aw_database := d\<rparr>), Err Acc_Failed)
     | (d, Panic) \<Rightarrow> ((a, w\<lparr>aw_database := d\<rparr>), Panic)
     | (d, Ok _) \<Rightarrow>
         let w = w\<lparr>aw_database := d\<rparr> in
         if \<not> operation_is_authorized a permit then ((lock_agent a, w), Err Acc_Locked) else
         pure_then (a, w) (ok_or Acc_Locked (va_session a)) (\<lambda>session.
         case commit_record_mutation session prepared of
           (session, Ok i) \<Rightarrow>
             ((a\<lparr>va_session := Some session,
                 va_authenticated_manifest := Some (pm_manifest_envelope prepared)\<rparr>, w), Ok i)
         | (session, Err _) \<Rightarrow> ((lock_agent (a\<lparr>va_session := Some session\<rparr>), w), Err Acc_Failed)
         | (session, Panic) \<Rightarrow> ((a\<lparr>va_session := Some session\<rparr>, w), Panic))))"

text \<open>
  The body the reading operations share: \<open>read\<close> is the call on the core's session, \<open>before_return\<close> the
  callback between the reading and the check of the permit.
\<close>

definition read_vault ::
    "('d, 't) databases \<Rightarrow> (unlocked_vault \<Rightarrow> bytes \<Rightarrow> bytes \<Rightarrow> encrypted_record list
         \<Rightarrow> ('a, record_operation_error) result)
       \<Rightarrow> (vault_agent \<Rightarrow> vault_agent) \<Rightarrow> ('d, 'e) agent_state
       \<Rightarrow> ('d, 'e) agent_state \<times> ('a, account_error) result" where
  "read_vault S read before_return = (\<lambda>(a, w).
     pure_then (a, w) (require_operation a) (\<lambda>permit.
     agent_then (load_authenticated_snapshot S (a, w)) (\<lambda>(a, w) snapshot.
     pure_then (a, w) (ok_or Acc_Locked (va_session a)) (\<lambda>session.
     agent_then (map_read (read session (vd_header snapshot) (vd_manifest snapshot)
                             (vd_records snapshot)) (a, w)) (\<lambda>(a, w) x.
     let a = before_return a in
     if \<not> operation_is_authorized a permit then ((a, w), Err Acc_Locked)
     else ((a, w), Ok x))))))"

text \<open>
  The body the mutations share: \<open>prepare\<close> is the call on the core's session at the given time,
  \<open>late_cancel\<close> the last question to \<open>should_cancel\<close>, at the count of records it was asked before.
\<close>

definition finish_mutation ::
    "('d, 't) databases \<Rightarrow> operation_permit \<Rightarrow> vault_data \<Rightarrow> (nat \<Rightarrow> bool)
       \<Rightarrow> (unit, storage_error) result \<Rightarrow> (prepared_mutation \<times> 'x, record_operation_error) result
       \<Rightarrow> ('d, 'e) agent_state \<Rightarrow> ('d, 'e) agent_state \<times> (bytes \<times> 'x, account_error) result" where
  "finish_mutation S permit snapshot late_cancel before_commit result s =
     agent_then (map_preparation_pair result s) (\<lambda>s (prepared, x).
     if late_cancel (length (vd_records snapshot)) then (s, Err Acc_Aborted) else
     agent_then (persist_mutation S permit snapshot prepared before_commit s) (\<lambda>s i.
     (s, Ok (i, x))))"

definition mutate_vault ::
    "('d, 't) databases \<Rightarrow> int \<Rightarrow> (unlocked_vault \<Rightarrow> bytes \<Rightarrow> bytes \<Rightarrow> encrypted_record list \<Rightarrow> u64 \<Rightarrow> 'e
         \<Rightarrow> 'e \<times> (prepared_mutation \<times> 'x, record_operation_error) result)
       \<Rightarrow> (nat \<Rightarrow> bool) \<Rightarrow> (unit, storage_error) result \<Rightarrow> ('d, 'e) agent_state
       \<Rightarrow> ('d, 'e) agent_state \<times> (bytes \<times> 'x, account_error) result" where
  "mutate_vault S now prepare late_cancel before_commit = (\<lambda>(a, w).
     pure_then (a, w) (require_operation a) (\<lambda>permit.
     agent_then (load_authenticated_snapshot S (a, w)) (\<lambda>(a, w) snapshot.
     case unix_time_ms now of
       Err _ \<Rightarrow> ((lock_agent a, w), Err Acc_Failed)
     | Panic \<Rightarrow> ((a, w), Panic)
     | Ok committed_at_ms \<Rightarrow>
         pure_then (a, w) (ok_or Acc_Locked (va_session a)) (\<lambda>session.
         case prepare session (vd_header snapshot) (vd_manifest snapshot) (vd_records snapshot)
                committed_at_ms (aw_entropy w) of
           (e, result) \<Rightarrow>
             finish_mutation S permit snapshot late_cancel before_commit result
               (a, w\<lparr>aw_entropy := e\<rparr>)))))"

text \<open>A mutation that brings nothing but itself, and the part of a result a caller keeps.\<close>

definition alone :: "'e \<times> ('a, 'x) result \<Rightarrow> 'e \<times> ('a \<times> unit, 'x) result" where
  "alone r = apsnd (map_result (\<lambda>m. (m, ())) id) r"

definition keeping :: "('a \<Rightarrow> 'b) \<Rightarrow> 's \<times> ('a, 'x) result \<Rightarrow> 's \<times> ('b, 'x) result" where
  "keeping f r = apsnd (map_result f id) r"

section \<open>Passkeys\<close>

definition agent_add_passkey_with_before_commit_and_check ::
    "'e vault_libs \<Rightarrow> ('d, 't) databases \<Rightarrow> int \<Rightarrow> passkey_input \<Rightarrow> bytes list \<Rightarrow> passkey_creation_state
       \<Rightarrow> (nat \<Rightarrow> bool) \<Rightarrow> (unit, storage_error) result \<Rightarrow> ('d, 'e) agent_state
       \<Rightarrow> ('d, 'e) agent_state \<times> (passkey_credential, account_error) result" where
  "agent_add_passkey_with_before_commit_and_check L S now inp excluded creation_state should_cancel
       before_commit s =
     keeping snd (mutate_vault S now (\<lambda>v header manifest records t e.
         prepare_add_passkey_with_check L v header manifest records inp excluded creation_state t
           should_cancel e)
       should_cancel before_commit s)"

definition agent_add_passkey ::
    "'e vault_libs \<Rightarrow> ('d, 't) databases \<Rightarrow> int \<Rightarrow> passkey_input \<Rightarrow> bytes list \<Rightarrow> ('d, 'e) agent_state
       \<Rightarrow> ('d, 'e) agent_state \<times> (passkey_credential, account_error) result" where
  "agent_add_passkey L S now inp excluded =
     agent_add_passkey_with_before_commit_and_check L S now inp excluded Confirmed (\<lambda>_. False) (Ok ())"

definition agent_confirm_passkey_creation_with_before_commit_and_check ::
    "'e vault_libs \<Rightarrow> ('d, 't) databases \<Rightarrow> int \<Rightarrow> bytes \<Rightarrow> (nat \<Rightarrow> bool) \<Rightarrow> (unit, storage_error) result
       \<Rightarrow> ('d, 'e) agent_state \<Rightarrow> ('d, 'e) agent_state \<times> (unit, account_error) result" where
  "agent_confirm_passkey_creation_with_before_commit_and_check L S now credential_id should_cancel
       before_commit s =
     keeping snd (mutate_vault S now (\<lambda>v header manifest records t e.
         alone (prepare_confirm_passkey_creation_with_check L v header manifest records credential_id
           t should_cancel e))
       should_cancel before_commit s)"

definition agent_sign_passkey_assertion_with_before_commit_and_check ::
    "'e vault_libs \<Rightarrow> ('d, 't) databases \<Rightarrow> int \<Rightarrow> bytes \<Rightarrow> bytes \<Rightarrow> bytes \<Rightarrow> (nat \<Rightarrow> bool)
       \<Rightarrow> (unit, storage_error) result \<Rightarrow> ('d, 'e) agent_state
       \<Rightarrow> ('d, 'e) agent_state \<times> (passkey_assertion, account_error) result" where
  "agent_sign_passkey_assertion_with_before_commit_and_check L S now rp_id credential_id
       client_data_hash should_cancel before_commit s =
     keeping snd (mutate_vault S now (\<lambda>v header manifest records t e.
         prepare_passkey_assertion_with_check L v header manifest records rp_id credential_id
           client_data_hash t should_cancel e)
       should_cancel before_commit s)"

definition agent_sign_passkey_assertion ::
    "'e vault_libs \<Rightarrow> ('d, 't) databases \<Rightarrow> int \<Rightarrow> bytes \<Rightarrow> bytes \<Rightarrow> bytes \<Rightarrow> ('d, 'e) agent_state
       \<Rightarrow> ('d, 'e) agent_state \<times> (passkey_assertion, account_error) result" where
  "agent_sign_passkey_assertion L S now rp_id credential_id client_data_hash =
     agent_sign_passkey_assertion_with_before_commit_and_check L S now rp_id credential_id
       client_data_hash (\<lambda>_. False) (Ok ())"

definition agent_delete_passkey_with_before_commit_and_check ::
    "'e vault_libs \<Rightarrow> ('d, 't) databases \<Rightarrow> int \<Rightarrow> bytes \<Rightarrow> (nat \<Rightarrow> bool) \<Rightarrow> (unit, storage_error) result
       \<Rightarrow> ('d, 'e) agent_state \<Rightarrow> ('d, 'e) agent_state \<times> (unit, account_error) result" where
  "agent_delete_passkey_with_before_commit_and_check L S now credential_id should_cancel
       before_commit s =
     keeping snd (mutate_vault S now (\<lambda>v header manifest records t e.
         alone (prepare_delete_passkey_with_check L v header manifest records credential_id t
           should_cancel e))
       should_cancel before_commit s)"

definition agent_delete_passkey ::
    "'e vault_libs \<Rightarrow> ('d, 't) databases \<Rightarrow> int \<Rightarrow> bytes \<Rightarrow> ('d, 'e) agent_state
       \<Rightarrow> ('d, 'e) agent_state \<times> (unit, account_error) result" where
  "agent_delete_passkey L S now credential_id =
     agent_delete_passkey_with_before_commit_and_check L S now credential_id (\<lambda>_. False) (Ok ())"

definition agent_list_passkeys_with_check ::
    "'e vault_libs \<Rightarrow> ('d, 't) databases \<Rightarrow> (nat \<Rightarrow> bool) \<Rightarrow> ('d, 'e) agent_state
       \<Rightarrow> ('d, 'e) agent_state \<times> (passkey_summary list, account_error) result" where
  "agent_list_passkeys_with_check L S should_cancel =
     read_vault S (\<lambda>v header manifest records.
       list_passkeys_with_check L v header manifest records should_cancel) id"

definition agent_list_passkeys ::
    "'e vault_libs \<Rightarrow> ('d, 't) databases \<Rightarrow> ('d, 'e) agent_state
       \<Rightarrow> ('d, 'e) agent_state \<times> (passkey_summary list, account_error) result" where
  "agent_list_passkeys L S = agent_list_passkeys_with_check L S (\<lambda>_. False)"

definition agent_list_passkeys_for_assertion_with_check ::
    "'e vault_libs \<Rightarrow> ('d, 't) databases \<Rightarrow> bytes \<Rightarrow> bytes list \<Rightarrow> bool \<Rightarrow> (nat \<Rightarrow> bool)
       \<Rightarrow> ('d, 'e) agent_state \<Rightarrow> ('d, 'e) agent_state \<times> (passkey_summary list, account_error) result" where
  "agent_list_passkeys_for_assertion_with_check L S rp_id allowed allow_list_present should_cancel =
     read_vault S (\<lambda>v header manifest records.
       list_passkeys_for_assertion_with_check L v header manifest records rp_id
         (if allow_list_present then Some allowed else None) should_cancel) id"

definition agent_list_passkeys_for_assertion ::
    "'e vault_libs \<Rightarrow> ('d, 't) databases \<Rightarrow> bytes \<Rightarrow> bytes list
       \<Rightarrow> ('d, 'e) agent_state \<Rightarrow> ('d, 'e) agent_state \<times> (passkey_summary list, account_error) result" where
  "agent_list_passkeys_for_assertion L S rp_id allowed =
     agent_list_passkeys_for_assertion_with_check L S rp_id allowed (allowed \<noteq> []) (\<lambda>_. False)"

definition agent_pending_passkey_credential_ids_with_check ::
    "'e vault_libs \<Rightarrow> ('d, 't) databases \<Rightarrow> (nat \<Rightarrow> bool) \<Rightarrow> ('d, 'e) agent_state
       \<Rightarrow> ('d, 'e) agent_state \<times> (bytes list, account_error) result" where
  "agent_pending_passkey_credential_ids_with_check L S should_cancel =
     read_vault S (\<lambda>v header manifest records.
       list_pending_passkey_credential_ids_with_check L v header manifest records should_cancel) id"

section \<open>Website accounts\<close>

definition agent_add_website_account_with_before_commit_and_check ::
    "'e vault_libs \<Rightarrow> ('d, 't) databases \<Rightarrow> int \<Rightarrow> website_account_input \<Rightarrow> (nat \<Rightarrow> bool)
       \<Rightarrow> (unit, storage_error) result \<Rightarrow> ('d, 'e) agent_state
       \<Rightarrow> ('d, 'e) agent_state \<times> (bytes, account_error) result" where
  "agent_add_website_account_with_before_commit_and_check L S now inp should_cancel before_commit s =
     keeping fst (mutate_vault S now (\<lambda>v header manifest records t e.
         alone (prepare_add_website_account_with_check L v header manifest records inp t
           should_cancel e))
       (\<lambda>_. False) before_commit s)"

definition agent_add_website_account ::
    "'e vault_libs \<Rightarrow> ('d, 't) databases \<Rightarrow> int \<Rightarrow> website_account_input \<Rightarrow> ('d, 'e) agent_state
       \<Rightarrow> ('d, 'e) agent_state \<times> (bytes, account_error) result" where
  "agent_add_website_account L S now inp =
     agent_add_website_account_with_before_commit_and_check L S now inp (\<lambda>_. False) (Ok ())"

definition agent_update_website_account_with_before_commit_and_check ::
    "'e vault_libs \<Rightarrow> ('d, 't) databases \<Rightarrow> int \<Rightarrow> bytes \<Rightarrow> website_account_input \<Rightarrow> (nat \<Rightarrow> bool)
       \<Rightarrow> (unit, storage_error) result \<Rightarrow> ('d, 'e) agent_state
       \<Rightarrow> ('d, 'e) agent_state \<times> (unit, account_error) result" where
  "agent_update_website_account_with_before_commit_and_check L S now i inp should_cancel
       before_commit s =
     keeping snd (mutate_vault S now (\<lambda>v header manifest records t e.
         alone (prepare_update_website_account_with_check L v header manifest records i inp t
           should_cancel e))
       (\<lambda>_. False) before_commit s)"

definition agent_update_website_account ::
    "'e vault_libs \<Rightarrow> ('d, 't) databases \<Rightarrow> int \<Rightarrow> bytes \<Rightarrow> website_account_input \<Rightarrow> ('d, 'e) agent_state
       \<Rightarrow> ('d, 'e) agent_state \<times> (unit, account_error) result" where
  "agent_update_website_account L S now i inp =
     agent_update_website_account_with_before_commit_and_check L S now i inp (\<lambda>_. False) (Ok ())"

definition agent_delete_website_account_with_before_commit_and_check ::
    "'e vault_libs \<Rightarrow> ('d, 't) databases \<Rightarrow> int \<Rightarrow> bytes \<Rightarrow> (nat \<Rightarrow> bool)
       \<Rightarrow> (unit, storage_error) result \<Rightarrow> ('d, 'e) agent_state
       \<Rightarrow> ('d, 'e) agent_state \<times> (unit, account_error) result" where
  "agent_delete_website_account_with_before_commit_and_check L S now i should_cancel before_commit s =
     keeping snd (mutate_vault S now (\<lambda>v header manifest records t e.
         alone (prepare_delete_website_account_with_check L v header manifest records i t
           should_cancel e))
       (\<lambda>_. False) before_commit s)"

definition agent_delete_website_account ::
    "'e vault_libs \<Rightarrow> ('d, 't) databases \<Rightarrow> int \<Rightarrow> bytes \<Rightarrow> ('d, 'e) agent_state
       \<Rightarrow> ('d, 'e) agent_state \<times> (unit, account_error) result" where
  "agent_delete_website_account L S now i =
     agent_delete_website_account_with_before_commit_and_check L S now i (\<lambda>_. False) (Ok ())"

definition get_website_account_with_before_return ::
    "'e vault_libs \<Rightarrow> ('d, 't) databases \<Rightarrow> bytes \<Rightarrow> (vault_agent \<Rightarrow> vault_agent) \<Rightarrow> ('d, 'e) agent_state
       \<Rightarrow> ('d, 'e) agent_state \<times> (core_account, account_error) result" where
  "get_website_account_with_before_return L S i before_return =
     read_vault S (\<lambda>v header manifest records. get_website_account L v header manifest records i)
       before_return"

definition agent_get_website_account ::
    "'e vault_libs \<Rightarrow> ('d, 't) databases \<Rightarrow> bytes \<Rightarrow> ('d, 'e) agent_state
       \<Rightarrow> ('d, 'e) agent_state \<times> (core_account, account_error) result" where
  "agent_get_website_account L S i = get_website_account_with_before_return L S i id"

definition agent_get_website_account_with_check ::
    "'e vault_libs \<Rightarrow> ('d, 't) databases \<Rightarrow> bytes \<Rightarrow> (nat \<Rightarrow> bool) \<Rightarrow> ('d, 'e) agent_state
       \<Rightarrow> ('d, 'e) agent_state \<times> (core_account, account_error) result" where
  "agent_get_website_account_with_check L S i should_cancel =
     read_vault S (\<lambda>v header manifest records.
       get_website_account_with_check L v header manifest records i should_cancel) id"

definition agent_unique_browser_account_with_check ::
    "'e vault_libs \<Rightarrow> ('d, 't) databases \<Rightarrow> bytes \<Rightarrow> (nat \<Rightarrow> bool) \<Rightarrow> ('d, 'e) agent_state
       \<Rightarrow> ('d, 'e) agent_state \<times> (core_account option, account_error) result" where
  "agent_unique_browser_account_with_check L S origin should_cancel =
     read_vault S (\<lambda>v header manifest records.
       unique_browser_account_with_check L v header manifest records origin should_cancel) id"

definition list_website_accounts_with_before_return ::
    "'e vault_libs \<Rightarrow> ('d, 't) databases \<Rightarrow> (vault_agent \<Rightarrow> vault_agent) \<Rightarrow> ('d, 'e) agent_state
       \<Rightarrow> ('d, 'e) agent_state \<times> (core_account list, account_error) result" where
  "list_website_accounts_with_before_return L S before_return =
     read_vault S (\<lambda>v header manifest records. list_website_accounts L v header manifest records)
       before_return"

definition agent_list_website_accounts ::
    "'e vault_libs \<Rightarrow> ('d, 't) databases \<Rightarrow> ('d, 'e) agent_state
       \<Rightarrow> ('d, 'e) agent_state \<times> (core_account list, account_error) result" where
  "agent_list_website_accounts L S = list_website_accounts_with_before_return L S id"

definition agent_list_website_account_page_with_check ::
    "'e vault_libs \<Rightarrow> ('d, 't) databases \<Rightarrow> nat \<Rightarrow> nat \<Rightarrow> (nat \<Rightarrow> bool) \<Rightarrow> ('d, 'e) agent_state
       \<Rightarrow> ('d, 'e) agent_state \<times> (core_account list \<times> bool, account_error) result" where
  "agent_list_website_account_page_with_check L S start limit should_cancel =
     read_vault S (\<lambda>v header manifest records.
       list_website_account_page_with_check L v header manifest records start limit should_cancel) id"

definition agent_list_website_account_page ::
    "'e vault_libs \<Rightarrow> ('d, 't) databases \<Rightarrow> nat \<Rightarrow> nat \<Rightarrow> ('d, 'e) agent_state
       \<Rightarrow> ('d, 'e) agent_state \<times> (core_account list \<times> bool, account_error) result" where
  "agent_list_website_account_page L S start limit =
     agent_list_website_account_page_with_check L S start limit (\<lambda>_. False)"

end
