(* ===== verification/Core_Store.thy ===== *)
theory Core_Store
  imports Core_Unlock
begin

text \<open>
  What the vault core promises of its records. The locale \<open>vault_crypto\<close> states the documented
  behaviour of the libraries; inside it, a vault session and the rows in storage are related to the
  abstract contents of the vault, a map from record identifiers to records, and every mutation is
  shown to refine an update of that map.
\<close>

section \<open>Libraries\<close>

text \<open>
  Authenticated encryption opens what it sealed and adds a 16-byte tag; digests and derived keys have
  their documented sizes; the entropy source fills the whole buffer or fails; the origin of an
  \<open>http(s)\<close> URL serializes to a printable ASCII URL that parses back to that origin.
\<close>

definition origin_url :: "parsed_url \<Rightarrow> bytes \<Rightarrow> bool" where
  "origin_url u s \<longleftrightarrow> (url_scheme u = ascii ''http'' \<or> url_scheme u = ascii ''https'')
     \<and> url_host u \<noteq> None \<and> url_username u = [] \<and> url_password u = None \<and> url_query u = None
     \<and> url_fragment u = None \<and> url_path u = ascii ''/'' \<and> url_origin_ascii u = s"

locale vault_crypto = minicbor_spec "vl_cbor L" for L :: "'e vault_libs" +
  assumes sha256_length: "length (vl_sha256 L m) = 32"
    and open_seal: "vl_seal L k n m a = Some c \<Longrightarrow> vl_open L k n c a = Some m"
    and seal_length: "vl_seal L k n m a = Some c \<Longrightarrow> length c = length m + 16"
    and fill_length: "vl_fill L e j = (e', Some bs) \<Longrightarrow> length bs = j"
    and parse_origin: "vl_url L s = Some u \<Longrightarrow> url_host u \<noteq> None
      \<Longrightarrow> url_scheme u = ascii ''http'' \<or> url_scheme u = ascii ''https''
      \<Longrightarrow> \<exists>u'. vl_url L (url_origin_ascii u) = Some u' \<and> origin_url u' (url_origin_ascii u)"
    and origin_printable: "vl_url L s = Some u \<Longrightarrow> url_host u \<noteq> None
      \<Longrightarrow> url_scheme u = ascii ''http'' \<or> url_scheme u = ascii ''https''
      \<Longrightarrow> url_origin_ascii u \<noteq> [] \<and> list_all (\<lambda>b. 0x21 \<le> b \<and> b < 0x7F) (url_origin_ascii u)"

section \<open>Snapshots\<close>

text \<open>
  A session and the stored bytes belong together when the code's own authentication of the snapshot
  passes.
\<close>

definition in_sync :: "'e vault_libs \<Rightarrow> unlocked_vault \<Rightarrow> bytes \<Rightarrow> bytes \<Rightarrow> encrypted_record list \<Rightarrow> bool" where
  "in_sync L v hb mb rows \<longleftrightarrow> authenticate_snapshot_metadata L v hb mb = Ok ()
     \<and> authenticate_records_only_with_check L v rows (\<lambda>_. False) = Ok ()"

text \<open>The manifest a session holds is of the key epoch of its header.\<close>

definition session_of :: "unlocked_vault \<Rightarrow> bool" where
  "session_of v \<longleftrightarrow> mf_key_epoch (uv_manifest v) = vault_key_epoch v"

text \<open>The contents of the vault: the records by identifier.\<close>

definition row_map :: "encrypted_record list \<Rightarrow> bytes \<rightharpoonup> encrypted_record" where
  "row_map rows = map_of (map (\<lambda>r. (er_id r, r)) rows)"

definition vault_view ::
    "'e vault_libs \<Rightarrow> unlocked_vault \<Rightarrow> encrypted_record list \<Rightarrow> bytes \<rightharpoonup> decrypted_record" where
  "vault_view L v rows i = (case row_map rows i of None \<Rightarrow> None | Some r \<Rightarrow> ok (decrypt_record L v r))"

definition row_entry :: "'e vault_libs \<Rightarrow> encrypted_record \<Rightarrow> manifest_entry" where
  "row_entry L r = \<lparr>me_record_id = er_id r, me_envelope_digest = vl_sha256 L (er_envelope r)\<rparr>"

lemma row_entry_sel [simp]:
  "me_record_id (row_entry L r) = er_id r"
  "me_envelope_digest (row_entry L r) = vl_sha256 L (er_envelope r)"
  by (simp_all add: row_entry_def)

definition rows_ok :: "'e vault_libs \<Rightarrow> unlocked_vault \<Rightarrow> encrypted_record list \<Rightarrow> bool" where
  "rows_ok L v rows \<longleftrightarrow> sorted_wrt (<) (map er_id rows) \<and> length rows \<le> 100000
     \<and> mf_entries (uv_manifest v) = map (row_entry L) rows
     \<and> (\<forall>r\<in>set rows. \<exists>d. decrypt_record L v r = Ok d)"

text \<open>The records of a snapshot in the order of the visit.\<close>

definition opened :: "'e vault_libs \<Rightarrow> unlocked_vault \<Rightarrow> encrypted_record list \<Rightarrow> decrypted_record list" where
  "opened L v rows = List.map_filter (\<lambda>r. ok (decrypt_record L v r)) rows"

lemma opened_simps [simp]:
  "opened L v [] = []"
  "decrypt_record L v r = Ok d \<Longrightarrow> opened L v (r # rows) = d # opened L v rows"
  by (simp_all add: opened_def List.map_filter_def)

lemma decrypt_record_manifest [simp]:
  "decrypt_record L (v\<lparr>uv_manifest := m\<rparr>) r = decrypt_record L v r"
  by (simp add: decrypt_record_def vault_id_def vault_key_epoch_def derive_record_key_def
      cong: if_cong)

lemma vault_view_manifest [simp]: "vault_view L (v\<lparr>uv_manifest := m\<rparr>) rows = vault_view L v rows"
  by (rule ext) (simp add: vault_view_def split: option.split)

lemma visit_loop_Ok:
  "length rows = length es \<Longrightarrow>
   visit_loop L v (\<lambda>_. False) f i (zip rows es) s = Ok s' \<longleftrightarrow>
     es = map (row_entry L) rows \<and> (\<forall>r\<in>set rows. \<exists>d. decrypt_record L v r = Ok d)
     \<and> s' = foldl f s (opened L v rows)"
proof (induction rows es arbitrary: i s rule: list_induct2)
  case (Cons r rows c es)
  have entry: "c = row_entry L r \<longleftrightarrow>
      er_id r = me_record_id c \<and> vl_sha256 L (er_envelope r) = me_envelope_digest c"
    by (cases c) (auto simp: row_entry_def)
  show ?case
  proof (cases "decrypt_record L v r")
    case (Ok d)
    with Cons.IH show ?thesis by (auto simp: entry)
  qed (simp_all add: entry)
qed auto

text \<open>An uninterrupted visit is a fold over the records, and only of a snapshot that is whole.\<close>

lemma visit_records_Ok:
  "visit_authenticated_records L v rows (\<lambda>_. False) f s = Ok s' \<longleftrightarrow>
     rows_ok L v rows \<and> s' = foldl f s (opened L v rows)"
proof (cases "length rows = length (mf_entries (uv_manifest v))")
  case True
  have "\<not> windows2_any (\<lambda>a b. er_id a \<ge> er_id b) rows \<longleftrightarrow> sorted_wrt (<) (map er_id rows)"
    using windows2_any_map [of "\<lambda>x y. y \<le> x" er_id rows] windows2_any_ge_iff [of "map er_id rows"]
    by simp
  with True show ?thesis
    by (auto simp: visit_authenticated_records_def rows_ok_def visit_loop_Ok)
next
  case False
  then show ?thesis by (auto simp: visit_authenticated_records_def rows_ok_def)
qed

lemma in_sync_iff:
  "in_sync L v hb mb rows \<longleftrightarrow> authenticate_snapshot_metadata L v hb mb = Ok () \<and> rows_ok L v rows"
  by (simp add: in_sync_def authenticate_records_only_with_check_def map_err_Ok visit_records_Ok)

lemma visit_snapshot_Ok:
  "visit_snapshot L v hb mb rows (\<lambda>_. False) f s = Ok s' \<longleftrightarrow>
     in_sync L v hb mb rows \<and> s' = foldl f s (opened L v rows)"
  by (auto simp: visit_snapshot_def result_simps visit_records_Ok in_sync_iff)

text \<open>Cancellation only ever stops a visit: one that finishes saw the whole snapshot.\<close>

lemma visit_loop_uncancelled:
  "visit_loop L v sc f i xs s = Ok s' \<Longrightarrow> visit_loop L v (\<lambda>_. False) f i xs s = Ok s'"
  by (induction L v sc f i xs s rule: visit_loop.induct) (auto simp: result_simps split: if_splits)

lemma visit_records_finished:
  "visit_authenticated_records L v rows sc f s = Ok s' \<Longrightarrow>
     rows_ok L v rows \<and> s' = foldl f s (opened L v rows)"
  unfolding visit_records_Ok [symmetric]
  by (auto simp: visit_authenticated_records_def dest: visit_loop_uncancelled split: if_splits)

lemma visit_snapshot_finished:
  "visit_snapshot L v hb mb rows sc f s = Ok s' \<Longrightarrow>
     in_sync L v hb mb rows \<and> s' = foldl f s (opened L v rows)"
  by (auto simp: visit_snapshot_def result_simps in_sync_iff dest: visit_records_finished)

section \<open>Entropy-passing chains\<close>

lemma entropy_then_Ok:
  "entropy_then r w k = (e', Ok y) \<longleftrightarrow> (\<exists>e x. r = (e, Ok x) \<and> k e x = (e', Ok y))"
  by (cases r) (auto simp: entropy_then_def split: result.splits)

lemma pure_then_Ok: "pure_then e r k = (e', Ok y) \<longleftrightarrow> (\<exists>x. r = Ok x \<and> k x = (e', Ok y))"
  by (auto simp: pure_then_def split: result.splits)

lemma entropy_if_Ok:
  "(if b then (e, Err x) else r) = (e', Ok y) \<longleftrightarrow> \<not> b \<and> r = (e', Ok y)"
  by simp

lemmas chain_Ok = entropy_then_Ok pure_then_Ok entropy_if_Ok result_simps

section \<open>Next manifest\<close>

lemma sort_key_map: "map f (sort_key (\<lambda>x. g (f x)) xs) = sort_key g (map f xs)"
proof (induction xs)
  case (Cons x xs)
  have "map f (insort_key (\<lambda>x. g (f x)) x ys) = insort_key g (f x) (map f ys)" for ys
    by (induction ys) auto
  with Cons show ?case by simp
qed simp

context vault_crypto
begin

lemma random_array_length: "random_array L j e = (e', Ok bs) \<Longrightarrow> length bs = j"
  by (auto simp: random_array_def fill_length split: prod.splits option.splits)

lemma metadata_Ok:
  assumes "authenticate_snapshot_metadata L v hb mb = Ok ()"
  shows "VaultHeader_decode (vl_cbor L) hb = Ok (uv_header v)" "VaultHeader_valid (uv_header v)"
    "decrypt_manifest L v mb = Ok (uv_manifest v)" "Manifest_valid (uv_manifest v)"
proof -
  have h: "VaultHeader_decode (vl_cbor L) hb = Ok (uv_header v)"
    and m: "decrypt_manifest L v mb = Ok (uv_manifest v)"
    using assms by (auto simp: authenticate_snapshot_metadata_def result_simps split: if_splits)
  from h show "VaultHeader_decode (vl_cbor L) hb = Ok (uv_header v)" "VaultHeader_valid (uv_header v)"
    using VaultHeader_decode_sound by blast+
  from m show "decrypt_manifest L v mb = Ok (uv_manifest v)" "Manifest_valid (uv_manifest v)"
    using Manifest_decode_sound by (auto simp: decrypt_manifest_def result_simps)
qed

lemma manifest_envelope_decode:
  assumes "and_then (ManifestEnvelope_new (vl_cbor L) nonce c) (ManifestEnvelope_encode (vl_cbor L))
      = Ok bs"
    and "length nonce = 24" and "length c < 2 ^ 64"
  shows "ManifestEnvelope_decode (vl_cbor L) bs = Ok \<lparr>mv_nonce = nonce, mv_ciphertext = c\<rparr>"
proof -
  let ?e = "\<lparr>mv_nonce = nonce, mv_ciphertext = c\<rparr>"
  have enc: "ManifestEnvelope_encode (vl_cbor L) ?e = Ok bs"
    using assms(1) by (auto simp: ManifestEnvelope_new_def result_simps Let_def split: if_splits)
  with assms(2,3) have "ManifestEnvelope_valid ?e"
    using manifest_envelope_wire_length [of ?e]
    by (auto simp: ManifestEnvelope_encode_eq ManifestEnvelope_valid_def split: if_splits)
  then show ?thesis using enc by (intro ManifestEnvelope_decode_complete) simp_all
qed

lemma sealed_manifest_opens:
  assumes m: "Manifest_valid m" and enc: "Manifest_encode (vl_cbor L) m = Ok p"
    and seal: "encrypt_bytes L k nonce p a = Ok c"
  shows "decrypt_bytes L k nonce c a = Some p" "Manifest_decode (vl_cbor L) p = Ok m"
    "length c < 2 ^ 64"
proof -
  have p: "p = manifest_wire (vl_cbor L) m" using enc Manifest_encode_valid [OF m] by simp
  have sealed: "vl_seal L k nonce p a = Some c"
    using seal by (simp add: encrypt_bytes_def result_simps)
  then show "decrypt_bytes L k nonce c a = Some p" by (simp add: decrypt_bytes_def open_seal)
  show "length c < 2 ^ 64" using seal_length [OF sealed] manifest_wire_length [OF m] p by simp
  show "Manifest_decode (vl_cbor L) p = Ok m" using m enc by (intro Manifest_decode_complete) simp_all
qed

text \<open>
  A prepared mutation of the manifest commits, and the session it commits to authenticates the
  manifest envelope that was prepared.
\<close>

lemma prepare_manifest_mutation_Ok:
  assumes meta: "authenticate_snapshot_metadata L v hb mb = Ok ()"
    and valid: "list_all ManifestEntry_valid entries"
    and prep: "prepare_manifest_mutation L v kind i envelope entries t e = (e', Ok pm)"
  shows "pm_kind pm = kind" "pm_id pm = i" "pm_envelope pm = envelope"
    "commit_record_mutation v pm = (v\<lparr>uv_manifest := pm_next_manifest pm\<rparr>, Ok i)"
    "authenticate_snapshot_metadata L (v\<lparr>uv_manifest := pm_next_manifest pm\<rparr>) hb
       (pm_manifest_envelope pm) = Ok ()"
    "mf_entries (pm_next_manifest pm) = entries"
    "mf_committed_at_ms (pm_next_manifest pm) = t"
    "unat (mf_generation (pm_next_manifest pm)) = unat (mf_generation (uv_manifest v)) + 1"
    "mf_key_epoch (pm_next_manifest pm) = mf_key_epoch (uv_manifest v)"
proof -
  obtain m p e1 nonce k a c bs where
    next_manifest: "Manifest_next_generation (uv_manifest v) t entries = Ok m" and
    enc: "Manifest_encode (vl_cbor L) m = Ok p" and
    nonce: "random_array L 24 e = (e1, Ok nonce)" and
    key: "derive_manifest_key L (uv_root_key v) (vault_id v) (vault_key_epoch v) = Some k" and
    aad: "encode_manifest_aad (vl_cbor L) (uv_header v) nonce = Some a" and
    seal: "encrypt_bytes L k nonce p a = Ok c" and
    env: "and_then (ManifestEnvelope_new (vl_cbor L) nonce c) (ManifestEnvelope_encode (vl_cbor L))
      = Ok bs" and
    pm: "pm = \<lparr>pm_kind = kind, pm_id = i, pm_envelope = envelope, pm_manifest_envelope = bs,
      pm_expected_generation = mf_generation (uv_manifest v), pm_next_manifest = m\<rparr>"
    using prep unfolding prepare_manifest_mutation_def chain_Ok prod.inject by blast
  have m: "m = (uv_manifest v)\<lparr>mf_generation := mf_generation (uv_manifest v) + 1,
      mf_committed_at_ms := t, mf_entries := entries\<rparr>"
    and gen: "unat (mf_generation (uv_manifest v)) + 1 < 2 ^ 64"
    and ok: "validate_manifest m = Ok ()"
    using next_manifest by (auto simp: next_generation_Ok)
  have mv: "Manifest_valid m"
    using ok valid m by (auto simp: Manifest_valid_def validate_manifest_Ok)
  have add: "u64_checked_add (mf_generation (uv_manifest v)) 1 = Some (mf_generation (uv_manifest v) + 1)"
    using gen by (simp add: u64_checked_add_def)
  note opens = sealed_manifest_opens [OF mv enc seal]
  have "ManifestEnvelope_decode (vl_cbor L) bs = Ok \<lparr>mv_nonce = nonce, mv_ciphertext = c\<rparr>"
    by (rule manifest_envelope_decode [OF env random_array_length [OF nonce] opens(3)])
  then have "decrypt_manifest L (v\<lparr>uv_manifest := m\<rparr>) bs = Ok m"
    using opens key aad by (simp add: decrypt_manifest_def vault_id_def vault_key_epoch_def)
  with metadata_Ok(1) [OF meta]
  show "authenticate_snapshot_metadata L (v\<lparr>uv_manifest := pm_next_manifest pm\<rparr>) hb
       (pm_manifest_envelope pm) = Ok ()"
    by (simp add: authenticate_snapshot_metadata_def pm)
  show "commit_record_mutation v pm = (v\<lparr>uv_manifest := pm_next_manifest pm\<rparr>, Ok i)"
    using add by (simp add: commit_record_mutation_def pm m)
  show "unat (mf_generation (pm_next_manifest pm)) = unat (mf_generation (uv_manifest v)) + 1"
    using gen by (simp add: pm m unat_word_ariths)
  show "pm_kind pm = kind" "pm_id pm = i" "pm_envelope pm = envelope"
    "mf_entries (pm_next_manifest pm) = entries" "mf_committed_at_ms (pm_next_manifest pm) = t"
    "mf_key_epoch (pm_next_manifest pm) = mf_key_epoch (uv_manifest v)"
    by (simp_all add: pm m)
qed

text \<open>A sealed record envelope opens to its plaintext under the key of its own identifier.\<close>

lemma record_envelope_decode:
  assumes "and_then (RecordEnvelope_new (vl_cbor L) ke nonce c) (RecordEnvelope_encode (vl_cbor L))
      = Ok bs"
    and "length nonce = 24" and "length c < 2 ^ 64"
  shows "RecordEnvelope_decode (vl_cbor L) bs
      = Ok \<lparr>re_key_epoch = ke, re_nonce = nonce, re_ciphertext = c\<rparr>"
proof -
  let ?e = "\<lparr>re_key_epoch = ke, re_nonce = nonce, re_ciphertext = c\<rparr>"
  have enc: "RecordEnvelope_encode (vl_cbor L) ?e = Ok bs"
    using assms(1) by (auto simp: RecordEnvelope_new_def result_simps Let_def split: if_splits)
  with assms(2,3) have "RecordEnvelope_valid ?e"
    using record_envelope_wire_length [of ?e]
    by (auto simp: RecordEnvelope_encode_eq RecordEnvelope_valid_def split: if_splits)
  then show ?thesis using enc by (intro RecordEnvelope_decode_complete) simp_all
qed

end

text \<open>The last step of \<open>decrypt_record\<close>, on the plaintext.\<close>

definition read_plaintext ::
    "'e vault_libs \<Rightarrow> bytes \<Rightarrow> bytes \<Rightarrow> (decrypted_record, snapshot_error) result" where
  "read_plaintext L i plaintext =
     and_then (map_err (\<lambda>_. Snap_Failed) (record_type (vl_cbor L) plaintext)) (\<lambda>t.
     case t of
       WebsiteAccount \<Rightarrow> decrypt_website_account_plaintext L i plaintext
     | Passkey \<Rightarrow> decrypt_passkey_plaintext L i plaintext)"

text \<open>
  What \<open>prepare_plaintext_upsert\<close> does to the rows: the new row, and the entries of the manifest
  changed in the same way.
\<close>

context vault_crypto
begin

lemma prepare_plaintext_upsert_Ok:
  assumes meta: "authenticate_snapshot_metadata L v hb mb = Ok ()"
    and len: "length i = 16" and small: "length plaintext + 16 < 2 ^ 64"
    and prep: "prepare_plaintext_upsert L v kind i plaintext t e = (e', Ok pm)"
  obtains envelope entries where "pm_kind pm = kind" "pm_id pm = i" "pm_envelope pm = Some envelope"
    "commit_record_mutation v pm = (v\<lparr>uv_manifest := pm_next_manifest pm\<rparr>, Ok i)"
    "authenticate_snapshot_metadata L (v\<lparr>uv_manifest := pm_next_manifest pm\<rparr>) hb
       (pm_manifest_envelope pm) = Ok ()"
    "change_entries kind (row_entry L \<lparr>er_id = i, er_envelope = envelope\<rparr>)
       (mf_entries (uv_manifest v)) = Ok entries"
    "mf_entries (pm_next_manifest pm) = sort_key me_record_id entries"
    "decrypt_record L v \<lparr>er_id = i, er_envelope = envelope\<rparr> = read_plaintext L i plaintext"
    "mf_committed_at_ms (pm_next_manifest pm) = t"
    "unat (mf_generation (pm_next_manifest pm)) = unat (mf_generation (uv_manifest v)) + 1"
    "mf_key_epoch (pm_next_manifest pm) = mf_key_epoch (uv_manifest v)"
proof -
  obtain e1 nonce k a c bs entries where
    nonce: "random_array L 24 e = (e1, Ok nonce)" and
    key: "derive_record_key L v i = Some k" and
    aad: "encode_record_aad (vl_cbor L) (vault_id v) i (vault_key_epoch v) = Some a" and
    seal: "encrypt_bytes L k nonce plaintext a = Ok c" and
    env: "and_then (RecordEnvelope_new (vl_cbor L) (vault_key_epoch v) nonce c)
      (RecordEnvelope_encode (vl_cbor L)) = Ok bs" and
    change: "change_entries kind \<lparr>me_record_id = i, me_envelope_digest = vl_sha256 L bs\<rparr>
      (mf_entries (uv_manifest v)) = Ok entries" and
    prep': "prepare_manifest_mutation L v kind i (Some bs) (sort_key me_record_id entries) t e1
      = (e', Ok pm)"
    using prep unfolding prepare_plaintext_upsert_def chain_Ok Let_def by blast
  have "list_all ManifestEntry_valid (mf_entries (uv_manifest v))"
    using metadata_Ok(4) [OF meta] by (simp add: Manifest_valid_def)
  moreover have "ManifestEntry_valid \<lparr>me_record_id = i, me_envelope_digest = vl_sha256 L bs\<rparr>"
    using len by (simp add: ManifestEntry_valid_def sha256_length)
  moreover have "replace_entry x xs = Some ys \<Longrightarrow> set ys \<subseteq> insert x (set xs)" for x xs ys
    by (induction x xs arbitrary: ys rule: replace_entry.induct) (auto split: if_splits)
  ultimately have "list_all ManifestEntry_valid (sort_key me_record_id entries)"
    using change by (cases kind) (fastforce simp: list_all_iff result_simps)+
  note pm = prepare_manifest_mutation_Ok [OF meta this prep']
  have sealed: "vl_seal L k nonce plaintext a = Some c"
    using seal by (simp add: encrypt_bytes_def result_simps)
  then have "length c < 2 ^ 64" using seal_length [OF sealed] small by simp
  note dec = record_envelope_decode [OF env random_array_length [OF nonce] this]
  have "decrypt_record L v \<lparr>er_id = i, er_envelope = bs\<rparr> = read_plaintext L i plaintext"
    using key aad open_seal [OF sealed]
    by (simp add: decrypt_record_def dec decrypt_bytes_def read_plaintext_def)
  then show thesis using that [of bs entries] pm change by (simp add: row_entry_def)
qed

end

end
