(* ===== verification/Vault_Store.thy ===== *)
theory Vault_Store
  imports Core_Store Agent_Storage
begin

text \<open>
  The vault as a map from identifiers to records. A prepared mutation, the rows storage holds after
  it and the committed session belong together again, and the contents changed at one identifier.
\<close>

section \<open>Rows as a map\<close>

lemma row_map_Some:
  "distinct (map er_id rows) \<Longrightarrow> row_map rows i = Some r \<longleftrightarrow> r \<in> set rows \<and> er_id r = i"
  by (simp add: row_map_def map_of_eq_Some_iff comp_def) auto

lemma row_map_eqI:
  assumes "distinct (map er_id rows)" and "\<And>i r. m i = Some r \<longleftrightarrow> r \<in> set rows \<and> er_id r = i"
  shows "row_map rows = m"
proof
  show "row_map rows i = m i" for i
    using assms(2) [of i] row_map_Some [OF assms(1), of i] by (metis not_None_eq option.inject)
qed

lemma row_map_upsert:
  assumes "distinct (map er_id rows)" "distinct (map er_id rows')"
    and "set rows' = insert r {x \<in> set rows. er_id x \<noteq> er_id r}"
  shows "row_map rows' = (row_map rows)(er_id r \<mapsto> r)"
  using assms by (intro row_map_eqI) (auto simp: row_map_Some)

lemma row_map_delete:
  assumes "distinct (map er_id rows)" "distinct (map er_id rows')"
    and "set rows' = {x \<in> set rows. er_id x \<noteq> i}"
  shows "row_map rows' = (row_map rows)(i := None)"
  using assms by (intro row_map_eqI) (auto simp: row_map_Some)

lemma rows_ok_distinct: "rows_ok L v rows \<Longrightarrow> distinct (map er_id rows)"
  by (simp add: rows_ok_def strict_sorted_iff)

lemma vault_view_Some:
  assumes "rows_ok L v rows"
  shows "vault_view L v rows i = Some d \<longleftrightarrow>
    (\<exists>r\<in>set rows. er_id r = i \<and> decrypt_record L v r = Ok d)"
proof -
  note lookup = row_map_Some [OF rows_ok_distinct [OF assms], of i]
  show ?thesis
  proof (cases "row_map rows i")
    case None
    with lookup show ?thesis by (force simp: vault_view_def)
  next
    case (Some r)
    then have "r' \<in> set rows \<Longrightarrow> er_id r' = i \<Longrightarrow> r' = r" for r'
      using lookup [of r'] by simp
    moreover have "r \<in> set rows" "er_id r = i" using lookup [of r] Some by simp_all
    moreover have "vault_view L v rows i = ok (decrypt_record L v r)"
      by (simp add: vault_view_def Some)
    ultimately show ?thesis by (metis ok_Some)
  qed
qed

lemma vault_view_dom: "rows_ok L v rows \<Longrightarrow> dom (vault_view L v rows) = er_id ` set rows"
  by (auto simp: dom_def vault_view_Some) (auto simp: rows_ok_def, blast)

section \<open>Replacing one row\<close>

lemma replace_record_set:
  "distinct (map er_id rows) \<Longrightarrow> replace_record r rows = Some rows' \<Longrightarrow>
     set rows' = insert r {x \<in> set rows. er_id x \<noteq> er_id r} \<and> er_id r \<in> er_id ` set rows"
  by (induction r rows arbitrary: rows' rule: replace_record.induct)
    (auto split: if_splits intro: rev_image_eqI)

lemma replace_entry_rows:
  "replace_entry (row_entry L r) (map (row_entry L) rows)
     = map_option (map (row_entry L)) (replace_record r rows)"
  by (induction r rows rule: replace_record.induct) (auto simp: option.map_comp comp_def)

lemma replace_record_None:
  "replace_record r rows = None \<longleftrightarrow> \<not> list_ex (\<lambda>x. er_id x = er_id r) rows"
  by (induction r rows rule: replace_record.induct) auto

section \<open>Mutations refine map updates\<close>

context vault_crypto
begin

lemma stored_rows_ok:
  assumes meta: "authenticate_snapshot_metadata L (v\<lparr>uv_manifest := m\<rparr>) hb mb = Ok ()"
    and entries: "mf_entries m = map (row_entry L) rows"
    and dec: "\<forall>r\<in>set rows. \<exists>d. decrypt_record L v r = Ok d"
  shows "in_sync L (v\<lparr>uv_manifest := m\<rparr>) hb mb rows"
  using metadata_Ok(4) [OF meta] assms
  by (simp add: in_sync_iff rows_ok_def Manifest_valid_def comp_def)

lemma upsert_refines:
  assumes sync: "in_sync L v hb mb rows" and len: "length i = 16"
    and small: "length plaintext + 16 < 2 ^ 64"
    and prep: "prepare_plaintext_upsert L v kind i plaintext t e = (e', Ok pm)"
    and plain: "read_plaintext L i plaintext = Ok d"
  obtains rows' where "pm_id pm = i" "kind \<noteq> Delete"
    "apply_to_expected_records rows pm = Ok rows'"
    "commit_record_mutation v pm = (v\<lparr>uv_manifest := pm_next_manifest pm\<rparr>, Ok i)"
    "in_sync L (v\<lparr>uv_manifest := pm_next_manifest pm\<rparr>) hb (pm_manifest_envelope pm) rows'"
    "vault_view L v rows' = (vault_view L v rows)(i \<mapsto> d)"
    "i \<in> dom (vault_view L v rows) \<longleftrightarrow> kind = Update"
    "mf_key_epoch (pm_next_manifest pm) = mf_key_epoch (uv_manifest v)"
proof -
  have meta: "authenticate_snapshot_metadata L v hb mb = Ok ()" and ok: "rows_ok L v rows"
    using sync by (simp_all add: in_sync_iff)
  have entries: "mf_entries (uv_manifest v) = map (row_entry L) rows"
    and dec: "\<forall>r\<in>set rows. \<exists>d. decrypt_record L v r = Ok d"
    using ok by (simp_all add: rows_ok_def)
  note dist = rows_ok_distinct [OF ok]
  from prepare_plaintext_upsert_Ok [OF meta len small prep] obtain envelope es where
    pm: "pm_kind pm = kind" "pm_id pm = i" "pm_envelope pm = Some envelope"
      "commit_record_mutation v pm = (v\<lparr>uv_manifest := pm_next_manifest pm\<rparr>, Ok i)"
      "mf_key_epoch (pm_next_manifest pm) = mf_key_epoch (uv_manifest v)"
    and meta': "authenticate_snapshot_metadata L (v\<lparr>uv_manifest := pm_next_manifest pm\<rparr>) hb
       (pm_manifest_envelope pm) = Ok ()"
    and change: "change_entries kind (row_entry L \<lparr>er_id = i, er_envelope = envelope\<rparr>)
       (map (row_entry L) rows) = Ok es"
    and es: "mf_entries (pm_next_manifest pm) = sort_key me_record_id es"
    and dec_new: "decrypt_record L v \<lparr>er_id = i, er_envelope = envelope\<rparr> = Ok d"
    by (metis entries plain)
  define r where "r = \<lparr>er_id = i, er_envelope = envelope\<rparr>"
  have r: "er_id r = i" "decrypt_record L v r = Ok d" using dec_new by (simp_all add: r_def)
  obtain new where new: "es = map (row_entry L) new"
    and applied: "apply_to_expected_records rows pm = Ok (sort_key er_id new)"
    and kinds: "kind = Insert \<and> new = rows @ [r] \<or> kind = Update \<and> replace_record r rows = Some new"
  proof (cases kind)
    case Insert
    then show ?thesis using that [of "rows @ [r]"] change pm
      by (simp add: apply_to_expected_records_def r_def)
  next
    case Update
    with change obtain new where "replace_record r rows = Some new" "es = map (row_entry L) new"
      by (auto simp: replace_entry_rows result_simps r_def)
    then show ?thesis using that [of new] pm Update replace_record_None [of r rows]
      by (auto simp: apply_to_expected_records_def r_def)
  qed (use change in simp)
  define rows' where "rows' = sort_key er_id new"
  have es': "mf_entries (pm_next_manifest pm) = map (row_entry L) rows'"
    using sort_key_map [of "row_entry L" me_record_id new] by (simp add: es new rows'_def)
  have set': "set rows' = set new" by (simp add: rows'_def)
  have sub: "set new \<subseteq> insert r (set rows)"
    using kinds replace_record_set [OF dist] by auto
  then have sync': "in_sync L (v\<lparr>uv_manifest := pm_next_manifest pm\<rparr>) hb (pm_manifest_envelope pm) rows'"
    using stored_rows_ok [OF meta' es'] dec r(2) by (auto simp: set')
  then have dist': "distinct (map er_id rows')" by (auto simp: in_sync_iff dest: rows_ok_distinct)
  then have "distinct (map er_id new)" by (simp add: rows'_def distinct_map)
  then have fresh: "kind = Insert \<Longrightarrow> i \<notin> er_id ` set rows" using kinds r(1) by auto
  then have "kind = Insert \<Longrightarrow> {x \<in> set rows. er_id x \<noteq> er_id r} = set rows"
    using r(1) by (auto simp: image_iff)
  then have set_new: "set new = insert r {x \<in> set rows. er_id x \<noteq> er_id r}"
    using kinds replace_record_set [OF dist] by auto
  have dom: "i \<in> er_id ` set rows \<longleftrightarrow> kind = Update"
    using kinds replace_record_set [OF dist] fresh r(1) by auto
  have "row_map rows' = (row_map rows)(i \<mapsto> r)"
    using row_map_upsert [OF dist dist', of r] set_new set' r(1) by simp
  then have "vault_view L v rows' = (vault_view L v rows)(i \<mapsto> d)"
    using r(2) by (auto simp: fun_eq_iff vault_view_def)
  moreover have "kind \<noteq> Delete" using kinds by auto
  ultimately show thesis
    using that [of rows'] pm applied sync' dom vault_view_dom [OF ok] by (simp add: rows'_def)
qed

lemma delete_refines:
  assumes sync: "in_sync L v hb mb rows" and i: "i \<in> dom (vault_view L v rows)"
    and prep: "prepare_manifest_mutation L v Delete i None
      (filter (\<lambda>entry. me_record_id entry \<noteq> i) (mf_entries (uv_manifest v))) t e = (e', Ok pm)"
  obtains rows' where "pm_id pm = i"
    "apply_to_expected_records rows pm = Ok rows'"
    "commit_record_mutation v pm = (v\<lparr>uv_manifest := pm_next_manifest pm\<rparr>, Ok i)"
    "in_sync L (v\<lparr>uv_manifest := pm_next_manifest pm\<rparr>) hb (pm_manifest_envelope pm) rows'"
    "vault_view L v rows' = (vault_view L v rows)(i := None)"
    "mf_key_epoch (pm_next_manifest pm) = mf_key_epoch (uv_manifest v)"
proof -
  have meta: "authenticate_snapshot_metadata L v hb mb = Ok ()" and ok: "rows_ok L v rows"
    using sync by (simp_all add: in_sync_iff)
  have entries: "mf_entries (uv_manifest v) = map (row_entry L) rows"
    and dec: "\<forall>r\<in>set rows. \<exists>d. decrypt_record L v r = Ok d"
    and sorted: "sorted_wrt (<) (map er_id rows)"
    using ok by (simp_all add: rows_ok_def)
  note dist = rows_ok_distinct [OF ok]
  define rows' where "rows' = filter (\<lambda>r. er_id r \<noteq> i) rows"
  have valid: "list_all ManifestEntry_valid
      (filter (\<lambda>entry. me_record_id entry \<noteq> i) (mf_entries (uv_manifest v)))"
    using metadata_Ok(4) [OF meta] by (auto simp: Manifest_valid_def list_all_iff)
  note pm = prepare_manifest_mutation_Ok [OF meta valid prep]
  have es: "mf_entries (pm_next_manifest pm) = map (row_entry L) rows'"
    by (simp add: pm(6) entries rows'_def filter_map comp_def)
  have less: "length rows' < length rows"
    using i vault_view_dom [OF ok] by (auto simp: rows'_def length_filter_less)
  have "sorted (map er_id rows')"
    using sorted_filter [of er_id rows] sorted by (simp add: rows'_def strict_sorted_imp_sorted)
  then have "sort_key er_id rows' = rows'" by (rule sort_key_id_if_sorted)
  then have applied: "apply_to_expected_records rows pm = Ok rows'"
    using less pm(1,2) by (simp add: apply_to_expected_records_def rows'_def)
  have sync': "in_sync L (v\<lparr>uv_manifest := pm_next_manifest pm\<rparr>) hb (pm_manifest_envelope pm) rows'"
    using dec by (intro stored_rows_ok [OF pm(5) es]) (simp add: rows'_def)
  have "distinct (map er_id rows')" using sync' by (auto simp: in_sync_iff dest: rows_ok_distinct)
  then have "row_map rows' = (row_map rows)(i := None)"
    by (intro row_map_delete [OF dist]) (auto simp: rows'_def)
  then have "vault_view L v rows' = (vault_view L v rows)(i := None)"
    by (auto simp: fun_eq_iff vault_view_def)
  then show thesis using that [of rows'] pm(2,4,9) applied sync' by simp
qed

end

end
