(* ===== verification/Agent_Database.thy ===== *)
theory Agent_Database
  imports Vault_Store
begin

text \<open>
  What the database promises to the code that applies a mutation. The locale \<open>vault_database\<close> states
  the documented behaviour of SQLite transactions over two views of its state: what is committed, and
  what an open transaction would commit. The client lemmas show that applying a mutation is atomic:
  whatever fails, the database holds either what it held or the whole mutation. A small in-memory
  database satisfies the laws.
\<close>

section \<open>Interface\<close>

text \<open>Rows as a query returns them: each is the stored row or could not be fetched.\<close>

definition tables_show :: "raw_tables \<Rightarrow> vault_data \<Rightarrow> bool" where
  "tables_show t vd \<longleftrightarrow> rt_header t = vd_header vd \<and> rt_manifest t = vd_manifest vd
     \<and> list_all2 (\<lambda>row r. row = None \<or> row = Some (er_id r, er_envelope r))
         (rt_rows t) (vd_records vd)"

definition record_ids :: "vault_data \<Rightarrow> bytes list" where
  "record_ids vd = map er_id (vd_records vd)"

locale vault_database =
  fixes S :: "('d, 't) sqlite"
    and committed :: "'d \<Rightarrow> vault_data"
    and pending :: "'t \<Rightarrow> vault_data"
  assumes begin_keeps: "sq_begin S d = (d', r) \<Longrightarrow> committed d' = committed d"
    and begin_sees: "sq_begin S d = (d', Ok t)
      \<Longrightarrow> pending t = committed d \<and> sorted (record_ids (pending t))"
    and select_shows: "sq_select S t = Ok x \<Longrightarrow> tables_show x (pending t)"
    and insert_row: "sq_insert S i envelope t = Some (t', n)
      \<Longrightarrow> n = 1 \<and> pending t' = (pending t)\<lparr>vd_records :=
            sort_key er_id (vd_records (pending t) @ [\<lparr>er_id = i, er_envelope = envelope\<rparr>])\<rparr>"
    and update_row: "sq_update S i envelope t = Some (t', n)
      \<Longrightarrow> n = count_list (record_ids (pending t)) i
        \<and> pending t' = (pending t)\<lparr>vd_records :=
            map (\<lambda>r. if er_id r = i then \<lparr>er_id = i, er_envelope = envelope\<rparr> else r)
              (vd_records (pending t))\<rparr>"
    and delete_row: "sq_delete S i t = Some (t', n)
      \<Longrightarrow> n = count_list (record_ids (pending t)) i
        \<and> pending t' = (pending t)\<lparr>vd_records := filter (\<lambda>r. er_id r \<noteq> i) (vd_records (pending t))\<rparr>"
    and set_manifest: "sq_set_manifest S envelope t = Some (t', 1)
      \<Longrightarrow> pending t' = (pending t)\<lparr>vd_manifest := envelope\<rparr>"
    and commit_stores: "sq_commit S d t = (d', True) \<Longrightarrow> committed d' = pending t"
    and commit_atomic: "sq_commit S d t = (d', False)
      \<Longrightarrow> committed d' = committed d \<or> committed d' = pending t"
    and abandon_keeps: "committed (sq_abandon S d t) = committed d"
    and read_shows: "sq_read S d = Ok x \<Longrightarrow> tables_show x (committed d)"
    and reread_shows: "sq_reread S d = Ok x \<Longrightarrow> tables_show x (committed d)"
    and begin_not_aborted: "sq_begin S d \<noteq> (d', Err Storage_Aborted)"
    and reread_not_aborted: "sq_reread S d \<noteq> Err Storage_Aborted"
    and guard_not_aborted: "sq_commit_guard S d \<noteq> Some Storage_Aborted"
    and begin_not_panic: "sq_begin S d \<noteq> (d', Panic)"
    and select_not_panic: "sq_select S t \<noteq> Panic"
    and reread_not_panic: "sq_reread S d \<noteq> Panic"

section \<open>Reading back rows\<close>

lemma read_rows_shown:
  assumes "read_rows acc rows = Ok out"
    and "list_all2 (\<lambda>row r. row = None \<or> row = Some (er_id r, er_envelope r)) rows records"
  shows "out = acc @ records"
  using assms(2,1)
proof (induction arbitrary: acc rule: list_all2_induct)
  case (Cons row rows r records)
  then show ?case by (cases row) (auto split: if_splits dest!: Cons.IH)
qed simp

lemma read_shown:
  assumes "read_vault_data_from_connection t = Ok vd'" and "tables_show t vd"
  shows "vd' = vd"
  using assms read_rows_shown [of "[]"]
  by (auto simp: read_vault_data_from_connection_def read_encrypted_records_def tables_show_def
      result_simps)

lemma read_rows_not_aborted: "read_rows acc rows \<noteq> Err Storage_Aborted"
  by (induction acc rows rule: read_rows.induct) auto

lemma read_data_not_aborted: "read_vault_data_from_connection t \<noteq> Err Storage_Aborted"
  using read_rows_not_aborted [of "[]"]
  by (auto simp: read_vault_data_from_connection_def read_encrypted_records_def result_simps)

lemma read_rows_not_panic: "read_rows acc rows \<noteq> Panic"
  by (induction acc rows rule: read_rows.induct) auto

lemma read_data_not_panic: "read_vault_data_from_connection t \<noteq> Panic"
  using read_rows_not_panic [of "[]"]
  by (auto simp: read_vault_data_from_connection_def read_encrypted_records_def result_simps)

lemma apply_to_expected_not_panic: "apply_to_expected_records rows m \<noteq> Panic"
  by (auto simp: apply_to_expected_records_def result_simps Let_def split: record_mutation_kind.splits)

lemma replace_record_once:
  "count_list (map er_id rows) i = 1
    \<Longrightarrow> replace_record \<lparr>er_id = i, er_envelope = envelope\<rparr> rows
      = Some (map (\<lambda>r. if er_id r = i then \<lparr>er_id = i, er_envelope = envelope\<rparr> else r) rows)"
proof (induction rows)
  case (Cons r rows)
  show ?case
  proof (cases "er_id r = i")
    case True
    with Cons.prems have "i \<notin> er_id ` set rows" by (simp add: count_list_0_iff)
    then have "map (\<lambda>r. if er_id r = i then \<lparr>er_id = i, er_envelope = envelope\<rparr> else r) rows = rows"
      by (intro map_idI) auto
    with True show ?thesis by simp
  qed (use Cons in simp)
qed simp

lemma count_list_distinct: "distinct xs \<Longrightarrow> x \<in> set xs \<Longrightarrow> count_list xs x = 1"
  by (induction xs) auto

lemma sort_key_sorted: "sorted (map f xs) \<Longrightarrow> sort_key f xs = xs"
  by (induction xs) (auto simp: insort_is_Cons)

section \<open>Atomicity\<close>

context vault_database
begin

lemma statement_applies:
  assumes "run_statement S m t = Ok (t', 1)" and ordered: "sorted (record_ids (pending t))"
  shows "\<exists>rows'. apply_to_expected_records (vd_records (pending t)) m = Ok rows'
    \<and> pending t' = (pending t)\<lparr>vd_records := rows'\<rparr>"
proof (cases "pm_kind m")
  case Insert
  with assms(1) insert_row show ?thesis
    by (auto simp: run_statement_def apply_to_expected_records_def result_simps)
next
  case Update
  then obtain envelope where e: "pm_envelope m = Some envelope" "sq_update S (pm_id m) envelope t = Some (t', 1)"
    using assms(1) by (auto simp: run_statement_def result_simps)
  note upd = update_row [OF e(2)]
  then have one: "count_list (map er_id (vd_records (pending t))) (pm_id m) = 1"
    by (simp add: record_ids_def)
  then have "pm_id m \<in> er_id ` set (vd_records (pending t))"
    by (metis count_notin list.set_map zero_neq_one)
  moreover have "sorted (map er_id (map (\<lambda>r. if er_id r = pm_id m
      then \<lparr>er_id = pm_id m, er_envelope = envelope\<rparr> else r) (vd_records (pending t))))"
    using ordered
    by (simp add: record_ids_def comp_def if_distrib cong: if_cong)
  ultimately show ?thesis
    using Update upd e(1) one replace_record_once [OF one, of envelope]
    by (auto simp: apply_to_expected_records_def result_simps list_ex_iff sort_key_sorted)
next
  case Delete
  then have del: "sq_delete S (pm_id m) t = Some (t', 1)"
    using assms(1) by (auto simp: run_statement_def result_simps)
  note row = delete_row [OF del]
  then have "pm_id m \<in> er_id ` set (vd_records (pending t))"
    by (metis One_nat_def count_notin list.set_map nat.simps(3) record_ids_def)
  then have "length (filter (\<lambda>r. er_id r \<noteq> pm_id m) (vd_records (pending t)))
      \<noteq> length (vd_records (pending t))"
    by (auto simp: filter_id_conv dest!: length_filter_less [of _ _ "\<lambda>r. er_id r \<noteq> pm_id m"])
  moreover have "sorted (map er_id (filter (\<lambda>r. er_id r \<noteq> pm_id m) (vd_records (pending t))))"
    using ordered by (simp add: record_ids_def sorted_filter)
  ultimately show ?thesis
    using Delete row by (simp add: apply_to_expected_records_def Let_def sort_key_sorted)
qed

lemma transaction_applies:
  assumes "run_transaction S hb mb rows m before_commit t = Ok t'"
    and ordered: "sorted (record_ids (pending t))"
  shows "pending t = \<lparr>vd_header = hb, vd_manifest = mb, vd_records = rows\<rparr>
    \<and> (\<exists>rows'. apply_to_expected_records rows m = Ok rows'
        \<and> pending t' = \<lparr>vd_header = hb, vd_manifest = pm_manifest_envelope m, vd_records = rows'\<rparr>)"
proof -
  from assms(1) obtain x current t1 where
    sel: "sq_select S t = Ok x" "read_vault_data_from_connection x = Ok current"
    and exp: "vd_header current = hb" "vd_manifest current = mb" "vd_records current = rows"
    and st: "run_statement S m t = Ok (t1, 1)" "sq_set_manifest S (pm_manifest_envelope m) t1 = Some (t', 1)"
    by (auto simp: run_transaction_def result_simps split: if_splits)
  from read_shown [OF sel(2) select_shows [OF sel(1)]] exp
  have p: "pending t = \<lparr>vd_header = hb, vd_manifest = mb, vd_records = rows\<rparr>" by simp
  with statement_applies [OF st(1) ordered] set_manifest [OF st(2)] show ?thesis by auto
qed

lemma verify_not_aborted: "verify_commit S hb rows m d \<noteq> Err Storage_Aborted"
proof -
  have "apply_to_expected_records rows m \<noteq> Err Storage_Aborted"
    by (auto simp: apply_to_expected_records_def result_simps Let_def split: record_mutation_kind.splits)
  then show ?thesis
    using guard_not_aborted [of d] reread_not_aborted [of d] read_data_not_aborted
    by (auto simp: verify_commit_def check_guard_def result_simps split: option.splits if_splits)
qed

lemma apply_atomic:
  assumes "apply_record_mutation S hb mb rows m before_commit d = (d', r)"
  shows "committed d' = committed d
    \<or> committed d = \<lparr>vd_header = hb, vd_manifest = mb, vd_records = rows\<rparr>
      \<and> (\<exists>rows'. apply_to_expected_records rows m = Ok rows'
          \<and> committed d' = \<lparr>vd_header = hb, vd_manifest = pm_manifest_envelope m, vd_records = rows'\<rparr>)"
    (is "?same \<or> ?new")
    and "r = Ok () \<Longrightarrow> committed d = \<lparr>vd_header = hb, vd_manifest = mb, vd_records = rows\<rparr>
      \<and> (\<exists>rows'. apply_to_expected_records rows m = Ok rows'
          \<and> committed d' = \<lparr>vd_header = hb, vd_manifest = pm_manifest_envelope m, vd_records = rows'\<rparr>)"
    and "r = Err Storage_Aborted \<Longrightarrow> committed d' = committed d"
proof -
  obtain d1 b where b: "sq_begin S d = (d1, b)" by force
  note d1 = begin_keeps [OF b]
  have "(?same \<or> ?new) \<and> (r = Ok () \<longrightarrow> ?new) \<and> (r = Err Storage_Aborted \<longrightarrow> ?same)"
  proof (cases b)
    case (Ok t)
    note p = begin_sees [OF b [unfolded Ok]]
    show ?thesis
    proof (cases "run_transaction S hb mb rows m before_commit t")
      case (Ok t')
      obtain d2 c where c: "sq_commit S d1 t' = (d2, c)" by force
      from transaction_applies [OF Ok] p commit_stores [of d1 t' d2] commit_atomic [of d1 t' d2] c d1
        verify_not_aborted [of hb rows m d2]
      show ?thesis using assms b \<open>b = Ok t\<close> Ok by (cases c) (auto simp: apply_record_mutation_def)
    qed (use assms b \<open>b = Ok t\<close> d1 abandon_keeps in \<open>auto simp: apply_record_mutation_def\<close>)
  qed (use assms b d1 begin_not_aborted in \<open>auto simp: apply_record_mutation_def\<close>)
  then show "?same \<or> ?new" and "r = Ok () \<Longrightarrow> ?new" and "r = Err Storage_Aborted \<Longrightarrow> ?same" by blast+
qed

lemma apply_not_panic:
  assumes "before_commit \<noteq> Panic"
  shows "apply_record_mutation S hb mb rows m before_commit d \<noteq> (d', Panic)"
proof -
  have "run_transaction S hb mb rows m before_commit t \<noteq> Panic" for t
    using assms select_not_panic [of t] read_data_not_panic
    by (auto simp: run_transaction_def run_statement_def check_guard_def result_simps
        split: record_mutation_kind.splits option.splits if_splits)
  moreover have "verify_commit S hb rows m d \<noteq> Panic" for d
    using reread_not_panic [of d] read_data_not_panic apply_to_expected_not_panic
    by (auto simp: verify_commit_def check_guard_def result_simps split: option.splits if_splits)
  ultimately show ?thesis
    using begin_not_panic
    by (auto simp: apply_record_mutation_def split: prod.splits result.splits bool.splits)
qed

lemma read_committed:
  assumes "read_vault_from_guards S d = Ok vd"
  shows "vd = committed d"
proof -
  from assms obtain x where x: "sq_read S d = Ok x"
    "read_vault_data_from_connection x = Ok vd"
    by (auto simp: read_vault_from_guards_def read_vault_data_from_connection_def result_simps
        split: if_splits)
  then show ?thesis using read_shown read_shows by blast
qed

end

section \<open>A database that does not fail\<close>

text \<open>The tables of a database in full, and the limits within which the code reads them.\<close>

definition stored_tables :: "vault_data \<Rightarrow> raw_tables" where
  "stored_tables d = \<lparr>rt_header = vd_header d, rt_manifest = vd_manifest d, rt_header_count = 1,
     rt_manifest_count = 1, rt_record_count = int (length (vd_records d)),
     rt_rows = map (\<lambda>r. Some (er_id r, er_envelope r)) (vd_records d)\<rparr>"

lemma stored_tables_show: "tables_show (stored_tables d) d"
  by (simp add: tables_show_def stored_tables_def list_all2_map1 list.rel_refl)

definition data_fits :: "vault_data \<Rightarrow> bool" where
  "data_fits vd \<longleftrightarrow> length (vd_header vd) \<le> MAX_HEADER_BYTES
     \<and> length (vd_manifest vd) \<le> MAX_MANIFEST_ENVELOPE_BYTES \<and> length (vd_records vd) \<le> MAX_RECORDS
     \<and> (\<forall>r\<in>set (vd_records vd). length (er_id r) = 16 \<and> length (er_envelope r) \<le> MAX_RECORD_ENVELOPE_BYTES)"

lemma read_rows_fits:
  assumes "\<forall>r\<in>set rows. length (er_id r) = 16 \<and> length (er_envelope r) \<le> MAX_RECORD_ENVELOPE_BYTES"
    and "length acc + length rows \<le> MAX_RECORDS"
  shows "read_rows acc (map (\<lambda>r. Some (er_id r, er_envelope r)) rows) = Ok (acc @ rows)"
  using assms by (induction rows arbitrary: acc) auto

lemma read_stored_tables:
  assumes "data_fits vd" shows "read_vault_data_from_connection (stored_tables vd) = Ok vd"
  using assms read_rows_fits [of "vd_records vd" "[]"]
  by (simp add: read_vault_data_from_connection_def read_encrypted_records_def stored_tables_def
      data_fits_def)

locale reliable_database = vault_database S committed pending
  for S :: "('d, 't) sqlite" and committed :: "'d \<Rightarrow> vault_data" and pending :: "'t \<Rightarrow> vault_data" +
  assumes read_ok: "sq_read S d = Ok (stored_tables (committed d))"
    and reread_ok: "sq_reread S d = Ok (stored_tables (committed d))"
    and select_ok: "sq_select S t = Ok (stored_tables (pending t))"
    and guards_ok: "sq_read_guard S d = None" "sq_guard S t = None" "sq_commit_guard S d = None"
    and begin_ok: "sorted (record_ids (committed d)) \<Longrightarrow> \<exists>d' t. sq_begin S d = (d', Ok t)"
    and insert_ok: "i \<notin> set (record_ids (pending t)) \<Longrightarrow> sq_insert S i envelope t \<noteq> None"
    and update_ok: "sq_update S i envelope t \<noteq> None"
    and delete_ok: "sq_delete S i t \<noteq> None"
    and manifest_ok: "\<exists>t'. sq_set_manifest S envelope t = Some (t', 1)"
    and commit_ok: "\<exists>d'. sq_commit S d t = (d', True)"
begin

lemma read_succeeds: "data_fits (committed d) \<Longrightarrow> read_vault_from_guards S d = Ok (committed d)"
  using read_rows_fits [of "vd_records (committed d)" "[]"]
  by (simp add: read_vault_from_guards_def read_ok guards_ok check_guard_def stored_tables_def
      data_fits_def read_encrypted_records_def)

lemma statement_succeeds:
  assumes "apply_to_expected_records (vd_records (pending t)) m = Ok rows'"
    and "distinct (record_ids (pending t))"
    and "pm_kind m = Insert \<Longrightarrow> pm_id m \<notin> set (record_ids (pending t))"
  shows "\<exists>t'. run_statement S m t = Ok (t', 1)"
proof (cases "pm_kind m")
  case Insert
  then show ?thesis
    using assms(1,3) insert_ok [of "pm_id m" t] insert_row [of "pm_id m" _ t]
    by (fastforce simp: run_statement_def apply_to_expected_records_def result_simps)
next
  case Update
  then have "pm_id m \<in> set (record_ids (pending t))" and "pm_envelope m \<noteq> None"
    using assms(1)
    by (auto simp: apply_to_expected_records_def record_ids_def list_ex_iff result_simps
        split: if_splits intro: rev_image_eqI)
  then show ?thesis
    using Update update_ok [of "pm_id m" _ t] update_row [of "pm_id m" _ t] assms(2)
    by (fastforce simp: run_statement_def result_simps count_list_distinct)
next
  case Delete
  then have "pm_id m \<in> set (record_ids (pending t))"
    using assms(1)
    by (auto simp: apply_to_expected_records_def record_ids_def Let_def result_simps filter_id_conv
        split: if_splits) (metis (mono_tags, lifting) filter_True imageI)
  then show ?thesis
    using Delete delete_ok [of "pm_id m" t] delete_row [of "pm_id m" t] assms(2)
    by (fastforce simp: run_statement_def result_simps count_list_distinct)
qed

lemma apply_succeeds:
  assumes d: "committed d = \<lparr>vd_header = hb, vd_manifest = mb, vd_records = rows\<rparr>"
    and fits: "data_fits (committed d)" "data_fits \<lparr>vd_header = hb,
      vd_manifest = pm_manifest_envelope m, vd_records = rows'\<rparr>"
    and ids: "sorted (map er_id rows)" "distinct (map er_id rows)"
    and m: "apply_to_expected_records rows m = Ok rows'"
      "pm_kind m = Insert \<Longrightarrow> pm_id m \<notin> er_id ` set rows"
  shows "\<exists>d'. apply_record_mutation S hb mb rows m (Ok ()) d = (d', Ok ())"
proof -
  obtain d1 t where b: "sq_begin S d = (d1, Ok t)"
    using begin_ok [of d] d ids by (auto simp: record_ids_def)
  note p = begin_sees [OF b, THEN conjunct1] begin_sees [OF b, THEN conjunct2]
  obtain t1 where t1: "run_statement S m t = Ok (t1, 1)"
    using statement_succeeds [of t m rows'] p d ids m by (auto simp: record_ids_def)
  obtain t2 where t2: "sq_set_manifest S (pm_manifest_envelope m) t1 = Some (t2, 1)"
    using manifest_ok by blast
  have run: "run_transaction S hb mb rows m (Ok ()) t = Ok t2"
    using read_stored_tables [of "pending t"] p(1) d fits(1) t1 t2
    by (simp add: run_transaction_def select_ok guards_ok check_guard_def)
  obtain d2 where c: "sq_commit S d1 t2 = (d2, True)" using commit_ok by blast
  have "committed d2 = \<lparr>vd_header = hb, vd_manifest = pm_manifest_envelope m, vd_records = rows'\<rparr>"
    using transaction_applies [OF run p(2)] commit_stores [OF c] m(1) by auto
  then have "verify_commit S hb rows m d2 = Ok ()"
    using read_stored_tables [OF fits(2)] m(1)
    by (simp add: verify_commit_def guards_ok check_guard_def reread_ok)
  then show ?thesis using b run c by (simp add: apply_record_mutation_def)
qed

end

section \<open>A database in memory\<close>

text \<open>
  The database is its own contents and a transaction is the contents it would commit. A connection
  refuses a database whose rows are not in order, and an insert refuses an identifier in use.
\<close>

definition memory_database :: "(vault_data, vault_data) sqlite" where
  "memory_database = \<lparr>
     sq_read = (\<lambda>d. Ok (stored_tables d)),
     sq_read_guard = (\<lambda>d. None),
     sq_begin = (\<lambda>d. (d, if sorted (record_ids d) then Ok d else Err Storage_Integrity)),
     sq_select = (\<lambda>t. Ok (stored_tables t)),
     sq_insert = (\<lambda>i envelope t. if List.member (record_ids t) i then None
        else Some (t\<lparr>vd_records :=
          sort_key er_id (vd_records t @ [\<lparr>er_id = i, er_envelope = envelope\<rparr>])\<rparr>, 1)),
     sq_update = (\<lambda>i envelope t. Some (t\<lparr>vd_records :=
          map (\<lambda>r. if er_id r = i then \<lparr>er_id = i, er_envelope = envelope\<rparr> else r) (vd_records t)\<rparr>,
        count_list (record_ids t) i)),
     sq_delete = (\<lambda>i t. Some (t\<lparr>vd_records := filter (\<lambda>r. er_id r \<noteq> i) (vd_records t)\<rparr>,
        count_list (record_ids t) i)),
     sq_set_manifest = (\<lambda>envelope t. Some (t\<lparr>vd_manifest := envelope\<rparr>, 1)),
     sq_guard = (\<lambda>t. None),
     sq_commit = (\<lambda>d t. (t, True)),
     sq_abandon = (\<lambda>d t. d),
     sq_commit_guard = (\<lambda>d. None),
     sq_reread = (\<lambda>d. Ok (stored_tables d))\<rparr>"

interpretation memory: reliable_database memory_database id id
  by unfold_locales
    (auto simp: memory_database_def stored_tables_show split: if_splits)

end
