(* ===== verification/Vault_Steps.thy ===== *)
theory Vault_Steps
  imports Vault_Store
begin

text \<open>
  The abstract vault: its contents are a map from identifiers to records, and a transition is one
  completed mutation. The mutations of the core are shown to be such transitions.
\<close>

section \<open>Abstract transitions\<close>

type_synonym contents = "bytes \<rightharpoonup> decrypted_record"

datatype vault_event =
    Account_Added bytes website_account_input u64
  | Account_Updated bytes website_account_input u64
  | Account_Deleted bytes
  | Passkey_Added bytes passkey_input passkey_creation_state
  | Passkey_Confirmed bytes
  | Passkey_Asserted bytes bytes
  | Passkey_Deleted bytes

definition account_of :: "bytes \<Rightarrow> u64 \<Rightarrow> u64 \<Rightarrow> u64 \<Rightarrow> website_account_input \<Rightarrow> core_account" where
  "account_of i revision created_at_ms t inp =
     \<lparr>ac_id = i, ac_revision = revision, ac_created_at_ms = created_at_ms, ac_modified_at_ms = t,
      ac_service_name = wi_service_name inp, ac_permitted_origin = wi_permitted_origin inp,
      ac_username = wi_username inp, ac_password = wi_password inp\<rparr>"

definition passkey_ids :: "contents \<Rightarrow> bytes set" where
  "passkey_ids c = {pr_credential_id p | i p. c i = Some (Dec_Passkey p)}"

definition passkey_created ::
    "bytes \<Rightarrow> passkey_input \<Rightarrow> passkey_creation_state \<Rightarrow> passkey_record \<Rightarrow> bool" where
  "passkey_created i inp st p \<longleftrightarrow> pr_id p = i \<and> pr_revision p = 1 \<and> pr_signature_counter p = 0
     \<and> pr_creation_state p = st \<and> pr_rp_id p = pi_rp_id inp \<and> pr_user_handle p = pi_user_handle inp
     \<and> pr_user_name p = pi_user_name inp \<and> pr_user_display_name p = pi_user_display_name inp
     \<and> length (pr_credential_id p) = 32"

inductive vault_step :: "contents \<Rightarrow> vault_event \<Rightarrow> contents \<Rightarrow> bool" where
  account_added: "length i = 16 \<Longrightarrow> i \<notin> dom c
    \<Longrightarrow> vault_step c (Account_Added i inp t) (c(i \<mapsto> Dec_Account (account_of i 1 t t inp)))"
| account_updated: "c i = Some (Dec_Account a) \<Longrightarrow> unat (ac_revision a) + 1 < 2 ^ 64
    \<Longrightarrow> ac_created_at_ms a \<le> t
    \<Longrightarrow> vault_step c (Account_Updated i inp t)
          (c(i \<mapsto> Dec_Account (account_of i (ac_revision a + 1) (ac_created_at_ms a) t inp)))"
| account_deleted: "c i = Some (Dec_Account a) \<Longrightarrow> vault_step c (Account_Deleted i) (c(i := None))"
| passkey_added: "length i = 16 \<Longrightarrow> i \<notin> dom c \<Longrightarrow> passkey_created i inp st p
    \<Longrightarrow> pr_credential_id p \<notin> passkey_ids c
    \<Longrightarrow> vault_step c (Passkey_Added i inp st) (c(i \<mapsto> Dec_Passkey p))"
| passkey_confirmed: "c i = Some (Dec_Passkey p) \<Longrightarrow> pr_creation_state p = Pending
    \<Longrightarrow> unat (pr_revision p) + 1 < 2 ^ 64
    \<Longrightarrow> vault_step c (Passkey_Confirmed i)
          (c(i \<mapsto> Dec_Passkey (p\<lparr>pr_revision := pr_revision p + 1, pr_creation_state := Confirmed\<rparr>)))"
| passkey_asserted: "c i = Some (Dec_Passkey p) \<Longrightarrow> pr_creation_state p = Confirmed
    \<Longrightarrow> pr_rp_id p = rp \<Longrightarrow> unat (pr_revision p) + 1 < 2 ^ 64
    \<Longrightarrow> unat (pr_signature_counter p) + 1 < 2 ^ 32
    \<Longrightarrow> vault_step c (Passkey_Asserted i rp)
          (c(i \<mapsto> Dec_Passkey (p\<lparr>pr_revision := pr_revision p + 1,
                                  pr_signature_counter := pr_signature_counter p + 1\<rparr>)))"
| passkey_deleted: "c i = Some (Dec_Passkey p) \<Longrightarrow> vault_step c (Passkey_Deleted i) (c(i := None))"

text \<open>A mutation that storage applied and the session committed.\<close>

definition stored ::
    "'e vault_libs \<Rightarrow> unlocked_vault \<Rightarrow> bytes \<Rightarrow> encrypted_record list \<Rightarrow> prepared_mutation
       \<Rightarrow> unlocked_vault \<Rightarrow> encrypted_record list \<Rightarrow> bool" where
  "stored L v hb rows pm v' rows' \<longleftrightarrow>
     apply_to_expected_records rows pm = Ok rows'
     \<and> commit_record_mutation v pm = (v', Ok (pm_id pm))
     \<and> in_sync L v' hb (pm_manifest_envelope pm) rows'
     \<and> uv_root_key v' = uv_root_key v \<and> uv_header v' = uv_header v
     \<and> mf_key_epoch (uv_manifest v') = mf_key_epoch (uv_manifest v)"

lemma stored_intro:
  assumes "apply_to_expected_records rows pm = Ok rows'" "pm_id pm = i"
    "commit_record_mutation v pm = (v\<lparr>uv_manifest := pm_next_manifest pm\<rparr>, Ok i)"
    "in_sync L (v\<lparr>uv_manifest := pm_next_manifest pm\<rparr>) hb (pm_manifest_envelope pm) rows'"
    "mf_key_epoch (pm_next_manifest pm) = mf_key_epoch (uv_manifest v)"
  shows "stored L v hb rows pm (v\<lparr>uv_manifest := pm_next_manifest pm\<rparr>) rows'"
  using assms by (simp add: stored_def)

lemma stored_unique:
  "stored L v hb rows pm v1 rows1 \<Longrightarrow> stored L v hb rows pm v2 rows2 \<Longrightarrow> v1 = v2 \<and> rows1 = rows2"
  by (simp add: stored_def)

section \<open>Account plaintexts\<close>

lemma printable_chars:
  "list_all (\<lambda>b. 0x21 \<le> b \<and> b < 0x7F) s \<Longrightarrow> utf8_chars s = Some (map unat s)"
proof (induction s)
  case (Cons b s)
  then have "b < 0x80" by (auto intro: order.strict_trans2)
  then have "utf8_next (b # s) = Some (unat b, s)" by (simp add: utf8_next_def)
  with Cons show ?case by (simp add: utf8_chars.simps [of "b # s"])
qed (simp add: utf8_chars.simps)

lemma printable_not_control:
  assumes "list_all (\<lambda>b. 0x21 \<le> b \<and> b < 0x7F) s" shows "utf8_valid s" "\<not> any_control s"
proof -
  have "\<not> is_control (unat b)" if "0x21 \<le> b" "b < 0x7F" for b :: u8
    using that by (simp add: is_control_def word_le_nat_alt word_less_nat_alt)
  then show "\<not> any_control s"
    using assms by (auto simp: any_control_def printable_chars list_all_iff list_ex_iff)
  show "utf8_valid s" using assms by (simp add: utf8_valid_def printable_chars)
qed

text \<open>The strings of an input are Rust strings.\<close>

definition input_ok :: "'e vault_libs \<Rightarrow> website_account_input \<Rightarrow> bool" where
  "input_ok L inp \<longleftrightarrow> (\<exists>s or u p. utf8_valid s \<and> utf8_valid u \<and> utf8_valid p
     \<and> WebsiteAccountInput_new (vl_url L) s or u p = Ok inp)"

context vault_crypto
begin

lemma normalize_origin_Ok:
  assumes "normalize_origin (vl_url L) s = Ok x"
  shows "normalize_origin (vl_url L) x = Ok x" "x \<noteq> []" "length x \<le> 2048" "utf8_valid x"
    "\<not> any_control x"
proof -
  obtain u where u: "vl_url L s = Some u" "url_host u \<noteq> None"
    "url_scheme u = ascii ''http'' \<or> url_scheme u = ascii ''https''" "x = url_origin_ascii u"
    "x \<noteq> ascii ''null''" "length x \<le> 2048"
    using assms by (auto simp: normalize_origin_def result_simps Let_def split: if_splits)
  note printable = origin_printable [OF u(1-3), folded u(4)]
  show "x \<noteq> []" "length x \<le> 2048" "utf8_valid x" "\<not> any_control x"
    using printable u(6) printable_not_control [of x] by auto
  obtain u' where "vl_url L x = Some u'" "origin_url u' x"
    using parse_origin [OF u(1-3), folded u(4)] by blast
  then show "normalize_origin (vl_url L) x = Ok x"
    using u(5,6) by (auto simp: normalize_origin_def origin_url_def)
qed

lemma input_ok_fields:
  assumes "input_ok L inp"
  shows "normalize_origin (vl_url L) (wi_permitted_origin inp) = Ok (wi_permitted_origin inp)"
    "utf8_valid (wi_service_name inp)" "utf8_valid (wi_permitted_origin inp)"
    "utf8_valid (wi_username inp)" "utf8_valid (wi_password inp)"
  using assms normalize_origin_Ok
  by (auto simp: input_ok_def WebsiteAccountInput_new_def result_simps split: if_splits)

lemma read_account_plaintext:
  assumes inp: "input_ok L inp"
    and new: "WebsiteAccountPlaintext_new revision created t (wi_service_name inp)
      (wi_permitted_origin inp) (wi_username inp) (wi_password inp) = Ok a"
    and enc: "WebsiteAccountPlaintext_encode (vl_cbor L) a = Ok p"
  shows "read_plaintext L i p = Ok (Dec_Account (account_of i revision created t inp))"
    "length p + 16 < 2 ^ 64" "created \<le> t"
proof -
  have a: "a = \<lparr>wa_revision = revision, wa_created_at_ms = created, wa_modified_at_ms = t,
      wa_service_name = wi_service_name inp, wa_permitted_origin = wi_permitted_origin inp,
      wa_username = wi_username inp, wa_password = wi_password inp\<rparr>"
    and ok: "validate_plaintext a = Ok ()"
    using new by (auto simp: WebsiteAccountPlaintext_new_def result_simps Let_def)
  have valid: "WebsiteAccount_valid a"
    using ok input_ok_fields [OF inp] by (simp add: WebsiteAccount_valid_def a)
  then have dec: "WebsiteAccountPlaintext_decode (vl_cbor L) p = Ok a"
    using enc by (intro WebsiteAccountPlaintext_decode_complete) simp_all
  then show "read_plaintext L i p = Ok (Dec_Account (account_of i revision created t inp))"
    using input_ok_fields(1) [OF inp] record_type_website [OF dec]
    by (simp add: read_plaintext_def decrypt_website_account_plaintext_def a account_of_def)
  show "created \<le> t" using ok by (simp add: validate_plaintext_Ok a)
  show "length p + 16 < 2 ^ 64"
    using dec by (auto simp: WebsiteAccountPlaintext_decode_def result_simps split: if_splits)
qed

text \<open>Adding and updating an account, from the row on.\<close>

lemma prepare_upsert_refines:
  assumes sync: "in_sync L v hb mb rows" and len: "length i = 16" and inp: "input_ok L inp"
    and prep: "prepare_upsert L v kind i revision created inp t e = (e', Ok pm)"
  shows "\<exists>v' rows'. pm_id pm = i \<and> stored L v hb rows pm v' rows' \<and> created \<le> t
    \<and> vault_view L v' rows'
        = (vault_view L v rows)(i \<mapsto> Dec_Account (account_of i revision created t inp))
    \<and> (i \<in> dom (vault_view L v rows) \<longleftrightarrow> kind = Update)"
proof -
  obtain a p where new: "WebsiteAccountPlaintext_new revision created t (wi_service_name inp)
      (wi_permitted_origin inp) (wi_username inp) (wi_password inp) = Ok a"
    and enc: "WebsiteAccountPlaintext_encode (vl_cbor L) a = Ok p"
    and prep': "prepare_plaintext_upsert L v kind i p t e = (e', Ok pm)"
    using prep unfolding prepare_upsert_def chain_Ok by blast
  note plain = read_account_plaintext [OF inp new enc]
  from upsert_refines [OF sync len plain(2) prep' plain(1)] plain(3) show ?thesis
    by (metis stored_intro vault_view_manifest)
qed

end

end
