(* ===== verification/Vault_Accounts.thy ===== *)
theory Vault_Accounts
  imports Vault_Steps
begin

text \<open>
  Website accounts: what the reading operations return of an authenticated snapshot, and the
  account mutations as transitions of the abstract vault.
\<close>

section \<open>The records of a snapshot\<close>

primrec record_id_of :: "decrypted_record \<Rightarrow> bytes" where
  "record_id_of (Dec_Account a) = ac_id a"
| "record_id_of (Dec_Passkey p) = pr_id p"

lemma decrypt_record_id: "decrypt_record L v r = Ok d \<Longrightarrow> record_id_of d = er_id r"
  unfolding decrypt_record_def decrypt_website_account_plaintext_def decrypt_passkey_plaintext_def
  by (elim ok_chain_elims, simp only: map_err_Ok split: record_type_code.splits)
    (elim ok_chain_elims, auto simp: result_simps split: if_splits)+

lemma opened_ids:
  "\<forall>r\<in>set rows. \<exists>d. decrypt_record L v r = Ok d \<Longrightarrow> map record_id_of (opened L v rows) = map er_id rows"
  by (induction rows) (auto simp: decrypt_record_id)

lemma opened_set:
  "\<forall>r\<in>set rows. \<exists>d. decrypt_record L v r = Ok d \<Longrightarrow>
     d \<in> set (opened L v rows) \<longleftrightarrow> (\<exists>r\<in>set rows. decrypt_record L v r = Ok d)"
  by (induction rows) auto

lemma opened_iff_view:
  assumes "rows_ok L v rows"
  shows "d \<in> set (opened L v rows) \<longleftrightarrow> vault_view L v rows (record_id_of d) = Some d"
  using assms opened_set [of rows L v d]
  by (auto simp: vault_view_Some rows_ok_def decrypt_record_id)

lemma view_id: "rows_ok L v rows \<Longrightarrow> vault_view L v rows i = Some d \<Longrightarrow> record_id_of d = i"
  by (auto simp: vault_view_Some decrypt_record_id)

section \<open>Reading\<close>

definition accounts_of :: "decrypted_record list \<Rightarrow> core_account list" where
  "accounts_of ds = List.map_filter (\<lambda>d. case d of Dec_Account a \<Rightarrow> Some a | Dec_Passkey _ \<Rightarrow> None) ds"

lemma accounts_of_simps [simp]:
  "accounts_of [] = []"
  "accounts_of (Dec_Account a # ds) = a # accounts_of ds"
  "accounts_of (Dec_Passkey p # ds) = accounts_of ds"
  by (simp_all add: accounts_of_def List.map_filter_def)

lemma accounts_of_set: "a \<in> set (accounts_of ds) \<longleftrightarrow> Dec_Account a \<in> set ds"
proof (induction ds)
  case (Cons d ds)
  then show ?case by (cases d) auto
qed simp

lemma fold_collect_account: "foldl collect_account as ds = as @ accounts_of ds"
proof (induction ds arbitrary: as)
  case (Cons d ds)
  then show ?case by (cases d) auto
qed simp

lemma fold_find_account:
  "foldl (find_account i) found ds =
     (let xs = filter (\<lambda>a. ac_id a = i) (accounts_of ds) in if xs = [] then found else Some (last xs))"
proof (induction ds arbitrary: found)
  case (Cons d ds)
  then show ?case by (cases d) (auto simp: Let_def)
qed simp

text \<open>An account is found exactly when the contents hold it at its identifier.\<close>

lemma accounts_of_view:
  "rows_ok L v rows \<Longrightarrow>
     a \<in> set (accounts_of (opened L v rows)) \<longleftrightarrow> vault_view L v rows (ac_id a) = Some (Dec_Account a)"
  by (simp add: accounts_of_set opened_iff_view)

lemma fold_find_account_view:
  assumes ok: "rows_ok L v rows"
  shows "foldl (find_account i) None (opened L v rows) = Some a \<longleftrightarrow>
    vault_view L v rows i = Some (Dec_Account a)"
proof -
  define xs where "xs = filter (\<lambda>a. ac_id a = i) (accounts_of (opened L v rows))"
  have mem: "b \<in> set xs \<longleftrightarrow> vault_view L v rows i = Some (Dec_Account b)" for b
    using accounts_of_view [OF ok, of b] view_id [OF ok, of i "Dec_Account b"] by (auto simp: xs_def)
  have "foldl (find_account i) None (opened L v rows) = (if xs = [] then None else Some (last xs))"
    by (simp add: fold_find_account xs_def Let_def)
  then show ?thesis using mem [of a] mem [of "last xs"] by (cases xs) auto
qed

lemma get_account_finished:
  assumes "get_website_account_with_check L v hb mb rows i sc = Ok a"
  shows "in_sync L v hb mb rows" "vault_view L v rows i = Some (Dec_Account a)"
  using assms fold_find_account_view [of L v rows i a]
  by (auto simp: get_website_account_with_check_def result_simps in_sync_iff
      dest!: visit_snapshot_finished)

lemma opened_length: "length (opened L v rows) \<le> length rows"
  by (simp add: opened_def List.map_filter_def length_filter_le [THEN order_trans])

lemma accounts_of_length: "length (accounts_of ds) \<le> length ds"
  by (simp add: accounts_of_def List.map_filter_def length_filter_le [THEN order_trans])

text \<open>The page closure in terms of the accounts before it.\<close>

lemma fold_page_account:
  assumes "start \<le> stop" and "length ds < 2 ^ 64"
  shows "foldl (page_account start stop) \<lparr>ap_index = 0, ap_accounts = [], ap_has_more = False\<rparr> ds
    = \<lparr>ap_index = length (accounts_of ds),
       ap_accounts = take (stop - start) (drop start (accounts_of ds)),
       ap_has_more = (stop < length (accounts_of ds))\<rparr>"
  using assms(2)
proof (induction ds rule: rev_induct)
  case (snoc d ds)
  have split: "accounts_of (xs @ ys) = accounts_of xs @ accounts_of ys" for xs ys
    by (simp add: accounts_of_def List.map_filter_def)
  have "length (accounts_of ds) + 1 \<le> 2 ^ 64 - 1"
    using snoc.prems accounts_of_length [of ds] by simp
  then have "usize_saturating_add (length (accounts_of ds)) 1 = length (accounts_of ds) + 1"
    by (simp add: usize_saturating_add_def)
  with snoc assms(1) show ?case
    by (cases d) (auto simp: split Let_def take_Cons' not_le)
qed simp

lemma fold_unique_account:
  "foldl (unique_account origin) (None, False) ds =
     (let xs = filter (\<lambda>a. ac_permitted_origin a = origin) (accounts_of ds) in
      if xs = [] then (None, False) else if length xs = 1 then (Some (hd xs), False) else (None, True))"
proof (induction ds rule: rev_induct)
  case (snoc d ds)
  have split: "accounts_of (xs @ ys) = accounts_of xs @ accounts_of ys" for xs ys
    by (simp add: accounts_of_def List.map_filter_def)
  show ?case
  proof (cases d)
    case (Dec_Account a)
    with snoc show ?thesis
      by (cases "filter (\<lambda>a. ac_permitted_origin a = origin) (accounts_of ds)")
        (auto simp: split Let_def split: if_splits)
  next
    case (Dec_Passkey p)
    with snoc show ?thesis by (auto simp: split Let_def split: if_splits)
  qed
qed simp

lemma list_accounts_Ok:
  "list_website_accounts L v hb mb rows = Ok as \<longleftrightarrow>
     in_sync L v hb mb rows \<and> as = accounts_of (opened L v rows)"
  by (simp add: list_website_accounts_def visit_snapshot_Ok fold_collect_account)

section \<open>Mutations\<close>

lemma find_candidate_Some:
  "find_candidate L len accept n e = (e', Some c) \<Longrightarrow>
     accept c \<and> (\<exists>e1 e2. random_array L len e1 = (e2, Ok c))"
  by (induction L len accept n e rule: find_candidate.induct)
    (auto split: prod.splits result.splits if_splits)

lemma apsnd_ok_or: "apsnd (ok_or x) p = (e', Ok y) \<longleftrightarrow> p = (e', Some y)"
  by (cases p) (auto simp: ok_or_Ok)

context vault_crypto
begin

lemma allocated_id:
  assumes "allocate_record_id L v e = (e', Ok i)"
  shows "length i = 16" "i \<notin> me_record_id ` set (mf_entries (uv_manifest v))"
proof -
  have f: "find_candidate L 16
      (\<lambda>candidate. \<not> list_ex (\<lambda>entry. me_record_id entry = candidate) (mf_entries (uv_manifest v)))
      MAX_RECORD_ID_ATTEMPTS e = (e', Some i)"
    using assms by (simp only: allocate_record_id_def apsnd_ok_or)
  from find_candidate_Some [OF f] show "length i = 16" by (auto dest: random_array_length)
  from find_candidate_Some [OF f] show "i \<notin> me_record_id ` set (mf_entries (uv_manifest v))"
    by (auto simp: list_ex_iff)
qed

lemma add_account_step:
  assumes inp: "input_ok L inp"
    and prep: "prepare_add_website_account_with_check L v hb mb rows inp t sc e = (e', Ok pm)"
  shows "in_sync L v hb mb rows \<and> (\<exists>v' rows'. stored L v hb rows pm v' rows'
    \<and> vault_step (vault_view L v rows) (Account_Added (pm_id pm) inp t) (vault_view L v' rows'))"
proof -
  have meta: "authenticate_snapshot_metadata L v hb mb = Ok ()"
    and recs: "authenticate_records_only_with_check L v rows sc = Ok ()"
    and add: "prepare_add_with_entropy L v inp t e = (e', Ok pm)"
    using prep by (auto simp: prepare_add_website_account_with_check_def chain_Ok)
  have sync: "in_sync L v hb mb rows"
    using meta recs visit_records_finished
    by (fastforce simp: in_sync_iff authenticate_records_only_with_check_def map_err_Ok)
  obtain e1 i where i: "allocate_record_id L v e = (e1, Ok i)"
    and up: "prepare_upsert L v Insert i 1 t inp t e1 = (e', Ok pm)"
    using add unfolding prepare_add_with_entropy_def chain_Ok by blast
  have len: "length i = 16" using allocated_id(1) [OF i] .
  from prepare_upsert_refines [OF sync len inp up] obtain v' rows' where
    "pm_id pm = i" "stored L v hb rows pm v' rows'" "i \<notin> dom (vault_view L v rows)"
    "vault_view L v' rows' = (vault_view L v rows)(i \<mapsto> Dec_Account (account_of i 1 t t inp))"
    by auto
  with sync len show ?thesis by (metis vault_step.account_added)
qed

lemma update_account_step:
  assumes inp: "input_ok L inp"
    and prep: "prepare_update_website_account_with_check L v hb mb rows i inp t sc e = (e', Ok pm)"
  shows "in_sync L v hb mb rows \<and> pm_id pm = i \<and> (\<exists>v' rows'. stored L v hb rows pm v' rows'
    \<and> vault_step (vault_view L v rows) (Account_Updated i inp t) (vault_view L v' rows'))"
proof -
  obtain a revision where get: "get_website_account_with_check L v hb mb rows i sc = Ok a"
    and rev: "u64_checked_add (ac_revision a) 1 = Some revision"
    and up: "prepare_upsert L v Update i revision (ac_created_at_ms a) inp t e = (e', Ok pm)"
    using prep unfolding prepare_update_website_account_with_check_def chain_Ok by blast
  note found = get_account_finished [OF get]
  have r: "revision = ac_revision a + 1" "unat (ac_revision a) + 1 < 2 ^ 64"
    using rev by (auto simp: u64_checked_add_def split: if_splits)
  have "i \<in> er_id ` set rows"
    using found vault_view_dom [of L v rows] by (auto simp: in_sync_iff)
  then have len: "length i = 16"
    using found(1) metadata_Ok(4) [of v hb mb]
    by (auto simp: in_sync_iff rows_ok_def Manifest_valid_def list_all_iff ManifestEntry_valid_def)
  from prepare_upsert_refines [OF found(1) len inp up] obtain v' rows' where
    "pm_id pm = i" "stored L v hb rows pm v' rows'" "ac_created_at_ms a \<le> t"
    "vault_view L v' rows' = (vault_view L v rows)
       (i \<mapsto> Dec_Account (account_of i (ac_revision a + 1) (ac_created_at_ms a) t inp))"
    by (auto simp: r)
  with found r show ?thesis by (metis vault_step.account_updated)
qed

lemma delete_account_step:
  assumes prep: "prepare_delete_website_account_with_check L v hb mb rows i t sc e = (e', Ok pm)"
  shows "in_sync L v hb mb rows \<and> pm_id pm = i \<and> (\<exists>v' rows'. stored L v hb rows pm v' rows'
    \<and> vault_step (vault_view L v rows) (Account_Deleted i) (vault_view L v' rows'))"
proof -
  obtain a where get: "get_website_account_with_check L v hb mb rows i sc = Ok a"
    and del: "prepare_manifest_mutation L v Delete i None
      (filter (\<lambda>entry. me_record_id entry \<noteq> i) (mf_entries (uv_manifest v))) t e = (e', Ok pm)"
    using prep unfolding prepare_delete_website_account_with_check_def chain_Ok Let_def by blast
  note found = get_account_finished [OF get]
  then have "i \<in> dom (vault_view L v rows)" by auto
  from delete_refines [OF found(1) this del] obtain rows' where
    "pm_id pm = i" "apply_to_expected_records rows pm = Ok rows'"
    "commit_record_mutation v pm = (v\<lparr>uv_manifest := pm_next_manifest pm\<rparr>, Ok i)"
    "in_sync L (v\<lparr>uv_manifest := pm_next_manifest pm\<rparr>) hb (pm_manifest_envelope pm) rows'"
    "vault_view L v rows' = (vault_view L v rows)(i := None)"
    "mf_key_epoch (pm_next_manifest pm) = mf_key_epoch (uv_manifest v)" .
  with found show ?thesis by (metis stored_intro vault_step.account_deleted vault_view_manifest)
qed

end

section \<open>Properties of the reading operations\<close>

text \<open>C23: paging through the accounts is exactly slicing the full listing: a page is returned only
  for a limit between 1 and 100 whose end does not overflow and only of a snapshot the full listing
  accepts, it holds the accounts from the offset on, at most as many as the limit, and the flag says
  whether accounts follow.\<close>

theorem account_page_slices_listing:
  "list_website_account_page L v hb mb rows start limit = Ok (page, has_more) \<longleftrightarrow>
     0 < limit \<and> limit \<le> 100 \<and> start + limit < 2 ^ 64
     \<and> (\<exists>all. list_website_accounts L v hb mb rows = Ok all
          \<and> page = take limit (drop start all) \<and> (has_more \<longleftrightarrow> start + limit < length all))"
proof -
  have short: "length (opened L v rows) < 2 ^ 64" if "rows_ok L v rows"
    using that opened_length [of L v rows] by (simp add: rows_ok_def)
  note page = fold_page_account [OF le_add1 short]
  show ?thesis
    by (auto simp: list_website_account_page_def list_website_account_page_with_check_def
        result_simps visit_records_Ok list_accounts_Ok in_sync_iff usize_checked_add_def
        page split: if_splits)
qed

text \<open>The lookups agree with the full listing of the same snapshot. An account is returned for an
  identifier exactly when it is listed under it, and the browser lookup returns an account exactly
  when it is the only listed account permitted for the origin: no match and several matches are the
  same empty answer.\<close>

theorem account_lookups_agree_with_listing:
  "(get_website_account L v hb mb rows i = Ok a \<longleftrightarrow>
      (\<exists>all. list_website_accounts L v hb mb rows = Ok all \<and> a \<in> set all \<and> ac_id a = i))
   \<and> (unique_browser_account_with_check L v hb mb rows origin (\<lambda>_. False) = Ok found \<longleftrightarrow>
      (\<exists>all. list_website_accounts L v hb mb rows = Ok all
         \<and> found = (case filter (\<lambda>a. ac_permitted_origin a = origin) all of
                      [a] \<Rightarrow> Some a | _ \<Rightarrow> None)))"
proof -
  have "vault_view L v rows i = Some (Dec_Account a) \<longleftrightarrow>
      a \<in> set (accounts_of (opened L v rows)) \<and> ac_id a = i" if "rows_ok L v rows"
    using accounts_of_view [OF that, of a] view_id [OF that, of i "Dec_Account a"] by auto
  moreover have "fst (foldl (unique_account origin) (None, False) ds) =
      (case filter (\<lambda>a. ac_permitted_origin a = origin) (accounts_of ds) of
         [a] \<Rightarrow> Some a | _ \<Rightarrow> None)" for ds
    by (simp add: fold_unique_account Let_def split: list.split)
  ultimately show ?thesis
    by (auto simp: get_website_account_def get_website_account_with_check_def result_simps
        visit_snapshot_Ok in_sync_iff fold_find_account_view list_accounts_Ok
        unique_browser_account_with_check_def split_beta)
qed

end
