(* ===== verification/Vault_Passkeys.thy ===== *)
theory Vault_Passkeys
  imports Vault_Accounts
begin

text \<open>
  Passkeys: creation, confirmation, assertion and deletion as transitions of the abstract vault, and
  what the core signs.
\<close>

section \<open>Passkey plaintexts\<close>

text \<open>A stored passkey as the plaintext it was read from, modified at \<open>t\<close>.\<close>

definition passkey_plain :: "passkey_record \<Rightarrow> u64 \<Rightarrow> passkey_plaintext" where
  "passkey_plain p t =
     \<lparr>pk_revision = pr_revision p, pk_created_at_ms = pr_created_at_ms p, pk_modified_at_ms = t,
      pk_signature_counter = pr_signature_counter p, pk_creation_state = pr_creation_state p,
      pk_rp_id = pr_rp_id p, pk_user_handle = pr_user_handle p, pk_user_name = pr_user_name p,
      pk_user_display_name = pr_user_display_name p, pk_credential_id = pr_credential_id p,
      pk_private_key = pr_private_key p\<rparr>"

text \<open>What the strings, the relying party and the keys of a passkey have to be.\<close>

definition passkey_ok :: "'e vault_libs \<Rightarrow> passkey_record \<Rightarrow> bool" where
  "passkey_ok L p \<longleftrightarrow> normalize_rp_id (vl_url L) (pr_rp_id p) = Ok (pr_rp_id p)
     \<and> vl_signing_key_ok L (pr_private_key p) \<and> utf8_valid (pr_rp_id p)
     \<and> utf8_valid (pr_user_name p) \<and> utf8_valid (pr_user_display_name p)
     \<and> length (pr_credential_id p) = 32 \<and> length (pr_private_key p) = 32"

lemma PasskeyPlaintext_new_Ok:
  "PasskeyPlaintext_new r c m s st rp h n dn cid k = Ok a \<longleftrightarrow>
     a = \<lparr>pk_revision = r, pk_created_at_ms = c, pk_modified_at_ms = m, pk_signature_counter = s,
          pk_creation_state = st, pk_rp_id = rp, pk_user_handle = h, pk_user_name = n,
          pk_user_display_name = dn, pk_credential_id = cid, pk_private_key = k\<rparr>
     \<and> validate_passkey_plaintext a = Ok ()"
  by (auto simp: PasskeyPlaintext_new_def result_simps Let_def)

context vault_crypto
begin

lemma decrypted_passkey_ok:
  assumes "decrypt_record L v r = Ok (Dec_Passkey p)"
  shows "passkey_ok L p" "\<exists>m. validate_passkey_plaintext (passkey_plain p m) = Ok ()"
proof -
  obtain i plaintext where "decrypt_passkey_plaintext L i plaintext = Ok (Dec_Passkey p)
      \<or> decrypt_website_account_plaintext L i plaintext = Ok (Dec_Passkey p)"
    using assms unfolding decrypt_record_def
    by (elim ok_chain_elims) (metis record_type_code.exhaust record_type_code.simps(3,4))
  then obtain a where a: "PasskeyPlaintext_decode (vl_cbor L) plaintext = Ok a"
    "normalize_rp_id (vl_url L) (pk_rp_id a) = Ok (pk_rp_id a)"
    "vl_signing_key_ok L (pk_private_key a)"
    "p = \<lparr>pr_id = i, pr_revision = pk_revision a, pr_created_at_ms = pk_created_at_ms a,
       pr_signature_counter = pk_signature_counter a, pr_creation_state = pk_creation_state a,
       pr_rp_id = pk_rp_id a, pr_user_handle = pk_user_handle a, pr_user_name = pk_user_name a,
       pr_user_display_name = pk_user_display_name a, pr_credential_id = pk_credential_id a,
       pr_private_key = pk_private_key a\<rparr>"
    by (auto simp: decrypt_passkey_plaintext_def decrypt_website_account_plaintext_def result_simps
        split: if_splits)
  have "passkey_plain p (pk_modified_at_ms a) = a" by (simp add: a(4) passkey_plain_def)
  then show "\<exists>m. validate_passkey_plaintext (passkey_plain p m) = Ok ()"
    using PasskeyPlaintext_decode_sound [OF a(1)] by (metis PasskeyPlaintext_valid_def)
  show "passkey_ok L p"
    using PasskeyPlaintext_decode_sound [OF a(1)] a
    by (simp add: passkey_ok_def PasskeyPlaintext_valid_def)
qed

lemma read_passkey_plaintext:
  assumes ok: "passkey_ok L p" and valid: "validate_passkey_plaintext (passkey_plain p t) = Ok ()"
    and enc: "PasskeyPlaintext_encode (vl_cbor L) (passkey_plain p t) = Ok bs"
  shows "read_plaintext L (pr_id p) bs = Ok (Dec_Passkey p)" "length bs + 16 < 2 ^ 64"
proof -
  have "PasskeyPlaintext_valid (passkey_plain p t)"
    using ok valid by (simp add: PasskeyPlaintext_valid_def passkey_ok_def passkey_plain_def)
  then have dec: "PasskeyPlaintext_decode (vl_cbor L) bs = Ok (passkey_plain p t)"
    using enc by (intro PasskeyPlaintext_decode_complete) simp_all
  then show "read_plaintext L (pr_id p) bs = Ok (Dec_Passkey p)"
    using ok record_type_passkey [OF dec]
    by (simp add: read_plaintext_def decrypt_passkey_plaintext_def passkey_plain_def passkey_ok_def)
  show "length bs + 16 < 2 ^ 64"
    using dec by (auto simp: PasskeyPlaintext_decode_def result_simps split: if_splits)
qed

text \<open>Writing a passkey that reads back, from the row on.\<close>

lemma passkey_upsert_refines:
  assumes sync: "in_sync L v hb mb rows" and len: "length (pr_id p) = 16" and ok: "passkey_ok L p"
    and valid: "validate_passkey_plaintext (passkey_plain p t) = Ok ()"
    and enc: "PasskeyPlaintext_encode (vl_cbor L) (passkey_plain p t) = Ok bs"
    and prep: "prepare_plaintext_upsert L v kind (pr_id p) bs t e = (e', Ok pm)"
  shows "\<exists>v' rows'. pm_id pm = pr_id p \<and> stored L v hb rows pm v' rows'
    \<and> vault_view L v' rows' = (vault_view L v rows)(pr_id p \<mapsto> Dec_Passkey p)
    \<and> (pr_id p \<in> dom (vault_view L v rows) \<longleftrightarrow> kind = Update)"
  using upsert_refines [OF sync len read_passkey_plaintext(2) [OF ok valid enc] prep
      read_passkey_plaintext(1) [OF ok valid enc]]
  by (metis stored_intro vault_view_manifest)

end

section \<open>Finding a passkey\<close>

definition passkeys_of :: "decrypted_record list \<Rightarrow> passkey_record list" where
  "passkeys_of ds = List.map_filter (\<lambda>d. case d of Dec_Account _ \<Rightarrow> None | Dec_Passkey p \<Rightarrow> Some p) ds"

lemma passkeys_of_simps [simp]:
  "passkeys_of [] = []"
  "passkeys_of (Dec_Account a # ds) = passkeys_of ds"
  "passkeys_of (Dec_Passkey p # ds) = p # passkeys_of ds"
  by (simp_all add: passkeys_of_def List.map_filter_def)

lemma passkeys_of_append [simp]: "passkeys_of (xs @ ys) = passkeys_of xs @ passkeys_of ys"
  by (simp add: passkeys_of_def List.map_filter_def)

lemma passkeys_of_set: "p \<in> set (passkeys_of ds) \<longleftrightarrow> Dec_Passkey p \<in> set ds"
proof (induction ds)
  case (Cons d ds)
  then show ?case by (cases d) auto
qed simp

lemma passkeys_of_view:
  "rows_ok L v rows \<Longrightarrow>
     p \<in> set (passkeys_of (opened L v rows)) \<longleftrightarrow> vault_view L v rows (pr_id p) = Some (Dec_Passkey p)"
  by (simp add: passkeys_of_set opened_iff_view)

lemma passkey_ids_view:
  assumes "rows_ok L v rows"
  shows "passkey_ids (vault_view L v rows) = pr_credential_id ` set (passkeys_of (opened L v rows))"
proof -
  have "vault_view L v rows i = Some (Dec_Passkey p) \<longleftrightarrow>
      p \<in> set (passkeys_of (opened L v rows)) \<and> i = pr_id p" for i p
    using passkeys_of_view [OF assms, of p] view_id [OF assms, of i "Dec_Passkey p"] by auto
  then show ?thesis by (auto simp: passkey_ids_def)
qed

lemma fold_find_passkey:
  "foldl (find_passkey cid) (None, False) ds =
     (let ps = filter (\<lambda>p. pr_credential_id p = cid) (passkeys_of ds) in
      (if ps = [] then None else Some (last ps), 2 \<le> length ps))"
proof (induction ds rule: rev_induct)
  case (snoc d ds)
  then show ?case
    by (cases d; cases "filter (\<lambda>p. pr_credential_id p = cid) (passkeys_of ds)") (auto simp: Let_def)
qed simp

lemma fold_find_passkey_id:
  "foldl (find_passkey_id cid) (None, False) ds =
     apfst (map_option pr_id) (foldl (find_passkey cid) (None, False) ds)"
proof (induction ds rule: rev_induct)
  case (snoc d ds)
  then show ?case
    by (cases d; cases "foldl (find_passkey cid) (None, False) ds") auto
qed simp

lemma find_passkey_view:
  assumes ok: "rows_ok L v rows"
    and found: "foldl (find_passkey cid) (None, False) (opened L v rows) = (Some p, dup)"
  shows "vault_view L v rows (pr_id p) = Some (Dec_Passkey p)" "pr_credential_id p = cid"
proof -
  define ps where "ps = filter (\<lambda>p. pr_credential_id p = cid) (passkeys_of (opened L v rows))"
  have "ps \<noteq> []" "p = last ps"
    using found by (auto simp: fold_find_passkey ps_def Let_def split: if_splits)
  then have "p \<in> set ps" by simp
  then show "vault_view L v rows (pr_id p) = Some (Dec_Passkey p)" "pr_credential_id p = cid"
    using passkeys_of_view [OF ok] by (auto simp: ps_def)
qed

lemma scan_exclusions_invalid:
  "xs_invalid s \<Longrightarrow> xs_invalid (foldl (scan_exclusions rp excluded) s ds)"
proof (induction ds arbitrary: s)
  case (Cons d ds)
  then show ?case by (cases d) (simp_all add: Let_def)
qed simp

lemma fold_scan_exclusions:
  "\<not> xs_invalid (foldl (scan_exclusions rp excluded) s ds) \<Longrightarrow>
   xs_existing (foldl (scan_exclusions rp excluded) s ds)
     = xs_existing s \<union> pr_credential_id ` set (passkeys_of ds)"
proof (induction ds arbitrary: s)
  case (Cons d ds)
  show ?case
  proof (cases d)
    case (Dec_Passkey p)
    have "\<not> xs_invalid (scan_exclusions rp excluded s d)"
      using Cons.prems scan_exclusions_invalid by auto
    then have "xs_existing (scan_exclusions rp excluded s d)
        = insert (pr_credential_id p) (xs_existing s)"
      using Dec_Passkey by (auto simp: Let_def split: if_splits)
    with Cons Dec_Passkey show ?thesis by (simp del: scan_exclusions.simps)
  qed (use Cons in simp)
qed simp

section \<open>Passkey mutations\<close>

context vault_crypto
begin

lemma view_passkey_facts:
  assumes sync: "in_sync L v hb mb rows" and view: "vault_view L v rows i = Some (Dec_Passkey p)"
  shows "passkey_ok L p" "pr_id p = i" "length i = 16"
    "\<exists>m. validate_passkey_plaintext (passkey_plain p m) = Ok ()"
proof -
  have ok: "rows_ok L v rows" and meta: "authenticate_snapshot_metadata L v hb mb = Ok ()"
    using sync by (simp_all add: in_sync_iff)
  obtain r where r: "r \<in> set rows" "er_id r = i" "decrypt_record L v r = Ok (Dec_Passkey p)"
    using view vault_view_Some [OF ok] by blast
  show "passkey_ok L p" "\<exists>m. validate_passkey_plaintext (passkey_plain p m) = Ok ()"
    by (rule decrypted_passkey_ok [OF r(3)])+
  show "pr_id p = i" using view_id [OF ok view] by simp
  show "length i = 16"
    using r ok metadata_Ok(4) [OF meta]
    by (auto simp: rows_ok_def Manifest_valid_def list_all_iff ManifestEntry_valid_def)
qed

lemma rewrite_passkey:
  assumes sync: "in_sync L v hb mb rows"
    and view: "vault_view L v rows (pr_id p) = Some (Dec_Passkey p)"
    and same: "pr_id p' = pr_id p" and ok: "passkey_ok L p'"
    and a: "a = passkey_plain p' t" "validate_passkey_plaintext a = Ok ()"
    and enc: "PasskeyPlaintext_encode (vl_cbor L) a = Ok bs"
    and up: "prepare_plaintext_upsert L v Update (pr_id p) bs t e = (e', Ok pm)"
  shows "\<exists>v' rows'. pm_id pm = pr_id p \<and> stored L v hb rows pm v' rows'
    \<and> vault_view L v' rows' = (vault_view L v rows)(pr_id p \<mapsto> Dec_Passkey p')"
  using passkey_upsert_refines [OF sync _ ok a(2) [unfolded a(1)] enc [unfolded a(1)], of Update e e' pm]
    view_passkey_facts(3) [OF sync view] up same by auto

lemma confirm_passkey_step:
  assumes prep: "prepare_confirm_passkey_creation_with_check L v hb mb rows cid t sc e = (e', Ok pm)"
  shows "in_sync L v hb mb rows \<and> (\<exists>v' rows'. stored L v hb rows pm v' rows'
    \<and> vault_step (vault_view L v rows) (Passkey_Confirmed (pm_id pm)) (vault_view L v' rows'))"
proof -
  obtain p r a bs dup where visit: "visit_snapshot L v hb mb rows sc (find_passkey cid) (None, False)
      = Ok (Some p, dup)"
    and st: "pr_creation_state p = Pending" and rev: "u64_checked_add (pr_revision p) 1 = Some r"
    and new: "PasskeyPlaintext_new r (pr_created_at_ms p)
        (passkey_update_time (pr_created_at_ms p) (mf_committed_at_ms (uv_manifest v)) t)
        (pr_signature_counter p) Confirmed (pr_rp_id p) (pr_user_handle p) (pr_user_name p)
        (pr_user_display_name p) (pr_credential_id p) (pr_private_key p) = Ok a"
    and enc: "PasskeyPlaintext_encode (vl_cbor L) a = Ok bs"
    and up: "prepare_plaintext_upsert L v Update (pr_id p) bs
        (passkey_update_time (pr_created_at_ms p) (mf_committed_at_ms (uv_manifest v)) t) e = (e', Ok pm)"
    using prep unfolding prepare_confirm_passkey_creation_with_check_def chain_Ok Let_def
      split_paired_Ex prod.case
    by (elim exE conjE) simp
  define p' where "p' = p\<lparr>pr_revision := pr_revision p + 1, pr_creation_state := Confirmed\<rparr>"
  have r: "r = pr_revision p + 1" "unat (pr_revision p) + 1 < 2 ^ 64"
    using rev by (auto simp: u64_checked_add_def split: if_splits)
  have sync: "in_sync L v hb mb rows"
    and found: "foldl (find_passkey cid) (None, False) (opened L v rows) = (Some p, dup)"
    using visit_snapshot_finished [OF visit] by simp_all
  have view: "vault_view L v rows (pr_id p) = Some (Dec_Passkey p)"
    using find_passkey_view(1) [OF _ found] sync by (simp add: in_sync_iff)
  note facts = view_passkey_facts [OF sync view]
  have ok': "passkey_ok L p'" using facts(1) by (simp add: passkey_ok_def p'_def)
  have a: "a = passkey_plain p'
      (passkey_update_time (pr_created_at_ms p) (mf_committed_at_ms (uv_manifest v)) t)"
    "validate_passkey_plaintext a = Ok ()"
    using new by (auto simp: PasskeyPlaintext_new_Ok passkey_plain_def p'_def r)
  have "pr_id p' = pr_id p" by (simp add: p'_def)
  from rewrite_passkey [OF sync view this ok' a enc up] sync view st r show ?thesis
    by (metis p'_def vault_step.passkey_confirmed)
qed

lemma delete_passkey_step:
  assumes prep: "prepare_delete_passkey_with_check L v hb mb rows cid t sc e = (e', Ok pm)"
  shows "in_sync L v hb mb rows \<and> (\<exists>v' rows'. stored L v hb rows pm v' rows'
    \<and> vault_step (vault_view L v rows) (Passkey_Deleted (pm_id pm)) (vault_view L v' rows'))"
proof -
  obtain i where visit: "visit_snapshot L v hb mb rows sc (find_passkey_id cid) (None, False)
      = Ok (Some i, False)"
    and del: "prepare_manifest_mutation L v Delete i None
      (filter (\<lambda>entry. me_record_id entry \<noteq> i) (mf_entries (uv_manifest v)))
      (passkey_manifest_time (mf_committed_at_ms (uv_manifest v)) t) e = (e', Ok pm)"
    using prep unfolding prepare_delete_passkey_with_check_def chain_Ok Let_def
      split_paired_Ex prod.case
    by (elim exE conjE) simp
  have sync: "in_sync L v hb mb rows"
    and "foldl (find_passkey_id cid) (None, False) (opened L v rows) = (Some i, False)"
    using visit_snapshot_finished [OF visit] by simp_all
  then obtain p where found: "foldl (find_passkey cid) (None, False) (opened L v rows) = (Some p, False)"
    and p: "pr_id p = i"
    unfolding fold_find_passkey_id
    by (cases "foldl (find_passkey cid) (None, False) (opened L v rows)") auto
  have view: "vault_view L v rows i = Some (Dec_Passkey p)"
    using find_passkey_view(1) [OF _ found] sync p by (simp add: in_sync_iff)
  then have "i \<in> dom (vault_view L v rows)" by auto
  from delete_refines [OF sync this del] obtain rows' where
    "pm_id pm = i" "apply_to_expected_records rows pm = Ok rows'"
    "commit_record_mutation v pm = (v\<lparr>uv_manifest := pm_next_manifest pm\<rparr>, Ok i)"
    "in_sync L (v\<lparr>uv_manifest := pm_next_manifest pm\<rparr>) hb (pm_manifest_envelope pm) rows'"
    "vault_view L v rows' = (vault_view L v rows)(i := None)"
    "mf_key_epoch (pm_next_manifest pm) = mf_key_epoch (uv_manifest v)" .
  with sync view show ?thesis by (metis stored_intro vault_step.passkey_deleted vault_view_manifest)
qed

text \<open>An assertion signs over the next counter, and stores that counter.\<close>

lemma assert_passkey_step:
  assumes prep: "prepare_passkey_assertion_with_check L v hb mb rows rp cid cdh t sc e
      = (e', Ok (pm, assertion))"
  shows "in_sync L v hb mb rows \<and> (\<exists>v' rows' p rp'. stored L v hb rows pm v' rows'
    \<and> vault_step (vault_view L v rows) (Passkey_Asserted (pm_id pm) rp') (vault_view L v' rows')
    \<and> normalize_rp_id (vl_url L) rp = Ok rp'
    \<and> vault_view L v rows (pm_id pm) = Some (Dec_Passkey p) \<and> pr_credential_id p = cid
    \<and> pas_credential_id assertion = cid \<and> pas_user_handle assertion = pr_user_handle p
    \<and> pas_authenticator_data assertion = authenticator_data L rp' (pr_signature_counter p + 1)
    \<and> pas_signature_der assertion = vl_sign_der L (pr_private_key p)
        (authenticator_data L rp' (pr_signature_counter p + 1) @ cdh))"
proof -
  let ?t = "\<lambda>p. passkey_update_time (pr_created_at_ms p) (mf_committed_at_ms (uv_manifest v)) t"
  obtain rp' p dup r c a bs where meta: "authenticate_snapshot_metadata L v hb mb = Ok ()"
    and rp: "normalize_rp_id (vl_url L) rp = Ok rp'"
    and visit: "visit_authenticated_records L v rows sc (find_passkey cid) (None, False)
      = Ok (Some p, dup)"
    and st: "pr_creation_state p = Confirmed" "pr_rp_id p = rp'"
    and rev: "u64_checked_add (pr_revision p) 1 = Some r"
    and ctr: "u32_checked_add (pr_signature_counter p) 1 = Some c"
    and new: "PasskeyPlaintext_new r (pr_created_at_ms p) (?t p) c Confirmed (pr_rp_id p)
        (pr_user_handle p) (pr_user_name p) (pr_user_display_name p) (pr_credential_id p)
        (pr_private_key p) = Ok a"
    and enc: "PasskeyPlaintext_encode (vl_cbor L) a = Ok bs"
    and up: "prepare_plaintext_upsert L v Update (pr_id p) bs (?t p) e = (e', Ok pm)"
    and out: "assertion = \<lparr>pas_credential_id = cid, pas_user_handle = pr_user_handle p,
        pas_authenticator_data = authenticator_data L rp' c,
        pas_signature_der = vl_sign_der L (pr_private_key p) (authenticator_data L rp' c @ cdh)\<rparr>"
    using prep unfolding prepare_passkey_assertion_with_check_def chain_Ok Let_def
      split_paired_Ex prod.case prod.inject result.inject
    by (elim exE conjE) simp
  define p' where "p' = p\<lparr>pr_revision := pr_revision p + 1,
      pr_signature_counter := pr_signature_counter p + 1\<rparr>"
  have r: "r = pr_revision p + 1" "unat (pr_revision p) + 1 < 2 ^ 64"
    "c = pr_signature_counter p + 1" "unat (pr_signature_counter p) + 1 < 2 ^ 32"
    using rev ctr by (auto simp: u64_checked_add_def u32_checked_add_def split: if_splits)
  have sync: "in_sync L v hb mb rows"
    and found: "foldl (find_passkey cid) (None, False) (opened L v rows) = (Some p, dup)"
    using visit_records_finished [OF visit] meta by (simp_all add: in_sync_iff)
  have view: "vault_view L v rows (pr_id p) = Some (Dec_Passkey p)" "pr_credential_id p = cid"
    using find_passkey_view [OF _ found] sync by (simp_all add: in_sync_iff)
  have ok': "passkey_ok L p'"
    using view_passkey_facts(1) [OF sync view(1)] by (simp add: passkey_ok_def p'_def)
  have a: "a = passkey_plain p' (?t p)" "validate_passkey_plaintext a = Ok ()"
    using new st by (auto simp: PasskeyPlaintext_new_Ok passkey_plain_def p'_def r)
  have "pr_id p' = pr_id p" by (simp add: p'_def)
  from rewrite_passkey [OF sync view(1) this ok' a enc up] obtain v' rows' where
    st': "pm_id pm = pr_id p" "stored L v hb rows pm v' rows'"
    "vault_view L v' rows' = (vault_view L v rows)(pr_id p \<mapsto> Dec_Passkey p')" by blast
  have "vault_step (vault_view L v rows) (Passkey_Asserted (pm_id pm) rp') (vault_view L v' rows')"
    unfolding st'(1,3) p'_def by (rule vault_step.passkey_asserted) (fact view(1) st r(2,4))+
  moreover have "vault_view L v rows (pm_id pm) = Some (Dec_Passkey p)" by (simp add: st'(1) view(1))
  ultimately show ?thesis
    using sync rp st'(2) out r(3) view(2) by (intro conjI exI) (assumption | simp)+
qed

lemma generated_key:
  "generate_signing_key_loop L n e = (e', Ok k) \<Longrightarrow> vl_signing_key_ok L k \<and> length k = 32"
  by (induction n arbitrary: e)
    (auto simp: entropy_then_Ok dest: random_array_length split: if_splits)

lemma allocated_credential:
  assumes "allocate_credential_id L existing e = (e', Ok cid)"
  shows "length cid = 32" "cid \<notin> existing" "cid \<noteq> zeros 32"
proof -
  have f: "find_candidate L 32 (\<lambda>candidate. candidate \<noteq> zeros 32 \<and> candidate \<notin> existing)
      MAX_RECORD_ID_ATTEMPTS e = (e', Some cid)"
    using assms by (simp only: allocate_credential_id_def apsnd_ok_or)
  from find_candidate_Some [OF f] show "length cid = 32" "cid \<notin> existing" "cid \<noteq> zeros 32"
    by (auto dest: random_array_length)
qed

text \<open>The strings of a passkey input are Rust strings.\<close>

lemma add_passkey_step:
  assumes inp: "PasskeyInput_new (vl_url L) (pi_rp_id inp) (pi_user_handle inp) (pi_user_name inp)
      (pi_user_display_name inp) = Ok inp"
    and utf8: "utf8_valid (pi_rp_id inp)" "utf8_valid (pi_user_name inp)"
      "utf8_valid (pi_user_display_name inp)"
    and prep: "prepare_add_passkey_with_check L v hb mb rows inp excluded st t sc e
      = (e', Ok (pm, cred))"
  shows "in_sync L v hb mb rows \<and> (\<exists>v' rows' p. stored L v hb rows pm v' rows'
    \<and> vault_step (vault_view L v rows) (Passkey_Added (pm_id pm) inp st) (vault_view L v' rows')
    \<and> vault_view L v' rows' (pm_id pm) = Some (Dec_Passkey p)
    \<and> pcr_credential_id cred = pr_credential_id p \<and> pcr_user_handle cred = pi_user_handle inp
    \<and> pcr_public_key cred = vl_public_point L (pr_private_key p))"
proof -
  let ?s0 = "\<lparr>xs_existing = {}, xs_conflict = False, xs_invalid = False\<rparr>"
  let ?t = "passkey_manifest_time (mf_committed_at_ms (uv_manifest v)) t"
  obtain s e1 i e2 cid e3 k a bs where
    visit: "visit_snapshot L v hb mb rows sc (scan_exclusions (pi_rp_id inp) excluded) ?s0 = Ok s"
    and fine: "\<not> xs_invalid s"
    and i: "allocate_record_id L v e = (e1, Ok i)"
    and cid: "allocate_credential_id L (xs_existing s) e1 = (e2, Ok cid)"
    and k: "generate_signing_key L e2 = (e3, Ok k)"
    and new: "PasskeyPlaintext_new 1 ?t ?t 0 st (pi_rp_id inp) (pi_user_handle inp)
        (pi_user_name inp) (pi_user_display_name inp) cid k = Ok a"
    and enc: "PasskeyPlaintext_encode (vl_cbor L) a = Ok bs"
    and up: "prepare_plaintext_upsert L v Insert i bs ?t e3 = (e', Ok pm)"
    and out: "cred = \<lparr>pcr_credential_id = cid, pcr_user_handle = pi_user_handle inp,
        pcr_public_key = vl_public_point L k\<rparr>"
    using prep unfolding prepare_add_passkey_with_check_def chain_Ok Let_def prod.inject result.inject
    by (elim exE conjE) simp
  define p where "p = \<lparr>pr_id = i, pr_revision = 1, pr_created_at_ms = ?t, pr_signature_counter = 0,
      pr_creation_state = st, pr_rp_id = pi_rp_id inp, pr_user_handle = pi_user_handle inp,
      pr_user_name = pi_user_name inp, pr_user_display_name = pi_user_display_name inp,
      pr_credential_id = cid, pr_private_key = k\<rparr>"
  have sync: "in_sync L v hb mb rows"
    and s: "s = foldl (scan_exclusions (pi_rp_id inp) excluded) ?s0 (opened L v rows)"
    using visit_snapshot_finished [OF visit] by simp_all
  have "xs_existing s = passkey_ids (vault_view L v rows)"
    using fold_scan_exclusions [OF fine [unfolded s]] sync passkey_ids_view [of L v rows]
    by (simp add: s in_sync_iff)
  then have fresh: "pr_credential_id p \<notin> passkey_ids (vault_view L v rows)"
    using allocated_credential(2) [OF cid] by (simp add: p_def)
  have "normalize_rp_id (vl_url L) (pi_rp_id inp) = Ok (pi_rp_id inp)"
    using inp by (auto simp: PasskeyInput_new_def result_simps split: if_splits)
  then have ok: "passkey_ok L p"
    using utf8 allocated_credential(1) [OF cid] generated_key [OF k [unfolded generate_signing_key_def]]
    by (simp add: passkey_ok_def p_def)
  have a: "a = passkey_plain p ?t" "validate_passkey_plaintext a = Ok ()"
    using new by (auto simp: PasskeyPlaintext_new_Ok passkey_plain_def p_def)
  have id: "pr_id p = i" "length (pr_id p) = 16"
    using allocated_id(1) [OF i] by (simp_all add: p_def)
  from passkey_upsert_refines [OF sync id(2) ok a(2) [unfolded a(1)] enc [unfolded a(1)]
      up [folded id(1)]]
  obtain v' rows' where st': "pm_id pm = i" "stored L v hb rows pm v' rows'"
    "vault_view L v' rows' = (vault_view L v rows)(i \<mapsto> Dec_Passkey p)"
    "i \<notin> dom (vault_view L v rows)"
    by (auto simp: id(1))
  have "passkey_created i inp st p"
    using allocated_credential(1) [OF cid] by (simp add: passkey_created_def p_def)
  then have "vault_step (vault_view L v rows) (Passkey_Added (pm_id pm) inp st) (vault_view L v' rows')"
    unfolding st'(1,3) using st'(4) fresh id by (intro vault_step.passkey_added) simp_all
  moreover have "vault_view L v' rows' (pm_id pm) = Some (Dec_Passkey p)" by (simp add: st'(1,3))
  ultimately show ?thesis using sync st'(2) out
    by (intro conjI exI [of _ v'] exI [of _ rows'] exI [of _ p]) (simp_all add: p_def)
qed

end

end
