(* ===== verification/Vault_Lifecycle.thy ===== *)
theory Vault_Lifecycle
  imports Vault_Passkeys
begin

text \<open>
  From creation to unlocking: a created vault unlocks with the password it was created with and with
  a Windows Hello protector made in its session, and the unlocked session is the one that was created.
\<close>

section \<open>Unlocking an authentic vault\<close>

text \<open>The master wrapper of a header holds the root key under a password.\<close>

definition password_wraps :: "'e vault_libs \<Rightarrow> unlocked_vault \<Rightarrow> bytes \<Rightarrow> bool" where
  "password_wraps L v password \<longleftrightarrow> (\<exists>pk kek a.
     derive_password_key L password (mw_password_salt (vh_master_wrapper (uv_header v))) = Some pk
     \<and> derive_key L pk (vault_id v) MASTER_WRAP_LABEL = Some kek
     \<and> encode_master_wrapper_aad (vl_cbor L) (vault_id v) (vault_key_epoch v)
         (mw_password_salt (vh_master_wrapper (uv_header v))) = Some a
     \<and> decrypt_fixed_key L kek (mw_nonce (vh_master_wrapper (uv_header v)))
         (mw_wrapped_vrk (vh_master_wrapper (uv_header v))) a = Some (uv_root_key v))"

context vault_crypto
begin

lemma decrypt_manifest_parts:
  assumes "decrypt_manifest L v mb = Ok m"
  obtains envelope k a p where "ManifestEnvelope_decode (vl_cbor L) mb = Ok envelope"
    "derive_manifest_key L (uv_root_key v) (vault_id v) (vault_key_epoch v) = Some k"
    "encode_manifest_aad (vl_cbor L) (uv_header v) (mv_nonce envelope) = Some a"
    "decrypt_bytes L k (mv_nonce envelope) (mv_ciphertext envelope) a = Some p"
    "Manifest_decode (vl_cbor L) p = Ok m"
  using assms that by (auto simp: decrypt_manifest_def result_simps)

lemma authenticate_root_key:
  assumes sync: "in_sync L v hb mb rows" and epoch: "session_of v"
    and env: "ManifestEnvelope_decode (vl_cbor L) mb = Ok envelope"
    and quiet: "\<And>i. \<not> cancelled i"
  shows "authenticate_vault_root_key L (uv_root_key v) (uv_header v) envelope rows cancelled = Ok v"
proof -
  have meta: "authenticate_snapshot_metadata L v hb mb = Ok ()" and ok: "rows_ok L v rows"
    using sync by (simp_all add: in_sync_iff)
  have v: "\<lparr>uv_root_key = uv_root_key v, uv_header = uv_header v, uv_manifest = uv_manifest v\<rparr> = v"
    by simp
  from decrypt_manifest_parts [OF metadata_Ok(3) [OF meta]] obtain envelope' k a p where
    parts: "ManifestEnvelope_decode (vl_cbor L) mb = Ok envelope'"
    "derive_manifest_key L (uv_root_key v) (vault_id v) (vault_key_epoch v) = Some k"
    "encode_manifest_aad (vl_cbor L) (uv_header v) (mv_nonce envelope') = Some a"
    "decrypt_bytes L k (mv_nonce envelope') (mv_ciphertext envelope') a = Some p"
    "Manifest_decode (vl_cbor L) p = Ok (uv_manifest v)" .
  have "mf_vault_schema (uv_manifest v) = VAULT_SCHEMA"
    using metadata_Ok(4) [OF meta] by (simp add: Manifest_valid_def)
  moreover have "cancelled = (\<lambda>_. False)" using quiet by auto
  moreover have "visit_authenticated_records L v rows (\<lambda>_. False) (\<lambda>s _. s) () = Ok ()"
    using ok by (simp add: visit_records_Ok)
  ultimately show ?thesis
    using parts env epoch
    by (simp add: authenticate_vault_root_key_def vault_id_def vault_key_epoch_def session_of_def
        authenticate_records_def v)
qed

lemma unlock_vault_Ok:
  assumes sync: "in_sync L v hb mb rows" and epoch: "session_of v"
    and wraps: "password_wraps L v password" and quiet: "\<And>i. \<not> cancelled i"
  shows "unlock_vault L password hb mb rows cancelled = Ok v"
proof -
  have meta: "authenticate_snapshot_metadata L v hb mb = Ok ()" using sync by (simp add: in_sync_iff)
  from decrypt_manifest_parts [OF metadata_Ok(3) [OF meta]] obtain envelope where
    env: "ManifestEnvelope_decode (vl_cbor L) mb = Ok envelope" by blast
  note auth = authenticate_root_key [OF sync epoch env, of "\<lambda>i. cancelled (i + 2)"]
  from wraps quiet metadata_Ok(1) [OF meta] env auth show ?thesis
    by (auto simp: unlock_vault_def password_wraps_def vault_id_def vault_key_epoch_def)
qed

lemma sealed_key_opens:
  assumes "encrypt_fixed_key L k nonce key a = Ok c" and "length key = 32"
  shows "decrypt_fixed_key L k nonce c a = Some key" "length c = 48"
  using assms
  by (auto simp: encrypt_fixed_key_def encrypt_bytes_def decrypt_fixed_key_def decrypt_bytes_def
      result_simps open_seal split: if_splits)

lemma created_vault_facts:
  assumes create: "create_vault_with_entropy L password t e = (e', Ok cv)"
  shows "in_sync L (cv_session cv) (cv_header cv) (cv_manifest_envelope cv) []"
    "session_of (cv_session cv)" "password_wraps L (cv_session cv) password"
    "length (uv_root_key (cv_session cv)) = 32"
    "uv_manifest (cv_session cv) = Manifest_empty t INITIAL_KEY_EPOCH"
proof -
  let ?hd = "\<lambda>vid salt n1 w1 n2 w2. \<lparr>vh_vault_id = vid, vh_key_epoch = INITIAL_KEY_EPOCH,
        vh_master_wrapper = \<lparr>mw_password_salt = salt, mw_nonce = n1, mw_wrapped_vrk = w1\<rparr>,
        vh_recovery_wrapper = \<lparr>rw_nonce = n2, rw_wrapped_vrk = w2\<rparr>\<rparr>"
  obtain vid root recovery salt n1 n2 n3 pk kek a1 w1 rkek a2 w2 hb mp mk a3 c me mb e1 e2 e3 e4 e5 e6
      e7 where
    rnd: "random_array L 16 e = (e1, Ok vid)" "random_array L 32 e1 = (e2, Ok root)"
      "random_array L 32 e2 = (e3, Ok recovery)" "random_array L 16 e3 = (e4, Ok salt)"
      "random_array L 24 e4 = (e5, Ok n1)"
      "random_array L 24 e5 = (e6, Ok n2)" "random_array L 24 e6 = (e7, Ok n3)"
    and pk: "derive_password_key L password salt = Some pk"
      "derive_key L pk vid MASTER_WRAP_LABEL = Some kek"
      "encode_master_wrapper_aad (vl_cbor L) vid INITIAL_KEY_EPOCH salt = Some a1"
    and w1: "encrypt_fixed_key L kek n1 root a1 = Ok w1"
    and w2: "encrypt_fixed_key L rkek n2 root a2 = Ok w2"
    and hb: "VaultHeader_encode (vl_cbor L) (?hd vid salt n1 w1 n2 w2) = Ok hb"
    and mp: "Manifest_encode (vl_cbor L) (Manifest_empty t INITIAL_KEY_EPOCH) = Ok mp"
    and mk: "derive_manifest_key L root vid INITIAL_KEY_EPOCH = Some mk"
    and a3: "encode_manifest_aad (vl_cbor L) (?hd vid salt n1 w1 n2 w2) n3 = Some a3"
    and c: "encrypt_bytes L mk n3 mp a3 = Ok c"
    and me: "ManifestEnvelope_new (vl_cbor L) n3 c = Ok me"
    and mb: "ManifestEnvelope_encode (vl_cbor L) me = Ok mb"
    and cv: "\<lparr>cv_header = hb, cv_manifest_envelope = mb, cv_recovery_key = recovery,
      cv_session = \<lparr>uv_root_key = root, uv_header = ?hd vid salt n1 w1 n2 w2,
        uv_manifest = Manifest_empty t INITIAL_KEY_EPOCH\<rparr>\<rparr> = cv"
    using create
    unfolding create_vault_with_entropy_def entropy_then_Ok KEY_BYTES_def prod.inject result_simps
      Let_def result.inject
    by (elim exE conjE) (rule that; assumption)
  define hd where "hd = ?hd vid salt n1 w1 n2 w2"
  note hb = hb [folded hd_def] and a3 = a3 [folded hd_def] and cv = cv [folded hd_def, symmetric]
  note len = rnd [THEN random_array_length]
  have hv: "VaultHeader_valid hd"
    using len sealed_key_opens(2) [OF w1] sealed_key_opens(2) [OF w2]
    by (simp add: hd_def VaultHeader_valid_def)
  have mv: "Manifest_valid (Manifest_empty t INITIAL_KEY_EPOCH)"
    by (simp add: Manifest_valid_def Manifest_empty_def)
  note opens = sealed_manifest_opens [OF mv mp c]
  have menv: "ManifestEnvelope_decode (vl_cbor L) mb = Ok \<lparr>mv_nonce = n3, mv_ciphertext = c\<rparr>"
    using me mb by (intro manifest_envelope_decode [OF _ len(7) opens(3)]) simp
  have hdec: "VaultHeader_decode (vl_cbor L) hb = Ok hd"
    using hv hb by (intro VaultHeader_decode_complete) simp_all
  have "authenticate_snapshot_metadata L (cv_session cv) hb mb = Ok ()"
    using hdec menv opens mk a3
    by (simp add: authenticate_snapshot_metadata_def decrypt_manifest_def cv vault_id_def
        vault_key_epoch_def hd_def)
  moreover have "rows_ok L (cv_session cv) []" by (simp add: rows_ok_def cv Manifest_empty_def)
  ultimately show "in_sync L (cv_session cv) (cv_header cv) (cv_manifest_envelope cv) []"
    by (simp add: in_sync_iff) (simp add: cv)
  show "session_of (cv_session cv)"
    by (simp add: session_of_def cv Manifest_empty_def vault_key_epoch_def hd_def)
  show "password_wraps L (cv_session cv) password"
    using pk sealed_key_opens(1) [OF w1 len(2)]
    by (simp add: password_wraps_def cv hd_def vault_id_def vault_key_epoch_def)
  show "length (uv_root_key (cv_session cv)) = 32" using len(2) by (simp add: cv)
  show "uv_manifest (cv_session cv) = Manifest_empty t INITIAL_KEY_EPOCH" by (simp add: cv)
qed

text \<open>A Windows Hello protector made in a session unlocks the vault of that session.\<close>

lemma hello_round_trip:
  assumes sync: "in_sync L v hb mb rows" and epoch: "session_of v"
    and root: "length (uv_root_key v) = 32" and salt: "length prf_salt = 32"
    and make: "create_windows_hello_protector L v ik cid prf_salt prf e = (e', Ok protector)"
    and quiet: "\<And>i. \<not> cancelled i"
  shows "unlock_vault_with_windows_hello L prf ik cid protector hb mb rows cancelled = Ok v"
proof -
  have meta: "authenticate_snapshot_metadata L v hb mb = Ok ()" using sync by (simp add: in_sync_iff)
  note header = metadata_Ok(1,2) [OF meta]
  let ?p = "\<lambda>nonce w. \<lparr>wh_vault_id = vault_id v, wh_key_epoch = vault_key_epoch v,
      wh_installation_id = windows_hello_installation_id L ik, wh_credential_id = cid,
      wh_prf_salt = prf_salt, wh_nonce = nonce, wh_wrapped_vrk = w\<rparr>"
  obtain e1 nonce k a w where
    nonce: "random_array L 24 e = (e1, Ok nonce)" and
    new: "WindowsHelloProtector_new (vault_id v) (vault_key_epoch v)
      (windows_hello_installation_id L ik) cid prf_salt nonce w = Ok (?p nonce w)" and
    key: "derive_windows_hello_wrapping_key L prf ik (vault_id v) = Some k" and
    aad: "encode_windows_hello_wrapper_aad (vl_cbor L) (?p nonce (zeros 48)) = Some a" and
    wrap: "encrypt_fixed_key L k nonce (uv_root_key v) a = Ok w" and
    enc: "WindowsHelloProtector_encode (vl_cbor L) (?p nonce w) = Ok protector"
    using make
    by (auto simp: create_windows_hello_protector_def entropy_then_Ok result_simps Let_def
        WindowsHelloProtector_new_Ok vault_id_def vault_key_epoch_def)
  note wrapped = sealed_key_opens [OF wrap root]
  have id: "length (windows_hello_installation_id L ik) = 32"
    by (simp add: windows_hello_installation_id_def sha256_length)
  have "WindowsHelloProtector_valid (?p nonce w)"
    using new salt wrapped(2) random_array_length [OF nonce] header(2) list_all_zero_iff [OF id] id
    by (simp add: WindowsHelloProtector_valid_def WindowsHelloProtector_new_Ok VaultHeader_valid_def
        vault_id_def)
  then have dec: "WindowsHelloProtector_decode (vl_cbor L) protector = Ok (?p nonce w)"
    using enc by (intro WindowsHelloProtector_decode_complete) simp_all
  have aad': "encode_windows_hello_wrapper_aad (vl_cbor L) (?p nonce w) = Some a"
    using aad by (simp add: encode_windows_hello_wrapper_aad_eq hello_binding_wire_def)
  from decrypt_manifest_parts [OF metadata_Ok(3) [OF meta]] obtain envelope where
    env: "ManifestEnvelope_decode (vl_cbor L) mb = Ok envelope" by blast
  have auth: "authenticate_vault_root_key L (uv_root_key v) (uv_header v) envelope rows
      (\<lambda>i. cancelled (i + 2)) = Ok v"
    by (rule authenticate_root_key [OF sync epoch env]) (rule quiet)
  show ?thesis
    using quiet header(1) env dec key aad' wrapped(1) auth
    by (simp add: unlock_vault_with_windows_hello_def vault_id_def vault_key_epoch_def)
qed

end

section \<open>Histories\<close>

text \<open>
  The state of a vault in use: the session, the stored manifest envelope and the stored rows. A step
  prepares a mutation, stores its row and its manifest, and commits it.
\<close>

type_synonym vault_state = "unlocked_vault \<times> bytes \<times> encrypted_record list"

inductive prepares ::
    "'e vault_libs \<Rightarrow> bytes \<Rightarrow> vault_state \<Rightarrow> vault_event \<Rightarrow> prepared_mutation \<Rightarrow> bool" for L hb where
  prepares_add_account: "input_ok L inp
    \<Longrightarrow> prepare_add_website_account_with_check L v hb mb rows inp t sc e = (e', Ok pm)
    \<Longrightarrow> prepares L hb (v, mb, rows) (Account_Added (pm_id pm) inp t) pm"
| prepares_update_account: "input_ok L inp
    \<Longrightarrow> prepare_update_website_account_with_check L v hb mb rows i inp t sc e = (e', Ok pm)
    \<Longrightarrow> prepares L hb (v, mb, rows) (Account_Updated i inp t) pm"
| prepares_delete_account:
    "prepare_delete_website_account_with_check L v hb mb rows i t sc e = (e', Ok pm)
    \<Longrightarrow> prepares L hb (v, mb, rows) (Account_Deleted i) pm"
| prepares_add_passkey: "PasskeyInput_new (vl_url L) (pi_rp_id inp) (pi_user_handle inp)
        (pi_user_name inp) (pi_user_display_name inp) = Ok inp
    \<Longrightarrow> utf8_valid (pi_rp_id inp) \<Longrightarrow> utf8_valid (pi_user_name inp)
    \<Longrightarrow> utf8_valid (pi_user_display_name inp)
    \<Longrightarrow> prepare_add_passkey_with_check L v hb mb rows inp excluded st t sc e = (e', Ok (pm, cred))
    \<Longrightarrow> prepares L hb (v, mb, rows) (Passkey_Added (pm_id pm) inp st) pm"
| prepares_confirm_passkey:
    "prepare_confirm_passkey_creation_with_check L v hb mb rows cid t sc e = (e', Ok pm)
    \<Longrightarrow> prepares L hb (v, mb, rows) (Passkey_Confirmed (pm_id pm)) pm"
| prepares_assert_passkey: "normalize_rp_id (vl_url L) rp = Ok rp'
    \<Longrightarrow> prepare_passkey_assertion_with_check L v hb mb rows rp cid cdh t sc e
          = (e', Ok (pm, assertion))
    \<Longrightarrow> prepares L hb (v, mb, rows) (Passkey_Asserted (pm_id pm) rp') pm"
| prepares_delete_passkey:
    "prepare_delete_passkey_with_check L v hb mb rows cid t sc e = (e', Ok pm)
    \<Longrightarrow> prepares L hb (v, mb, rows) (Passkey_Deleted (pm_id pm)) pm"

inductive core_step ::
    "'e vault_libs \<Rightarrow> bytes \<Rightarrow> vault_state \<Rightarrow> vault_event \<Rightarrow> vault_state \<Rightarrow> bool" for L hb where
  "prepares L hb (v, mb, rows) ev pm \<Longrightarrow> stored L v hb rows pm v' rows'
    \<Longrightarrow> core_step L hb (v, mb, rows) ev (v', pm_manifest_envelope pm, rows')"

definition core_contents :: "'e vault_libs \<Rightarrow> vault_state \<Rightarrow> contents" where
  "core_contents L = (\<lambda>(v, mb, rows). vault_view L v rows)"

text \<open>The state belongs together and keeps the keys of the session \<open>v0\<close>.\<close>

definition core_inv :: "'e vault_libs \<Rightarrow> bytes \<Rightarrow> unlocked_vault \<Rightarrow> vault_state \<Rightarrow> bool" where
  "core_inv L hb v0 = (\<lambda>(v, mb, rows). in_sync L v hb mb rows \<and> session_of v
     \<and> uv_root_key v = uv_root_key v0 \<and> uv_header v = uv_header v0)"

context vault_crypto
begin

text \<open>Whatever is prepared can be stored, and then is a step of the abstract vault.\<close>

lemma prepares_stored:
  assumes "prepares L hb (v, mb, rows) ev pm"
  shows "\<exists>v' rows'. stored L v hb rows pm v' rows'
    \<and> vault_step (vault_view L v rows) ev (vault_view L v' rows')"
  using assms
proof (cases rule: prepares.cases)
  case prepares_add_account
  then show ?thesis using add_account_step by blast
next
  case prepares_update_account
  then show ?thesis using update_account_step by blast
next
  case prepares_delete_account
  then show ?thesis using delete_account_step by blast
next
  case prepares_add_passkey
  then show ?thesis using add_passkey_step by blast
next
  case prepares_confirm_passkey
  then show ?thesis using confirm_passkey_step by blast
next
  case prepares_assert_passkey
  then show ?thesis using assert_passkey_step by fastforce
next
  case prepares_delete_passkey
  then show ?thesis using delete_passkey_step by blast
qed

lemma core_step_refines:
  assumes "core_step L hb s ev s'"
  shows "vault_step (core_contents L s) ev (core_contents L s')"
  using assms
proof (cases rule: core_step.cases)
  case (1 v mb rows pm v' rows')
  with prepares_stored [OF 1(3)] show ?thesis by (auto simp: core_contents_def dest: stored_unique)
qed

lemma core_step_inv:
  assumes "core_inv L hb v0 s" and "core_step L hb s ev s'"
  shows "core_inv L hb v0 s'"
  using assms(2,1)
  by (cases rule: core_step.cases)
    (auto simp: core_inv_def stored_def session_of_def vault_key_epoch_def)

end

sublocale vault_crypto \<subseteq> core: simulation "core_step L hb" vault_step "core_contents L"
    "core_inv L hb v0" for hb v0
  by unfold_locales (auto intro: core_step_refines core_step_inv)

end
