(* ===== verification/Agent_Steps.thy ===== *)
theory Agent_Steps
  imports Agent_Records Agent_Database Vault_Lifecycle
begin

text \<open>
  The agent as a transition system, and the abstract vault it implements. A step is one call of the
  agent, labelled with what the caller may conclude from its result: nothing changed, it saw this,
  exactly this mutation happened, or a mutation may or may not have happened. The invariant ties an
  unlocked session to the database; every call is a step of the map of records.
\<close>

section \<open>What a caller may conclude\<close>

datatype agent_label =
    Quiet | Saw "contents \<Rightarrow> bool" | Done "vault_event \<Rightarrow> bool" | Uncertain "vault_event \<Rightarrow> bool"

inductive agent_spec :: "contents \<Rightarrow> agent_label \<Rightarrow> contents \<Rightarrow> bool" where
  spec_quiet: "agent_spec c Quiet c"
| spec_saw: "P c \<Longrightarrow> agent_spec c (Saw P) c"
| spec_done: "vault_step c ev c' \<Longrightarrow> P ev \<Longrightarrow> agent_spec c (Done P) c'"
| spec_unchanged: "agent_spec c (Uncertain P) c"
| spec_changed: "vault_step c ev c' \<Longrightarrow> P ev \<Longrightarrow> agent_spec c (Uncertain P) c'"

inductive_simps agent_spec_simps:
  "agent_spec c Quiet c'" "agent_spec c (Saw P) c'" "agent_spec c (Done P) c'"
  "agent_spec c (Uncertain P) c'"

text \<open>A failed mutation is uncertain; every other error leaves the vault as it was.\<close>

fun mutation_label :: "('a \<Rightarrow> vault_event \<Rightarrow> bool) \<Rightarrow> ('a, account_error) result \<Rightarrow> agent_label" where
  "mutation_label P (Ok x) = Done (P x)"
| "mutation_label P (Err Acc_Failed) = Uncertain (\<lambda>ev. \<exists>x. P x ev)"
| "mutation_label P _ = Quiet"

fun read_label :: "('a \<Rightarrow> contents \<Rightarrow> bool) \<Rightarrow> ('a, account_error) result \<Rightarrow> agent_label" where
  "read_label P (Ok x) = Saw (P x)"
| "read_label P _ = Quiet"

text \<open>The contents a database has under a root key, and the state in which the agent agrees with it.\<close>

definition database_contents :: "'e vault_libs \<Rightarrow> bytes \<Rightarrow> vault_data \<Rightarrow> contents" where
  "database_contents L root vd =
     (case VaultHeader_decode (vl_cbor L) (vd_header vd) of
        Ok header \<Rightarrow> vault_view L \<lparr>uv_root_key = root, uv_header = header,
          uv_manifest = Manifest_empty 0 0\<rparr> (vd_records vd)
      | _ \<Rightarrow> Map.empty)"

definition agent_synced ::
    "'e vault_libs \<Rightarrow> bytes \<Rightarrow> vault_agent \<Rightarrow> vault_data \<Rightarrow> unlocked_vault \<Rightarrow> bool" where
  "agent_synced L root a vd v \<longleftrightarrow>
     in_sync L v (vd_header vd) (vd_manifest vd) (vd_records vd) \<and> session_of v
     \<and> uv_root_key v = root
     \<and> (va_session a = None
        \<or> va_session a = Some v \<and> va_authenticated_header a = Some (vd_header vd)
          \<and> va_authenticated_manifest a = Some (vd_manifest vd))"

definition agent_inv ::
    "'e vault_libs \<Rightarrow> path \<Rightarrow> ('d \<Rightarrow> vault_data) \<Rightarrow> bytes \<Rightarrow> ('d, 'e) agent_state \<Rightarrow> bool" where
  "agent_inv L p committed root = (\<lambda>(a, w). va_path a = Some p
     \<and> (\<exists>v. agent_synced L root a (committed (aw_database w)) v))"

definition agent_contents ::
    "'e vault_libs \<Rightarrow> ('d \<Rightarrow> vault_data) \<Rightarrow> bytes \<Rightarrow> ('d, 'e) agent_state \<Rightarrow> contents" where
  "agent_contents L committed root = (\<lambda>(a, w). database_contents L root (committed (aw_database w)))"

section \<open>Calls\<close>

text \<open>
  An unlock that succeeds is a step when it recovered the root key of the vault: no other key opens
  what that key sealed.
\<close>

inductive agent_step ::
    "'e vault_libs \<Rightarrow> ('d, 't) databases \<Rightarrow> bytes
       \<Rightarrow> ('d, 'e) agent_state \<Rightarrow> agent_label \<Rightarrow> ('d, 'e) agent_state \<Rightarrow> bool" for L S root where
  step_lock: "agent_step L S root (a, w) Quiet (lock_agent a, w)"
| step_unlock: "unlock_agent L S password cancelled s = (s', r)
    \<Longrightarrow> (r = Ok () \<longrightarrow> map_option uv_root_key (va_session (fst s')) = Some root)
    \<Longrightarrow> agent_step L S root s Quiet s'"
| step_unlock_hello: "unlock_with_windows_hello L S prf ik cid protector cancelled s = (s', r)
    \<Longrightarrow> (r = Ok () \<longrightarrow> map_option uv_root_key (va_session (fst s')) = Some root)
    \<Longrightarrow> agent_step L S root s Quiet s'"
| step_add_account: "input_ok L inp
    \<Longrightarrow> agent_add_website_account_with_before_commit_and_check L S now inp sc bc s = (s', r) \<Longrightarrow> bc \<noteq> Panic
    \<Longrightarrow> agent_step L S root s
          (mutation_label (\<lambda>i ev. \<exists>t. unix_time_ms now = Ok t \<and> ev = Account_Added i inp t) r) s'"
| step_update_account: "input_ok L inp
    \<Longrightarrow> agent_update_website_account_with_before_commit_and_check L S now i inp sc bc s = (s', r) \<Longrightarrow> bc \<noteq> Panic
    \<Longrightarrow> agent_step L S root s
          (mutation_label (\<lambda>_ ev. \<exists>t. unix_time_ms now = Ok t \<and> ev = Account_Updated i inp t) r) s'"
| step_delete_account:
    "agent_delete_website_account_with_before_commit_and_check L S now i sc bc s = (s', r) \<Longrightarrow> bc \<noteq> Panic
    \<Longrightarrow> agent_step L S root s (mutation_label (\<lambda>_ ev. ev = Account_Deleted i) r) s'"
| step_add_passkey: "PasskeyInput_new (vl_url L) (pi_rp_id inp) (pi_user_handle inp)
        (pi_user_name inp) (pi_user_display_name inp) = Ok inp
    \<Longrightarrow> utf8_valid (pi_rp_id inp) \<Longrightarrow> utf8_valid (pi_user_name inp)
    \<Longrightarrow> utf8_valid (pi_user_display_name inp)
    \<Longrightarrow> agent_add_passkey_with_before_commit_and_check L S now inp excluded st sc bc s = (s', r) \<Longrightarrow> bc \<noteq> Panic
    \<Longrightarrow> agent_step L S root s (mutation_label (\<lambda>_ ev. \<exists>i. ev = Passkey_Added i inp st) r) s'"
| step_confirm_passkey:
    "agent_confirm_passkey_creation_with_before_commit_and_check L S now cid sc bc s = (s', r) \<Longrightarrow> bc \<noteq> Panic
    \<Longrightarrow> agent_step L S root s (mutation_label (\<lambda>_ ev. \<exists>i. ev = Passkey_Confirmed i) r) s'"
| step_sign_passkey:
    "agent_sign_passkey_assertion_with_before_commit_and_check L S now rp cid cdh sc bc s = (s', r) \<Longrightarrow> bc \<noteq> Panic
    \<Longrightarrow> agent_step L S root s
          (mutation_label (\<lambda>_ ev. \<exists>i rp'. normalize_rp_id (vl_url L) rp = Ok rp'
             \<and> ev = Passkey_Asserted i rp') r) s'"
| step_delete_passkey:
    "agent_delete_passkey_with_before_commit_and_check L S now cid sc bc s = (s', r) \<Longrightarrow> bc \<noteq> Panic
    \<Longrightarrow> agent_step L S root s (mutation_label (\<lambda>_ ev. \<exists>i. ev = Passkey_Deleted i) r) s'"
| step_get_account: "agent_get_website_account_with_check L S i sc s = (s', r)
    \<Longrightarrow> agent_step L S root s (read_label (\<lambda>x c. c i = Some (Dec_Account x)) r) s'"
| step_list_accounts: "agent_list_website_accounts L S s = (s', r)
    \<Longrightarrow> agent_step L S root s
          (read_label (\<lambda>xs c. set xs = {x. \<exists>i. c i = Some (Dec_Account x)}) r) s'"
| step_account_page: "agent_list_website_account_page_with_check L S start limit sc s = (s', r)
    \<Longrightarrow> agent_step L S root s
          (read_label (\<lambda>(xs, has_more) c. set xs \<subseteq> {x. \<exists>i. c i = Some (Dec_Account x)}) r) s'"
| step_unique_account: "agent_unique_browser_account_with_check L S origin sc s = (s', r)
    \<Longrightarrow> agent_step L S root s
          (read_label (\<lambda>found c. \<forall>x. found = Some x \<longrightarrow>
             {y. (\<exists>i. c i = Some (Dec_Account y)) \<and> ac_permitted_origin y = origin} = {x}) r) s'"
| step_list_passkeys: "agent_list_passkeys_with_check L S sc s = (s', r)
    \<Longrightarrow> agent_step L S root s (read_label (\<lambda>_ _. True) r) s'"
| step_passkeys_for_assertion:
    "agent_list_passkeys_for_assertion_with_check L S rp allowed present sc s = (s', r)
    \<Longrightarrow> agent_step L S root s (read_label (\<lambda>_ _. True) r) s'"
| step_pending_passkeys: "agent_pending_passkey_credential_ids_with_check L S sc s = (s', r)
    \<Longrightarrow> agent_step L S root s (read_label (\<lambda>_ _. True) r) s'"

section \<open>Interface\<close>

text \<open>An agent works on a vault whose libraries and whose database keep their promises.\<close>

locale agent_store =
  vault_crypto L + vault_database "S p" committed pending
  for L :: "'e vault_libs" and S :: "('d, 't) databases" and p :: path
    and committed :: "'d \<Rightarrow> vault_data" and pending :: "'t \<Rightarrow> vault_data"

section \<open>Lock and snapshot\<close>

lemma lock_agent_sel [simp]:
  "va_path (lock_agent a) = va_path a" "va_session (lock_agent a) = None"
  "va_session_id (lock_agent a) = None"
  by (simp_all add: lock_agent_def advance_authorization_epoch_def split: option.splits)

lemma agent_inv_lock: "agent_inv L p com root (a, w) \<Longrightarrow> agent_inv L p com root (lock_agent a, w)"
  by (auto simp: agent_inv_def agent_synced_def)

lemma database_contents_view:
  assumes "in_sync L v hb mb rows" and "minicbor_spec (vl_cbor L)"
  shows "database_contents L (uv_root_key v) \<lparr>vd_header = hb, vd_manifest = mb', vd_records = rows\<rparr>
    = vault_view L v rows"
proof -
  have "VaultHeader_decode (vl_cbor L) hb = Ok (uv_header v)"
    using assms by (auto simp: in_sync_iff authenticate_snapshot_metadata_def result_simps split: if_splits)
  then show ?thesis
    using vault_view_manifest [where v = v and m = "Manifest_empty 0 0" and L = L and rows = rows]
    by (cases v) (simp add: database_contents_def)
qed

end
