(* ===== verification/Agent_Refinement.thy ===== *)
theory Agent_Refinement
  imports Agent_Steps Vault_Accounts
begin

text \<open>
  Every call of the agent is a step of the abstract vault. The two shared bodies, reading and
  mutating, carry the proofs; each operation only adds what its call of the core promises.
\<close>

lemma mutation_label_mono:
  assumes "agent_spec c (mutation_label P r) c'" and "\<And>x ev. P x ev \<Longrightarrow> Q (f x) ev"
  shows "agent_spec c (mutation_label Q (map_result f id r)) c'"
  using assms by (cases "(P, r)" rule: mutation_label.cases) (auto simp: agent_spec_simps)

lemma mutation_label_error:
  "\<forall>x. r \<noteq> Ok x \<Longrightarrow> agent_spec c (mutation_label P r) c"
  by (cases "(P, r)" rule: mutation_label.cases) (auto simp: agent_spec_simps)

lemma mutation_label_Err [simp]: "agent_spec c (mutation_label P (Err x)) c" "agent_spec c Quiet c"
  "agent_spec c (Uncertain Q) c"
  by (simp_all add: mutation_label_error agent_spec_simps)

lemma page_accounts:
  assumes "list_website_account_page_with_check L v hb mb rows start limit sc = Ok (xs, m)"
    and "a \<in> set xs"
  shows "vault_view L v rows (ac_id a) = Some (Dec_Account a)"
proof -
  obtain stop page where page: "usize_checked_add start limit = Some stop"
    "visit_authenticated_records L v rows sc (page_account start stop)
       \<lparr>ap_index = 0, ap_accounts = [], ap_has_more = False\<rparr> = Ok page" "xs = ap_accounts page"
    using assms(1)
    by (auto simp: list_website_account_page_with_check_def result_simps split: if_splits)
  note ok = visit_records_finished [OF page(2)]
  have "length (opened L v rows) < 2 ^ 64"
    using ok opened_length [of L v rows] by (simp add: rows_ok_def)
  then have "xs = take (stop - start) (drop start (accounts_of (opened L v rows)))"
    using ok page(1,3) fold_page_account [of start stop "opened L v rows"] by simp
  then have "a \<in> set (accounts_of (opened L v rows))"
    using assms(2) by (auto dest: in_set_takeD in_set_dropD)
  then show ?thesis using ok accounts_of_view by blast
qed

lemma unique_account_found:
  assumes "unique_browser_account_with_check L v hb mb rows origin sc = Ok (Some x)"
  shows "{y. (\<exists>i. vault_view L v rows i = Some (Dec_Account y))
    \<and> ac_permitted_origin y = origin} = {x}"
proof -
  define xs where "xs = filter (\<lambda>a. ac_permitted_origin a = origin) (accounts_of (opened L v rows))"
  have ok: "rows_ok L v rows" "length xs = 1" "hd xs = x"
    using assms
    by (auto simp: unique_browser_account_with_check_def result_simps fold_unique_account in_sync_iff
        xs_def Let_def dest!: visit_snapshot_finished split: if_splits)
  then have "set xs = {x}" by (cases xs) auto
  moreover have "set xs = {y. (\<exists>i. vault_view L v rows i = Some (Dec_Account y))
    \<and> ac_permitted_origin y = origin}"
    using accounts_of_view [OF ok(1)] view_id [OF ok(1)] by (fastforce simp: xs_def)
  ultimately show ?thesis by simp
qed

lemma alone_Ok: "alone q = (e', Ok (pm, x)) \<longleftrightarrow> q = (e', Ok pm)"
  by (cases q; cases "snd q") (auto simp: alone_def)

context agent_store
begin

lemma contents_view:
  assumes "agent_synced L root a (committed (aw_database w)) v"
  shows "agent_contents L committed root (a, w) = vault_view L v (vd_records (committed (aw_database w)))"
  using assms database_contents_view [of L v "vd_header (committed (aw_database w))"
      "vd_manifest (committed (aw_database w))" "vd_records (committed (aw_database w))"]
    minicbor_spec_axioms
  by (cases "committed (aw_database w)") (auto simp: agent_synced_def agent_contents_def)

lemma load_result:
  assumes "agent_inv L p committed root (a, w)"
    and "load_authenticated_snapshot S (a, w) = (s, r)"
  shows "agent_inv L p committed root s" "snd s = w"
    "\<And>x. r = Ok x \<Longrightarrow> s = (a, w) \<and> x = committed (aw_database w)"
  using assms agent_inv_lock [OF assms(1)]
  by (auto simp: load_authenticated_snapshot_def agent_inv_def pure_then_def read_guarded_vault_def
      dest!: read_committed split: result.splits if_splits)

lemma persist_sim:
  assumes vd: "committed (aw_database w) = vd" and path: "va_path a = Some p"
    and session: "va_session a = Some v" and sync: "agent_synced L root a vd v"
    and prep: "prepares L (vd_header vd) (v, vd_manifest vd, vd_records vd) ev pm"
    and quiet: "before_commit \<noteq> Panic" and permit: "operation_is_authorized a permit"
    and run: "persist_mutation S permit vd pm before_commit (a, w) = (s, r)"
  shows "agent_inv L p committed root s"
    "agent_spec (agent_contents L committed root (a, w))
       (mutation_label (\<lambda>i e. i = pm_id pm \<and> e = ev) r) (agent_contents L committed root s)"
proof -
  obtain v' rows' where st: "stored L v (vd_header vd) (vd_records vd) pm v' rows'"
    and step: "vault_step (vault_view L v (vd_records vd)) ev (vault_view L v' rows')"
    using prepares_stored [OF prep] by blast
  obtain d' x where app: "apply_record_mutation (S p) (vd_header vd) (vd_manifest vd)
      (vd_records vd) pm before_commit (aw_database w) = (d', x)" by force
  define new where "new = \<lparr>vd_header = vd_header vd, vd_manifest = pm_manifest_envelope pm,
    vd_records = rows'\<rparr>"
  have applied: "apply_to_expected_records (vd_records vd) pm = Ok rows'"
    and commit: "commit_record_mutation v pm = (v', Ok (pm_id pm))"
    using st by (simp_all add: stored_def)
  have atomic: "committed d' = vd \<or> committed d' = new" "x = Ok () \<Longrightarrow> committed d' = new"
    "x = Err Storage_Aborted \<Longrightarrow> committed d' = vd"
    using apply_atomic [OF app] vd applied by (auto simp: new_def)
  have new_sync: "agent_synced L root b new v'"
    if "va_session b = None \<or> va_session b = Some v' \<and> va_authenticated_header b = Some (vd_header vd)
      \<and> va_authenticated_manifest b = Some (pm_manifest_envelope pm)" for b
    using that st sync
    by (auto simp: agent_synced_def new_def stored_def session_of_def vault_key_epoch_def)
  have old_sync: "agent_synced L root b vd v" if "va_session b = None \<or> b = a" for b
    using that sync by (auto simp: agent_synced_def)
  have old: "agent_contents L committed root (a, w) = vault_view L v (vd_records vd)"
    using contents_view [of root a w v] sync vd by simp
  have contents: "committed d' = vd \<Longrightarrow> agent_contents L committed root (b, w\<lparr>aw_database := d'\<rparr>)
        = vault_view L v (vd_records vd)"
    "committed d' = new \<Longrightarrow> agent_contents L committed root (b, w\<lparr>aw_database := d'\<rparr>)
        = vault_view L v' rows'" for b
    using contents_view [of root "lock_agent b" "w\<lparr>aw_database := d'\<rparr>"]
      old_sync [of "lock_agent b"] new_sync [of "lock_agent b"]
    by (auto simp: agent_contents_def new_def)
  have locked: "agent_inv L p committed root (lock_agent a, w\<lparr>aw_database := d'\<rparr>)"
    using atomic(1) path old_sync [of "lock_agent a"] new_sync [of "lock_agent a"]
    by (auto simp: agent_inv_def)
  have kept: "agent_inv L p committed root (a, w\<lparr>aw_database := d'\<rparr>)" if "committed d' = vd"
    using that path old_sync [of a] by (auto simp: agent_inv_def)
  let ?b = "a\<lparr>va_session := Some v', va_authenticated_manifest := Some (pm_manifest_envelope pm)\<rparr>"
  have stored: "agent_inv L p committed root (?b, w\<lparr>aw_database := d'\<rparr>)" if "committed d' = new"
    using that path sync session new_sync [of ?b] by (auto simp: agent_inv_def agent_synced_def)
  have x: "x \<noteq> Panic" using app apply_not_panic [OF quiet] by auto
  show "agent_inv L p committed root s"
    using run app x path permit session commit locked kept stored atomic
    by (auto simp: persist_mutation_def pure_then_def split: result.splits storage_error.splits)
  show "agent_spec (agent_contents L committed root (a, w))
       (mutation_label (\<lambda>i e. i = pm_id pm \<and> e = ev) r) (agent_contents L committed root s)"
    using run app x path permit session commit atomic step
    by (auto simp: persist_mutation_def pure_then_def old contents(1) contents(2) agent_spec_simps
        split: result.splits storage_error.splits if_splits)
qed

lemma map_read_result:
  assumes "agent_inv L p committed root (a, w)" and "map_read result (a, w) = (s, r)"
  shows "agent_inv L p committed root s" "snd s = w" "r = Ok x \<Longrightarrow> s = (a, w) \<and> result = Ok x"
  using assms agent_inv_lock [OF assms(1)]
  by (auto simp: map_read_def split: result.splits record_operation_error.splits)

lemma begin_authorized:
  "begin_operation a = Some permit \<Longrightarrow> operation_is_authorized a permit \<and> (\<exists>v. va_session a = Some v)"
  by (auto simp: begin_operation_def operation_is_authorized_def split: option.splits)

lemma synced_session:
  assumes "agent_inv L p committed root (a, w)" and "va_session a = Some v"
  shows "va_path a = Some p" "agent_synced L root a (committed (aw_database w)) v"
  using assms by (auto simp: agent_inv_def agent_synced_def)

text \<open>The shared body of the mutations.\<close>

lemma finish_sim:
  assumes inv: "agent_inv L p committed root (a, w)" and v: "va_session a = Some v"
    and vd: "committed (aw_database w) = vd" and permit: "operation_is_authorized a permit"
    and quiet: "before_commit \<noteq> Panic"
    and core: "\<And>pm x. result = Ok (pm, x)
      \<Longrightarrow> \<exists>ev. prepares L (vd_header vd) (v, vd_manifest vd, vd_records vd) ev pm \<and> P (pm_id pm, x) ev"
    and run: "finish_mutation S permit vd late_cancel before_commit result (a, w) = (s', r)"
  shows "agent_inv L p committed root s'
    \<and> agent_spec (agent_contents L committed root (a, w)) (mutation_label P r)
        (agent_contents L committed root s')"
proof -
  obtain s2 r2 where pair: "map_read result (a, w) = (s2, r2)" by (cases "map_read result (a, w)")
  note mapped = map_read_result [OF inv pair]
  have same: "agent_contents L committed root s2 = agent_contents L committed root (a, w)"
    using mapped(2) by (auto simp: agent_contents_def split: prod.splits)
  show ?thesis
  proof (cases "\<exists>pm y. r2 = Ok (pm, y) \<and> \<not> late_cancel (length (vd_records vd))")
    case False
    then have "s' = s2 \<and> (\<forall>z. r \<noteq> Ok z)"
      using run pair by (cases r2)
        (auto simp: finish_mutation_def agent_then_def map_preparation_pair_def split: if_splits)
    then show ?thesis using mapped(1) same mutation_label_error [of r] by simp
  next
    case True
    then obtain pm y where y: "r2 = Ok (pm, y)" "s2 = (a, w)" "result = Ok (pm, y)"
      "\<not> late_cancel (length (vd_records vd))" using mapped(3) by blast
    obtain ev where ev: "prepares L (vd_header vd) (v, vd_manifest vd, vd_records vd) ev pm"
      "P (pm_id pm, y) ev" using core [OF y(3)] by blast
    obtain r3 where persist: "persist_mutation S permit vd pm before_commit (a, w) = (s', r3)"
      and r: "r = map_result (\<lambda>i. (i, y)) id r3"
      using run pair y by (cases "persist_mutation S permit vd pm before_commit (a, w)")
        (auto simp: finish_mutation_def agent_then_def map_preparation_pair_def split: result.splits)
    note sync = synced_session [OF inv v, unfolded vd]
    note sim = persist_sim [OF vd sync(1) v sync(2) ev(1) quiet permit persist]
    show ?thesis using sim(1) mutation_label_mono [OF sim(2), of P "\<lambda>i. (i, y)"] ev(2) r by auto
  qed
qed

lemma mutate_sim:
  assumes inv: "agent_inv L p committed root s"
    and run: "mutate_vault S now prepare late_cancel before_commit s = (s', r)"
    and quiet: "before_commit \<noteq> Panic"
    and core: "\<And>v hb mb rows t e e' pm x. unix_time_ms now = Ok t
      \<Longrightarrow> prepare v hb mb rows t e = (e', Ok (pm, x))
      \<Longrightarrow> \<exists>ev. prepares L hb (v, mb, rows) ev pm \<and> P (pm_id pm, x) ev"
  shows "agent_inv L p committed root s'
    \<and> agent_spec (agent_contents L committed root s) (mutation_label P r)
        (agent_contents L committed root s')"
proof -
  obtain a w where s: "s = (a, w)" by force
  obtain s1 r1 where load: "load_authenticated_snapshot S (a, w) = (s1, r1)"
    by (cases "load_authenticated_snapshot S (a, w)")
  note loaded = load_result [OF inv [unfolded s] load]
  have unchanged: "agent_contents L committed root s1 = agent_contents L committed root s"
    using loaded(2) by (auto simp: s agent_contents_def split: prod.splits)
  note unfold = s mutate_vault_def require_operation_def pure_then_def agent_then_def
  show ?thesis
  proof (cases "begin_operation a")
    case None
    then show ?thesis using run inv by (auto simp: unfold)
  next
    case (Some permit)
    obtain v where v: "va_session a = Some v" and auth: "operation_is_authorized a permit"
      using begin_authorized [OF Some] by blast
    show ?thesis
    proof (cases "\<exists>vd t. r1 = Ok vd \<and> unix_time_ms now = Ok t")
      case False
      then show ?thesis
        using run Some load loaded unchanged agent_inv_lock [OF inv [unfolded s]]
        by (cases r1; cases "unix_time_ms now") (auto simp: unfold agent_contents_def)
    next
      case True
      then obtain vd t where ok: "r1 = Ok vd" "s1 = (a, w)" "committed (aw_database w) = vd"
        "unix_time_ms now = Ok t" using loaded(3) by blast
      obtain e x where prep: "prepare v (vd_header vd) (vd_manifest vd) (vd_records vd) t
          (aw_entropy w) = (e, x)" by force
      let ?w = "w\<lparr>aw_entropy := e\<rparr>"
      have fin: "finish_mutation S permit vd late_cancel before_commit x (a, ?w) = (s', r)"
        using run Some load ok v prep by (simp add: unfold)
      have inv': "agent_inv L p committed root (a, ?w)"
        and same: "agent_contents L committed root (a, ?w) = agent_contents L committed root s"
        using inv by (simp_all add: s agent_inv_def agent_contents_def)
      have vd: "committed (aw_database ?w) = vd" using ok(3) by simp
      have "\<exists>ev. prepares L (vd_header vd) (v, vd_manifest vd, vd_records vd) ev pm \<and> P (pm_id pm, y) ev"
        if "x = Ok (pm, y)" for pm y using core [OF ok(4)] prep that by blast
      from finish_sim [OF inv' v vd auth quiet this fin] show ?thesis by (simp add: same)
    qed
  qed
qed

text \<open>The shared body of the reading operations.\<close>

lemma read_sim:
  assumes inv: "agent_inv L p committed root s"
    and run: "read_vault S read id s = (s', r)"
    and core: "\<And>v hb mb rows x. read v hb mb rows = Ok x \<Longrightarrow> in_sync L v hb mb rows
      \<Longrightarrow> P x (vault_view L v rows)"
  shows "agent_inv L p committed root s'
    \<and> agent_spec (agent_contents L committed root s) (read_label P r)
        (agent_contents L committed root s')"
proof -
  obtain a w where s: "s = (a, w)" by force
  obtain s1 r1 where load: "load_authenticated_snapshot S (a, w) = (s1, r1)"
    by (cases "load_authenticated_snapshot S (a, w)")
  note loaded = load_result [OF inv [unfolded s] load]
  have unchanged: "agent_contents L committed root s1 = agent_contents L committed root s"
    using loaded(2) by (auto simp: s agent_contents_def split: prod.splits)
  note unfold = s read_vault_def require_operation_def pure_then_def agent_then_def
  show ?thesis
  proof (cases "begin_operation a")
    case None
    then show ?thesis using run inv by (auto simp: unfold)
  next
    case (Some permit)
    obtain v where v: "va_session a = Some v" and auth: "operation_is_authorized a permit"
      using begin_authorized [OF Some] by blast
    note sync = synced_session(2) [OF inv [unfolded s] v]
    show ?thesis
    proof (cases r1)
      case (Ok vd)
      then have ok: "s1 = (a, w)" "vd = committed (aw_database w)" using loaded(3) by auto
      let ?x = "read v (vd_header vd) (vd_manifest vd) (vd_records vd)"
      obtain s2 r2 where mapped: "map_read ?x (a, w) = (s2, r2)" by (cases "map_read ?x (a, w)")
      note res = map_read_result [OF inv [unfolded s] mapped]
      have same: "agent_contents L committed root s2 = agent_contents L committed root s"
        using res(2) by (auto simp: s agent_contents_def split: prod.splits)
      have "P x (agent_contents L committed root s)" if "r2 = Ok x" for x
        using core [of v] res(3) [OF that] sync contents_view [OF sync] ok(2)
        by (auto simp: agent_synced_def s)
      then show ?thesis
        using run Some load Ok ok v auth mapped res same
        by (cases r2) (auto simp: unfold agent_spec_simps)
    qed (use run Some load loaded unchanged in \<open>auto simp: unfold\<close>)
  qed
qed

section \<open>Unlocking\<close>

lemma authenticated_session:
  assumes "authenticate_vault_root_key L k header envelope rows cancelled = Ok v"
  shows "uv_root_key v = k" "uv_header v = header" "mf_key_epoch (uv_manifest v) = vh_key_epoch header"
    "rows_ok L v rows"
    "ManifestEnvelope_decode (vl_cbor L) mb = Ok envelope \<Longrightarrow> decrypt_manifest L v mb = Ok (uv_manifest v)"
proof -
  from assms obtain mk a pt where parts: "derive_manifest_key L k (vh_vault_id header) (vh_key_epoch header) = Some mk"
    "encode_manifest_aad (vl_cbor L) header (mv_nonce envelope) = Some a"
    "decrypt_bytes L mk (mv_nonce envelope) (mv_ciphertext envelope) a = Some pt"
    "Manifest_decode (vl_cbor L) pt = Ok (uv_manifest v)"
    and key: "uv_root_key v = k" "uv_header v = header"
      "mf_key_epoch (uv_manifest v) = vh_key_epoch header"
    and rows: "authenticate_records L v rows (\<lambda>i. cancelled (Suc i)) = Ok ()"
    by (auto simp: authenticate_vault_root_key_def result_simps Let_def split: if_splits)
  then show "uv_root_key v = k" "uv_header v = header"
    "mf_key_epoch (uv_manifest v) = vh_key_epoch header" by simp_all
  show "rows_ok L v rows"
    using rows visit_records_finished by (fastforce simp: authenticate_records_def result_simps)
  show "decrypt_manifest L v mb = Ok (uv_manifest v)"
    if "ManifestEnvelope_decode (vl_cbor L) mb = Ok envelope"
    using that parts key by (simp add: decrypt_manifest_def vault_id_def vault_key_epoch_def)
qed

lemma unlocked_in_sync:
  assumes "VaultHeader_decode (vl_cbor L) hb = Ok header"
    and "ManifestEnvelope_decode (vl_cbor L) mb = Ok envelope"
    and "authenticate_vault_root_key L k header envelope rows cancelled = Ok v"
  shows "in_sync L v hb mb rows" "session_of v"
  using authenticated_session [OF assms(3)] authenticated_session(5) [OF assms(3,2)] assms(1)
  by (auto simp: in_sync_iff authenticate_snapshot_metadata_def session_of_def vault_key_epoch_def)

lemma unlock_vault_in_sync:
  assumes "unlock_vault L password hb mb rows cancelled = Ok v"
  shows "in_sync L v hb mb rows \<and> session_of v"
  using assms unlocked_in_sync
  unfolding unlock_vault_def by (elim ok_chain_elims) (auto simp: result_simps)

lemma unlock_hello_in_sync:
  assumes "unlock_vault_with_windows_hello L prf ik cid protector hb mb rows cancelled = Ok v"
  shows "in_sync L v hb mb rows \<and> session_of v"
  using assms unlocked_in_sync
  by (auto simp: unlock_vault_with_windows_hello_def result_simps Let_def split: if_splits)

text \<open>Everything but a published session leaves the agent locked.\<close>

lemma publish_result:
  assumes "publish_session cancelled session vd (a, w) = ((a', w'), r)" and "va_session a = None"
  shows "va_path a' = va_path a" "aw_database w' = aw_database w"
    "r \<noteq> Ok () \<Longrightarrow> va_session a' = None"
    "r = Ok () \<Longrightarrow> va_session a' = Some session \<and> va_authenticated_header a' = Some (vd_header vd)
       \<and> va_authenticated_manifest a' = Some (vd_manifest vd)"
  using assms
  by (auto simp: publish_session_def next_session_id_def advance_authorization_epoch_def Let_def
      split: option.splits if_splits)

lemma unlock_cases:
  assumes run: "unlock_with_core S cancelled id unlock (a, w) = (s', r)" and path: "va_path a = Some p"
  obtains (locked) "s' = (lock_agent a, w)" "r \<noteq> Ok ()"
  | (published) v c vd where "vd = committed (aw_database w)"
      "unlock (vd_header vd) (vd_manifest vd) (vd_records vd) c = Ok v"
      "publish_session cancelled v vd (lock_agent a, w) = (s', r)"
proof (cases "read_vault_from_guards (S p) (aw_database w)")
  case (Ok vd)
  then have vd: "vd = committed (aw_database w)" by (rule read_committed)
  with Ok run path show ?thesis
    by (cases "unlock (vd_header vd) (vd_manifest vd) (vd_records vd) (\<lambda>n. cancelled (Poll_Core n))")
      (auto simp: unlock_with_core_def Let_def pure_then_def read_guarded_vault_def
        intro: that split: if_splits)
qed (use run path in \<open>auto simp: unlock_with_core_def Let_def pure_then_def read_guarded_vault_def
      intro: that split: if_splits\<close>)

lemma unlock_sim:
  assumes inv: "agent_inv L p committed root s"
    and run: "unlock_with_core S cancelled id unlock s = (s', r)"
    and core: "\<And>hb mb rows c v. unlock hb mb rows c = Ok v \<Longrightarrow> in_sync L v hb mb rows \<and> session_of v"
    and key: "r = Ok () \<longrightarrow> map_option uv_root_key (va_session (fst s')) = Some root"
  shows "agent_inv L p committed root s'
    \<and> agent_spec (agent_contents L committed root s) Quiet (agent_contents L committed root s')"
proof -
  obtain a w a' w' where s: "s = (a, w)" "s' = (a', w')" by force
  have path: "va_path a = Some p" using inv by (simp add: s agent_inv_def)
  from run [unfolded s] path show ?thesis
  proof (cases rule: unlock_cases)
    case locked
    then show ?thesis
      using inv agent_inv_lock [of L p committed root a w] by (auto simp: s agent_contents_def)
  next
    case (published v c vd)
    note res = publish_result [OF published(3)]
    have "agent_synced L root a' vd v" if "r = Ok ()"
      using res(4) that core [OF published(2)] key by (auto simp: s agent_synced_def)
    moreover have "\<exists>v. agent_synced L root a' vd v" if "r \<noteq> Ok ()"
      using res(3) that inv published(1) by (auto simp: s agent_inv_def agent_synced_def)
    ultimately show ?thesis
      using res(1,2) path published(1) by (auto simp: s agent_inv_def agent_contents_def)
  qed
qed

section \<open>Simulation\<close>

lemma keeping_sim:
  assumes "agent_inv L p committed root s"
    and run: "keeping f (mutate_vault S now prepare late_cancel before_commit s) = (s', r)"
    and "before_commit \<noteq> Panic"
    and "\<And>v hb mb rows t e e' pm x. unix_time_ms now = Ok t
      \<Longrightarrow> prepare v hb mb rows t e = (e', Ok (pm, x))
      \<Longrightarrow> \<exists>ev. prepares L hb (v, mb, rows) ev pm \<and> Q (f (pm_id pm, x)) ev"
  shows "agent_inv L p committed root s'
    \<and> agent_spec (agent_contents L committed root s) (mutation_label Q r)
        (agent_contents L committed root s')"
proof -
  obtain r1 where "mutate_vault S now prepare late_cancel before_commit s = (s', r1)"
    and r: "r = map_result f id r1"
    using run by (cases "mutate_vault S now prepare late_cancel before_commit s") (auto simp: keeping_def)
  from mutate_sim [OF assms(1) this(1) assms(3), of "\<lambda>y. Q (f y)"] assms(4)
  have "agent_inv L p committed root s' \<and> agent_spec (agent_contents L committed root s)
      (mutation_label (\<lambda>y. Q (f y)) r1) (agent_contents L committed root s')" by blast
  then show ?thesis using mutation_label_mono [of _ "\<lambda>y. Q (f y)" r1 _ Q f] by (auto simp: r)
qed

definition simulated :: "bytes \<Rightarrow> ('d, 'e) agent_state \<Rightarrow> agent_label \<Rightarrow> ('d, 'e) agent_state \<Rightarrow> bool" where
  "simulated root s l s' \<longleftrightarrow> agent_inv L p committed root s'
     \<and> agent_spec (agent_contents L committed root s) l (agent_contents L committed root s')"

lemmas mutation_sims = keeping_sim [folded simulated_def]
lemmas read_sims = read_sim [folded simulated_def]
lemmas unlock_sims = unlock_sim [folded simulated_def]

lemma add_account_sim:
  assumes "agent_inv L p committed root s" and "agent_add_website_account_with_before_commit_and_check L S now inp sc bc s = (s', r)"
    and "bc \<noteq> Panic" and "input_ok L inp"
  shows "simulated root s (mutation_label (\<lambda>i ev. \<exists>t. unix_time_ms now = Ok t \<and> ev = Account_Added i inp t) r) s'"
  by (rule mutation_sims [OF assms(1) assms(2) [unfolded agent_add_website_account_with_before_commit_and_check_def] assms(3)])
    (use prepares_add_account [OF assms(4)] in \<open>force simp: alone_Ok\<close>)

lemma update_account_sim:
  assumes "agent_inv L p committed root s" and "agent_update_website_account_with_before_commit_and_check L S now i inp sc bc s = (s', r)"
    and "bc \<noteq> Panic" and "input_ok L inp"
  shows "simulated root s (mutation_label (\<lambda>_ ev. \<exists>t. unix_time_ms now = Ok t \<and> ev = Account_Updated i inp t) r) s'"
  by (rule mutation_sims [OF assms(1) assms(2) [unfolded agent_update_website_account_with_before_commit_and_check_def] assms(3)])
    (use prepares_update_account [OF assms(4)] in \<open>force simp: alone_Ok\<close>)

lemma delete_account_sim:
  assumes "agent_inv L p committed root s" and "agent_delete_website_account_with_before_commit_and_check L S now i sc bc s = (s', r)"
    and "bc \<noteq> Panic"
  shows "simulated root s (mutation_label (\<lambda>_ ev. ev = Account_Deleted i) r) s'"
  by (rule mutation_sims [OF assms(1) assms(2) [unfolded agent_delete_website_account_with_before_commit_and_check_def] assms(3)])
    (use prepares_delete_account in \<open>force simp: alone_Ok\<close>)

lemma confirm_passkey_sim:
  assumes "agent_inv L p committed root s" and "agent_confirm_passkey_creation_with_before_commit_and_check L S now cid sc bc s = (s', r)"
    and "bc \<noteq> Panic"
  shows "simulated root s (mutation_label (\<lambda>_ ev. \<exists>i. ev = Passkey_Confirmed i) r) s'"
  by (rule mutation_sims [OF assms(1) assms(2) [unfolded agent_confirm_passkey_creation_with_before_commit_and_check_def] assms(3)])
    (use prepares_confirm_passkey in \<open>force simp: alone_Ok\<close>)

lemma delete_passkey_sim:
  assumes "agent_inv L p committed root s" and "agent_delete_passkey_with_before_commit_and_check L S now cid sc bc s = (s', r)"
    and "bc \<noteq> Panic"
  shows "simulated root s (mutation_label (\<lambda>_ ev. \<exists>i. ev = Passkey_Deleted i) r) s'"
  by (rule mutation_sims [OF assms(1) assms(2) [unfolded agent_delete_passkey_with_before_commit_and_check_def] assms(3)])
    (use prepares_delete_passkey in \<open>force simp: alone_Ok\<close>)

lemma add_passkey_sim:
  assumes "agent_inv L p committed root s"
    and "agent_add_passkey_with_before_commit_and_check L S now inp excluded st sc bc s = (s', r)"
    and "bc \<noteq> Panic" and "PasskeyInput_new (vl_url L) (pi_rp_id inp) (pi_user_handle inp)
        (pi_user_name inp) (pi_user_display_name inp) = Ok inp"
    and "utf8_valid (pi_rp_id inp)" "utf8_valid (pi_user_name inp)"
      "utf8_valid (pi_user_display_name inp)"
  shows "simulated root s (mutation_label (\<lambda>_ ev. \<exists>i. ev = Passkey_Added i inp st) r) s'"
  by (rule mutation_sims [OF assms(1)
        assms(2) [unfolded agent_add_passkey_with_before_commit_and_check_def] assms(3)])
    (use prepares_add_passkey [OF assms(4-7)] in blast)

lemma assertion_prepares:
  assumes "prepare_passkey_assertion_with_check L v hb mb rows rp cid cdh t sc e = (e', Ok (pm, x))"
  shows "\<exists>ev. prepares L hb (v, mb, rows) ev pm
    \<and> (\<exists>i rp'. normalize_rp_id (vl_url L) rp = Ok rp' \<and> ev = Passkey_Asserted i rp')"
proof -
  from assms obtain rp' where "normalize_rp_id (vl_url L) rp = Ok rp'"
    by (auto simp: prepare_passkey_assertion_with_check_def chain_Ok)
  with prepares_assert_passkey [OF this assms] show ?thesis by blast
qed

lemma sign_passkey_sim:
  assumes "agent_inv L p committed root s"
    and "agent_sign_passkey_assertion_with_before_commit_and_check L S now rp cid cdh sc bc s = (s', r)"
    and "bc \<noteq> Panic"
  shows "simulated root s (mutation_label (\<lambda>_ ev. \<exists>i rp'. normalize_rp_id (vl_url L) rp = Ok rp'
    \<and> ev = Passkey_Asserted i rp') r) s'"
  by (rule mutation_sims [OF assms(1)
        assms(2) [unfolded agent_sign_passkey_assertion_with_before_commit_and_check_def] assms(3)])
    (rule assertion_prepares)

lemma unlock_agent_sim:
  assumes "agent_inv L p committed root s" and "unlock_agent L S password cancelled s = (s', r)"
    and "r = Ok () \<longrightarrow> map_option uv_root_key (va_session (fst s')) = Some root"
  shows "simulated root s Quiet s'"
  by (rule unlock_sims [OF assms(1)
        assms(2) [unfolded unlock_agent_def unlock_with_before_publish_def] _ assms(3)])
    (rule unlock_vault_in_sync)

lemma unlock_hello_sim:
  assumes "agent_inv L p committed root s"
    and "unlock_with_windows_hello L S prf ik cid protector cancelled s = (s', r)"
    and "r = Ok () \<longrightarrow> map_option uv_root_key (va_session (fst s')) = Some root"
  shows "simulated root s Quiet s'"
  by (rule unlock_sims [OF assms(1) assms(2) [unfolded unlock_with_windows_hello_def
          unlock_with_windows_hello_before_publish_def] _ assms(3)])
    (rule unlock_hello_in_sync)

lemma get_account_sim:
  assumes "agent_inv L p committed root s" and "agent_get_website_account_with_check L S i sc s = (s', r)"
  shows "simulated root s (read_label (\<lambda>x c. c i = Some (Dec_Account x)) r) s'"
  by (rule read_sims [OF assms(1) assms(2) [unfolded agent_get_website_account_with_check_def]])
    (use get_account_finished in blast)

lemma list_accounts_sim:
  assumes "agent_inv L p committed root s" and "agent_list_website_accounts L S s = (s', r)"
  shows "simulated root s (read_label (\<lambda>xs c. set xs = {x. \<exists>i. c i = Some (Dec_Account x)}) r) s'"
  by (rule read_sims [OF assms(1) assms(2) [unfolded agent_list_website_accounts_def
          list_website_accounts_with_before_return_def]])
    (fastforce simp: list_accounts_Ok in_sync_iff accounts_of_view dest: view_id)

lemma account_page_sim:
  assumes "agent_inv L p committed root s"
    and "agent_list_website_account_page_with_check L S start limit sc s = (s', r)"
  shows "simulated root s
    (read_label (\<lambda>(xs, has_more) c. set xs \<subseteq> {x. \<exists>i. c i = Some (Dec_Account x)}) r) s'"
  by (rule read_sims [OF assms(1) assms(2) [unfolded agent_list_website_account_page_with_check_def]])
    (auto dest: page_accounts)

lemma unique_account_sim:
  assumes "agent_inv L p committed root s"
    and "agent_unique_browser_account_with_check L S origin sc s = (s', r)"
  shows "simulated root s (read_label (\<lambda>found c. \<forall>x. found = Some x \<longrightarrow>
    {y. (\<exists>i. c i = Some (Dec_Account y)) \<and> ac_permitted_origin y = origin} = {x}) r) s'"
  by (rule read_sims [OF assms(1) assms(2) [unfolded agent_unique_browser_account_with_check_def]])
    (auto dest: unique_account_found)

lemma passkey_read_sim:
  assumes "agent_inv L p committed root s" and "read_vault S read id s = (s', r)"
  shows "simulated root s (read_label (\<lambda>_ _. True) r) s'"
  by (rule read_sims [OF assms]) simp

lemma agent_step_sim:
  assumes "agent_step L S root s l s'" and "agent_inv L p committed root s"
  shows "simulated root s l s'"
  using assms
proof (cases rule: agent_step.cases)
  case (step_lock a w)
  then show ?thesis
    using assms(2) agent_inv_lock by (auto simp: simulated_def agent_contents_def)
qed (auto simp: agent_list_passkeys_with_check_def agent_list_passkeys_for_assertion_with_check_def
      agent_pending_passkey_credential_ids_with_check_def
    intro: add_account_sim update_account_sim delete_account_sim add_passkey_sim confirm_passkey_sim
      sign_passkey_sim delete_passkey_sim unlock_agent_sim unlock_hello_sim get_account_sim
      list_accounts_sim account_page_sim unique_account_sim passkey_read_sim)

end

sublocale agent_store \<subseteq> agent: simulation "agent_step L S root" agent_spec
    "agent_contents L committed root" "agent_inv L p committed root" for root
  by unfold_locales (auto dest: agent_step_sim simp: simulated_def)

end
