(* ===== verification/Vault_Liveness.thy ===== *)
theory Vault_Liveness
  imports Vault_Lifecycle
begin

text \<open>
  When the vault core succeeds: with an entropy source, key derivation and encryption that do not
  fail, creating a vault always succeeds, and so does a mutation of an authentic snapshot within the
  limits of the format.
\<close>

section \<open>Working libraries\<close>

definition libs_available :: "'e vault_libs \<Rightarrow> bool" where
  "libs_available L \<longleftrightarrow> (\<forall>e j. \<exists>e' bs. vl_fill L e j = (e', Some bs))
     \<and> (\<forall>m t p j password salt. vl_argon2id L m t p j password salt \<noteq> None)
     \<and> (\<forall>salt key info j. vl_hkdf L salt key info j \<noteq> None)
     \<and> (\<forall>k n m a. vl_seal L k n m a \<noteq> None)"

lemma available_random:
  "libs_available L \<Longrightarrow> \<exists>e' bs. random_array L j e = (e', Ok bs)"
  unfolding libs_available_def random_array_def
  by (metis (no_types, lifting) option.simps(5) prod.case)

lemma available_derive_key: "libs_available L \<Longrightarrow> \<exists>k. derive_key L a b c = Some k"
  by (auto simp: libs_available_def derive_key_def)

lemma available_manifest_key: "libs_available L \<Longrightarrow> \<exists>k. derive_manifest_key L a b c = Some k"
  by (simp add: derive_manifest_key_def available_derive_key)

lemma available_password_key: "libs_available L \<Longrightarrow> \<exists>k. derive_password_key L a b = Some k"
  by (auto simp: libs_available_def derive_password_key_def)

lemma available_encrypt: "libs_available L \<Longrightarrow> \<exists>c. encrypt_bytes L k n m a = Ok c"
  unfolding libs_available_def encrypt_bytes_def by (metis not_None_eq ok_or.simps(2))

text \<open>The generation is not used up and the clock does not run behind the last commit.\<close>

definition can_commit :: "unlocked_vault \<Rightarrow> u64 \<Rightarrow> bool" where
  "can_commit v t \<longleftrightarrow> unat (mf_generation (uv_manifest v)) + 1 < 2 ^ 64
     \<and> mf_committed_at_ms (uv_manifest v) \<le> t"

context vault_crypto
begin

lemma available_wrap:
  assumes "libs_available L" and "length key = 32"
  shows "\<exists>c. encrypt_fixed_key L k n key a = Ok c \<and> length c = 48"
proof -
  obtain c where c: "encrypt_bytes L k n key a = Ok c" using available_encrypt [OF assms(1)] by blast
  then have "length c = 48"
    using seal_length [of k n key a c] assms(2) by (simp add: encrypt_bytes_def ok_or_Ok)
  with c show ?thesis by (simp add: encrypt_fixed_key_def)
qed

lemma manifest_envelope_succeeds:
  assumes "libs_available L" and m: "Manifest_valid m" and n: "length nonce = 24"
  shows "\<exists>p c mb. Manifest_encode (vl_cbor L) m = Ok p \<and> encrypt_bytes L k nonce p a = Ok c
    \<and> and_then (ManifestEnvelope_new (vl_cbor L) nonce c) (ManifestEnvelope_encode (vl_cbor L)) = Ok mb"
proof -
  have p: "Manifest_encode (vl_cbor L) m = Ok (manifest_wire (vl_cbor L) m)"
    by (rule Manifest_encode_valid [OF m])
  obtain c where c: "encrypt_bytes L k nonce (manifest_wire (vl_cbor L) m) a = Ok c"
    using available_encrypt [OF assms(1)] by blast
  then have "length c = length (manifest_wire (vl_cbor L) m) + 16"
    using seal_length by (simp add: encrypt_bytes_def ok_or_Ok)
  then have v: "ManifestEnvelope_valid \<lparr>mv_nonce = nonce, mv_ciphertext = c\<rparr>"
    using manifest_wire_small [OF m] n by (simp add: ManifestEnvelope_valid_def)
  have "ManifestEnvelope_encode (vl_cbor L) \<lparr>mv_nonce = nonce, mv_ciphertext = c\<rparr>
      = Ok (manifest_envelope_wire (vl_cbor L) \<lparr>mv_nonce = nonce, mv_ciphertext = c\<rparr>)"
    by (rule ManifestEnvelope_encode_valid [OF v])
  moreover from this have "length (manifest_envelope_wire (vl_cbor L)
      \<lparr>mv_nonce = nonce, mv_ciphertext = c\<rparr>) \<le> 8388608"
    by (auto simp: ManifestEnvelope_encode_eq split: if_splits)
  ultimately show ?thesis
    using p c v by (auto simp: ManifestEnvelope_new_def ManifestEnvelope_valid_def Let_def)
qed

text \<open>Creating a vault fails only when a library does.\<close>

lemma create_vault_succeeds:
  assumes avail: "libs_available L"
  shows "\<exists>e' cv. create_vault_with_entropy L password t e = (e', Ok cv)"
proof -
  obtain e1 vid e2 root e3 recovery e4 salt e5 n1 e6 n2 e7 n3 where
    rnd: "random_array L 16 e = (e1, Ok vid)" "random_array L 32 e1 = (e2, Ok root)"
      "random_array L 32 e2 = (e3, Ok recovery)" "random_array L 16 e3 = (e4, Ok salt)"
      "random_array L 24 e4 = (e5, Ok n1)" "random_array L 24 e5 = (e6, Ok n2)"
      "random_array L 24 e6 = (e7, Ok n3)"
    using available_random [OF avail] by metis
  note len = rnd [THEN random_array_length]
  obtain pk kek where pk: "derive_password_key L password salt = Some pk"
    "derive_key L pk vid MASTER_WRAP_LABEL = Some kek"
    using available_password_key [OF avail] available_derive_key [OF avail] by metis
  obtain a1 where a1: "encode_master_wrapper_aad (vl_cbor L) vid INITIAL_KEY_EPOCH salt = Some a1"
    by (simp add: encode_master_wrapper_aad_eq)
  obtain w1 where w1: "encrypt_fixed_key L kek n1 root a1 = Ok w1" "length w1 = 48"
    using available_wrap [OF avail len(2)] by blast
  obtain rkek where rkek: "derive_key L recovery vid RECOVERY_WRAP_LABEL = Some rkek"
    using available_derive_key [OF avail] by blast
  obtain a2 where a2: "encode_recovery_wrapper_aad (vl_cbor L) vid INITIAL_KEY_EPOCH = Some a2"
    by (simp add: encode_recovery_wrapper_aad_eq)
  obtain w2 where w2: "encrypt_fixed_key L rkek n2 root a2 = Ok w2" "length w2 = 48"
    using available_wrap [OF avail len(2)] by blast
  define hd where "hd = \<lparr>vh_vault_id = vid, vh_key_epoch = INITIAL_KEY_EPOCH,
      vh_master_wrapper = \<lparr>mw_password_salt = salt, mw_nonce = n1, mw_wrapped_vrk = w1\<rparr>,
      vh_recovery_wrapper = \<lparr>rw_nonce = n2, rw_wrapped_vrk = w2\<rparr>\<rparr>"
  have hv: "VaultHeader_valid hd" using len w1 w2 by (simp add: hd_def VaultHeader_valid_def)
  note hb = VaultHeader_encode_valid [OF hv]
  have hdec: "VaultHeader_decode (vl_cbor L) (header_wire (vl_cbor L) hd) = Ok hd"
    using hv hb by (intro VaultHeader_decode_complete) simp_all
  have mv: "Manifest_valid (Manifest_empty t INITIAL_KEY_EPOCH)"
    by (simp add: Manifest_valid_def Manifest_empty_def)
  obtain mk where mk: "derive_manifest_key L root vid INITIAL_KEY_EPOCH = Some mk"
    using available_manifest_key [OF avail] by blast
  obtain a3 where a3: "encode_manifest_aad (vl_cbor L) hd n3 = Some a3"
    by (simp add: encode_manifest_aad_eq)
  obtain p c mb where env: "Manifest_encode (vl_cbor L) (Manifest_empty t INITIAL_KEY_EPOCH) = Ok p"
    "encrypt_bytes L mk n3 p a3 = Ok c"
    "and_then (ManifestEnvelope_new (vl_cbor L) n3 c) (ManifestEnvelope_encode (vl_cbor L)) = Ok mb"
    using manifest_envelope_succeeds [OF avail mv len(7)] by blast
  have "ManifestEnvelope_decode (vl_cbor L) mb = Ok \<lparr>mv_nonce = n3, mv_ciphertext = c\<rparr>"
    using manifest_envelope_decode [OF env(3) len(7)] sealed_manifest_opens(3) [OF mv env(1,2)] by blast
  with rnd pk a1 w1 rkek a2 w2 hb hdec mk a3 env show ?thesis
    by (simp add: create_vault_with_entropy_def entropy_then_def hd_def Let_def)
qed

lemma prepare_manifest_mutation_succeeds:
  assumes avail: "libs_available L" and meta: "authenticate_snapshot_metadata L v hb mb = Ok ()"
    and can: "can_commit v t" and few: "length entries \<le> 100000"
    and valid: "list_all ManifestEntry_valid entries"
    and sorted: "sorted_wrt (<) (map me_record_id entries)"
  shows "\<exists>e' pm. prepare_manifest_mutation L v kind i envelope entries t e = (e', Ok pm)"
proof -
  have old: "Manifest_valid (uv_manifest v)" by (rule metadata_Ok(4) [OF meta])
  obtain m where m: "Manifest_next_generation (uv_manifest v) t entries = Ok m"
    and mv: "Manifest_valid m"
    using old can few valid sorted
    by (auto simp: next_generation_Ok can_commit_def Manifest_valid_def validate_manifest_Ok
        intro: order_trans)
  obtain e1 nonce where nonce: "random_array L 24 e = (e1, Ok nonce)"
    using available_random [OF avail] by blast
  obtain k where k: "derive_manifest_key L (uv_root_key v) (vault_id v) (vault_key_epoch v) = Some k"
    using available_manifest_key [OF avail] by blast
  obtain a where a: "encode_manifest_aad (vl_cbor L) (uv_header v) nonce = Some a"
    by (simp add: encode_manifest_aad_eq)
  obtain p c bs where "Manifest_encode (vl_cbor L) m = Ok p" "encrypt_bytes L k nonce p a = Ok c"
    "and_then (ManifestEnvelope_new (vl_cbor L) nonce c) (ManifestEnvelope_encode (vl_cbor L)) = Ok bs"
    using manifest_envelope_succeeds [OF avail mv random_array_length [OF nonce]] by blast
  with m nonce k a show ?thesis
    by (simp add: prepare_manifest_mutation_def pure_then_def entropy_then_def)
qed

lemma record_envelope_succeeds:
  assumes "vault_key_epoch v \<noteq> 0" and n: "length nonce = 24" and c: "length c = length p + 16"
    and p: "length p \<le> 1000000"
  shows "\<exists>bs. and_then (RecordEnvelope_new (vl_cbor L) (vault_key_epoch v) nonce c)
    (RecordEnvelope_encode (vl_cbor L)) = Ok bs"
proof -
  let ?e = "\<lparr>re_key_epoch = vault_key_epoch v, re_nonce = nonce, re_ciphertext = c\<rparr>"
  have "RecordEnvelope_valid ?e"
    using assms head_len_u32 [of "vault_key_epoch v"] head_len_le_9 [of "length c"]
    by (simp add: RecordEnvelope_valid_def)
  from RecordEnvelope_encode_valid [OF this] show ?thesis
    using assms by (simp add: RecordEnvelope_new_def)
qed

lemma prepare_plaintext_upsert_succeeds:
  assumes avail: "libs_available L" and sync: "in_sync L v hb mb rows" and can: "can_commit v t"
    and len: "length i = 16" and small: "length p \<le> 1000000"
    and kind: "kind = Insert \<and> length rows < 100000 \<and> i \<notin> dom (vault_view L v rows)
      \<or> kind = Update \<and> i \<in> dom (vault_view L v rows)"
  shows "\<exists>e' pm. prepare_plaintext_upsert L v kind i p t e = (e', Ok pm)"
proof -
  have meta: "authenticate_snapshot_metadata L v hb mb = Ok ()" and ok: "rows_ok L v rows"
    using sync by (simp_all add: in_sync_iff)
  have entries: "mf_entries (uv_manifest v) = map (row_entry L) rows"
    and sorted: "sorted_wrt (<) (map er_id rows)" and few: "length rows \<le> 100000"
    using ok by (simp_all add: rows_ok_def)
  have old: "Manifest_valid (uv_manifest v)" and epoch: "vault_key_epoch v \<noteq> 0"
    using metadata_Ok [OF meta] by (simp_all add: VaultHeader_valid_def vault_key_epoch_def)
  obtain e1 nonce where nonce: "random_array L 24 e = (e1, Ok nonce)"
    using available_random [OF avail] by blast
  obtain k where k: "derive_record_key L v i = Some k"
    using available_derive_key [OF avail] unfolding derive_record_key_def by blast
  obtain a where a: "encode_record_aad (vl_cbor L) (vault_id v) i (vault_key_epoch v) = Some a"
    by (simp add: encode_record_aad_eq)
  obtain c where c: "encrypt_bytes L k nonce p a = Ok c" using available_encrypt [OF avail] by blast
  have "length c = length p + 16"
    using c seal_length by (simp add: encrypt_bytes_def ok_or_Ok)
  then obtain bs where bs: "and_then (RecordEnvelope_new (vl_cbor L) (vault_key_epoch v) nonce c)
      (RecordEnvelope_encode (vl_cbor L)) = Ok bs"
    using record_envelope_succeeds [OF epoch random_array_length [OF nonce] _ small] by blast
  define r where "r = \<lparr>er_id = i, er_envelope = bs\<rparr>"
  obtain new where new: "change_entries kind (row_entry L r) (map (row_entry L) rows)
      = Ok (map (row_entry L) new)"
    and ids: "distinct (map er_id new)" "length new \<le> 100000" "set new \<subseteq> insert r (set rows)"
  proof (cases "kind = Insert")
    case True
    with kind have "i \<notin> er_id ` set rows" "length rows < 100000" by (simp_all add: vault_view_dom [OF ok])
    then show ?thesis
      using that [of "rows @ [r]"] True rows_ok_distinct [OF ok] by (simp add: r_def)
  next
    case False
    with kind have "kind = Update" "i \<in> er_id ` set rows" by (auto simp: vault_view_dom [OF ok])
    then have "list_ex (\<lambda>x. er_id x = er_id r) rows" by (auto simp: list_ex_iff r_def)
    then obtain new where rep: "replace_record r rows = Some new"
      using replace_record_None [of r rows] by auto
    have "map er_id new = map er_id rows"
      using rep by (induction r rows arbitrary: new rule: replace_record.induct) (auto split: if_splits)
    moreover from this have "length new = length rows" by (metis length_map)
    ultimately show ?thesis
      using that [of new] \<open>kind = Update\<close> rep rows_ok_distinct [OF ok] few
        replace_record_set [OF rows_ok_distinct [OF ok] rep]
      by (auto simp: replace_entry_rows)
  qed
  define es where "es = sort_key me_record_id (map (row_entry L) new)"
  have es: "es = map (row_entry L) (sort_key er_id new)"
    using sort_key_map [of "row_entry L" me_record_id new] by (simp add: es_def)
  have "sorted_wrt (<) (map me_record_id es)"
    using ids(1) by (simp add: es comp_def strict_sorted_iff distinct_map)
  moreover have "list_all ManifestEntry_valid es"
    using ids(3) old len
    by (auto simp: es list_all_iff Manifest_valid_def entries ManifestEntry_valid_def r_def sha256_length)
  moreover have "length es \<le> 100000" using ids(2) by (simp add: es)
  ultimately obtain e2 pm where "prepare_manifest_mutation L v kind i (Some bs) es t e1 = (e2, Ok pm)"
    using prepare_manifest_mutation_succeeds [OF avail meta can] by blast
  then show ?thesis
    using nonce k a c bs new entries
    by (simp add: prepare_plaintext_upsert_def pure_then_def entropy_then_def es_def r_def row_entry_def)
qed

lemma small_plaintexts:
  "WebsiteAccountPlaintext_encode (vl_cbor L) a = Ok p \<Longrightarrow> length p \<le> 1000000"
  "length (pk_credential_id b) = 32 \<Longrightarrow> length (pk_private_key b) = 32
     \<Longrightarrow> PasskeyPlaintext_encode (vl_cbor L) b = Ok p \<Longrightarrow> length p \<le> 1000000"
  using website_account_wire_length [of a] passkey_plaintext_wire_length [of b]
  by (auto simp: WebsiteAccountPlaintext_encode_eq PasskeyPlaintext_encode_eq result_simps
      validate_plaintext_Ok validate_passkey_plaintext_Ok)

text \<open>Adding an account to an authentic snapshot that is not full.\<close>

lemma add_account_succeeds:
  assumes avail: "libs_available L" and sync: "in_sync L v hb mb rows" and can: "can_commit v t"
    and room: "length rows < 100000" and inp: "input_ok L inp"
    and fresh: "allocate_record_id L v e = (e1, Ok i)"
  shows "\<exists>e' pm. prepare_add_website_account_with_check L v hb mb rows inp t (\<lambda>_. False) e
    = (e', Ok pm)"
proof -
  have ok: "rows_ok L v rows" using sync by (simp add: in_sync_iff)
  then have entries: "mf_entries (uv_manifest v) = map (row_entry L) rows" by (simp add: rows_ok_def)
  define a where "a = \<lparr>wa_revision = 1, wa_created_at_ms = t, wa_modified_at_ms = t,
      wa_service_name = wi_service_name inp, wa_permitted_origin = wi_permitted_origin inp,
      wa_username = wi_username inp, wa_password = wi_password inp\<rparr>"
  have "validate_plaintext a = Ok ()"
    using inp normalize_origin_Ok
    by (auto simp: input_ok_def WebsiteAccountInput_new_def validate_input_lengths_def a_def
        validate_plaintext_Ok result_simps split: if_splits)
  then have new: "WebsiteAccountPlaintext_new 1 t t (wi_service_name inp) (wi_permitted_origin inp)
      (wi_username inp) (wi_password inp) = Ok a"
    and enc: "WebsiteAccountPlaintext_encode (vl_cbor L) a = Ok (website_account_wire (vl_cbor L) a)"
    by (simp_all add: WebsiteAccountPlaintext_new_def a_def WebsiteAccountPlaintext_encode_eq)
  have "i \<notin> dom (vault_view L v rows)"
    using allocated_id(2) [OF fresh] by (auto simp: vault_view_dom [OF ok] entries image_iff)
  then obtain e' pm where
    "prepare_plaintext_upsert L v Insert i (website_account_wire (vl_cbor L) a) t e1 = (e', Ok pm)"
    using prepare_plaintext_upsert_succeeds [OF avail sync can allocated_id(1) [OF fresh]
        small_plaintexts(1) [OF enc]] room by blast
  with new enc have "prepare_upsert L v Insert i 1 t inp t e1 = (e', Ok pm)"
    by (simp add: prepare_upsert_def pure_then_def)
  then show ?thesis
    using sync room fresh entries
    by (simp add: prepare_add_website_account_with_check_def pure_then_def in_sync_def
        prepare_add_with_entropy_def entropy_then_def)
qed

text \<open>A credential of one passkey only is found, and found once.\<close>

lemma find_passkey_alone:
  assumes ok: "rows_ok L v rows" and view: "vault_view L v rows i = Some (Dec_Passkey p)"
    and alone: "\<And>j q. vault_view L v rows j = Some (Dec_Passkey q)
      \<Longrightarrow> pr_credential_id q = pr_credential_id p \<Longrightarrow> j = i"
  shows "foldl (find_passkey (pr_credential_id p)) (None, False) (opened L v rows) = (Some p, False)"
proof -
  have dec: "\<forall>r\<in>set rows. \<exists>d. decrypt_record L v r = Ok d" using ok by (simp add: rows_ok_def)
  define ps where "ps = filter (\<lambda>q. pr_credential_id q = pr_credential_id p)
      (passkeys_of (opened L v rows))"
  have "map pr_id (passkeys_of ds) = map record_id_of (filter (\<lambda>d. \<exists>q. d = Dec_Passkey q) ds)" for ds
  proof (induction ds)
    case (Cons d ds)
    then show ?case by (cases d) auto
  qed simp
  then have "distinct (map pr_id (passkeys_of (opened L v rows)))"
    using rows_ok_distinct [OF ok] opened_ids [OF dec] by (simp add: distinct_map_filter)
  then have dist: "distinct (map pr_id ps)" by (simp add: ps_def distinct_map_filter)
  have same: "q = p" if "q \<in> set ps" for q
  proof -
    have "vault_view L v rows (pr_id q) = Some (Dec_Passkey q)"
      and c: "pr_credential_id q = pr_credential_id p"
      using that passkeys_of_view [OF ok] by (auto simp: ps_def)
    with alone [OF this] view show ?thesis by simp
  qed
  have "pr_id p = i" using view_id [OF ok view] by simp
  then have "p \<in> set ps" using passkeys_of_view [OF ok, of p] view by (simp add: ps_def)
  then have "set ps = {p}" using same by blast
  moreover have "distinct ps" using dist by (simp add: distinct_map)
  ultimately have "length ps = 1" using distinct_card [of ps] by simp
  then have "ps = [p]" using same by (auto simp: length_Suc_conv)
  then show ?thesis by (simp add: fold_find_passkey Let_def ps_def)
qed

text \<open>Signing with a confirmed passkey whose counter and revision are not used up.\<close>

lemma assertion_succeeds:
  assumes avail: "libs_available L" and sync: "in_sync L v hb mb rows"
    and gen: "unat (mf_generation (uv_manifest v)) + 1 < 2 ^ 64"
    and view: "vault_view L v rows i = Some (Dec_Passkey p)"
    and alone: "\<And>j q. vault_view L v rows j = Some (Dec_Passkey q)
      \<Longrightarrow> pr_credential_id q = pr_credential_id p \<Longrightarrow> j = i"
    and st: "pr_creation_state p = Confirmed" and rev: "unat (pr_revision p) + 1 < 2 ^ 64"
    and ctr: "unat (pr_signature_counter p) + 1 < 2 ^ 32"
  shows "\<exists>e' pm assertion. prepare_passkey_assertion_with_check L v hb mb rows (pr_rp_id p)
    (pr_credential_id p) cdh t (\<lambda>_. False) e = (e', Ok (pm, assertion))"
proof -
  have ok: "rows_ok L v rows" and meta: "authenticate_snapshot_metadata L v hb mb = Ok ()"
    using sync by (simp_all add: in_sync_iff)
  note facts = view_passkey_facts [OF sync view]
  note found = find_passkey_alone [OF ok view alone]
  define t' where "t' = passkey_update_time (pr_created_at_ms p) (mf_committed_at_ms (uv_manifest v)) t"
  have t': "pr_created_at_ms p \<le> t'" "mf_committed_at_ms (uv_manifest v) \<le> t'"
    by (simp_all add: t'_def passkey_update_time_def passkey_manifest_time_def le_max_iff_disj)
  then have can: "can_commit v t'" using gen by (simp add: can_commit_def)
  define p' where "p' = p\<lparr>pr_revision := pr_revision p + 1,
      pr_signature_counter := pr_signature_counter p + 1\<rparr>"
  have "unat (pr_revision p + 1) = unat (pr_revision p) + 1" using rev by (simp add: unat_word_ariths)
  then have "pr_revision p + 1 \<noteq> 0" by (metis add_eq_0_iff_both_eq_0 unat_0 zero_neq_one)
  then have valid: "validate_passkey_plaintext (passkey_plain p' t') = Ok ()"
    using facts(4) t'(1) by (auto simp: validate_passkey_plaintext_Ok passkey_plain_def p'_def)
  have lens: "length (pr_credential_id p) = 32" "length (pr_private_key p) = 32"
    "vl_signing_key_ok L (pr_private_key p)" "normalize_rp_id (vl_url L) (pr_rp_id p) = Ok (pr_rp_id p)"
    using facts(1) by (simp_all add: passkey_ok_def)
  have enc: "PasskeyPlaintext_encode (vl_cbor L) (passkey_plain p' t')
      = Ok (passkey_plaintext_wire (vl_cbor L) (passkey_plain p' t'))"
    using valid lens by (simp add: PasskeyPlaintext_encode_eq passkey_plain_def p'_def)
  have small: "length (passkey_plaintext_wire (vl_cbor L) (passkey_plain p' t')) \<le> 1000000"
    using small_plaintexts(2) [OF _ _ enc] lens by (simp add: passkey_plain_def p'_def)
  have dom: "i \<in> dom (vault_view L v rows)" using view by auto
  obtain e' pm where up: "prepare_plaintext_upsert L v Update i
      (passkey_plaintext_wire (vl_cbor L) (passkey_plain p' t')) t' e = (e', Ok pm)"
    using prepare_plaintext_upsert_succeeds [OF avail sync can facts(3) small] dom by blast
  have new: "PasskeyPlaintext_new (pr_revision p + 1) (pr_created_at_ms p) t'
      (pr_signature_counter p + 1) Confirmed (pr_rp_id p) (pr_user_handle p) (pr_user_name p)
      (pr_user_display_name p) (pr_credential_id p) (pr_private_key p) = Ok (passkey_plain p' t')"
    using valid st by (simp add: PasskeyPlaintext_new_Ok passkey_plain_def p'_def)
  have visit: "visit_authenticated_records L v rows (\<lambda>_. False) (find_passkey (pr_credential_id p))
      (None, False) = Ok (Some p, False)"
    using ok found by (simp add: visit_records_Ok)
  have adds: "u64_checked_add (pr_revision p) 1 = Some (pr_revision p + 1)"
    "u32_checked_add (pr_signature_counter p) 1 = Some (pr_signature_counter p + 1)"
    using rev ctr by (simp_all add: u64_checked_add_def u32_checked_add_def)
  show ?thesis
    using meta lens visit adds st new enc up facts(2)
    by (simp add: prepare_passkey_assertion_with_check_def pure_then_def entropy_then_def
        t'_def [symmetric] Let_def)
qed

text \<open>Creating a passkey while the vault has room for a record and for a credential.\<close>

lemma add_passkey_succeeds:
  assumes avail: "libs_available L" and sync: "in_sync L v hb mb rows"
    and gen: "unat (mf_generation (uv_manifest v)) + 1 < 2 ^ 64"
    and none: "passkeys_of (opened L v rows) = []" and room: "length rows < 100000"
    and inp: "PasskeyInput_new (vl_url L) (pi_rp_id inp) (pi_user_handle inp) (pi_user_name inp)
      (pi_user_display_name inp) = Ok inp"
    and i: "allocate_record_id L v e = (e1, Ok i)"
    and cid: "allocate_credential_id L {} e1 = (e2, Ok cid)"
    and key: "generate_signing_key L e2 = (e3, Ok k)" "k \<noteq> zeros 32"
    and point: "length (vl_public_point L k) = 65"
  shows "\<exists>e' pm cred. prepare_add_passkey_with_check L v hb mb rows inp [] st t (\<lambda>_. False) e
    = (e', Ok (pm, cred))"
proof -
  let ?s0 = "\<lparr>xs_existing = {}, xs_conflict = False, xs_invalid = False\<rparr>"
  have ok: "rows_ok L v rows" and entries: "mf_entries (uv_manifest v) = map (row_entry L) rows"
    using sync by (simp_all add: in_sync_iff rows_ok_def)
  define t' where "t' = passkey_manifest_time (mf_committed_at_ms (uv_manifest v)) t"
  have can: "can_commit v t'"
    using gen by (simp add: can_commit_def t'_def passkey_manifest_time_def)
  have "foldl (scan_exclusions rp []) s ds = s" if "passkeys_of ds = []" for rp s ds
    using that
  proof (induction ds arbitrary: s)
    case (Cons d ds)
    then show ?case by (cases d) auto
  qed simp
  then have visit: "visit_snapshot L v hb mb rows (\<lambda>_. False) (scan_exclusions (pi_rp_id inp) []) ?s0
      = Ok ?s0"
    using sync none by (simp add: visit_snapshot_Ok)
  define a where "a = \<lparr>pk_revision = 1, pk_created_at_ms = t', pk_modified_at_ms = t',
      pk_signature_counter = 0, pk_creation_state = st, pk_rp_id = pi_rp_id inp,
      pk_user_handle = pi_user_handle inp, pk_user_name = pi_user_name inp,
      pk_user_display_name = pi_user_display_name inp, pk_credential_id = cid, pk_private_key = k\<rparr>"
  have k: "vl_signing_key_ok L k" "length k = 32"
    using generated_key [OF key(1) [unfolded generate_signing_key_def]] by simp_all
  have c: "length cid = 32" "cid \<noteq> zeros 32"
    by (rule allocated_credential [OF cid])+
  have "validate_passkey_plaintext a = Ok ()"
    using inp c k key(2) list_all_zero_iff [OF c(1)] list_all_zero_iff [OF k(2)]
    by (auto simp: validate_passkey_plaintext_Ok a_def PasskeyInput_new_def normalize_rp_id_def
        result_simps split: if_splits)
  then have new: "PasskeyPlaintext_new 1 t' t' 0 st (pi_rp_id inp) (pi_user_handle inp)
      (pi_user_name inp) (pi_user_display_name inp) cid k = Ok a"
    and enc: "PasskeyPlaintext_encode (vl_cbor L) a = Ok (passkey_plaintext_wire (vl_cbor L) a)"
    using c k by (simp_all add: PasskeyPlaintext_new_Ok a_def PasskeyPlaintext_encode_eq)
  have small: "length (passkey_plaintext_wire (vl_cbor L) a) \<le> 1000000"
    using small_plaintexts(2) [OF _ _ enc] c k by (simp add: a_def)
  have "i \<notin> dom (vault_view L v rows)"
    using allocated_id(2) [OF i] by (auto simp: vault_view_dom [OF ok] entries image_iff)
  then obtain e' pm where up: "prepare_plaintext_upsert L v Insert i
      (passkey_plaintext_wire (vl_cbor L) a) t' e3 = (e', Ok pm)"
    using prepare_plaintext_upsert_succeeds [OF avail sync can allocated_id(1) [OF i] small] room
    by blast
  show ?thesis
    using visit room entries i cid key(1) k point new enc up
    by (simp add: prepare_add_passkey_with_check_def pure_then_def entropy_then_def
        has_passkey_capacity_def t'_def [symmetric])
qed

text \<open>A Windows Hello protector for an authentic session.\<close>

lemma hello_protector_succeeds:
  assumes avail: "libs_available L" and meta: "authenticate_snapshot_metadata L v hb mb = Ok ()"
    and root: "length (uv_root_key v) = 32" and salt: "length prf_salt = 32"
    and cid: "cid \<noteq> []" "length cid \<le> 1024"
    and id: "windows_hello_installation_id L ik \<noteq> zeros 32"
  shows "\<exists>e' protector. create_windows_hello_protector L v ik cid prf_salt prf e = (e', Ok protector)"
proof -
  have hv: "VaultHeader_valid (uv_header v)" by (rule metadata_Ok(2) [OF meta])
  obtain e1 nonce where nonce: "random_array L 24 e = (e1, Ok nonce)"
    using available_random [OF avail] by blast
  let ?p = "\<lambda>w. \<lparr>wh_vault_id = vh_vault_id (uv_header v), wh_key_epoch = vh_key_epoch (uv_header v),
      wh_installation_id = windows_hello_installation_id L ik, wh_credential_id = cid,
      wh_prf_salt = prf_salt, wh_nonce = nonce, wh_wrapped_vrk = w\<rparr>"
  have len: "length (windows_hello_installation_id L ik) = 32"
    by (simp add: windows_hello_installation_id_def sha256_length)
  have new: "WindowsHelloProtector_new (vh_vault_id (uv_header v)) (vh_key_epoch (uv_header v))
      (windows_hello_installation_id L ik) cid prf_salt nonce w = Ok (?p w)" for w
    using hv id cid list_all_zero_iff [OF len]
    by (simp add: WindowsHelloProtector_new_Ok VaultHeader_valid_def)
  obtain k where k: "derive_windows_hello_wrapping_key L prf ik (vh_vault_id (uv_header v)) = Some k"
    using available_derive_key [OF avail] unfolding derive_windows_hello_wrapping_key_def by blast
  obtain a where a: "encode_windows_hello_wrapper_aad (vl_cbor L) (?p (zeros 48)) = Some a"
    by (simp add: encode_windows_hello_wrapper_aad_eq)
  obtain w where w: "encrypt_fixed_key L k nonce (uv_root_key v) a = Ok w" "length w = 48"
    using available_wrap [OF avail root] by blast
  have "WindowsHelloProtector_valid (?p w)"
    using hv id cid len salt random_array_length [OF nonce] w(2)
    by (simp add: WindowsHelloProtector_valid_def VaultHeader_valid_def)
  from WindowsHelloProtector_encode_valid [OF this] nonce new k a w(1) show ?thesis
    by (simp add: create_windows_hello_protector_def entropy_then_def Let_def)
qed

end

end
