(* ===== verification/Vault_Sample.thy ===== *)
theory Vault_Sample
  imports Vault_Liveness
begin

text \<open>
  Concrete libraries on which the vault core runs: RFC 8949 for the CBOR encoder and small executable
  stand-ins for the cryptographic crates, the entropy source and the URL parser, all with the
  documented behaviour the locale \<open>vault_crypto\<close> asks for.
\<close>

definition checksum :: "bytes \<Rightarrow> u8" where
  "checksum bs = sum_list bs"

definition sample_tag :: "bytes \<Rightarrow> bytes \<Rightarrow> bytes \<Rightarrow> bytes \<Rightarrow> bytes" where
  "sample_tag k n m a = [checksum k, checksum n, checksum m, checksum a] @ replicate 12 0"

definition sample_url :: url_parser where
  "sample_url s =
     (if take 8 s = ascii ''https://'' \<and> list_all (\<lambda>b. 0x61 \<le> b \<and> b \<le> 0x7A \<or> b = 0x2E) (drop 8 s)
        \<and> drop 8 s \<noteq> []
      then Some \<lparr>url_scheme = ascii ''https'', url_username = [], url_password = None,
        url_host = Some (drop 8 s), url_port = None, url_path = ascii ''/'', url_query = None,
        url_fragment = None, url_origin_ascii = s\<rparr>
      else None)"

definition sample_vault_libs :: "u8 vault_libs" where
  "sample_vault_libs =
     \<lparr>vl_cbor = rfc8949, vl_url = sample_url,
      vl_sha256 = (\<lambda>m. [checksum m, of_nat (length m)] @ replicate 30 0),
      vl_argon2id = (\<lambda>m t p j password salt.
        Some (take j ([checksum password, checksum salt] @ replicate j 0))),
      vl_hkdf = (\<lambda>salt key info j.
        Some (take j ([checksum salt, checksum key, checksum info] @ replicate j 0))),
      vl_seal = (\<lambda>k n m a. Some (m @ sample_tag k n m a)),
      vl_open = (\<lambda>k n c a.
        let m = take (length c - 16) c in
        if 16 \<le> length c \<and> drop (length c - 16) c = sample_tag k n m a then Some m else None),
      vl_signing_key_ok = (\<lambda>k. length k = 32 \<and> k \<noteq> zeros 32),
      vl_public_point = (\<lambda>k. 4 # k @ rev k),
      vl_sign_der = (\<lambda>k m. [0x30, checksum k, checksum m]),
      vl_fill = (\<lambda>e j. (e + 1, Some (replicate j (e + 1))))\<rparr>"

lemma sample_tag_length [simp]: "length (sample_tag k n m a) = 16"
  by (simp add: sample_tag_def)

lemma ascii_https: "ascii ''https://'' = [0x68, 0x74, 0x74, 0x70, 0x73, 0x3A, 0x2F, 0x2F]"
  by (simp add: ascii_def)

lemma sample_url_Some:
  "sample_url s = Some u \<Longrightarrow> url_origin_ascii u = s \<and> origin_url u s
     \<and> s \<noteq> [] \<and> list_all (\<lambda>b. 0x21 \<le> b \<and> b < 0x7F) s"
proof -
  assume a: "sample_url s = Some u"
  then have t: "take 8 s = ascii ''https://''"
    and d: "list_all (\<lambda>b. 0x61 \<le> b \<and> b \<le> 0x7A \<or> b = 0x2E) (drop 8 s)"
    by (auto simp: sample_url_def split: if_splits)
  have "list_all (\<lambda>b. 0x21 \<le> b \<and> b < 0x7F) (drop 8 s)"
    using d by (rule list.pred_mono_strong) (auto simp: word_le_nat_alt word_less_nat_alt)
  moreover have "list_all (\<lambda>b. 0x21 \<le> b \<and> b < (0x7F :: u8)) (ascii ''https://'')"
    by (simp add: ascii_https)
  ultimately have "list_all (\<lambda>b. 0x21 \<le> b \<and> b < 0x7F) (take 8 s @ drop 8 s)"
    unfolding list_all_append t by blast
  then have "list_all (\<lambda>b. 0x21 \<le> b \<and> b < 0x7F) s" by simp
  moreover have "s \<noteq> []" using t by (auto simp: ascii_https)
  ultimately show ?thesis using a by (auto simp: sample_url_def origin_url_def split: if_splits)
qed

interpretation sample_vault: vault_crypto sample_vault_libs
proof -
  have "minicbor_spec (vl_cbor sample_vault_libs)"
    by (simp add: sample_vault_libs_def rfc.minicbor_spec_axioms)
  then show "vault_crypto sample_vault_libs"
    by (rule vault_crypto.intro)
      (unfold_locales, auto simp: sample_vault_libs_def dest: sample_url_Some)
qed

section \<open>A sample history\<close>

lemma sample_available: "libs_available sample_vault_libs"
  by (simp add: libs_available_def sample_vault_libs_def)

definition sample_account_input :: website_account_input where
  "sample_account_input = \<lparr>wi_service_name = [0x4D, 0x61, 0x69, 0x6C],
     wi_permitted_origin = ascii ''https://example.com'', wi_username = [0x61], wi_password = [0x62]\<rparr>"

definition sample_passkey_input :: passkey_input where
  "sample_passkey_input = \<lparr>pi_rp_id = ascii ''example.com'', pi_user_handle = [1],
     pi_user_name = [0x61], pi_user_display_name = [0x41]\<rparr>"

lemma sample_url_https:
  "s \<noteq> [] \<Longrightarrow> list_all (\<lambda>b. 0x61 \<le> b \<and> b \<le> 0x7A \<or> b = 0x2E) s \<Longrightarrow>
   sample_url (ascii ''https://'' @ s) =
     Some \<lparr>url_scheme = ascii ''https'', url_username = [], url_password = None, url_host = Some s,
       url_port = None, url_path = ascii ''/'', url_query = None, url_fragment = None,
       url_origin_ascii = ascii ''https://'' @ s\<rparr>"
  by (simp add: sample_url_def ascii_https)

lemma sample_host: "list_all (\<lambda>b. 0x61 \<le> b \<and> b \<le> 0x7A \<or> b = 0x2E) (ascii ''example.com'')"
  "ascii ''https://example.com'' = ascii ''https://'' @ ascii ''example.com''"
  "ascii ''example.com'' \<noteq> []" "last (ascii ''example.com'') \<noteq> 0x2E"
  "ascii_lowercase_bytes (trim_end_dots (ascii ''example.com'')) = ascii ''example.com''"
  by (simp_all add: ascii_def ascii_lowercase_bytes_def trim_end_dots_def)

lemma sample_input_new:
  "WebsiteAccountInput_new (vl_url sample_vault_libs) [0x4D, 0x61, 0x69, 0x6C] (ascii ''https://example.com'')
     [0x61] [0x62] = Ok sample_account_input"
proof -
  have "\<not> any_control [0x4D, 0x61, 0x69, 0x6C]" by (rule printable_not_control) simp
  moreover have "normalize_origin sample_url (ascii ''https://example.com'')
      = Ok (ascii ''https://example.com'')"
    unfolding sample_host(2) normalize_origin_def sample_url_https [OF sample_host(3,1)]
    by (simp add: ascii_def)
  ultimately show ?thesis
    by (simp add: WebsiteAccountInput_new_def validate_input_lengths_def sample_account_input_def
        sample_vault_libs_def) (simp add: ascii_def)
qed

lemma sample_input_ok: "input_ok sample_vault_libs sample_account_input"
proof -
  have "utf8_valid [0x4D, 0x61, 0x69, 0x6C]" "utf8_valid [0x61]" "utf8_valid [0x62]"
    by (rule printable_not_control, simp)+
  then show ?thesis unfolding input_ok_def using sample_input_new by blast
qed

lemma sample_passkey_ok:
  "PasskeyInput_new sample_url (pi_rp_id sample_passkey_input) (pi_user_handle sample_passkey_input)
     (pi_user_name sample_passkey_input) (pi_user_display_name sample_passkey_input)
     = Ok sample_passkey_input"
  "utf8_valid (pi_rp_id sample_passkey_input)" "utf8_valid (pi_user_name sample_passkey_input)"
  "utf8_valid (pi_user_display_name sample_passkey_input)"
proof -
  have host: "\<not> any_control (ascii ''example.com'')" "utf8_valid (ascii ''example.com'')"
    by (rule printable_not_control, simp add: ascii_def)+
  have names: "\<not> any_control [0x61]" "\<not> any_control [0x41]" "utf8_valid [0x61]" "utf8_valid [0x41]"
    by (rule printable_not_control, simp)+
  have "normalize_rp_id sample_url (ascii ''example.com'') = Ok (ascii ''example.com'')"
    unfolding normalize_rp_id_def sample_url_https [OF sample_host(3,1)]
    using host sample_host by (simp add: Let_def) (simp add: ascii_def)
  with names show "PasskeyInput_new sample_url (pi_rp_id sample_passkey_input)
      (pi_user_handle sample_passkey_input) (pi_user_name sample_passkey_input)
      (pi_user_display_name sample_passkey_input) = Ok sample_passkey_input"
    by (simp add: PasskeyInput_new_def sample_passkey_input_def) (simp add: ascii_def)
  show "utf8_valid (pi_rp_id sample_passkey_input)" "utf8_valid (pi_user_name sample_passkey_input)"
    "utf8_valid (pi_user_display_name sample_passkey_input)"
    using host names by (simp_all add: sample_passkey_input_def)
qed

lemma sample_random: "random_array sample_vault_libs j e = (e + 1, Ok (replicate j (e + 1)))"
  by (simp add: random_array_def sample_vault_libs_def)

lemma first_candidate:
  assumes draw: "random_array L len e = (e', Ok c)" and accepted: "accept c"
  shows "find_candidate L len accept MAX_RECORD_ID_ATTEMPTS e = (e', Some c)"
proof -
  have "find_candidate L len accept (Suc 127) e = (e', Some c)"
    by (subst find_candidate.simps) (use accepted in \<open>simp only: draw prod.case result.case if_True\<close>)
  moreover have "MAX_RECORD_ID_ATTEMPTS = Suc 127" by simp
  ultimately show ?thesis by metis
qed

lemma sample_allocations:
  "replicate 16 (e + 1) \<notin> me_record_id ` set (mf_entries (uv_manifest v)) \<Longrightarrow>
     allocate_record_id sample_vault_libs v e = (e + 1, Ok (replicate 16 (e + 1)))"
  "e + 1 \<noteq> 0 \<Longrightarrow>
     allocate_credential_id sample_vault_libs {} e = (e + 1, Ok (replicate 32 (e + 1)))"
  "e + 1 \<noteq> 0 \<Longrightarrow> generate_signing_key sample_vault_libs e = (e + 1, Ok (replicate 32 (e + 1)))"
proof -
  assume "replicate 16 (e + 1) \<notin> me_record_id ` set (mf_entries (uv_manifest v))"
  then show "allocate_record_id sample_vault_libs v e = (e + 1, Ok (replicate 16 (e + 1)))"
    unfolding allocate_record_id_def
    by (subst first_candidate [OF sample_random]) (auto simp: list_ex_iff image_iff)
next
  assume "e + 1 \<noteq> 0"
  then show "allocate_credential_id sample_vault_libs {} e = (e + 1, Ok (replicate 32 (e + 1)))"
    unfolding allocate_credential_id_def by (subst first_candidate [OF sample_random]) auto
next
  assume k: "e + 1 \<noteq> 0"
  have "vl_signing_key_ok sample_vault_libs (replicate 32 (e + 1))"
    using k by (simp add: sample_vault_libs_def)
  then have "generate_signing_key_loop sample_vault_libs (Suc 127) e = (e + 1, Ok (replicate 32 (e + 1)))"
    by (subst generate_signing_key_loop.simps) (simp add: entropy_then_def sample_random)
  moreover have "MAX_RECORD_ID_ATTEMPTS = Suc 127" by simp
  ultimately show "generate_signing_key sample_vault_libs e = (e + 1, Ok (replicate 32 (e + 1)))"
    unfolding generate_signing_key_def by metis
qed

end
