(* ===== verification/Agent_Liveness.thy ===== *)
theory Agent_Liveness
  imports Agent_Refinement Vault_Sample
begin

text \<open>
  On a database that does not fail the agent's calls go through. Whatever the core accepts as a vault
  is within the limits of the storage, so it can be read back; a mutation the core prepares is stored
  and committed; and the vault can be unlocked again.
\<close>

section \<open>A vault fits its storage\<close>

lemma decrypt_record_fits:
  "decrypt_record L v r = Ok d \<Longrightarrow> length (er_envelope r) \<le> MAX_RECORD_ENVELOPE_BYTES"
  by (auto simp: decrypt_record_def RecordEnvelope_decode_def result_simps split: if_splits)

context vault_crypto
begin

lemma in_sync_fits:
  assumes "in_sync L v hb mb rows"
  shows "data_fits \<lparr>vd_header = hb, vd_manifest = mb, vd_records = rows\<rparr>"
    "sorted (map er_id rows)" "distinct (map er_id rows)"
proof -
  have meta: "authenticate_snapshot_metadata L v hb mb = Ok ()" and ok: "rows_ok L v rows"
    using assms by (simp_all add: in_sync_iff)
  have "length hb \<le> MAX_HEADER_BYTES"
    using metadata_Ok(1) [OF meta] by (auto simp: VaultHeader_decode_def split: if_splits)
  moreover have "length mb \<le> MAX_MANIFEST_ENVELOPE_BYTES"
    using metadata_Ok(3) [OF meta]
    by (auto simp: decrypt_manifest_def ManifestEnvelope_decode_def result_simps split: if_splits)
  moreover have "length (er_id r) = 16" if "r \<in> set rows" for r
    using metadata_Ok(4) [OF meta] ok that
    by (auto simp: Manifest_valid_def rows_ok_def list_all_iff ManifestEntry_valid_def)
  ultimately show "data_fits \<lparr>vd_header = hb, vd_manifest = mb, vd_records = rows\<rparr>"
    using ok decrypt_record_fits by (fastforce simp: data_fits_def rows_ok_def)
  show "sorted (map er_id rows)" "distinct (map er_id rows)"
    using ok by (auto simp: rows_ok_def strict_sorted_iff)
qed

end

lemma get_account_succeeds:
  assumes "in_sync L v hb mb rows" and "vault_view L v rows i = Some (Dec_Account a)"
  shows "get_website_account_with_check L v hb mb rows i (\<lambda>_. False) = Ok a"
  using assms fold_find_account_view [of L v rows i a]
  by (auto simp: get_website_account_with_check_def result_simps visit_snapshot_Ok in_sync_iff)

section \<open>Calls on a reliable database\<close>

locale reliable_agent =
  agent_store L S p committed pending + reliable_database "S p" committed pending
  for L :: "'e vault_libs" and S :: "('d, 't) databases" and p :: path
    and committed :: "'d \<Rightarrow> vault_data" and pending :: "'t \<Rightarrow> vault_data"
begin

lemma read_synced:
  assumes "agent_inv L p committed root (a, w)"
  shows "read_vault_from_guards (S p) (aw_database w) = Ok (committed (aw_database w))"
proof -
  obtain v where "in_sync L v (vd_header (committed (aw_database w)))
      (vd_manifest (committed (aw_database w))) (vd_records (committed (aw_database w)))"
    using assms by (auto simp: agent_inv_def agent_synced_def)
  then have "data_fits (committed (aw_database w))"
    using in_sync_fits(1) by (cases "committed (aw_database w)") fastforce
  then show ?thesis by (rule read_succeeds)
qed

lemma load_succeeds:
  assumes "agent_inv L p committed root (a, w)" and "va_session a = Some v"
  shows "load_authenticated_snapshot S (a, w) = ((a, w), Ok (committed (aw_database w)))"
  using assms read_synced [OF assms(1)]
  by (auto simp: load_authenticated_snapshot_def agent_inv_def agent_synced_def pure_then_def
      read_guarded_vault_def)

lemma persist_succeeds:
  assumes inv: "agent_inv L p committed root (a, w)" and v: "va_session a = Some v"
    and vd: "committed (aw_database w) = vd" and permit: "operation_is_authorized a permit"
    and prep: "prepares L (vd_header vd) (v, vd_manifest vd, vd_records vd) ev pm"
  shows "\<exists>v' m d'. persist_mutation S permit vd pm (Ok ()) (a, w)
    = ((a\<lparr>va_session := Some v', va_authenticated_manifest := m\<rparr>, w\<lparr>aw_database := d'\<rparr>), Ok (pm_id pm))"
proof -
  note sync = synced_session [OF inv v, unfolded vd]
  obtain v' rows' where st: "stored L v (vd_header vd) (vd_records vd) pm v' rows'"
    using prepares_stored [OF prep] by blast
  then have new: "apply_to_expected_records (vd_records vd) pm = Ok rows'"
    "commit_record_mutation v pm = (v', Ok (pm_id pm))"
    "in_sync L v' (vd_header vd) (pm_manifest_envelope pm) rows'"
    by (simp_all add: stored_def)
  have old: "in_sync L v (vd_header vd) (vd_manifest vd) (vd_records vd)"
    using sync(2) by (simp add: agent_synced_def)
  have fresh: "pm_id pm \<notin> er_id ` set (vd_records vd)" if kind: "pm_kind pm = Insert"
  proof -
    obtain envelope where "rows' = sort_key er_id (vd_records vd @ [\<lparr>er_id = pm_id pm, er_envelope = envelope\<rparr>])"
      using new(1) kind by (auto simp: apply_to_expected_records_def result_simps)
    then have "set (map er_id rows') = insert (pm_id pm) (er_id ` set (vd_records vd))"
      "length rows' = Suc (length (vd_records vd))" by auto
    moreover have "card (set (map er_id rows')) = length rows'"
      using in_sync_fits(3) [OF new(3)] distinct_card by fastforce
    moreover have "card (er_id ` set (vd_records vd)) \<le> length (vd_records vd)"
      using card_length [of "map er_id (vd_records vd)"] by simp
    ultimately show ?thesis by (auto simp: insert_absorb)
  qed
  obtain d' where "apply_record_mutation (S p) (vd_header vd) (vd_manifest vd) (vd_records vd) pm
      (Ok ()) (aw_database w) = (d', Ok ())"
    using apply_succeeds [of "aw_database w" "vd_header vd" "vd_manifest vd" "vd_records vd" pm rows'] in_sync_fits [OF old] in_sync_fits(1) [OF new(3)] new(1) fresh
    by (cases vd) (auto simp: vd)
  then have "persist_mutation S permit vd pm (Ok ()) (a, w) = ((a\<lparr>va_session := Some v',
      va_authenticated_manifest := Some (pm_manifest_envelope pm)\<rparr>, w\<lparr>aw_database := d'\<rparr>), Ok (pm_id pm))"
    using sync(1) permit v new(2) by (simp add: persist_mutation_def pure_then_def)
  then show ?thesis by blast
qed

lemma mutate_succeeds:
  assumes inv: "agent_inv L p committed root (a, w)" and granted: "begin_operation a = Some permit"
    and v: "va_session a = Some v" and vd: "committed (aw_database w) = vd"
    and t: "unix_time_ms now = Ok t"
    and prep: "prepare v (vd_header vd) (vd_manifest vd) (vd_records vd) t (aw_entropy w)
      = (e', Ok (pm, x))"
      "prepares L (vd_header vd) (v, vd_manifest vd, vd_records vd) ev pm"
    and go: "\<not> late_cancel (length (vd_records vd))"
  shows "\<exists>v' m w'. mutate_vault S now prepare late_cancel (Ok ()) (a, w)
    = ((a\<lparr>va_session := Some v', va_authenticated_manifest := m\<rparr>, w'), Ok (pm_id pm, x))"
proof -
  let ?w = "w\<lparr>aw_entropy := e'\<rparr>"
  have inv': "agent_inv L p committed root (a, ?w)" using inv by (simp add: agent_inv_def)
  have auth: "operation_is_authorized a permit" using begin_authorized [OF granted] by blast
  obtain v' m d' where "persist_mutation S permit vd pm (Ok ()) (a, ?w)
      = ((a\<lparr>va_session := Some v', va_authenticated_manifest := m\<rparr>, ?w\<lparr>aw_database := d'\<rparr>), Ok (pm_id pm))"
    using persist_succeeds [OF inv' v _ auth prep(2)] vd by auto
  then show ?thesis
    using granted load_succeeds [OF inv v] t v prep(1) go vd
    by (auto simp: mutate_vault_def require_operation_def pure_then_def agent_then_def
        finish_mutation_def map_preparation_pair_def map_read_def)
qed

lemma read_vault_succeeds:
  assumes inv: "agent_inv L p committed root (a, w)" and granted: "begin_operation a = Some permit"
    and v: "va_session a = Some v" and vd: "committed (aw_database w) = vd"
    and "read v (vd_header vd) (vd_manifest vd) (vd_records vd) = Ok x"
  shows "read_vault S read id (a, w) = ((a, w), Ok x)"
  using granted load_succeeds [OF inv v] assms(5) vd v begin_authorized [OF granted]
  by (auto simp: read_vault_def require_operation_def pure_then_def agent_then_def map_read_def)

text \<open>An account that is added is read back.\<close>

lemma add_then_get:
  assumes avail: "libs_available L" and inv: "agent_inv L p committed root (a, w)"
    and granted: "begin_operation a = Some permit" and v: "va_session a = Some v"
    and t: "unix_time_ms now = Ok t" "can_commit v t" and inp: "input_ok L inp"
    and room: "length (vd_records (committed (aw_database w))) < 100000"
    and fresh: "allocate_record_id L v (aw_entropy w) = (e1, Ok i)"
  shows "\<exists>s' j. agent_add_website_account L S now inp (a, w) = (s', Ok j)
    \<and> agent_get_website_account_with_check L S j (\<lambda>_. False) s' = (s', Ok (account_of j 1 t t inp))"
proof -
  define vd where "vd = committed (aw_database w)"
  note sync = synced_session [OF inv v, folded vd_def]
  obtain e' pm where prep: "prepare_add_website_account_with_check L v (vd_header vd) (vd_manifest vd)
      (vd_records vd) inp t (\<lambda>_. False) (aw_entropy w) = (e', Ok pm)"
    using add_account_succeeds [OF avail _ t(2) _ inp fresh, of "vd_header vd" "vd_manifest vd"
        "vd_records vd"] sync(2) room by (auto simp: agent_synced_def vd_def)
  let ?prepare = "\<lambda>v hb mb rows t e. alone (prepare_add_website_account_with_check L v hb mb rows inp t
      (\<lambda>_. False) e)"
  obtain v' m w' where run: "mutate_vault S now ?prepare (\<lambda>_. False) (Ok ()) (a, w)
      = ((a\<lparr>va_session := Some v', va_authenticated_manifest := m\<rparr>, w'), Ok (pm_id pm, ()))"
    using mutate_succeeds [OF inv granted v vd_def [symmetric] t(1) _ prepares_add_account [OF inp prep],
        of ?prepare e' "()" "\<lambda>_. False"] prep by (auto simp: alone_def)
  let ?a = "a\<lparr>va_session := Some v', va_authenticated_manifest := m\<rparr>" and ?j = "pm_id pm"
  have add: "agent_add_website_account L S now inp (a, w) = ((?a, w'), Ok ?j)"
    using run by (simp add: agent_add_website_account_def keeping_def
        agent_add_website_account_with_before_commit_and_check_def)
  note sim = add_account_sim [OF inv add [unfolded agent_add_website_account_def] _ inp]
  then have inv': "agent_inv L p committed root (?a, w')"
    and step: "vault_step (agent_contents L committed root (a, w)) (Account_Added ?j inp t)
      (agent_contents L committed root (?a, w'))"
    using t(1) by (simp_all add: simulated_def agent_spec_simps)
  have sync': "agent_synced L root ?a (committed (aw_database w')) v'"
    by (rule synced_session(2) [OF inv']) simp
  have "agent_contents L committed root (?a, w') ?j = Some (Dec_Account (account_of ?j 1 t t inp))"
    using step by (auto elim: vault_step.cases)
  then have "get_website_account_with_check L v' (vd_header (committed (aw_database w')))
      (vd_manifest (committed (aw_database w'))) (vd_records (committed (aw_database w'))) ?j
      (\<lambda>_. False) = Ok (account_of ?j 1 t t inp)"
    using sync' contents_view [OF sync'] by (auto simp: agent_synced_def intro: get_account_succeeds)
  moreover have "begin_operation ?a = Some permit"
    using granted by (auto simp: begin_operation_def split: option.splits)
  ultimately have "agent_get_website_account_with_check L S ?j (\<lambda>_. False) (?a, w')
      = ((?a, w'), Ok (account_of ?j 1 t t inp))"
    unfolding agent_get_website_account_with_check_def
    by (intro read_vault_succeeds [OF inv']) simp_all
  with add show ?thesis by blast
qed

text \<open>A vault that is not in use unlocks with its password.\<close>

lemma unlock_succeeds:
  assumes inv: "agent_inv L p committed root (a, w)" and quiet: "\<And>x. \<not> cancelled x"
    and sync: "agent_synced L root a (committed (aw_database w)) v"
    and wraps: "password_wraps L v password"
    and next_id: "unat (aw_next_session_id w) + 1 < 2 ^ 64"
    and epoch: "unat (va_authorization_epoch a) + 2 < 2 ^ 64"
  shows "\<exists>s'. unlock_agent L S password cancelled (a, w) = (s', Ok ()) \<and> va_session (fst s') = Some v"
proof -
  let ?vd = "committed (aw_database w)"
  have path: "va_path a = Some p" using inv by (simp add: agent_inv_def)
  have core: "unlock_vault L password (vd_header ?vd) (vd_manifest ?vd) (vd_records ?vd)
      (\<lambda>n. cancelled (Poll_Core n)) = Ok v"
    using sync wraps quiet by (auto simp: agent_synced_def intro: unlock_vault_Ok)
  have lock: "unat (va_authorization_epoch (lock_agent a)) + 1 < 2 ^ 64"
    using epoch by (auto simp: lock_agent_def advance_authorization_epoch_def u64_checked_add_def
        unat_word_ariths)
  have "\<exists>s'. publish_session cancelled v ?vd (lock_agent a, w) = (s', Ok ())
      \<and> va_session (fst s') = Some v"
    using next_id lock quiet
    by (auto simp: publish_session_def next_session_id_def advance_authorization_epoch_def
        u64_checked_add_def Let_def)
  then show ?thesis
    using path core quiet read_synced [OF inv]
    by (auto simp: unlock_agent_def unlock_with_before_publish_def unlock_with_core_def Let_def
        pure_then_def read_guarded_vault_def)
qed

end

interpretation memory_agent: reliable_agent sample_vault_libs "\<lambda>_. memory_database" p id id for p
  by unfold_locales

end
