(* ===== verification/Agent_Permits.thy ===== *)
theory Agent_Permits
  imports Agent_Steps
begin

text \<open>
  Operation permits. A call keeps the session it finds, ends it, or starts one with a fresh
  identifier; so a permit that has lost its authority never regains it, whatever is called and
  whoever else writes to the database.
\<close>

section \<open>What a call does to the session\<close>

definition session_kept :: "('d, 'e) agent_state \<Rightarrow> ('d, 'e) agent_state \<Rightarrow> bool" where
  "session_kept = (\<lambda>(a, w) (a', w'). va_session_id a' = va_session_id a
     \<and> va_authorization_epoch a' = va_authorization_epoch a
     \<and> (va_session a' = None \<longleftrightarrow> va_session a = None)
     \<and> aw_next_session_id w' = aw_next_session_id w)"

definition session_ended :: "('d, 'e) agent_state \<Rightarrow> ('d, 'e) agent_state \<Rightarrow> bool" where
  "session_ended = (\<lambda>(a, w) (a', w'). va_session a' = None \<and> va_session_id a' = None
     \<and> aw_next_session_id w \<le> aw_next_session_id w')"

definition session_started :: "('d, 'e) agent_state \<Rightarrow> ('d, 'e) agent_state \<Rightarrow> bool" where
  "session_started = (\<lambda>(a, w) (a', w'). va_session a' \<noteq> None
     \<and> va_session_id a' = Some (aw_next_session_id w)
     \<and> aw_next_session_id w < aw_next_session_id w')"

definition keeps_or_ends :: "('d, 'e) agent_state \<Rightarrow> ('d, 'e) agent_state \<Rightarrow> bool" where
  "keeps_or_ends s s' \<longleftrightarrow> session_kept s s' \<or> session_ended s s'"

lemma keeps_or_ends_simps [simp]:
  "keeps_or_ends s s"
  "keeps_or_ends (a, w) (lock_agent b, w)"
  "keeps_or_ends (a, w) (lock_agent b, w\<lparr>aw_database := d\<rparr>)"
  "keeps_or_ends (a, w) (a, w\<lparr>aw_database := d\<rparr>)"
  "keeps_or_ends (a, w) (a, w\<lparr>aw_entropy := e\<rparr>)"
  by (auto simp: keeps_or_ends_def session_kept_def session_ended_def split: prod.splits)

lemma keeps_or_ends_trans:
  assumes "keeps_or_ends s s1" and "keeps_or_ends s1 s2"
  shows "keeps_or_ends s s2"
  using assms
  by (auto simp: keeps_or_ends_def session_kept_def session_ended_def split: prod.splits)

lemma agent_then_keeps:
  assumes "agent_then q k = (s', r)" and "keeps_or_ends s (fst q)"
    and "\<And>x r'. snd q = Ok x \<Longrightarrow> k (fst q) x = (s', r') \<Longrightarrow> keeps_or_ends (fst q) s'"
  shows "keeps_or_ends s s'"
  using assms by (cases "snd q") (auto simp: agent_then_def intro: keeps_or_ends_trans)

lemma pure_then_keeps:
  assumes "pure_then s q k = (s', r)" and "\<And>x. q = Ok x \<Longrightarrow> k x = (s', r) \<Longrightarrow> keeps_or_ends s s'"
  shows "keeps_or_ends s s'"
  using assms by (cases q) (auto simp: pure_then_def)

lemma load_keeps: "keeps_or_ends s (fst (load_authenticated_snapshot S s))"
  by (cases s) (auto simp: load_authenticated_snapshot_def pure_then_def split: result.splits)

lemma map_read_keeps: "keeps_or_ends s (fst (map_read x s))"
  by (cases s) (auto simp: map_read_def split: result.splits record_operation_error.splits)

lemma persist_keeps: "keeps_or_ends s (fst (persist_mutation S permit vd pm before_commit s))"
proof (cases s)
  case (Pair a w)
  have "keeps_or_ends (a, w) (a\<lparr>va_session := Some v, va_authenticated_manifest := m\<rparr>,
      w\<lparr>aw_database := d\<rparr>)" if "va_session a = Some v'" for v m d v'
    using that by (auto simp: keeps_or_ends_def session_kept_def)
  moreover have "keeps_or_ends (a, w) (a\<lparr>va_session := Some v\<rparr>, w\<lparr>aw_database := d\<rparr>)"
    if "va_session a = Some v'" for v d v'
    using that by (auto simp: keeps_or_ends_def session_kept_def)
  ultimately show ?thesis
    unfolding Pair persist_mutation_def
    by (auto simp: pure_then_def Let_def ok_or_Ok split: prod.splits result.splits storage_error.splits
        option.splits)
qed

lemma finish_keeps:
  assumes "finish_mutation S permit vd late_cancel before_commit result s = (s', r)"
  shows "keeps_or_ends s s'"
  using assms unfolding finish_mutation_def map_preparation_pair_def
proof (rule agent_then_keeps [OF _ map_read_keeps], goal_cases)
  case (1 x r')
  then show ?case
    by (auto split: prod.splits if_splits elim!: agent_then_keeps [OF _ persist_keeps])
qed

lemma mutate_keeps:
  assumes "mutate_vault S now prepare late_cancel before_commit s = (s', r)"
  shows "keeps_or_ends s s'"
proof (cases s)
  case (Pair a w)
  show ?thesis
    using assms unfolding Pair mutate_vault_def prod.case
  proof (rule pure_then_keeps, goal_cases)
    case (1 permit)
    from 1(2) show ?case
    proof (rule agent_then_keeps [OF _ load_keeps], goal_cases)
      case (1 x r')
      then show ?case
        by (cases "fst (load_authenticated_snapshot S (a, w))")
          (auto split: result.splits prod.splits elim!: pure_then_keeps
            intro: keeps_or_ends_trans [OF keeps_or_ends_simps(5) finish_keeps])
    qed
  qed
qed

lemma read_keeps:
  assumes "read_vault S read id s = (s', r)"
  shows "keeps_or_ends s s'"
proof (cases s)
  case (Pair a w)
  show ?thesis
    using assms unfolding Pair read_vault_def prod.case
  proof (rule pure_then_keeps, goal_cases)
    case (1 permit)
    from 1(2) show ?case
    proof (rule agent_then_keeps [OF _ load_keeps], goal_cases)
      case (1 x r')
      then show ?case
        by (cases "fst (load_authenticated_snapshot S (a, w))")
          (auto split: if_splits prod.splits elim!: pure_then_keeps agent_then_keeps [OF _ map_read_keeps])
    qed
  qed
qed

lemma unlock_changes:
  assumes "unlock_with_core S cancelled before_publish unlock s = (s', r)"
  shows "session_ended s s' \<or> session_started s s'"
proof (cases s)
  case (Pair a w)
  have ended: "session_ended (a, w) (lock_agent a, w)"
    "session_ended (a, w) (lock_agent a, w\<lparr>aw_database := d\<rparr>)" for d
    by (simp_all add: session_ended_def)
  have published: "session_ended (a, w) s' \<or> session_started (a, w) s'"
    if "publish_session cancelled v vd (lock_agent a, w\<lparr>aw_database := d\<rparr>) = (s', r)" for v vd d
    using that
    by (auto simp: publish_session_def next_session_id_def advance_authorization_epoch_def Let_def
        session_ended_def session_started_def u64_checked_add_def word_le_nat_alt word_less_nat_alt
        unat_word_ariths split: option.splits if_splits prod.splits)
  show ?thesis
    using assms ended published
    by (auto simp: Pair unlock_with_core_def Let_def pure_then_def split: if_splits result.splits)
qed

section \<open>Histories\<close>

text \<open>The agent shares the machine: between its calls anyone may change the database.\<close>

inductive hosted_step ::
    "'e vault_libs \<Rightarrow> ('d, 't) databases \<Rightarrow> bytes
       \<Rightarrow> ('d, 'e) agent_state \<Rightarrow> agent_label option \<Rightarrow> ('d, 'e) agent_state \<Rightarrow> bool" for L S root where
  hosted_call: "agent_step L S root s l s' \<Longrightarrow> hosted_step L S root s (Some l) s'"
| hosted_other: "hosted_step L S root (a, w) None (a, w\<lparr>aw_database := d\<rparr>)"

lemma keeping_keeps:
  "keeping f (mutate_vault S now prepare late_cancel before_commit s) = (s', r) \<Longrightarrow> keeps_or_ends s s'"
  by (cases "mutate_vault S now prepare late_cancel before_commit s")
    (auto simp: keeping_def dest: mutate_keeps)

lemmas mutation_defs =
  agent_add_website_account_with_before_commit_and_check_def
  agent_update_website_account_with_before_commit_and_check_def
  agent_delete_website_account_with_before_commit_and_check_def
  agent_add_passkey_with_before_commit_and_check_def
  agent_confirm_passkey_creation_with_before_commit_and_check_def
  agent_sign_passkey_assertion_with_before_commit_and_check_def
  agent_delete_passkey_with_before_commit_and_check_def

lemmas read_defs =
  agent_get_website_account_with_check_def agent_list_website_accounts_def
  list_website_accounts_with_before_return_def agent_list_website_account_page_with_check_def
  agent_unique_browser_account_with_check_def agent_list_passkeys_with_check_def
  agent_list_passkeys_for_assertion_with_check_def agent_pending_passkey_credential_ids_with_check_def

lemmas unlock_defs = unlock_agent_def unlock_with_before_publish_def unlock_with_windows_hello_def
  unlock_with_windows_hello_before_publish_def

lemma agent_step_session:
  assumes "agent_step L S root s l s'"
  shows "keeps_or_ends s s' \<or> session_started s s'"
  using assms
proof (cases rule: agent_step.cases)
  case (step_lock a w)
  then show ?thesis by simp
qed (auto simp: mutation_defs read_defs unlock_defs keeps_or_ends_def
    dest!: keeping_keeps [unfolded keeps_or_ends_def] read_keeps [unfolded keeps_or_ends_def]
      unlock_changes)

lemma hosted_step_session:
  assumes "hosted_step L S root s l s'"
  shows "keeps_or_ends s s' \<or> session_started s s'"
  using assms by (cases rule: hosted_step.cases) (auto dest: agent_step_session)

text \<open>The identifier of a session, and of every permit it hands out, is below the counter.\<close>

definition session_numbered :: "('d, 'e) agent_state \<Rightarrow> bool" where
  "session_numbered = (\<lambda>(a, w). (va_session a = None \<longrightarrow> va_session_id a = None)
     \<and> (\<forall>i. va_session_id a = Some i \<longrightarrow> i < aw_next_session_id w))"

lemma session_numbered_step:
  assumes "hosted_step L S root s l s'" and "session_numbered s"
  shows "session_numbered s'"
  using hosted_step_session [OF assms(1)] assms(2)
  by (auto simp: session_numbered_def keeps_or_ends_def session_kept_def session_ended_def
      session_started_def split: prod.splits)

definition permit_dead :: "operation_permit \<Rightarrow> ('d, 'e) agent_state \<Rightarrow> bool" where
  "permit_dead permit = (\<lambda>(a, w). op_session_id permit < aw_next_session_id w
     \<and> \<not> operation_is_authorized a permit)"

lemma permit_dead_step:
  assumes "hosted_step L S root s l s'" and "session_numbered s" and "permit_dead permit s"
  shows "permit_dead permit s'"
  using hosted_step_session [OF assms(1)] assms(2,3)
  by (auto simp: session_numbered_def permit_dead_def operation_is_authorized_def keeps_or_ends_def
      session_kept_def session_ended_def session_started_def split: prod.splits)

lemma permit_dead_run:
  assumes "run_of (hosted_step L S root) s ls s'" and "session_numbered s" and "permit_dead permit s"
  shows "session_numbered s' \<and> permit_dead permit s'"
  using assms
  by (induction rule: run_of.induct) (auto dest: session_numbered_step permit_dead_step)

lemma session_numbered_run:
  assumes "run_of (hosted_step L S root) s ls s'" and "session_numbered s"
  shows "session_numbered s'"
  using assms by (induction rule: run_of.induct) (auto dest: session_numbered_step)

lemma counter_grows_run:
  assumes "run_of (hosted_step L S root) s ls s'"
  shows "aw_next_session_id (snd s) \<le> aw_next_session_id (snd s')"
  using assms
proof (induction rule: run_of.induct)
  case (run_Cons s l s1 ls s')
  from hosted_step_session [OF run_Cons.hyps(1)]
  have "aw_next_session_id (snd s) \<le> aw_next_session_id (snd s1)"
    by (auto simp: keeps_or_ends_def session_kept_def session_ended_def session_started_def
        split: prod.splits)
  with run_Cons.IH show ?case by simp
qed simp

lemma permit_numbered:
  assumes "session_numbered (a, w)" and "begin_operation a = Some permit"
  shows "op_session_id permit < aw_next_session_id w"
  using assms by (auto simp: session_numbered_def begin_operation_def split: option.splits)

end
