(* ===== verification/Vault_History.thy ===== *)
theory Vault_History
  imports Vault_Sample
begin

text \<open>
  Histories of a vault: the properties of any sequence of mutations, from the abstract vault and its
  refinement by the core.
\<close>

section \<open>Passkeys along a history\<close>

fun asserts :: "bytes \<Rightarrow> vault_event \<Rightarrow> bool" where
  "asserts i (Passkey_Asserted j rp) = (j = i)"
| "asserts i _ = False"

definition same_key :: "passkey_record \<Rightarrow> passkey_record \<Rightarrow> bool" where
  "same_key p q \<longleftrightarrow> pr_credential_id q = pr_credential_id p \<and> pr_private_key q = pr_private_key p
     \<and> pr_rp_id q = pr_rp_id p \<and> pr_user_handle q = pr_user_handle p"

lemma same_key_trans: "same_key p q \<Longrightarrow> same_key q r \<Longrightarrow> same_key p r"
  by (simp add: same_key_def)

lemma vault_step_passkey:
  assumes "vault_step c ev c'" and "c i = Some (Dec_Passkey p)" and "ev \<noteq> Passkey_Deleted i"
  shows "\<exists>q. c' i = Some (Dec_Passkey q) \<and> same_key p q
    \<and> unat (pr_signature_counter q) = unat (pr_signature_counter p) + (if asserts i ev then 1 else 0)"
  using assms
  by (cases rule: vault_step.cases) (auto simp: same_key_def unat_word_ariths)

lemma vault_run_passkey:
  assumes "run_of vault_step c evs c'" and "c i = Some (Dec_Passkey p)"
    and "Passkey_Deleted i \<notin> set evs"
  shows "\<exists>q. c' i = Some (Dec_Passkey q) \<and> same_key p q
    \<and> unat (pr_signature_counter q)
        = unat (pr_signature_counter p) + length (filter (asserts i) evs)"
  using assms
proof (induction arbitrary: p rule: run_of.induct)
  case (run_Cons c ev c1 evs c')
  from run_Cons.prems have "ev \<noteq> Passkey_Deleted i" "Passkey_Deleted i \<notin> set evs" by auto
  from vault_step_passkey [OF run_Cons.hyps(1) run_Cons.prems(1) this(1)] obtain q where
    q: "c1 i = Some (Dec_Passkey q)" "same_key p q"
    "unat (pr_signature_counter q) = unat (pr_signature_counter p) + (if asserts i ev then 1 else 0)"
    by blast
  from run_Cons.IH [OF q(1) \<open>Passkey_Deleted i \<notin> set evs\<close>] q(2,3) show ?case
    by (auto intro: same_key_trans)
qed (simp add: same_key_def)

section \<open>Histories of the core\<close>

context vault_crypto
begin

lemma history_refines:
  assumes "in_sync L v hb mb rows" and "session_of v"
    and "run_of (core_step L hb) (v, mb, rows) evs (v', mb', rows')"
  shows "run_of vault_step (vault_view L v rows) evs (vault_view L v' rows')"
    "in_sync L v' hb mb' rows'" "session_of v'" "uv_root_key v' = uv_root_key v"
    "uv_header v' = uv_header v"
  using core.sim_run [OF assms(3), of v] assms(1,2) by (simp_all add: core_inv_def core_contents_def)

lemma password_wraps_header:
  assumes "uv_header v' = uv_header v" and "uv_root_key v' = uv_root_key v"
  shows "password_wraps L v' password = password_wraps L v password"
  using assms by (simp add: password_wraps_def vault_id_def vault_key_epoch_def)

lemma protector_header:
  assumes "uv_header v' = uv_header v" and "uv_root_key v' = uv_root_key v"
  shows "create_windows_hello_protector L v' = create_windows_hello_protector L v"
  using assms by (simp add: create_windows_hello_protector_def fun_eq_iff)

end

section \<open>A sample history\<close>

lemma stored_generation:
  "stored L v hb rows pm v' rows' \<Longrightarrow>
     unat (mf_generation (uv_manifest v')) = unat (mf_generation (uv_manifest v)) + 1"
  by (auto simp: stored_def commit_record_mutation_def u64_checked_add_def unat_word_ariths
      split: if_splits)

text \<open>A created vault, a passkey added to it, and an assertion with that passkey.\<close>

lemma sample_history:
  obtains cv v1 mb1 rows1 v2 mb2 rows2 i p cdh e e' pm assertion where
    "create_vault_with_entropy sample_vault_libs [1, 2, 3] 1000 0 = (e, Ok cv)"
    "core_step sample_vault_libs (cv_header cv) (cv_session cv, cv_manifest_envelope cv, [])
       (Passkey_Added i sample_passkey_input Confirmed) (v1, mb1, rows1)"
    "vault_view sample_vault_libs v1 rows1 = [i \<mapsto> Dec_Passkey p]"
    "passkey_created i sample_passkey_input Confirmed p"
    "prepare_passkey_assertion_with_check sample_vault_libs v1 (cv_header cv) mb1 rows1 (pr_rp_id p)
       (pr_credential_id p) cdh 1000 (\<lambda>_. False) 20 = (e', Ok (pm, assertion))"
    "core_step sample_vault_libs (cv_header cv) (v1, mb1, rows1)
       (Passkey_Asserted i (pr_rp_id p)) (v2, mb2, rows2)"
proof -
  let ?L = sample_vault_libs
  obtain e cv where create: "create_vault_with_entropy ?L [1, 2, 3] 1000 0 = (e, Ok cv)"
    using sample_vault.create_vault_succeeds [OF sample_available] by blast
  note facts = sample_vault.created_vault_facts [OF create]
  let ?v = "cv_session cv" and ?hb = "cv_header cv" and ?mb = "cv_manifest_envelope cv"
  have gen: "unat (mf_generation (uv_manifest ?v)) + 1 < 2 ^ 64"
    by (simp add: facts(5) Manifest_empty_def)
  have alloc: "allocate_record_id ?L ?v 10 = (11, Ok (replicate 16 11))"
    "allocate_credential_id ?L {} 11 = (12, Ok (replicate 32 12))"
    "generate_signing_key ?L 12 = (13, Ok (replicate 32 13))"
    using sample_allocations(1) [of 10 ?v] sample_allocations(2,3) [of 11] sample_allocations(3) [of 12]
    by (simp_all add: facts(5) Manifest_empty_def)
  have inp: "PasskeyInput_new (vl_url ?L) (pi_rp_id sample_passkey_input)
      (pi_user_handle sample_passkey_input) (pi_user_name sample_passkey_input)
      (pi_user_display_name sample_passkey_input) = Ok sample_passkey_input"
    using sample_passkey_ok(1) by (simp add: sample_vault_libs_def)
  have "(replicate 32 13 :: bytes) \<noteq> zeros 32" "length (vl_public_point ?L (replicate 32 13)) = 65"
    by (simp_all add: sample_vault_libs_def)
  then obtain e1 pm1 cred where prep1: "prepare_add_passkey_with_check ?L ?v ?hb ?mb []
      sample_passkey_input [] Confirmed 1000 (\<lambda>_. False) 10 = (e1, Ok (pm1, cred))"
    using sample_vault.add_passkey_succeeds [OF sample_available facts(1) gen _ _ inp alloc]
    by fastforce
  note step1 = prepares.prepares_add_passkey [OF inp sample_passkey_ok(2-4) prep1]
  obtain v1 rows1 where st1: "stored ?L ?v ?hb [] pm1 v1 rows1"
    and vs1: "vault_step (vault_view ?L ?v []) (Passkey_Added (pm_id pm1) sample_passkey_input Confirmed)
      (vault_view ?L v1 rows1)"
    using sample_vault.prepares_stored [OF step1] by blast
  let ?mb1 = "pm_manifest_envelope pm1" and ?i = "pm_id pm1"
  obtain p where p: "passkey_created ?i sample_passkey_input Confirmed p"
    and view1: "vault_view ?L v1 rows1 = [?i \<mapsto> Dec_Passkey p]"
  proof -
    have empty: "vault_view ?L ?v [] = Map.empty" by (simp add: fun_eq_iff vault_view_def row_map_def)
    show ?thesis using vs1 unfolding empty by (cases rule: vault_step.cases) (blast intro: that)
  qed
  have sync1: "in_sync ?L v1 ?hb ?mb1 rows1" using st1 by (simp add: stored_def)
  have gen1: "unat (mf_generation (uv_manifest v1)) + 1 < 2 ^ 64"
    using stored_generation [OF st1] by (simp add: facts(5) Manifest_empty_def)
  have rec: "pr_creation_state p = Confirmed" "unat (pr_revision p) + 1 < 2 ^ 64"
    "unat (pr_signature_counter p) + 1 < 2 ^ 32"
    using p by (simp_all add: passkey_created_def)
  have at: "vault_view ?L v1 rows1 ?i = Some (Dec_Passkey p)" by (simp add: view1)
  obtain e2 pm2 assertion where prep2: "prepare_passkey_assertion_with_check ?L v1 ?hb ?mb1 rows1
      (pr_rp_id p) (pr_credential_id p) [7] 1000 (\<lambda>_. False) 20 = (e2, Ok (pm2, assertion))"
    using sample_vault.assertion_succeeds [OF sample_available sync1 gen1 at _ rec]
    by (fastforce simp: view1 split: if_splits)
  have "normalize_rp_id (vl_url ?L) (pr_rp_id p) = Ok (pr_rp_id p)"
    using sample_vault.view_passkey_facts(1) [OF sync1 at] by (simp add: passkey_ok_def)
  note step2 = prepares.prepares_assert_passkey [OF this prep2]
  obtain v2 rows2 where st2: "stored ?L v1 ?hb rows1 pm2 v2 rows2"
    and vs2: "vault_step (vault_view ?L v1 rows1) (Passkey_Asserted (pm_id pm2) (pr_rp_id p))
      (vault_view ?L v2 rows2)"
    using sample_vault.prepares_stored [OF step2] by blast
  have "pm_id pm2 = ?i" using vs2 by (cases rule: vault_step.cases) (auto simp: view1 split: if_splits)
  then show thesis
    using that [OF create core_step.intros [OF step1 st1] view1 p prep2] core_step.intros [OF step2 st2]
    by simp
qed

section \<open>Properties\<close>

text \<open>C2: the vault is a map from identifiers to records. From a session that authenticates its stored
  snapshot, every history of prepared, stored and committed mutations is a history of that map: an
  addition takes a fresh identifier, an update raises the revision by one and keeps the creation
  time, a deletion removes one record, and nothing else changes. After every history the session
  again authenticates what is stored.\<close>

theorem vault_history_refines_map:
  assumes "vault_crypto L" and "in_sync L v hb mb rows" and "session_of v"
    and "run_of (core_step L hb) (v, mb, rows) evs (v', mb', rows')"
  shows "run_of vault_step (vault_view L v rows) evs (vault_view L v' rows')
    \<and> in_sync L v' hb mb' rows'"
  using vault_crypto.history_refines [OF assms] by simp

theorem vault_history_refines_map_witness:
  "\<exists>(cv :: created_vault) i (p :: passkey_record) v mb rows. run_of vault_step (vault_view sample_vault_libs (cv_session cv) [])
     [Passkey_Added i sample_passkey_input Confirmed, Passkey_Asserted i (pr_rp_id p)]
     (vault_view sample_vault_libs v rows) \<and> in_sync sample_vault_libs v (cv_header cv) mb rows"
proof (rule sample_history)
  fix v1 mb1 rows1 v2 mb2 rows2 i cdh e e' pm and cv :: created_vault and p :: passkey_record and assertion :: passkey_assertion
  assume create: "create_vault_with_entropy sample_vault_libs [1, 2, 3] 1000 0 = (e, Ok cv)"
    and s1: "core_step sample_vault_libs (cv_header cv) (cv_session cv, cv_manifest_envelope cv, [])
       (Passkey_Added i sample_passkey_input Confirmed) (v1, mb1, rows1)"
    and s2: "core_step sample_vault_libs (cv_header cv) (v1, mb1, rows1)
       (Passkey_Asserted i (pr_rp_id p)) (v2, mb2, rows2)"
  note facts = sample_vault.created_vault_facts [OF create]
  have run: "run_of (core_step sample_vault_libs (cv_header cv))
      (cv_session cv, cv_manifest_envelope cv, [])
      [Passkey_Added i sample_passkey_input Confirmed, Passkey_Asserted i (pr_rp_id p)]
      (v2, mb2, rows2)"
    using s1 s2 by (blast intro: run_of.intros)
  show ?thesis
    using vault_history_refines_map [OF sample_vault.vault_crypto_axioms facts(1,2) run] by blast
qed

text \<open>C15: what is prepared is never refused afterwards. A mutation the core prepared from a snapshot
  applies to the rows of that snapshot and commits in the session, and the state it leads to is a
  step of the vault.\<close>

theorem prepared_mutation_completes:
  assumes "vault_crypto L" and "prepares L hb (v, mb, rows) ev pm"
  shows "\<exists>v' rows'. apply_to_expected_records rows pm = Ok rows'
    \<and> commit_record_mutation v pm = (v', Ok (pm_id pm))
    \<and> core_step L hb (v, mb, rows) ev (v', pm_manifest_envelope pm, rows')"
  using vault_crypto.prepares_stored [OF assms] core_step.intros [OF assms(2)]
  by (auto simp: stored_def)

theorem prepared_mutation_completes_witness:
  "\<exists>hb v mb rows ev pm v' rows'. prepares sample_vault_libs hb (v, mb, rows) ev pm
     \<and> apply_to_expected_records rows pm = Ok rows'
     \<and> commit_record_mutation v pm = (v', Ok (pm_id pm))"
proof (rule sample_history)
  fix v1 mb1 rows1 i and cv :: created_vault
  assume "core_step sample_vault_libs (cv_header cv) (cv_session cv, cv_manifest_envelope cv, [])
       (Passkey_Added i sample_passkey_input Confirmed) (v1, mb1, rows1)"
  then obtain pm where pm: "prepares sample_vault_libs (cv_header cv)
      (cv_session cv, cv_manifest_envelope cv, []) (Passkey_Added i sample_passkey_input Confirmed) pm"
    by (cases rule: core_step.cases) blast
  show ?thesis
    using prepared_mutation_completes [OF sample_vault.vault_crypto_axioms pm] pm by blast
qed

text \<open>C19: a vault stays unlockable. Whatever happens to a vault after it was created, the password it
  was created with unlocks what is stored, and the session it gives is the session in use.\<close>

theorem created_vault_unlocks:
  assumes "vault_crypto L" and "create_vault_with_entropy L password t e = (e', Ok cv)"
    and "run_of (core_step L (cv_header cv)) (cv_session cv, cv_manifest_envelope cv, []) evs
      (v, mb, rows)"
  shows "unlock_vault L password (cv_header cv) mb rows (\<lambda>_. False) = Ok v"
proof -
  note facts = vault_crypto.created_vault_facts [OF assms(1,2)]
  note later = vault_crypto.history_refines [OF assms(1) facts(1,2) assms(3)]
  have "password_wraps L v password"
    using facts(3) vault_crypto.password_wraps_header [OF assms(1) later(5,4)] by simp
  then show ?thesis
    by (intro vault_crypto.unlock_vault_Ok [OF assms(1) later(2,3)]) simp_all
qed

theorem created_vault_unlocks_witness:
  "\<exists>(cv :: created_vault) v mb rows. rows \<noteq> []
     \<and> unlock_vault sample_vault_libs [1, 2, 3] (cv_header cv) mb rows (\<lambda>_. False) = Ok v"
proof (rule sample_history)
  fix v1 mb1 rows1 i e and cv :: created_vault and p :: passkey_record
  assume create: "create_vault_with_entropy sample_vault_libs [1, 2, 3] 1000 0 = (e, Ok cv)"
    and s1: "core_step sample_vault_libs (cv_header cv) (cv_session cv, cv_manifest_envelope cv, [])
       (Passkey_Added i sample_passkey_input Confirmed) (v1, mb1, rows1)"
    and "vault_view sample_vault_libs v1 rows1 = [i \<mapsto> Dec_Passkey p]"
  then have "rows1 \<noteq> []" by (auto simp: vault_view_def row_map_def fun_eq_iff split: if_splits)
  moreover have "run_of (core_step sample_vault_libs (cv_header cv))
      (cv_session cv, cv_manifest_envelope cv, [])
      [Passkey_Added i sample_passkey_input Confirmed] (v1, mb1, rows1)"
    using s1 by (blast intro: run_of.intros)
  ultimately show ?thesis
    using created_vault_unlocks [OF sample_vault.vault_crypto_axioms create] by blast
qed

text \<open>C20: a Windows Hello protector made in an unlocked session goes on unlocking the vault with the
  same installation key, credential and PRF output, after any later history, and gives the session
  in use.\<close>

theorem hello_protector_unlocks:
  assumes "vault_crypto L" and "in_sync L v hb mb rows" and "session_of v"
    and "length (uv_root_key v) = 32" and "length prf_salt = 32"
    and "create_windows_hello_protector L v installation_key credential_id prf_salt prf_output e
      = (e', Ok protector)"
    and "run_of (core_step L hb) (v, mb, rows) evs (v', mb', rows')"
  shows "unlock_vault_with_windows_hello L prf_output installation_key credential_id protector
    hb mb' rows' (\<lambda>_. False) = Ok v'"
proof -
  note later = vault_crypto.history_refines [OF assms(1-3,7)]
  have "create_windows_hello_protector L v' installation_key credential_id prf_salt prf_output e
      = (e', Ok protector)"
    using assms(6) vault_crypto.protector_header [OF assms(1) later(5,4)] by simp
  then show ?thesis
    using assms(4,5) later
    by (intro vault_crypto.hello_round_trip [OF assms(1) later(2,3)]) simp_all
qed

theorem hello_protector_unlocks_witness:
  "\<exists>(cv :: created_vault) protector v mb rows. unlock_vault_with_windows_hello sample_vault_libs (replicate 32 5)
     (replicate 32 6) [9] protector (cv_header cv) mb rows (\<lambda>_. False) = Ok v \<and> rows \<noteq> []"
proof (rule sample_history)
  fix v1 mb1 rows1 i e and cv :: created_vault and p :: passkey_record
  assume create: "create_vault_with_entropy sample_vault_libs [1, 2, 3] 1000 0 = (e, Ok cv)"
    and s1: "core_step sample_vault_libs (cv_header cv) (cv_session cv, cv_manifest_envelope cv, [])
       (Passkey_Added i sample_passkey_input Confirmed) (v1, mb1, rows1)"
    and "vault_view sample_vault_libs v1 rows1 = [i \<mapsto> Dec_Passkey p]"
  then have "rows1 \<noteq> []" by (auto simp: vault_view_def row_map_def fun_eq_iff split: if_splits)
  note facts = sample_vault.created_vault_facts [OF create]
  let ?L = sample_vault_libs and ?v = "cv_session cv"
  have id: "windows_hello_installation_id ?L (replicate 32 6) \<noteq> zeros 32"
  proof -
    have "windows_hello_installation_id ?L (replicate 32 6) ! 1 = 80"
      by (simp add: windows_hello_installation_id_def sample_vault_libs_def
          WINDOWS_HELLO_INSTALLATION_ID_LABEL_def ascii_def)
    moreover have "zeros 32 ! 1 = 0" by (simp add: zeros_def)
    ultimately show ?thesis by auto
  qed
  have meta: "authenticate_snapshot_metadata ?L ?v (cv_header cv) (cv_manifest_envelope cv) = Ok ()"
    using facts(1) by (simp add: in_sync_iff)
  obtain e1 protector where make: "create_windows_hello_protector ?L ?v (replicate 32 6) [9]
      (replicate 32 8) (replicate 32 5) 40 = (e1, Ok protector)"
    using sample_vault.hello_protector_succeeds [OF sample_available meta facts(4) _ _ _ id,
        of "replicate 32 8" "[9]"] by fastforce
  have run: "run_of (core_step ?L (cv_header cv)) (?v, cv_manifest_envelope cv, [])
      [Passkey_Added i sample_passkey_input Confirmed] (v1, mb1, rows1)"
    using s1 by (blast intro: run_of.intros)
  have "unlock_vault_with_windows_hello ?L (replicate 32 5) (replicate 32 6) [9] protector
      (cv_header cv) mb1 rows1 (\<lambda>_. False) = Ok v1"
    by (rule hello_protector_unlocks [OF sample_vault.vault_crypto_axioms facts(1,2,4) _ make run]) simp
  with \<open>rows1 \<noteq> []\<close> show ?thesis by blast
qed

text \<open>C21: the signature counter of a passkey counts its assertions. Along any history in which a
  passkey is not deleted it keeps its credential, key, relying party and user handle, and its counter
  grows by exactly the number of assertions made with it, without wrapping around.\<close>

theorem signature_counter_counts_assertions:
  assumes "vault_crypto L" and "in_sync L v hb mb rows" and "session_of v"
    and "run_of (core_step L hb) (v, mb, rows) evs (v', mb', rows')"
    and "vault_view L v rows i = Some (Dec_Passkey p)" and "Passkey_Deleted i \<notin> set evs"
  shows "\<exists>q. vault_view L v' rows' i = Some (Dec_Passkey q) \<and> same_key p q
    \<and> unat (pr_signature_counter q)
        = unat (pr_signature_counter p) + length (filter (asserts i) evs)"
  by (rule vault_run_passkey [OF vault_crypto.history_refines(1) [OF assms(1-4)] assms(5,6)])

theorem signature_counter_counts_assertions_witness:
  "\<exists>v rows i q. vault_view sample_vault_libs v rows i = Some (Dec_Passkey q)
     \<and> pr_signature_counter q = 1"
proof (rule sample_history)
  fix v1 mb1 rows1 v2 mb2 rows2 i e and cv :: created_vault and p :: passkey_record
  assume create: "create_vault_with_entropy sample_vault_libs [1, 2, 3] 1000 0 = (e, Ok cv)"
    and s1: "core_step sample_vault_libs (cv_header cv) (cv_session cv, cv_manifest_envelope cv, [])
       (Passkey_Added i sample_passkey_input Confirmed) (v1, mb1, rows1)"
    and s2: "core_step sample_vault_libs (cv_header cv) (v1, mb1, rows1)
       (Passkey_Asserted i (pr_rp_id p)) (v2, mb2, rows2)"
    and view: "vault_view sample_vault_libs v1 rows1 = [i \<mapsto> Dec_Passkey p]"
    and new: "passkey_created i sample_passkey_input Confirmed p"
  note facts = sample_vault.created_vault_facts [OF create]
  have inv: "in_sync sample_vault_libs v1 (cv_header cv) mb1 rows1" "session_of v1"
    using sample_vault.core_step_inv [of "cv_header cv" "cv_session cv", OF _ s1] facts(1,2)
    by (simp_all add: core_inv_def)
  have run: "run_of (core_step sample_vault_libs (cv_header cv)) (v1, mb1, rows1)
      [Passkey_Asserted i (pr_rp_id p)] (v2, mb2, rows2)"
    using s2 by (blast intro: run_of.intros)
  obtain q where "vault_view sample_vault_libs v2 rows2 i = Some (Dec_Passkey q)"
    "unat (pr_signature_counter q) = 1"
    using signature_counter_counts_assertions [OF sample_vault.vault_crypto_axioms inv run, of i p]
      view new by (auto simp: passkey_created_def)
  then show ?thesis by (metis unat_1 word_unat_eq_iff)
qed



text \<open>Adding an account goes through and can be read back. With libraries that do not fail, a
  snapshot that authenticates and is not full, a clock that does not run backwards and a fresh
  identifier among the draws, the addition is prepared and stored, and looking the account up in the
  stored vault then returns exactly what was entered, at revision 1.\<close>

theorem added_account_is_read_back:
  assumes "vault_crypto L" and "libs_available L" and "in_sync L v hb mb rows" and "can_commit v t"
    and "length rows < 100000" and "input_ok L inp" and "allocate_record_id L v e = (e1, Ok i)"
  shows "\<exists>e' pm v' rows'.
    prepare_add_website_account_with_check L v hb mb rows inp t (\<lambda>_. False) e = (e', Ok pm)
    \<and> apply_to_expected_records rows pm = Ok rows'
    \<and> commit_record_mutation v pm = (v', Ok (pm_id pm))
    \<and> get_website_account L v' hb (pm_manifest_envelope pm) rows' (pm_id pm)
        = Ok (account_of (pm_id pm) 1 t t inp)"
proof -
  obtain e' pm where prep:
    "prepare_add_website_account_with_check L v hb mb rows inp t (\<lambda>_. False) e = (e', Ok pm)"
    using vault_crypto.add_account_succeeds [OF assms] by blast
  from vault_crypto.add_account_step [OF assms(1,6) prep] obtain v' rows' where
    st: "stored L v hb rows pm v' rows'"
    and step: "vault_step (vault_view L v rows) (Account_Added (pm_id pm) inp t) (vault_view L v' rows')"
    by blast
  have "vault_view L v' rows' (pm_id pm) = Some (Dec_Account (account_of (pm_id pm) 1 t t inp))"
    using step by (auto elim: vault_step.cases)
  moreover have sync: "in_sync L v' hb (pm_manifest_envelope pm) rows'"
    using st by (simp add: stored_def)
  ultimately have "get_website_account L v' hb (pm_manifest_envelope pm) rows' (pm_id pm)
      = Ok (account_of (pm_id pm) 1 t t inp)"
    using fold_find_account_view [of L v' rows' "pm_id pm"]
    by (simp add: get_website_account_def get_website_account_with_check_def result_simps
        visit_snapshot_Ok in_sync_iff)
  with prep st show ?thesis by (auto simp: stored_def)
qed

theorem added_account_is_read_back_witness:
  "\<exists>v hb mb rows i. get_website_account sample_vault_libs v hb mb rows i
     = Ok (account_of i 1 2000 2000 sample_account_input)"
proof (rule sample_history)
  fix e and cv :: created_vault
  assume create: "create_vault_with_entropy sample_vault_libs [1, 2, 3] 1000 0 = (e, Ok cv)"
  note facts = sample_vault.created_vault_facts [OF create]
  have "can_commit (cv_session cv) 2000"
    by (simp add: can_commit_def facts(5) Manifest_empty_def)
  moreover have "allocate_record_id sample_vault_libs (cv_session cv) 10
      = (10 + 1, Ok (replicate 16 (10 + 1)))"
    by (rule sample_allocations(1)) (simp add: facts(5) Manifest_empty_def)
  ultimately show ?thesis
    using added_account_is_read_back [OF sample_vault.vault_crypto_axioms sample_available facts(1) _
        _ sample_input_ok, of 2000] by fastforce
qed

end
