(* ===== verification/Agent_History.thy ===== *)
theory Agent_History
  imports Agent_Liveness Agent_Permits Vault_History
begin

text \<open>
  Properties of the agent around its vault: what a call leaves in the database, what a history of
  calls means for the records, when a permit holds, and that calls go through on a database that
  does not fail.
\<close>

context agent_store
begin

lemma agent_history:
  "run_of (agent_step L S root) s calls s' \<Longrightarrow> agent_inv L p committed root s \<Longrightarrow>
   run_of agent_spec (agent_contents L committed root s) calls (agent_contents L committed root s')
     \<and> agent_inv L p committed root s'"
  by (rule agent.sim_run)

end

section \<open>A sample agent\<close>

text \<open>An agent that created a vault at a path and is unlocked, over a database in memory.\<close>

definition sample_agent :: "path \<Rightarrow> created_vault \<Rightarrow> vault_agent" where
  "sample_agent p cv = \<lparr>va_path = Some p, va_session = Some (cv_session cv),
     va_authenticated_header = Some (cv_header cv),
     va_authenticated_manifest = Some (cv_manifest_envelope cv), va_session_id = Some 1,
     va_authorization_epoch = 1\<rparr>"

definition sample_world :: "created_vault \<Rightarrow> (vault_data, u8) agent_world" where
  "sample_world cv = \<lparr>aw_database = \<lparr>vd_header = cv_header cv, vd_manifest = cv_manifest_envelope cv,
     vd_records = []\<rparr>, aw_entropy = 10, aw_next_session_id = 2\<rparr>"

lemma sample_agent:
  obtains cv where
    "agent_inv sample_vault_libs p id (uv_root_key (cv_session cv)) (sample_agent p cv, sample_world cv)"
    "agent_synced sample_vault_libs (uv_root_key (cv_session cv)) (sample_agent p cv)
       (aw_database (sample_world cv)) (cv_session cv)"
    "password_wraps sample_vault_libs (cv_session cv) [1, 2, 3]"
    "can_commit (cv_session cv) 2000"
    "allocate_record_id sample_vault_libs (cv_session cv) 10 = (11, Ok (replicate 16 11))"
proof -
  let ?L = sample_vault_libs
  obtain e cv where create: "create_vault_with_entropy ?L [1, 2, 3] 1000 0 = (e, Ok cv)"
    using sample_vault.create_vault_succeeds [OF sample_available] by blast
  note facts = sample_vault.created_vault_facts [OF create]
  have sync: "agent_synced ?L (uv_root_key (cv_session cv)) (sample_agent p cv)
      (aw_database (sample_world cv)) (cv_session cv)"
    using facts(1,2) by (simp add: agent_synced_def sample_agent_def sample_world_def)
  then have "agent_inv ?L p id (uv_root_key (cv_session cv)) (sample_agent p cv, sample_world cv)"
    by (auto simp: agent_inv_def sample_agent_def)
  moreover have "can_commit (cv_session cv) 2000"
    "allocate_record_id ?L (cv_session cv) 10 = (11, Ok (replicate 16 11))"
    using sample_allocations(1) [of 10 "cv_session cv"]
    by (simp_all add: can_commit_def facts(5) Manifest_empty_def)
  ultimately show thesis using that sync facts(3) by blast
qed

section \<open>Properties\<close>

text \<open>C4: storing a mutation is atomic. Whatever the outcome, the database holds either what it held
  before or the expected snapshot with the whole mutation applied and the new manifest; success means
  the latter, and an aborted transaction the former.\<close>

theorem mutation_is_atomic:
  assumes "vault_database S committed pending"
    and "apply_record_mutation S hb mb rows m before_commit d = (d', r)"
  shows "let applied = committed d = \<lparr>vd_header = hb, vd_manifest = mb, vd_records = rows\<rparr>
      \<and> (\<exists>rows'. apply_to_expected_records rows m = Ok rows'
          \<and> committed d' = \<lparr>vd_header = hb, vd_manifest = pm_manifest_envelope m, vd_records = rows'\<rparr>)
    in (committed d' = committed d \<or> applied)
      \<and> (r = Ok () \<longrightarrow> applied) \<and> (r = Err Storage_Aborted \<longrightarrow> committed d' = committed d)"
  using vault_database.apply_atomic [OF assms] unfolding Let_def by blast

theorem mutation_is_atomic_witness:
  "\<exists>d'. apply_record_mutation memory_database [1] [2] [\<lparr>er_id = replicate 16 3, er_envelope = [4]\<rparr>]
     \<lparr>pm_kind = Delete, pm_id = replicate 16 3, pm_envelope = None, pm_manifest_envelope = [5],
        pm_expected_generation = 0, pm_next_manifest = Manifest_empty 0 0\<rparr> (Ok ())
     \<lparr>vd_header = [1], vd_manifest = [2], vd_records = [\<lparr>er_id = replicate 16 3, er_envelope = [4]\<rparr>]\<rparr>
     = (d', Ok ()) \<and> d' = \<lparr>vd_header = [1], vd_manifest = [5], vd_records = []\<rparr>"
proof -
  let ?rows = "[\<lparr>er_id = replicate 16 3, er_envelope = [4 :: u8]\<rparr>]"
    and ?m = "\<lparr>pm_kind = Delete, pm_id = replicate 16 3, pm_envelope = None, pm_manifest_envelope = [5],
        pm_expected_generation = 0, pm_next_manifest = Manifest_empty 0 0\<rparr>"
  let ?d = "\<lparr>vd_header = [1], vd_manifest = [2], vd_records = ?rows\<rparr>"
  have rows': "apply_to_expected_records ?rows ?m = Ok []"
    by (simp add: apply_to_expected_records_def)
  obtain d' where run: "apply_record_mutation memory_database [1] [2] ?rows ?m (Ok ()) ?d = (d', Ok ())"
    using memory.apply_succeeds [of ?d "[1]" "[2]" ?rows ?m "[]"] rows' by (auto simp: data_fits_def)
  show ?thesis
    using mutation_is_atomic [OF memory.vault_database_axioms run] run rows' by (simp add: Let_def)
qed







end
