(* ===== verification/Threads.thy ===== *)
theory Threads
  imports Prelude
begin

text \<open>
  Threads that share a state. A thread is a tree of atomic actions; an action may have to wait, as one
  that takes a mutex does, and what follows depends on the state it met. Threads interleave freely
  between actions. A thread is \<open>safe\<close> when, whatever the others do within its rely, each of its
  actions is within its guarantee; a pool of safe threads whose guarantees are within the relies of
  the others stays safe.
\<close>

section \<open>Threads\<close>

text \<open>\<open>Exhausted\<close> is a loop whose bound on the rounds is used up; it is neither waiting nor done.\<close>

datatype ('s, 'a) thread =
    Return 'a
  | Action "'s \<Rightarrow> bool" "'s \<Rightarrow> 's" "'s \<Rightarrow> ('s, 'a) thread"
  | Exhausted

primrec thread_then :: "('s, 'a) thread \<Rightarrow> ('a \<Rightarrow> ('s, 'b) thread) \<Rightarrow> ('s, 'b) thread" where
  "thread_then (Return x) k = k x"
| "thread_then (Action ready update rest) k = Action ready update (\<lambda>s. thread_then (rest s) k)"
| "thread_then Exhausted k = Exhausted"

definition atomically :: "('s \<Rightarrow> 's \<times> 'a) \<Rightarrow> ('s, 'a) thread" where
  "atomically f = Action (\<lambda>_. True) (\<lambda>s. fst (f s)) (\<lambda>s. Return (snd (f s)))"

definition observe :: "('s \<Rightarrow> 'a) \<Rightarrow> ('s, 'a) thread" where
  "observe f = Action (\<lambda>_. True) (\<lambda>s. s) (\<lambda>s. Return (f s))"

definition wait_until :: "('s \<Rightarrow> bool) \<Rightarrow> ('s \<Rightarrow> 's) \<Rightarrow> ('s, unit) thread" where
  "wait_until ready update = Action ready update (\<lambda>_. Return ())"

text \<open>\<open>?\<close> on the outcome of a thread.\<close>

definition thread_try ::
    "('s, ('a, 'e) result) thread \<Rightarrow> ('a \<Rightarrow> ('s, ('b, 'e) result) thread) \<Rightarrow> ('s, ('b, 'e) result) thread"
  where
  "thread_try p k = thread_then p (\<lambda>r. case r of
     Ok x \<Rightarrow> k x | Err e \<Rightarrow> Return (Err e) | Panic \<Rightarrow> Return Panic)"

definition result_try ::
    "('a, 'e) result \<Rightarrow> ('a \<Rightarrow> ('s, ('b, 'e) result) thread) \<Rightarrow> ('s, ('b, 'e) result) thread" where
  "result_try r k = (case r of Ok x \<Rightarrow> k x | Err e \<Rightarrow> Return (Err e) | Panic \<Rightarrow> Return Panic)"

lemma thread_then_simps:
  "thread_then (atomically f) k = Action (\<lambda>_. True) (\<lambda>s. fst (f s)) (\<lambda>s. k (snd (f s)))"
  "thread_then (observe g) k = Action (\<lambda>_. True) (\<lambda>s. s) (\<lambda>s. k (g s))"
  by (simp_all add: atomically_def observe_def)

lemma thread_then_assoc: "thread_then (thread_then p f) g = thread_then p (\<lambda>x. thread_then (f x) g)"
  by (induction p) simp_all

section \<open>Rely and guarantee\<close>

primrec safe ::
    "('s \<Rightarrow> 's \<Rightarrow> bool) \<Rightarrow> ('s \<Rightarrow> 's \<Rightarrow> bool) \<Rightarrow> ('s \<Rightarrow> bool) \<Rightarrow> ('a \<Rightarrow> 's \<Rightarrow> bool)
       \<Rightarrow> ('s, 'a) thread \<Rightarrow> 's \<Rightarrow> bool" where
  "safe R G W Q (Return x) s = (\<forall>s'. R\<^sup>*\<^sup>* s s' \<longrightarrow> Q x s')"
| "safe R G W Q (Action ready update rest) s =
     (\<forall>s'. R\<^sup>*\<^sup>* s s' \<longrightarrow> (if ready s' then G s' (update s') \<and> safe R G W Q (rest s') (update s') else W s'))"
| "safe R G W Q Exhausted s = True"

lemma safe_rely:
  assumes "safe R G W Q p s" and "R\<^sup>*\<^sup>* s s'"
  shows "safe R G W Q p s'"
  using assms by (cases p) (auto dest: rtranclp_trans)

lemma safe_mono:
  assumes "safe R G W Q p s" and "\<And>x s. Q x s \<Longrightarrow> Q' x s"
  shows "safe R G W Q' p s"
  using assms(1) by (induction p arbitrary: s) (auto intro: assms(2))

lemma safe_then:
  assumes "safe R G W (\<lambda>x s. safe R G W Q (k x) s) p s"
  shows "safe R G W Q (thread_then p k) s"
  using assms by (induction p arbitrary: s) auto

text \<open>A thread that nobody disturbs; \<open>None\<close> when it waits for ever.\<close>

primrec run_alone :: "('s, 'a) thread \<Rightarrow> 's \<Rightarrow> ('s \<times> 'a) option" where
  "run_alone (Return x) s = Some (s, x)"
| "run_alone (Action ready update rest) s = (if ready s then run_alone (rest s) (update s) else None)"
| "run_alone Exhausted s = None"

lemma run_alone_then:
  "run_alone (thread_then p k) s = Option.bind (run_alone p s) (\<lambda>(s, x). run_alone (k x) s)"
  by (induction p arbitrary: s) simp_all

section \<open>Pools\<close>

text \<open>
  An idle thread starts one of its programs; the environment, a clock for instance, changes the state
  on its own.
\<close>

inductive pool_step ::
    "(nat \<Rightarrow> ('s, 'a) thread \<Rightarrow> bool) \<Rightarrow> ('s \<Rightarrow> 's \<Rightarrow> bool)
       \<Rightarrow> 's \<times> (nat \<Rightarrow> ('s, 'a) thread) \<Rightarrow> nat option \<Rightarrow> 's \<times> (nat \<Rightarrow> ('s, 'a) thread) \<Rightarrow> bool"
  for programs env where
  pool_act: "pool i = Action ready update rest \<Longrightarrow> ready s
    \<Longrightarrow> pool_step programs env (s, pool) (Some i) (update s, pool(i := rest s))"
| pool_start: "pool i = Return x \<Longrightarrow> programs i p
    \<Longrightarrow> pool_step programs env (s, pool) None (s, pool(i := p))"
| pool_env: "env s s' \<Longrightarrow> pool_step programs env (s, pool) None (s', pool)"

text \<open>A thread that nobody disturbs.\<close>

lemma alone_run:
  assumes "run_alone p s = Some (s', x)" and "pool i = p"
  shows "\<exists>ls. run_of (pool_step programs env) (s, pool) ls (s', pool(i := Return x))"
  using assms
proof (induction p arbitrary: s pool)
  case (Return y)
  then have "pool(i := Return x) = pool" by auto
  with Return show ?case by (auto intro: run_Nil)
next
  case (Action ready update rest)
  then have step: "pool_step programs env (s, pool) (Some i) (update s, pool(i := rest s))"
    and later: "run_alone (rest s) (update s) = Some (s', x)"
    by (auto intro: pool_act split: if_splits)
  then obtain ls where "run_of (pool_step programs env) (update s, pool(i := rest s)) ls (s', pool(i := Return x))"
    using Action.IH [OF rangeI later, of "pool(i := rest s)"] unfolding fun_upd_upd fun_upd_same by blast
  with step show ?case by (blast intro: run_Cons)
qed simp

locale thread_pool =
  fixes programs :: "nat \<Rightarrow> ('s, 'a) thread \<Rightarrow> bool"
    and env :: "'s \<Rightarrow> 's \<Rightarrow> bool"
    and R :: "nat \<Rightarrow> 's \<Rightarrow> 's \<Rightarrow> bool"
    and G :: "nat \<Rightarrow> 's \<Rightarrow> 's \<Rightarrow> bool"
    and W :: "nat \<Rightarrow> 's \<Rightarrow> bool"
    and idle :: "nat \<Rightarrow> 's \<Rightarrow> bool"
  assumes others: "G i s s' \<Longrightarrow> i \<noteq> j \<Longrightarrow> R j s s'"
    and env_rely: "env s s' \<Longrightarrow> R j s s'"
    and programs_safe: "programs i p \<Longrightarrow> idle i s \<Longrightarrow> safe (R i) (G i) (W i) (\<lambda>_. idle i) p s"
begin

definition pool_safe :: "'s \<times> (nat \<Rightarrow> ('s, 'a) thread) \<Rightarrow> bool" where
  "pool_safe = (\<lambda>(s, pool). \<forall>i. safe (R i) (G i) (W i) (\<lambda>_. idle i) (pool i) s)"

lemma pool_step_safe:
  assumes "pool_step programs env c l c'" and "pool_safe c"
  shows "pool_safe c' \<and> (case l of
      Some i \<Rightarrow> G i (fst c) (fst c') | None \<Rightarrow> fst c' = fst c \<or> env (fst c) (fst c'))"
  using assms(1)
proof cases
  case (pool_act pool i ready update rest s)
  have "safe (R i) (G i) (W i) (\<lambda>_. idle i) (Action ready update rest) s"
    using assms(2) pool_act by (metis (mono_tags, lifting) case_prod_conv pool_safe_def)
  then have step: "G i s (update s)" "safe (R i) (G i) (W i) (\<lambda>_. idle i) (rest s) (update s)"
    using pool_act(5) by auto
  have "safe (R j) (G j) (W j) (\<lambda>_. idle j) (pool j) (update s)" if "j \<noteq> i" for j
    using assms(2) pool_act(1) others [OF step(1), of j] that
    by (auto simp: pool_safe_def intro: safe_rely)
  with step pool_act show ?thesis by (simp add: pool_safe_def)
next
  case (pool_start pool i x p s)
  have "safe (R i) (G i) (W i) (\<lambda>_. idle i) (Return x) s"
    using assms(2) pool_start by (metis (mono_tags, lifting) case_prod_conv pool_safe_def)
  then have "idle i s" by auto
  then show ?thesis using assms(2) pool_start programs_safe by (simp add: pool_safe_def)
next
  case (pool_env s s' pool)
  then show ?thesis
    using assms(2) env_rely by (auto simp: pool_safe_def intro: safe_rely [OF _ r_into_rtranclp])
qed

text \<open>A thread that cannot act waits where it may.\<close>

lemma pool_waits:
  assumes "pool_safe (s, pool)" and "pool i = Action ready update rest" and "\<not> ready s"
  shows "W i s"
proof -
  have "safe (R i) (G i) (W i) (\<lambda>_. idle i) (Action ready update rest) s"
    using assms(1,2) unfolding pool_safe_def by (metis (mono_tags, lifting) case_prod_conv)
  then show ?thesis using assms(3) by auto
qed

lemma pool_idle:
  assumes "pool_safe (s, pool)" and "pool i = Return x"
  shows "idle i s"
proof -
  have "safe (R i) (G i) (W i) (\<lambda>_. idle i) (Return x) s"
    using assms unfolding pool_safe_def by (metis (mono_tags, lifting) case_prod_conv)
  then show ?thesis by auto
qed

lemma pool_run_safe:
  assumes "run_of (pool_step programs env) c ls c'" and "pool_safe c"
  shows "pool_safe c'"
  using assms by (rule run_of_invariant) (blast dest: pool_step_safe)

text \<open>An invariant of every guarantee and of the environment holds throughout.\<close>

lemma pool_invariant:
  assumes "run_of (pool_step programs env) c ls c'" and "pool_safe c" and "I (fst c)"
    and "\<And>i s s'. G i s s' \<Longrightarrow> I s \<Longrightarrow> I s'" and "\<And>s s'. env s s' \<Longrightarrow> I s \<Longrightarrow> I s'"
  shows "I (fst c')"
proof -
  have "pool_safe c' \<and> I (fst c')"
    using assms(1-3)
  proof (induction rule: run_of.induct)
    case (run_Cons c l c1 ls c')
    have "I (fst c1)"
      using pool_step_safe [OF run_Cons.hyps(1) run_Cons.prems(1)] run_Cons.prems(2) assms(4,5)
      by (auto split: option.splits)
    with pool_step_safe [OF run_Cons.hyps(1) run_Cons.prems(1)] run_Cons.IH show ?case by blast
  qed simp
  then show ?thesis by simp
qed

end

end
