(* ===== verification/Runtime_Outcome.thy ===== *)
theory Runtime_Outcome
  imports Agent_Vault Protocol_Results Protocol_Session
begin

text \<open>
  What the agent's runtime (runtime.rs) makes of the results of the vault: the outcome of one
  execution, the mapping of errors to public codes, what is remembered for a replay, and the page of
  account summaries that fits one response.
\<close>

section \<open>Outcomes\<close>

datatype dispatch_error = Dispatch_Connection connection_error | Dispatch_Internal

text \<open>An \<open>Instant\<close> is a number of nanoseconds; its representation holds 64 bits of seconds.\<close>

type_synonym instant = nat

definition instant_checked_add :: "instant \<Rightarrow> nat \<Rightarrow> instant option" where
  "instant_checked_add t d = (if t + d < 2 ^ 64 * 10 ^ 9 then Some (t + d) else None)"

record execution_outcome =
  eo_error :: "public_error_code option"
  eo_retry :: retry_category
  eo_body :: bytes
  eo_replayed :: bool
  eo_holds_lock_transition :: bool
  eo_committed :: bool
  eo_browser_generation :: "u64 option"
  eo_browser_deadline :: "instant option"

definition outcome_success :: "bytes \<Rightarrow> execution_outcome" where
  "outcome_success body = \<lparr>eo_error = None, eo_retry = Retry_Never, eo_body = body, eo_replayed = False,
     eo_holds_lock_transition = False, eo_committed = False, eo_browser_generation = None,
     eo_browser_deadline = None\<rparr>"

definition outcome_failure :: "public_error_code \<Rightarrow> retry_category \<Rightarrow> execution_outcome" where
  "outcome_failure error retry = \<lparr>eo_error = Some error, eo_retry = retry, eo_body = [],
     eo_replayed = False, eo_holds_lock_transition = False, eo_committed = False,
     eo_browser_generation = None, eo_browser_deadline = None\<rparr>"

definition commit_point :: "execution_outcome \<Rightarrow> execution_outcome" where
  "commit_point x = x\<lparr>eo_committed := True\<rparr>"

definition hold_lock_transition :: "execution_outcome \<Rightarrow> execution_outcome" where
  "hold_lock_transition x = x\<lparr>eo_holds_lock_transition := True\<rparr>"

definition outcome_invalid :: execution_outcome where
  "outcome_invalid = outcome_failure Code_InvalidRequest Retry_Never"

definition outcome_locked :: execution_outcome where
  "outcome_locked = outcome_failure Code_Locked Retry_AfterUnlock"

definition outcome_busy :: execution_outcome where
  "outcome_busy = outcome_failure Code_Busy Retry_Backoff"

definition outcome_cancelled :: execution_outcome where
  "outcome_cancelled = outcome_failure Code_Cancelled Retry_Never"

definition outcome_deadline :: execution_outcome where
  "outcome_deadline = outcome_failure Code_DeadlineExceeded Retry_Never"

definition outcome_failed :: execution_outcome where
  "outcome_failed = outcome_failure Code_OperationFailed Retry_Never"

definition retryable_failure :: execution_outcome where
  "retryable_failure = outcome_failure Code_OperationFailed Retry_Backoff"

abbreviation map_ok :: "('a \<Rightarrow> 'b) \<Rightarrow> ('a, 'e) result \<Rightarrow> ('b, 'e) result" where
  "map_ok f \<equiv> map_result f id"

text \<open>A protocol error of the runtime's own encoders is internal.\<close>

definition from_protocol :: "('a, protocol_error) result \<Rightarrow> ('a, dispatch_error) result" where
  "from_protocol r = map_err (\<lambda>_. Dispatch_Internal) r"

definition into_response ::
    "execution_outcome \<Rightarrow> bytes \<Rightarrow> (response_envelope, dispatch_error) result" where
  "into_response outcome correlation =
     (case eo_error outcome of
        Some error \<Rightarrow> from_protocol (ResponseEnvelope_failure error (eo_retry outcome) correlation)
      | None \<Rightarrow> map_err (\<lambda>_. Dispatch_Internal) (ResponseEnvelope_success correlation (eo_body outcome)))"

definition bounded_response ::
    "connection \<Rightarrow> response_envelope \<Rightarrow> bytes \<Rightarrow> (response_envelope, dispatch_error) result" where
  "bounded_response connection response correlation =
     (if Connection_response_fits connection response then Ok response else
      and_then (from_protocol (ResponseEnvelope_failure Code_OperationFailed Retry_Never correlation))
        (\<lambda>failure. if \<not> Connection_response_fits connection failure
                   then Err (Dispatch_Connection InvalidLimit) else Ok failure))"

definition request_deadline :: "instant \<Rightarrow> u32 \<Rightarrow> (instant, dispatch_error) result" where
  "request_deadline started effective_timeout_ms =
     ok_or Dispatch_Internal (instant_checked_add started (unat effective_timeout_ms * 10 ^ 6))"

section \<open>Mapping of errors\<close>

datatype passkey_verification_error = Verify_Invalid | Verify_Unavailable | Verify_Failed

datatype windows_hello_provider_error =
    Provider_InvalidRequest | Provider_Unavailable | Provider_Cancelled | Provider_Failed
  | Provider_RemovalFailed | Provider_CleanupRequired bytes

definition map_operation_decode_error :: "protocol_error \<Rightarrow> execution_outcome" where
  "map_operation_decode_error error =
     (if error = Unsupported then outcome_failed else outcome_invalid)"

fun map_account_error :: "account_error \<Rightarrow> execution_outcome" where
  "map_account_error Acc_Locked = outcome_locked"
| "map_account_error Acc_NotFound = outcome_failure Code_NotFound Retry_Never"
| "map_account_error Acc_Conflict = outcome_failure Code_Conflict Retry_Never"
| "map_account_error Acc_Aborted = outcome_failed"
| "map_account_error Acc_Failed = outcome_failed"

fun map_passkey_verification_error :: "passkey_verification_error \<Rightarrow> execution_outcome" where
  "map_passkey_verification_error Verify_Invalid = outcome_invalid"
| "map_passkey_verification_error Verify_Unavailable = outcome_failed"
| "map_passkey_verification_error Verify_Failed = outcome_failed"

fun map_windows_hello_provider_error :: "windows_hello_provider_error \<Rightarrow> execution_outcome" where
  "map_windows_hello_provider_error Provider_InvalidRequest = outcome_invalid"
| "map_windows_hello_provider_error Provider_Cancelled = outcome_cancelled"
| "map_windows_hello_provider_error Provider_Unavailable = outcome_failed"
| "map_windows_hello_provider_error Provider_Failed = outcome_failed"
| "map_windows_hello_provider_error Provider_RemovalFailed = outcome_failed"
| "map_windows_hello_provider_error (Provider_CleanupRequired _) = outcome_failed"

definition should_cache :: "execution_outcome \<Rightarrow> bool" where
  "should_cache outcome \<longleftrightarrow> eo_error outcome = None
     \<or> eo_error outcome = Some Code_InvalidRequest \<or> eo_error outcome = Some Code_NotFound
     \<or> eo_error outcome = Some Code_Conflict
     \<or> eo_error outcome = Some Code_OperationFailed \<and> eo_retry outcome = Retry_Never"

definition decode_state :: "u8 \<Rightarrow> Protocol_Types.agent_state" where
  "decode_state v =
     (if v = AgentState_code St_Starting then St_Starting
      else if v = AgentState_code St_NoVault then St_NoVault
      else if v = AgentState_code St_Locked then St_Locked
      else if v = AgentState_code St_Unlocking then St_Unlocking
      else if v = AgentState_code St_Unlocked then St_Unlocked
      else if v = AgentState_code St_Updating then St_Updating
      else if v = AgentState_code St_ShuttingDown then St_ShuttingDown
      else St_ShuttingDown)"

section \<open>Accounts on the wire\<close>

definition account_input ::
    "url_parser \<Rightarrow> account_fields \<Rightarrow> (website_account_input, unit) result" where
  "account_input url f = map_err (\<lambda>_. ())
     (WebsiteAccountInput_new url (af_service_name f) (af_permitted_origin f)
        (af_username f) (af_password f))"

definition account_view_of :: "core_account \<Rightarrow> account_view" where
  "account_view_of account = \<lparr>av_id = ac_id account, av_revision = ac_revision account,
     av_created_at_ms = ac_created_at_ms account, av_modified_at_ms = ac_modified_at_ms account,
     av_service_name = ac_service_name account, av_permitted_origin = ac_permitted_origin account,
     av_username = ac_username account, av_password = ac_password account\<rparr>"

text \<open>
  The bisection for the longest page: \<open>lower\<close> and \<open>upper\<close> bound the number of accounts still to try,
  \<open>best\<close> is the longest page found to fit. \<open>count - 1\<close> would underflow on 0.
\<close>

function page_bisect ::
    "minicbor \<Rightarrow> account_view list \<Rightarrow> u32 \<Rightarrow> bool \<Rightarrow> nat \<Rightarrow> nat \<Rightarrow> bytes option
       \<Rightarrow> (bytes option, dispatch_error) result" where
  "page_bisect mc views offset source_has_more lower upper best =
     (if lower \<le> upper then
        let count = lower + (upper - lower) div 2;
            has_more = (source_has_more \<or> count < length views)
        in and_then
          (if has_more
           then and_then (ok_or Dispatch_Internal (if count < 2 ^ 32 then Some (of_nat count) else None))
                  (\<lambda>n. map_ok Some (ok_or Dispatch_Internal (u32_checked_add offset n)))
           else Ok None) (\<lambda>next_offset.
          case encode_account_summaries mc (take count views) next_offset of
            Ok body \<Rightarrow> page_bisect mc views offset source_has_more (count + 1) upper (Some body)
          | Err TooLarge \<Rightarrow>
              if count = 0 then Panic
              else page_bisect mc views offset source_has_more lower (count - 1) best
          | Err _ \<Rightarrow> Err Dispatch_Internal
          | Panic \<Rightarrow> Panic)
      else Ok best)"
  by pat_completeness auto

termination
  by (relation "measure (\<lambda>(_, _, _, _, lower, upper, _). Suc upper - lower)") auto

declare page_bisect.simps [simp del]

definition encode_summary_page ::
    "minicbor \<Rightarrow> account_view list \<Rightarrow> u32 \<Rightarrow> bool \<Rightarrow> (execution_outcome, dispatch_error) result" where
  "encode_summary_page mc views offset source_has_more =
     (if views = [] then
        (if source_has_more then Ok outcome_failed
         else from_protocol (map_ok outcome_success (encode_account_summaries mc views None)))
      else map_ok (\<lambda>best. case best of None \<Rightarrow> outcome_failed | Some body \<Rightarrow> outcome_success body)
             (page_bisect mc views offset source_has_more 1 (length views) None))"


section \<open>The longest page that fits\<close>

definition page_fits :: "account_view list \<Rightarrow> bool" where
  "page_fits accounts \<longleftrightarrow> length accounts \<le> 100 \<and> list_all summary_fields_ok accounts
     \<and> 8 + sum_list (map summary_cost accounts) \<le> 65440"

lemma sum_list_take: "m \<le> n \<Longrightarrow> sum_list (take m xs) \<le> sum_list (take n xs)" for xs :: "nat list"
proof -
  assume "m \<le> n"
  then have "take n xs = take m xs @ take (n - m) (drop m xs)" by (metis le_add_diff_inverse take_add)
  then show ?thesis by simp
qed

lemma page_fits_shorter: "page_fits (take n views) \<Longrightarrow> m \<le> n \<Longrightarrow> page_fits (take m views)"
  using sum_list_take [of m n "map summary_cost views"] set_take_subset_set_take [of m n views]
  by (auto simp: page_fits_def list_all_iff take_map)

definition next_page_offset :: "account_view list \<Rightarrow> u32 \<Rightarrow> bool \<Rightarrow> nat \<Rightarrow> u32 option" where
  "next_page_offset views offset source_has_more n =
     (if source_has_more \<or> n < length views then Some (offset + of_nat n) else None)"

definition page_of :: "minicbor \<Rightarrow> account_view list \<Rightarrow> u32 \<Rightarrow> bool \<Rightarrow> nat \<Rightarrow> bytes option" where
  "page_of mc views offset source_has_more n =
     (if n = 0 then None
      else Some (AccountSummaries_wire mc (take n views) (next_page_offset views offset source_has_more n)))"

text \<open>The number of accounts on the longest page.\<close>

definition longest_page :: "account_view list \<Rightarrow> nat \<Rightarrow> bool" where
  "longest_page views n \<longleftrightarrow> n \<le> length views \<and> (n \<noteq> 0 \<longrightarrow> page_fits (take n views))
     \<and> (n < length views \<longrightarrow> \<not> page_fits (take (Suc n) views))"

context minicbor_spec
begin

lemma encode_page_eq:
  assumes "list_all (\<lambda>a. length (av_id a) = 16) views"
  shows "encode_account_summaries mc (take n views) next_offset
    = (if page_fits (take n views) then Ok (AccountSummaries_wire mc (take n views) next_offset)
       else Err TooLarge)"
proof -
  have "list_all (\<lambda>a. length (av_id a) = 16) (take n views)"
    using assms by (auto simp: list_all_iff dest: in_set_takeD)
  from encode_account_summaries_eq [OF this, of next_offset] show ?thesis
    by (auto simp: page_fits_def not_le)
qed

lemma page_bisect_longest:
  assumes ids: "list_all (\<lambda>a. length (av_id a) = 16) views"
    and room: "unat offset + length views < 2 ^ 32"
    and "0 < lower" "lower \<le> Suc upper" "upper \<le> length views"
    and "best = page_of mc views offset source_has_more (lower - 1)"
    and "lower \<noteq> 1 \<longrightarrow> page_fits (take (lower - 1) views)"
    and "upper < length views \<longrightarrow> \<not> page_fits (take (Suc upper) views)"
  shows "\<exists>n. longest_page views n
    \<and> page_bisect mc views offset source_has_more lower upper best
      = Ok (page_of mc views offset source_has_more n)"
  using assms(3-)
proof (induction "Suc upper - lower" arbitrary: lower upper best rule: less_induct)
  case less
  show ?case
  proof (cases "lower \<le> upper")
    case True
    define count where "count = lower + (upper - lower) div 2"
    have c: "lower \<le> count" "count \<le> upper" "count \<noteq> 0" "count < 2 ^ 32"
      using True less.prems room by (auto simp: count_def)
    have next_ok: "(if source_has_more \<or> count < length views
        then and_then (ok_or Dispatch_Internal (if count < 2 ^ 32 then Some (of_nat count) else None))
               (\<lambda>n. map_ok Some (ok_or Dispatch_Internal (u32_checked_add offset n)))
        else Ok None) = Ok (next_page_offset views offset source_has_more count)"
      using c less.prems(3) room
      by (auto simp: next_page_offset_def u32_checked_add_def unat_of_nat)
    note unfolded = page_bisect.simps [of mc views offset source_has_more lower upper best,
        folded count_def, unfolded Let_def, folded count_def, unfolded next_ok encode_page_eq [OF ids]]
    show ?thesis
    proof (cases "page_fits (take count views)")
      case fits: True
      have "page_bisect mc views offset source_has_more lower upper best
          = page_bisect mc views offset source_has_more (count + 1) upper
              (page_of mc views offset source_has_more count)"
        using unfolded fits True c by (simp add: page_of_def)
      then show ?thesis
        using less.hyps [of upper "count + 1"] less.prems c fits by auto
    next
      case False
      have "page_bisect mc views offset source_has_more lower upper best
          = page_bisect mc views offset source_has_more lower (count - 1) best"
        using unfolded False True c by simp
      then show ?thesis
        using less.hyps [of "count - 1" lower] less.prems c False by auto
    qed
  next
    case False
    then have "upper = lower - 1" using less.prems by simp
    moreover have "page_bisect mc views offset source_has_more lower upper best = Ok best"
      using False by (simp add: page_bisect.simps)
    ultimately show ?thesis
      using less.prems by (auto simp: longest_page_def intro!: exI [of _ "lower - 1"])
  qed
qed

end

section \<open>Properties\<close>



end
