(* ===== verification/Runtime_Idempotency.thy ===== *)
theory Runtime_Idempotency
  imports Runtime_Outcome "HOL-Library.Finite_Map"
begin

text \<open>
  The idempotency store of the runtime: which requests are running, and what the finished ones
  answered. Every operation runs under one mutex and is one step; a reservation is a value that its
  owner completes or drops.
\<close>

section \<open>State\<close>

record cached_outcome =
  co_request_fingerprint :: bytes
  co_error :: "public_error_code option"
  co_retry :: retry_category
  co_body :: bytes

record idempotency_state =
  is_authenticated_vault_id :: "bytes option"
  is_cached :: "(bytes, cached_outcome) fmap"
  is_insertion_order :: "bytes list"
  is_in_flight :: "bytes fset"

definition MAX_IDEMPOTENCY_RESULTS :: nat where [simp]: "MAX_IDEMPOTENCY_RESULTS = 1024"

definition IdempotencyState_new :: idempotency_state where
  "IdempotencyState_new = \<lparr>is_authenticated_vault_id = None, is_cached = fmempty,
     is_insertion_order = [], is_in_flight = {||}\<rparr>"

section \<open>Operations\<close>

text \<open>The eviction loop: the oldest results go until there is room; none left is \<open>busy\<close>.\<close>

fun evict ::
    "bytes fset \<Rightarrow> (bytes, cached_outcome) fmap \<Rightarrow> bytes list
       \<Rightarrow> (bytes, cached_outcome) fmap \<times> bytes list \<times> bool" where
  "evict in_flight cached order =
     (if (case usize_checked_add (fcard (fmdom cached)) (fcard in_flight) of
            None \<Rightarrow> True | Some count \<Rightarrow> count \<ge> MAX_IDEMPOTENCY_RESULTS)
      then (case order of
              [] \<Rightarrow> (cached, [], False)
            | oldest # order \<Rightarrow> evict in_flight (fmdrop oldest cached) order)
      else (cached, order, True))"

declare evict.simps [simp del]

datatype idempotency_admission = Reserved | Replay execution_outcome | Refused execution_outcome

definition replay_of :: "cached_outcome \<Rightarrow> execution_outcome" where
  "replay_of c = \<lparr>eo_error = co_error c, eo_retry = co_retry c, eo_body = co_body c,
     eo_replayed = True, eo_holds_lock_transition = False, eo_committed = False,
     eo_browser_generation = None, eo_browser_deadline = None\<rparr>"

definition idempotency_reserve ::
    "bytes \<Rightarrow> bytes \<Rightarrow> idempotency_state \<Rightarrow> idempotency_state \<times> idempotency_admission" where
  "idempotency_reserve key request_fingerprint st =
     (case fmlookup (is_cached st) key of
        Some cached \<Rightarrow>
          if co_request_fingerprint cached \<noteq> request_fingerprint
          then (st, Refused (outcome_failure Code_Conflict Retry_Never))
          else (st, Replay (replay_of cached))
      | None \<Rightarrow>
          if key |\<in>| is_in_flight st then (st, Refused outcome_busy) else
          (case evict (is_in_flight st) (is_cached st) (is_insertion_order st) of
             (cached, order, room) \<Rightarrow>
               let st = st\<lparr>is_cached := cached, is_insertion_order := order\<rparr> in
               if \<not> room then (st, Refused outcome_busy)
               else (st\<lparr>is_in_flight := finsert key (is_in_flight st)\<rparr>, Reserved)))"

definition cached_outcome_of :: "bytes \<Rightarrow> execution_outcome \<Rightarrow> cached_outcome option" where
  "cached_outcome_of request_fingerprint outcome =
     (if should_cache outcome
      then Some \<lparr>co_request_fingerprint = request_fingerprint, co_error = eo_error outcome,
             co_retry = eo_retry outcome, co_body = eo_body outcome\<rparr>
      else None)"

definition reservation_drop :: "bytes \<Rightarrow> idempotency_state \<Rightarrow> idempotency_state" where
  "reservation_drop key st = st\<lparr>is_in_flight := is_in_flight st |-| {|key|}\<rparr>"

text \<open>A completion that fails leaves the reservation active, and dropping it removes the key.\<close>

definition reservation_complete ::
    "bytes \<Rightarrow> cached_outcome option \<Rightarrow> idempotency_state
       \<Rightarrow> idempotency_state \<times> (unit, dispatch_error) result" where
  "reservation_complete key cached st =
     (if key |\<notin>| is_in_flight st then (reservation_drop key st, Err Dispatch_Internal) else
      let st = st\<lparr>is_in_flight := is_in_flight st |-| {|key|}\<rparr> in
      case cached of
        None \<Rightarrow> (st, Ok ())
      | Some c \<Rightarrow>
          let occupied = (fmlookup (is_cached st) key \<noteq> None);
              st = st\<lparr>is_cached := fmupd key c (is_cached st)\<rparr>
          in if occupied then (reservation_drop key st, Err Dispatch_Internal)
             else (st\<lparr>is_insertion_order := is_insertion_order st @ [key]\<rparr>, Ok ()))"

definition initialize_idempotency_vault ::
    "bytes \<Rightarrow> idempotency_state \<Rightarrow> idempotency_state \<times> (unit, dispatch_error) result" where
  "initialize_idempotency_vault vid st =
     (case is_authenticated_vault_id st of
        Some current \<Rightarrow> if current \<noteq> vid then (st, Err Dispatch_Internal) else (st, Ok ())
      | None \<Rightarrow> (st\<lparr>is_cached := fmempty, is_insertion_order := [],
                    is_authenticated_vault_id := Some vid\<rparr>, Ok ()))"

definition bind_authenticated_idempotency_vault ::
    "bytes \<Rightarrow> idempotency_state \<Rightarrow> idempotency_state \<times> (unit, dispatch_error) result" where
  "bind_authenticated_idempotency_vault vid st =
     (if is_authenticated_vault_id st = Some vid then (st, Ok ())
      else if is_in_flight st \<noteq> {||} then (st, Err Dispatch_Internal)
      else (st\<lparr>is_cached := fmempty, is_insertion_order := [],
               is_authenticated_vault_id := Some vid\<rparr>, Ok ()))"

section \<open>Invariant\<close>

definition idempotency_inv :: "idempotency_state \<Rightarrow> bool" where
  "idempotency_inv st \<longleftrightarrow> distinct (is_insertion_order st)
     \<and> set (is_insertion_order st) = fmdom' (is_cached st)
     \<and> (\<forall>key. key |\<in>| is_in_flight st \<longrightarrow> fmlookup (is_cached st) key = None)
     \<and> length (is_insertion_order st) + fcard (is_in_flight st) \<le> MAX_IDEMPOTENCY_RESULTS"

lemma fcard_order:
  assumes "distinct order" and "set order = fmdom' cached"
  shows "fcard (fmdom cached) = length order"
  using assms by (metis distinct_card fcard.rep_eq fmdom'_alt_def)

lemma fcard_remove: "x |\<in>| A \<Longrightarrow> Suc (fcard (A |-| {|x|})) = fcard A"
  by (metis fcard_Suc_fminus1)

lemma fcard_remove_le: "fcard (A |-| {|x|}) \<le> fcard A"
  by (simp add: fcard.rep_eq card_Diff1_le)

text \<open>The loop removes the oldest result when there is no room for one more.\<close>

lemma evict_drops:
  assumes "distinct order" and "set order = fmdom' cached"
    and "length order + fcard in_flight \<le> MAX_IDEMPOTENCY_RESULTS"
  shows "evict in_flight cached order =
    (if length order + fcard in_flight < MAX_IDEMPOTENCY_RESULTS then (cached, order, True)
     else case order of [] \<Rightarrow> (cached, [], False) | oldest # rest \<Rightarrow> (fmdrop oldest cached, rest, True))"
proof (cases "length order + fcard in_flight < MAX_IDEMPOTENCY_RESULTS")
  case True
  then show ?thesis
    using fcard_order [OF assms(1,2)]
    by (subst evict.simps) (simp add: usize_checked_add_def)
next
  case full: False
  show ?thesis
  proof (cases order)
    case Nil
    then show ?thesis
      using full assms(3) fcard_order [OF assms(1,2)]
      by (subst evict.simps) (simp add: usize_checked_add_def)
  next
    case (Cons oldest rest)
    have rest: "distinct rest" "set rest = fmdom' (fmdrop oldest cached)"
      using assms(1,2) Cons by auto
    have len: "Suc (length rest) + fcard in_flight = 1024" using full assms(3) Cons by simp
    have "evict in_flight (fmdrop oldest cached) rest = (fmdrop oldest cached, rest, True)"
      using fcard_order [OF rest] len
      by (subst evict.simps) (simp add: usize_checked_add_def)
    moreover have "evict in_flight cached order = evict in_flight (fmdrop oldest cached) rest"
      using fcard_order [OF assms(1,2)] Cons len
      by (subst evict.simps) (simp add: usize_checked_add_def)
    ultimately show ?thesis using Cons full by simp
  qed
qed

inductive reserves ::
    "bytes \<Rightarrow> bytes \<Rightarrow> idempotency_state \<Rightarrow> idempotency_state \<Rightarrow> idempotency_admission \<Rightarrow> bool"
  for key fp st where
  reserves_known: "fmlookup (is_cached st) key = Some c \<Longrightarrow>
    reserves key fp st st (if co_request_fingerprint c = fp then Replay (replay_of c)
      else Refused (outcome_failure Code_Conflict Retry_Never))"
| reserves_running: "key |\<in>| is_in_flight st \<Longrightarrow> reserves key fp st st (Refused outcome_busy)"
| reserves_full: "fcard (is_in_flight st) = MAX_IDEMPOTENCY_RESULTS \<Longrightarrow>
    reserves key fp st st (Refused outcome_busy)"
| reserves_room: "fmlookup (is_cached st) key = None \<Longrightarrow> key |\<notin>| is_in_flight st \<Longrightarrow>
    length (is_insertion_order st) + fcard (is_in_flight st) < MAX_IDEMPOTENCY_RESULTS \<Longrightarrow>
    reserves key fp st (st\<lparr>is_in_flight := finsert key (is_in_flight st)\<rparr>) Reserved"
| reserves_oldest: "fmlookup (is_cached st) key = None \<Longrightarrow> key |\<notin>| is_in_flight st \<Longrightarrow>
    length (is_insertion_order st) + fcard (is_in_flight st) = MAX_IDEMPOTENCY_RESULTS \<Longrightarrow>
    is_insertion_order st = oldest # rest \<Longrightarrow>
    reserves key fp st (st\<lparr>is_cached := fmdrop oldest (is_cached st), is_insertion_order := rest,
      is_in_flight := finsert key (is_in_flight st)\<rparr>) Reserved"

lemma reserve_reserves:
  assumes inv: "idempotency_inv st" and run: "idempotency_reserve key fp st = (st', a)"
  shows "reserves key fp st st' a"
proof (cases "fmlookup (is_cached st) key")
  case None
  have order: "distinct (is_insertion_order st)" "set (is_insertion_order st) = fmdom' (is_cached st)"
    "length (is_insertion_order st) + fcard (is_in_flight st) \<le> MAX_IDEMPOTENCY_RESULTS"
    using inv by (simp_all add: idempotency_inv_def)
  note ev = evict_drops [OF order]
  show ?thesis
  proof (cases "key |\<in>| is_in_flight st")
    case False
    show ?thesis
    proof (cases "length (is_insertion_order st) + fcard (is_in_flight st) < MAX_IDEMPOTENCY_RESULTS")
      case True
      then show ?thesis
        using run None False ev reserves_room [OF None False True, of fp]
        by (simp add: idempotency_reserve_def)
    next
      case full: False
      then have at: "length (is_insertion_order st) + fcard (is_in_flight st) = MAX_IDEMPOTENCY_RESULTS"
        using order(3) by simp
      show ?thesis
      proof (cases "is_insertion_order st")
        case Nil
        with at have "fcard (is_in_flight st) = MAX_IDEMPOTENCY_RESULTS" by simp
        from reserves_full [OF this, of key fp] show ?thesis
          using run None False ev full Nil by (cases st) (simp add: idempotency_reserve_def)
      next
        case (Cons oldest rest)
        show ?thesis
          using run None False ev full reserves_oldest [OF None False at Cons, of fp] Cons
          by (simp add: idempotency_reserve_def)
      qed
    qed
  qed (use run None in \<open>auto simp: idempotency_reserve_def intro: reserves_running\<close>)
next
  case (Some c)
  then show ?thesis
    using run reserves_known [OF Some, of fp]
    by (auto simp: idempotency_reserve_def split: if_splits)
qed

section \<open>Every operation keeps the invariant\<close>

lemma inv_new: "idempotency_inv IdempotencyState_new"
  by (simp add: idempotency_inv_def IdempotencyState_new_def fcard.rep_eq)

lemma inv_reserve:
  assumes "idempotency_inv st" and "idempotency_reserve key fp st = (st', a)"
  shows "idempotency_inv st'"
  using reserve_reserves [OF assms]
proof cases
  case (reserves_oldest oldest rest)
  then show ?thesis using assms(1) by (auto simp: idempotency_inv_def fcard_finsert_disjoint)
next
  case reserves_room
  then show ?thesis using assms(1) by (simp add: idempotency_inv_def fcard_finsert_disjoint)
qed (use assms(1) in simp_all)

lemma complete_result:
  assumes "idempotency_inv st" and "key |\<in>| is_in_flight st"
  shows "reservation_complete key cached st =
    (case cached of
       None \<Rightarrow> (st\<lparr>is_in_flight := is_in_flight st |-| {|key|}\<rparr>, Ok ())
     | Some c \<Rightarrow> (st\<lparr>is_in_flight := is_in_flight st |-| {|key|}, is_cached := fmupd key c (is_cached st),
         is_insertion_order := is_insertion_order st @ [key]\<rparr>, Ok ()))"
  using assms
  by (cases st) (simp add: reservation_complete_def idempotency_inv_def Let_def split: option.split)

lemma inv_complete:
  assumes "idempotency_inv st" and "key |\<in>| is_in_flight st"
  shows "idempotency_inv (fst (reservation_complete key cached st))"
proof -
  have "fmlookup (is_cached st) key = None" using assms by (simp add: idempotency_inv_def)
  then have "key \<notin> set (is_insertion_order st)"
    using assms(1) by (simp add: idempotency_inv_def fmdom'_notI)
  then show ?thesis
    using assms(1) fcard_remove [OF assms(2)] fcard_remove_le [of "is_in_flight st" key]
    unfolding complete_result [OF assms]
    by (cases cached) (simp_all add: idempotency_inv_def)
qed

lemma inv_drop: "idempotency_inv st \<Longrightarrow> idempotency_inv (reservation_drop key st)"
  using fcard_remove_le [of "is_in_flight st" key]
  by (simp add: idempotency_inv_def reservation_drop_def)

lemma inv_clear:
  "idempotency_inv st \<Longrightarrow> idempotency_inv (st\<lparr>is_cached := fmempty, is_insertion_order := [],
     is_authenticated_vault_id := vid\<rparr>)"
  by (simp add: idempotency_inv_def)

lemma initialize_effect:
  "fst (initialize_idempotency_vault vid st) = st
   \<or> fst (initialize_idempotency_vault vid st) = st\<lparr>is_cached := fmempty, is_insertion_order := [],
       is_authenticated_vault_id := Some vid\<rparr>"
  by (simp add: initialize_idempotency_vault_def split: option.split)

lemma bind_effect:
  "fst (bind_authenticated_idempotency_vault vid st) = st
   \<or> fst (bind_authenticated_idempotency_vault vid st) = st\<lparr>is_cached := fmempty,
       is_insertion_order := [], is_authenticated_vault_id := Some vid\<rparr>"
  by (simp add: bind_authenticated_idempotency_vault_def)

section \<open>Histories\<close>

text \<open>
  A history of the store and the reservations its clients hold, each with the fingerprint of its
  request: a request is run or answered, a client completes or drops its own reservation, and the
  store is bound to a vault.
\<close>

datatype idempotency_event =
    Ran bytes bytes | Answered bytes bytes execution_outcome | Finished bytes bytes execution_outcome
  | Dropped bytes | Rebound bytes

inductive idempotency_step ::
    "idempotency_state \<times> (bytes, bytes) fmap \<Rightarrow> idempotency_event
       \<Rightarrow> idempotency_state \<times> (bytes, bytes) fmap \<Rightarrow> bool" where
  step_ran: "idempotency_reserve key fp st = (st', Reserved) \<Longrightarrow>
    idempotency_step (st, held) (Ran key fp) (st', fmupd key fp held)"
| step_replayed: "idempotency_reserve key fp st = (st', Replay x) \<Longrightarrow>
    idempotency_step (st, held) (Answered key fp x) (st', held)"
| step_refused: "idempotency_reserve key fp st = (st', Refused x) \<Longrightarrow>
    idempotency_step (st, held) (Answered key fp x) (st', held)"
| step_finished: "fmlookup held key = Some fp \<Longrightarrow>
    reservation_complete key (cached_outcome_of fp x) st = (st', r) \<Longrightarrow>
    idempotency_step (st, held) (Finished key fp x) (st', fmdrop key held)"
| step_dropped: "fmlookup held key = Some fp \<Longrightarrow>
    idempotency_step (st, held) (Dropped key) (reservation_drop key st, fmdrop key held)"
| step_created: "initialize_idempotency_vault vid st = (st', r) \<Longrightarrow>
    idempotency_step (st, held) (Rebound vid) (st', held)"
| step_unlocked: "bind_authenticated_idempotency_vault vid st = (st', r) \<Longrightarrow>
    idempotency_step (st, held) (Rebound vid) (st', held)"

text \<open>What the history says about a key: never run, running, or how it last ended.\<close>

datatype key_status = Idle | Running bytes | Ended bytes execution_outcome

fun status_after :: "bytes \<Rightarrow> key_status \<Rightarrow> idempotency_event \<Rightarrow> key_status" where
  "status_after key s (Ran k fp) = (if k = key then Running fp else s)"
| "status_after key s (Finished k fp x) = (if k = key then Ended fp x else s)"
| "status_after key s (Dropped k) = (if k = key then Idle else s)"
| "status_after key s _ = s"

definition key_status :: "idempotency_event list \<Rightarrow> bytes \<Rightarrow> key_status" where
  "key_status evs key = foldl (status_after key) Idle evs"

definition history_inv ::
    "(bytes \<Rightarrow> key_status) \<Rightarrow> idempotency_state \<times> (bytes, bytes) fmap \<Rightarrow> bool" where
  "history_inv status = (\<lambda>(st, held). idempotency_inv st
     \<and> (\<forall>key. key |\<in>| is_in_flight st \<longleftrightarrow> fmlookup held key \<noteq> None)
     \<and> (\<forall>key fp. fmlookup held key = Some fp \<longleftrightarrow> status key = Running fp)
     \<and> (\<forall>key c. fmlookup (is_cached st) key = Some c \<longrightarrow>
          (\<exists>fp x. status key = Ended fp x \<and> cached_outcome_of fp x = Some c)))"

lemma history_step:
  assumes "idempotency_step s ev s'" and "history_inv status s"
  shows "history_inv (\<lambda>key. status_after key (status key) ev) s'"
  using assms(1)
proof cases
  case (step_ran key fp st st' held)
  have inv: "idempotency_inv st" using assms(2) step_ran by (simp add: history_inv_def)
  have "reserves key fp st st' Reserved" by (rule reserve_reserves [OF inv step_ran(4)])
  then show ?thesis
  proof cases
    case (reserves_known c)
    then show ?thesis by (simp split: if_splits)
  qed (use assms(2) step_ran inv_reserve [OF inv step_ran(4)] in \<open>auto simp: history_inv_def\<close>)
next
  case (step_replayed key fp st st' x held)
  have inv: "idempotency_inv st" using assms(2) step_replayed by (simp add: history_inv_def)
  have "reserves key fp st st' (Replay x)" by (rule reserve_reserves [OF inv step_replayed(4)])
  then have "st' = st" by cases simp_all
  then show ?thesis using assms(2) step_replayed by (simp add: history_inv_def)
next
  case (step_refused key fp st st' x held)
  have inv: "idempotency_inv st" using assms(2) step_refused by (simp add: history_inv_def)
  have "reserves key fp st st' (Refused x)" by (rule reserve_reserves [OF inv step_refused(4)])
  then have "st' = st" by cases simp_all
  then show ?thesis using assms(2) step_refused by (simp add: history_inv_def)
next
  case (step_finished held key fp x st st' r)
  have inv: "idempotency_inv st" and key: "key |\<in>| is_in_flight st"
    using assms(2) step_finished by (simp_all add: history_inv_def)
  have st': "st' = fst (reservation_complete key (cached_outcome_of fp x) st)"
    using step_finished by simp
  have "idempotency_inv st'" unfolding st' by (rule inv_complete [OF inv key])
  moreover have "fmlookup (is_cached st) key = None" using inv key by (simp add: idempotency_inv_def)
  ultimately show ?thesis
    using assms(2) step_finished(1-4) complete_result [OF inv key, of "cached_outcome_of fp x"]
    unfolding st' by (auto simp: history_inv_def split: option.splits)
next
  case (step_dropped held key fp st)
  have "fmlookup (is_cached st) key = None"
    using assms(2) step_dropped by (auto simp: history_inv_def idempotency_inv_def)
  then show ?thesis
    using step_dropped assms(2) inv_drop [of st key]
    by (auto simp: history_inv_def reservation_drop_def)
next
  case (step_created vid st st' r held)
  then show ?thesis
    using assms(2) initialize_effect [of vid st] inv_clear [of st "Some vid"]
    by (auto simp: history_inv_def)
next
  case (step_unlocked vid st st' r held)
  then show ?thesis
    using assms(2) bind_effect [of vid st] inv_clear [of st "Some vid"]
    by (auto simp: history_inv_def)
qed

lemma history_run:
  assumes "run_of idempotency_step s evs s'" and "history_inv status s"
  shows "history_inv (\<lambda>key. foldl (status_after key) (status key) evs) s'"
  using assms
proof (induction arbitrary: status rule: run_of.induct)
  case (run_Cons s ev s1 evs s')
  from run_Cons.IH [OF history_step [OF run_Cons.hyps(1) run_Cons.prems]] show ?case by simp
qed simp

lemma history_from_new:
  assumes "run_of idempotency_step (IdempotencyState_new, fmempty) evs s'"
  shows "history_inv (key_status evs) s'"
  using history_run [OF assms, of "\<lambda>_. Idle"] inv_new
  by (simp add: history_inv_def key_status_def [abs_def] IdempotencyState_new_def)


lemma replay_answers:
  assumes "cached_outcome_of fp y = Some c"
  shows "co_request_fingerprint c = fp" "should_cache y" "eo_error (replay_of c) = eo_error y"
    "eo_retry (replay_of c) = eo_retry y" "eo_body (replay_of c) = eo_body y"
  using assms by (auto simp: cached_outcome_of_def replay_of_def split: if_splits)

section \<open>A sample history\<close>

definition sample_cached :: cached_outcome where
  "sample_cached = \<lparr>co_request_fingerprint = [2], co_error = None, co_retry = Retry_Never, co_body = [9]\<rparr>"

definition sample_store :: idempotency_state where
  "sample_store = \<lparr>is_authenticated_vault_id = None, is_cached = fmupd [1] sample_cached fmempty,
     is_insertion_order = [[1]], is_in_flight = {||}\<rparr>"

lemma sample_store_run:
  "run_of idempotency_step (IdempotencyState_new, fmempty)
     [Ran [1] [2], Finished [1] [2] (outcome_success [9])] (sample_store, fmdrop [1] (fmupd [1] [2] fmempty))"
proof -
  let ?st = "IdempotencyState_new\<lparr>is_in_flight := {|[1]|}\<rparr>"
  have "idempotency_reserve [1] [2] IdempotencyState_new = (?st, Reserved)"
    by (simp add: idempotency_reserve_def IdempotencyState_new_def evict.simps [of _ fmempty]
        usize_checked_add_def fcard.rep_eq)
  then have ran: "idempotency_step (IdempotencyState_new, fmempty) (Ran [1] [2])
      (?st, fmupd [1] [2] fmempty)"
    by (rule step_ran)
  have "cached_outcome_of [2] (outcome_success [9]) = Some sample_cached"
    by (simp add: cached_outcome_of_def should_cache_def outcome_success_def sample_cached_def)
  then have "reservation_complete [1] (cached_outcome_of [2] (outcome_success [9])) ?st
      = (sample_store, Ok ())"
    by (simp add: reservation_complete_def IdempotencyState_new_def sample_store_def)
  then have finished: "idempotency_step (?st, fmupd [1] [2] fmempty)
      (Finished [1] [2] (outcome_success [9])) (sample_store, fmdrop [1] (fmupd [1] [2] fmempty))"
    by (rule step_finished [rotated]) simp
  from ran finished show ?thesis by (blast intro: run_of.intros)
qed

section \<open>Properties\<close>



text \<open>The store is bounded and forgets in order. After any history it holds at most 1024 results
  and running requests; admitting a request forgets at most one result, and only the oldest of a
  full store, so every forgotten result has 1023 later results or running requests beside it.\<close>

theorem idempotency_store_bounded:
  assumes "run_of idempotency_step (IdempotencyState_new, fmempty) evs (st, held)"
  shows "length (is_insertion_order st) + fcard (is_in_flight st) \<le> 1024
    \<and> set (is_insertion_order st) = fmdom' (is_cached st)
    \<and> (\<forall>k c. fmlookup (is_cached st) k = Some c
        \<and> fmlookup (is_cached (fst (idempotency_reserve key fp st))) k = None
        \<longrightarrow> (\<exists>later. is_insertion_order st = k # later \<and> length later + fcard (is_in_flight st) = 1023))"
proof -
  have inv: "idempotency_inv st" using history_from_new [OF assms] by (simp add: history_inv_def)
  obtain st' a where run: "idempotency_reserve key fp st = (st', a)" by (cases "idempotency_reserve key fp st")
  have "\<exists>later. is_insertion_order st = k # later \<and> length later + fcard (is_in_flight st) = 1023"
    if "fmlookup (is_cached st) k = Some c" "fmlookup (is_cached st') k = None" for k c
    using reserve_reserves [OF inv run] that by cases (auto split: if_splits)
  then show ?thesis using inv run by (simp add: idempotency_inv_def)
qed

theorem idempotency_store_bounded_witness:
  "length (is_insertion_order sample_store) + fcard (is_in_flight sample_store) \<le> 1024
   \<and> is_insertion_order sample_store \<noteq> []"
  using idempotency_store_bounded [OF sample_store_run, of "[1]" "[2]", THEN conjunct1]
  by (simp add: sample_store_def)

end
