(* ===== verification/Runtime_Ownership.thy ===== *)
theory Runtime_Ownership
  imports Runtime_Idempotency Ipc_Identity
begin

text \<open>
  Which runtime of the process owns which files (runtime.rs: ownership records, the registry behind
  its mutex, and the start of a runtime). The file system is a parameter of every operation, so it may
  be another one each time.
\<close>

section \<open>Records\<close>

datatype runtime_start_error = InvalidVaultPath | InvalidLocalStatePath | AlreadyOwned | Start_Internal

record 'i ownership_record =
  ow_normalized_path :: path
  ow_identity :: "'i option"

definition record_conflicts_with :: "'i ownership_record \<Rightarrow> 'i ownership_record \<Rightarrow> bool" where
  "record_conflicts_with x y \<longleftrightarrow> ow_normalized_path x = ow_normalized_path y
     \<or> (case (ow_identity x, ow_identity y) of (Some left, Some right) \<Rightarrow> left = right | _ \<Rightarrow> False)"

definition is_same_existing_target :: "'i ownership_record \<Rightarrow> 'i ownership_record \<Rightarrow> bool" where
  "is_same_existing_target x y \<longleftrightarrow> ow_normalized_path x = ow_normalized_path y
     \<and> (case (ow_identity x, ow_identity y) of (Some left, Some right) \<Rightarrow> left = right | _ \<Rightarrow> False)"

record 'i runtime_ownership =
  ro_vault :: "'i ownership_record"
  ro_windows_hello_state :: "'i ownership_record option"

definition ownership_conflicts_with :: "'i runtime_ownership \<Rightarrow> 'i ownership_record \<Rightarrow> bool" where
  "ownership_conflicts_with x record \<longleftrightarrow> record_conflicts_with (ro_vault x) record
     \<or> (case ro_windows_hello_state x of
          None \<Rightarrow> False | Some state \<Rightarrow> record_conflicts_with state record)"

text \<open>What the runtime asks the file system; Windows paths are compared in lower case.\<close>

datatype file_metadata = Meta_File | Meta_Other | Meta_NotFound | Meta_Failed

record 'i file_system =
  fs_is_absolute :: "path \<Rightarrow> bool"
  fs_metadata :: "path \<Rightarrow> file_metadata"
  fs_symlink_metadata :: "path \<Rightarrow> file_metadata"
  fs_canonicalize :: "path \<Rightarrow> path option"
  fs_parent :: "path \<Rightarrow> path option"
  fs_file_name :: "path \<Rightarrow> path option"
  fs_join :: "path \<Rightarrow> path \<Rightarrow> path"
  fs_lowercase :: "path \<Rightarrow> path option"
  fs_identity :: "path \<Rightarrow> 'i option"

definition normalize_ownership_path ::
    "'i file_system \<Rightarrow> path \<Rightarrow> (path, runtime_start_error) result" where
  "normalize_ownership_path F p = ok_or InvalidVaultPath (fs_lowercase F p)"

definition file_identity :: "'i file_system \<Rightarrow> path \<Rightarrow> ('i, runtime_start_error) result" where
  "file_identity F p = ok_or InvalidVaultPath (fs_identity F p)"

definition ownership_record_of ::
    "'i file_system \<Rightarrow> path \<Rightarrow> ('i ownership_record, runtime_start_error) result" where
  "ownership_record_of F p =
     (case fs_metadata F p of
        Meta_Other \<Rightarrow> Err InvalidVaultPath
      | Meta_File \<Rightarrow>
          and_then (ok_or InvalidVaultPath (fs_canonicalize F p)) (\<lambda>canonical.
          and_then (normalize_ownership_path F canonical) (\<lambda>normalized_path.
          and_then (file_identity F p) (\<lambda>identity.
          Ok \<lparr>ow_normalized_path = normalized_path, ow_identity = Some identity\<rparr>)))
      | Meta_NotFound \<Rightarrow>
          if fs_symlink_metadata F p = Meta_File \<or> fs_symlink_metadata F p = Meta_Other
          then Err InvalidVaultPath else
          and_then (ok_or InvalidVaultPath (fs_parent F p)) (\<lambda>parent.
          and_then (ok_or InvalidVaultPath (fs_file_name F p)) (\<lambda>name.
          and_then (ok_or InvalidVaultPath (fs_canonicalize F parent)) (\<lambda>parent.
          and_then (normalize_ownership_path F (fs_join F parent name)) (\<lambda>normalized_path.
          Ok \<lparr>ow_normalized_path = normalized_path, ow_identity = None\<rparr>))))
      | Meta_Failed \<Rightarrow> Err InvalidVaultPath)"

section \<open>The registry\<close>

type_synonym 'i registry = "(u64, 'i runtime_ownership) fmap"

record 'i process_world =
  pw_owned :: "'i registry"
  pw_next_token :: u64
  pw_poisoned :: bool

definition next_ownership_token ::
    "'i process_world \<Rightarrow> 'i process_world \<times> (u64, runtime_start_error) result" where
  "next_ownership_token W =
     (case u64_checked_add (pw_next_token W) 1 of
        None \<Rightarrow> (W, Err Start_Internal)
      | Some n \<Rightarrow> (W\<lparr>pw_next_token := n\<rparr>, Ok (pw_next_token W)))"

definition others_conflict :: "u64 \<Rightarrow> 'i ownership_record \<Rightarrow> 'i registry \<Rightarrow> bool" where
  "others_conflict token record registry \<longleftrightarrow>
     \<not> fmpred (\<lambda>t existing. \<not> (t \<noteq> token \<and> ownership_conflicts_with existing record)) registry"

definition bind_existing ::
    "'i file_system \<Rightarrow> u64 \<Rightarrow> path \<Rightarrow> 'i registry \<Rightarrow> 'i registry \<times> (unit, dispatch_error) result" where
  "bind_existing F token p registry =
     (case ownership_record_of F p of
        Ok record \<Rightarrow>
          if ow_identity record = None \<or> others_conflict token record registry
          then (registry, Err Dispatch_Internal) else
          (case fmlookup registry token of
             None \<Rightarrow> (registry, Err Dispatch_Internal)
           | Some current \<Rightarrow>
               if ow_normalized_path (ro_vault current) \<noteq> ow_normalized_path record
               then (registry, Err Dispatch_Internal)
               else (fmupd token (current\<lparr>ro_vault := record\<rparr>) registry, Ok ()))
      | _ \<Rightarrow> (registry, Err Dispatch_Internal))"

definition bind_windows_hello_state ::
    "'i file_system \<Rightarrow> u64 \<Rightarrow> path \<Rightarrow> 'i registry \<Rightarrow> 'i registry \<times> (unit, dispatch_error) result" where
  "bind_windows_hello_state F token p registry =
     (case ownership_record_of F p of
        Ok record \<Rightarrow>
          if others_conflict token record registry then (registry, Err Dispatch_Internal) else
          (case fmlookup registry token of
             None \<Rightarrow> (registry, Err Dispatch_Internal)
           | Some current \<Rightarrow>
               if record_conflicts_with (ro_vault current) record
               then (registry, Err Dispatch_Internal) else
               (case ro_windows_hello_state current of
                  None \<Rightarrow> (registry, Err Dispatch_Internal)
                | Some state \<Rightarrow>
                    if ow_normalized_path state \<noteq> ow_normalized_path record
                    then (registry, Err Dispatch_Internal)
                    else (fmupd token (current\<lparr>ro_windows_hello_state := Some record\<rparr>) registry, Ok ())))
      | _ \<Rightarrow> (registry, Err Dispatch_Internal))"

text \<open>\<open>bind_vault\<close> is the callback that binds the idempotency store, on a state of its own.\<close>

definition bind_authenticated ::
    "'i file_system \<Rightarrow> u64 \<Rightarrow> path \<Rightarrow> 'i ownership_record \<Rightarrow> ('s \<Rightarrow> 's \<times> (unit, dispatch_error) result)
       \<Rightarrow> 's \<Rightarrow> 'i registry \<Rightarrow> ('s \<times> 'i registry) \<times> (unit, dispatch_error) result" where
  "bind_authenticated F token p authenticated bind_vault s registry =
     (case ownership_record_of F p of
        Ok current \<Rightarrow>
          if \<not> is_same_existing_target authenticated current \<or> others_conflict token current registry
          then ((s, registry), Err Dispatch_Internal) else
          (case fmlookup registry token of
             None \<Rightarrow> ((s, registry), Err Dispatch_Internal)
           | Some leased \<Rightarrow>
               if ow_normalized_path (ro_vault leased) \<noteq> ow_normalized_path current
               then ((s, registry), Err Dispatch_Internal) else
               (case bind_vault s of
                  (s, Ok _) \<Rightarrow> ((s, fmupd token (leased\<lparr>ro_vault := current\<rparr>) registry), Ok ())
                | (s, r) \<Rightarrow> ((s, registry), r)))
      | _ \<Rightarrow> ((s, registry), Err Dispatch_Internal))"

definition lease_drop :: "u64 \<Rightarrow> 'i process_world \<Rightarrow> 'i process_world" where
  "lease_drop token W =
     (if pw_poisoned W then W else W\<lparr>pw_owned := fmdrop token (pw_owned W)\<rparr>)"

section \<open>Starting a runtime\<close>

text \<open>
  The checks of \<open>start_with_components_and_state_path\<close>: \<open>provider\<close> and \<open>repository\<close> say which Windows
  Hello components are given, \<open>draw\<close> is the random fingerprint key. The file system is asked again,
  as \<open>F'\<close>, once the registry is released.
\<close>

record started_runtime =
  sr_token :: u64
  sr_fingerprint_key :: bytes
  sr_state :: Protocol_Types.agent_state

definition start_with_components_and_state_path ::
    "'i file_system \<Rightarrow> 'i file_system \<Rightarrow> path \<Rightarrow> bool \<Rightarrow> bool \<Rightarrow> path option \<Rightarrow> bytes option
       \<Rightarrow> 'i process_world \<Rightarrow> 'i process_world \<times> (started_runtime, runtime_start_error) result" where
  "start_with_components_and_state_path F F' vault_path provider repository protected_state_path draw W =
     (if provider \<noteq> repository then (W, Err InvalidLocalStatePath)
      else if \<not> fs_is_absolute F vault_path then (W, Err InvalidVaultPath)
      else pure_then W (ok_or Start_Internal draw) (\<lambda>key.
      if key = zeros 32 then (W, Err Start_Internal) else
      pure_then W (ownership_record_of F vault_path) (\<lambda>vault_record.
      pure_then W (case protected_state_path of
          None \<Rightarrow> Ok None
        | Some p \<Rightarrow> map_err (\<lambda>_. InvalidLocalStatePath) (map_ok Some (ownership_record_of F p)))
        (\<lambda>state_record.
      if (case state_record of None \<Rightarrow> False | Some state \<Rightarrow> record_conflicts_with state vault_record)
      then (W, Err InvalidLocalStatePath) else
      (case next_ownership_token W of
         (W, Err e) \<Rightarrow> (W, Err e)
       | (W, Panic) \<Rightarrow> (W, Panic)
       | (W, Ok token) \<Rightarrow>
           if pw_poisoned W then (W, Err Start_Internal)
           else if \<not> fmpred (\<lambda>_ existing. \<not> (ownership_conflicts_with existing vault_record
               \<or> (case state_record of None \<Rightarrow> False
                  | Some state \<Rightarrow> ownership_conflicts_with existing state))) (pw_owned W)
           then (W, Err AlreadyOwned) else
           let W = W\<lparr>pw_owned := fmupd token
                 \<lparr>ro_vault = vault_record, ro_windows_hello_state = state_record\<rparr> (pw_owned W)\<rparr>
           in (case fs_symlink_metadata F' vault_path of
                 Meta_NotFound \<Rightarrow>
                   (W, Ok \<lparr>sr_token = token, sr_fingerprint_key = key, sr_state = St_NoVault\<rparr>)
               | Meta_Failed \<Rightarrow> (lease_drop token W, Err InvalidVaultPath)
               | _ \<Rightarrow> (W, Ok \<lparr>sr_token = token, sr_fingerprint_key = key, sr_state = St_Locked\<rparr>)))))))"


section \<open>One owner for every file\<close>

definition owned_records :: "'i runtime_ownership \<Rightarrow> 'i ownership_record set" where
  "owned_records x = insert (ro_vault x) (set_option (ro_windows_hello_state x))"

definition own_apart :: "'i runtime_ownership \<Rightarrow> 'i runtime_ownership \<Rightarrow> bool" where
  "own_apart x y \<longleftrightarrow> (\<forall>r\<in>owned_records x. \<forall>q\<in>owned_records y. \<not> record_conflicts_with r q)"

definition ownership_inv :: "'i process_world \<Rightarrow> bool" where
  "ownership_inv W \<longleftrightarrow>
     (\<forall>t x. fmlookup (pw_owned W) t = Some x \<longrightarrow> t < pw_next_token W
        \<and> (\<forall>state. ro_windows_hello_state x = Some state \<longrightarrow>
             ow_normalized_path state \<noteq> ow_normalized_path (ro_vault x)))
     \<and> (\<forall>t x u y. fmlookup (pw_owned W) t = Some x \<and> fmlookup (pw_owned W) u = Some y \<and> t \<noteq> u
          \<longrightarrow> own_apart x y)"

lemma conflicts_sym: "record_conflicts_with x y = record_conflicts_with y x"
  by (auto simp: record_conflicts_with_def split: option.splits)

lemma conflicts_owned:
  "ownership_conflicts_with x r \<longleftrightarrow> (\<exists>q\<in>owned_records x. record_conflicts_with q r)"
  by (auto simp: ownership_conflicts_with_def owned_records_def split: option.splits)

lemma own_apart_sym: "own_apart x y \<longleftrightarrow> own_apart y x"
  unfolding own_apart_def using conflicts_sym by blast

lemma ownership_apart:
  "ownership_inv W \<Longrightarrow> fmlookup (pw_owned W) t = Some x \<Longrightarrow> fmlookup (pw_owned W) u = Some y \<Longrightarrow> t \<noteq> u
     \<Longrightarrow> own_apart x y"
  unfolding ownership_inv_def by blast

lemma others_conflict_iff:
  "others_conflict t r G \<longleftrightarrow> (\<exists>u y. fmlookup G u = Some y \<and> u \<noteq> t \<and> ownership_conflicts_with y r)"
  by (auto simp: others_conflict_def fmpred_iff)

text \<open>Replacing or adding one runtime's ownership keeps the others apart.\<close>

lemma ownership_inv_update:
  assumes inv: "ownership_inv W" and fresh: "t < pw_next_token W"
    and own: "\<And>state. ro_windows_hello_state x = Some state \<Longrightarrow>
      ow_normalized_path state \<noteq> ow_normalized_path (ro_vault x)"
    and apart: "\<And>u y. fmlookup (pw_owned W) u = Some y \<Longrightarrow> u \<noteq> t \<Longrightarrow> own_apart x y"
  shows "ownership_inv (W\<lparr>pw_owned := fmupd t x (pw_owned W)\<rparr>)"
proof -
  have "own_apart x' y" if "fmlookup (fmupd t x (pw_owned W)) a = Some x'"
    "fmlookup (fmupd t x (pw_owned W)) u = Some y" "a \<noteq> u" for a u x' y
    using that apart [of a x'] apart [of u y] ownership_apart [OF inv, of a x' u y] own_apart_sym [of x x']
    by (auto split: if_splits)
  moreover have "b < pw_next_token W \<and> (\<forall>state. ro_windows_hello_state z = Some state \<longrightarrow>
      ow_normalized_path state \<noteq> ow_normalized_path (ro_vault z))"
    if "fmlookup (fmupd t x (pw_owned W)) b = Some z" for b z
    using that inv fresh own by (auto simp: ownership_inv_def split: if_splits)
  ultimately show ?thesis unfolding ownership_inv_def by (auto simp del: fmupd_lookup)
qed

lemma ownership_inv_replace:
  assumes inv: "ownership_inv W" and x: "fmlookup (pw_owned W) t = Some x"
    and records: "owned_records x' \<subseteq> insert q (owned_records x)"
    and q: "\<not> others_conflict t q (pw_owned W)"
    and own: "\<And>state. ro_windows_hello_state x' = Some state \<Longrightarrow>
      ow_normalized_path state \<noteq> ow_normalized_path (ro_vault x')"
  shows "ownership_inv (W\<lparr>pw_owned := fmupd t x' (pw_owned W)\<rparr>)"
proof (rule ownership_inv_update [OF inv _ own])
  show "t < pw_next_token W" using inv x by (simp add: ownership_inv_def)
  show "own_apart x' y" if u: "fmlookup (pw_owned W) u = Some y" "u \<noteq> t" for u y
  proof -
    have "own_apart x y" by (rule ownership_apart [OF inv x u(1)]) (use u(2) in simp)
    moreover have "\<not> ownership_conflicts_with y q" using q u by (auto simp: others_conflict_iff)
    ultimately show ?thesis
      using records conflicts_sym by (fastforce simp: own_apart_def conflicts_owned)
  qed
qed

lemma own_paths:
  "ownership_inv W \<Longrightarrow> fmlookup (pw_owned W) t = Some x \<Longrightarrow> ro_windows_hello_state x = Some state
     \<Longrightarrow> ow_normalized_path state \<noteq> ow_normalized_path (ro_vault x)"
  unfolding ownership_inv_def by blast

lemma bind_existing_inv:
  assumes "ownership_inv W" and "bind_existing F t p (pw_owned W) = (G, r)"
  shows "ownership_inv (W\<lparr>pw_owned := G\<rparr>)"
proof (cases "G = pw_owned W")
  case False
  then obtain q current where q: "\<not> others_conflict t q (pw_owned W)"
    and c: "fmlookup (pw_owned W) t = Some current"
      "ow_normalized_path (ro_vault current) = ow_normalized_path q"
    and G: "G = fmupd t (current\<lparr>ro_vault := q\<rparr>) (pw_owned W)"
    using assms(2) by (auto simp: bind_existing_def split: result.splits option.splits if_splits)
  show ?thesis unfolding G
    by (rule ownership_inv_replace [OF assms(1) c(1) _ q])
      (use own_paths [OF assms(1) c(1)] c(2) in \<open>auto simp: owned_records_def\<close>)
qed (use assms(1) in simp)

lemma bind_state_inv:
  assumes "ownership_inv W" and "bind_windows_hello_state F t p (pw_owned W) = (G, r)"
  shows "ownership_inv (W\<lparr>pw_owned := G\<rparr>)"
proof (cases "G = pw_owned W")
  case False
  then obtain q current state where q: "\<not> others_conflict t q (pw_owned W)"
    and c: "fmlookup (pw_owned W) t = Some current" "ro_windows_hello_state current = Some state"
      "ow_normalized_path state = ow_normalized_path q"
    and G: "G = fmupd t (current\<lparr>ro_windows_hello_state := Some q\<rparr>) (pw_owned W)"
    using assms(2)
    by (auto simp: bind_windows_hello_state_def split: result.splits option.splits if_splits)
  show ?thesis unfolding G
    by (rule ownership_inv_replace [OF assms(1) c(1) _ q])
      (use own_paths [OF assms(1) c(1,2)] c(3) in \<open>auto simp: owned_records_def\<close>)
qed (use assms(1) in simp)

lemma bind_authenticated_inv:
  assumes "ownership_inv W"
    and "bind_authenticated F t p authenticated bind_vault s (pw_owned W) = ((s', G), r)"
  shows "ownership_inv (W\<lparr>pw_owned := G\<rparr>)"
proof (cases "G = pw_owned W")
  case False
  then obtain q leased where q: "\<not> others_conflict t q (pw_owned W)"
    and c: "fmlookup (pw_owned W) t = Some leased"
      "ow_normalized_path (ro_vault leased) = ow_normalized_path q"
    and G: "G = fmupd t (leased\<lparr>ro_vault := q\<rparr>) (pw_owned W)"
    using assms(2)
    by (auto simp: bind_authenticated_def split: result.splits option.splits if_splits prod.splits)
  show ?thesis unfolding G
    by (rule ownership_inv_replace [OF assms(1) c(1) _ q])
      (use own_paths [OF assms(1) c(1)] c(2) in \<open>auto simp: owned_records_def\<close>)
qed (use assms(1) in simp)

lemma lease_drop_inv: "ownership_inv W \<Longrightarrow> ownership_inv (lease_drop t W)"
  by (auto simp: ownership_inv_def lease_drop_def split: if_splits)

lemma token_fresh:
  assumes "ownership_inv W" and "next_ownership_token W = (W', r)"
  shows "ownership_inv W'" "pw_owned W' = pw_owned W"
    "r = Ok t \<Longrightarrow> t < pw_next_token W' \<and> fmlookup (pw_owned W') t = None"
proof -
  have step: "W' = W \<and> r = Err Start_Internal
    \<or> W' = W\<lparr>pw_next_token := pw_next_token W + 1\<rparr> \<and> r = Ok (pw_next_token W)
        \<and> pw_next_token W < pw_next_token W + 1"
    using assms(2) by (auto simp: next_ownership_token_def u64_checked_add_def word_less_nat_alt
        unat_word_ariths split: option.splits if_splits)
  then show "ownership_inv W'" using assms(1) by (auto simp: ownership_inv_def) (meson order_less_trans)+
  show "pw_owned W' = pw_owned W" using step by auto
  show "t < pw_next_token W' \<and> fmlookup (pw_owned W') t = None" if "r = Ok t"
  proof -
    have "\<not> pw_next_token W < pw_next_token W" by simp
    then have "fmlookup (pw_owned W) (pw_next_token W) = None"
      using assms(1) by (cases "fmlookup (pw_owned W) (pw_next_token W)") (auto simp: ownership_inv_def)
    then show ?thesis using step that by auto
  qed
qed


lemma start_inv:
  assumes inv: "ownership_inv W"
    and start: "start_with_components_and_state_path F F' vp provider repository sp draw W = (W', r)"
  shows "ownership_inv W'"
proof -
  obtain W1 q where tok: "next_ownership_token W = (W1, q)" by (cases "next_ownership_token W")
  note fresh = token_fresh [OF inv tok]
  have added: "ownership_inv (W1\<lparr>pw_owned := fmupd t \<lparr>ro_vault = v, ro_windows_hello_state = st\<rparr> (pw_owned W1)\<rparr>)"
    if t: "q = Ok t"
      and own: "\<not> (case st of None \<Rightarrow> False | Some state \<Rightarrow> record_conflicts_with state v)"
      and others: "fmpred (\<lambda>_ existing. \<not> (ownership_conflicts_with existing v
        \<or> (case st of None \<Rightarrow> False | Some state \<Rightarrow> ownership_conflicts_with existing state))) (pw_owned W1)"
    for t v st
  proof (rule ownership_inv_update [OF fresh(1)])
    show "t < pw_next_token W1" using fresh(3) [OF t] by simp
    show "own_apart \<lparr>ro_vault = v, ro_windows_hello_state = st\<rparr> y"
      if u: "fmlookup (pw_owned W1) u = Some y" "u \<noteq> t" for u y
    proof -
      have "\<not> ownership_conflicts_with y v"
        "\<And>state. st = Some state \<Longrightarrow> \<not> ownership_conflicts_with y state"
        using others u(1) by (auto simp: fmpred_iff)
      then show ?thesis
        using conflicts_sym by (fastforce simp: own_apart_def conflicts_owned owned_records_def)
    qed
  qed (use own in \<open>auto simp: record_conflicts_with_def\<close>)
  show ?thesis
    using start inv fresh(1) tok
    by (auto simp: start_with_components_and_state_path_def pure_then_def Let_def
        split: if_splits result.splits file_metadata.splits intro!: lease_drop_inv added)
qed

text \<open>The events of the registry in one process.\<close>

inductive ownership_step :: "'i process_world \<Rightarrow> u64 option \<Rightarrow> 'i process_world \<Rightarrow> bool" where
  step_start: "start_with_components_and_state_path F F' vp provider repository sp draw W = (W', r)
    \<Longrightarrow> ownership_step W (case r of Ok started \<Rightarrow> Some (sr_token started) | _ \<Rightarrow> None) W'"
| step_bind_vault: "\<not> pw_poisoned W \<Longrightarrow> bind_existing F t p (pw_owned W) = (G, r)
    \<Longrightarrow> ownership_step W None (W\<lparr>pw_owned := G\<rparr>)"
| step_bind_state: "\<not> pw_poisoned W \<Longrightarrow> bind_windows_hello_state F t p (pw_owned W) = (G, r)
    \<Longrightarrow> ownership_step W None (W\<lparr>pw_owned := G\<rparr>)"
| step_bind_authenticated: "\<not> pw_poisoned W
    \<Longrightarrow> bind_authenticated F t p authenticated (bind_authenticated_idempotency_vault vid) st (pw_owned W)
          = ((st', G), r)
    \<Longrightarrow> ownership_step W None (W\<lparr>pw_owned := G\<rparr>)"
| step_release: "ownership_step W None (lease_drop t W)"
| step_poisoned: "ownership_step W None (W\<lparr>pw_poisoned := True\<rparr>)"


definition fresh_process :: "'i process_world" where
  "fresh_process = \<lparr>pw_owned = fmempty, pw_next_token = 1, pw_poisoned = False\<rparr>"

lemma ownership_inv_poisoned [simp]: "ownership_inv (W\<lparr>pw_poisoned := b\<rparr>) = ownership_inv W"
  by (simp add: ownership_inv_def)

lemma ownership_step_inv:
  assumes "ownership_step W l W'" and "ownership_inv W"
  shows "ownership_inv W'"
  using assms
  by (cases rule: ownership_step.cases)
    (auto intro: start_inv bind_existing_inv bind_state_inv bind_authenticated_inv lease_drop_inv)

text \<open>A file system with the two files \<open>a\<close> and \<open>b\<close>, which have the identities 7 and 8.\<close>

definition sample_files :: "nat file_system" where
  "sample_files = \<lparr>fs_is_absolute = (\<lambda>_. True),
     fs_metadata = (\<lambda>p. if p = [0x61] \<or> p = [0x62] then Meta_File else Meta_NotFound),
     fs_symlink_metadata = (\<lambda>p. if p = [0x61] \<or> p = [0x62] then Meta_File else Meta_NotFound),
     fs_canonicalize = Some, fs_parent = (\<lambda>p. Some (butlast p)), fs_file_name = (\<lambda>p. Some [last p]),
     fs_join = (@), fs_lowercase = Some, fs_identity = (\<lambda>p. if p = [0x61] then Some 7 else Some 8)\<rparr>"

section \<open>Properties\<close>

text \<open>C13: a vault has one owner. Whatever runtimes are started, bound to their files and dropped in a
  process, and however the file system changes in between, no two live runtimes own the same path or
  the same file, as their vault or as their Windows Hello state; and a runtime that starts on an
  owned file is refused.\<close>

theorem vault_has_one_owner:
  assumes "run_of ownership_step fresh_process evs W"
  shows "(\<forall>t x u y. fmlookup (pw_owned W) t = Some x \<and> fmlookup (pw_owned W) u = Some y \<and> t \<noteq> u
        \<longrightarrow> (\<forall>r\<in>owned_records x. \<not> ownership_conflicts_with y r))
    \<and> (\<forall>u y vr started. fmlookup (pw_owned W) u = Some y \<and> ownership_record_of F vp = Ok vr
        \<and> ownership_conflicts_with y vr
        \<longrightarrow> snd (start_with_components_and_state_path F F' vp provider repository sp draw W) \<noteq> Ok started)"
proof -
  have inv: "ownership_inv W"
    by (rule run_of_invariant [OF assms _ ownership_step_inv])
      (simp_all add: ownership_inv_def fresh_process_def)
  have "\<not> ownership_conflicts_with y r"
    if "fmlookup (pw_owned W) t = Some x" "fmlookup (pw_owned W) u = Some y" "t \<noteq> u" "r \<in> owned_records x"
    for t x u y r
    using ownership_apart [OF inv that(2,1)] that(3,4) by (auto simp: own_apart_def conflicts_owned)
  moreover have "snd (start_with_components_and_state_path F F' vp provider repository sp draw W) \<noteq> Ok started"
    if "fmlookup (pw_owned W) u = Some y" "ownership_record_of F vp = Ok vr" "ownership_conflicts_with y vr"
    for u y vr started
  proof -
    obtain W1 q where tok: "next_ownership_token W = (W1, q)" by (cases "next_ownership_token W")
    have "\<not> fmpred (\<lambda>_ existing. \<not> (ownership_conflicts_with existing vr \<or> P existing)) (pw_owned W1)" for P
      using that token_fresh(2) [OF inv tok] by (auto simp: fmpred_iff)
    then show ?thesis
      using that(2) tok
      by (auto simp: start_with_components_and_state_path_def pure_then_def
          split: result.splits)
  qed
  ultimately show ?thesis by blast
qed

theorem vault_has_one_owner_witness:
  "\<exists>W. run_of ownership_step fresh_process [Some 1, Some 2] W
     \<and> fmdom' (pw_owned W) = {1, 2}
     \<and> (\<forall>started. snd (start_with_components_and_state_path sample_files sample_files [0x61] False False
          None (Some (replicate 32 9)) W) \<noteq> Ok started)"
proof -
  let ?start = "\<lambda>p. start_with_components_and_state_path sample_files sample_files p False False None
      (Some (replicate 32 9))"
  let ?own = "\<lambda>p (i :: nat). \<lparr>ro_vault = \<lparr>ow_normalized_path = p, ow_identity = Some i\<rparr>,
      ro_windows_hello_state = None\<rparr>"
  let ?W1 = "\<lparr>pw_owned = fmupd 1 (?own [0x61] 7) fmempty, pw_next_token = 2, pw_poisoned = False\<rparr>"
  let ?W2 = "\<lparr>pw_owned = fmupd 2 (?own [0x62] 8) (fmupd 1 (?own [0x61] 7) fmempty), pw_next_token = 3,
      pw_poisoned = False\<rparr>"
  have own: "ownership_record_of sample_files [0x61]
        = Ok \<lparr>ow_normalized_path = [0x61], ow_identity = Some 7\<rparr>"
      "ownership_record_of sample_files [0x62] = Ok \<lparr>ow_normalized_path = [0x62], ow_identity = Some 8\<rparr>"
    by (simp_all add: ownership_record_of_def sample_files_def normalize_ownership_path_def file_identity_def)
  have key: "(replicate 32 9 :: bytes) \<noteq> zeros 32" by (simp add: zeros_def)
  have files: "fs_is_absolute sample_files p" "fs_symlink_metadata sample_files [0x61] = Meta_File"
    "fs_symlink_metadata sample_files [0x62] = Meta_File" for p
    by (simp_all add: sample_files_def)
  have "?start [0x61] fresh_process
      = (?W1, Ok \<lparr>sr_token = 1, sr_fingerprint_key = replicate 32 9, sr_state = St_Locked\<rparr>)"
    using key by (simp add: start_with_components_and_state_path_def pure_then_def own files
        next_ownership_token_def u64_checked_add_def fresh_process_def)
  from step_start [OF this] have s1: "ownership_step fresh_process (Some 1) ?W1" by simp
  have "?start [0x62] ?W1
      = (?W2, Ok \<lparr>sr_token = 2, sr_fingerprint_key = replicate 32 9, sr_state = St_Locked\<rparr>)"
    using key by (simp add: start_with_components_and_state_path_def pure_then_def own files
        next_ownership_token_def u64_checked_add_def ownership_conflicts_with_def
        record_conflicts_with_def fmpred_iff)
  from step_start [OF this] have s2: "ownership_step ?W1 (Some 2) ?W2" by simp
  have run: "run_of ownership_step fresh_process [Some 1, Some 2] ?W2"
    using s1 s2 by (blast intro: run_of.intros)
  have "fmlookup (pw_owned ?W2) 1 = Some (?own [0x61] 7)" by simp
  moreover have "ownership_conflicts_with (?own [0x61] 7) \<lparr>ow_normalized_path = [0x61], ow_identity = Some 7\<rparr>"
    by (simp add: ownership_conflicts_with_def record_conflicts_with_def)
  ultimately have "\<forall>started. snd (?start [0x61] ?W2) \<noteq> Ok started"
    using vault_has_one_owner [OF run, THEN conjunct2] own(1) by blast
  with run show ?thesis by (intro exI [of _ ?W2]) auto
qed

end
