(* ===== verification/Runtime_State.thy ===== *)
theory Runtime_State
  imports Threads Runtime_Ownership Agent_Records Protocol_Browser
begin

text \<open>
  The state of the agent's runtime and the primitives its threads share it with (runtime.rs:
  coordinator, permits, registrations, leases, pending creations, admission checks). An atomic
  variable is read or written in one action. A mutex that is held across other actions has an owner
  and makes others wait; one whose section is a single access to its data (the cancellation map, the
  idempotency store, the leases, the pending creations) is that one action.
\<close>

section \<open>State\<close>

record request_key =
  rk_connection_id :: bytes
  rk_request_id :: u64

record pending_passkey_creation_key =
  pk_connection_id :: bytes
  pk_transaction_id :: bytes

record pending_passkey_creation =
  pn_credential_id :: bytes
  pn_authenticated_process_id :: u32
  pn_unlock_epoch :: u64
  pn_confirmed :: bool
  pn_disconnected :: bool

record browser_lease =
  bl_context :: browser_context
  bl_selection :: browser_selection
  bl_epoch :: u64
  bl_accounts_generation :: u64
  bl_expires :: instant

datatype mutex =
    Commit_Gate | Creation_Gate | Hello_Gate | Cleanup_Gate | Vault_Mutex | Owned_Mutex
  | Cancellations | Idempotency | Browser_Leases | Pending_Creations

datatype flag = Kdf_Active | Mutation_Active | Lock_Active | Hello_Active

text \<open>
  A written response, with the permit it answers (none for a request that was not admitted), whether it
  was past its commit point, and the generation of the accounts a browser reply was made from.
\<close>

record written_response =
  wr_connection_id :: bytes
  wr_permit :: "request_permit option"
  wr_committed :: bool
  wr_browser_generation :: "u64 option"
  wr_response :: response_envelope

text \<open>
  A cancellation flag is shared between the map of the coordinator and its registration; it is a cell
  of \<open>rt_cancelled\<close>. The clocks, the answers to the polls of a running core call, what happens to the
  disk during its callback and the platform belong to the environment.
\<close>

record ('d, 'e, 'p, 'i) runtime =
  rt_state :: u8
  rt_epoch :: u64
  rt_global_in_flight :: nat
  rt_flags :: "flag \<Rightarrow> bool"
  rt_cancelled :: "nat \<Rightarrow> bool"
  rt_next_cell :: nat
  rt_cancellations :: "(request_key, nat) fmap"
  rt_owner :: "mutex \<Rightarrow> nat option"
  rt_poisoned :: "mutex \<Rightarrow> bool"
  rt_vault :: "('d, 'e) agent_state"
  rt_idempotency :: idempotency_state
  rt_browser_leases :: "(bytes, browser_lease option) fmap"
  rt_accounts_generation :: u64
  rt_pending_passkey_creations :: "(pending_passkey_creation_key, pending_passkey_creation) fmap"
  rt_connections :: "bytes \<Rightarrow> connection"
  rt_process :: "'i process_world"
  rt_entropy :: 'e
  rt_next_staging_id :: u64
  rt_platform :: 'p
  rt_now :: instant
  rt_unix_ms :: int
  rt_polls :: "nat \<Rightarrow> bool"
  rt_unlock_polls :: "unlock_poll \<Rightarrow> bool"
  rt_meanwhile :: "'d \<Rightarrow> 'd"
  rt_written :: "written_response list"

type_synonym ('d, 'e, 'p, 'i, 'a) work =
  "(('d, 'e, 'p, 'i) runtime, ('a, dispatch_error) result) thread"

definition agent_state_of :: "('d, 'e, 'p, 'i) runtime \<Rightarrow> Protocol_Types.agent_state" where
  "agent_state_of s = decode_state (rt_state s)"

section \<open>Mutexes and flags\<close>

definition lock_mutex :: "nat \<Rightarrow> mutex \<Rightarrow> (('d, 'e, 'p, 'i) runtime, bool) thread" where
  "lock_mutex me m = Action (\<lambda>s. rt_owner s m = None)
     (\<lambda>s. s\<lparr>rt_owner := (rt_owner s)(m := Some me)\<rparr>) (\<lambda>s. Return (rt_poisoned s m))"

text \<open>The drop of a guard; a panic while it is held poisons the mutex.\<close>

definition release_mutex :: "mutex \<Rightarrow> bool \<Rightarrow> (('d, 'e, 'p, 'i) runtime, unit) thread" where
  "release_mutex m panicking = atomically (\<lambda>s. (s\<lparr>rt_owner := (rt_owner s)(m := None),
     rt_poisoned := (rt_poisoned s)(m := (rt_poisoned s m \<or> panicking))\<rparr>, ()))"

definition with_mutex_or ::
    "nat \<Rightarrow> mutex \<Rightarrow> ('a, 'x) result \<Rightarrow> (('d, 'e, 'p, 'i) runtime, ('a, 'x) result) thread
       \<Rightarrow> (('d, 'e, 'p, 'i) runtime, ('a, 'x) result) thread" where
  "with_mutex_or me m poisoned_result body =
     thread_then (lock_mutex me m) (\<lambda>poisoned.
     if poisoned then thread_then (release_mutex m False) (\<lambda>_. Return poisoned_result) else
     thread_then body (\<lambda>r. thread_then (release_mutex m (r = Panic)) (\<lambda>_. Return r)))"

definition with_mutex :: "nat \<Rightarrow> mutex \<Rightarrow> ('d, 'e, 'p, 'i, 'a) work \<Rightarrow> ('d, 'e, 'p, 'i, 'a) work" where
  "with_mutex me m body = with_mutex_or me m (Err Dispatch_Internal) body"

text \<open>A section of one of the mutexes that only guard their data.\<close>

definition in_section ::
    "mutex \<Rightarrow> (('d, 'e, 'p, 'i) runtime \<Rightarrow> ('d, 'e, 'p, 'i) runtime \<times> ('a, dispatch_error) result)
       \<Rightarrow> ('d, 'e, 'p, 'i, 'a) work" where
  "in_section m f = atomically (\<lambda>s. if rt_poisoned s m then (s, Err Dispatch_Internal) else f s)"

definition set_flag :: "flag \<Rightarrow> bool \<Rightarrow> ('d, 'e, 'p, 'i) runtime \<Rightarrow> ('d, 'e, 'p, 'i) runtime" where
  "set_flag f b s = s\<lparr>rt_flags := (rt_flags s)(f := b)\<rparr>"

definition FlagPermit_acquire :: "flag \<Rightarrow> (('d, 'e, 'p, 'i) runtime, bool) thread" where
  "FlagPermit_acquire f = atomically (\<lambda>s. (set_flag f True s, \<not> rt_flags s f))"

definition FlagPermit_drop :: "flag \<Rightarrow> (('d, 'e, 'p, 'i) runtime, unit) thread" where
  "FlagPermit_drop f = atomically (\<lambda>s. (set_flag f False s, ()))"

definition with_flag ::
    "flag \<Rightarrow> ('d, 'e, 'p, 'i, execution_outcome) work \<Rightarrow> ('d, 'e, 'p, 'i, execution_outcome) work" where
  "with_flag f body = thread_then (FlagPermit_acquire f) (\<lambda>acquired.
     if \<not> acquired then Return (Ok outcome_busy) else
     thread_then body (\<lambda>r. thread_then (FlagPermit_drop f) (\<lambda>_. Return r)))"

text \<open>\<open>if let Some(outcome) = check { return Ok(outcome) }\<close>\<close>

definition unless ::
    "(('d, 'e, 'p, 'i) runtime, execution_outcome option) thread
       \<Rightarrow> ('d, 'e, 'p, 'i, execution_outcome) work \<Rightarrow> ('d, 'e, 'p, 'i, execution_outcome) work" where
  "unless check k = thread_then check (\<lambda>x. case x of Some outcome \<Rightarrow> Return (Ok outcome) | None \<Rightarrow> k)"

definition MAX_IN_FLIGHT_GLOBAL :: nat where [simp]: "MAX_IN_FLIGHT_GLOBAL = 32"
definition MAX_CONNECTIONS :: nat where [simp]: "MAX_CONNECTIONS = 8"

definition CounterPermit_acquire :: "nat \<Rightarrow> (('d, 'e, 'p, 'i) runtime, bool) thread" where
  "CounterPermit_acquire maximum = atomically (\<lambda>s.
     if rt_global_in_flight s < maximum
     then (s\<lparr>rt_global_in_flight := rt_global_in_flight s + 1\<rparr>, True) else (s, False))"

text \<open>\<open>fetch_sub\<close> on an unsigned counter wraps; a permit is only dropped after it was acquired.\<close>

definition CounterPermit_drop :: "(('d, 'e, 'p, 'i) runtime, unit) thread" where
  "CounterPermit_drop = atomically (\<lambda>s.
     (s\<lparr>rt_global_in_flight := (if rt_global_in_flight s = 0 then 2 ^ 64 - 1
          else rt_global_in_flight s - 1)\<rparr>, ()))"

section \<open>Coordinator\<close>

definition load_epoch :: "(('d, 'e, 'p, 'i) runtime, u64) thread" where
  "load_epoch = observe rt_epoch"

definition increment_epoch :: "('d, 'e, 'p, 'i, u64) work" where
  "increment_epoch = atomically (\<lambda>s.
     case u64_checked_add (rt_epoch s) 1 of
       None \<Rightarrow> (s, Err Dispatch_Internal)
     | Some n \<Rightarrow> (s\<lparr>rt_epoch := n\<rparr>, ok_or Dispatch_Internal (u64_checked_add (rt_epoch s) 1)))"

definition cancel_cells :: "nat fset \<Rightarrow> ('d, 'e, 'p, 'i) runtime \<Rightarrow> ('d, 'e, 'p, 'i) runtime" where
  "cancel_cells cells s = s\<lparr>rt_cancelled := (\<lambda>c. rt_cancelled s c \<or> c |\<in>| cells)\<rparr>"

definition advance_epoch :: "('d, 'e, 'p, 'i, u64) work" where
  "advance_epoch = thread_try increment_epoch (\<lambda>next_epoch.
     in_section Cancellations (\<lambda>s. (cancel_cells (fmran (rt_cancellations s)) s, Ok next_epoch)))"

definition advance_epoch_without_cancellation :: "('d, 'e, 'p, 'i, u64) work" where
  "advance_epoch_without_cancellation = increment_epoch"

record request_registration =
  rg_key :: request_key
  rg_cancellation :: nat

definition register_request :: "request_key \<Rightarrow> ('d, 'e, 'p, 'i, request_registration) work" where
  "register_request key = in_section Cancellations (\<lambda>s.
     let cell = rt_next_cell s;
         taken = (fmlookup (rt_cancellations s) key \<noteq> None);
         s = s\<lparr>rt_next_cell := cell + 1, rt_cancellations := fmupd key cell (rt_cancellations s)\<rparr>
     in (s, if taken then Err Dispatch_Internal else Ok \<lparr>rg_key = key, rg_cancellation = cell\<rparr>))"

definition registration_drop :: "request_registration \<Rightarrow> (('d, 'e, 'p, 'i) runtime, unit) thread" where
  "registration_drop registration = atomically (\<lambda>s.
     (if rt_poisoned s Cancellations then s
      else s\<lparr>rt_cancellations := fmdrop (rg_key registration) (rt_cancellations s)\<rparr>, ()))"

definition coordinator_cancel :: "request_key \<Rightarrow> ('d, 'e, 'p, 'i, bool) work" where
  "coordinator_cancel key = in_section Cancellations (\<lambda>s.
     case fmlookup (rt_cancellations s) key of
       None \<Rightarrow> (s, Ok False)
     | Some cell \<Rightarrow> (cancel_cells {|cell|} s, Ok True))"

definition cancel_connection :: "bytes \<Rightarrow> ('d, 'e, 'p, 'i, unit) work" where
  "cancel_connection connection_id = in_section Cancellations (\<lambda>s.
     (cancel_cells (fmran (fmfilter (\<lambda>key. rk_connection_id key = connection_id)
        (rt_cancellations s))) s, Ok ()))"

definition is_cancelled :: "request_registration \<Rightarrow> (('d, 'e, 'p, 'i) runtime, bool) thread" where
  "is_cancelled registration = observe (\<lambda>s. rt_cancelled s (rg_cancellation registration))"

definition set_cancelled :: "request_registration \<Rightarrow> (('d, 'e, 'p, 'i) runtime, unit) thread" where
  "set_cancelled registration = atomically (\<lambda>s. (cancel_cells {|rg_cancellation registration|} s, ()))"

section \<open>Checks\<close>

text \<open>Every load is an action; \<open>||\<close> and \<open>else if\<close> stop at the first answer.\<close>

definition any_of :: "(('d, 'e, 'p, 'i) runtime \<Rightarrow> bool) list \<Rightarrow> (('d, 'e, 'p, 'i) runtime, bool) thread" where
  "any_of checks = foldr (\<lambda>c k. thread_then (observe c) (\<lambda>b. if b then Return True else k)) checks
     (Return False)"

definition set_locked_unless_shutting_down :: "(('d, 'e, 'p, 'i) runtime, unit) thread" where
  "set_locked_unless_shutting_down = atomically (\<lambda>s.
     (if rt_state s \<noteq> AgentState_code St_Updating \<and> rt_state s \<noteq> AgentState_code St_ShuttingDown
      then s\<lparr>rt_state := AgentState_code St_Locked\<rparr> else s, ()))"

definition store_state :: "Protocol_Types.agent_state \<Rightarrow> (('d, 'e, 'p, 'i) runtime, unit) thread" where
  "store_state st = atomically (\<lambda>s. (s\<lparr>rt_state := AgentState_code st\<rparr>, ()))"

definition exchange_state ::
    "Protocol_Types.agent_state \<Rightarrow> Protocol_Types.agent_state \<Rightarrow> (('d, 'e, 'p, 'i) runtime, bool) thread" where
  "exchange_state old new = atomically (\<lambda>s.
     if rt_state s = AgentState_code old then (s\<lparr>rt_state := AgentState_code new\<rparr>, True) else (s, False))"

definition vault_lock :: "(('d, 'e, 'p, 'i) runtime, unit) thread" where
  "vault_lock = atomically (\<lambda>s. (s\<lparr>rt_vault := apfst lock_agent (rt_vault s)\<rparr>, ()))"

definition pre_secret_operation ::
    "u64 \<Rightarrow> request_registration \<Rightarrow> instant
       \<Rightarrow> (('d, 'e, 'p, 'i) runtime, execution_outcome option) thread" where
  "pre_secret_operation request_epoch registration deadline =
     thread_then (observe (\<lambda>s. rt_flags s Lock_Active)) (\<lambda>locking.
     if locking then Return (Some outcome_locked) else
     thread_then (is_cancelled registration) (\<lambda>cancelled.
     if cancelled then Return (Some outcome_cancelled) else
     thread_then (observe (\<lambda>s. rt_now s \<ge> deadline)) (\<lambda>late.
     if late then Return (Some outcome_deadline) else
     thread_then (any_of [\<lambda>s. agent_state_of s \<noteq> St_Unlocked, \<lambda>s. rt_epoch s \<noteq> request_epoch]) (\<lambda>stale.
     Return (if stale then Some outcome_locked else None)))))"

definition post_secret_operation ::
    "u64 \<Rightarrow> request_registration \<Rightarrow> instant
       \<Rightarrow> (('d, 'e, 'p, 'i) runtime, execution_outcome option) thread" where
  "post_secret_operation request_epoch registration deadline =
     thread_then (any_of [\<lambda>s. rt_flags s Lock_Active, \<lambda>s. agent_state_of s \<noteq> St_Unlocked,
       \<lambda>s. rt_epoch s \<noteq> request_epoch]) (\<lambda>stale.
     if stale then
       thread_then vault_lock (\<lambda>_. thread_then set_locked_unless_shutting_down (\<lambda>_.
       Return (Some outcome_locked)))
     else
       thread_then (is_cancelled registration) (\<lambda>cancelled.
       if cancelled then Return (Some outcome_cancelled) else
       thread_then (observe (\<lambda>s. rt_now s \<ge> deadline)) (\<lambda>late.
       Return (if late then Some outcome_deadline else None))))"

definition abort_after_core ::
    "u64 \<Rightarrow> request_registration \<Rightarrow> instant \<Rightarrow> ('d, 'e, 'p, 'i, execution_outcome) work" where
  "abort_after_core request_epoch registration deadline =
     thread_then (post_secret_operation request_epoch registration deadline)
       (\<lambda>x. Return (ok_or Dispatch_Internal x))"

definition accounts_changed :: "(('d, 'e, 'p, 'i) runtime, unit) thread" where
  "accounts_changed = thread_then (observe rt_accounts_generation) (\<lambda>generation.
     atomically (\<lambda>s. (s\<lparr>rt_accounts_generation :=
        (if generation = - 1 then - 1 else generation + 1)\<rparr>, ())))"

text \<open>
  After a vault section. \<open>Exit_Failed\<close> is \<open>account_error_after_core\<close>: the vault is locked inside the
  section, the guard is dropped, and then the runtime is locked under the commit gate.
\<close>

datatype vault_exit = Exit execution_outcome | Exit_Failed

definition fail_closed :: "nat \<Rightarrow> ('d, 'e, 'p, 'i, execution_outcome) work" where
  "fail_closed me = with_mutex me Commit_Gate
     (thread_then set_locked_unless_shutting_down (\<lambda>_.
      thread_try advance_epoch (\<lambda>_. Return (Ok outcome_failed))))"

definition after_vault ::
    "nat \<Rightarrow> ('d, 'e, 'p, 'i, vault_exit) work \<Rightarrow> ('d, 'e, 'p, 'i, execution_outcome) work" where
  "after_vault me work = thread_try work (\<lambda>x. case x of
     Exit outcome \<Rightarrow> Return (Ok outcome) | Exit_Failed \<Rightarrow> fail_closed me)"

definition in_vault ::
    "nat \<Rightarrow> ('d, 'e, 'p, 'i, vault_exit) work \<Rightarrow> ('d, 'e, 'p, 'i, execution_outcome) work" where
  "in_vault me body = after_vault me (with_mutex me Vault_Mutex body)"

text \<open>\<open>authenticated_read_error_after_core\<close>, inside the section.\<close>

definition read_error_after_core ::
    "u64 \<Rightarrow> request_registration \<Rightarrow> instant \<Rightarrow> account_error \<Rightarrow> ('d, 'e, 'p, 'i, vault_exit) work" where
  "read_error_after_core request_epoch registration deadline error =
     (if error = Acc_Failed then thread_then vault_lock (\<lambda>_. Return (Ok Exit_Failed)) else
      thread_then (post_secret_operation request_epoch registration deadline) (\<lambda>x. Return (Ok (Exit
        (case x of Some outcome \<Rightarrow> outcome | None \<Rightarrow> map_account_error error)))))"

definition vault_abort ::
    "u64 \<Rightarrow> request_registration \<Rightarrow> instant \<Rightarrow> ('d, 'e, 'p, 'i, vault_exit) work" where
  "vault_abort request_epoch registration deadline =
     thread_try (abort_after_core request_epoch registration deadline) (\<lambda>x. Return (Ok (Exit x)))"

definition unless_exit ::
    "(('d, 'e, 'p, 'i) runtime, execution_outcome option) thread
       \<Rightarrow> ('d, 'e, 'p, 'i, vault_exit) work \<Rightarrow> ('d, 'e, 'p, 'i, vault_exit) work" where
  "unless_exit check k =
     thread_then check (\<lambda>x. case x of Some outcome \<Rightarrow> Return (Ok (Exit outcome)) | None \<Rightarrow> k)"

end
