(* ===== verification/Runtime_Accounts.thy ===== *)
theory Runtime_Accounts
  imports Runtime_State Core_Origin
begin

text \<open>
  The account and browser handlers of the runtime (runtime.rs: \<open>browser_fill\<close>, \<open>list_accounts\<close>,
  \<open>get_account\<close>, \<open>add_account\<close>, \<open>update_account\<close>, \<open>delete_account\<close>). A call of the open vault is one
  action, as the vault mutex excludes other calls while it runs; the polls it makes on the way may
  answer anything. A mutation takes the commit gate at its commit and keeps it, when it succeeds,
  until the handler returns.
\<close>

section \<open>Calls of the open vault\<close>

definition vault_call ::
    "(int \<Rightarrow> (nat \<Rightarrow> bool) \<Rightarrow> ('d, 'e) agent_state \<Rightarrow> ('d, 'e) agent_state \<times> 'a)
       \<Rightarrow> (('d, 'e, 'p, 'i) runtime, 'a) thread" where
  "vault_call f = atomically (\<lambda>s. case f (rt_unix_ms s) (rt_polls s) (rt_vault s) of
     (v, r) \<Rightarrow> (s\<lparr>rt_vault := v\<rparr>, r))"

text \<open>The arms of an operation for the errors of the vault.\<close>

definition error_exit ::
    "u64 \<Rightarrow> request_registration \<Rightarrow> instant \<Rightarrow> account_error \<Rightarrow> ('d, 'e, 'p, 'i, vault_exit) work" where
  "error_exit request_epoch registration deadline error =
     (if error = Acc_Aborted then vault_abort request_epoch registration deadline
      else read_error_after_core request_epoch registration deadline error)"

text \<open>A reading call, what it returned going to \<open>reply\<close> once the request is still authorized.\<close>

definition read_in_vault ::
    "nat \<Rightarrow> u64 \<Rightarrow> request_registration \<Rightarrow> instant
       \<Rightarrow> ((nat \<Rightarrow> bool) \<Rightarrow> ('d, 'e) agent_state \<Rightarrow> ('d, 'e) agent_state \<times> ('a, account_error) result)
       \<Rightarrow> ('a \<Rightarrow> (execution_outcome, dispatch_error) result)
       \<Rightarrow> ('d, 'e, 'p, 'i, execution_outcome) work" where
  "read_in_vault me request_epoch registration deadline call reply =
     in_vault me
       (unless_exit (pre_secret_operation request_epoch registration deadline)
       (thread_then (vault_call (\<lambda>now. call)) (\<lambda>r. case r of
          Ok x \<Rightarrow>
            unless_exit (post_secret_operation request_epoch registration deadline)
              (Return (map_ok Exit (reply x)))
        | Err error \<Rightarrow> error_exit request_epoch registration deadline error
        | Panic \<Rightarrow> Return Panic)))"

text \<open>The callback in which most mutations take the commit gate and check the request once more.\<close>

definition commit_check ::
    "u64 \<Rightarrow> request_registration \<Rightarrow> instant
       \<Rightarrow> (('d, 'e, 'p, 'i) runtime, (unit, storage_error) result) thread" where
  "commit_check request_epoch registration deadline =
     thread_then (any_of [\<lambda>s. rt_epoch s \<noteq> request_epoch, \<lambda>s. rt_flags s Lock_Active,
       \<lambda>s. rt_cancelled s (rg_cancellation registration), \<lambda>s. rt_now s \<ge> deadline]) (\<lambda>refused.
     Return (if refused then Err Storage_Aborted else Ok ()))"

text \<open>
  The callback of a mutation: the gate is taken and the request checked once more; a refusal gives the
  gate back at once.
\<close>

definition take_commit_gate ::
    "nat \<Rightarrow> (('d, 'e, 'p, 'i) runtime, (unit, storage_error) result) thread
       \<Rightarrow> (('d, 'e, 'p, 'i) runtime, (unit, storage_error) result) thread" where
  "take_commit_gate me check =
     thread_then (lock_mutex me Commit_Gate) (\<lambda>poisoned.
     thread_then (if poisoned then Return (Err Storage_Conflict) else check) (\<lambda>r.
     if r = Ok () then Return r
     else thread_then (release_mutex Commit_Gate False) (\<lambda>_. Return r)))"

text \<open>
  Whether a mutation gets as far as its callback: its two refusals are told apart in what it returns,
  and only there.
\<close>

definition reaches_commit ::
    "((unit, storage_error) result \<Rightarrow> int \<Rightarrow> (nat \<Rightarrow> bool) \<Rightarrow> ('d, 'e) agent_state
        \<Rightarrow> ('d, 'e) agent_state \<times> ('a, account_error) result)
       \<Rightarrow> int \<Rightarrow> (nat \<Rightarrow> bool) \<Rightarrow> ('d, 'e) agent_state \<Rightarrow> bool" where
  "reaches_commit call now polls v \<longleftrightarrow>
     snd (call (Err Storage_Aborted) now polls v) \<noteq> snd (call (Err Storage_Conflict) now polls v)"

text \<open>A mutation that failed gives back the gate it took; whether the gate is still held.\<close>

definition release_failed_commit_guard ::
    "bool \<Rightarrow> ('a, account_error) result \<Rightarrow> (('d, 'e, 'p, 'i) runtime, bool) thread" where
  "release_failed_commit_guard held result =
     (case result of
        Ok _ \<Rightarrow> Return held
      | _ \<Rightarrow> thread_then (if held then release_mutex Commit_Gate (result = Panic) else Return ())
               (\<lambda>_. Return False))"

text \<open>
  A mutation under the vault mutex: \<open>pre\<close> may leave early; the gate is taken in the callback, given back
  at once when the commit is refused or fails, and otherwise dropped after the vault's guard, when the
  arms \<open>k\<close> are done.
\<close>

definition commit_in_vault ::
    "nat \<Rightarrow> (('d, 'e, 'p, 'i) runtime, (unit, storage_error) result) thread
       \<Rightarrow> ((unit, storage_error) result \<Rightarrow> int \<Rightarrow> (nat \<Rightarrow> bool) \<Rightarrow> ('d, 'e) agent_state
             \<Rightarrow> ('d, 'e) agent_state \<times> ('a, account_error) result)
       \<Rightarrow> (('a, account_error) result \<Rightarrow> ('d, 'e, 'p, 'i, 'b) work) \<Rightarrow> ('d, 'e, 'p, 'i, 'b) work" where
  "commit_in_vault me check call k =
     thread_then (observe (\<lambda>s. (rt_unix_ms s, rt_polls s,
       reaches_commit call (rt_unix_ms s) (rt_polls s) (rt_vault s)))) (\<lambda>(now, polls, reached).
     thread_then (if reached then take_commit_gate me check else Return (Err Storage_Aborted)) (\<lambda>allowed.
     thread_then (vault_call (\<lambda>_ _. call allowed now polls)) (\<lambda>r.
     thread_then (release_failed_commit_guard (allowed = Ok ()) r) (\<lambda>held.
     thread_then (k r) (\<lambda>q.
     thread_then (release_mutex Vault_Mutex (q = Panic)) (\<lambda>_.
     thread_then (if held then release_mutex Commit_Gate (q = Panic) else Return ())
       (\<lambda>_. Return q)))))))"

definition mutate_in_vault ::
    "nat \<Rightarrow> (('d, 'e, 'p, 'i) runtime, 'b option) thread
       \<Rightarrow> (('d, 'e, 'p, 'i) runtime, (unit, storage_error) result) thread
       \<Rightarrow> ((unit, storage_error) result \<Rightarrow> int \<Rightarrow> (nat \<Rightarrow> bool) \<Rightarrow> ('d, 'e) agent_state
             \<Rightarrow> ('d, 'e) agent_state \<times> ('a, account_error) result)
       \<Rightarrow> (('a, account_error) result \<Rightarrow> ('d, 'e, 'p, 'i, 'b) work) \<Rightarrow> ('d, 'e, 'p, 'i, 'b) work" where
  "mutate_in_vault me pre check call k =
     thread_then (lock_mutex me Vault_Mutex) (\<lambda>poisoned.
     if poisoned
     then thread_then (release_mutex Vault_Mutex False) (\<lambda>_. Return (Err Dispatch_Internal)) else
     thread_then pre (\<lambda>x. case x of
       Some q \<Rightarrow> thread_then (release_mutex Vault_Mutex False) (\<lambda>_. Return (Ok q))
     | None \<Rightarrow> commit_in_vault me check call k))"

text \<open>The arms of a mutation: \<open>committed\<close> is what the handler does on success.\<close>

definition mutation_exit ::
    "u64 \<Rightarrow> request_registration \<Rightarrow> instant \<Rightarrow> ('a \<Rightarrow> ('d, 'e, 'p, 'i, execution_outcome) work)
       \<Rightarrow> ('a, account_error) result \<Rightarrow> ('d, 'e, 'p, 'i, vault_exit) work" where
  "mutation_exit request_epoch registration deadline committed r =
     (case r of
        Ok x \<Rightarrow> thread_try (committed x) (\<lambda>outcome. Return (Ok (Exit outcome)))
      | Err error \<Rightarrow> error_exit request_epoch registration deadline error
      | Panic \<Rightarrow> Return Panic)"

definition change_in_vault ::
    "nat \<Rightarrow> u64 \<Rightarrow> request_registration \<Rightarrow> instant
       \<Rightarrow> ((unit, storage_error) result \<Rightarrow> int \<Rightarrow> (nat \<Rightarrow> bool) \<Rightarrow> ('d, 'e) agent_state
             \<Rightarrow> ('d, 'e) agent_state \<times> ('a, account_error) result)
       \<Rightarrow> ('a \<Rightarrow> ('d, 'e, 'p, 'i, execution_outcome) work)
       \<Rightarrow> ('d, 'e, 'p, 'i, execution_outcome) work" where
  "change_in_vault me request_epoch registration deadline call committed =
     after_vault me
       (mutate_in_vault me
          (thread_then (pre_secret_operation request_epoch registration deadline)
             (\<lambda>x. Return (map_option Exit x)))
          (commit_check request_epoch registration deadline) call
          (mutation_exit request_epoch registration deadline committed))"

section \<open>Accounts\<close>

definition list_accounts ::
    "'e vault_libs \<Rightarrow> ('d, 't) databases \<Rightarrow> nat \<Rightarrow> u32 \<Rightarrow> u16 \<Rightarrow> u64 \<Rightarrow> request_registration \<Rightarrow> instant
       \<Rightarrow> ('d, 'e, 'p, 'i, execution_outcome) work" where
  "list_accounts L S me offset limit request_epoch registration deadline =
     unless (pre_secret_operation request_epoch registration deadline)
       (read_in_vault me request_epoch registration deadline
         (agent_list_website_account_page_with_check L S (unat offset) (unat limit))
         (\<lambda>(accounts, has_more).
            encode_summary_page (vl_cbor L) (map account_view_of accounts) offset has_more))"

definition get_account ::
    "'e vault_libs \<Rightarrow> ('d, 't) databases \<Rightarrow> nat \<Rightarrow> bytes \<Rightarrow> u64 \<Rightarrow> request_registration \<Rightarrow> instant
       \<Rightarrow> ('d, 'e, 'p, 'i, execution_outcome) work" where
  "get_account L S me i request_epoch registration deadline =
     unless (pre_secret_operation request_epoch registration deadline)
       (read_in_vault me request_epoch registration deadline
         (agent_get_website_account_with_check L S i)
         (\<lambda>account. map_ok outcome_success
            (from_protocol (encode_account (vl_cbor L) (account_view_of account)))))"

definition add_account ::
    "'e vault_libs \<Rightarrow> ('d, 't) databases \<Rightarrow> nat \<Rightarrow> account_fields \<Rightarrow> u64 \<Rightarrow> request_registration \<Rightarrow> instant
       \<Rightarrow> ('d, 'e, 'p, 'i, execution_outcome) work" where
  "add_account L S me f request_epoch registration deadline =
     with_flag Mutation_Active
       (unless (pre_secret_operation request_epoch registration deadline)
       (case account_input (vl_url L) f of
          Ok inp \<Rightarrow>
            change_in_vault me request_epoch registration deadline
              (\<lambda>before_commit now polls.
                 agent_add_website_account_with_before_commit_and_check L S now inp polls before_commit)
              (\<lambda>i. thread_then accounts_changed (\<lambda>_.
                 Return (map_ok outcome_success (from_protocol (encode_account_id (vl_cbor L) i)))))
        | _ \<Rightarrow> Return (Ok outcome_invalid)))"

definition update_account ::
    "'e vault_libs \<Rightarrow> ('d, 't) databases \<Rightarrow> nat \<Rightarrow> bytes \<Rightarrow> account_fields \<Rightarrow> u64 \<Rightarrow> request_registration
       \<Rightarrow> instant \<Rightarrow> ('d, 'e, 'p, 'i, execution_outcome) work" where
  "update_account L S me i f request_epoch registration deadline =
     with_flag Mutation_Active
       (unless (pre_secret_operation request_epoch registration deadline)
       (case account_input (vl_url L) f of
          Ok inp \<Rightarrow>
            change_in_vault me request_epoch registration deadline
              (\<lambda>before_commit now polls.
                 agent_update_website_account_with_before_commit_and_check L S now i inp polls before_commit)
              (\<lambda>_. thread_then accounts_changed (\<lambda>_.
                 Return (map_ok outcome_success (from_protocol (encode_empty_result (vl_cbor L))))))
        | _ \<Rightarrow> Return (Ok outcome_invalid)))"

definition delete_account ::
    "'e vault_libs \<Rightarrow> ('d, 't) databases \<Rightarrow> nat \<Rightarrow> bytes \<Rightarrow> u64 \<Rightarrow> request_registration \<Rightarrow> instant
       \<Rightarrow> ('d, 'e, 'p, 'i, execution_outcome) work" where
  "delete_account L S me i request_epoch registration deadline =
     with_flag Mutation_Active
       (unless (pre_secret_operation request_epoch registration deadline)
       (change_in_vault me request_epoch registration deadline
          (\<lambda>before_commit now polls.
             agent_delete_website_account_with_before_commit_and_check L S now i polls before_commit)
          (\<lambda>_. thread_then accounts_changed (\<lambda>_.
             Return (map_ok outcome_success (from_protocol (encode_empty_result (vl_cbor L))))))))"

section \<open>Filling a page\<close>

datatype browser_lease_admission = Lease_Ready "browser_lease option" | Lease_Rejected execution_outcome

definition claim_browser_lease ::
    "browser_context \<Rightarrow> browser_selection option \<Rightarrow> u64 \<Rightarrow> bytes
       \<Rightarrow> ('d, 'e, 'p, 'i, browser_lease_admission) work" where
  "claim_browser_lease context selection request_epoch connection_id =
     in_section Browser_Leases (\<lambda>s. case selection of
       Some selection \<Rightarrow>
         (case fmlookup (rt_browser_leases s) connection_id of
            Some (Some lease) \<Rightarrow>
              (s\<lparr>rt_browser_leases := fmupd connection_id None (rt_browser_leases s)\<rparr>,
               Ok (if \<not> BrowserContext_matches (bl_context lease) context
                      \<or> \<not> BrowserSelection_matches (bl_selection lease) selection
                      \<or> bl_epoch lease \<noteq> request_epoch
                   then Lease_Rejected outcome_invalid else Lease_Ready (Some lease)))
          | _ \<Rightarrow> (s, Ok (Lease_Rejected outcome_invalid)))
     | None \<Rightarrow>
         if fmlookup (rt_browser_leases s) connection_id \<noteq> None
         then (s, Ok (Lease_Rejected outcome_invalid))
         else if fcard (fmdom (rt_browser_leases s)) \<ge> MAX_CONNECTIONS
         then (s, Ok (Lease_Rejected outcome_busy))
         else (s\<lparr>rt_browser_leases := fmupd connection_id None (rt_browser_leases s)\<rparr>,
               Ok (Lease_Ready None)))"

definition draw_bytes :: "'e vault_libs \<Rightarrow> nat \<Rightarrow> ('d, 'e, 'p, 'i, bytes) work" where
  "draw_bytes L n = atomically (\<lambda>s. case vl_fill L (rt_entropy s) n of
     (e, x) \<Rightarrow> (s\<lparr>rt_entropy := e\<rparr>, ok_or Dispatch_Internal x))"

definition offer_lease ::
    "bytes \<Rightarrow> browser_lease \<Rightarrow> bytes \<Rightarrow> ('d, 'e, 'p, 'i, bytes + execution_outcome) work" where
  "offer_lease connection_id lease body = in_section Browser_Leases (\<lambda>s.
     if fmlookup (rt_browser_leases s) connection_id = None then (s, Ok (Inr outcome_cancelled))
     else (s\<lparr>rt_browser_leases := fmupd connection_id (Some lease) (rt_browser_leases s)\<rparr>, Ok (Inl body)))"

text \<open>The reply to a page: the selection of the unique account, or the credential selected before.\<close>

definition browser_reply ::
    "'e vault_libs \<Rightarrow> browser_context \<Rightarrow> u64 \<Rightarrow> bytes \<Rightarrow> instant \<Rightarrow> u64 \<Rightarrow> browser_lease option
       \<Rightarrow> core_account option \<Rightarrow> ('d, 'e, 'p, 'i, bytes + execution_outcome) work" where
  "browser_reply L context request_epoch connection_id deadline generation required account =
     (case required of
        Some lease \<Rightarrow>
          Return (case account of
            None \<Rightarrow> Ok (Inr (outcome_failure Code_NotFound Retry_Never))
          | Some account \<Rightarrow>
              if ac_id account \<noteq> bs_record_id (bl_selection lease)
                 \<or> ac_revision account \<noteq> bs_revision (bl_selection lease)
              then Ok (Inr (outcome_failure Code_Conflict Retry_Never)) else
              and_then (from_protocol (BrowserCredential_new (ac_username account) (ac_password account)))
                (\<lambda>credential. map_ok Inl (expect_some (BrowserCredential_encode (vl_cbor L) credential))))
      | None \<Rightarrow>
          (case account of
             Some account \<Rightarrow>
               thread_try (draw_bytes L 16) (\<lambda>token.
               result_try (from_protocol (BrowserSelection_new token (ac_id account) (ac_revision account)))
                 (\<lambda>selection.
               result_try (expect_some (BrowserSelection_encode_optional (vl_cbor L) (Some selection))) (\<lambda>body.
               offer_lease connection_id \<lparr>bl_context = context, bl_selection = selection,
                 bl_epoch = request_epoch, bl_accounts_generation = generation, bl_expires = deadline\<rparr> body)))
           | None \<Rightarrow> Return (map_ok Inl (expect_some (BrowserSelection_encode_optional (vl_cbor L) None)))))"

definition fill_in_vault ::
    "'e vault_libs \<Rightarrow> ('d, 't) databases \<Rightarrow> browser_context \<Rightarrow> bytes \<Rightarrow> u64 \<Rightarrow> request_registration
       \<Rightarrow> instant \<Rightarrow> browser_lease option \<Rightarrow> ('d, 'e, 'p, 'i, vault_exit) work" where
  "fill_in_vault L S context origin request_epoch registration deadline required =
     unless_exit (pre_secret_operation request_epoch registration deadline)
     (thread_then (observe rt_accounts_generation) (\<lambda>generation.
      if generation = - 1
         \<or> (case required of None \<Rightarrow> False | Some lease \<Rightarrow> bl_accounts_generation lease \<noteq> generation)
      then Return (Ok (Exit (outcome_failure Code_Conflict Retry_Never))) else
      thread_then (vault_call (\<lambda>now polls. agent_unique_browser_account_with_check L S origin polls))
        (\<lambda>r. case r of
          Ok account \<Rightarrow>
            unless_exit (post_secret_operation request_epoch registration deadline)
            (thread_try (browser_reply L context request_epoch (rk_connection_id (rg_key registration))
                deadline generation required account) (\<lambda>x.
             Return (Ok (Exit (case x of
               Inr outcome \<Rightarrow> outcome
             | Inl body \<Rightarrow> (outcome_success body)\<lparr>eo_browser_generation := Some generation,
                 eo_browser_deadline := Some deadline\<rparr>)))))
        | Err error \<Rightarrow> error_exit request_epoch registration deadline error
        | Panic \<Rightarrow> Return Panic)))"

definition browser_fill ::
    "'e vault_libs \<Rightarrow> ('d, 't) databases \<Rightarrow> nat \<Rightarrow> browser_context \<Rightarrow> browser_selection option \<Rightarrow> u64
       \<Rightarrow> request_registration \<Rightarrow> instant \<Rightarrow> ('d, 'e, 'p, 'i, execution_outcome) work" where
  "browser_fill L S me context selection request_epoch registration deadline =
     thread_try (claim_browser_lease context selection request_epoch
         (rk_connection_id (rg_key registration))) (\<lambda>admission.
     case admission of
       Lease_Rejected outcome \<Rightarrow> Return (Ok outcome)
     | Lease_Ready required \<Rightarrow>
         (case (BrowserOrigin_parse (vl_url L) (bc_top_origin context),
                BrowserOrigin_parse (vl_url L) (bc_frame_origin context)) of
            (Ok origin, Ok frame_origin) \<Rightarrow>
              if origin \<noteq> frame_origin then Return (Ok outcome_invalid) else
              let deadline = (case required of None \<Rightarrow> deadline | Some lease \<Rightarrow> min deadline (bl_expires lease))
              in unless (pre_secret_operation request_epoch registration deadline)
                   (in_vault me
                     (fill_in_vault L S context origin request_epoch registration deadline required))
          | _ \<Rightarrow> Return (Ok outcome_invalid)))"

end
