(* ===== verification/Runtime_Rules.thy ===== *)
theory Runtime_Rules
  imports Runtime_Accounts
begin

text \<open>
  What a thread of the runtime relies on and guarantees. Others never take a mutex away; while a
  thread holds the commit gate the epoch, the generation of the accounts and the absence of a lock
  transition are stable; while it holds the vault mutex the open session is. In return an action changes
  those only under their mutex. The rules say that a program keeps this up from the mutexes it holds.
\<close>

section \<open>Rely and guarantee\<close>

definition rely :: "nat \<Rightarrow> ('d, 'e, 'p, 'i) runtime \<Rightarrow> ('d, 'e, 'p, 'i) runtime \<Rightarrow> bool" where
  "rely me s s' \<longleftrightarrow> (\<forall>m. rt_owner s m = Some me \<longleftrightarrow> rt_owner s' m = Some me)
     \<and> (rt_owner s Commit_Gate = Some me \<longrightarrow> rt_epoch s' = rt_epoch s
         \<and> rt_accounts_generation s' = rt_accounts_generation s
         \<and> (rt_flags s' Lock_Active \<longrightarrow> rt_flags s Lock_Active))
     \<and> (rt_owner s Vault_Mutex = Some me \<longrightarrow> fst (rt_vault s') = fst (rt_vault s))"

text \<open>
  A success answers an admitted request. When it answers an operation of the unlocked vault, short of
  its commit point, it is written in the epoch the request was admitted for and outside a lock
  transition; a browser reply is written while the accounts are those it was made from.
\<close>

definition discloses_in_epoch :: "('d, 'e, 'p, 'i) runtime \<Rightarrow> written_response \<Rightarrow> bool" where
  "discloses_in_epoch s w \<longleftrightarrow> (rs_error (wr_response w) = None \<longrightarrow>
     (case wr_permit w of
        None \<Rightarrow> False
      | Some permit \<Rightarrow>
          (\<not> wr_committed w \<and> requires_unlocked_epoch (rp_operation permit)
             \<longrightarrow> rt_epoch s = rp_unlock_epoch permit \<and> \<not> rt_flags s Lock_Active)
          \<and> (case wr_browser_generation w of
               None \<Rightarrow> True | Some g \<Rightarrow> g = rt_accounts_generation s)))"

definition guar :: "nat \<Rightarrow> ('d, 'e, 'p, 'i) runtime \<Rightarrow> ('d, 'e, 'p, 'i) runtime \<Rightarrow> bool" where
  "guar me s s' \<longleftrightarrow> (\<forall>m j. j \<noteq> me \<longrightarrow> (rt_owner s m = Some j \<longleftrightarrow> rt_owner s' m = Some j))
     \<and> (rt_owner s Commit_Gate \<noteq> Some me \<longrightarrow> rt_epoch s' = rt_epoch s
         \<and> rt_accounts_generation s' = rt_accounts_generation s
         \<and> (rt_flags s' Lock_Active \<longrightarrow> rt_flags s Lock_Active))
     \<and> (rt_owner s Vault_Mutex \<noteq> Some me \<longrightarrow> fst (rt_vault s') = fst (rt_vault s))
     \<and> rt_epoch s \<le> rt_epoch s' \<and> rt_accounts_generation s \<le> rt_accounts_generation s'
     \<and> (\<forall>c. rt_cancelled s c \<longrightarrow> rt_cancelled s' c)
     \<and> (idempotency_inv (rt_idempotency s) \<longrightarrow> idempotency_inv (rt_idempotency s'))
     \<and> (\<exists>new. rt_written s' = rt_written s @ new \<and> list_all (discloses_in_epoch s) new)"

lemma guar_rely: "guar i s s' \<Longrightarrow> i \<noteq> j \<Longrightarrow> rely j s s'"
  unfolding rely_def by (intro conjI impI allI; simp add: guar_def)

definition owns :: "nat \<Rightarrow> mutex set \<Rightarrow> ('d, 'e, 'p, 'i) runtime \<Rightarrow> bool" where
  "owns me H s \<longleftrightarrow> (\<forall>m. rt_owner s m = Some me \<longleftrightarrow> m \<in> H)"

lemma owns_stable: "(rely me)\<^sup>*\<^sup>* s s' \<Longrightarrow> owns me H s \<Longrightarrow> owns me H s'"
  by (induction rule: rtranclp.induct) (auto simp: owns_def rely_def)

section \<open>Triples\<close>

text \<open>A thread waits only for a mutex that another one holds.\<close>

definition waits :: "nat \<Rightarrow> ('d, 'e, 'p, 'i) runtime \<Rightarrow> bool" where
  "waits me s \<longleftrightarrow> (\<exists>m j. rt_owner s m = Some j \<and> j \<noteq> me)"

definition triple ::
    "nat \<Rightarrow> (('d, 'e, 'p, 'i) runtime \<Rightarrow> bool) \<Rightarrow> (('d, 'e, 'p, 'i) runtime, 'a) thread
       \<Rightarrow> ('a \<Rightarrow> ('d, 'e, 'p, 'i) runtime \<Rightarrow> bool) \<Rightarrow> bool" where
  "triple me P p Q \<longleftrightarrow> (\<forall>s. P s \<longrightarrow> safe (rely me) (guar me) (waits me) Q p s)"

definition keeps :: "nat \<Rightarrow> mutex set \<Rightarrow> (('d, 'e, 'p, 'i) runtime, 'a) thread \<Rightarrow> bool" where
  "keeps me H p \<longleftrightarrow> triple me (owns me H) p (\<lambda>_. owns me H)"

definition rely_stable :: "nat \<Rightarrow> (('d, 'e, 'p, 'i) runtime \<Rightarrow> bool) \<Rightarrow> bool" where
  "rely_stable me P \<longleftrightarrow> (\<forall>s s'. P s \<longrightarrow> rely me s s' \<longrightarrow> P s')"

lemma stable_star: "rely_stable me P \<Longrightarrow> (rely me)\<^sup>*\<^sup>* s s' \<Longrightarrow> P s \<Longrightarrow> P s'"
  by (rotate_tac 1, induction rule: rtranclp.induct) (auto simp: rely_stable_def)

lemma stable_owns [simp]: "rely_stable me (owns me H)"
  using owns_stable unfolding rely_stable_def by blast

lemma triple_Return: "rely_stable me P \<Longrightarrow> (\<And>s. P s \<Longrightarrow> Q x s) \<Longrightarrow> triple me P (Return x) Q"
  by (auto simp: triple_def dest: stable_star)

lemma triple_Action:
  assumes "rely_stable me P" and "\<And>s. P s \<Longrightarrow> ready s \<Longrightarrow> guar me s (update s)"
    and "\<And>s. P s \<Longrightarrow> ready s \<Longrightarrow> safe (rely me) (guar me) (waits me) Q (rest s) (update s)"
    and "\<And>s. P s \<Longrightarrow> \<not> ready s \<Longrightarrow> waits me s"
  shows "triple me P (Action ready update rest) Q"
  using assms by (auto simp: triple_def dest: stable_star)

lemma triple_then:
  assumes "triple me P p (\<lambda>x s. P' x s)" and "\<And>x. triple me (P' x) (k x) Q"
  shows "triple me P (thread_then p k) Q"
  unfolding triple_def
proof (intro allI impI safe_then)
  fix s assume "P s"
  with assms(1) have "safe (rely me) (guar me) (waits me) P' p s" by (simp add: triple_def)
  then show "safe (rely me) (guar me) (waits me) (\<lambda>x s. safe (rely me) (guar me) (waits me) Q (k x) s) p s"
    by (rule safe_mono) (use assms(2) in \<open>simp add: triple_def\<close>)
qed

lemma triple_post: "triple me P p Q \<Longrightarrow> (\<And>x s. Q x s \<Longrightarrow> Q' x s) \<Longrightarrow> triple me P p Q'"
  unfolding triple_def by (blast intro: safe_mono)

lemma triple_pre: "triple me P p Q \<Longrightarrow> (\<And>s. P' s \<Longrightarrow> P s) \<Longrightarrow> triple me P' p Q"
  unfolding triple_def by blast

lemma triple_atomically:
  assumes "rely_stable me P" and "\<And>s. P s \<Longrightarrow> guar me s (fst (f s))"
    and "\<And>s. P s \<Longrightarrow> Q (snd (f s)) (fst (f s))" and "\<And>x. rely_stable me (Q x)"
  shows "triple me P (atomically f) Q"
  unfolding atomically_def
  by (rule triple_Action [OF assms(1)])
    (auto intro: assms(2) stable_star [OF assms(4)] assms(3))

lemma guar_refl [simp]: "guar me s s"
  by (simp add: guar_def)

lemma triple_observe:
  assumes "rely_stable me P" and "\<And>s. P s \<Longrightarrow> Q (f s) s" and "\<And>x. rely_stable me (Q x)"
  shows "triple me P (observe f) Q"
proof -
  have "observe f = atomically (\<lambda>s. (s, f s))" by (simp add: observe_def atomically_def)
  then show ?thesis using triple_atomically [of me P "\<lambda>s. (s, f s)" Q] assms by simp
qed

section \<open>Rules for programs that give back what they take\<close>

named_theorems keeps_rules \<open>rules for programs that give back what they take\<close>

lemma keeps_Return [keeps_rules]: "keeps me H (Return x)"
  by (simp add: keeps_def triple_Return)

lemma keeps_then [keeps_rules]:
  "keeps me H p \<Longrightarrow> (\<And>x. keeps me H (k x)) \<Longrightarrow> keeps me H (thread_then p k)"
  unfolding keeps_def by (rule triple_then)

lemma keeps_if [keeps_rules]:
  "(b \<Longrightarrow> keeps me H p) \<Longrightarrow> (\<not> b \<Longrightarrow> keeps me H q) \<Longrightarrow> keeps me H (if b then p else q)"
  by simp

lemma keeps_case_option [keeps_rules]:
  "keeps me H p \<Longrightarrow> (\<And>x. keeps me H (q x)) \<Longrightarrow> keeps me H (case v of None \<Rightarrow> p | Some x \<Rightarrow> q x)"
  by (cases v) simp_all

lemma keeps_case_result [keeps_rules]:
  "(\<And>x. keeps me H (p x)) \<Longrightarrow> (\<And>x. keeps me H (q x)) \<Longrightarrow> keeps me H r
     \<Longrightarrow> keeps me H (case v of Ok x \<Rightarrow> p x | Err x \<Rightarrow> q x | Panic \<Rightarrow> r)"
  by (cases v) simp_all

lemma keeps_case_prod [keeps_rules]: "(\<And>x y. keeps me H (p x y)) \<Longrightarrow> keeps me H (case v of (x, y) \<Rightarrow> p x y)"
  by (cases v) simp

lemma keeps_let [keeps_rules]: "keeps me H (k v) \<Longrightarrow> keeps me H (let x = v in k x)"
  by simp

lemma keeps_try [keeps_rules]:
  "keeps me H p \<Longrightarrow> (\<And>x. keeps me H (k x)) \<Longrightarrow> keeps me H (thread_try p k)"
  unfolding thread_try_def by (intro keeps_rules)

lemma keeps_result_try [keeps_rules]: "(\<And>x. keeps me H (k x)) \<Longrightarrow> keeps me H (result_try r k)"
  unfolding result_try_def by (intro keeps_rules)

lemma keeps_atomically:
  "(\<And>s. owns me H s \<Longrightarrow> guar me s (fst (f s)) \<and> owns me H (fst (f s))) \<Longrightarrow> keeps me H (atomically f)"
  unfolding keeps_def by (rule triple_atomically) auto

text \<open>An action that changes nothing that is protected.\<close>

definition quiet :: "('d, 'e, 'p, 'i) runtime \<Rightarrow> ('d, 'e, 'p, 'i) runtime \<Rightarrow> bool" where
  "quiet s s' \<longleftrightarrow> rt_owner s' = rt_owner s \<and> rt_epoch s' = rt_epoch s
     \<and> rt_accounts_generation s' = rt_accounts_generation s \<and> fst (rt_vault s') = fst (rt_vault s)
     \<and> (rt_flags s' Lock_Active \<longrightarrow> rt_flags s Lock_Active)
     \<and> (\<forall>c. rt_cancelled s c \<longrightarrow> rt_cancelled s' c)
     \<and> (idempotency_inv (rt_idempotency s) \<longrightarrow> idempotency_inv (rt_idempotency s'))
     \<and> rt_written s' = rt_written s"

lemma quiet_refl [simp]: "quiet s s"
  by (simp add: quiet_def)

lemma quiet_guar: "quiet s s' \<Longrightarrow> guar me s s'"
  by (simp add: quiet_def guar_def)

lemma keeps_quiet: "(\<And>s. quiet s (fst (f s))) \<Longrightarrow> keeps me H (atomically f)"
  by (rule keeps_atomically) (simp add: quiet_guar, simp add: quiet_def owns_def)

lemma keeps_observe [keeps_rules]: "keeps me H (observe f)"
  unfolding keeps_def by (rule triple_observe) simp_all

lemma keeps_in_section: "(\<And>s. quiet s (fst (f s))) \<Longrightarrow> keeps me H (in_section m f)"
  unfolding in_section_def by (rule keeps_quiet) simp

lemma keeps_with_flag [keeps_rules]:
  "f \<noteq> Lock_Active \<Longrightarrow> keeps me H body \<Longrightarrow> keeps me H (with_flag f body)"
  unfolding with_flag_def FlagPermit_acquire_def FlagPermit_drop_def
  by (intro keeps_rules keeps_quiet) (simp_all add: quiet_def set_flag_def)

lemma keeps_unless [keeps_rules]: "keeps me H check \<Longrightarrow> keeps me H k \<Longrightarrow> keeps me H (unless check k)"
  unfolding unless_def by (intro keeps_rules)

lemma keeps_unless_exit [keeps_rules]:
  "keeps me H check \<Longrightarrow> keeps me H k \<Longrightarrow> keeps me H (unless_exit check k)"
  unfolding unless_exit_def by (intro keeps_rules)

lemma triple_lock:
  assumes "m \<notin> H"
  shows "triple me (owns me H) (lock_mutex me m) (\<lambda>_. owns me (insert m H))"
  unfolding lock_mutex_def
proof (rule triple_Action)
  fix s assume s: "owns me H s" "rt_owner s m = None"
  show "guar me s (s\<lparr>rt_owner := (rt_owner s)(m := Some me)\<rparr>)"
    using s by (auto simp: guar_def)
  have "owns me (insert m H) (s\<lparr>rt_owner := (rt_owner s)(m := Some me)\<rparr>)"
    using s assms by (auto simp: owns_def)
  then show "safe (rely me) (guar me) (waits me) (\<lambda>_. owns me (insert m H)) (Return (rt_poisoned s m))
      (s\<lparr>rt_owner := (rt_owner s)(m := Some me)\<rparr>)"
    by (auto dest: owns_stable)
next
  fix s assume "owns me H s" and "\<not> rt_owner s m = None"
  then show "waits me s" using assms by (auto simp: owns_def waits_def)
qed simp

lemma triple_release:
  "m \<in> H \<Longrightarrow> triple me (owns me H) (release_mutex m b) (\<lambda>_. owns me (H - {m}))"
  unfolding release_mutex_def
proof (rule triple_atomically, goal_cases)
  case (2 s)
  then have "rt_owner s m = Some me" by (simp add: owns_def)
  then show ?case by (simp add: guar_def)
qed (auto simp: owns_def)

lemma keeps_with_mutex_or [keeps_rules]:
  assumes "m \<notin> H" and "keeps me (insert m H) body"
  shows "keeps me H (with_mutex_or me m x body)"
proof -
  have rel: "triple me (owns me (insert m H)) (thread_then (release_mutex m b) (\<lambda>_. Return y)) (\<lambda>_. owns me H)"
    for b y
    using triple_release [of m "insert m H" me b] assms(1) by (auto intro!: triple_then triple_Return)
  show ?thesis
    unfolding keeps_def with_mutex_or_def
  proof (rule triple_then [OF triple_lock [OF assms(1)]])
    show "triple me (owns me (insert m H)) (if poisoned then thread_then (release_mutex m False) (\<lambda>_. Return x)
        else thread_then body (\<lambda>r. thread_then (release_mutex m (r = Panic)) (\<lambda>_. Return r))) (\<lambda>_. owns me H)"
      for poisoned
    proof (cases poisoned)
      case False
      then show ?thesis
        using triple_then [OF assms(2) [unfolded keeps_def] rel] by simp
    qed (use rel in simp)
  qed
qed

lemma keeps_with_mutex [keeps_rules]:
  "m \<notin> H \<Longrightarrow> keeps me (insert m H) body \<Longrightarrow> keeps me H (with_mutex me m body)"
  unfolding with_mutex_def by (rule keeps_with_mutex_or)


section \<open>Shared pieces\<close>

lemma keeps_any_of [keeps_rules]: "keeps me H (any_of checks)"
  unfolding any_of_def by (induction checks) (auto intro: keeps_rules)

lemma keeps_pre_secret [keeps_rules]: "keeps me H (pre_secret_operation e r d)"
  unfolding pre_secret_operation_def is_cancelled_def by (intro keeps_rules)

lemma keeps_set_locked [keeps_rules]: "keeps me H set_locked_unless_shutting_down"
  unfolding set_locked_unless_shutting_down_def by (rule keeps_quiet) (simp add: quiet_def)

lemma keeps_vaulted:
  fixes f :: "('d, 'e, 'p, 'i) runtime \<Rightarrow> ('d, 'e, 'p, 'i) runtime \<times> 'a"
  assumes "Vault_Mutex \<in> H" and "\<And>s. quiet (s\<lparr>rt_vault := rt_vault (fst (f s))\<rparr>) (fst (f s))"
  shows "keeps me H (atomically f)"
proof (rule keeps_atomically)
  fix s :: "('d, 'e, 'p, 'i) runtime" assume s: "owns me H s"
  then have "rt_owner s Vault_Mutex = Some me" using assms(1) by (simp add: owns_def)
  then show "guar me s (fst (f s)) \<and> owns me H (fst (f s))"
    using assms(2) [of s] s by (simp add: guar_def quiet_def owns_def)
qed

lemma keeps_vault_call [keeps_rules]: "Vault_Mutex \<in> H \<Longrightarrow> keeps me H (vault_call f)"
  unfolding vault_call_def by (rule keeps_vaulted) (simp_all add: quiet_def split: prod.split)

lemma keeps_vault_lock [keeps_rules]: "Vault_Mutex \<in> H \<Longrightarrow> keeps me H vault_lock"
  unfolding vault_lock_def by (rule keeps_vaulted) (simp_all add: quiet_def)

lemma keeps_post_secret [keeps_rules]: "Vault_Mutex \<in> H \<Longrightarrow> keeps me H (post_secret_operation e r d)"
  unfolding post_secret_operation_def is_cancelled_def by (intro keeps_rules)

text \<open>An action under the commit gate.\<close>

lemma keeps_gated:
  fixes f :: "('d, 'e, 'p, 'i) runtime \<Rightarrow> ('d, 'e, 'p, 'i) runtime \<times> 'a"
  assumes "Commit_Gate \<in> H"
    and "\<And>s. quiet (s\<lparr>rt_epoch := rt_epoch (fst (f s)),
        rt_accounts_generation := rt_accounts_generation (fst (f s)),
        rt_flags := (rt_flags s)(Lock_Active := rt_flags (fst (f s)) Lock_Active)\<rparr>) (fst (f s))"
    and "\<And>s. rt_epoch s \<le> rt_epoch (fst (f s))"
    and "\<And>s. rt_accounts_generation s \<le> rt_accounts_generation (fst (f s))"
  shows "keeps me H (atomically f)"
proof (rule keeps_atomically)
  fix s :: "('d, 'e, 'p, 'i) runtime" assume s: "owns me H s"
  then have "rt_owner s Commit_Gate = Some me" using assms(1) by (simp add: owns_def)
  then show "guar me s (fst (f s)) \<and> owns me H (fst (f s))"
    using assms(2-4) [of s] s by (simp add: guar_def quiet_def owns_def)
qed

lemma keeps_increment_epoch [keeps_rules]: "Commit_Gate \<in> H \<Longrightarrow> keeps me H increment_epoch"
  unfolding increment_epoch_def
  by (rule keeps_gated) (auto simp: quiet_def u64_checked_add_def word_le_nat_alt unat_word_ariths
      split: option.splits)

lemma keeps_advance_epoch [keeps_rules]: "Commit_Gate \<in> H \<Longrightarrow> keeps me H advance_epoch"
  unfolding advance_epoch_def
  by (intro keeps_rules keeps_in_section; simp add: quiet_def cancel_cells_def)

lemma keeps_fail_closed [keeps_rules]: "Commit_Gate \<notin> H \<Longrightarrow> keeps me H (fail_closed me)"
  unfolding fail_closed_def by (intro keeps_rules; simp)

lemma keeps_case_exit [keeps_rules]:
  "(\<And>x. keeps me H (p x)) \<Longrightarrow> keeps me H q \<Longrightarrow> keeps me H (case v of Exit x \<Rightarrow> p x | Exit_Failed \<Rightarrow> q)"
  by (cases v) simp_all

lemma keeps_after_vault [keeps_rules]:
  "Commit_Gate \<notin> H \<Longrightarrow> keeps me H p \<Longrightarrow> keeps me H (after_vault me p)"
  unfolding after_vault_def by (intro keeps_rules)

lemma keeps_in_vault [keeps_rules]:
  "Commit_Gate \<notin> H \<Longrightarrow> Vault_Mutex \<notin> H \<Longrightarrow> keeps me (insert Vault_Mutex H) body
     \<Longrightarrow> keeps me H (in_vault me body)"
  unfolding in_vault_def by (intro keeps_rules)

lemma keeps_error_exit [keeps_rules]: "Vault_Mutex \<in> H \<Longrightarrow> keeps me H (error_exit e r d x)"
  unfolding error_exit_def vault_abort_def abort_after_core_def read_error_after_core_def
  by (intro keeps_rules)

lemma keeps_read_in_vault [keeps_rules]:
  "Commit_Gate \<notin> H \<Longrightarrow> Vault_Mutex \<notin> H \<Longrightarrow> keeps me H (read_in_vault me e r d call reply)"
  unfolding read_in_vault_def by (intro keeps_rules; simp)

section \<open>Mutations\<close>

lemma keeps_commit_check [keeps_rules]: "keeps me H (commit_check e r d)"
  unfolding commit_check_def by (intro keeps_rules)

text \<open>The gate is held exactly when the callback allowed the commit.\<close>

lemma triple_take_commit_gate:
  assumes "Commit_Gate \<notin> H" and "keeps me (insert Commit_Gate H) check"
  shows "triple me (owns me H) (take_commit_gate me check)
    (\<lambda>r. owns me (if r = Ok () then insert Commit_Gate H else H))"
proof -
  have asked: "keeps me (insert Commit_Gate H) (if poisoned then Return (Err Storage_Conflict) else check)" for poisoned
    using assms(2) by (simp add: keeps_Return)
  have "triple me (owns me (insert Commit_Gate H))
      (if r = Ok () then Return r else thread_then (release_mutex Commit_Gate False) (\<lambda>_. Return r))
      (\<lambda>r. owns me (if r = Ok () then insert Commit_Gate H else H))" for r
  proof (cases "r = Ok ()")
    case False
    then show ?thesis
      unfolding thread_then_assoc [symmetric]
      using triple_release [of Commit_Gate "insert Commit_Gate H" me False] assms(1)
      by (auto intro!: triple_then triple_Return)
  qed (simp add: triple_Return)
  then show ?thesis
    unfolding take_commit_gate_def
    by (intro triple_then [OF triple_lock [OF assms(1)]] triple_then [OF asked [unfolded keeps_def]])
qed

text \<open>A commit never succeeds that its callback did not allow.\<close>

definition commits_when_allowed ::
    "((unit, storage_error) result \<Rightarrow> int \<Rightarrow> (nat \<Rightarrow> bool) \<Rightarrow> ('d, 'e) agent_state
        \<Rightarrow> ('d, 'e) agent_state \<times> ('a, account_error) result) \<Rightarrow> bool" where
  "commits_when_allowed call \<longleftrightarrow> (\<forall>b now polls v x. snd (call b now polls v) = Ok x \<longrightarrow> b = Ok ())"

lemma triple_vault_call:
  fixes f :: "int \<Rightarrow> (nat \<Rightarrow> bool) \<Rightarrow> ('d, 'e) agent_state \<Rightarrow> ('d, 'e) agent_state \<times> 'a"
  assumes "Vault_Mutex \<in> H" and "\<And>now polls v. P (snd (f now polls v))"
  shows "triple me (owns me H) (vault_call f :: (('d, 'e, 'p, 'i) runtime, 'a) thread) (\<lambda>r s. owns me H s \<and> P r)"
  unfolding vault_call_def
proof (rule triple_atomically, goal_cases)
  case (2 s)
  then have "rt_owner s Vault_Mutex = Some me" using assms by (simp add: owns_def)
  then show ?case
    by (cases "f (rt_unix_ms s) (rt_polls s) (rt_vault s)") (simp add: guar_def)
next
  case (3 s)
  then show ?case
    using assms(2) [of "rt_unix_ms s" "rt_polls s" "rt_vault s"]
    by (cases "f (rt_unix_ms s) (rt_polls s) (rt_vault s)") (simp add: owns_def)
next
  case (4 x)
  then show ?case using stable_owns [of me H] unfolding rely_stable_def by blast
qed simp

lemma triple_release_failed:
  assumes "Commit_Gate \<notin> H"
  shows "triple me (owns me (if held then insert Commit_Gate H else H)) (release_failed_commit_guard held r)
    (\<lambda>h s. owns me (if h then insert Commit_Gate H else H) s \<and> (h \<longleftrightarrow> held \<and> (\<exists>x. r = Ok x)))"
proof -
  have "triple me (owns me (insert Commit_Gate H)) (release_mutex Commit_Gate b) (\<lambda>_. owns me H)" for b
    using triple_release [of Commit_Gate "insert Commit_Gate H" me b] assms by simp
  then show ?thesis
    unfolding release_failed_commit_guard_def
    by (cases r; cases held) (auto intro!: triple_then triple_Return)
qed

lemma triple_if: "(b \<Longrightarrow> triple me P p Q) \<Longrightarrow> (\<not> b \<Longrightarrow> triple me P q Q) \<Longrightarrow> triple me P (if b then p else q) Q"
  by simp

lemma triple_known: "(b \<Longrightarrow> triple me P p Q) \<Longrightarrow> triple me (\<lambda>s. P s \<and> b) p Q"
  by (cases b) (simp_all add: triple_def)

lemma triple_release_into:
  "m \<in> H \<Longrightarrow> H' = H - {m} \<Longrightarrow> triple me (owns me H) (thread_then (release_mutex m b) (\<lambda>_. Return x)) (\<lambda>_. owns me H')"
  by (rule triple_then [OF triple_release]) (simp_all add: triple_Return)

lemma keeps_mutate_in_vault:
  fixes call :: "(unit, storage_error) result \<Rightarrow> int \<Rightarrow> (nat \<Rightarrow> bool) \<Rightarrow> ('d, 'e) agent_state
        \<Rightarrow> ('d, 'e) agent_state \<times> ('a, account_error) result"
  assumes H: "Commit_Gate \<notin> H" "Vault_Mutex \<notin> H"
    and pre: "keeps me (insert Vault_Mutex H) pre"
    and check: "keeps me (insert Commit_Gate (insert Vault_Mutex H)) check"
    and call: "commits_when_allowed call"
    and Ok: "\<And>x. keeps me (insert Commit_Gate (insert Vault_Mutex H)) (k (Ok x))"
    and other: "\<And>r. (\<And>x. r \<noteq> Ok x) \<Longrightarrow> keeps me (insert Vault_Mutex H) (k r)"
  shows "keeps me H (mutate_in_vault me pre check call k)"
proof -
  let ?V = "insert Vault_Mutex H"
  let ?G = "\<lambda>b. if b then insert Commit_Gate ?V else ?V"
  let ?held = "\<lambda>(b :: bool) (r :: ('a, account_error) result). b \<longleftrightarrow> (\<exists>x. r = Ok x)"
  have leave: "triple me (owns me (?G held)) (thread_then (release_mutex Vault_Mutex b) (\<lambda>_.
      thread_then (if held then release_mutex Commit_Gate c else Return ()) (\<lambda>_. Return q))) (\<lambda>_. owns me H)"
    for held b c q
    by (rule triple_then [OF triple_release])
      (use H in \<open>auto intro!: triple_release_into triple_Return simp: insert_Diff_if\<close>)
  have arms: "triple me (\<lambda>s. owns me (?G held) s \<and> ?held held r) (k r) (\<lambda>_. owns me (?G held))" for held r
    by (rule triple_known) (use Ok other in \<open>auto simp: keeps_def\<close>)
  have asked: "triple me (owns me ?V)
      (if reached then take_commit_gate me check else Return (Err Storage_Aborted))
      (\<lambda>r. owns me (?G (r = Ok ())))" for reached
    using triple_take_commit_gate [OF _ check] H by (simp add: triple_Return)
  have committed: "triple me (owns me (?G (allowed = Ok ()))) (vault_call (\<lambda>_ _. call allowed now polls))
      (\<lambda>r s. owns me (?G (allowed = Ok ())) s \<and> ((\<exists>x. r = Ok x) \<longrightarrow> allowed = Ok ()))" for allowed now polls
    by (rule triple_vault_call) (simp, use call in \<open>unfold commits_when_allowed_def, blast\<close>)
  have mutation: "triple me (owns me ?V) (observe f) (\<lambda>_. owns me ?V)" for f
    using keeps_observe [of me ?V f] by (simp add: keeps_def)
  have rest: "triple me (\<lambda>s. owns me (?G (allowed = Ok ())) s \<and> ((\<exists>x. r = Ok x) \<longrightarrow> allowed = Ok ()))
      (thread_then (release_failed_commit_guard (allowed = Ok ()) r) (\<lambda>held. thread_then (k r) (\<lambda>q.
       thread_then (release_mutex Vault_Mutex (q = Panic)) (\<lambda>_.
       thread_then (if held then release_mutex Commit_Gate (q = Panic) else Return ()) (\<lambda>_. Return q)))))
      (\<lambda>_. owns me H)" for allowed :: "(unit, storage_error) result" and r
    by (rule triple_known, rule triple_then [OF triple_release_failed], use H in simp,
        rule triple_then [OF triple_pre [OF arms] leave]) auto
  have body: "triple me (owns me ?V) (commit_in_vault me check call k) (\<lambda>_. owns me H)"
    unfolding commit_in_vault_def
    by (auto intro!: triple_then [OF mutation] triple_then [OF asked] triple_then [OF committed rest])
  have left: "triple me (owns me ?V) (thread_then (release_mutex Vault_Mutex False) (\<lambda>_. Return q)) (\<lambda>_. owns me H)"
    for q
    by (rule triple_release_into) (use H in simp_all)
  show ?thesis
    unfolding keeps_def mutate_in_vault_def
    by (intro triple_then [OF triple_lock [OF H(2)]] triple_if left triple_then [OF pre [unfolded keeps_def]])
      (auto split: option.split intro: body left)
qed

lemma agent_then_Ok: "snd (agent_then c k) = Ok x \<Longrightarrow> \<exists>y. snd c = Ok y \<and> snd (k (fst c) y) = Ok x"
  by (auto simp: agent_then_def split: prod.splits result.splits)

lemma pure_then_OkD: "snd (pure_then s r k) = Ok x \<Longrightarrow> \<exists>y. snd (k y) = Ok x"
  by (auto simp: pure_then_def split: result.splits)

lemma run_transaction_allowed: "run_transaction S h m rs p b t = Ok t' \<Longrightarrow> b = Ok ()"
  unfolding run_transaction_def by (cases b) (auto simp: and_then_Ok split: prod.splits if_splits)

lemma apply_record_mutation_allowed:
  "apply_record_mutation S h m rs p b d = (d', Ok x) \<Longrightarrow> b = Ok ()"
  unfolding apply_record_mutation_def
  by (auto split: prod.splits result.splits bool.splits dest: run_transaction_allowed)

lemma persist_mutation_allowed: "snd (persist_mutation S permit snapshot prepared b s) = Ok x \<Longrightarrow> b = Ok ()"
  unfolding persist_mutation_def
  by (auto dest!: pure_then_OkD split: prod.splits if_splits result.splits storage_error.splits
      dest: apply_record_mutation_allowed)

lemma mutation_allowed: "snd (mutate_vault S now prepare late_cancel b s) = Ok x \<Longrightarrow> b = Ok ()"
  unfolding mutate_vault_def finish_mutation_def
  by (auto dest!: pure_then_OkD agent_then_Ok persist_mutation_allowed
      split: prod.splits result.splits if_splits)

lemma keeping_Ok: "snd (keeping f c) = Ok x \<Longrightarrow> \<exists>y. snd c = Ok y"
  by (cases "snd c") (auto simp: keeping_def)

lemmas mutation_defs =
  agent_add_website_account_with_before_commit_and_check_def
  agent_update_website_account_with_before_commit_and_check_def
  agent_delete_website_account_with_before_commit_and_check_def
  agent_add_passkey_with_before_commit_and_check_def
  agent_confirm_passkey_creation_with_before_commit_and_check_def
  agent_sign_passkey_assertion_with_before_commit_and_check_def
  agent_delete_passkey_with_before_commit_and_check_def

lemma agent_mutations_allowed [simp]:
  "commits_when_allowed (\<lambda>b now polls.
     agent_add_website_account_with_before_commit_and_check L S now inp polls b)"
  "commits_when_allowed (\<lambda>b now polls.
     agent_update_website_account_with_before_commit_and_check L S now i inp polls b)"
  "commits_when_allowed (\<lambda>b now polls.
     agent_delete_website_account_with_before_commit_and_check L S now i polls b)"
  "commits_when_allowed (\<lambda>b now polls.
     agent_add_passkey_with_before_commit_and_check L S now pin excluded creation_state polls b)"
  "commits_when_allowed (\<lambda>b now polls.
     agent_confirm_passkey_creation_with_before_commit_and_check L S now i polls b)"
  "commits_when_allowed (\<lambda>b now polls.
     agent_sign_passkey_assertion_with_before_commit_and_check L S now rp i hash polls b)"
  "commits_when_allowed (\<lambda>b now polls.
     agent_delete_passkey_with_before_commit_and_check L S now i polls b)"
  unfolding commits_when_allowed_def mutation_defs
  by (blast dest: keeping_Ok mutation_allowed)+

text \<open>Between reading the generation and storing the next one nobody else changes it.\<close>

lemma keeps_accounts_changed [keeps_rules]:
  assumes "Commit_Gate \<in> H"
  shows "keeps me H (accounts_changed :: (('d, 'e, 'p, 'i) runtime, unit) thread)"
proof -
  let ?P = "\<lambda>g s. owns me H s \<and> rt_accounts_generation s = g"
  have owner: "owns me H s \<Longrightarrow> rt_owner s Commit_Gate = Some me" for s :: "('d, 'e, 'p, 'i) runtime"
    using assms by (simp add: owns_def)
  have stable: "rely_stable me (?P g :: ('d, 'e, 'p, 'i) runtime \<Rightarrow> bool)" for g
    using stable_owns [of me H] owner unfolding rely_stable_def rely_def by blast
  have step: "g \<le> (if g = - 1 then - 1 else g + 1)" for g :: u64
  proof (cases "g = - 1")
    case False
    then have "unat g \<noteq> unat (- 1 :: u64)" by (metis word_unat_eq_iff)
    then have "unat g \<noteq> 2 ^ 64 - 1" by (simp add: unsigned_minus_1_eq_mask mask_eq_exp_minus_1)
    moreover have "unat g < 2 ^ 64" using unsigned_less [of g] by simp
    ultimately show ?thesis using False by (simp add: word_le_nat_alt unat_word_ariths)
  qed simp
  have load: "triple me (owns me H) (observe rt_accounts_generation :: (('d, 'e, 'p, 'i) runtime, u64) thread) ?P"
    by (rule triple_observe) (simp_all add: stable)
  show ?thesis
    unfolding keeps_def accounts_changed_def
    by (rule triple_then [OF load], rule triple_atomically [OF stable])
      (use owner step in \<open>auto simp: guar_def owns_def\<close>)
qed

lemma keeps_change_in_vault [keeps_rules]:
  assumes "Commit_Gate \<notin> H" and "Vault_Mutex \<notin> H" and "commits_when_allowed call"
    and "\<And>x. keeps me (insert Commit_Gate (insert Vault_Mutex H)) (committed x)"
  shows "keeps me H (change_in_vault me e r d call committed)"
  unfolding change_in_vault_def
  by (intro keeps_rules keeps_mutate_in_vault)
    (auto simp: mutation_exit_def assms intro: keeps_rules split: result.split)

section \<open>Handlers of accounts and pages\<close>

lemma keeps_account_handlers [keeps_rules]:
  assumes "Commit_Gate \<notin> H" and "Vault_Mutex \<notin> H"
  shows "keeps me H (list_accounts L S me offset limit e r d)"
    and "keeps me H (get_account L S me i e r d)"
    and "keeps me H (add_account L S me f e r d)"
    and "keeps me H (update_account L S me i f e r d)"
    and "keeps me H (delete_account L S me i e r d)"
  unfolding list_accounts_def get_account_def add_account_def update_account_def delete_account_def
  by (intro keeps_rules; simp add: assms)+

lemma keeps_draw_bytes [keeps_rules]: "keeps me H (draw_bytes L n)"
  unfolding draw_bytes_def by (rule keeps_quiet) (simp add: quiet_def split: prod.split)

lemma keeps_claim_browser_lease [keeps_rules]: "keeps me H (claim_browser_lease c sel e i)"
  unfolding claim_browser_lease_def
  by (rule keeps_in_section) (simp add: quiet_def split: option.split)

lemma keeps_offer_lease [keeps_rules]: "keeps me H (offer_lease i lease body)"
  unfolding offer_lease_def by (rule keeps_in_section) (simp add: quiet_def)

lemma keeps_browser_reply [keeps_rules]: "keeps me H (browser_reply L c e i d g required account)"
  unfolding browser_reply_def by (intro keeps_rules)

lemma keeps_case_lease [keeps_rules]:
  "(\<And>x. keeps me H (p x)) \<Longrightarrow> (\<And>x. keeps me H (q x))
     \<Longrightarrow> keeps me H (case v of Lease_Ready x \<Rightarrow> p x | Lease_Rejected x \<Rightarrow> q x)"
  by (cases v) simp_all

lemma keeps_browser_fill [keeps_rules]:
  "Commit_Gate \<notin> H \<Longrightarrow> Vault_Mutex \<notin> H \<Longrightarrow> keeps me H (browser_fill L S me c sel e r d)"
  unfolding browser_fill_def fill_in_vault_def by (intro keeps_rules; simp)

end
