(* ===== verification/Runtime_Passkeys.thy ===== *)
theory Runtime_Passkeys
  imports Runtime_Rules
begin

text \<open>
  The passkey handlers of the runtime (runtime.rs: \<open>make_passkey\<close>, \<open>get_passkey_assertion\<close>, the two
  listings, \<open>delete_passkey\<close>, \<open>confirm_passkey_creation\<close>, \<open>rollback_passkey_creation\<close> and the cleanup of
  creations whose peer went away) over the verifier of passkeys.rs, whose platform calls are a
  parameter and change only the platform. A creation stays pending, with the peer and epoch it was
  made for, until it is confirmed or rolled back.
\<close>

section \<open>The verifier\<close>

record verified_make_request =
  vm_rp_id :: bytes
  vm_user_handle :: bytes
  vm_user_name :: bytes
  vm_user_display_name :: bytes
  vm_excluded_credential_ids :: "bytes list"

record verified_assertion_request =
  vr_rp_id :: bytes
  vr_client_data_hash :: bytes

record verified_assertion_lookup =
  vk_rp_id :: bytes
  vk_allowed_credential_ids :: "bytes list"
  vk_allow_list_present :: bool

record 'p passkey_request_verifier =
  remove_cached_credential :: "bytes \<Rightarrow> 'p \<Rightarrow> 'p \<times> (unit, passkey_verification_error) result"
  verify_assertion_lookup ::
    "passkey_request_proof \<Rightarrow> 'p \<Rightarrow> 'p \<times> (verified_assertion_lookup, passkey_verification_error) result"
  verify_make ::
    "passkey_transaction_proof \<Rightarrow> 'p \<Rightarrow> 'p \<times> (verified_make_request, passkey_verification_error) result"
  verify_assertion ::
    "passkey_transaction_proof \<Rightarrow> bytes \<Rightarrow> 'p
       \<Rightarrow> 'p \<times> (verified_assertion_request, passkey_verification_error) result"

text \<open>Where there is no Windows, every call is unavailable.\<close>

definition platform_passkey_request_verifier :: "'p passkey_request_verifier" where
  "platform_passkey_request_verifier =
     \<lparr>remove_cached_credential = (\<lambda>_ p. (p, Err Verify_Unavailable)),
      verify_assertion_lookup = (\<lambda>_ p. (p, Err Verify_Unavailable)),
      verify_make = (\<lambda>_ p. (p, Err Verify_Unavailable)),
      verify_assertion = (\<lambda>_ _ p. (p, Err Verify_Unavailable))\<rparr>"

definition platform_call ::
    "('p \<Rightarrow> 'p \<times> 'a) \<Rightarrow> (('d, 'e, 'p, 'i) runtime, 'a) thread" where
  "platform_call f = atomically (\<lambda>s. case f (rt_platform s) of (p, r) \<Rightarrow> (s\<lparr>rt_platform := p\<rparr>, r))"

text \<open>A verification, and its error mapped to the outcome.\<close>

definition verified ::
    "('p \<Rightarrow> 'p \<times> ('a, passkey_verification_error) result)
       \<Rightarrow> ('a \<Rightarrow> ('d, 'e, 'p, 'i, execution_outcome) work) \<Rightarrow> ('d, 'e, 'p, 'i, execution_outcome) work" where
  "verified f k = thread_then (platform_call f) (\<lambda>r. case r of
     Ok x \<Rightarrow> k x | Err error \<Rightarrow> Return (Ok (map_passkey_verification_error error)) | Panic \<Rightarrow> Return Panic)"

section \<open>Pending creations\<close>

definition pending_creation ::
    "pending_passkey_creation_key \<Rightarrow> ('d, 'e, 'p, 'i, pending_passkey_creation option) work" where
  "pending_creation key = in_section Pending_Creations (\<lambda>s.
     (s, Ok (fmlookup (rt_pending_passkey_creations s) key)))"

definition insert_pending ::
    "pending_passkey_creation_key \<Rightarrow> pending_passkey_creation \<Rightarrow> ('d, 'e, 'p, 'i, unit) work" where
  "insert_pending key pending = in_section Pending_Creations (\<lambda>s.
     (s\<lparr>rt_pending_passkey_creations := fmupd key pending (rt_pending_passkey_creations s)\<rparr>,
      if fmlookup (rt_pending_passkey_creations s) key \<noteq> None then Err Dispatch_Internal else Ok ()))"

definition remove_pending ::
    "pending_passkey_creation_key \<Rightarrow> ('d, 'e, 'p, 'i, pending_passkey_creation option) work" where
  "remove_pending key = in_section Pending_Creations (\<lambda>s.
     (s\<lparr>rt_pending_passkey_creations := fmdrop key (rt_pending_passkey_creations s)\<rparr>,
      Ok (fmlookup (rt_pending_passkey_creations s) key)))"

text \<open>The callback's look at the creation, while the commit gate is held.\<close>

definition pending_is_exact ::
    "pending_passkey_creation_key \<Rightarrow> pending_passkey_creation
       \<Rightarrow> (('d, 'e, 'p, 'i) runtime, (bool, storage_error) result) thread" where
  "pending_is_exact key pending = observe (\<lambda>s. if rt_poisoned s Pending_Creations then Err Storage_Conflict
     else Ok (fmlookup (rt_pending_passkey_creations s) key = Some pending))"

text \<open>The map is ordered by its keys; the first creation whose peer went away.\<close>

definition first_disconnected ::
    "(pending_passkey_creation_key, pending_passkey_creation) fmap
       \<Rightarrow> (pending_passkey_creation_key \<times> pending_passkey_creation) option" where
  "first_disconnected m =
     (case sorted_list_of_fset ((\<lambda>k. (pk_connection_id k, pk_transaction_id k)) |`|
             ffilter (\<lambda>k. case fmlookup m k of None \<Rightarrow> False | Some p \<Rightarrow> pn_disconnected p) (fmdom m)) of
        [] \<Rightarrow> None
      | (c, t) # _ \<Rightarrow>
          (let key = \<lparr>pk_connection_id = c, pk_transaction_id = t\<rparr>
           in map_option (Pair key) (fmlookup m key)))"

text \<open>What one round of the cleanup ends with.\<close>

datatype cleanup_round = Round_Done | Round_Stopped | Round_Failed

definition rollback_check ::
    "u64 \<Rightarrow> pending_passkey_creation_key \<Rightarrow> pending_passkey_creation
       \<Rightarrow> (('d, 'e, 'p, 'i) runtime, (unit, storage_error) result) thread" where
  "rollback_check request_epoch key pending =
     thread_try (pending_is_exact key pending) (\<lambda>exact.
     thread_then (any_of [\<lambda>s. rt_epoch s \<noteq> request_epoch, \<lambda>s. rt_flags s Lock_Active]) (\<lambda>refused.
     Return (if refused \<or> \<not> exact then Err Storage_Aborted else Ok ())))"

definition rollback_round ::
    "'e vault_libs \<Rightarrow> ('d, 't) databases \<Rightarrow> nat \<Rightarrow> pending_passkey_creation_key
       \<Rightarrow> pending_passkey_creation \<Rightarrow> u64 \<Rightarrow> ('d, 'e, 'p, 'i, cleanup_round) work" where
  "rollback_round L S me key pending request_epoch =
     mutate_in_vault me
       (thread_then (any_of [\<lambda>s. agent_state_of s \<noteq> St_Unlocked, \<lambda>s. rt_epoch s \<noteq> request_epoch,
          \<lambda>s. rt_flags s Lock_Active]) (\<lambda>stop. Return (if stop then Some Round_Stopped else None)))
       (rollback_check request_epoch key pending)
       (\<lambda>before_commit now polls. agent_delete_passkey_with_before_commit_and_check L S now
          (pn_credential_id pending) polls before_commit)
       (\<lambda>r. case r of
          Panic \<Rightarrow> Return Panic
        | Err Acc_Aborted \<Rightarrow> Return (Ok Round_Stopped)
        | Err Acc_Locked \<Rightarrow> Return (Ok Round_Stopped)
        | Err Acc_Failed \<Rightarrow> thread_then vault_lock (\<lambda>_. Return (Ok Round_Failed))
        | Err Acc_Conflict \<Rightarrow> Return (Err Dispatch_Internal)
        | _ \<Rightarrow> thread_try (remove_pending key) (\<lambda>removed.
            Return (if removed \<noteq> Some pending then Err Dispatch_Internal else Ok Round_Done)))"

text \<open>
  The cleanup goes on until no creation is left whose peer went away. Others may add some meanwhile,
  so the loop has fuel; without it the thread never moves on, and every number of rounds is covered
  by some fuel.
\<close>

primrec rollback_loop ::
    "'e vault_libs \<Rightarrow> ('d, 't) databases \<Rightarrow> 'p passkey_request_verifier \<Rightarrow> nat \<Rightarrow> nat
       \<Rightarrow> ('d, 'e, 'p, 'i, bool) work" where
  "rollback_loop L S V me 0 = Exhausted"
| "rollback_loop L S V me (Suc rounds) =
     thread_try (in_section Pending_Creations (\<lambda>s.
       (s, Ok (first_disconnected (rt_pending_passkey_creations s))))) (\<lambda>candidate.
     case candidate of
       None \<Rightarrow> Return (Ok True)
     | Some (key, pending) \<Rightarrow>
         thread_then (any_of [\<lambda>s. agent_state_of s \<noteq> St_Unlocked, \<lambda>s. rt_flags s Lock_Active]) (\<lambda>stop.
         if stop then Return (Ok False) else
         thread_then (platform_call (remove_cached_credential V (pn_credential_id pending))) (\<lambda>removed.
         if removed \<noteq> Ok () then Return (if removed = Panic then Panic else Ok False) else
         thread_then load_epoch (\<lambda>request_epoch.
         thread_try (rollback_round L S me key pending request_epoch) (\<lambda>round. case round of
           Round_Done \<Rightarrow> rollback_loop L S V me rounds
         | Round_Stopped \<Rightarrow> Return (Ok False)
         | Round_Failed \<Rightarrow> thread_try (fail_closed me) (\<lambda>_. Return (Err Dispatch_Internal)))))))"

definition rollback_disconnected_passkey_creations ::
    "'e vault_libs \<Rightarrow> ('d, 't) databases \<Rightarrow> 'p passkey_request_verifier \<Rightarrow> nat \<Rightarrow> nat
       \<Rightarrow> ('d, 'e, 'p, 'i, bool) work" where
  "rollback_disconnected_passkey_creations L S V me rounds =
     with_mutex me Cleanup_Gate (rollback_loop L S V me rounds)"

section \<open>Creating and confirming\<close>

definition transaction_key :: "passkey_transaction_proof \<Rightarrow> bytes \<Rightarrow> pending_passkey_creation_key" where
  "transaction_key proof connection_id =
     \<lparr>pk_connection_id = connection_id, pk_transaction_id = pp_transaction_id (pt_request proof)\<rparr>"

definition empty_reply :: "'e vault_libs \<Rightarrow> (execution_outcome, dispatch_error) result" where
  "empty_reply L = map_ok outcome_success (from_protocol (encode_empty_result (vl_cbor L)))"

definition make_passkey ::
    "'e vault_libs \<Rightarrow> ('d, 't) databases \<Rightarrow> 'p passkey_request_verifier \<Rightarrow> nat \<Rightarrow> nat
       \<Rightarrow> passkey_transaction_proof \<Rightarrow> bytes \<Rightarrow> u32 \<Rightarrow> u64 \<Rightarrow> request_registration \<Rightarrow> instant
       \<Rightarrow> ('d, 'e, 'p, 'i, execution_outcome) work" where
  "make_passkey L S V me rounds proof connection_id authenticated_process_id request_epoch registration
       deadline =
     unless (pre_secret_operation request_epoch registration deadline)
     (thread_try (rollback_disconnected_passkey_creations L S V me rounds) (\<lambda>clean.
      if \<not> clean then Return (Ok outcome_busy) else
      verified (verify_make V proof) (\<lambda>request.
      let key = transaction_key proof connection_id in
      thread_try (pending_creation key) (\<lambda>known.
      if known \<noteq> None then Return (Ok outcome_invalid) else
      with_flag Mutation_Active
        (unless (pre_secret_operation request_epoch registration deadline)
        (case PasskeyInput_new (vl_url L) (vm_rp_id request) (vm_user_handle request)
                (vm_user_name request) (vm_user_display_name request) of
           Ok inp \<Rightarrow>
             change_in_vault me request_epoch registration deadline
               (\<lambda>before_commit now polls. agent_add_passkey_with_before_commit_and_check L S now inp
                  (vm_excluded_credential_ids request) Pending polls before_commit)
               (\<lambda>credential.
                  thread_try (insert_pending key
                    \<lparr>pn_credential_id = pcr_credential_id credential,
                     pn_authenticated_process_id = authenticated_process_id,
                     pn_unlock_epoch = request_epoch, pn_confirmed = False, pn_disconnected = False\<rparr>) (\<lambda>_.
                  Return (map_ok (commit_point \<circ> outcome_success) (from_protocol
                    (encode_passkey_credential (vl_cbor L)
                      \<lparr>pc_credential_id = pcr_credential_id credential,
                       pc_user_handle = pcr_user_handle credential,
                       pc_public_key = pcr_public_key credential\<rparr>)))))
         | _ \<Rightarrow> Return (Ok outcome_invalid)))))))"

definition get_passkey_assertion ::
    "'e vault_libs \<Rightarrow> ('d, 't) databases \<Rightarrow> 'p passkey_request_verifier \<Rightarrow> nat
       \<Rightarrow> passkey_transaction_proof \<Rightarrow> bytes \<Rightarrow> u64 \<Rightarrow> request_registration \<Rightarrow> instant
       \<Rightarrow> ('d, 'e, 'p, 'i, execution_outcome) work" where
  "get_passkey_assertion L S V me proof credential_id request_epoch registration deadline =
     unless (pre_secret_operation request_epoch registration deadline)
     (verified (verify_assertion V proof credential_id) (\<lambda>request.
      with_flag Mutation_Active
        (unless (pre_secret_operation request_epoch registration deadline)
        (change_in_vault me request_epoch registration deadline
           (\<lambda>before_commit now polls. agent_sign_passkey_assertion_with_before_commit_and_check L S now
              (vr_rp_id request) credential_id (vr_client_data_hash request) polls before_commit)
           (\<lambda>assertion. Return (map_ok (commit_point \<circ> outcome_success) (from_protocol
              (encode_passkey_assertion (vl_cbor L)
                \<lparr>pa_credential_id = pas_credential_id assertion,
                 pa_user_handle = pas_user_handle assertion,
                 pa_authenticator_data = pas_authenticator_data assertion,
                 pa_signature_der = pas_signature_der assertion\<rparr>))))))))"

definition list_passkeys_for_assertion ::
    "'e vault_libs \<Rightarrow> ('d, 't) databases \<Rightarrow> 'p passkey_request_verifier \<Rightarrow> nat
       \<Rightarrow> passkey_request_proof \<Rightarrow> u64 \<Rightarrow> request_registration \<Rightarrow> instant
       \<Rightarrow> ('d, 'e, 'p, 'i, execution_outcome) work" where
  "list_passkeys_for_assertion L S V me proof request_epoch registration deadline =
     unless (pre_secret_operation request_epoch registration deadline)
     (verified (verify_assertion_lookup V proof) (\<lambda>request.
      read_in_vault me request_epoch registration deadline
        (agent_list_passkeys_for_assertion_with_check L S (vk_rp_id request)
           (vk_allowed_credential_ids request) (vk_allow_list_present request))
        (\<lambda>passkeys. map_ok outcome_success (from_protocol (encode_passkey_summaries (vl_cbor L)
           (map (\<lambda>p. \<lparr>ps_credential_id = psu_credential_id p, ps_user_handle = psu_user_handle p,
                      ps_user_name = psu_user_name p, ps_user_display_name = psu_user_display_name p\<rparr>)
             passkeys))))))"

definition list_passkeys ::
    "'e vault_libs \<Rightarrow> ('d, 't) databases \<Rightarrow> nat \<Rightarrow> u64 \<Rightarrow> request_registration \<Rightarrow> instant
       \<Rightarrow> ('d, 'e, 'p, 'i, execution_outcome) work" where
  "list_passkeys L S me request_epoch registration deadline =
     unless (pre_secret_operation request_epoch registration deadline)
     (read_in_vault me request_epoch registration deadline
        (agent_list_passkeys_with_check L S)
        (\<lambda>passkeys. map_ok outcome_success (from_protocol (encode_passkey_management_summaries (vl_cbor L)
           (map (\<lambda>p. \<lparr>pm_credential_id = psu_credential_id p, pm_rp_id = psu_rp_id p,
                      pm_user_name = psu_user_name p, pm_user_display_name = psu_user_display_name p\<rparr>)
             passkeys)))))"

definition delete_passkey ::
    "'e vault_libs \<Rightarrow> ('d, 't) databases \<Rightarrow> nat \<Rightarrow> bytes \<Rightarrow> u64 \<Rightarrow> request_registration \<Rightarrow> instant
       \<Rightarrow> ('d, 'e, 'p, 'i, execution_outcome) work" where
  "delete_passkey L S me credential_id request_epoch registration deadline =
     with_flag Mutation_Active
       (unless (pre_secret_operation request_epoch registration deadline)
       (change_in_vault me request_epoch registration deadline
          (\<lambda>before_commit now polls. agent_delete_passkey_with_before_commit_and_check L S now
             credential_id polls before_commit)
          (\<lambda>_. Return (map_ok commit_point (empty_reply L)))))"

text \<open>The creation a confirmation or a rollback names, and whether it is this peer's in this epoch.\<close>

definition expected_creation ::
    "passkey_transaction_proof \<Rightarrow> bytes \<Rightarrow> bytes \<Rightarrow> u32 \<Rightarrow> u64 \<Rightarrow> (pending_passkey_creation \<Rightarrow> bool)
       \<Rightarrow> (pending_passkey_creation_key \<Rightarrow> pending_passkey_creation
             \<Rightarrow> ('d, 'e, 'p, 'i, execution_outcome) work)
       \<Rightarrow> ('d, 'e, 'p, 'i, execution_outcome) work" where
  "expected_creation proof credential_id connection_id authenticated_process_id request_epoch refused k =
     (let key = transaction_key proof connection_id in
      thread_try (pending_creation key) (\<lambda>expected. case expected of
        None \<Rightarrow> Return (Ok outcome_invalid)
      | Some expected \<Rightarrow>
          if pn_credential_id expected \<noteq> credential_id
             \<or> pn_authenticated_process_id expected \<noteq> authenticated_process_id
             \<or> pn_unlock_epoch expected \<noteq> request_epoch \<or> refused expected
          then Return (Ok outcome_invalid) else k key expected))"

definition confirm_check ::
    "pending_passkey_creation_key \<Rightarrow> pending_passkey_creation \<Rightarrow> u64 \<Rightarrow> request_registration \<Rightarrow> instant
       \<Rightarrow> (('d, 'e, 'p, 'i) runtime, (unit, storage_error) result) thread" where
  "confirm_check key expected request_epoch registration deadline =
     thread_try (pending_is_exact key expected) (\<lambda>exact.
     thread_try (commit_check request_epoch registration deadline) (\<lambda>_.
     Return (if exact then Ok () else Err Storage_Aborted)))"

definition confirm_pending ::
    "pending_passkey_creation_key \<Rightarrow> pending_passkey_creation \<Rightarrow> ('d, 'e, 'p, 'i, unit) work" where
  "confirm_pending key expected = in_section Pending_Creations (\<lambda>s.
     if fmlookup (rt_pending_passkey_creations s) key \<noteq> Some expected then (s, Err Dispatch_Internal)
     else (s\<lparr>rt_pending_passkey_creations :=
            fmupd key (expected\<lparr>pn_confirmed := True\<rparr>) (rt_pending_passkey_creations s)\<rparr>, Ok ()))"

definition confirm_passkey_creation ::
    "'e vault_libs \<Rightarrow> ('d, 't) databases \<Rightarrow> 'p passkey_request_verifier \<Rightarrow> nat
       \<Rightarrow> passkey_transaction_proof \<Rightarrow> bytes \<Rightarrow> bytes \<Rightarrow> u32 \<Rightarrow> u64 \<Rightarrow> request_registration \<Rightarrow> instant
       \<Rightarrow> ('d, 'e, 'p, 'i, execution_outcome) work" where
  "confirm_passkey_creation L S V me proof credential_id connection_id authenticated_process_id
       request_epoch registration deadline =
     unless (pre_secret_operation request_epoch registration deadline)
     (verified (verify_make V proof) (\<lambda>_.
      expected_creation proof credential_id connection_id authenticated_process_id request_epoch
        (\<lambda>p. pn_confirmed p \<or> pn_disconnected p) (\<lambda>key expected.
      with_flag Mutation_Active
        (unless (pre_secret_operation request_epoch registration deadline)
        (after_vault me (mutate_in_vault me
           (thread_then (pre_secret_operation request_epoch registration deadline)
              (\<lambda>x. Return (map_option Exit x)))
           (confirm_check key expected request_epoch registration deadline)
           (\<lambda>before_commit now polls. agent_confirm_passkey_creation_with_before_commit_and_check L S now
              credential_id polls before_commit)
           (mutation_exit request_epoch registration deadline (\<lambda>_.
              thread_try (confirm_pending key expected) (\<lambda>_.
              Return (map_ok commit_point (empty_reply L)))))))))))"

definition rollback_passkey_creation ::
    "'e vault_libs \<Rightarrow> ('d, 't) databases \<Rightarrow> 'p passkey_request_verifier \<Rightarrow> nat
       \<Rightarrow> passkey_transaction_proof \<Rightarrow> bytes \<Rightarrow> bytes \<Rightarrow> u32 \<Rightarrow> u64 \<Rightarrow> request_registration \<Rightarrow> instant
       \<Rightarrow> ('d, 'e, 'p, 'i, execution_outcome) work" where
  "rollback_passkey_creation L S V me proof credential_id connection_id authenticated_process_id
       request_epoch registration deadline =
     unless (pre_secret_operation request_epoch registration deadline)
     (verified (verify_make V proof) (\<lambda>_.
      expected_creation proof credential_id connection_id authenticated_process_id request_epoch
        pn_disconnected (\<lambda>key expected.
      with_flag Mutation_Active
        (unless (pre_secret_operation request_epoch registration deadline)
        (verified (remove_cached_credential V credential_id) (\<lambda>_.
         unless (pre_secret_operation request_epoch registration deadline)
         (after_vault me (mutate_in_vault me
            (thread_then (pre_secret_operation request_epoch registration deadline)
               (\<lambda>x. Return (map_option Exit x)))
            (commit_check request_epoch registration deadline)
            (\<lambda>before_commit now polls. agent_delete_passkey_with_before_commit_and_check L S now
               credential_id polls before_commit)
            (\<lambda>r. mutation_exit request_epoch registration deadline (\<lambda>_.
               thread_try (remove_pending key) (\<lambda>removed.
               Return (if removed \<noteq> None \<and> removed \<noteq> Some expected then Err Dispatch_Internal
                       else map_ok commit_point (empty_reply L))))
               (if r = Err Acc_NotFound then Ok () else r))))))))))"

section \<open>They give back what they take\<close>

lemma keeps_platform_call [keeps_rules]: "keeps me H (platform_call f)"
  unfolding platform_call_def by (rule keeps_quiet) (simp add: quiet_def split: prod.split)

lemma keeps_verified [keeps_rules]: "(\<And>x. keeps me H (k x)) \<Longrightarrow> keeps me H (verified f k)"
  unfolding verified_def by (intro keeps_rules)

lemma keeps_pending [keeps_rules]:
  "keeps me H (pending_creation key)" "keeps me H (insert_pending key pending)"
  "keeps me H (remove_pending key)" "keeps me H (confirm_pending key expected)"
  unfolding pending_creation_def insert_pending_def remove_pending_def confirm_pending_def
  by (rule keeps_in_section; simp add: quiet_def)+

lemma keeps_checks [keeps_rules]:
  "keeps me H (rollback_check e key pending)" "keeps me H (confirm_check key expected e r d)"
  unfolding rollback_check_def confirm_check_def pending_is_exact_def by (intro keeps_rules)+

lemma keeps_rollback_round [keeps_rules]:
  "Commit_Gate \<notin> H \<Longrightarrow> Vault_Mutex \<notin> H \<Longrightarrow> keeps me H (rollback_round L S me key pending e)"
  unfolding rollback_round_def
  by (intro keeps_mutate_in_vault keeps_rules)
    (auto split: result.split account_error.split intro!: keeps_rules)

lemma keeps_exhausted [keeps_rules]: "keeps me H Exhausted"
  by (simp add: keeps_def triple_def)

lemma keeps_case_round [keeps_rules]:
  "keeps me H p \<Longrightarrow> keeps me H q \<Longrightarrow> keeps me H r
     \<Longrightarrow> keeps me H (case v of Round_Done \<Rightarrow> p | Round_Stopped \<Rightarrow> q | Round_Failed \<Rightarrow> r)"
  by (cases v) simp_all

lemma keeps_rollback_loop [keeps_rules]:
  "Commit_Gate \<notin> H \<Longrightarrow> Vault_Mutex \<notin> H \<Longrightarrow> keeps me H (rollback_loop L S V me rounds)"
proof (induction rounds)
  case (Suc rounds)
  then show ?case
    unfolding rollback_loop.simps load_epoch_def
    by (intro keeps_rules keeps_in_section; simp)
qed (simp add: keeps_exhausted)

lemma keeps_rollback_disconnected [keeps_rules]:
  "Commit_Gate \<notin> H \<Longrightarrow> Vault_Mutex \<notin> H \<Longrightarrow> Cleanup_Gate \<notin> H
     \<Longrightarrow> keeps me H (rollback_disconnected_passkey_creations L S V me rounds)"
  unfolding rollback_disconnected_passkey_creations_def by (intro keeps_rules; simp)

lemma keeps_mutation_exit [keeps_rules]:
  "Vault_Mutex \<in> H \<Longrightarrow> (\<And>x. r = Ok x \<Longrightarrow> keeps me H (committed x))
     \<Longrightarrow> keeps me H (mutation_exit e reg d committed r)"
  unfolding mutation_exit_def by (cases r) (auto intro!: keeps_rules)

lemma keeps_expected_creation [keeps_rules]:
  "(\<And>key p. keeps me H (k key p)) \<Longrightarrow> keeps me H (expected_creation proof i c a e refused k)"
  unfolding expected_creation_def Let_def by (intro keeps_rules)

lemma keeps_passkey_handlers [keeps_rules]:
  assumes "Commit_Gate \<notin> H" and "Vault_Mutex \<notin> H" and "Cleanup_Gate \<notin> H"
  shows "keeps me H (make_passkey L S V me rounds proof c a e r d)"
    and "keeps me H (get_passkey_assertion L S V me proof i e r d)"
    and "keeps me H (list_passkeys_for_assertion L S V me request e r d)"
    and "keeps me H (list_passkeys L S me e r d)"
    and "keeps me H (delete_passkey L S me i e r d)"
    and "keeps me H (confirm_passkey_creation L S V me proof i c a e r d)"
    and "keeps me H (rollback_passkey_creation L S V me proof i c a e r d)"
  unfolding make_passkey_def get_passkey_assertion_def list_passkeys_for_assertion_def
    list_passkeys_def delete_passkey_def confirm_passkey_creation_def rollback_passkey_creation_def Let_def
  by (intro keeps_rules keeps_mutate_in_vault; simp add: assms keeps_rules)+

end
