(* ===== verification/Agent_Staging.thy ===== *)
theory Agent_Staging
  imports Agent_Vault
begin

text \<open>
  Creating a vault file (crates/vault-agent: storage.rs, \<open>initialize_database\<close> of sqlite.rs and
  \<open>VaultAgent::create_with_before_publish\<close> of lifecycle.rs). The database is written to a staging file
  beside the target, linked under the target's name, and read back; a failure takes back what was
  published. The guarded calls of the file system are a parameter, with the disk as their state.
\<close>

section \<open>The file system\<close>

datatype io_kind = Io_NotFound | Io_AlreadyExists | Io_Other
datatype create_error = Create_AlreadyExists | Create_Failed

record ('d, 'h, 'g) guarded_files =
  gf_parent :: "path \<Rightarrow> path option"
  gf_file_name :: "path \<Rightarrow> path option"
  gf_join :: "path \<Rightarrow> path \<Rightarrow> path"
  gf_process_id :: nat
  acquire_ancestor_guards :: "path \<Rightarrow> 'd \<Rightarrow> 'g option"
  open_existing_guard :: "'g \<Rightarrow> path \<Rightarrow> bool \<Rightarrow> bool \<Rightarrow> 'd \<Rightarrow> ('h, io_kind) result"
  open_regular_file_guard :: "'g \<Rightarrow> path \<Rightarrow> bool \<Rightarrow> bool \<Rightarrow> 'd \<Rightarrow> 'h option"
  gf_is_reparse_point :: "'h \<Rightarrow> 'd \<Rightarrow> bool option"
  gf_try_clone :: "'h \<Rightarrow> 'd \<Rightarrow> 'h option"
  guarded_files_match :: "'h \<Rightarrow> 'h \<Rightarrow> 'd \<Rightarrow> bool"
  guarded_file_matches_path :: "'h \<Rightarrow> path \<Rightarrow> 'g \<Rightarrow> 'd \<Rightarrow> bool"
  ensure_sidecars_absent :: "'g \<Rightarrow> path \<Rightarrow> 'd \<Rightarrow> bool"
  create_staging_reservation :: "'g \<Rightarrow> path \<Rightarrow> 'd \<Rightarrow> 'd \<times> ('h, io_kind) result"
  gf_overwrite :: "'h \<Rightarrow> bytes \<Rightarrow> 'd \<Rightarrow> 'd \<times> bool"
  gf_database_image :: "bytes \<Rightarrow> bytes \<Rightarrow> bytes option"
  hard_link :: "'g \<Rightarrow> path \<Rightarrow> path \<Rightarrow> 'd \<Rightarrow> 'd \<times> (unit, io_kind) result"
  remove_file :: "'g \<Rightarrow> path \<Rightarrow> 'd \<Rightarrow> 'd \<times> bool"
  sync_parent_directory :: "path \<Rightarrow> 'g \<Rightarrow> 'd \<Rightarrow> 'd \<times> bool"
  gf_database_guard :: "path \<Rightarrow> 'd \<Rightarrow> 'h"

definition wide :: "string \<Rightarrow> path" where
  "wide s = map (\<lambda>c. of_nat (of_char c)) s"

fun decimal :: "nat \<Rightarrow> string" where
  "decimal n = (if n < 10 then [char_of (48 + n)] else decimal (n div 10) @ [char_of (48 + n mod 10)])"

declare decimal.simps [simp del]

definition parent_directory :: "('d, 'h, 'g) guarded_files \<Rightarrow> path \<Rightarrow> path" where
  "parent_directory G p =
     (case gf_parent G p of None \<Rightarrow> wide ''.'' | Some d \<Rightarrow> if d = [] then wide ''.'' else d)"

definition sqlite_sidecar :: "path \<Rightarrow> string \<Rightarrow> path" where
  "sqlite_sidecar p suffix = p @ wide suffix"

section \<open>Staging\<close>

record ('h, 'g) staged_vault =
  sv_path :: path
  sv_reservation :: "'h option"
  sv_ancestor_guards :: 'g

definition MAX_STAGING_ATTEMPTS :: nat where [simp]: "MAX_STAGING_ATTEMPTS = 128"

definition validate_new_target_with_guarded_ancestors ::
    "('d, 'h, 'g) guarded_files \<Rightarrow> path \<Rightarrow> 'g \<Rightarrow> 'd \<Rightarrow> (unit, create_error) result" where
  "validate_new_target_with_guarded_ancestors G p guards d =
     (if gf_file_name G p = None then Err Create_Failed else
      case open_existing_guard G guards p True True d of
        Ok file \<Rightarrow>
          and_then (ok_or Create_Failed (gf_is_reparse_point G file d)) (\<lambda>reparse.
          if reparse then Err Create_Failed else Err Create_AlreadyExists)
      | Err Io_NotFound \<Rightarrow> Ok ()
      | Err _ \<Rightarrow> Err Create_Failed
      | Panic \<Rightarrow> Panic)"

definition validate_new_target ::
    "('d, 'h, 'g) guarded_files \<Rightarrow> path \<Rightarrow> 'd \<Rightarrow> (unit, create_error) result" where
  "validate_new_target G p d =
     and_then (ok_or Create_Failed (acquire_ancestor_guards G p d)) (\<lambda>guards.
     validate_new_target_with_guarded_ancestors G p guards d)"

definition staging_suffix :: "('d, 'h, 'g) guarded_files \<Rightarrow> u64 \<Rightarrow> path" where
  "staging_suffix G sequence =
     wide (''.librarian-stage-'' @ decimal (gf_process_id G) @ ''-'' @ decimal (unat sequence))"

text \<open>The attempts share the counter of staging names with the rest of the process.\<close>

primrec reserve_attempts ::
    "('d, 'h, 'g) guarded_files \<Rightarrow> 'g \<Rightarrow> path \<Rightarrow> path \<Rightarrow> nat \<Rightarrow> 'd \<times> u64
       \<Rightarrow> ('d \<times> u64) \<times> (('h, 'g) staged_vault, create_error) result" where
  "reserve_attempts G guards parent target_name 0 w = (w, Err Create_Failed)"
| "reserve_attempts G guards parent target_name (Suc n) w =
     (case w of (d, next_id) \<Rightarrow>
      case u64_checked_add next_id 1 of
        None \<Rightarrow> (w, Err Create_Failed)
      | Some next_id' \<Rightarrow>
          (let staging_path = gf_join G parent (target_name @ staging_suffix G next_id)
           in case create_staging_reservation G guards staging_path d of
                (d, Ok reservation) \<Rightarrow>
                  ((d, next_id'), Ok \<lparr>sv_path = staging_path, sv_reservation = Some reservation,
                                     sv_ancestor_guards = guards\<rparr>)
              | (d, Err Io_AlreadyExists) \<Rightarrow> reserve_attempts G guards parent target_name n (d, next_id')
              | (d, Err _) \<Rightarrow> ((d, next_id'), Err Create_Failed)
              | (d, Panic) \<Rightarrow> ((d, next_id'), Panic)))"

definition reserve_staging_file ::
    "('d, 'h, 'g) guarded_files \<Rightarrow> path \<Rightarrow> 'd \<times> u64
       \<Rightarrow> ('d \<times> u64) \<times> (('h, 'g) staged_vault, create_error) result" where
  "reserve_staging_file G target w =
     pure_then w (ok_or Create_Failed (acquire_ancestor_guards G target (fst w))) (\<lambda>guards.
     pure_then w (validate_new_target_with_guarded_ancestors G target guards (fst w)) (\<lambda>_.
     pure_then w (ok_or Create_Failed (gf_file_name G target)) (\<lambda>target_name.
     reserve_attempts G guards (parent_directory G target) target_name MAX_STAGING_ATTEMPTS w)))"

definition release_reservation :: "('h, 'g) staged_vault \<Rightarrow> ('h, 'g) staged_vault" where
  "release_reservation staging = staging\<lparr>sv_reservation := None\<rparr>"

definition remove_name ::
    "('d, 'h, 'g) guarded_files \<Rightarrow> ('h, 'g) staged_vault \<Rightarrow> 'd \<Rightarrow> 'd \<times> bool" where
  "remove_name G staging d = remove_file G (sv_ancestor_guards staging) (sv_path staging) d"

definition staged_vault_drop :: "('d, 'h, 'g) guarded_files \<Rightarrow> ('h, 'g) staged_vault \<Rightarrow> 'd \<Rightarrow> 'd" where
  "staged_vault_drop G staging d =
     (let g = sv_ancestor_guards staging; p = sv_path staging;
          d = fst (remove_file G g p d);
          d = fst (remove_file G g (sqlite_sidecar p ''-wal'') d)
      in fst (remove_file G g (sqlite_sidecar p ''-shm'') d))"

section \<open>The database image\<close>

definition SQLITE_HEADER_BYTES :: nat where [simp]: "SQLITE_HEADER_BYTES = 20"
definition SQLITE_MAGIC :: bytes where "SQLITE_MAGIC = ascii ''SQLite format 3'' @ [0]"
definition SQLITE_READ_VERSION_OFFSET :: nat where [simp]: "SQLITE_READ_VERSION_OFFSET = 18"
definition SQLITE_WRITE_VERSION_OFFSET :: nat where [simp]: "SQLITE_WRITE_VERSION_OFFSET = 19"
definition SQLITE_WAL_VERSION :: u8 where [simp]: "SQLITE_WAL_VERSION = 2"

definition mark_database_image_as_wal :: "bytes \<Rightarrow> bytes option" where
  "mark_database_image_as_wal img =
     (if length img < SQLITE_HEADER_BYTES \<or> take (length SQLITE_MAGIC) img \<noteq> SQLITE_MAGIC then None
      else Some (img[SQLITE_READ_VERSION_OFFSET := SQLITE_WAL_VERSION,
                       SQLITE_WRITE_VERSION_OFFSET := SQLITE_WAL_VERSION]))"

definition initialize_database ::
    "('d, 'h, 'g) guarded_files \<Rightarrow> ('h, 'g) staged_vault \<Rightarrow> bytes \<Rightarrow> bytes \<Rightarrow> 'd \<Rightarrow> 'd \<times> bool" where
  "initialize_database G staging header manifest d =
     (case Option.bind (gf_database_image G header manifest) mark_database_image_as_wal of
        None \<Rightarrow> (d, False)
      | Some img \<Rightarrow>
          (case sv_reservation staging of
             None \<Rightarrow> (d, False)
           | Some reservation \<Rightarrow> gf_overwrite G reservation img d))"

section \<open>Publication\<close>

text \<open>\<open>publish_staged_vault_with_before_link\<close> up to the callback, and from it on.\<close>

definition publish_checks ::
    "('d, 'h, 'g) guarded_files \<Rightarrow> ('h, 'g) staged_vault \<Rightarrow> path \<Rightarrow> 'd \<Rightarrow> ('h, create_error) result" where
  "publish_checks G staging target d =
     (if \<not> ensure_sidecars_absent G (sv_ancestor_guards staging) target d then Err Create_Failed else
      and_then (ok_or Create_Failed (Option.bind (sv_reservation staging) (\<lambda>h. gf_try_clone G h d)))
        (\<lambda>reservation.
      if \<not> guarded_file_matches_path G reservation (sv_path staging) (sv_ancestor_guards staging) d
      then Err Create_Failed else Ok reservation))"

definition publish_link ::
    "('d, 'h, 'g) guarded_files \<Rightarrow> ('h, 'g) staged_vault \<Rightarrow> path \<Rightarrow> 'h \<Rightarrow> 'd \<Rightarrow> 'd \<times> ('h, create_error) result"
  where
  "publish_link G staging target reservation d =
     (let g = sv_ancestor_guards staging in
      case hard_link G g (sv_path staging) target d of
        (d, Ok _) \<Rightarrow>
          (let published_guard = open_regular_file_guard G g target True True d;
               publication_is_valid = (case published_guard of
                 None \<Rightarrow> False | Some published \<Rightarrow> guarded_files_match G reservation published d)
           in if \<not> publication_is_valid \<or> \<not> ensure_sidecars_absent G g target d
              then (fst (remove_file G g target d), Err Create_Failed)
              else (d, ok_or Create_Failed published_guard))
      | (d, Err Io_AlreadyExists) \<Rightarrow> (d, Err Create_AlreadyExists)
      | (d, Err _) \<Rightarrow> (d, Err Create_Failed)
      | (d, Panic) \<Rightarrow> (d, Panic))"

definition seal_published_vault ::
    "('d, 'h, 'g) guarded_files \<Rightarrow> 'h \<Rightarrow> path \<Rightarrow> 'g \<Rightarrow> 'd \<Rightarrow> ('h, create_error) result" where
  "seal_published_vault G published target guards d =
     and_then (ok_or Create_Failed (open_regular_file_guard G guards target False True d)) (\<lambda>sealed.
     if \<not> guarded_files_match G published sealed d \<or> \<not> ensure_sidecars_absent G guards target d
     then Err Create_Failed else Ok sealed)"

definition read_guarded_empty_vault ::
    "('d, 't) sqlite \<Rightarrow> 'd \<Rightarrow> (vault_data, storage_error) result" where
  "read_guarded_empty_vault S d =
     and_then (read_guarded_vault S d) (\<lambda>snapshot.
     if vd_records snapshot \<noteq> [] then Err Storage_Schema else Ok snapshot)"

definition verify_published_vault ::
    "('d, 't) databases \<Rightarrow> ('d, 'h, 'g) guarded_files \<Rightarrow> 'h \<Rightarrow> path \<Rightarrow> bytes \<Rightarrow> bytes \<Rightarrow> 'd
       \<Rightarrow> (vault_data, create_error) result" where
  "verify_published_vault S G published target expected_header expected_manifest d =
     and_then (map_err (\<lambda>_. Create_Failed) (read_guarded_empty_vault (S target) d)) (\<lambda>snapshot.
     if \<not> guarded_files_match G published (gf_database_guard G target d) d
        \<or> vd_header snapshot \<noteq> expected_header \<or> vd_manifest snapshot \<noteq> expected_manifest
     then Err Create_Failed else Ok snapshot)"

definition remove_target_if_guarded_matches ::
    "('d, 'h, 'g) guarded_files \<Rightarrow> 'h \<Rightarrow> path \<Rightarrow> 'g \<Rightarrow> 'd \<Rightarrow> 'd" where
  "remove_target_if_guarded_matches G published target guards d =
     (case open_regular_file_guard G guards target True True d of
        None \<Rightarrow> d
      | Some current \<Rightarrow>
          if \<not> guarded_files_match G published current d then d else fst (remove_file G guards target d))"

section \<open>Creation\<close>

text \<open>
  A staged creation: what the first half of \<open>create_with_before_publish\<close> leaves behind for the half
  after the callback.
\<close>

record ('h, 'g) staged_creation =
  sc_path :: path
  sc_staging :: "('h, 'g) staged_vault"
  sc_reservation :: 'h
  sc_created :: created_vault
  sc_session_id :: u64

type_synonym ('d, 'e) creation_world = "('d, 'e) agent_world \<times> u64"

text \<open>The staging file is dropped on every early return after its reservation.\<close>

definition staging_fails ::
    "('d, 'h, 'g) guarded_files \<Rightarrow> ('h, 'g) staged_vault \<Rightarrow> create_error \<Rightarrow> ('d, 'e) creation_world
       \<Rightarrow> ('d, 'e) creation_world \<times> ('a, create_error) result" where
  "staging_fails G staging error w =
     (apfst (\<lambda>w. w\<lparr>aw_database := staged_vault_drop G staging (aw_database w)\<rparr>) w, Err error)"

definition create_stage ::
    "'e vault_libs \<Rightarrow> ('d, 'h, 'g) guarded_files \<Rightarrow> path option \<Rightarrow> bytes \<Rightarrow> int \<Rightarrow> ('d, 'e) creation_world
       \<Rightarrow> ('d, 'e) creation_world \<times> (('h, 'g) staged_creation, create_error) result" where
  "create_stage L G bound_path password now = (\<lambda>(w, next_id).
     pure_then (w, next_id) (ok_or Create_Failed bound_path) (\<lambda>path.
     pure_then (w, next_id) (validate_new_target G path (aw_database w)) (\<lambda>_.
     case reserve_staging_file G path (aw_database w, next_id) of
       ((d, next_id), Err error) \<Rightarrow> ((w\<lparr>aw_database := d\<rparr>, next_id), Err error)
     | ((d, next_id), Panic) \<Rightarrow> ((w\<lparr>aw_database := d\<rparr>, next_id), Panic)
     | ((d, next_id), Ok staging) \<Rightarrow>
         let w = w\<lparr>aw_database := d\<rparr> in
         (case unix_time_ms now of
            Ok created_at_ms \<Rightarrow>
              (case create_vault_with_entropy L password created_at_ms (aw_entropy w) of
                 (e, Ok created) \<Rightarrow>
                   (case next_session_id (w\<lparr>aw_entropy := e\<rparr>) of
                      (w, None) \<Rightarrow> staging_fails G staging Create_Failed (w, next_id)
                    | (w, Some session_id) \<Rightarrow>
                        (case initialize_database G staging (cv_header created)
                                (cv_manifest_envelope created) (aw_database w) of
                           (d, initialized) \<Rightarrow>
                             let w = w\<lparr>aw_database := d\<rparr> in
                             if \<not> initialized
                                \<or> \<not> ensure_sidecars_absent G (sv_ancestor_guards staging) (sv_path staging) d
                             then staging_fails G staging Create_Failed (w, next_id) else
                             (case publish_checks G staging path d of
                                Ok reservation \<Rightarrow>
                                  ((w, next_id), Ok \<lparr>sc_path = path, sc_staging = staging,
                                     sc_reservation = reservation, sc_created = created,
                                     sc_session_id = session_id\<rparr>)
                              | Err error \<Rightarrow> staging_fails G staging error (w, next_id)
                              | Panic \<Rightarrow> ((w, next_id), Panic))))
               | (e, Err _) \<Rightarrow> staging_fails G staging Create_Failed (w\<lparr>aw_entropy := e\<rparr>, next_id)
               | (e, Panic) \<Rightarrow> ((w\<lparr>aw_entropy := e\<rparr>, next_id), Panic))
          | _ \<Rightarrow> staging_fails G staging Create_Failed (w, next_id)))))"

text \<open>
  From the link on: the published name is taken back when the staging name cannot be removed, the file
  cannot be sealed or synchronized, or what is read back differs.
\<close>

definition create_finish ::
    "('d, 't) databases \<Rightarrow> ('d, 'h, 'g) guarded_files \<Rightarrow> ('h, 'g) staged_creation \<Rightarrow> 'd
       \<Rightarrow> 'd \<times> (vault_agent \<times> bytes, create_error) result" where
  "create_finish S G c d =
     (let path = sc_path c; staging = sc_staging c; guards = sv_ancestor_guards staging;
          header = cv_header (sc_created c); manifest = cv_manifest_envelope (sc_created c)
      in
      agent_then (publish_link G staging path (sc_reservation c) d) (\<lambda>d published.
      case remove_name G staging d of
        (d, False) \<Rightarrow> (fst (remove_file G guards path d), Err Create_Failed)
      | (d, True) \<Rightarrow>
          (case seal_published_vault G published path guards d of
             Panic \<Rightarrow> (d, Panic)
           | Err error \<Rightarrow> (remove_target_if_guarded_matches G published path guards d, Err error)
           | Ok sealed \<Rightarrow>
               (case sync_parent_directory G path guards d of
                  (d, False) \<Rightarrow>
                    (fst (sync_parent_directory G path guards (fst (remove_file G guards path d))),
                     Err Create_Failed)
                | (d, True) \<Rightarrow>
                    (case verify_published_vault S G sealed path header manifest d of
                       Panic \<Rightarrow> (d, Panic)
                     | Err error \<Rightarrow>
                         (fst (sync_parent_directory G path guards
                                (remove_target_if_guarded_matches G sealed path guards d)), Err error)
                     | Ok _ \<Rightarrow>
                         (d, Ok (\<lparr>va_path = Some path, va_session = Some (cv_session (sc_created c)),
                                  va_authenticated_header = Some header,
                                  va_authenticated_manifest = Some manifest,
                                  va_session_id = Some (sc_session_id c), va_authorization_epoch = 1\<rparr>,
                                 cv_recovery_key (sc_created c))))))))"

definition creation_drop ::
    "('d, 'h, 'g) guarded_files \<Rightarrow> ('h, 'g) staged_creation \<Rightarrow> ('d, 'e) creation_world
       \<Rightarrow> ('d, 'e) creation_world" where
  "creation_drop G c w =
     apfst (\<lambda>w. w\<lparr>aw_database := staged_vault_drop G (sc_staging c) (aw_database w)\<rparr>) w"

definition create_publish ::
    "('d, 't) databases \<Rightarrow> ('d, 'h, 'g) guarded_files \<Rightarrow> ('h, 'g) staged_creation \<Rightarrow> ('d, 'e) creation_world
       \<Rightarrow> ('d, 'e) creation_world \<times> (vault_agent \<times> bytes, create_error) result" where
  "create_publish S G c w =
     (case create_finish S G c (aw_database (fst w)) of
        (d, r) \<Rightarrow> (creation_drop G c (apfst (\<lambda>w. w\<lparr>aw_database := d\<rparr>) w), r))"

definition create_with_before_publish ::
    "'e vault_libs \<Rightarrow> ('d, 't) databases \<Rightarrow> ('d, 'h, 'g) guarded_files \<Rightarrow> path option \<Rightarrow> bytes \<Rightarrow> int
       \<Rightarrow> ('d \<Rightarrow> 'd \<times> (unit, create_error) result) \<Rightarrow> ('d, 'e) creation_world
       \<Rightarrow> ('d, 'e) creation_world \<times> (vault_agent \<times> bytes, create_error) result" where
  "create_with_before_publish L S G bound_path password now before_publish w =
     agent_then (create_stage L G bound_path password now w) (\<lambda>w c.
     case before_publish (aw_database (fst w)) of (d, r) \<Rightarrow>
       let w = apfst (\<lambda>w. w\<lparr>aw_database := d\<rparr>) w in
       (case r of
          Ok _ \<Rightarrow> create_publish S G c w
        | Err error \<Rightarrow> (creation_drop G c w, Err error)
        | Panic \<Rightarrow> (creation_drop G c w, Panic)))"

definition create_agent ::
    "'e vault_libs \<Rightarrow> ('d, 't) databases \<Rightarrow> ('d, 'h, 'g) guarded_files \<Rightarrow> path option \<Rightarrow> bytes \<Rightarrow> int
       \<Rightarrow> ('d, 'e) creation_world
       \<Rightarrow> ('d, 'e) creation_world \<times> (vault_agent \<times> bytes, create_error) result" where
  "create_agent L S G bound_path password now =
     create_with_before_publish L S G bound_path password now (\<lambda>d. (d, Ok ()))"

section \<open>A target is never replaced\<close>

text \<open>
  What the file system promises, seen as the entries of its directories: a link only goes to a free
  name, and no other call makes or changes an entry but the one it is called for.
\<close>

definition plain_name :: "path \<Rightarrow> bool" where
  "plain_name n \<longleftrightarrow> n \<noteq> [] \<and> list_all (\<lambda>u. u \<noteq> 47 \<and> u \<noteq> 92 \<and> u \<noteq> 58) n"

lemma wide_decimal_plain: "list_all (\<lambda>u :: u16. 48 \<le> u \<and> u \<le> 57) (wide (decimal n))"
proof (induction n rule: decimal.induct)
  case (1 n)
  have digit: "48 \<le> (of_nat (of_char (char_of (48 + k) :: char)) :: u16)
      \<and> (of_nat (of_char (char_of (48 + k) :: char)) :: u16) \<le> 57" if "k < 10" for k :: nat
  proof -
    have "(of_char (char_of (48 + k) :: char) :: nat) = 48 + k" using that by simp
    moreover have "unat (of_nat (48 + k) :: u16) = 48 + k"
      using that by (simp del: of_nat_add add: unsigned_of_nat take_bit_eq_mod)
    ultimately show ?thesis using that by (simp only: word_le_nat_alt) simp
  qed
  show ?case
  proof (cases "n < 10")
    case True
    then show ?thesis using digit [of n] by (simp add: decimal.simps [of n] wide_def)
  next
    case False
    then show ?thesis
      using digit [of "n mod 10"] "1.IH" by (simp add: decimal.simps [of n] wide_def)
  qed
qed

lemma plain_digits: "list_all (\<lambda>u :: u16. 48 \<le> u \<and> u \<le> 57) n \<Longrightarrow> list_all (\<lambda>u. u \<noteq> 47 \<and> u \<noteq> 92 \<and> u \<noteq> 58) n"
  by (induction n) (auto simp: word_le_nat_alt)

lemma plain_suffixes:
  "plain_name (staging_suffix G sequence)" "plain_name (wide ''-wal'')" "plain_name (wide ''-shm'')"
  using plain_digits [OF wide_decimal_plain [of "gf_process_id G"]]
    plain_digits [OF wide_decimal_plain [of "unat sequence"]]
  by (simp_all add: plain_name_def staging_suffix_def wide_def)

locale guarded_file_system =
  fixes G :: "('d, 'h, 'g) guarded_files"
    and entry :: "'d \<Rightarrow> path \<Rightarrow> 'i option"
  assumes linked: "hard_link G g p q d = (d', r) \<Longrightarrow>
      (if r = Ok () then entry d q = None \<and> entry d' = (entry d)(q := entry d p) \<and> entry d p \<noteq> None
       else entry d' = entry d)"
    and removed: "remove_file G g p d = (d', b) \<Longrightarrow> x \<noteq> p \<Longrightarrow> entry d' x = entry d x"
    and reserved: "create_staging_reservation G g p d = (d', h') \<Longrightarrow> x \<noteq> p \<Longrightarrow> entry d' x = entry d x"
    and overwritten: "gf_overwrite G h bs d = (d', b) \<Longrightarrow> entry d' = entry d"
    and synced: "sync_parent_directory G p g d = (d', b) \<Longrightarrow> entry d' = entry d"
    and joined: "gf_file_name G p = Some n \<Longrightarrow> plain_name x \<Longrightarrow>
      gf_file_name G (gf_join G dir (n @ x)) = Some (n @ x)"
    and suffixed: "gf_file_name G p = Some n \<Longrightarrow> plain_name x \<Longrightarrow> gf_file_name G (p @ x) = Some (n @ x)"
begin

text \<open>The names a staging file uses are not the target's.\<close>

definition staged_apart :: "('h, 'g) staged_vault \<Rightarrow> path \<Rightarrow> bool" where
  "staged_apart staging target \<longleftrightarrow> sv_path staging \<noteq> target
     \<and> sqlite_sidecar (sv_path staging) ''-wal'' \<noteq> target \<and> sqlite_sidecar (sv_path staging) ''-shm'' \<noteq> target"

lemma drop_keeps_target:
  "staged_apart staging target \<Longrightarrow> entry (staged_vault_drop G staging d) target = entry d target"
  unfolding staged_vault_drop_def Let_def staged_apart_def
  by (metis removed prod.collapse)

lemma reserve_attempts_keep_target:
  assumes "reserve_attempts G guards dir n k w = (w', r)" and "gf_file_name G target = Some n"
  shows "entry (fst w') target = entry (fst w) target \<and> (\<forall>staging. r = Ok staging \<longrightarrow> staged_apart staging target)"
  using assms(1)
proof (induction k arbitrary: w)
  case (Suc k)
  obtain d next_id where w: "w = (d, next_id)" by force
  let ?p = "gf_join G dir (n @ staging_suffix G next_id)"
  have name: "gf_file_name G ?p = Some (n @ staging_suffix G next_id)"
    using joined [OF assms(2) plain_suffixes(1)] .
  have nonempty: "staging_suffix G next_id \<noteq> []" using plain_suffixes(1) by (auto simp: plain_name_def)
  have p: "?p \<noteq> target" using name assms(2) nonempty by auto
  have "sqlite_sidecar ?p ''-wal'' \<noteq> target" "sqlite_sidecar ?p ''-shm'' \<noteq> target"
    unfolding sqlite_sidecar_def
    using suffixed [OF name plain_suffixes(2)] suffixed [OF name plain_suffixes(3)] assms(2) nonempty by auto
  then have apart: "staged_apart \<lparr>sv_path = ?p, sv_reservation = x, sv_ancestor_guards = guards\<rparr> target" for x
    using p by (simp add: staged_apart_def)
  obtain d1 r1 where res: "create_staging_reservation G guards ?p d = (d1, r1)" by force
  have "entry d1 target = entry d target" using reserved [OF res] p by metis
  then show ?case
    using Suc apart res
    by (auto simp: w Let_def split: option.splits result.splits io_kind.splits)
qed auto

lemma reserve_keeps_target:
  assumes "reserve_staging_file G target w = (w', r)"
  shows "entry (fst w') target = entry (fst w) target \<and> (\<forall>staging. r = Ok staging \<longrightarrow> staged_apart staging target)"
  using assms reserve_attempts_keep_target [of _ _ _ _ w w' r target]
  unfolding reserve_staging_file_def pure_then_def
  by (auto split: result.splits simp: ok_or_Ok)

lemma initialize_keeps_entries: "initialize_database G staging h m d = (d', b) \<Longrightarrow> entry d' = entry d"
  unfolding initialize_database_def using overwritten by (auto split: option.splits)

text \<open>A creation is apart from its target, and what it does to the target's entry.\<close>

lemma stage_keeps_target:
  assumes "create_stage L G bound password now w = (w', r)" and "bound = Some target"
  shows "entry (aw_database (fst w')) target = entry (aw_database (fst w)) target"
    and "r = Ok c \<Longrightarrow> sc_path c = target \<and> staged_apart (sc_staging c) target"
proof -
  obtain v next_id where w: "w = (v, next_id)" by force
  obtain d n r1 where res: "reserve_staging_file G target (aw_database v, next_id) = ((d, n), r1)"
    by (metis prod.exhaust)
  note kept = reserve_keeps_target [OF res]
  have session: "next_session_id x = (y, z) \<Longrightarrow> aw_database y = aw_database x" for x y :: "('d, 'e) agent_world" and z
    by (auto simp: next_session_id_def split: option.splits)
  have init: "staged_apart staging target \<Longrightarrow> initialize_database G staging h m d1 = (d', b)
      \<Longrightarrow> entry d' target = entry d1 target" for staging h m d1 d' b
    by (simp add: initialize_keeps_entries)
  show "entry (aw_database (fst w')) target = entry (aw_database (fst w)) target"
    and "r = Ok c \<Longrightarrow> sc_path c = target \<and> staged_apart (sc_staging c) target"
    using assms kept drop_keeps_target init
    unfolding create_stage_def w
    by (auto simp: pure_then_def res staging_fails_def Let_def dest!: session
        split: result.splits prod.splits option.splits if_splits)
qed

lemma link_goes_to_free_name:
  assumes "publish_link G staging target h d = (d', r)"
  shows "entry d target \<noteq> None \<Longrightarrow> entry d' = entry d \<and> (\<forall>x. r \<noteq> Ok x)"
    and "r = Ok x \<Longrightarrow> entry d target = None
      \<and> entry d' = (entry d)(target := entry d (sv_path staging)) \<and> entry d (sv_path staging) \<noteq> None"
  using assms linked [of "sv_ancestor_guards staging" "sv_path staging" target d]
  unfolding publish_link_def Let_def
  by (auto split: prod.splits result.splits io_kind.splits if_splits option.splits)

lemma finish_goes_to_free_name:
  assumes "create_finish S G c d = (d', r)" and "staged_apart (sc_staging c) (sc_path c)"
  shows "entry d (sc_path c) \<noteq> None \<Longrightarrow> entry d' = entry d \<and> (\<forall>x. r \<noteq> Ok x)"
    and "r = Ok x \<Longrightarrow> entry d (sc_path c) = None \<and> entry d' (sc_path c) \<noteq> None"
proof -
  obtain d1 r1 where link: "publish_link G (sc_staging c) (sc_path c) (sc_reservation c) d = (d1, r1)" by force
  note free = link_goes_to_free_name [OF link]
  show "entry d' = entry d \<and> (\<forall>x. r \<noteq> Ok x)" if "entry d (sc_path c) \<noteq> None"
    using free(1) [OF that] assms(1) unfolding create_finish_def Let_def link agent_then_def
    by (auto split: result.splits)
  show "entry d (sc_path c) = None \<and> entry d' (sc_path c) \<noteq> None" if ok: "r = Ok x"
  proof -
    obtain h where h: "r1 = Ok h"
      using assms(1) ok unfolding create_finish_def Let_def link agent_then_def
      by (auto split: result.splits)
    obtain d2 b where name: "remove_name G (sc_staging c) d1 = (d2, b)" by force
    obtain d3 b' where sync: "sync_parent_directory G (sc_path c) (sv_ancestor_guards (sc_staging c)) d2 = (d3, b')"
      by force
    have "d' = d3"
      using assms(1) ok unfolding create_finish_def Let_def link agent_then_def
      by (auto simp: h name sync split: result.splits bool.splits)
    moreover have "entry d2 (sc_path c) = entry d1 (sc_path c)"
      using removed [OF name [unfolded remove_name_def]] assms(2) by (auto simp: staged_apart_def)
    ultimately show ?thesis using free(2) [OF h] synced [OF sync] by simp
  qed
qed

lemma creation_drop_keeps_target:
  "staged_apart (sc_staging c) target
     \<Longrightarrow> entry (aw_database (fst (creation_drop G c w))) target = entry (aw_database (fst w)) target"
  by (cases w) (simp add: creation_drop_def drop_keeps_target)

lemma creation_never_replaces:
  assumes create: "create_with_before_publish L S G (Some target) password now before_publish w = (w', r)"
    and there: "entry (aw_database (fst w)) target = Some i"
    and callback: "\<And>d. entry d target = Some i \<Longrightarrow> entry (fst (before_publish d)) target = Some i"
  shows "entry (aw_database (fst w')) target = Some i \<and> (\<forall>x. r \<noteq> Ok x)"
proof -
  obtain w1 r1 where stage: "create_stage L G (Some target) password now w = (w1, r1)"
    by (rule prod.exhaust)
  obtain v next_id where w1: "w1 = (v, next_id)" by force
  obtain d2 r2 where before: "before_publish (aw_database v) = (d2, r2)" by force
  have v: "entry (aw_database v) target = Some i"
    using stage_keeps_target(1) [OF stage refl] there by (simp add: w1)
  have d2: "entry d2 target = Some i" using callback [OF v] by (simp add: before)
  show ?thesis
  proof (cases r1)
    case (Ok c)
    note c = stage_keeps_target(2) [OF stage refl Ok]
    obtain d3 r3 where finish: "create_finish S G c d2 = (d3, r3)" by force
    have "entry d3 target = Some i" "\<forall>x. r3 \<noteq> Ok x"
      using finish_goes_to_free_name(1) [OF finish] c d2 by auto
    then show ?thesis
      using create c d2
      unfolding create_with_before_publish_def agent_then_def
      by (auto simp: stage Ok w1 before Let_def create_publish_def finish
          creation_drop_keeps_target split: result.splits)
  qed (use create v in \<open>auto simp: create_with_before_publish_def agent_then_def stage w1\<close>)
qed

lemma creation_publishes:
  assumes create: "create_with_before_publish L S G (Some target) password now before_publish w = (w', Ok (a, key))"
  shows "entry (aw_database (fst w')) target \<noteq> None \<and> va_path a = Some target \<and> begin_operation a \<noteq> None"
proof -
  obtain w1 r1 where stage: "create_stage L G (Some target) password now w = (w1, r1)"
    by (rule prod.exhaust)
  obtain v next_id where w1: "w1 = (v, next_id)" by force
  obtain d2 r2 where before: "before_publish (aw_database v) = (d2, r2)" by force
  obtain c where c: "r1 = Ok c"
    using create unfolding create_with_before_publish_def agent_then_def stage by (cases r1) auto
  note apart = stage_keeps_target(2) [OF stage refl c]
  obtain d3 r3 where finish: "create_finish S G c d2 = (d3, r3)" by force
  have w': "w' = creation_drop G c (v\<lparr>aw_database := d3\<rparr>, next_id)" "r3 = Ok (a, key)"
    using create unfolding create_with_before_publish_def agent_then_def
    by (auto simp: stage c w1 before Let_def create_publish_def finish split: result.splits)
  moreover have "va_path a = Some (sc_path c) \<and> begin_operation a \<noteq> None"
    using finish w'(2) unfolding create_finish_def agent_then_def Let_def
    by (auto simp: begin_operation_def split: result.splits prod.splits bool.splits)
  ultimately show ?thesis
    using finish_goes_to_free_name(2) [OF finish _ w'(2)] apart
    by (auto simp: creation_drop_keeps_target)
qed

end

section \<open>Property\<close>

definition sample_calls :: "(path \<rightharpoonup> nat, path, unit) guarded_files" where
  "sample_calls = \<lparr>gf_parent = (\<lambda>_. Some []), gf_file_name = (\<lambda>p. if p = [] then None else Some p),
     gf_join = (\<lambda>_ n. n), gf_process_id = 7, acquire_ancestor_guards = (\<lambda>_ _. Some ()),
     open_existing_guard = (\<lambda>_ p _ _ d. if d p = None then Err Io_NotFound else Ok p),
     open_regular_file_guard = (\<lambda>_ p _ _ d. if d p = None then None else Some p),
     gf_is_reparse_point = (\<lambda>_ _. Some False), gf_try_clone = (\<lambda>h _. Some h),
     guarded_files_match = (\<lambda>_ _ _. True), guarded_file_matches_path = (\<lambda>_ _ _ _. True),
     ensure_sidecars_absent = (\<lambda>_ _ _. True),
     create_staging_reservation = (\<lambda>_ p d. if d p \<noteq> None then (d, Err Io_AlreadyExists) else (d(p \<mapsto> 1), Ok p)),
     gf_overwrite = (\<lambda>_ _ d. (d, True)), gf_database_image = (\<lambda>_ _. Some (SQLITE_MAGIC @ zeros 4)),
     hard_link = (\<lambda>_ p q d. if d p = None \<or> d q \<noteq> None then (d, Err Io_AlreadyExists) else (d(q := d p), Ok ())),
     remove_file = (\<lambda>_ p d. (d(p := None), True)), sync_parent_directory = (\<lambda>_ _ d. (d, True)),
     gf_database_guard = (\<lambda>p _. p)\<rparr>"

interpretation sample_calls: guarded_file_system sample_calls "\<lambda>d. d"
  by unfold_locales (auto simp: sample_calls_def plain_name_def split: if_splits)



end
