(* ===== verification/Runtime_Unlock.thy ===== *)
theory Runtime_Unlock
  imports Runtime_Passkeys Agent_Staging
begin

text \<open>
  The lifecycle of the runtime (runtime.rs: \<open>create_vault\<close>, \<open>unlock_vault_with_after_core\<close>,
  \<open>cleanup_recovered_passkey_creations\<close>, \<open>publish_authenticated_unlock\<close>, \<open>lock_vault\<close>, \<open>shutdown\<close>). A
  state becomes \<open>Unlocked\<close> only at the end, under the commit gate; locking advances the epoch under the
  gate first and keeps the lock transition open until its response is written.
\<close>

section \<open>The fixed parts of a runtime\<close>

text \<open>
  The fields of \<open>AgentRuntime\<close> that never change, the libraries and the views of the disk; \<open>ar_rounds\<close>
  bounds the rounds of a cleanup.
\<close>

record ('d, 'e, 'p, 'i, 't, 'h, 'g) agent_runtime =
  ar_libs :: "'e vault_libs"
  ar_databases :: "('d, 't) databases"
  ar_files :: "('d, 'h, 'g) guarded_files"
  ar_file_system :: "'d \<Rightarrow> 'i file_system"
  ar_verifier :: "'p passkey_request_verifier"
  ar_vault_path :: path
  ar_bound_path :: "path option"
  ar_token :: u64
  ar_fingerprint_key :: bytes
  ar_hmac :: "bytes \<Rightarrow> bytes \<Rightarrow> bytes"
  ar_rounds :: nat

definition rt_disk :: "('d, 'e, 'p, 'i) runtime \<Rightarrow> 'd" where
  "rt_disk s = aw_database (snd (rt_vault s))"

section \<open>Creating a vault\<close>

text \<open>A call of the creation acts on the disk, the entropy and the static counters, not on the session.\<close>

definition creation_call ::
    "(int \<Rightarrow> ('d, 'e) creation_world \<Rightarrow> ('d, 'e) creation_world \<times> 'a)
       \<Rightarrow> (('d, 'e, 'p, 'i) runtime, 'a) thread" where
  "creation_call f = atomically (\<lambda>s.
     case f (rt_unix_ms s) (snd (rt_vault s), rt_next_staging_id s) of
       ((w, n), r) \<Rightarrow> (s\<lparr>rt_vault := apsnd (\<lambda>_. w) (rt_vault s), rt_next_staging_id := n\<rparr>, r))"

definition create_failed ::
    "request_registration \<Rightarrow> instant \<Rightarrow> create_error \<Rightarrow> ('d, 'e, 'p, 'i, execution_outcome) work" where
  "create_failed registration deadline error =
     (if error = Create_AlreadyExists then Return (Ok (outcome_failure Code_Conflict Retry_Never)) else
      thread_then (is_cancelled registration) (\<lambda>cancelled.
      if cancelled then Return (Ok outcome_cancelled) else
      thread_then (observe (\<lambda>s. rt_now s \<ge> deadline)) (\<lambda>late.
      Return (Ok (if late then outcome_deadline else outcome_failed)))))"

definition bind_existing_call ::
    "('d, 'e, 'p, 'i, 't, 'h, 'g) agent_runtime \<Rightarrow> ('d, 'e, 'p, 'i, unit) work" where
  "bind_existing_call R = atomically (\<lambda>s.
     case bind_existing (ar_file_system R (rt_disk s)) (ar_token R) (ar_vault_path R)
            (pw_owned (rt_process s)) of
       (registry, r) \<Rightarrow> (s\<lparr>rt_process := (rt_process s)\<lparr>pw_owned := registry\<rparr>\<rparr>, r))"

definition install_vault :: "vault_agent \<Rightarrow> ('d, 'e, 'p, 'i, unit) work" where
  "install_vault created = atomically (\<lambda>s. (s\<lparr>rt_vault := apfst (\<lambda>_. created) (rt_vault s)\<rparr>, Ok ()))"

definition unlocked_reply ::
    "('d, 'e, 'p, 'i, 't, 'h, 'g) agent_runtime \<Rightarrow> ('d, 'e, 'p, 'i, execution_outcome) work" where
  "unlocked_reply R = thread_then load_epoch (\<lambda>epoch.
     Return (map_ok outcome_success (from_protocol
       (encode_status (vl_cbor (ar_libs R)) St_Unlocked epoch))))"

definition created_arms ::
    "('d, 'e, 'p, 'i, 't, 'h, 'g) agent_runtime \<Rightarrow> nat \<Rightarrow> request_registration \<Rightarrow> instant
       \<Rightarrow> (vault_agent \<times> bytes, create_error) result \<Rightarrow> ('d, 'e, 'p, 'i, execution_outcome) work" where
  "created_arms R me registration deadline r =
     (case r of
        Ok (created, recovery_key) \<Rightarrow>
          thread_try (bind_existing_call R) (\<lambda>_.
          result_try (ok_or Dispatch_Internal (authenticated_vault_id created)) (\<lambda>vid.
          thread_try (in_section Idempotency (\<lambda>s.
            case initialize_idempotency_vault vid (rt_idempotency s) of
              (i, r) \<Rightarrow> (s\<lparr>rt_idempotency := i\<rparr>, r))) (\<lambda>_.
          thread_try (with_mutex me Vault_Mutex (install_vault created)) (\<lambda>_.
          thread_try advance_epoch_without_cancellation (\<lambda>_.
          thread_then (store_state St_Unlocked) (\<lambda>_. unlocked_reply R))))))
      | Err error \<Rightarrow> create_failed registration deadline error
      | Panic \<Rightarrow> Return Panic)"

text \<open>
  From the callback on: the gate and the registry are taken, and kept while the arms run; a refusal
  gives them back and drops the staged file.
\<close>

definition publish_creation ::
    "('d, 'e, 'p, 'i, 't, 'h, 'g) agent_runtime \<Rightarrow> nat \<Rightarrow> request_registration \<Rightarrow> instant \<Rightarrow> u64
       \<Rightarrow> ('h, 'g) staged_creation \<Rightarrow> ('d, 'e, 'p, 'i, execution_outcome option) work" where
  "publish_creation R me registration deadline start_epoch c =
     with_mutex_or me Commit_Gate (Ok None) (with_mutex_or me Owned_Mutex (Ok None)
       (thread_then (any_of [\<lambda>s. rt_epoch s \<noteq> start_epoch,
          \<lambda>s. rt_cancelled s (rg_cancellation registration), \<lambda>s. rt_now s \<ge> deadline,
          \<lambda>s. rt_flags s Lock_Active, \<lambda>s. agent_state_of s \<noteq> St_NoVault]) (\<lambda>refused.
        if refused then Return (Ok None) else
        thread_then (creation_call (\<lambda>_. create_publish (ar_databases R) (ar_files R) c)) (\<lambda>r.
        thread_try (created_arms R me registration deadline r) (\<lambda>outcome. Return (Ok (Some outcome)))))))"

definition create_vault ::
    "('d, 'e, 'p, 'i, 't, 'h, 'g) agent_runtime \<Rightarrow> nat \<Rightarrow> bytes \<Rightarrow> request_registration \<Rightarrow> instant
       \<Rightarrow> ('d, 'e, 'p, 'i, execution_outcome) work" where
  "create_vault R me password registration deadline =
     thread_then (observe agent_state_of) (\<lambda>state.
     if state \<noteq> St_NoVault then Return (Ok (outcome_failure Code_Conflict Retry_Never)) else
     with_flag Mutation_Active (with_mutex me Creation_Gate
       (thread_then (is_cancelled registration) (\<lambda>cancelled.
        if cancelled then Return (Ok outcome_cancelled) else
        thread_then (observe (\<lambda>s. rt_now s \<ge> deadline)) (\<lambda>late.
        if late then Return (Ok outcome_deadline) else
        thread_then (observe (\<lambda>s. rt_flags s Lock_Active)) (\<lambda>locking.
        if locking then Return (Ok outcome_busy) else
        case MasterPassword_new password of
          Ok password \<Rightarrow>
            thread_then load_epoch (\<lambda>start_epoch.
            thread_then (creation_call (create_stage (ar_libs R) (ar_files R) (ar_bound_path R) password))
              (\<lambda>r. case r of
                Ok c \<Rightarrow>
                  thread_try (publish_creation R me registration deadline start_epoch c) (\<lambda>x. case x of
                    Some outcome \<Rightarrow> Return (Ok outcome)
                  | None \<Rightarrow>
                      thread_then (creation_call (\<lambda>_ w. (creation_drop (ar_files R) c w, ()))) (\<lambda>_.
                      create_failed registration deadline Create_Failed))
              | Err error \<Rightarrow> create_failed registration deadline error
              | Panic \<Rightarrow> Return Panic))
        | _ \<Rightarrow> Return (Ok outcome_invalid)))))))"

section \<open>Unlocking\<close>

text \<open>A failed unlock: the vault is locked again, and the state unless the agent shuts down.\<close>

definition relock :: "nat \<Rightarrow> 'a \<Rightarrow> ('d, 'e, 'p, 'i, 'a) work" where
  "relock me outcome =
     thread_try (with_mutex me Vault_Mutex (thread_then vault_lock (\<lambda>_. Return (Ok ())))) (\<lambda>_.
     thread_then set_locked_unless_shutting_down (\<lambda>_. Return (Ok outcome)))"

definition recovered_passkey_cleanup_outcome ::
    "request_registration \<Rightarrow> instant \<Rightarrow> (('d, 'e, 'p, 'i) runtime, execution_outcome) thread" where
  "recovered_passkey_cleanup_outcome registration deadline =
     thread_then (any_of [\<lambda>s. rt_flags s Lock_Active, \<lambda>s. agent_state_of s \<noteq> St_Unlocking,
       \<lambda>s. rt_cancelled s (rg_cancellation registration)]) (\<lambda>cancelled.
     if cancelled then Return outcome_cancelled else
     thread_then (observe (\<lambda>s. rt_now s \<ge> deadline)) (\<lambda>late.
     Return (if late then outcome_deadline else outcome_failed)))"

definition cleanup_should_abort ::
    "request_registration \<Rightarrow> instant \<Rightarrow> (('d, 'e, 'p, 'i) runtime, bool) thread" where
  "cleanup_should_abort registration deadline =
     any_of [\<lambda>s. rt_flags s Lock_Active, \<lambda>s. agent_state_of s \<noteq> St_Unlocking,
       \<lambda>s. rt_cancelled s (rg_cancellation registration), \<lambda>s. rt_now s \<ge> deadline]"

definition stop_cleanup ::
    "request_registration \<Rightarrow> instant \<Rightarrow> ('d, 'e, 'p, 'i, execution_outcome option) work" where
  "stop_cleanup registration deadline =
     thread_then (recovered_passkey_cleanup_outcome registration deadline) (\<lambda>x. Return (Ok (Some x)))"

text \<open>One credential that was never confirmed; \<open>None\<close> goes on with the next.\<close>

definition cleanup_credential ::
    "('d, 'e, 'p, 'i, 't, 'h, 'g) agent_runtime \<Rightarrow> nat \<Rightarrow> request_registration \<Rightarrow> instant \<Rightarrow> bytes
       \<Rightarrow> ('d, 'e, 'p, 'i, execution_outcome option) work" where
  "cleanup_credential R me registration deadline credential_id =
     mutate_in_vault me (Return None)
       (thread_then (cleanup_should_abort registration deadline) (\<lambda>refused.
        Return (if refused then Err Storage_Aborted else Ok ())))
       (\<lambda>before_commit now polls. agent_delete_passkey_with_before_commit_and_check (ar_libs R)
          (ar_databases R) now credential_id polls before_commit)
       (\<lambda>r. case r of
          Panic \<Rightarrow> Return Panic
        | Err Acc_Aborted \<Rightarrow> stop_cleanup registration deadline
        | Err Acc_Locked \<Rightarrow> stop_cleanup registration deadline
        | Err Acc_Conflict \<Rightarrow> Return (Ok (Some outcome_failed))
        | Err Acc_Failed \<Rightarrow> Return (Ok (Some outcome_failed))
        | _ \<Rightarrow> Return (Ok None))"

primrec cleanup_credentials ::
    "('d, 'e, 'p, 'i, 't, 'h, 'g) agent_runtime \<Rightarrow> nat \<Rightarrow> request_registration \<Rightarrow> instant \<Rightarrow> bytes list
       \<Rightarrow> ('d, 'e, 'p, 'i, execution_outcome option) work" where
  "cleanup_credentials R me registration deadline [] = Return (Ok None)"
| "cleanup_credentials R me registration deadline (credential_id # credential_ids) =
     thread_then (cleanup_should_abort registration deadline) (\<lambda>abort.
     if abort then stop_cleanup registration deadline else
     thread_then (platform_call (remove_cached_credential (ar_verifier R) credential_id)) (\<lambda>removed.
     if removed = Panic then Return Panic else
     if removed \<noteq> Ok () then cleanup_credentials R me registration deadline credential_ids else
     thread_then (cleanup_should_abort registration deadline) (\<lambda>abort.
     if abort then stop_cleanup registration deadline else
     thread_try (cleanup_credential R me registration deadline credential_id) (\<lambda>x. case x of
       Some outcome \<Rightarrow> Return (Ok (Some outcome))
     | None \<Rightarrow> cleanup_credentials R me registration deadline credential_ids))))"

definition cleanup_recovered_passkey_creations ::
    "('d, 'e, 'p, 'i, 't, 'h, 'g) agent_runtime \<Rightarrow> nat \<Rightarrow> request_registration \<Rightarrow> instant
       \<Rightarrow> ('d, 'e, 'p, 'i, execution_outcome option) work" where
  "cleanup_recovered_passkey_creations R me registration deadline =
     thread_try (with_mutex me Vault_Mutex
       (thread_then (vault_call (\<lambda>_. agent_pending_passkey_credential_ids_with_check (ar_libs R)
            (ar_databases R))) (\<lambda>r. case r of
          Ok credential_ids \<Rightarrow> Return (Ok (Inl credential_ids))
        | Err error \<Rightarrow>
            if error = Acc_Aborted \<or> error = Acc_Locked
            then thread_try (stop_cleanup registration deadline) (\<lambda>x. Return (Ok (Inr x)))
            else Return (Ok (Inr (Some outcome_failed)))
        | Panic \<Rightarrow> Return Panic))) (\<lambda>x. case x of
       Inr outcome \<Rightarrow> Return (Ok outcome)
     | Inl credential_ids \<Rightarrow> cleanup_credentials R me registration deadline credential_ids)"

definition bind_authenticated_call ::
    "('d, 'e, 'p, 'i, 't, 'h, 'g) agent_runtime \<Rightarrow> 'i ownership_record \<Rightarrow> bytes \<Rightarrow> ('d, 'e, 'p, 'i, bool) work"
  where
  "bind_authenticated_call R ownership vid = atomically (\<lambda>s.
     case bind_authenticated (ar_file_system R (rt_disk s)) (ar_token R) (ar_vault_path R) ownership
            (\<lambda>i. if rt_poisoned s Idempotency then (i, Err Dispatch_Internal)
                 else bind_authenticated_idempotency_vault vid i)
            (rt_idempotency s) (pw_owned (rt_process s)) of
       ((i, registry), r) \<Rightarrow>
         (s\<lparr>rt_idempotency := i, rt_process := (rt_process s)\<lparr>pw_owned := registry\<rparr>\<rparr>,
          if r = Panic then Panic else Ok (r = Ok ())))"

definition publish_authenticated_unlock ::
    "('d, 'e, 'p, 'i, 't, 'h, 'g) agent_runtime \<Rightarrow> nat \<Rightarrow> 'i ownership_record option \<Rightarrow> bytes
       \<Rightarrow> request_registration \<Rightarrow> instant \<Rightarrow> ('d, 'e, 'p, 'i, execution_outcome) work" where
  "publish_authenticated_unlock R me authenticated_ownership vid registration deadline =
     with_mutex me Commit_Gate
     (thread_then (any_of [\<lambda>s. rt_flags s Lock_Active, \<lambda>s. rt_cancelled s (rg_cancellation registration),
        \<lambda>s. agent_state_of s \<noteq> St_Unlocking]) (\<lambda>stale.
      if stale then relock me outcome_cancelled else
      thread_then (observe (\<lambda>s. rt_now s \<ge> deadline)) (\<lambda>late.
      if late then relock me outcome_deadline else
      case authenticated_ownership of
        None \<Rightarrow> relock me outcome_failed
      | Some ownership \<Rightarrow>
          thread_try (with_mutex me Owned_Mutex (bind_authenticated_call R ownership vid)) (\<lambda>bound.
          if \<not> bound then relock me outcome_failed else
          thread_try advance_epoch_without_cancellation (\<lambda>_.
          thread_then (exchange_state St_Unlocking St_Unlocked) (\<lambda>exchanged.
          if exchanged then unlocked_reply R else relock me outcome_cancelled))))))"

text \<open>What the vault section of an unlock returns: its result, and the identity read in its callback.\<close>

type_synonym 'i unlock_attempt =
  "(unit, agent_unlock_error) result \<times> 'i ownership_record option \<times> bytes option"

definition unlock_call ::
    "('d, 'e, 'p, 'i, 't, 'h, 'g) agent_runtime
       \<Rightarrow> ((unlock_poll \<Rightarrow> bool) \<Rightarrow> ('d \<Rightarrow> 'd) \<Rightarrow> ('d, 'e) agent_state
             \<Rightarrow> ('d, 'e) agent_state \<times> (unit, agent_unlock_error) result)
       \<Rightarrow> ('d, 'e, 'p, 'i, 'i unlock_attempt) work" where
  "unlock_call R unlock = atomically (\<lambda>s.
     case unlock (rt_unlock_polls s) (rt_meanwhile s) (rt_vault s) of (v, r) \<Rightarrow>
       (s\<lparr>rt_vault := v\<rparr>,
        if r = Panic then Panic else
        Ok (r, (case ownership_record_of (ar_file_system R (rt_meanwhile s (rt_disk s))) (ar_vault_path R) of
                  Ok record \<Rightarrow> Some record | _ \<Rightarrow> None),
            if r = Ok () then authenticated_vault_id (fst v) else None)))"

text \<open>After the vault section of an unlock.\<close>

definition settle_unlock ::
    "('d, 'e, 'p, 'i, 't, 'h, 'g) agent_runtime \<Rightarrow> nat \<Rightarrow> request_registration \<Rightarrow> instant
       \<Rightarrow> 'i unlock_attempt \<Rightarrow> ('d, 'e, 'p, 'i, execution_outcome) work" where
  "settle_unlock R me registration deadline = (\<lambda>(r, authenticated_ownership, vid). case r of
     Ok _ \<Rightarrow>
       result_try (ok_or Dispatch_Internal vid) (\<lambda>vid.
       thread_try (cleanup_recovered_passkey_creations R me registration deadline) (\<lambda>x. case x of
         Some outcome \<Rightarrow> relock me outcome
       | None \<Rightarrow> publish_authenticated_unlock R me authenticated_ownership vid registration deadline))
   | Err error \<Rightarrow>
       thread_then set_locked_unless_shutting_down (\<lambda>_.
       Return (Ok (case error of Agent_Cancelled \<Rightarrow> outcome_cancelled | Agent_Failed \<Rightarrow> outcome_failed)))
   | Panic \<Rightarrow> Return Panic)"

text \<open>The start of an unlock: \<open>Unlocking\<close> is entered under the gate, and only from \<open>Locked\<close>.\<close>

definition enter_unlocking :: "('d, 'e, 'p, 'i, execution_outcome option) work" where
  "enter_unlocking =
     thread_then (exchange_state St_Locked St_Unlocking) (\<lambda>exchanged.
     Return (Ok (if exchanged then None else Some (outcome_failure Code_Conflict Retry_Never))))"

definition unlock_vault_with_after_core ::
    "('d, 'e, 'p, 'i, 't, 'h, 'g) agent_runtime \<Rightarrow> nat \<Rightarrow> bytes \<Rightarrow> request_registration \<Rightarrow> instant
       \<Rightarrow> ('d, 'e, 'p, 'i, execution_outcome) work" where
  "unlock_vault_with_after_core R me password registration deadline =
     thread_then (observe agent_state_of) (\<lambda>state.
     if state = St_Unlocking then Return (Ok outcome_busy) else
     thread_then (observe agent_state_of) (\<lambda>state.
     if state \<noteq> St_Locked then Return (Ok (outcome_failure Code_Conflict Retry_Never)) else
     with_flag Kdf_Active
     (case MasterPassword_new password of
        Ok password \<Rightarrow>
          thread_try (with_mutex me Commit_Gate
            (thread_then (observe (\<lambda>s. rt_flags s Lock_Active)) (\<lambda>locking.
             if locking then Return (Ok (Some outcome_busy)) else enter_unlocking))) (\<lambda>x. case x of
            Some outcome \<Rightarrow> Return (Ok outcome)
          | None \<Rightarrow>
              thread_try (with_mutex me Vault_Mutex (unlock_call R (\<lambda>polls meanwhile.
                unlock_with_before_publish (ar_libs R) (ar_databases R) password polls meanwhile)))
                (\<lambda>attempt.
              thread_then (is_cancelled registration) (\<lambda>cancelled.
              if cancelled then relock me outcome_cancelled else
              thread_then (observe (\<lambda>s. rt_now s \<ge> deadline)) (\<lambda>late.
              if late then relock me outcome_deadline
              else settle_unlock R me registration deadline attempt))))
      | _ \<Rightarrow> Return (Ok outcome_invalid))))"

section \<open>Locking and shutting down\<close>

definition lock_target :: "Protocol_Types.agent_state \<Rightarrow> Protocol_Types.agent_state" where
  "lock_target state =
     (if state = St_NoVault \<or> state = St_Updating \<or> state = St_ShuttingDown then state else St_Locked)"

text \<open>The first half of \<open>lock_vault\<close>, under the gate; \<open>None\<close> when another lock transition is open.\<close>

definition begin_lock :: "nat \<Rightarrow> ('d, 'e, 'p, 'i, Protocol_Types.agent_state option) work" where
  "begin_lock me = with_mutex me Commit_Gate
     (thread_then (FlagPermit_acquire Lock_Active) (\<lambda>acquired.
      if \<not> acquired then Return (Ok None) else
      thread_then (observe (\<lambda>s. lock_target (agent_state_of s))) (\<lambda>target.
      thread_then (store_state target) (\<lambda>_.
      thread_then advance_epoch (\<lambda>r. case r of
        Ok _ \<Rightarrow> Return (Ok (Some target))
      | Err error \<Rightarrow> thread_then (FlagPermit_drop Lock_Active) (\<lambda>_. Return (Err error))
      | Panic \<Rightarrow> thread_then (FlagPermit_drop Lock_Active) (\<lambda>_. Return Panic))))))"

definition lock_vault_section :: "nat \<Rightarrow> ('d, 'e, 'p, 'i, unit) work" where
  "lock_vault_section me = with_mutex me Vault_Mutex (thread_then vault_lock (\<lambda>_. Return (Ok ())))"

text \<open>The transition is handed over to whoever writes the response, or ends with a failure.\<close>

definition lock_vault ::
    "('d, 'e, 'p, 'i, 't, 'h, 'g) agent_runtime \<Rightarrow> nat \<Rightarrow> ('d, 'e, 'p, 'i, execution_outcome) work" where
  "lock_vault R me = thread_try (begin_lock me) (\<lambda>x. case x of
     None \<Rightarrow> Return (Ok outcome_busy)
   | Some target \<Rightarrow>
       thread_then (with_mutex me Creation_Gate (with_mutex me Hello_Gate
         (thread_try (lock_vault_section me) (\<lambda>_.
          thread_then (observe agent_state_of) (\<lambda>state.
          thread_then (if state \<noteq> St_Updating \<and> state \<noteq> St_ShuttingDown then store_state target
            else Return ()) (\<lambda>_.
          Return (map_ok hold_lock_transition (empty_reply (ar_libs R)))))))))
         (\<lambda>r. case r of
            Ok outcome \<Rightarrow> Return (Ok outcome)
          | Err error \<Rightarrow> thread_then (FlagPermit_drop Lock_Active) (\<lambda>_. Return (Err error))
          | Panic \<Rightarrow> thread_then (FlagPermit_drop Lock_Active) (\<lambda>_. Return Panic)))"

definition set_lock_active :: "('d, 'e, 'p, 'i, unit) work" where
  "set_lock_active = atomically (\<lambda>s. (set_flag Lock_Active True s, Ok ()))"

definition shutdown :: "nat \<Rightarrow> ('d, 'e, 'p, 'i, unit) work" where
  "shutdown me =
     thread_try (with_mutex me Commit_Gate
       (thread_try set_lock_active (\<lambda>_.
        thread_then (store_state St_ShuttingDown) (\<lambda>_. advance_epoch)))) (\<lambda>_.
     with_mutex me Creation_Gate (with_mutex me Hello_Gate
       (thread_try (lock_vault_section me) (\<lambda>_.
        thread_then (store_state St_ShuttingDown) (\<lambda>_. Return (Ok ()))))))"

section \<open>They give back what they take\<close>

lemma keeps_creation_call [keeps_rules]: "keeps me H (creation_call f)"
  unfolding creation_call_def by (rule keeps_quiet) (simp add: quiet_def split: prod.split)

lemma keeps_load_epoch [keeps_rules]: "keeps me H load_epoch"
  unfolding load_epoch_def by (intro keeps_rules)

lemma keeps_is_cancelled [keeps_rules]: "keeps me H (is_cancelled r)"
  unfolding is_cancelled_def by (intro keeps_rules)

lemma keeps_store_state [keeps_rules]: "keeps me H (store_state st)"
  unfolding store_state_def by (rule keeps_quiet) (simp add: quiet_def)

lemma keeps_exchange_state [keeps_rules]: "keeps me H (exchange_state st st')"
  unfolding exchange_state_def by (rule keeps_quiet) (simp add: quiet_def)

lemma keeps_advance_without_cancellation [keeps_rules]:
  "Commit_Gate \<in> H \<Longrightarrow> keeps me H advance_epoch_without_cancellation"
  unfolding advance_epoch_without_cancellation_def by (intro keeps_rules)

lemma keeps_create_failed [keeps_rules]: "keeps me H (create_failed r d e)"
  unfolding create_failed_def by (intro keeps_rules)

lemma keeps_bind_existing_call [keeps_rules]: "keeps me H (bind_existing_call R)"
  unfolding bind_existing_call_def by (rule keeps_quiet) (simp add: quiet_def split: prod.split)

lemma keeps_install_vault [keeps_rules]: "Vault_Mutex \<in> H \<Longrightarrow> keeps me H (install_vault created)"
  unfolding install_vault_def by (rule keeps_vaulted) (simp_all add: quiet_def)

lemma keeps_unlocked_reply [keeps_rules]: "keeps me H (unlocked_reply R)"
  unfolding unlocked_reply_def by (intro keeps_rules)

lemma initialize_inv: "idempotency_inv i \<Longrightarrow> initialize_idempotency_vault vid i = (i', r) \<Longrightarrow> idempotency_inv i'"
  using initialize_effect [of vid i] inv_clear by (metis fst_conv)

lemma bind_inv:
  assumes "bind_authenticated F token p own f i registry = ((i', registry'), r)"
    and "\<And>i i' r. f i = (i', r) \<Longrightarrow> idempotency_inv i \<Longrightarrow> idempotency_inv i'" and "idempotency_inv i"
  shows "idempotency_inv i'"
  using assms unfolding bind_authenticated_def
  by (auto split: result.splits option.splits if_splits prod.splits)

lemma keeps_initialize [keeps_rules]:
  "keeps me H (in_section Idempotency (\<lambda>s. case initialize_idempotency_vault vid (rt_idempotency s) of
     (i, r) \<Rightarrow> (s\<lparr>rt_idempotency := i\<rparr>, r)))"
  by (rule keeps_in_section) (auto simp: quiet_def dest: initialize_inv split: prod.split)

lemma guarded_bind_inv:
  "(if b then (i, Err Dispatch_Internal) else bind_authenticated_idempotency_vault vid i) = (i', r)
     \<Longrightarrow> idempotency_inv i \<Longrightarrow> idempotency_inv i'"
  using bind_effect [of vid i] inv_clear [of i "Some vid"] by (cases b) auto

lemma keeps_bind_authenticated_call [keeps_rules]: "keeps me H (bind_authenticated_call R own vid)"
  unfolding bind_authenticated_call_def
  by (rule keeps_quiet) (auto simp: quiet_def intro: bind_inv guarded_bind_inv split: prod.splits)

lemma keeps_created_arms [keeps_rules]:
  "Commit_Gate \<in> H \<Longrightarrow> Vault_Mutex \<notin> H \<Longrightarrow> keeps me H (created_arms R me r d x)"
  unfolding created_arms_def by (intro keeps_rules; simp)

lemma keeps_create_vault [keeps_rules]:
  assumes "Commit_Gate \<notin> H" and "Vault_Mutex \<notin> H" and "Owned_Mutex \<notin> H" and "Creation_Gate \<notin> H"
  shows "keeps me H (create_vault R me password r d)"
  unfolding create_vault_def publish_creation_def by (intro keeps_rules; simp add: assms)

lemma keeps_relock [keeps_rules]: "Vault_Mutex \<notin> H \<Longrightarrow> keeps me H (relock me x)"
  unfolding relock_def by (intro keeps_rules; simp)

lemma keeps_cleanup_checks [keeps_rules]:
  "keeps me H (cleanup_should_abort r d)" "keeps me H (stop_cleanup r d)"
  unfolding cleanup_should_abort_def stop_cleanup_def recovered_passkey_cleanup_outcome_def
  by (intro keeps_rules)+

lemma keeps_cleanup_credential [keeps_rules]:
  "Commit_Gate \<notin> H \<Longrightarrow> Vault_Mutex \<notin> H \<Longrightarrow> keeps me H (cleanup_credential R me r d i)"
  unfolding cleanup_credential_def
  by (intro keeps_mutate_in_vault keeps_rules)
    (auto split: result.split account_error.split intro!: keeps_rules)

lemma keeps_cleanup_credentials [keeps_rules]:
  "Commit_Gate \<notin> H \<Longrightarrow> Vault_Mutex \<notin> H \<Longrightarrow> keeps me H (cleanup_credentials R me r d ids)"
proof (induction ids)
  case (Cons i ids)
  then show ?case unfolding cleanup_credentials.simps by (intro keeps_rules; simp)
qed (simp add: keeps_Return)

lemma keeps_case_sum [keeps_rules]:
  "(\<And>x. keeps me H (p x)) \<Longrightarrow> (\<And>x. keeps me H (q x)) \<Longrightarrow> keeps me H (case v of Inl x \<Rightarrow> p x | Inr x \<Rightarrow> q x)"
  by (cases v) simp_all

lemma keeps_cleanup_recovered [keeps_rules]:
  "Commit_Gate \<notin> H \<Longrightarrow> Vault_Mutex \<notin> H \<Longrightarrow> keeps me H (cleanup_recovered_passkey_creations R me r d)"
  unfolding cleanup_recovered_passkey_creations_def by (intro keeps_rules; simp)

lemma keeps_publish_authenticated_unlock [keeps_rules]:
  "Commit_Gate \<notin> H \<Longrightarrow> Vault_Mutex \<notin> H \<Longrightarrow> Owned_Mutex \<notin> H
     \<Longrightarrow> keeps me H (publish_authenticated_unlock R me own vid r d)"
  unfolding publish_authenticated_unlock_def by (intro keeps_rules; simp)

lemma keeps_unlock_call [keeps_rules]: "Vault_Mutex \<in> H \<Longrightarrow> keeps me H (unlock_call R unlock)"
  unfolding unlock_call_def by (rule keeps_vaulted) (simp_all add: quiet_def split: prod.split)

lemma keeps_settle_unlock [keeps_rules]:
  "Commit_Gate \<notin> H \<Longrightarrow> Vault_Mutex \<notin> H \<Longrightarrow> Owned_Mutex \<notin> H \<Longrightarrow> keeps me H (settle_unlock R me r d attempt)"
  unfolding settle_unlock_def by (intro keeps_rules; simp)

lemma keeps_unlock_vault [keeps_rules]:
  "Commit_Gate \<notin> H \<Longrightarrow> Vault_Mutex \<notin> H \<Longrightarrow> Owned_Mutex \<notin> H
     \<Longrightarrow> keeps me H (unlock_vault_with_after_core R me password r d)"
  unfolding unlock_vault_with_after_core_def enter_unlocking_def by (intro keeps_rules; simp)

lemma keeps_set_lock_active [keeps_rules]:
  assumes "Commit_Gate \<in> H"
  shows "keeps me H (FlagPermit_acquire Lock_Active)" and "keeps me H set_lock_active"
  unfolding FlagPermit_acquire_def set_lock_active_def set_flag_def
  by (rule keeps_gated [OF assms]; simp add: quiet_def)+

lemma keeps_flag_drop [keeps_rules]: "keeps me H (FlagPermit_drop f)"
  unfolding FlagPermit_drop_def set_flag_def by (rule keeps_quiet) (simp add: quiet_def)

lemma keeps_lock_vault_section [keeps_rules]: "Vault_Mutex \<notin> H \<Longrightarrow> keeps me H (lock_vault_section me)"
  unfolding lock_vault_section_def by (intro keeps_rules; simp)

lemma keeps_lock_vault [keeps_rules]:
  assumes "Commit_Gate \<notin> H" and "Vault_Mutex \<notin> H" and "Creation_Gate \<notin> H" and "Hello_Gate \<notin> H"
  shows "keeps me H (lock_vault R me)" and "keeps me H (shutdown me)"
  unfolding lock_vault_def begin_lock_def shutdown_def by (intro keeps_rules; simp add: assms)+

end
