(* ===== verification/Agent_Hello.thy ===== *)
theory Agent_Hello
  imports Format_Vault
begin

text \<open>
  The device-local Windows Hello state of the agent (crates/vault-agent/src/windows_hello.rs): an
  enrollment bound to one vault, possibly with a credential that is still to be removed, or only such
  a credential; its construction, its changes and its canonical encoding. Where it is kept, and how
  the blob is protected, is the platform's.
\<close>

section \<open>State\<close>

datatype windows_hello_state_error = State_NotFound | State_Invalid | State_Failed | State_Published

record hello_enrollment =
  he_vault_id :: bytes
  he_key_epoch :: u32
  he_installation_key :: bytes
  he_credential_id :: bytes
  he_pending_removal_credential_id :: "bytes option"
  he_prf_salt :: bytes
  he_protector :: bytes

datatype windows_hello_local_state = Enrollment hello_enrollment | PendingRemoval bytes

definition LOCAL_STATE_MAGIC :: bytes where "LOCAL_STATE_MAGIC = ascii ''LBR-HLO''"
definition LOCAL_STATE_VERSION :: u32 where [simp]: "LOCAL_STATE_VERSION = 3"
definition LOCAL_STATE_FIELDS :: u64 where [simp]: "LOCAL_STATE_FIELDS = 4"
definition LOCAL_ENROLLMENT_FIELDS :: u64 where [simp]: "LOCAL_ENROLLMENT_FIELDS = 7"
definition LOCAL_STATE_ENROLLMENT :: u8 where [simp]: "LOCAL_STATE_ENROLLMENT = 0"
definition LOCAL_STATE_PENDING_REMOVAL :: u8 where [simp]: "LOCAL_STATE_PENDING_REMOVAL = 1"
definition INSTALLATION_KEY_BYTES :: nat where [simp]: "INSTALLATION_KEY_BYTES = 32"
definition PRF_SALT_BYTES :: nat where [simp]: "PRF_SALT_BYTES = 32"
definition MAXIMUM_LOCAL_STATE_BYTES :: nat where [simp]: "MAXIMUM_LOCAL_STATE_BYTES = 4 * 1024"

definition LocalState_new ::
    "minicbor \<Rightarrow> bytes \<Rightarrow> u32 \<Rightarrow> bytes \<Rightarrow> bytes \<Rightarrow> bytes \<Rightarrow> bytes
       \<Rightarrow> (hello_enrollment, windows_hello_state_error) result" where
  "LocalState_new mc vault_id key_epoch installation_key credential_id prf_salt protector =
     (if vault_id = zeros 16 \<or> key_epoch = 0 \<or> installation_key = zeros INSTALLATION_KEY_BYTES
         \<or> credential_id = [] \<or> length credential_id > MAX_WINDOWS_HELLO_CREDENTIAL_ID_BYTES
         \<or> prf_salt = zeros PRF_SALT_BYTES
         \<or> protector = [] \<or> length protector > MAX_WINDOWS_HELLO_PROTECTOR_BYTES
      then Err State_Invalid else
      and_then (map_err (\<lambda>_. State_Invalid) (WindowsHelloProtector_decode mc protector)) (\<lambda>decoded.
      if wh_vault_id decoded \<noteq> vault_id \<or> wh_key_epoch decoded \<noteq> key_epoch
         \<or> wh_credential_id decoded \<noteq> credential_id \<or> wh_prf_salt decoded \<noteq> prf_salt
      then Err State_Invalid
      else Ok \<lparr>he_vault_id = vault_id, he_key_epoch = key_epoch,
               he_installation_key = installation_key, he_credential_id = credential_id,
               he_pending_removal_credential_id = None, he_prf_salt = prf_salt,
               he_protector = protector\<rparr>))"

definition pending_removal :: "bytes \<Rightarrow> (windows_hello_local_state, windows_hello_state_error) result" where
  "pending_removal credential_id =
     (if credential_id = [] \<or> length credential_id > MAX_WINDOWS_HELLO_CREDENTIAL_ID_BYTES
      then Err State_Invalid else Ok (PendingRemoval credential_id))"

fun vault_binding :: "windows_hello_local_state \<Rightarrow> (bytes \<times> u32) option" where
  "vault_binding (Enrollment s) = Some (he_vault_id s, he_key_epoch s)"
| "vault_binding (PendingRemoval _) = None"

fun installation_key_of :: "windows_hello_local_state \<Rightarrow> bytes option" where
  "installation_key_of (Enrollment s) = Some (he_installation_key s)"
| "installation_key_of (PendingRemoval _) = None"

fun credential_id_of :: "windows_hello_local_state \<Rightarrow> bytes option" where
  "credential_id_of (Enrollment s) = Some (he_credential_id s)"
| "credential_id_of (PendingRemoval _) = None"

fun pending_removal_credential_id :: "windows_hello_local_state \<Rightarrow> bytes option" where
  "pending_removal_credential_id (Enrollment s) = he_pending_removal_credential_id s"
| "pending_removal_credential_id (PendingRemoval i) = Some i"

fun set_pending_removal_credential_id ::
    "bytes \<Rightarrow> windows_hello_local_state \<Rightarrow> (windows_hello_local_state, windows_hello_state_error) result" where
  "set_pending_removal_credential_id i (Enrollment s) =
     (if i = [] \<or> length i > MAX_WINDOWS_HELLO_CREDENTIAL_ID_BYTES \<or> i = he_credential_id s
      then Err State_Invalid else Ok (Enrollment (s\<lparr>he_pending_removal_credential_id := Some i\<rparr>)))"
| "set_pending_removal_credential_id i (PendingRemoval _) = Err State_Invalid"

fun clear_pending_removal_credential_id ::
    "windows_hello_local_state \<Rightarrow> windows_hello_local_state \<times> bool" where
  "clear_pending_removal_credential_id (Enrollment s) =
     (Enrollment (s\<lparr>he_pending_removal_credential_id := None\<rparr>), True)"
| "clear_pending_removal_credential_id (PendingRemoval i) = (PendingRemoval i, False)"

fun prf_salt_of :: "windows_hello_local_state \<Rightarrow> bytes option" where
  "prf_salt_of (Enrollment s) = Some (he_prf_salt s)"
| "prf_salt_of (PendingRemoval _) = None"

fun protector_of :: "windows_hello_local_state \<Rightarrow> bytes option" where
  "protector_of (Enrollment s) = Some (he_protector s)"
| "protector_of (PendingRemoval _) = None"

section \<open>Encoding\<close>

text \<open>Writes to a growing vector do not fail.\<close>

fun local_state_body :: "minicbor \<Rightarrow> windows_hello_local_state \<Rightarrow> bytes" where
  "local_state_body mc (Enrollment s) =
     enc_u8 mc LOCAL_STATE_ENROLLMENT @ enc_array mc LOCAL_ENROLLMENT_FIELDS
     @ enc_bytes mc (he_vault_id s) @ enc_u32 mc (he_key_epoch s) @ enc_bytes mc (he_installation_key s)
     @ enc_bytes mc (he_credential_id s)
     @ (case he_pending_removal_credential_id s of Some i \<Rightarrow> enc_bytes mc i | None \<Rightarrow> enc_bytes mc [])
     @ enc_bytes mc (he_prf_salt s) @ enc_bytes mc (he_protector s)"
| "local_state_body mc (PendingRemoval i) = enc_u8 mc LOCAL_STATE_PENDING_REMOVAL @ enc_bytes mc i"

definition LocalState_encode ::
    "minicbor \<Rightarrow> windows_hello_local_state \<Rightarrow> (bytes, windows_hello_state_error) result" where
  "LocalState_encode mc state =
     (let bs = enc_array mc LOCAL_STATE_FIELDS @ enc_str mc LOCAL_STATE_MAGIC
                 @ enc_u32 mc LOCAL_STATE_VERSION @ local_state_body mc state
      in if length bs > MAXIMUM_LOCAL_STATE_BYTES then Err State_Invalid else Ok bs)"

definition hello_array :: "minicbor \<Rightarrow> u64 \<Rightarrow> bytes \<Rightarrow> (bytes, windows_hello_state_error) result" where
  "hello_array mc n d =
     and_then (ok_or State_Invalid (dec_array mc d)) (\<lambda>(len, d).
     if len \<noteq> Some n then Err State_Invalid else Ok d)"

definition fixed_bytes :: "minicbor \<Rightarrow> nat \<Rightarrow> bytes \<Rightarrow> (bytes \<times> bytes, windows_hello_state_error) result" where
  "fixed_bytes mc n d =
     and_then (ok_or State_Invalid (dec_bytes mc d)) (\<lambda>(v, d).
     if length v \<noteq> n then Err State_Invalid else Ok (v, d))"

definition bounded_bytes ::
    "minicbor \<Rightarrow> nat \<Rightarrow> nat \<Rightarrow> bytes \<Rightarrow> (bytes \<times> bytes, windows_hello_state_error) result" where
  "bounded_bytes mc minimum maximum d =
     and_then (ok_or State_Invalid (dec_bytes mc d)) (\<lambda>(v, d).
     if \<not> (minimum \<le> length v \<and> length v \<le> maximum) then Err State_Invalid else Ok (v, d))"

definition decode_enrollment ::
    "minicbor \<Rightarrow> bytes \<Rightarrow> (windows_hello_local_state \<times> bytes, windows_hello_state_error) result" where
  "decode_enrollment mc d =
     and_then (hello_array mc LOCAL_ENROLLMENT_FIELDS d) (\<lambda>d.
     and_then (fixed_bytes mc 16 d) (\<lambda>(vault_id, d).
     and_then (ok_or State_Invalid (dec_u32 mc d)) (\<lambda>(key_epoch, d).
     and_then (fixed_bytes mc INSTALLATION_KEY_BYTES d) (\<lambda>(installation_key, d).
     and_then (bounded_bytes mc 1 MAX_WINDOWS_HELLO_CREDENTIAL_ID_BYTES d) (\<lambda>(credential_id, d).
     and_then (bounded_bytes mc 0 MAX_WINDOWS_HELLO_CREDENTIAL_ID_BYTES d) (\<lambda>(removal, d).
     and_then (fixed_bytes mc PRF_SALT_BYTES d) (\<lambda>(prf_salt, d).
     and_then (bounded_bytes mc 1 MAX_WINDOWS_HELLO_PROTECTOR_BYTES d) (\<lambda>(protector, d).
     and_then (LocalState_new mc vault_id key_epoch installation_key credential_id prf_salt protector)
       (\<lambda>s.
     if removal \<noteq> [] then
       and_then (set_pending_removal_credential_id removal (Enrollment s)) (\<lambda>state. Ok (state, d))
     else Ok (Enrollment s, d))))))))))"

definition LocalState_decode ::
    "minicbor \<Rightarrow> bytes \<Rightarrow> (windows_hello_local_state, windows_hello_state_error) result" where
  "LocalState_decode mc bs =
     (if bs = [] \<or> length bs > MAXIMUM_LOCAL_STATE_BYTES then Err State_Invalid else
      and_then (hello_array mc LOCAL_STATE_FIELDS bs) (\<lambda>d.
      and_then (ok_or State_Invalid (dec_str mc d)) (\<lambda>(magic, d).
      if magic \<noteq> LOCAL_STATE_MAGIC then Err State_Invalid else
      and_then (ok_or State_Invalid (dec_u32 mc d)) (\<lambda>(version, d).
      if version \<noteq> LOCAL_STATE_VERSION then Err State_Invalid else
      and_then (ok_or State_Invalid (dec_u8 mc d)) (\<lambda>(kind, d).
      and_then
        (if kind = LOCAL_STATE_ENROLLMENT then decode_enrollment mc d
         else if kind = LOCAL_STATE_PENDING_REMOVAL then
           and_then (bounded_bytes mc 1 MAX_WINDOWS_HELLO_CREDENTIAL_ID_BYTES d) (\<lambda>(i, d).
           and_then (pending_removal i) (\<lambda>state. Ok (state, d)))
         else Err State_Invalid) (\<lambda>(state, d).
      if d \<noteq> [] then Err State_Invalid else
      and_then (LocalState_encode mc state) (\<lambda>enc.
      if enc \<noteq> bs then Err State_Invalid else Ok state)))))))"

section \<open>Validity\<close>

fun LocalState_valid :: "minicbor \<Rightarrow> windows_hello_local_state \<Rightarrow> bool" where
  "LocalState_valid mc (Enrollment s) \<longleftrightarrow>
     length (he_vault_id s) = 16 \<and> he_vault_id s \<noteq> zeros 16 \<and> he_key_epoch s \<noteq> 0
     \<and> length (he_installation_key s) = 32 \<and> he_installation_key s \<noteq> zeros 32
     \<and> he_credential_id s \<noteq> [] \<and> length (he_credential_id s) \<le> 1024
     \<and> length (he_prf_salt s) = 32 \<and> he_prf_salt s \<noteq> zeros 32
     \<and> (\<forall>i. he_pending_removal_credential_id s = Some i
          \<longrightarrow> i \<noteq> [] \<and> length i \<le> 1024 \<and> i \<noteq> he_credential_id s)
     \<and> (\<exists>p. WindowsHelloProtector_decode mc (he_protector s) = Ok p \<and> wh_vault_id p = he_vault_id s
          \<and> wh_key_epoch p = he_key_epoch s \<and> wh_credential_id p = he_credential_id s
          \<and> wh_prf_salt p = he_prf_salt s)"
| "LocalState_valid mc (PendingRemoval i) \<longleftrightarrow> i \<noteq> [] \<and> length i \<le> 1024"

lemma hello_decode_lengths:
  "fixed_bytes mc n d = Ok (v, d') \<Longrightarrow> length v = n"
  "bounded_bytes mc a b d = Ok (v, d') \<Longrightarrow> a \<le> length v \<and> length v \<le> b"
  by (auto simp: fixed_bytes_def bounded_bytes_def result_simps split: if_splits prod.splits)

lemma LocalState_new_Ok:
  "LocalState_new mc v k i c s p = Ok x \<longleftrightarrow>
     v \<noteq> zeros 16 \<and> k \<noteq> 0 \<and> i \<noteq> zeros 32 \<and> c \<noteq> [] \<and> length c \<le> 1024 \<and> s \<noteq> zeros 32 \<and> p \<noteq> [] \<and> length p \<le> 2048
     \<and> (\<exists>q. WindowsHelloProtector_decode mc p = Ok q \<and> wh_vault_id q = v \<and> wh_key_epoch q = k
          \<and> wh_credential_id q = c \<and> wh_prf_salt q = s)
     \<and> x = \<lparr>he_vault_id = v, he_key_epoch = k, he_installation_key = i, he_credential_id = c,
            he_pending_removal_credential_id = None, he_prf_salt = s, he_protector = p\<rparr>"
  by (auto simp: LocalState_new_def result_simps split: if_splits)

lemma decode_enrollment_valid:
  assumes "decode_enrollment mc d = Ok (state, d')" shows "LocalState_valid mc state"
  using assms unfolding decode_enrollment_def
  by (elim ok_chain_elims)
    (auto simp: LocalState_new_Ok result_simps dest!: hello_decode_lengths split: if_splits)

lemma LocalState_decode_sound:
  assumes "LocalState_decode mc bs = Ok state"
  shows "LocalState_valid mc state \<and> LocalState_encode mc state = Ok bs"
  using assms unfolding LocalState_decode_def
  by (elim ok_chain_elims)
    (auto simp: pending_removal_def result_simps dest!: hello_decode_lengths decode_enrollment_valid
      split: if_splits)

section \<open>Codec contract\<close>

context minicbor_spec
begin

lemma protector_length:
  assumes "WindowsHelloProtector_decode mc bs = Ok p" shows "length bs \<le> 1400"
proof -
  have valid: "WindowsHelloProtector_valid p" and bs: "bs = hello_protector_wire mc p"
    using WindowsHelloProtector_decode_sound [OF assms] WindowsHelloProtector_encode_valid [of p] by auto
  have v: "length (wh_vault_id p) = 16" "length (wh_installation_id p) = 32"
    "length (wh_credential_id p) \<le> 1024" "length (wh_prf_salt p) = 32" "length (wh_nonce p) = 24"
    "length (wh_wrapped_vrk p) = 48"
    using valid by (simp_all add: WindowsHelloProtector_valid_def)
  show ?thesis unfolding bs hello_protector_wire_def hello_binding_wire_def
    by (insert v, rule order_trans, (rule enc_bounds | simp)+)
qed

lemma protector_nonempty: "WindowsHelloProtector_decode mc [] \<noteq> Ok p"
proof
  assume "WindowsHelloProtector_decode mc [] = Ok p"
  then have "hello_protector_wire mc p = []"
    using WindowsHelloProtector_decode_sound [of "[]" p] WindowsHelloProtector_encode_valid [of p] by auto
  then have "length (enc_array mc 15) = 0" by (simp add: hello_protector_wire_def)
  then show False by (simp add: head_len_def split: if_splits)
qed

text \<open>Every state the constructors allow fits into the bound of an encoded state.\<close>

lemma LocalState_encode_valid:
  assumes "LocalState_valid mc state"
  shows "LocalState_encode mc state = Ok (enc_array mc 4 @ enc_str mc LOCAL_STATE_MAGIC @ enc_u32 mc 3
    @ local_state_body mc state)"
proof -
  have magic: "length LOCAL_STATE_MAGIC = 7" by (simp add: LOCAL_STATE_MAGIC_def ascii_def)
  have "length (local_state_body mc state) \<le> 4000"
  proof (cases state)
    case (Enrollment s)
    then obtain p where v: "length (he_vault_id s) = 16" "length (he_installation_key s) = 32"
      "length (he_credential_id s) \<le> 1024" "length (he_prf_salt s) = 32"
      "\<forall>i. he_pending_removal_credential_id s = Some i \<longrightarrow> length i \<le> 1024"
      and p: "WindowsHelloProtector_decode mc (he_protector s) = Ok p"
      using assms by auto
    obtain removal where r: "(case he_pending_removal_credential_id s of Some i \<Rightarrow> enc_bytes mc i
        | None \<Rightarrow> enc_bytes mc []) = enc_bytes mc removal" "length removal \<le> 1024"
      using v(5) by (cases "he_pending_removal_credential_id s") auto
    show ?thesis unfolding Enrollment local_state_body.simps r(1)
      by (insert v(1-4) r(2) protector_length [OF p], rule order_trans, (rule enc_bounds | simp)+)
  next
    case (PendingRemoval i)
    then show ?thesis using assms by (auto simp: head_len_def)
  qed
  then show ?thesis
    using magic by (simp add: LocalState_encode_def Let_def head_len_def)
qed

lemma decode_enrollment_complete:
  assumes "LocalState_valid mc (Enrollment s)"
  shows "\<exists>d. local_state_body mc (Enrollment s) = enc_u8 mc 0 @ d
    \<and> decode_enrollment mc d = Ok (Enrollment s, [])"
proof -
  obtain p where v: "length (he_vault_id s) = 16" "length (he_installation_key s) = 32"
      "length (he_credential_id s) \<le> 1024" "length (he_prf_salt s) = 32" "he_credential_id s \<noteq> []"
    and p: "WindowsHelloProtector_decode mc (he_protector s) = Ok p" "wh_vault_id p = he_vault_id s"
      "wh_key_epoch p = he_key_epoch s" "wh_credential_id p = he_credential_id s" "wh_prf_salt p = he_prf_salt s"
    using assms by auto
  have protector: "he_protector s \<noteq> []" "length (he_protector s) \<le> 1400"
    using p(1) protector_nonempty protector_length by auto
  have new: "LocalState_new mc (he_vault_id s) (he_key_epoch s) (he_installation_key s) (he_credential_id s)
      (he_prf_salt s) (he_protector s) = Ok (s\<lparr>he_pending_removal_credential_id := None\<rparr>)"
    using assms p protector by (cases s) (auto simp: LocalState_new_Ok)
  have nonempty: "Suc 0 \<le> length (he_credential_id s)" "Suc 0 \<le> length (he_protector s)"
    using v(5) protector(1) by (simp_all add: Suc_le_eq)
  show ?thesis
  proof (cases "he_pending_removal_credential_id s")
    case None
    then have "s\<lparr>he_pending_removal_credential_id := None\<rparr> = s" by simp
    with None new v protector nonempty show ?thesis
      by (simp add: decode_enrollment_def hello_array_def fixed_bytes_def bounded_bytes_def)
  next
    case (Some i)
    then have i: "i \<noteq> []" "length i \<le> 1024" "i \<noteq> he_credential_id s"
      "s\<lparr>he_pending_removal_credential_id := Some i\<rparr> = s" using assms by auto
    with Some new v protector nonempty show ?thesis
      by (simp add: decode_enrollment_def hello_array_def fixed_bytes_def bounded_bytes_def)
  qed
qed

lemma LocalState_decode_complete:
  assumes "LocalState_valid mc state" and "LocalState_encode mc state = Ok bs"
  shows "LocalState_decode mc bs = Ok state"
proof -
  have magic: "length LOCAL_STATE_MAGIC = 7" "utf8_valid LOCAL_STATE_MAGIC"
    by (simp_all add: LOCAL_STATE_MAGIC_def ascii_def utf8_valid_ascii)
  have bs: "bs = enc_array mc 4 @ enc_str mc LOCAL_STATE_MAGIC @ enc_u32 mc 3 @ local_state_body mc state"
    using assms LocalState_encode_valid by simp
  have len: "length bs \<le> 4096" using assms(2) by (auto simp: LocalState_encode_def Let_def split: if_splits)
  have "length (enc_array mc 4) \<noteq> 0" by (simp add: head_len_def)
  then have "enc_array mc 4 \<noteq> []" by (metis list.size(3))
  then have nonempty: "bs \<noteq> []" by (simp add: bs)
  show ?thesis
  proof (cases state)
    case (Enrollment s)
    then obtain d where d: "local_state_body mc state = enc_u8 mc 0 @ d"
      "decode_enrollment mc d = Ok (Enrollment s, [])"
      using decode_enrollment_complete assms(1) by blast
    have "LocalState_decode mc (enc_array mc 4 @ enc_str mc LOCAL_STATE_MAGIC @ enc_u32 mc 3 @ enc_u8 mc 0 @ d)
        = Ok state"
      using d assms(2) nonempty len magic Enrollment unfolding bs d(1)
      by (simp add: LocalState_decode_def hello_array_def)
    then show ?thesis by (simp add: bs d(1))
  next
    case (PendingRemoval i)
    then have "i \<noteq> []" "length i \<le> 1024" "Suc 0 \<le> length i" using assms(1) by (auto simp: Suc_le_eq)
    then have "LocalState_decode mc (enc_array mc 4 @ enc_str mc LOCAL_STATE_MAGIC @ enc_u32 mc 3 @ enc_u8 mc 1
        @ enc_bytes mc i) = Ok state"
      using assms(2) nonempty len magic PendingRemoval unfolding bs
      by (simp add: LocalState_decode_def hello_array_def bounded_bytes_def pending_removal_def)
    then show ?thesis by (simp add: bs PendingRemoval)
  qed
qed

end

section \<open>Property\<close>

text \<open>C32: the protected Windows Hello state has exactly one accepted encoding, and every state the
  agent can build, also the largest, has one: the vault, epoch, credential and salt are those of the
  protector it carries, nothing is zero or empty, and the credential to be removed is not the one in
  use.\<close>

theorem local_state_exact:
  assumes "minicbor_spec mc"
  shows "(LocalState_decode mc bs = Ok state \<longleftrightarrow> LocalState_valid mc state \<and> LocalState_encode mc state = Ok bs)
    \<and> (LocalState_valid mc state \<longrightarrow> (\<exists>enc. LocalState_encode mc state = Ok enc \<and> length enc \<le> MAXIMUM_LOCAL_STATE_BYTES))"
  using LocalState_decode_sound [of mc bs state] minicbor_spec.LocalState_decode_complete [OF assms, of state bs]
    minicbor_spec.LocalState_encode_valid [OF assms, of state]
  by (fastforce simp: LocalState_encode_def Let_def split: if_splits)

definition sample_removal :: windows_hello_local_state where
  "sample_removal = PendingRemoval [7, 8]"

theorem local_state_exact_witness:
  "\<exists>bs. LocalState_encode rfc8949 sample_removal = Ok bs \<and> LocalState_decode rfc8949 bs = Ok sample_removal"
proof -
  have valid: "LocalState_valid rfc8949 sample_removal" by (simp add: sample_removal_def)
  then obtain bs where "LocalState_encode rfc8949 sample_removal = Ok bs"
    using local_state_exact [OF rfc.minicbor_spec_axioms, of undefined sample_removal] by blast
  with valid show ?thesis
    using local_state_exact [OF rfc.minicbor_spec_axioms, of bs sample_removal] by blast
qed

end
