(* ===== verification/Runtime_Hello.thy ===== *)
theory Runtime_Hello
  imports Runtime_Unlock Agent_Hello
begin

text \<open>
  Windows Hello in the runtime (runtime.rs: \<open>enroll_windows_hello\<close>, \<open>unlock_windows_hello\<close>,
  \<open>remove_windows_hello\<close> and their helpers) over the provider and the repository of windows_hello.rs,
  whose platform calls are parameters. The repository's file is bound to this runtime before and after
  every access. A new credential is in use only once the state that names it is stored; the one it
  replaces stays on record until it is removed.
\<close>

section \<open>Provider and repository\<close>

record windows_hello_enrollment =
  ne_credential_id :: bytes
  ne_prf_salt :: bytes
  ne_prf_output :: bytes

record 'p windows_hello_provider =
  hp_enroll :: "u64 \<Rightarrow> u32 \<Rightarrow> bytes \<Rightarrow> 'p \<Rightarrow> 'p \<times> (windows_hello_enrollment, windows_hello_provider_error) result"
  hp_evaluate :: "u64 \<Rightarrow> u32 \<Rightarrow> bytes \<Rightarrow> bytes \<Rightarrow> bytes \<Rightarrow> 'p \<Rightarrow> 'p \<times> (bytes, windows_hello_provider_error) result"
  hp_cancel :: "bytes \<Rightarrow> 'p \<Rightarrow> 'p"
  hp_remove :: "bytes \<Rightarrow> 'p \<Rightarrow> 'p \<times> (unit, windows_hello_provider_error) result"

record 'p windows_hello_repository =
  hr_load :: "'p \<Rightarrow> 'p \<times> (windows_hello_local_state, windows_hello_state_error) result"
  hr_save :: "windows_hello_local_state \<Rightarrow> 'p \<Rightarrow> 'p \<times> (unit, windows_hello_state_error) result"
  hr_remove :: "'p \<Rightarrow> 'p \<times> (unit, windows_hello_state_error) result"
  hr_ownership_path :: "path option"

type_synonym 'p windows_hello = "'p windows_hello_provider \<times> 'p windows_hello_repository"

text \<open>A call whose errors the caller tells apart itself; a panic unwinds.\<close>

definition settled ::
    "(('d, 'e, 'p, 'i) runtime, ('a, 'x) result) thread \<Rightarrow> (('a, 'x) result \<Rightarrow> ('d, 'e, 'p, 'i, 'b) work)
       \<Rightarrow> ('d, 'e, 'p, 'i, 'b) work" where
  "settled p k = thread_then p (\<lambda>r. if r = Panic then Return Panic else k r)"

definition saved :: "(unit, windows_hello_state_error) result \<Rightarrow> bool" where
  "saved r \<longleftrightarrow> r = Ok () \<or> r = Err State_Published"

section \<open>The repository\<close>

definition bind_hello_call ::
    "('d, 'e, 'p, 'i, 't, 'h, 'g) agent_runtime \<Rightarrow> path \<Rightarrow> (('d, 'e, 'p, 'i) runtime, bool) thread" where
  "bind_hello_call R path = atomically (\<lambda>s.
     case bind_windows_hello_state (ar_file_system R (rt_disk s)) (ar_token R) path (pw_owned (rt_process s)) of
       (registry, r) \<Rightarrow> (s\<lparr>rt_process := (rt_process s)\<lparr>pw_owned := registry\<rparr>\<rparr>, r = Ok ()))"

text \<open>An access between two bindings; \<open>unbound\<close> is its result when the second binding fails.\<close>

definition bound_access ::
    "('d, 'e, 'p, 'i, 't, 'h, 'g) agent_runtime \<Rightarrow> 'p windows_hello_repository \<Rightarrow> nat
       \<Rightarrow> ('p \<Rightarrow> 'p \<times> ('a, windows_hello_state_error) result)
       \<Rightarrow> (('a, windows_hello_state_error) result \<Rightarrow> windows_hello_state_error)
       \<Rightarrow> (('d, 'e, 'p, 'i) runtime, ('a, windows_hello_state_error) result) thread" where
  "bound_access R T me access unbound =
     (case hr_ownership_path T of
        None \<Rightarrow> platform_call access
      | Some path \<Rightarrow>
          with_mutex_or me Owned_Mutex (Err State_Failed)
            (thread_then (bind_hello_call R path) (\<lambda>bound.
             if \<not> bound then Return (Err State_Failed) else
             thread_then (platform_call access) (\<lambda>result.
             if result = Panic then Return Panic else
             thread_then (bind_hello_call R path) (\<lambda>bound.
             Return (if \<not> bound then Err (unbound result) else result))))))"

definition load_windows_hello_state ::
    "('d, 'e, 'p, 'i, 't, 'h, 'g) agent_runtime \<Rightarrow> 'p windows_hello_repository \<Rightarrow> nat
       \<Rightarrow> (('d, 'e, 'p, 'i) runtime, (windows_hello_local_state, windows_hello_state_error) result) thread" where
  "load_windows_hello_state R T me = bound_access R T me (hr_load T) (\<lambda>_. State_Failed)"

definition save_windows_hello_state ::
    "('d, 'e, 'p, 'i, 't, 'h, 'g) agent_runtime \<Rightarrow> 'p windows_hello_repository \<Rightarrow> nat
       \<Rightarrow> windows_hello_local_state
       \<Rightarrow> (('d, 'e, 'p, 'i) runtime, (unit, windows_hello_state_error) result) thread" where
  "save_windows_hello_state R T me state = bound_access R T me (hr_save T state)
     (\<lambda>result. if saved result then State_Published else State_Failed)"

definition remove_windows_hello_state ::
    "('d, 'e, 'p, 'i, 't, 'h, 'g) agent_runtime \<Rightarrow> 'p windows_hello_repository \<Rightarrow> nat
       \<Rightarrow> (('d, 'e, 'p, 'i) runtime, (unit, windows_hello_state_error) result) thread" where
  "remove_windows_hello_state R T me = bound_access R T me (hr_remove T) (\<lambda>_. State_Failed)"

definition save_was ::
    "('d, 'e, 'p, 'i, 't, 'h, 'g) agent_runtime \<Rightarrow> 'p windows_hello_repository \<Rightarrow> nat
       \<Rightarrow> windows_hello_local_state \<Rightarrow> ('d, 'e, 'p, 'i, bool) work" where
  "save_was R T me state =
     settled (save_windows_hello_state R T me state) (\<lambda>r. Return (Ok (saved r)))"

definition ensure_absent_windows_hello_state ::
    "('d, 'e, 'p, 'i, 't, 'h, 'g) agent_runtime \<Rightarrow> 'p windows_hello_repository \<Rightarrow> nat
       \<Rightarrow> ('d, 'e, 'p, 'i, bool) work" where
  "ensure_absent_windows_hello_state R T me =
     settled (remove_windows_hello_state R T me) (\<lambda>r. Return (Ok (r = Ok () \<or> r = Err State_NotFound)))"

definition persist_windows_hello_cleanup ::
    "('d, 'e, 'p, 'i, 't, 'h, 'g) agent_runtime \<Rightarrow> 'p windows_hello_repository \<Rightarrow> nat
       \<Rightarrow> windows_hello_local_state option \<Rightarrow> bytes \<Rightarrow> ('d, 'e, 'p, 'i, bool) work" where
  "persist_windows_hello_cleanup R T me previous credential_id =
     (case (case previous of
              Some state \<Rightarrow>
                if vault_binding state \<noteq> None then set_pending_removal_credential_id credential_id state
                else pending_removal credential_id
            | None \<Rightarrow> pending_removal credential_id) of
        Ok state \<Rightarrow> save_was R T me state
      | _ \<Rightarrow> Return (Ok False))"

definition retry_persisted_windows_hello_retirement ::
    "('d, 'e, 'p, 'i, 't, 'h, 'g) agent_runtime \<Rightarrow> 'p windows_hello \<Rightarrow> nat
       \<Rightarrow> windows_hello_local_state \<Rightarrow> ('d, 'e, 'p, 'i, windows_hello_local_state \<times> bool) work" where
  "retry_persisted_windows_hello_retirement R = (\<lambda>(P, T) me state.
     case pending_removal_credential_id state of
       None \<Rightarrow> Return (Ok (state, True))
     | Some credential_id \<Rightarrow>
         settled (platform_call (hp_remove P credential_id)) (\<lambda>r.
         if r \<noteq> Ok () then Return (Ok (state, False)) else
         case clear_pending_removal_credential_id state of
           (state, True) \<Rightarrow> thread_try (save_was R T me state) (\<lambda>b. Return (Ok (state, b)))
         | (state, False) \<Rightarrow>
             thread_try (ensure_absent_windows_hello_state R T me) (\<lambda>b. Return (Ok (state, b)))))"

definition remove_windows_hello_credential_or ::
    "('d, 'e, 'p, 'i, 't, 'h, 'g) agent_runtime \<Rightarrow> 'p windows_hello \<Rightarrow> nat
       \<Rightarrow> windows_hello_local_state option \<Rightarrow> bytes \<Rightarrow> execution_outcome
       \<Rightarrow> ('d, 'e, 'p, 'i, execution_outcome) work" where
  "remove_windows_hello_credential_or R = (\<lambda>(P, T) me previous credential_id outcome.
     settled (platform_call (hp_remove P credential_id)) (\<lambda>r.
     if r = Ok () then Return (Ok outcome) else
     thread_try (persist_windows_hello_cleanup R T me previous credential_id) (\<lambda>persisted.
     Return (Ok (if persisted then retryable_failure else outcome_failed)))))"

definition rollback_windows_hello_enrollment ::
    "('d, 'e, 'p, 'i, 't, 'h, 'g) agent_runtime \<Rightarrow> 'p windows_hello \<Rightarrow> nat
       \<Rightarrow> windows_hello_local_state \<Rightarrow> windows_hello_local_state
       \<Rightarrow> ('d, 'e, 'p, 'i, execution_outcome) work" where
  "rollback_windows_hello_enrollment R W me previous replacement =
     (case (credential_id_of previous, credential_id_of replacement) of
        (Some previous_credential_id, Some replacement_credential_id) \<Rightarrow>
          if previous_credential_id = replacement_credential_id then Return (Ok outcome_failed) else
          thread_try (save_was R (snd W) me previous) (\<lambda>b.
          if \<not> b then Return (Ok outcome_failed)
          else remove_windows_hello_credential_or R W me (Some previous) replacement_credential_id
                 retryable_failure)
      | _ \<Rightarrow> Return (Ok outcome_failed))"

section \<open>Ceremonies\<close>

definition windows_hello_operation_id ::
    "('d, 'e, 'p, 'i, 't, 'h, 'g) agent_runtime \<Rightarrow> ('d, 'e, 'p, 'i, bytes) work" where
  "windows_hello_operation_id R = thread_try (draw_bytes (ar_libs R) 16) (\<lambda>v.
     Return (if v = zeros 16 then Err Dispatch_Internal else Ok v))"

definition windows_hello_terminal_abort ::
    "request_registration \<Rightarrow> instant \<Rightarrow> (('d, 'e, 'p, 'i) runtime, execution_outcome option) thread" where
  "windows_hello_terminal_abort registration deadline =
     thread_then (any_of [\<lambda>s. rt_cancelled s (rg_cancellation registration), \<lambda>s. rt_flags s Lock_Active])
       (\<lambda>cancelled.
     if cancelled then Return (Some outcome_cancelled) else
     thread_then (observe (\<lambda>s. rt_now s \<ge> deadline)) (\<lambda>late.
     Return (if late then Some outcome_deadline else None)))"

text \<open>
  The watcher beside a ceremony asks the platform to cancel it, as often as it finds a reason before
  the ceremony is over; \<open>ar_rounds\<close> is how often it looks.
\<close>

primrec watch_ceremony ::
    "'p windows_hello_provider \<Rightarrow> bytes \<Rightarrow> request_registration \<Rightarrow> instant \<Rightarrow> nat
       \<Rightarrow> (('d, 'e, 'p, 'i) runtime, unit) thread" where
  "watch_ceremony P operation_id registration deadline 0 = Return ()"
| "watch_ceremony P operation_id registration deadline (Suc n) =
     thread_then (any_of [\<lambda>s. rt_cancelled s (rg_cancellation registration), \<lambda>s. rt_flags s Lock_Active,
       \<lambda>s. rt_now s \<ge> deadline]) (\<lambda>stop.
     thread_then (if stop then platform_call (\<lambda>p. (hp_cancel P operation_id p, ())) else Return ()) (\<lambda>_.
     watch_ceremony P operation_id registration deadline n))"

definition run_windows_hello_ceremony ::
    "('d, 'e, 'p, 'i, 't, 'h, 'g) agent_runtime \<Rightarrow> 'p windows_hello_provider \<Rightarrow> bytes
       \<Rightarrow> request_registration \<Rightarrow> instant \<Rightarrow> ('p \<Rightarrow> 'p \<times> ('a, windows_hello_provider_error) result)
       \<Rightarrow> (('d, 'e, 'p, 'i) runtime, ('a, windows_hello_provider_error) result) thread" where
  "run_windows_hello_ceremony R P operation_id registration deadline ceremony =
     thread_then (watch_ceremony P operation_id registration deadline (ar_rounds R)) (\<lambda>_.
     platform_call ceremony)"

section \<open>Enrolling\<close>

text \<open>\<open>Discard\<close> leaves the gate and removes the new credential again; without an outcome it is still to
  be found out why.\<close>

datatype enroll_exit = Enrolled execution_outcome | Discard "execution_outcome option"

definition enrolled_reply :: "'e vault_libs \<Rightarrow> (execution_outcome, dispatch_error) result" where
  "enrolled_reply L = map_ok commit_point (empty_reply L)"

definition undo_or_retry ::
    "('d, 'e, 'p, 'i, 't, 'h, 'g) agent_runtime \<Rightarrow> 'p windows_hello \<Rightarrow> nat
       \<Rightarrow> windows_hello_local_state option \<Rightarrow> windows_hello_local_state
       \<Rightarrow> ('d, 'e, 'p, 'i, execution_outcome) work" where
  "undo_or_retry R W me previous local_state =
     (case previous of
        Some previous \<Rightarrow> rollback_windows_hello_enrollment R W me previous local_state
      | None \<Rightarrow> Return (Ok retryable_failure))"

text \<open>The state is stored; now the credential it replaces can go.\<close>

definition retire_replaced ::
    "('d, 'e, 'p, 'i, 't, 'h, 'g) agent_runtime \<Rightarrow> 'p windows_hello \<Rightarrow> nat
       \<Rightarrow> windows_hello_local_state option \<Rightarrow> windows_hello_local_state
       \<Rightarrow> ('d, 'e, 'p, 'i, execution_outcome) work" where
  "retire_replaced R W me previous local_state =
     (case pending_removal_credential_id local_state of
        None \<Rightarrow> Return (enrolled_reply (ar_libs R))
      | Some replaced \<Rightarrow>
          settled (platform_call (hp_remove (fst W) replaced)) (\<lambda>r.
          if r \<noteq> Ok () then undo_or_retry R W me previous local_state else
          case clear_pending_removal_credential_id local_state of
            (_, False) \<Rightarrow> Return (Err Dispatch_Internal)
          | (local_state, True) \<Rightarrow>
              thread_try (save_was R (snd W) me local_state) (\<lambda>b.
              if b then Return (enrolled_reply (ar_libs R)) else Return (Ok retryable_failure))))"

definition commit_enrollment ::
    "('d, 'e, 'p, 'i, 't, 'h, 'g) agent_runtime \<Rightarrow> 'p windows_hello \<Rightarrow> nat
       \<Rightarrow> windows_hello_local_state option \<Rightarrow> windows_hello_local_state \<Rightarrow> u64 \<Rightarrow> request_registration
       \<Rightarrow> instant \<Rightarrow> ('d, 'e, 'p, 'i, enroll_exit) work" where
  "commit_enrollment R W me previous local_state request_epoch registration deadline =
     with_mutex me Commit_Gate
     (thread_then (pre_secret_operation request_epoch registration deadline) (\<lambda>x. case x of
        Some outcome \<Rightarrow> Return (Ok (Discard (Some outcome)))
      | None \<Rightarrow>
          settled (save_windows_hello_state R (snd W) me local_state) (\<lambda>r.
          if r = Ok () then
            thread_try (retire_replaced R W me previous local_state) (\<lambda>outcome. Return (Ok (Enrolled outcome)))
          else if r = Err State_Published then
            thread_try (undo_or_retry R W me previous local_state) (\<lambda>outcome. Return (Ok (Enrolled outcome)))
          else Return (Ok (Discard None)))))"

text \<open>The protector is made only while the session and the vault are those the enrollment began with.\<close>

definition protector_section ::
    "('d, 'e, 'p, 'i, 't, 'h, 'g) agent_runtime \<Rightarrow> nat \<Rightarrow> operation_permit \<Rightarrow> bytes \<times> u32 \<Rightarrow> u64 \<Rightarrow> bytes
       \<Rightarrow> windows_hello_enrollment
       \<Rightarrow> ('d, 'e, 'p, 'i, (bytes, agent_unlock_error) result option) work" where
  "protector_section R me permit binding request_epoch installation_key enrollment =
     with_mutex me Vault_Mutex
     (thread_then (any_of [\<lambda>s. \<not> operation_is_authorized (fst (rt_vault s)) permit,
        \<lambda>s. authenticated_vault_binding (fst (rt_vault s)) \<noteq> Some binding,
        \<lambda>s. rt_epoch s \<noteq> request_epoch]) (\<lambda>stale.
      if stale then Return (Ok None) else
      atomically (\<lambda>s.
        case agent_create_windows_hello_protector (ar_libs R) (fst (rt_vault s)) installation_key
               (ne_credential_id enrollment) (ne_prf_salt enrollment) (ne_prf_output enrollment)
               (rt_entropy s) of
          (e, r) \<Rightarrow> (s\<lparr>rt_entropy := e\<rparr>, if r = Panic then Panic else Ok (Some r)))))"

definition draw_installation_key ::
    "'e vault_libs \<Rightarrow> (('d, 'e, 'p, 'i) runtime, bytes option) thread" where
  "draw_installation_key L = atomically (\<lambda>s. case vl_fill L (rt_entropy s) 32 of
     (e, x) \<Rightarrow> (s\<lparr>rt_entropy := e\<rparr>, case x of
        Some key \<Rightarrow> if key = zeros 32 then None else Some key | None \<Rightarrow> None))"

text \<open>The state to store, with the credential it replaces on record.\<close>

definition replacement_state ::
    "'e vault_libs \<Rightarrow> windows_hello_local_state option \<Rightarrow> bytes \<times> u32 \<Rightarrow> bytes \<Rightarrow> windows_hello_enrollment
       \<Rightarrow> bytes \<Rightarrow> (windows_hello_local_state, windows_hello_state_error) result" where
  "replacement_state L previous binding installation_key enrollment protector =
     and_then (LocalState_new (vl_cbor L) (fst binding) (snd binding) installation_key
       (ne_credential_id enrollment) (ne_prf_salt enrollment) protector) (\<lambda>s.
     case Option.bind previous credential_id_of of
       Some previous_credential_id \<Rightarrow>
         if previous_credential_id \<noteq> ne_credential_id enrollment
         then set_pending_removal_credential_id previous_credential_id (Enrollment s)
         else Ok (Enrollment s)
     | None \<Rightarrow> Ok (Enrollment s))"

definition finish_enrollment ::
    "('d, 'e, 'p, 'i, 't, 'h, 'g) agent_runtime \<Rightarrow> 'p windows_hello \<Rightarrow> nat \<Rightarrow> operation_permit
       \<Rightarrow> bytes \<times> u32 \<Rightarrow> windows_hello_local_state option \<Rightarrow> windows_hello_enrollment \<Rightarrow> u64
       \<Rightarrow> request_registration \<Rightarrow> instant \<Rightarrow> ('d, 'e, 'p, 'i, execution_outcome) work" where
  "finish_enrollment R W me permit binding previous enrollment request_epoch registration deadline =
     (let discard = remove_windows_hello_credential_or R W me previous (ne_credential_id enrollment) in
      thread_then (windows_hello_terminal_abort registration deadline) (\<lambda>x. case x of
        Some outcome \<Rightarrow> discard outcome
      | None \<Rightarrow>
      thread_then (observe (\<lambda>s. rt_epoch s \<noteq> request_epoch)) (\<lambda>stale.
      if stale then discard outcome_locked else
      thread_then (draw_installation_key (ar_libs R)) (\<lambda>key. case key of
        None \<Rightarrow> discard outcome_failed
      | Some installation_key \<Rightarrow>
      thread_try (protector_section R me permit binding request_epoch installation_key enrollment) (\<lambda>x.
      case x of
        None \<Rightarrow> discard outcome_locked
      | Some made \<Rightarrow>
      case made of
        Ok protector \<Rightarrow>
          (case replacement_state (ar_libs R) previous binding installation_key enrollment protector of
             Ok local_state \<Rightarrow>
               thread_then (windows_hello_terminal_abort registration deadline) (\<lambda>x. case x of
                 Some outcome \<Rightarrow> discard outcome
               | None \<Rightarrow>
                   thread_try (commit_enrollment R W me previous local_state request_epoch registration
                       deadline) (\<lambda>x. case x of
                     Enrolled outcome \<Rightarrow> Return (Ok outcome)
                   | Discard (Some outcome) \<Rightarrow> discard outcome
                   | Discard None \<Rightarrow>
                       thread_then (windows_hello_terminal_abort registration deadline) (\<lambda>x.
                       discard (case x of Some outcome \<Rightarrow> outcome | None \<Rightarrow> outcome_failed))))
           | Err _ \<Rightarrow> discard outcome_failed
           | Panic \<Rightarrow> Return Panic)
      | _ \<Rightarrow> discard outcome_failed)))))"

definition enroll_ceremony ::
    "('d, 'e, 'p, 'i, 't, 'h, 'g) agent_runtime \<Rightarrow> 'p windows_hello \<Rightarrow> nat \<Rightarrow> u64 \<Rightarrow> u32 \<Rightarrow> operation_permit
       \<Rightarrow> bytes \<times> u32 \<Rightarrow> windows_hello_local_state option \<Rightarrow> u64 \<Rightarrow> request_registration \<Rightarrow> instant
       \<Rightarrow> ('d, 'e, 'p, 'i, execution_outcome) work" where
  "enroll_ceremony R W me parent_window authenticated_process_id permit binding previous request_epoch
       registration deadline =
     unless (pre_secret_operation request_epoch registration deadline)
     (thread_try (windows_hello_operation_id R) (\<lambda>operation_id.
      settled (run_windows_hello_ceremony R (fst W) operation_id registration deadline
        (hp_enroll (fst W) parent_window authenticated_process_id operation_id)) (\<lambda>r. case r of
        Ok enrollment \<Rightarrow>
          finish_enrollment R W me permit binding previous enrollment request_epoch registration deadline
      | Err (Provider_CleanupRequired credential_id) \<Rightarrow>
          thread_try (persist_windows_hello_cleanup R (snd W) me previous credential_id) (\<lambda>persisted.
          Return (Ok (if persisted then retryable_failure else outcome_failed)))
      | Err error \<Rightarrow> Return (Ok (map_windows_hello_provider_error error))
      | Panic \<Rightarrow> Return Panic)))"

text \<open>What was stored before: an unfinished retirement is finished first.\<close>

definition enroll_over ::
    "('d, 'e, 'p, 'i, 't, 'h, 'g) agent_runtime \<Rightarrow> 'p windows_hello \<Rightarrow> nat \<Rightarrow> u64 \<Rightarrow> u32 \<Rightarrow> operation_permit
       \<Rightarrow> bytes \<times> u32 \<Rightarrow> windows_hello_local_state option \<Rightarrow> u64 \<Rightarrow> request_registration \<Rightarrow> instant
       \<Rightarrow> ('d, 'e, 'p, 'i, execution_outcome) work" where
  "enroll_over R W me parent_window authenticated_process_id permit binding previous request_epoch
       registration deadline =
     (let enroll = (\<lambda>previous. enroll_ceremony R W me parent_window authenticated_process_id permit binding
            previous request_epoch registration deadline) in
      case previous of
        None \<Rightarrow> enroll None
      | Some state \<Rightarrow>
          let recovering_retirement = (pending_removal_credential_id state \<noteq> None) in
          thread_try (retry_persisted_windows_hello_retirement R W me state) (\<lambda>(state, retired).
          if \<not> retired then Return (Ok retryable_failure)
          else if vault_binding state = None then enroll None
          else if recovering_retirement \<and> vault_binding state = Some binding then
            unless (pre_secret_operation request_epoch registration deadline)
              (Return (empty_reply (ar_libs R)))
          else enroll (Some state)))"

definition enroll_windows_hello ::
    "('d, 'e, 'p, 'i, 't, 'h, 'g) agent_runtime \<Rightarrow> 'p windows_hello option \<Rightarrow> nat \<Rightarrow> u64 \<Rightarrow> u32 \<Rightarrow> u64
       \<Rightarrow> request_registration \<Rightarrow> instant \<Rightarrow> ('d, 'e, 'p, 'i, execution_outcome) work" where
  "enroll_windows_hello R hello me parent_window authenticated_process_id request_epoch registration
       deadline =
     (case hello of
        None \<Rightarrow> Return (Ok outcome_failed)
      | Some W \<Rightarrow>
          unless (pre_secret_operation request_epoch registration deadline)
          (with_flag Hello_Active (with_mutex me Hello_Gate
            (unless (pre_secret_operation request_epoch registration deadline)
            (thread_try (with_mutex me Vault_Mutex (observe (\<lambda>s.
               Ok (begin_operation (fst (rt_vault s)), authenticated_vault_binding (fst (rt_vault s))))))
               (\<lambda>x. case x of
               (Some permit, Some binding) \<Rightarrow>
                 (let over = (\<lambda>previous. enroll_over R W me parent_window authenticated_process_id permit
                        binding previous request_epoch registration deadline) in
                  settled (load_windows_hello_state R (snd W) me) (\<lambda>r. case r of
                    Ok state \<Rightarrow> over (Some state)
                  | Err State_NotFound \<Rightarrow>
                      thread_try (ensure_absent_windows_hello_state R (snd W) me) (\<lambda>absent.
                      if \<not> absent then Return (Ok retryable_failure) else over None)
                  | _ \<Rightarrow> Return (Ok outcome_failed)))
             | _ \<Rightarrow> Return (Ok outcome_locked)))))))"

section \<open>Unlocking\<close>

definition settle_hello_unlock ::
    "('d, 'e, 'p, 'i, 't, 'h, 'g) agent_runtime \<Rightarrow> nat \<Rightarrow> request_registration \<Rightarrow> instant
       \<Rightarrow> 'i unlock_attempt \<Rightarrow> ('d, 'e, 'p, 'i, execution_outcome) work" where
  "settle_hello_unlock R me registration deadline = (\<lambda>(r, authenticated_ownership, vid). case r of
     Ok _ \<Rightarrow>
       thread_try (cleanup_recovered_passkey_creations R me registration deadline) (\<lambda>x. case x of
         Some outcome \<Rightarrow> relock me outcome
       | None \<Rightarrow>
           result_try (ok_or Dispatch_Internal vid) (\<lambda>vid.
           publish_authenticated_unlock R me authenticated_ownership vid registration deadline))
   | Err error \<Rightarrow>
       thread_then set_locked_unless_shutting_down (\<lambda>_.
       Return (Ok (case error of Agent_Cancelled \<Rightarrow> outcome_cancelled | Agent_Failed \<Rightarrow> outcome_failed)))
   | Panic \<Rightarrow> Return Panic)"

text \<open>The state is \<open>Unlocking\<close> before the prompt shows, entered under the gate in the request's epoch.\<close>

definition begin_hello_unlock ::
    "nat \<Rightarrow> u64 \<Rightarrow> request_registration \<Rightarrow> instant \<Rightarrow> ('d, 'e, 'p, 'i, u64 + execution_outcome) work" where
  "begin_hello_unlock me request_epoch registration deadline =
     with_mutex me Commit_Gate
     (thread_then (windows_hello_terminal_abort registration deadline) (\<lambda>x. case x of
        Some outcome \<Rightarrow> Return (Ok (Inr outcome))
      | None \<Rightarrow>
          thread_then (observe (\<lambda>s. rt_epoch s \<noteq> request_epoch)) (\<lambda>stale.
          if stale then Return (Ok (Inr outcome_locked)) else
          thread_then load_epoch (\<lambda>start_epoch.
          thread_try enter_unlocking (\<lambda>x. Return (Ok (case x of
            Some outcome \<Rightarrow> Inr outcome | None \<Rightarrow> Inl start_epoch)))))))"

definition locked_again :: "execution_outcome \<Rightarrow> ('d, 'e, 'p, 'i, execution_outcome) work" where
  "locked_again outcome = thread_then set_locked_unless_shutting_down (\<lambda>_. Return (Ok outcome))"

definition hello_unlock_section ::
    "('d, 'e, 'p, 'i, 't, 'h, 'g) agent_runtime \<Rightarrow> nat \<Rightarrow> windows_hello_local_state \<Rightarrow> bytes \<Rightarrow> bytes
       \<Rightarrow> ('d, 'e, 'p, 'i, 'i unlock_attempt + execution_outcome) work" where
  "hello_unlock_section R me local_state credential_id prf_output =
     with_mutex me Vault_Mutex
     (case (installation_key_of local_state, protector_of local_state) of
        (Some installation_key, Some protector) \<Rightarrow>
          thread_try (unlock_call R (\<lambda>polls meanwhile.
            unlock_with_windows_hello_before_publish (ar_libs R) (ar_databases R) prf_output
              installation_key credential_id protector polls meanwhile)) (\<lambda>attempt.
          Return (Ok (Inl attempt)))
      | _ \<Rightarrow> thread_try (locked_again outcome_failed) (\<lambda>outcome. Return (Ok (Inr outcome))))"

definition hello_unlock ::
    "('d, 'e, 'p, 'i, 't, 'h, 'g) agent_runtime \<Rightarrow> 'p windows_hello \<Rightarrow> nat \<Rightarrow> u64 \<Rightarrow> u32
       \<Rightarrow> windows_hello_local_state \<Rightarrow> bytes \<Rightarrow> bytes \<Rightarrow> u64 \<Rightarrow> request_registration \<Rightarrow> instant
       \<Rightarrow> ('d, 'e, 'p, 'i, execution_outcome) work" where
  "hello_unlock R W me parent_window authenticated_process_id local_state credential_id prf_salt
       request_epoch registration deadline =
     thread_try (windows_hello_operation_id R) (\<lambda>operation_id.
     thread_try (begin_hello_unlock me request_epoch registration deadline) (\<lambda>x. case x of
       Inr outcome \<Rightarrow> Return (Ok outcome)
     | Inl start_epoch \<Rightarrow>
         settled (run_windows_hello_ceremony R (fst W) operation_id registration deadline
           (hp_evaluate (fst W) parent_window authenticated_process_id operation_id credential_id
             prf_salt)) (\<lambda>r. case r of
           Err error \<Rightarrow> locked_again (map_windows_hello_provider_error error)
         | Panic \<Rightarrow> Return Panic
         | Ok prf_output \<Rightarrow>
             thread_then (windows_hello_terminal_abort registration deadline) (\<lambda>x. case x of
               Some outcome \<Rightarrow> locked_again outcome
             | None \<Rightarrow>
             thread_then (any_of [\<lambda>s. rt_epoch s \<noteq> start_epoch, \<lambda>s. agent_state_of s \<noteq> St_Unlocking])
               (\<lambda>stale.
             if stale then locked_again outcome_cancelled else
             thread_try (hello_unlock_section R me local_state credential_id prf_output) (\<lambda>x. case x of
               Inr outcome \<Rightarrow> Return (Ok outcome)
             | Inl attempt \<Rightarrow>
                 thread_then (windows_hello_terminal_abort registration deadline) (\<lambda>x. case x of
                   Some outcome \<Rightarrow> relock me outcome
                 | None \<Rightarrow> settle_hello_unlock R me registration deadline attempt)))))))"

definition unlock_windows_hello ::
    "('d, 'e, 'p, 'i, 't, 'h, 'g) agent_runtime \<Rightarrow> 'p windows_hello option \<Rightarrow> nat \<Rightarrow> u64 \<Rightarrow> u32 \<Rightarrow> u64
       \<Rightarrow> request_registration \<Rightarrow> instant \<Rightarrow> ('d, 'e, 'p, 'i, execution_outcome) work" where
  "unlock_windows_hello R hello me parent_window authenticated_process_id request_epoch registration
       deadline =
     (case hello of
        None \<Rightarrow> Return (Ok outcome_failed)
      | Some W \<Rightarrow>
          thread_then (observe agent_state_of) (\<lambda>state.
          if state = St_Unlocking then Return (Ok outcome_busy) else
          thread_then (observe agent_state_of) (\<lambda>state.
          if state \<noteq> St_Locked then Return (Ok (outcome_failure Code_Conflict Retry_Never)) else
          with_flag Hello_Active (with_mutex me Hello_Gate
            (settled (load_windows_hello_state R (snd W) me) (\<lambda>r. case r of
               Ok local_state \<Rightarrow>
                 thread_try (retry_persisted_windows_hello_retirement R W me local_state)
                   (\<lambda>(local_state, retired).
                 if \<not> retired then Return (Ok retryable_failure) else
                 case (credential_id_of local_state, prf_salt_of local_state) of
                   (Some credential_id, Some prf_salt) \<Rightarrow>
                     hello_unlock R W me parent_window authenticated_process_id local_state credential_id
                       prf_salt request_epoch registration deadline
                 | _ \<Rightarrow> Return (Ok outcome_failed))
             | Err State_NotFound \<Rightarrow>
                 thread_try (ensure_absent_windows_hello_state R (snd W) me) (\<lambda>absent.
                 Return (Ok (if absent then outcome_failed else retryable_failure)))
             | _ \<Rightarrow> Return (Ok outcome_failed)))))))"

section \<open>Removing\<close>

definition bound_to_vault :: "nat \<Rightarrow> bytes \<times> u32 \<Rightarrow> ('d, 'e, 'p, 'i, bool) work" where
  "bound_to_vault me binding = with_mutex me Vault_Mutex (observe (\<lambda>s.
     Ok (authenticated_vault_binding (fst (rt_vault s)) = Some binding)))"

text \<open>The removal itself, under the commit gate; the vault is asked once more while the gate is held.\<close>

definition remove_enrollment ::
    "('d, 'e, 'p, 'i, 't, 'h, 'g) agent_runtime \<Rightarrow> 'p windows_hello \<Rightarrow> nat \<Rightarrow> bytes \<times> u32 \<Rightarrow> bytes \<Rightarrow> u64
       \<Rightarrow> request_registration \<Rightarrow> instant \<Rightarrow> ('d, 'e, 'p, 'i, execution_outcome) work" where
  "remove_enrollment R W me binding credential_id request_epoch registration deadline =
     with_mutex me Commit_Gate
     (unless (pre_secret_operation request_epoch registration deadline)
     (thread_try (bound_to_vault me binding) (\<lambda>bound.
      if \<not> bound then Return (Ok outcome_failed) else
      settled (platform_call (hp_remove (fst W) credential_id)) (\<lambda>r.
      if r \<noteq> Ok () then Return (Ok retryable_failure) else
      settled (remove_windows_hello_state R (snd W) me) (\<lambda>r.
      if r = Ok () \<or> r = Err State_NotFound then Return (enrolled_reply (ar_libs R))
      else Return (Ok retryable_failure))))))"

definition remove_windows_hello ::
    "('d, 'e, 'p, 'i, 't, 'h, 'g) agent_runtime \<Rightarrow> 'p windows_hello option \<Rightarrow> nat \<Rightarrow> u64
       \<Rightarrow> request_registration \<Rightarrow> instant \<Rightarrow> ('d, 'e, 'p, 'i, execution_outcome) work" where
  "remove_windows_hello R hello me request_epoch registration deadline =
     (case hello of
        None \<Rightarrow> Return (Ok outcome_failed)
      | Some W \<Rightarrow>
          unless (pre_secret_operation request_epoch registration deadline)
          (with_flag Hello_Active (with_mutex me Hello_Gate
            (settled (load_windows_hello_state R (snd W) me) (\<lambda>r. case r of
               Ok local_state \<Rightarrow>
                 thread_try (retry_persisted_windows_hello_retirement R W me local_state)
                   (\<lambda>(local_state, retired).
                 if \<not> retired then Return (Ok retryable_failure) else
                 case vault_binding local_state of
                   None \<Rightarrow> Return (empty_reply (ar_libs R))
                 | Some binding \<Rightarrow>
                     (case credential_id_of local_state of
                        None \<Rightarrow> Return (Err Dispatch_Internal)
                      | Some credential_id \<Rightarrow>
                          thread_try (bound_to_vault me binding) (\<lambda>bound.
                          if \<not> bound then Return (Ok outcome_failed) else
                          unless (pre_secret_operation request_epoch registration deadline)
                            (remove_enrollment R W me binding credential_id request_epoch registration
                               deadline))))
             | Err State_NotFound \<Rightarrow>
                 thread_try (ensure_absent_windows_hello_state R (snd W) me) (\<lambda>absent.
                 if absent then Return (empty_reply (ar_libs R)) else Return (Ok retryable_failure))
             | _ \<Rightarrow> Return (Ok outcome_failed))))))"

section \<open>They give back what they take\<close>

lemma keeps_settled [keeps_rules]:
  "keeps me H p \<Longrightarrow> (\<And>r. keeps me H (k r)) \<Longrightarrow> keeps me H (settled p k)"
  unfolding settled_def by (intro keeps_rules)

lemma keeps_bound_access [keeps_rules]:
  "Owned_Mutex \<notin> H \<Longrightarrow> keeps me H (bound_access R T me access unbound)"
  unfolding bound_access_def bind_hello_call_def
  by (intro keeps_rules keeps_quiet) (simp_all add: quiet_def split: prod.split)

lemma keeps_repository [keeps_rules]:
  assumes "Owned_Mutex \<notin> H"
  shows "keeps me H (load_windows_hello_state R T me)" "keeps me H (save_windows_hello_state R T me st)"
    "keeps me H (remove_windows_hello_state R T me)" "keeps me H (save_was R T me st)"
    "keeps me H (ensure_absent_windows_hello_state R T me)"
    "keeps me H (persist_windows_hello_cleanup R T me previous i)"
  unfolding load_windows_hello_state_def save_windows_hello_state_def remove_windows_hello_state_def
    save_was_def ensure_absent_windows_hello_state_def persist_windows_hello_cleanup_def
  by (intro keeps_rules assms)+

lemma keeps_case_bool [keeps_rules]:
  "keeps me H p \<Longrightarrow> keeps me H q \<Longrightarrow> keeps me H (case b of True \<Rightarrow> p | False \<Rightarrow> q)"
  by (cases b) simp_all

lemma keeps_retry_retirement [keeps_rules]:
  "Owned_Mutex \<notin> H \<Longrightarrow> keeps me H (retry_persisted_windows_hello_retirement R W me st)"
  unfolding retry_persisted_windows_hello_retirement_def by (cases W) (simp, intro keeps_rules; simp)

lemma keeps_remove_credential_or [keeps_rules]:
  "Owned_Mutex \<notin> H \<Longrightarrow> keeps me H (remove_windows_hello_credential_or R W me previous i outcome)"
  unfolding remove_windows_hello_credential_or_def by (cases W) (simp, intro keeps_rules; simp)

lemma keeps_rollback_enrollment [keeps_rules]:
  "Owned_Mutex \<notin> H \<Longrightarrow> keeps me H (rollback_windows_hello_enrollment R W me previous replacement)"
  unfolding rollback_windows_hello_enrollment_def by (intro keeps_rules; simp)

lemma keeps_undo_or_retry [keeps_rules]:
  "Owned_Mutex \<notin> H \<Longrightarrow> keeps me H (undo_or_retry R W me previous st)"
  unfolding undo_or_retry_def by (intro keeps_rules; simp)

lemma keeps_retire_replaced [keeps_rules]:
  "Owned_Mutex \<notin> H \<Longrightarrow> keeps me H (retire_replaced R W me previous st)"
  unfolding retire_replaced_def by (intro keeps_rules; simp)

lemma keeps_operation_id [keeps_rules]: "keeps me H (windows_hello_operation_id R)"
  unfolding windows_hello_operation_id_def by (intro keeps_rules)

lemma keeps_terminal_abort [keeps_rules]: "keeps me H (windows_hello_terminal_abort r d)"
  unfolding windows_hello_terminal_abort_def by (intro keeps_rules)

lemma keeps_watch_ceremony [keeps_rules]: "keeps me H (watch_ceremony P i r d n)"
  by (induction n) (simp_all add: keeps_rules)

lemma keeps_ceremony [keeps_rules]: "keeps me H (run_windows_hello_ceremony R P i r d ceremony)"
  unfolding run_windows_hello_ceremony_def by (intro keeps_rules)

lemma keeps_commit_enrollment [keeps_rules]:
  "Commit_Gate \<notin> H \<Longrightarrow> Owned_Mutex \<notin> H \<Longrightarrow> keeps me H (commit_enrollment R W me previous st e r d)"
  unfolding commit_enrollment_def by (intro keeps_rules; simp)

lemma keeps_protector_section [keeps_rules]:
  "Vault_Mutex \<notin> H \<Longrightarrow> keeps me H (protector_section R me permit binding e key enrollment)"
  unfolding protector_section_def
  by (intro keeps_rules keeps_quiet) (simp_all add: quiet_def split: prod.split)

lemma keeps_draw_installation_key [keeps_rules]: "keeps me H (draw_installation_key L)"
  unfolding draw_installation_key_def by (rule keeps_quiet) (simp add: quiet_def split: prod.split)

lemma keeps_case_enroll_exit [keeps_rules]:
  "(\<And>x. keeps me H (p x)) \<Longrightarrow> (\<And>x. keeps me H (q x))
     \<Longrightarrow> keeps me H (case v of Enrolled x \<Rightarrow> p x | Discard x \<Rightarrow> q x)"
  by (cases v) simp_all

lemma keeps_finish_enrollment [keeps_rules]:
  "Commit_Gate \<notin> H \<Longrightarrow> Vault_Mutex \<notin> H \<Longrightarrow> Owned_Mutex \<notin> H
     \<Longrightarrow> keeps me H (finish_enrollment R W me permit binding previous enrollment e r d)"
  unfolding finish_enrollment_def Let_def by (intro keeps_rules; simp)

lemma keeps_case_provider_error [keeps_rules]:
  "keeps me H p1 \<Longrightarrow> keeps me H p2 \<Longrightarrow> keeps me H p3 \<Longrightarrow> keeps me H p4 \<Longrightarrow> keeps me H p5
     \<Longrightarrow> (\<And>x. keeps me H (p6 x)) \<Longrightarrow> keeps me H (case_windows_hello_provider_error p1 p2 p3 p4 p5 p6 v)"
  by (cases v) simp_all

lemma keeps_case_state_error [keeps_rules]:
  "keeps me H p1 \<Longrightarrow> keeps me H p2 \<Longrightarrow> keeps me H p3 \<Longrightarrow> keeps me H p4
     \<Longrightarrow> keeps me H (case_windows_hello_state_error p1 p2 p3 p4 v)"
  by (cases v) simp_all

lemma keeps_enroll_ceremony [keeps_rules]:
  "Commit_Gate \<notin> H \<Longrightarrow> Vault_Mutex \<notin> H \<Longrightarrow> Owned_Mutex \<notin> H
     \<Longrightarrow> keeps me H (enroll_ceremony R W me window pid permit binding previous e r d)"
  unfolding enroll_ceremony_def by (intro keeps_rules; simp)

lemma keeps_enroll_over [keeps_rules]:
  "Commit_Gate \<notin> H \<Longrightarrow> Vault_Mutex \<notin> H \<Longrightarrow> Owned_Mutex \<notin> H
     \<Longrightarrow> keeps me H (enroll_over R W me window pid permit binding previous e r d)"
  unfolding enroll_over_def Let_def by (intro keeps_rules; simp)

lemma keeps_enroll_windows_hello [keeps_rules]:
  assumes "Commit_Gate \<notin> H" and "Vault_Mutex \<notin> H" and "Owned_Mutex \<notin> H" and "Hello_Gate \<notin> H"
  shows "keeps me H (enroll_windows_hello R hello me window pid e r d)"
  unfolding enroll_windows_hello_def Let_def by (intro keeps_rules; simp add: assms)

lemma keeps_settle_hello_unlock [keeps_rules]:
  "Commit_Gate \<notin> H \<Longrightarrow> Vault_Mutex \<notin> H \<Longrightarrow> Owned_Mutex \<notin> H
     \<Longrightarrow> keeps me H (settle_hello_unlock R me r d attempt)"
  unfolding settle_hello_unlock_def by (cases attempt) (simp, intro keeps_rules; simp)

lemma keeps_begin_hello_unlock [keeps_rules]:
  "Commit_Gate \<notin> H \<Longrightarrow> keeps me H (begin_hello_unlock me e r d)"
  unfolding begin_hello_unlock_def enter_unlocking_def by (intro keeps_rules; simp)

lemma keeps_locked_again [keeps_rules]: "keeps me H (locked_again outcome)"
  unfolding locked_again_def by (intro keeps_rules)

lemma keeps_hello_unlock_section [keeps_rules]:
  "Vault_Mutex \<notin> H \<Longrightarrow> keeps me H (hello_unlock_section R me st i secret)"
  unfolding hello_unlock_section_def by (intro keeps_rules; simp)

lemma keeps_hello_unlock [keeps_rules]:
  "Commit_Gate \<notin> H \<Longrightarrow> Vault_Mutex \<notin> H \<Longrightarrow> Owned_Mutex \<notin> H
     \<Longrightarrow> keeps me H (hello_unlock R W me window pid st i salt e r d)"
  unfolding hello_unlock_def by (intro keeps_rules; simp)

lemma keeps_unlock_windows_hello [keeps_rules]:
  assumes "Commit_Gate \<notin> H" and "Vault_Mutex \<notin> H" and "Owned_Mutex \<notin> H" and "Hello_Gate \<notin> H"
  shows "keeps me H (unlock_windows_hello R hello me window pid e r d)"
  unfolding unlock_windows_hello_def by (intro keeps_rules; simp add: assms)

lemma keeps_bound_to_vault [keeps_rules]: "Vault_Mutex \<notin> H \<Longrightarrow> keeps me H (bound_to_vault me binding)"
  unfolding bound_to_vault_def by (intro keeps_rules)

lemma keeps_remove_enrollment [keeps_rules]:
  "Commit_Gate \<notin> H \<Longrightarrow> Vault_Mutex \<notin> H \<Longrightarrow> Owned_Mutex \<notin> H
     \<Longrightarrow> keeps me H (remove_enrollment R W me binding i e r d)"
  unfolding remove_enrollment_def by (intro keeps_rules; simp)

lemma keeps_remove_windows_hello [keeps_rules]:
  assumes "Commit_Gate \<notin> H" and "Vault_Mutex \<notin> H" and "Owned_Mutex \<notin> H" and "Hello_Gate \<notin> H"
  shows "keeps me H (remove_windows_hello R hello me e r d)"
  unfolding remove_windows_hello_def by (intro keeps_rules; simp add: assms)

end
