(* ===== verification/Runtime_Dispatch.thy ===== *)
theory Runtime_Dispatch
  imports Runtime_Hello
begin

text \<open>
  The front of the runtime (runtime.rs: \<open>dispatch_with_admission\<close>, \<open>admit_request\<close>, \<open>execute\<close>,
  \<open>execute_idempotent\<close>, \<open>finish_dispatch\<close>, \<open>apply_cancel\<close>, \<open>disconnect\<close>, \<open>status_snapshot\<close>). A request is
  admitted under the commit gate, executed without it, and answered under it again. The transport is a
  parameter: it is told that a request was admitted and it writes a response.
\<close>

section \<open>Calls\<close>

record 'p transport =
  tr_on_admitted :: "'p \<Rightarrow> 'p"
  tr_write_response :: "response_envelope \<Rightarrow> 'p \<Rightarrow> 'p \<times> (unit, dispatch_error) result"

record dispatch_context =
  dc_connection :: bytes
  dc_permit :: request_permit
  dc_registration :: request_registration
  dc_deadline :: instant
  dc_correlation :: bytes

text \<open>A method of the connection with this identifier; it locks the connection's own state.\<close>

definition connection_call ::
    "bytes \<Rightarrow> (connection \<Rightarrow> connection \<times> 'a) \<Rightarrow> (('d, 'e, 'p, 'i) runtime, 'a) thread" where
  "connection_call c f = atomically (\<lambda>s. case f (rt_connections s c) of
     (cn, r) \<Rightarrow> (s\<lparr>rt_connections := (rt_connections s)(c := cn)\<rparr>, r))"

definition on_admitted :: "'p transport \<Rightarrow> (('d, 'e, 'p, 'i) runtime, unit) thread" where
  "on_admitted T = platform_call (\<lambda>p. (tr_on_admitted T p, ()))"

definition send_response ::
    "'p transport \<Rightarrow> bytes \<Rightarrow> request_permit option \<Rightarrow> bool \<Rightarrow> u64 option \<Rightarrow> response_envelope
       \<Rightarrow> ('d, 'e, 'p, 'i, unit) work" where
  "send_response T c permit committed generation response = atomically (\<lambda>s.
     case tr_write_response T response (rt_platform s) of (p, r) \<Rightarrow>
       (s\<lparr>rt_platform := p,
          rt_written := rt_written s @ [\<lparr>wr_connection_id = c, wr_permit = permit,
            wr_committed = committed, wr_browser_generation = generation, wr_response = response\<rparr>]\<rparr>,
        r))"

definition correlation_id :: "'e vault_libs \<Rightarrow> ('d, 'e, 'p, 'i, bytes) work" where
  "correlation_id L = thread_try (draw_bytes L 16) (\<lambda>bs.
     Return (if bs = zeros 16 then Err Dispatch_Internal else Ok bs))"

definition status_snapshot :: "nat \<Rightarrow> ('d, 'e, 'p, 'i, Protocol_Types.agent_state \<times> u64) work" where
  "status_snapshot me = with_mutex me Commit_Gate
     (thread_then (observe agent_state_of) (\<lambda>state.
      thread_then load_epoch (\<lambda>epoch. Return (Ok (state, epoch)))))"

definition cancel_request :: "bytes \<Rightarrow> u64 \<Rightarrow> ('d, 'e, 'p, 'i, bool) work" where
  "cancel_request connection_id request_id =
     coordinator_cancel \<lparr>rk_connection_id = connection_id, rk_request_id = request_id\<rparr>"

definition apply_cancel :: "nat \<Rightarrow> bytes \<Rightarrow> frame_header \<Rightarrow> ('d, 'e, 'p, 'i, unit) work" where
  "apply_cancel me c header = with_mutex me Commit_Gate
     (thread_try (connection_call c (\<lambda>cn. apsnd (map_err Dispatch_Connection) (Connection_cancel cn header)))
        (\<lambda>_.
      thread_try (cancel_request c (fh_request_id header)) (\<lambda>_. Return (Ok ()))))"

text \<open>A disconnected peer's creations go when they are confirmed and wait for their rollback when not.\<close>

definition retain_pending ::
    "bytes \<Rightarrow> (pending_passkey_creation_key, pending_passkey_creation) fmap
       \<Rightarrow> (pending_passkey_creation_key, pending_passkey_creation) fmap" where
  "retain_pending connection_id m =
     fmmap_keys (\<lambda>key pending. if pk_connection_id key \<noteq> connection_id then pending
        else pending\<lparr>pn_disconnected := True\<rparr>)
       (fmfilter (\<lambda>key. pk_connection_id key \<noteq> connection_id
          \<or> (case fmlookup m key of None \<Rightarrow> True | Some pending \<Rightarrow> \<not> pn_confirmed pending)) m)"

definition disconnect ::
    "('d, 'e, 'p, 'i, 't, 'h, 'g) agent_runtime \<Rightarrow> nat \<Rightarrow> bytes \<Rightarrow> ('d, 'e, 'p, 'i, unit) work" where
  "disconnect R me c =
     thread_try (with_mutex me Commit_Gate
       (thread_then (connection_call c (\<lambda>cn. (Connection_close cn, ()))) (\<lambda>_.
        thread_try (cancel_connection c) (\<lambda>_.
        thread_try (in_section Browser_Leases (\<lambda>s.
          (s\<lparr>rt_browser_leases := fmdrop c (rt_browser_leases s)\<rparr>, Ok ()))) (\<lambda>_.
        in_section Pending_Creations (\<lambda>s.
          (s\<lparr>rt_pending_passkey_creations := retain_pending c (rt_pending_passkey_creations s)\<rparr>,
           Ok ()))))))) (\<lambda>_.
     thread_try (rollback_disconnected_passkey_creations (ar_libs R) (ar_databases R) (ar_verifier R) me
       (ar_rounds R)) (\<lambda>_. Return (Ok ())))"

section \<open>Admission\<close>

text \<open>A rejected request is answered before the gate is released.\<close>

datatype request_admission = Admitted dispatch_context | Rejected "(unit, dispatch_error) result"

definition reject ::
    "'p transport \<Rightarrow> bytes \<Rightarrow> bytes \<Rightarrow> public_error_code \<Rightarrow> retry_category
       \<Rightarrow> ('d, 'e, 'p, 'i, request_admission) work" where
  "reject T c correlation error retry =
     result_try (from_protocol (ResponseEnvelope_failure error retry correlation)) (\<lambda>response.
     thread_then (on_admitted T) (\<lambda>_.
     thread_try (observe (\<lambda>s. bounded_response (rt_connections s c) response correlation)) (\<lambda>response.
     thread_then (send_response T c None False None response) (\<lambda>w.
     Return (if w = Panic then Panic else Ok (Rejected w))))))"

definition reject_late ::
    "'p transport \<Rightarrow> bytes \<Rightarrow> bytes \<Rightarrow> instant \<Rightarrow> ('d, 'e, 'p, 'i, request_admission) work" where
  "reject_late T c correlation deadline =
     thread_then (observe (\<lambda>s. rt_now s \<ge> deadline)) (\<lambda>late.
     let outcome = (if late then outcome_deadline else outcome_busy) in
     result_try (ok_or Dispatch_Internal (eo_error outcome)) (\<lambda>error.
     reject T c correlation error (eo_retry outcome)))"

definition admit_permit ::
    "'p transport \<Rightarrow> bytes \<Rightarrow> bytes \<Rightarrow> request_permit \<Rightarrow> instant
       \<Rightarrow> ('d, 'e, 'p, 'i, request_admission) work" where
  "admit_permit T c correlation permit deadline =
     thread_then (CounterPermit_acquire MAX_IN_FLIGHT_GLOBAL) (\<lambda>acquired.
     if \<not> acquired then
       thread_try (connection_call c (\<lambda>cn. apsnd (map_err Dispatch_Connection) (Connection_finish cn permit)))
         (\<lambda>_. reject_late T c correlation deadline)
     else
       thread_then (register_request \<lparr>rk_connection_id = c, rk_request_id = rp_request_id permit\<rparr>)
         (\<lambda>r. case r of
            Ok registration \<Rightarrow>
              thread_then (observe (\<lambda>s. Connection_is_cancelled (rt_connections s c) permit)) (\<lambda>cancelled.
              thread_then (if cancelled then set_cancelled registration else Return ()) (\<lambda>_.
              Return (Ok (Admitted \<lparr>dc_connection = c, dc_permit = permit,
                dc_registration = registration, dc_deadline = deadline, dc_correlation = correlation\<rparr>))))
          | Err error \<Rightarrow> thread_then CounterPermit_drop (\<lambda>_. Return (Err error))
          | Panic \<Rightarrow> thread_then CounterPermit_drop (\<lambda>_. Return Panic)))"

definition admit_request ::
    "'p transport \<Rightarrow> nat \<Rightarrow> bytes \<Rightarrow> frame_header \<Rightarrow> request_envelope \<Rightarrow> bytes
       \<Rightarrow> ('d, 'e, 'p, 'i, request_admission) work" where
  "admit_request T me c header envelope correlation =
     thread_then (observe rt_now) (\<lambda>admission_started.
     thread_then load_epoch (\<lambda>epoch.
     thread_then (connection_call c (\<lambda>cn. Connection_begin_request cn header envelope epoch)) (\<lambda>permit.
     with_mutex me Commit_Gate
     (case permit of
        Ok permit \<Rightarrow>
          result_try (request_deadline admission_started (rp_effective_timeout_ms permit)) (\<lambda>deadline.
          admit_permit T c correlation permit deadline)
      | Err Unauthorized \<Rightarrow> reject T c correlation Code_UnauthorizedOperation Retry_Never
      | Err (Busy effective_timeout_ms) \<Rightarrow>
          result_try (request_deadline admission_started effective_timeout_ms) (\<lambda>deadline.
          reject_late T c correlation deadline)
      | Err StaleEpoch \<Rightarrow> reject T c correlation Code_Locked Retry_AfterUnlock
      | Err MissingIdempotencyKey \<Rightarrow> reject T c correlation Code_InvalidRequest Retry_Never
      | Err (Connection_error error) \<Rightarrow> Return (Err (Dispatch_Connection error))
      | Panic \<Rightarrow> Return Panic))))"

section \<open>Execution\<close>

definition passkey_binding_failure ::
    "operation_request \<Rightarrow> dispatch_context \<Rightarrow> execution_outcome option" where
  "passkey_binding_failure operation context =
     (let request_id = rp_request_id (dc_permit context);
          valid_request_id = (case operation of
              Req_RollbackPasskeyCreation _ _ \<Rightarrow> request_id = 2 \<or> request_id = 3
            | Req_ConfirmPasskeyCreation _ _ \<Rightarrow> request_id = 2
            | _ \<Rightarrow> request_id = 1)
      in case OperationRequest_passkey_proof operation of
           Some proof \<Rightarrow>
             if \<not> valid_request_id \<or> pt_agent_challenge proof \<noteq> dc_connection context
             then Some (outcome_failure Code_InvalidRequest Retry_Never) else None
         | None \<Rightarrow> None)"

text \<open>\<open>idempotency_fingerprint_key\<close> and the mac are the runtime's; its input names the request exactly.\<close>

definition FINGERPRINT_LABEL :: bytes where
  "FINGERPRINT_LABEL = ascii ''Librarian idempotency request v2'' @ [0]"

definition fingerprint_message :: "operation_code \<Rightarrow> u64 \<Rightarrow> bytes \<Rightarrow> bytes" where
  "fingerprint_message operation unlock_epoch body =
     FINGERPRINT_LABEL @ be_encode 2 (unat (OperationCode_code operation))
       @ [if requires_unlocked_epoch operation then 1 else 0]
       @ (if requires_unlocked_epoch operation then be_encode 8 (unat unlock_epoch) else []) @ body"

definition request_fingerprint ::
    "('d, 'e, 'p, 'i, 't, 'h, 'g) agent_runtime \<Rightarrow> operation_code \<Rightarrow> u64 \<Rightarrow> bytes \<Rightarrow> bytes" where
  "request_fingerprint R operation unlock_epoch body =
     ar_hmac R (ar_fingerprint_key R) (fingerprint_message operation unlock_epoch body)"

definition execute ::
    "('d, 'e, 'p, 'i, 't, 'h, 'g) agent_runtime \<Rightarrow> 'p windows_hello option \<Rightarrow> nat \<Rightarrow> operation_request
       \<Rightarrow> u64 \<Rightarrow> bytes \<Rightarrow> u32 \<Rightarrow> request_registration \<Rightarrow> instant \<Rightarrow> ('d, 'e, 'p, 'i, execution_outcome) work" where
  "execute R hello me operation request_epoch connection_id authenticated_process_id registration deadline =
     (let L = ar_libs R; S = ar_databases R; V = ar_verifier R in
      thread_then (is_cancelled registration) (\<lambda>cancelled.
      if cancelled then Return (Ok outcome_cancelled) else
      thread_then (observe (\<lambda>s. rt_now s \<ge> deadline)) (\<lambda>late.
      if late then Return (Ok outcome_deadline) else
      case operation of
        Req_Status \<Rightarrow> Return (Ok (outcome_success []))
      | Req_ExactOriginMatches context \<Rightarrow>
          browser_fill L S me context None request_epoch registration deadline
      | Req_GetSelectedCredential context selection \<Rightarrow>
          browser_fill L S me context (Some selection) request_epoch registration deadline
      | Req_CreateVault master_password \<Rightarrow> create_vault R me master_password registration deadline
      | Req_UnlockMasterPassword master_password \<Rightarrow>
          unlock_vault_with_after_core R me master_password registration deadline
      | Req_Lock \<Rightarrow> lock_vault R me
      | Req_ListAccountSummaries offset limit \<Rightarrow>
          list_accounts L S me offset limit request_epoch registration deadline
      | Req_GetAccount i \<Rightarrow> get_account L S me i request_epoch registration deadline
      | Req_AddAccount f \<Rightarrow> add_account L S me f request_epoch registration deadline
      | Req_UpdateAccount i f \<Rightarrow> update_account L S me i f request_epoch registration deadline
      | Req_DeleteAccount i \<Rightarrow> delete_account L S me i request_epoch registration deadline
      | Req_EnrollWindowsHello parent_window \<Rightarrow>
          enroll_windows_hello R hello me parent_window authenticated_process_id request_epoch
            registration deadline
      | Req_UnlockWindowsHello parent_window \<Rightarrow>
          unlock_windows_hello R hello me parent_window authenticated_process_id request_epoch
            registration deadline
      | Req_RemoveWindowsHello \<Rightarrow> remove_windows_hello R hello me request_epoch registration deadline
      | Req_MakePasskey proof \<Rightarrow>
          make_passkey L S V me (ar_rounds R) proof connection_id authenticated_process_id request_epoch
            registration deadline
      | Req_GetPasskeyAssertion proof credential_id \<Rightarrow>
          get_passkey_assertion L S V me proof credential_id request_epoch registration deadline
      | Req_DeletePasskey credential_id \<Rightarrow>
          delete_passkey L S me credential_id request_epoch registration deadline
      | Req_ListPasskeysForAssertion proof \<Rightarrow>
          list_passkeys_for_assertion L S V me proof request_epoch registration deadline
      | Req_ListPasskeys \<Rightarrow> list_passkeys L S me request_epoch registration deadline
      | Req_ConfirmPasskeyCreation proof credential_id \<Rightarrow>
          confirm_passkey_creation L S V me proof credential_id connection_id authenticated_process_id
            request_epoch registration deadline
      | Req_RollbackPasskeyCreation proof credential_id \<Rightarrow>
          rollback_passkey_creation L S V me proof credential_id connection_id authenticated_process_id
            request_epoch registration deadline)))"

definition execute_decoded ::
    "('d, 'e, 'p, 'i, 't, 'h, 'g) agent_runtime \<Rightarrow> 'p windows_hello option \<Rightarrow> nat \<Rightarrow> operation_request
       \<Rightarrow> dispatch_context \<Rightarrow> ('d, 'e, 'p, 'i, execution_outcome) work" where
  "execute_decoded R hello me operation context =
     (case passkey_binding_failure operation context of
        Some rejection \<Rightarrow> Return (Ok rejection)
      | None \<Rightarrow>
          thread_then (observe (\<lambda>s. cn_authenticated_process_id (rt_connections s (dc_connection context))))
            (\<lambda>authenticated_process_id.
          execute R hello me operation (rp_unlock_epoch (dc_permit context)) (dc_connection context)
            authenticated_process_id (dc_registration context) (dc_deadline context)))"

definition drop_reservation :: "bytes \<Rightarrow> (('d, 'e, 'p, 'i) runtime, unit) thread" where
  "drop_reservation key = atomically (\<lambda>s.
     (if rt_poisoned s Idempotency then s
      else s\<lparr>rt_idempotency := reservation_drop key (rt_idempotency s)\<rparr>, ()))"

definition complete_reservation :: "bytes \<Rightarrow> cached_outcome option \<Rightarrow> ('d, 'e, 'p, 'i, unit) work" where
  "complete_reservation key cached = in_section Idempotency (\<lambda>s.
     case reservation_complete key cached (rt_idempotency s) of
       (i, r) \<Rightarrow> (s\<lparr>rt_idempotency := i\<rparr>, r))"

definition execute_idempotent ::
    "bytes \<Rightarrow> bytes \<Rightarrow> (execution_outcome option, dispatch_error) result
       \<Rightarrow> ('d, 'e, 'p, 'i, execution_outcome) work \<Rightarrow> ('d, 'e, 'p, 'i, execution_outcome) work" where
  "execute_idempotent key fingerprint validate_replay run =
     thread_try (in_section Idempotency (\<lambda>s.
       case idempotency_reserve key fingerprint (rt_idempotency s) of
         (i, admission) \<Rightarrow> (s\<lparr>rt_idempotency := i\<rparr>, Ok admission))) (\<lambda>admission.
     case admission of
       Refused outcome \<Rightarrow> Return (Ok outcome)
     | Replay replay \<Rightarrow>
         result_try validate_replay (\<lambda>x. Return (Ok (case x of Some rejection \<Rightarrow> rejection | None \<Rightarrow> replay)))
     | Reserved \<Rightarrow>
         thread_then run (\<lambda>r. case r of
           Ok outcome \<Rightarrow>
             thread_try (complete_reservation key (cached_outcome_of fingerprint outcome)) (\<lambda>_.
             Return (Ok outcome))
         | Err error \<Rightarrow> thread_then (drop_reservation key) (\<lambda>_. Return (Err error))
         | Panic \<Rightarrow> thread_then (drop_reservation key) (\<lambda>_. Return Panic)))"

section \<open>Answering\<close>

definition outcome_is_still_authorized ::
    "request_permit \<Rightarrow> execution_outcome \<Rightarrow> (('d, 'e, 'p, 'i) runtime, bool) thread" where
  "outcome_is_still_authorized permit outcome =
     (let operation = rp_operation permit in
      if operation \<in> {Op_Status, Op_Lock} then Return (eo_error outcome = None)
      else if operation \<in> {Op_CreateVault, Op_UnlockMasterPassword, Op_UnlockWindowsHello} then
        thread_then (any_of [\<lambda>s. rt_flags s Lock_Active, \<lambda>s. agent_state_of s \<noteq> St_Unlocked])
          (\<lambda>stale. Return (\<not> stale))
      else if requires_unlocked_epoch operation then
        thread_then (any_of [\<lambda>s. rt_flags s Lock_Active, \<lambda>s. agent_state_of s \<noteq> St_Unlocked,
          \<lambda>s. rt_epoch s \<noteq> rp_unlock_epoch permit]) (\<lambda>stale. Return (\<not> stale))
      else Return False)"

text \<open>What becomes of an outcome when its answer is due: before its commit point it can be taken back.\<close>

definition due_outcome ::
    "dispatch_context \<Rightarrow> request_completion \<Rightarrow> execution_outcome
       \<Rightarrow> (('d, 'e, 'p, 'i) runtime, execution_outcome) thread" where
  "due_outcome context completion outcome =
     (let operation = rp_operation (dc_permit context) in
      if eo_committed outcome then Return outcome
      else if completion = Completion_Cancelled then Return outcome_cancelled
      else if eo_error outcome = None \<or> eo_error outcome = Some Code_NotFound then
        thread_then (is_cancelled (dc_registration context)) (\<lambda>cancelled.
        if cancelled \<and> operation \<noteq> Op_Lock then Return outcome_cancelled else
        thread_then (observe (\<lambda>s. rt_now s \<ge> dc_deadline context)) (\<lambda>late.
        if late then Return outcome_deadline else
        thread_then (outcome_is_still_authorized (dc_permit context) outcome) (\<lambda>authorized.
        Return (if authorized \<or> eo_replayed outcome \<and> operation = Op_CreateVault then outcome
                else outcome_locked))))
      else Return outcome)"

definition browser_outcome ::
    "execution_outcome \<Rightarrow> (('d, 'e, 'p, 'i) runtime, execution_outcome) thread" where
  "browser_outcome outcome =
     thread_then (case eo_browser_deadline outcome of
         Some deadline \<Rightarrow> thread_then (observe (\<lambda>s. rt_now s \<ge> deadline)) (\<lambda>late.
           Return (if late then outcome_deadline else outcome))
       | None \<Rightarrow> Return outcome) (\<lambda>outcome.
     case eo_browser_generation outcome of
       None \<Rightarrow> Return outcome
     | Some generation \<Rightarrow>
         if generation = - 1 then Return (outcome_failure Code_Conflict Retry_Never) else
         thread_then (observe (\<lambda>s. generation \<noteq> rt_accounts_generation s)) (\<lambda>changed.
         Return (if changed then outcome_failure Code_Conflict Retry_Never else outcome)))"

definition retire_lease :: "dispatch_context \<Rightarrow> execution_outcome \<Rightarrow> ('d, 'e, 'p, 'i, unit) work" where
  "retire_lease context outcome =
     (if eo_error outcome \<noteq> None
         \<and> rp_operation (dc_permit context) \<in> {Op_ExactOriginMatches, Op_GetSelectedCredential}
      then in_section Browser_Leases (\<lambda>s.
        (if fmlookup (rt_browser_leases s) (dc_connection context) = None then s
         else s\<lparr>rt_browser_leases := fmupd (dc_connection context) None (rt_browser_leases s)\<rparr>, Ok ()))
      else Return (Ok ()))"

definition current_status ::
    "'e vault_libs \<Rightarrow> dispatch_context \<Rightarrow> execution_outcome \<Rightarrow> ('d, 'e, 'p, 'i, execution_outcome) work"
  where
  "current_status L context outcome =
     (if eo_error outcome = None \<and> rp_operation (dc_permit context) \<in> {Op_Status, Op_CreateVault}
      then thread_then (observe agent_state_of) (\<lambda>state.
        thread_then load_epoch (\<lambda>epoch.
        Return (map_ok outcome_success (from_protocol (encode_status (vl_cbor L) state epoch)))))
      else Return (Ok outcome))"

definition context_drop :: "dispatch_context \<Rightarrow> (('d, 'e, 'p, 'i) runtime, unit) thread" where
  "context_drop context = thread_then CounterPermit_drop (\<lambda>_. registration_drop (dc_registration context))"

text \<open>The part under the gate; its result is that of the write.\<close>

definition answer ::
    "'e vault_libs \<Rightarrow> 'p transport \<Rightarrow> dispatch_context \<Rightarrow> execution_outcome
       \<Rightarrow> ('d, 'e, 'p, 'i, (unit, dispatch_error) result) work" where
  "answer L T context outcome =
     thread_try (connection_call (dc_connection context) (\<lambda>cn.
       apsnd (map_err Dispatch_Connection) (Connection_finish cn (dc_permit context)))) (\<lambda>completion.
     thread_then (due_outcome context completion outcome) (\<lambda>outcome.
     thread_then (browser_outcome outcome) (\<lambda>outcome.
     thread_try (retire_lease context outcome) (\<lambda>_.
     thread_try (current_status L context outcome) (\<lambda>outcome.
     result_try (into_response outcome (dc_correlation context)) (\<lambda>response.
     thread_try (observe (\<lambda>s. bounded_response (rt_connections s (dc_connection context)) response
       (dc_correlation context))) (\<lambda>response.
     thread_then (send_response T (dc_connection context) (Some (dc_permit context))
       (eo_committed outcome) (eo_browser_generation outcome) response) (\<lambda>w.
     if w = Panic then Return Panic else
     thread_then (context_drop context) (\<lambda>_. Return (Ok w))))))))))"

definition finish_dispatch ::
    "'e vault_libs \<Rightarrow> 'p transport \<Rightarrow> nat \<Rightarrow> dispatch_context \<Rightarrow> execution_outcome
       \<Rightarrow> ('d, 'e, 'p, 'i, unit) work" where
  "finish_dispatch L T me context outcome =
     thread_then (with_mutex me Commit_Gate (answer L T context outcome)) (\<lambda>r.
     thread_then (if eo_holds_lock_transition outcome then FlagPermit_drop Lock_Active else Return ()) (\<lambda>_.
     case r of
       Ok w \<Rightarrow> Return w
     | Err error \<Rightarrow> thread_then (context_drop context) (\<lambda>_. Return (Err error))
     | Panic \<Rightarrow> thread_then (context_drop context) (\<lambda>_. Return Panic)))"

text \<open>What an admitted request runs.\<close>

definition run_admitted ::
    "('d, 'e, 'p, 'i, 't, 'h, 'g) agent_runtime \<Rightarrow> 'p windows_hello option \<Rightarrow> nat \<Rightarrow> request_envelope
       \<Rightarrow> dispatch_context \<Rightarrow> ('d, 'e, 'p, 'i, execution_outcome) work" where
  "run_admitted R hello me envelope context =
     (let decoded = OperationRequest_decode (vl_cbor (ar_libs R)) (rq_operation envelope) (rq_body envelope);
          run = (case decoded of
              Ok operation \<Rightarrow> execute_decoded R hello me operation context
            | Err error \<Rightarrow> Return (Ok (map_operation_decode_error error))
            | Panic \<Rightarrow> Return Panic)
      in if requires_idempotency_key (rp_operation (dc_permit context)) then
           result_try (ok_or Dispatch_Internal (rq_idempotency_key envelope)) (\<lambda>key.
           execute_idempotent key
             (request_fingerprint R (rq_operation envelope) (rp_unlock_epoch (dc_permit context))
               (rq_body envelope))
             (case decoded of
                Ok operation \<Rightarrow> Ok (passkey_binding_failure operation context)
              | Err _ \<Rightarrow> Ok None
              | Panic \<Rightarrow> Panic) run)
         else run)"

definition dispatch_with_admission ::
    "('d, 'e, 'p, 'i, 't, 'h, 'g) agent_runtime \<Rightarrow> 'p windows_hello option \<Rightarrow> 'p transport \<Rightarrow> nat \<Rightarrow> bytes
       \<Rightarrow> frame_header \<Rightarrow> request_envelope \<Rightarrow> ('d, 'e, 'p, 'i, unit) work" where
  "dispatch_with_admission R hello T me c header envelope =
     thread_try (correlation_id (ar_libs R)) (\<lambda>correlation.
     thread_try (admit_request T me c header envelope correlation) (\<lambda>admission. case admission of
       Rejected w \<Rightarrow> Return w
     | Admitted context \<Rightarrow>
         thread_then (on_admitted T) (\<lambda>_.
         thread_then (run_admitted R hello me envelope context) (\<lambda>r. case r of
           Ok outcome \<Rightarrow> finish_dispatch (ar_libs R) T me context outcome
         | Err error \<Rightarrow> thread_then (context_drop context) (\<lambda>_. Return (Err error))
         | Panic \<Rightarrow> thread_then (context_drop context) (\<lambda>_. Return Panic)))))"

text \<open>The drop of the runtime itself, when no thread uses it any more.\<close>

definition AgentRuntime_drop :: "('d, 'e, 'p, 'i) runtime \<Rightarrow> ('d, 'e, 'p, 'i) runtime" where
  "AgentRuntime_drop s = (if rt_poisoned s Vault_Mutex then s
     else s\<lparr>rt_vault := apfst lock_agent (rt_vault s)\<rparr>)"

section \<open>They give back what they take\<close>

lemma keeps_connection_call [keeps_rules]: "keeps me H (connection_call c f)"
  unfolding connection_call_def by (rule keeps_quiet) (simp add: quiet_def split: prod.split)

lemma keeps_on_admitted [keeps_rules]: "keeps me H (on_admitted T)"
  unfolding on_admitted_def by (intro keeps_rules)

lemma keeps_correlation_id [keeps_rules]: "keeps me H (correlation_id L)"
  unfolding correlation_id_def by (intro keeps_rules)

lemma keeps_status_snapshot [keeps_rules]: "Commit_Gate \<notin> H \<Longrightarrow> keeps me H (status_snapshot me)"
  unfolding status_snapshot_def by (intro keeps_rules; simp)

lemma keeps_cancellation [keeps_rules]:
  "keeps me H (coordinator_cancel key)" "keeps me H (cancel_connection c)" "keeps me H (set_cancelled r)"
  unfolding coordinator_cancel_def cancel_connection_def set_cancelled_def cancel_cells_def
  by (intro keeps_in_section keeps_quiet; simp add: quiet_def split: option.split)+

lemma keeps_apply_cancel [keeps_rules]: "Commit_Gate \<notin> H \<Longrightarrow> keeps me H (apply_cancel me c header)"
  unfolding apply_cancel_def cancel_request_def by (intro keeps_rules; simp)

lemma keeps_leases [keeps_rules]:
  "keeps me H (in_section Browser_Leases (\<lambda>s. (s\<lparr>rt_browser_leases := f s\<rparr>, Ok ())))"
  "keeps me H (in_section Pending_Creations (\<lambda>s. (s\<lparr>rt_pending_passkey_creations := g s\<rparr>, Ok ())))"
  by (rule keeps_in_section, simp add: quiet_def)+

lemma keeps_disconnect [keeps_rules]:
  "Commit_Gate \<notin> H \<Longrightarrow> Vault_Mutex \<notin> H \<Longrightarrow> Cleanup_Gate \<notin> H \<Longrightarrow> keeps me H (disconnect R me c)"
  unfolding disconnect_def by (intro keeps_rules; simp)

lemma keeps_counter [keeps_rules]:
  "keeps me H (CounterPermit_acquire n)" "keeps me H CounterPermit_drop"
  unfolding CounterPermit_acquire_def CounterPermit_drop_def by (rule keeps_quiet, simp add: quiet_def)+

lemma keeps_registration [keeps_rules]:
  "keeps me H (register_request key)" "keeps me H (registration_drop r)"
  unfolding register_request_def registration_drop_def Let_def
  by (intro keeps_in_section keeps_quiet; simp add: quiet_def)+

lemma keeps_context_drop [keeps_rules]: "keeps me H (context_drop context)"
  unfolding context_drop_def by (intro keeps_rules)

lemma keeps_result_known:
  "(\<And>x. r = Ok x \<Longrightarrow> keeps me H (k x)) \<Longrightarrow> keeps me H (result_try r k)"
  unfolding result_try_def by (cases r) (simp_all add: keeps_Return)

lemma triple_try_observe:
  assumes "rely_stable me P" and "\<And>s x. f s = Ok x \<Longrightarrow> triple me P (k x) Q"
    and "\<And>s r. P s \<Longrightarrow> (\<And>x. r \<noteq> Ok x) \<Longrightarrow> Q r s"
  shows "triple me P (thread_try (observe f) k) Q"
proof -
  have "triple me P (observe f) (\<lambda>r s. P s \<and> (\<exists>s. f s = r))"
    by (rule triple_observe) (use assms(1) in \<open>auto simp: rely_stable_def\<close>)
  moreover have "triple me (\<lambda>s. P s \<and> (\<exists>s. f s = r))
      (case r of Ok x \<Rightarrow> k x | Err e \<Rightarrow> Return (Err e) | Panic \<Rightarrow> Return Panic) Q" for r
    by (rule triple_known) (use assms in \<open>auto split: result.split intro: triple_Return\<close>)
  ultimately show ?thesis unfolding thread_try_def by (rule triple_then)
qed

lemma keeps_try_observe:
  "(\<And>s x. f s = Ok x \<Longrightarrow> keeps me H (k x)) \<Longrightarrow> keeps me H (thread_try (observe f) k)"
  unfolding keeps_def by (rule triple_try_observe) (simp_all add: triple_def)

lemma triple_write:
  assumes "rely_stable me P"
    and "\<And>s. P s \<Longrightarrow> owns me H s \<and> discloses_in_epoch s \<lparr>wr_connection_id = c, wr_permit = permit,
           wr_committed = committed, wr_browser_generation = g, wr_response = response\<rparr>"
  shows "triple me P (send_response T c permit committed g response) (\<lambda>_. owns me H)"
  unfolding send_response_def
  by (rule triple_atomically [OF assms(1)])
    (use assms(2) in \<open>auto simp: guar_def owns_def split: prod.split\<close>)

lemma failure_response: "ResponseEnvelope_failure error retry correlation = Ok response \<Longrightarrow> rs_error response = Some error"
  by (auto simp: ResponseEnvelope_failure_def ResponseEnvelope_new_def split: if_splits)

lemma bounded_error:
  "bounded_response cn response correlation = Ok response'
     \<Longrightarrow> rs_error response' = None \<Longrightarrow> rs_error response = None"
  by (auto simp: bounded_response_def from_protocol_def and_then_Ok map_err_Ok dest: failure_response
      split: if_splits)

lemma keeps_write_failure:
  "rs_error response \<noteq> None \<Longrightarrow> keeps me H (send_response T c permit committed g response)"
  unfolding keeps_def by (rule triple_write) (auto simp: discloses_in_epoch_def)

lemma keeps_reject [keeps_rules]: "keeps me H (reject T c correlation error retry)"
  unfolding reject_def
proof (rule keeps_result_known, intro keeps_then keeps_try_observe keeps_rules keeps_write_failure)
  fix response s response'
  assume "from_protocol (ResponseEnvelope_failure error retry correlation) = Ok response"
    and "bounded_response (rt_connections s c) response correlation = Ok response'"
  then show "rs_error response' \<noteq> None"
    using bounded_error failure_response by (fastforce simp: from_protocol_def map_err_Ok)
qed

lemma keeps_case_begin_error [keeps_rules]:
  "(\<And>x. keeps me H (p1 x)) \<Longrightarrow> keeps me H p2 \<Longrightarrow> (\<And>x. keeps me H (p3 x)) \<Longrightarrow> keeps me H p4 \<Longrightarrow> keeps me H p5
     \<Longrightarrow> keeps me H (case_begin_request_error p1 p2 p3 p4 p5 v)"
  by (cases v) simp_all

lemma keeps_admit_request [keeps_rules]:
  "Commit_Gate \<notin> H \<Longrightarrow> keeps me H (admit_request T me c header envelope correlation)"
  unfolding admit_request_def admit_permit_def reject_late_def Let_def by (intro keeps_rules; simp)

lemma keeps_execute [keeps_rules]:
  assumes "Commit_Gate \<notin> H" and "Vault_Mutex \<notin> H" and "Owned_Mutex \<notin> H" and "Creation_Gate \<notin> H"
    and "Hello_Gate \<notin> H" and "Cleanup_Gate \<notin> H"
  shows "keeps me H (execute R hello me operation e c pid r d)"
  unfolding execute_def Let_def
  by (intro keeps_then keeps_if keeps_Return keeps_observe keeps_is_cancelled, cases operation)
    (simp_all add: assms keeps_Return keeps_browser_fill keeps_create_vault keeps_unlock_vault keeps_lock_vault
      keeps_account_handlers keeps_enroll_windows_hello keeps_unlock_windows_hello
      keeps_remove_windows_hello keeps_passkey_handlers)

lemma inv_complete_any: "idempotency_inv st \<Longrightarrow> reservation_complete key cached st = (st', r) \<Longrightarrow> idempotency_inv st'"
  using inv_complete [of st key cached] inv_drop [of st key]
  by (cases "key |\<in>| is_in_flight st") (auto simp: reservation_complete_def)

lemma keeps_reservations [keeps_rules]:
  "keeps me H (in_section Idempotency (\<lambda>s. case idempotency_reserve key fp (rt_idempotency s) of
     (i, admission) \<Rightarrow> (s\<lparr>rt_idempotency := i\<rparr>, Ok admission)))"
  "keeps me H (complete_reservation key cached)" "keeps me H (drop_reservation key)"
  unfolding complete_reservation_def drop_reservation_def
  by (intro keeps_in_section keeps_quiet; auto simp: quiet_def inv_drop
      dest: inv_reserve inv_complete_any split: prod.split)+

lemma keeps_case_idempotency [keeps_rules]:
  "keeps me H p \<Longrightarrow> (\<And>x. keeps me H (q x)) \<Longrightarrow> (\<And>x. keeps me H (r x))
     \<Longrightarrow> keeps me H (case v of Reserved \<Rightarrow> p | Replay x \<Rightarrow> q x | Refused x \<Rightarrow> r x)"
  by (cases v) simp_all

lemma keeps_execute_idempotent [keeps_rules]:
  "keeps me H run \<Longrightarrow> keeps me H (execute_idempotent key fp validate run)"
  unfolding execute_idempotent_def by (intro keeps_rules)

lemma keeps_run_admitted [keeps_rules]:
  assumes "Commit_Gate \<notin> H" and "Vault_Mutex \<notin> H" and "Owned_Mutex \<notin> H" and "Creation_Gate \<notin> H"
    and "Hello_Gate \<notin> H" and "Cleanup_Gate \<notin> H"
  shows "keeps me H (run_admitted R hello me envelope context)"
  unfolding run_admitted_def execute_decoded_def Let_def
  by (intro keeps_rules; simp add: assms)

section \<open>Answers\<close>

text \<open>
  What holds of an outcome under the gate until it is written: the gate keeps the epoch, the absence of
  a lock transition and the generation of the accounts.
\<close>

definition answerable :: "request_permit \<Rightarrow> execution_outcome \<Rightarrow> ('d, 'e, 'p, 'i) runtime \<Rightarrow> bool" where
  "answerable permit outcome s \<longleftrightarrow>
     eo_error outcome = None \<and> \<not> eo_committed outcome \<and> requires_unlocked_epoch (rp_operation permit)
       \<longrightarrow> rt_epoch s = rp_unlock_epoch permit \<and> \<not> rt_flags s Lock_Active"

definition current_generation :: "execution_outcome \<Rightarrow> ('d, 'e, 'p, 'i) runtime \<Rightarrow> bool" where
  "current_generation outcome s \<longleftrightarrow>
     (case eo_browser_generation outcome of None \<Rightarrow> True | Some g \<Rightarrow> g = rt_accounts_generation s)"

lemma gated_stable:
  fixes P :: "('d, 'e, 'p, 'i) runtime \<Rightarrow> bool"
  assumes "Commit_Gate \<in> H"
    and "\<And>s s'. P s \<Longrightarrow> rt_epoch s' = rt_epoch s \<Longrightarrow> rt_accounts_generation s' = rt_accounts_generation s
           \<Longrightarrow> (rt_flags s' Lock_Active \<longrightarrow> rt_flags s Lock_Active) \<Longrightarrow> P s'"
  shows "rely_stable me (\<lambda>s. owns me H s \<and> P s)"
  unfolding rely_stable_def
proof (intro allI impI conjI; elim conjE)
  fix s s' :: "('d, 'e, 'p, 'i) runtime" assume s: "rely me s s'" "owns me H s" "P s"
  then show "owns me H s'" using stable_owns unfolding rely_stable_def by blast
  have "rt_owner s Commit_Gate = Some me" using s(2) assms(1) by (simp add: owns_def)
  then show "P s'" using s(1,3) assms(2) [of s s'] by (simp add: rely_def)
qed

lemma stable_answerable [simp]:
  "Commit_Gate \<in> H \<Longrightarrow> rely_stable me (\<lambda>s. owns me H s \<and> answerable permit outcome s)"
  by (erule gated_stable) (auto simp: answerable_def)

lemma stable_current [simp]:
  "Commit_Gate \<in> H
     \<Longrightarrow> rely_stable me (\<lambda>s. owns me H s \<and> answerable permit outcome s \<and> current_generation outcome s)"
  by (erule gated_stable) (auto simp: answerable_def current_generation_def split: option.splits)

lemmas failure_defs = outcome_cancelled_def outcome_deadline_def outcome_locked_def outcome_failure_def

lemma failure_answerable [simp]:
  "answerable permit outcome_cancelled s" "answerable permit outcome_deadline s"
  "answerable permit outcome_locked s" "answerable permit (outcome_failure error retry) s"
  "current_generation outcome_cancelled s" "current_generation outcome_deadline s"
  "current_generation outcome_locked s" "current_generation (outcome_failure error retry) s"
  by (simp_all add: answerable_def current_generation_def failure_defs)

text \<open>A check that is not met leaves what was learned; the others are asked from there.\<close>

lemma triple_any_of_Cons:
  assumes "rely_stable me P" and "rely_stable me P'" and "\<And>s. P s \<Longrightarrow> \<not> c s \<Longrightarrow> P' s"
    and "triple me P' (any_of cs) Q" and "\<And>s. P s \<Longrightarrow> Q True s"
  shows "triple me P (any_of (c # cs)) Q"
proof -
  have "triple me P (observe c) (\<lambda>b s. P s \<and> (\<not> b \<longrightarrow> P' s))"
    by (rule triple_observe) (use assms(1-3) in \<open>auto simp: rely_stable_def\<close>)
  moreover have "triple me (\<lambda>s. P s \<and> (\<not> b \<longrightarrow> P' s)) (if b then Return True else any_of cs) Q" for b
    using assms by (cases b) (auto intro: triple_Return triple_pre [OF assms(4)])
  ultimately show ?thesis unfolding any_of_def by (simp add: triple_then)
qed

lemma triple_any_of_Nil: "rely_stable me P \<Longrightarrow> (\<And>s. P s \<Longrightarrow> Q False s) \<Longrightarrow> triple me P (any_of []) Q"
  unfolding any_of_def by (simp add: triple_Return)

definition in_permit_epoch :: "request_permit \<Rightarrow> ('d, 'e, 'p, 'i) runtime \<Rightarrow> bool" where
  "in_permit_epoch permit s \<longleftrightarrow> \<not> rt_flags s Lock_Active \<and> rt_epoch s = rp_unlock_epoch permit"

lemma triple_still_authorized:
  fixes permit :: request_permit and me :: nat
  defines "stale \<equiv> any_of [\<lambda>s. rt_flags s Lock_Active, \<lambda>s. agent_state_of s \<noteq> St_Unlocked,
      \<lambda>s. rt_epoch s \<noteq> rp_unlock_epoch permit] :: (('d, 'e, 'p, 'i) runtime, bool) thread"
    and "live \<equiv> in_permit_epoch permit :: ('d, 'e, 'p, 'i) runtime \<Rightarrow> bool"
  assumes "Commit_Gate \<in> H"
  shows "triple me (owns me H) (outcome_is_still_authorized permit outcome)
    (\<lambda>b s. owns me H s \<and> (b \<and> requires_unlocked_epoch (rp_operation permit) \<longrightarrow> live s))"
proof (cases "requires_unlocked_epoch (rp_operation permit)")
  case False
  have "keeps me H (outcome_is_still_authorized permit outcome :: (('d, 'e, 'p, 'i) runtime, bool) thread)"
    unfolding outcome_is_still_authorized_def Let_def by (intro keeps_rules)
  with False show ?thesis by (simp add: keeps_def)
next
  case True
  have stable: "rely_stable me (\<lambda>s :: ('d, 'e, 'p, 'i) runtime. owns me H s \<and> \<not> rt_flags s Lock_Active)"
    "rely_stable me (\<lambda>s. owns me H s \<and> live s)" "rely_stable me (\<lambda>s. owns me H s \<and> (b \<longrightarrow> live s))" for b
    unfolding live_def by (rule gated_stable [OF assms(3)]; simp add: in_permit_epoch_def; blast)+
  have asked: "triple me (owns me H) stale (\<lambda>b s. owns me H s \<and> (\<not> b \<longrightarrow> live s))"
    unfolding stale_def
    by (rule triple_any_of_Cons [OF stable_owns stable(1)], blast, rule triple_any_of_Cons [OF stable(1) stable(1)],
        blast, rule triple_any_of_Cons [OF stable(1) stable(2)], simp add: live_def in_permit_epoch_def,
        rule triple_any_of_Nil [OF stable(2)]) simp_all
  from True have "outcome_is_still_authorized permit outcome = thread_then stale (\<lambda>b. Return (\<not> b))"
    by (auto simp: stale_def outcome_is_still_authorized_def Let_def requires_unlocked_epoch_def)
  then show ?thesis using True
    by (auto intro!: triple_then [OF asked] triple_Return stable(3))
qed

lemma triple_due_outcome:
  fixes ctx :: dispatch_context and me :: nat
  defines "good \<equiv> answerable (dc_permit ctx) :: execution_outcome \<Rightarrow> ('d, 'e, 'p, 'i) runtime \<Rightarrow> bool"
  assumes "Commit_Gate \<in> H"
  shows "triple me (owns me H) (due_outcome ctx completion outcome) (\<lambda>x s. owns me H s \<and> good x s)"
proof -
  let ?live = "in_permit_epoch (dc_permit ctx) :: ('d, 'e, 'p, 'i) runtime \<Rightarrow> bool"
  have final: "triple me (owns me H) (Return x) (\<lambda>x s. owns me H s \<and> good x s)" if "\<forall>s. good x s" for x
    using that by (auto intro: triple_Return)
  have due: "triple me (\<lambda>s. owns me H s \<and> (b \<and> requires_unlocked_epoch (rp_operation (dc_permit ctx))
        \<longrightarrow> ?live s))
      (Return (if b \<or> replayed \<and> rp_operation (dc_permit ctx) = Op_CreateVault then outcome else outcome_locked))
      (\<lambda>x s. owns me H s \<and> good x s)" for b replayed
    by (rule triple_Return, rule gated_stable [OF assms(2)])
      (auto simp: good_def in_permit_epoch_def answerable_def failure_defs requires_unlocked_epoch_def)
  have seen: "triple me (owns me H) (observe f) (\<lambda>_. owns me H)" for f :: "('d, 'e, 'p, 'i) runtime \<Rightarrow> bool"
    using keeps_observe [of me H f] by (simp add: keeps_def)
  show ?thesis
    unfolding due_outcome_def Let_def is_cancelled_def
    by (intro triple_if final triple_then [OF seen] triple_then [OF triple_still_authorized [OF assms(2)] due])
      (auto simp: good_def answerable_def failure_defs)
qed

lemma triple_browser_outcome:
  fixes permit :: request_permit and me :: nat
  defines "good \<equiv> answerable permit :: execution_outcome \<Rightarrow> ('d, 'e, 'p, 'i) runtime \<Rightarrow> bool"
  assumes "Commit_Gate \<in> H"
  shows "triple me (\<lambda>s. owns me H s \<and> good outcome s) (browser_outcome outcome)
    (\<lambda>x s. owns me H s \<and> good x s \<and> current_generation x s)"
proof -
  have stable: "rely_stable me (\<lambda>s. owns me H s \<and> good x s)" for x
    using stable_answerable [OF assms(2)] by (simp add: good_def)
  have failed: "good (outcome_failure error retry) s" "good outcome_deadline s" for error retry s
    by (simp_all add: good_def)
  have current: "eo_browser_generation x = None \<Longrightarrow> current_generation x s"
    "eo_browser_generation x = Some g \<Longrightarrow> current_generation x s \<longleftrightarrow> g = rt_accounts_generation s"
    for x g and s :: "('d, 'e, 'p, 'i) runtime"
    by (simp_all add: current_generation_def)
  have timed: "triple me (\<lambda>s. owns me H s \<and> good outcome s)
      (case eo_browser_deadline outcome of
         Some deadline \<Rightarrow> thread_then (observe (\<lambda>s. rt_now s \<ge> deadline)) (\<lambda>late.
           Return (if late then outcome_deadline else outcome))
       | None \<Rightarrow> Return outcome) (\<lambda>x s. owns me H s \<and> good x s)"
    by (auto intro!: triple_Return stable triple_then [OF triple_observe [where Q = "\<lambda>_ s. owns me H s \<and> good outcome s"]]
        simp: failed split: option.split)
  let ?same = "\<lambda>x g b s. owns me H s \<and> good x s \<and> (\<not> b \<longrightarrow> rt_accounts_generation s = g)"
  have same: "rely_stable me (?same x g b)" for x g b
    by (rule gated_stable [OF assms(2)]) (auto simp: good_def answerable_def)
  have fresh: "triple me (\<lambda>s. owns me H s \<and> good x s) (observe (\<lambda>s. g \<noteq> rt_accounts_generation s)) (?same x g)" for x g
    by (rule triple_observe [OF stable _ same]) auto
  have told: "triple me (\<lambda>s. owns me H s \<and> good x s)
      (case eo_browser_generation x of
         None \<Rightarrow> Return x
       | Some g \<Rightarrow> if g = - 1 then Return (outcome_failure Code_Conflict Retry_Never) else
           thread_then (observe (\<lambda>s. g \<noteq> rt_accounts_generation s)) (\<lambda>changed.
           Return (if changed then outcome_failure Code_Conflict Retry_Never else x)))
      (\<lambda>x s. owns me H s \<and> good x s \<and> current_generation x s)" for x
    by (auto intro!: triple_Return stable same triple_then [OF fresh] simp: failed current
        split: option.split)
  show ?thesis unfolding browser_outcome_def by (rule triple_then [OF timed told])
qed

lemma into_response_error: "into_response outcome correlation = Ok response \<Longrightarrow> rs_error response = eo_error outcome"
  by (auto simp: into_response_def from_protocol_def map_err_Ok ResponseEnvelope_success_def
      ResponseEnvelope_new_def dest!: failure_response split: option.splits if_splits)

lemma triple_try_owns:
  assumes "triple me P p (\<lambda>r s. owns me H s \<and> (\<forall>x. r = Ok x \<longrightarrow> P' x s))"
    and "\<And>x. triple me (P' x) (k x) (\<lambda>_. owns me H)"
  shows "triple me P (thread_try p k) (\<lambda>_. owns me H)"
  unfolding thread_try_def
proof (rule triple_then [OF assms(1)])
  show "triple me (\<lambda>s. owns me H s \<and> (\<forall>x. r = Ok x \<longrightarrow> P' x s))
      (case r of Ok x \<Rightarrow> k x | Err e \<Rightarrow> Return (Err e) | Panic \<Rightarrow> Return Panic) (\<lambda>_. owns me H)" for r
    using assms(2) by (cases r) (auto intro: triple_pre triple_Return)
qed

text \<open>An outcome that can be answered and whose browser reply is current.\<close>

definition ready_to_write :: "request_permit \<Rightarrow> execution_outcome \<Rightarrow> ('d, 'e, 'p, 'i) runtime \<Rightarrow> bool" where
  "ready_to_write permit x s \<longleftrightarrow> answerable permit x s \<and> current_generation x s"

lemma stable_ready [simp]: "Commit_Gate \<in> H \<Longrightarrow> rely_stable me (\<lambda>s. owns me H s \<and> ready_to_write permit x s)"
  using stable_current by (simp add: ready_to_write_def)

lemma triple_quiet_ready:
  assumes "Commit_Gate \<in> H" and "\<And>s. quiet s (fst (f s)) \<and> rt_flags (fst (f s)) Lock_Active = rt_flags s Lock_Active"
  shows "triple me (\<lambda>s. owns me H s \<and> ready_to_write permit x s) (atomically f)
    (\<lambda>_ s. owns me H s \<and> ready_to_write permit x s)"
  using assms by (intro triple_atomically stable_ready quiet_guar)
    (auto simp: ready_to_write_def quiet_def owns_def answerable_def current_generation_def
      split: option.splits)

lemma triple_retire_lease:
  assumes "Commit_Gate \<in> H"
  shows "triple me (\<lambda>s. owns me H s \<and> ready_to_write permit x s) (retire_lease ctx outcome)
    (\<lambda>_ s. owns me H s \<and> ready_to_write permit x s)"
  unfolding retire_lease_def in_section_def using assms
  by (intro triple_if triple_Return triple_quiet_ready) (simp_all add: quiet_def)

lemma map_ok_Ok: "map_ok f r = Ok y \<longleftrightarrow> (\<exists>x. r = Ok x \<and> y = f x)"
  by (cases r) auto

lemma triple_current_status:
  assumes "Commit_Gate \<in> H"
  shows "triple me (\<lambda>s. owns me H s \<and> ready_to_write (dc_permit ctx) x s) (current_status L ctx x :: ('d, 'e, 'p, 'i, execution_outcome) work)
    (\<lambda>r s. owns me H s \<and> (\<forall>y. r = Ok y \<longrightarrow> owns me H s \<and> ready_to_write (dc_permit ctx) y s))"
proof (cases "eo_error x = None \<and> rp_operation (dc_permit ctx) \<in> {Op_Status, Op_CreateVault}")
  case True
  then have "ready_to_write (dc_permit ctx) (outcome_success body) s" for body and s :: "('d, 'e, 'p, 'i) runtime"
    by (auto simp: ready_to_write_def answerable_def current_generation_def outcome_success_def
        requires_unlocked_epoch_def)
  moreover from True have "(current_status L ctx x :: ('d, 'e, 'p, 'i, execution_outcome) work) = thread_then (observe agent_state_of) (\<lambda>state.
        thread_then load_epoch (\<lambda>epoch.
        Return (map_ok outcome_success (from_protocol (encode_status (vl_cbor L) state epoch)))))"
    by (auto simp: current_status_def)
  ultimately show ?thesis
    unfolding load_epoch_def
    by (auto intro!: triple_then [OF triple_observe [where Q = "\<lambda>_. owns me H"]] triple_Return assms
        simp: map_ok_Ok assms)
qed (use assms in \<open>auto simp: current_status_def intro!: triple_Return\<close>)

lemma keeps_write_ready:
  assumes "Commit_Gate \<in> H" and "rs_error response = None \<longrightarrow> eo_error x = None"
  shows "triple me (\<lambda>s. owns me H s \<and> ready_to_write permit x s)
    (send_response T c (Some permit) (eo_committed x) (eo_browser_generation x) response) (\<lambda>_. owns me H)"
  by (rule triple_write [OF stable_ready [OF assms(1)]])
    (use assms(2) in \<open>auto simp: discloses_in_epoch_def ready_to_write_def answerable_def
      current_generation_def\<close>)

lemma keeps_answer [keeps_rules]:
  assumes "Commit_Gate \<in> H"
  shows "keeps me H (answer L T ctx outcome)"
proof -
  let ?ready = "\<lambda>x s. owns me H s \<and> ready_to_write (dc_permit ctx) x s"
  have written: "triple me (?ready x) (thread_then (send_response T (dc_connection ctx) (Some (dc_permit ctx))
        (eo_committed x) (eo_browser_generation x) response) (\<lambda>w. if w = Panic then Return Panic else
      thread_then (context_drop ctx) (\<lambda>_. Return (Ok w)))) (\<lambda>_. owns me H)"
    if "rs_error response = None \<longrightarrow> eo_error x = None" for x response
    by (rule triple_then [OF keeps_write_ready [OF assms that]])
      (rule keeps_def [THEN iffD1], intro keeps_rules)
  have fitted: "triple me (?ready x) (thread_try (observe (\<lambda>s. bounded_response (rt_connections s (dc_connection ctx))
        response (dc_correlation ctx))) (\<lambda>response.
      thread_then (send_response T (dc_connection ctx) (Some (dc_permit ctx))
        (eo_committed x) (eo_browser_generation x) response) (\<lambda>w. if w = Panic then Return Panic else
      thread_then (context_drop ctx) (\<lambda>_. Return (Ok w))))) (\<lambda>_. owns me H)"
    if "rs_error response = None \<longrightarrow> eo_error x = None" for x response
    using that by (intro triple_try_observe [OF stable_ready [OF assms]] written) (auto dest: bounded_error)
  have encoded: "triple me (?ready x) (result_try (into_response x (dc_correlation ctx)) k) (\<lambda>_. owns me H)"
    if "\<And>response. into_response x (dc_correlation ctx) = Ok response \<Longrightarrow> triple me (?ready x) (k response) (\<lambda>_. owns me H)" for x k
    using that assms unfolding result_try_def
    by (cases "into_response x (dc_correlation ctx)") (auto intro!: triple_Return)
  have due: "triple me (owns me H) (due_outcome ctx completion outcome)
      (\<lambda>x s. owns me H s \<and> answerable (dc_permit ctx) x s)" for completion
    by (rule triple_due_outcome [OF assms])
  have told: "triple me (\<lambda>s. owns me H s \<and> answerable (dc_permit ctx) x s) (browser_outcome x) ?ready" for x
    unfolding ready_to_write_def by (rule triple_browser_outcome [OF assms])
  have finished: "triple me (owns me H) (connection_call c f) (\<lambda>r s. owns me H s \<and> (\<forall>x. r = Ok x \<longrightarrow> owns me H s))" for c f
    by (rule triple_post [OF keeps_connection_call [unfolded keeps_def]]) simp
  have retired: "triple me (?ready x) (retire_lease ctx x) (\<lambda>r s. owns me H s \<and> (\<forall>y. r = Ok y \<longrightarrow> ?ready x s))" for x
    by (rule triple_post [OF triple_retire_lease [OF assms]]) simp
  show ?thesis
    unfolding keeps_def answer_def
    by (intro triple_try_owns [OF finished] triple_then [OF due] triple_then [OF told]
        triple_try_owns [OF retired] triple_try_owns [OF triple_current_status [OF assms]] encoded fitted)
      (simp add: into_response_error)
qed

lemma keeps_finish_dispatch [keeps_rules]:
  "Commit_Gate \<notin> H \<Longrightarrow> keeps me H (finish_dispatch L T me ctx outcome)"
  unfolding finish_dispatch_def by (intro keeps_rules; simp)

lemma keeps_case_admission [keeps_rules]:
  "(\<And>x. keeps me H (p x)) \<Longrightarrow> (\<And>x. keeps me H (q x))
     \<Longrightarrow> keeps me H (case v of Admitted x \<Rightarrow> p x | Rejected x \<Rightarrow> q x)"
  by (cases v) simp_all

lemma keeps_dispatch [keeps_rules]:
  assumes "Commit_Gate \<notin> H" and "Vault_Mutex \<notin> H" and "Owned_Mutex \<notin> H" and "Creation_Gate \<notin> H"
    and "Hello_Gate \<notin> H" and "Cleanup_Gate \<notin> H"
  shows "keeps me H (dispatch_with_admission R hello T me c header envelope)"
  unfolding dispatch_with_admission_def by (intro keeps_rules; simp add: assms)

end
