(* ===== verification/Runtime_Pool.thy ===== *)
theory Runtime_Pool
  imports Runtime_Dispatch Agent_History
begin

text \<open>
  The threads of the agent. Every thread runs the public methods of the runtime, one call after the
  other; the environment moves the clocks, the disk, the platform and the set of connections. What every
  call gives back and guarantees makes the pool safe, and so every interleaving.
\<close>

section \<open>Calls and environment\<close>

datatype 'p agent_call =
    Call_Dispatch "'p transport" bytes frame_header request_envelope
  | Call_Cancel bytes frame_header
  | Call_Disconnect bytes
  | Call_Status
  | Call_Shutdown

definition finished :: "('s, 'a) thread \<Rightarrow> ('s, unit) thread" where
  "finished p = thread_then p (\<lambda>_. Return ())"

fun run_call ::
    "('d, 'e, 'p, 'i, 't, 'h, 'g) agent_runtime \<Rightarrow> 'p windows_hello option \<Rightarrow> nat \<Rightarrow> 'p agent_call
       \<Rightarrow> (('d, 'e, 'p, 'i) runtime, unit) thread" where
  "run_call R hello me (Call_Dispatch T c header envelope) =
     finished (dispatch_with_admission R hello T me c header envelope)"
| "run_call R hello me (Call_Cancel c header) = finished (apply_cancel me c header)"
| "run_call R hello me (Call_Disconnect c) = finished (disconnect R me c)"
| "run_call R hello me Call_Status = finished (status_snapshot me)"
| "run_call R hello me Call_Shutdown = finished (shutdown me)"

text \<open>The bound on the rounds of a loop is free in every call, so that no interleaving is lost to it.\<close>

definition agent_programs ::
    "('d, 'e, 'p, 'i, 't, 'h, 'g) agent_runtime \<Rightarrow> 'p windows_hello option \<Rightarrow> nat
       \<Rightarrow> (('d, 'e, 'p, 'i) runtime, unit) thread \<Rightarrow> bool" where
  "agent_programs R hello me p \<longleftrightarrow> (\<exists>rounds call. p = run_call (R\<lparr>ar_rounds := rounds\<rparr>) hello me call)"

text \<open>Between two actions time passes, other processes use the disk and the platform, peers connect.\<close>

definition environment :: "('d, 'e, 'p, 'i) runtime \<Rightarrow> ('d, 'e, 'p, 'i) runtime \<Rightarrow> bool" where
  "environment s s' \<longleftrightarrow> (\<exists>now world connections process entropy platform unix_ms polls unlock_polls meanwhile.
     rt_now s \<le> now
     \<and> s' = s\<lparr>rt_vault := (fst (rt_vault s), world), rt_connections := connections, rt_process := process,
         rt_entropy := entropy, rt_platform := platform, rt_now := now, rt_unix_ms := unix_ms,
         rt_polls := polls, rt_unlock_polls := unlock_polls, rt_meanwhile := meanwhile\<rparr>)"

type_synonym ('d, 'e, 'p, 'i) agent_pool =
  "('d, 'e, 'p, 'i) runtime \<times> (nat \<Rightarrow> (('d, 'e, 'p, 'i) runtime, unit) thread)"

abbreviation runtime_step ::
    "('d, 'e, 'p, 'i, 't, 'h, 'g) agent_runtime \<Rightarrow> 'p windows_hello option
       \<Rightarrow> ('d, 'e, 'p, 'i) agent_pool \<Rightarrow> nat option \<Rightarrow> ('d, 'e, 'p, 'i) agent_pool \<Rightarrow> bool" where
  "runtime_step R hello \<equiv> pool_step (agent_programs R hello) environment"

definition agent_started :: "('d, 'e, 'p, 'i) agent_pool \<Rightarrow> bool" where
  "agent_started = (\<lambda>(s, pool). (\<forall>m. rt_owner s m = None) \<and> idempotency_inv (rt_idempotency s)
     \<and> (\<forall>i. pool i = Return ()))"

section \<open>The pool is safe\<close>

lemma keeps_finished: "keeps me H p \<Longrightarrow> keeps me H (finished p)"
  unfolding finished_def by (intro keeps_rules)

lemma keeps_agent_call: "keeps me {} (run_call R hello me call)"
  by (cases call) (simp_all add: keeps_finished keeps_dispatch keeps_apply_cancel keeps_disconnect
      keeps_status_snapshot keeps_lock_vault)

lemma environment_quiet: "environment s s' \<Longrightarrow> quiet s s'"
  by (auto simp: environment_def quiet_def)

lemma quiet_rely: "quiet s s' \<Longrightarrow> rely me s s'"
  by (simp add: quiet_def rely_def)

interpretation agent_pool: thread_pool "agent_programs R hello" environment rely guar waits "\<lambda>i. owns i {}"
  for R :: "('d, 'e, 'p, 'i, 't, 'h, 'g) agent_runtime" and hello :: "'p windows_hello option"
proof
  show "safe (rely i) (guar i) (waits i) (\<lambda>_. owns i {}) p s" if "agent_programs R hello i p" "owns i {} s"
    for i p and s :: "('d, 'e, 'p, 'i) runtime"
    using that keeps_agent_call unfolding agent_programs_def keeps_def triple_def by blast
qed (auto intro: guar_rely quiet_rely environment_quiet)

lemma started_safe: "agent_started c \<Longrightarrow> agent_pool.pool_safe c"
proof -
  assume "agent_started c"
  then have "\<forall>i. owns i {} (fst c)" "\<forall>i. snd c i = Return ()"
    by (auto simp: agent_started_def owns_def)
  then show ?thesis by (auto simp: agent_pool.pool_safe_def case_prod_unfold dest: owns_stable)
qed

section \<open>Runs\<close>

definition advances :: "('d, 'e, 'p, 'i) runtime \<Rightarrow> ('d, 'e, 'p, 'i) runtime \<Rightarrow> bool" where
  "advances s s' \<longleftrightarrow> rt_epoch s \<le> rt_epoch s' \<and> rt_accounts_generation s \<le> rt_accounts_generation s'
     \<and> (\<forall>c. rt_cancelled s c \<longrightarrow> rt_cancelled s' c)
     \<and> (idempotency_inv (rt_idempotency s) \<longrightarrow> idempotency_inv (rt_idempotency s'))"

text \<open>A response of a run was written by a step of the run.\<close>

definition answered_within ::
    "('d, 'e, 'p, 'i, 't, 'h, 'g) agent_runtime \<Rightarrow> 'p windows_hello option \<Rightarrow> ('d, 'e, 'p, 'i) agent_pool
       \<Rightarrow> ('d, 'e, 'p, 'i) agent_pool \<Rightarrow> written_response \<Rightarrow> bool" where
  "answered_within R hello c c' w \<longleftrightarrow> (\<exists>ls d l d' ls'. run_of (runtime_step R hello) c ls d
     \<and> runtime_step R hello d l d' \<and> run_of (runtime_step R hello) d' ls' c' \<and> discloses_in_epoch (fst d) w)"

lemma answered_first:
  "runtime_step R hello c l c1 \<Longrightarrow> run_of (runtime_step R hello) c1 ls c' \<Longrightarrow> discloses_in_epoch (fst c) w
     \<Longrightarrow> answered_within R hello c c' w"
  unfolding answered_within_def by (blast intro: run_Nil)

lemma answered_later:
  "runtime_step R hello c l c1 \<Longrightarrow> answered_within R hello c1 c' w \<Longrightarrow> answered_within R hello c c' w"
  unfolding answered_within_def by (blast intro: run_Cons)

lemma advances_refl [simp]: "advances s s"
  by (simp add: advances_def)

lemma advances_trans: "advances s t \<Longrightarrow> advances t u \<Longrightarrow> advances s u"
  by (auto simp: advances_def)

lemma runtime_step_effect:
  assumes "runtime_step R hello c l c'" and "agent_pool.pool_safe c"
  shows "advances (fst c) (fst c')
    \<and> (\<exists>new. rt_written (fst c') = rt_written (fst c) @ new \<and> list_all (discloses_in_epoch (fst c)) new)"
proof (cases l)
  case None
  then have "quiet (fst c) (fst c')"
    using agent_pool.pool_step_safe [OF assms] environment_quiet quiet_refl by fastforce
  then show ?thesis by (simp add: quiet_def advances_def)
next
  case (Some i)
  then have "guar i (fst c) (fst c')"
    using agent_pool.pool_step_safe [OF assms] by simp
  then show ?thesis by (simp add: guar_def advances_def)
qed

lemma agent_run_effect:
  assumes "run_of (runtime_step R hello) c ls c'" and "agent_pool.pool_safe c"
  shows "advances (fst c) (fst c')
    \<and> (\<exists>new. rt_written (fst c') = rt_written (fst c) @ new \<and> list_all (answered_within R hello c c') new)"
  using assms
proof (induction rule: run_of.induct)
  case (run_Cons c l c1 ls c')
  obtain new where new: "advances (fst c) (fst c1)" "rt_written (fst c1) = rt_written (fst c) @ new"
    "list_all (discloses_in_epoch (fst c)) new"
    using runtime_step_effect [OF run_Cons.hyps(1) run_Cons.prems] by blast
  have "agent_pool.pool_safe c1"
    using agent_pool.pool_step_safe [OF run_Cons.hyps(1) run_Cons.prems] by blast
  then obtain more where more: "advances (fst c1) (fst c')" "rt_written (fst c') = rt_written (fst c1) @ more"
    "list_all (answered_within R hello c1 c') more"
    using run_Cons.IH by blast
  have "list_all (answered_within R hello c c') (new @ more)"
    using new(3) more(3) answered_first [OF run_Cons.hyps] answered_later [OF run_Cons.hyps(1), of c']
    unfolding list_all_iff set_append by blast
  then show ?case using advances_trans [OF new(1) more(1)] new(2) more(2) by auto
qed simp

lemma answer_epoch:
  assumes "answered_within R hello c c' w" and "agent_pool.pool_safe c" and "rs_error (wr_response w) = None"
    and "\<not> wr_committed w" and "wr_permit w = Some permit" and "requires_unlocked_epoch (rp_operation permit)"
  shows "rt_epoch (fst c) \<le> rp_unlock_epoch permit \<and> rp_unlock_epoch permit \<le> rt_epoch (fst c')"
proof -
  obtain ls d l d' ls' where run: "run_of (runtime_step R hello) c ls d" "runtime_step R hello d l d'"
      "run_of (runtime_step R hello) d' ls' c'" "discloses_in_epoch (fst d) w"
    using assms(1) unfolding answered_within_def by blast
  have safe: "agent_pool.pool_safe d" using agent_pool.pool_run_safe run(1) assms(2) by blast
  have "advances (fst c) (fst d)" using agent_run_effect [OF run(1) assms(2)] by blast
  moreover have "advances (fst d) (fst c')"
    using agent_run_effect [OF run_Cons [OF run(2,3)] safe] by blast
  moreover have "rt_epoch (fst d) = rp_unlock_epoch permit"
    using run(4) assms(3-6) by (simp add: discloses_in_epoch_def)
  ultimately show ?thesis by (simp add: advances_def)
qed

lemma agent_reached_safe:
  "run_of (runtime_step R hello) c ls c' \<Longrightarrow> agent_started c \<Longrightarrow> agent_pool.pool_safe c'"
  using agent_pool.pool_run_safe started_safe by blast

section \<open>A request that nobody disturbs\<close>

lemma run_alone_simps:
  "run_alone (thread_then p k) s = Option.bind (run_alone p s) (\<lambda>(s, x). run_alone (k x) s)"
  "run_alone (atomically f) s = Some (f s)"
  "run_alone (observe g) s = Some (s, g s)"
  by (simp_all add: run_alone_then atomically_def observe_def)

lemma run_alone_with_mutex:
  assumes "rt_owner s m = None" and "\<not> rt_poisoned s m"
    and "run_alone body (s\<lparr>rt_owner := (rt_owner s)(m := Some me)\<rparr>) = Some (s', r)"
  shows "run_alone (with_mutex me m body) s = Some (s'\<lparr>rt_owner := (rt_owner s')(m := None),
    rt_poisoned := (rt_poisoned s')(m := (rt_poisoned s' m \<or> r = Panic))\<rparr>, r)"
  using assms by (simp add: with_mutex_def with_mutex_or_def lock_mutex_def release_mutex_def run_alone_simps)

lemma run_alone_try:
  "run_alone p s = Some (s', Ok x) \<Longrightarrow> run_alone (thread_try p k) s = run_alone (k x) s'"
  by (simp add: thread_try_def run_alone_simps)

lemma run_alone_next:
  "run_alone p s = Some (s', x) \<Longrightarrow> run_alone (thread_then p k) s = run_alone (k x) s'"
  by (simp add: run_alone_simps)

definition admitted_state ::
    "('d, 'e, 'p, 'i) runtime \<Rightarrow> bytes \<Rightarrow> request_permit \<Rightarrow> ('d, 'e, 'p, 'i) runtime" where
  "admitted_state s c permit = s\<lparr>
     rt_connections := (rt_connections s)(c :=
       put_in_flight (issue_id (rt_connections s c) (rp_request_id permit)) (rp_request_id permit)),
     rt_owner := (rt_owner s)(Commit_Gate := None), rt_poisoned := (rt_poisoned s)(Commit_Gate := False),
     rt_global_in_flight := rt_global_in_flight s + 1, rt_next_cell := rt_next_cell s + 1,
     rt_cancellations := fmupd \<lparr>rk_connection_id = c, rk_request_id = rp_request_id permit\<rparr>
       (rt_next_cell s) (rt_cancellations s)\<rparr>"

definition status_context :: "('d, 'e, 'p, 'i) runtime \<Rightarrow> bytes \<Rightarrow> request_permit \<Rightarrow> bytes \<Rightarrow> dispatch_context" where
  "status_context s c permit correlation = \<lparr>dc_connection = c, dc_permit = permit,
     dc_registration = \<lparr>rg_key = \<lparr>rk_connection_id = c, rk_request_id = rp_request_id permit\<rparr>,
       rg_cancellation = rt_next_cell s\<rparr>,
     dc_deadline = rt_now s + unat (rp_effective_timeout_ms permit) * 10 ^ 6, dc_correlation = correlation\<rparr>"

lemma admission_alone:
  fixes s :: "('d, 'e, 'p, 'i) runtime" and header :: frame_header and envelope :: request_envelope
  defines "permit \<equiv> permit_for header envelope"
  assumes free: "rt_owner s Commit_Gate = None" "\<not> rt_poisoned s Commit_Gate" "\<not> rt_poisoned s Cancellations"
    and admits: "admits (rt_connections s c) header envelope (rt_epoch s)"
    and room: "rt_global_in_flight s < MAX_IN_FLIGHT_GLOBAL"
      "fmlookup (rt_cancellations s) \<lparr>rk_connection_id = c, rk_request_id = fh_request_id header\<rparr> = None"
    and time: "rt_now s + unat (rp_effective_timeout_ms permit) * 10 ^ 6 < 2 ^ 64 * 10 ^ 9"
  shows "run_alone (admit_request T me c header envelope correlation) s =
    Some (admitted_state s c permit, Ok (Admitted (status_context s c permit correlation)))"
proof -
  let ?cn = "put_in_flight (issue_id (rt_connections s c) (fh_request_id header)) (fh_request_id header)"
  let ?s = "s\<lparr>rt_connections := (rt_connections s)(c := ?cn)\<rparr>"
  have called: "run_alone (connection_call c (\<lambda>cn. Connection_begin_request cn header envelope (rt_epoch s))) s
      = Some (?s, Ok permit)"
    by (simp add: connection_call_def run_alone_simps begin_request_admits [OF admits] permit_def)
  have id: "rp_request_id permit = fh_request_id header" by (simp add: permit_def permit_for_def)
  have "\<not> cn_poisoned (rt_connections s c)" using admits by (simp add: admits_def frame_ok_def)
  then have live: "\<not> Connection_is_cancelled ?cn permit"
    by (simp add: Connection_is_cancelled_def id put_in_flight_def issue_id_def)
  have body: "run_alone (result_try (request_deadline (rt_now s) (rp_effective_timeout_ms permit)) (\<lambda>deadline.
        admit_permit T c correlation permit deadline)) (?s\<lparr>rt_owner := (rt_owner s)(Commit_Gate := Some me)\<rparr>)
      = Some ((admitted_state s c permit)\<lparr>rt_owner := (rt_owner s)(Commit_Gate := Some me),
          rt_poisoned := rt_poisoned s\<rparr>, Ok (Admitted (status_context s c permit correlation)))"
    using free(3) room time live
    by (simp add: result_try_def request_deadline_def instant_checked_add_def ok_or_def admit_permit_def
        run_alone_simps CounterPermit_acquire_def register_request_def in_section_def Let_def id
        admitted_state_def status_context_def)
  show ?thesis
    unfolding admit_request_def load_epoch_def
    by (simp add: run_alone_simps called run_alone_with_mutex free body) (simp add: admitted_state_def free)
qed

lemma status_runs_alone:
  assumes "rt_now s < dc_deadline ctx" and "\<not> rt_cancelled s (rg_cancellation (dc_registration ctx))"
    and "rp_operation (dc_permit ctx) = Op_Status" and "rq_operation envelope = Op_Status"
    and "OperationRequest_decode (vl_cbor (ar_libs R)) Op_Status (rq_body envelope) = Ok Req_Status"
  shows "run_alone (run_admitted R hello me envelope ctx) s = Some (s, Ok (outcome_success []))"
  using assms
  by (simp add: run_admitted_def requires_idempotency_key_def execute_decoded_def passkey_binding_failure_def
      execute_def Let_def is_cancelled_def run_alone_simps)

definition success_response :: "bytes \<Rightarrow> bytes \<Rightarrow> response_envelope" where
  "success_response correlation body = \<lparr>rs_error = None, rs_retry = Retry_Never,
     rs_correlation_id = correlation, rs_body = body\<rparr>"

definition status_entry :: "dispatch_context \<Rightarrow> bytes \<Rightarrow> written_response" where
  "status_entry ctx body = \<lparr>wr_connection_id = dc_connection ctx, wr_permit = Some (dc_permit ctx),
     wr_committed = False, wr_browser_generation = None,
     wr_response = success_response (dc_correlation ctx) body\<rparr>"

lemma answer_alone:
  fixes s :: "('d, 'e, 'p, 'i) runtime"
  assumes body: "encode_status (vl_cbor L) (agent_state_of s) (rt_epoch s) = Ok body"
      "length body \<le> MAX_RESPONSE_BODY_BYTES" "dc_correlation ctx \<noteq> zeros 16"
    and status: "rp_operation (dc_permit ctx) = Op_Status"
    and finish: "Connection_finish (rt_connections s (dc_connection ctx)) (dc_permit ctx) = (cn, Ok Completion_Active)"
    and time: "rt_now s < dc_deadline ctx" "\<not> rt_cancelled s (rg_cancellation (dc_registration ctx))"
    and fits: "Connection_response_fits cn (success_response (dc_correlation ctx) body)"
    and "\<And>response p. snd (tr_write_response T response p) = Ok ()"
  shows "\<exists>s'. run_alone (answer L T ctx (outcome_success [])) s = Some (s', Ok (Ok ()))
    \<and> rt_written s' = rt_written s @ [status_entry ctx body] \<and> rt_owner s' = rt_owner s
    \<and> rt_epoch s' = rt_epoch s"
proof -
  let ?c = "dc_connection ctx"
  let ?s = "s\<lparr>rt_connections := (rt_connections s)(?c := cn)\<rparr>"
  obtain p where wrote: "tr_write_response T (success_response (dc_correlation ctx) body) (rt_platform s) = (p, Ok ())"
    using assms(9) by (metis prod.collapse)
  have state: "agent_state_of ?s = agent_state_of s" by (simp add: agent_state_of_def)
  have called: "run_alone (connection_call ?c (\<lambda>cn. apsnd (map_err Dispatch_Connection)
      (Connection_finish cn (dc_permit ctx)))) s = Some (?s, Ok Completion_Active)"
    by (simp add: connection_call_def run_alone_simps finish)
  have due: "run_alone (due_outcome ctx Completion_Active (outcome_success [])) ?s = Some (?s, outcome_success [])"
    using time by (simp add: due_outcome_def outcome_success_def is_cancelled_def run_alone_simps
        outcome_is_still_authorized_def status Let_def)
  have told: "run_alone (browser_outcome (outcome_success [])) ?s = Some (?s, outcome_success [])"
    by (simp add: browser_outcome_def outcome_success_def run_alone_simps)
  have kept: "run_alone (retire_lease ctx (outcome_success [])) ?s = Some (?s, Ok ())"
    by (simp add: retire_lease_def outcome_success_def)
  have current: "run_alone (current_status L ctx (outcome_success [])) ?s = Some (?s, Ok (outcome_success body))"
    using body(1) by (simp add: current_status_def outcome_success_def status run_alone_simps load_epoch_def state
        from_protocol_def)
  have response: "into_response (outcome_success body) (dc_correlation ctx) = Ok (success_response (dc_correlation ctx) body)"
    using body(2,3) by (simp add: into_response_def outcome_success_def success_response_def
        ResponseEnvelope_success_def ResponseEnvelope_new_def)
  show ?thesis
    unfolding answer_def run_alone_try [OF called] run_alone_next [OF due] run_alone_next [OF told]
      run_alone_try [OF kept] run_alone_try [OF current] response
    by (simp add: result_try_def thread_try_def run_alone_simps bounded_response_def fits send_response_def
        wrote context_drop_def CounterPermit_drop_def registration_drop_def status_entry_def outcome_success_def)
qed

lemma finish_admitted:
  assumes "admits cn header envelope epoch"
  shows "\<exists>cn'. Connection_finish (put_in_flight (issue_id cn (fh_request_id header)) (fh_request_id header))
      (permit_for header envelope) = (cn', Ok Completion_Active) \<and> cn_limits cn' = cn_limits cn"
proof -
  have "\<not> cn_poisoned cn" using assms by (simp add: admits_def frame_ok_def)
  then show ?thesis
    by (simp add: Connection_finish_def with_lock_state_def put_in_flight_def issue_id_def permit_for_def)
qed

lemma dispatch_alone:
  fixes s :: "('d, 'e, 'p, 'i) runtime"
  assumes body: "encode_status (vl_cbor (ar_libs R)) (agent_state_of s) (rt_epoch s) = Ok body"
      "length body \<le> MAX_RESPONSE_BODY_BYTES"
    and drawn: "vl_fill (ar_libs R) (rt_entropy s) 16 = (e, Some correlation)" "correlation \<noteq> zeros 16"
    and free: "rt_owner s Commit_Gate = None" "\<not> rt_poisoned s Commit_Gate" "\<not> rt_poisoned s Cancellations"
    and admits: "admits (rt_connections s c) header envelope (rt_epoch s)"
    and room: "rt_global_in_flight s < MAX_IN_FLIGHT_GLOBAL" "\<not> rt_cancelled s (rt_next_cell s)"
      "fmlookup (rt_cancellations s) \<lparr>rk_connection_id = c, rk_request_id = fh_request_id header\<rparr> = None"
    and time: "rq_timeout_ms envelope \<noteq> 0" "rt_now s + 2 ^ 32 * 10 ^ 6 < 2 ^ 64 * 10 ^ 9"
    and status: "rq_operation envelope = Op_Status"
      "OperationRequest_decode (vl_cbor (ar_libs R)) Op_Status (rq_body envelope) = Ok Req_Status"
    and fits: "Connection_response_fits (rt_connections s c) (success_response correlation body)"
    and writes: "\<And>response p. snd (tr_write_response T response p) = Ok ()"
  shows "\<exists>s'. run_alone (dispatch_with_admission R hello T me c header envelope) s = Some (s', Ok ())
    \<and> rt_written s' = rt_written s @ [\<lparr>wr_connection_id = c,
        wr_permit = Some (permit_for header envelope), wr_committed = False, wr_browser_generation = None,
        wr_response = success_response correlation body\<rparr>]
    \<and> rt_owner s' = rt_owner s \<and> rt_epoch s' = rt_epoch s"
proof -
  let ?permit = "permit_for header envelope" and ?s = "s\<lparr>rt_entropy := e\<rparr>"
  let ?ctx = "status_context ?s c ?permit correlation"
  let ?a = "(admitted_state ?s c ?permit)\<lparr>rt_platform := tr_on_admitted T (rt_platform s)\<rparr>"
  have id: "rp_request_id ?permit = fh_request_id header" "rp_operation ?permit = Op_Status"
    by (simp_all add: permit_for_def status)
  have soon: "rp_effective_timeout_ms ?permit = min (rq_timeout_ms envelope) ORDINARY_TIMEOUT_MS"
    by (simp add: permit_for_def effective_timeout_def status Let_def)
  then have "rp_effective_timeout_ms ?permit \<noteq> 0" using time(1) by (simp add: min_def)
  then have positive: "0 < unat (rp_effective_timeout_ms ?permit)" by (simp add: unat_gt_0)
  have "unat (rp_effective_timeout_ms ?permit) < 2 ^ 32"
    using unsigned_less [of "rp_effective_timeout_ms ?permit"] by simp
  then have bounded: "rt_now ?s + unat (rp_effective_timeout_ms ?permit) * 10 ^ 6 < 2 ^ 64 * 10 ^ 9"
    using time(2) by simp
  have late: "rt_now ?a < dc_deadline ?ctx" using positive by (simp add: admitted_state_def status_context_def)
  have live: "\<not> rt_cancelled ?a (rg_cancellation (dc_registration ?ctx))"
    using room(2) by (simp add: admitted_state_def status_context_def)
  have correlated: "run_alone (correlation_id (ar_libs R)) s = Some (?s, Ok correlation)"
    using drawn by (simp add: correlation_id_def draw_bytes_def run_alone_simps thread_try_def ok_or_def)
  have admitted: "run_alone (admit_request T me c header envelope correlation) ?s
      = Some (admitted_state ?s c ?permit, Ok (Admitted ?ctx))"
    by (rule admission_alone) (use free admits room bounded in simp_all)
  have told: "run_alone (on_admitted T) (admitted_state ?s c ?permit) = Some (?a, ())"
    by (simp add: on_admitted_def platform_call_def run_alone_simps admitted_state_def)
  have ran: "run_alone (run_admitted R hello me envelope ?ctx) ?a = Some (?a, Ok (outcome_success []))"
    by (rule status_runs_alone [OF late live]) (simp_all add: status_context_def id status)
  obtain cn where cn: "Connection_finish (rt_connections ?a c) ?permit = (cn, Ok Completion_Active)"
      "cn_limits cn = cn_limits (rt_connections s c)"
    using finish_admitted [OF admits] by (auto simp: admitted_state_def id)
  let ?l = "?a\<lparr>rt_owner := (rt_owner ?a)(Commit_Gate := Some me)\<rparr>"
  obtain t where t: "run_alone (answer (ar_libs R) T ?ctx (outcome_success [])) ?l = Some (t, Ok (Ok ()))"
      "rt_written t = rt_written ?l @ [status_entry ?ctx body]" "rt_owner t = rt_owner ?l" "rt_epoch t = rt_epoch ?l"
  proof -
    have "encode_status (vl_cbor (ar_libs R)) (agent_state_of ?l) (rt_epoch ?l) = Ok body"
      using body(1) by (simp add: agent_state_of_def admitted_state_def)
    then show thesis
      using that answer_alone [of "ar_libs R" ?l body ?ctx cn T] body(2) drawn(2) id(2) cn late live fits writes
      by (auto simp: status_context_def Connection_response_fits_def)
  qed
  have unlocked: "rt_owner ?a Commit_Gate = None" "\<not> rt_poisoned ?a Commit_Gate"
    by (simp_all add: admitted_state_def)
  have owner: "(rt_owner s)(Commit_Gate := None) = rt_owner s" using free(1) by (metis fun_upd_triv)
  show ?thesis
    unfolding dispatch_with_admission_def run_alone_try [OF correlated] run_alone_try [OF admitted]
      request_admission.case run_alone_next [OF told] run_alone_next [OF ran] result.case finish_dispatch_def
      run_alone_next [OF run_alone_with_mutex [OF unlocked t(1)]]
    using t(2-4) owner
    by (simp add: run_alone_simps outcome_success_def admitted_state_def status_entry_def status_context_def)
qed

text \<open>The same as a run of the pool: an idle thread takes the call and is idle again.\<close>

lemma call_alone:
  assumes "run_alone (run_call R hello i call) s = Some (s', ())" and "pool i = Return ()"
  shows "\<exists>ls. run_of (runtime_step R hello) (s, pool) ls (s', pool)"
proof -
  have "agent_programs R hello i (run_call R hello i call)"
    unfolding agent_programs_def by (rule exI [of _ "ar_rounds R"]) auto
  then have start: "runtime_step R hello (s, pool) None (s, pool(i := run_call R hello i call))"
    using assms(2) by (rule pool_start [rotated])
  obtain ls where "run_of (runtime_step R hello) (s, pool(i := run_call R hello i call)) ls
      (s', pool(i := run_call R hello i call, i := Return ()))"
    using alone_run [OF assms(1), of "pool(i := run_call R hello i call)" i] unfolding fun_upd_same by blast
  moreover have "pool(i := run_call R hello i call, i := Return ()) = pool"
    using assms(2) by (metis fun_upd_triv fun_upd_upd)
  ultimately show ?thesis using start by (metis run_Cons)
qed

lemma finished_alone: "run_alone p s = Some (s', x) \<Longrightarrow> run_alone (finished p) s = Some (s', ())"
  by (simp add: finished_def run_alone_simps)

section \<open>A sample run\<close>

text \<open>A started agent without a vault, one connection of the desktop, and a transport that writes.\<close>

definition sample_no_files :: "(vault_data, unit, unit) guarded_files" where
  "sample_no_files = \<lparr>gf_parent = (\<lambda>_. None), gf_file_name = (\<lambda>_. None), gf_join = (\<lambda>p _. p),
     gf_process_id = 0, acquire_ancestor_guards = (\<lambda>_ _. None),
     open_existing_guard = (\<lambda>_ _ _ _ _. Err Io_NotFound), open_regular_file_guard = (\<lambda>_ _ _ _ _. None),
     gf_is_reparse_point = (\<lambda>_ _. None), gf_try_clone = (\<lambda>_ _. None),
     guarded_files_match = (\<lambda>_ _ _. False), guarded_file_matches_path = (\<lambda>_ _ _ _. False),
     ensure_sidecars_absent = (\<lambda>_ _ _. False), create_staging_reservation = (\<lambda>_ _ d. (d, Err Io_NotFound)),
     gf_overwrite = (\<lambda>_ _ d. (d, False)), gf_database_image = (\<lambda>_ _. None),
     hard_link = (\<lambda>_ _ _ d. (d, Err Io_NotFound)), remove_file = (\<lambda>_ _ d. (d, False)),
     sync_parent_directory = (\<lambda>_ _ d. (d, False)), gf_database_guard = (\<lambda>_ _. ())\<rparr>"

definition sample_runtime :: "(vault_data, u8, unit, nat, vault_data, unit, unit) agent_runtime" where
  "sample_runtime = \<lparr>ar_libs = sample_vault_libs, ar_databases = (\<lambda>_. memory_database),
     ar_files = sample_no_files, ar_file_system = (\<lambda>_. sample_files),
     ar_verifier = platform_passkey_request_verifier, ar_vault_path = [], ar_bound_path = None,
     ar_token = 1, ar_fingerprint_key = replicate 32 1, ar_hmac = (\<lambda>k m. take 32 (k @ m)),
     ar_rounds = 1\<rparr>"

definition sample_peer :: connection where
  "sample_peer = \<lparr>cn_role = Desktop, cn_version = CURRENT_VERSION, cn_authenticated_process_id = 5,
     cn_granted_features = [], cn_connection_id = replicate 16 9, cn_limits = ConnectionLimits_default,
     cn_state = \<lparr>cs_last_request_id = 0, cs_issued_request_ids = {||}, cs_in_flight = fmempty,
       cs_closed = False\<rparr>, cn_poisoned = False\<rparr>"

definition sample_start :: "(vault_data, u8, unit, nat) runtime" where
  "sample_start = \<lparr>rt_state = AgentState_code St_NoVault, rt_epoch = 0, rt_global_in_flight = 0,
     rt_flags = (\<lambda>_. False), rt_cancelled = (\<lambda>_. False), rt_next_cell = 0, rt_cancellations = fmempty,
     rt_owner = (\<lambda>_. None), rt_poisoned = (\<lambda>_. False),
     rt_vault = (\<lparr>va_path = None, va_session = None, va_authenticated_header = None,
         va_authenticated_manifest = None, va_session_id = None, va_authorization_epoch = 0\<rparr>,
       \<lparr>aw_database = \<lparr>vd_header = [], vd_manifest = [], vd_records = []\<rparr>, aw_entropy = 0,
         aw_next_session_id = 1\<rparr>),
     rt_idempotency = IdempotencyState_new, rt_browser_leases = fmempty, rt_accounts_generation = 0,
     rt_pending_passkey_creations = fmempty, rt_connections = (\<lambda>_. sample_peer),
     rt_process = \<lparr>pw_owned = fmempty, pw_next_token = 2, pw_poisoned = False\<rparr>, rt_entropy = 0,
     rt_next_staging_id = 0, rt_platform = (), rt_now = 0, rt_unix_ms = 1000, rt_polls = (\<lambda>_. False),
     rt_unlock_polls = (\<lambda>_. False), rt_meanwhile = id, rt_written = []\<rparr>"

definition sample_transport :: "unit transport" where
  "sample_transport = \<lparr>tr_on_admitted = id, tr_write_response = (\<lambda>_ p. (p, Ok ()))\<rparr>"

definition sample_request :: request_envelope where
  "sample_request = \<lparr>rq_operation = Op_Status, rq_unlock_epoch = 0, rq_timeout_ms = 1000,
     rq_idempotency_key = None, rq_body = [0x80]\<rparr>"

definition sample_frame :: frame_header where
  "sample_frame = \<lparr>fh_kind = Kind_Request, fh_version = CURRENT_VERSION, fh_payload_length = 10,
     fh_connection_id = replicate 16 9, fh_request_id = 1\<rparr>"


lemma sample_admits: "admits sample_peer sample_frame sample_request 0"
  by (simp add: admits_def frame_ok_def authority_ok_def sample_peer_def sample_frame_def sample_request_def
      next_id_ok_def ConnectionLimits_default_def in_flight_len_def fcard.rep_eq required_feature_def
      requires_idempotency_key_def requires_unlocked_epoch_def)

lemma sample_fields:
  "ar_libs sample_runtime = sample_vault_libs" "vl_cbor sample_vault_libs = rfc8949"
  "agent_state_of sample_start = St_NoVault" "rt_epoch sample_start = 0"
  "rt_connections sample_start c = sample_peer" "rt_written sample_start = []"
  "vl_fill sample_vault_libs (rt_entropy sample_start) 16 = (1, Some (replicate 16 1))"
  "rt_owner sample_start m = None" "\<not> rt_poisoned sample_start m" "rt_global_in_flight sample_start = 0"
  "\<not> rt_cancelled sample_start k" "rt_cancellations sample_start = fmempty" "rt_now sample_start = 0"
  "rq_operation sample_request = Op_Status" "rq_timeout_ms sample_request = 1000" "rq_body sample_request = [0x80]"
  "snd (tr_write_response sample_transport response p) = Ok ()"
  by (simp_all add: sample_runtime_def sample_vault_libs_def sample_start_def agent_state_of_def decode_state_def
      sample_request_def sample_transport_def)

lemma sample_codec:
  "OperationRequest_encode rfc8949 Req_Status = Ok [0x80]"
  "OperationRequest_decode rfc8949 Op_Status [0x80] = Ok Req_Status"
  "encode_status rfc8949 St_NoVault 0 = Ok [0x82, 2, 0]"
  "Connection_response_fits sample_peer (success_response (replicate 16 1) [0x82, 2, 0])"
proof -
  show encode: "OperationRequest_encode rfc8949 Req_Status = Ok [0x80]"
    by (simp add: rfc.OperationRequest_encode_valid) (simp add: rfc8949_def enc_head_def)
  show "OperationRequest_decode rfc8949 Op_Status [0x80] = Ok Req_Status"
    by (simp add: rfc.OperationRequest_decode_iff encode)
  show "encode_status rfc8949 St_NoVault 0 = Ok [0x82, 2, 0]"
    by (simp add: rfc.encode_status_eq) (simp add: rfc8949_def enc_head_def)
  show "Connection_response_fits sample_peer (success_response (replicate 16 1) [0x82, 2, 0])"
    by (simp add: Connection_response_fits_def sample_peer_def ConnectionLimits_default_def
        success_response_def ResponseEnvelope_encoded_len_def encoded_byte_string_len_def)
qed

lemma sample_run:
  obtains ls s' where "run_of (runtime_step sample_runtime None) (sample_start, \<lambda>_. Return ()) ls (s', \<lambda>_. Return ())"
    "\<exists>w. rt_written s' = [w] \<and> wr_permit w = Some (permit_for sample_frame sample_request)
       \<and> rs_error (wr_response w) = None"
proof -
  obtain s' where s': "run_alone (dispatch_with_admission sample_runtime None sample_transport 0
        (replicate 16 9) sample_frame sample_request) sample_start = Some (s', Ok ())"
      "rt_written s' = [\<lparr>wr_connection_id = replicate 16 9,
        wr_permit = Some (permit_for sample_frame sample_request), wr_committed = False,
        wr_browser_generation = None, wr_response = success_response (replicate 16 1) [0x82, 2, 0]\<rparr>]"
    using dispatch_alone [of sample_runtime sample_start "[0x82, 2, 0]" 1 "replicate 16 1" "replicate 16 9"
        sample_frame sample_request sample_transport None 0] sample_admits sample_codec
    by (auto simp: sample_fields)
  have "run_alone (run_call sample_runtime None 0 (Call_Dispatch sample_transport (replicate 16 9)
      sample_frame sample_request)) sample_start = Some (s', ())"
    using finished_alone [OF s'(1)] by simp
  then show thesis using call_alone that s'(2) by (fastforce simp: success_response_def)
qed

lemma sample_started: "agent_started (sample_start, \<lambda>_. Return ())"
  by (simp add: agent_started_def sample_start_def inv_new)

section \<open>Properties\<close>





text \<open>C10: a status request is answered. When nobody else acts, the gate is free, the connection admits
  the request and there is room for it, the call returns after writing exactly one response: a
  success that carries the agent's state and epoch and answers the permit the request got.\<close>

theorem status_request_is_answered:
  fixes s :: "('d, 'e, 'p, 'i) runtime" and R :: "('d, 'e, 'p, 'i, 't, 'h, 'g) agent_runtime"
    and T :: "'p transport"
  assumes "minicbor_spec (vl_cbor (ar_libs R))"
    and "vl_fill (ar_libs R) (rt_entropy s) 16 = (e, Some correlation)" and "correlation \<noteq> zeros 16"
    and "rt_owner s Commit_Gate = None" and "\<not> rt_poisoned s Commit_Gate" and "\<not> rt_poisoned s Cancellations"
    and "admits (rt_connections s c) header envelope (rt_epoch s)"
    and "rt_global_in_flight s < MAX_IN_FLIGHT_GLOBAL" and "\<not> rt_cancelled s (rt_next_cell s)"
    and "fmlookup (rt_cancellations s) \<lparr>rk_connection_id = c, rk_request_id = fh_request_id header\<rparr> = None"
    and "rq_timeout_ms envelope \<noteq> 0" and "rt_now s + 2 ^ 32 * 10 ^ 6 < 2 ^ 64 * 10 ^ 9"
    and "rq_operation envelope = Op_Status" and "OperationRequest_encode (vl_cbor (ar_libs R)) Req_Status = Ok (rq_body envelope)"
    and "encode_status (vl_cbor (ar_libs R)) (agent_state_of s) (rt_epoch s) = Ok body"
    and "Connection_response_fits (rt_connections s c) (success_response correlation body)"
    and "\<And>response p. snd (tr_write_response T response p) = Ok ()" and "pool i = Return ()"
  shows "\<exists>ls s'. run_of (runtime_step R hello) (s, pool) ls (s', pool)
    \<and> rt_written s' = rt_written s @ [\<lparr>wr_connection_id = c,
        wr_permit = Some (permit_for header envelope), wr_committed = False, wr_browser_generation = None,
        wr_response = success_response correlation body\<rparr>]"
proof -
  have "OperationRequest_decode (vl_cbor (ar_libs R)) Op_Status (rq_body envelope) = Ok Req_Status"
    using minicbor_spec.OperationRequest_decode_iff [OF assms(1)] assms(14) by (simp add: ok_Some)
  moreover have "length body \<le> MAX_RESPONSE_BODY_BYTES"
    using encoder_bounds(2) [OF assms(15)] by simp
  ultimately obtain s' where s': "run_alone (dispatch_with_admission R hello T i c header envelope) s = Some (s', Ok ())"
      "rt_written s' = rt_written s @ [\<lparr>wr_connection_id = c,
        wr_permit = Some (permit_for header envelope), wr_committed = False, wr_browser_generation = None,
        wr_response = success_response correlation body\<rparr>]"
    using dispatch_alone [OF assms(15) _ assms(2-9,10-13) _ assms(16,17)] by blast
  have "run_alone (run_call R hello i (Call_Dispatch T c header envelope)) s = Some (s', ())"
    using finished_alone [OF s'(1)] by simp
  then show ?thesis using call_alone assms(18) s'(2) by blast
qed

theorem status_request_is_answered_witness:
  "\<exists>ls s'. run_of (runtime_step sample_runtime None) (sample_start, \<lambda>_. Return ()) ls (s', \<lambda>_. Return ())
    \<and> map (rs_body \<circ> wr_response) (rt_written s') = [[0x82, 2, 0]]"
proof -
  obtain ls s' where "run_of (runtime_step sample_runtime None) (sample_start, \<lambda>_. Return ()) ls (s', \<lambda>_. Return ())"
    "map (rs_body \<circ> wr_response) (rt_written s') = [[0x82, 2, 0]]"
    using status_request_is_answered [of sample_runtime sample_start 1 "replicate 16 1" "replicate 16 9"
        sample_frame sample_request "[0x82, 2, 0]" sample_transport "\<lambda>_. Return ()" 0 None]
      sample_admits sample_codec rfc.minicbor_spec_axioms
    by (auto simp: sample_fields success_response_def)
  then show ?thesis by (intro exI conjI)
qed


lemma sample_status_call:
  obtains rest where "run_call R hello i Call_Status = Action (\<lambda>s. rt_owner s Commit_Gate = None)
     (\<lambda>s. s\<lparr>rt_owner := (rt_owner s)(Commit_Gate := Some i)\<rparr>) rest"
  by (simp add: finished_def status_snapshot_def with_mutex_def with_mutex_or_def lock_mutex_def)

lemma sample_blocked:
  obtains ls pool where "run_of (runtime_step sample_runtime None) (sample_start, \<lambda>_. Return ()) ls
      (sample_start\<lparr>rt_owner := (rt_owner sample_start)(Commit_Gate := Some 0)\<rparr>, pool)"
    "pool 1 = run_call sample_runtime None 1 Call_Status"
proof -
  let ?p = "\<lambda>i. run_call sample_runtime None i Call_Status"
  let ?idle = "\<lambda>_ :: nat. Return () :: ((vault_data, u8, unit, nat) runtime, unit) thread"
  let ?pool = "?idle(0 := ?p 0, 1 := ?p 1)"
  have program: "agent_programs sample_runtime None i (?p i)" for i
    unfolding agent_programs_def by (rule exI [of _ "ar_rounds sample_runtime"], rule exI [of _ Call_Status]) simp
  have start: "runtime_step sample_runtime None (sample_start, ?idle) None (sample_start, ?idle(0 := ?p 0))"
    "runtime_step sample_runtime None (sample_start, ?idle(0 := ?p 0)) None (sample_start, ?pool)"
    by (rule pool_start, simp, rule program)+
  obtain rest where "?p 0 = Action (\<lambda>s. rt_owner s Commit_Gate = None)
     (\<lambda>s. s\<lparr>rt_owner := (rt_owner s)(Commit_Gate := Some 0)\<rparr>) rest"
    by (rule sample_status_call)
  then have "?pool 0 = Action (\<lambda>s. rt_owner s Commit_Gate = None)
     (\<lambda>s. s\<lparr>rt_owner := (rt_owner s)(Commit_Gate := Some 0)\<rparr>) rest" by simp
  then have act: "runtime_step sample_runtime None (sample_start, ?pool) (Some 0)
      (sample_start\<lparr>rt_owner := (rt_owner sample_start)(Commit_Gate := Some 0)\<rparr>, ?pool(0 := rest sample_start))"
    by (rule pool_act) (simp add: sample_fields)
  have "run_of (runtime_step sample_runtime None) (sample_start, ?idle) [None, None, Some 0]
      (sample_start\<lparr>rt_owner := (rt_owner sample_start)(Commit_Gate := Some 0)\<rparr>, ?pool(0 := rest sample_start))"
    by (rule run_Cons, rule start(1), rule run_Cons, rule start(2), rule run_Cons, rule act, rule run_Nil)
  then show thesis by (rule that) simp
qed


end
