(* ===== verification/Runtime_Deadlock.thy ===== *)
theory Runtime_Deadlock
  imports Runtime_Pool
begin

text \<open>
  The order of the gate and the vault. Removing the Windows Hello enrollment asks the vault while it
  holds the commit gate; every mutation takes the commit gate while it holds the vault. This theory
  runs the two calls into each other: from a started agent there is an interleaving after which both
  wait for the other for ever, whatever anybody else does.
\<close>

section \<open>Part of a call\<close>

text \<open>A thread acts alone for a while; \<open>arrives\<close> names the part of it that comes next.\<close>

inductive goes :: "('s, 'a) thread \<Rightarrow> 's \<Rightarrow> ('s, 'a) thread \<Rightarrow> 's \<Rightarrow> bool" where
  goes_stop: "goes p s p s"
| goes_act: "ready s \<Longrightarrow> goes (rest s) (update s) p' s' \<Longrightarrow> goes (Action ready update rest) s p' s'"

definition arrives :: "('s, 'a) thread \<Rightarrow> 's \<Rightarrow> ('s, 'b) thread \<Rightarrow> 's \<Rightarrow> bool" where
  "arrives p s q s' \<longleftrightarrow> (\<exists>k. goes p s (thread_then q k) s')"

lemma goes_then: "goes p s p' s' \<Longrightarrow> goes (thread_then p k) s (thread_then p' k) s'"
  by (induction rule: goes.induct) (auto intro: goes.intros)

lemma goes_trans: "goes p s p' s' \<Longrightarrow> goes p' s' p'' s'' \<Longrightarrow> goes p s p'' s''"
  by (induction rule: goes.induct) (auto intro: goes.intros)

lemma goes_next:
  assumes "run_alone p s = Some (s', x)" and "goes (k x) s' q t"
  shows "goes (thread_then p k) s q t"
  using assms by (induction p arbitrary: s) (auto intro: goes_act split: if_splits)

lemma thread_then_Return [simp]: "thread_then p Return = p"
  by (induction p) auto

lemma arrives_here: "arrives (thread_then p k) s p s"
  unfolding arrives_def by (blast intro: goes_stop)

lemma arrives_refl: "arrives p s p s"
  using arrives_here [where k = Return] by simp

lemma arrives_then: "arrives p s q s' \<Longrightarrow> arrives (thread_then p k) s q s'"
  unfolding arrives_def using goes_then by (fastforce simp: thread_then_assoc)

lemma arrives_next:
  "run_alone p s = Some (s', x) \<Longrightarrow> arrives (k x) s' q t \<Longrightarrow> arrives (thread_then p k) s q t"
  unfolding arrives_def by (blast intro: goes_next)

lemma arrives_try:
  "run_alone p s = Some (s', Ok x) \<Longrightarrow> arrives (k x) s' q t \<Longrightarrow> arrives (thread_try p k) s q t"
  unfolding thread_try_def by (erule arrives_next) simp

lemma arrives_trans: "arrives p s q t \<Longrightarrow> arrives q t r u \<Longrightarrow> arrives p s r u"
  unfolding arrives_def using goes_then goes_trans by (fastforce simp: thread_then_assoc)

lemma arrives_act:
  "ready s \<Longrightarrow> arrives (rest s) (update s) q t \<Longrightarrow> arrives (Action ready update rest) s q t"
  unfolding arrives_def by (blast intro: goes_act)

lemma arrives_run:
  assumes "goes p s p' s'" and "pool i = p"
  shows "\<exists>ls. run_of (pool_step programs env) (s, pool) ls (s', pool(i := p'))"
  using assms
proof (induction arbitrary: pool rule: goes.induct)
  case (goes_stop p s)
  then have "pool(i := p) = pool" by auto
  then show ?case by (auto intro: run_Nil)
next
  case (goes_act ready s rest update p' s')
  then have step: "pool_step programs env (s, pool) (Some i) (update s, pool(i := rest s))"
    by (blast intro: pool_act)
  obtain ls where "run_of (pool_step programs env) (update s, pool(i := rest s)) ls (s', pool(i := p'))"
    using goes_act.IH [of "pool(i := rest s)"] unfolding fun_upd_upd fun_upd_same by blast
  with step show ?case by (blast intro: run_Cons)
qed

lemma arrives_at_mutex: "arrives (with_mutex me m body) s (lock_mutex me m) s"
  unfolding with_mutex_def with_mutex_or_def by (rule arrives_here)

lemma arrives_with_mutex:
  assumes "rt_owner s m = None" and "\<not> rt_poisoned s m"
    and "arrives body (s\<lparr>rt_owner := (rt_owner s)(m := Some me)\<rparr>) q t"
  shows "arrives (with_mutex me m body) s q t"
  unfolding with_mutex_def with_mutex_or_def lock_mutex_def thread_then.simps
  by (rule arrives_act) (simp_all add: assms arrives_then)

section \<open>The two calls\<close>

definition still_open ::
    "('d, 'e, 'p, 'i) runtime \<Rightarrow> u64 \<Rightarrow> request_registration \<Rightarrow> instant \<Rightarrow> bool" where
  "still_open s epoch registration deadline \<longleftrightarrow> \<not> rt_flags s Lock_Active
     \<and> \<not> rt_cancelled s (rg_cancellation registration) \<and> rt_now s < deadline
     \<and> agent_state_of s = St_Unlocked \<and> rt_epoch s = epoch"

lemma pre_secret_passes:
  "still_open s epoch registration deadline
     \<Longrightarrow> run_alone (pre_secret_operation epoch registration deadline) s = Some (s, None)"
  by (simp add: still_open_def pre_secret_operation_def is_cancelled_def any_of_def run_alone_simps)

lemma arrives_unless:
  "still_open s epoch registration deadline \<Longrightarrow> arrives k s q t
     \<Longrightarrow> arrives (unless (pre_secret_operation epoch registration deadline) k) s q t"
  unfolding unless_def by (rule arrives_next [OF pre_secret_passes]) simp_all

lemma arrives_with_flag:
  "\<not> rt_flags s f \<Longrightarrow> arrives body (set_flag f True s) q t \<Longrightarrow> arrives (with_flag f body) s q t"
  unfolding with_flag_def FlagPermit_acquire_def thread_then_simps
  by (rule arrives_act) (simp_all add: arrives_then)

text \<open>With the gate in hand the removal comes to the vault.\<close>

lemma removal_comes_to_vault:
  assumes "rt_owner s Commit_Gate = None" and "\<not> rt_poisoned s Commit_Gate"
    and "still_open s epoch registration deadline"
  shows "arrives (remove_enrollment R W me binding credential_id epoch registration deadline) s
    (lock_mutex me Vault_Mutex) (s\<lparr>rt_owner := (rt_owner s)(Commit_Gate := Some me)\<rparr>)"
proof -
  have "still_open (s\<lparr>rt_owner := (rt_owner s)(Commit_Gate := Some me)\<rparr>) epoch registration deadline"
    using assms(3) by (simp add: still_open_def agent_state_of_def)
  then show ?thesis
    unfolding remove_enrollment_def bound_to_vault_def thread_try_def
    by (intro arrives_with_mutex assms arrives_unless arrives_then arrives_at_mutex)
qed

lemma bound_alone:
  assumes "rt_owner s Vault_Mutex = None" and "\<not> rt_poisoned s Vault_Mutex"
    and "authenticated_vault_binding (fst (rt_vault s)) = Some binding"
  shows "run_alone (bound_to_vault me binding) s = Some (s, Ok True)"
proof -
  have "(rt_owner s)(Vault_Mutex := None) = rt_owner s" "(rt_poisoned s)(Vault_Mutex := False) = rt_poisoned s"
    using assms(1,2) by (auto simp: fun_eq_iff)
  then show ?thesis
    using assms unfolding bound_to_vault_def
    by (subst run_alone_with_mutex) (auto simp: run_alone_simps)
qed

lemma removal_starts:
  fixes s :: "('d, 'e, 'p, 'i) runtime" and me :: nat and p :: 'p
  defines "t \<equiv> (set_flag Hello_Active True s)\<lparr>rt_owner := (rt_owner s)(Hello_Gate := Some me), rt_platform := p\<rparr>"
  assumes "still_open s epoch registration deadline" and "\<not> rt_flags s Hello_Active"
    and "rt_owner s Hello_Gate = None" and "\<not> rt_poisoned s Hello_Gate"
    and "rt_owner s Vault_Mutex = None" and "\<not> rt_poisoned s Vault_Mutex"
    and "authenticated_vault_binding (fst (rt_vault s)) = Some binding"
    and "hr_ownership_path (snd W) = None" and "hr_load (snd W) (rt_platform s) = (p, Ok state)"
    and "pending_removal_credential_id state = None" and "vault_binding state = Some binding"
    and "credential_id_of state = Some credential_id"
  shows "arrives (remove_windows_hello R (Some W) me epoch registration deadline) s
    (remove_enrollment R W me binding credential_id epoch registration deadline) t"
proof -
  let ?f = "set_flag Hello_Active True s"
  have loaded: "run_alone (load_windows_hello_state R (snd W) me)
      (?f\<lparr>rt_owner := (rt_owner ?f)(Hello_Gate := Some me)\<rparr>) = Some (t, Ok state)"
    using assms by (simp add: load_windows_hello_state_def bound_access_def platform_call_def run_alone_simps
        set_flag_def t_def)
  have retired: "run_alone (retry_persisted_windows_hello_retirement R W me state) t = Some (t, Ok (state, True))"
    using assms(11) by (simp add: retry_persisted_windows_hello_retirement_def case_prod_unfold)
  have bound: "run_alone (bound_to_vault me binding) t = Some (t, Ok True)"
    by (rule bound_alone) (use assms in \<open>simp_all add: t_def set_flag_def\<close>)
  have open_t: "still_open t epoch registration deadline"
    using assms(2) by (simp add: still_open_def agent_state_of_def t_def set_flag_def)
  let ?last = "remove_enrollment R W me binding credential_id epoch registration deadline"
  have "arrives (unless (pre_secret_operation epoch registration deadline) ?last) t ?last t"
    by (intro arrives_unless open_t arrives_refl)
  then have "arrives (thread_try (bound_to_vault me binding) (\<lambda>bound.
      if \<not> bound then Return (Ok outcome_failed) else
      unless (pre_secret_operation epoch registration deadline) ?last)) t ?last t"
    by (intro arrives_try [OF bound]) simp
  then have "arrives (thread_try (retry_persisted_windows_hello_retirement R W me state) (\<lambda>(state, retired).
      if \<not> retired then Return (Ok retryable_failure) else
      case vault_binding state of None \<Rightarrow> Return (empty_reply (ar_libs R))
      | Some binding \<Rightarrow> (case credential_id_of state of None \<Rightarrow> Return (Err Dispatch_Internal)
        | Some credential_id \<Rightarrow> thread_try (bound_to_vault me binding) (\<lambda>bound.
            if \<not> bound then Return (Ok outcome_failed) else
            unless (pre_secret_operation epoch registration deadline)
              (remove_enrollment R W me binding credential_id epoch registration deadline))))) t ?last t"
    by (intro arrives_try [OF retired]) (simp add: assms)
  then show ?thesis
    unfolding remove_windows_hello_def option.case settled_def
    by (intro arrives_unless assms(2) arrives_with_flag assms(3) arrives_with_mutex arrives_next [OF loaded])
      (use assms in \<open>simp_all add: set_flag_def\<close>)
qed

lemma arrives_mutate_in_vault:
  assumes "rt_owner s Vault_Mutex = None" and "\<not> rt_poisoned s Vault_Mutex"
    and "run_alone pre (s\<lparr>rt_owner := (rt_owner s)(Vault_Mutex := Some me)\<rparr>)
      = Some (s\<lparr>rt_owner := (rt_owner s)(Vault_Mutex := Some me)\<rparr>, None)"
    and "arrives (commit_in_vault me check call k) (s\<lparr>rt_owner := (rt_owner s)(Vault_Mutex := Some me)\<rparr>) q t"
  shows "arrives (mutate_in_vault me pre check call k) s q t"
  unfolding mutate_in_vault_def lock_mutex_def thread_then.simps
  by (rule arrives_act) (simp_all add: assms arrives_next [OF assms(3)])

text \<open>With the vault in hand a mutation that gets to its commit comes to the gate.\<close>

lemma mutation_comes_to_gate:
  fixes s :: "('d, 'e, 'p, 'i) runtime" and me :: nat
  defines "t \<equiv> (set_flag Mutation_Active True s)\<lparr>rt_owner := (rt_owner s)(Vault_Mutex := Some me)\<rparr>"
  assumes "still_open s epoch registration deadline" and "\<not> rt_flags s Mutation_Active"
    and "rt_owner s Vault_Mutex = None" and "\<not> rt_poisoned s Vault_Mutex"
    and "account_input (vl_url L) f = Ok inp"
    and "reaches_commit (\<lambda>before_commit now polls.
      agent_add_website_account_with_before_commit_and_check L S now inp polls before_commit)
      (rt_unix_ms s) (rt_polls s) (rt_vault s)"
  shows "arrives (add_account L S me f epoch registration deadline) s (lock_mutex me Commit_Gate) t"
proof -
  let ?f = "set_flag Mutation_Active True s"
  have opens: "still_open ?f epoch registration deadline" "still_open t epoch registration deadline"
    using assms(2) by (simp_all add: still_open_def agent_state_of_def t_def set_flag_def)
  have at_gate: "arrives (take_commit_gate me check) t (lock_mutex me Commit_Gate) t" for check
    unfolding take_commit_gate_def by (rule arrives_here)
  have commits: "arrives (commit_in_vault me check (\<lambda>before_commit now polls.
      agent_add_website_account_with_before_commit_and_check L S now inp polls before_commit) k) t
      (lock_mutex me Commit_Gate) t" for check k
    unfolding commit_in_vault_def thread_then_simps
    by (rule arrives_act, simp) (use assms(7) in \<open>simp add: t_def set_flag_def arrives_then at_gate [unfolded t_def set_flag_def]\<close>)
  have checked: "run_alone (thread_then (pre_secret_operation epoch registration deadline)
      (\<lambda>x. Return (map_option Exit x))) t = Some (t, None)"
    by (simp add: run_alone_simps pre_secret_passes [OF opens(2)])
  have "arrives (change_in_vault me epoch registration deadline (\<lambda>before_commit now polls.
      agent_add_website_account_with_before_commit_and_check L S now inp polls before_commit) committed) ?f
      (lock_mutex me Commit_Gate) t" for committed
    unfolding change_in_vault_def after_vault_def thread_try_def
    by (intro arrives_then arrives_mutate_in_vault)
      (use assms(4,5) checked commits in \<open>simp_all add: t_def set_flag_def\<close>)
  then show ?thesis
    unfolding add_account_def
    by (intro arrives_with_flag assms(3) arrives_unless opens(1)) (simp add: assms(6))
qed

text \<open>A mutation that would succeed gets to its commit.\<close>

lemma transaction_refused:
  assumes "run_transaction S hb mb rows m (Ok ()) t = Ok t'"
  shows "run_transaction S hb mb rows m (Err x) t = Err x"
  using assms by (auto simp: run_transaction_def result_simps split: if_splits)

lemma apply_refused:
  assumes "apply_record_mutation S hb mb rows m (Ok ()) d = (d', Ok ())"
  shows "\<exists>d'. apply_record_mutation S hb mb rows m (Err x) d = (d', Err x)"
proof -
  obtain d1 t t' where "sq_begin S d = (d1, Ok t)" "run_transaction S hb mb rows m (Ok ()) t = Ok t'"
    using assms by (auto simp: apply_record_mutation_def split: prod.splits result.splits)
  with transaction_refused [OF this(2), of x] show ?thesis by (simp add: apply_record_mutation_def)
qed

lemma persist_refused:
  assumes "persist_mutation S permit vd m (Ok ()) (a, w) = (s', Ok i)"
  shows "snd (persist_mutation S permit vd m (Err Storage_Aborted) (a, w)) = Err Acc_Aborted"
    and "snd (persist_mutation S permit vd m (Err Storage_Conflict) (a, w)) = Err Acc_Failed"
proof -
  obtain path d' where path: "va_path a = Some path" and auth: "operation_is_authorized a permit"
    and "apply_record_mutation (S path) (vd_header vd) (vd_manifest vd) (vd_records vd) m (Ok ()) (aw_database w)
      = (d', Ok ())"
    using assms by (cases "va_path a") (auto simp: persist_mutation_def pure_then_def ok_or_def
        split: if_splits prod.splits result.splits storage_error.splits)
  note refused = apply_refused [OF this(3)]
  show "snd (persist_mutation S permit vd m (Err Storage_Aborted) (a, w)) = Err Acc_Aborted"
    using refused [of Storage_Aborted] path auth by (auto simp: persist_mutation_def pure_then_def)
  show "snd (persist_mutation S permit vd m (Err Storage_Conflict) (a, w)) = Err Acc_Failed"
    using refused [of Storage_Conflict] path auth by (auto simp: persist_mutation_def pure_then_def)
qed

lemma add_reaches_commit:
  assumes "agent_add_website_account L S now inp (a, w) = (s', Ok i)"
  shows "reaches_commit (\<lambda>before_commit now polls.
    agent_add_website_account_with_before_commit_and_check L S now inp polls before_commit) now (\<lambda>_. False) (a, w)"
proof -
  let ?prepare = "\<lambda>v hb mb rows t e. alone (prepare_add_website_account_with_check L v hb mb rows inp t
      (\<lambda>_. False) e)"
  let ?r = "mutate_vault S now ?prepare (\<lambda>_. False) (Ok ()) (a, w)"
  have "snd (keeping fst ?r) = Ok i"
    using assms by (simp add: agent_add_website_account_def
        agent_add_website_account_with_before_commit_and_check_def)
  then obtain x where ran: "snd ?r = Ok x" by (cases "snd ?r") (auto simp: keeping_def)
  obtain permit where permit: "require_operation a = Ok permit"
    using ran by (cases "require_operation a") (auto simp: mutate_vault_def pure_then_def)
  obtain a1 w1 vd where load: "load_authenticated_snapshot S (a, w) = ((a1, w1), Ok vd)"
    using ran permit by (cases "load_authenticated_snapshot S (a, w)"; cases "snd (load_authenticated_snapshot S (a, w))")
      (auto simp: mutate_vault_def pure_then_def agent_then_def)
  obtain t where time: "unix_time_ms now = Ok t"
    using ran permit load by (cases "unix_time_ms now") (auto simp: mutate_vault_def pure_then_def agent_then_def)
  obtain v where session: "va_session a1 = Some v"
    using ran permit load time by (cases "va_session a1")
      (auto simp: mutate_vault_def pure_then_def agent_then_def ok_or_def)
  obtain e pm y where prepared: "?prepare v (vd_header vd) (vd_manifest vd) (vd_records vd) t (aw_entropy w1) = (e, Ok (pm, y))"
    using ran permit load time session
    by (cases "?prepare v (vd_header vd) (vd_manifest vd) (vd_records vd) t (aw_entropy w1)")
      (auto simp: mutate_vault_def pure_then_def agent_then_def finish_mutation_def
        map_preparation_pair_def map_read_def split: result.splits record_operation_error.splits)
  note body = permit load time session prepared
  obtain s1 j where stored: "persist_mutation S permit vd pm (Ok ()) (a1, w1\<lparr>aw_entropy := e\<rparr>) = (s1, Ok j)"
    using ran body by (cases "persist_mutation S permit vd pm (Ok ()) (a1, w1\<lparr>aw_entropy := e\<rparr>)")
      (auto simp: mutate_vault_def pure_then_def agent_then_def finish_mutation_def
        map_preparation_pair_def map_read_def split: result.splits)
  show ?thesis
    using persist_refused [OF stored] body
    by (auto simp: reaches_commit_def agent_add_website_account_with_before_commit_and_check_def keeping_def
        mutate_vault_def finish_mutation_def agent_then_def pure_then_def map_preparation_pair_def map_read_def)
qed

section \<open>From the request to its operation\<close>

text \<open>A request whose key is new, alone up to its operation.\<close>

definition executing_state ::
    "('d, 'e, 'p, 'i) runtime \<Rightarrow> 'e \<Rightarrow> bytes \<Rightarrow> request_permit \<Rightarrow> 'p \<Rightarrow> idempotency_state \<Rightarrow> ('d, 'e, 'p, 'i) runtime" where
  "executing_state s e c permit p store =
     (admitted_state (s\<lparr>rt_entropy := e\<rparr>) c permit)\<lparr>rt_platform := p, rt_idempotency := store\<rparr>"

lemma dispatch_starts:
  fixes s :: "('d, 'e, 'p, 'i) runtime" and R :: "('d, 'e, 'p, 'i, 't, 'h, 'g) agent_runtime"
  defines "fingerprint \<equiv> \<lambda>envelope permit. request_fingerprint R (rq_operation envelope) (rp_unlock_epoch permit) (rq_body envelope)"
  assumes drawn: "vl_fill (ar_libs R) (rt_entropy s) 16 = (e, Some correlation)" "correlation \<noteq> zeros 16"
    and free: "rt_owner s Commit_Gate = None" "\<not> rt_poisoned s Commit_Gate" "\<not> rt_poisoned s Cancellations"
      "\<not> rt_poisoned s Idempotency"
    and admits: "admits (rt_connections s c) header envelope (rt_epoch s)"
    and room: "rt_global_in_flight s < MAX_IN_FLIGHT_GLOBAL" "\<not> rt_cancelled s (rt_next_cell s)"
      "fmlookup (rt_cancellations s) \<lparr>rk_connection_id = c, rk_request_id = fh_request_id header\<rparr> = None"
    and permit: "permit = permit_for header envelope" "rp_effective_timeout_ms permit \<noteq> 0"
    and time: "rt_now s + 2 ^ 32 * 10 ^ 6 < 2 ^ 64 * 10 ^ 9"
    and request: "OperationRequest_decode (vl_cbor (ar_libs R)) (rq_operation envelope) (rq_body envelope) = Ok operation"
      "OperationRequest_passkey_proof operation = None"
      "requires_idempotency_key (rq_operation envelope)" "rq_idempotency_key envelope = Some key"
    and store: "idempotency_reserve key (fingerprint envelope permit) (rt_idempotency s) = (store, Reserved)"
  shows "arrives (dispatch_with_admission R hello T me c header envelope) s
    (execute R hello me operation (rp_unlock_epoch permit) c (cn_authenticated_process_id (rt_connections s c))
       \<lparr>rg_key = \<lparr>rk_connection_id = c, rk_request_id = rp_request_id permit\<rparr>, rg_cancellation = rt_next_cell s\<rparr>
       (rt_now s + unat (rp_effective_timeout_ms permit) * 10 ^ 6))
    (executing_state s e c permit (tr_on_admitted T (rt_platform s)) store)"
proof -
  let ?s = "s\<lparr>rt_entropy := e\<rparr>"
  let ?ctx = "status_context ?s c permit correlation"
  let ?a = "(admitted_state ?s c permit)\<lparr>rt_platform := tr_on_admitted T (rt_platform s)\<rparr>"
  let ?x = "executing_state s e c permit (tr_on_admitted T (rt_platform s)) store"
  have "unat (rp_effective_timeout_ms permit) < 2 ^ 32"
    using unsigned_less [of "rp_effective_timeout_ms permit"] by simp
  then have bounded: "rt_now ?s + unat (rp_effective_timeout_ms permit) * 10 ^ 6 < 2 ^ 64 * 10 ^ 9"
    using time by simp
  have correlated: "run_alone (correlation_id (ar_libs R)) s = Some (?s, Ok correlation)"
    using drawn by (simp add: correlation_id_def draw_bytes_def run_alone_simps thread_try_def ok_or_def)
  have admitted: "run_alone (admit_request T me c header envelope correlation) ?s
      = Some (admitted_state ?s c permit, Ok (Admitted ?ctx))"
    unfolding permit(1) by (rule admission_alone) (use free admits room bounded in \<open>simp_all add: permit(1)\<close>)
  have told: "run_alone (on_admitted T) (admitted_state ?s c permit) = Some (?a, ())"
    by (simp add: on_admitted_def platform_call_def run_alone_simps admitted_state_def)
  have reserved: "run_alone (in_section Idempotency (\<lambda>s.
      case idempotency_reserve key (fingerprint envelope permit) (rt_idempotency s) of
        (i, admission) \<Rightarrow> (s\<lparr>rt_idempotency := i\<rparr>, Ok admission))) ?a = Some (?x, Ok Reserved)"
    using free(4) store by (simp add: in_section_def run_alone_simps admitted_state_def executing_state_def)
  have operation: "rp_operation permit = rq_operation envelope" by (simp add: permit(1) permit_for_def)
  have peer: "cn_authenticated_process_id (rt_connections ?x c) = cn_authenticated_process_id (rt_connections s c)"
    by (simp add: executing_state_def admitted_state_def put_in_flight_def issue_id_def)
  have "arrives (execute_decoded R hello me operation ?ctx) ?x
      (execute R hello me operation (rp_unlock_epoch permit) c (cn_authenticated_process_id (rt_connections s c))
       \<lparr>rg_key = \<lparr>rk_connection_id = c, rk_request_id = rp_request_id permit\<rparr>, rg_cancellation = rt_next_cell s\<rparr>
       (rt_now s + unat (rp_effective_timeout_ms permit) * 10 ^ 6)) ?x"
    unfolding execute_decoded_def passkey_binding_failure_def Let_def request(2) option.case thread_then_simps
    by (rule arrives_act, simp) (simp add: peer status_context_def arrives_refl)
  then have "arrives (run_admitted R hello me envelope ?ctx) ?a
      (execute R hello me operation (rp_unlock_epoch permit) c (cn_authenticated_process_id (rt_connections s c))
       \<lparr>rg_key = \<lparr>rk_connection_id = c, rk_request_id = rp_request_id permit\<rparr>, rg_cancellation = rt_next_cell s\<rparr>
       (rt_now s + unat (rp_effective_timeout_ms permit) * 10 ^ 6)) ?x"
    unfolding run_admitted_def Let_def execute_idempotent_def
    using reserved request by (auto simp: operation status_context_def fingerprint_def result_try_def ok_or_def
        intro!: arrives_try arrives_then)
  then show ?thesis
    unfolding dispatch_with_admission_def
    by (intro arrives_try [OF correlated] arrives_try [OF admitted], unfold request_admission.case)
      (intro arrives_next [OF told] arrives_then)
qed

section \<open>For ever\<close>

lemma wait_for_each_other:
  fixes s :: "('d, 'e, 'p, 'i) runtime"
  assumes "run_of (runtime_step R hello) (s, pool) ls (s', pool')"
    and "agent_pool.pool_safe (s, pool)" and "i \<noteq> j"
    and "rt_owner s Commit_Gate = Some i" and "rt_owner s Vault_Mutex = Some j"
    and "pool i = thread_then (lock_mutex i Vault_Mutex) ki" and "pool j = thread_then (lock_mutex j Commit_Gate) kj"
  shows "pool' i = pool i \<and> pool' j = pool j \<and> rt_owner s' Commit_Gate = Some i \<and> rt_owner s' Vault_Mutex = Some j
    \<and> Some i \<notin> set ls \<and> Some j \<notin> set ls"
  using assms
proof (induction "(s, pool)" ls "(s', pool')" arbitrary: s pool rule: run_of.induct)
  case (run_Cons l c1 ls)
  obtain s1 pool1 where c1: "c1 = (s1, pool1)" by force
  have "l \<noteq> Some i \<and> l \<noteq> Some j \<and> pool1 i = pool i \<and> pool1 j = pool j"
    using run_Cons.hyps(1) run_Cons.prems unfolding c1 by cases (auto simp: lock_mutex_def split: if_splits)
  moreover have "agent_pool.pool_safe (s1, pool1)" "rely i s s1" "rely j s s1"
    using agent_pool.pool_step_safe [OF run_Cons.hyps(1) run_Cons.prems(1)] calculation
    unfolding c1 by (auto split: option.splits intro: guar_rely quiet_rely environment_quiet quiet_refl)
  moreover have "rt_owner s1 Commit_Gate = Some i" "rt_owner s1 Vault_Mutex = Some j"
    using calculation(3,4) run_Cons.prems(3,4) by (simp_all add: rely_def)
  ultimately show ?case using run_Cons.hyps(3) [OF c1] run_Cons.prems by auto
qed simp

lemma run_append: "run_of step a xs b \<Longrightarrow> run_of step b ys c \<Longrightarrow> run_of step a (xs @ ys) c"
  by (induction rule: run_of.induct) (auto intro: run_Cons)

lemma gate_and_vault_meet:
  fixes s0 :: "('d, 'e, 'p, 'i) runtime" and p q :: "(('d, 'e, 'p, 'i) runtime, unit) thread"
  assumes "i \<noteq> j" and start: "pool i = p" "pool j = q"
    and removal: "arrives p s0 (remove_enrollment R W i binding credential_id epoch registration deadline) s1"
    and mutation: "arrives q s1 (lock_mutex j Commit_Gate) s2"
    and "rt_owner s2 Commit_Gate = None" and "\<not> rt_poisoned s2 Commit_Gate" and "rt_owner s2 Vault_Mutex = Some j"
    and "still_open s2 epoch registration deadline"
  shows "\<exists>ls s pool' ki kj. run_of (runtime_step R hello) (s0, pool) ls (s, pool')
    \<and> pool' i = thread_then (lock_mutex i Vault_Mutex) ki \<and> pool' j = thread_then (lock_mutex j Commit_Gate) kj
    \<and> rt_owner s Commit_Gate = Some i \<and> rt_owner s Vault_Mutex = Some j"
proof -
  let ?last = "remove_enrollment R W i binding credential_id epoch registration deadline"
  let ?s = "s2\<lparr>rt_owner := (rt_owner s2)(Commit_Gate := Some i)\<rparr>"
  obtain k where k: "goes p s0 (thread_then ?last k) s1" using removal unfolding arrives_def by blast
  obtain kj where kj: "goes q s1 (thread_then (lock_mutex j Commit_Gate) kj) s2"
    using mutation unfolding arrives_def by blast
  obtain ki where ki: "goes (thread_then ?last k) s2 (thread_then (lock_mutex i Vault_Mutex) ki) ?s"
    using arrives_then [OF removal_comes_to_vault, of s2 epoch registration deadline] assms(6,7,9)
    unfolding arrives_def by blast
  let ?p1 = "pool(i := thread_then ?last k)"
  let ?p2 = "?p1(j := thread_then (lock_mutex j Commit_Gate) kj)"
  let ?p3 = "?p2(i := thread_then (lock_mutex i Vault_Mutex) ki)"
  obtain ls1 where "run_of (runtime_step R hello) (s0, pool) ls1 (s1, ?p1)"
    using arrives_run [OF k, of pool i "agent_programs R hello" environment] start(1) by blast
  moreover obtain ls2 where "run_of (runtime_step R hello) (s1, ?p1) ls2 (s2, ?p2)"
    using arrives_run [OF kj, of ?p1 j "agent_programs R hello" environment] start(2) assms(1) by auto
  moreover obtain ls3 where "run_of (runtime_step R hello) (s2, ?p2) ls3 (?s, ?p3)"
    using arrives_run [OF ki, of ?p2 i "agent_programs R hello" environment] assms(1) by auto
  ultimately have "\<exists>ls. run_of (runtime_step R hello) (s0, pool) ls (?s, ?p3)"
    by (meson run_append)
  moreover have "?p3 i = thread_then (lock_mutex i Vault_Mutex) ki" "?p3 j = thread_then (lock_mutex j Commit_Gate) kj"
    using assms(1) by auto
  moreover have "rt_owner ?s Commit_Gate = Some i" "rt_owner ?s Vault_Mutex = Some j" using assms(8) by simp_all
  ultimately show ?thesis by blast
qed

lemma calls_start:
  assumes "i \<noteq> j"
  shows "run_of (runtime_step R hello) (s, \<lambda>_. Return ()) [None, None]
    (s, (\<lambda>_. Return ())(i := run_call R hello i ci, j := run_call R hello j cj))"
proof -
  have program: "agent_programs R hello me (run_call R hello me call)" for me call
    unfolding agent_programs_def by (rule exI [of _ "ar_rounds R"]) auto
  let ?idle = "\<lambda>_ :: nat. Return ()"
  have "runtime_step R hello (s, ?idle) None (s, ?idle(i := run_call R hello i ci))"
    by (rule pool_start) (simp_all add: program)
  moreover have "runtime_step R hello (s, ?idle(i := run_call R hello i ci)) None
      (s, ?idle(i := run_call R hello i ci, j := run_call R hello j cj))"
    by (rule pool_start) (use assms in \<open>simp_all add: program\<close>)
  ultimately show ?thesis by (blast intro: run_of.intros)
qed

section \<open>A sample\<close>

text \<open>
  An agent with an open vault and a Windows Hello enrollment of it, and two connections of the desktop:
  one removes the enrollment while the other adds an account.
\<close>

definition sample_hello :: "vault_agent \<Rightarrow> unit windows_hello" where
  "sample_hello a =
     (\<lparr>hp_enroll = (\<lambda>_ _ _ p. (p, Err Provider_Failed)), hp_evaluate = (\<lambda>_ _ _ _ _ p. (p, Err Provider_Failed)),
       hp_cancel = (\<lambda>_ p. p), hp_remove = (\<lambda>_ p. (p, Ok ()))\<rparr>,
      \<lparr>hr_load = (\<lambda>p. (p, case authenticated_vault_binding a of
           Some binding \<Rightarrow> Ok (Enrollment \<lparr>he_vault_id = fst binding, he_key_epoch = snd binding,
             he_installation_key = replicate 32 1, he_credential_id = [1],
             he_pending_removal_credential_id = None, he_prf_salt = replicate 32 2, he_protector = [3]\<rparr>)
         | None \<Rightarrow> Err State_NotFound)),
       hr_save = (\<lambda>_ p. (p, Ok ())), hr_remove = (\<lambda>p. (p, Ok ())), hr_ownership_path = None\<rparr>)"

definition sample_open :: "created_vault \<Rightarrow> (vault_data, u8, unit, nat) runtime" where
  "sample_open cv = sample_start\<lparr>rt_state := AgentState_code St_Unlocked, rt_epoch := 1,
     rt_vault := (sample_agent [112] cv, sample_world cv), rt_unix_ms := 2000,
     rt_connections := (\<lambda>c. sample_peer\<lparr>cn_connection_id := c, cn_granted_features := [FEATURE_WINDOWS_HELLO]\<rparr>)\<rparr>"

definition sample_call :: "bytes \<Rightarrow> operation_request \<Rightarrow> unit agent_call" where
  "sample_call c r = Call_Dispatch sample_transport c
     \<lparr>fh_kind = Kind_Request, fh_version = CURRENT_VERSION, fh_payload_length = 100,
      fh_connection_id = c, fh_request_id = 1\<rparr>
     \<lparr>rq_operation = OperationRequest_operation r, rq_unlock_epoch = 1, rq_timeout_ms = 1000,
      rq_idempotency_key = Some c, rq_body = OperationRequest_wire rfc8949 r\<rparr>"

definition sample_fields_added :: account_fields where
  "sample_fields_added = \<lparr>af_service_name = [0x4D, 0x61, 0x69, 0x6C],
     af_permitted_origin = ascii ''https://example.com'', af_username = [0x61], af_password = [0x62]\<rparr>"

lemma sample_request_decodes:
  "OperationRequest_valid r \<Longrightarrow> OperationRequest_decode rfc8949 (OperationRequest_operation r)
     (OperationRequest_wire rfc8949 r) = Ok r"
  by (simp add: rfc.OperationRequest_decode_iff rfc.OperationRequest_encode_valid)

lemma sample_fields_valid: "AccountFields_valid sample_fields_added"
  by (simp add: AccountFields_valid_def sample_fields_added_def ascii_def printable_not_control)

lemma sample_fields_input: "account_input (vl_url sample_vault_libs) sample_fields_added = Ok sample_account_input"
  using sample_input_new by (simp add: account_input_def sample_fields_added_def)

lemma fcard_none [simp]: "fcard {||} = 0"
  by (simp add: fcard.rep_eq)

lemma sample_reserves:
  assumes "fmlookup (is_cached store) key = None" and "key |\<notin>| is_in_flight store"
    and "fcard (fmdom (is_cached store)) + fcard (is_in_flight store) < 1024"
  shows "idempotency_reserve key fp store
    = (store\<lparr>is_in_flight := finsert key (is_in_flight store)\<rparr>, Reserved)"
  using assms by (simp add: idempotency_reserve_def evict.simps usize_checked_add_def)

lemma sample_peer_admits:
  assumes "OperationRequest_operation r \<in> {Op_RemoveWindowsHello, Op_AddAccount}"
    and "sample_call c r = Call_Dispatch T c header envelope"
  shows "admits (sample_peer\<lparr>cn_connection_id := c, cn_granted_features := [FEATURE_WINDOWS_HELLO]\<rparr>) header envelope 1"
  using assms by (auto simp: sample_call_def admits_def frame_ok_def authority_ok_def sample_peer_def next_id_ok_def
      ConnectionLimits_default_def in_flight_len_def fcard.rep_eq required_feature_def requires_idempotency_key_def
      requires_unlocked_epoch_def binary_search_is_ok_iff)

definition sample_registration :: "bytes \<Rightarrow> nat \<Rightarrow> request_registration" where
  "sample_registration c cell = \<lparr>rg_key = \<lparr>rk_connection_id = c, rk_request_id = 1\<rparr>, rg_cancellation = cell\<rparr>"

text \<open>The state of the sample once its first \<open>n\<close> requests run: what the two calls look at is as it was.\<close>

definition sample_running :: "created_vault \<Rightarrow> bytes fset \<Rightarrow> (vault_data, u8, unit, nat) runtime \<Rightarrow> bool" where
  "sample_running cv keys s \<longleftrightarrow> agent_state_of s = St_Unlocked \<and> rt_epoch s = 1
     \<and> rt_vault s = (sample_agent [112] cv, sample_world cv) \<and> rt_unix_ms s = 2000 \<and> rt_polls s = (\<lambda>_. False)
     \<and> rt_now s = 0 \<and> \<not> rt_flags s Lock_Active \<and> \<not> rt_flags s Mutation_Active
     \<and> (\<forall>m. \<not> rt_poisoned s m) \<and> (\<forall>k. \<not> rt_cancelled s k) \<and> rt_global_in_flight s = of_nat (fcard keys)
     \<and> rt_owner s Commit_Gate = None \<and> rt_owner s Vault_Mutex = None
     \<and> rt_entropy s = of_nat (fcard keys)
     \<and> is_cached (rt_idempotency s) = fmempty \<and> is_in_flight (rt_idempotency s) = keys
     \<and> (\<forall>c. c |\<notin>| keys \<longrightarrow> fmlookup (rt_cancellations s) \<lparr>rk_connection_id = c, rk_request_id = 1\<rparr> = None
          \<and> rt_connections s c = sample_peer\<lparr>cn_connection_id := c, cn_granted_features := [FEATURE_WINDOWS_HELLO]\<rparr>)"

lemma sample_dispatch:
  assumes running: "sample_running cv keys s" and c: "c |\<notin>| keys" "fcard keys < 2" and r: "OperationRequest_valid r"
      "OperationRequest_operation r \<in> {Op_RemoveWindowsHello, Op_AddAccount}" "OperationRequest_passkey_proof r = None"
  obtains t pid where "arrives (run_call sample_runtime hello me (sample_call c r)) s
      (execute sample_runtime hello me r 1 c pid (sample_registration c (rt_next_cell s)) 1000000000) t"
    "sample_running cv (finsert c keys) t" "rt_flags t = rt_flags s" "rt_owner t = rt_owner s"
proof -
  obtain header envelope where call: "sample_call c r = Call_Dispatch sample_transport c header envelope"
    by (simp add: sample_call_def)
  let ?permit = "permit_for header envelope"
  let ?store = "(rt_idempotency s)\<lparr>is_in_flight := finsert c (is_in_flight (rt_idempotency s))\<rparr>"
  let ?t = "executing_state s (rt_entropy s + 1) c ?permit (rt_platform s) ?store"
  have parts: "fh_request_id header = 1" "rq_operation envelope = OperationRequest_operation r"
    "rq_unlock_epoch envelope = 1" "rq_timeout_ms envelope = 1000" "rq_idempotency_key envelope = Some c"
    "rq_body envelope = OperationRequest_wire rfc8949 r"
    using call by (auto simp: sample_call_def)
  have permit: "rp_effective_timeout_ms ?permit = 1000" "rp_unlock_epoch ?permit = 1" "rp_request_id ?permit = 1"
    using r(2) by (auto simp: permit_for_def parts effective_timeout_def min_def)
  have "arrives (dispatch_with_admission sample_runtime hello sample_transport me c header envelope) s
    (execute sample_runtime hello me r (rp_unlock_epoch ?permit) c (cn_authenticated_process_id (rt_connections s c))
       \<lparr>rg_key = \<lparr>rk_connection_id = c, rk_request_id = rp_request_id ?permit\<rparr>, rg_cancellation = rt_next_cell s\<rparr>
       (rt_now s + unat (rp_effective_timeout_ms ?permit) * 10 ^ 6))
    (executing_state s (rt_entropy s + 1) c ?permit (tr_on_admitted sample_transport (rt_platform s)) ?store)"
  proof (rule dispatch_starts [where correlation = "replicate 16 (rt_entropy s + 1)" and key = c])
    have "fcard keys = 0 \<or> fcard keys = 1" using c(2) by linarith
    then have "rt_entropy s + 1 \<noteq> 0" using running by (auto simp: sample_running_def fcard.rep_eq)
    then show "replicate 16 (rt_entropy s + 1) \<noteq> zeros 16" by simp
    show "vl_fill (ar_libs sample_runtime) (rt_entropy s) 16 = (rt_entropy s + 1, Some (replicate 16 (rt_entropy s + 1)))"
      by (simp add: sample_fields(1) sample_vault_libs_def)
    show "OperationRequest_decode (vl_cbor (ar_libs sample_runtime)) (rq_operation envelope) (rq_body envelope) = Ok r"
      using sample_request_decodes [OF r(1)] by (simp add: sample_fields parts)
    show "admits (rt_connections s c) header envelope (rt_epoch s)"
      using sample_peer_admits [OF r(2) call] running c(1) by (simp add: sample_running_def)
    show "idempotency_reserve c (request_fingerprint sample_runtime (rq_operation envelope) (rp_unlock_epoch ?permit)
        (rq_body envelope)) (rt_idempotency s) = (?store, Reserved)"
      by (rule sample_reserves) (use running c in \<open>auto simp: sample_running_def\<close>)
    show "requires_idempotency_key (rq_operation envelope)"
      using r(2) by (auto simp: parts requires_idempotency_key_def)
  qed (use running c r(3) in \<open>simp_all add: sample_running_def permit parts\<close>)
  then have "arrives (run_call sample_runtime hello me (sample_call c r)) s
      (execute sample_runtime hello me r 1 c (cn_authenticated_process_id (rt_connections s c))
        (sample_registration c (rt_next_cell s)) 1000000000) ?t"
    using running unfolding call run_call.simps finished_def
    by (intro arrives_then) (simp add: permit sample_registration_def sample_transport_def sample_running_def)
  moreover have "sample_running cv (finsert c keys) ?t"
    using running c by (auto simp: sample_running_def executing_state_def admitted_state_def permit
        agent_state_of_def fcard_finsert_disjoint)
  moreover have "rt_flags ?t = rt_flags s" "rt_owner ?t = rt_owner s"
    using running by (auto simp: executing_state_def admitted_state_def sample_running_def)
  ultimately show thesis by (rule that)
qed

lemma sample_open_running: "sample_running cv {||} (sample_open cv)"
  by (simp add: sample_running_def sample_open_def sample_start_def agent_state_of_def decode_state_def
      IdempotencyState_new_def fcard.rep_eq)

lemma sample_open_now: "sample_running cv keys s \<Longrightarrow> still_open s 1 (sample_registration c cell) 1000000000"
  by (simp add: sample_running_def still_open_def sample_registration_def)

lemma sample_add_commits:
  assumes "sample_running cv keys s" and "agent_add_website_account sample_vault_libs (\<lambda>_. memory_database) 2000
      sample_account_input (sample_agent [112] cv, sample_world cv) = (s', Ok i)"
  shows "reaches_commit (\<lambda>before_commit now polls.
    agent_add_website_account_with_before_commit_and_check (ar_libs sample_runtime) (ar_databases sample_runtime) now
      sample_account_input polls before_commit) (rt_unix_ms s) (rt_polls s) (rt_vault s)"
  using add_reaches_commit [OF assms(2)] assms(1) by (simp add: sample_running_def sample_runtime_def)

lemma execute_starts:
  assumes "\<not> rt_cancelled s (rg_cancellation registration)" and "rt_now s < deadline"
  shows "arrives (remove_windows_hello R hello me epoch registration deadline) s q t
      \<Longrightarrow> arrives (execute R hello me Req_RemoveWindowsHello epoch c pid registration deadline) s q t"
    and "arrives (add_account (ar_libs R) (ar_databases R) me f epoch registration deadline) s q t
      \<Longrightarrow> arrives (execute R hello me (Req_AddAccount f) epoch c pid registration deadline) s q t"
  using assms unfolding execute_def Let_def is_cancelled_def thread_then_simps
  by (rule_tac [!] arrives_act, simp_all, rule_tac [!] arrives_act) simp_all

lemma sample_removal:
  assumes "authenticated_vault_binding (sample_agent [112] cv) = Some binding"
  obtains t cell where "arrives (run_call sample_runtime (Some (sample_hello (sample_agent [112] cv))) 0
      (sample_call c Req_RemoveWindowsHello)) (sample_open cv)
      (remove_enrollment sample_runtime (sample_hello (sample_agent [112] cv)) 0 binding [1] 1
        (sample_registration c cell) 1000000000) t"
    "sample_running cv {|c|} t"
proof -
  let ?hello = "sample_hello (sample_agent [112] cv)" and ?cell = "rt_next_cell (sample_open cv)"
  obtain t pid where t: "arrives (run_call sample_runtime (Some ?hello) 0 (sample_call c Req_RemoveWindowsHello))
      (sample_open cv) (execute sample_runtime (Some ?hello) 0 Req_RemoveWindowsHello 1 c pid
        (sample_registration c ?cell) 1000000000) t"
    "sample_running cv {|c|} t" "rt_flags t = rt_flags (sample_open cv)" "rt_owner t = rt_owner (sample_open cv)"
    by (rule sample_dispatch [OF sample_open_running [of cv], of c Req_RemoveWindowsHello "Some ?hello" 0]) simp_all
  let ?u = "(set_flag Hello_Active True t)\<lparr>rt_owner := (rt_owner t)(Hello_Gate := Some 0), rt_platform := ()\<rparr>"
  have "arrives (remove_windows_hello sample_runtime (Some ?hello) 0 1 (sample_registration c ?cell) 1000000000) t
      (remove_enrollment sample_runtime ?hello 0 binding [1] 1 (sample_registration c ?cell) 1000000000) ?u"
    by (rule removal_starts [OF sample_open_now [OF t(2)]])
      (use t assms in \<open>auto simp: sample_running_def sample_hello_def sample_open_def sample_start_def\<close>)
  then have "arrives (execute sample_runtime (Some ?hello) 0 Req_RemoveWindowsHello 1 c pid
      (sample_registration c ?cell) 1000000000) t
      (remove_enrollment sample_runtime ?hello 0 binding [1] 1 (sample_registration c ?cell) 1000000000) ?u"
    by (rule execute_starts(1) [rotated 2]) (use t(2) in \<open>simp_all add: sample_running_def\<close>)
  moreover have "sample_running cv {|c|} ?u"
    using t(2) by (auto simp: sample_running_def set_flag_def agent_state_of_def)
  ultimately show thesis using that arrives_trans [OF t(1)] by blast
qed

lemma sample_mutation:
  assumes "sample_running cv {|c|} s" and "d \<noteq> c"
    and "agent_add_website_account sample_vault_libs (\<lambda>_. memory_database) 2000
      sample_account_input (sample_agent [112] cv, sample_world cv) = (s', Ok i)"
  obtains t where "arrives (run_call sample_runtime hello me (sample_call d (Req_AddAccount sample_fields_added))) s
      (lock_mutex me Commit_Gate) t" "rt_owner t Commit_Gate = None" "\<not> rt_poisoned t Commit_Gate"
    "rt_owner t Vault_Mutex = Some me" "still_open t 1 (sample_registration c cell) 1000000000"
proof -
  let ?cell = "rt_next_cell s"
  obtain t pid where t: "arrives (run_call sample_runtime hello me (sample_call d (Req_AddAccount sample_fields_added))) s
      (execute sample_runtime hello me (Req_AddAccount sample_fields_added) 1 d pid (sample_registration d ?cell)
        1000000000) t"
    "sample_running cv {|d, c|} t"
    by (rule sample_dispatch [OF assms(1), of d "Req_AddAccount sample_fields_added" hello me])
      (use assms(2) in \<open>simp_all add: sample_fields_valid fcard_finsert_disjoint\<close>)
  let ?u = "(set_flag Mutation_Active True t)\<lparr>rt_owner := (rt_owner t)(Vault_Mutex := Some me)\<rparr>"
  have "arrives (add_account (ar_libs sample_runtime) (ar_databases sample_runtime) me sample_fields_added 1
      (sample_registration d ?cell) 1000000000) t (lock_mutex me Commit_Gate) ?u"
    by (rule mutation_comes_to_gate [OF sample_open_now [OF t(2)] _ _ _ _ sample_add_commits [OF t(2) assms(3)]])
      (use t(2) sample_fields_input in \<open>simp_all add: sample_running_def sample_fields\<close>)
  then have "arrives (execute sample_runtime hello me (Req_AddAccount sample_fields_added) 1 d pid
      (sample_registration d ?cell) 1000000000) t (lock_mutex me Commit_Gate) ?u"
    by (rule execute_starts(2) [rotated 2]) (use t(2) in \<open>simp_all add: sample_running_def\<close>)
  moreover have "rt_owner ?u Commit_Gate = None" "\<not> rt_poisoned ?u Commit_Gate" "rt_owner ?u Vault_Mutex = Some me"
    "still_open ?u 1 (sample_registration c cell) 1000000000"
    using t(2) by (auto simp: sample_running_def set_flag_def still_open_def agent_state_of_def)
  ultimately show thesis using that arrives_trans [OF t(1)] by blast
qed

section \<open>The deadlock\<close>

text \<open>C9: two requests can stop the agent for ever. From a started agent, a client that removes the
  Windows Hello enrollment and one that adds an account can be interleaved so that the first holds
  the commit gate and waits for the vault while the second holds the vault and waits for the gate;
  in every continuation neither of them acts again, and the gate, which every later request needs
  for its admission, stays taken.\<close>

theorem gate_and_vault_deadlock:
  "\<exists>cv hello c d f ls s pool. let R = sample_runtime; s0 = sample_open cv;
      calls = (\<lambda>_. Return ())(0 := run_call R hello 0 (sample_call c Req_RemoveWindowsHello),
        1 := run_call R hello 1 (sample_call d (Req_AddAccount f)))
    in agent_started (s0, \<lambda>_. Return ()) \<and> run_of (runtime_step R hello) (s0, \<lambda>_. Return ()) [None, None] (s0, calls)
      \<and> run_of (runtime_step R hello) (s0, calls) ls (s, pool)
      \<and> (\<forall>ls' s' pool'. run_of (runtime_step R hello) (s, pool) ls' (s', pool')
          \<longrightarrow> Some 0 \<notin> set ls' \<and> Some 1 \<notin> set ls' \<and> rt_owner s' Commit_Gate = Some 0
            \<and> rt_owner s' Vault_Mutex = Some 1)"
proof (rule sample_agent)
  fix cv
  let ?L = sample_vault_libs and ?R = sample_runtime and ?a = "sample_agent [112] cv"
  let ?hello = "Some (sample_hello ?a)" and ?c = "replicate 16 7 :: bytes" and ?d = "replicate 16 8 :: bytes"
  assume inv: "agent_inv ?L [112] id (uv_root_key (cv_session cv)) (?a, sample_world cv)"
    and commit: "can_commit (cv_session cv) 2000"
    and alloc: "allocate_record_id ?L (cv_session cv) 10 = (11, Ok (replicate 16 11))"
  obtain s' i where add: "agent_add_website_account ?L (\<lambda>_. memory_database) 2000 sample_account_input
      (?a, sample_world cv) = (s', Ok i)"
    using memory_agent.add_then_get [OF sample_available inv _ _ _ commit sample_input_ok,
        of "\<lparr>op_session_id = 1, op_authorization_epoch = 1\<rparr>" 2000 11 "replicate 16 11"] alloc
    by (auto simp: sample_agent_def sample_world_def begin_operation_def unix_time_ms_def)
  obtain binding where binding: "authenticated_vault_binding ?a = Some binding"
    by (simp add: authenticated_vault_binding_def sample_agent_def)
  obtain t cell where removal: "arrives (run_call ?R ?hello 0 (sample_call ?c Req_RemoveWindowsHello)) (sample_open cv)
      (remove_enrollment ?R (sample_hello ?a) 0 binding [1] 1 (sample_registration ?c cell) 1000000000) t"
    "sample_running cv {|?c|} t"
    by (rule sample_removal [OF binding])
  have other: "?d \<noteq> ?c" by (simp add: replicate_eq_replicate)
  obtain u where mutation: "arrives (run_call ?R ?hello 1 (sample_call ?d (Req_AddAccount sample_fields_added))) t
      (lock_mutex 1 Commit_Gate) u" "rt_owner u Commit_Gate = None" "\<not> rt_poisoned u Commit_Gate"
      "rt_owner u Vault_Mutex = Some 1" "still_open u 1 (sample_registration ?c cell) 1000000000"
    by (rule sample_mutation [OF removal(2) other add])
  have started: "agent_started (sample_open cv, \<lambda>_. Return ())"
    by (simp add: agent_started_def sample_open_def sample_start_def inv_new)
  let ?calls = "(\<lambda>_. Return ())(0 := run_call ?R ?hello 0 (sample_call ?c Req_RemoveWindowsHello),
      1 := run_call ?R ?hello 1 (sample_call ?d (Req_AddAccount sample_fields_added)))"
  have called: "run_of (runtime_step ?R ?hello) (sample_open cv, \<lambda>_. Return ()) [None, None] (sample_open cv, ?calls)"
    by (rule calls_start) simp
  obtain ls s pool ki kj where met: "run_of (runtime_step ?R ?hello) (sample_open cv, ?calls) ls (s, pool)"
    "pool 0 = thread_then (lock_mutex 0 Vault_Mutex) ki" "pool 1 = thread_then (lock_mutex 1 Commit_Gate) kj"
    "rt_owner s Commit_Gate = Some 0" "rt_owner s Vault_Mutex = Some 1"
    using gate_and_vault_meet [OF _ _ _ removal(1) mutation, of ?calls ?hello] by auto
  have "Some 0 \<notin> set ls' \<and> Some 1 \<notin> set ls' \<and> rt_owner s' Commit_Gate = Some 0 \<and> rt_owner s' Vault_Mutex = Some 1"
    if "run_of (runtime_step ?R ?hello) (s, pool) ls' (s', pool')" for ls' s' pool'
    using wait_for_each_other [OF that agent_reached_safe [OF run_append [OF called met(1)] started] _ met(4,5,2,3)]
    by simp
  with started called met(1) show ?thesis
    unfolding Let_def
    by (intro exI [of _ cv] exI [of _ ?hello] exI [of _ ?c] exI [of _ ?d] exI [of _ sample_fields_added]
        exI [of _ ls] exI [of _ s] exI [of _ pool] conjI allI impI) auto
qed

theorem gate_and_vault_deadlock_witness:
  "\<exists>cv hello ls s pool. run_of (runtime_step sample_runtime hello) (sample_open cv, \<lambda>_. Return ()) ls (s, pool)
    \<and> rt_owner s Commit_Gate = Some 0 \<and> rt_owner s Vault_Mutex = Some 1"
  using gate_and_vault_deadlock unfolding Let_def by (meson run_append run_Nil)

end
