(* ===== verification/Runtime_Rollback.thy ===== *)
theory Runtime_Rollback
  imports Runtime_Pool
begin

text \<open>
  The cleanup of passkey creations whose peer went away ends. When nobody else acts, each round
  removes a creation or is the last one, so one round more than there are creations to remove is
  enough, and the cleanup gives back every mutex it took.
\<close>

section \<open>What a thread that nobody disturbs ends with\<close>

definition ends :: "('s, 'a) thread \<Rightarrow> 's \<Rightarrow> ('s \<Rightarrow> 'a \<Rightarrow> bool) \<Rightarrow> bool" where
  "ends p s Q \<longleftrightarrow> (case run_alone p s of None \<Rightarrow> False | Some (s', x) \<Rightarrow> Q s' x)"

lemma ends_simps:
  "ends (Return x) s Q = Q s x"
  "ends (atomically f) s Q = Q (fst (f s)) (snd (f s))"
  "ends (observe g) s Q = Q s (g s)"
  "ends (lock_mutex me m) t R \<longleftrightarrow> rt_owner t m = None
     \<and> R (t\<lparr>rt_owner := (rt_owner t)(m := Some me)\<rparr>) (rt_poisoned t m)"
  "ends (thread_then p k) s Q = ends p s (\<lambda>s' x. ends (k x) s' Q)"
  by (auto simp: ends_def run_alone_simps run_alone_then lock_mutex_def split: option.split prod.splits)

lemma ends_mono: "ends p s Q \<Longrightarrow> (\<And>s' x. Q s' x \<Longrightarrow> Q' s' x) \<Longrightarrow> ends p s Q'"
  by (auto simp: ends_def split: option.splits)

lemma ends_any_of: "ends (any_of checks) s Q = Q s (\<exists>c \<in> set checks. c s)"
  by (induction checks) (auto simp: any_of_def ends_simps)

lemma ends_release:
  "ends (release_mutex m b) s Q = Q (s\<lparr>rt_owner := (rt_owner s)(m := None),
     rt_poisoned := (rt_poisoned s)(m := (rt_poisoned s m \<or> b))\<rparr>) ()"
  by (simp add: release_mutex_def ends_simps)

section \<open>One round\<close>

definition to_remove :: "('d, 'e, 'p, 'i) runtime \<Rightarrow> pending_passkey_creation_key fset" where
  "to_remove s = ffilter (\<lambda>k. case fmlookup (rt_pending_passkey_creations s) k of
     None \<Rightarrow> False | Some p \<Rightarrow> pn_disconnected p) (fmdom (rt_pending_passkey_creations s))"

lemma first_disconnected_in:
  assumes "first_disconnected (rt_pending_passkey_creations s) = Some (key, pending)"
  shows "key |\<in>| to_remove s"
proof -
  let ?keys = "(\<lambda>k. (pk_connection_id k, pk_transaction_id k)) |`| to_remove s"
  obtain c t rest where "sorted_list_of_fset ?keys = (c, t) # rest" and key: "key = \<lparr>pk_connection_id = c, pk_transaction_id = t\<rparr>"
    using assms by (auto simp: first_disconnected_def to_remove_def Let_def split: list.splits)
  then have "(c, t) \<in> set (sorted_list_of_fset ?keys)" by simp
  then obtain k where "k |\<in>| to_remove s" "c = pk_connection_id k" "t = pk_transaction_id k" by auto
  then show ?thesis by (cases k) (simp add: key)
qed

lemma remove_one:
  assumes "key |\<in>| to_remove s" and "rt_pending_passkey_creations s' = fmdrop key (rt_pending_passkey_creations s)"
  shows "Suc (fcard (to_remove s')) = fcard (to_remove s)"
proof -
  have "to_remove s' = to_remove s |-| {|key|}"
    using assms(2) by (auto simp: to_remove_def split: option.splits if_splits)
  then show ?thesis using fcard_Suc_fminus1 [OF assms(1)] by simp
qed

lemma gate_ends:
  assumes "rt_owner s Commit_Gate = None"
  shows "ends (take_commit_gate me (rollback_check e key pending)) s (\<lambda>s' r.
    rt_owner s' = (rt_owner s)(Commit_Gate := (if r = Ok () then Some me else None))
    \<and> rt_pending_passkey_creations s' = rt_pending_passkey_creations s)"
  using assms
  by (simp add: take_commit_gate_def rollback_check_def pending_is_exact_def thread_try_def ends_simps
      ends_any_of ends_release)

text \<open>From the vault's answer on: the gate is held when the commit was allowed.\<close>

definition round_arms ::
    "pending_passkey_creation_key \<Rightarrow> pending_passkey_creation \<Rightarrow> (unit, account_error) result
       \<Rightarrow> ('d, 'e, 'p, 'i, cleanup_round) work" where
  "round_arms key pending r = (case r of
      Panic \<Rightarrow> Return Panic
    | Err Acc_Aborted \<Rightarrow> Return (Ok Round_Stopped)
    | Err Acc_Locked \<Rightarrow> Return (Ok Round_Stopped)
    | Err Acc_Failed \<Rightarrow> thread_then vault_lock (\<lambda>_. Return (Ok Round_Failed))
    | Err Acc_Conflict \<Rightarrow> Return (Err Dispatch_Internal)
    | _ \<Rightarrow> thread_try (remove_pending key) (\<lambda>removed.
        Return (if removed \<noteq> Some pending then Err Dispatch_Internal else Ok Round_Done)))"

lemma arms_ends:
  "ends (round_arms key pending r) s (\<lambda>s' q. rt_owner s' = rt_owner s
    \<and> (q = Ok Round_Done \<longrightarrow> rt_pending_passkey_creations s' = fmdrop key (rt_pending_passkey_creations s)))"
  by (auto simp: round_arms_def ends_simps vault_lock_def thread_try_def remove_pending_def in_section_def
      split: result.split account_error.split)

lemma release_failed_ends:
  assumes "rt_owner s Commit_Gate = (if held then Some me else None)"
  shows "ends (release_failed_commit_guard held r) s (\<lambda>s' h.
    rt_owner s' = (rt_owner s)(Commit_Gate := (if h then Some me else None))
    \<and> rt_pending_passkey_creations s' = rt_pending_passkey_creations s)"
  using assms
  by (auto simp: release_failed_commit_guard_def ends_simps ends_release fun_eq_iff split: result.split)

lemma settle_ends:
  assumes "rt_owner s Commit_Gate = (if held then Some me else None)"
  shows "ends (thread_then (release_failed_commit_guard held r) (\<lambda>held.
      thread_then (round_arms key pending r) (\<lambda>q.
      thread_then (release_mutex Vault_Mutex (q = Panic)) (\<lambda>_.
      thread_then (if held then release_mutex Commit_Gate (q = Panic) else Return ()) (\<lambda>_. Return q))))) s
    (\<lambda>s' q. rt_owner s' = (rt_owner s)(Commit_Gate := None, Vault_Mutex := None)
    \<and> (q = Ok Round_Done \<longrightarrow> rt_pending_passkey_creations s' = fmdrop key (rt_pending_passkey_creations s)))"
  unfolding ends_simps(5)
  by (rule ends_mono [OF release_failed_ends [OF assms]], rule ends_mono [OF arms_ends])
    (auto simp: ends_simps ends_release fun_eq_iff split: if_splits)

lemma commit_ends:
  assumes "rt_owner s Commit_Gate = None"
  shows "ends (commit_in_vault me (rollback_check e key pending) call (round_arms key pending)) s
    (\<lambda>s' r. rt_owner s' = (rt_owner s)(Vault_Mutex := None)
    \<and> (r = Ok Round_Done \<longrightarrow> rt_pending_passkey_creations s' = fmdrop key (rt_pending_passkey_creations s)))"
proof -
  have gate: "ends (if b then take_commit_gate me (rollback_check e key pending) else Return (Err Storage_Aborted)) s
      (\<lambda>s' r. rt_owner s' = (rt_owner s)(Commit_Gate := (if r = Ok () then Some me else None))
        \<and> rt_pending_passkey_creations s' = rt_pending_passkey_creations s)" for b
    using gate_ends [OF assms] assms by (auto simp: ends_simps fun_eq_iff)
  show ?thesis
    unfolding commit_in_vault_def ends_simps(5) [of "observe _"] ends_simps(3) case_prod_conv
      ends_simps(5) [of "if _ then _ else _"]
    by (rule ends_mono [OF gate], subst ends_simps(5), simp add: vault_call_def ends_simps(2) case_prod_unfold,
        rule ends_mono [OF settle_ends])
      (use assms in \<open>auto simp: fun_eq_iff\<close>)
qed

lemma round_ends:
  assumes "rt_owner s Commit_Gate = None" and "rt_owner s Vault_Mutex = None"
  shows "ends (rollback_round L S me key pending e) s (\<lambda>s' r. rt_owner s' = rt_owner s
    \<and> (r = Ok Round_Done \<longrightarrow> rt_pending_passkey_creations s' = fmdrop key (rt_pending_passkey_creations s)))"
proof -
  have owner: "(rt_owner s)(Vault_Mutex := None) = rt_owner s" using assms(2) by (auto simp: fun_eq_iff)
  have "ends (commit_in_vault me (rollback_check e key pending) call (round_arms key pending))
      (s\<lparr>rt_owner := (rt_owner s)(Vault_Mutex := Some me)\<rparr>)
      (\<lambda>s' r. rt_owner s' = rt_owner s
        \<and> (r = Ok Round_Done \<longrightarrow> rt_pending_passkey_creations s' = fmdrop key (rt_pending_passkey_creations s)))" for call
    using commit_ends [of "s\<lparr>rt_owner := (rt_owner s)(Vault_Mutex := Some me)\<rparr>"] assms(1) owner by simp
  then show ?thesis
    using assms(2) owner
    unfolding rollback_round_def mutate_in_vault_def round_arms_def [symmetric]
    by (simp add: ends_simps ends_any_of ends_release)
qed

section \<open>The loop\<close>

lemma first_disconnected_none:
  assumes "first_disconnected (rt_pending_passkey_creations s) = None"
  shows "to_remove s = {||}"
proof (rule ccontr)
  let ?keys = "(\<lambda>k. (pk_connection_id k, pk_transaction_id k)) |`| to_remove s"
  assume "to_remove s \<noteq> {||}"
  then have "fset ?keys \<noteq> {}" by auto
  then have "set (sorted_list_of_fset ?keys) \<noteq> {}" by simp
  then obtain c t rest where list: "sorted_list_of_fset ?keys = (c, t) # rest"
    by (cases "sorted_list_of_fset ?keys") auto
  then have "(c, t) \<in> set (sorted_list_of_fset ?keys)" by simp
  then obtain k where "k |\<in>| to_remove s" "c = pk_connection_id k" "t = pk_transaction_id k" by auto
  then have "\<lparr>pk_connection_id = c, pk_transaction_id = t\<rparr> |\<in>| to_remove s" by (cases k) simp
  then show False
    using assms list by (auto simp: first_disconnected_def to_remove_def Let_def split: list.splits option.splits)
qed

lemma fail_closed_ends:
  assumes "rt_owner s Commit_Gate = None"
  shows "ends (fail_closed me) s (\<lambda>s' r. rt_owner s' = rt_owner s)"
proof -
  have "(rt_owner s)(Commit_Gate := None) = rt_owner s" using assms by (auto simp: fun_eq_iff)
  then show ?thesis
    using assms by (simp add: fail_closed_def with_mutex_def with_mutex_or_def ends_simps ends_release
        set_locked_unless_shutting_down_def thread_try_def advance_epoch_def increment_epoch_def in_section_def
        cancel_cells_def split: option.split result.split)
qed

lemma loop_ends:
  fixes s :: "('d, 'e, 'p, 'i) runtime"
  assumes "fcard (to_remove s) < rounds" and "rt_owner s Commit_Gate = None" and "rt_owner s Vault_Mutex = None"
  shows "ends (rollback_loop L S V me rounds) s (\<lambda>s' r. rt_owner s' = rt_owner s
    \<and> (r = Ok True \<longrightarrow> to_remove s' = {||}))"
  using assms
proof (induction rounds arbitrary: s)
  case (Suc rounds)
  let ?Q = "\<lambda>s' r. rt_owner s' = rt_owner s \<and> (r = Ok True \<longrightarrow> to_remove s' = {||})"
  show ?case
  proof (cases "first_disconnected (rt_pending_passkey_creations s)")
    case None
    then show ?thesis
      using first_disconnected_none [OF None] by (simp add: thread_try_def in_section_def ends_simps)
  next
    case (Some x)
    obtain key pending where x: "x = (key, pending)" by force
    have key: "key |\<in>| to_remove s" using first_disconnected_in Some x by blast
    have round: "ends (thread_try (rollback_round L S me key pending e) (\<lambda>round. case round of
           Round_Done \<Rightarrow> rollback_loop L S V me rounds
         | Round_Stopped \<Rightarrow> Return (Ok False)
         | Round_Failed \<Rightarrow> thread_try (fail_closed me) (\<lambda>_. Return (Err Dispatch_Internal)))) (s\<lparr>rt_platform := p\<rparr>) ?Q"
      for e p
    proof -
      let ?s = "s\<lparr>rt_platform := p\<rparr>"
      have again: "ends (rollback_loop L S V me rounds) s' ?Q"
        if "rt_owner s' = rt_owner ?s" "rt_pending_passkey_creations s' = fmdrop key (rt_pending_passkey_creations ?s)"
        for s' :: "('d, 'e, 'p, 'i) runtime"
        using Suc.IH [of s'] remove_one [OF key, of s'] that Suc.prems by simp
      have closed: "ends (thread_try (fail_closed me) (\<lambda>_. Return (Err Dispatch_Internal))) s' ?Q"
        if "rt_owner s' = rt_owner ?s" for s' :: "('d, 'e, 'p, 'i) runtime"
        unfolding thread_try_def ends_simps(5)
        by (rule ends_mono [OF fail_closed_ends])
          (use that Suc.prems in \<open>auto simp: ends_simps split: result.split\<close>)
      show ?thesis
        unfolding thread_try_def [of "rollback_round _ _ _ _ _ _"] ends_simps(5)
        by (rule ends_mono [OF round_ends])
          (use Suc.prems again closed in \<open>auto simp: ends_simps split: result.split cleanup_round.split\<close>)
    qed
    show ?thesis
      using Some x round [unfolded thread_try_def]
      unfolding rollback_loop.simps thread_try_def
      by (simp add: in_section_def ends_simps ends_any_of platform_call_def load_epoch_def
          case_prod_unfold)
  qed
qed simp

section \<open>Property\<close>

text \<open>C11: the cleanup of passkey creations whose peer went away terminates. When nobody else acts and
  its mutexes are free, one round more than there are such creations is enough for it to return,
  whatever the vault, the database and the platform answer; it gives back every mutex, and when it
  reports success no such creation is left.\<close>

theorem rollback_terminates:
  assumes "rt_owner s Cleanup_Gate = None" and "rt_owner s Vault_Mutex = None" and "rt_owner s Commit_Gate = None"
    and "fcard (to_remove s) < rounds"
  shows "\<exists>s' r. run_alone (rollback_disconnected_passkey_creations L S V me rounds) s = Some (s', r)
    \<and> rt_owner s' = rt_owner s \<and> (r = Ok True \<longrightarrow> to_remove s' = {||})"
proof -
  let ?s = "s\<lparr>rt_owner := (rt_owner s)(Cleanup_Gate := Some me)\<rparr>"
  have owner: "(rt_owner s)(Cleanup_Gate := None) = rt_owner s" using assms(1) by (auto simp: fun_eq_iff)
  have "to_remove ?s = to_remove s" by (simp add: to_remove_def)
  then have "ends (rollback_loop L S V me rounds) ?s (\<lambda>s' r. rt_owner s' = rt_owner ?s
      \<and> (r = Ok True \<longrightarrow> to_remove s' = {||}))"
    by (intro loop_ends) (use assms in simp_all)
  then have "ends (rollback_disconnected_passkey_creations L S V me rounds) s
      (\<lambda>s' r. rt_owner s' = rt_owner s \<and> (r = Ok True \<longrightarrow> to_remove s' = {||}))"
    using assms(1) owner
    unfolding rollback_disconnected_passkey_creations_def with_mutex_def with_mutex_or_def
    by (auto simp: ends_simps ends_release to_remove_def elim!: ends_mono)
  then show ?thesis by (auto simp: ends_def split: option.splits)
qed

theorem rollback_terminates_witness:
  "\<exists>s' r. run_alone (rollback_disconnected_passkey_creations sample_vault_libs (\<lambda>_. memory_database)
        platform_passkey_request_verifier 3 2)
      (sample_start\<lparr>rt_pending_passkey_creations :=
        fmupd \<lparr>pk_connection_id = replicate 16 9, pk_transaction_id = replicate 16 1\<rparr>
          \<lparr>pn_credential_id = replicate 32 4, pn_authenticated_process_id = 5, pn_unlock_epoch = 0,
           pn_confirmed = False, pn_disconnected = True\<rparr> fmempty\<rparr>) = Some (s', r)
    \<and> (\<forall>m. rt_owner s' m = None) \<and> (r = Ok True \<longrightarrow> to_remove s' = {||})"
  (is "\<exists>s' r. run_alone ?p ?s = _ \<and> _")
proof -
  have "to_remove ?s |\<subseteq>| {|\<lparr>pk_connection_id = replicate 16 9, pk_transaction_id = replicate 16 1\<rparr>|}"
    by (auto simp: to_remove_def)
  then have "fcard (to_remove ?s) \<le> 1"
    by (drule_tac fcard_mono) (simp add: fcard.rep_eq)
  then have few: "fcard (to_remove ?s) < 2" by simp
  have free: "rt_owner ?s m = None" for m by (simp add: sample_fields)
  obtain s' r where "run_alone ?p ?s = Some (s', r)" "rt_owner s' = rt_owner ?s" "r = Ok True \<longrightarrow> to_remove s' = {||}"
    using rollback_terminates [OF free free free few] by blast
  with free show ?thesis by (intro exI [of _ s'] exI [of _ r]) simp
qed

end
