(* ===== verification/Ipc_Pipe.thy ===== *)
theory Ipc_Pipe
  imports Runtime_State Host_Protocol "HOL-Library.Multiset"
begin

text \<open>
  The pipe transport of the agent (platform/windows-ipc/src/platform.rs): the pool of listeners that
  authenticates a process before it hands out a connection, the back-off after refused processes, the
  two ends of a connection, and the transfer of frames over short reads and writes. The calls of
  Windows and the clock are parameters; a handle is whatever Windows hands out.
\<close>

section \<open>Data\<close>

datatype transport_error =
    Transport_AccessDenied | Transport_PeerExited | Transport_Timeout | Transport_MalformedFrame
  | Transport_ResourceLimit | Transport_ListenerLost | Transport_Unavailable | Transport_Internal

record token_observation =
  tk_session_id :: u32
  tk_user_sid :: bytes
  tk_logon_sid :: bytes
  tk_integrity_rid :: u32
  tk_elevated :: bool
  tk_app_container :: bool
  tk_package_full_name :: "bytes option"
  tk_package_family_name :: "bytes option"
  tk_application_user_model_id :: "bytes option"

definition TokenObservation_from_peer :: "peer_observation \<Rightarrow> token_observation" where
  "TokenObservation_from_peer ob =
     \<lparr>tk_session_id = po_session_id ob, tk_user_sid = po_user_sid ob, tk_logon_sid = po_logon_sid ob,
      tk_integrity_rid = po_integrity_rid ob, tk_elevated = po_elevated ob,
      tk_app_container = po_app_container ob, tk_package_full_name = po_package_full_name ob,
      tk_package_family_name = po_package_family_name ob,
      tk_application_user_model_id = po_application_user_model_id ob\<rparr>"

record 'h peer_handle =
  ph_process :: 'h
  ph_observation :: peer_observation

text \<open>
  The calls: the clock and \<open>sleep\<close>; \<open>accept_listener_pool\<close>; the token of a client read while
  impersonating it; the process at either end of a pipe; the observation of a process; \<open>CreateFileW\<close>,
  which gives a handle or says whether all instances are busy; \<open>WaitNamedPipeW\<close>; \<open>read_once\<close> and
  \<open>write_once\<close>, one overlapped transfer that ends at the deadline or with the peer; the last input and
  the session of the desktop.
\<close>

record ('w, 'h) pipe_calls =
  wc_now :: "'w \<Rightarrow> 'w \<times> instant"
  wc_sleep :: "nat \<Rightarrow> 'w \<Rightarrow> 'w"
  wc_accept_listener :: "'h list \<Rightarrow> nat \<Rightarrow> 'w \<Rightarrow> 'w \<times> (nat, transport_error) result"
  wc_client_token :: "'h \<Rightarrow> 'w \<Rightarrow> 'w \<times> (token_observation, transport_error) result"
  wc_client_process_id :: "'h \<Rightarrow> 'w \<Rightarrow> 'w \<times> u32 option"
  wc_server_process_id :: "'h \<Rightarrow> 'w \<Rightarrow> 'w \<times> u32 option"
  wc_observe_process :: "u32 \<Rightarrow> 'w \<Rightarrow> 'w \<times> ('h peer_handle, transport_error) result"
  wc_disconnect :: "'h \<Rightarrow> 'w \<Rightarrow> 'w \<times> bool"
  wc_process_running :: "'h \<Rightarrow> 'w \<Rightarrow> 'w \<times> bool"
  wc_create_file :: "bytes \<Rightarrow> 'w \<Rightarrow> 'w \<times> (bool + 'h)"
  wc_wait_named_pipe :: "bytes \<Rightarrow> u32 \<Rightarrow> 'w \<Rightarrow> 'w \<times> bool"
  wc_read_once :: "'h \<Rightarrow> 'h \<Rightarrow> nat \<Rightarrow> instant \<Rightarrow> 'w \<Rightarrow> 'w \<times> (bytes, transport_error) result"
  wc_write_once :: "'h \<Rightarrow> 'h \<Rightarrow> bytes \<Rightarrow> instant \<Rightarrow> 'w \<Rightarrow> 'w \<times> (nat, transport_error) result"
  wc_session_flags :: "'w \<Rightarrow> 'w \<times> (u32 \<times> int) option"
  wc_input_ticks :: "'w \<Rightarrow> 'w \<times> (u32 \<times> u32) option"

record authentication_throttle =
  at_consecutive_failures :: u32
  at_resume_at :: "instant option"

record 'h listener_pool =
  lp_pipe_name :: bytes
  lp_listeners :: "'h list"
  lp_authentication_throttle :: authentication_throttle

text \<open>The two gates of a connection serialize its readers and its writers.\<close>

record 'h pipe_connection =
  pn_pipe :: 'h
  pn_peer :: "'h peer_handle"
  pn_server_side :: bool
  pn_component_role :: component_role
  pn_read_gate_poisoned :: bool
  pn_write_gate_poisoned :: bool

section \<open>Lifecycle signals\<close>

definition session_flags_are_unlocked :: "u32 \<Rightarrow> int \<Rightarrow> (bool, transport_error) result" where
  "session_flags_are_unlocked level flags =
     (if level \<noteq> 1 then Err Transport_Internal
      else if flags < 0 then Err Transport_Internal
      else if flags = 1 then Ok True
      else if flags = 0 then Ok False
      else Err Transport_Internal)"

definition power_event_requires_shutdown :: "u32 \<Rightarrow> bool" where
  "power_event_requires_shutdown event \<longleftrightarrow> event \<in> {0x4, 0x12, 0x6, 0x8, 0x7}"

definition INACTIVITY_LOCK_TIMEOUT :: nat where "INACTIVITY_LOCK_TIMEOUT = 15 * 60 * 10 ^ 9"

definition idle_duration_reached :: "u32 \<Rightarrow> u32 \<Rightarrow> nat \<Rightarrow> bool" where
  "idle_duration_reached now last_input timeout =
     (let timeout_ms = timeout div 10 ^ 6 in
      if 2 ^ 32 \<le> timeout_ms then True else of_nat timeout_ms \<le> now - last_input)"

definition current_session_is_unlocked ::
    "('w, 'h) pipe_calls \<Rightarrow> 'w \<Rightarrow> 'w \<times> (bool, transport_error) result" where
  "current_session_is_unlocked W w = (case wc_session_flags W w of
     (w, None) \<Rightarrow> (w, Err Transport_Internal)
   | (w, Some (level, flags)) \<Rightarrow> (w, session_flags_are_unlocked level flags))"

definition inactivity_requires_shutdown ::
    "('w, 'h) pipe_calls \<Rightarrow> 'w \<Rightarrow> 'w \<times> (bool, transport_error) result" where
  "inactivity_requires_shutdown W w = (case wc_input_ticks W w of
     (w, None) \<Rightarrow> (w, Err Transport_Internal)
   | (w, Some (last_input, now)) \<Rightarrow> (w, Ok (idle_duration_reached now last_input INACTIVITY_LOCK_TIMEOUT)))"

text \<open>\<open>signalled\<close> is the flag that the callback of a suspend or resume sets.\<close>

definition shutdown_requested ::
    "('w, 'h) pipe_calls \<Rightarrow> bool \<Rightarrow> bool \<Rightarrow> 'w \<Rightarrow> 'w \<times> (bool, transport_error) result" where
  "shutdown_requested W signalled inactivity_sensitive w =
     (if signalled then (w, Ok True)
      else agent_then (current_session_is_unlocked W w) (\<lambda>w unlocked.
        if \<not> unlocked then (w, Ok True)
        else if inactivity_sensitive then inactivity_requires_shutdown W w
        else (w, Ok False)))"

section \<open>Names of pipes\<close>

definition PIPE_NAME_PREFIX :: bytes where
  "PIPE_NAME_PREFIX = [0x5C, 0x5C] @ ascii ''.'' @ [0x5C] @ ascii ''pipe'' @ [0x5C] @ ascii ''LOCAL''
     @ [0x5C] @ ascii ''Librarian.Agent.v1.''"

definition random_pipe_name :: "bytes option \<Rightarrow> (bytes, transport_error) result" where
  "random_pipe_name drawn = and_then (ok_or Transport_Internal drawn) (\<lambda>random.
     if random = zeros 16 then Err Transport_Internal else Ok (PIPE_NAME_PREFIX @ hex_encode random))"

definition strip_prefix :: "bytes \<Rightarrow> bytes \<Rightarrow> bytes option" where
  "strip_prefix p s = (if take (length p) s = p then Some (drop (length p) s) else None)"

definition valid_local_pipe_name :: "bytes \<Rightarrow> bool" where
  "valid_local_pipe_name pipe_name = (case strip_prefix PIPE_NAME_PREFIX pipe_name of
     None \<Rightarrow> False
   | Some suffix \<Rightarrow> length suffix = 32
       \<and> list_all (\<lambda>b. (0x30 \<le> b \<and> b \<le> 0x39) \<or> (0x61 \<le> b \<and> b \<le> 0x66)) suffix
       \<and> list_ex (\<lambda>b. b \<noteq> 0x30) suffix)"

section \<open>The back-off after refused processes\<close>

definition AUTHENTICATION_BACKOFF_BASE :: nat where "AUTHENTICATION_BACKOFF_BASE = 25 * 10 ^ 6"
definition AUTHENTICATION_BACKOFF_MAXIMUM :: nat where "AUTHENTICATION_BACKOFF_MAXIMUM = 10 ^ 9"

definition checked_duration_since :: "instant \<Rightarrow> instant \<Rightarrow> nat option" where
  "checked_duration_since later earlier = (if earlier \<le> later then Some (later - earlier) else None)"

definition record_failure :: "instant \<Rightarrow> authentication_throttle \<Rightarrow> authentication_throttle" where
  "record_failure now t =
     (let failures = (if at_consecutive_failures t = - 1 then - 1 else at_consecutive_failures t + 1);
          exponent = min (unat failures - 1) 31;
          multiplier = (if exponent < 32 then push_bit exponent 1 else - 1 :: u32);
          delay = min (AUTHENTICATION_BACKOFF_BASE * unat multiplier) AUTHENTICATION_BACKOFF_MAXIMUM
      in \<lparr>at_consecutive_failures = failures, at_resume_at = instant_checked_add now delay\<rparr>)"

definition record_success :: "authentication_throttle \<Rightarrow> authentication_throttle" where
  "record_success t = \<lparr>at_consecutive_failures = 0, at_resume_at = None\<rparr>"

definition remaining_delay :: "instant \<Rightarrow> authentication_throttle \<Rightarrow> nat" where
  "remaining_delay now t = (case Option.bind (at_resume_at t) (\<lambda>resume_at. checked_duration_since resume_at now) of
     None \<Rightarrow> 0 | Some d \<Rightarrow> d)"

definition wait_until_allowed ::
    "('w, 'h) pipe_calls \<Rightarrow> authentication_throttle \<Rightarrow> instant \<Rightarrow> 'w \<Rightarrow> 'w \<times> (unit, transport_error) result" where
  "wait_until_allowed W t deadline w = (case wc_now W w of (w, now) \<Rightarrow>
     (let delay = remaining_delay now t in
      if delay = 0 then (w, Ok ())
      else pure_then w (ok_or Transport_Timeout (checked_duration_since deadline now)) (\<lambda>remaining.
        if remaining < delay
        then ((if remaining \<noteq> 0 then wc_sleep W remaining w else w), Err Transport_Timeout)
        else (wc_sleep W delay w, Ok ()))))"

section \<open>Deadlines and identities\<close>

definition deadline_after ::
    "('w, 'h) pipe_calls \<Rightarrow> nat \<Rightarrow> 'w \<Rightarrow> 'w \<times> (instant, transport_error) result" where
  "deadline_after W timeout w = (case wc_now W w of (w, now) \<Rightarrow>
     (w, ok_or Transport_Timeout (instant_checked_add now timeout)))"

definition duration_millis :: "nat \<Rightarrow> u32" where
  "duration_millis d = (if d div 10 ^ 6 < 2 ^ 32 then of_nat (d div 10 ^ 6) else - 1)"

datatype peer_side = Side_Client | Side_Server

definition token_matches_peer :: "token_observation \<Rightarrow> peer_observation \<Rightarrow> bool" where
  "token_matches_peer token ob \<longleftrightarrow> token = TokenObservation_from_peer ob"

definition observe_pipe_peer ::
    "('w, 'h) pipe_calls \<Rightarrow> 'h \<Rightarrow> peer_side \<Rightarrow> 'w \<Rightarrow> 'w \<times> ('h peer_handle, transport_error) result" where
  "observe_pipe_peer W pipe side w =
     agent_then (case side of
         Side_Client \<Rightarrow> keeping Some (wc_client_token W pipe w)
       | Side_Server \<Rightarrow> (w, Ok None)) (\<lambda>w bound_client_token.
     case (case side of Side_Client \<Rightarrow> wc_client_process_id W pipe w
                      | Side_Server \<Rightarrow> wc_server_process_id W pipe w) of
       (w, process_id) \<Rightarrow>
         if process_id = None \<or> process_id = Some 0 then (w, Err Transport_AccessDenied)
         else agent_then (wc_observe_process W (the process_id) w) (\<lambda>w peer.
           if (case bound_client_token of
                 None \<Rightarrow> False
               | Some token \<Rightarrow> \<not> token_matches_peer token (ph_observation peer))
           then (w, Err Transport_AccessDenied)
           else (w, Ok peer)))"

fun map_peer_error :: "peer_authorization_error \<Rightarrow> transport_error" where
  "map_peer_error InvalidPolicySet = Transport_Internal"
| "map_peer_error ProcessExited = Transport_PeerExited"
| "map_peer_error _ = Transport_AccessDenied"

section \<open>The pool of listeners\<close>

text \<open>\<open>Vec::swap_remove\<close> for an index in range.\<close>

definition swap_remove :: "nat \<Rightarrow> 'a list \<Rightarrow> 'a list" where
  "swap_remove i xs = butlast (xs[i := last xs])"

definition lose_listeners ::
    "'h listener_pool \<times> 'w \<Rightarrow> ('h listener_pool \<times> 'w) \<times> ('a, transport_error) result" where
  "lose_listeners s = (apfst (\<lambda>pool. pool\<lparr>lp_listeners := []\<rparr>) s, Err Transport_ListenerLost)"

definition recycle_rejected ::
    "('w, 'h) pipe_calls \<Rightarrow> 'h \<Rightarrow> 'h listener_pool \<times> 'w
       \<Rightarrow> ('h listener_pool \<times> 'w) \<times> (unit, transport_error) result" where
  "recycle_rejected W pipe s = (case wc_disconnect W pipe (snd s) of (w, disconnected) \<Rightarrow>
     if \<not> disconnected then lose_listeners (fst s, w)
     else (((fst s)\<lparr>lp_listeners := lp_listeners (fst s) @ [pipe]\<rparr>, w), Ok ()))"

text \<open>The refusal of a process: its listener goes back to the pool, and the back-off grows.\<close>

definition refuse_peer ::
    "('w, 'h) pipe_calls \<Rightarrow> 'h \<Rightarrow> transport_error \<Rightarrow> 'h listener_pool \<times> 'w
       \<Rightarrow> ('h listener_pool \<times> 'w) \<times> ('a, transport_error) result" where
  "refuse_peer W pipe error s =
     agent_then (recycle_rejected W pipe s) (\<lambda>(pool, w) _. case wc_now W w of (w, now) \<Rightarrow>
       ((pool\<lparr>lp_authentication_throttle := record_failure now (lp_authentication_throttle pool)\<rparr>, w),
        Err error))"

definition authenticate_peer ::
    "('w, 'h) pipe_calls \<Rightarrow> peer_policy list \<Rightarrow> 'h \<Rightarrow> 'h listener_pool \<times> 'w
       \<Rightarrow> ('h listener_pool \<times> 'w) \<times> ('h pipe_connection, transport_error) result" where
  "authenticate_peer W policies pipe s =
     (case observe_pipe_peer W pipe Side_Client (snd s) of
        (w, Ok peer) \<Rightarrow>
          (case map_err map_peer_error (authorize_client_role (ph_observation peer) policies) of
             Ok role \<Rightarrow>
               (case wc_process_running W (ph_process peer) w of (w, alive) \<Rightarrow>
                  if \<not> alive
                  then agent_then (recycle_rejected W pipe (fst s, w)) (\<lambda>s _. (s, Err Transport_PeerExited))
                  else (((fst s)\<lparr>lp_authentication_throttle := record_success (lp_authentication_throttle (fst s))\<rparr>, w),
                    Ok \<lparr>pn_pipe = pipe, pn_peer = peer, pn_server_side = True,
                        pn_component_role = ComponentRole_from role,
                        pn_read_gate_poisoned = False, pn_write_gate_poisoned = False\<rparr>))
           | Err error \<Rightarrow> refuse_peer W pipe error (fst s, w)
           | Panic \<Rightarrow> ((fst s, w), Panic))
      | (w, Err error) \<Rightarrow> refuse_peer W pipe error (fst s, w)
      | (w, Panic) \<Rightarrow> ((fst s, w), Panic))"

definition accept ::
    "('w, 'h) pipe_calls \<Rightarrow> peer_policy list \<Rightarrow> nat \<Rightarrow> 'h listener_pool \<times> 'w
       \<Rightarrow> ('h listener_pool \<times> 'w) \<times> ('h pipe_connection, transport_error) result" where
  "accept W policies timeout s = (case s of (pool, w) \<Rightarrow>
     if lp_listeners pool = [] then (s, Err Transport_ResourceLimit) else
     case agent_then (deadline_after W timeout w) (\<lambda>w deadline.
          agent_then (wait_until_allowed W (lp_authentication_throttle pool) deadline w) (\<lambda>w _.
          case wc_now W w of (w, now) \<Rightarrow>
            (w, ok_or Transport_Timeout (checked_duration_since deadline now)))) of
       (w, Ok accept_timeout) \<Rightarrow>
         (case wc_accept_listener W (lp_listeners pool) accept_timeout w of
            (w, Ok selected) \<Rightarrow>
              if length (lp_listeners pool) \<le> selected then lose_listeners (pool, w)
              else authenticate_peer W policies (lp_listeners pool ! selected)
                (pool\<lparr>lp_listeners := swap_remove selected (lp_listeners pool)\<rparr>, w)
          | (w, Err error) \<Rightarrow>
              if error = Transport_Timeout then ((pool, w), Err Transport_Timeout)
              else lose_listeners (pool, w)
          | (w, Panic) \<Rightarrow> ((pool, w), Panic))
     | (w, Err error) \<Rightarrow> ((pool, w), Err error)
     | (w, Panic) \<Rightarrow> ((pool, w), Panic))"

definition recycle ::
    "('w, 'h) pipe_calls \<Rightarrow> 'h pipe_connection \<Rightarrow> 'h listener_pool \<times> 'w
       \<Rightarrow> ('h listener_pool \<times> 'w) \<times> (unit, transport_error) result" where
  "recycle W connection s =
     (if \<not> pn_server_side connection \<or> MAX_CONNECTIONS \<le> length (lp_listeners (fst s))
      then (s, Err Transport_ListenerLost)
      else case wc_disconnect W (pn_pipe connection) (snd s) of (w, disconnected) \<Rightarrow>
        if \<not> disconnected then lose_listeners (fst s, w)
        else (((fst s)\<lparr>lp_listeners := lp_listeners (fst s) @ [pn_pipe connection]\<rparr>, w), Ok ()))"

section \<open>Connections\<close>

definition observe_pipe_client :: "'h pipe_connection \<Rightarrow> ('h peer_handle, transport_error) result" where
  "observe_pipe_client connection =
     (if \<not> pn_server_side connection then Err Transport_Internal else Ok (pn_peer connection))"

definition observe_pipe_server :: "'h pipe_connection \<Rightarrow> ('h peer_handle, transport_error) result" where
  "observe_pipe_server connection =
     (if pn_server_side connection then Err Transport_Internal else Ok (pn_peer connection))"

text \<open>The two attempts of \<open>connect\<close> to open the pipe; a name with a NUL has no wide string.\<close>

definition open_pipe ::
    "('w, 'h) pipe_calls \<Rightarrow> bytes \<Rightarrow> u32 \<Rightarrow> 'w \<Rightarrow> 'w \<times> ('h, transport_error) result" where
  "open_pipe W pipe_name timeout_ms w = (case wc_create_file W pipe_name w of
     (w, Inr pipe) \<Rightarrow> (w, Ok pipe)
   | (w, Inl busy) \<Rightarrow>
       if \<not> busy then (w, Err Transport_Unavailable)
       else case wc_wait_named_pipe W pipe_name timeout_ms w of (w, available) \<Rightarrow>
         if \<not> available then (w, Err Transport_Unavailable)
         else case wc_create_file W pipe_name w of
             (w, Inr pipe) \<Rightarrow> (w, Ok pipe)
           | (w, Inl _) \<Rightarrow> (w, Err Transport_Unavailable))"

definition connect ::
    "('w, 'h) pipe_calls \<Rightarrow> bytes \<Rightarrow> u32 \<Rightarrow> u64 \<Rightarrow> peer_policy \<Rightarrow> nat \<Rightarrow> 'w
       \<Rightarrow> 'w \<times> ('h pipe_connection, transport_error) result" where
  "connect W pipe_name expected_process_id expected_creation_time policy timeout w =
     (if pl_role policy \<noteq> Component_Agent then (w, Err Transport_Internal)
      else if \<not> valid_local_pipe_name pipe_name then (w, Err Transport_AccessDenied)
      else if 0 \<in> set pipe_name then (w, Err Transport_Internal)
      else
        agent_then (open_pipe W pipe_name (duration_millis timeout) w) (\<lambda>w pipe.
        agent_then (observe_pipe_peer W pipe Side_Server w) (\<lambda>w peer.
        if po_process_id (ph_observation peer) \<noteq> expected_process_id
           \<or> po_process_creation_time (ph_observation peer) \<noteq> expected_creation_time
        then (w, Err Transport_AccessDenied)
        else pure_then w (map_err map_peer_error (authorize_peer (ph_observation peer) policy)) (\<lambda>role.
        case wc_process_running W (ph_process peer) w of (w, alive) \<Rightarrow>
          if \<not> alive then (w, Err Transport_PeerExited)
          else (w, Ok \<lparr>pn_pipe = pipe, pn_peer = peer, pn_server_side = False, pn_component_role = role,
                       pn_read_gate_poisoned = False, pn_write_gate_poisoned = False\<rparr>)))))"

definition ensure_peer_alive ::
    "('w, 'h) pipe_calls \<Rightarrow> 'h pipe_connection \<Rightarrow> 'w \<Rightarrow> 'w \<times> (unit, transport_error) result" where
  "ensure_peer_alive W connection w = (case wc_process_running W (ph_process (pn_peer connection)) w of
     (w, alive) \<Rightarrow> (w, if alive then Ok () else Err Transport_PeerExited))"

function pipe_read_exact ::
    "('w, 'h) pipe_calls \<Rightarrow> 'h \<Rightarrow> 'h \<Rightarrow> nat \<Rightarrow> instant \<Rightarrow> 'w \<Rightarrow> 'w \<times> (bytes, transport_error) result" where
  "pipe_read_exact W pipe peer n deadline w =
     (if n = 0 then (w, Ok [])
      else case wc_read_once W pipe peer n deadline w of
        (w, Ok transferred) \<Rightarrow>
          if transferred = [] \<or> n < length transferred then (w, Err Transport_MalformedFrame)
          else keeping ((@) transferred) (pipe_read_exact W pipe peer (n - length transferred) deadline w)
      | (w, Err error) \<Rightarrow> (w, Err error)
      | (w, Panic) \<Rightarrow> (w, Panic))"
  by pat_completeness auto
termination
  by (relation "measure (\<lambda>(W, pipe, peer, n, deadline, w). n)") auto

declare pipe_read_exact.simps [simp del]

function pipe_write_all ::
    "('w, 'h) pipe_calls \<Rightarrow> 'h \<Rightarrow> 'h \<Rightarrow> bytes \<Rightarrow> instant \<Rightarrow> 'w \<Rightarrow> 'w \<times> (unit, transport_error) result" where
  "pipe_write_all W pipe peer src deadline w =
     (if src = [] then (w, Ok ())
      else case wc_write_once W pipe peer src deadline w of
        (w, Ok transferred) \<Rightarrow>
          if transferred = 0 \<or> length src < transferred then (w, Err Transport_PeerExited)
          else pipe_write_all W pipe peer (drop transferred src) deadline w
      | (w, Err error) \<Rightarrow> (w, Err error)
      | (w, Panic) \<Rightarrow> (w, Panic))"
  by pat_completeness auto
termination
  by (relation "measure (\<lambda>(W, pipe, peer, src, deadline, w). length src)") auto

declare pipe_write_all.simps [simp del]

definition pipe_read_frame ::
    "('w, 'h) pipe_calls \<Rightarrow> 'h pipe_connection \<Rightarrow> nat \<Rightarrow> 'w \<Rightarrow> 'w \<times> (frame, transport_error) result" where
  "pipe_read_frame W connection timeout w =
     (if pn_read_gate_poisoned connection then (w, Err Transport_Internal) else
      agent_then (deadline_after W timeout w) (\<lambda>w deadline.
      agent_then (pipe_read_exact W (pn_pipe connection) (ph_process (pn_peer connection)) HEADER_BYTES deadline w)
        (\<lambda>w header_bytes.
      pure_then w (map_err (\<lambda>_. Transport_MalformedFrame) (FrameHeader_decode header_bytes)) (\<lambda>header.
      agent_then (pipe_read_exact W (pn_pipe connection) (ph_process (pn_peer connection))
        (unat (fh_payload_length header)) deadline w) (\<lambda>w payload.
      pure_then w (map_err (\<lambda>_. Transport_MalformedFrame) (Frame_new header payload)) (\<lambda>frame.
      agent_then (ensure_peer_alive W connection w) (\<lambda>w _. (w, Ok frame))))))))"

definition pipe_write_frame ::
    "('w, 'h) pipe_calls \<Rightarrow> 'h pipe_connection \<Rightarrow> frame \<Rightarrow> nat \<Rightarrow> 'w \<Rightarrow> 'w \<times> (unit, transport_error) result" where
  "pipe_write_frame W connection frame timeout w =
     (if pn_write_gate_poisoned connection then (w, Err Transport_Internal) else
      agent_then (ensure_peer_alive W connection w) (\<lambda>w _.
      pure_then w (map_err (\<lambda>_. Transport_MalformedFrame) (Frame_encode frame)) (\<lambda>bs.
      agent_then (deadline_after W timeout w) (\<lambda>w deadline.
      agent_then (pipe_write_all W (pn_pipe connection) (ph_process (pn_peer connection)) bs deadline w) (\<lambda>w _.
      ensure_peer_alive W connection w)))))"

section \<open>Names and back-off\<close>

lemma hex_encode_nonzero:
  "list_ex (\<lambda>b. b \<noteq> 0x30) (hex_encode bs) \<longleftrightarrow> list_ex (\<lambda>b. b \<noteq> 0) bs"
proof (induction bs)
  case (Cons b bs)
  have char: "hex_char x = 0x30 \<longleftrightarrow> x = 0" if "x < 16" for x
    using that by (rule hex_char_zero)
  have "b = 0 \<longleftrightarrow> unat b div 16 = 0 \<and> unat b mod 16 = 0"
    by (auto simp: unat_eq_0)
  moreover have "unat b div 16 < 16" using unat_u8_less [of b] by simp
  ultimately show ?case using Cons char by simp
qed simp

lemma random_name_valid:
  assumes "random_pipe_name (Some random) = Ok name" and "length random = 16"
  shows "valid_local_pipe_name name"
proof -
  have "random \<noteq> zeros 16" "name = PIPE_NAME_PREFIX @ hex_encode random"
    using assms(1) by (simp_all add: random_pipe_name_def split: if_splits)
  moreover have "random = zeros 16" if "\<not> list_ex (\<lambda>b. b \<noteq> 0) random"
    using that assms(2) by (auto simp: list_ex_iff zeros_def intro: replicate_eqI)
  ultimately show ?thesis
    using assms(2) hex_encode_lower [of random]
    by (auto simp: valid_local_pipe_name_def strip_prefix_def hex_encode_nonzero is_lower_hex_def [abs_def])
qed

lemma unat_u32_max: "unat (- 1 :: u32) = 2 ^ 32 - 1"
  by (simp add: unsigned_minus_1_eq_mask mask_eq_exp_minus_1)

lemma record_failure_count:
  "at_consecutive_failures (record_failure now t)
     = (if at_consecutive_failures t = - 1 then - 1 else at_consecutive_failures t + 1)"
  unfolding record_failure_def Let_def authentication_throttle.simps by (rule refl)

lemma failures_counted:
  assumes "length refusals < 2 ^ 32"
  shows "unat (at_consecutive_failures (fold record_failure refusals (record_success t))) = length refusals"
  using assms
proof (induction refusals rule: rev_induct)
  case (snoc now refusals)
  let ?t = "fold record_failure refusals (record_success t)"
  have count: "unat (at_consecutive_failures ?t) = length refusals" and "length refusals + 1 < 2 ^ 32"
    using snoc by simp_all
  then have max: "at_consecutive_failures ?t \<noteq> - 1" by (auto simp: unat_u32_max)
  then have "1 + at_consecutive_failures ?t \<noteq> 0" by (metis add.commute eq_neg_iff_add_eq_0)
  then have "unat (at_consecutive_failures ?t + 1) = Suc (length refusals)"
    using unatSuc [of "at_consecutive_failures ?t"] unfolding count by (metis add.commute)
  with max show ?case by (simp only: fold_append comp_apply fold_simps record_failure_count if_False length_append_singleton)
qed (simp add: record_success_def)

lemma unat_power_two: "n < 32 \<Longrightarrow> unat ((2 :: u32) ^ n) = 2 ^ n"
proof -
  assume "n < 32"
  then have "(2 :: nat) ^ n < 2 ^ 32" by (rule power_strict_increasing) simp
  then have "unat (of_nat (2 ^ n) :: u32) = 2 ^ n" by (simp only: unat_of_nat) simp
  then show ?thesis by simp
qed

text \<open>After refusals in a row the next client waits 25 milliseconds, doubled for each further refusal,
  and never more than a second; a success forgets them.\<close>

theorem backoff_doubles_up_to_a_second:
  assumes "refusals \<noteq> []" and "length refusals < 2 ^ 32" and "last refusals + 10 ^ 9 < 2 ^ 64 * 10 ^ 9"
  shows "remaining_delay (last refusals) (fold record_failure refusals (record_success t))
      = min (25 * 10 ^ 6 * 2 ^ (length refusals - 1)) (10 ^ 9)"
    and "remaining_delay now (record_success t) = 0"
proof -
  show "remaining_delay now (record_success t) = 0"
    by (simp add: remaining_delay_def record_success_def)
  obtain earlier now where refusals: "refusals = earlier @ [now]" using assms(1) by (metis rev_exhaust)
  let ?t = "fold record_failure earlier (record_success t)" and ?n = "length earlier"
  let ?f = "if at_consecutive_failures ?t = - 1 then - 1 else at_consecutive_failures ?t + 1"
  have count: "unat ?f - 1 = ?n"
    using failures_counted [of refusals t] failures_counted [of earlier t] assms(2)
    by (simp add: refusals record_failure_def Let_def split: if_splits)
  have "min (AUTHENTICATION_BACKOFF_BASE * 2 ^ min ?n 31) AUTHENTICATION_BACKOFF_MAXIMUM
      = min (25 * 10 ^ 6 * 2 ^ ?n) (10 ^ 9)"
  proof (cases "?n \<le> 31")
    case False
    then have "(2 :: nat) ^ 31 \<le> 2 ^ ?n" by (intro power_increasing) auto
    with False show ?thesis
      by (simp add: AUTHENTICATION_BACKOFF_BASE_def AUTHENTICATION_BACKOFF_MAXIMUM_def)
  qed (simp add: AUTHENTICATION_BACKOFF_BASE_def AUTHENTICATION_BACKOFF_MAXIMUM_def)
  moreover have "min ?n 31 < 32" by simp
  ultimately show "remaining_delay (last refusals) (fold record_failure refusals (record_success t))
      = min (25 * 10 ^ 6 * 2 ^ (length refusals - 1)) (10 ^ 9)"
    using assms(3) count unfolding refusals
    by (simp add: record_failure_def Let_def remaining_delay_def instant_checked_add_def
        checked_duration_since_def unat_power_two)
qed

section \<open>The pool hands out authenticated processes\<close>

lemma swap_remove_mset:
  assumes "i < length xs"
  shows "add_mset (xs ! i) (mset (swap_remove i xs)) = mset xs"
proof -
  have "xs[i := last xs] \<noteq> []" using assms by auto
  then have "add_mset (last (xs[i := last xs])) (mset (swap_remove i xs)) = mset (xs[i := last xs])"
    unfolding swap_remove_def by (metis append_butlast_last_id mset.simps(2) mset_append union_mset_add_mset_right
      empty_neutral(2) mset.simps(1) add_mset_add_single)
  moreover have "last (xs[i := last xs]) = last xs"
    using assms last_list_update [of xs i "last xs"] by (cases xs) auto
  moreover have "mset (xs[i := last xs]) = add_mset (last xs) (mset xs - {#xs ! i#})"
    using assms by (rule mset_update)
  moreover have "xs ! i \<in># mset xs" using assms by simp
  ultimately show ?thesis by auto
qed

text \<open>What a process has shown before it gets a connection: the token it presents on the pipe is that
  of the process whose identity the policies judge.\<close>

definition authenticated ::
    "('w, 'h) pipe_calls \<Rightarrow> peer_policy list \<Rightarrow> 'h pipe_connection \<Rightarrow> bool" where
  "authenticated W policies c \<longleftrightarrow> pn_server_side c \<and> \<not> pn_read_gate_poisoned c \<and> \<not> pn_write_gate_poisoned c
     \<and> (\<exists>role. authorize_client_role (ph_observation (pn_peer c)) policies = Ok role
          \<and> pn_component_role c = ComponentRole_from role)
     \<and> (\<exists>w w'. wc_client_token W (pn_pipe c) w = (w', Ok (TokenObservation_from_peer (ph_observation (pn_peer c)))))
     \<and> (\<exists>pid w w'. pid \<noteq> 0 \<and> wc_observe_process W pid w = (w', Ok (pn_peer c)))"

lemma observed_client:
  assumes "observe_pipe_peer W pipe Side_Client w = (w', Ok peer)"
  shows "(\<exists>w w'. wc_client_token W pipe w = (w', Ok (TokenObservation_from_peer (ph_observation peer))))
    \<and> (\<exists>pid w w'. pid \<noteq> 0 \<and> wc_observe_process W pid w = (w', Ok peer))"
proof -
  obtain w1 token where token: "wc_client_token W pipe w = (w1, Ok token)"
    using assms by (cases "wc_client_token W pipe w"; cases "snd (wc_client_token W pipe w)")
      (auto simp: observe_pipe_peer_def agent_then_def keeping_def)
  obtain w2 process where process: "wc_client_process_id W pipe w1 = (w2, process)" by (rule prod.exhaust)
  with assms token obtain pid where pid: "process = Some pid" "pid \<noteq> 0"
    by (cases process) (auto simp: observe_pipe_peer_def agent_then_def keeping_def split: if_splits)
  obtain w3 r where observed: "wc_observe_process W pid w2 = (w3, r)" by (rule prod.exhaust)
  have "r = Ok peer \<and> token_matches_peer token (ph_observation peer)"
    using assms token process pid observed
    by (cases r) (auto simp: observe_pipe_peer_def agent_then_def keeping_def split: if_splits)
  with token pid observed show ?thesis unfolding token_matches_peer_def by metis
qed

text \<open>The listeners of a pool that came to nothing: all there, or all given up.\<close>

definition listeners_kept :: "'h multiset \<Rightarrow> 'h listener_pool \<Rightarrow> ('a, transport_error) result \<Rightarrow> bool" where
  "listeners_kept ls pool r \<longleftrightarrow> mset (lp_listeners pool) = ls
     \<or> r = Err Transport_ListenerLost \<and> lp_listeners pool = []"

lemma recycle_rejected_kept:
  assumes "recycle_rejected W pipe s = (s', r)"
  shows "listeners_kept (add_mset pipe (mset (lp_listeners (fst s)))) (fst s') r
    \<and> (r = Ok () \<or> r = Err Transport_ListenerLost)
    \<and> (r = Ok () \<longrightarrow> mset (lp_listeners (fst s')) = add_mset pipe (mset (lp_listeners (fst s))))"
  using assms by (cases s)
    (auto simp: recycle_rejected_def lose_listeners_def listeners_kept_def split: prod.splits if_splits)

lemma refuse_peer_kept:
  assumes "refuse_peer W pipe error s = (s', r)"
  shows "listeners_kept (add_mset pipe (mset (lp_listeners (fst s)))) (fst s') r \<and> (\<exists>e. r = Err e)"
proof -
  obtain s1 r1 where recycled: "recycle_rejected W pipe s = (s1, r1)" by (rule prod.exhaust)
  note kept = recycle_rejected_kept [OF recycled]
  show ?thesis
    using assms recycled kept
    by (auto simp: refuse_peer_def agent_then_def listeners_kept_def split: prod.splits)
qed

definition accepted_or_kept ::
    "('w, 'h) pipe_calls \<Rightarrow> peer_policy list \<Rightarrow> 'h multiset \<Rightarrow> 'h listener_pool
       \<Rightarrow> ('h pipe_connection, transport_error) result \<Rightarrow> bool" where
  "accepted_or_kept W policies ls pool r = (case r of
     Ok c \<Rightarrow> authenticated W policies c \<and> add_mset (pn_pipe c) (mset (lp_listeners pool)) = ls
       \<and> at_resume_at (lp_authentication_throttle pool) = None
   | Err e \<Rightarrow> listeners_kept ls pool r
   | Panic \<Rightarrow> True)"

lemma accepted_or_kept_Err: "(\<exists>e. r = Err e) \<and> listeners_kept ls pool r \<Longrightarrow> accepted_or_kept W policies ls pool r"
  by (auto simp: accepted_or_kept_def)

lemma authenticate_peer_outcome:
  assumes "authenticate_peer W policies pipe s = (s', r)"
  shows "accepted_or_kept W policies (add_mset pipe (mset (lp_listeners (fst s)))) (fst s') r"
proof -
  obtain w1 observed where obs: "observe_pipe_peer W pipe Side_Client (snd s) = (w1, observed)"
    by (rule prod.exhaust)
  show ?thesis
  proof (cases observed)
    case (Ok peer)
    note peer = observed_client [OF obs [unfolded Ok]]
    show ?thesis
    proof (cases "authorize_client_role (ph_observation peer) policies")
      case role: (Ok role)
      obtain w2 alive where running: "wc_process_running W (ph_process peer) w1 = (w2, alive)" by (rule prod.exhaust)
      show ?thesis
      proof (cases alive)
        case True
        let ?c = "\<lparr>pn_pipe = pipe, pn_peer = peer, pn_server_side = True,
          pn_component_role = ComponentRole_from role, pn_read_gate_poisoned = False,
          pn_write_gate_poisoned = False\<rparr>"
        have "authenticated W policies ?c" using peer role by (simp add: authenticated_def)
        moreover have "r = Ok ?c" "lp_listeners (fst s') = lp_listeners (fst s)"
          "at_resume_at (lp_authentication_throttle (fst s')) = None"
          using assms obs Ok role running True by (auto simp: authenticate_peer_def record_success_def)
        ultimately show ?thesis by (simp add: accepted_or_kept_def)
      next
        case False
        obtain s2 r2 where recycled: "recycle_rejected W pipe (fst s, w2) = (s2, r2)" by (rule prod.exhaust)
        show ?thesis using assms obs Ok role running False recycled recycle_rejected_kept [OF recycled]
          by (auto simp: authenticate_peer_def agent_then_def accepted_or_kept_def listeners_kept_def)
      qed
    next
      case (Err e)
      then have "refuse_peer W pipe (map_peer_error e) (fst s, w1) = (s', r)"
        using assms obs Ok by (simp add: authenticate_peer_def)
      then show ?thesis using refuse_peer_kept by (fastforce intro: accepted_or_kept_Err)
    next
      case Panic
      then show ?thesis using assms obs Ok by (auto simp: authenticate_peer_def accepted_or_kept_def)
    qed
  next
    case (Err e)
    then have "refuse_peer W pipe e (fst s, w1) = (s', r)"
      using assms obs by (simp add: authenticate_peer_def)
    then show ?thesis using refuse_peer_kept by (fastforce intro: accepted_or_kept_Err)
  next
    case Panic
    then show ?thesis using assms obs by (auto simp: authenticate_peer_def accepted_or_kept_def)
  qed
qed

lemma lose_listeners_outcome:
  "lose_listeners s = (s', r) \<Longrightarrow> accepted_or_kept W policies ls (fst s') r"
  by (cases s) (auto simp: lose_listeners_def accepted_or_kept_def listeners_kept_def)

lemma accept_outcome:
  assumes "accept W policies timeout (pool, w) = (s', r)"
  shows "accepted_or_kept W policies (mset (lp_listeners pool)) (fst s') r"
proof (cases "lp_listeners pool = []")
  case True
  then show ?thesis using assms by (auto simp: accept_def accepted_or_kept_def listeners_kept_def)
next
  case False
  obtain w1 before where first: "agent_then (deadline_after W timeout w) (\<lambda>w deadline.
      agent_then (wait_until_allowed W (lp_authentication_throttle pool) deadline w) (\<lambda>w _.
      case wc_now W w of (w, now) \<Rightarrow>
        (w, ok_or Transport_Timeout (checked_duration_since deadline now)))) = (w1, before)"
    by (rule prod.exhaust)
  show ?thesis
  proof (cases before)
    case (Ok accept_timeout)
    obtain w2 chosen where chosen: "wc_accept_listener W (lp_listeners pool) accept_timeout w1 = (w2, chosen)"
      by (rule prod.exhaust)
    show ?thesis
    proof (cases chosen)
      case selected: (Ok selected)
      show ?thesis
      proof (cases "selected < length (lp_listeners pool)")
        case True
        then have "authenticate_peer W policies (lp_listeners pool ! selected)
            (pool\<lparr>lp_listeners := swap_remove selected (lp_listeners pool)\<rparr>, w2) = (s', r)"
          using assms False first Ok chosen selected by (simp add: accept_def)
        from authenticate_peer_outcome [OF this] True show ?thesis by (simp add: swap_remove_mset)
      next
        case outside: False
        then have "lose_listeners (pool, w2) = (s', r)"
          using assms False first Ok chosen selected by (simp add: accept_def)
        then show ?thesis by (rule lose_listeners_outcome)
      qed
    next
      case (Err e)
      then show ?thesis using assms False first Ok chosen
        by (auto simp: accept_def lose_listeners_outcome accepted_or_kept_def [of _ _ _ pool] listeners_kept_def
            split: if_splits)
    next
      case Panic
      then show ?thesis using assms False first Ok chosen by (auto simp: accept_def accepted_or_kept_def)
    qed
  qed (use assms False first in \<open>auto simp: accept_def accepted_or_kept_def listeners_kept_def\<close>)
qed

section \<open>Interface: a pipe of bytes\<close>

lemma agent_then_eq_Ok:
  "agent_then c k = (s', Ok y) \<longleftrightarrow> (\<exists>s x. c = (s, Ok x) \<and> k s x = (s', Ok y))"
  by (cases c; cases "snd c") (auto simp: agent_then_def)

lemma pure_then_eq_Ok: "pure_then s r k = (s', Ok y) \<longleftrightarrow> (\<exists>x. r = Ok x \<and> k x = (s', Ok y))"
  by (cases r) (auto simp: pure_then_def)

text \<open>
  What a handle promises of a transfer: a read takes the next bytes of what the peer sends, and a write
  adds a prefix of what it is given to the bytes that were sent; looking at the clock or at the peer
  moves none. Nothing is promised about how many bytes one transfer moves.
\<close>

locale byte_pipe =
  fixes W :: "('w, 'h) pipe_calls"
    and arrived :: "'h \<Rightarrow> 'w \<Rightarrow> bytes"
    and sent :: "'h \<Rightarrow> 'w \<Rightarrow> bytes"
  assumes read_takes: "wc_read_once W h p n d w = (w', Ok bs) \<Longrightarrow> arrived h w = bs @ arrived h w' \<and> sent h w' = sent h w"
    and write_adds: "wc_write_once W h p bs d w = (w', Ok n) \<Longrightarrow> sent h w' = sent h w @ take n bs"
    and clock_still: "wc_now W w = (w', t) \<Longrightarrow> arrived h w' = arrived h w \<and> sent h w' = sent h w"
    and peer_still: "wc_process_running W p w = (w', b) \<Longrightarrow> arrived h w' = arrived h w \<and> sent h w' = sent h w"
begin

lemma read_exact_takes:
  "pipe_read_exact W h p n d w = (w', Ok bs) \<Longrightarrow>
     length bs = n \<and> arrived h w = bs @ arrived h w' \<and> sent h w' = sent h w"
proof (induction n arbitrary: w bs rule: less_induct)
  case (less n)
  show ?case
  proof (cases "n = 0")
    case True
    then show ?thesis using less.prems by (simp add: pipe_read_exact.simps)
  next
    case False
    with less.prems obtain w1 first where first: "wc_read_once W h p n d w = (w1, Ok first)"
        "first \<noteq> []" "length first \<le> n"
      and rest: "keeping ((@) first) (pipe_read_exact W h p (n - length first) d w1) = (w', Ok bs)"
      by (subst (asm) pipe_read_exact.simps) (auto split: prod.splits result.splits if_splits)
    then obtain bs' where "pipe_read_exact W h p (n - length first) d w1 = (w', Ok bs')" "bs = first @ bs'"
      by (cases "pipe_read_exact W h p (n - length first) d w1";
          cases "snd (pipe_read_exact W h p (n - length first) d w1)") (auto simp: keeping_def)
    moreover have "n - length first < n" using first False by (cases first) auto
    ultimately show ?thesis using less.IH [of "n - length first" w1 bs'] first read_takes [OF first(1)] by auto
  qed
qed

lemma write_all_adds:
  "pipe_write_all W h p bs d w = (w', Ok ()) \<Longrightarrow> sent h w' = sent h w @ bs"
proof (induction bs arbitrary: w rule: length_induct)
  case (1 bs)
  show ?case
  proof (cases "bs = []")
    case True
    then show ?thesis using 1 by (simp add: pipe_write_all.simps)
  next
    case False
    with "1.prems" obtain w1 n where n: "wc_write_once W h p bs d w = (w1, Ok n)" "n \<noteq> 0" "n \<le> length bs"
      and rest: "pipe_write_all W h p (drop n bs) d w1 = (w', Ok ())"
      by (subst (asm) pipe_write_all.simps) (auto split: prod.splits result.splits if_splits)
    have "length (drop n bs) < length bs" using n False by simp
    with "1.IH" rest have "sent h w' = sent h w1 @ drop n bs" by blast
    then show ?thesis by (simp add: write_adds [OF n(1)])
  qed
qed

lemma deadline_still:
  "deadline_after W timeout w = (w', r) \<Longrightarrow> arrived h w' = arrived h w \<and> sent h w' = sent h w"
  by (auto simp: deadline_after_def dest: clock_still split: prod.splits)

lemma alive_still:
  "ensure_peer_alive W c w = (w', r) \<Longrightarrow> arrived h w' = arrived h w \<and> sent h w' = sent h w"
  by (auto simp: ensure_peer_alive_def dest: peer_still split: prod.splits)

text \<open>A frame that is read is the next bytes, all of them and no more.\<close>

lemma read_frame_takes:
  assumes "pipe_read_frame W c timeout w = (w', Ok frame)"
  shows "Frame_valid frame \<and> (\<exists>bs. Frame_encode frame = Ok bs
    \<and> arrived (pn_pipe c) w = bs @ arrived (pn_pipe c) w') \<and> sent (pn_pipe c) w' = sent (pn_pipe c) w"
proof -
  let ?h = "pn_pipe c" and ?p = "ph_process (pn_peer c)"
  obtain w1 d w2 hb header w3 payload w4 where steps: "deadline_after W timeout w = (w1, Ok d)"
      "pipe_read_exact W ?h ?p HEADER_BYTES d w1 = (w2, Ok hb)" "FrameHeader_decode hb = Ok header"
      "pipe_read_exact W ?h ?p (unat (fh_payload_length header)) d w2 = (w3, Ok payload)"
      "Frame_new header payload = Ok frame" "ensure_peer_alive W c w3 = (w', Ok ())"
    using assms
    by (auto simp: pipe_read_frame_def agent_then_eq_Ok pure_then_eq_Ok result_simps split: if_splits)
  note read = read_exact_takes [OF steps(2)] read_exact_takes [OF steps(4)]
  have header: "FrameHeader_valid header" "FrameHeader_encode header = hb"
    using steps(3) by (simp_all add: header_codec.decode_iff)
  have frame: "frame = \<lparr>fr_header = header, fr_payload = payload\<rparr>"
    using steps(5) by (simp add: Frame_new_def split: if_splits)
  then have "Frame_valid frame" using header read(2) by (simp add: Frame_valid_def)
  moreover from this have "Frame_encode frame = Ok (hb @ payload)"
    by (simp add: Frame_encode_Ok frame header)
  ultimately show ?thesis
    using read deadline_still [OF steps(1), of ?h] alive_still [OF steps(6), of ?h] by auto
qed

lemma write_frame_adds:
  assumes "pipe_write_frame W c frame timeout w = (w', Ok ())"
  shows "\<exists>bs. Frame_encode frame = Ok bs \<and> sent (pn_pipe c) w' = sent (pn_pipe c) w @ bs"
proof -
  let ?h = "pn_pipe c" and ?p = "ph_process (pn_peer c)"
  obtain w1 bs w2 d w3 where steps: "ensure_peer_alive W c w = (w1, Ok ())" "Frame_encode frame = Ok bs"
      "deadline_after W timeout w1 = (w2, Ok d)" "pipe_write_all W ?h ?p bs d w2 = (w3, Ok ())"
      "ensure_peer_alive W c w3 = (w', Ok ())"
    using assms
    by (auto simp: pipe_write_frame_def agent_then_eq_Ok pure_then_eq_Ok result_simps split: if_splits)
  then show ?thesis
    using alive_still [OF steps(1), of ?h] deadline_still [OF steps(3), of ?h] write_all_adds [OF steps(4)]
      alive_still [OF steps(5), of ?h] by auto
qed

end

text \<open>A pipe whose transfers move something while the peer runs and the deadline is far.\<close>

locale live_pipe = byte_pipe W arrived sent
  for W :: "('w, 'h) pipe_calls" and arrived :: "'h \<Rightarrow> 'w \<Rightarrow> bytes" and sent :: "'h \<Rightarrow> 'w \<Rightarrow> bytes" +
  assumes read_moves: "0 < n \<Longrightarrow> arrived h w \<noteq> [] \<Longrightarrow>
      \<exists>w' bs. wc_read_once W h p n d w = (w', Ok bs) \<and> bs \<noteq> [] \<and> length bs \<le> n"
    and write_moves: "bs \<noteq> [] \<Longrightarrow> \<exists>w' n. wc_write_once W h p bs d w = (w', Ok n) \<and> 0 < n \<and> n \<le> length bs"
    and peer_runs: "snd (wc_process_running W p w)"
    and clock_bounded: "snd (wc_now W w) < 2 ^ 63 * 10 ^ 9"
begin

lemma read_exact_gets:
  "arrived h w = bs @ rest \<Longrightarrow> \<exists>w'. pipe_read_exact W h p (length bs) d w = (w', Ok bs)"
proof (induction bs arbitrary: w rule: length_induct)
  case (1 bs)
  show ?case
  proof (cases "bs = []")
    case False
    then obtain w1 first where first: "wc_read_once W h p (length bs) d w = (w1, Ok first)"
        "first \<noteq> []" "length first \<le> length bs"
      using read_moves [of "length bs" h w p d] "1.prems" by auto
    with read_takes [OF first(1)] "1.prems" have eq: "first @ arrived h w1 = bs @ rest" by simp
    then have "first = take (length first) bs" and w1: "arrived h w1 = drop (length first) bs @ rest"
      using first(3) by (auto simp: append_eq_append_conv_if)
    then have bs: "bs = first @ drop (length first) bs" by (metis append_take_drop_id)
    have "length (drop (length first) bs) < length bs" using first(2) False by simp
    with "1.IH" w1 obtain w' where "pipe_read_exact W h p (length (drop (length first) bs)) d w1 = (w', Ok (drop (length first) bs))"
      by blast
    then show ?thesis using first False bs
      by (subst pipe_read_exact.simps) (auto simp: keeping_def)
  qed (simp add: pipe_read_exact.simps)
qed

lemma write_all_puts: "\<exists>w'. pipe_write_all W h p bs d w = (w', Ok ())"
proof (induction bs arbitrary: w rule: length_induct)
  case (1 bs)
  show ?case
  proof (cases "bs = []")
    case False
    then obtain w1 n where n: "wc_write_once W h p bs d w = (w1, Ok n)" "0 < n" "n \<le> length bs"
      using write_moves by blast
    then have "length (drop n bs) < length bs" using False by simp
    then obtain w' where "pipe_write_all W h p (drop n bs) d w1 = (w', Ok ())" using "1.IH" by blast
    then show ?thesis using n False by (subst pipe_write_all.simps) auto
  qed (simp add: pipe_write_all.simps)
qed

lemma alive_runs: "\<exists>w'. ensure_peer_alive W c w = (w', Ok ())"
  using peer_runs [of "ph_process (pn_peer c)" w] by (auto simp: ensure_peer_alive_def split: prod.splits)

lemma deadline_runs: "timeout \<le> 2 ^ 63 * 10 ^ 9 \<Longrightarrow> \<exists>w' d. deadline_after W timeout w = (w', Ok d)"
  using clock_bounded [of w] by (auto simp: deadline_after_def instant_checked_add_def split: prod.splits)

lemma read_frame_gets:
  assumes "arrived (pn_pipe c) w = bs @ rest" and "Frame_valid frame" and "Frame_encode frame = Ok bs"
    and "timeout \<le> 2 ^ 63 * 10 ^ 9" and "\<not> pn_read_gate_poisoned c"
  shows "\<exists>w'. pipe_read_frame W c timeout w = (w', Ok frame) \<and> arrived (pn_pipe c) w' = rest"
proof -
  let ?h = "pn_pipe c" and ?p = "ph_process (pn_peer c)" and ?hb = "FrameHeader_encode (fr_header frame)"
  have header: "FrameHeader_valid (fr_header frame)"
    and payload: "unat (fh_payload_length (fr_header frame)) = length (fr_payload frame)"
    using assms(2) by (simp_all add: Frame_valid_def)
  have bs: "bs = ?hb @ fr_payload frame" using assms(2,3) by (simp add: Frame_encode_Ok)
  obtain w1 d where d: "deadline_after W timeout w = (w1, Ok d)" using deadline_runs [OF assms(4)] by blast
  then have w1: "arrived ?h w1 = ?hb @ (fr_payload frame @ rest)"
    using deadline_still assms(1) bs by simp
  then obtain w2 where w2: "pipe_read_exact W ?h ?p HEADER_BYTES d w1 = (w2, Ok ?hb)"
    using read_exact_gets [OF w1, of ?p d] length_FrameHeader_encode [OF header] by auto
  then have "arrived ?h w2 = fr_payload frame @ rest" using read_exact_takes [OF w2] w1 by simp
  then obtain w3 where w3: "pipe_read_exact W ?h ?p (length (fr_payload frame)) d w2 = (w3, Ok (fr_payload frame))"
    using read_exact_gets [of ?h w2 "fr_payload frame" rest ?p d] by auto
  obtain w4 where w4: "ensure_peer_alive W c w3 = (w4, Ok ())" using alive_runs by blast
  have "pipe_read_frame W c timeout w = (w4, Ok frame)"
    using assms(5) d w2 w3 w4 FrameHeader_decode_complete [OF header] payload
    by (simp add: pipe_read_frame_def agent_then_def pure_then_def Frame_new_def)
  moreover from read_frame_takes [OF this] assms(1,3) have "arrived ?h w4 = rest" by auto
  ultimately show ?thesis by blast
qed

lemma write_frame_puts:
  assumes "Frame_valid frame" and "timeout \<le> 2 ^ 63 * 10 ^ 9" and "\<not> pn_write_gate_poisoned c"
  shows "\<exists>w'. pipe_write_frame W c frame timeout w = (w', Ok ())"
proof -
  obtain w1 where w1: "ensure_peer_alive W c w = (w1, Ok ())" using alive_runs by blast
  obtain w2 d where w2: "deadline_after W timeout w1 = (w2, Ok d)" using deadline_runs [OF assms(2)] by blast
  obtain w3 where w3: "pipe_write_all W (pn_pipe c) (ph_process (pn_peer c))
      (FrameHeader_encode (fr_header frame) @ fr_payload frame) d w2 = (w3, Ok ())"
    using write_all_puts by blast
  obtain w4 where "ensure_peer_alive W c w3 = (w4, Ok ())" using alive_runs by blast
  with w1 w2 w3 show ?thesis
    using assms by (simp add: pipe_write_frame_def agent_then_def pure_then_def Frame_encode_Ok)
qed

end

section \<open>Frames cross the pipe\<close>

primrec write_frames ::
    "('w, 'h) pipe_calls \<Rightarrow> 'h pipe_connection \<Rightarrow> nat \<Rightarrow> frame list \<Rightarrow> 'w \<Rightarrow> 'w \<times> (unit, transport_error) result" where
  "write_frames W c timeout [] w = (w, Ok ())"
| "write_frames W c timeout (f # fs) w =
     agent_then (pipe_write_frame W c f timeout w) (\<lambda>w _. write_frames W c timeout fs w)"

primrec read_frames ::
    "('w, 'h) pipe_calls \<Rightarrow> 'h pipe_connection \<Rightarrow> nat \<Rightarrow> nat \<Rightarrow> 'w \<Rightarrow> 'w \<times> (frame list, transport_error) result" where
  "read_frames W c timeout 0 w = (w, Ok [])"
| "read_frames W c timeout (Suc n) w =
     agent_then (pipe_read_frame W c timeout w) (\<lambda>w f. keeping ((#) f) (read_frames W c timeout n w))"

context live_pipe
begin

lemma frames_written:
  assumes "\<forall>f \<in> set fs. Frame_valid f" and "timeout \<le> 2 ^ 63 * 10 ^ 9" and "\<not> pn_write_gate_poisoned c"
  shows "\<exists>w'. write_frames W c timeout fs w = (w', Ok ())
    \<and> sent (pn_pipe c) w' = sent (pn_pipe c) w @ concat (map (\<lambda>f. FrameHeader_encode (fr_header f) @ fr_payload f) fs)"
  using assms(1)
proof (induction fs arbitrary: w)
  case (Cons f fs)
  then obtain w1 where w1: "pipe_write_frame W c f timeout w = (w1, Ok ())"
    using write_frame_puts assms(2,3) by force
  with Cons write_frame_adds [OF w1] obtain w' where "write_frames W c timeout fs w1 = (w', Ok ())"
    "sent (pn_pipe c) w' = sent (pn_pipe c) w1 @ concat (map (\<lambda>f. FrameHeader_encode (fr_header f) @ fr_payload f) fs)"
    by fastforce
  with w1 write_frame_adds [OF w1] Cons.prems show ?case
    by (auto simp: agent_then_def Frame_encode_Ok)
qed simp

lemma frames_read:
  assumes "\<forall>f \<in> set fs. Frame_valid f" and "timeout \<le> 2 ^ 63 * 10 ^ 9" and "\<not> pn_read_gate_poisoned c"
    and "arrived (pn_pipe c) w = concat (map (\<lambda>f. FrameHeader_encode (fr_header f) @ fr_payload f) fs) @ rest"
  shows "\<exists>w'. read_frames W c timeout (length fs) w = (w', Ok fs) \<and> arrived (pn_pipe c) w' = rest"
  using assms(1,4)
proof (induction fs arbitrary: w)
  case (Cons f fs)
  then have "Frame_encode f = Ok (FrameHeader_encode (fr_header f) @ fr_payload f)" "Frame_valid f"
    by (simp_all add: Frame_encode_Ok)
  then obtain w1 where "pipe_read_frame W c timeout w = (w1, Ok f)"
    "arrived (pn_pipe c) w1 = concat (map (\<lambda>f. FrameHeader_encode (fr_header f) @ fr_payload f) fs) @ rest"
    using read_frame_gets [of c w _ _ f timeout] assms(2,3) Cons.prems(2) by fastforce
  with Cons show ?case by (fastforce simp: agent_then_def keeping_def)
qed simp

end

text \<open>A pipe in memory that moves at most three bytes at a time.\<close>

definition memory_pipe :: "(bytes \<times> bytes, nat) pipe_calls" where
  "memory_pipe = \<lparr>wc_now = (\<lambda>w. (w, 7)), wc_sleep = (\<lambda>_ w. w), wc_accept_listener = (\<lambda>_ _ w. (w, Ok 0)),
     wc_client_token = (\<lambda>_ w. (w, Ok (TokenObservation_from_peer sample_observation))),
     wc_client_process_id = (\<lambda>_ w. (w, Some 77)), wc_server_process_id = (\<lambda>_ w. (w, Some 77)),
     wc_observe_process = (\<lambda>_ w. (w, Ok \<lparr>ph_process = 9, ph_observation = sample_observation\<rparr>)),
     wc_disconnect = (\<lambda>_ w. (w, True)), wc_process_running = (\<lambda>_ w. (w, True)),
     wc_create_file = (\<lambda>_ w. (w, Inr 4)), wc_wait_named_pipe = (\<lambda>_ _ w. (w, True)),
     wc_read_once = (\<lambda>_ _ n _ w. ((drop (min n 3) (fst w), snd w), Ok (take (min n 3) (fst w)))),
     wc_write_once = (\<lambda>_ _ bs _ w. ((fst w, snd w @ take 3 bs), Ok (min 3 (length bs)))),
     wc_session_flags = (\<lambda>w. (w, Some (1, 1))), wc_input_ticks = (\<lambda>w. (w, Some (0, 0)))\<rparr>"

interpretation memory: live_pipe memory_pipe "\<lambda>_. fst" "\<lambda>_. snd"
  by unfold_locales (auto simp: memory_pipe_def min_def split: if_splits)

definition sample_end :: "nat pipe_connection" where
  "sample_end = \<lparr>pn_pipe = 1, pn_peer = \<lparr>ph_process = 9, ph_observation = sample_observation\<rparr>,
     pn_server_side = True, pn_component_role = Component_Desktop,
     pn_read_gate_poisoned = False, pn_write_gate_poisoned = False\<rparr>"

definition sample_cancel :: frame where
  "sample_cancel = \<lparr>fr_header = \<lparr>fh_kind = Kind_Cancel, fh_version = Version 1 3, fh_payload_length = 0,
     fh_connection_id = replicate 16 5, fh_request_id = 9\<rparr>, fr_payload = []\<rparr>"

text \<open>C26: frames cross a pipe. However few bytes Windows moves in one transfer, writing valid
  frames while the peer runs succeeds and puts a byte string on the pipe from which the other end,
  reading as many frames, gets the same frames in the same order and takes not a byte of what follows.\<close>

theorem frames_cross_the_pipe:
  fixes W :: "('w, 'h) pipe_calls"
  assumes "live_pipe W arrived sent" and "\<forall>f \<in> set fs. Frame_valid f" and "timeout \<le> 2 ^ 63 * 10 ^ 9"
    and "\<not> pn_write_gate_poisoned a" and "\<not> pn_read_gate_poisoned b"
  shows "\<exists>v bs. write_frames W a timeout fs w = (v, Ok ()) \<and> sent (pn_pipe a) v = sent (pn_pipe a) w @ bs
    \<and> (\<forall>u rest. arrived (pn_pipe b) u = bs @ rest
         \<longrightarrow> (\<exists>u'. read_frames W b timeout (length fs) u = (u', Ok fs) \<and> arrived (pn_pipe b) u' = rest))"
  using live_pipe.frames_written [OF assms(1-4), of w] live_pipe.frames_read [OF assms(1-3,5)] by blast

theorem frames_cross_the_pipe_witness:
  "\<exists>v bs. write_frames memory_pipe sample_end 1000 [sample_cancel, sample_cancel] ([], []) = (v, Ok ()) \<and> snd v = bs
    \<and> (\<exists>u'. read_frames memory_pipe sample_end 1000 2 (bs @ [1, 2], []) = (u', Ok [sample_cancel, sample_cancel])
        \<and> fst u' = [1, 2])"
proof -
  have "Frame_valid sample_cancel" by (simp add: sample_cancel_def Frame_valid_def FrameHeader_valid_def
      validate_kind_fields_def)
  then obtain v bs where "write_frames memory_pipe sample_end 1000 [sample_cancel, sample_cancel] ([], []) = (v, Ok ())"
    "snd v = bs" "\<forall>u rest. fst u = bs @ rest \<longrightarrow> (\<exists>u'. read_frames memory_pipe sample_end 1000 2 u
        = (u', Ok [sample_cancel, sample_cancel]) \<and> fst u' = rest)"
    using frames_cross_the_pipe [OF memory.live_pipe_axioms, of "[sample_cancel, sample_cancel]" 1000 sample_end
        sample_end "([], [])"]
    by (auto simp: sample_end_def numeral_2_eq_2)
  then show ?thesis by (metis fst_conv)
qed

end
