(* ===== verification/Agent_Process.thy ===== *)
theory Agent_Process
  imports Runtime_Pool Ipc_Pipe
begin

text \<open>
  The process around the runtime (crates/vault-agent/src/main.rs): what the agent demands of its own
  identity, the policies it derives from it for its three clients, the endpoint it publishes, the
  handshake of an accepted connection, the reader of its frames, the worker of a request, and the frame
  of a response. The main loop, which accepts connections and starts threads, is not modelled. Paths of
  Windows, the files of the process and \<open>std::thread\<close> are parameters.
\<close>

section \<open>Data\<close>

datatype host_error = Host_Identity | Host_LocalState | Host_Runtime | Host_Discovery | Host_Transport

record host_paths =
  hp_vault :: path
  hp_windows_hello_state :: path
  hp_endpoint :: path

text \<open>
  \<open>Path::file_name\<close>, \<open>parent\<close>, \<open>join\<close> and \<open>is_absolute\<close> of Windows; the environment; the files of the
  process: whether a path, links followed or not, is a directory, the creation of a directory, and the
  opening and reading of an image.
\<close>

record ('p, 'f) host_calls =
  hc_file_name :: "path \<Rightarrow> path option"
  hc_parent :: "path \<Rightarrow> path option"
  hc_join :: "path \<Rightarrow> path \<Rightarrow> path"
  hc_is_absolute :: "path \<Rightarrow> bool"
  hc_local_app_data :: "'p \<Rightarrow> path option"
  hc_is_directory :: "path \<Rightarrow> 'p \<Rightarrow> bool"
  hc_is_directory_itself :: "path \<Rightarrow> 'p \<Rightarrow> bool"
  hc_create_dir :: "path \<Rightarrow> 'p \<Rightarrow> 'p \<times> (unit, io_kind) result"
  hc_open :: "path \<Rightarrow> 'p \<Rightarrow> 'p \<times> 'f option"
  hc_read :: "'f \<Rightarrow> nat \<Rightarrow> 'p \<Rightarrow> 'p \<times> bytes option"

text \<open>
  \<open>ListenerPool::create\<close> and the store of the endpoint descriptor; a thread for a request, started with
  its header and envelope, and the wait for its word on the channel it was given.
\<close>

record ('p, 'h) host_services =
  hs_create_pool :: "'p \<Rightarrow> 'p \<times> ('h listener_pool, transport_error) result"
  hs_publish :: "endpoint_descriptor \<Rightarrow> 'p \<Rightarrow> 'p \<times> bool"
  hs_spawn :: "frame_header \<Rightarrow> request_envelope \<Rightarrow> 'p \<Rightarrow> 'p"
  hs_admission :: "nat \<Rightarrow> 'p \<Rightarrow> 'p \<times> bool option"
  hs_report :: "bool \<Rightarrow> 'p \<Rightarrow> 'p"

definition AGENT_EXECUTABLE :: path where "AGENT_EXECUTABLE = wide ''Librarian.VaultAgent.exe''"
definition DESKTOP_EXECUTABLE :: path where "DESKTOP_EXECUTABLE = wide ''Librarian.Windows.exe''"
definition NATIVE_HOST_EXECUTABLE :: path where
  "NATIVE_HOST_EXECUTABLE = wide ''Librarian.ChromiumNativeHost.exe''"
definition PASSKEY_PROVIDER_EXECUTABLE :: path where
  "PASSKEY_PROVIDER_EXECUTABLE = wide ''Librarian.PasskeyProvider.exe''"
definition MEDIUM_INTEGRITY_RID :: u32 where "MEDIUM_INTEGRITY_RID = 0x2000"
definition FRAME_READ_TIMEOUT :: nat where "FRAME_READ_TIMEOUT = 125 * 10 ^ 9"
definition FRAME_WRITE_TIMEOUT :: nat where "FRAME_WRITE_TIMEOUT = 2 * 10 ^ 9"
definition HANDSHAKE_TIMEOUT_MS :: nat where "HANDSHAKE_TIMEOUT_MS = 2000"

section \<open>The identity of the agent and of its clients\<close>

text \<open>\<open>OsStr::eq_ignore_ascii_case\<close> on UTF-16 units.\<close>

definition wide_eq_ignore_ascii_case :: "path \<Rightarrow> path \<Rightarrow> bool" where
  "wide_eq_ignore_ascii_case a b \<longleftrightarrow>
     map (\<lambda>u. if 0x41 \<le> u \<and> u \<le> 0x5A then u + 0x20 else u) a
     = map (\<lambda>u. if 0x41 \<le> u \<and> u \<le> 0x5A then u + 0x20 else u) b"

definition validate_agent ::
    "('p, 'f) host_calls \<Rightarrow> peer_observation \<Rightarrow> (bytes \<times> bytes \<times> path, host_error) result" where
  "validate_agent F ob =
     and_then (ok_or Host_Identity (po_package_full_name ob)) (\<lambda>package_full_name.
     and_then (ok_or Host_Identity (po_package_family_name ob)) (\<lambda>package_family_name.
     let expected_application = package_family_name @ ascii ''!VaultAgent'';
         valid_image = (case hc_file_name F (po_image_path ob) of
             None \<Rightarrow> False | Some name \<Rightarrow> wide_eq_ignore_ascii_case name AGENT_EXECUTABLE)
     in if po_elevated ob \<or> po_app_container ob \<or> po_integrity_rid ob \<noteq> MEDIUM_INTEGRITY_RID
           \<or> po_application_user_model_id ob \<noteq> Some expected_application \<or> \<not> valid_image
        then Err Host_Identity
        else and_then (ok_or Host_Identity (hc_parent F (po_image_path ob))) (\<lambda>install_root.
          Ok (package_full_name, package_family_name, install_root))))"

text \<open>A string as it enters a path: its characters in UTF-16.\<close>

definition utf16 :: "nat \<Rightarrow> path" where
  "utf16 c = (if c < 0x10000 then [of_nat c]
     else [of_nat (0xD800 + (c - 0x10000) div 0x400), of_nat (0xDC00 + (c - 0x10000) mod 0x400)])"

definition wide_str :: "bytes \<Rightarrow> path" where
  "wide_str s = (case utf8_chars s of None \<Rightarrow> [] | Some cs \<Rightarrow> concat (map utf16 cs))"

definition local_state_paths ::
    "('p, 'f) host_calls \<Rightarrow> bytes \<Rightarrow> 'p \<Rightarrow> 'p \<times> (host_paths, host_error) result" where
  "local_state_paths F package_family_name p =
     pure_then p (ok_or Host_LocalState (hc_local_app_data F p)) (\<lambda>local_app_data.
     let local_state = hc_join F (hc_join F (hc_join F local_app_data (wide ''Packages''))
           (wide_str package_family_name)) (wide ''LocalState'')
     in if \<not> hc_is_absolute F local_state \<or> \<not> hc_is_directory F local_state p
        then (p, Err Host_LocalState)
        else let root = hc_join F local_state (wide ''Librarian'') in
          case hc_create_dir F root p of (p, created) \<Rightarrow>
            if created \<noteq> Ok () \<and> created \<noteq> Err Io_AlreadyExists then (p, Err Host_LocalState)
            else if \<not> hc_is_directory_itself F root p then (p, Err Host_LocalState)
            else (p, Ok \<lparr>hp_vault = hc_join F root (wide ''vault.db''),
                         hp_windows_hello_state = hc_join F root (wide ''windows-hello-state.bin''),
                         hp_endpoint = hc_join F root (wide ''agent-endpoint-v1.cbor'')\<rparr>))"

definition desktop_policy ::
    "('p, 'f) host_calls \<Rightarrow> peer_observation \<Rightarrow> bytes \<Rightarrow> bytes \<Rightarrow> path \<Rightarrow> peer_policy" where
  "desktop_policy F current package_full_name package_family_name install_root =
     \<lparr>pl_role = Component_Desktop, pl_session_id = po_session_id current,
      pl_user_sid = po_user_sid current, pl_logon_sid = po_logon_sid current,
      pl_maximum_integrity_rid = MEDIUM_INTEGRITY_RID,
      pl_image_path = hc_join F install_root DESKTOP_EXECUTABLE,
      pl_package_full_name = package_full_name, pl_package_family_name = package_family_name,
      pl_application_user_model_id = Some (package_family_name @ ascii ''!Desktop'')\<rparr>"

definition passkey_provider_policy ::
    "('p, 'f) host_calls \<Rightarrow> peer_observation \<Rightarrow> bytes \<Rightarrow> bytes \<Rightarrow> path \<Rightarrow> peer_policy" where
  "passkey_provider_policy F current package_full_name package_family_name install_root =
     \<lparr>pl_role = Component_PasskeyProvider, pl_session_id = po_session_id current,
      pl_user_sid = po_user_sid current, pl_logon_sid = po_logon_sid current,
      pl_maximum_integrity_rid = MEDIUM_INTEGRITY_RID,
      pl_image_path = hc_join F install_root PASSKEY_PROVIDER_EXECUTABLE,
      pl_package_full_name = package_full_name, pl_package_family_name = package_family_name,
      pl_application_user_model_id = Some (package_family_name @ ascii ''!PasskeyProvider'')\<rparr>"

definition native_host_policy ::
    "('p, 'f) host_calls \<Rightarrow> peer_observation \<Rightarrow> bytes \<Rightarrow> bytes \<Rightarrow> path \<Rightarrow> peer_policy" where
  "native_host_policy F current package_full_name package_family_name install_root =
     \<lparr>pl_role = Component_NativeHost, pl_session_id = po_session_id current,
      pl_user_sid = po_user_sid current, pl_logon_sid = po_logon_sid current,
      pl_maximum_integrity_rid = MEDIUM_INTEGRITY_RID,
      pl_image_path = hc_join F install_root NATIVE_HOST_EXECUTABLE,
      pl_package_full_name = package_full_name, pl_package_family_name = package_family_name,
      pl_application_user_model_id = Some (package_family_name @ ascii ''!ChromiumNativeHost'')\<rparr>"

text \<open>The policies that \<open>run\<close> passes to every \<open>accept\<close>.\<close>

definition run_policies ::
    "('p, 'f) host_calls \<Rightarrow> peer_observation \<Rightarrow> bytes \<Rightarrow> bytes \<Rightarrow> path \<Rightarrow> peer_policy list" where
  "run_policies F ob full family root =
     [desktop_policy F ob full family root, native_host_policy F ob full family root,
      passkey_provider_policy F ob full family root]"

section \<open>The published endpoint\<close>

text \<open>\<open>.map_err(|_| e)?\<close> and \<open>.ok()?\<close> on the outcome of a step.\<close>

definition or_else ::
    "'x \<Rightarrow> (('d, 'e, 'p, 'i) runtime, ('a, 'y) result) thread \<Rightarrow> (('d, 'e, 'p, 'i) runtime, ('a, 'x) result) thread"
  where
  "or_else e p = thread_then p (\<lambda>r. Return (map_err (\<lambda>_. e) r))"

definition publish_listener_pool ::
    "'e vault_libs \<Rightarrow> ('p, 'h) host_services \<Rightarrow> peer_observation \<Rightarrow> bytes
       \<Rightarrow> (('d, 'e, 'p, 'i) runtime, ('h listener_pool, host_error) result) thread" where
  "publish_listener_pool L S ob package_full_name =
     thread_try (or_else Host_Transport (platform_call (hs_create_pool S))) (\<lambda>pool.
     thread_try (or_else Host_Transport (draw_bytes L 32)) (\<lambda>startup_nonce.
     result_try (map_err (\<lambda>_. Host_Discovery) (EndpointDescriptor_new (vl_cbor L) (lp_pipe_name pool)
       (po_process_id ob) (po_process_creation_time ob) package_full_name
       (major CURRENT_VERSION) (major CURRENT_VERSION) startup_nonce)) (\<lambda>descriptor.
     thread_then (platform_call (hs_publish S descriptor)) (\<lambda>published.
     Return (if published then Ok pool else Err Host_Discovery)))))"

section \<open>The handshake\<close>

text \<open>
  \<open>sha256_file\<close> reads the image in pieces of 16 KiB; the digest of the pieces fed to the hasher is that
  of their concatenation. An image that never ends uses up the rounds.
\<close>

primrec sha256_pieces ::
    "'e vault_libs \<Rightarrow> ('p, 'f) host_calls \<Rightarrow> 'f \<Rightarrow> nat \<Rightarrow> bytes
       \<Rightarrow> (('d, 'e, 'p, 'i) runtime, (bytes, host_error) result) thread" where
  "sha256_pieces L F file 0 hashed = Exhausted"
| "sha256_pieces L F file (Suc rounds) hashed =
     thread_then (platform_call (hc_read F file (16 * 1024))) (\<lambda>piece. case piece of
       None \<Rightarrow> Return (Err Host_Identity)
     | Some bs \<Rightarrow>
         if bs = [] then Return (Ok (vl_sha256 L hashed))
         else sha256_pieces L F file rounds (hashed @ bs))"

definition sha256_file ::
    "'e vault_libs \<Rightarrow> ('p, 'f) host_calls \<Rightarrow> nat \<Rightarrow> path
       \<Rightarrow> (('d, 'e, 'p, 'i) runtime, (bytes, host_error) result) thread" where
  "sha256_file L F rounds p =
     thread_then (platform_call (hc_open F p)) (\<lambda>opened. case opened of
       None \<Rightarrow> Return (Err Host_Identity)
     | Some file \<Rightarrow> sha256_pieces L F file rounds [])"

fun supported_features :: "client_role \<Rightarrow> u16 list" where
  "supported_features Desktop = [FEATURE_WINDOWS_HELLO, FEATURE_PASSKEY_PROVIDER]"
| "supported_features PasskeyProvider = [FEATURE_PASSKEY_PROVIDER]"
| "supported_features NativeHost = [FEATURE_BROWSER_FILL]"

text \<open>
  \<open>negotiate_connection\<close>; no connection, the \<open>None\<close> of the source, is \<open>Err ()\<close>. A transfer on the pipe
  is one action: the gate of the pipe keeps other readers or writers away.
\<close>

definition negotiate_connection ::
    "('d, 'e, 'p, 'i, 't, 'h, 'g) agent_runtime \<Rightarrow> ('p, 'w) pipe_calls \<Rightarrow> ('p, 'f) host_calls \<Rightarrow> nat \<Rightarrow> nat
       \<Rightarrow> 'w pipe_connection \<Rightarrow> (('d, 'e, 'p, 'i) runtime, (connection, unit) result) thread" where
  "negotiate_connection R W F rounds me pipe =
     result_try (map_err (\<lambda>_. ()) (observe_pipe_client pipe)) (\<lambda>peer.
     result_try (ok_or () (ComponentRole_client_role (pn_component_role pipe))) (\<lambda>role.
     thread_try (or_else () (sha256_file (ar_libs R) F rounds (po_image_path (ph_observation peer))))
       (\<lambda>expected_build_id.
     thread_try (or_else () (platform_call (pipe_read_frame W pipe (HANDSHAKE_TIMEOUT_MS * 10 ^ 6))))
       (\<lambda>hello_frame.
     if fh_kind (fr_header hello_frame) \<noteq> Kind_ClientHello then Return (Err ()) else
     result_try (map_err (\<lambda>_. ()) (ClientHello_decode (vl_cbor (ar_libs R)) (fr_payload hello_frame))) (\<lambda>hello.
     thread_try (or_else () (draw_bytes (ar_libs R) 32)) (\<lambda>server_nonce.
     thread_try (or_else () (draw_bytes (ar_libs R) 16)) (\<lambda>connection_id.
     thread_try (or_else () (status_snapshot me)) (\<lambda>(state, unlock_epoch).
     result_try (map_err (\<lambda>_. ()) (Connection_negotiate role (po_process_id (ph_observation peer))
       expected_build_id hello (supported_features role) server_nonce connection_id state unlock_epoch
       ConnectionLimits_default)) (\<lambda>(connection, server_hello).
     result_try (expect_some (ServerHello_encode (vl_cbor (ar_libs R)) server_hello)) (\<lambda>hello_payload.
     result_try (map_err (\<lambda>_. ()) (FrameHeader_new Kind_ServerHello (sh_selected_version server_hello)
       (length hello_payload) connection_id 0)) (\<lambda>hello_header.
     result_try (map_err (\<lambda>_. ()) (Frame_new hello_header hello_payload)) (\<lambda>hello_response.
     thread_try (or_else () (platform_call (pipe_write_frame W pipe hello_response FRAME_WRITE_TIMEOUT)))
       (\<lambda>_. Return (Ok connection))))))))))))))"

section \<open>Frames of a connection\<close>

definition admission_timeout :: "request_envelope \<Rightarrow> nat" where
  "admission_timeout envelope =
     unat (min (rq_timeout_ms envelope) PASSKEY_TIMEOUT_MS) * 10 ^ 6 + FRAME_WRITE_TIMEOUT"

definition agent_write_response ::
    "minicbor \<Rightarrow> ('p, 'w) pipe_calls \<Rightarrow> 'w pipe_connection \<Rightarrow> version \<Rightarrow> bytes \<Rightarrow> u64 \<Rightarrow> response_envelope
       \<Rightarrow> 'p \<Rightarrow> 'p \<times> (unit, dispatch_error) result" where
  "agent_write_response mc W pipe version connection_id request_id response p =
     pure_then p (map_err (\<lambda>_. Dispatch_Internal) (ResponseEnvelope_encode mc response)) (\<lambda>payload.
     pure_then p (map_err (\<lambda>_. Dispatch_Internal) (FrameHeader_new Kind_Response version (length payload)
       connection_id request_id)) (\<lambda>header.
     pure_then p (map_err (\<lambda>_. Dispatch_Internal) (Frame_new header payload)) (\<lambda>frame.
     apsnd (map_err (\<lambda>_. Dispatch_Internal)) (pipe_write_frame W pipe frame FRAME_WRITE_TIMEOUT p))))"

text \<open>The two closures a worker passes to \<open>dispatch_with_admission\<close>.\<close>

definition worker_transport ::
    "minicbor \<Rightarrow> ('p, 'w) pipe_calls \<Rightarrow> ('p, 'w) host_services \<Rightarrow> 'w pipe_connection \<Rightarrow> connection \<Rightarrow> u64
       \<Rightarrow> 'p transport" where
  "worker_transport mc W S pipe connection request_id =
     \<lparr>tr_on_admitted = hs_report S True,
      tr_write_response = agent_write_response mc W pipe (cn_version connection)
        (cn_connection_id connection) request_id\<rparr>"

definition serve_request ::
    "('d, 'e, 'p, 'i, 't, 'h, 'g) agent_runtime \<Rightarrow> 'p windows_hello option \<Rightarrow> ('p, 'w) pipe_calls
       \<Rightarrow> ('p, 'w) host_services \<Rightarrow> nat \<Rightarrow> 'w pipe_connection \<Rightarrow> connection \<Rightarrow> frame_header \<Rightarrow> request_envelope
       \<Rightarrow> (('d, 'e, 'p, 'i) runtime, unit) thread" where
  "serve_request R hello W S me pipe connection header envelope =
     thread_then (platform_call (ensure_peer_alive W pipe)) (\<lambda>alive.
     if alive \<noteq> Ok () then platform_call (\<lambda>p. (hs_report S False p, ()))
     else thread_then (dispatch_with_admission R hello
         (worker_transport (vl_cbor (ar_libs R)) W S pipe connection (fh_request_id header)) me
         (cn_connection_id connection) header envelope) (\<lambda>r. case r of
       Ok _ \<Rightarrow> Return ()
     | Err _ \<Rightarrow> platform_call (\<lambda>p. (hs_report S False p, ()))
     | Panic \<Rightarrow> Return ()))"

text \<open>
  The reader of \<open>serve_frames\<close> stops at the first frame it cannot serve; a frame of an admitted request
  is followed by the next one. Then the connection is closed and what it has left is cancelled. The
  workers are joined after that, so the pipe is given back.
\<close>

primrec read_requests ::
    "('d, 'e, 'p, 'i, 't, 'h, 'g) agent_runtime \<Rightarrow> ('p, 'w) pipe_calls \<Rightarrow> ('p, 'w) host_services
       \<Rightarrow> nat \<Rightarrow> 'w pipe_connection \<Rightarrow> bytes \<Rightarrow> nat \<Rightarrow> (('d, 'e, 'p, 'i) runtime, (unit, unit) result) thread" where
  "read_requests R W S me pipe c 0 = Exhausted"
| "read_requests R W S me pipe c (Suc rounds) =
     thread_then (platform_call (pipe_read_frame W pipe FRAME_READ_TIMEOUT)) (\<lambda>r. case r of
       Ok frame \<Rightarrow>
         (case fh_kind (fr_header frame) of
            Kind_Cancel \<Rightarrow>
              thread_then (apply_cancel me c (fr_header frame)) (\<lambda>r. case r of
                Ok _ \<Rightarrow> read_requests R W S me pipe c rounds
              | Err _ \<Rightarrow> Return (Ok ())
              | Panic \<Rightarrow> Return Panic)
          | Kind_Request \<Rightarrow>
              (case RequestEnvelope_decode (vl_cbor (ar_libs R)) (fr_payload frame) of
                 Ok envelope \<Rightarrow>
                   thread_then (platform_call (\<lambda>p. (hs_spawn S (fr_header frame) envelope p, ()))) (\<lambda>_.
                   thread_then (platform_call (hs_admission S (admission_timeout envelope))) (\<lambda>admitted.
                   if admitted = Some True then read_requests R W S me pipe c rounds else Return (Ok ())))
               | Err _ \<Rightarrow> Return (Ok ())
               | Panic \<Rightarrow> Return Panic)
          | _ \<Rightarrow> Return (Ok ()))
     | Err _ \<Rightarrow> Return (Ok ())
     | Panic \<Rightarrow> Return Panic)"

definition serve_frames ::
    "('d, 'e, 'p, 'i, 't, 'h, 'g) agent_runtime \<Rightarrow> ('p, 'w) pipe_calls \<Rightarrow> ('p, 'w) host_services
       \<Rightarrow> nat \<Rightarrow> nat \<Rightarrow> 'w pipe_connection \<Rightarrow> bytes \<Rightarrow> (('d, 'e, 'p, 'i) runtime, (unit, unit) result) thread" where
  "serve_frames R W S rounds me pipe c =
     thread_try (read_requests R W S me pipe c rounds) (\<lambda>_.
     thread_then (disconnect R me c) (\<lambda>r. Return (if r = Panic then Panic else Ok ())))"

definition serve_connection ::
    "('d, 'e, 'p, 'i, 't, 'h, 'g) agent_runtime \<Rightarrow> ('p, 'w) pipe_calls \<Rightarrow> ('p, 'f) host_calls
       \<Rightarrow> ('p, 'w) host_services \<Rightarrow> nat \<Rightarrow> nat \<Rightarrow> 'w pipe_connection
       \<Rightarrow> (('d, 'e, 'p, 'i) runtime, ('w pipe_connection, unit) result) thread" where
  "serve_connection R W F S rounds me pipe =
     thread_then (negotiate_connection R W F rounds me pipe) (\<lambda>r. case r of
       Ok connection \<Rightarrow>
         thread_then (atomically (\<lambda>s. (s\<lparr>rt_connections :=
           (rt_connections s)(cn_connection_id connection := connection)\<rparr>, ()))) (\<lambda>_.
         thread_try (serve_frames R W S rounds me pipe (cn_connection_id connection)) (\<lambda>_.
         Return (Ok pipe)))
     | Err _ \<Rightarrow> Return (Ok pipe)
     | Panic \<Rightarrow> Return Panic)"

section \<open>They give back what they take\<close>

lemma keeps_or_else [keeps_rules]: "keeps me H p \<Longrightarrow> keeps me H (or_else e p)"
  unfolding or_else_def by (intro keeps_rules)

lemma keeps_publish [keeps_rules]: "keeps me H (publish_listener_pool L S ob full)"
  unfolding publish_listener_pool_def by (intro keeps_rules)

lemma keeps_Exhausted [keeps_rules]: "keeps me H Exhausted"
  by (simp add: keeps_def triple_def)

lemma keeps_sha256_pieces [keeps_rules]: "keeps me H (sha256_pieces L F file rounds hashed)"
proof (induction rounds arbitrary: hashed)
  case (Suc rounds)
  show ?case unfolding sha256_pieces.simps by (intro keeps_rules Suc)
qed (simp add: keeps_Exhausted)

lemma keeps_case_kind [keeps_rules]:
  assumes "keeps me H a" "keeps me H b" "keeps me H c" "keeps me H d" "keeps me H e" "keeps me H f"
  shows "keeps me H (case k of Kind_ClientHello \<Rightarrow> a | Kind_ServerHello \<Rightarrow> b | Kind_Request \<Rightarrow> c
    | Kind_Response \<Rightarrow> d | Kind_Cancel \<Rightarrow> e | Kind_Event \<Rightarrow> f)"
  using assms by (cases k) simp_all

lemma keeps_negotiate [keeps_rules]:
  "Commit_Gate \<notin> H \<Longrightarrow> keeps me H (negotiate_connection R W F rounds me pipe)"
  unfolding negotiate_connection_def sha256_file_def by (intro keeps_rules)

lemma keeps_serve_request: "keeps me {} (serve_request R hello W S me pipe connection header envelope)"
  unfolding serve_request_def by (intro keeps_rules) simp_all

lemma keeps_read_requests: "keeps me {} (read_requests R W S me pipe c rounds)"
proof (induction rounds)
  case (Suc rounds)
  then show ?case unfolding read_requests.simps by (intro keeps_rules) simp_all
qed (simp add: keeps_Exhausted)

lemma keeps_serve_connection: "keeps me {} (serve_connection R W F S rounds me pipe)"
  unfolding serve_connection_def serve_frames_def
  by (intro keeps_rules keeps_read_requests keeps_quiet) (simp_all add: quiet_def)

section \<open>The policies tell the clients apart\<close>

fun application_of :: "client_role \<Rightarrow> string" where
  "application_of Desktop = ''!Desktop''"
| "application_of NativeHost = ''!ChromiumNativeHost''"
| "application_of PasskeyProvider = ''!PasskeyProvider''"

fun executable_of :: "client_role \<Rightarrow> path" where
  "executable_of Desktop = DESKTOP_EXECUTABLE"
| "executable_of NativeHost = NATIVE_HOST_EXECUTABLE"
| "executable_of PasskeyProvider = PASSKEY_PROVIDER_EXECUTABLE"

text \<open>A process that is the installed client of a role, next to this agent.\<close>

definition installed_client ::
    "('p, 'f) host_calls \<Rightarrow> peer_observation \<Rightarrow> bytes \<Rightarrow> bytes \<Rightarrow> path \<Rightarrow> client_role \<Rightarrow> peer_observation \<Rightarrow> bool"
  where
  "installed_client F agent full family root role ob \<longleftrightarrow>
     po_user_sid ob = po_user_sid agent \<and> po_logon_sid ob = po_logon_sid agent
     \<and> po_session_id ob = po_session_id agent \<and> \<not> po_elevated ob \<and> \<not> po_app_container ob
     \<and> po_integrity_rid ob \<le> MEDIUM_INTEGRITY_RID
     \<and> po_package_full_name ob = Some full \<and> po_package_family_name ob = Some family
     \<and> po_application_user_model_id ob = Some (family @ ascii (application_of role))
     \<and> paths_equal (po_image_path ob) (hc_join F root (executable_of role))"

fun policy_of ::
    "('p, 'f) host_calls \<Rightarrow> peer_observation \<Rightarrow> bytes \<Rightarrow> bytes \<Rightarrow> path \<Rightarrow> client_role \<Rightarrow> peer_policy" where
  "policy_of F ob full family root Desktop = desktop_policy F ob full family root"
| "policy_of F ob full family root NativeHost = native_host_policy F ob full family root"
| "policy_of F ob full family root PasskeyProvider = passkey_provider_policy F ob full family root"

lemmas policy_defs = desktop_policy_def native_host_policy_def passkey_provider_policy_def

lemma policy_matches:
  "peer_matches ob (policy_of F agent full family root role) \<longleftrightarrow> installed_client F agent full family root role ob"
  by (cases role) (auto simp: policy_defs peer_matches_def installed_client_def)

lemma run_policies_eq: "run_policies F agent full family root
    = map (policy_of F agent full family root) [Desktop, NativeHost, PasskeyProvider]"
  by (simp add: run_policies_def)

lemma applications_differ [simp]:
  "ascii (application_of r) = ascii (application_of r') \<longleftrightarrow> r = r'"
  "ascii ''!VaultAgent'' \<noteq> ascii (application_of r)"
  by (cases r; cases r'; simp add: ascii_def) (cases r; simp add: ascii_def)

lemma one_policy_matches:
  "filter (peer_matches ob) (run_policies F agent full family root)
     = map (policy_of F agent full family root)
         (filter (\<lambda>role. installed_client F agent full family root role ob) [Desktop, NativeHost, PasskeyProvider])"
  unfolding run_policies_eq filter_map comp_def policy_matches ..

lemma installed_client_unique:
  "installed_client F agent full family root r ob \<Longrightarrow> installed_client F agent full family root r' ob \<Longrightarrow> r = r'"
  by (simp add: installed_client_def)

lemma run_policies_decide:
  "authorize_client_role ob (run_policies F agent full family root) =
     (case filter (\<lambda>role. installed_client F agent full family root role ob) [Desktop, NativeHost, PasskeyProvider] of
        [] \<Rightarrow> Err NoMatchingPolicy | role # _ \<Rightarrow> Ok role)"
proof -
  let ?f = "\<lambda>role. installed_client F agent full family root role ob"
  have clients: "\<forall>pol \<in> set (run_policies F agent full family root). pl_role pol \<noteq> Component_Agent"
    by (simp add: run_policies_def policy_defs)
  have role: "ComponentRole_client_role (pl_role (policy_of F agent full family root r)) = Some r" for r
    by (cases r) (simp_all add: policy_defs)
  have one: "filter ?f [Desktop, NativeHost, PasskeyProvider] = r # rest \<Longrightarrow> rest = []" for r rest
    using installed_client_unique [of F agent full family root _ ob] by (auto split: if_splits)
  show ?thesis
    using clients one
    by (auto simp: authorize_client_role_def match_policies_eq one_policy_matches role list_ex_iff
        split: list.splits) (auto simp: run_policies_def policy_defs)
qed

section \<open>What the handshake yields\<close>

text \<open>A program that gives back what it takes and whose successes satisfy a predicate.\<close>

definition yields ::
    "nat \<Rightarrow> mutex set \<Rightarrow> (('d, 'e, 'p, 'i) runtime, ('a, 'x) result) thread \<Rightarrow> ('a \<Rightarrow> bool) \<Rightarrow> bool" where
  "yields me H p V \<longleftrightarrow> triple me (owns me H) p (\<lambda>r s. owns me H s \<and> (\<forall>x. r = Ok x \<longrightarrow> V x))"

lemma yields_keeps: "keeps me H p \<Longrightarrow> yields me H p (\<lambda>_. True)"
  by (simp add: yields_def keeps_def)

lemma yields_Return: "(\<And>x. r = Ok x \<Longrightarrow> V x) \<Longrightarrow> yields me H (Return r) V"
  unfolding yields_def by (rule triple_Return) auto

lemma yields_try:
  assumes "yields me H p U" and "\<And>x. U x \<Longrightarrow> yields me H (k x) V"
  shows "yields me H (thread_try p k) V"
  unfolding yields_def thread_try_def
proof (rule triple_then [OF assms(1) [unfolded yields_def]])
  fix r
  show "triple me (\<lambda>s. owns me H s \<and> (\<forall>x. r = Ok x \<longrightarrow> U x))
      (case r of Ok x \<Rightarrow> k x | Err e \<Rightarrow> Return (Err e) | Panic \<Rightarrow> Return Panic)
      (\<lambda>r s. owns me H s \<and> (\<forall>x. r = Ok x \<longrightarrow> V x))"
    by (rule triple_known, cases r) (simp_all add: assms(2) [unfolded yields_def] triple_Return)
qed

lemma yields_try_any: "keeps me H p \<Longrightarrow> (\<And>x. yields me H (k x) V) \<Longrightarrow> yields me H (thread_try p k) V"
  by (rule yields_try [OF yields_keeps])

lemma yields_result: "(\<And>x. r = Ok x \<Longrightarrow> yields me H (k x) V) \<Longrightarrow> yields me H (result_try r k) V"
  by (cases r) (auto simp: result_try_def intro: yields_Return)

lemma yields_if: "(b \<Longrightarrow> yields me H p V) \<Longrightarrow> (\<not> b \<Longrightarrow> yields me H q V) \<Longrightarrow> yields me H (if b then p else q) V"
  by simp

lemma yields_case_prod: "(\<And>a b. v = (a, b) \<Longrightarrow> yields me H (k a b) V) \<Longrightarrow> yields me H (case v of (a, b) \<Rightarrow> k a b) V"
  by (cases v) simp

lemmas yields_rules = yields_result yields_if yields_case_prod

lemma yields_then: "keeps me H p \<Longrightarrow> (\<And>x. yields me H (k x) V) \<Longrightarrow> yields me H (thread_then p k) V"
  unfolding yields_def keeps_def by (rule triple_then)

lemma yields_or_else: "yields me H p V \<Longrightarrow> yields me H (or_else e p) V"
  unfolding or_else_def yields_def
proof (rule triple_then, assumption)
  fix r
  show "triple me (\<lambda>s. owns me H s \<and> (\<forall>x. r = Ok x \<longrightarrow> V x)) (Return (map_err (\<lambda>_. e) r))
      (\<lambda>r s. owns me H s \<and> (\<forall>x. r = Ok x \<longrightarrow> V x))"
    by (rule triple_known, rule triple_Return) (auto simp: map_err_Ok)
qed

lemma yields_post: "yields me H p U \<Longrightarrow> (\<And>x. U x \<Longrightarrow> V x) \<Longrightarrow> yields me H p V"
  unfolding yields_def by (erule triple_post) blast

lemma yields_sha256:
  fixes L :: "'e vault_libs" and F :: "('p, 'f) host_calls"
  shows "yields me H (sha256_pieces L F file rounds hashed :: (('d, 'e, 'p, 'i) runtime, _) thread)
    (\<lambda>digest. \<exists>image. digest = vl_sha256 L (hashed @ image))"
proof (induction rounds arbitrary: hashed)
  case 0
  show ?case by (simp add: yields_def triple_def)
next
  case (Suc rounds)
  have later: "yields me H (sha256_pieces L F file rounds (hashed @ bs) :: (('d, 'e, 'p, 'i) runtime, _) thread)
      (\<lambda>digest. \<exists>image. digest = vl_sha256 L (hashed @ image))" for bs
    by (rule yields_post [OF Suc]) auto
  have "yields me H (case piece of None \<Rightarrow> Return (Err Host_Identity)
     | Some bs \<Rightarrow> if bs = [] then Return (Ok (vl_sha256 L hashed))
         else (sha256_pieces L F file rounds (hashed @ bs) :: (('d, 'e, 'p, 'i) runtime, _) thread))
      (\<lambda>digest. \<exists>image. digest = vl_sha256 L (hashed @ image))" for piece
    by (cases piece) (auto intro!: yields_Return later exI [of _ "[]"])
  then show ?case unfolding sha256_pieces.simps by (intro yields_then keeps_rules)
qed

lemma yields_sha256_file: "yields me H (sha256_file L F rounds p) (\<lambda>digest. \<exists>image. digest = vl_sha256 L image)"
proof -
  have "yields me H (case opened of None \<Rightarrow> Return (Err Host_Identity)
      | Some file \<Rightarrow> sha256_pieces L F file rounds []) (\<lambda>digest. \<exists>image. digest = vl_sha256 L image)" for opened
    using yields_sha256 [of me H L F _ rounds "[]"] by (cases opened) (auto intro: yields_Return)
  then show ?thesis unfolding sha256_file_def by (intro yields_then keeps_rules)
qed

text \<open>A connection the handshake has made: negotiated from a valid hello whose build is the digest of
  what was read as the client's image.\<close>

definition handshaken ::
    "('d, 'e, 'p, 'i, 't, 'h, 'g) agent_runtime \<Rightarrow> client_role \<Rightarrow> u32 \<Rightarrow> connection \<Rightarrow> bool" where
  "handshaken R role pid c \<longleftrightarrow> (\<exists>hello image nonce cid state epoch sh.
     ClientHello_valid hello \<and> ch_component_build_id hello = vl_sha256 (ar_libs R) image
     \<and> ch_claimed_role hello = role
     \<and> Connection_negotiate role pid (vl_sha256 (ar_libs R) image) hello (supported_features role) nonce cid
         state epoch ConnectionLimits_default = Ok (c, sh))"

lemma negotiate_yields:
  assumes "minicbor_spec (vl_cbor (ar_libs R))" and "pn_server_side pipe"
    and "pn_component_role pipe = ComponentRole_from role"
  shows "yields me {} (negotiate_connection R W F rounds me pipe)
    (handshaken R role (po_process_id (ph_observation (pn_peer pipe))))"
proof -
  have made: "handshaken R role pid c"
    if "ClientHello_decode (vl_cbor (ar_libs R)) bs = Ok hello"
      and "Connection_negotiate role pid (vl_sha256 (ar_libs R) image) hello (supported_features role) nonce cid
        state epoch ConnectionLimits_default = Ok (c, sh)"
    for pid bs hello image nonce cid state epoch c sh
  proof -
    have "ClientHello_valid hello"
      using minicbor_spec.ClientHello_decode_sound [OF assms(1) that(1)] by simp
    then show ?thesis using that(2) unfolding handshaken_def
      by (metis negotiate_Ok_iff limits_default_ok negotiable_def)
  qed
  show ?thesis
    unfolding negotiate_connection_def observe_pipe_client_def assms(3) client_role_from
    by (intro yields_result yields_if yields_try [OF yields_or_else [OF yields_sha256_file]],
        intro yields_rules yields_try_any keeps_rules yields_Return)
      (auto simp: map_err_Ok assms(2) intro: made)
qed

lemma handshaken_facts:
  assumes "handshaken R role pid c"
  shows "is_negotiated c \<and> cn_role c = role \<and> cn_authenticated_process_id c = pid
    \<and> set (cn_granted_features c) \<subseteq> set (supported_features role)
    \<and> (\<exists>hello image. ClientHello_valid hello \<and> ch_claimed_role hello = role
         \<and> ch_component_build_id hello = vl_sha256 (ar_libs R) image
         \<and> cn_granted_features c = ch_required_features hello)"
proof -
  obtain hello image nonce cid state epoch sh where hello: "ClientHello_valid hello"
      "ch_component_build_id hello = vl_sha256 (ar_libs R) image" "ch_claimed_role hello = role"
    and neg: "Connection_negotiate role pid (vl_sha256 (ar_libs R) image) hello
      (supported_features role) nonce cid state epoch ConnectionLimits_default = Ok (c, sh)"
    using assms by (auto simp: handshaken_def)
  have "is_negotiated c" unfolding is_negotiated_def using hello(1) limits_default_ok neg by blast
  moreover note neg [unfolded negotiate_Ok_iff [OF hello(1) limits_default_ok] negotiable_def]
  ultimately show ?thesis using hello by auto
qed

section \<open>A handshake that nobody disturbs\<close>

lemma platform_call_alone:
  "run_alone (platform_call f) s = Some (s\<lparr>rt_platform := fst (f (rt_platform s))\<rparr>, snd (f (rt_platform s)))"
  by (simp add: platform_call_def run_alone_simps split: prod.split)

lemma sha256_pieces_alone:
  "run_alone (sha256_pieces L F file rounds hashed) s = Some (t, r) \<Longrightarrow> \<exists>p. t = s\<lparr>rt_platform := p\<rparr>"
proof (induction rounds arbitrary: hashed s)
  case (Suc rounds)
  let ?s = "s\<lparr>rt_platform := fst (hc_read F file (16 * 1024) (rt_platform s))\<rparr>"
  show ?case
  proof (cases "snd (hc_read F file (16 * 1024) (rt_platform s))")
    case None
    then show ?thesis using Suc.prems by (auto simp: run_alone_next [OF platform_call_alone])
  next
    case (Some bs)
    then show ?thesis
      using Suc.prems Suc.IH [of "hashed @ bs" ?s]
      by (cases "bs = []") (auto simp: run_alone_next [OF platform_call_alone])
  qed
qed simp

lemma sha256_file_alone:
  assumes "run_alone (sha256_file L F rounds exe) s = Some (t, r)"
  shows "\<exists>p. t = s\<lparr>rt_platform := p\<rparr>"
  using assms sha256_pieces_alone [of L F _ rounds "[]"]
  by (cases "snd (hc_open F exe (rt_platform s))")
    (fastforce simp: sha256_file_def run_alone_next [OF platform_call_alone])+

lemma or_else_alone: "run_alone p s = Some (t, Ok x) \<Longrightarrow> run_alone (or_else e p) s = Some (t, Ok x)"
  by (simp add: or_else_def run_alone_simps)

lemma draw_alone:
  "vl_fill L (rt_entropy s) n = (e, Some bs) \<Longrightarrow> run_alone (draw_bytes L n) s = Some (s\<lparr>rt_entropy := e\<rparr>, Ok bs)"
  by (simp add: draw_bytes_def run_alone_simps)

lemma snapshot_alone:
  assumes "rt_owner s Commit_Gate = None" and "\<not> rt_poisoned s Commit_Gate"
  shows "run_alone (status_snapshot me) s = Some (s, Ok (agent_state_of s, rt_epoch s))"
proof -
  have "run_alone (thread_then (observe agent_state_of) (\<lambda>state. thread_then load_epoch (\<lambda>epoch.
        Return (Ok (state, epoch))))) (s\<lparr>rt_owner := (rt_owner s)(Commit_Gate := Some me)\<rparr>)
      = Some (s\<lparr>rt_owner := (rt_owner s)(Commit_Gate := Some me)\<rparr>, Ok (agent_state_of s, rt_epoch s))"
    by (simp add: run_alone_simps load_epoch_def agent_state_of_def)
  from run_alone_with_mutex [OF assms this] assms show ?thesis
    by (simp add: status_snapshot_def fun_upd_idem)
qed

text \<open>The frame of a payload that fits.\<close>

lemma frame_of_payload:
  assumes "length payload \<le> 65536" and "length cid = 16"
    and "validate_kind_fields \<lparr>fh_kind = kind, fh_version = v, fh_payload_length = of_nat (length payload),
      fh_connection_id = cid, fh_request_id = i\<rparr> = Ok ()"
  obtains header frame where "FrameHeader_new kind v (length payload) cid i = Ok header"
    "Frame_new header payload = Ok frame" "Frame_valid frame" "fr_header frame = header" "fr_payload frame = payload"
    "fh_kind header = kind" "fh_version header = v" "fh_connection_id header = cid" "fh_request_id header = i"
proof -
  let ?header = "\<lparr>fh_kind = kind, fh_version = v, fh_payload_length = of_nat (length payload),
     fh_connection_id = cid, fh_request_id = i\<rparr>"
  have unat: "unat (of_nat (length payload) :: u32) = length payload" using assms(1) by (simp add: unat_of_nat)
  have new: "FrameHeader_new kind v (length payload) cid i = Ok ?header"
    using assms(1,3) by (simp add: FrameHeader_new_def Let_def)
  have "FrameHeader_valid ?header" using assms unat by (simp add: FrameHeader_valid_def)
  then have "Frame_valid \<lparr>fr_header = ?header, fr_payload = payload\<rparr>" by (simp add: Frame_valid_def unat)
  with that new show thesis by (simp add: Frame_new_def unat)
qed

lemma server_hello_frame:
  assumes "minicbor_spec mc" and "ServerHello_valid sh" and "length cid = 16" and "cid \<noteq> zeros 16"
  obtains payload header frame where "ServerHello_encode mc sh = Some payload"
    "FrameHeader_new Kind_ServerHello (sh_selected_version sh) (length payload) cid 0 = Ok header"
    "Frame_new header payload = Ok frame" "Frame_valid frame" "fr_header frame = header"
    "fh_kind header = Kind_ServerHello" "fh_connection_id header = cid"
    "ServerHello_decode mc (fr_payload frame) = Ok sh"
proof -
  obtain payload where payload: "ServerHello_encode mc sh = Some payload" by (simp add: ServerHello_encode_eq)
  have decoded: "ServerHello_decode mc payload = Ok sh"
    using minicbor_spec.ServerHello_decode_complete [OF assms(1,2) payload] .
  then have small: "length payload \<le> 65536" by (simp add: ServerHello_decode_def split: if_splits)
  have "sh_selected_version sh \<noteq> Version 0 0" using assms(2) by (auto simp: ServerHello_valid_def)
  then have "validate_kind_fields \<lparr>fh_kind = Kind_ServerHello, fh_version = sh_selected_version sh,
      fh_payload_length = of_nat (length payload), fh_connection_id = cid, fh_request_id = 0\<rparr> = Ok ()"
    using assms(4) by (simp add: validate_kind_fields_def Let_def)
  from frame_of_payload [OF small assms(3) this] show thesis
    by (metis that payload decoded)
qed

lemma client_hello_frame:
  assumes "minicbor_spec mc" and "ClientHello_valid hello"
  obtains frame bs where "Frame_valid frame" "fh_kind (fr_header frame) = Kind_ClientHello"
    "ClientHello_decode mc (fr_payload frame) = Ok hello" "Frame_encode frame = Ok bs"
proof -
  obtain payload where payload: "ClientHello_encode mc hello = Some payload" by (simp add: ClientHello_encode_eq)
  have decoded: "ClientHello_decode mc payload = Ok hello"
    using minicbor_spec.ClientHello_decode_complete [OF assms payload] .
  then have small: "length payload \<le> 65536" by (simp add: ClientHello_decode_def split: if_splits)
  have "validate_kind_fields \<lparr>fh_kind = Kind_ClientHello, fh_version = Version 0 0,
      fh_payload_length = of_nat (length payload), fh_connection_id = zeros 16, fh_request_id = 0\<rparr> = Ok ()"
    by (simp add: validate_kind_fields_def Let_def)
  from frame_of_payload [OF small _ this] obtain frame where "Frame_valid frame"
      "fh_kind (fr_header frame) = Kind_ClientHello" "fr_payload frame = payload"
    by (metis length_zeros)
  then show thesis using that [of frame] decoded Frame_encode_Ok by simp
qed

lemma negotiated_hello_valid:
  assumes "Connection_negotiate role pid build hello supported nonce cid state epoch limits = Ok (c, sh)"
    and "length nonce = 32"
  shows "ServerHello_valid sh"
proof -
  obtain v where "ServerHello_new nonce v role (ch_required_features hello) (cl_maximum_payload_bytes limits)
      (cl_maximum_in_flight limits) state epoch = Ok sh"
    using assms(1) by (auto simp: Connection_negotiate_def Let_def result_simps split: if_splits)
  then show ?thesis using assms(2) by (auto simp: ServerHello_new_Ok ServerHello_valid_def)
qed

lemma read_frame_alone:
  assumes "live_pipe W arrived sent" and "arrived (pn_pipe pipe) (rt_platform s) = bs @ rest"
    and "Frame_valid frame" and "Frame_encode frame = Ok bs" and "timeout \<le> 2 ^ 63 * 10 ^ 9"
    and "\<not> pn_read_gate_poisoned pipe"
  obtains p where "run_alone (platform_call (pipe_read_frame W pipe timeout)) s = Some (s\<lparr>rt_platform := p\<rparr>, Ok frame)"
    "pipe_read_frame W pipe timeout (rt_platform s) = (p, Ok frame)"
  using live_pipe.read_frame_gets [OF assms] by (auto simp: platform_call_alone)

lemma write_frame_alone:
  assumes "live_pipe W arrived sent" and "Frame_valid frame" and "timeout \<le> 2 ^ 63 * 10 ^ 9"
    and "\<not> pn_write_gate_poisoned pipe"
  obtains p bs where
    "run_alone (platform_call (pipe_write_frame W pipe frame timeout)) s = Some (s\<lparr>rt_platform := p\<rparr>, Ok ())"
    "Frame_encode frame = Ok bs" "sent (pn_pipe pipe) p = sent (pn_pipe pipe) (rt_platform s) @ bs"
proof -
  obtain p where p: "pipe_write_frame W pipe frame timeout (rt_platform s) = (p, Ok ())"
    using live_pipe.write_frame_puts [OF assms] by blast
  moreover obtain bs where "Frame_encode frame = Ok bs" "sent (pn_pipe pipe) p = sent (pn_pipe pipe) (rt_platform s) @ bs"
    using byte_pipe.write_frame_adds [OF live_pipe.axioms(1) [OF assms(1)] p] by blast
  ultimately show thesis using that by (simp add: platform_call_alone)
qed

section \<open>Properties\<close>

text \<open>The policies the agent installs tell its clients apart. They are built from the agent's own
  identity, and a process gets a role exactly when it is the installed client of that role: same user,
  logon and session, not elevated, not in an app container, at most medium integrity, in the agent's
  package, with the role's application identifier and the role's executable next to the agent's. No
  process fits two of them, no set of them is refused, and the agent is not a client of itself.\<close>

theorem installed_policies_decide:
  assumes "validate_agent F agent = Ok (full, family, root)"
  shows "(authorize_client_role ob (run_policies F agent full family root) = Ok role
      \<longleftrightarrow> installed_client F agent full family root role ob)
    \<and> (authorize_client_role ob (run_policies F agent full family root)
        \<in> insert (Err NoMatchingPolicy) (range Ok))
    \<and> authorize_client_role agent (run_policies F agent full family root) = Err NoMatchingPolicy
    \<and> po_package_full_name agent = Some full \<and> po_package_family_name agent = Some family"
proof -
  have agent: "po_package_full_name agent = Some full" "po_package_family_name agent = Some family"
    "po_application_user_model_id agent = Some (family @ ascii ''!VaultAgent'')"
    using assms by (auto simp: validate_agent_def Let_def result_simps split: if_splits)
  then have "\<not> installed_client F agent full family root r agent" for r
    by (simp add: installed_client_def)
  moreover have "authorize_client_role ob (run_policies F agent full family root) = Ok role
      \<longleftrightarrow> installed_client F agent full family root role ob"
    unfolding run_policies_decide
    using installed_client_unique [of F agent full family root _ ob]
    by (cases role) (auto split: list.splits if_splits)
  moreover have "authorize_client_role ob (run_policies F agent full family root)
      \<in> insert (Err NoMatchingPolicy) (range Ok)"
    unfolding run_policies_decide by (auto split: list.splits)
  ultimately show ?thesis using agent by (simp add: run_policies_decide)
qed

text \<open>An agent installed in a directory, and the desktop application next to it.\<close>

definition sample_host :: "(bytes \<times> bytes, unit) host_calls" where
  "sample_host = \<lparr>hc_file_name = (\<lambda>p. Some (rev (takeWhile (\<lambda>u. u \<noteq> 0x5C) (rev p)))),
     hc_parent = (\<lambda>p. Some (rev (tl (dropWhile (\<lambda>u. u \<noteq> 0x5C) (rev p))))),
     hc_join = (\<lambda>d n. d @ 0x5C # n), hc_is_absolute = (\<lambda>_. True), hc_local_app_data = (\<lambda>_. Some (wide ''C:'')),
     hc_is_directory = (\<lambda>_ _. True), hc_is_directory_itself = (\<lambda>_ _. True), hc_create_dir = (\<lambda>_ p. (p, Ok ())),
     hc_open = (\<lambda>_ p. (p, Some ())), hc_read = (\<lambda>_ _ p. (p, Some []))\<rparr>"

definition sample_process :: "string \<Rightarrow> string \<Rightarrow> peer_observation" where
  "sample_process exe app =
     \<lparr>po_process_id = 77, po_process_creation_time = 5, po_session_id = 1, po_user_sid = [1],
      po_logon_sid = [2], po_integrity_rid = 0x2000, po_elevated = False, po_app_container = False,
      po_image_path = wide ''C:'' @ 0x5C # wide exe, po_package_full_name = Some [3],
      po_package_family_name = Some [4], po_application_user_model_id = Some ([4] @ ascii app)\<rparr>"

abbreviation sample_agent_process :: peer_observation where
  "sample_agent_process \<equiv> sample_process ''librarian.vaultagent.exe'' ''!VaultAgent''"

lemma sample_agent_valid: "validate_agent sample_host sample_agent_process = Ok ([3], [4], wide ''C:'')"
  by (simp add: validate_agent_def sample_host_def sample_process_def MEDIUM_INTEGRITY_RID_def
      AGENT_EXECUTABLE_def wide_eq_ignore_ascii_case_def wide_def)

lemma sample_desktop_installed:
  "installed_client sample_host sample_agent_process [3] [4] (wide ''C:'') Desktop
     (sample_process ''librarian.windows.EXE'' ''!Desktop'')"
  by (simp add: installed_client_def sample_host_def sample_process_def MEDIUM_INTEGRITY_RID_def
      DESKTOP_EXECUTABLE_def paths_equal_def eq_ignore_ascii_case_def to_ascii_lowercase_def wide_def)

theorem installed_policies_decide_witness:
  "validate_agent sample_host sample_agent_process = Ok ([3], [4], wide ''C:'')
   \<and> authorize_client_role (sample_process ''librarian.windows.EXE'' ''!Desktop'')
       (run_policies sample_host sample_agent_process [3] [4] (wide ''C:'')) = Ok Desktop"
  using installed_policies_decide [OF sample_agent_valid, of "sample_process ''librarian.windows.EXE'' ''!Desktop''" Desktop]
    sample_agent_valid sample_desktop_installed by simp


definition process_runtime :: "(vault_data, u8, bytes \<times> bytes, nat, vault_data, unit, unit) agent_runtime" where
  "process_runtime = \<lparr>ar_libs = sample_vault_libs\<lparr>vl_sha256 := (\<lambda>m. 7 # replicate 31 (of_nat (length m)))\<rparr>, ar_databases = (\<lambda>_. memory_database),
     ar_files = sample_no_files, ar_file_system = (\<lambda>_. sample_files),
     ar_verifier = platform_passkey_request_verifier, ar_vault_path = [], ar_bound_path = None,
     ar_token = 1, ar_fingerprint_key = replicate 32 1, ar_hmac = (\<lambda>k m. take 32 (k @ m)),
     ar_rounds = 1\<rparr>"

lemma process_cbor: "minicbor_spec (vl_cbor (ar_libs process_runtime))"
  by (simp add: process_runtime_def sample_vault_libs_def rfc.minicbor_spec_axioms)

text \<open>The desktop application connects to one of two listeners.\<close>

definition desktop_pipe :: "(bytes \<times> bytes, nat) pipe_calls" where
  "desktop_pipe = memory_pipe\<lparr>
     wc_client_token := (\<lambda>_ w. (w, Ok (TokenObservation_from_peer (sample_process ''librarian.windows.EXE'' ''!Desktop'')))),
     wc_observe_process := (\<lambda>_ w. (w, Ok \<lparr>ph_process = 9,
       ph_observation = sample_process ''librarian.windows.EXE'' ''!Desktop''\<rparr>))\<rparr>"

definition desktop_end :: "nat pipe_connection" where
  "desktop_end = \<lparr>pn_pipe = 1, pn_peer = \<lparr>ph_process = 9,
       ph_observation = sample_process ''librarian.windows.EXE'' ''!Desktop''\<rparr>,
     pn_server_side = True, pn_component_role = Component_Desktop,
     pn_read_gate_poisoned = False, pn_write_gate_poisoned = False\<rparr>"

definition two_listeners :: "nat listener_pool" where
  "two_listeners = \<lparr>lp_pipe_name = [], lp_listeners = [1, 2],
     lp_authentication_throttle = \<lparr>at_consecutive_failures = 0, at_resume_at = None\<rparr>\<rparr>"

lemma desktop_accepted:
  "\<exists>s'. accept desktop_pipe (run_policies sample_host sample_agent_process [3] [4] (wide ''C:'')) 1000
     (two_listeners, ([], [])) = (s', Ok desktop_end)"
proof -
  have "authorize_client_role (sample_process ''librarian.windows.EXE'' ''!Desktop'')
      (run_policies sample_host sample_agent_process [3] [4] (wide ''C:'')) = Ok Desktop"
    using sample_desktop_installed by (simp add: run_policies_decide split: list.split)
  then show ?thesis
    by (simp add: accept_def two_listeners_def desktop_pipe_def memory_pipe_def deadline_after_def
        instant_checked_add_def wait_until_allowed_def remaining_delay_def agent_then_def
        checked_duration_since_def authenticate_peer_def observe_pipe_peer_def keeping_def token_matches_peer_def
        desktop_end_def)
qed


text \<open>C25: a client that does its part gets its connection. When nobody disturbs it, a handshake whose
  client's first frame is a hello that fits the derived role, the digest of the client's image, the
  agent's versions and the role's features, with the pipe moving bytes and random values that are not
  zero, ends with a connection for the role under the drawn identifier, and has put on the pipe exactly
  one frame, a server hello that tells the client its role, the features it asked for, the state of the
  agent and its unlock epoch.\<close>

theorem handshake_completes:
  fixes R :: "('d, 'e, 'p, 'i, 't, 'h, 'g) agent_runtime" and W :: "('p, 'w) pipe_calls"
    and F :: "('p, 'f) host_calls"
  assumes live: "live_pipe W arrived sent" and cbor: "minicbor_spec (vl_cbor (ar_libs R))"
    and server: "pn_server_side pipe" "pn_component_role pipe = ComponentRole_from role"
      "\<not> pn_read_gate_poisoned pipe" "\<not> pn_write_gate_poisoned pipe"
    and build: "run_alone (sha256_file (ar_libs R) F rounds (po_image_path (ph_observation (pn_peer pipe)))) s
      = Some (t, Ok build)"
    and frame: "Frame_valid hello_frame" "fh_kind (fr_header hello_frame) = Kind_ClientHello"
      "Frame_encode hello_frame = Ok bs" "arrived (pn_pipe pipe) (rt_platform t) = bs @ rest"
      "ClientHello_decode (vl_cbor (ar_libs R)) (fr_payload hello_frame) = Ok hello"
    and fits: "negotiable role (po_process_id (ph_observation (pn_peer pipe))) build hello (supported_features role)"
    and drawn: "vl_fill (ar_libs R) (rt_entropy s) 32 = (e, Some nonce)" "vl_fill (ar_libs R) e 16 = (e', Some cid)"
      "length nonce = 32" "nonce \<noteq> zeros 32" "length cid = 16" "cid \<noteq> zeros 16"
    and gate: "rt_owner s Commit_Gate = None" "\<not> rt_poisoned s Commit_Gate"
  shows "\<exists>s' c answer sent_bytes sh. run_alone (negotiate_connection R W F rounds me pipe) s = Some (s', Ok c)
    \<and> cn_role c = role \<and> cn_connection_id c = cid \<and> cn_granted_features c = ch_required_features hello
    \<and> sent (pn_pipe pipe) (rt_platform s') = sent (pn_pipe pipe) (rt_platform t) @ sent_bytes
    \<and> Frame_encode answer = Ok sent_bytes \<and> fh_kind (fr_header answer) = Kind_ServerHello
    \<and> fh_connection_id (fr_header answer) = cid
    \<and> ServerHello_decode (vl_cbor (ar_libs R)) (fr_payload answer) = Ok sh
    \<and> sh_derived_role sh = role \<and> sh_granted_features sh = ch_required_features hello
    \<and> sh_agent_state sh = agent_state_of s \<and> sh_unlock_epoch sh = rt_epoch s"
proof -
  let ?L = "ar_libs R" and ?h = "pn_pipe pipe" and ?pid = "po_process_id (ph_observation (pn_peer pipe))"
  have hello: "ClientHello_valid hello"
    using minicbor_spec.ClientHello_decode_sound [OF cbor frame(5)] by simp
  obtain c sh where neg: "Connection_negotiate role ?pid build hello (supported_features role) nonce cid
      (agent_state_of s) (rt_epoch s) ConnectionLimits_default = Ok (c, sh)"
    using negotiate_Ok_iff [OF hello limits_default_ok] fits drawn(4,6) by blast
  note facts = neg [unfolded negotiate_Ok_iff [OF hello limits_default_ok]]
  have "ServerHello_valid sh"
    using neg drawn(3) by (rule negotiated_hello_valid)
  then obtain payload header answer where answer: "ServerHello_encode (vl_cbor ?L) sh = Some payload"
    "FrameHeader_new Kind_ServerHello (sh_selected_version sh) (length payload) cid 0 = Ok header"
    "Frame_new header payload = Ok answer" "Frame_valid answer" "fr_header answer = header"
    "fh_kind header = Kind_ServerHello" "fh_connection_id header = cid"
    "ServerHello_decode (vl_cbor ?L) (fr_payload answer) = Ok sh"
    using server_hello_frame [OF cbor _ drawn(5,6)] by blast
  obtain p0 where t: "t = s\<lparr>rt_platform := p0\<rparr>" using sha256_file_alone [OF build] by blast
  obtain p1 where read: "run_alone (platform_call (pipe_read_frame W pipe (HANDSHAKE_TIMEOUT_MS * 10 ^ 6))) t
      = Some (t\<lparr>rt_platform := p1\<rparr>, Ok hello_frame)"
    "pipe_read_frame W pipe (HANDSHAKE_TIMEOUT_MS * 10 ^ 6) (rt_platform t) = (p1, Ok hello_frame)"
    by (rule read_frame_alone [OF live frame(4,1,3) _ server(3), of "HANDSHAKE_TIMEOUT_MS * 10 ^ 6"])
      (simp add: HANDSHAKE_TIMEOUT_MS_def)
  let ?u = "s\<lparr>rt_platform := p1, rt_entropy := e'\<rparr>"
  obtain p2 bs' where written: "run_alone (platform_call (pipe_write_frame W pipe answer FRAME_WRITE_TIMEOUT)) ?u
      = Some (?u\<lparr>rt_platform := p2\<rparr>, Ok ())" "Frame_encode answer = Ok bs'"
    "sent ?h p2 = sent ?h (rt_platform ?u) @ bs'"
    by (rule write_frame_alone [OF live answer(4) _ server(4), of FRAME_WRITE_TIMEOUT ?u])
      (simp add: FRAME_WRITE_TIMEOUT_def)
  have "run_alone (negotiate_connection R W F rounds me pipe) s = Some (?u\<lparr>rt_platform := p2\<rparr>, Ok c)"
  proof -
    have draw1: "run_alone (draw_bytes ?L 32) (t\<lparr>rt_platform := p1\<rparr>)
        = Some (s\<lparr>rt_platform := p1, rt_entropy := e\<rparr>, Ok nonce)"
      using draw_alone [of ?L "t\<lparr>rt_platform := p1\<rparr>" 32] drawn(1) by (simp add: t)
    have draw2: "run_alone (draw_bytes ?L 16) (s\<lparr>rt_platform := p1, rt_entropy := e\<rparr>) = Some (?u, Ok cid)"
      using draw_alone [of ?L "s\<lparr>rt_platform := p1, rt_entropy := e\<rparr>" 16] drawn(2) by simp
    have status: "run_alone (status_snapshot me) ?u = Some (?u, Ok (agent_state_of s, rt_epoch s))"
      using snapshot_alone [of ?u me] gate by (simp add: agent_state_of_def)
    show ?thesis
      unfolding negotiate_connection_def observe_pipe_client_def server(2) client_role_from
      using server(1) frame(2,5) neg answer(1-3)
      by (simp add: result_try_def run_alone_try [OF or_else_alone [OF build]]
          run_alone_try [OF or_else_alone [OF read(1) [simplified]]] run_alone_try [OF or_else_alone [OF draw1]]
          run_alone_try [OF or_else_alone [OF draw2]] run_alone_try [OF or_else_alone [OF status]]
          run_alone_try [OF or_else_alone [OF written(1)]])
  qed
  moreover have "sent ?h p1 = sent ?h (rt_platform t)"
    using byte_pipe.read_frame_takes [OF live_pipe.axioms(1) [OF live] read(2)] by simp
  ultimately show ?thesis using written(2,3) answer facts
    by (intro exI [of _ "?u\<lparr>rt_platform := p2\<rparr>"] exI [of _ c] exI [of _ answer] exI [of _ bs'] exI [of _ sh]) auto
qed

definition process_start :: "bytes \<Rightarrow> (vault_data, u8, bytes \<times> bytes, nat) runtime" where
  "process_start incoming = \<lparr>rt_state = AgentState_code St_NoVault, rt_epoch = 0, rt_global_in_flight = 0,
     rt_flags = (\<lambda>_. False), rt_cancelled = (\<lambda>_. False), rt_next_cell = 0, rt_cancellations = fmempty,
     rt_owner = (\<lambda>_. None), rt_poisoned = (\<lambda>_. False), rt_vault = rt_vault sample_start,
     rt_idempotency = IdempotencyState_new, rt_browser_leases = fmempty, rt_accounts_generation = 0,
     rt_pending_passkey_creations = fmempty, rt_connections = (\<lambda>_. sample_peer),
     rt_process = rt_process sample_start, rt_entropy = 0,
     rt_next_staging_id = 0, rt_platform = (incoming, []), rt_now = 0, rt_unix_ms = 1000, rt_polls = (\<lambda>_. False),
     rt_unlock_polls = (\<lambda>_. False), rt_meanwhile = id, rt_written = []\<rparr>"

definition desktop_hello :: client_hello where
  "desktop_hello = \<lparr>ch_client_nonce = replicate 32 7, ch_minimum = Version 1 0, ch_maximum = Version 1 3,
     ch_claimed_role = Desktop, ch_component_build_id = 7 # replicate 31 0, ch_required_features = [1, 2]\<rparr>"

theorem handshake_completes_witness:
  "\<exists>incoming s' c. run_alone (negotiate_connection process_runtime memory_pipe sample_host 1 0 desktop_end)
      (process_start incoming) = Some (s', Ok c)
    \<and> cn_role c = Desktop \<and> cn_connection_id c = replicate 16 2 \<and> snd (rt_platform s') \<noteq> []"
proof -
  have "(7 :: u8) # replicate 31 0 \<noteq> zeros 32"
  proof
    assume "(7 :: u8) # replicate 31 0 = zeros 32"
    then have "(7 :: u8) \<in> set (zeros 32)" by (metis list.set_intros(1))
    then show False by (simp add: zeros_def)
  qed
  then have hello: "ClientHello_valid desktop_hello"
    by (simp add: ClientHello_valid_def desktop_hello_def less_eq_version_def)
  obtain frame bs where frame: "Frame_valid frame" "fh_kind (fr_header frame) = Kind_ClientHello"
      "ClientHello_decode (vl_cbor (ar_libs process_runtime)) (fr_payload frame) = Ok desktop_hello"
      "Frame_encode frame = Ok bs"
    by (rule client_hello_frame [OF process_cbor hello])
  let ?s = "process_start bs"
  have build: "run_alone (sha256_file (ar_libs process_runtime) sample_host 1
      (po_image_path (ph_observation (pn_peer desktop_end)))) ?s = Some (?s, Ok (7 # replicate 31 0))"
    by (simp add: sha256_file_def run_alone_next [OF platform_call_alone] sample_host_def process_runtime_def
        process_start_def)
  have fits: "negotiable Desktop (po_process_id (ph_observation (pn_peer desktop_end))) (7 # replicate 31 0)
      desktop_hello (supported_features Desktop)"
    by (simp add: negotiable_def desktop_hello_def desktop_end_def sample_process_def version_defs
        less_eq_version_def feature_version_def)
  have drawn: "vl_fill (ar_libs process_runtime) (rt_entropy ?s) 32 = (1, Some (replicate 32 1))"
      "vl_fill (ar_libs process_runtime) 1 16 = (2, Some (replicate 16 2))"
    by (simp_all add: process_runtime_def sample_vault_libs_def process_start_def)
  obtain s' c answer out where "run_alone (negotiate_connection process_runtime memory_pipe sample_host 1 0 desktop_end) ?s
      = Some (s', Ok c)" "cn_role c = Desktop" "cn_connection_id c = replicate 16 2"
      "snd (rt_platform s') = out" "Frame_encode answer = Ok out"
    using handshake_completes [OF memory.live_pipe_axioms process_cbor _ _ _ _ build frame(1,2,4) _ frame(3) fits
        drawn(1,2), of "[]" 0]
    by (auto simp: desktop_end_def process_start_def)
  then show ?thesis by (auto simp: Frame_encode_def result_simps FrameHeader_encode_def MAGIC_def intro!: exI)
qed

text \<open>A response that is written reaches the client as it is: the worker's frame carries the connection's
  identifier and the request's number, and its payload decodes to the response.\<close>

theorem response_reaches_client:
  assumes live: "live_pipe W arrived sent" and cbor: "minicbor_spec mc" and valid: "ResponseEnvelope_valid response"
    and header: "v \<noteq> Version 0 0" "length cid = 16" "cid \<noteq> zeros 16" "request_id \<noteq> 0"
    and gate: "\<not> pn_write_gate_poisoned pipe"
  shows "\<exists>p' bs frame. agent_write_response mc W pipe v cid request_id response p = (p', Ok ())
    \<and> sent (pn_pipe pipe) p' = sent (pn_pipe pipe) p @ bs \<and> Frame_decode bs = Ok frame
    \<and> fh_kind (fr_header frame) = Kind_Response \<and> fh_connection_id (fr_header frame) = cid
    \<and> fh_request_id (fr_header frame) = request_id
    \<and> ResponseEnvelope_decode mc (fr_payload frame) = Ok response"
proof -
  let ?payload = "ResponseEnvelope_wire mc response"
  have payload: "ResponseEnvelope_encode mc response = Ok ?payload"
    using minicbor_spec.ResponseEnvelope_encode_valid [OF cbor valid] .
  then have decoded: "ResponseEnvelope_decode mc ?payload = Ok response"
    using minicbor_spec.ResponseEnvelope_decode_complete [OF cbor valid] by simp
  then have small: "length ?payload \<le> 65536" by (simp add: ResponseEnvelope_decode_def split: if_splits)
  have "validate_kind_fields \<lparr>fh_kind = Kind_Response, fh_version = v,
      fh_payload_length = of_nat (length ?payload), fh_connection_id = cid, fh_request_id = request_id\<rparr> = Ok ()"
    using header by (simp add: validate_kind_fields_def Let_def)
  then obtain h frame where new: "FrameHeader_new Kind_Response v (length ?payload) cid request_id = Ok h"
      "Frame_new h ?payload = Ok frame" and frame: "Frame_valid frame" "fr_header frame = h" "fr_payload frame = ?payload"
      "fh_kind h = Kind_Response" "fh_connection_id h = cid" "fh_request_id h = request_id"
    by (rule frame_of_payload [OF small header(2)])
  obtain p' where put: "pipe_write_frame W pipe frame FRAME_WRITE_TIMEOUT p = (p', Ok ())"
    using live_pipe.write_frame_puts [OF live frame(1) _ gate, of FRAME_WRITE_TIMEOUT p]
    by (auto simp: FRAME_WRITE_TIMEOUT_def)
  obtain bs where bs: "Frame_encode frame = Ok bs" "sent (pn_pipe pipe) p' = sent (pn_pipe pipe) p @ bs"
    using byte_pipe.write_frame_adds [OF live_pipe.axioms(1) [OF live] put] by blast
  have "agent_write_response mc W pipe v cid request_id response p = (p', Ok ())"
    by (simp add: agent_write_response_def pure_then_def payload new put)
  moreover have "Frame_decode bs = Ok frame" using Frame_decode_complete [OF frame(1) bs(1)] .
  ultimately show ?thesis using bs frame decoded by auto
qed

end
